(* ===== verification/JsPrelude.thy ===== *)
theory JsPrelude
  imports Main "HOL-Library.Char_ord" "HOL-Library.List_Lexorder" "HOL-Library.Product_Lexorder"
begin

text \<open>
  What every component shares: the collections of rewrite rules of the development, values that
  may be missing, thrown errors as values of a sum, JavaScript numbers with NaN, and the lodash
  list functions (\<open>_.find\<close>, \<open>_.uniqBy\<close>, \<open>_.without\<close>, \<open>_.groupBy\<close>, \<open>_.sortBy\<close>) that the
  source calls, with the lemmas the component proofs use.
\<close>

named_theorems js_defs "definitions of the JavaScript layer, unfolded to evaluate"

named_theorems js_list "list lemmas the component proofs share"

section \<open>Missing values and truthiness\<close>

text \<open>
  A property that may be absent is an \<^theory_text>\<open>option\<close>, \<open>None\<close> for \<open>undefined\<close>. A string is truthy
  when it is not empty, so a missing or empty string takes the same branch of an \<open>if\<close>.
\<close>

definition truthy_str :: "string option \<Rightarrow> bool" where
  "truthy_str v \<longleftrightarrow> (case v of None \<Rightarrow> False | Some s \<Rightarrow> s \<noteq> [])"

definition or_str :: "string option \<Rightarrow> string \<Rightarrow> string" where
  "or_str v d = (case v of None \<Rightarrow> d | Some s \<Rightarrow> if s = [] then d else s)"

definition or_opt :: "string option \<Rightarrow> string option \<Rightarrow> string option" where
  "or_opt v w = (if truthy_str v then v else w)"

definition truthy_bool :: "bool option \<Rightarrow> bool" where
  "truthy_bool v \<longleftrightarrow> v = Some True"

lemma truthy_str_simps [simp]:
  "\<not> truthy_str None"
  "truthy_str (Some s) \<longleftrightarrow> s \<noteq> []"
  by (simp_all add: truthy_str_def)

lemma truthy_strE: "truthy_str v \<Longrightarrow> (\<And>s. v = Some s \<Longrightarrow> s \<noteq> [] \<Longrightarrow> P) \<Longrightarrow> P"
  by (cases v) auto

lemma or_str_simps [simp]:
  "or_str None d = d"
  "or_str (Some []) d = d"
  "or_str (Some (c # s)) d = c # s"
  by (simp_all add: or_str_def)

lemma or_opt_simps [simp]:
  "or_opt None w = w"
  "or_opt (Some []) w = w"
  "or_opt (Some (c # s)) w = Some (c # s)"
  by (simp_all add: or_opt_def)

lemma truthy_bool_simps [simp]:
  "\<not> truthy_bool None"
  "truthy_bool (Some b) = b"
  by (simp_all add: truthy_bool_def)

section \<open>Thrown errors\<close>

text \<open>
  A call that may throw returns \<open>Inl\<close> of the error; \<open>TypeError\<close> is what the engine throws when a
  property of \<open>undefined\<close> is read, \<open>ThrownError\<close> what \<open>throw new Error(msg)\<close> throws.
\<close>

datatype js_error = TypeError | ThrownError string

type_synonym 'a js_result = "js_error + 'a"

definition and_then :: "'a js_result \<Rightarrow> ('a \<Rightarrow> 'b js_result) \<Rightarrow> 'b js_result" where
  "and_then r f = (case r of Inl e \<Rightarrow> Inl e | Inr x \<Rightarrow> f x)"

lemma and_then_simps [simp]:
  "and_then (Inl e) f = Inl e"
  "and_then (Inr x) f = f x"
  by (simp_all add: and_then_def)

lemma and_then_InrE:
  assumes "and_then r f = Inr y"
  obtains x where "r = Inr x" and "f x = Inr y"
  using assms by (cases r) auto

text \<open>A loop whose body may throw: the first error ends it.\<close>

fun fold_result :: "('x \<Rightarrow> 's \<Rightarrow> 's js_result) \<Rightarrow> 'x list \<Rightarrow> 's \<Rightarrow> 's js_result" where
  "fold_result f [] s = Inr s"
| "fold_result f (x # xs) s = and_then (f x s) (fold_result f xs)"

lemma fold_result_append:
  "fold_result f (xs @ ys) s = and_then (fold_result f xs s) (fold_result f ys)"
proof (induction xs arbitrary: s)
  case (Cons x xs)
  show ?case by (cases "f x s") (simp_all add: Cons.IH)
qed simp

lemma fold_result_pure: "fold_result (\<lambda>x s. Inr (f x s)) xs s = Inr (fold f xs s)"
  by (induction xs arbitrary: s) simp_all

text \<open>An invariant that every step keeps holds at the end of the loop.\<close>

lemma fold_result_invariant:
  assumes "fold_result f xs s = Inr t" and "P s"
    and "\<And>x s t. x \<in> set xs \<Longrightarrow> P s \<Longrightarrow> f x s = Inr t \<Longrightarrow> P t"
  shows "P t"
  using assms
proof (induction xs arbitrary: s)
  case (Cons x xs)
  from Cons.prems(1) obtain u where u: "f x s = Inr u" and rest: "fold_result f xs u = Inr t"
    by (auto elim: and_then_InrE)
  have "P u" using Cons.prems(2,3) u by auto
  with rest show ?case using Cons.IH Cons.prems(3) by auto
qed simp

section \<open>Numbers\<close>

text \<open>
  The numbers of the source are whole numbers below 2 to the power 53, which a double holds
  exactly, or \<open>NaN\<close>. Every comparison with \<open>NaN\<close> is false, and \<open>Math.min\<close> and \<open>Math.max\<close> return
  it.
\<close>

datatype jsnum = NaN | Num int

fun num_less :: "jsnum \<Rightarrow> jsnum \<Rightarrow> bool" where
  "num_less (Num a) (Num b) = (a < b)"
| "num_less _ _ = False"

fun num_leq :: "jsnum \<Rightarrow> jsnum \<Rightarrow> bool" where
  "num_leq (Num a) (Num b) = (a \<le> b)"
| "num_leq _ _ = False"

fun num_min :: "jsnum \<Rightarrow> jsnum \<Rightarrow> jsnum" where
  "num_min (Num a) (Num b) = Num (min a b)"
| "num_min _ _ = NaN"

fun num_max :: "jsnum \<Rightarrow> jsnum \<Rightarrow> jsnum" where
  "num_max (Num a) (Num b) = Num (max a b)"
| "num_max _ _ = NaN"

text \<open>\<open>===\<close> on numbers: \<open>NaN\<close> differs from itself.\<close>

fun num_eq :: "jsnum \<Rightarrow> jsnum \<Rightarrow> bool" where
  "num_eq (Num a) (Num b) = (a = b)"
| "num_eq _ _ = False"

section \<open>lodash on arrays\<close>

text \<open>\<open>_.uniqBy(xs, f)\<close> keeps, of the elements with one value of \<open>f\<close>, the first.\<close>

fun uniq_by :: "('a \<Rightarrow> 'k) \<Rightarrow> 'a list \<Rightarrow> 'a list" where
  "uniq_by f [] = []"
| "uniq_by f (x # xs) = x # filter (\<lambda>y. f y \<noteq> f x) (uniq_by f xs)"

abbreviation uniq :: "'a list \<Rightarrow> 'a list" where
  "uniq \<equiv> uniq_by (\<lambda>x. x)"

lemma set_uniq_by_subset [js_list]: "set (uniq_by f xs) \<subseteq> set xs"
  by (induction xs) auto

lemma map_uniq_by_set [js_list, simp]: "f ` set (uniq_by f xs) = f ` set xs"
proof (induction xs)
  case (Cons x xs)
  have "f ` {y \<in> set (uniq_by f xs). f y \<noteq> f x} = f ` set (uniq_by f xs) - {f x}" by auto
  with Cons.IH show ?case by auto
qed simp

lemma distinct_map_uniq_by [js_list, simp]: "distinct (map f (uniq_by f xs))"
proof (induction xs)
  case (Cons x xs)
  then show ?case by (auto simp: distinct_map inj_on_def)
qed simp

lemma set_uniq [simp]: "set (uniq xs) = set xs"
  using map_uniq_by_set [of "\<lambda>x. x" xs] by simp

lemma distinct_uniq [simp]: "distinct (uniq xs)"
  using distinct_map_uniq_by [of "\<lambda>x. x" xs] by simp

text \<open>The kept element of each class is the first one of the array.\<close>

lemma find_filter_other:
  "(\<And>x. Q x \<Longrightarrow> P x) \<Longrightarrow> List.find Q (filter P xs) = List.find Q xs"
  by (induction xs) auto

lemma find_uniq_by: "List.find (\<lambda>y. f y = k) (uniq_by f xs) = List.find (\<lambda>y. f y = k) xs"
proof (induction xs)
  case (Cons x xs)
  have "f x \<noteq> k \<Longrightarrow> List.find (\<lambda>y. f y = k) (filter (\<lambda>y. f y \<noteq> f x) (uniq_by f xs))
      = List.find (\<lambda>y. f y = k) (uniq_by f xs)"
    by (rule find_filter_other) auto
  with Cons.IH show ?case by auto
qed simp

lemma uniq_by_distinct: "distinct (map f xs) \<Longrightarrow> uniq_by f xs = xs"
proof (induction xs)
  case (Cons x xs)
  then have "\<forall>y \<in> set xs. f y \<noteq> f x" by (metis distinct.simps(2) image_eqI list.map(2) list.set_map)
  with Cons show ?case by (simp add: filter_id_conv)
qed simp

text \<open>\<open>_.without(xs, undefined)\<close> drops the missing values.\<close>

definition without_undefined :: "'a option list \<Rightarrow> 'a list" where
  "without_undefined xs = List.map_filter (\<lambda>x. x) xs"

lemma without_undefined_simps [simp]:
  "without_undefined [] = []"
  "without_undefined (None # xs) = without_undefined xs"
  "without_undefined (Some x # xs) = x # without_undefined xs"
  by (simp_all add: without_undefined_def map_filter_def)

lemma set_without_undefined [simp]: "set (without_undefined xs) = {x. Some x \<in> set xs}"
proof (induction xs)
  case (Cons x xs)
  then show ?case by (cases x) auto
qed simp

lemma without_undefined_map_Some [simp]: "without_undefined (map (\<lambda>x. Some (f x)) xs) = map f xs"
  by (induction xs) simp_all

lemma without_undefined_guard:
  "without_undefined (map (\<lambda>x. if P x then Some (f x) else None) xs) = map f (filter P xs)"
  by (induction xs) simp_all

text \<open>\<open>_.includes(xs, x)\<close>, \<open>xs.includes(x)\<close> and \<open>xs.indexOf(x) > -1\<close> on arrays.\<close>

definition includes_elem :: "'a list \<Rightarrow> 'a \<Rightarrow> bool" where
  [js_defs]: "includes_elem xs x \<longleftrightarrow> x \<in> set xs"

text \<open>\<open>xs.indexOf(x)\<close>: the first position, -1 where there is none.\<close>

fun index_of :: "'a list \<Rightarrow> 'a \<Rightarrow> int" where
  "index_of [] y = -1"
| "index_of (x # xs) y = (if x = y then 0 else let i = index_of xs y in if i < 0 then i else i + 1)"

lemma index_of_neg: "index_of xs y < 0 \<longleftrightarrow> y \<notin> set xs"
  by (induction xs) (auto simp: Let_def)

lemma index_of_ge: "-1 \<le> index_of xs y"
  by (induction xs) (auto simp: Let_def)

lemma index_of_nth: "y \<in> set xs \<Longrightarrow> 0 \<le> index_of xs y \<and> nat (index_of xs y) < length xs \<and> xs ! nat (index_of xs y) = y"
proof (induction xs)
  case (Cons x xs)
  then show ?case
    by (cases "x = y") (auto simp: Let_def index_of_neg not_less nat_add_distrib)
qed simp

text \<open>\<open>xs.splice(i, 1)\<close> at a position of the array.\<close>

definition remove_at :: "nat \<Rightarrow> 'a list \<Rightarrow> 'a list" where
  "remove_at i xs = take i xs @ drop (Suc i) xs"

lemma length_remove_at: "i < length xs \<Longrightarrow> length (remove_at i xs) = length xs - 1"
  by (simp add: remove_at_def)

lemma remove_at_append [simp]: "remove_at (length xs) (xs @ [x]) = xs"
  by (simp add: remove_at_def)

text \<open>\<open>xs.splice(xs.indexOf(x), 1)\<close>: the index -1 of an item that the list does not have is its last position.\<close>

definition splice_out :: "'a \<Rightarrow> 'a list \<Rightarrow> 'a list" where
  "splice_out x xs = (if x \<in> set xs then remove1 x xs else butlast xs)"

lemma spliced_out:
  assumes "distinct xs" and "distinct rs" and "set rs \<subseteq> set xs"
  shows "fold splice_out rs xs = filter (\<lambda>x. x \<notin> set rs) xs"
  using assms
proof (induction rs arbitrary: xs)
  case (Cons r rs)
  have "splice_out r xs = filter (\<lambda>x. x \<noteq> r) xs"
    using Cons.prems by (simp add: splice_out_def distinct_remove1_removeAll removeAll_filter_not_eq eq_commute [of r])
  moreover have "fold splice_out rs (filter (\<lambda>x. x \<noteq> r) xs) = filter (\<lambda>x. x \<notin> set rs) (filter (\<lambda>x. x \<noteq> r) xs)"
    using Cons.prems by (intro Cons.IH) auto
  ultimately show ?case by (simp add: conj_commute)
qed simp

end
