(* ===== verification/JsString.thy ===== *)
theory JsString
  imports JsPrelude
begin

text \<open>
  The string operations of the language that the source calls: \<open>startsWith\<close>, \<open>indexOf\<close>, \<open>includes\<close>,
  \<open>substring\<close>, \<open>slice\<close>, \<open>split\<close>, \<open>replace\<close> with a string, \<open>trim\<close>, \<open>toLowerCase\<close>, \<open>parseInt\<close> and
  the decimal form of a number, with the laws (round trips of \<open>split\<close> and \<open>join\<close> and of the decimal
  form and \<open>parseInt\<close>) that the components rest on. A string is a list of code units; the type
  \<^typ>\<open>char\<close> covers those below 256.
\<close>

section \<open>Searching\<close>

fun starts_with :: "string \<Rightarrow> string \<Rightarrow> bool" where
  "starts_with s [] = True"
| "starts_with [] (p # ps) = False"
| "starts_with (c # s) (p # ps) = (c = p \<and> starts_with s ps)"

lemma starts_with_iff: "starts_with s p \<longleftrightarrow> (\<exists>t. s = p @ t)"
  by (induction s p rule: starts_with.induct) auto

lemma starts_with_append [simp]: "starts_with (p @ t) p"
  by (auto simp: starts_with_iff)

lemma starts_with_self [simp]: "starts_with p p"
  using starts_with_append [of p "[]"] by simp

definition ends_with :: "string \<Rightarrow> string \<Rightarrow> bool" where
  [js_defs]: "ends_with s p \<longleftrightarrow> starts_with (rev s) (rev p)"

lemma ends_with_iff: "ends_with s p \<longleftrightarrow> (\<exists>t. s = t @ p)"
proof -
  have "starts_with (rev s) (rev p) \<longleftrightarrow> (\<exists>t. rev s = rev p @ t)" by (rule starts_with_iff)
  also have "\<dots> \<longleftrightarrow> (\<exists>t. s = t @ p)"
  proof
    assume "\<exists>t. rev s = rev p @ t"
    then obtain t where "rev s = rev p @ t" ..
    then have "s = rev t @ p" by (metis rev_append rev_rev_ident)
    then show "\<exists>t. s = t @ p" ..
  next
    assume "\<exists>t. s = t @ p"
    then show "\<exists>t. rev s = rev p @ t" by auto
  qed
  finally show ?thesis by (simp add: ends_with_def)
qed

text \<open>\<open>s.indexOf(p)\<close>: \<open>None\<close> stands for -1.\<close>

fun find_sub :: "string \<Rightarrow> string \<Rightarrow> nat option" where
  "find_sub s p =
     (if starts_with s p then Some 0
      else (case s of [] \<Rightarrow> None | c # t \<Rightarrow> map_option Suc (find_sub t p)))"

declare find_sub.simps [simp del]

lemma find_sub_Nil [simp]: "find_sub [] p = (if p = [] then Some 0 else None)"
  by (cases p) (simp_all add: find_sub.simps)

lemma find_sub_Cons:
  "find_sub (c # s) p = (if starts_with (c # s) p then Some 0 else map_option Suc (find_sub s p))"
  by (simp add: find_sub.simps)

definition contains :: "string \<Rightarrow> string \<Rightarrow> bool" where
  [js_defs]: "contains s p \<longleftrightarrow> find_sub s p \<noteq> None"

definition js_index_of :: "string \<Rightarrow> string \<Rightarrow> int" where
  [js_defs]: "js_index_of s p = (case find_sub s p of None \<Rightarrow> -1 | Some i \<Rightarrow> int i)"

lemma find_sub_Some_split:
  "find_sub s p = Some i \<Longrightarrow> s = take i s @ p @ drop (i + length p) s \<and> i + length p \<le> length s"
proof (induction s arbitrary: i)
  case Nil
  then show ?case by (auto split: if_splits)
next
  case (Cons c s)
  show ?case
  proof (cases "starts_with (c # s) p")
    case True
    then obtain t where "c # s = p @ t" by (auto simp: starts_with_iff)
    moreover have "i = 0" using True Cons.prems by (simp add: find_sub_Cons)
    ultimately show ?thesis by simp
  next
    case False
    with Cons.prems obtain j where j: "find_sub s p = Some j" and i: "i = Suc j"
      by (auto simp: find_sub_Cons)
    from Cons.IH [OF j] i show ?thesis by simp
  qed
qed

lemma contains_iff: "contains s p \<longleftrightarrow> (\<exists>a b. s = a @ p @ b)"
proof
  assume "contains s p"
  then obtain i where "find_sub s p = Some i" by (auto simp: contains_def)
  then show "\<exists>a b. s = a @ p @ b" using find_sub_Some_split by blast
next
  have "contains (a @ p @ b) p" for a b
  proof (induction a)
    case Nil
    have "find_sub (p @ b) p = Some 0" by (subst find_sub.simps) simp
    then show ?case by (simp add: contains_def)
  next
    case (Cons c a)
    then show ?case by (auto simp: contains_def find_sub_Cons)
  qed
  then show "\<exists>a b. s = a @ p @ b \<Longrightarrow> contains s p" by blast
qed

text \<open>Searching for one character, where the pattern cannot overlap the part before it.\<close>

lemma find_sub_single_notin: "find_sub s [c] = None \<longleftrightarrow> c \<notin> set s"
  by (induction s) (auto simp: find_sub_Cons)

lemma contains_single [simp]: "contains s [c] \<longleftrightarrow> c \<in> set s"
  by (simp add: contains_def find_sub_single_notin)

lemma find_sub_single_append: "c \<notin> set a \<Longrightarrow> find_sub (a @ c # b) [c] = Some (length a)"
  by (induction a) (auto simp: find_sub_Cons)

section \<open>Parts of a string\<close>

text \<open>\<open>substring(i, j)\<close> for positions that are not negative; it swaps them where \<open>i\<close> is the larger.\<close>

definition substring :: "string \<Rightarrow> nat \<Rightarrow> nat \<Rightarrow> string" where
  [js_defs]: "substring s i j = take (max i j - min i j) (drop (min i j) s)"

text \<open>\<open>slice(0, j)\<close>, where a negative \<open>j\<close> counts from the end.\<close>

definition slice_to :: "string \<Rightarrow> int \<Rightarrow> string" where
  [js_defs]: "slice_to s j = (if j < 0 then take (nat (int (length s) + j)) s else take (nat j) s)"

text \<open>\<open>slice(i)\<close>, the same.\<close>

definition slice_from :: "string \<Rightarrow> int \<Rightarrow> string" where
  [js_defs]: "slice_from s i = (if i < 0 then drop (nat (int (length s) + i)) s else drop (nat i) s)"

section \<open>Splitting and joining\<close>

text \<open>\<open>s.split(c)\<close> for a separator of one character.\<close>

fun split_char :: "char \<Rightarrow> string \<Rightarrow> string list" where
  "split_char c [] = [[]]"
| "split_char c (x # xs) =
     (if x = c then [] # split_char c xs
      else (case split_char c xs of [] \<Rightarrow> [[x]] | w # ws \<Rightarrow> (x # w) # ws))"

lemma split_char_nonempty [simp]: "split_char c s \<noteq> []"
  by (induction s) (auto split: list.splits)

lemma split_char_notin: "c \<notin> set s \<Longrightarrow> split_char c s = [s]"
  by (induction s) auto

lemma split_char_append: "c \<notin> set a \<Longrightarrow> split_char c (a @ c # b) = a # split_char c b"
  by (induction a) auto

lemma split_char_pieces: "w \<in> set (split_char c s) \<Longrightarrow> c \<notin> set w"
proof (induction s arbitrary: w)
  case (Cons x xs)
  then show ?case by (cases "split_char c xs") (auto split: if_splits)
qed simp

text \<open>\<open>ws.join(sep)\<close>.\<close>

fun join :: "string \<Rightarrow> string list \<Rightarrow> string" where
  "join sep [] = []"
| "join sep [w] = w"
| "join sep (w # v # ws) = w @ sep @ join sep (v # ws)"

lemma join_Cons: "ws \<noteq> [] \<Longrightarrow> join sep (w # ws) = w @ sep @ join sep ws"
  by (cases ws) auto

theorem join_split_char: "join [c] (split_char c s) = s"
proof (induction s)
  case (Cons x xs)
  obtain w ws where "split_char c xs = w # ws" by (cases "split_char c xs") auto
  with Cons show ?case by (cases ws) auto
qed simp

lemma split_char_join:
  "ws \<noteq> [] \<Longrightarrow> \<forall>w \<in> set ws. c \<notin> set w \<Longrightarrow> split_char c (join [c] ws) = ws"
  by (induction "[c]" ws rule: join.induct) (auto simp: split_char_notin split_char_append)

text \<open>\<open>s.split(p)\<close> for a longer separator: cut at every occurrence, from the left.\<close>

function split_sub :: "string \<Rightarrow> string \<Rightarrow> string list" where
  "split_sub p s =
     (if p = [] then map (\<lambda>c. [c]) s
      else (case find_sub s p of
              None \<Rightarrow> [s]
            | Some i \<Rightarrow> take i s # split_sub p (drop (i + length p) s)))"
  by pat_completeness auto
termination
proof (relation "measure (\<lambda>(p, s). length s)", simp)
  fix p s :: string and i
  assume "p \<noteq> []" and "find_sub s p = Some i"
  then have "i + length p \<le> length s" and "0 < length p"
    using find_sub_Some_split by auto
  then have "length s - (i + length p) < length s" by linarith
  then show "((p, drop (i + length p) s), (p, s)) \<in> measure (\<lambda>(p, s). length s)"
    by simp
qed

declare split_sub.simps [simp del]

lemma split_sub_nonempty: "p \<noteq> [] \<Longrightarrow> split_sub p s \<noteq> []"
  by (subst split_sub.simps) (auto split: option.splits)

lemma split_sub_absent: "p \<noteq> [] \<Longrightarrow> \<not> contains s p \<Longrightarrow> split_sub p s = [s]"
  by (subst split_sub.simps) (auto simp: contains_def)

lemma join_split_sub: "p \<noteq> [] \<Longrightarrow> join p (split_sub p s) = s"
proof (induction p s rule: split_sub.induct)
  case (1 p s)
  show ?case
  proof (cases "find_sub s p")
    case None
    with "1.prems" show ?thesis by (simp add: split_sub.simps [of p s])
  next
    case (Some i)
    from "1.IH" [OF "1.prems" Some "1.prems"]
    have "join p (split_sub p (drop (i + length p) s)) = drop (i + length p) s" .
    moreover have "split_sub p (drop (i + length p) s) \<noteq> []"
      using "1.prems" by (rule split_sub_nonempty)
    ultimately show ?thesis
      using find_sub_Some_split [OF Some] Some "1.prems"
      by (simp add: split_sub.simps [of p s] join_Cons)
  qed
qed

text \<open>\<open>_.split(s, c, n)\<close>: at most \<open>n\<close> pieces.\<close>

definition split_char_limit :: "char \<Rightarrow> nat \<Rightarrow> string \<Rightarrow> string list" where
  [js_defs]: "split_char_limit c n s = take n (split_char c s)"

text \<open>\<open>xs[i]\<close> on an array: \<open>undefined\<close> out of range.\<close>

definition elem_at :: "'a list \<Rightarrow> nat \<Rightarrow> 'a option" where
  [js_defs]: "elem_at xs i = (if i < length xs then Some (xs ! i) else None)"

lemma elem_at_simps [simp]:
  "elem_at [] i = None"
  "elem_at (x # xs) 0 = Some x"
  "elem_at (x # xs) (Suc i) = elem_at xs i"
  by (simp_all add: elem_at_def)

section \<open>Replacing\<close>

text \<open>\<open>s.replace(p, r)\<close> with a string pattern: the first occurrence.\<close>

definition replace_first :: "string \<Rightarrow> string \<Rightarrow> string \<Rightarrow> string" where
  [js_defs]: "replace_first p r s =
     (case find_sub s p of None \<Rightarrow> s | Some i \<Rightarrow> take i s @ r @ drop (i + length p) s)"

text \<open>\<open>_.trimStart(s, chars)\<close>, and \<open>trim\<close> of white space.\<close>

definition trim_start :: "string \<Rightarrow> string \<Rightarrow> string" where
  [js_defs]: "trim_start cs s = dropWhile (\<lambda>c. c \<in> set cs) s"

definition is_space :: "char \<Rightarrow> bool" where
  [js_defs]: "is_space c \<longleftrightarrow> of_char c \<in> {9, 10, 11, 12, 13, 32, 160 :: nat}"

definition trim :: "string \<Rightarrow> string" where
  [js_defs]: "trim s = rev (dropWhile is_space (rev (dropWhile is_space s)))"

definition trimmed :: "string \<Rightarrow> bool" where
  "trimmed s \<longleftrightarrow> s = [] \<or> \<not> is_space (hd s) \<and> \<not> is_space (last s)"

lemma trim_trimmed: "trimmed s \<Longrightarrow> trim s = s"
proof (cases s)
  case (Cons c t)
  assume "trimmed s"
  then have "\<not> is_space c" "\<not> is_space (last s)" using Cons by (simp_all add: trimmed_def)
  moreover from Cons have "rev s = last s # rev (butlast s)"
    by (metis append_butlast_last_id list.distinct(1) rev_eq_Cons_iff rev_rev_ident)
  ultimately show ?thesis using Cons by (simp add: trim_def)
qed (simp add: trim_def)

text \<open>\<open>toLowerCase\<close>, on the letters of ASCII.\<close>

definition lower_char :: "char \<Rightarrow> char" where
  [js_defs]: "lower_char c = (let n = of_char c :: nat in if 65 \<le> n \<and> n \<le> 90 then char_of (n + 32) else c)"

definition to_lower :: "string \<Rightarrow> string" where
  [js_defs]: "to_lower s = map lower_char s"

lemma lower_char_idem [simp]: "lower_char (lower_char c) = lower_char c"
  by (simp add: lower_char_def Let_def)

lemma to_lower_idem [simp]: "to_lower (to_lower s) = to_lower s"
  by (simp add: to_lower_def)

section \<open>Decimal numbers\<close>

definition digit_char :: "nat \<Rightarrow> char" where
  "digit_char d = char_of (48 + d)"

definition is_digit :: "char \<Rightarrow> bool" where
  "is_digit c \<longleftrightarrow> 48 \<le> (of_char c :: nat) \<and> (of_char c :: nat) \<le> 57"

definition digit_value :: "char \<Rightarrow> nat" where
  "digit_value c = of_char c - 48"

lemma is_digit_char [simp]: "d < 10 \<Longrightarrow> is_digit (digit_char d)"
  by (simp add: is_digit_def digit_char_def)

lemma digit_value_char [simp]: "d < 10 \<Longrightarrow> digit_value (digit_char d) = d"
  by (simp add: digit_value_def digit_char_def)

lemma digit_value_less: "is_digit c \<Longrightarrow> digit_value c < 10"
  by (auto simp: is_digit_def digit_value_def)

lemma digit_value_le [simp]: "is_digit c \<Longrightarrow> digit_value c \<le> 9"
  using digit_value_less [of c] by simp

lemma digit_char_value [simp]: "is_digit c \<Longrightarrow> digit_char (digit_value c) = c"
  by (simp add: is_digit_def digit_value_def digit_char_def)

text \<open>\<open>n.toString()\<close> of a number that is not negative.\<close>

fun show_nat :: "nat \<Rightarrow> string" where
  "show_nat n = (if n < 10 then [digit_char n] else show_nat (n div 10) @ [digit_char (n mod 10)])"

declare show_nat.simps [simp del]

definition show_int :: "int \<Rightarrow> string" where
  "show_int i = (if i < 0 then ''-'' @ show_nat (nat (- i)) else show_nat (nat i))"

fun show_num :: "jsnum \<Rightarrow> string" where
  "show_num NaN = ''NaN''"
| "show_num (Num i) = show_int i"

lemma show_nat_0 [simp]: "show_nat 0 = ''0''"
  by code_simp

text \<open>The value of a run of digits, and \<open>parseInt(s, 10)\<close>.\<close>

definition digits_value :: "string \<Rightarrow> nat" where
  "digits_value s = foldl (\<lambda>a c. 10 * a + digit_value c) 0 s"

definition parse_int :: "string \<Rightarrow> jsnum" where
  "parse_int s =
     (let t = dropWhile is_space s;
          neg = (case t of [] \<Rightarrow> False | c # _ \<Rightarrow> c = CHR ''-'');
          u = (case t of [] \<Rightarrow> [] | c # r \<Rightarrow> if c = CHR ''-'' \<or> c = CHR ''+'' then r else t);
          ds = takeWhile is_digit u
      in if ds = [] then NaN
         else Num (if neg then - int (digits_value ds) else int (digits_value ds)))"

lemma show_nat_digits: "list_all is_digit (show_nat n)"
proof (induction n rule: show_nat.induct)
  case (1 n)
  then show ?case by (subst show_nat.simps) auto
qed

lemma show_nat_nonempty [simp]: "show_nat n \<noteq> []"
  by (subst show_nat.simps) simp

lemma digits_value_snoc [simp]: "digits_value (s @ [c]) = 10 * digits_value s + digit_value c"
  by (simp add: digits_value_def)

lemma digits_value_show [simp]: "digits_value (show_nat n) = n"
proof (induction n rule: show_nat.induct)
  case (1 n)
  show ?case
  proof (cases "n < 10")
    case True
    then show ?thesis by (subst show_nat.simps) (simp add: digits_value_def)
  next
    case False
    then show ?thesis
      using "1.IH" by (subst show_nat.simps) simp
  qed
qed

lemma show_nat_inj [simp]: "show_nat a = show_nat b \<longleftrightarrow> a = b"
  by (metis digits_value_show)

lemma is_digit_not_space: "is_digit c \<Longrightarrow> \<not> is_space c"
  by (auto simp: is_digit_def is_space_def)

lemma is_digit_not_sign: "is_digit c \<Longrightarrow> c \<noteq> CHR ''-'' \<and> c \<noteq> CHR ''+''"
  by (auto simp: is_digit_def)

lemma parse_int_digits:
  assumes "ds \<noteq> []" and "list_all is_digit ds" and "r = [] \<or> \<not> is_digit (hd r)"
  shows "parse_int (ds @ r) = Num (int (digits_value ds))"
proof -
  obtain c cs where ds: "ds = c # cs" and c: "is_digit c"
    using assms(1,2) by (cases ds) auto
  have take: "takeWhile is_digit (ds @ r) = ds"
    using assms(2,3) by (cases r) (auto simp: list_all_iff takeWhile_append)
  then show ?thesis
    using ds is_digit_not_space [OF c] is_digit_not_sign [OF c]
    by (simp add: parse_int_def Let_def)
qed

theorem parse_int_show_nat [simp]: "parse_int (show_nat n) = Num (int n)"
  using parse_int_digits [of "show_nat n" "[]"] show_nat_digits by simp

lemma parse_int_show_nat_rest: "\<not> is_digit c \<Longrightarrow> parse_int (show_nat n @ c # r) = Num (int n)"
  using parse_int_digits [of "show_nat n" "c # r"] show_nat_digits by simp

lemma show_nat_no_char: "\<not> is_digit c \<Longrightarrow> c \<notin> set (show_nat n)"
  using show_nat_digits [of n] by (auto simp: list_all_iff)

text \<open>The length of the decimal form.\<close>

lemma digits_value_bound: "list_all is_digit s \<Longrightarrow> digits_value s < 10 ^ length s"
proof (induction s rule: rev_induct)
  case (snoc c s)
  then have "digits_value s + 1 \<le> 10 ^ length s" and "digit_value c \<le> 9" by auto
  then have "10 * (digits_value s + 1) \<le> 10 * 10 ^ length s" by (intro mult_le_mono2)
  with \<open>digit_value c \<le> 9\<close> show ?case by simp
qed (simp add: digits_value_def)

lemma length_show_nat: "n < 10 ^ Suc k \<Longrightarrow> length (show_nat n) \<le> Suc k"
proof (induction k arbitrary: n)
  case 0
  then show ?case by (subst show_nat.simps) simp
next
  case (Suc k)
  then have "n div 10 < 10 ^ Suc k" by (simp add: less_mult_imp_div_less)
  from Suc.IH [OF this] show ?case by (subst show_nat.simps) auto
qed

lemma length_show_nat_iff: "length (show_nat n) \<le> Suc k \<longleftrightarrow> n < 10 ^ Suc k"
proof
  assume le: "length (show_nat n) \<le> Suc k"
  have "n < 10 ^ length (show_nat n)" using digits_value_bound [OF show_nat_digits, of n] by simp
  also have "\<dots> \<le> 10 ^ Suc k" using le by (intro power_increasing) auto
  finally show "n < 10 ^ Suc k" .
qed (rule length_show_nat)

text \<open>A text on one line, as the input fields of the forms hold.\<close>

definition one_line :: "string \<Rightarrow> bool" where
  "one_line s \<longleftrightarrow> (\<forall>c \<in> set s. of_char c \<noteq> (10 :: nat) \<and> of_char c \<noteq> (13 :: nat))"

lemma one_line_digits: "list_all is_digit s \<Longrightarrow> one_line s"
  by (auto simp: one_line_def list_all_iff is_digit_def)

lemma one_line_show_nat [simp]: "one_line (show_nat n)"
  by (rule one_line_digits [OF show_nat_digits])

end
