(* ===== verification/JsObject.thy ===== *)
theory JsObject
  imports JsString "HOL-Library.Multiset"
begin

text \<open>
  Plain JavaScript objects used as dictionaries. An object is the list of its own properties in
  the order they were created, with one entry for each key; assigning to an existing key keeps
  its place. Enumeration (\<open>Object.keys\<close>, \<open>_.forEach\<close>, \<open>_.map\<close> and \<open>for-in\<close> on an object) visits the keys that
  are array indices first, in ascending order, and then the others in creation order. The laws of
  reading and writing are the locale \<open>property_store\<close>, in which the facts on building a dictionary from
  a list of entries are proved once.
\<close>

type_synonym 'v obj = "(string \<times> 'v) list"

section \<open>Reading and writing properties\<close>

definition obj_get :: "'v obj \<Rightarrow> string \<Rightarrow> 'v option" where
  "obj_get ob k = map_of ob k"

fun obj_set :: "'v obj \<Rightarrow> string \<Rightarrow> 'v \<Rightarrow> 'v obj" where
  "obj_set [] k v = [(k, v)]"
| "obj_set ((j, w) # ob) k v = (if j = k then (k, v) # ob else (j, w) # obj_set ob k v)"

definition obj_del :: "'v obj \<Rightarrow> string \<Rightarrow> 'v obj" where
  "obj_del ob k = filter (\<lambda>(j, v). j \<noteq> k) ob"

definition obj_ok :: "'v obj \<Rightarrow> bool" where
  "obj_ok ob \<longleftrightarrow> distinct (map fst ob)"

definition obj_has :: "'v obj \<Rightarrow> string \<Rightarrow> bool" where
  "obj_has ob k \<longleftrightarrow> obj_get ob k \<noteq> None"

lemma obj_get_set [simp]: "obj_get (obj_set ob k v) j = (if j = k then Some v else obj_get ob j)"
  by (induction ob k v rule: obj_set.induct) (auto simp: obj_get_def)

lemma obj_get_Nil [simp]: "obj_get [] k = None"
  by (simp add: obj_get_def)

lemma obj_get_Cons [simp]: "obj_get ((j, v) # ob) k = (if j = k then Some v else obj_get ob k)"
  by (simp add: obj_get_def)

lemma obj_get_del [simp]: "obj_get (obj_del ob k) j = (if j = k then None else obj_get ob j)"
  by (induction ob) (auto simp: obj_del_def)

lemma fst_obj_set: "fst ` set (obj_set ob k v) = insert k (fst ` set ob)"
  by (induction ob k v rule: obj_set.induct) auto

lemma obj_ok_Nil [simp]: "obj_ok []"
  by (simp add: obj_ok_def)

lemma obj_ok_set [simp]: "obj_ok ob \<Longrightarrow> obj_ok (obj_set ob k v)"
proof (induction ob k v rule: obj_set.induct)
  case (2 j w ob k v)
  then show ?case
    using fst_obj_set [of ob k v] by (auto simp: obj_ok_def)
qed (simp add: obj_ok_def)

lemma obj_ok_del [simp]: "obj_ok ob \<Longrightarrow> obj_ok (obj_del ob k)"
  by (induction ob) (auto simp: obj_ok_def obj_del_def)

lemma obj_set_new: "k \<notin> fst ` set ob \<Longrightarrow> obj_set ob k v = ob @ [(k, v)]"
  by (induction ob k v rule: obj_set.induct) auto

lemma obj_get_eq_None: "obj_get ob k = None \<longleftrightarrow> k \<notin> fst ` set ob"
  by (simp add: obj_get_def map_of_eq_None_iff)

lemma obj_get_in_set: "obj_ok ob \<Longrightarrow> (k, v) \<in> set ob \<longleftrightarrow> obj_get ob k = Some v"
  by (simp add: obj_get_def obj_ok_def)

section \<open>The order of enumeration\<close>

text \<open>
  An array index is the decimal form of a number of at most 2 to the power 32 minus 2, so
  \<open>080\<close> is not one.
\<close>

definition is_array_index :: "string \<Rightarrow> bool" where
  "is_array_index k \<longleftrightarrow>
     list_all is_digit k \<and> show_nat (digits_value k) = k \<and> digits_value k \<le> 4294967294"

definition key_order :: "string list \<Rightarrow> string list" where
  "key_order ks = sort_key digits_value (filter is_array_index ks) @ filter (\<lambda>k. \<not> is_array_index k) ks"

definition obj_keys :: "'v obj \<Rightarrow> string list" where
  "obj_keys ob = key_order (map fst ob)"

definition obj_entries :: "'v obj \<Rightarrow> (string \<times> 'v) list" where
  "obj_entries ob = List.map_filter (\<lambda>k. map_option (Pair k) (obj_get ob k)) (obj_keys ob)"

definition obj_values :: "'v obj \<Rightarrow> 'v list" where
  "obj_values ob = map snd (obj_entries ob)"

lemma mset_key_order [simp]: "mset (key_order ks) = mset ks"
  by (simp add: key_order_def)

lemma set_key_order [simp]: "set (key_order ks) = set ks"
  by (metis mset_key_order set_mset_mset)

lemma distinct_key_order [simp]: "distinct (key_order ks) = distinct ks"
  by (metis mset_key_order mset_eq_imp_distinct_iff)

lemma set_obj_keys [simp]: "set (obj_keys ob) = fst ` set ob"
  by (simp add: obj_keys_def)

lemma distinct_obj_keys [simp]: "obj_ok ob \<Longrightarrow> distinct (obj_keys ob)"
  by (simp add: obj_keys_def obj_ok_def)

lemma set_obj_entries: "set (obj_entries ob) = {(k, v). obj_get ob k = Some v}"
proof -
  have mem: "k \<in> set (obj_keys ob)" if "obj_get ob k = Some v" for k v
    using that obj_get_eq_None [of ob k] by simp
  have "(k, v) \<in> set (obj_entries ob) \<longleftrightarrow> k \<in> set (obj_keys ob) \<and> obj_get ob k = Some v" for k v
    by (force simp: obj_entries_def map_filter_def image_iff simp del: set_obj_keys)
  with mem show ?thesis by blast
qed

lemma map_fst_obj_entries: "map fst (obj_entries ob) = obj_keys ob"
proof -
  have "\<forall>k \<in> set (obj_keys ob). obj_get ob k \<noteq> None"
    by (simp add: obj_get_eq_None)
  then have "map fst (List.map_filter (\<lambda>k. map_option (Pair k) (obj_get ob k)) ks) = ks"
    if "set ks \<subseteq> set (obj_keys ob)" for ks
    using that by (induction ks) (auto simp: map_filter_def)
  then show ?thesis by (simp add: obj_entries_def)
qed

lemma distinct_obj_entries: "obj_ok ob \<Longrightarrow> distinct (map fst (obj_entries ob))"
  by (simp add: map_fst_obj_entries)

lemma map_of_obj_entries: "obj_ok ob \<Longrightarrow> map_of (obj_entries ob) k = obj_get ob k"
proof (cases "obj_get ob k")
  case None
  then have "k \<notin> fst ` set (obj_entries ob)" by (auto simp: set_obj_entries)
  with None show ?thesis by (simp add: map_of_eq_None_iff)
next
  case (Some v)
  assume "obj_ok ob"
  then show ?thesis
    using Some map_of_eq_Some_iff [OF distinct_obj_entries, of ob k v] by (auto simp: set_obj_entries)
qed

lemma mset_obj_entries: "obj_ok ob \<Longrightarrow> mset (obj_entries ob) = mset ob"
proof -
  assume ok: "obj_ok ob"
  then have "distinct ob" by (simp add: obj_ok_def distinct_map)
  moreover have "distinct (obj_entries ob)"
    using distinct_obj_entries [OF ok] by (simp add: distinct_map)
  moreover have "set (obj_entries ob) = set ob"
    using obj_get_in_set [OF ok] by (auto simp: set_obj_entries)
  ultimately show ?thesis by (simp add: set_eq_iff_mset_eq_distinct)
qed

text \<open>Where no key is an array index, the order is that of creation.\<close>

lemma key_order_strings: "\<forall>k \<in> set ks. \<not> is_array_index k \<Longrightarrow> key_order ks = ks"
  by (simp add: key_order_def)

lemma not_array_index: "k = [] \<or> \<not> is_digit (hd k) \<Longrightarrow> \<not> is_array_index k"
  by (cases k) (auto simp: is_array_index_def digits_value_def)

lemma obj_entries_plain:
  assumes "obj_ok ob" and "\<forall>k \<in> fst ` set ob. \<not> is_array_index k"
  shows "obj_entries ob = ob"
proof -
  have keys: "obj_keys ob = map fst ob"
    using key_order_strings [of "map fst ob"] assms(2) by (simp add: obj_keys_def)
  have "List.map_filter (\<lambda>k. map_option (Pair k) (obj_get ob k)) (map fst xs) = xs"
    if "set xs \<subseteq> set ob" for xs
    using that obj_get_in_set [OF assms(1)] by (induction xs) (auto simp: map_filter_def)
  then show ?thesis by (simp add: obj_entries_def keys)
qed

lemma obj_entries_Nil [simp]: "obj_entries [] = []"
  by (simp add: obj_entries_plain)

lemma obj_entries_single [simp]: "obj_entries [(k, v)] = [(k, v)]"
  by (simp add: obj_entries_def obj_keys_def key_order_def map_filter_def)

text \<open>Picking one key out of a list of entries.\<close>

lemma concat_of_key:
  "distinct (map fst kvs) \<Longrightarrow> concat (map (\<lambda>g. if fst g = k then f (snd g) else []) kvs) =
    (case map_of kvs k of None \<Rightarrow> [] | Some v \<Rightarrow> f v)"
proof (induction kvs)
  case (Cons kv kvs)
  obtain j v where kv: "kv = (j, v)" by (cases kv)
  have none: "map_of kvs j = None" using Cons.prems by (simp add: kv map_of_eq_None_iff)
  show ?case using Cons none by (cases "j = k") (simp_all add: kv)
qed simp

section \<open>The interface of a property store\<close>

locale property_store =
  fixes get :: "'o \<Rightarrow> 'k \<Rightarrow> 'v option"
    and put :: "'o \<Rightarrow> 'k \<Rightarrow> 'v \<Rightarrow> 'o"
  assumes get_put: "get (put s k v) j = (if j = k then Some v else get s j)"
begin

lemma get_put_same [simp]: "get (put s k v) k = Some v"
  by (simp add: get_put)

lemma get_put_other [simp]: "j \<noteq> k \<Longrightarrow> get (put s k v) j = get s j"
  by (simp add: get_put)

text \<open>Writing a list of entries: the last entry of a key wins, other keys keep their value.\<close>

lemma get_fold_put:
  "get (fold (\<lambda>(k, v) s. put s k v) kvs s) j =
     (case map_of (rev kvs) j of None \<Rightarrow> get s j | Some v \<Rightarrow> Some v)"
proof (induction kvs arbitrary: s)
  case (Cons kv kvs)
  obtain k v where kv: "kv = (k, v)" by (cases kv)
  show ?case
    by (cases "map_of (rev kvs) j") (simp_all add: kv Cons.IH get_put map_add_def)
qed simp

lemma get_fold_put_distinct:
  assumes "distinct (map fst kvs)"
  shows "get (fold (\<lambda>(k, v) s. put s k v) kvs s) j =
    (case map_of kvs j of None \<Rightarrow> get s j | Some v \<Rightarrow> Some v)"
proof -
  have "map_of (rev kvs) = map_of kvs"
    using assms by (intro map_of_inject_set [THEN iffD2]) (simp_all add: rev_map [symmetric])
  then show ?thesis by (simp add: get_fold_put)
qed

lemma get_fold_put_notin:
  "j \<notin> fst ` set kvs \<Longrightarrow> get (fold (\<lambda>(k, v) s. put s k v) kvs s) j = get s j"
  using map_of_eq_None_iff [of "rev kvs" j] by (simp add: get_fold_put)

text \<open>A guarded assignment in the loop is a loop over the entries that pass the guard.\<close>

lemma get_fold_guarded:
  "get (fold (\<lambda>x s. if P x then put s (f x) (g x) else s) xs s) j =
     (case map_of (rev (map (\<lambda>x. (f x, g x)) (filter P xs))) j of
        None \<Rightarrow> get s j | Some v \<Rightarrow> Some v)"
proof -
  have "fold (\<lambda>x s. if P x then put s (f x) (g x) else s) xs s =
      fold (\<lambda>(k, v) s. put s k v) (map (\<lambda>x. (f x, g x)) (filter P xs)) s" for s
    by (induction xs arbitrary: s) auto
  then show ?thesis by (simp add: get_fold_put)
qed

end

interpretation object: property_store obj_get obj_set
  by unfold_locales simp

text \<open>An object built from a list of entries, as the loops of the source do.\<close>

definition obj_of :: "(string \<times> 'v) list \<Rightarrow> 'v obj" where
  "obj_of kvs = fold (\<lambda>(k, v) ob. obj_set ob k v) kvs []"

lemma obj_get_obj_of: "obj_get (obj_of kvs) k = map_of (rev kvs) k"
  by (simp add: obj_of_def object.get_fold_put split: option.splits)

lemma obj_ok_fold_set: "obj_ok ob \<Longrightarrow> obj_ok (fold (\<lambda>(k, v) ob. obj_set ob k v) kvs ob)"
  by (induction kvs arbitrary: ob) auto

lemma obj_ok_obj_of [simp]: "obj_ok (obj_of kvs)"
  by (simp add: obj_of_def obj_ok_fold_set)

lemma obj_get_obj_of_entries: "obj_ok ob \<Longrightarrow> obj_get (obj_of (obj_entries ob)) k = obj_get ob k"
  by (simp add: obj_of_def object.get_fold_put_distinct distinct_obj_entries map_of_obj_entries
      split: option.splits)

section \<open>Grouping\<close>

text \<open>
  \<open>_.groupBy(xs, f)\<close>: an object from each value of \<open>f\<close> to the elements that have it, in their
  order.
\<close>

definition group_add :: "('a \<Rightarrow> string) \<Rightarrow> 'a \<Rightarrow> 'a list obj \<Rightarrow> 'a list obj" where
  "group_add f x ob =
     obj_set ob (f x) (case obj_get ob (f x) of None \<Rightarrow> [x] | Some ys \<Rightarrow> ys @ [x])"

definition group_by :: "('a \<Rightarrow> string) \<Rightarrow> 'a list \<Rightarrow> 'a list obj" where
  "group_by f xs = fold (group_add f) xs []"

lemma obj_get_fold_group:
  "obj_get (fold (group_add f) xs ob) k =
     (case obj_get ob k of
        None \<Rightarrow> (if filter (\<lambda>x. f x = k) xs = [] then None else Some (filter (\<lambda>x. f x = k) xs))
      | Some ys \<Rightarrow> Some (ys @ filter (\<lambda>x. f x = k) xs))"
  by (induction xs arbitrary: ob) (auto simp: group_add_def split: option.splits)

lemma obj_get_group_by:
  "obj_get (group_by f xs) k =
     (if filter (\<lambda>x. f x = k) xs = [] then None else Some (filter (\<lambda>x. f x = k) xs))"
  by (simp add: group_by_def obj_get_fold_group)

lemma obj_ok_group_by [simp]: "obj_ok (group_by f xs)"
proof -
  have "obj_ok ob \<Longrightarrow> obj_ok (fold (group_add f) xs ob)" for ob
    by (induction xs arbitrary: ob) (simp_all add: group_add_def)
  then show ?thesis by (simp add: group_by_def)
qed

section \<open>Values of any shape\<close>

text \<open>
  What a parser of JSON or YAML returns, and the parts of an answer that the source passes on unread. The
  list of an object holds its entries in the order of enumeration.
\<close>

datatype json =
    JNull
  | JBool bool
  | JNum int
  | JStr string
  | JArr "json list"
  | JObj "(string \<times> json) list"

end
