(* ===== verification/Placement.thy ===== *)
theory Placement
  imports JsObject
begin

text \<open>
  Placement constraints of Swarm services: \<open>app/docker/helpers/constraintsHelper.js\<close>, which decides
  whether a node may run the tasks of a service, over the part of the node model
  (\<open>app/docker/models/node.js\<close>) that it reads. A constraint is a text like \<open>node.role==manager\<close>; the
  reference semantics is that of the Swarm scheduler, by which a node must satisfy every constraint
  of the list.
\<close>

section \<open>Nodes and constraints\<close>

record label =
  label_key :: string
  label_value :: string

text \<open>The labels of a node as the form of the node edits them.\<close>

record label_row = label +
  label_originalKey :: string
  label_originalValue :: string
  label_added :: bool

record raw_manager =
  raw_Leader :: bool
  raw_Reachability :: string
  raw_ManagerAddr :: string

text \<open>The node object of the engine's API; the objects within it are flattened.\<close>

record raw_node =
  raw_ID :: string
  raw_Version_Index :: nat
  raw_Spec_Name :: "string option"
  raw_Spec_Role :: string
  raw_Spec_Availability :: string
  raw_Spec_Labels :: "string obj option"
  raw_CreatedAt :: string
  raw_UpdatedAt :: string
  raw_Hostname :: string
  raw_Architecture :: string
  raw_OS :: string
  raw_NanoCPUs :: nat
  raw_MemoryBytes :: nat
  raw_EngineVersion :: string
  raw_Engine_Labels :: "string obj option"
  raw_Plugins :: "(string \<times> string) list"
  raw_State :: string
  raw_Addr :: "string option"
  raw_ManagerStatus :: "raw_manager option"

record swarm_node =
  node_Model :: raw_node
  node_id :: string
  node_version :: nat
  node_name :: "string option"
  node_role :: string
  node_createdAt :: string
  node_updatedAt :: string
  node_availability :: string
  node_labels :: "label_row list"
  node_engine_labels :: "label list"
  node_hostname :: string
  node_architecture :: string
  node_os :: string
  node_cpus :: nat
  node_memory :: nat
  node_engineVersion :: string
  node_plugins :: "(string \<times> string) list"
  node_status :: string
  node_addr :: "string option"
  node_leader :: "bool option"
  node_reachability :: "string option"
  node_managerAddr :: "string option"

text \<open>
  \<open>NodeViewModel\<close> turns the two label objects of the node into lists, empty where the object is
  missing; the address and the fields of a manager are set only where the API gives them.
\<close>

definition label_rows :: "string obj option \<Rightarrow> label_row list" where
  "label_rows labels = (case labels of
       None \<Rightarrow> []
     | Some ob \<Rightarrow> map (\<lambda>(k, v). \<lparr>label_key = k, label_value = v, label_originalKey = k,
                        label_originalValue = v, label_added = True\<rparr>) (obj_entries ob))"

definition labels_of :: "string obj option \<Rightarrow> label list" where
  "labels_of labels = (case labels of
       None \<Rightarrow> []
     | Some ob \<Rightarrow> map (\<lambda>(k, v). \<lparr>label_key = k, label_value = v\<rparr>) (obj_entries ob))"

definition NodeViewModel :: "raw_node \<Rightarrow> swarm_node" where
  "NodeViewModel data =
     \<lparr>node_Model = data, node_id = raw_ID data, node_version = raw_Version_Index data,
      node_name = raw_Spec_Name data, node_role = raw_Spec_Role data,
      node_createdAt = raw_CreatedAt data, node_updatedAt = raw_UpdatedAt data,
      node_availability = raw_Spec_Availability data,
      node_labels = label_rows (raw_Spec_Labels data),
      node_engine_labels = labels_of (raw_Engine_Labels data),
      node_hostname = raw_Hostname data, node_architecture = raw_Architecture data,
      node_os = raw_OS data, node_cpus = raw_NanoCPUs data, node_memory = raw_MemoryBytes data,
      node_engineVersion = raw_EngineVersion data, node_plugins = raw_Plugins data,
      node_status = raw_State data,
      node_addr = (if truthy_str (raw_Addr data) then raw_Addr data else None),
      node_leader = map_option raw_Leader (raw_ManagerStatus data),
      node_reachability = map_option raw_Reachability (raw_ManagerStatus data),
      node_managerAddr = map_option raw_ManagerAddr (raw_ManagerStatus data)\<rparr>"

text \<open>
  \<open>ConstraintModel\<close>: the operator is missing where the text of the first constraint has none, and stays
  that of the constraint before it where a later text has none (the variable of the loop is not reset).
\<close>

record constraint_model =
  con_op :: "string option"
  con_key :: string
  con_value :: string

record transformed =
  tr_nodeId :: "constraint_model option"
  tr_nodeHostname :: "constraint_model option"
  tr_nodeRole :: "constraint_model option"
  tr_nodeLabels :: "constraint_model option"
  tr_engineLabels :: "constraint_model option"

abbreviation no_constraints :: transformed where
  "no_constraints \<equiv> \<lparr>tr_nodeId = None, tr_nodeHostname = None, tr_nodeRole = None,
     tr_nodeLabels = None, tr_engineLabels = None\<rparr>"

abbreviation "p_id \<equiv> ''node.id''"
abbreviation "p_hostname \<equiv> ''node.hostname''"
abbreviation "p_role \<equiv> ''node.role''"
abbreviation "p_labels \<equiv> ''node.labels.''"
abbreviation "p_engine \<equiv> ''engine.labels.''"

definition matchesConstraint :: "string \<Rightarrow> constraint_model option \<Rightarrow> bool" where
  "matchesConstraint v c = (case c of
       None \<Rightarrow> True
     | Some m \<Rightarrow> con_op m = Some ''=='' \<and> v = con_value m \<or> con_op m = Some ''!='' \<and> v \<noteq> con_value m)"

definition matchesLabel :: "'a label_scheme list \<Rightarrow> constraint_model option \<Rightarrow> bool" where
  "matchesLabel ls c = (case c of
       None \<Rightarrow> True
     | Some m \<Rightarrow> List.find (\<lambda>l. label_key l = con_key m \<and> label_value l = con_value m) ls \<noteq> None)"

text \<open>\<open>split(undefined)\<close> gives the whole text as the only piece.\<close>

definition split_op :: "string option \<Rightarrow> string \<Rightarrow> string list" where
  "split_op op s = (case op of None \<Rightarrow> [s] | Some p \<Rightarrow> split_sub p s)"

definition extractValue :: "string \<Rightarrow> string option \<Rightarrow> string" where
  "extractValue c op = trim (last (split_op op c))"

definition extractCustomLabelKey :: "string \<Rightarrow> string option \<Rightarrow> string \<Rightarrow> string" where
  "extractCustomLabelKey c op base = replace_first base [] (trim (hd (split_op op c)))"

definition constraint_op :: "string option \<Rightarrow> string \<Rightarrow> string option" where
  "constraint_op previous c =
     (if contains c ''=='' then Some ''==''
      else if contains c ''!='' then Some ''!=''
      else previous)"

definition transform_one :: "string \<Rightarrow> string option \<times> transformed \<Rightarrow> string option \<times> transformed" where
  "transform_one c st =
     (let op = constraint_op (fst st) c;
          tr = snd st;
          val = extractValue c op;
          model = (\<lambda>k. Some \<lparr>con_op = op, con_key = k, con_value = val\<rparr>)
      in (op,
          if contains c p_id then tr\<lparr>tr_nodeId := model []\<rparr>
          else if contains c p_hostname then tr\<lparr>tr_nodeHostname := model []\<rparr>
          else if contains c p_role then tr\<lparr>tr_nodeRole := model []\<rparr>
          else if contains c p_labels then
            tr\<lparr>tr_nodeLabels := model (extractCustomLabelKey c op p_labels)\<rparr>
          else if contains c p_engine then
            tr\<lparr>tr_engineLabels := model (extractCustomLabelKey c op p_engine)\<rparr>
          else tr))"

definition transformConstraints :: "string list \<Rightarrow> transformed" where
  "transformConstraints cs = snd (fold transform_one cs (None, no_constraints))"

definition matches_transformed :: "transformed \<Rightarrow> swarm_node \<Rightarrow> bool" where
  "matches_transformed tr node \<longleftrightarrow>
     matchesConstraint (node_id node) (tr_nodeId tr) \<and>
     matchesConstraint (node_hostname node) (tr_nodeHostname tr) \<and>
     matchesConstraint (node_role node) (tr_nodeRole tr) \<and>
     matchesLabel (node_labels node) (tr_nodeLabels tr) \<and>
     matchesLabel (node_engine_labels node) (tr_engineLabels tr)"

definition matchesServiceConstraints :: "string list option \<Rightarrow> swarm_node \<Rightarrow> bool" where
  "matchesServiceConstraints constraints node =
     (case constraints of
        None \<Rightarrow> True
      | Some cs \<Rightarrow> if cs = [] then True else matches_transformed (transformConstraints cs) node)"

section \<open>The semantics of the scheduler\<close>

datatype target = NodeId | NodeHostname | NodeRole | NodeLabel string | EngineLabel string

datatype oper = Eq | Neq

record constraint =
  c_target :: target
  c_oper :: oper
  c_value :: string

fun oper_text :: "oper \<Rightarrow> string" where
  "oper_text Eq = ''==''"
| "oper_text Neq = ''!=''"

fun target_text :: "target \<Rightarrow> string" where
  "target_text NodeId = p_id"
| "target_text NodeHostname = p_hostname"
| "target_text NodeRole = p_role"
| "target_text (NodeLabel k) = p_labels @ k"
| "target_text (EngineLabel k) = p_engine @ k"

definition constraint_text :: "constraint \<Rightarrow> string" where
  "constraint_text c = target_text (c_target c) @ oper_text (c_oper c) @ c_value c"

definition has_label :: "'a label_scheme list \<Rightarrow> string \<Rightarrow> string \<Rightarrow> bool" where
  "has_label ls k v \<longleftrightarrow> (\<exists>l \<in> set ls. label_key l = k \<and> label_value l = v)"

fun holds_eq :: "target \<Rightarrow> string \<Rightarrow> swarm_node \<Rightarrow> bool" where
  "holds_eq NodeId v n = (node_id n = v)"
| "holds_eq NodeHostname v n = (node_hostname n = v)"
| "holds_eq NodeRole v n = (node_role n = v)"
| "holds_eq (NodeLabel k) v n = has_label (node_labels n) k v"
| "holds_eq (EngineLabel k) v n = has_label (node_engine_labels n) k v"

definition satisfies :: "swarm_node \<Rightarrow> constraint \<Rightarrow> bool" where
  "satisfies n c = (case c_oper c of
       Eq \<Rightarrow> holds_eq (c_target c) (c_value c) n
     | Neq \<Rightarrow> \<not> holds_eq (c_target c) (c_value c) n)"

text \<open>The slot of the transformed object a constraint is stored in.\<close>

fun slot :: "target \<Rightarrow> nat" where
  "slot NodeId = 0"
| "slot NodeHostname = 1"
| "slot NodeRole = 2"
| "slot (NodeLabel k) = 3"
| "slot (EngineLabel k) = 4"

fun earlier_patterns :: "target \<Rightarrow> string list" where
  "earlier_patterns NodeId = []"
| "earlier_patterns NodeHostname = [p_id]"
| "earlier_patterns NodeRole = [p_id, p_hostname]"
| "earlier_patterns (NodeLabel k) = [p_id, p_hostname, p_role]"
| "earlier_patterns (EngineLabel k) = [p_id, p_hostname, p_role, p_labels]"

fun target_key :: "target \<Rightarrow> string" where
  "target_key (NodeLabel k) = k"
| "target_key (EngineLabel k) = k"
| "target_key _ = []"

text \<open>
  A constraint the helper reads as it is meant: no \<open>=\<close> in the key or the value, no space around them,
  no name of an earlier case of the switch within the text, and an equality where it is about a label.
\<close>

definition readable :: "constraint \<Rightarrow> bool" where
  "readable c \<longleftrightarrow>
     CHR ''='' \<notin> set (target_key (c_target c)) \<and> CHR ''='' \<notin> set (c_value c) \<and>
     trimmed (target_key (c_target c)) \<and> trimmed (c_value c) \<and>
     (\<forall>p \<in> set (earlier_patterns (c_target c)). \<not> contains (constraint_text c) p) \<and>
     (c_oper c = Neq \<longrightarrow> slot (c_target c) < 3)"

section \<open>Reading one constraint\<close>

lemma contains_append [simp]: "contains (a @ p @ b) p"
  by (auto simp: contains_iff)

lemma contains_imp_subset: "contains s p \<Longrightarrow> set p \<subseteq> set s"
  by (auto simp: contains_iff)

lemma contains_eqeq_single:
  assumes "CHR ''='' \<notin> set a" "CHR ''='' \<notin> set b"
  shows "\<not> contains (a @ ''!='' @ b) ''==''"
proof
  assume "contains (a @ ''!='' @ b) ''==''"
  then obtain u v where uv: "a @ ''!='' @ b = u @ ''=='' @ v" by (auto simp: contains_iff)
  from arg_cong [OF uv, of "\<lambda>s. count_list s (CHR ''='')"] assms show False
    by (simp add: count_list_0_iff)
qed

lemma find_sub_op:
  assumes "CHR ''='' \<notin> set a" "CHR ''='' \<notin> set b"
  shows "find_sub (a @ oper_text op @ b) (oper_text op) = Some (length a)"
  using assms
proof (induction a)
  case Nil
  show ?case by (subst find_sub.simps) simp
next
  case (Cons c a)
  have "\<not> starts_with ((c # a) @ oper_text op @ b) (oper_text op)"
    using Cons.prems by (cases op; cases a) auto
  with Cons show ?case by (simp add: find_sub_Cons)
qed

lemma split_op_text:
  assumes "CHR ''='' \<notin> set a" "CHR ''='' \<notin> set b"
  shows "split_sub (oper_text op) (a @ oper_text op @ b) = [a, b]"
proof -
  have ne: "oper_text op \<noteq> []" by (cases op) simp_all
  have "\<not> contains b (oper_text op)"
    using contains_imp_subset [of b "oper_text op"] assms(2) by (cases op) auto
  then show ?thesis
    using ne find_sub_op [OF assms, of op] split_sub_absent [OF ne, of b]
    by (subst split_sub.simps) simp
qed

lemma constraint_op_text:
  assumes "CHR ''='' \<notin> set a" "CHR ''='' \<notin> set b"
  shows "constraint_op prev (a @ oper_text op @ b) = Some (oper_text op)"
  using contains_eqeq_single [OF assms] contains_append [of a "oper_text op" b]
  by (cases op) (simp_all add: constraint_op_def)

lemma trimmed_target: "trimmed (target_key t) \<Longrightarrow> trimmed (target_text t)"
  by (cases t) (auto simp: trimmed_def is_space_def)

lemma eq_not_in_target: "CHR ''='' \<notin> set (target_key t) \<Longrightarrow> CHR ''='' \<notin> set (target_text t)"
  by (cases t) auto

lemma replace_prefix [simp]: "replace_first p [] (p @ k) = k"
  by (subst replace_first_def, subst find_sub.simps) simp

text \<open>What a constraint becomes.\<close>

definition model_of :: "constraint \<Rightarrow> constraint_model" where
  "model_of c = \<lparr>con_op = Some (oper_text (c_oper c)), con_key = target_key (c_target c), con_value = c_value c\<rparr>"

fun store :: "target \<Rightarrow> constraint_model \<Rightarrow> transformed \<Rightarrow> transformed" where
  "store NodeId m tr = tr\<lparr>tr_nodeId := Some m\<rparr>"
| "store NodeHostname m tr = tr\<lparr>tr_nodeHostname := Some m\<rparr>"
| "store NodeRole m tr = tr\<lparr>tr_nodeRole := Some m\<rparr>"
| "store (NodeLabel k) m tr = tr\<lparr>tr_nodeLabels := Some m\<rparr>"
| "store (EngineLabel k) m tr = tr\<lparr>tr_engineLabels := Some m\<rparr>"

lemma contains_own:
  "contains (constraint_text c) (case c_target c of NodeLabel k \<Rightarrow> p_labels | EngineLabel k \<Rightarrow> p_engine | t \<Rightarrow> target_text t)"
proof -
  have "\<exists>s. constraint_text c =
      (case c_target c of NodeLabel k \<Rightarrow> p_labels | EngineLabel k \<Rightarrow> p_engine | t \<Rightarrow> target_text t) @ s"
    by (cases "c_target c") (auto simp: constraint_text_def)
  then show ?thesis using contains_append [of "[]"] by auto
qed

lemma transform_readable:
  assumes "readable c"
  shows "transform_one (constraint_text c) (prev, tr) =
    (Some (oper_text (c_oper c)), store (c_target c) (model_of c) tr)"
proof -
  let ?t = "target_text (c_target c)" and ?op = "oper_text (c_oper c)"
  have eqs: "CHR ''='' \<notin> set ?t" "CHR ''='' \<notin> set (c_value c)"
    using assms eq_not_in_target by (auto simp: readable_def)
  have op: "constraint_op prev (constraint_text c) = Some ?op"
    unfolding constraint_text_def by (rule constraint_op_text [OF eqs])
  have split: "split_sub ?op (constraint_text c) = [?t, c_value c]"
    unfolding constraint_text_def by (rule split_op_text [OF eqs])
  have trims: "trim ?t = ?t" "trim (c_value c) = c_value c"
    using assms trimmed_target trim_trimmed by (auto simp: readable_def)
  have key: "k = target_key (c_target c)"
    if "c_target c = NodeLabel k \<or> c_target c = EngineLabel k" for k
    using that by auto
  have earlier: "\<And>p. p \<in> set (earlier_patterns (c_target c)) \<Longrightarrow> \<not> contains (constraint_text c) p"
    using assms by (simp add: readable_def)
  have lab: "trim (p_labels @ k) = p_labels @ k" if "c_target c = NodeLabel k" for k
    using trims(1) that by simp
  have eng: "trim (p_engine @ k) = p_engine @ k" if "c_target c = EngineLabel k" for k
    using trims(1) that by simp
  note replace_prefix [of p_labels, simplified, simp] replace_prefix [of p_engine, simplified, simp]
  show ?thesis
    using op split trims earlier contains_own [of c]
    by (cases "c_target c")
      (simp_all add: transform_one_def extractValue_def extractCustomLabelKey_def split_op_def model_of_def Let_def)
qed

text \<open>A worker named \<open>host\<close> with the given labels, for the examples.\<close>

definition sample_node :: "(string \<times> string) list \<Rightarrow> raw_node" where
  "sample_node labels =
     \<lparr>raw_ID = ''n1'', raw_Version_Index = 1, raw_Spec_Name = None, raw_Spec_Role = ''worker'',
      raw_Spec_Availability = ''active'', raw_Spec_Labels = Some labels, raw_CreatedAt = [],
      raw_UpdatedAt = [], raw_Hostname = ''host'', raw_Architecture = ''x86_64'', raw_OS = ''linux'',
      raw_NanoCPUs = 1000000000, raw_MemoryBytes = 1024, raw_EngineVersion = ''20.10.7'',
      raw_Engine_Labels = None, raw_Plugins = [], raw_State = ''ready'', raw_Addr = None,
      raw_ManagerStatus = None\<rparr>"

section \<open>A list of constraints\<close>

lemma sample_node_simps [simp]:
  "node_labels (NodeViewModel (sample_node ls)) = label_rows (Some ls)"
  "node_role (NodeViewModel (sample_node ls)) = ''worker''"
  by (simp_all add: NodeViewModel_def sample_node_def)

lemma label_rows_simps [simp]:
  "label_rows (Some []) = []"
  "has_label (label_rows (Some [(k, v)])) k' v' \<longleftrightarrow> k = k' \<and> v = v'"
  by (simp_all add: label_rows_def has_label_def)

lemma find_label: "List.find (\<lambda>l. label_key l = k \<and> label_value l = v) ls \<noteq> None \<longleftrightarrow> has_label ls k v"
  by (auto simp: has_label_def find_None_iff)

lemma satisfies_stored:
  assumes "readable c"
  shows "(case c_target c of
       NodeId \<Rightarrow> matchesConstraint (node_id n) (Some (model_of c))
     | NodeHostname \<Rightarrow> matchesConstraint (node_hostname n) (Some (model_of c))
     | NodeRole \<Rightarrow> matchesConstraint (node_role n) (Some (model_of c))
     | NodeLabel k \<Rightarrow> matchesLabel (node_labels n) (Some (model_of c))
     | EngineLabel k \<Rightarrow> matchesLabel (node_engine_labels n) (Some (model_of c))) = satisfies n c"
  using assms
  by (cases "c_target c"; cases "c_oper c")
    (auto simp: matchesConstraint_def matchesLabel_def model_of_def satisfies_def find_label readable_def
      simp del: not_None_eq)

lemma fold_transform_readable:
  assumes "\<forall>c \<in> set cs. readable c"
  shows "snd (fold transform_one (map constraint_text cs) (prev, tr)) =
    fold (\<lambda>c. store (c_target c) (model_of c)) cs tr"
  using assms by (induction cs arbitrary: prev tr) (simp_all add: transform_readable)

definition empty_slot :: "nat \<Rightarrow> transformed \<Rightarrow> bool" where
  "empty_slot i tr \<longleftrightarrow> (case i of 0 \<Rightarrow> tr_nodeId tr = None | Suc 0 \<Rightarrow> tr_nodeHostname tr = None
     | Suc (Suc 0) \<Rightarrow> tr_nodeRole tr = None | Suc (Suc (Suc 0)) \<Rightarrow> tr_nodeLabels tr = None
     | _ \<Rightarrow> tr_engineLabels tr = None)"

lemma empty_slot_store: "slot t \<noteq> i \<Longrightarrow> i < 5 \<Longrightarrow> empty_slot i (store t m tr) = empty_slot i tr"
  by (cases t) (auto simp: empty_slot_def split: nat.splits)

lemma matches_store:
  assumes "readable c" and "empty_slot (slot (c_target c)) tr"
  shows "matches_transformed (store (c_target c) (model_of c) tr) n \<longleftrightarrow>
    matches_transformed tr n \<and> satisfies n c"
  using satisfies_stored [OF assms(1), of n] assms(2)
  by (cases "c_target c")
    (auto simp: matches_transformed_def empty_slot_def matchesConstraint_def [of _ None]
      matchesLabel_def [of _ None] simp del: not_None_eq)

lemma matches_fold_store:
  assumes "\<forall>c \<in> set cs. readable c" and "distinct (map (\<lambda>c. slot (c_target c)) cs)"
    and "\<forall>c \<in> set cs. empty_slot (slot (c_target c)) tr"
  shows "matches_transformed (fold (\<lambda>c. store (c_target c) (model_of c)) cs tr) n \<longleftrightarrow>
    matches_transformed tr n \<and> (\<forall>c \<in> set cs. satisfies n c)"
  using assms
proof (induction cs arbitrary: tr)
  case (Cons c cs)
  have lt: "slot t < 5" for t by (cases t) simp_all
  have "\<forall>d \<in> set cs. empty_slot (slot (c_target d)) (store (c_target c) (model_of c) tr)"
    using Cons.prems lt by (auto simp: empty_slot_store image_iff)
  with Cons.IH [of "store (c_target c) (model_of c) tr"] Cons.prems matches_store [of c tr n]
  show ?case by auto
qed simp

lemma matches_no_constraints [simp]: "matches_transformed no_constraints n"
  by (simp add: matches_transformed_def matchesConstraint_def matchesLabel_def)

lemma empty_slot_none [simp]: "empty_slot i no_constraints"
  by (simp add: empty_slot_def split: nat.splits)

text \<open>Of two constraints on labels of one kind only the last is looked at.\<close>

lemma store_same_slot: "slot s = slot t \<Longrightarrow> store t m (store s m' tr) = store t m tr"
  by (cases s; cases t) simp_all

section \<open>Properties\<close>

text \<open>
  C34. For constraints that the helper reads as meant, at most one for each of the five kinds,
  \<open>matchesServiceConstraints\<close> accepts a node exactly when the scheduler would: every constraint holds.
\<close>

theorem constraints_refine_scheduler:
  assumes "\<forall>c \<in> set cs. readable c" and "distinct (map (\<lambda>c. slot (c_target c)) cs)"
  shows "matchesServiceConstraints (Some (map constraint_text cs)) n \<longleftrightarrow> (\<forall>c \<in> set cs. satisfies n c)"
  using matches_fold_store [OF assms, of no_constraints n] fold_transform_readable [OF assms(1)]
  by (simp add: matchesServiceConstraints_def transformConstraints_def)

theorem constraints_refine_scheduler_witness:
  "matchesServiceConstraints (Some [''node.role==worker'', ''node.labels.zone==eu''])
     (NodeViewModel (sample_node [(''zone'', ''eu'')]))"
proof -
  let ?cs = "[\<lparr>c_target = NodeRole, c_oper = Eq, c_value = ''worker''\<rparr>,
    \<lparr>c_target = NodeLabel ''zone'', c_oper = Eq, c_value = ''eu''\<rparr>]"
  have "\<forall>c \<in> set ?cs. readable c" "distinct (map (\<lambda>c. slot (c_target c)) ?cs)"
    by code_simp+
  from constraints_refine_scheduler [OF this, of "NodeViewModel (sample_node [(''zone'', ''eu'')])"]
  show ?thesis by (simp add: constraint_text_def satisfies_def)
qed

text \<open>
  Of two label constraints of one kind the second replaces the first, so the count of available nodes
  takes in nodes on which the scheduler never places a task.
\<close>

theorem last_label_constraint_wins:
  assumes "readable c" "readable d" "slot (c_target c) = slot (c_target d)"
  shows "matchesServiceConstraints (Some [constraint_text c, constraint_text d]) n \<longleftrightarrow> satisfies n d"
  using fold_transform_readable [of "[c, d]"] assms matches_store [of d no_constraints n]
  by (simp add: matchesServiceConstraints_def transformConstraints_def store_same_slot)

theorem last_label_constraint_wins_witness:
  "matchesServiceConstraints (Some [''node.labels.disk==ssd'', ''node.labels.zone==eu''])
     (NodeViewModel (sample_node [(''zone'', ''eu'')]))"
proof -
  let ?c = "\<lparr>c_target = NodeLabel ''disk'', c_oper = Eq, c_value = ''ssd''\<rparr>"
  let ?d = "\<lparr>c_target = NodeLabel ''zone'', c_oper = Eq, c_value = ''eu''\<rparr>"
  have "readable ?c" "readable ?d" "slot (c_target ?c) = slot (c_target ?d)" by code_simp+
  from last_label_constraint_wins [OF this, of "NodeViewModel (sample_node [(''zone'', ''eu'')])"]
  show ?thesis by (simp add: constraint_text_def satisfies_def)
qed

text \<open>
  An inequality on a label is read as an equality: a node without the label is refused, where the
  scheduler accepts it.
\<close>

theorem label_inequality_refused:
  "\<not> matchesServiceConstraints (Some [''node.labels.zone!=eu''])
      (NodeViewModel (sample_node []))
   \<and> satisfies (NodeViewModel (sample_node []))
      \<lparr>c_target = NodeLabel ''zone'', c_oper = Neq, c_value = ''eu''\<rparr>"
proof -
  have "tr_nodeLabels (transformConstraints [''node.labels.zone!=eu'']) =
      Some \<lparr>con_op = Some ''!='', con_key = ''zone'', con_value = ''eu''\<rparr>"
    by code_simp
  then show ?thesis
    by (simp add: matchesServiceConstraints_def matches_transformed_def matchesLabel_def satisfies_def has_label_def)
qed

end
