(* ===== verification/DockerFilters.thy ===== *)
theory DockerFilters
  imports Placement "HOL-Library.Word"
begin

text \<open>
  The filters of the Docker views, \<open>app/docker/filters/filters.js\<close>: labels of states, counts, the trimming
  of image names, and the colour the Swarm visualizer gives a service. The colour is computed with the
  bitwise operators of the language, which work on 32-bit words; the intermediate hash is a number that is
  not reduced, and is shown to stay exact and to give the colour of the usual 32-bit hash.
\<close>

unbundle bit_operations_syntax

section \<open>Hash and colour\<close>

text \<open>\<open>h << n\<close>, \<open>h >> n\<close> and \<open>a & b\<close>: the operands are reduced to signed 32-bit words.\<close>

definition js_word :: "int \<Rightarrow> 32 word" where
  "js_word h = word_of_int h"

definition js_shl :: "int \<Rightarrow> nat \<Rightarrow> int" where
  "js_shl h n = sint (push_bit n (js_word h))"

definition js_shr :: "int \<Rightarrow> nat \<Rightarrow> int" where
  "js_shr h n = sint (signed_drop_bit n (js_word h))"

definition js_and :: "int \<Rightarrow> int \<Rightarrow> int" where
  "js_and a b = sint (js_word a AND js_word b)"

definition strToHash :: "string \<Rightarrow> int" where
  "strToHash str = fold (\<lambda>c hash. of_char c + (js_shl hash 5 - hash)) str 0"

definition hex_digit :: "nat \<Rightarrow> char" where
  "hex_digit d = (if d < 10 then char_of (48 + d) else char_of (87 + d))"

fun show_hex :: "nat \<Rightarrow> string" where
  "show_hex n = (if n < 16 then [hex_digit n] else show_hex (n div 16) @ [hex_digit (n mod 16)])"

declare show_hex.simps [simp del]

definition hex_pair :: "int \<Rightarrow> string" where
  "hex_pair b = slice_from (''00'' @ show_hex (nat b)) (-2)"

definition hashToHexColor :: "int \<Rightarrow> string" where
  "hashToHexColor hash =
     fold (\<lambda>i color. color @ hex_pair (js_and (js_shr hash (i * 8)) 255)) [0, 1, 2] ''#''"

definition visualizerTaskBorderColor :: "string \<Rightarrow> string" where
  "visualizerTaskBorderColor str = hashToHexColor (strToHash str)"

section \<open>Labels of states\<close>

definition includeString :: "string \<Rightarrow> string list \<Rightarrow> bool" where
  "includeString t vs \<longleftrightarrow> list_ex (contains t) vs"

definition lower_text :: "string option \<Rightarrow> string" where
  "lower_text t = (case t of None \<Rightarrow> [] | Some s \<Rightarrow> to_lower s)"

definition visualizerTask :: "string option \<Rightarrow> string" where
  "visualizerTask t =
     (let status = lower_text t
      in if includeString status [''new'', ''allocated'', ''assigned'', ''accepted'', ''complete'', ''preparing'']
         then ''info''
         else if includeString status [''pending''] then ''warning''
         else if includeString status [''shutdown'', ''failed'', ''rejected''] then ''stopped''
         else ''running'')"

definition taskstatusbadge :: "string option \<Rightarrow> string" where
  "taskstatusbadge t =
     (let status = lower_text t
      in if includeString status [''new'', ''allocated'', ''assigned'', ''accepted'', ''preparing'', ''ready'',
             ''starting'', ''remove''] then ''info''
         else if includeString status [''pending''] then ''warning''
         else if includeString status [''shutdown'', ''failed'', ''rejected'', ''orphaned''] then ''danger''
         else if includeString status [''complete''] then ''primary''
         else if includeString status [''running''] then ''success''
         else ''default'')"

definition taskhaslogs :: "string \<Rightarrow> bool" where
  "taskhaslogs state = includes_elem [''running'', ''complete'', ''failed'', ''shutdown''] state"

definition containerstatusbadge :: "string option \<Rightarrow> string" where
  "containerstatusbadge t =
     (let status = lower_text t
      in if includeString status [''paused'', ''starting'', ''unhealthy''] then ''warning''
         else if includeString status [''created''] then ''info''
         else if includeString status [''stopped'', ''dead'', ''exited''] then ''danger''
         else ''success'')"

definition nodestatusbadge :: "string \<Rightarrow> string" where
  "nodestatusbadge t = (if t = ''down'' \<or> t = ''Unhealthy'' then ''danger'' else ''success'')"

definition dockerNodeAvailabilityBadge :: "string \<Rightarrow> string" where
  "dockerNodeAvailabilityBadge t =
     (if t = ''pause'' then ''warning'' else if t = ''drain'' then ''danger'' else ''success'')"

definition trimcontainername :: "string option \<Rightarrow> string" where
  "trimcontainername name = (case name of
       None \<Rightarrow> []
     | Some s \<Rightarrow> if js_index_of s ''/'' = 0 then replace_first ''/'' [] s else s)"

record state_flags =
  st_Dead :: bool
  st_Ghost :: bool
  st_Running :: bool
  st_Paused :: bool
  st_Status :: string

definition getstatetext :: "state_flags option \<Rightarrow> string" where
  "getstatetext state = (case state of
       None \<Rightarrow> []
     | Some s \<Rightarrow>
         if st_Dead s then ''Dead''
         else if st_Ghost s \<and> st_Running s then ''Ghost''
         else if st_Running s \<and> st_Paused s then ''Running (Paused)''
         else if st_Running s then ''Running''
         else if st_Status s = ''created'' then ''Created''
         else ''Stopped'')"

definition getstatelabel :: "state_flags option \<Rightarrow> string" where
  "getstatelabel state = (case state of
       None \<Rightarrow> ''label-default''
     | Some s \<Rightarrow>
         if st_Ghost s \<and> st_Running s then ''label-important''
         else if st_Running s then ''label-success''
         else ''label-default'')"

section \<open>Names of containers, hosts and images\<close>

text \<open>Reading a property of a missing first name throws.\<close>

definition containername :: "string list \<Rightarrow> string js_result" where
  "containername names = (case names of
       [] \<Rightarrow> Inl TypeError
     | name # _ \<Rightarrow> Inr (substring name 1 (length name)))"

definition second_part :: "string \<Rightarrow> string option" where
  "second_part s = elem_at (split_char (CHR ''/'') s) 1"

definition swarmversion :: "string \<Rightarrow> string option" where
  "swarmversion t = second_part t"

text \<open>\<open>_.split(undefined, '/')\<close> is an empty array.\<close>

definition swarmhostname :: "string list \<Rightarrow> string option" where
  "swarmhostname names = (case names of [] \<Rightarrow> None | name # _ \<Rightarrow> second_part name)"

definition repotags :: "string list option \<Rightarrow> string list" where
  "repotags tags = (case tags of
       None \<Rightarrow> []
     | Some [] \<Rightarrow> []
     | Some (tag # ts) \<Rightarrow> if tag = ''<none>:<none>'' then [] else tag # ts)"

definition command_filter :: "string list option \<Rightarrow> string option" where
  "command_filter command = map_option (join '' '') command"

definition hideshasum :: "string option \<Rightarrow> string" where
  "hideshasum name = (if truthy_str name then hd (split_sub ''@sha'' (the name)) else [])"

definition imagelayercommand :: "string \<Rightarrow> string" where
  "imagelayercommand createdBy =
     replace_first ''/bin/sh -c '' ''RUN '' (replace_first ''/bin/sh -c #(nop) '' [] createdBy)"

definition trimshasum :: "string option \<Rightarrow> string option" where
  "trimshasum name =
     (if \<not> truthy_str name then None
      else if js_index_of (the name) ''sha256:'' = 0 then Some (substring (the name) 7 19)
      else Some (hd (split_sub ''@sha256'' (the name))))"

definition last_index_of :: "string \<Rightarrow> char \<Rightarrow> int" where
  "last_index_of s c =
     (case find_sub (rev s) [c] of None \<Rightarrow> -1 | Some i \<Rightarrow> int (length s) - 1 - int i)"

definition trimversiontag :: "string option \<Rightarrow> string option" where
  "trimversiontag fullName =
     (if \<not> truthy_str fullName then fullName
      else let s = the fullName; versionIdx = last_index_of s (CHR '':''); hostIdx = js_index_of s ''/''
        in if versionIdx < 0 then fullName
           else if hostIdx > versionIdx then fullName
           else Some (substring s 0 (nat versionIdx)))"

section \<open>Counts\<close>

definition availablenodecount :: "swarm_node list \<Rightarrow> string list option \<Rightarrow> nat" where
  "availablenodecount nodes constraints =
     fold (\<lambda>node n. if node_availability node = ''active'' \<and> node_status node = ''ready'' \<and>
         matchesServiceConstraints constraints node then n + 1 else n) nodes 0"

record task_state =
  ts_State :: string
  ts_DesiredState :: string

definition runningtaskscount :: "task_state list \<Rightarrow> nat" where
  "runningtaskscount tasks =
     fold (\<lambda>t n. if ts_State t = ''running'' \<and> ts_DesiredState t = ''running'' then n + 1 else n) tasks 0"

record container_state =
  cs_State :: string
  cs_Status :: string

definition runningcontainers :: "container_state list \<Rightarrow> nat" where
  "runningcontainers cs = length (filter (\<lambda>c. cs_State c = ''running'') cs)"

definition stoppedcontainers :: "container_state list \<Rightarrow> nat" where
  "stoppedcontainers cs = length (filter (\<lambda>c. cs_State c = ''exited'') cs)"

definition healthycontainers :: "container_state list \<Rightarrow> nat" where
  "healthycontainers cs = length (filter (\<lambda>c. cs_Status c = ''healthy'') cs)"

definition unhealthycontainers :: "container_state list \<Rightarrow> nat" where
  "unhealthycontainers cs = length (filter (\<lambda>c. cs_Status c = ''unhealthy'') cs)"

definition imagestotalsize :: "nat list \<Rightarrow> nat" where
  "imagestotalsize sizes = fold (\<lambda>s total. total + s) sizes 0"

definition tasknodename :: "string \<Rightarrow> swarm_node list \<Rightarrow> string" where
  "tasknodename nodeId nodes =
     (case List.find (\<lambda>n. node_id n = nodeId) nodes of None \<Rightarrow> [] | Some n \<Rightarrow> node_hostname n)"

section \<open>Lemmas on the colour\<close>

text \<open>The 32-bit hash: 31 times the hash of the characters before, plus the code of the character.\<close>

definition hash31 :: "string \<Rightarrow> 32 word" where
  "hash31 s = fold (\<lambda>c h. 31 * h + of_nat (of_char c)) s 0"

lemma js_word_shl: "js_word (js_shl h 5) = 32 * js_word h"
proof -
  have "js_word (js_shl h 5) = push_bit 5 (js_word h)" by (simp add: js_word_def js_shl_def)
  also have "\<dots> = 32 * js_word h" by (simp add: push_bit_eq_mult)
  finally show ?thesis .
qed

lemma js_word_step: "js_word (of_char c + (js_shl h 5 - h)) = 31 * js_word h + of_nat (of_char c)"
proof -
  have "js_word (of_char c + (js_shl h 5 - h)) = of_nat (of_char c) + (js_word (js_shl h 5) - js_word h)"
    by (simp add: js_word_def) (metis of_int_of_nat_eq of_nat_of_char)
  then show ?thesis by (simp add: js_word_shl)
qed

lemma js_word_hash: "js_word (strToHash s) = hash31 s"
proof -
  have "js_word (fold (\<lambda>c hash. of_char c + (js_shl hash 5 - hash)) s h) =
      fold (\<lambda>c h. 31 * h + of_nat (of_char c)) s (js_word h)" for h
    by (induction s arbitrary: h) (simp_all add: js_word_step)
  from this [of 0] show ?thesis by (simp add: strToHash_def hash31_def js_word_def)
qed

lemma js_shl_bound: "\<bar>js_shl h n\<bar> \<le> 2 ^ 31"
  using sint_range_size [of "push_bit n (js_word h)"] by (auto simp: js_shl_def word_size)

lemma of_char_int_bound: "0 \<le> (of_char c :: int) \<and> (of_char c :: int) \<le> 255"
proof -
  have "(of_char c :: nat) < 256" by (cases c) simp
  then have "int (of_char c) \<le> 255" by linarith
  moreover have "int (of_char c) = of_char c" by (rule of_nat_of_char)
  ultimately show ?thesis by (metis of_nat_0_le_iff)
qed

lemma hash_bound: "\<bar>strToHash s\<bar> \<le> int (length s) * (2 ^ 31 + 255)"
proof -
  have "\<bar>fold (\<lambda>c hash. of_char c + (js_shl hash 5 - hash)) s h\<bar> \<le> \<bar>h\<bar> + int (length s) * (2 ^ 31 + 255)" for h
  proof (induction s arbitrary: h)
    case (Cons c s)
    have "\<bar>of_char c + (js_shl h 5 - h)\<bar> \<le> 255 + 2 ^ 31 + \<bar>h\<bar>"
      using js_shl_bound [of h 5] of_char_int_bound [of c] by linarith
    with Cons.IH [of "of_char c + (js_shl h 5 - h)"] show ?case by (simp add: algebra_simps)
  qed simp
  from this [of 0] show ?thesis by (simp add: strToHash_def)
qed

text \<open>A byte of the word, as two hexadecimal digits.\<close>

lemma show_hex_byte:
  assumes "b < 256"
  shows "slice_from (''00'' @ show_hex b) (-2) = [hex_digit (b div 16), hex_digit (b mod 16)]"
proof (cases "b < 16")
  case True
  then have "show_hex b = [hex_digit b]" by (simp add: show_hex.simps)
  moreover have "hex_digit 0 = CHR ''0''" by code_simp
  ultimately show ?thesis using True by (simp add: slice_from_def)
next
  case False
  have "b div 16 < 16" using assms by simp
  then have "show_hex b = [hex_digit (b div 16), hex_digit (b mod 16)]"
    using False by (simp add: show_hex.simps [of b] show_hex.simps [of "b div 16"])
  then show ?thesis by (simp add: slice_from_def)
qed

definition byte_of :: "32 word \<Rightarrow> nat \<Rightarrow> nat" where
  "byte_of w i = unat w div 2 ^ (8 * i) mod 256"

lemma js_word_shr: "js_word (js_shr h n) = signed_drop_bit n (js_word h)"
  by (simp add: js_word_def js_shr_def)

lemma unat_byte: "unat (take_bit 8 (drop_bit n (w :: 32 word))) = unat w div 2 ^ n mod 256"
proof -
  have "unat (take_bit 8 x) = unat x mod 256" for x :: "32 word"
    by (simp add: take_bit_eq_mod unat_mod_distrib)
  from this [of "drop_bit n w"] have "unat (take_bit 8 (drop_bit n w)) = drop_bit n (unat w) mod 256"
    by (simp only: unat_drop_bit_eq)
  then show ?thesis by (simp only: drop_bit_eq_div)
qed

lemma sint_small: "unat (w :: 32 word) < 256 \<Longrightarrow> sint w = int (unat w)"
proof -
  assume "unat w < 256"
  then have "uint w < 256" by (metis of_nat_less_iff of_nat_numeral of_nat_unat)
  moreover have "- (2 ^ 31) \<le> uint w" by (rule order_trans [OF _ uint_ge_0]) simp
  ultimately have "signed_take_bit 31 (uint w) = uint w" by (intro signed_take_bit_int_eq_self) (simp_all add: le_less_trans)
  then show ?thesis by (simp add: sint_uint)
qed

lemma js_byte:
  assumes "i \<le> 2"
  shows "js_and (js_shr h (i * 8)) 255 = int (byte_of (js_word h) i)"
proof -
  let ?b = "take_bit 8 (drop_bit (i * 8) (js_word h))"
  have "signed_drop_bit (i * 8) (js_word h) AND mask 8 = ?b"
    by (rule bit_word_eqI) (use assms in \<open>auto simp: bit_simps\<close>)
  then have "js_and (js_shr h (i * 8)) 255 = sint ?b"
    by (simp add: js_and_def js_word_shr js_word_def [of 255] mask_eq_exp_minus_1)
  moreover have "unat ?b = byte_of (js_word h) i" by (simp add: unat_byte byte_of_def mult.commute)
  moreover have "byte_of (js_word h) i < 256" by (simp add: byte_of_def)
  ultimately show ?thesis using sint_small [of ?b] by simp
qed

lemma hex_pair_byte: "b < 256 \<Longrightarrow> hex_pair (int b) = [hex_digit (b div 16), hex_digit (b mod 16)]"
  using show_hex_byte [of b] by (simp add: hex_pair_def)

text \<open>The colour of a word.\<close>

definition word_color :: "32 word \<Rightarrow> string" where
  "word_color w = ''#'' @ concat (map (\<lambda>i. let b = byte_of w i in [hex_digit (b div 16), hex_digit (b mod 16)]) [0, 1, 2])"

lemma hashToHexColor_word: "hashToHexColor h = word_color (js_word h)"
proof -
  have "hex_pair (js_and (js_shr h (i * 8)) 255) =
      (let b = byte_of (js_word h) i in [hex_digit (b div 16), hex_digit (b mod 16)])" if "i \<le> 2" for i
    using js_byte [OF that, of h] hex_pair_byte [of "byte_of (js_word h) i"]
    by (simp add: byte_of_def Let_def)
  from this [of 0] this [of 1] this [of 2] show ?thesis
    by (simp add: hashToHexColor_def word_color_def)
qed

section \<open>Lemmas on image names\<close>

lemma last_index_of_append:
  assumes "c \<notin> set b"
  shows "last_index_of (a @ c # b) c = int (length a)"
  using find_sub_single_append [of c "rev b" "rev a"] assms by (simp add: last_index_of_def)

lemma last_index_of_none: "c \<notin> set s \<Longrightarrow> last_index_of s c = -1"
  using find_sub_single_notin [of "rev s" c] by (simp add: last_index_of_def)

lemma trimversiontag_tag:
  assumes "CHR '':'' \<notin> set tag" "CHR ''/'' \<notin> set tag"
  shows "trimversiontag (Some (name @ '':'' @ tag)) = Some name"
proof -
  let ?s = "name @ CHR '':'' # tag"
  have v: "last_index_of ?s (CHR '':'') = int (length name)" by (rule last_index_of_append [OF assms(1)])
  have "js_index_of ?s ''/'' \<le> int (length name)"
  proof (cases "CHR ''/'' \<in> set name")
    case True
    then obtain a b where ab: "name = a @ CHR ''/'' # b" "CHR ''/'' \<notin> set a" by (meson split_list_first)
    then have "js_index_of ?s ''/'' = int (length a)"
      using find_sub_single_append [of "CHR ''/''" a "b @ CHR '':'' # tag"] by (simp add: js_index_of_def)
    with ab(1) show ?thesis by simp
  next
    case False
    then have "CHR ''/'' \<notin> set ?s" using assms(2) by simp
    then have "find_sub ?s ''/'' = None" by (simp add: find_sub_single_notin)
    then show ?thesis by (simp add: js_index_of_def)
  qed
  with v show ?thesis by (simp add: trimversiontag_def substring_def)
qed

text \<open>A registry's port is not taken for a tag.\<close>

lemma trimversiontag_port:
  assumes "CHR ''/'' \<notin> set host" "CHR '':'' \<notin> set path"
  shows "trimversiontag (Some (host @ ''/'' @ path)) = Some (host @ ''/'' @ path)"
proof -
  let ?s = "host @ CHR ''/'' # path"
  have slash: "js_index_of ?s ''/'' = int (length host)"
    using find_sub_single_append [OF assms(1), of path] by (simp add: js_index_of_def)
  show ?thesis
  proof (cases "CHR '':'' \<in> set host")
    case True
    then obtain a b where ab: "host = a @ CHR '':'' # b" "CHR '':'' \<notin> set b" by (meson split_list_last)
    then have "last_index_of ?s (CHR '':'') = int (length a)"
      using last_index_of_append [of "CHR '':''" "b @ CHR ''/'' # path" a] assms(2) by simp
    with slash ab(1) show ?thesis by (simp add: trimversiontag_def)
  next
    case False
    then have "last_index_of ?s (CHR '':'') = -1" using assms(2) by (intro last_index_of_none) simp
    then show ?thesis by (simp add: trimversiontag_def)
  qed
qed

section \<open>Properties\<close>

text \<open>
  The colour of a service is that of the usual 32-bit hash (31 times the hash plus the character), its
  lower three bytes in hexadecimal, and the unreduced hash stays below \<open>length * (2 ^ 31 + 255)\<close> in
  absolute value, so it is exact in a double for names of up to four million characters.
\<close>

theorem border_color_is_hash31:
  "visualizerTaskBorderColor s = word_color (hash31 s) \<and> \<bar>strToHash s\<bar> \<le> int (length s) * (2 ^ 31 + 255)"
  by (simp only: visualizerTaskBorderColor_def hashToHexColor_word js_word_hash hash_bound simp_thms)

text \<open>
  \<open>trimversiontag\<close> removes a tag, and leaves an untagged name of a registry with a port as it is.
\<close>

theorem trimversiontag_correct:
  assumes "CHR '':'' \<notin> set tag" "CHR ''/'' \<notin> set tag" "CHR ''/'' \<notin> set host" "CHR '':'' \<notin> set path"
  shows "trimversiontag (Some (name @ '':'' @ tag)) = Some name \<and>
    trimversiontag (Some (host @ ''/'' @ path)) = Some (host @ ''/'' @ path)"
  using trimversiontag_tag [OF assms(1,2)] trimversiontag_port [OF assms(3,4)] by blast

theorem trimversiontag_correct_witness:
  "trimversiontag (Some ''registry:5000/web:1.2'') = Some ''registry:5000/web'' \<and>
   trimversiontag (Some ''registry:5000/web'') = Some ''registry:5000/web''"
  using trimversiontag_correct [of "''1.2''" "''registry:5000''" "''web''" "''registry:5000/web''"] by simp

end
