(* ===== verification/JsRegex.thy ===== *)
theory JsRegex
  imports JsString
begin

text \<open>
  The regular expressions of the source that are used as tests. An expression is a tree, its
  meaning is the inductive predicate \<open>in_lang\<close>, and the executable test \<open>matches\<close> takes derivatives; the
  two agree (\<open>matches_iff\<close>). A character class is a list of ranges of character codes.
\<close>

datatype rx =
    Eps
  | Cls "(nat \<times> nat) list"
  | Alt rx rx
  | Seq rx rx
  | Star rx
  | Fail

definition in_cls :: "(nat \<times> nat) list \<Rightarrow> char \<Rightarrow> bool" where
  "in_cls rs c \<longleftrightarrow> list_ex (\<lambda>(lo, hi). lo \<le> of_char c \<and> of_char c \<le> hi) rs"

fun nullable :: "rx \<Rightarrow> bool" where
  "nullable Eps = True"
| "nullable (Cls rs) = False"
| "nullable (Alt r s) = (nullable r \<or> nullable s)"
| "nullable (Seq r s) = (nullable r \<and> nullable s)"
| "nullable (Star r) = True"
| "nullable Fail = False"

fun deriv :: "char \<Rightarrow> rx \<Rightarrow> rx" where
  "deriv c Eps = Fail"
| "deriv c (Cls rs) = (if in_cls rs c then Eps else Fail)"
| "deriv c (Alt r s) = Alt (deriv c r) (deriv c s)"
| "deriv c (Seq r s) =
     (if nullable r then Alt (Seq (deriv c r) s) (deriv c s) else Seq (deriv c r) s)"
| "deriv c (Star r) = Seq (deriv c r) (Star r)"
| "deriv c Fail = Fail"

fun matches :: "rx \<Rightarrow> string \<Rightarrow> bool" where
  "matches r [] = nullable r"
| "matches r (c # s) = matches (deriv c r) s"

inductive in_lang :: "rx \<Rightarrow> string \<Rightarrow> bool" where
  eps: "in_lang Eps []"
| cls: "in_cls rs c \<Longrightarrow> in_lang (Cls rs) [c]"
| alt1: "in_lang r s \<Longrightarrow> in_lang (Alt r q) s"
| alt2: "in_lang q s \<Longrightarrow> in_lang (Alt r q) s"
| seq: "in_lang r s \<Longrightarrow> in_lang q t \<Longrightarrow> in_lang (Seq r q) (s @ t)"
| star0: "in_lang (Star r) []"
| star1: "in_lang r s \<Longrightarrow> in_lang (Star r) t \<Longrightarrow> in_lang (Star r) (s @ t)"

inductive_simps in_lang_Eps [simp]: "in_lang Eps s"
inductive_simps in_lang_Cls [simp]: "in_lang (Cls rs) s"
inductive_simps in_lang_Alt [simp]: "in_lang (Alt r q) s"
inductive_simps in_lang_Seq: "in_lang (Seq r q) s"
inductive_simps in_lang_Fail [simp]: "in_lang Fail s"

lemma nullable_iff: "nullable r \<longleftrightarrow> in_lang r []"
  by (induction r) (auto simp: in_lang_Seq intro: star0)

lemma star_Cons:
  "in_lang (Star r) u \<Longrightarrow> u = c # s \<Longrightarrow> \<exists>a b. s = a @ b \<and> in_lang r (c # a) \<and> in_lang (Star r) b"
proof (induction "Star r" u arbitrary: c s rule: in_lang.induct)
  case (star1 x t)
  show ?case
  proof (cases x)
    case Nil
    with star1 show ?thesis by auto
  next
    case (Cons d y)
    with star1.prems have "d = c" and "s = y @ t" by auto
    with star1.hyps Cons show ?thesis by auto
  qed
qed auto

lemma star_Cons_iff:
  "in_lang (Star r) (c # s) \<longleftrightarrow> (\<exists>a b. s = a @ b \<and> in_lang r (c # a) \<and> in_lang (Star r) b)"
  using star_Cons [of r "c # s" c s] by (auto dest: star1)

lemma seq_Cons_iff:
  "in_lang (Seq r q) (c # s) \<longleftrightarrow>
     (\<exists>a b. s = a @ b \<and> in_lang r (c # a) \<and> in_lang q b) \<or> (in_lang r [] \<and> in_lang q (c # s))"
proof
  assume "in_lang (Seq r q) (c # s)"
  then obtain x y where xy: "c # s = x @ y" "in_lang r x" "in_lang q y"
    by (auto simp: in_lang_Seq)
  then show "(\<exists>a b. s = a @ b \<and> in_lang r (c # a) \<and> in_lang q b) \<or> (in_lang r [] \<and> in_lang q (c # s))"
    by (cases x) auto
next
  assume "(\<exists>a b. s = a @ b \<and> in_lang r (c # a) \<and> in_lang q b) \<or> (in_lang r [] \<and> in_lang q (c # s))"
  then show "in_lang (Seq r q) (c # s)"
    using in_lang.seq [of r "[]" q "c # s"] by (auto dest: in_lang.seq)
qed

lemma in_lang_deriv: "in_lang (deriv c r) s \<longleftrightarrow> in_lang r (c # s)"
proof (induction r arbitrary: s)
  case (Seq r q)
  then show ?case by (auto simp: seq_Cons_iff nullable_iff in_lang_Seq [of "deriv c r"])
next
  case (Star r)
  then show ?case by (auto simp: star_Cons_iff in_lang_Seq [of "deriv c r"])
qed auto

theorem matches_iff: "matches r s \<longleftrightarrow> in_lang r s"
  by (induction r s rule: matches.induct) (simp_all add: nullable_iff in_lang_deriv)

section \<open>Counted repetition and words\<close>

fun times :: "nat \<Rightarrow> rx \<Rightarrow> rx" where
  "times 0 r = Eps"
| "times (Suc n) r = Seq r (times n r)"

definition opt :: "rx \<Rightarrow> rx" where
  "opt r = Alt Eps r"

definition plus :: "rx \<Rightarrow> rx" where
  "plus r = Seq r (Star r)"

text \<open>\<open>r{m,n}\<close>.\<close>

definition between :: "nat \<Rightarrow> nat \<Rightarrow> rx \<Rightarrow> rx" where
  "between m n r = Seq (times m r) (times (n - m) (opt r))"

lemma in_lang_cls_Seq [simp]:
  "in_lang (Seq (Cls rs) q) s \<longleftrightarrow> (\<exists>c t. s = c # t \<and> in_cls rs c \<and> in_lang q t)"
  by (auto simp: in_lang_Seq) (metis append_Cons append_Nil)

lemma in_lang_opt_Seq [simp]:
  "in_lang (Seq (opt r) q) s \<longleftrightarrow> in_lang q s \<or> in_lang (Seq r q) s"
  by (auto simp: opt_def in_lang_Seq)

lemma in_lang_opt [simp]: "in_lang (opt r) s \<longleftrightarrow> s = [] \<or> in_lang r s"
  by (simp add: opt_def)

lemma in_lang_Seq_assoc: "in_lang (Seq (Seq r q) p) s \<longleftrightarrow> in_lang (Seq r (Seq q p)) s"
  by (auto simp: in_lang_Seq) (metis append_assoc)+

lemma in_lang_Eps_Seq [simp]: "in_lang (Seq Eps q) s \<longleftrightarrow> in_lang q s"
  by (auto simp: in_lang_Seq)

lemma in_lang_Seq_Eps [simp]: "in_lang (Seq r Eps) s \<longleftrightarrow> in_lang r s"
  by (auto simp: in_lang_Seq)

lemma in_lang_star_cls: "in_lang (Star (Cls rs)) s \<longleftrightarrow> list_all (in_cls rs) s"
proof (induction s)
  case Nil
  show ?case by (simp add: star0)
next
  case (Cons c s)
  then show ?case by (auto simp: star_Cons_iff)
qed

lemma in_lang_plus_cls: "in_lang (plus (Cls rs)) s \<longleftrightarrow> s \<noteq> [] \<and> list_all (in_cls rs) s"
  by (cases s) (auto simp: plus_def in_lang_star_cls)

section \<open>Anchors with the \<open>m\<close> flag\<close>

text \<open>
  With the flag \<open>m\<close>, \<open>^\<close> and \<open>$\<close> also match at the ends of a line, so \<open>/^r$/m.test(s)\<close> asks whether some
  line of \<open>s\<close> matches (an expression whose classes hold no line end cannot cross one).
\<close>

fun js_lines :: "string \<Rightarrow> string list" where
  "js_lines [] = [[]]"
| "js_lines (c # s) =
     (if of_char c = (10 :: nat) \<or> of_char c = (13 :: nat) then [] # js_lines s
      else (case js_lines s of [] \<Rightarrow> [[c]] | l # ls \<Rightarrow> (c # l) # ls))"

definition test_lines :: "rx \<Rightarrow> string \<Rightarrow> bool" where
  "test_lines r s \<longleftrightarrow> list_ex (matches r) (js_lines s)"

lemma js_lines_single:
  "one_line s \<Longrightarrow> js_lines s = [s]"
  by (induction s) (auto simp: one_line_def)

lemma test_lines_single:
  assumes "one_line s"
  shows "test_lines r s \<longleftrightarrow> in_lang r s"
  using assms by (simp add: test_lines_def js_lines_single matches_iff)

section \<open>Classes of the source\<close>

definition rx_char :: "char \<Rightarrow> rx" where
  "rx_char c = Cls [(of_char c, of_char c)]"

fun rx_word :: "string \<Rightarrow> rx" where
  "rx_word [] = Eps"
| "rx_word (c # s) = Seq (rx_char c) (rx_word s)"

definition digits :: "nat \<Rightarrow> nat \<Rightarrow> rx" where
  "digits lo hi = Cls [(48 + lo, 48 + hi)]"

lemma in_cls_char [simp]: "in_cls [(of_char c, of_char c)] d \<longleftrightarrow> d = c"
proof -
  have "of_char c \<le> (of_char d :: nat) \<and> of_char d \<le> (of_char c :: nat) \<longleftrightarrow> d = c"
    by (metis antisym of_char_eq_iff order_refl)
  then show ?thesis by (simp add: in_cls_def)
qed

lemma in_lang_word: "in_lang (rx_word w) s \<longleftrightarrow> s = w"
  by (induction w arbitrary: s) (auto simp: rx_char_def)

lemma in_cls_digits:
  assumes "hi \<le> 9"
  shows "in_cls [(48 + lo, 48 + hi)] c \<longleftrightarrow> is_digit c \<and> lo \<le> digit_value c \<and> digit_value c \<le> hi"
  using assms by (auto simp: in_cls_def is_digit_def digit_value_def)

lemma in_lang_digits [simp]:
  assumes "hi \<le> 9"
  shows "in_lang (digits lo hi) s \<longleftrightarrow>
    (\<exists>c. s = [c] \<and> is_digit c \<and> lo \<le> digit_value c \<and> digit_value c \<le> hi)"
  using in_cls_digits [OF assms] by (auto simp: digits_def)

lemma in_lang_digits_Seq [simp]:
  assumes "hi \<le> 9"
  shows "in_lang (Seq (digits lo hi) q) s \<longleftrightarrow>
    (\<exists>c t. s = c # t \<and> is_digit c \<and> lo \<le> digit_value c \<and> digit_value c \<le> hi \<and> in_lang q t)"
  using in_cls_digits [OF assms] by (auto simp: digits_def)

lemma times_numeral: "times (numeral k) r = Seq r (times (pred_numeral k) r)"
  by (simp add: numeral_eq_Suc)

section \<open>Matching with priorities, and replacing every match\<close>

text \<open>
  A search takes the first way to match in the order of the alternatives, a repetition taking as many
  rounds as it can. \<open>rests r s\<close> lists what is left of \<open>s\<close> after each way to match a prefix of it, the
  preferred way first; a round of a repetition that consumes nothing ends it.
\<close>

fun rounds :: "(string \<Rightarrow> string list) \<Rightarrow> nat \<Rightarrow> string \<Rightarrow> string list" where
  "rounds f 0 s = [s]"
| "rounds f (Suc n) s = concat (map (rounds f n) (filter (\<lambda>t. length t < length s) (f s))) @ [s]"

primrec rests :: "rx \<Rightarrow> string \<Rightarrow> string list" where
  "rests Eps s = [s]"
| "rests (Cls rs) s = (case s of [] \<Rightarrow> [] | c # t \<Rightarrow> if in_cls rs c then [t] else [])"
| "rests (Alt r q) s = rests r s @ rests q s"
| "rests (Seq r q) s = concat (map (rests q) (rests r s))"
| "rests (Star r) s = rounds (rests r) (length s) s"
| "rests Fail s = []"

lemma rounds_sound:
  assumes "t \<in> set (rounds f n s)" and "\<And>s t. t \<in> set (f s) \<Longrightarrow> \<exists>u. s = u @ t \<and> in_lang r u"
  shows "\<exists>u. s = u @ t \<and> in_lang (Star r) u"
  using assms(1)
proof (induction n arbitrary: s)
  case (Suc n)
  show ?case
  proof (cases "t = s")
    case False
    with Suc.prems obtain w where w: "w \<in> set (f s)" "t \<in> set (rounds f n w)" by auto
    from assms(2) [OF w(1)] Suc.IH [OF w(2)] obtain a b
      where "s = a @ w" "in_lang r a" "w = b @ t" "in_lang (Star r) b" by blast
    then have "s = (a @ b) @ t \<and> in_lang (Star r) (a @ b)" by (simp add: star1)
    then show ?thesis by blast
  qed (auto intro: star0 exI [of _ "[]"])
qed (auto intro: star0)

text \<open>Whatever the search finds is a word of the expression.\<close>

lemma rests_sound: "t \<in> set (rests r s) \<Longrightarrow> \<exists>u. s = u @ t \<and> in_lang r u"
proof (induction r arbitrary: s t)
  case (Cls rs)
  then show ?case by (cases s) (auto split: if_splits)
next
  case (Alt r q)
  then show ?case by fastforce
next
  case (Seq r q)
  then obtain w where "w \<in> set (rests r s)" "t \<in> set (rests q w)" by auto
  with Seq.IH obtain a b where "s = a @ w" "in_lang r a" "w = b @ t" "in_lang q b" by blast
  then have "s = (a @ b) @ t \<and> in_lang (Seq r q) (a @ b)" by (simp add: in_lang.seq)
  then show ?case by blast
next
  case (Star r)
  then show ?case using rounds_sound [of t "rests r" "length s" s r] by auto
qed simp_all

text \<open>And a word of the expression is found.\<close>

lemma rounds_complete:
  assumes "in_lang (Star r) u" and "\<And>u t. in_lang r u \<Longrightarrow> t \<in> set (f (u @ t))" and "length u \<le> n"
  shows "t \<in> set (rounds f n (u @ t))"
  using assms(1,3)
proof (induction u arbitrary: n rule: length_induct)
  case (1 u)
  show ?case
  proof (cases u)
    case Nil
    then show ?thesis by (cases n) simp_all
  next
    case (Cons c v)
    with 1 obtain m where n: "n = Suc m" by (cases n) auto
    from star_Cons [OF "1.prems"(1) Cons] obtain a b
      where ab: "v = a @ b" "in_lang r (c # a)" "in_lang (Star r) b" by blast
    from "1.IH" ab Cons "1.prems"(2) n have "t \<in> set (rounds f m (b @ t))" by simp
    moreover have "b @ t \<in> set (f (u @ t))" using assms(2) [OF ab(2), of "b @ t"] ab(1) Cons by simp
    ultimately show ?thesis using n ab Cons by auto
  qed
qed

lemma rests_complete: "in_lang r u \<Longrightarrow> t \<in> set (rests r (u @ t))"
proof (induction r arbitrary: u t)
  case (Seq r q)
  then obtain a b where "u = a @ b" "in_lang r a" "in_lang q b" by (auto simp: in_lang_Seq)
  with Seq.IH show ?case by fastforce
next
  case (Star r)
  then show ?case using rounds_complete [of r u "rests r" "length (u @ t)" t] by simp
qed auto

text \<open>\<open>s.replace(/r/g, p)\<close>: every match from the left; an expression that matches the empty text is not used.\<close>

function replace_all :: "rx \<Rightarrow> string \<Rightarrow> string \<Rightarrow> string" where
  "replace_all r p s =
     (case s of
        [] \<Rightarrow> []
      | c # cs \<Rightarrow>
          (case rests r s of
             [] \<Rightarrow> c # replace_all r p cs
           | t # ts \<Rightarrow> if length t < length s then p @ replace_all r p t else c # replace_all r p cs))"
  by pat_completeness auto
termination by (relation "measure (\<lambda>(r, p, s). length s)") auto

declare replace_all.simps [simp del]

lemma replace_all_Nil [simp]: "replace_all r p [] = []"
  by (simp add: replace_all.simps)

lemma replace_all_skip: "rests r (c # s) = [] \<Longrightarrow> replace_all r p (c # s) = c # replace_all r p s"
  by (subst replace_all.simps) simp

text \<open>A text none of whose characters can begin a match is left as it is.\<close>

lemma replace_all_id:
  assumes "\<forall>c \<in> set s. \<forall>t. rests r (c # t) = []"
  shows "replace_all r p s = s"
  using assms by (induction s) (simp_all add: replace_all_skip)

text \<open>Removing every match leaves a subsequence.\<close>

lemma set_replace_all: "set (replace_all r [] s) \<subseteq> set s"
proof (induction r "[] :: string" s rule: replace_all.induct)
  case (1 r s)
  show ?case
  proof (cases s)
    case (Cons c cs)
    show ?thesis
    proof (cases "rests r s")
      case Nil
      have "set (replace_all r [] cs) \<subseteq> set cs" using "1.hyps"(1) [OF Cons Nil] .
      moreover have "replace_all r [] s = c # replace_all r [] cs" using Nil Cons by (simp add: replace_all_skip)
      ultimately show ?thesis using Cons by auto
    next
      case (Cons t ts)
      then obtain u where u: "s = u @ t" using rests_sound [of t r s] by auto
      have IH1: "length t < length s \<Longrightarrow> set (replace_all r [] t) \<subseteq> set t"
        using "1.hyps"(2) [OF \<open>s = c # cs\<close> Cons] by simp
      have IH2: "\<not> length t < length s \<Longrightarrow> set (replace_all r [] cs) \<subseteq> set cs"
        using "1.hyps"(3) [OF \<open>s = c # cs\<close> Cons] by simp
      have step: "replace_all r [] s = (if length t < length s then replace_all r [] t else c # replace_all r [] cs)"
        using Cons \<open>s = c # cs\<close> by (subst replace_all.simps) simp
      show ?thesis
      proof (cases "length t < length s")
        case True
        have "set t \<subseteq> set s" by (subst u) simp
        with IH1 [OF True] True step show ?thesis by auto
      next
        case False
        with IH2 step \<open>s = c # cs\<close> show ?thesis by auto
      qed
    qed
  qed simp
qed

end
