(* ===== verification/DockerHelpers.thy ===== *)
theory DockerHelpers
  imports DockerFilters JsRegex
begin

text \<open>
  The small helpers of the Docker and Portainer modules: labels, volumes, secrets and configs of services,
  tasks, the mode of the endpoint, image names, subnets of networks, endpoints, webhooks, and the check of a
  compose file against the names of the running containers.
\<close>

section \<open>Labels, volumes and tasks\<close>

definition fromLabelHashToKeyValue :: "string obj option \<Rightarrow> label_row list" where
  "fromLabelHashToKeyValue labels = label_rows labels"

definition fromKeyValueToLabelHash :: "'a label_scheme list option \<Rightarrow> string obj" where
  "fromKeyValueToLabelHash kv = (case kv of
       None \<Rightarrow> []
     | Some ls \<Rightarrow> fold (\<lambda>l ob. if label_key l \<noteq> [] then obj_set ob (label_key l) (label_value l) else ob) ls [])"

record driver_option =
  do_name :: string
  do_value :: string

definition createDriverOptions :: "driver_option list \<Rightarrow> string obj" where
  "createDriverOptions opts = fold (\<lambda>d ob. obj_set ob (do_name d) (do_value d)) opts []"

text \<open>A service is the list of the sources of its mounts.\<close>

definition isVolumeUsedByAService :: "string \<Rightarrow> string list list \<Rightarrow> bool" where
  "isVolumeUsedByAService volume_Id services = list_ex (list_ex (\<lambda>src. src = volume_Id)) services"

record 'c container_task =
  ct_ContainerId :: "string option"
  ct_Container :: "'c option"

definition associateContainerToTask :: "('c \<Rightarrow> string) \<Rightarrow> 'c container_task \<Rightarrow> 'c list \<Rightarrow> 'c container_task" where
  "associateContainerToTask cid t containers =
     (case List.find (\<lambda>c. ct_ContainerId t = Some (cid c)) containers of
        None \<Rightarrow> t | Some c \<Rightarrow> t\<lparr>ct_Container := Some c\<rparr>)"

definition nodeToConfig :: "raw_node \<Rightarrow> string option \<times> string \<times> string obj option \<times> string" where
  "nodeToConfig node = (raw_Spec_Name node, raw_Spec_Role node, raw_Spec_Labels node, raw_Spec_Availability node)"

section \<open>Secrets and configs of a service\<close>

record file_target =
  ft_Name :: "string option"
  ft_UID :: "string option"
  ft_GID :: "string option"
  ft_Mode :: "nat option"

record file_ref =
  fr_ID :: string
  fr_RefName :: string
  fr_File :: file_target

record flat_file =
  fl_Id :: string
  fl_Name :: string
  fl_FileName :: "string option"
  fl_Uid :: "string option"
  fl_Gid :: "string option"
  fl_Mode :: "nat option"

text \<open>A missing argument gives an empty object.\<close>

definition flattenSecret :: "file_ref option \<Rightarrow> flat_file option" where
  "flattenSecret secret = map_option (\<lambda>s. \<lparr>fl_Id = fr_ID s, fl_Name = fr_RefName s,
     fl_FileName = ft_Name (fr_File s), fl_Uid = ft_UID (fr_File s), fl_Gid = ft_GID (fr_File s),
     fl_Mode = ft_Mode (fr_File s)\<rparr>) secret"

definition flattenConfig :: "file_ref option \<Rightarrow> flat_file option" where
  "flattenConfig config = map_option (\<lambda>c. \<lparr>fl_Id = fr_ID c, fl_Name = fr_RefName c,
     fl_FileName = ft_Name (fr_File c), fl_Uid = ft_UID (fr_File c), fl_Gid = ft_GID (fr_File c),
     fl_Mode = ft_Mode (fr_File c)\<rparr>) config"

definition or_mode :: "nat option \<Rightarrow> nat \<Rightarrow> nat" where
  "or_mode m d = (case m of None \<Rightarrow> d | Some n \<Rightarrow> if n = 0 then d else n)"

definition secretConfig :: "flat_file option \<Rightarrow> file_ref option" where
  "secretConfig secret = map_option (\<lambda>s. \<lparr>fr_ID = fl_Id s, fr_RefName = fl_Name s,
     fr_File = \<lparr>ft_Name = fl_FileName s, ft_UID = Some (or_str (fl_Uid s) ''0''),
       ft_GID = Some (or_str (fl_Gid s) ''0''), ft_Mode = Some (or_mode (fl_Mode s) 444)\<rparr>\<rparr>) secret"

definition configConfig :: "flat_file option \<Rightarrow> file_ref option" where
  "configConfig config = map_option (\<lambda>c. \<lparr>fr_ID = fl_Id c, fr_RefName = fl_Name c,
     fr_File = \<lparr>ft_Name = or_opt (fl_FileName c) (Some (fl_Name c)), ft_UID = Some (or_str (fl_Uid c) ''0''),
       ft_GID = Some (or_str (fl_Gid c) ''0''), ft_Mode = Some (or_mode (fl_Mode c) 292)\<rparr>\<rparr>) config"

section \<open>The mode of an endpoint\<close>

record swarm_info =
  si_NodeID :: "string option"
  si_ControlAvailable :: bool

record endpoint_mode =
  em_provider :: string
  em_role :: string
  em_agentProxy :: bool

definition determineEndpointMode :: "swarm_info option \<Rightarrow> nat \<Rightarrow> endpoint_mode" where
  "determineEndpointMode swarm type =
     (let agent = (type = 2 \<or> type = 4)
      in case swarm of
           None \<Rightarrow> \<lparr>em_provider = ''DOCKER_STANDALONE'', em_role = [], em_agentProxy = agent\<rparr>
         | Some s \<Rightarrow>
             if \<not> truthy_str (si_NodeID s) then \<lparr>em_provider = ''DOCKER_STANDALONE'', em_role = [], em_agentProxy = agent\<rparr>
             else \<lparr>em_provider = ''DOCKER_SWARM_MODE'',
                   em_role = (if si_ControlAvailable s then ''MANAGER'' else ''WORKER''), em_agentProxy = agent\<rparr>)"

section \<open>Images and registries\<close>

datatype registry_type = ANONYMOUS | QUAY | AZURE | CUSTOM | GITLAB | PROGET | DOCKERHUB

fun RegistryTypes :: "registry_type \<Rightarrow> nat" where
  "RegistryTypes ANONYMOUS = 0"
| "RegistryTypes QUAY = 1"
| "RegistryTypes AZURE = 2"
| "RegistryTypes CUSTOM = 3"
| "RegistryTypes GITLAB = 4"
| "RegistryTypes PROGET = 5"
| "RegistryTypes DOCKERHUB = 6"

record registry =
  reg_Type :: registry_type
  reg_URL :: string
  reg_Username :: string
  reg_ProjectPath :: string
  reg_UseOrganisation :: bool
  reg_OrganisationName :: string

record image_model =
  im_UseRegistry :: bool
  im_Registry :: registry
  im_Image :: string

definition full_image_name :: "image_model \<Rightarrow> string" where
  "full_image_name m =
     (let r = im_Registry m; img = im_Image m in
      case reg_Type r of
        GITLAB \<Rightarrow> reg_URL r @ ''/'' @ reg_ProjectPath r @ (if starts_with img '':'' then [] else ''/'') @ img
      | ANONYMOUS \<Rightarrow> img
      | QUAY \<Rightarrow> (if reg_URL r \<noteq> [] then reg_URL r @ ''/'' else []) @
          (if reg_UseOrganisation r then reg_OrganisationName r else reg_Username r) @ ''/'' @ img
      | _ \<Rightarrow> reg_URL r @ ''/'' @ img)"

definition buildImageFullURI :: "image_model \<Rightarrow> string" where
  "buildImageFullURI m =
     (if \<not> im_UseRegistry m then im_Image m
      else if CHR '':'' \<notin> set (im_Image m) then full_image_name m @ '':latest'' else full_image_name m)"

definition createImageConfigForContainer :: "image_model \<Rightarrow> string" where
  "createImageConfigForContainer m = buildImageFullURI m"

text \<open>\<open>/^(?![.-])([a-zA-Z0-9_.-])+$/\<close>: the lookahead excludes a first dot or dash.\<close>

definition tag_class :: "(nat \<times> nat) list" where
  "tag_class = [(97, 122), (65, 90), (48, 57), (95, 95), (46, 46), (45, 45)]"

definition isValidTag :: "string \<Rightarrow> bool" where
  "isValidTag tag \<longleftrightarrow>
     \<not> starts_with tag ''.'' \<and> \<not> starts_with tag ''-'' \<and> matches (plus (Cls tag_class)) tag"

record tagged_image =
  ti_Id :: string
  ti_RepoTags :: "string list"

definition getImagesNamesForDownload :: "tagged_image list \<Rightarrow> string option list" where
  "getImagesNamesForDownload images =
     map (\<lambda>i. if elem_at (ti_RepoTags i) 0 \<noteq> Some ''<none>:<none>'' then elem_at (ti_RepoTags i) 0
              else Some (ti_Id i)) images"

definition imageContainsURL :: "string \<Rightarrow> bool" where
  "imageContainsURL img =
     (let parts = split_char (CHR ''/'') img
      in length parts > 1 \<and> (CHR ''.'' \<in> set (hd parts) \<or> CHR '':'' \<in> set (hd parts)))"

definition removeDigestFromRepository :: "string \<Rightarrow> string" where
  "removeDigestFromRepository repository = hd (split_sub ''@sha'' repository)"

section \<open>Networks\<close>

text \<open>\<open>/^([0-9]{1,3}\.){3}[0-9]{1,3}(\/([0-9]|[1-2][0-9]|3[0-2]))?$/\<close>.\<close>

definition ipv4Pattern :: rx where
  "ipv4Pattern =
     (let byte = between 1 3 (digits 0 9); bits = Alt (digits 0 9) (Alt (Seq (digits 1 2) (digits 0 9))
            (Seq (rx_char (CHR ''3'')) (digits 0 2)))
      in Seq (times 3 (Seq byte (rx_char (CHR ''.'')))) (Seq byte (opt (Seq (rx_char (CHR ''/'')) bits))))"

text \<open>A configuration is its subnet, the text \<open>undefined\<close> where it has none.\<close>

definition getIPV4Configs :: "('c \<Rightarrow> string option) \<Rightarrow> 'c list \<Rightarrow> 'c list" where
  "getIPV4Configs Subnet configs =
     filter (\<lambda>c. matches ipv4Pattern (case Subnet c of None \<Rightarrow> ''undefined'' | Some s \<Rightarrow> s)) configs"

definition getIPV6Configs :: "('c \<Rightarrow> string option) \<Rightarrow> 'c list \<Rightarrow> 'c list" where
  "getIPV6Configs Subnet configs = filter (\<lambda>c. c \<notin> set (getIPV4Configs Subnet configs)) configs"

section \<open>Endpoints, webhooks, tags and users\<close>

record endpoint =
  ep_URL :: string
  ep_Type :: nat
  ep_GroupId :: nat
  ep_GroupName :: "string option"

definition isLocalEndpoint :: "endpoint \<Rightarrow> bool" where
  "isLocalEndpoint e \<longleftrightarrow> contains (ep_URL e) ''unix://'' \<or> contains (ep_URL e) ''npipe://'' \<or> ep_Type e = 5"

definition isAgentEndpoint :: "endpoint \<Rightarrow> bool" where
  "isAgentEndpoint e \<longleftrightarrow> includes_elem [2, 4, 6, 7] (ep_Type e)"

definition mapGroupNameToEndpoint :: "endpoint list \<Rightarrow> (nat \<times> string) list \<Rightarrow> endpoint list" where
  "mapGroupNameToEndpoint endpoints groups =
     map (\<lambda>e. case List.find (\<lambda>g. fst g = ep_GroupId e) groups of
        None \<Rightarrow> e | Some g \<Rightarrow> e\<lparr>ep_GroupName := Some (snd g)\<rparr>) endpoints"

record location =
  loc_protocol :: string
  loc_host :: string
  loc_port :: nat

definition returnWebhookUrl :: "string \<Rightarrow> location \<Rightarrow> string \<Rightarrow> string" where
  "returnWebhookUrl api l token =
     (let p = to_lower (loc_protocol l);
          displayPort = (if p = ''http'' \<and> loc_port l = 80 \<or> p = ''https'' \<and> loc_port l = 443 then []
                         else '':'' @ show_nat (loc_port l))
      in loc_protocol l @ ''://'' @ loc_host l @ displayPort @ ''/'' @ api @ ''/'' @ token)"

definition idsToTagNames :: "(nat \<times> string) list \<Rightarrow> nat list \<Rightarrow> string list" where
  "idsToTagNames tags ids = map snd (filter (\<lambda>t. includes_elem ids (fst t)) tags)"

definition filterNonAdministratorUsers :: "('u \<Rightarrow> nat) \<Rightarrow> 'u list \<Rightarrow> 'u list" where
  "filterNonAdministratorUsers Role users = filter (\<lambda>u. Role u \<noteq> 1) users"

text \<open>The loop of \<open>removeInvalidEnvVars\<close> runs from the end and splices the invalid rows.\<close>

fun remove_invalid :: "(string \<times> string) list \<Rightarrow> nat \<Rightarrow> (string \<times> string) list" where
  "remove_invalid env 0 = env"
| "remove_invalid env (Suc i) =
     remove_invalid (if fst (env ! i) = [] \<or> snd (env ! i) = [] then remove_at i env else env) i"

definition removeInvalidEnvVars :: "(string \<times> string) list \<Rightarrow> (string \<times> string) list" where
  "removeInvalidEnvVars env = remove_invalid env (length env)"

text \<open>The query string of the page as an object; a parameter without \<open>=\<close> has the value \<open>undefined\<close>.\<close>

definition extractParameters :: "string \<Rightarrow> string option obj" where
  "extractParameters search =
     (let query = (case find_sub search ''?'' of None \<Rightarrow> search | Some i \<Rightarrow> drop (i + 1) search)
      in fold (\<lambda>kv acc. let p = split_char (CHR ''='') kv in obj_set acc (hd p) (elem_at p 1))
           (split_char (CHR ''&'') query) [])"

definition getParameter :: "string \<Rightarrow> string \<Rightarrow> string option" where
  "getParameter search param = (case obj_get (extractParameters search) param of None \<Rightarrow> None | Some v \<Rightarrow> v)"

section \<open>Compose files\<close>

text \<open>
  lodash iterates over an object with a numeric \<open>length\<close> as over an array: only its indices below the length
  are visited, with numbers for keys.
\<close>

definition array_like :: "(string \<times> json) list \<Rightarrow> nat option" where
  "array_like kvs = (case map_of kvs ''length'' of Some (JNum n) \<Rightarrow> if 0 \<le> n then Some (nat n) else None | _ \<Rightarrow> None)"

definition visited :: "nat option \<Rightarrow> string \<Rightarrow> bool" where
  "visited len k = (case len of None \<Rightarrow> True | Some n \<Rightarrow> is_array_index k \<and> digits_value k < n)"

fun findDeepAll :: "string \<Rightarrow> json \<Rightarrow> json list" where
  "findDeepAll target (JObj kvs) =
     (let len = array_like kvs
      in concat (map (\<lambda>(k, child). if visited len k
           then (if len = None \<and> k = target then [child] else []) @ findDeepAll target child else []) kvs))"
| "findDeepAll target (JArr xs) = concat (map (findDeepAll target) xs)"
| "findDeepAll target _ = []"

text \<open>
  \<open>parse\<close> stands for \<open>YAML.parse\<close> of the yaml package: the text of its error, or the value of the document.
\<close>

definition validateYAML :: "(string \<Rightarrow> string + json) \<Rightarrow> string \<Rightarrow> string list \<Rightarrow> string option" where
  "validateYAML parse yaml containerNames =
     (case parse yaml of
        Inl err \<Rightarrow> Some (''There is an error in the yaml syntax: '' @ err)
      | Inr doc \<Rightarrow>
          (let names = uniq (findDeepAll ''container_name'' doc);
               duplicates = filter (\<lambda>n. JStr n \<in> set names) (uniq containerNames)
           in if length duplicates = 0 then None
              else Some ((if length duplicates = 1 then ''This container name is'' else ''These container names are'') @
                '' already used by another container running in this environment: '' @
                join '', '' duplicates @ ''.'')))"

record external_stack =
  es_Name :: string
  es_Type :: nat
  es_CreationDate :: nat

record labelled_item =
  li_Labels :: "string obj option"
  li_Created :: nat

definition stack_label :: "string \<Rightarrow> labelled_item \<Rightarrow> string option" where
  "stack_label label item = (case li_Labels item of None \<Rightarrow> None | Some ob \<Rightarrow> obj_get ob label)"

definition getExternalStacksFromLabel :: "labelled_item list \<Rightarrow> string \<Rightarrow> nat \<Rightarrow> external_stack list" where
  "getExternalStacksFromLabel items label type =
     uniq_by es_Name (map (\<lambda>i. \<lparr>es_Name = the (stack_label label i), es_Type = type, es_CreationDate = li_Created i\<rparr>)
       (filter (\<lambda>i. truthy_str (stack_label label i)) items))"

definition getExternalStacksFromContainers :: "labelled_item list \<Rightarrow> external_stack list" where
  "getExternalStacksFromContainers containers =
     getExternalStacksFromLabel containers ''com.docker.compose.project'' 2"

definition getExternalStacksFromServices :: "labelled_item list \<Rightarrow> external_stack list" where
  "getExternalStacksFromServices services =
     getExternalStacksFromLabel services ''com.docker.stack.namespace'' 1"

section \<open>Where a key occurs in a document\<close>

inductive occurs :: "string \<Rightarrow> json \<Rightarrow> json \<Rightarrow> bool" where
  here: "(t, c) \<in> set kvs \<Longrightarrow> array_like kvs = None \<Longrightarrow> occurs t (JObj kvs) c"
| in_obj: "(k, d) \<in> set kvs \<Longrightarrow> visited (array_like kvs) k \<Longrightarrow> occurs t d c \<Longrightarrow> occurs t (JObj kvs) c"
| in_arr: "d \<in> set xs \<Longrightarrow> occurs t d c \<Longrightarrow> occurs t (JArr xs) c"

inductive_simps occurs_JObj: "occurs t (JObj kvs) c"
inductive_simps occurs_JArr: "occurs t (JArr xs) c"
inductive_cases occursE [elim!]: "occurs t JNull c" "occurs t (JBool b) c" "occurs t (JNum n) c" "occurs t (JStr s) c"

lemma visited_None [simp]: "visited None k"
  by (simp add: visited_def)

lemma findDeepAll_sound: "c \<in> set (findDeepAll t j) \<Longrightarrow> occurs t j c"
proof (induction t j rule: findDeepAll.induct)
  case (1 t kvs)
  from "1.prems" obtain k d where kd: "(k, d) \<in> set kvs" "visited (array_like kvs) k"
    "c \<in> set ((if array_like kvs = None \<and> k = t then [d] else []) @ findDeepAll t d)"
    by (auto simp: Let_def split: if_splits)
  show ?case
  proof (cases "c \<in> set (findDeepAll t d)")
    case True
    with "1.IH" kd have "occurs t d c" by auto
    with kd show ?thesis by (auto intro: in_obj)
  next
    case False
    with kd show ?thesis by (auto intro: here split: if_splits)
  qed
next
  case (2 t xs)
  then show ?case by (auto intro: in_arr)
qed auto

lemma findDeepAll_complete: "occurs t j c \<Longrightarrow> c \<in> set (findDeepAll t j)"
proof (induction rule: occurs.induct)
  case (here t c kvs)
  then show ?case by (force simp: Let_def)
next
  case (in_obj k d kvs t c)
  then show ?case by (force simp: Let_def)
qed auto

section \<open>Lemmas on labels and files\<close>

lemma image_uri_tag_removed:
  assumes "im_UseRegistry m" "CHR '':'' \<notin> set (im_Image m)"
  shows "trimversiontag (Some (buildImageFullURI m)) = Some (full_image_name m)"
  using trimversiontag_tag [of "''latest''" "full_image_name m"] assms by (simp add: buildImageFullURI_def)

lemma remove_invalid_prefix:
  "i \<le> length env \<Longrightarrow>
    remove_invalid env i = filter (\<lambda>e. fst e \<noteq> [] \<and> snd e \<noteq> []) (take i env) @ drop i env"
proof (induction i arbitrary: env)
  case (Suc i)
  then have i: "i < length env" by simp
  let ?bad = "fst (env ! i) = [] \<or> snd (env ! i) = []"
  show ?case
  proof (cases ?bad)
    case True
    have "remove_invalid (remove_at i env) i =
        filter (\<lambda>e. fst e \<noteq> [] \<and> snd e \<noteq> []) (take i (remove_at i env)) @ drop i (remove_at i env)"
      using i by (intro Suc.IH) (simp add: length_remove_at)
    moreover have "take i (remove_at i env) = take i env" "drop i (remove_at i env) = drop (Suc i) env"
      using i by (simp_all add: remove_at_def)
    ultimately show ?thesis using True i by (auto simp: take_Suc_conv_app_nth)
  next
    case False
    then show ?thesis
      using Suc.IH [of env] i by (simp add: take_Suc_conv_app_nth Cons_nth_drop_Suc)
  qed
qed simp

text \<open>The loop that splices while it runs backwards is a filter.\<close>

lemma removeInvalidEnvVars_filter:
  "removeInvalidEnvVars env = filter (\<lambda>e. fst e \<noteq> [] \<and> snd e \<noteq> []) env"
  by (simp add: removeInvalidEnvVars_def remove_invalid_prefix)

lemma ipv_partition:
  "set (getIPV4Configs S cs) \<union> set (getIPV6Configs S cs) = set cs \<and>
   set (getIPV4Configs S cs) \<inter> set (getIPV6Configs S cs) = {}"
  by (auto simp: getIPV6Configs_def getIPV4Configs_def)

lemma secret_round_trip:
  assumes "truthy_str (ft_UID (fr_File s))" "truthy_str (ft_GID (fr_File s))" "\<exists>n. ft_Mode (fr_File s) = Some n \<and> n \<noteq> 0"
  shows "secretConfig (flattenSecret (Some s)) = Some s"
  using assms by (auto simp: secretConfig_def flattenSecret_def or_str_def or_mode_def elim!: truthy_strE)

section \<open>Properties\<close>

text \<open>
  For a document that parses, the compose file is accepted exactly when no running container has a name
  that some \<open>container_name\<close> of the document gives, at whatever depth it stands.
\<close>

theorem compose_names_checked:
  assumes "parse yaml = Inr doc"
  shows "(validateYAML parse yaml containerNames = None) =
    (\<forall>n \<in> set containerNames. \<not> occurs ''container_name'' doc (JStr n))"
proof -
  have "JStr n \<in> set (findDeepAll ''container_name'' doc) \<longleftrightarrow> occurs ''container_name'' doc (JStr n)" for n
    using findDeepAll_sound findDeepAll_complete by blast
  then show ?thesis using assms by (auto simp: validateYAML_def Let_def filter_empty_conv)
qed

theorem compose_names_checked_witness:
  "validateYAML (\<lambda>y. Inr (JObj [(''services'', JObj [(''web'', JObj [(''container_name'', JStr ''nginx'')])])]))
     ''services: ...'' [''db'', ''nginx''] \<noteq> None"
proof -
  let ?doc = "JObj [(''services'', JObj [(''web'', JObj [(''container_name'', JStr ''nginx'')])])]"
  have "JStr ''nginx'' \<in> set (findDeepAll ''container_name'' ?doc)"
    by (simp add: array_like_def)
  then have "occurs ''container_name'' ?doc (JStr ''nginx'')" by (rule findDeepAll_sound)
  with compose_names_checked [of "\<lambda>y. Inr ?doc" "''services: ...''" ?doc "[''db'', ''nginx'']"]
  show ?thesis by simp
qed

end
