(* ===== verification/LogViewer.thy ===== *)
theory LogViewer
  imports JsRegex
begin

text \<open>
  \<open>app/docker/helpers/logHelper.js\<close>: the log viewer turns the raw log of a container into lines of styled
  spans. The tokenizer of ANSI sequences and the table of 256 colours are third-party packages and are
  parameters; the loop over the tokens, the removal of stream headers and of escape codes are modelled.
\<close>

section \<open>Tokens and colours\<close>

text \<open>
  A token of the tokenizer is a text, or a style with its type and the numbers that follow it in the array.
\<close>

datatype log_token = TextToken string | StyleToken string "nat list"

type_synonym rgb = "nat list"

definition foreground_types :: "string list" where
  "foreground_types =
     [''black'', ''red'', ''green'', ''yellow'', ''blue'', ''magenta'', ''cyan'', ''white'',
      ''brightBlack'', ''brightRed'', ''brightGreen'', ''brightYellow'', ''brightBlue'', ''brightMagenta'',
      ''brightCyan'', ''brightWhite'']"

definition background_types :: "string list" where
  "background_types =
     [''bgBlack'', ''bgRed'', ''bgGreen'', ''bgYellow'', ''bgBlue'', ''bgMagenta'', ''bgCyan'', ''bgWhite'',
      ''bgBrightBlack'', ''bgBrightRed'', ''bgBrightGreen'', ''bgBrightYellow'', ''bgBrightBlue'',
      ''bgBrightMagenta'', ''bgBrightCyan'', ''bgBrightWhite'']"

text \<open>\<open>colors i\<close> stands for \<open>x256.colors[i]\<close>, missing out of the table.\<close>

definition color_by_ansi :: "(nat \<Rightarrow> rgb option) \<Rightarrow> string list \<Rightarrow> string \<Rightarrow> rgb option" where
  "color_by_ansi colors types type =
     (let i = index_of types type in if i < 0 then None else colors (nat i))"

text \<open>A component that the array lacks is printed as \<open>undefined\<close>.\<close>

definition component_text :: "rgb \<Rightarrow> nat \<Rightarrow> string" where
  "component_text rgb i = (case elem_at rgb i of None \<Rightarrow> ''undefined'' | Some n \<Rightarrow> show_nat n)"

definition cssColorFromRgb :: "rgb \<Rightarrow> string" where
  "cssColorFromRgb rgb =
     ''rgb('' @ component_text rgb 0 @ '', '' @ component_text rgb 1 @ '', '' @ component_text rgb 2 @ '')''"

text \<open>The arguments are those after the type: \<open>token[1]\<close> is the first of them.\<close>

definition extendedColorForToken :: "(nat \<Rightarrow> rgb option) \<Rightarrow> nat list \<Rightarrow> string" where
  "extendedColorForToken colors args =
     (let mode = elem_at args 0;
          color = (case elem_at args 1 of None \<Rightarrow> None | Some n \<Rightarrow> colors n)
      in if mode = Some 2 then cssColorFromRgb (drop 1 args)
         else if mode = Some 5 \<and> color \<noteq> None then cssColorFromRgb (the color)
         else [])"

section \<open>Headers and escape codes\<close>

abbreviation newline :: char where
  "newline \<equiv> CHR 0x0A"

text \<open>\<open>.\<close> is any character but a line end; \<open>/\n(.{8})/g\<close> is replaced by a newline and a carriage return.\<close>

definition rx_dot :: rx where
  "rx_dot = Cls [(0, 9), (11, 12), (14, 255)]"

definition headerPattern :: rx where
  "headerPattern = Seq (rx_char newline) (times 8 rx_dot)"

definition stripHeaders :: "string \<Rightarrow> string" where
  "stripHeaders logs = replace_all headerPattern [newline, CHR 0x0D] (drop 8 logs)"

text \<open>\<open>r?\<close> and \<open>r{0,n}\<close>, which prefer to match.\<close>

fun up_to :: "nat \<Rightarrow> rx \<Rightarrow> rx" where
  "up_to 0 r = Eps"
| "up_to (Suc n) r = Alt (Seq r (up_to n r)) Eps"

definition escapePattern :: rx where
  "escapePattern =
     Seq (Cls [(27, 27), (155, 155)])
      (Seq (Star (Cls [(91, 91), (40, 41), (35, 35), (59, 59), (63, 63)]))
        (Seq (up_to 1 (Seq (Seq (digits 0 9) (up_to 3 (digits 0 9)))
                           (Star (Seq (rx_char (CHR '';'')) (up_to 4 (digits 0 9))))))
          (Cls [(48, 57), (65, 79), (82, 82), (90, 90), (99, 99), (102, 110), (113, 113), (114, 114),
                (121, 121), (61, 61), (62, 62), (60, 60)])))"

definition stripEscapeCodes :: "string \<Rightarrow> string" where
  "stripEscapeCodes logs = replace_all escapePattern [] logs"

section \<open>The loop over the tokens\<close>

record span =
  span_foreground :: "string option"
  span_background :: "string option"
  span_text :: string

record log_line =
  line_text :: string
  line_spans :: "span list"

record log_state =
  formattedLogs :: "log_line list"
  foregroundColor :: "string option"
  backgroundColor :: "string option"
  current_line :: string
  current_spans :: "span list"

definition push_line :: "log_state \<Rightarrow> log_state" where
  "push_line st = st\<lparr>formattedLogs := formattedLogs st @
       [\<lparr>line_text = current_line st, line_spans = current_spans st\<rparr>],
     current_line := [], current_spans := []\<rparr>"

definition add_text :: "string \<Rightarrow> log_state \<Rightarrow> log_state" where
  "add_text piece st =
     (let txt = stripEscapeCodes piece
      in st\<lparr>current_line := current_line st @ txt,
            current_spans := current_spans st @
              [\<lparr>span_foreground = foregroundColor st, span_background = backgroundColor st, span_text = txt\<rparr>]\<rparr>)"

definition break_and_add :: "string \<Rightarrow> log_state \<Rightarrow> log_state" where
  "break_and_add piece st = add_text piece (push_line st)"

definition text_token :: "string \<Rightarrow> log_state \<Rightarrow> log_state" where
  "text_token s st =
     (let ls = split_char newline s
      in fold break_and_add (tl ls) (add_text (hd ls) st))"

text \<open>The two colours after a token of style.\<close>

definition style_colors ::
    "(nat \<Rightarrow> rgb option) \<Rightarrow> string \<Rightarrow> nat list \<Rightarrow> string option \<times> string option \<Rightarrow> string option \<times> string option" where
  "style_colors colors type args fb =
     (case color_by_ansi colors foreground_types type of
        Some rgb \<Rightarrow> (Some (cssColorFromRgb rgb), snd fb)
      | None \<Rightarrow>
          if type = ''moreColor'' then (Some (extendedColorForToken colors args), snd fb)
          else if type = ''fgDefault'' then (None, snd fb)
          else (case color_by_ansi colors background_types type of
              Some rgb \<Rightarrow> (fst fb, Some (cssColorFromRgb rgb))
            | None \<Rightarrow>
                if type = ''bgMoreColor'' then (fst fb, Some (extendedColorForToken colors args))
                else if type = ''bgDefault'' then (fst fb, None)
                else if type = ''reset'' then (None, None)
                else fb))"

definition style_token :: "(nat \<Rightarrow> rgb option) \<Rightarrow> string \<Rightarrow> nat list \<Rightarrow> log_state \<Rightarrow> log_state" where
  "style_token colors type args st =
     (let fb = style_colors colors type args (foregroundColor st, backgroundColor st)
      in st\<lparr>foregroundColor := fst fb, backgroundColor := snd fb\<rparr>)"

fun log_step :: "(nat \<Rightarrow> rgb option) \<Rightarrow> log_token \<Rightarrow> log_state \<Rightarrow> log_state" where
  "log_step colors (TextToken s) st = text_token s st"
| "log_step colors (StyleToken type args) st = style_token colors type args st"

abbreviation log_start :: log_state where
  "log_start \<equiv> \<lparr>formattedLogs = [], foregroundColor = None, backgroundColor = None,
     current_line = [], current_spans = []\<rparr>"

definition format_tokens :: "(nat \<Rightarrow> rgb option) \<Rightarrow> log_token list \<Rightarrow> log_line list" where
  "format_tokens colors tokens =
     (let st = fold (log_step colors) tokens log_start
      in if current_line st \<noteq> [] then formattedLogs (push_line st) else formattedLogs st)"

definition formatLogs ::
    "(string \<Rightarrow> log_token list) \<Rightarrow> (nat \<Rightarrow> rgb option) \<Rightarrow> string \<Rightarrow> bool \<Rightarrow> log_line list" where
  "formatLogs tokenize colors logs skipHeaders =
     format_tokens colors (tokenize (if skipHeaders then stripHeaders logs else logs))"

section \<open>What is kept of the text\<close>

text \<open>The text of the tokens without escape codes, and the text the state of the loop holds.\<close>

definition visible_text :: "log_token list \<Rightarrow> string" where
  "visible_text tokens = concat (map (\<lambda>t. case t of
       TextToken s \<Rightarrow> join [newline] (map stripEscapeCodes (split_char newline s))
     | StyleToken type args \<Rightarrow> []) tokens)"

definition state_text :: "log_state \<Rightarrow> string" where
  "state_text st = join [newline] (map line_text (formattedLogs st) @ [current_line st])"

lemma join_snoc_append: "join sep (ws @ [w @ v]) = join sep (ws @ [w]) @ v"
proof (induction ws)
  case (Cons x ws)
  then show ?case by (simp add: join_Cons)
qed simp

lemma join_snoc_Nil: "join sep (ws @ [w, v]) = join sep (ws @ [w]) @ sep @ v"
proof (induction ws)
  case (Cons x ws)
  then show ?case by (simp add: join_Cons)
qed simp

lemma state_text_add [simp]: "state_text (add_text s st) = state_text st @ stripEscapeCodes s"
  by (simp add: state_text_def add_text_def Let_def join_snoc_append)

lemma state_text_push [simp]: "state_text (push_line st) = state_text st @ [newline]"
  by (simp add: state_text_def push_line_def join_snoc_Nil)

lemma state_text_pieces:
  "state_text (fold break_and_add ls st) =
     state_text st @ concat (map (\<lambda>l. [newline] @ stripEscapeCodes l) ls)"
  by (induction ls arbitrary: st) (simp_all add: break_and_add_def)

lemma join_newline_concat: "join sep (w # ws) = w @ concat (map (\<lambda>l. sep @ l) ws)"
  by (induction ws arbitrary: w) simp_all

lemma state_text_token:
  "state_text (text_token s st) = state_text st @ join [newline] (map stripEscapeCodes (split_char newline s))"
proof -
  obtain l ls where split: "split_char newline s = l # ls" by (cases "split_char newline s") auto
  show ?thesis by (simp add: text_token_def split state_text_pieces join_newline_concat comp_def)
qed

lemma style_token_same [simp]:
  "formattedLogs (style_token colors type args st) = formattedLogs st"
  "current_line (style_token colors type args st) = current_line st"
  "current_spans (style_token colors type args st) = current_spans st"
  by (simp_all add: style_token_def Let_def)

lemma state_text_style [simp]: "state_text (style_token colors type args st) = state_text st"
  by (simp add: state_text_def)

lemma visible_text_Cons:
  "visible_text (TextToken s # tokens) =
     join [newline] (map stripEscapeCodes (split_char newline s)) @ visible_text tokens"
  "visible_text (StyleToken type args # tokens) = visible_text tokens"
  by (simp_all add: visible_text_def)

lemma state_text_fold:
  "state_text (fold (log_step colors) tokens st) = state_text st @ visible_text tokens"
proof (induction tokens arbitrary: st)
  case Nil
  show ?case by (simp add: visible_text_def)
next
  case (Cons t tokens)
  show ?case by (cases t) (simp_all add: Cons.IH visible_text_Cons state_text_token)
qed

section \<open>Lines hold no newline and are the text of their spans\<close>

lemma stripEscapeCodes_subset: "set (stripEscapeCodes s) \<subseteq> set s"
  unfolding stripEscapeCodes_def by (rule set_replace_all)

definition line_ok :: "string \<Rightarrow> span list \<Rightarrow> bool" where
  "line_ok t ss \<longleftrightarrow> t = concat (map span_text ss) \<and> newline \<notin> set t"

definition log_ok :: "log_state \<Rightarrow> bool" where
  "log_ok st \<longleftrightarrow> line_ok (current_line st) (current_spans st) \<and>
     (\<forall>l \<in> set (formattedLogs st). line_ok (line_text l) (line_spans l))"

lemma line_ok_Nil [simp]: "line_ok [] []"
  by (simp add: line_ok_def)

lemma log_ok_push: "log_ok st \<Longrightarrow> log_ok (push_line st)"
  by (auto simp: log_ok_def push_line_def)

lemma log_ok_add: "log_ok st \<Longrightarrow> newline \<notin> set s \<Longrightarrow> log_ok (add_text s st)"
  using stripEscapeCodes_subset [of s] by (auto simp: log_ok_def add_text_def Let_def line_ok_def)

lemma log_ok_pieces:
  "log_ok st \<Longrightarrow> \<forall>l \<in> set ls. newline \<notin> set l \<Longrightarrow> log_ok (fold break_and_add ls st)"
  by (induction ls arbitrary: st) (simp_all add: log_ok_add log_ok_push break_and_add_def)

lemma log_ok_step: "log_ok st \<Longrightarrow> log_ok (log_step colors t st)"
proof (cases t)
  case (TextToken s)
  assume ok: "log_ok st"
  obtain l ls where split: "split_char newline s = l # ls" by (cases "split_char newline s") auto
  then have "\<forall>w \<in> set (l # ls). newline \<notin> set w" using split_char_pieces [of _ newline s] by auto
  then show ?thesis
    using ok TextToken split by (simp add: text_token_def log_ok_pieces log_ok_add)
qed (simp add: log_ok_def)

lemma log_ok_fold: "log_ok st \<Longrightarrow> log_ok (fold (log_step colors) tokens st)"
  by (induction tokens arbitrary: st) (simp_all add: log_ok_step)

lemma log_ok_start: "log_ok log_start"
  by (simp add: log_ok_def)

lemma format_tokens_ok:
  "l \<in> set (format_tokens colors tokens) \<Longrightarrow> line_ok (line_text l) (line_spans l)"
  using log_ok_push [OF log_ok_fold [OF log_ok_start, of colors tokens]]
    log_ok_fold [OF log_ok_start, of colors tokens]
  by (auto simp: format_tokens_def Let_def log_ok_def split: if_splits)

text \<open>The last line is dropped where it is empty.\<close>

lemma last_join: "newline \<notin> set w \<Longrightarrow> w \<noteq> [] \<Longrightarrow>
  join [newline] (ws @ [w]) \<noteq> [] \<and> last (join [newline] (ws @ [w])) \<noteq> newline"
proof (induction ws)
  case (Cons x ws)
  then show ?case by (simp add: join_Cons)
next
  case Nil
  then show ?case by (metis append_Nil join.simps(2) last_in_set)
qed

lemma last_join_empty: "join [newline] (ws @ [[]]) = [] \<or> last (join [newline] (ws @ [[]])) = newline"
proof (induction ws)
  case (Cons x ws)
  then show ?case by (auto simp: join_Cons)
qed simp

lemma text_without_codes:
  assumes "\<forall>c \<in> set s. of_char c \<noteq> (27 :: nat) \<and> of_char c \<noteq> (155 :: nat)"
  shows "stripEscapeCodes s = s"
proof -
  have skip: "rests (Seq (Cls rs) q) (c # t) = []" if "\<not> in_cls rs c" for rs q c t
    using that by simp
  have "\<not> in_cls [(27, 27), (155, 155)] c" if "c \<in> set s" for c
    using assms that by (auto simp: in_cls_def dest!: le_antisym)
  with skip show ?thesis
    unfolding stripEscapeCodes_def escapePattern_def by (intro replace_all_id ballI allI) blast
qed

section \<open>Properties\<close>

text \<open>
  The viewer loses no text: the lines joined by newlines are the text of the tokens without escape
  codes, except for an empty last line, which is left out.
\<close>

theorem log_text_kept:
  "join [newline] (map line_text (format_tokens colors tokens) @
      (if visible_text tokens = [] \<or> last (visible_text tokens) = newline then [[]] else []))
   = visible_text tokens"
proof -
  let ?st = "fold (log_step colors) tokens log_start"
  have whole: "state_text ?st = visible_text tokens"
    using state_text_fold [of colors tokens log_start] by (simp add: state_text_def)
  show ?thesis
  proof (cases "current_line ?st = []")
    case True
    then have "visible_text tokens = [] \<or> last (visible_text tokens) = newline"
      using last_join_empty [of "map line_text (formattedLogs ?st)"] whole by (simp add: state_text_def)
    with True whole show ?thesis by (simp add: format_tokens_def state_text_def)
  next
    case False
    moreover have "newline \<notin> set (current_line ?st)"
      using log_ok_fold [OF log_ok_start, of colors tokens] unfolding log_ok_def line_ok_def by blast
    ultimately have "\<not> (visible_text tokens = [] \<or> last (visible_text tokens) = newline)"
      using last_join [of "current_line ?st" "map line_text (formattedLogs ?st)"] whole
      by (simp add: state_text_def)
    with False whole show ?thesis by (simp add: format_tokens_def Let_def push_line_def state_text_def)
  qed
qed

text \<open>
  Every line of the viewer is the text of its spans, one after the other, and holds no newline,
  whatever the tokenizer returns.
\<close>

theorem log_lines_are_spans:
  "list_all (\<lambda>l. line_text l = concat (map span_text (line_spans l)) \<and> newline \<notin> set (line_text l))
     (formatLogs tokenize colors logs skipHeaders)"
  unfolding list_all_iff formatLogs_def
  using format_tokens_ok [unfolded line_ok_def] by blast

end
