(* ===== verification/ResourceControl.thy ===== *)
theory ResourceControl
  imports JsPrelude
begin

text \<open>
  Access control of resources: the view model and the payloads under
  \<open>app/portainer/models/resourceControl\<close>, the helper that turns forms into ownership parameters
  (\<open>app/portainer/helpers/resourceControlHelper.js\<close>), the service that sends them
  (\<open>resourceControlService.js\<close>), the validation of the form and the two components that edit it; and the handler
  of the server that checks and stores an update. The lemmas follow a form through the payload to the control that the
  server stores and the view model read back.
\<close>

section \<open>Resource controls\<close>

datatype ownership = PUBLIC | PRIVATE | RESTRICTED | ADMINISTRATORS

text \<open>The accesses of a control, by the identifiers of users and teams.\<close>

record rc_data =
  rc_Id :: nat
  rc_Type :: nat
  rc_ResourceId :: string
  rc_UserAccesses :: "nat list"
  rc_TeamAccesses :: "nat list"
  rc_Public :: bool
  rc_System :: bool

record rc_view = rc_data +
  rc_Ownership :: ownership

definition determineOwnership :: "'a rc_data_scheme \<Rightarrow> ownership" where
  "determineOwnership rc =
     (if rc_Public rc then PUBLIC
      else if length (rc_UserAccesses rc) = 1 \<and> length (rc_TeamAccesses rc) = 0 then PRIVATE
      else if length (rc_UserAccesses rc) > 1 \<or> length (rc_TeamAccesses rc) > 0 then RESTRICTED
      else ADMINISTRATORS)"

definition ResourceControlViewModel :: "rc_data \<Rightarrow> rc_view" where
  "ResourceControlViewModel data =
     \<lparr>rc_Id = rc_Id data, rc_Type = rc_Type data, rc_ResourceId = rc_ResourceId data,
      rc_UserAccesses = rc_UserAccesses data, rc_TeamAccesses = rc_TeamAccesses data,
      rc_Public = rc_Public data, rc_System = rc_System data, rc_Ownership = determineOwnership data\<rparr>"

text \<open>The types of controls as numbers of the server and as strings of the interface.\<close>

datatype rc_type =
    ConfigRC | ContainerRC | NetworkRC | SecretRC | ServiceRC | StackRC | VolumeRC | CustomTemplateRC
  | ContainerGroupRC

fun ResourceControlTypeString :: "rc_type \<Rightarrow> string" where
  "ResourceControlTypeString ConfigRC = ''config''"
| "ResourceControlTypeString ContainerRC = ''container''"
| "ResourceControlTypeString NetworkRC = ''network''"
| "ResourceControlTypeString SecretRC = ''secret''"
| "ResourceControlTypeString ServiceRC = ''service''"
| "ResourceControlTypeString StackRC = ''stack''"
| "ResourceControlTypeString VolumeRC = ''volume''"
| "ResourceControlTypeString CustomTemplateRC = ''custom-template''"
| "ResourceControlTypeString ContainerGroupRC = ''container-group''"

fun ResourceControlTypeInt :: "rc_type \<Rightarrow> nat" where
  "ResourceControlTypeInt ContainerRC = 1"
| "ResourceControlTypeInt ServiceRC = 2"
| "ResourceControlTypeInt VolumeRC = 3"
| "ResourceControlTypeInt NetworkRC = 4"
| "ResourceControlTypeInt SecretRC = 5"
| "ResourceControlTypeInt StackRC = 6"
| "ResourceControlTypeInt ConfigRC = 7"
| "ResourceControlTypeInt CustomTemplateRC = 8"
| "ResourceControlTypeInt ContainerGroupRC = 9"

section \<open>Ownership parameters\<close>

record ownership_parameters =
  op_AdministratorsOnly :: bool
  op_Public :: bool
  op_Users :: "nat list"
  op_Teams :: "nat list"
  op_SubResourceIDs :: "string list"

definition ResourceControlOwnershipParameters ::
    "bool \<Rightarrow> bool \<Rightarrow> nat list \<Rightarrow> nat list \<Rightarrow> string list \<Rightarrow> ownership_parameters" where
  "ResourceControlOwnershipParameters adminOnly publicOnly users teams subResources =
     \<lparr>op_AdministratorsOnly = adminOnly, op_Public = publicOnly, op_Users = users, op_Teams = teams,
      op_SubResourceIDs = subResources\<rparr>"

record user =
  user_Id :: nat
  user_Name :: string
  user_selected :: bool

record team =
  team_Id :: nat
  team_Name :: string
  team_selected :: bool

record access_form =
  AccessControlEnabled :: bool
  af_Ownership :: ownership
  af_AuthorizedUsers :: "user list"
  af_AuthorizedTeams :: "team list"

definition AccessControlFormData :: access_form where
  "AccessControlFormData = \<lparr>AccessControlEnabled = True, af_Ownership = PRIVATE,
     af_AuthorizedUsers = [], af_AuthorizedTeams = []\<rparr>"

record panel_data =
  pd_Ownership :: ownership
  pd_Users :: "user list"
  pd_Teams :: "team list"

definition RCViewModelToOwnershipParameters :: "nat \<Rightarrow> rc_view option \<Rightarrow> ownership_parameters" where
  "RCViewModelToOwnershipParameters userId resourceControl = (case resourceControl of
       None \<Rightarrow> ResourceControlOwnershipParameters True False [] [] []
     | Some rc \<Rightarrow> (case rc_Ownership rc of
           PUBLIC \<Rightarrow> ResourceControlOwnershipParameters False True [] [] []
         | PRIVATE \<Rightarrow> ResourceControlOwnershipParameters False False [userId] [] []
         | RESTRICTED \<Rightarrow> ResourceControlOwnershipParameters False False (rc_UserAccesses rc) (rc_TeamAccesses rc) []
         | ADMINISTRATORS \<Rightarrow> ResourceControlOwnershipParameters True False [] [] []))"

text \<open>A form with access control disabled is set to public ownership first.\<close>

definition RCFormDataToOwnershipParameters ::
    "nat \<Rightarrow> access_form \<Rightarrow> string list \<Rightarrow> access_form \<times> ownership_parameters" where
  "RCFormDataToOwnershipParameters userId form subResources =
     (let f = (if AccessControlEnabled form then form else form\<lparr>af_Ownership := PUBLIC\<rparr>)
      in (f, case af_Ownership f of
           PUBLIC \<Rightarrow> ResourceControlOwnershipParameters False True [] [] subResources
         | PRIVATE \<Rightarrow> ResourceControlOwnershipParameters False False [userId] [] subResources
         | RESTRICTED \<Rightarrow> ResourceControlOwnershipParameters False False
             (map user_Id (af_AuthorizedUsers f)) (map team_Id (af_AuthorizedTeams f)) subResources
         | ADMINISTRATORS \<Rightarrow> ResourceControlOwnershipParameters True False [] [] subResources))"

definition RCPanelDataToOwnershipParameters :: "panel_data \<Rightarrow> ownership_parameters" where
  "RCPanelDataToOwnershipParameters form =
     (let adminOnly = (pd_Ownership form = ADMINISTRATORS); publicOnly = (pd_Ownership form = PUBLIC)
      in ResourceControlOwnershipParameters adminOnly publicOnly
           (if publicOnly \<or> adminOnly then [] else map user_Id (pd_Users form))
           (if publicOnly \<or> adminOnly then [] else map team_Id (pd_Teams form)) [])"

definition retrieveAuthorizedUsers :: "'a rc_data_scheme \<Rightarrow> user list \<Rightarrow> user list" where
  "retrieveAuthorizedUsers rc users =
     without_undefined (map (\<lambda>a. List.find (\<lambda>u. user_Id u = a) users) (rc_UserAccesses rc))"

definition retrieveAuthorizedTeams :: "'a rc_data_scheme \<Rightarrow> team list \<Rightarrow> team list" where
  "retrieveAuthorizedTeams rc teams =
     without_undefined (map (\<lambda>a. List.find (\<lambda>t. team_Id t = a) teams) (rc_TeamAccesses rc))"

record membership =
  mb_TeamId :: nat
  mb_Role :: nat

text \<open>The loop ends at the first membership that makes the user a leader.\<close>

definition isLeaderOfAnyRestrictedTeams :: "membership list \<Rightarrow> 'a rc_data_scheme \<Rightarrow> bool" where
  "isLeaderOfAnyRestrictedTeams ms rc =
     list_ex (\<lambda>m. mb_TeamId m \<in> set (rc_TeamAccesses rc) \<and> mb_Role m = 1) ms"

section \<open>The service\<close>

text \<open>A request to the server, which the promise stands for.\<close>

datatype rc_request =
    CreateRC rc_type string ownership_parameters
  | UpdateRC nat ownership_parameters

definition applyResourceControl ::
    "nat \<Rightarrow> access_form \<Rightarrow> 'a rc_data_scheme \<Rightarrow> string list \<Rightarrow> rc_request" where
  "applyResourceControl userId form rc subResources =
     UpdateRC (rc_Id rc) (snd (RCFormDataToOwnershipParameters userId form subResources))"

definition duplicateResourceControl :: "nat \<Rightarrow> rc_view option \<Rightarrow> 'a rc_data_scheme \<Rightarrow> rc_request" where
  "duplicateResourceControl userId old new =
     UpdateRC (rc_Id new) (RCViewModelToOwnershipParameters userId old)"

definition applyResourceControlChange ::
    "rc_type \<Rightarrow> string \<Rightarrow> rc_view option \<Rightarrow> panel_data \<Rightarrow> rc_request" where
  "applyResourceControlChange rcType resourceId rc form =
     (let params = RCPanelDataToOwnershipParameters form
      in case rc of Some c \<Rightarrow> UpdateRC (rc_Id c) params | None \<Rightarrow> CreateRC rcType resourceId params)"

text \<open>The lists of users and teams are read from the server only where the control has such accesses.\<close>

definition retrieveOwnershipDetails ::
    "user list js_result \<Rightarrow> team list js_result \<Rightarrow> rc_view option \<Rightarrow> (user list \<times> team list) js_result" where
  "retrieveOwnershipDetails users teams rc = (case rc of
       None \<Rightarrow> Inr ([], [])
     | Some c \<Rightarrow>
         (case (if rc_UserAccesses c \<noteq> [] then users else Inr [], if rc_TeamAccesses c \<noteq> [] then teams else Inr []) of
            (Inr us, Inr ts) \<Rightarrow> Inr (retrieveAuthorizedUsers c us, retrieveAuthorizedTeams c ts)
          | _ \<Rightarrow> Inl (ThrownError ''Unable to retrieve user and team information'')))"

record permissions =
  isPartOfRestrictedUsers :: bool
  isLeaderOfRestrictedTeams :: bool

definition retrieveUserPermissionsOnResource ::
    "membership list js_result \<Rightarrow> nat \<Rightarrow> bool \<Rightarrow> rc_view option \<Rightarrow> permissions js_result" where
  "retrieveUserPermissionsOnResource memberships userID isAdministrator rc =
     (case rc of
        None \<Rightarrow> Inr \<lparr>isPartOfRestrictedUsers = False, isLeaderOfRestrictedTeams = False\<rparr>
      | Some c \<Rightarrow>
          if isAdministrator then Inr \<lparr>isPartOfRestrictedUsers = False, isLeaderOfRestrictedTeams = False\<rparr>
          else if userID \<in> set (rc_UserAccesses c)
          then Inr \<lparr>isPartOfRestrictedUsers = True, isLeaderOfRestrictedTeams = False\<rparr>
          else (case memberships of
              Inl e \<Rightarrow> Inl (ThrownError ''Unable to retrieve user memberships'')
            | Inr ms \<Rightarrow> Inr \<lparr>isPartOfRestrictedUsers = False,
                isLeaderOfRestrictedTeams = isLeaderOfAnyRestrictedTeams ms c\<rparr>))"

section \<open>Validation and the components\<close>

definition validateAccessControl :: "access_form \<Rightarrow> bool \<Rightarrow> string" where
  "validateAccessControl d isAdmin =
     (if \<not> AccessControlEnabled d then []
      else if isAdmin \<and> af_Ownership d = RESTRICTED \<and> af_AuthorizedUsers d = [] \<and> af_AuthorizedTeams d = []
      then ''You must specify at least one team or user.''
      else if \<not> isAdmin \<and> af_Ownership d = RESTRICTED \<and> af_AuthorizedTeams d = []
      then ''You must specify at least a team.''
      else [])"

definition setOwnership :: "rc_view \<Rightarrow> bool \<Rightarrow> access_form \<Rightarrow> access_form" where
  "setOwnership rc isAdmin form =
     (let o' = (if isAdmin \<and> rc_Ownership rc = PRIVATE then RESTRICTED else rc_Ownership rc);
          f = form\<lparr>af_Ownership := o'\<rparr>
      in if o' = PUBLIC then f\<lparr>AccessControlEnabled := False\<rparr> else f)"

definition select_users :: "user list \<Rightarrow> user list \<Rightarrow> user list" where
  "select_users authorized available =
     map (\<lambda>u. if List.find (\<lambda>a. user_Id a = user_Id u) authorized \<noteq> None then u\<lparr>user_selected := True\<rparr> else u) available"

definition select_teams :: "team list \<Rightarrow> team list \<Rightarrow> team list" where
  "select_teams authorized available =
     map (\<lambda>t. if List.find (\<lambda>a. team_Id a = team_Id t) authorized \<noteq> None then t\<lparr>team_selected := True\<rparr> else t) available"

record form_controller =
  fc_formData :: access_form
  fc_isAdmin :: bool
  fc_availableUsers :: "user list"
  fc_availableTeams :: "team list"
  fc_error :: "string option"

text \<open>
  The start of the form component: the lists are sorted by name, a user who is no administrator and sees
  one team has it chosen, and the ownership of an existing control is loaded; a failed request leaves a
  notification.
\<close>

definition init_form ::
    "bool \<Rightarrow> user list js_result \<Rightarrow> team list js_result \<Rightarrow> rc_view option \<Rightarrow>
     (user list \<times> team list) js_result \<Rightarrow> access_form \<Rightarrow> form_controller" where
  "init_form isAdmin users teams rc details form =
     (let f0 = (if isAdmin then form\<lparr>af_Ownership := ADMINISTRATORS\<rparr> else form);
          c0 = \<lparr>fc_formData = f0, fc_isAdmin = isAdmin, fc_availableUsers = [], fc_availableTeams = [], fc_error = None\<rparr>;
          failure = ''Unable to retrieve access control information''
      in case (teams, if isAdmin then users else Inr []) of
           (Inr ts, Inr us) \<Rightarrow>
             (let us' = sort_key user_Name us; ts' = sort_key team_Name ts;
                  f1 = (if \<not> isAdmin \<and> length ts' = 1 then f0\<lparr>af_AuthorizedTeams := ts'\<rparr> else f0);
                  c1 = c0\<lparr>fc_formData := f1, fc_availableUsers := us', fc_availableTeams := ts'\<rparr>
              in case rc of
                   None \<Rightarrow> c1
                 | Some r \<Rightarrow> (case details of
                      Inl e \<Rightarrow> c1\<lparr>fc_error := Some failure\<rparr>
                    | Inr (aus, ats) \<Rightarrow>
                        c1\<lparr>fc_formData := setOwnership r isAdmin f1, fc_availableUsers := select_users aus us',
                           fc_availableTeams := select_teams ats ts'\<rparr>))
         | _ \<Rightarrow> c0\<lparr>fc_error := Some failure\<rparr>)"

record panel_controller =
  pc_resourceControl :: "rc_view option"
  pc_resourceType :: rc_type
  pc_disableOwnershipChange :: bool
  pc_isAdmin :: bool
  pc_canEditOwnership :: bool
  pc_editOwnership :: bool
  pc_formValues :: panel_data
  pc_formValidationError :: string

definition canEditOwnership :: "panel_controller \<Rightarrow> bool" where
  "canEditOwnership c =
     (let has = (\<lambda>t. case pc_resourceControl c of None \<Rightarrow> False | Some rc \<Rightarrow> rc_Type rc = ResourceControlTypeInt t);
          inheritedVolume = has ContainerRC \<and> pc_resourceType c = VolumeRC;
          inheritedContainer = has ServiceRC \<and> pc_resourceType c = ContainerRC;
          inheritedFromStack = has StackRC \<and> pc_resourceType c \<noteq> StackRC
      in \<not> inheritedVolume \<and> \<not> inheritedContainer \<and> \<not> inheritedFromStack \<and> \<not> pc_disableOwnershipChange c \<and>
         \<not> pc_editOwnership c \<and> (pc_isAdmin c \<or> pc_canEditOwnership c))"

definition validateForm :: "panel_controller \<Rightarrow> panel_controller \<times> bool" where
  "validateForm c =
     (let d = \<lparr>AccessControlEnabled = (pd_Ownership (pc_formValues c) \<noteq> PUBLIC),
               af_Ownership = pd_Ownership (pc_formValues c),
               af_AuthorizedUsers = pd_Users (pc_formValues c), af_AuthorizedTeams = pd_Teams (pc_formValues c)\<rparr>;
          error = validateAccessControl d (pc_isAdmin c)
      in (c\<lparr>pc_formValidationError := error\<rparr>, error = []))"

text \<open>The request of a confirmed update; an invalid or cancelled form sends none.\<close>

definition confirmUpdateOwnership :: "string \<Rightarrow> bool \<Rightarrow> panel_controller \<Rightarrow> panel_controller \<times> rc_request option" where
  "confirmUpdateOwnership resourceId confirmed c =
     (let (c', valid) = validateForm c
      in (c', if valid \<and> confirmed
              then Some (applyResourceControlChange (pc_resourceType c') resourceId (pc_resourceControl c') (pc_formValues c'))
              else None))"

definition panel_ownership :: "bool \<Rightarrow> rc_view option \<Rightarrow> ownership" where
  "panel_ownership isAdmin rc =
     (case rc of
        Some c \<Rightarrow> if isAdmin then (if rc_Ownership c = PRIVATE then RESTRICTED else rc_Ownership c) else ADMINISTRATORS
      | None \<Rightarrow> ADMINISTRATORS)"

section \<open>The control that the server stores\<close>

text \<open>
  The handler of the server for an update (\<open>api/http/handler/resourcecontrols/resourcecontrol_update.go\<close>) with its
  checks (\<open>api/http/security/authorization.go\<close>): the control that is stored has the flag of the administrators beside
  what the interface reads. The user who asks is an administrator or has the memberships of some teams; the database is
  a map that answers every request.
\<close>

record server_control = rc_data +
  sc_AdministratorsOnly :: bool

record request_user =
  ru_Id :: nat
  ru_Admin :: bool
  ru_Teams :: "nat list"

definition valid_update :: "ownership_parameters \<Rightarrow> bool" where
  "valid_update p \<longleftrightarrow>
     \<not> (op_Users p = [] \<and> op_Teams p = [] \<and> \<not> op_Public p \<and> \<not> op_AdministratorsOnly p) \<and>
     \<not> (op_Public p \<and> op_AdministratorsOnly p)"

definition AuthorizedResourceControlAccess :: "server_control \<Rightarrow> request_user \<Rightarrow> bool" where
  "AuthorizedResourceControlAccess rc u \<longleftrightarrow>
     ru_Admin u \<or> rc_Public rc \<or> list_ex (\<lambda>t. t \<in> set (ru_Teams u)) (rc_TeamAccesses rc) \<or>
     list_ex (\<lambda>i. ru_Id u = i) (rc_UserAccesses rc)"

definition AuthorizedResourceControlUpdate :: "server_control \<Rightarrow> request_user \<Rightarrow> bool" where
  "AuthorizedResourceControlUpdate rc u =
     (let users = rc_UserAccesses rc; teams = rc_TeamAccesses rc
      in if ru_Admin u \<or> rc_Public rc then True
         else if sc_AdministratorsOnly rc then False
         else if users = [] \<and> teams = [] then False
         else if length users > 1 \<or> length users = 1 \<and> length teams = 1 then False
         else if length users = 1 \<and> users ! 0 = ru_Id u then True
         else list_ex (\<lambda>t. t \<in> set (ru_Teams u)) teams)"

definition stored_control :: "ownership_parameters \<Rightarrow> server_control \<Rightarrow> server_control" where
  "stored_control p rc = rc\<lparr>rc_UserAccesses := op_Users p, rc_TeamAccesses := op_Teams p, rc_Public := op_Public p,
     sc_AdministratorsOnly := op_AdministratorsOnly p\<rparr>"

text \<open>The status of a refusal, or the database after the update.\<close>

type_synonym control_database = "nat \<Rightarrow> server_control option"

definition resourceControlUpdate ::
    "request_user \<Rightarrow> control_database \<Rightarrow> nat \<Rightarrow> ownership_parameters \<Rightarrow> nat + control_database" where
  "resourceControlUpdate u db i p =
     (if \<not> valid_update p then Inl 400
      else case db i of
        None \<Rightarrow> Inl 404
      | Some rc \<Rightarrow>
          if \<not> AuthorizedResourceControlAccess rc u then Inl 403
          else if \<not> AuthorizedResourceControlUpdate (stored_control p rc) u then Inl 403
          else Inr (db(i \<mapsto> stored_control p rc)))"

text \<open>What a request of the service does to the database; only an update is served here.\<close>

fun serve :: "request_user \<Rightarrow> control_database \<Rightarrow> rc_request \<Rightarrow> (nat + control_database) option" where
  "serve u db (UpdateRC i p) = Some (resourceControlUpdate u db i p)"
| "serve u db (CreateRC t r p) = None"

text \<open>Whom a control lets in, administrators apart, and the reference of what a form grants.\<close>

definition allows :: "'a rc_data_scheme \<Rightarrow> nat \<Rightarrow> nat list \<Rightarrow> bool" where
  "allows rc uid teams \<longleftrightarrow>
     rc_Public rc \<or> uid \<in> set (rc_UserAccesses rc) \<or> (\<exists>t \<in> set teams. t \<in> set (rc_TeamAccesses rc))"

definition form_grants :: "nat \<Rightarrow> access_form \<Rightarrow> nat \<Rightarrow> nat list \<Rightarrow> bool" where
  "form_grants userId f uid teams \<longleftrightarrow>
     \<not> AccessControlEnabled f \<or>
     (case af_Ownership f of
        PUBLIC \<Rightarrow> True
      | PRIVATE \<Rightarrow> uid = userId
      | RESTRICTED \<Rightarrow> uid \<in> user_Id ` set (af_AuthorizedUsers f) \<or> (\<exists>t \<in> set teams. t \<in> team_Id ` set (af_AuthorizedTeams f))
      | ADMINISTRATORS \<Rightarrow> False)"

text \<open>The ownership that is shown for a control made from a form.\<close>

definition shown_ownership :: "access_form \<Rightarrow> ownership" where
  "shown_ownership f =
     (if \<not> AccessControlEnabled f then PUBLIC
      else if af_Ownership f = RESTRICTED \<and> length (af_AuthorizedUsers f) = 1 \<and> af_AuthorizedTeams f = [] then PRIVATE
      else af_Ownership f)"

text \<open>
  What a user who is no administrator may give with a form that names someone: everything public, a control of their own,
  or a restriction to teams of which one is theirs; with one user beside them, who is the one who asks or asks for a team of
  theirs, and then not exactly one team. More users, or the administrators alone, they may not.
\<close>

definition may_give :: "request_user \<Rightarrow> nat \<Rightarrow> access_form \<Rightarrow> bool" where
  "may_give u userId f \<longleftrightarrow>
     ru_Admin u \<or> \<not> AccessControlEnabled f \<or>
     (case af_Ownership f of
        PUBLIC \<Rightarrow> True
      | PRIVATE \<Rightarrow> ru_Id u = userId
      | RESTRICTED \<Rightarrow>
          (case map user_Id (af_AuthorizedUsers f) of
             [] \<Rightarrow> \<exists>t \<in> set (af_AuthorizedTeams f). team_Id t \<in> set (ru_Teams u)
           | [i] \<Rightarrow> length (af_AuthorizedTeams f) \<noteq> 1 \<and>
               (i = ru_Id u \<or> (\<exists>t \<in> set (af_AuthorizedTeams f). team_Id t \<in> set (ru_Teams u)))
           | _ \<Rightarrow> False)
      | ADMINISTRATORS \<Rightarrow> False)"

lemma stored_control_simps [simp]:
  "rc_UserAccesses (stored_control p rc) = op_Users p" "rc_TeamAccesses (stored_control p rc) = op_Teams p"
  "rc_Public (stored_control p rc) = op_Public p" "sc_AdministratorsOnly (stored_control p rc) = op_AdministratorsOnly p"
  by (simp_all add: stored_control_def)

lemma access_of_control:
  "AuthorizedResourceControlAccess rc u \<longleftrightarrow> ru_Admin u \<or> allows rc (ru_Id u) (ru_Teams u)"
  by (auto simp: AuthorizedResourceControlAccess_def allows_def list_ex_iff)

lemma determineOwnership_truncate [simp]: "determineOwnership (rc_data.truncate rc) = determineOwnership rc"
  by (simp add: determineOwnership_def rc_data.defs)

lemma parameters_simps [simp]:
  "op_Users (ResourceControlOwnershipParameters a p us ts s) = us"
  "op_Teams (ResourceControlOwnershipParameters a p us ts s) = ts"
  "op_Public (ResourceControlOwnershipParameters a p us ts s) = p"
  "op_AdministratorsOnly (ResourceControlOwnershipParameters a p us ts s) = a"
  by (simp_all add: ResourceControlOwnershipParameters_def)

lemma view_simps [simp]:
  "rc_Ownership (ResourceControlViewModel d) = determineOwnership d"
  "rc_UserAccesses (ResourceControlViewModel d) = rc_UserAccesses d"
  "rc_TeamAccesses (ResourceControlViewModel d) = rc_TeamAccesses d"
  "rc_Public (ResourceControlViewModel d) = rc_Public d"
  "allows (ResourceControlViewModel d) uid ts = allows d uid ts"
  by (simp_all add: ResourceControlViewModel_def allows_def)

section \<open>Properties\<close>

lemma form_parameters_stored:
  fixes userId :: nat and f :: access_form and subs :: "string list" and p :: ownership_parameters
  defines "p \<equiv> snd (RCFormDataToOwnershipParameters userId f subs)"
  shows "valid_update p \<longleftrightarrow> validateAccessControl f True = []"
    and "validateAccessControl f True = [] \<Longrightarrow> AuthorizedResourceControlUpdate (stored_control p rc) u \<longleftrightarrow> may_give u userId f"
    and "allows (stored_control p rc) uid teams = form_grants userId f uid teams"
    and "validateAccessControl f True = [] \<Longrightarrow> determineOwnership (stored_control p rc) = shown_ownership f"
    and "op_AdministratorsOnly p \<longleftrightarrow> AccessControlEnabled f \<and> af_Ownership f = ADMINISTRATORS"
proof -
  show "valid_update p \<longleftrightarrow> validateAccessControl f True = []"
    by (cases "af_Ownership f") (auto simp: p_def RCFormDataToOwnershipParameters_def valid_update_def validateAccessControl_def)
  show "allows (stored_control p rc) uid teams = form_grants userId f uid teams"
    by (cases "af_Ownership f")
      (auto simp: p_def RCFormDataToOwnershipParameters_def allows_def form_grants_def)
  show "op_AdministratorsOnly p \<longleftrightarrow> AccessControlEnabled f \<and> af_Ownership f = ADMINISTRATORS"
    by (cases "af_Ownership f") (simp_all add: p_def RCFormDataToOwnershipParameters_def)
  assume valid: "validateAccessControl f True = []"
  then show "determineOwnership (stored_control p rc) = shown_ownership f"
    by (cases "af_Ownership f"; cases "af_AuthorizedUsers f"; cases "af_AuthorizedTeams f")
      (auto simp: p_def RCFormDataToOwnershipParameters_def determineOwnership_def shown_ownership_def
        validateAccessControl_def split: if_splits)
  from valid show "AuthorizedResourceControlUpdate (stored_control p rc) u \<longleftrightarrow> may_give u userId f"
    by (cases "af_Ownership f"; cases "af_AuthorizedUsers f"; cases "tl (af_AuthorizedUsers f)"; cases "af_AuthorizedTeams f")
      (auto simp: p_def RCFormDataToOwnershipParameters_def AuthorizedResourceControlUpdate_def may_give_def Let_def
        list_ex_iff validateAccessControl_def split: if_splits)
qed


text \<open>A control of a container that user 7 owns.\<close>

definition owned_control :: server_control where
  "owned_control = \<lparr>rc_Id = 1, rc_Type = 1, rc_ResourceId = ''c1'', rc_UserAccesses = [7], rc_TeamAccesses = [],
     rc_Public = False, rc_System = False, sc_AdministratorsOnly = False\<rparr>"


text \<open>
  A duplicated control lets in whom the old one does, unless the old one is private: then it belongs to
  the user who duplicates it, whoever owned it before.
\<close>

theorem duplicate_access:
  "allows (stored_control (RCViewModelToOwnershipParameters userId (Some (ResourceControlViewModel old))) new) uid teams =
     (if determineOwnership old = PRIVATE then uid = userId else allows old uid teams)"
  by (cases "determineOwnership old"; cases "rc_UserAccesses old")
    (auto simp: RCViewModelToOwnershipParameters_def allows_def determineOwnership_def split: if_splits)

end
