(* ===== verification/DockerModels.thy ===== *)
theory DockerModels
  imports DockerHelpers LogViewer ResourceControl
begin

text \<open>
  The view models of the Docker module (\<open>app/docker/models\<close>): containers and their statistics, services,
  images, volumes, networks, tasks, secrets, the capabilities of a container, and the stack models of
  \<open>app/portainer/models/stack.js\<close>. The answer of the engine is a record, its optional parts options;
  parts that a model only passes on are values of type \<^typ>\<open>json\<close>.
\<close>

section \<open>What every model reads\<close>

record portainer_part =
  po_ResourceControl :: "rc_data option"
  po_NodeName :: "string option"

definition control_view :: "portainer_part option \<Rightarrow> rc_view option" where
  "control_view p = (case p of None \<Rightarrow> None | Some q \<Rightarrow> map_option ResourceControlViewModel (po_ResourceControl q))"

definition node_name_of :: "portainer_part option \<Rightarrow> string option" where
  "node_name_of p = (case p of None \<Rightarrow> None | Some q \<Rightarrow> if truthy_str (po_NodeName q) then po_NodeName q else None)"

definition label_of :: "string obj option \<Rightarrow> string \<Rightarrow> string option" where
  "label_of labels k = (case labels of None \<Rightarrow> None | Some ob \<Rightarrow> obj_get ob k)"

text \<open>The compose project of a resource, or else the namespace of its Swarm stack.\<close>

definition stack_name :: "string obj option \<Rightarrow> string option" where
  "stack_name labels =
     (if truthy_str (label_of labels ''com.docker.compose.project'') then label_of labels ''com.docker.compose.project''
      else if truthy_str (label_of labels ''com.docker.stack.namespace'') then label_of labels ''com.docker.stack.namespace''
      else None)"

section \<open>Containers\<close>

definition createStatus :: "string option \<Rightarrow> string" where
  "createStatus statusText =
     (let status = lower_text statusText
      in if contains status ''paused'' then ''paused''
         else if contains status ''dead'' then ''dead''
         else if contains status ''created'' then ''created''
         else if contains status ''exited'' then ''stopped''
         else if contains status ''(healthy)'' then ''healthy''
         else if contains status ''(unhealthy)'' then ''unhealthy''
         else if contains status ''(health: starting)'' then ''starting''
         else ''running'')"

record raw_port =
  rp_IP :: "string option"
  rp_PrivatePort :: nat
  rp_PublicPort :: "nat option"

record published =
  pub_host :: "string option"
  pub_private :: nat
  pub_public :: nat

record raw_container =
  rk_Id :: string
  rk_Status :: "string option"
  rk_State :: string
  rk_Created :: nat
  rk_Names :: "string list"
  rk_Networks :: "string obj option option"
  rk_Image :: string
  rk_ImageID :: string
  rk_Command :: string
  rk_Labels :: "string obj option"
  rk_Mounts :: json
  rk_Ports :: "raw_port list option"
  rk_Portainer :: "portainer_part option"

record container_view =
  cv_Id :: string
  cv_Status :: string
  cv_State :: string
  cv_Created :: nat
  cv_Names :: "string list"
  cv_IP :: "string option"
  cv_NetworkSettings :: "string obj option option"
  cv_Image :: string
  cv_ImageID :: string
  cv_Command :: string
  cv_Checked :: bool
  cv_Labels :: "string obj option"
  cv_StackName :: "string option"
  cv_Mounts :: json
  cv_Ports :: "published list"
  cv_ResourceControl :: "rc_view option"
  cv_NodeName :: "string option"

text \<open>A network of the container is read as its address; the address shown is that of the first one.\<close>

definition first_address :: "string obj option option \<Rightarrow> string option" where
  "first_address settings = (case settings of
       Some (Some nets) \<Rightarrow> (case obj_entries nets of [] \<Rightarrow> None | e # _ \<Rightarrow> Some (snd e))
     | _ \<Rightarrow> None)"

definition published_ports :: "raw_port list option \<Rightarrow> published list" where
  "published_ports ports = (case ports of
       None \<Rightarrow> []
     | Some ps \<Rightarrow> map (\<lambda>p. \<lparr>pub_host = rp_IP p, pub_private = rp_PrivatePort p, pub_public = the (rp_PublicPort p)\<rparr>)
         (filter (\<lambda>p. case rp_PublicPort p of None \<Rightarrow> False | Some n \<Rightarrow> n \<noteq> 0) ps))"

definition ContainerViewModel :: "raw_container \<Rightarrow> container_view" where
  "ContainerViewModel data =
     \<lparr>cv_Id = rk_Id data, cv_Status = createStatus (rk_Status data), cv_State = rk_State data,
      cv_Created = rk_Created data, cv_Names = rk_Names data, cv_IP = first_address (rk_Networks data),
      cv_NetworkSettings = rk_Networks data, cv_Image = rk_Image data, cv_ImageID = rk_ImageID data,
      cv_Command = rk_Command data, cv_Checked = False, cv_Labels = rk_Labels data,
      cv_StackName = stack_name (rk_Labels data), cv_Mounts = rk_Mounts data,
      cv_Ports = published_ports (rk_Ports data), cv_ResourceControl = control_view (rk_Portainer data),
      cv_NodeName = node_name_of (rk_Portainer data)\<rparr>"

section \<open>Statistics of a container\<close>

record blkio_entry =
  bk_op :: string
  bk_value :: nat

record raw_stats =
  rs_read :: string
  rs_preread :: string
  rs_privateworkingset :: "nat option"
  rs_cache :: "nat option"
  rs_usage :: "nat option"
  rs_num_procs :: nat
  rs_precpu_total :: nat
  rs_precpu_system :: "nat option"
  rs_cpu_total :: nat
  rs_cpu_system :: "nat option"
  rs_percpu :: "nat list option"
  rs_networks :: "json obj"
  rs_blkio :: "blkio_entry list option"

record stats_view =
  sv_read :: string
  sv_preread :: string
  sv_MemoryUsage :: int
  sv_MemoryCache :: nat
  sv_NumProcs :: "nat option"
  sv_isWindows :: bool
  sv_PreviousCPUTotalUsage :: nat
  sv_PreviousCPUSystemUsage :: "nat option"
  sv_CurrentCPUTotalUsage :: nat
  sv_CurrentCPUSystemUsage :: "nat option"
  sv_CPUCores :: "nat option"
  sv_Networks :: "json list"
  sv_BytesRead :: "nat option"
  sv_BytesWrite :: "nat option"
  sv_noIOdata :: bool

definition memory_of :: "raw_stats \<Rightarrow> int \<times> nat" where
  "memory_of data = (case rs_privateworkingset data of
       Some m \<Rightarrow> (int m, 0)
     | None \<Rightarrow> (case (rs_cache data, rs_usage data) of
           (Some c, Some u) \<Rightarrow> (int u - int c, c)
         | _ \<Rightarrow> (0, 0)))"

definition blkio_bytes :: "blkio_entry list option \<Rightarrow> string \<Rightarrow> nat option" where
  "blkio_bytes entries action = (case entries of
       None \<Rightarrow> None
     | Some es \<Rightarrow> map_option bk_value (List.find (\<lambda>d. bk_op d = action) es))"

definition ContainerStatsViewModel :: "raw_stats \<Rightarrow> stats_view" where
  "ContainerStatsViewModel data =
     \<lparr>sv_read = rs_read data, sv_preread = rs_preread data,
      sv_MemoryUsage = fst (memory_of data), sv_MemoryCache = snd (memory_of data),
      sv_NumProcs = (if rs_privateworkingset data \<noteq> None then Some (rs_num_procs data) else None),
      sv_isWindows = (rs_privateworkingset data \<noteq> None),
      sv_PreviousCPUTotalUsage = rs_precpu_total data, sv_PreviousCPUSystemUsage = rs_precpu_system data,
      sv_CurrentCPUTotalUsage = rs_cpu_total data, sv_CurrentCPUSystemUsage = rs_cpu_system data,
      sv_CPUCores = map_option length (rs_percpu data),
      sv_Networks = obj_values (rs_networks data),
      sv_BytesRead = blkio_bytes (rs_blkio data) ''Read'', sv_BytesWrite = blkio_bytes (rs_blkio data) ''Write'',
      sv_noIOdata = (rs_blkio data = None)\<rparr>"

section \<open>Services\<close>

record resource_amounts =
  ra_NanoCPUs :: "nat option"
  ra_MemoryBytes :: "nat option"

record restart_policy =
  rp_Condition :: "string option"
  rp_Delay :: "nat option"
  rp_MaxAttempts :: "nat option"
  rp_Window :: "nat option"

record update_config =
  uc_Parallelism :: "nat option"
  uc_Delay :: "nat option"
  uc_FailureAction :: "string option"
  uc_Order :: "string option"

record log_driver =
  ld_Name :: "string option"
  ld_Options :: "string obj option"

record placement =
  pl_Constraints :: "string list option"
  pl_Preferences :: "json list option"
  pl_Platforms :: "json list option"

text \<open>
  The parts of a service that the model reads. The fields of the container specification are values of any
  shape, missing where the engine leaves them out.
\<close>

record container_spec =
  spec_Labels :: "json option"
  spec_Command :: "json option"
  spec_Args :: "json option"
  spec_Hostname :: "json option"
  spec_Env :: "json option"
  spec_Dir :: "json option"
  spec_User :: "json option"
  spec_Groups :: "json option"
  spec_TTY :: "json option"
  spec_OpenStdin :: "json option"
  spec_ReadOnly :: "json option"
  spec_Mounts :: "json option"
  spec_StopSignal :: "json option"
  spec_StopGracePeriod :: "json option"
  spec_HealthCheck :: "json option"
  spec_Hosts :: "json option"
  spec_DNSConfig :: "json option"
  spec_Secrets :: "json option"
  spec_Configs :: "json option"

record service_endpoint =
  se_Ports :: json
  se_VirtualIPs :: json

record raw_service =
  rv_ID :: string
  rv_Name :: string
  rv_CreatedAt :: string
  rv_UpdatedAt :: string
  rv_Image :: string
  rv_Version :: nat
  rv_Replicated :: "nat option"
  rv_Limits :: "resource_amounts option"
  rv_Reservations :: "resource_amounts option"
  rv_RestartPolicy :: "restart_policy option"
  rv_LogDriver :: "log_driver option"
  rv_Placement :: "placement option"
  rv_Labels :: "string obj option"
  rv_UpdateConfig :: "update_config option"
  rv_ContainerSpec :: "container_spec option"
  rv_Endpoint :: "service_endpoint option"
  rv_Runtime :: "string option"
  rv_RollbackConfig :: json
  rv_Portainer :: "portainer_part option"

record container_fields =
  cf_ContainerLabels :: "json option"
  cf_Command :: "json option"
  cf_Arguments :: "json option"
  cf_Hostname :: "json option"
  cf_Env :: "json option"
  cf_Dir :: "json option"
  cf_User :: "json option"
  cf_Groups :: "json option"
  cf_TTY :: "json option"
  cf_OpenStdin :: "json option"
  cf_ReadOnly :: "json option"
  cf_Mounts :: "json option"
  cf_StopSignal :: "json option"
  cf_StopGracePeriod :: "json option"
  cf_HealthCheck :: "json option"
  cf_Hosts :: "json option"
  cf_DNSConfig :: "json option"
  cf_Secrets :: "json option"
  cf_Configs :: "json option"

record service_model =
  sm_Model :: raw_service
  sm_Id :: string
  sm_Tasks :: "json list"
  sm_Name :: string
  sm_CreatedAt :: string
  sm_UpdatedAt :: string
  sm_Image :: string
  sm_Version :: nat
  sm_Mode :: string
  sm_Replicas :: "nat option"
  sm_Running :: "nat option"
  sm_LimitNanoCPUs :: "nat option"
  sm_LimitMemoryBytes :: "nat option"
  sm_ReservationNanoCPUs :: "nat option"
  sm_ReservationMemoryBytes :: "nat option"
  sm_RestartCondition :: string
  sm_RestartDelay :: nat
  sm_RestartMaxAttempts :: nat
  sm_RestartWindow :: nat
  sm_LogDriverName :: string
  sm_LogDriverOpts :: "string obj"
  sm_Constraints :: "string list"
  sm_Preferences :: "json list"
  sm_Platforms :: "json list"
  sm_Labels :: "string obj option"
  sm_StackName :: "string option"
  sm_ContainerFields :: "container_fields option"
  sm_Ports :: "json option"
  sm_LogDriver :: "log_driver option"
  sm_Runtime :: "string option"
  sm_VirtualIPs :: "json option"
  sm_UpdateParallelism :: nat
  sm_UpdateDelay :: nat
  sm_UpdateFailureAction :: string
  sm_UpdateOrder :: string
  sm_RollbackConfig :: json
  sm_Checked :: bool
  sm_Scale :: bool
  sm_EditName :: bool
  sm_ResourceControl :: "rc_view option"

definition or_nat :: "nat option \<Rightarrow> nat \<Rightarrow> nat" where
  "or_nat v d = (case v of None \<Rightarrow> d | Some n \<Rightarrow> if n = 0 then d else n)"

definition some_or :: "'a option \<Rightarrow> 'a \<Rightarrow> 'a" where
  "some_or v d = (case v of None \<Rightarrow> d | Some x \<Rightarrow> x)"

definition restart_of :: "restart_policy option \<Rightarrow> string \<times> nat \<times> nat \<times> nat" where
  "restart_of p = (case p of
       None \<Rightarrow> (''any'', 5000000000, 0, 0)
     | Some r \<Rightarrow> (or_str (rp_Condition r) ''any'', or_nat (rp_Delay r) 5000000000, or_nat (rp_MaxAttempts r) 0,
         or_nat (rp_Window r) 0))"

text \<open>
  \<open>typeof x !== undefined\<close> compares a string with \<open>undefined\<close> and is always true, so a missing parallelism
  is 0, never 1.
\<close>

definition update_of :: "update_config option \<Rightarrow> nat \<times> nat \<times> string \<times> string" where
  "update_of c = (case c of
       None \<Rightarrow> (1, 0, ''pause'', ''stop-first'')
     | Some u \<Rightarrow> (or_nat (uc_Parallelism u) 0, or_nat (uc_Delay u) 0, or_str (uc_FailureAction u) ''pause'',
         or_str (uc_Order u) ''stop-first''))"

definition placement_part :: "(placement \<Rightarrow> 'a list option) \<Rightarrow> placement option \<Rightarrow> 'a list" where
  "placement_part f p = (case p of None \<Rightarrow> [] | Some q \<Rightarrow> some_or (f q) [])"

definition container_fields_of :: "container_spec \<Rightarrow> container_fields" where
  "container_fields_of s =
     \<lparr>cf_ContainerLabels = spec_Labels s,
      cf_Command = spec_Command s,
      cf_Arguments = spec_Args s,
      cf_Hostname = spec_Hostname s,
      cf_Env = spec_Env s,
      cf_Dir = spec_Dir s,
      cf_User = spec_User s,
      cf_Groups = spec_Groups s,
      cf_TTY = spec_TTY s,
      cf_OpenStdin = spec_OpenStdin s,
      cf_ReadOnly = spec_ReadOnly s,
      cf_Mounts = Some (some_or (spec_Mounts s) (JArr [])),
      cf_StopSignal = spec_StopSignal s,
      cf_StopGracePeriod = spec_StopGracePeriod s,
      cf_HealthCheck = Some (some_or (spec_HealthCheck s) (JObj [])),
      cf_Hosts = spec_Hosts s,
      cf_DNSConfig = spec_DNSConfig s,
      cf_Secrets = spec_Secrets s,
      cf_Configs = spec_Configs s\<rparr>"

definition ServiceViewModel :: "raw_service \<Rightarrow> nat option \<Rightarrow> nat option \<Rightarrow> service_model" where
  "ServiceViewModel data runningTasks allTasks =
     (let r = restart_of (rv_RestartPolicy data); u = update_of (rv_UpdateConfig data);
          ns = label_of (rv_Labels data) ''com.docker.stack.namespace''
      in \<lparr>sm_Model = data, sm_Id = rv_ID data, sm_Tasks = [], sm_Name = rv_Name data, sm_CreatedAt = rv_CreatedAt data,
          sm_UpdatedAt = rv_UpdatedAt data, sm_Image = rv_Image data, sm_Version = rv_Version data,
          sm_Mode = (if rv_Replicated data \<noteq> None then ''replicated'' else ''global''),
          sm_Replicas = (if rv_Replicated data \<noteq> None then rv_Replicated data else allTasks),
          sm_Running = runningTasks,
          sm_LimitNanoCPUs = Option.bind (rv_Limits data) ra_NanoCPUs,
          sm_LimitMemoryBytes = Option.bind (rv_Limits data) ra_MemoryBytes,
          sm_ReservationNanoCPUs = Option.bind (rv_Reservations data) ra_NanoCPUs,
          sm_ReservationMemoryBytes = Option.bind (rv_Reservations data) ra_MemoryBytes,
          sm_RestartCondition = fst r, sm_RestartDelay = fst (snd r), sm_RestartMaxAttempts = fst (snd (snd r)),
          sm_RestartWindow = snd (snd (snd r)),
          sm_LogDriverName = (case rv_LogDriver data of None \<Rightarrow> [] | Some l \<Rightarrow> or_str (ld_Name l) []),
          sm_LogDriverOpts = (case rv_LogDriver data of None \<Rightarrow> [] | Some l \<Rightarrow> some_or (ld_Options l) []),
          sm_Constraints = placement_part pl_Constraints (rv_Placement data),
          sm_Preferences = placement_part pl_Preferences (rv_Placement data),
          sm_Platforms = placement_part pl_Platforms (rv_Placement data),
          sm_Labels = rv_Labels data, sm_StackName = (if truthy_str ns then ns else None),
          sm_ContainerFields = map_option container_fields_of (rv_ContainerSpec data),
          sm_Ports = map_option se_Ports (rv_Endpoint data), sm_LogDriver = rv_LogDriver data,
          sm_Runtime = rv_Runtime data,
          sm_VirtualIPs = Some (case rv_Endpoint data of None \<Rightarrow> JArr [] | Some e \<Rightarrow> se_VirtualIPs e),
          sm_UpdateParallelism = fst u, sm_UpdateDelay = fst (snd u), sm_UpdateFailureAction = fst (snd (snd u)),
          sm_UpdateOrder = snd (snd (snd u)), sm_RollbackConfig = rv_RollbackConfig data,
          sm_Checked = False, sm_Scale = False, sm_EditName = False,
          sm_ResourceControl = control_view (rv_Portainer data)\<rparr>)"

section \<open>Images\<close>

record raw_image =
  ri_Id :: string
  ri_Tag :: "string option"
  ri_Repository :: "string option"
  ri_Created :: nat
  ri_RepoTags :: "string list option"
  ri_RepoDigests :: "string list option"
  ri_VirtualSize :: nat
  ri_ContainerCount :: "nat option"
  ri_Portainer :: "portainer_part option"
  ri_Labels :: "string obj option"

record image_view =
  iv_Id :: string
  iv_Tag :: "string option"
  iv_Repository :: "string option"
  iv_Created :: nat
  iv_Checked :: bool
  iv_RepoTags :: "string list option"
  iv_VirtualSize :: nat
  iv_ContainerCount :: "nat option"
  iv_NodeName :: "string option"
  iv_Labels :: "string obj option"

text \<open>\<open>substring(0, i)\<close> reads a position below 0 as 0, so a digest without \<open>@\<close> has no repository.\<close>

definition digest_tag :: "string \<Rightarrow> string" where
  "digest_tag digest = substring digest 0 (nat (js_index_of digest ''@'')) @ '':<none>''"

definition ImageViewModel :: "raw_image \<Rightarrow> image_view" where
  "ImageViewModel data =
     \<lparr>iv_Id = ri_Id data, iv_Tag = ri_Tag data, iv_Repository = ri_Repository data, iv_Created = ri_Created data,
      iv_Checked = False,
      iv_RepoTags = (case ri_RepoTags data of
          Some ts \<Rightarrow> Some ts
        | None \<Rightarrow> map_option (map digest_tag) (ri_RepoDigests data)),
      iv_VirtualSize = ri_VirtualSize data, iv_ContainerCount = ri_ContainerCount data,
      iv_NodeName = node_name_of (ri_Portainer data), iv_Labels = ri_Labels data\<rparr>"

text \<open>
  A line of the build output: a line with a stream is replaced by its text, which has no error detail.
\<close>

record build_line =
  bl_stream :: "string option"
  bl_error :: "string option"

definition build_step :: "build_line \<Rightarrow> bool \<times> string list \<Rightarrow> bool \<times> string list" where
  "build_step l st =
     (if truthy_str (bl_stream l) then (fst st, snd st @ [stripEscapeCodes (the (bl_stream l))])
      else (case bl_error l of None \<Rightarrow> st | Some m \<Rightarrow> (True, snd st @ [m])))"

definition ImageBuildModel :: "build_line list \<Rightarrow> bool \<times> string list" where
  "ImageBuildModel data = fold build_step data (False, [])"

section \<open>Volumes, networks, tasks and secrets\<close>

record raw_docker_volume =
  dv_Name :: string
  dv_CreatedAt :: string
  dv_Driver :: string
  dv_Options :: "string obj option"
  dv_Labels :: "string obj option"
  dv_Mountpoint :: string
  dv_ResourceID :: string
  dv_Portainer :: "portainer_part option"

record volume_view =
  vv_Id :: string
  vv_CreatedAt :: string
  vv_Driver :: string
  vv_Options :: "string obj option"
  vv_Labels :: "string obj option"
  vv_StackName :: "string option"
  vv_Mountpoint :: string
  vv_ResourceId :: string
  vv_ResourceControl :: "rc_view option"
  vv_NodeName :: "string option"

definition VolumeViewModel :: "raw_docker_volume \<Rightarrow> volume_view" where
  "VolumeViewModel data =
     \<lparr>vv_Id = dv_Name data, vv_CreatedAt = dv_CreatedAt data, vv_Driver = dv_Driver data,
      vv_Options = dv_Options data, vv_Labels = dv_Labels data, vv_StackName = stack_name (dv_Labels data),
      vv_Mountpoint = dv_Mountpoint data, vv_ResourceId = dv_ResourceID data,
      vv_ResourceControl = control_view (dv_Portainer data), vv_NodeName = node_name_of (dv_Portainer data)\<rparr>"

record raw_network =
  nw_Id :: string
  nw_Name :: string
  nw_Scope :: string
  nw_Driver :: string
  nw_Attachable :: bool
  nw_Internal :: bool
  nw_IPAM :: json
  nw_Containers :: json
  nw_Options :: "string obj option"
  nw_Ingress :: bool
  nw_Labels :: "string obj option"
  nw_Portainer :: "portainer_part option"
  nw_ConfigFrom :: json
  nw_ConfigOnly :: bool

record network_view =
  nv_Id :: string
  nv_Name :: string
  nv_Scope :: string
  nv_Driver :: string
  nv_Attachable :: bool
  nv_Internal :: bool
  nv_IPAM :: json
  nv_Containers :: json
  nv_Options :: "string obj option"
  nv_Ingress :: bool
  nv_Labels :: "string obj option"
  nv_StackName :: "string option"
  nv_ResourceControl :: "rc_view option"
  nv_NodeName :: "string option"
  nv_ConfigFrom :: json
  nv_ConfigOnly :: bool

definition NetworkViewModel :: "raw_network \<Rightarrow> network_view" where
  "NetworkViewModel data =
     \<lparr>nv_Id = nw_Id data, nv_Name = nw_Name data, nv_Scope = nw_Scope data, nv_Driver = nw_Driver data,
      nv_Attachable = nw_Attachable data, nv_Internal = nw_Internal data, nv_IPAM = nw_IPAM data,
      nv_Containers = nw_Containers data, nv_Options = nw_Options data, nv_Ingress = nw_Ingress data,
      nv_Labels = nw_Labels data, nv_StackName = stack_name (nw_Labels data),
      nv_ResourceControl = control_view (nw_Portainer data), nv_NodeName = node_name_of (nw_Portainer data),
      nv_ConfigFrom = nw_ConfigFrom data, nv_ConfigOnly = nw_ConfigOnly data\<rparr>"

record raw_task_model =
  tm_ID :: string
  tm_CreatedAt :: string
  tm_UpdatedAt :: string
  tm_Slot :: "nat option"
  tm_Spec :: json
  tm_Status :: "json \<times> string option"
  tm_DesiredState :: string
  tm_ServiceID :: string
  tm_NodeID :: "string option"

record task_view =
  tk_Id :: string
  tk_Created :: string
  tk_Updated :: string
  tk_Slot :: "nat option"
  tk_Spec :: json
  tk_Status :: "json \<times> string option"
  tk_DesiredState :: string
  tk_ServiceId :: string
  tk_NodeId :: "string option"
  tk_ContainerId :: "string option"

text \<open>The status of a task carries the identifier of its container where it has one.\<close>

definition TaskViewModel :: "raw_task_model \<Rightarrow> task_view" where
  "TaskViewModel data =
     \<lparr>tk_Id = tm_ID data, tk_Created = tm_CreatedAt data, tk_Updated = tm_UpdatedAt data, tk_Slot = tm_Slot data,
      tk_Spec = tm_Spec data, tk_Status = tm_Status data, tk_DesiredState = tm_DesiredState data,
      tk_ServiceId = tm_ServiceID data, tk_NodeId = tm_NodeID data,
      tk_ContainerId = (if truthy_str (snd (tm_Status data)) then snd (tm_Status data) else None)\<rparr>"

record raw_secret =
  se_ID :: string
  se_CreatedAt :: string
  se_UpdatedAt :: string
  se_Version :: nat
  se_Name :: string
  se_Labels :: "string obj option"
  se_Portainer :: "portainer_part option"

record secret_view =
  sc_Id :: string
  sc_CreatedAt :: string
  sc_UpdatedAt :: string
  sc_Version :: nat
  sc_Name :: string
  sc_Labels :: "string obj option"
  sc_ResourceControl :: "rc_view option"

definition SecretViewModel :: "raw_secret \<Rightarrow> secret_view" where
  "SecretViewModel data =
     \<lparr>sc_Id = se_ID data, sc_CreatedAt = se_CreatedAt data, sc_UpdatedAt = se_UpdatedAt data,
      sc_Version = se_Version data, sc_Name = se_Name data, sc_Labels = se_Labels data,
      sc_ResourceControl = control_view (se_Portainer data)\<rparr>"

section \<open>Capabilities of a container\<close>

record capability =
  cap_name :: string
  cap_allowed :: bool

definition default_capabilities :: "string list" where
  "default_capabilities = [''SETPCAP'', ''MKNOD'', ''AUDIT_WRITE'', ''CHOWN'', ''NET_RAW'', ''DAC_OVERRIDE'', ''FOWNER'',
     ''FSETID'', ''KILL'', ''SETGID'', ''SETUID'', ''NET_BIND_SERVICE'', ''SYS_CHROOT'', ''SETFCAP'']"

definition extra_capabilities :: "string list" where
  "extra_capabilities = [''SYS_MODULE'', ''SYS_RAWIO'', ''SYS_PACCT'', ''SYS_ADMIN'', ''SYS_NICE'', ''SYS_RESOURCE'',
     ''SYS_TIME'', ''SYS_TTY_CONFIG'', ''AUDIT_CONTROL'', ''MAC_ADMIN'', ''MAC_OVERRIDE'', ''NET_ADMIN'', ''SYSLOG'',
     ''DAC_READ_SEARCH'', ''LINUX_IMMUTABLE'', ''NET_BROADCAST'', ''IPC_LOCK'', ''IPC_OWNER'', ''SYS_PTRACE'',
     ''SYS_BOOT'', ''LEASE'', ''WAKE_ALARM'', ''BLOCK_SUSPEND'']"

text \<open>The names differ, so the comparison of the sort never meets equal ones.\<close>

definition ContainerCapabilities :: "capability list" where
  "ContainerCapabilities = sort_key cap_name
     (map (\<lambda>c. \<lparr>cap_name = c, cap_allowed = True\<rparr>) default_capabilities @
      map (\<lambda>c. \<lparr>cap_name = c, cap_allowed = False\<rparr>) extra_capabilities)"

lemma default_capabilities_names: "distinct (default_capabilities @ extra_capabilities)"
  by (simp add: default_capabilities_def extra_capabilities_def)

lemma capability_names:
  "distinct (map cap_name ContainerCapabilities)"
  "set (map cap_name ContainerCapabilities) = set (default_capabilities @ extra_capabilities)"
proof -
  have names: "mset (map cap_name ContainerCapabilities) = mset (default_capabilities @ extra_capabilities)"
    by (simp add: ContainerCapabilities_def image_mset.compositionality comp_def)
  from mset_eq_imp_distinct_iff [OF names] default_capabilities_names
  show "distinct (map cap_name ContainerCapabilities)" by simp
  from mset_eq_setD [OF names]
  show "set (map cap_name ContainerCapabilities) = set (default_capabilities @ extra_capabilities)" .
qed

section \<open>Properties\<close>

text \<open>
  A service whose update configuration leaves the parallelism out is shown with 0, which the engine reads
  as all tasks at once, and never with the 1 of a service without an update configuration.
\<close>

theorem missing_parallelism_is_zero:
  "sm_UpdateParallelism (ServiceViewModel
     (data\<lparr>rv_UpdateConfig := Some (u\<lparr>uc_Parallelism := None\<rparr>)\<rparr>) running all) = 0"
  by (simp add: ServiceViewModel_def update_of_def or_nat_def Let_def)

end
