(* ===== verification/ContainerPorts.thy ===== *)
theory ContainerPorts
  imports JsObject JsRegex
begin

text \<open>
  The port part of \<^verbatim>\<open>app/docker/helpers/containerHelper.js\<close>: parsing a port and a port range, turning
  the rows of the container form into Docker's port bindings (\<open>preparePortBindings\<close>) and Docker's port
  bindings back into rows, with consecutive ports combined into ranges (\<open>sortAndCombinePorts\<close>).
\<close>

section \<open>Parsing ports\<close>

text \<open>
  \<open>portPattern\<close>: \<open>[1-9]\<close>, \<open>[1-5]?[0-9]{2,4}\<close>, \<open>6[0-4][0-9]{3}\<close>, \<open>65[0-4][0-9]{2}\<close>, \<open>655[0-2][0-9]\<close>, \<open>6553[0-5]\<close>,
  anchored with the flag \<open>m\<close>.
\<close>

definition portPattern :: rx where
  "portPattern =
     Alt (digits 1 9)
    (Alt (Seq (opt (digits 1 5)) (between 2 4 (digits 0 9)))
    (Alt (Seq (digits 6 6) (Seq (digits 0 4) (times 3 (digits 0 9))))
    (Alt (Seq (digits 6 6) (Seq (digits 5 5) (Seq (digits 0 4) (times 2 (digits 0 9)))))
    (Alt (Seq (digits 6 6) (Seq (digits 5 5) (Seq (digits 5 5) (Seq (digits 0 2) (digits 0 9)))))
         (Seq (digits 6 6) (Seq (digits 5 5) (Seq (digits 5 5) (Seq (digits 3 3) (digits 0 5)))))))))"

definition parsePort :: "string \<Rightarrow> jsnum" where
  "parsePort port = (if test_lines portPattern port then parse_int port else Num 0)"

text \<open>A port of the form is a text, or a number after \<open>sortAndCombinePorts\<close>.\<close>

datatype port_value = PortText string | PortNum jsnum

fun port_string :: "port_value \<Rightarrow> string" where
  "port_string (PortText s) = s"
| "port_string (PortNum n) = show_num n"

fun port_falsy :: "port_value \<Rightarrow> bool" where
  "port_falsy (PortText s) = (s = [])"
| "port_falsy (PortNum n) = (n = NaN \<or> n = Num 0)"

definition parsePortRange :: "port_value \<Rightarrow> jsnum list" where
  "parsePortRange portRange =
     (let stringPorts = split_char_limit CHR ''-'' 2 (port_string portRange);
          intPorts = map parsePort stringPorts
      in if length intPorts = 1 then intPorts @ [hd intPorts] else intPorts)"

text \<open>
  \<open>isValidPortRange\<close> takes an array or a string; for a string it calls \<open>parsePortRange()\<close> with no argument,
  which reads \<open>toString\<close> of \<open>undefined\<close>.
\<close>

datatype range_arg = RangeString string | RangeArray "jsnum list"

fun isValidPortRange :: "range_arg \<Rightarrow> bool js_result" where
  "isValidPortRange (RangeString s) = Inl TypeError"
| "isValidPortRange (RangeArray r) =
     Inr (length r = 2 \<and> num_less (Num 0) (r ! 0) \<and> num_leq (r ! 0) (r ! 1))"

definition createPortRange :: "port_value \<Rightarrow> port_value \<Rightarrow> string" where
  "createPortRange portRangeText port =
     (let text = port_string portRangeText;
          colonIndex = find_sub text '':'';
          hostIp = (case colonIndex of None \<Rightarrow> None | Some i \<Rightarrow> Some (take i text));
          rangeText = (case colonIndex of None \<Rightarrow> text | Some i \<Rightarrow> drop (Suc i) text);
          portNumber = (case port of PortNum n \<Rightarrow> n | PortText s \<Rightarrow> parsePort s);
          portRange = parsePortRange (PortText rangeText);
          startPort = num_min (portRange ! 0) portNumber;
          endPort = num_max (portRange ! 1) portNumber;
          range = show_num startPort @ ''-'' @ show_num endPort
      in if truthy_str hostIp then the hostIp @ '':'' @ range else range)"

section \<open>From the form to Docker\<close>

text \<open>One row of the form, and one binding of Docker's \<open>PortBindings\<close>.\<close>

record port_row =
  row_hostPort :: "string option"
  row_containerPort :: port_value
  row_protocol :: string

record port_binding =
  HostIp :: "string option"
  HostPort :: "string option"

type_synonym port_bindings = "port_binding list obj"

definition invalid_port :: "string \<Rightarrow> js_error" where
  "invalid_port s = ThrownError (''Invalid port specification: '' @ s)"

text \<open>The host address and the host port text of a row with a host port.\<close>

definition split_host :: "port_value \<Rightarrow> string \<Rightarrow> (string option \<times> string) js_result" where
  "split_host containerPort hostPort =
     (if contains hostPort ''['' then
        (let hostAndPort = split_sub '']:'' hostPort
         in if length hostAndPort < 2 then Inl (invalid_port (port_string containerPort))
            else Inr (Some (replace_first ''['' [] (hostAndPort ! 0)), hostAndPort ! 1))
      else if contains hostPort '':'' then
        (let hostAndPort = split_char CHR '':'' hostPort
         in Inr (Some (hostAndPort ! 0), hostAndPort ! 1))
      else Inr (None, hostPort))"

text \<open>The number in a checked range: the check has excluded \<open>NaN\<close>.\<close>

fun num_of :: "jsnum \<Rightarrow> int" where
  "num_of (Num i) = i"
| "num_of NaN = 0"

definition push_binding :: "string \<Rightarrow> port_binding \<Rightarrow> port_bindings \<Rightarrow> port_bindings" where
  "push_binding bindKey b bindings =
     (case obj_get bindings bindKey of
        Some bs \<Rightarrow> obj_set bindings bindKey (bs @ [b])
      | None \<Rightarrow> obj_set bindings bindKey [b])"

text \<open>
  The inner loop over the ports of a row: \<open>hostPort\<close> is the text left by the code above it, which the
  loop replaces where there is a host range.
\<close>

definition row_ports ::
  "int \<Rightarrow> int \<Rightarrow> int \<Rightarrow> int \<Rightarrow> string option \<Rightarrow> string option \<Rightarrow> string \<Rightarrow> (string \<times> port_binding) list" where
  "row_ports startPort endPort startHostPort endHostPort hostIp hostPort protocol =
     map (\<lambda>i.
        let containerPort = show_int (startPort + int i);
            hostPort1 = (if startHostPort > 0 then Some (show_int (startHostPort + int i)) else hostPort);
            hostPort2 = (if startPort = endPort \<and> startHostPort \<noteq> endHostPort
                         then map_option (\<lambda>s. s @ ''-'' @ show_int endHostPort) hostPort1
                         else hostPort1)
        in (containerPort @ ''/'' @ protocol, \<lparr>HostIp = hostIp, HostPort = hostPort2\<rparr>))
       [0..<nat (endPort - startPort + 1)]"

definition prepare_row :: "port_row \<Rightarrow> port_bindings \<Rightarrow> port_bindings js_result" where
  "prepare_row portBinding bindings =
     (if port_falsy (row_containerPort portBinding) then Inr bindings
      else
        let containerPortRange = parsePortRange (row_containerPort portBinding) in
        and_then (isValidPortRange (RangeArray containerPortRange)) (\<lambda>valid.
        if \<not> valid then Inl (invalid_port (port_string (row_containerPort portBinding)))
        else
          let startPort = num_of (containerPortRange ! 0);
              endPort = num_of (containerPortRange ! 1)
          in if truthy_str (row_hostPort portBinding) then
               and_then (split_host (row_containerPort portBinding) (the (row_hostPort portBinding)))
                 (\<lambda>(hostIp, hostPort).
                 let hostPortRange = parsePortRange (PortText hostPort) in
                 and_then (isValidPortRange (RangeArray hostPortRange)) (\<lambda>validHost.
                 if \<not> validHost then Inl (invalid_port hostPort)
                 else
                   let startHostPort = num_of (hostPortRange ! 0);
                       endHostPort = num_of (hostPortRange ! 1)
                   in if endPort \<noteq> startPort \<and> endPort - startPort \<noteq> endHostPort - startHostPort
                      then Inl (invalid_port hostPort)
                      else Inr (fold (\<lambda>(k, b). push_binding k b)
                             (row_ports startPort endPort startHostPort endHostPort hostIp (Some hostPort)
                                (row_protocol portBinding)) bindings)))
             else Inr (fold (\<lambda>(k, b). push_binding k b)
                    (row_ports startPort endPort 0 0 None (row_hostPort portBinding)
                       (row_protocol portBinding)) bindings)))"

definition preparePortBindings :: "port_row list \<Rightarrow> port_bindings js_result" where
  "preparePortBindings portBindings = fold_result prepare_row portBindings []"

section \<open>From Docker to the form\<close>

text \<open>The second part of a key such as \<open>80/tcp\<close>, as the property name it becomes.\<close>

definition key_protocol :: "string \<Rightarrow> string" where
  "key_protocol portKey =
     (case elem_at (split_char CHR ''/'' portKey) 1 of None \<Rightarrow> ''undefined'' | Some p \<Rightarrow> p)"

definition key_port :: "string \<Rightarrow> jsnum" where
  "key_port portKey = parse_int (split_char CHR ''/'' portKey ! 0)"

text \<open>\<open>_.orderBy\<close> on numbers is stable, with \<open>NaN\<close> last.\<close>

definition order_key :: "string \<Rightarrow> bool \<times> int" where
  "order_key portKey = (case key_port portKey of NaN \<Rightarrow> (True, 0) | Num n \<Rightarrow> (False, n))"

definition ip_name :: "string option \<Rightarrow> string" where
  "ip_name ip = (case ip of None \<Rightarrow> ''undefined'' | Some s \<Rightarrow> s)"

text \<open>\<open>portBindingKeysByHostIp\<close>: for each host address the keys that have a binding on it.\<close>

definition keys_by_host_ip :: "port_bindings \<Rightarrow> string list \<Rightarrow> string list obj" where
  "keys_by_host_ip portBindings portKeys =
     fold (\<lambda>portKey acc.
        fold (\<lambda>b acc.
           (let acc1 = (case obj_get acc (ip_name (HostIp b)) of
                          None \<Rightarrow> obj_set acc (ip_name (HostIp b)) [] | Some ks \<Rightarrow> acc)
            in obj_set acc1 (ip_name (HostIp b))
                 ((case obj_get acc1 (ip_name (HostIp b)) of None \<Rightarrow> [] | Some ks \<Rightarrow> ks) @ [portKey])))
         (case obj_get portBindings portKey of None \<Rightarrow> [] | Some bs \<Rightarrow> bs) acc)
       portKeys []"

record combined_row =
  c_hostPort :: string
  c_containerPort :: port_value
  c_protocol :: string

record combine_state =
  rows :: "combined_row list"
  remaining :: port_bindings
  previousHostPort :: jsnum
  previousContainerPort :: jsnum

definition extend_last :: "jsnum \<Rightarrow> jsnum \<Rightarrow> combined_row list \<Rightarrow> combined_row list" where
  "extend_last hostPort containerPort bs =
     butlast bs @
     [(last bs)\<lparr>c_hostPort := createPortRange (PortText (c_hostPort (last bs))) (PortNum hostPort),
                c_containerPort :=
                  PortText (createPortRange (c_containerPort (last bs)) (PortNum containerPort))\<rparr>]"

fun num_pred :: "jsnum \<Rightarrow> jsnum" where
  "num_pred (Num i) = Num (i - 1)"
| "num_pred NaN = NaN"

definition combine_key :: "string \<Rightarrow> string \<Rightarrow> string \<Rightarrow> combine_state \<Rightarrow> combine_state js_result" where
  "combine_key protocol ip portKey st =
     (case obj_get (remaining st) portKey of
        Some (portBinding # rest) \<Rightarrow>
          (let containerPort = key_port portKey;
               hostPort = parsePort (case HostPort portBinding of None \<Rightarrow> ''undefined'' | Some s \<Rightarrow> s);
               st1 = st\<lparr>remaining := obj_set (remaining st) portKey rest\<rparr>
           in if num_less (Num 0) hostPort \<and> rows st1 \<noteq> [] \<and>
                 num_eq (previousHostPort st1) (num_pred hostPort) \<and>
                 num_eq (previousContainerPort st1) (num_pred containerPort)
              then Inr (st1\<lparr>rows := extend_last hostPort containerPort (rows st1),
                            previousHostPort := hostPort, previousContainerPort := containerPort\<rparr>)
              else
                let st2 = (if num_less (Num 0) hostPort
                           then st1\<lparr>previousHostPort := hostPort, previousContainerPort := containerPort\<rparr>
                           else st1\<lparr>previousHostPort := Num (-1), previousContainerPort := Num (-1)\<rparr>)
                in (case HostPort portBinding of
                      None \<Rightarrow> Inl TypeError
                    | Some hp \<Rightarrow>
                        (let bindingHostPort = (if ip \<noteq> [] then ip @ '':'' @ hp else hp)
                         in Inr (st2\<lparr>rows := rows st2 @
                              [\<lparr>c_hostPort = bindingHostPort, c_containerPort = PortNum containerPort,
                                c_protocol = protocol\<rparr>]\<rparr>))))
      | _ \<Rightarrow> Inl TypeError)"

definition combine_ip :: "string \<Rightarrow> string \<times> string list \<Rightarrow> combine_state \<Rightarrow> combine_state js_result" where
  "combine_ip protocol ipKeys st =
     fold_result (combine_key protocol (fst ipKeys)) (sort_key order_key (snd ipKeys))
       (st\<lparr>previousHostPort := Num (-1), previousContainerPort := Num (-1)\<rparr>)"

definition combine_protocol :: "string \<times> string list \<Rightarrow> combine_state \<Rightarrow> combine_state js_result" where
  "combine_protocol protocolKeys st =
     fold_result (combine_ip (fst protocolKeys))
       (obj_entries (keys_by_host_ip (remaining st) (snd protocolKeys))) st"

definition sortAndCombinePorts :: "port_bindings \<Rightarrow> combined_row list js_result" where
  "sortAndCombinePorts portBindings =
     and_then
       (fold_result combine_protocol (obj_entries (group_by key_protocol (obj_keys portBindings)))
          \<lparr>rows = [], remaining = portBindings, previousHostPort = Num (-1),
           previousContainerPort = Num (-1)\<rparr>)
       (\<lambda>st. Inr (rows st))"

text \<open>A row that \<open>sortAndCombinePorts\<close> made, edited no further, goes back through \<open>preparePortBindings\<close>.\<close>

definition row_of_combined :: "combined_row \<Rightarrow> port_row" where
  "row_of_combined r =
     \<lparr>row_hostPort = Some (c_hostPort r), row_containerPort = c_containerPort r,
      row_protocol = c_protocol r\<rparr>"

section \<open>What a port text is\<close>

lemmas port_pattern_unfold = portPattern_def between_def times_numeral in_lang_Seq_assoc

lemma port_pattern_five:
  "in_lang portPattern [a, b, c, d, e] \<longleftrightarrow>
     list_all is_digit [a, b, c, d, e] \<and>
     (let p = digit_value a; q = digit_value b; r = digit_value c; s = digit_value d; t = digit_value e
      in 1 \<le> p \<and> (p < 6 \<or> p = 6 \<and> (q < 5 \<or> q = 5 \<and> (r < 5 \<or> r = 5 \<and> (s < 3 \<or> s = 3 \<and> t \<le> 5)))))"
proof -
  have "in_lang portPattern [a, b, c, d, e] \<longleftrightarrow> list_all is_digit [a, b, c, d, e] \<and>
     (let p = digit_value a; q = digit_value b; r = digit_value c; s = digit_value d; t = digit_value e
      in (1 \<le> p \<and> p \<le> 5) \<or> (p = 6 \<and> q \<le> 4) \<or> (p = 6 \<and> q = 5 \<and> r \<le> 4) \<or>
         (p = 6 \<and> q = 5 \<and> r = 5 \<and> s \<le> 2) \<or> (p = 6 \<and> q = 5 \<and> r = 5 \<and> s = 3 \<and> t \<le> 5))"
    by (simp add: port_pattern_unfold Let_def) (auto simp: eq_iff)
  moreover have "((1 \<le> p \<and> p \<le> 5) \<or> (p = 6 \<and> q \<le> 4) \<or> (p = 6 \<and> q = 5 \<and> r \<le> 4) \<or>
         (p = 6 \<and> q = 5 \<and> r = 5 \<and> s \<le> 2) \<or> (p = 6 \<and> q = 5 \<and> r = 5 \<and> s = 3 \<and> t \<le> 5)) \<longleftrightarrow>
      1 \<le> p \<and> (p < 6 \<or> p = 6 \<and> (q < 5 \<or> q = 5 \<and> (r < 5 \<or> r = 5 \<and> (s < 3 \<or> s = 3 \<and> t \<le> 5))))"
    for p q r s t :: nat
  proof -
    have "p \<le> 5 \<longleftrightarrow> p < 6" "q \<le> 4 \<longleftrightarrow> q < 5" "r \<le> 4 \<longleftrightarrow> r < 5" "s \<le> 2 \<longleftrightarrow> s < 3" "p = 6 \<Longrightarrow> 1 \<le> p"
      by auto
    then show ?thesis by blast
  qed
  ultimately show ?thesis by (simp only: Let_def)
qed

lemma lex_le:
  fixes B p u x m :: nat
  assumes "x < B" and "m < B"
  shows "B * p + x \<le> B * u + m \<longleftrightarrow> p < u \<or> (p = u \<and> x \<le> m)"
proof (cases p u rule: linorder_cases)
  case less
  then have "B * p + B \<le> B * u" by (metis Suc_leI mult_Suc_right mult_le_mono2 add.commute)
  with less assms show ?thesis by auto
next
  case greater
  then have "B * u + B \<le> B * p" by (metis Suc_leI mult_Suc_right mult_le_mono2 add.commute)
  with greater assms show ?thesis by auto
qed auto

lemma five_digits_bound:
  fixes p q r s t :: nat
  assumes "q \<le> 9" "r \<le> 9" "s \<le> 9" "t \<le> 9"
  shows "10 * (10 * (10 * (10 * p + q) + r) + s) + t \<le> 65535 \<longleftrightarrow>
      p < 6 \<or> p = 6 \<and> (q < 5 \<or> q = 5 \<and> (r < 5 \<or> r = 5 \<and> (s < 3 \<or> s = 3 \<and> t \<le> 5)))"
    and "10000 \<le> 10 * (10 * (10 * (10 * p + q) + r) + s) + t \<longleftrightarrow> 1 \<le> p"
proof -
  have "10 * (10 * (10 * (10 * p + q) + r) + s) + t = 10000 * p + (1000 * q + (100 * r + (10 * s + t)))"
    by simp
  moreover have "10000 * p + (1000 * q + (100 * r + (10 * s + t))) \<le> 65535 \<longleftrightarrow>
      p < 6 \<or> p = 6 \<and> 1000 * q + (100 * r + (10 * s + t)) \<le> 5535"
    using lex_le [of "1000 * q + (100 * r + (10 * s + t))" 10000 5535 p 6] assms by simp
  moreover have "1000 * q + (100 * r + (10 * s + t)) \<le> 5535 \<longleftrightarrow>
      q < 5 \<or> q = 5 \<and> 100 * r + (10 * s + t) \<le> 535"
    using lex_le [of "100 * r + (10 * s + t)" 1000 535 q 5] assms by simp
  moreover have "100 * r + (10 * s + t) \<le> 535 \<longleftrightarrow> r < 5 \<or> r = 5 \<and> 10 * s + t \<le> 35"
    using lex_le [of "10 * s + t" 100 35 r 5] assms by simp
  moreover have "10 * s + t \<le> 35 \<longleftrightarrow> s < 3 \<or> s = 3 \<and> t \<le> 5"
    using lex_le [of t 10 5 s 3] assms by simp
  ultimately show "10 * (10 * (10 * (10 * p + q) + r) + s) + t \<le> 65535 \<longleftrightarrow>
      p < 6 \<or> p = 6 \<and> (q < 5 \<or> q = 5 \<and> (r < 5 \<or> r = 5 \<and> (s < 3 \<or> s = 3 \<and> t \<le> 5)))"
    by (simp only:)
  show "10000 \<le> 10 * (10 * (10 * (10 * p + q) + r) + s) + t \<longleftrightarrow> 1 \<le> p"
    using assms by (cases "p = 0") auto
qed

lemma list_upto_four:
  assumes "length s \<le> 4"
  obtains "s = []" | a where "s = [a]" | a b where "s = [a, b]" | a b c where "s = [a, b, c]"
    | a b c d where "s = [a, b, c, d]"
proof -
  have "length s = 0 \<or> length s = 1 \<or> length s = 2 \<or> length s = 3 \<or> length s = 4"
    using assms by linarith
  then show ?thesis
    using that by (auto simp: numeral_eq_Suc length_Suc_conv)
qed

lemma port_pattern_four:
  "length s \<le> 4 \<Longrightarrow> in_lang portPattern s \<longleftrightarrow>
     list_all is_digit s \<and> (2 \<le> length s \<or> length s = 1 \<and> 1 \<le> digits_value s)"
  by (erule list_upto_four) (auto simp: port_pattern_unfold digits_value_def)

lemma port_pattern_length: "in_lang portPattern s \<Longrightarrow> length s \<le> 5"
  by (auto simp: port_pattern_unfold)

lemma port_pattern_lang:
  "in_lang portPattern s \<longleftrightarrow> list_all is_digit s \<and>
     (length s = 1 \<and> 1 \<le> digits_value s \<or> 2 \<le> length s \<and> length s \<le> 4 \<or>
      length s = 5 \<and> 10000 \<le> digits_value s \<and> digits_value s \<le> 65535)"
proof (cases "length s = 5")
  case True
  then obtain a b c d e where s: "s = [a, b, c, d, e]"
    by (auto simp: numeral_eq_Suc length_Suc_conv)
  have dv: "digits_value s = 10 * (10 * (10 * (10 * digit_value a + digit_value b) + digit_value c)
      + digit_value d) + digit_value e"
    by (simp add: s digits_value_def)
  note bounds = five_digits_bound
    [of "digit_value b" "digit_value c" "digit_value d" "digit_value e" "digit_value a"]
  show ?thesis
  proof (cases "list_all is_digit [a, b, c, d, e]")
    case True
    with bounds dv show ?thesis
      by (simp add: s port_pattern_five Let_def del: One_nat_def)
  next
    case False
    then show ?thesis unfolding s port_pattern_five by blast
  qed
next
  case False
  then show ?thesis
    using port_pattern_four [of s] port_pattern_length [of s] by (cases "length s \<le> 4") auto
qed

lemma port_pattern_show_nat: "in_lang portPattern (show_nat n) \<longleftrightarrow> 1 \<le> n \<and> n \<le> 65535"
proof -
  have pos: "1 \<le> length (show_nat n)" using show_nat_nonempty [of n] by (cases "show_nat n") auto
  have one: "length (show_nat n) = 1 \<longleftrightarrow> n < 10"
    using length_show_nat_iff [of n 0] pos by auto
  have four: "length (show_nat n) \<le> 4 \<longleftrightarrow> n < 10000"
    using length_show_nat_iff [of n 3] by simp
  have five: "length (show_nat n) \<le> 5 \<longleftrightarrow> n < 100000"
    using length_show_nat_iff [of n 4] by simp
  show ?thesis
    using pos one four five by (auto simp: port_pattern_lang show_nat_digits)
qed

lemma parsePort_show_nat:
  "parsePort (show_nat n) = (if 1 \<le> n \<and> n \<le> 65535 then Num (int n) else Num 0)"
  using one_line_show_nat [of n]
  by (simp add: parsePort_def test_lines_single port_pattern_show_nat)

lemma parsePort_range:
  assumes "one_line s"
  shows "\<exists>n. parsePort s = Num n \<and> 0 \<le> n \<and> n \<le> 65535"
proof (cases "in_lang portPattern s")
  case True
  then have digits: "list_all is_digit s" and "s \<noteq> []" and "digits_value s \<le> 65535"
    using digits_value_bound [of s] power_increasing [of "length s" 4 "10 :: nat"]
    by (auto simp: port_pattern_lang)
  moreover have "parse_int s = Num (int (digits_value s))"
    using parse_int_digits [of s "[]"] digits \<open>s \<noteq> []\<close> by simp
  ultimately show ?thesis
    using True assms by (simp add: parsePort_def test_lines_single)
next
  case False
  then show ?thesis using assms by (simp add: parsePort_def test_lines_single)
qed
lemma minus_not_digit: "\<not> is_digit CHR ''-''" "\<not> is_digit CHR '':''" "\<not> is_digit CHR ''/''" "\<not> is_digit CHR ''[''"
  by (simp_all add: is_digit_def)

lemma show_nat_plain [simp]:
  "CHR ''-'' \<notin> set (show_nat n)" "CHR '':'' \<notin> set (show_nat n)"
  "CHR ''/'' \<notin> set (show_nat n)" "CHR ''['' \<notin> set (show_nat n)"
  using show_nat_no_char minus_not_digit by blast+

text \<open>The text of a range of ports, and what the parser reads in it.\<close>

definition range_text :: "nat \<Rightarrow> nat \<Rightarrow> string" where
  "range_text a b = show_nat a @ ''-'' @ show_nat b"

definition is_port :: "nat \<Rightarrow> bool" where
  "is_port n \<longleftrightarrow> 1 \<le> n \<and> n \<le> 65535"

lemma is_port_pos: "is_port n \<Longrightarrow> 0 < n"
  by (simp add: is_port_def)

lemma parsePort_is_port [simp]: "is_port n \<Longrightarrow> parsePort (show_nat n) = Num (int n)"
  by (simp add: is_port_def parsePort_show_nat)

lemma parsePortRange_single [simp]:
  "is_port n \<Longrightarrow> parsePortRange (PortText (show_nat n)) = [Num (int n), Num (int n)]"
  by (simp add: parsePortRange_def split_char_limit_def split_char_notin)

lemma parsePortRange_range [simp]:
  "is_port a \<Longrightarrow> is_port b \<Longrightarrow> parsePortRange (PortText (range_text a b)) = [Num (int a), Num (int b)]"
  by (simp add: parsePortRange_def split_char_limit_def range_text_def split_char_append split_char_notin)

lemma parsePortRange_number [simp]:
  "is_port n \<Longrightarrow> parsePortRange (PortNum (Num (int n))) = [Num (int n), Num (int n)]"
  using parsePortRange_single [of n] by (simp add: parsePortRange_def show_int_def)

lemma valid_range [simp]:
  "is_port a \<Longrightarrow> isValidPortRange (RangeArray [Num (int a), Num (int b)]) = Inr (a \<le> b)"
  by (simp add: is_port_def)

lemma show_int_of_nat [simp]: "show_int (int n) = show_nat n"
  by (simp add: show_int_def)

lemma range_text_plain [simp]: "CHR '':'' \<notin> set (range_text a b)" "CHR ''['' \<notin> set (range_text a b)"
  by (auto simp: range_text_def)

lemma range_text_nonempty [simp]: "range_text a b \<noteq> []"
  by (simp add: range_text_def)

text \<open>Growing a range by the next port.\<close>

definition ip_prefix :: "string \<Rightarrow> string" where
  "ip_prefix ip = (if ip = [] then [] else ip @ '':'')"

lemma createPortRange_ip:
  assumes "CHR '':'' \<notin> set ip" "CHR '':'' \<notin> set t" "parsePortRange (PortText t) = [Num (int a), Num (int b)]"
    and "a \<le> n" "b \<le> n"
  shows "createPortRange (PortText (ip_prefix ip @ t)) (PortNum (Num (int n))) = ip_prefix ip @ range_text a n"
proof -
  have "find_sub (ip_prefix ip @ t) '':'' = (if ip = [] then None else Some (length ip))"
    using assms(1,2) find_sub_single_append [of "CHR '':''" ip t]
    by (simp add: ip_prefix_def find_sub_single_notin)
  with assms show ?thesis
    by (cases "ip = []") (simp_all add: createPortRange_def Let_def ip_prefix_def range_text_def max_def min_def)
qed

section \<open>The rows of the form\<close>

lemma fold_push_distinct:
  assumes "distinct (map fst kbs)" and "\<forall>k \<in> set (map fst kbs). obj_get bs k = None"
  shows "fold (\<lambda>(k, b). push_binding k b) kbs bs = bs @ map (\<lambda>(k, b). (k, [b])) kbs"
  using assms
proof (induction kbs arbitrary: bs)
  case (Cons kb kbs)
  obtain k b where kb: "kb = (k, b)" by (cases kb)
  have new: "k \<notin> fst ` set bs" using Cons.prems(2) kb by (simp add: obj_get_eq_None)
  then have push: "push_binding k b bs = bs @ [(k, [b])]"
    by (simp add: push_binding_def obj_get_eq_None [THEN iffD2] obj_set_new)
  have "\<forall>j \<in> set (map fst kbs). obj_get (bs @ [(k, [b])]) j = None"
    using Cons.prems kb by (auto simp: obj_get_eq_None)
  with Cons kb push show ?case by simp
qed simp

lemma port_key_inj: "show_nat a @ ''/'' @ p = show_nat b @ ''/'' @ q \<longleftrightarrow> a = b \<and> p = q"
proof
  assume eq: "show_nat a @ ''/'' @ p = show_nat b @ ''/'' @ q"
  have "split_char CHR ''/'' (show_nat n @ CHR ''/'' # r) = show_nat n # split_char CHR ''/'' r" for n r
    by (simp add: split_char_append)
  with eq have "show_nat a # split_char CHR ''/'' p = show_nat b # split_char CHR ''/'' q"
    by (metis append_Cons append_Nil)
  then have "a = b" by simp
  with eq show "a = b \<and> p = q" by simp
qed simp

text \<open>The bindings of the ports \<open>c + i\<close> to the ports \<open>h + i\<close>, one for each.\<close>

definition run_bindings :: "nat \<Rightarrow> nat \<Rightarrow> nat \<Rightarrow> string option \<Rightarrow> string \<Rightarrow> port_bindings" where
  "run_bindings c h m ip p =
     map (\<lambda>i. (show_nat (c + i) @ ''/'' @ p, [\<lparr>HostIp = ip, HostPort = Some (show_nat (h + i))\<rparr>])) [0..<m]"

lemma row_ports_run:
  assumes "0 < m" and "0 < h"
  shows "map (\<lambda>(k, b). (k, [b]))
     (row_ports (int c) (int (c + m - 1)) (int h) (int (h + m - 1)) ip hp p) = run_bindings c h m ip p"
proof -
  have n: "nat (int (c + m - 1) - int c + 1) = m" using assms by simp
  have eq: "int c + int i = int (c + i)" "int h + int i = int (h + i)" for i by simp_all
  have "int c = int (c + m - 1) \<and> int h \<noteq> int (h + m - 1) \<longleftrightarrow> False" using assms by auto
  then show ?thesis
    unfolding row_ports_def n run_bindings_def using assms
    by (simp add: Let_def eq del: of_nat_add)
qed

lemma distinct_run_keys: "distinct (map fst (run_bindings c h m ip p))"
  by (auto simp: run_bindings_def distinct_map inj_on_def port_key_inj [simplified])

lemma obj_ok_run [simp]: "obj_ok (run_bindings c h m ip p)"
  by (simp add: obj_ok_def distinct_run_keys)

text \<open>The host part of a row: no address, or an address without a colon.\<close>

lemma split_host_ip:
  assumes "CHR '':'' \<notin> set ip" "CHR ''['' \<notin> set ip" "CHR '':'' \<notin> set t" "CHR ''['' \<notin> set t"
  shows "split_host cp (ip_prefix ip @ t) = Inr (if ip = [] then None else Some ip, t)"
  using assms
  by (simp add: split_host_def ip_prefix_def Let_def split_char_append split_char_notin)

definition port_text :: "nat \<Rightarrow> nat \<Rightarrow> string" where
  "port_text a b = (if a = b then show_nat a else range_text a b)"

lemma port_text_plain [simp]: "CHR '':'' \<notin> set (port_text a b)" "CHR ''['' \<notin> set (port_text a b)"
  "port_text a b \<noteq> []"
  by (simp_all add: port_text_def)

lemma parsePortRange_port_text [simp]:
  "is_port a \<Longrightarrow> is_port b \<Longrightarrow> parsePortRange (PortText (port_text a b)) = [Num (int a), Num (int b)]"
  by (simp add: port_text_def)

lemma fold_push_run:
  assumes "0 < m" and "0 < h"
  shows "fold (\<lambda>(k, b). push_binding k b)
     (row_ports (int c) (int (c + m - 1)) (int h) (int (h + m - 1)) ip hp p) [] = run_bindings c h m ip p"
proof -
  let ?kbs = "row_ports (int c) (int (c + m - 1)) (int h) (int (h + m - 1)) ip hp p"
  have run: "map (\<lambda>(k, b). (k, [b])) ?kbs = run_bindings c h m ip p"
    using assms by (rule row_ports_run)
  have "map fst ?kbs = map fst (run_bindings c h m ip p)"
    unfolding run [symmetric] by (induction ?kbs) auto
  then have "distinct (map fst ?kbs)" by (simp add: distinct_run_keys)
  from fold_push_distinct [OF this, of "[]"] run show ?thesis by simp
qed

text \<open>A row with a range of container ports and a range of host ports of the same length.\<close>

lemma prepare_range_row:
  assumes "is_port c" "is_port (c + m - 1)" "is_port h" "is_port (h + m - 1)" "0 < m"
    and "CHR '':'' \<notin> set ip" "CHR ''['' \<notin> set ip"
    and "cp = PortText (port_text c (c + m - 1)) \<or> (m = 1 \<and> cp = PortNum (Num (int c)))"
  shows "preparePortBindings
      [\<lparr>row_hostPort = Some (ip_prefix ip @ port_text h (h + m - 1)), row_containerPort = cp,
        row_protocol = p\<rparr>]
    = Inr (run_bindings c h m (if ip = [] then None else Some ip) p)"
proof -
  have cp: "\<not> port_falsy cp" "parsePortRange cp = [Num (int c), Num (int (c + m - 1))]"
    using assms by (auto simp: is_port_def simp del: of_nat_add of_nat_diff)
  have le: "c \<le> c + m - 1" "h \<le> h + m - 1" using \<open>0 < m\<close> by auto
  have len: "int (c + m - 1) - int c = int (h + m - 1) - int h" using \<open>0 < m\<close> by simp
  have host: "ip_prefix ip @ port_text h (h + m - 1) \<noteq> []" by simp
  have "0 < h" "0 < c" using assms(1,3) by (simp_all add: is_port_pos)
  then show ?thesis
    using assms cp le len host fold_push_run [OF \<open>0 < m\<close> \<open>0 < h\<close>]
    by (simp add: preparePortBindings_def prepare_row_def Let_def split_host_ip
        del: of_nat_add of_nat_diff)
qed

lemma prepare_length_mismatch:
  assumes "is_port a" "is_port b" "is_port h" "is_port k" "a < b" "h \<le> k" "b - a \<noteq> k - h"
  shows "preparePortBindings
      (\<lparr>row_hostPort = Some (range_text h k), row_containerPort = PortText (range_text a b),
        row_protocol = p\<rparr> # rs)
    = Inl (ThrownError (''Invalid port specification: '' @ range_text h k))"
proof -
  have ne: "int b \<noteq> int a \<and> int b - int a \<noteq> int k - int h" using assms by auto
  have host: "split_host cp (range_text h k) = Inr (None, range_text h k)" for cp
    using split_host_ip [of "[]" "range_text h k" cp] by (simp add: ip_prefix_def)
  show ?thesis
    using assms ne host is_port_pos [OF assms(1)]
    by (simp add: preparePortBindings_def prepare_row_def Let_def invalid_port_def)
qed

section \<open>Combining a run of ports\<close>

lemma key_protocol_port [simp]: "CHR ''/'' \<notin> set p \<Longrightarrow> key_protocol (show_nat n @ CHR ''/'' # p) = p"
  by (simp add: key_protocol_def split_char_append split_char_notin)

lemma key_port_port [simp]: "key_port (show_nat n @ CHR ''/'' # p) = Num (int n)"
  by (simp add: key_port_def split_char_append)

lemma not_index_port [simp]: "\<not> is_array_index (show_nat n @ CHR ''/'' # p)"
  by (simp add: is_array_index_def is_digit_def)

lemma obj_keys_run: "obj_keys (run_bindings c h m ip p) = map (\<lambda>i. show_nat (c + i) @ ''/'' @ p) [0..<m]"
  by (simp add: obj_keys_def run_bindings_def key_order_strings o_def)

lemma obj_get_run:
  "i < m \<Longrightarrow> obj_get (run_bindings c h m ip p) (show_nat (c + i) @ ''/'' @ p) =
     Some [\<lparr>HostIp = ip, HostPort = Some (show_nat (h + i))\<rparr>]"
proof -
  assume "i < m"
  then have "(show_nat (c + i) @ ''/'' @ p, [\<lparr>HostIp = ip, HostPort = Some (show_nat (h + i))\<rparr>])
      \<in> set (run_bindings c h m ip p)"
    by (auto simp: run_bindings_def)
  then show ?thesis by (simp only: obj_get_in_set [OF obj_ok_run])
qed

lemma fold_group_same:
  assumes "\<forall>x \<in> set xs. f x = k"
  shows "fold (group_add f) xs [(k, ys)] = [(k, ys @ xs)]"
  using assms by (induction xs arbitrary: ys) (simp_all add: group_add_def)

lemma group_by_same: "xs \<noteq> [] \<Longrightarrow> \<forall>x \<in> set xs. f x = k \<Longrightarrow> group_by f xs = [(k, xs)]"
  by (cases xs) (simp_all add: group_by_def group_add_def fold_group_same)

lemma keys_by_host_ip_same:
  assumes "ks \<noteq> []" and "\<forall>k \<in> set ks. \<exists>hp. obj_get bs k = Some [\<lparr>HostIp = Some ip, HostPort = hp\<rparr>]"
  shows "keys_by_host_ip bs ks = [(ip, ks)]"
proof -
  let ?f = "\<lambda>portKey acc. fold (\<lambda>b acc.
           (let acc1 = (case obj_get acc (ip_name (HostIp b)) of
                          None \<Rightarrow> obj_set acc (ip_name (HostIp b)) [] | Some ks \<Rightarrow> acc)
            in obj_set acc1 (ip_name (HostIp b))
                 ((case obj_get acc1 (ip_name (HostIp b)) of None \<Rightarrow> [] | Some ks \<Rightarrow> ks) @ [portKey])))
         (case obj_get bs portKey of None \<Rightarrow> [] | Some bs \<Rightarrow> bs) acc"
  have step: "fold ?f xs [(ip, ys)] = [(ip, ys @ xs)]"
    if "\<forall>k \<in> set xs. \<exists>hp. obj_get bs k = Some [\<lparr>HostIp = Some ip, HostPort = hp\<rparr>]" for xs ys
    using that
  proof (induction xs arbitrary: ys)
    case (Cons k xs)
    then obtain hp where "obj_get bs k = Some [\<lparr>HostIp = Some ip, HostPort = hp\<rparr>]" by auto
    then show ?case using Cons by (simp add: ip_name_def)
  qed simp
  obtain k ks' where ks: "ks = k # ks'" using assms(1) by (cases ks) auto
  then obtain hp where "obj_get bs k = Some [\<lparr>HostIp = Some ip, HostPort = hp\<rparr>]" using assms(2) by auto
  then show ?thesis
    using step [of ks' "[k]"] assms(2) unfolding keys_by_host_ip_def ks
    by (simp add: ip_name_def)
qed

text \<open>The row after \<open>m\<close> ports of a run.\<close>

definition run_row :: "nat \<Rightarrow> nat \<Rightarrow> nat \<Rightarrow> string \<Rightarrow> string \<Rightarrow> combined_row" where
  "run_row c h m ip p =
     \<lparr>c_hostPort = ip_prefix ip @ port_text h (h + m - 1),
      c_containerPort = (if m = 1 then PortNum (Num (int c)) else PortText (range_text c (c + m - 1))),
      c_protocol = p\<rparr>"

lemma extend_run_row:
  assumes "0 < m" "is_port c" "is_port (c + m)" "is_port h" "is_port (h + m)" "CHR '':'' \<notin> set ip"
  shows "extend_last (Num (int (h + m))) (Num (int (c + m))) [run_row c h m ip p]
    = [run_row c h (Suc m) ip p]"
proof -
  have "is_port (h + m - 1)" "is_port (c + m - 1)" using assms by (auto simp: is_port_def)
  moreover have "createPortRange (PortNum (Num (int c))) (PortNum (Num (int (c + m)))) = range_text c (c + m)"
    using createPortRange_ip [of "[]" "show_nat c" c c "c + m"] assms
    by (simp add: ip_prefix_def createPortRange_def del: of_nat_add)
  moreover have "createPortRange (PortText (range_text c (c + m - 1))) (PortNum (Num (int (c + m))))
      = range_text c (c + m)"
    using createPortRange_ip [of "[]" "range_text c (c + m - 1)" c "c + m - 1" "c + m"] assms
      \<open>is_port (c + m - 1)\<close>
    by (simp add: ip_prefix_def del: of_nat_add of_nat_diff)
  moreover have "createPortRange (PortText (ip_prefix ip @ port_text h (h + m - 1)))
      (PortNum (Num (int (h + m)))) = ip_prefix ip @ range_text h (h + m)"
    using createPortRange_ip [of ip "port_text h (h + m - 1)" h "h + m - 1" "h + m"] assms
      \<open>is_port (h + m - 1)\<close>
    by (simp del: of_nat_add of_nat_diff)
  ultimately show ?thesis
    using assms(1)
    by (cases "m = 1") (simp_all add: extend_last_def run_row_def port_text_def
        del: of_nat_add of_nat_diff of_nat_Suc)
qed

lemma num_pred_Suc [simp]: "num_pred (Num (int (Suc n))) = Num (int n)"
  by simp

lemma combine_key_first:
  assumes "obj_get (remaining st) k = Some [\<lparr>HostIp = i, HostPort = Some (show_nat h)\<rparr>]"
    and "key_port k = Num (int c)" "is_port h" "previousHostPort st = Num (-1)"
  shows "combine_key p ip k st = Inr (st\<lparr>rows := rows st @
        [\<lparr>c_hostPort = ip_prefix ip @ show_nat h, c_containerPort = PortNum (Num (int c)), c_protocol = p\<rparr>],
      remaining := obj_set (remaining st) k [], previousHostPort := Num (int h),
      previousContainerPort := Num (int c)\<rparr>)"
  using assms is_port_pos [OF assms(3)] by (simp add: combine_key_def Let_def ip_prefix_def)

lemma combine_key_next:
  assumes "obj_get (remaining st) k = Some [\<lparr>HostIp = i, HostPort = Some (show_nat (Suc h))\<rparr>]"
    and "key_port k = Num (int (Suc c))" "is_port (Suc h)"
    and "previousHostPort st = Num (int h)" "previousContainerPort st = Num (int c)" "rows st \<noteq> []"
  shows "combine_key p ip k st = Inr (st\<lparr>
      rows := extend_last (Num (int (Suc h))) (Num (int (Suc c))) (rows st),
      remaining := obj_set (remaining st) k [],
      previousHostPort := Num (int (Suc h)), previousContainerPort := Num (int (Suc c))\<rparr>)"
  using assms by (simp add: combine_key_def Let_def)

text \<open>The loop over the keys of a run, from the second port on.\<close>

lemma combine_run_tail:
  assumes "0 < j" "\<forall>i < j + n. is_port (c + i) \<and> is_port (h + i)" "CHR '':'' \<notin> set ip"
    and "rows st = [run_row c h j ip p]" "previousHostPort st = Num (int (h + j - 1))"
    and "previousContainerPort st = Num (int (c + j - 1))"
    and "\<forall>i. j \<le> i \<and> i < j + n \<longrightarrow> obj_get (remaining st) (show_nat (c + i) @ ''/'' @ p) =
           Some [\<lparr>HostIp = Some ip, HostPort = Some (show_nat (h + i))\<rparr>]"
  shows "\<exists>st'. fold_result (combine_key p ip) (map (\<lambda>i. show_nat (c + i) @ ''/'' @ p) [j..<j + n]) st = Inr st' \<and>
    rows st' = [run_row c h (j + n) ip p]"
  using assms
proof (induction n arbitrary: j st)
  case (Suc n)
  let ?k = "show_nat (c + j) @ ''/'' @ p"
  let ?st = "st\<lparr>rows := [run_row c h (Suc j) ip p], remaining := obj_set (remaining st) ?k [],
      previousHostPort := Num (int (h + j)), previousContainerPort := Num (int (c + j))\<rparr>"
  have ports: "is_port c" "is_port h" "is_port (c + j)" "is_port (h + j)"
    using Suc.prems(2) by (force dest: spec [of _ 0] spec [of _ j])+
  have "obj_get (remaining st) ?k = Some [\<lparr>HostIp = Some ip, HostPort = Some (show_nat (Suc (h + j - 1)))\<rparr>]"
    using Suc.prems(1,7) by simp
  from combine_key_next [OF this, of "c + j - 1" p ip] Suc.prems(1,4,5,6) ports
  have "combine_key p ip ?k st = Inr (st\<lparr>
      rows := extend_last (Num (int (h + j))) (Num (int (c + j))) [run_row c h j ip p],
      remaining := obj_set (remaining st) ?k [],
      previousHostPort := Num (int (h + j)), previousContainerPort := Num (int (c + j))\<rparr>)"
    by (simp del: of_nat_add of_nat_diff of_nat_Suc)
  then have step: "combine_key p ip ?k st = Inr ?st"
    using extend_run_row [of j c h ip p] Suc.prems(1,3) ports by simp
  have "\<exists>st'. fold_result (combine_key p ip) (map (\<lambda>i. show_nat (c + i) @ ''/'' @ p) [Suc j..<Suc j + n]) ?st
      = Inr st' \<and> rows st' = [run_row c h (Suc j + n) ip p]"
  proof (rule Suc.IH)
    show "\<forall>i. Suc j \<le> i \<and> i < Suc j + n \<longrightarrow> obj_get (remaining ?st) (show_nat (c + i) @ ''/'' @ p) =
           Some [\<lparr>HostIp = Some ip, HostPort = Some (show_nat (h + i))\<rparr>]"
      using Suc.prems(7) by (auto simp: port_key_inj [simplified])
  qed (use Suc.prems in \<open>auto simp del: of_nat_add\<close>)
  moreover have "[j..<j + Suc n] = j # [Suc j..<Suc j + n]" by (simp add: upt_rec)
  ultimately show ?case using step by simp
qed simp

lemma combine_run_keys:
  assumes "0 < m" "\<forall>i < m. is_port (c + i) \<and> is_port (h + i)" "CHR '':'' \<notin> set ip"
    and "rows st = []" "previousHostPort st = Num (-1)"
    and "remaining st = run_bindings c h m (Some ip) p"
  shows "\<exists>st'. fold_result (combine_key p ip) (map (\<lambda>i. show_nat (c + i) @ ''/'' @ p) [0..<m]) st = Inr st' \<and>
    rows st' = [run_row c h m ip p]"
proof -
  let ?k = "show_nat c @ ''/'' @ p"
  let ?st = "st\<lparr>rows := [run_row c h 1 ip p], remaining := obj_set (remaining st) ?k [],
      previousHostPort := Num (int h), previousContainerPort := Num (int c)\<rparr>"
  have ports: "is_port c" "is_port h" using assms(2) [rule_format, of 0] assms(1) by simp_all
  have first: "combine_key p ip ?k st = Inr ?st"
    using combine_key_first [of st ?k "Some ip" h c p ip] obj_get_run [of 0 m c h "Some ip" p] assms ports
    by (simp add: run_row_def port_text_def)
  have "\<exists>st'. fold_result (combine_key p ip) (map (\<lambda>i. show_nat (c + i) @ ''/'' @ p) [1..<1 + (m - 1)]) ?st
      = Inr st' \<and> rows st' = [run_row c h (1 + (m - 1)) ip p]"
  proof (rule combine_run_tail)
    show "\<forall>i. 1 \<le> i \<and> i < 1 + (m - 1) \<longrightarrow> obj_get (remaining ?st) (show_nat (c + i) @ ''/'' @ p) =
           Some [\<lparr>HostIp = Some ip, HostPort = Some (show_nat (h + i))\<rparr>]"
      using obj_get_run [of _ m c h "Some ip" p] assms(6) port_key_inj [of c p _ p]
      by (auto simp: assms)
  qed (use assms in auto)
  moreover have "[0..<m] = 0 # [1..<1 + (m - 1)]" using \<open>0 < m\<close> by (simp add: upt_rec)
  ultimately show ?thesis using first \<open>0 < m\<close> by simp
qed

lemma sort_run_keys:
  "sort_key order_key (map (\<lambda>i. show_nat (c + i) @ ''/'' @ p) [0..<m]) = map (\<lambda>i. show_nat (c + i) @ ''/'' @ p) [0..<m]"
  by (rule sort_key_id_if_sorted) (simp add: sorted_map sorted_wrt_upt order_key_def sorted_wrt_iff_nth_less less_eq_prod_def)

lemma sort_combine_run:
  assumes "0 < m" "\<forall>i < m. is_port (c + i) \<and> is_port (h + i)" "CHR '':'' \<notin> set ip" "CHR ''/'' \<notin> set p"
  shows "sortAndCombinePorts (run_bindings c h m (Some ip) p) = Inr [run_row c h m ip p]"
proof -
  let ?run = "run_bindings c h m (Some ip) p"
  let ?keys = "map (\<lambda>i. show_nat (c + i) @ ''/'' @ p) [0..<m]"
  let ?st = "\<lparr>rows = [], remaining = ?run, previousHostPort = Num (-1), previousContainerPort = Num (-1)\<rparr>"
  have ne: "?keys \<noteq> []" using \<open>0 < m\<close> by simp
  have groups: "obj_entries (group_by key_protocol ?keys) = [(p, ?keys)]"
    using group_by_same [OF ne, of key_protocol p] assms(4) by auto
  have "\<forall>k \<in> set ?keys. \<exists>hp. obj_get ?run k = Some [\<lparr>HostIp = Some ip, HostPort = hp\<rparr>]"
    using obj_get_run by fastforce
  then have ips: "obj_entries (keys_by_host_ip ?run ?keys) = [(ip, ?keys)]"
    using keys_by_host_ip_same [OF ne] by auto
  obtain st' where "fold_result (combine_key p ip) ?keys ?st = Inr st'" "rows st' = [run_row c h m ip p]"
    using combine_run_keys [OF assms(1-3), of ?st p] by auto
  then have "combine_protocol (p, ?keys) ?st = Inr st'"
    using ips by (simp add: combine_protocol_def combine_ip_def sort_run_keys del: append_Cons)
  with \<open>rows st' = _\<close> groups show ?thesis
    unfolding sortAndCombinePorts_def obj_keys_run by simp
qed

text \<open>Loading the bindings of a run into the form and saving the form gives the bindings back.\<close>

lemma prepare_combined_run:
  assumes "0 < m" "\<forall>i < m. is_port (c + i) \<and> is_port (h + i)" "CHR '':'' \<notin> set ip" "CHR ''['' \<notin> set ip"
    "CHR ''/'' \<notin> set p"
  shows "and_then (sortAndCombinePorts (run_bindings c h m (Some ip) p))
      (\<lambda>rs. preparePortBindings (map row_of_combined rs))
    = Inr (run_bindings c h m (if ip = [] then None else Some ip) p)"
proof -
  have ports: "is_port c" "is_port h" "is_port (c + m - 1)" "is_port (h + m - 1)"
    using assms(1,2) by (force dest: spec [of _ 0] spec [of _ "m - 1"])+
  have cp: "c_containerPort (run_row c h m ip p) = PortText (port_text c (c + m - 1)) \<or>
      m = 1 \<and> c_containerPort (run_row c h m ip p) = PortNum (Num (int c))"
    using assms(1) by (auto simp: run_row_def port_text_def)
  show ?thesis
    using sort_combine_run [OF assms(1-3,5)] prepare_range_row [OF ports(1,3,2,4) assms(1,3,4) cp]
    by (simp add: row_of_combined_def run_row_def)
qed

section \<open>Loading never fails\<close>

lemma fold_combine_key_ok:
  assumes "\<And>k. count (mset ks) k \<le> (case obj_get (remaining st) k of None \<Rightarrow> 0 | Some bs \<Rightarrow> length bs)"
    and "\<forall>k bs. obj_get (remaining st) k = Some bs \<longrightarrow> (\<forall>b \<in> set bs. HostPort b \<noteq> None)"
  shows "\<exists>st'. fold_result (combine_key p ip) ks st = Inr st' \<and>
    (\<forall>k. obj_get (remaining st') k = map_option (drop (count (mset ks) k)) (obj_get (remaining st) k))"
  using assms
proof (induction ks arbitrary: st)
  case (Cons k ks)
  from Cons.prems(1) [of k] obtain b bs where kb: "obj_get (remaining st) k = Some (b # bs)"
    by (auto split: option.splits) (metis length_0_conv list.exhaust not_less_eq_eq zero_le)
  with Cons.prems(2) obtain hp where hp: "HostPort b = Some hp" by fastforce
  have "\<exists>st1. combine_key p ip k st = Inr st1 \<and> remaining st1 = obj_set (remaining st) k bs"
    using kb hp by (auto simp: combine_key_def Let_def)
  then obtain st1 where step: "combine_key p ip k st = Inr st1"
    and rem: "remaining st1 = obj_set (remaining st) k bs" by blast
  have "\<exists>st'. fold_result (combine_key p ip) ks st1 = Inr st' \<and>
    (\<forall>k. obj_get (remaining st') k = map_option (drop (count (mset ks) k)) (obj_get (remaining st1) k))"
  proof (rule Cons.IH)
    fix j show "count (mset ks) j \<le> (case obj_get (remaining st1) j of None \<Rightarrow> 0 | Some bs \<Rightarrow> length bs)"
      using Cons.prems(1) [of j] kb rem by (auto split: if_splits)
  next
    show "\<forall>k bs. obj_get (remaining st1) k = Some bs \<longrightarrow> (\<forall>b \<in> set bs. HostPort b \<noteq> None)"
      using Cons.prems(2) kb rem by (auto split: if_splits)
  qed
  then obtain st' where "fold_result (combine_key p ip) ks st1 = Inr st'"
    and "\<forall>k. obj_get (remaining st') k = map_option (drop (count (mset ks) k)) (obj_get (remaining st1) k)"
    by blast
  with step rem kb show ?case by auto
qed (simp add: option.map_ident)



text \<open>Every key stands in the lists of the host addresses once for each of its bindings.\<close>

definition all_keys :: "string list obj \<Rightarrow> string multiset" where
  "all_keys acc = (\<Sum>kv \<in># mset acc. mset (snd kv))"

lemma all_keys_set:
  assumes "obj_get acc k = Some ks" and "obj_ok acc"
  shows "all_keys (obj_set acc k (ks @ [x])) = all_keys acc + {#x#}"
  using assms
proof (induction acc)
  case (Cons kv acc)
  then show ?case by (cases kv) (auto simp: all_keys_def obj_ok_def split: if_splits)
qed simp

lemma all_keys_new: "obj_get acc k = None \<Longrightarrow> all_keys (obj_set acc k ks) = all_keys acc + mset ks"
  by (induction acc k ks rule: obj_set.induct) (auto simp: all_keys_def split: if_splits)

definition add_key :: "string \<Rightarrow> string \<Rightarrow> string list obj \<Rightarrow> string list obj" where
  "add_key ip portKey acc =
     (let acc1 = (case obj_get acc ip of None \<Rightarrow> obj_set acc ip [] | Some ks \<Rightarrow> acc)
      in obj_set acc1 ip ((case obj_get acc1 ip of None \<Rightarrow> [] | Some ks \<Rightarrow> ks) @ [portKey]))"

lemma add_key_ok [simp]: "obj_ok acc \<Longrightarrow> obj_ok (add_key ip k acc)"
  by (simp add: add_key_def Let_def split: option.splits)

lemma all_keys_add [simp]: "obj_ok acc \<Longrightarrow> all_keys (add_key ip k acc) = all_keys acc + {#k#}"
  using all_keys_set [of "obj_set acc ip []" ip "[]" k] all_keys_set [of acc ip _ k] all_keys_new [of acc ip "[]"]
  by (auto simp: add_key_def Let_def split: option.splits)

lemma keys_by_host_ip_alt:
  "keys_by_host_ip bs ks = fold (\<lambda>k acc. fold (\<lambda>b. add_key (ip_name (HostIp b)) k)
     (case obj_get bs k of None \<Rightarrow> [] | Some l \<Rightarrow> l) acc) ks []"
  by (simp add: keys_by_host_ip_def add_key_def [abs_def] del: option.case_eq_if)

lemma keys_by_host_ip_count:
  "obj_ok (keys_by_host_ip bs ks) \<and> all_keys (keys_by_host_ip bs ks) =
     (\<Sum>k \<in># mset ks. replicate_mset (case obj_get bs k of None \<Rightarrow> 0 | Some l \<Rightarrow> length l) k)"
proof -
  have inner: "obj_ok acc \<Longrightarrow> obj_ok (fold (\<lambda>b. add_key (ip_name (HostIp b)) k) l acc) \<and>
      all_keys (fold (\<lambda>b. add_key (ip_name (HostIp b)) k) l acc) = all_keys acc + replicate_mset (length l) k"
    for k and l :: "port_binding list" and acc
    by (induction l arbitrary: acc) auto
  have outer: "obj_ok acc \<Longrightarrow>
      obj_ok (fold (\<lambda>k acc. fold (\<lambda>b. add_key (ip_name (HostIp b)) k)
        (case obj_get bs k of None \<Rightarrow> [] | Some l \<Rightarrow> l) acc) ks acc) \<and>
      all_keys (fold (\<lambda>k acc. fold (\<lambda>b. add_key (ip_name (HostIp b)) k)
        (case obj_get bs k of None \<Rightarrow> [] | Some l \<Rightarrow> l) acc) ks acc) = all_keys acc +
      (\<Sum>k \<in># mset ks. replicate_mset (case obj_get bs k of None \<Rightarrow> 0 | Some l \<Rightarrow> length l) k)" for acc
  proof (induction ks arbitrary: acc)
    case (Cons k ks)
    let ?l = "case obj_get bs k of None \<Rightarrow> [] | Some l \<Rightarrow> l"
    from inner [OF Cons.prems, of k ?l] Cons.IH show ?case
      by (auto split: option.splits)
  qed simp
  from outer [of "[]"] show ?thesis by (simp add: keys_by_host_ip_alt all_keys_def)
qed
definition host_ports_given :: "port_bindings \<Rightarrow> bool" where
  "host_ports_given bs \<longleftrightarrow> (\<forall>k l. obj_get bs k = Some l \<longrightarrow> (\<forall>b \<in> set l. HostPort b \<noteq> None))"

lemma host_ports_given_drop:
  assumes "host_ports_given bs" and "\<forall>k. obj_get bs' k = map_option (drop (f k)) (obj_get bs k)"
  shows "host_ports_given bs'"
  using assms by (fastforce simp: host_ports_given_def dest: in_set_dropD)

lemma combine_ip_ok:
  assumes "\<And>k. count (mset (snd e)) k \<le> (case obj_get (remaining st) k of None \<Rightarrow> 0 | Some bs \<Rightarrow> length bs)"
    and "host_ports_given (remaining st)"
  obtains st' where "combine_ip p e st = Inr st'"
    and "\<forall>k. obj_get (remaining st') k = map_option (drop (count (mset (snd e)) k)) (obj_get (remaining st) k)"
proof -
  let ?st = "st\<lparr>previousHostPort := Num (-1), previousContainerPort := Num (-1)\<rparr>"
  have "\<exists>st'. fold_result (combine_key p (fst e)) (sort_key order_key (snd e)) ?st = Inr st' \<and>
    (\<forall>k. obj_get (remaining st') k =
       map_option (drop (count (mset (sort_key order_key (snd e))) k)) (obj_get (remaining ?st) k))"
    by (rule fold_combine_key_ok) (use assms in \<open>simp_all add: host_ports_given_def\<close>)
  then show ?thesis using that by (auto simp: combine_ip_def)
qed

lemma fold_combine_ip_ok:
  assumes "\<And>k. count (\<Sum>e \<in># mset es. mset (snd e)) k
      \<le> (case obj_get (remaining st) k of None \<Rightarrow> 0 | Some bs \<Rightarrow> length bs)"
    and "host_ports_given (remaining st)"
  shows "\<exists>st'. fold_result (combine_ip p) es st = Inr st' \<and> host_ports_given (remaining st')"
  using assms
proof (induction es arbitrary: st)
  case (Cons e es)
  have "count (mset (snd e)) k \<le> (case obj_get (remaining st) k of None \<Rightarrow> 0 | Some bs \<Rightarrow> length bs)" for k
    using Cons.prems(1) [of k] by simp
  from combine_ip_ok [OF this Cons.prems(2)] obtain st1 where step: "combine_ip p e st = Inr st1"
    and rem: "\<forall>k. obj_get (remaining st1) k = map_option (drop (count (mset (snd e)) k)) (obj_get (remaining st) k)"
    by blast
  have "count (\<Sum>e \<in># mset es. mset (snd e)) k
      \<le> (case obj_get (remaining st1) k of None \<Rightarrow> 0 | Some bs \<Rightarrow> length bs)" for k
    using Cons.prems(1) [of k] rem by (cases "obj_get (remaining st) k") auto
  from Cons.IH [OF this host_ports_given_drop [OF Cons.prems(2) rem]] step show ?case by auto
qed simp

lemma combine_protocol_ok:
  assumes "distinct (snd g)" and "host_ports_given (remaining st)"
  shows "\<exists>st'. combine_protocol g st = Inr st' \<and> host_ports_given (remaining st')"
proof -
  let ?len = "\<lambda>k. case obj_get (remaining st) k of None \<Rightarrow> 0 | Some bs \<Rightarrow> length bs"
  let ?acc = "keys_by_host_ip (remaining st) (snd g)"
  have "(\<Sum>e \<in># mset (obj_entries ?acc). mset (snd e)) = all_keys ?acc"
    using keys_by_host_ip_count [of "remaining st" "snd g"] by (simp add: mset_obj_entries all_keys_def)
  also have "\<dots> = (\<Sum>k \<in># mset (snd g). replicate_mset (?len k) k)"
    using keys_by_host_ip_count [of "remaining st" "snd g"] by simp
  finally have sum: "(\<Sum>e \<in># mset (obj_entries ?acc). mset (snd e)) = \<dots>" .
  have "count (\<Sum>k \<in># mset ks. replicate_mset (?len k) k) j \<le> ?len j" if "distinct ks" for ks j
  proof -
    have "count (\<Sum>k \<in># mset ks. replicate_mset (?len k) k) j = (if j \<in> set ks then ?len j else 0)"
      using that by (induction ks) auto
    then show ?thesis by simp
  qed
  then have "count (\<Sum>e \<in># mset (obj_entries ?acc). mset (snd e)) k \<le> ?len k" for k
    using assms(1) by (simp add: sum)
  from fold_combine_ip_ok [OF this assms(2)] show ?thesis by (simp add: combine_protocol_def)
qed

lemma sort_combine_total:
  assumes "obj_ok portBindings" and "host_ports_given portBindings"
  shows "\<exists>rs. sortAndCombinePorts portBindings = Inr rs"
proof -
  have groups: "\<forall>g \<in> set (obj_entries (group_by key_protocol (obj_keys portBindings))). distinct (snd g)"
    using assms(1) by (auto simp: set_obj_entries obj_get_group_by split: if_splits)
  have all: "\<exists>st'. fold_result combine_protocol gs st = Inr st'"
    if "\<forall>g \<in> set gs. distinct (snd g)" "host_ports_given (remaining st)" for gs st
    using that
  proof (induction gs arbitrary: st)
    case (Cons g gs)
    then obtain st1 where "combine_protocol g st = Inr st1" "host_ports_given (remaining st1)"
      using combine_protocol_ok [of g st] by auto
    with Cons show ?case by auto
  qed simp
  obtain st' where "fold_result combine_protocol
      (obj_entries (group_by key_protocol (obj_keys portBindings)))
      \<lparr>rows = [], remaining = portBindings, previousHostPort = Num (-1),
       previousContainerPort = Num (-1)\<rparr> = Inr st'"
    using all [OF groups, of "\<lparr>rows = [], remaining = portBindings, previousHostPort = Num (-1),
       previousContainerPort = Num (-1)\<rparr>"] assms(2) by auto
  then show ?thesis by (simp add: sortAndCombinePorts_def)
qed

text \<open>Every key that the form sends to Docker is a port number and the protocol of a row.\<close>

definition port_key :: "string set \<Rightarrow> string \<Rightarrow> bool" where
  "port_key ps k \<longleftrightarrow> (\<exists>n p. k = show_nat n @ ''/'' @ p \<and> is_port n \<and> p \<in> ps)"

definition bindings_wf :: "string set \<Rightarrow> port_bindings \<Rightarrow> bool" where
  "bindings_wf ps bs \<longleftrightarrow> obj_ok bs \<and> (\<forall>k l. obj_get bs k = Some l \<longrightarrow> port_key ps k \<and> l \<noteq> [])"

lemma push_binding_wf: "bindings_wf ps bs \<Longrightarrow> port_key ps k \<Longrightarrow> bindings_wf ps (push_binding k b bs)"
  by (auto simp: bindings_wf_def push_binding_def split: option.splits if_splits)

lemma fold_push_wf:
  "bindings_wf ps bs \<Longrightarrow> \<forall>kb \<in> set kbs. port_key ps (fst kb) \<Longrightarrow>
     bindings_wf ps (fold (\<lambda>(k, b). push_binding k b) kbs bs)"
  by (induction kbs arbitrary: bs) (auto simp: push_binding_wf)

lemma row_ports_keys:
  assumes "0 < a" "b \<le> 65535" "p \<in> ps"
  shows "\<forall>kb \<in> set (row_ports a b h k ip hp p). port_key ps (fst kb)"
proof
  fix kb assume "kb \<in> set (row_ports a b h k ip hp p)"
  then obtain i where i: "i < nat (b - a + 1)" and k: "fst kb = show_int (a + int i) @ ''/'' @ p"
    by (auto simp: row_ports_def Let_def)
  have "show_int (a + int i) = show_nat (nat (a + int i))" using assms(1) by (simp add: show_int_def)
  moreover have "is_port (nat (a + int i))" using assms i by (auto simp: is_port_def)
  ultimately show "port_key ps (fst kb)" using k assms(3) unfolding port_key_def by metis
qed

lemma one_line_split: "one_line s \<Longrightarrow> w \<in> set (split_char c s) \<Longrightarrow> one_line w"
proof -
  have "\<forall>w \<in> set (split_char c s). set w \<subseteq> set s"
    by (induction s) (auto split: list.splits)
  then show "one_line s \<Longrightarrow> w \<in> set (split_char c s) \<Longrightarrow> one_line w"
    by (auto simp: one_line_def)
qed

lemma parsePortRange_bounds:
  assumes "one_line (port_string v)" "isValidPortRange (RangeArray (parsePortRange v)) = Inr True"
  shows "0 < num_of (parsePortRange v ! 0)" "num_of (parsePortRange v ! 1) \<le> 65535"
proof -
  let ?ws = "split_char_limit CHR ''-'' 2 (port_string v)"
  have "\<forall>w \<in> set ?ws. one_line w"
    using one_line_split [OF assms(1)] by (auto simp: split_char_limit_def dest: in_set_takeD)
  then have small: "\<forall>x \<in> set (map parsePort ?ws). \<exists>n. x = Num n \<and> n \<le> 65535"
    using parsePort_range by fastforce
  then have "\<forall>x \<in> set (parsePortRange v). \<exists>n. x = Num n \<and> n \<le> 65535"
    by (cases ?ws) (auto simp: parsePortRange_def Let_def)
  moreover have "length (parsePortRange v) = 2" and pos: "num_less (Num 0) (parsePortRange v ! 0)"
    using assms(2) by simp_all
  ultimately have "\<exists>n. parsePortRange v ! 1 = Num n \<and> n \<le> 65535" by simp
  then show "num_of (parsePortRange v ! 1) \<le> 65535" by auto
  show "0 < num_of (parsePortRange v ! 0)" using pos by (cases "parsePortRange v ! 0") auto
qed

lemma prepare_row_wf:
  assumes "prepare_row r bs = Inr bs'" "bindings_wf ps bs" "one_line (port_string (row_containerPort r))"
    "row_protocol r \<in> ps"
  shows "bindings_wf ps bs'"
proof (cases "port_falsy (row_containerPort r)")
  case True
  with assms show ?thesis by (simp add: prepare_row_def)
next
  case False
  let ?rng = "parsePortRange (row_containerPort r)"
  have valid: "isValidPortRange (RangeArray ?rng) = Inr True"
    using assms(1) False by (auto simp: prepare_row_def Let_def split: if_splits)
  obtain h k ip hp where "bs' = fold (\<lambda>(k, b). push_binding k b)
      (row_ports (num_of (?rng ! 0)) (num_of (?rng ! 1)) h k ip hp (row_protocol r)) bs"
    using assms(1) False valid
    by (auto simp: prepare_row_def Let_def elim!: and_then_InrE split: if_splits prod.splits)
  then show ?thesis
    using fold_push_wf [OF assms(2)] row_ports_keys [OF parsePortRange_bounds [OF assms(3) valid] assms(4)]
    by blast
qed

lemma preparePortBindings_wf:
  assumes "preparePortBindings rs = Inr bs" and "\<forall>r \<in> set rs. one_line (port_string (row_containerPort r))"
  shows "bindings_wf (row_protocol ` set rs) bs"
proof -
  have "fold_result prepare_row rs [] = Inr bs" using assms(1) by (simp add: preparePortBindings_def)
  moreover have "bindings_wf (row_protocol ` set rs) []" by (simp add: bindings_wf_def)
  ultimately show ?thesis
    by (rule fold_result_invariant) (use assms(2) prepare_row_wf in blast)
qed

lemma parsePortRange_colon:
  assumes "CHR ''-'' \<notin> set t" and "CHR '':'' \<in> set t" and "one_line t"
  shows "parsePortRange (PortText t) = [Num 0, Num 0]"
proof -
  have "\<not> list_all is_digit t" using assms(2) minus_not_digit(2) by (auto simp: list_all_iff)
  then have "parsePort t = Num 0"
    using assms(3) by (simp add: parsePort_def test_lines_single port_pattern_lang)
  then show ?thesis
    using assms(1) by (simp add: parsePortRange_def split_char_limit_def split_char_notin)
qed

lemma createPortRange_ipv6:
  assumes "is_port h" "is_port n"
  shows "createPortRange (PortText ('':::'' @ show_nat h)) (PortNum (Num (int n))) = ''0-'' @ show_nat n"
proof -
  have "find_sub ('':::'' @ show_nat h) '':'' = Some 0" by (simp add: find_sub_Cons)
  moreover have "one_line (''::'' @ show_nat h)"
    using one_line_show_nat [of h] by (simp add: one_line_def)
  then have "parsePortRange (PortText (''::'' @ show_nat h)) = [Num 0, Num 0]"
    using parsePortRange_colon [of "''::'' @ show_nat h"] by simp
  ultimately show ?thesis
    using assms by (simp add: createPortRange_def Let_def show_int_def)
qed

lemma combine_ipv6_pair:
  assumes "is_port c" "is_port (Suc c)" "is_port h" "is_port (Suc h)" "CHR ''/'' \<notin> set p"
  shows "sortAndCombinePorts (run_bindings c h 2 (Some ''::'') p) =
    Inr [\<lparr>c_hostPort = ''0-'' @ show_nat (Suc h), c_containerPort = PortText (range_text c (Suc c)),
          c_protocol = p\<rparr>]"
proof -
  let ?run = "run_bindings c h 2 (Some ''::'') p"
  let ?keys = "map (\<lambda>i. show_nat (c + i) @ ''/'' @ p) [0..<2]"
  let ?k0 = "show_nat c @ ''/'' @ p" and ?k1 = "show_nat (Suc c) @ ''/'' @ p"
  let ?st = "\<lparr>rows = [], remaining = ?run, previousHostPort = Num (-1), previousContainerPort = Num (-1)\<rparr>"
  let ?row = "\<lparr>c_hostPort = '':::'' @ show_nat h, c_containerPort = PortNum (Num (int c)), c_protocol = p\<rparr>"
  have keys: "?keys = [?k0, ?k1]" by (simp add: upt_rec numeral_2_eq_2)
  have ne: "?keys \<noteq> []" by simp
  have groups: "obj_entries (group_by key_protocol ?keys) = [(p, ?keys)]"
    using group_by_same [OF ne, of key_protocol p] assms(5) by auto
  have "\<forall>k \<in> set ?keys. \<exists>hp. obj_get ?run k = Some [\<lparr>HostIp = Some ''::'', HostPort = hp\<rparr>]"
    using obj_get_run by fastforce
  then have ips: "obj_entries (keys_by_host_ip ?run ?keys) = [(''::'', ?keys)]"
    using keys_by_host_ip_same [OF ne] by auto
  have get: "obj_get ?run ?k0 = Some [\<lparr>HostIp = Some ''::'', HostPort = Some (show_nat h)\<rparr>]"
    "obj_get ?run ?k1 = Some [\<lparr>HostIp = Some ''::'', HostPort = Some (show_nat (Suc h))\<rparr>]"
    using obj_get_run [of 0 2 c h "Some ''::''" p] obj_get_run [of 1 2 c h "Some ''::''" p] by simp_all
  have first: "combine_key p ''::'' ?k0 ?st = Inr (?st\<lparr>rows := [?row],
      remaining := obj_set ?run ?k0 [], previousHostPort := Num (int h), previousContainerPort := Num (int c)\<rparr>)"
    using combine_key_first [of ?st ?k0 "Some ''::''" h c p "''::''"] get(1) assms(3)
    by (simp add: ip_prefix_def)
  have "obj_get (obj_set ?run ?k0 []) ?k1 = Some [\<lparr>HostIp = Some ''::'', HostPort = Some (show_nat (Suc h))\<rparr>]"
    using get(2) port_key_inj [of c p "Suc c" p] by simp
  then have second: "combine_key p ''::'' ?k1 (?st\<lparr>rows := [?row], remaining := obj_set ?run ?k0 [],
      previousHostPort := Num (int h), previousContainerPort := Num (int c)\<rparr>) =
    Inr \<lparr>rows = extend_last (Num (int (Suc h))) (Num (int (Suc c))) [?row],
      remaining = obj_set (obj_set ?run ?k0 []) ?k1 [],
      previousHostPort = Num (int (Suc h)), previousContainerPort = Num (int (Suc c))\<rparr>"
    using combine_key_next [of _ ?k1 "Some ''::''" h c p "''::''"] assms(4) by simp
  have row: "extend_last (Num (int (Suc h))) (Num (int (Suc c))) [?row] =
      [\<lparr>c_hostPort = ''0-'' @ show_nat (Suc h), c_containerPort = PortText (range_text c (Suc c)),
        c_protocol = p\<rparr>]"
    using createPortRange_ipv6 [OF assms(3,4)] createPortRange_ip [of "[]" "show_nat c" c c "Suc c"] assms(1)
    by (simp add: extend_last_def ip_prefix_def createPortRange_def del: of_nat_Suc)
  have sorted: "sort_key order_key [?k0, ?k1] = [?k0, ?k1]"
    by (simp add: order_key_def less_eq_prod_def)
  have "combine_ip p (''::'', ?keys) ?st = Inr \<lparr>rows = extend_last (Num (int (Suc h))) (Num (int (Suc c))) [?row],
      remaining = obj_set (obj_set ?run ?k0 []) ?k1 [],
      previousHostPort = Num (int (Suc h)), previousContainerPort = Num (int (Suc c))\<rparr>"
    unfolding combine_ip_def snd_conv fst_conv keys sorted using first second by simp
  then have "combine_protocol (p, ?keys) ?st = Inr \<lparr>rows = extend_last (Num (int (Suc h))) (Num (int (Suc c))) [?row],
      remaining = obj_set (obj_set ?run ?k0 []) ?k1 [],
      previousHostPort = Num (int (Suc h)), previousContainerPort = Num (int (Suc c))\<rparr>"
    using ips by (simp add: combine_protocol_def)
  then show ?thesis
    using groups row unfolding sortAndCombinePorts_def obj_keys_run by simp
qed

lemma duplicate_ipv6_ports_fails:
  assumes "is_port c" "is_port (Suc c)" "is_port h" "is_port (Suc h)" "CHR ''/'' \<notin> set p"
  shows "and_then (sortAndCombinePorts (run_bindings c h 2 (Some ''::'') p))
      (\<lambda>rs. preparePortBindings (map row_of_combined rs))
    = Inl (ThrownError (''Invalid port specification: 0-'' @ show_nat (Suc h)))"
proof -
  have range: "isValidPortRange (RangeArray (parsePortRange (PortText (range_text c (Suc c))))) = Inr True"
    using assms(1,2) is_port_pos [OF assms(1)] by simp
  let ?t = "''0-'' @ show_nat (Suc h)"
  have plain: "CHR '':'' \<notin> set ?t" "CHR ''['' \<notin> set ?t" by simp_all
  have host: "split_host cp ?t = Inr (None, ?t)" for cp
    using split_host_ip [of "[]" ?t cp] plain by (simp add: ip_prefix_def)
  have "parsePort ''0'' = Num 0"
    using parsePort_show_nat [of 0] by simp
  then have "parsePortRange (PortText ?t) = [Num 0, Num (int (Suc h))]"
    using assms(4) by (simp add: parsePortRange_def split_char_limit_def split_char_notin del: of_nat_Suc)
  then have "isValidPortRange (RangeArray (parsePortRange (PortText ?t))) = Inr False" by simp
  then show ?thesis
    using combine_ipv6_pair [OF assms] range host is_port_pos [OF assms(1)]
    by (simp add: row_of_combined_def preparePortBindings_def prepare_row_def Let_def invalid_port_def)
qed
section \<open>Properties\<close>

text \<open>
  C2. What \<open>parsePort\<close> returns for a text of one line: the decimal value of at most four digits, or of five digits that
  form a port of at least 10000; and 0 for every other text. So it reads the decimal form of a port back exactly and
  rejects the decimal form of any other number. (A text of several lines is accepted as soon as one of them is a port, and
  then its first line is read; it is not spoken of here.)
\<close>

theorem parsePort_correct:
  assumes "one_line s"
  shows "parsePort s =
      (if list_all is_digit s \<and> (length s \<le> 4 \<or> length s = 5 \<and> 10000 \<le> digits_value s \<and> digits_value s \<le> 65535)
       then Num (int (digits_value s)) else Num 0) \<and>
    parsePort (show_nat m) = (if 1 \<le> m \<and> m \<le> 65535 then Num (int m) else Num 0)"
proof (cases "in_lang portPattern s")
  case True
  then have "list_all is_digit s" "s \<noteq> []" by (auto simp: port_pattern_lang)
  then have "parsePort s = Num (int (digits_value s))"
    using parse_int_digits [of s "[]"] True assms by (simp add: parsePort_def test_lines_single)
  then show ?thesis using True by (auto simp: port_pattern_lang parsePort_show_nat)
next
  case False
  then have zero: "digits_value s = 0"
    if "list_all is_digit s" "length s \<le> 4 \<or> length s = 5 \<and> 10000 \<le> digits_value s \<and> digits_value s \<le> 65535"
  proof (cases "s = []")
    case False
    then have "length s = 1"
      using that \<open>\<not> in_lang portPattern s\<close> by (cases "length s") (auto simp: port_pattern_lang)
    then show ?thesis using that \<open>\<not> in_lang portPattern s\<close> by (auto simp: port_pattern_lang)
  qed (simp add: digits_value_def)
  have "parsePort s = Num 0" using False assms by (simp add: parsePort_def test_lines_single)
  then show ?thesis using zero by (auto simp: parsePort_show_nat)
qed

theorem parsePort_correct_witness:
  "one_line ''8080'' \<and> parsePort (show_nat 443) = Num 443 \<and> parsePort ''8080'' = Num 8080"
proof -
  have "one_line ''8080''" by code_simp
  moreover have "digits_value ''8080'' = 8080" "list_all is_digit ''8080''" by code_simp+
  ultimately show ?thesis using parsePort_correct [of "''8080''" 443] by simp
qed

text \<open>
  C1. The bindings of a run of consecutive container ports to consecutive host ports on one IPv4 address
  (or on none) are loaded into the form as one row, and the form turns that row back into the same
  bindings; an empty address becomes a missing one.
\<close>

theorem port_form_round_trip:
  assumes "0 < m" "\<forall>i < m. is_port (c + i) \<and> is_port (h + i)" "CHR '':'' \<notin> set ip" "CHR ''['' \<notin> set ip"
    "CHR ''/'' \<notin> set p"
  shows "and_then (sortAndCombinePorts (run_bindings c h m (Some ip) p))
      (\<lambda>rs. preparePortBindings (map row_of_combined rs))
    = Inr (run_bindings c h m (if ip = [] then None else Some ip) p)"
  using assms by (rule prepare_combined_run)

theorem port_form_round_trip_witness:
  "and_then (sortAndCombinePorts (run_bindings 80 8080 3 (Some ''10.0.0.1'') ''tcp''))
      (\<lambda>rs. preparePortBindings (map row_of_combined rs))
    = Inr (run_bindings 80 8080 3 (Some ''10.0.0.1'') ''tcp'')"
  using port_form_round_trip [of 3 80 8080 "''10.0.0.1''" "''tcp''"] by (simp add: is_port_def)

text \<open>
  Two consecutive ports that Docker publishes on the IPv6 address \<open>::\<close> are loaded into the form as a
  host range that starts at 0, so saving the untouched form throws \<open>Invalid port specification\<close>.
\<close>

theorem ipv6_ports_not_saved:
  assumes "is_port c" "is_port (Suc c)" "is_port h" "is_port (Suc h)" "CHR ''/'' \<notin> set p"
  shows "and_then (sortAndCombinePorts (run_bindings c h 2 (Some ''::'') p))
      (\<lambda>rs. preparePortBindings (map row_of_combined rs))
    = Inl (ThrownError (''Invalid port specification: 0-'' @ show_nat (Suc h)))"
  using assms by (rule duplicate_ipv6_ports_fails)

theorem ipv6_ports_not_saved_witness:
  "and_then (sortAndCombinePorts (run_bindings 80 8080 2 (Some ''::'') ''tcp''))
      (\<lambda>rs. preparePortBindings (map row_of_combined rs))
    = Inl (ThrownError (''Invalid port specification: 0-'' @ show_nat 8081))"
  using ipv6_ports_not_saved [of 80 8080 "''tcp''"] by (simp add: is_port_def)

text \<open>
  Whatever rows of one-line texts the form holds, when \<open>preparePortBindings\<close> returns, each key of its
  result is a port between 1 and 65535, a slash and the protocol of a row, holds at least one binding,
  and stands once.
\<close>

theorem prepared_bindings_wf:
  assumes "preparePortBindings rs = Inr bs" and "\<forall>r \<in> set rs. one_line (port_string (row_containerPort r))"
  shows "obj_ok bs \<and> (\<forall>k l. obj_get bs k = Some l \<longrightarrow> l \<noteq> [] \<and>
    (\<exists>n p. k = show_nat n @ ''/'' @ p \<and> 1 \<le> n \<and> n \<le> 65535 \<and> p \<in> row_protocol ` set rs))"
proof (intro conjI allI impI)
  from preparePortBindings_wf [OF assms] have wf: "bindings_wf (row_protocol ` set rs) bs" .
  then show "obj_ok bs" by (simp add: bindings_wf_def)
  fix k l assume l: "obj_get bs k = Some l"
  with wf show "l \<noteq> []" by (simp add: bindings_wf_def)
  from wf l have "port_key (row_protocol ` set rs) k" by (simp add: bindings_wf_def)
  then show "\<exists>n p. k = show_nat n @ ''/'' @ p \<and> 1 \<le> n \<and> n \<le> 65535 \<and> p \<in> row_protocol ` set rs"
    unfolding port_key_def is_port_def by blast
qed

theorem prepared_bindings_wf_witness:
  "preparePortBindings [\<lparr>row_hostPort = Some (port_text 8080 8082), row_containerPort = PortText (port_text 80 82),
       row_protocol = ''tcp''\<rparr>] = Inr (run_bindings 80 8080 3 None ''tcp'') \<and>
   obj_ok (run_bindings 80 8080 3 None ''tcp'')"
proof -
  have run: "preparePortBindings [\<lparr>row_hostPort = Some (port_text 8080 8082),
       row_containerPort = PortText (port_text 80 82), row_protocol = ''tcp''\<rparr>]
     = Inr (run_bindings 80 8080 3 None ''tcp'')"
    using prepare_range_row [of 80 3 8080 "[]" "PortText (port_text 80 82)" "''tcp''"]
    by (simp add: is_port_def ip_prefix_def)
  have "one_line (port_text 80 82)" by code_simp
  then have "\<forall>r \<in> set [\<lparr>row_hostPort = Some (port_text 8080 8082), row_containerPort = PortText (port_text 80 82),
       row_protocol = ''tcp''\<rparr>]. one_line (port_string (row_containerPort r))" by simp
  from prepared_bindings_wf [OF run this] have "obj_ok (run_bindings 80 8080 3 None ''tcp'')"
    by (rule conjunct1)
  with run show ?thesis by (rule conjI)
qed

text \<open>
  A row whose container range and host range (two valid ranges) differ in length makes
  \<open>preparePortBindings\<close> throw, whatever rows follow.
\<close>

theorem mismatched_ranges_rejected:
  assumes "is_port a" "is_port b" "is_port h" "is_port k" "a < b" "h \<le> k" "b - a \<noteq> k - h"
  shows "preparePortBindings
      (\<lparr>row_hostPort = Some (range_text h k), row_containerPort = PortText (range_text a b),
        row_protocol = p\<rparr> # rs)
    = Inl (ThrownError (''Invalid port specification: '' @ range_text h k))"
  using assms by (rule prepare_length_mismatch)

theorem mismatched_ranges_rejected_witness:
  "preparePortBindings
      [\<lparr>row_hostPort = Some (range_text 8000 8001), row_containerPort = PortText (range_text 80 85),
        row_protocol = ''tcp''\<rparr>]
    = Inl (ThrownError (''Invalid port specification: '' @ range_text 8000 8001))"
  using mismatched_ranges_rejected [of 80 85 8000 8001 "''tcp''" "[]"] by (simp add: is_port_def)

text \<open>
  \<open>sortAndCombinePorts\<close> never throws on the bindings of a container: each key is taken from the object
  exactly as often as it has bindings, so the read of the first remaining binding never fails.
\<close>

theorem sortAndCombinePorts_total:
  assumes "obj_ok portBindings"
    and "\<forall>k l. obj_get portBindings k = Some l \<longrightarrow> (\<forall>b \<in> set l. HostPort b \<noteq> None)"
  shows "\<exists>rs. sortAndCombinePorts portBindings = Inr rs"
  using sort_combine_total [OF assms(1)] assms(2) by (simp add: host_ports_given_def)

theorem sortAndCombinePorts_total_witness:
  "\<exists>rs. sortAndCombinePorts [(''80/tcp'', [\<lparr>HostIp = Some ''::'', HostPort = Some ''80''\<rparr>]), (''53/udp'', [])] = Inr rs"
  by (rule sortAndCombinePorts_total) (auto simp: obj_ok_def split: if_splits)

text \<open>
  Where two keys list the same two host addresses in different orders, the rows of
  \<open>sortAndCombinePorts\<close> give a host port to the wrong address: here port 85 is published as 85 on
  1.1.1.1 and as 95 on 2.2.2.2, and the rows say the reverse.
\<close>

theorem host_addresses_swapped:
  "sortAndCombinePorts
     [(''80/tcp'', [\<lparr>HostIp = Some ''1.1.1.1'', HostPort = Some ''80''\<rparr>, \<lparr>HostIp = Some ''2.2.2.2'', HostPort = Some ''90''\<rparr>]),
      (''85/tcp'', [\<lparr>HostIp = Some ''2.2.2.2'', HostPort = Some ''95''\<rparr>, \<lparr>HostIp = Some ''1.1.1.1'', HostPort = Some ''85''\<rparr>])]
   = Inr [\<lparr>c_hostPort = ''1.1.1.1:80'', c_containerPort = PortNum (Num 80), c_protocol = ''tcp''\<rparr>,
          \<lparr>c_hostPort = ''1.1.1.1:95'', c_containerPort = PortNum (Num 85), c_protocol = ''tcp''\<rparr>,
          \<lparr>c_hostPort = ''2.2.2.2:90'', c_containerPort = PortNum (Num 80), c_protocol = ''tcp''\<rparr>,
          \<lparr>c_hostPort = ''2.2.2.2:85'', c_containerPort = PortNum (Num 85), c_protocol = ''tcp''\<rparr>]"
  by code_simp

end
