(* ===== verification/EnvVars.thy ===== *)
theory EnvVars
  imports JsRegex
begin

text \<open>
  \<open>app/portainer/helpers/env-vars.js\<close>: environment variables as the text of a \<open>.env\<close> file, as the strings
  \<open>name=value\<close> of the engine and as the rows of the form. A row may have no value at all, which differs
  from an empty one.
\<close>

record env_var =
  env_name :: string
  env_value :: "string option"

text \<open>\<open>/[a-zA-Z]([-_a-zA-Z0-9]*[a-zA-Z0-9])?/\<close>.\<close>

definition keyPattern :: rx where
  "keyPattern =
     Seq (Cls [(97, 122), (65, 90)])
       (opt (Seq (Star (Cls [(45, 45), (95, 95), (97, 122), (65, 90), (48, 57)]))
                 (Cls [(97, 122), (65, 90), (48, 57)])))"

text \<open>
  \<open>^(key)\s*=((.*)?)$\<close>: a key holds neither a space nor \<open>=\<close>, so the sign is the first of the text and the
  key is what stands before it without the spaces at its end; the value is the rest of a single line.
\<close>

definition trim_end :: "string \<Rightarrow> string" where
  "trim_end s = rev (dropWhile is_space (rev s))"

definition match_key_value :: "string \<Rightarrow> (string \<times> string) option" where
  "match_key_value s =
     (let key = trim_end (takeWhile (\<lambda>c. c \<noteq> CHR ''='') s);
          rest = dropWhile (\<lambda>c. c \<noteq> CHR ''='') s
      in if rest \<noteq> [] \<and> matches keyPattern key \<and> one_line (tl rest) then Some (key, tl rest) else None)"

definition parse_variable :: "string \<Rightarrow> env_var option" where
  "parse_variable s =
     (if CHR ''='' \<notin> set s then Some \<lparr>env_name = s, env_value = None\<rparr>
      else (case match_key_value (trim s) of
              None \<Rightarrow> None
            | Some (k, v) \<Rightarrow> Some \<lparr>env_name = k, env_value = Some v\<rparr>))"

definition parseArrayOfStrings :: "string list option \<Rightarrow> env_var list" where
  "parseArrayOfStrings array = (case array of
       None \<Rightarrow> []
     | Some ss \<Rightarrow> without_undefined (map parse_variable ss))"

text \<open>\<open>src.split(/\n|\r|\r\n/)\<close> cuts at each line end character, so the lines are those of \<open>js_lines\<close>.\<close>

definition parseDotEnvFile :: "string \<Rightarrow> env_var list" where
  "parseDotEnvFile src =
     parseArrayOfStrings (Some
       (filter (\<lambda>v. \<not> starts_with v ''#'') (map trim (filter (\<lambda>l. l \<noteq> []) (js_lines src)))))"

definition variable_text :: "env_var \<Rightarrow> string" where
  "variable_text v = (case env_value v of None \<Rightarrow> env_name v | Some x \<Rightarrow> env_name v @ ''='' @ x)"

definition convertToArrayOfStrings :: "env_var list option \<Rightarrow> string list" where
  "convertToArrayOfStrings array = (case array of
       None \<Rightarrow> []
     | Some vs \<Rightarrow> map variable_text (filter (\<lambda>v. env_name v \<noteq> []) vs))"

section \<open>Keys\<close>

definition key_char :: "char \<Rightarrow> bool" where
  "key_char c \<longleftrightarrow> in_cls [(45, 45), (95, 95), (97, 122), (65, 90), (48, 57)] c"

lemma key_char_other: "key_char c \<Longrightarrow> c \<noteq> CHR ''='' \<and> \<not> is_space c"
  by (auto simp: key_char_def in_cls_def is_space_def)

lemma key_chars:
  assumes "in_lang keyPattern k"
  shows "k \<noteq> [] \<and> list_all key_char k \<and> hd k \<noteq> CHR ''#''"
  using assms
  by (auto simp: keyPattern_def in_lang_Seq [of "Star _"] in_lang_star_cls key_char_def list_all_iff)
    (auto simp: in_cls_def)

lemma trim_end_id: "s = [] \<or> \<not> is_space (last s) \<Longrightarrow> trim_end s = s"
  by (cases s rule: rev_cases) (auto simp: trim_end_def)

lemma match_key_value_text:
  assumes "in_lang keyPattern k" "one_line v"
  shows "match_key_value (k @ ''='' @ v) = Some (k, v)"
proof -
  have k: "k \<noteq> []" "list_all key_char k" using key_chars [OF assms(1)] by auto
  then have no_eq: "\<forall>c \<in> set k. c \<noteq> CHR ''=''" using key_char_other by (auto simp: list_all_iff)
  have "\<not> is_space (last k)" using k key_char_other by (auto simp: list_all_iff)
  then have "trim_end k = k" by (intro trim_end_id) simp
  then show ?thesis using assms no_eq by (simp add: match_key_value_def matches_iff)
qed

section \<open>Rows that the text can hold\<close>

definition plain_end :: "string \<Rightarrow> bool" where
  "plain_end s \<longleftrightarrow> s = [] \<or> \<not> is_space (last s)"

definition storable :: "env_var \<Rightarrow> bool" where
  "storable v \<longleftrightarrow> (case env_value v of
       None \<Rightarrow> env_name v \<noteq> [] \<and> trimmed (env_name v) \<and> hd (env_name v) \<noteq> CHR ''#'' \<and>
         CHR ''='' \<notin> set (env_name v) \<and> one_line (env_name v)
     | Some x \<Rightarrow> in_lang keyPattern (env_name v) \<and> one_line x \<and> plain_end x)"

lemma storable_text:
  assumes "storable v"
  shows "variable_text v \<noteq> []" "trim (variable_text v) = variable_text v"
    "\<not> starts_with (variable_text v) ''#''" "one_line (variable_text v)" "env_name v \<noteq> []"
    "parse_variable (variable_text v) = Some v"
proof -
  have "variable_text v \<noteq> [] \<and> trimmed (variable_text v) \<and> hd (variable_text v) \<noteq> CHR ''#'' \<and>
      one_line (variable_text v) \<and> env_name v \<noteq> [] \<and> parse_variable (variable_text v) = Some v"
  proof (cases "env_value v")
    case None
    then show ?thesis using assms by (simp add: storable_def variable_text_def parse_variable_def)
  next
    case (Some x)
    then have key: "in_lang keyPattern (env_name v)" and x: "one_line x" "plain_end x"
      using assms by (simp_all add: storable_def)
    note chars = key_chars [OF key]
    then have hd_ok: "\<not> is_space (hd (env_name v))" using key_char_other by (cases "env_name v") auto
    have one: "one_line (env_name v)"
      using chars by (auto simp: one_line_def list_all_iff key_char_def in_cls_def)
    have whole: "variable_text v = env_name v @ ''='' @ x" using Some by (simp add: variable_text_def)
    have trimmed: "trimmed (variable_text v)"
      using chars hd_ok x(2) whole by (auto simp: trimmed_def plain_end_def is_space_def)
    then have "parse_variable (variable_text v) = Some v"
      using match_key_value_text [OF key x(1)] whole Some by (simp add: parse_variable_def trim_trimmed)
    moreover have "one_line (variable_text v)" using one x(1) whole by (auto simp: one_line_def)
    ultimately show ?thesis using chars whole trimmed by simp
  qed
  then show "variable_text v \<noteq> []" "trim (variable_text v) = variable_text v"
    "\<not> starts_with (variable_text v) ''#''" "one_line (variable_text v)" "env_name v \<noteq> []"
    "parse_variable (variable_text v) = Some v"
    by (simp_all add: trim_trimmed) (cases "variable_text v"; simp)
qed

lemma js_lines_append: "one_line l \<Longrightarrow> js_lines (l @ CHR 0x0A # s) = l # js_lines s"
  by (induction l) (auto simp: one_line_def split: list.splits)

lemma js_lines_join:
  "ls \<noteq> [] \<Longrightarrow> \<forall>l \<in> set ls. one_line l \<Longrightarrow> js_lines (join [CHR 0x0A] ls) = ls"
proof (induction ls)
  case (Cons l ls)
  then show ?case by (cases "ls = []") (simp_all add: js_lines_single join_Cons js_lines_append)
qed simp

lemma parse_storable: "\<forall>v \<in> set vs. storable v \<Longrightarrow> parseArrayOfStrings (Some (map variable_text vs)) = vs"
  by (induction vs) (simp_all add: parseArrayOfStrings_def storable_text)

lemma parse_lines_storable:
  assumes "\<forall>v \<in> set vs. storable v"
  shows "filter (\<lambda>v. \<not> starts_with v ''#'') (map trim (filter (\<lambda>l. l \<noteq> []) (map variable_text vs))) = map variable_text vs"
  using assms by (induction vs) (simp_all add: storable_text)

section \<open>Properties\<close>

text \<open>
  Rows of environment variables, written to the lines of a \<open>.env\<close> file and read from it again, are the
  same rows, a missing value apart from an empty one, for names and values that a line can hold.
\<close>

theorem dot_env_round_trip:
  assumes "\<forall>v \<in> set vs. storable v"
  shows "parseDotEnvFile (join [CHR 0x0A] (convertToArrayOfStrings (Some vs))) = vs"
proof -
  have "filter (\<lambda>v. env_name v \<noteq> []) vs = vs" using assms by (simp add: filter_id_conv storable_text)
  then have conv: "convertToArrayOfStrings (Some vs) = map variable_text vs"
    by (simp add: convertToArrayOfStrings_def)
  show ?thesis
  proof (cases "vs = []")
    case True
    then show ?thesis by (simp add: convertToArrayOfStrings_def parseDotEnvFile_def parseArrayOfStrings_def)
  next
    case False
    then have "js_lines (join [CHR 0x0A] (map variable_text vs)) = map variable_text vs"
      using assms by (intro js_lines_join) (simp_all add: storable_text)
    then show ?thesis
      using parse_lines_storable [OF assms] parse_storable [OF assms] by (simp add: conv parseDotEnvFile_def)
  qed
qed

theorem dot_env_round_trip_witness:
  "parseDotEnvFile (join [CHR 0x0A] (convertToArrayOfStrings (Some
      [\<lparr>env_name = ''DB_HOST'', env_value = Some ''db.local''\<rparr>, \<lparr>env_name = ''EMPTY'', env_value = Some []\<rparr>,
       \<lparr>env_name = ''DEBUG'', env_value = None\<rparr>]))) =
   [\<lparr>env_name = ''DB_HOST'', env_value = Some ''db.local''\<rparr>, \<lparr>env_name = ''EMPTY'', env_value = Some []\<rparr>,
    \<lparr>env_name = ''DEBUG'', env_value = None\<rparr>]"
proof -
  have "matches keyPattern ''DB_HOST''" "matches keyPattern ''EMPTY''" by code_simp+
  then have keys: "in_lang keyPattern ''DB_HOST''" "in_lang keyPattern ''EMPTY''" by (simp_all add: matches_iff)
  show ?thesis
    by (rule dot_env_round_trip) (simp add: storable_def keys one_line_def plain_end_def trimmed_def is_space_def)
qed

end
