(* ===== verification/AppTemplates.thy ===== *)
theory AppTemplates
  imports JsObject
begin

text \<open>
  App templates: the view model built from a template of the catalogue (\<open>app/portainer/models/template.js\<close>)
  and the helper that turns its ports, labels, variables and volumes into the configuration of a container
  (\<open>app/portainer/helpers/templateHelper.js\<close>).
\<close>

section \<open>Ports, volumes and variables of a template\<close>

record template_port =
  tp_hostPort :: "string option"
  tp_containerPort :: string
  tp_protocol :: "string option"

definition template_port_of :: "string \<Rightarrow> template_port" where
  "template_port_of p =
     (let pp = split_char (CHR ''/'') p; hc = split_char (CHR '':'') (hd pp)
      in \<lparr>tp_hostPort = (if length hc > 1 then Some (hc ! 0) else None),
          tp_containerPort = (if length hc > 1 then hc ! 1 else hc ! 0),
          tp_protocol = elem_at pp 1\<rparr>)"

definition templatePorts :: "string list option \<Rightarrow> template_port list" where
  "templatePorts ports = (case ports of None \<Rightarrow> [] | Some ps \<Rightarrow> map template_port_of ps)"

record raw_volume =
  rv_container :: "string option"
  rv_readonly :: "bool option"
  rv_bind :: "string option"

record template_volume =
  tv_container :: "string option"
  tv_readonly :: bool
  tv_type :: string
  tv_bind :: "string option"
  tv_binding :: "string option"

definition template_volume_of :: "raw_volume \<Rightarrow> template_volume" where
  "template_volume_of v =
     \<lparr>tv_container = rv_container v, tv_readonly = truthy_bool (rv_readonly v),
      tv_type = (if truthy_str (rv_bind v) then ''bind'' else ''auto''),
      tv_bind = (if truthy_str (rv_bind v) then rv_bind v else None), tv_binding = None\<rparr>"

definition templateVolumes :: "raw_volume list option \<Rightarrow> template_volume list" where
  "templateVolumes vs = (case vs of None \<Rightarrow> [] | Some xs \<Rightarrow> map template_volume_of xs)"

record select_option =
  so_value :: string
  so_default :: bool

record raw_env =
  re_name :: string
  re_default :: "string option"
  re_preset :: bool
  re_select :: "select_option list option"

record template_env =
  te_name :: string
  te_type :: nat
  te_value :: string
  te_set :: "string option"

definition template_env_of :: "raw_env \<Rightarrow> template_env" where
  "template_env_of e =
     (let base = or_str (re_default e) [] in
      case re_select e of
        None \<Rightarrow> \<lparr>te_name = re_name e, te_type = (if re_preset e then 1 else 2), te_value = base, te_set = None\<rparr>
      | Some opts \<Rightarrow>
          \<lparr>te_name = re_name e, te_type = 3,
           te_value = (case List.find so_default opts of None \<Rightarrow> base | Some opt \<Rightarrow> so_value opt),
           te_set = None\<rparr>)"

definition templateEnv :: "raw_env list option \<Rightarrow> template_env list" where
  "templateEnv env = (case env of None \<Rightarrow> [] | Some es \<Rightarrow> map template_env_of es)"

record raw_template =
  rt_Id :: nat
  rt_title :: string
  rt_type :: nat
  rt_description :: string
  rt_AdministratorOnly :: bool
  rt_name :: "string option"
  rt_note :: "string option"
  rt_categories :: "string list option"
  rt_platform :: "string option"
  rt_logo :: "string option"
  rt_repository :: "string option"
  rt_hostname :: "string option"
  rt_image :: "string option"
  rt_registry :: "string option"
  rt_command :: "string option"
  rt_network :: "string option"
  rt_privileged :: "bool option"
  rt_interactive :: "bool option"
  rt_restart_policy :: "string option"
  rt_labels :: "(string \<times> string) list option"
  rt_hosts :: "string list option"
  rt_env :: "raw_env list option"
  rt_volumes :: "raw_volume list option"
  rt_ports :: "string list option"

record template_view =
  t_Id :: nat
  t_Title :: string
  t_Type :: nat
  t_Description :: string
  t_AdministratorOnly :: bool
  t_Name :: "string option"
  t_Note :: "string option"
  t_Categories :: "string list"
  t_Platform :: string
  t_Logo :: "string option"
  t_Repository :: "string option"
  t_Hostname :: "string option"
  t_Image :: "string option"
  t_RegistryURL :: string
  t_Command :: string
  t_Network :: string
  t_Privileged :: bool
  t_Interactive :: bool
  t_RestartPolicy :: string
  t_Labels :: "(string \<times> string) list"
  t_Hosts :: "string list"
  t_Env :: "template_env list"
  t_Volumes :: "template_volume list"
  t_Ports :: "template_port list"

definition setTemplatesV2 :: "raw_template \<Rightarrow> template_view" where
  "setTemplatesV2 data =
     \<lparr>t_Id = rt_Id data, t_Title = rt_title data, t_Type = rt_type data, t_Description = rt_description data,
      t_AdministratorOnly = rt_AdministratorOnly data, t_Name = rt_name data, t_Note = rt_note data,
      t_Categories = (case rt_categories data of None \<Rightarrow> [] | Some cs \<Rightarrow> cs),
      t_Platform = or_str (rt_platform data) [], t_Logo = rt_logo data, t_Repository = rt_repository data,
      t_Hostname = rt_hostname data, t_Image = rt_image data, t_RegistryURL = or_str (rt_registry data) [],
      t_Command = or_str (rt_command data) [], t_Network = or_str (rt_network data) [],
      t_Privileged = truthy_bool (rt_privileged data), t_Interactive = truthy_bool (rt_interactive data),
      t_RestartPolicy = or_str (rt_restart_policy data) ''always'',
      t_Labels = (case rt_labels data of None \<Rightarrow> [] | Some ls \<Rightarrow> ls),
      t_Hosts = (case rt_hosts data of None \<Rightarrow> [] | Some hs \<Rightarrow> hs),
      t_Env = templateEnv (rt_env data), t_Volumes = templateVolumes (rt_volumes data),
      t_Ports = templatePorts (rt_ports data)\<rparr>"

definition TemplateViewModel :: "raw_template \<Rightarrow> string \<Rightarrow> template_view js_result" where
  "TemplateViewModel data version =
     (if version = ''2'' then Inr (setTemplatesV2 data)
      else Inl (ThrownError ''Unsupported template version''))"

section \<open>The configuration of the container\<close>

record config_binding =
  cb_HostPort :: "string option"
  cb_HostIp :: "string option"

type_synonym port_configuration = "config_binding list obj \<times> unit obj"

definition undefined_text :: "string option \<Rightarrow> string" where
  "undefined_text v = (case v of None \<Rightarrow> ''undefined'' | Some s \<Rightarrow> s)"

definition port_row_key :: "template_port \<Rightarrow> string" where
  "port_row_key p = tp_containerPort p @ ''/'' @ undefined_text (tp_protocol p)"

definition port_row_binding :: "template_port \<Rightarrow> config_binding" where
  "port_row_binding p =
     (case tp_hostPort p of
        None \<Rightarrow> \<lparr>cb_HostPort = None, cb_HostIp = None\<rparr>
      | Some [] \<Rightarrow> \<lparr>cb_HostPort = None, cb_HostIp = None\<rparr>
      | Some h \<Rightarrow>
          if CHR '':'' \<in> set h
          then let hp = split_char (CHR '':'') h in \<lparr>cb_HostPort = elem_at hp 1, cb_HostIp = elem_at hp 0\<rparr>
          else \<lparr>cb_HostPort = Some h, cb_HostIp = None\<rparr>)"

definition portArrayToPortConfiguration :: "template_port list \<Rightarrow> port_configuration" where
  "portArrayToPortConfiguration ports =
     (fold (\<lambda>p ob. if tp_containerPort p \<noteq> [] then obj_set ob (port_row_key p) [port_row_binding p] else ob) ports [],
      fold (\<lambda>p ob. if tp_containerPort p \<noteq> [] then obj_set ob (port_row_key p) () else ob) ports [])"

record template_label =
  tl_name :: "string option"
  tl_value :: "string option"

definition updateContainerConfigurationWithLabels :: "template_label list \<Rightarrow> string obj" where
  "updateContainerConfigurationWithLabels ls =
     fold (\<lambda>l ob. if truthy_str (tl_name l) then obj_set ob (the (tl_name l)) (or_str (tl_value l) []) else ob) ls []"

definition EnvToStringArray :: "template_env list \<Rightarrow> string list" where
  "EnvToStringArray env =
     map (\<lambda>e. te_name e @ ''='' @ (if truthy_str (te_set e) then the (te_set e) else te_value e))
       (filter (\<lambda>e. te_value e \<noteq> [] \<or> truthy_str (te_set e)) env)"

definition getConsoleConfiguration :: "bool option \<Rightarrow> bool \<times> bool" where
  "getConsoleConfiguration flag = (if flag = Some True then (True, True) else (False, False))"

text \<open>
  \<open>generatedVolumesPile\<close> holds the names of the volumes created for the template; \<open>pop\<close> takes the last and
  gives \<open>undefined\<close> on an empty pile, so the read of its name throws.
\<close>

definition bind_volume :: "template_volume \<Rightarrow> string list \<Rightarrow> (template_volume \<times> string list) js_result" where
  "bind_volume v pile =
     (if \<not> truthy_str (tv_container v) then Inr (v, pile)
      else let suffix = (if tv_readonly v then '':ro'' else []); c = the (tv_container v) in
        if tv_type v = ''auto'' then
          (if pile = [] then Inl TypeError
           else Inr (v\<lparr>tv_binding := Some (last pile @ '':'' @ c @ suffix)\<rparr>, butlast pile))
        else if truthy_str (tv_bind v) then
          Inr (v\<lparr>tv_binding := Some (the (tv_bind v) @ '':'' @ c @ suffix)\<rparr>, pile)
        else Inr (v\<lparr>tv_binding := (if tv_readonly v then Some (''undefined'' @ suffix) else None)\<rparr>, pile))"

fun createVolumeBindings :: "template_volume list \<Rightarrow> string list \<Rightarrow> (template_volume list \<times> string list) js_result" where
  "createVolumeBindings [] pile = Inr ([], pile)"
| "createVolumeBindings (v # vs) pile =
     and_then (bind_volume v pile) (\<lambda>(v', pile').
       and_then (createVolumeBindings vs pile') (\<lambda>(vs', rest). Inr (v' # vs', rest)))"

definition determineRequiredGeneratedVolumeCount :: "template_volume list \<Rightarrow> nat" where
  "determineRequiredGeneratedVolumeCount vs = fold (\<lambda>v n. if tv_type v = ''auto'' then n + 1 else n) vs 0"

definition getUniqueCategories :: "template_view list \<Rightarrow> string list" where
  "getUniqueCategories ts = uniq (fold (\<lambda>t cs. cs @ t_Categories t) ts [])"

section \<open>Lemmas\<close>

lemma count_auto: "determineRequiredGeneratedVolumeCount vs = length (filter (\<lambda>v. tv_type v = ''auto'') vs)"
proof -
  have "fold (\<lambda>v n. if tv_type v = ''auto'' then n + 1 else n) vs k = k + length (filter (\<lambda>v. tv_type v = ''auto'') vs)" for k
    by (induction vs arbitrary: k) simp_all
  then show ?thesis by (simp add: determineRequiredGeneratedVolumeCount_def)
qed

definition takes_volume :: "template_volume \<Rightarrow> bool" where
  "takes_volume v \<longleftrightarrow> tv_type v = ''auto'' \<and> truthy_str (tv_container v)"

lemma bind_volume_pile:
  assumes "takes_volume v \<longrightarrow> pile \<noteq> []"
  shows "\<exists>v'. bind_volume v pile = Inr (v', if takes_volume v then butlast pile else pile) \<and>
    tv_container v' = tv_container v \<and> tv_type v' = tv_type v \<and>
    (takes_volume v \<longrightarrow> tv_binding v' =
      Some (last pile @ '':'' @ the (tv_container v) @ (if tv_readonly v then '':ro'' else [])))"
  using assms by (auto simp: bind_volume_def takes_volume_def Let_def)

text \<open>The volumes that take one from the pile take its elements from the end, each once.\<close>

definition auto_binding :: "string \<Rightarrow> template_volume \<Rightarrow> string" where
  "auto_binding name v = name @ '':'' @ the (tv_container v) @ (if tv_readonly v then '':ro'' else [])"

lemma bindings_from_pile:
  assumes "length (filter takes_volume vs) \<le> length pile"
  shows "\<exists>vs'. createVolumeBindings vs pile =
      Inr (vs', take (length pile - length (filter takes_volume vs)) pile) \<and>
    map (\<lambda>v. the (tv_binding v)) (filter takes_volume vs') =
      map2 auto_binding (take (length (filter takes_volume vs)) (rev pile)) (filter takes_volume vs)"
  using assms
proof (induction vs arbitrary: pile)
  case (Cons v vs)
  show ?case
  proof (cases "takes_volume v")
    case True
    with Cons.prems obtain p q where pile: "pile = q @ [p]" by (cases pile rule: rev_cases) auto
    from bind_volume_pile [of v pile] True pile obtain v' where v':
      "bind_volume v pile = Inr (v', q)" "takes_volume v'" "the (tv_binding v') = auto_binding p v"
      by (auto simp: takes_volume_def auto_binding_def)
    from Cons.IH [of q] Cons.prems True pile obtain vs' where
      "createVolumeBindings vs q = Inr (vs', take (length q - length (filter takes_volume vs)) q)"
      "map (\<lambda>v. the (tv_binding v)) (filter takes_volume vs') =
        map2 auto_binding (take (length (filter takes_volume vs)) (rev q)) (filter takes_volume vs)"
      by auto
    with v' True pile Cons.prems show ?thesis by simp
  next
    case False
    from bind_volume_pile [of v pile] False obtain v' where v':
      "bind_volume v pile = Inr (v', pile)" "\<not> takes_volume v'"
      by (auto simp: takes_volume_def)
    from Cons.IH [of pile] Cons.prems False obtain vs' where
      "createVolumeBindings vs pile = Inr (vs', take (length pile - length (filter takes_volume vs)) pile)"
      "map (\<lambda>v. the (tv_binding v)) (filter takes_volume vs') =
        map2 auto_binding (take (length (filter takes_volume vs)) (rev pile)) (filter takes_volume vs)"
      by auto
    with v' False show ?thesis by simp
  qed
qed simp

lemma takes_le_count: "length (filter takes_volume vs) \<le> determineRequiredGeneratedVolumeCount vs"
  by (induction vs) (auto simp: count_auto takes_volume_def)

lemma map_of_last_binding:
  "obj_get (fst (portArrayToPortConfiguration (ps @ [p]))) (port_row_key p) =
     (if tp_containerPort p \<noteq> [] then Some [port_row_binding p]
      else obj_get (fst (portArrayToPortConfiguration ps)) (port_row_key p))"
  by (simp add: portArrayToPortConfiguration_def)

lemma obj_has_fold:
  "obj_has (fold (\<lambda>p ob. if P p then obj_set ob (f p) (g p) else ob) ps ob) k \<longleftrightarrow>
     obj_has ob k \<or> (\<exists>p \<in> set ps. P p \<and> f p = k)"
  by (induction ps arbitrary: ob) (auto simp: obj_has_def)

section \<open>Properties\<close>

text \<open>
  With as many generated volumes as the helper asks for, the bindings of a template are created without
  an error, and its automatic volumes are bound to the generated ones from the end of the pile, each to
  another.
\<close>

theorem volume_bindings_total:
  assumes "length pile = determineRequiredGeneratedVolumeCount vs"
  shows "\<exists>vs' rest. createVolumeBindings vs pile = Inr (vs', rest) \<and>
    map (\<lambda>v. the (tv_binding v)) (filter takes_volume vs') =
      map2 auto_binding (take (length (filter takes_volume vs)) (rev pile)) (filter takes_volume vs)"
  using bindings_from_pile [of vs pile] takes_le_count [of vs] assms by auto

theorem volume_bindings_total_witness:
  "\<exists>vs' rest. createVolumeBindings (templateVolumes (Some
      [\<lparr>rv_container = Some ''/data'', rv_readonly = None, rv_bind = None\<rparr>])) [''v1''] = Inr (vs', rest) \<and>
    map (\<lambda>v. the (tv_binding v)) (filter takes_volume vs') = [''v1:/data'']"
  using volume_bindings_total [of "[''v1'']" "templateVolumes (Some
      [\<lparr>rv_container = Some ''/data'', rv_readonly = None, rv_bind = None\<rparr>])"]
  by (simp add: determineRequiredGeneratedVolumeCount_def templateVolumes_def template_volume_of_def
      takes_volume_def auto_binding_def)

text \<open>
  A template port \<open>host:container/protocol\<close> becomes a binding of the container port to the host port,
  and the exposed ports are exactly those that are bound.
\<close>

theorem template_port_bound:
  assumes "CHR '':'' \<notin> set h" "CHR '':'' \<notin> set c" "CHR ''/'' \<notin> set h" "CHR ''/'' \<notin> set c"
    "CHR ''/'' \<notin> set p" "h \<noteq> []" "c \<noteq> []"
  shows "obj_get (fst (portArrayToPortConfiguration (ps @ templatePorts (Some [h @ '':'' @ c @ ''/'' @ p]))))
      (c @ ''/'' @ p) = Some [\<lparr>cb_HostPort = Some h, cb_HostIp = None\<rparr>] \<and>
    (\<forall>k. obj_has (fst (portArrayToPortConfiguration ps)) k = obj_has (snd (portArrayToPortConfiguration ps)) k)"
proof
  have "split_char (CHR ''/'') ((h @ '':'' @ c) @ CHR ''/'' # p) = [h @ '':'' @ c, p]"
    using assms by (subst split_char_append) (auto simp: split_char_notin)
  moreover have "split_char (CHR '':'') (h @ CHR '':'' # c) = [h, c]"
    using assms by (subst split_char_append) (auto simp: split_char_notin)
  ultimately have port: "template_port_of (h @ '':'' @ c @ ''/'' @ p) =
      \<lparr>tp_hostPort = Some h, tp_containerPort = c, tp_protocol = Some p\<rparr>"
    by (simp add: template_port_of_def)
  have binding: "port_row_binding \<lparr>tp_hostPort = Some h, tp_containerPort = c, tp_protocol = Some p\<rparr> =
      \<lparr>cb_HostPort = Some h, cb_HostIp = None\<rparr>"
    using assms(1,6) by (cases h) (auto simp: port_row_binding_def)
  show "obj_get (fst (portArrayToPortConfiguration (ps @ templatePorts (Some [h @ '':'' @ c @ ''/'' @ p]))))
      (c @ ''/'' @ p) = Some [\<lparr>cb_HostPort = Some h, cb_HostIp = None\<rparr>]"
    using map_of_last_binding [of ps "template_port_of (h @ '':'' @ c @ ''/'' @ p)"] port binding assms(7)
    by (simp add: templatePorts_def port_row_key_def undefined_text_def)
  show "\<forall>k. obj_has (fst (portArrayToPortConfiguration ps)) k = obj_has (snd (portArrayToPortConfiguration ps)) k"
    by (simp add: portArrayToPortConfiguration_def obj_has_fold obj_has_def [of "[]"])
qed

theorem template_port_bound_witness:
  "obj_get (fst (portArrayToPortConfiguration (templatePorts (Some [''8080:80/tcp''])))) ''80/tcp'' =
     Some [\<lparr>cb_HostPort = Some ''8080'', cb_HostIp = None\<rparr>]"
  using template_port_bound [of "''8080''" "''80''" "''tcp''" "[]"] by simp

end
