(* ===== verification/ContainerForm.thy ===== *)
theory ContainerForm
  imports Complex_Main DockerModels ContainerPorts EnvVars AppTemplates
begin

text \<open>
  The form that creates a container (\<open>app/docker/views/containers/create/createContainerController.js\<close>): the
  steps \<open>prepare...\<close> that turn the form into the request of the engine, the steps \<open>loadFrom...\<close> that fill it
  from a container that is duplicated or edited, and \<open>configFromContainer\<close> of
  \<open>app/docker/helpers/containerHelper.js\<close>. The steps read and write different fields, so each is a function
  of the fields it uses. The CPU limit (floating point arithmetic with a factor that is no power of two) is
  not modelled.
\<close>

section \<open>Command, entrypoint and console\<close>

abbreviation quote :: char where
  "quote \<equiv> CHR 0x27"

definition commandArrayToString :: "string list \<Rightarrow> string" where
  "commandArrayToString array = join '' '' (map (\<lambda>e. [quote] @ e @ [quote]) array)"

definition getContainerNames :: "string list list \<Rightarrow> string list" where
  "getContainerNames names = map (trim_start ''/'') (concat names)"

text \<open>
  \<open>splitargs\<close> stands for the package of that name, which cuts a command line into its arguments. An absent
  or empty command, or the default mode, leaves the command out.
\<close>

definition prepareCmd :: "(string \<Rightarrow> string list) \<Rightarrow> string \<Rightarrow> string option \<Rightarrow> string list option" where
  "prepareCmd splitargs mode cmd =
     (if \<not> truthy_str cmd \<or> mode = ''default'' then None else Some (splitargs (the cmd)))"

datatype entrypoint = EntryText string | EntryArray "string list"

fun entrypoint_empty :: "entrypoint option \<Rightarrow> bool" where
  "entrypoint_empty None = True"
| "entrypoint_empty (Some (EntryText s)) = (s = [])"
| "entrypoint_empty (Some (EntryArray xs)) = (xs = [])"

definition prepareEntrypoint :: "string \<Rightarrow> string list option \<Rightarrow> entrypoint option \<Rightarrow> entrypoint option" where
  "prepareEntrypoint mode cmd entry =
     (if mode = ''default'' \<or> ((cmd = None \<or> cmd = Some []) \<and> entrypoint_empty entry) then None else entry)"

definition loadFromContainerCmd :: "string list option \<Rightarrow> string \<Rightarrow> string option \<times> string" where
  "loadFromContainerCmd cmd mode = (case cmd of
       None \<Rightarrow> (None, mode)
     | Some xs \<Rightarrow> (Some (commandArrayToString xs), ''override''))"

text \<open>The field is \<open>None\<close> where the configuration has no entrypoint, \<open>Some None\<close> where it is null.\<close>

definition loadFromContainerEntrypoint ::
    "entrypoint option option \<Rightarrow> string \<Rightarrow> entrypoint option option \<times> string" where
  "loadFromContainerEntrypoint entry mode = (case entry of
       None \<Rightarrow> (None, mode)
     | Some None \<Rightarrow> (Some (Some (EntryText [])), ''override'')
     | Some (Some e) \<Rightarrow> (Some (Some e), ''override''))"

definition prepareConsole :: "string \<Rightarrow> bool \<times> bool" where
  "prepareConsole v =
     (if v = ''tty'' then (False, True)
      else if v = ''interactive'' then (True, False)
      else if v = ''none'' then (False, False)
      else (True, True))"

definition loadFromContainerConsole :: "bool \<times> bool \<Rightarrow> string" where
  "loadFromContainerConsole c =
     (if fst c \<and> snd c then ''both''
      else if \<not> fst c \<and> snd c then ''tty''
      else if fst c \<and> \<not> snd c then ''interactive''
      else ''none'')"

section \<open>Volumes\<close>

record mount =
  mt_Type :: string
  mt_Name :: "string option"
  mt_Source :: "string option"
  mt_Destination :: string
  mt_RW :: bool

record volume_row =
  vr_type :: string
  vr_name :: "string option"
  vr_containerPath :: string
  vr_readOnly :: bool

definition bind_text :: "string \<Rightarrow> string \<Rightarrow> bool \<Rightarrow> string" where
  "bind_text name path ro = name @ '':'' @ path @ (if ro then '':ro'' else [])"

definition add_bind :: "string option \<Rightarrow> string \<Rightarrow> bool \<Rightarrow> string list \<times> unit obj \<Rightarrow> string list \<times> unit obj" where
  "add_bind name path ro st =
     (if truthy_str name \<and> path \<noteq> []
      then (fst st @ [bind_text (the name) path ro], obj_set (snd st) path ())
      else st)"

definition prepareVolumes :: "volume_row list \<Rightarrow> string list \<times> unit obj" where
  "prepareVolumes rs = fold (\<lambda>r. add_bind (vr_name r) (vr_containerPath r) (vr_readOnly r)) rs ([], [])"

text \<open>The binds of \<open>configFromContainer\<close>, from the mounts of the container.\<close>

definition container_binds :: "mount list \<Rightarrow> string list \<times> unit obj" where
  "container_binds ms =
     fold (\<lambda>m. add_bind (or_opt (mt_Name m) (mt_Source m)) (mt_Destination m) (\<not> mt_RW m)) ms ([], [])"

definition loadFromContainerVolumes :: "mount list \<Rightarrow> volume_row list \<Rightarrow> volume_row list" where
  "loadFromContainerVolumes ms rs =
     rs @ map (\<lambda>m. \<lparr>vr_type = mt_Type m, vr_name = or_opt (mt_Name m) (mt_Source m),
                     vr_containerPath = mt_Destination m, vr_readOnly = \<not> mt_RW m\<rparr>) ms"

section \<open>Labels, sysctls and logging\<close>

record pair_row =
  pr_name :: string
  pr_value :: string

definition prepareLabels :: "pair_row list \<Rightarrow> string obj" where
  "prepareLabels rs =
     fold (\<lambda>r ob. if pr_name r \<noteq> [] then obj_set ob (pr_name r) (pr_value r) else ob) rs []"

definition prepareSysctls :: "pair_row list \<Rightarrow> string obj" where
  "prepareSysctls rs =
     fold (\<lambda>r ob. if pr_name r \<noteq> [] \<and> pr_value r \<noteq> [] then obj_set ob (pr_name r) (pr_value r) else ob) rs []"

text \<open>A \<open>for-in\<close> loop over the own properties of an object that may be missing.\<close>

definition pair_rows :: "string obj option \<Rightarrow> pair_row list" where
  "pair_rows ob = (case ob of
       None \<Rightarrow> []
     | Some kvs \<Rightarrow> map (\<lambda>(k, v). \<lparr>pr_name = k, pr_value = v\<rparr>) (obj_entries kvs))"

definition loadFromContainerLabels :: "string obj option \<Rightarrow> pair_row list \<Rightarrow> pair_row list" where
  "loadFromContainerLabels labels rs = rs @ pair_rows labels"

definition loadFromContainerSysctls :: "string obj option \<Rightarrow> pair_row list \<Rightarrow> pair_row list" where
  "loadFromContainerSysctls sysctls rs = rs @ pair_rows sysctls"

record log_config =
  lc_Type :: string
  lc_Config :: "string obj option"

text \<open>
  The test \<open>logOpts.constructor === Object\<close> reads the constructor of the prototype, unless an option has that
  name.
\<close>

definition prepareLogDriver :: "string \<Rightarrow> pair_row list \<Rightarrow> log_config option \<Rightarrow> log_config option" where
  "prepareLogDriver name opts old =
     (if name = [] then old
      else let logOpts = fold (\<lambda>r ob. if pr_name r \<noteq> [] then obj_set ob (pr_name r) (pr_value r) else ob) opts []
        in Some \<lparr>lc_Type = name,
             lc_Config = (if name \<noteq> ''none'' \<and> logOpts \<noteq> [] \<and> \<not> obj_has logOpts ''constructor''
                          then Some logOpts else None)\<rparr>)"

definition loadFromContainerLogging :: "log_config \<Rightarrow> string \<times> pair_row list" where
  "loadFromContainerLogging c = (lc_Type c, pair_rows (lc_Config c))"

section \<open>Devices\<close>

record device_row =
  dr_pathOnHost :: string
  dr_pathInContainer :: string

record device =
  dev_PathOnHost :: string
  dev_PathInContainer :: string
  dev_CgroupPermissions :: string

definition prepareDevices :: "device_row list \<Rightarrow> device list" where
  "prepareDevices rs =
     map (\<lambda>r. \<lparr>dev_PathOnHost = dr_pathOnHost r,
               dev_PathInContainer = (if dr_pathInContainer r = [] then dr_pathOnHost r else dr_pathInContainer r),
               dev_CgroupPermissions = ''rwm''\<rparr>)
       (filter (\<lambda>r. dr_pathOnHost r \<noteq> []) rs)"

definition loadFromContainerDevices :: "device list \<Rightarrow> device_row list" where
  "loadFromContainerDevices ds =
     map (\<lambda>d. \<lparr>dr_pathOnHost = dev_PathOnHost d, dr_pathInContainer = dev_PathInContainer d\<rparr>) ds"

section \<open>Memory\<close>

text \<open>
  The limits of the form are megabytes; dividing by powers of two is exact in a double. The rounded number
  is a multiple of one eighth, which three decimals show exactly. A negative number leaves the field as it is.
\<close>

definition js_round :: "rat \<Rightarrow> int" where
  "js_round x = \<lfloor>x + 1 / 2\<rfloor>"

definition prepare_memory :: "rat \<Rightarrow> int option \<Rightarrow> int option" where
  "prepare_memory megabytes old =
     (if 0 \<le> megabytes then Some (js_round (megabytes * 8) * (1024 * 1024) div 8) else old)"

definition load_memory :: "int \<Rightarrow> rat \<Rightarrow> rat" where
  "load_memory bytes old = (if bytes \<noteq> 0 then of_int bytes / 1024 / 1024 else old)"

section \<open>Capabilities\<close>

definition prepareCapabilities :: "capability list \<Rightarrow> string list \<times> string list" where
  "prepareCapabilities caps =
     (map cap_name (filter cap_allowed caps), map cap_name (filter (\<lambda>c. \<not> cap_allowed c) caps))"

definition loadFromContainerCapabilities ::
    "string list option \<Rightarrow> string list option \<Rightarrow> capability list \<Rightarrow> capability list" where
  "loadFromContainerCapabilities add_caps drop_caps old =
     (let named = old @ map (\<lambda>c. \<lparr>cap_name = c, cap_allowed = True\<rparr>) (some_or add_caps [])
                      @ map (\<lambda>c. \<lparr>cap_name = c, cap_allowed = False\<rparr>) (some_or drop_caps []);
          listed = fold (\<lambda>c cs. if cap_name c \<in> cap_name ` set cs then cs else cs @ [c]) ContainerCapabilities named
      in sort_key cap_name listed)"

text \<open>
  The capabilities that the engine gives a container: all but the dropped ones where all are added, the
  added ones where all are dropped, and otherwise the default ones that are not dropped with the added ones.
\<close>

definition effective :: "string list \<times> string list \<Rightarrow> string set" where
  "effective ad =
     (let allow = set (fst ad); drops = set (snd ad); every = set (default_capabilities @ extra_capabilities)
      in if ''ALL'' \<in> allow then every - drops
         else if ''ALL'' \<in> drops then allow
         else (set default_capabilities - drops) \<union> allow)"

section \<open>Networks\<close>

record ipam =
  ipam_IPv4 :: "string option"
  ipam_IPv6 :: "string option"

record endpoint_settings =
  nes_IPAMConfig :: "ipam option"
  nes_Aliases :: "string list option"

record running_container =
  rc_CId :: string
  rc_Names :: "string list"

record network_form =
  nf_NetworkMode :: string
  nf_EndpointsConfig :: "endpoint_settings option obj"
  nf_NetworkContainer :: "running_container option"
  nf_IPv4 :: string
  nf_IPv6 :: string
  nf_MacAddress :: "string option"
  nf_DnsPrimary :: string
  nf_DnsSecondary :: string
  nf_ExtraHosts :: "string list"
  nf_extraNetworks :: "endpoint_settings obj"
  nf_multiple :: bool

record network_config =
  nc_NetworkMode :: string
  nc_Hostname :: "string option"
  nc_MacAddress :: "string option"
  nc_EndpointsConfig :: "endpoint_settings option obj"
  nc_Dns :: "string list"
  nc_ExtraHosts :: "string list"

text \<open>
  The aliases of the form's own entry of the network are kept, except those that start the identifier of the
  container the form was filled from; without such a container the read of its identifier throws.
\<close>

definition kept_aliases :: "string option \<Rightarrow> network_form \<Rightarrow> string \<Rightarrow> string list option js_result" where
  "kept_aliases from_Id f mode =
     (case obj_get (nf_EndpointsConfig f) mode of
        Some (Some es) \<Rightarrow> (case nes_Aliases es of
            None \<Rightarrow> Inr None
          | Some as \<Rightarrow>
              if mode = [] then Inr None
              else (case from_Id of
                  None \<Rightarrow> if as = [] then Inr (Some []) else Inl TypeError
                | Some i \<Rightarrow> Inr (Some (filter (\<lambda>a. \<not> starts_with i a) as))))
      | _ \<Rightarrow> Inr None)"

definition network_container_name :: "network_form \<Rightarrow> string" where
  "network_container_name f = (case nf_NetworkContainer f of
       None \<Rightarrow> [] | Some c \<Rightarrow> trimcontainername (elem_at (rc_Names c) 0))"

definition prepareNetworkConfig ::
    "string option \<Rightarrow> string option \<Rightarrow> network_form \<Rightarrow> network_config js_result" where
  "prepareNetworkConfig from_Id hostname f =
     (let name = network_container_name f;
          mode = (if name \<noteq> [] then nf_NetworkMode f @ '':'' @ name else nf_NetworkMode f)
      in and_then (kept_aliases from_Id f mode) (\<lambda>aliases. Inr
        \<lparr>nc_NetworkMode = mode, nc_Hostname = (if name \<noteq> [] then Some [] else hostname),
         nc_MacAddress = nf_MacAddress f,
         nc_EndpointsConfig = obj_set (nf_EndpointsConfig f) mode (Some
           \<lparr>nes_IPAMConfig = Some \<lparr>ipam_IPv4 = Some (nf_IPv4 f), ipam_IPv6 = Some (nf_IPv6 f)\<rparr>, nes_Aliases = aliases\<rparr>),
         nc_Dns = (if nf_DnsPrimary f \<noteq> [] then [nf_DnsPrimary f] else []) @
                  (if nf_DnsSecondary f \<noteq> [] then [nf_DnsSecondary f] else []),
         nc_ExtraHosts = filter (\<lambda>h. h \<noteq> []) (nf_ExtraHosts f)\<rparr>))"

definition resetNetworkConfig :: "network_form \<Rightarrow> network_form" where
  "resetNetworkConfig f = f\<lparr>nf_EndpointsConfig := []\<rparr>"

text \<open>The container that the form is filled from, as far as its network goes.\<close>

record network_source =
  ns_NetworkMode :: string
  ns_Networks :: "endpoint_settings obj"
  ns_MacAddress :: "string option"
  ns_Dns :: "string list option"
  ns_ExtraHosts :: "string list option"

definition loaded_mode :: "string list \<Rightarrow> string \<Rightarrow> string" where
  "loaded_mode availableNetworks mode =
     (let m = (if mode = ''default'' then (if ''bridge'' \<in> set availableNetworks then ''bridge'' else ''nat'') else mode)
      in if js_index_of m ''container:'' = 0 then ''container'' else m)"

definition mode_container :: "running_container list \<Rightarrow> string \<Rightarrow> running_container option" where
  "mode_container running mode =
     (if js_index_of mode ''container:'' = 0
      then List.find (\<lambda>c. rc_CId c = drop (length ''container:'') mode) (rev running) else None)"

definition or_keep :: "string option \<Rightarrow> string \<Rightarrow> string" where
  "or_keep v old = (if truthy_str v then the v else old)"

definition loaded_addresses :: "endpoint_settings option \<Rightarrow> string \<times> string \<Rightarrow> string \<times> string" where
  "loaded_addresses es old =
     (case Option.bind es nes_IPAMConfig of
        None \<Rightarrow> old
      | Some i \<Rightarrow> (or_keep (ipam_IPv4 i) (fst old), or_keep (ipam_IPv6 i) (snd old)))"

definition loaded_dns :: "string list option \<Rightarrow> string \<times> string \<Rightarrow> string \<times> string" where
  "loaded_dns dns old =
     (case dns of
        Some (p # ps) \<Rightarrow>
          if p = [] then old else (p, or_keep (elem_at ps 0) (snd old))
      | _ \<Rightarrow> old)"

definition loadFromContainerNetworkConfig ::
    "string list \<Rightarrow> running_container list \<Rightarrow> network_source \<Rightarrow> network_form \<Rightarrow> network_form" where
  "loadFromContainerNetworkConfig available running d f =
     (let mode = loaded_mode available (ns_NetworkMode d);
          nets = ns_Networks d;
          ks = obj_keys nets;
          addresses = loaded_addresses (obj_get nets mode) (nf_IPv4 f, nf_IPv6 f);
          dns = loaded_dns (ns_Dns d) (nf_DnsPrimary f, nf_DnsSecondary f)
      in \<lparr>nf_NetworkMode = mode,
          nf_EndpointsConfig = [(mode, if length ks > 1 then obj_get nets (hd ks) else obj_get nets mode)],
          nf_NetworkContainer = (case mode_container running (ns_NetworkMode d) of
              None \<Rightarrow> nf_NetworkContainer f | Some c \<Rightarrow> Some c),
          nf_IPv4 = fst addresses, nf_IPv6 = snd addresses, nf_MacAddress = ns_MacAddress d,
          nf_DnsPrimary = fst dns, nf_DnsSecondary = snd dns,
          nf_ExtraHosts = nf_ExtraHosts f @ some_or (ns_ExtraHosts d) [],
          nf_extraNetworks = (if length ks > 1 then obj_del nets (hd ks) else nf_extraNetworks f),
          nf_multiple = (length ks \<ge> 2)\<rparr>)"

text \<open>The networks the new container is in: that of its mode, and the extra ones it is connected to.\<close>

definition joined_networks :: "network_form \<Rightarrow> string set" where
  "joined_networks f = insert (nf_NetworkMode f) (set (obj_keys (nf_extraNetworks f)))"

section \<open>The form and the request\<close>

text \<open>The rows and fields the user edits; the configuration that the form shares with the engine is part of it.\<close>

record container_form =
  f_RegistryModel :: image_model
  f_alwaysPull :: bool
  f_pullImageValidity :: bool
  f_Cmd :: "string option"
  f_CmdMode :: string
  f_Entrypoint :: "entrypoint option"
  f_EntrypointMode :: string
  f_Network :: network_form
  f_Hostname :: "string option"
  f_PortBindings :: "port_row list"
  f_Console :: string
  f_Env :: "env_var list"
  f_Volumes :: "volume_row list"
  f_Labels :: "pair_row list"
  f_Devices :: "device_row list"
  f_MemoryLimit :: rat
  f_MemoryReservation :: rat
  f_Memory :: "int option"
  f_Reservation :: "int option"
  f_LogDriverName :: string
  f_LogDriverOpts :: "pair_row list"
  f_LogConfig :: "log_config option"
  f_capabilities :: "capability list"
  f_Sysctls :: "pair_row list"

record container_request =
  q_Image :: string
  q_Cmd :: "string list option"
  q_Entrypoint :: "entrypoint option"
  q_Network :: network_config
  q_ExposedPorts :: "unit obj"
  q_PortBindings :: port_bindings
  q_OpenStdin :: bool
  q_Tty :: bool
  q_Env :: "string list"
  q_Binds :: "string list"
  q_Volumes :: "unit obj"
  q_Labels :: "string obj"
  q_Devices :: "device list"
  q_Memory :: "int option"
  q_MemoryReservation :: "int option"
  q_LogConfig :: "log_config option"
  q_CapAdd :: "string list"
  q_CapDrop :: "string list"
  q_Sysctls :: "string obj"

definition exposed_ports :: "port_bindings \<Rightarrow> unit obj" where
  "exposed_ports bindings = fold (\<lambda>(k, b) ob. obj_set ob k ()) (obj_entries bindings) []"

text \<open>The steps in the order of the source; those that throw are the network and the ports.\<close>

definition prepareConfiguration ::
    "(string \<Rightarrow> string list) \<Rightarrow> string option \<Rightarrow> container_form \<Rightarrow> container_request js_result" where
  "prepareConfiguration splitargs from_Id f =
     (let cmd = prepareCmd splitargs (f_CmdMode f) (f_Cmd f) in
      and_then (prepareNetworkConfig from_Id (f_Hostname f) (f_Network f)) (\<lambda>net.
      and_then (preparePortBindings (f_PortBindings f)) (\<lambda>bindings. Inr
        \<lparr>q_Image = createImageConfigForContainer (f_RegistryModel f), q_Cmd = cmd,
         q_Entrypoint = prepareEntrypoint (f_EntrypointMode f) cmd (f_Entrypoint f), q_Network = net,
         q_ExposedPorts = exposed_ports bindings, q_PortBindings = bindings,
         q_OpenStdin = fst (prepareConsole (f_Console f)), q_Tty = snd (prepareConsole (f_Console f)),
         q_Env = convertToArrayOfStrings (Some (f_Env f)),
         q_Binds = fst (prepareVolumes (f_Volumes f)), q_Volumes = snd (prepareVolumes (f_Volumes f)),
         q_Labels = prepareLabels (f_Labels f), q_Devices = prepareDevices (f_Devices f),
         q_Memory = prepare_memory (f_MemoryLimit f) (f_Memory f),
         q_MemoryReservation = prepare_memory (f_MemoryReservation f) (f_Reservation f),
         q_LogConfig = prepareLogDriver (f_LogDriverName f) (f_LogDriverOpts f) (f_LogConfig f),
         q_CapAdd = fst (prepareCapabilities (f_capabilities f)),
         q_CapDrop = snd (prepareCapabilities (f_capabilities f)),
         q_Sysctls = prepareSysctls (f_Sysctls f)\<rparr>)))"

text \<open>The buttons of the form.\<close>

definition handleEnvVarChange :: "env_var list \<Rightarrow> container_form \<Rightarrow> container_form" where
  "handleEnvVarChange v f = f\<lparr>f_Env := v\<rparr>"

definition onImageNameChange :: "container_form \<Rightarrow> container_form" where
  "onImageNameChange f = f\<lparr>f_CmdMode := ''default'', f_EntrypointMode := ''default''\<rparr>"

definition setPullImageValidity :: "bool \<Rightarrow> container_form \<Rightarrow> container_form" where
  "setPullImageValidity validity f =
     (let g = (if \<not> validity then f\<lparr>f_alwaysPull := False\<rparr> else f) in g\<lparr>f_pullImageValidity := validity\<rparr>)"

definition addVolume :: "container_form \<Rightarrow> container_form" where
  "addVolume f = f\<lparr>f_Volumes := f_Volumes f @
     [\<lparr>vr_type = ''volume'', vr_name = Some [], vr_containerPath = [], vr_readOnly = False\<rparr>]\<rparr>"

definition removeVolume :: "nat \<Rightarrow> container_form \<Rightarrow> container_form" where
  "removeVolume i f = f\<lparr>f_Volumes := remove_at i (f_Volumes f)\<rparr>"

definition addPortBinding :: "container_form \<Rightarrow> container_form" where
  "addPortBinding f = f\<lparr>f_PortBindings := f_PortBindings f @
     [\<lparr>row_hostPort = Some [], row_containerPort = PortText [], row_protocol = ''tcp''\<rparr>]\<rparr>"

definition removePortBinding :: "nat \<Rightarrow> container_form \<Rightarrow> container_form" where
  "removePortBinding i f = f\<lparr>f_PortBindings := remove_at i (f_PortBindings f)\<rparr>"

definition addLabel :: "container_form \<Rightarrow> container_form" where
  "addLabel f = f\<lparr>f_Labels := f_Labels f @ [\<lparr>pr_name = [], pr_value = []\<rparr>]\<rparr>"

definition removeLabel :: "nat \<Rightarrow> container_form \<Rightarrow> container_form" where
  "removeLabel i f = f\<lparr>f_Labels := remove_at i (f_Labels f)\<rparr>"

definition addExtraHost :: "container_form \<Rightarrow> container_form" where
  "addExtraHost f = f\<lparr>f_Network := (f_Network f)\<lparr>nf_ExtraHosts := nf_ExtraHosts (f_Network f) @ [[]]\<rparr>\<rparr>"

definition removeExtraHost :: "nat \<Rightarrow> container_form \<Rightarrow> container_form" where
  "removeExtraHost i f = f\<lparr>f_Network := (f_Network f)\<lparr>nf_ExtraHosts := remove_at i (nf_ExtraHosts (f_Network f))\<rparr>\<rparr>"

definition addDevice :: "container_form \<Rightarrow> container_form" where
  "addDevice f = f\<lparr>f_Devices := f_Devices f @ [\<lparr>dr_pathOnHost = [], dr_pathInContainer = []\<rparr>]\<rparr>"

definition removeDevice :: "nat \<Rightarrow> container_form \<Rightarrow> container_form" where
  "removeDevice i f = f\<lparr>f_Devices := remove_at i (f_Devices f)\<rparr>"

definition addSysctl :: "container_form \<Rightarrow> container_form" where
  "addSysctl f = f\<lparr>f_Sysctls := f_Sysctls f @ [\<lparr>pr_name = [], pr_value = []\<rparr>]\<rparr>"

definition removeSysctl :: "nat \<Rightarrow> container_form \<Rightarrow> container_form" where
  "removeSysctl i f = f\<lparr>f_Sysctls := remove_at i (f_Sysctls f)\<rparr>"

definition addLogDriverOpt :: "container_form \<Rightarrow> container_form" where
  "addLogDriverOpt f = f\<lparr>f_LogDriverOpts := f_LogDriverOpts f @ [\<lparr>pr_name = [], pr_value = []\<rparr>]\<rparr>"

definition removeLogDriverOpt :: "nat \<Rightarrow> container_form \<Rightarrow> container_form" where
  "removeLogDriverOpt i f = f\<lparr>f_LogDriverOpts := remove_at i (f_LogDriverOpts f)\<rparr>"

text \<open>An empty row added by a button sends nothing, so adding rows never changes the request.\<close>

lemma prepare_empty_rows:
  "prepareVolumes (f_Volumes (addVolume f)) = prepareVolumes (f_Volumes f)"
  "prepareLabels (f_Labels (addLabel f)) = prepareLabels (f_Labels f)"
  "prepareDevices (f_Devices (addDevice f)) = prepareDevices (f_Devices f)"
  "prepareSysctls (f_Sysctls (addSysctl f)) = prepareSysctls (f_Sysctls f)"
  "prepareLogDriver n (f_LogDriverOpts (addLogDriverOpt f)) c = prepareLogDriver n (f_LogDriverOpts f) c"
  "filter (\<lambda>h. h \<noteq> []) (nf_ExtraHosts (f_Network (addExtraHost f))) = filter (\<lambda>h. h \<noteq> []) (nf_ExtraHosts (f_Network f))"
  by (simp_all add: addVolume_def prepareVolumes_def add_bind_def addLabel_def prepareLabels_def addDevice_def
      prepareDevices_def addSysctl_def prepareSysctls_def addLogDriverOpt_def prepareLogDriver_def addExtraHost_def)

lemma prepare_empty_port: "preparePortBindings (f_PortBindings (addPortBinding f)) = preparePortBindings (f_PortBindings f)"
proof -
  have "prepare_row \<lparr>row_hostPort = Some [], row_containerPort = PortText [], row_protocol = ''tcp''\<rparr> b = Inr b" for b
    by (simp add: prepare_row_def)
  then show ?thesis
    by (cases "fold_result prepare_row (f_PortBindings f) []")
      (simp_all add: preparePortBindings_def addPortBinding_def fold_result_append)
qed

text \<open>The extra hosts of the form are the only part of the network step that the rows change.\<close>

lemma prepare_network_hosts:
  assumes "filter (\<lambda>h. h \<noteq> []) hosts = filter (\<lambda>h. h \<noteq> []) (nf_ExtraHosts n)"
  shows "prepareNetworkConfig i h (n\<lparr>nf_ExtraHosts := hosts\<rparr>) = prepareNetworkConfig i h n"
proof -
  have "kept_aliases i (n\<lparr>nf_ExtraHosts := hosts\<rparr>) m = kept_aliases i n m" for m by (simp add: kept_aliases_def)
  moreover have "network_container_name (n\<lparr>nf_ExtraHosts := hosts\<rparr>) = network_container_name n"
    by (simp add: network_container_name_def)
  ultimately show ?thesis using assms by (simp add: prepareNetworkConfig_def Let_def)
qed

definition add_rows :: "(container_form \<Rightarrow> container_form) list" where
  "add_rows = [addVolume, addPortBinding, addLabel, addExtraHost, addDevice, addSysctl, addLogDriverOpt]"

lemma exposed_ports_keys: "obj_has (exposed_ports bindings) k = obj_has bindings k"
proof -
  have "obj_has (fold (\<lambda>(k, b) ob. obj_set ob k ()) es ob) k \<longleftrightarrow> obj_has ob k \<or> k \<in> fst ` set es" for es ob
    by (induction es arbitrary: ob) (auto simp: obj_has_def)
  from this [of "obj_entries bindings" "[]"]
  have "obj_has (exposed_ports bindings) k \<longleftrightarrow> k \<in> fst ` set (obj_entries bindings)"
    by (simp add: exposed_ports_def obj_has_def [of "[]"])
  also have "\<dots> \<longleftrightarrow> obj_has bindings k" by (force simp: set_obj_entries obj_has_def image_iff)
  finally show ?thesis .
qed

section \<open>Lemmas on capabilities\<close>

lemma set_list_missing:
  assumes "distinct (map key xs)"
  shows "set (fold (\<lambda>c cs. if key c \<in> key ` set cs then cs else cs @ [c]) xs named) =
    set named \<union> {c \<in> set xs. key c \<notin> key ` set named}"
  using assms
proof (induction xs arbitrary: named)
  case (Cons x xs)
  show ?case
  proof (cases "key x \<in> key ` set named")
    case True
    with Cons show ?thesis by auto
  next
    case False
    with Cons.prems Cons.IH [of "named @ [x]"] show ?thesis by (auto simp: image_iff)
  qed
qed simp

lemma cap_name_images [simp]:
  "cap_name ` (\<lambda>c. \<lparr>cap_name = c, cap_allowed = b\<rparr>) ` A = A"
  by (simp add: image_image)

lemma set_loaded_capabilities:
  "set (loadFromContainerCapabilities adds drops []) =
    (\<lambda>c. \<lparr>cap_name = c, cap_allowed = True\<rparr>) ` set (some_or adds []) \<union>
    (\<lambda>c. \<lparr>cap_name = c, cap_allowed = False\<rparr>) ` set (some_or drops []) \<union>
    {c \<in> set ContainerCapabilities. cap_name c \<notin> set (some_or adds []) \<union> set (some_or drops [])}"
  using set_list_missing [OF capability_names(1)]
  by (simp add: loadFromContainerCapabilities_def Let_def image_Un)

lemma capability_cases:
  "\<lparr>cap_name = c, cap_allowed = True\<rparr> \<in> set ContainerCapabilities \<longleftrightarrow> c \<in> set default_capabilities"
  "\<lparr>cap_name = c, cap_allowed = False\<rparr> \<in> set ContainerCapabilities \<longleftrightarrow> c \<in> set extra_capabilities"
  by (auto simp: ContainerCapabilities_def)

lemma capability_mem:
  "\<lparr>cap_name = c, cap_allowed = b\<rparr> \<in> S \<longleftrightarrow> (\<exists>x \<in> S. cap_name x = c \<and> cap_allowed x = b)"
proof
  assume "\<exists>x \<in> S. cap_name x = c \<and> cap_allowed x = b"
  then obtain x where "x \<in> S" "cap_name x = c" "cap_allowed x = b" by blast
  moreover from this have "x = \<lparr>cap_name = c, cap_allowed = b\<rparr>" by (cases x) simp
  ultimately show "\<lparr>cap_name = c, cap_allowed = b\<rparr> \<in> S" by simp
next
  assume "\<lparr>cap_name = c, cap_allowed = b\<rparr> \<in> S"
  then show "\<exists>x \<in> S. cap_name x = c \<and> cap_allowed x = b" by (rule bexI [rotated]) simp
qed

lemma prepared_sets:
  "set (fst (prepareCapabilities caps)) = {c. \<lparr>cap_name = c, cap_allowed = True\<rparr> \<in> set caps}"
  "set (snd (prepareCapabilities caps)) = {c. \<lparr>cap_name = c, cap_allowed = False\<rparr> \<in> set caps}"
  unfolding capability_mem by (auto simp: prepareCapabilities_def)

text \<open>What the form sends for a container with the capabilities \<open>adds\<close> and \<open>drops\<close>.\<close>

lemma prepared_loaded:
  "set (fst (prepareCapabilities (loadFromContainerCapabilities adds drops []))) =
     set (some_or adds []) \<union> (set default_capabilities - (set (some_or adds []) \<union> set (some_or drops [])))"
  "set (snd (prepareCapabilities (loadFromContainerCapabilities adds drops []))) =
     set (some_or drops []) \<union> (set extra_capabilities - (set (some_or adds []) \<union> set (some_or drops [])))"
  unfolding prepared_sets set_loaded_capabilities
proof -
  have inj: "\<lparr>cap_name = c, cap_allowed = b\<rparr> \<in> (\<lambda>c. \<lparr>cap_name = c, cap_allowed = b'\<rparr>) ` A \<longleftrightarrow> b = b' \<and> c \<in> A"
    for c b b' A by auto
  show "{c. \<lparr>cap_name = c, cap_allowed = True\<rparr> \<in>
      (\<lambda>c. \<lparr>cap_name = c, cap_allowed = True\<rparr>) ` set (some_or adds []) \<union>
      (\<lambda>c. \<lparr>cap_name = c, cap_allowed = False\<rparr>) ` set (some_or drops []) \<union>
      {c \<in> set ContainerCapabilities. cap_name c \<notin> set (some_or adds []) \<union> set (some_or drops [])}} =
    set (some_or adds []) \<union> (set default_capabilities - (set (some_or adds []) \<union> set (some_or drops [])))"
    by (rule set_eqI) (simp add: inj capability_cases)
  show "{c. \<lparr>cap_name = c, cap_allowed = False\<rparr> \<in>
      (\<lambda>c. \<lparr>cap_name = c, cap_allowed = True\<rparr>) ` set (some_or adds []) \<union>
      (\<lambda>c. \<lparr>cap_name = c, cap_allowed = False\<rparr>) ` set (some_or drops []) \<union>
      {c \<in> set ContainerCapabilities. cap_name c \<notin> set (some_or adds []) \<union> set (some_or drops [])}} =
    set (some_or drops []) \<union> (set extra_capabilities - (set (some_or adds []) \<union> set (some_or drops [])))"
    by (rule set_eqI) (simp add: inj capability_cases)
qed

text \<open>The effect depends on the two sets only.\<close>

definition effect_of :: "string set \<Rightarrow> string set \<Rightarrow> string set" where
  "effect_of A D =
     (if ''ALL'' \<in> A then set (default_capabilities @ extra_capabilities) - D
      else if ''ALL'' \<in> D then A else (set default_capabilities - D) \<union> A)"

lemma effective_effect_of: "effective ad = effect_of (set (fst ad)) (set (snd ad))"
  by (simp add: effective_def effect_of_def Let_def)

lemma default_extra_disjoint: "set default_capabilities \<inter> set extra_capabilities = {}"
  using default_capabilities_names by simp

lemma ALL_no_capability: "''ALL'' \<notin> set default_capabilities" "''ALL'' \<notin> set extra_capabilities"
  by (simp_all add: default_capabilities_def extra_capabilities_def)

lemma effect_of_saved:
  assumes "''ALL'' \<notin> A" "''ALL'' \<notin> D"
  shows "effect_of (A \<union> (set default_capabilities - (A \<union> D))) (D \<union> (set extra_capabilities - (A \<union> D))) = effect_of A D"
proof -
  have general: "(d - (D \<union> (e - (A \<union> D)))) \<union> (A \<union> (d - (A \<union> D))) = (d - D) \<union> A"
    if "d \<inter> e = {}" for d e :: "string set" using that by blast
  have "''ALL'' \<notin> A \<union> (set default_capabilities - (A \<union> D))" "''ALL'' \<notin> D \<union> (set extra_capabilities - (A \<union> D))"
    using assms ALL_no_capability by (simp_all only: Un_iff Diff_iff simp_thms)
  then show ?thesis
    by (simp only: effect_of_def if_False assms general [OF default_extra_disjoint])
qed

section \<open>Lemmas on memory, volumes and networks\<close>

lemma round_memory: "js_round (of_int bytes / 1024 / 1024 * 8 :: rat) * (1024 * 1024) div 8 =
    (bytes + 65536) div 131072 * 131072"
proof -
  have "of_int bytes / 1024 / 1024 * 8 + 1 / 2 = (of_int (bytes + 65536) / of_int 131072 :: rat)" by simp
  then have "js_round (of_int bytes / 1024 / 1024 * 8 :: rat) = (bytes + 65536) div 131072"
    unfolding js_round_def by (simp only: floor_divide_of_int_eq)
  then show ?thesis by simp
qed

lemma rounded_multiple:
  fixes b h :: int
  assumes "0 < h"
  shows "\<bar>(b + h) div (2 * h) * (2 * h) - b\<bar> \<le> h" "(b + h) div (2 * h) * (2 * h) = b \<longleftrightarrow> 2 * h dvd b"
proof -
  let ?q = "(b + h) div (2 * h)" and ?r = "(b + h) mod (2 * h)"
  have "?q * (2 * h) + ?r = b + h" by (rule div_mult_mod_eq)
  moreover have "0 \<le> ?r" "?r < 2 * h" using assms by simp_all
  ultimately have r: "?q * (2 * h) + ?r = b + h" "0 \<le> ?r" "?r < 2 * h" by (simp_all only:)
  then show "\<bar>?q * (2 * h) - b\<bar> \<le> h" by linarith
  show "?q * (2 * h) = b \<longleftrightarrow> 2 * h dvd b"
  proof
    assume "?q * (2 * h) = b"
    then show "2 * h dvd b" by (metis dvd_triv_right)
  next
    assume "2 * h dvd b"
    then obtain k where k: "b = 2 * h * k" by (rule dvdE)
    have "2 * h \<noteq> 0" using assms by simp
    from div_mult_self4 [OF this, of k h] have "?q = k + h div (2 * h)" by (simp only: k)
    moreover have "h div (2 * h) = 0" using assms by (intro div_pos_pos_trivial) simp_all
    ultimately have "?q = k" by simp
    then show "?q * (2 * h) = b" using k by simp
  qed
qed

lemma volumes_round_trip: "prepareVolumes (loadFromContainerVolumes ms []) = container_binds ms"
proof -
  have "fold (\<lambda>r. add_bind (vr_name r) (vr_containerPath r) (vr_readOnly r))
      (map (\<lambda>m. \<lparr>vr_type = mt_Type m, vr_name = or_opt (mt_Name m) (mt_Source m),
                     vr_containerPath = mt_Destination m, vr_readOnly = \<not> mt_RW m\<rparr>) ms) st =
      fold (\<lambda>m. add_bind (or_opt (mt_Name m) (mt_Source m)) (mt_Destination m) (\<not> mt_RW m)) ms st" for st
    by (induction ms arbitrary: st) simp_all
  then show ?thesis by (simp add: prepareVolumes_def loadFromContainerVolumes_def container_binds_def)
qed

lemma console_round_trip: "prepareConsole (loadFromContainerConsole c) = c"
  by (cases c) (auto simp: prepareConsole_def loadFromContainerConsole_def)

lemma labels_round_trip:
  assumes "obj_ok ob"
  shows "obj_get (prepareLabels (loadFromContainerLabels (Some ob) [])) k =
    (if k = [] then None else obj_get ob k)"
proof -
  let ?es = "filter (\<lambda>(k, v). k \<noteq> []) (obj_entries ob)"
  have "map (\<lambda>r. (pr_name r, pr_value r)) (filter (\<lambda>r. pr_name r \<noteq> []) (pair_rows (Some ob))) = ?es"
    unfolding pair_rows_def option.case filter_map map_map by (simp add: comp_def case_prod_unfold)
  then have get: "obj_get (prepareLabels (loadFromContainerLabels (Some ob) [])) k = map_of (rev ?es) k"
    by (simp add: prepareLabels_def loadFromContainerLabels_def object.get_fold_guarded split: option.split)
  have dist: "distinct (map fst ?es)"
    using distinct_obj_entries [OF assms] by (simp add: distinct_map_filter)
  then have "map_of (rev ?es) = map_of ?es"
    by (intro map_of_inject_set [THEN iffD2]) (simp_all add: rev_map [symmetric])
  moreover have "map_of ?es k = (if k = [] then None else obj_get ob k)"
  proof (cases "k = [] \<or> obj_get ob k = None")
    case True
    then have "k \<notin> fst ` set ?es" by (auto simp: set_obj_entries)
    then have "map_of ?es k = None" by (simp only: map_of_eq_None_iff not_False_eq_True)
    with True show ?thesis by auto
  next
    case False
    then obtain v where "obj_get ob k = Some v" by blast
    with False have "(k, v) \<in> set ?es" by (simp add: set_obj_entries)
    with dist False \<open>obj_get ob k = Some v\<close> show ?thesis by simp
  qed
  ultimately show ?thesis using get by simp
qed

lemma set_keys_del: "set (obj_keys (obj_del ob k)) = set (obj_keys ob) - {k}"
  by (auto simp: obj_del_def image_iff)

lemma loaded_network_fields:
  "nf_NetworkMode (loadFromContainerNetworkConfig available running d f) = loaded_mode available (ns_NetworkMode d)"
  "nf_extraNetworks (loadFromContainerNetworkConfig available running d f) =
     (if length (obj_keys (ns_Networks d)) > 1 then obj_del (ns_Networks d) (hd (obj_keys (ns_Networks d)))
      else nf_extraNetworks f)"
  unfolding loadFromContainerNetworkConfig_def Let_def by (simp_all only: network_form.simps)

section \<open>Properties\<close>

text \<open>
  The rows that the buttons of the form add send nothing until they are filled: after any number of them
  the request is the same, or the same error is thrown.
\<close>

theorem added_rows_send_nothing:
  assumes "set buttons \<subseteq> set add_rows"
  shows "prepareConfiguration splitargs i (fold (\<lambda>b f. b f) buttons f) = prepareConfiguration splitargs i f"
  using assms
proof (induction buttons arbitrary: f)
  case (Cons b buttons)
  have one: "prepareConfiguration splitargs i (b f) = prepareConfiguration splitargs i f" if "b \<in> set add_rows"
  proof -
    from that consider "b = addExtraHost" | "b = addPortBinding"
      | "b \<in> {addVolume, addLabel, addDevice, addSysctl, addLogDriverOpt}" by (auto simp: add_rows_def)
    then show ?thesis
    proof cases
      case 1
      have "prepareNetworkConfig i h (f_Network (addExtraHost f)) = prepareNetworkConfig i h (f_Network f)" for h
        unfolding addExtraHost_def by (simp add: prepare_network_hosts)
      with 1 show ?thesis by (simp add: prepareConfiguration_def) (simp add: addExtraHost_def)
    next
      case 2
      then show ?thesis
        using prepare_empty_port [of f] by (simp add: prepareConfiguration_def) (simp add: addPortBinding_def)
    next
      case 3
      then show ?thesis
        using prepare_empty_rows [where f = f]
        by (auto simp: prepareConfiguration_def addVolume_def addLabel_def addDevice_def addSysctl_def addLogDriverOpt_def)
    qed
  qed
  from Cons.prems have "set buttons \<subseteq> set add_rows" "b \<in> set add_rows" by auto
  with Cons.IH [of "b f"] one show ?case by simp
qed simp

theorem added_rows_send_nothing_witness:
  "\<forall>splitargs i f. prepareConfiguration splitargs i (addVolume (addLabel f)) = prepareConfiguration splitargs i f"
  using added_rows_send_nothing [of "[addLabel, addVolume]"] by (simp add: add_rows_def)

text \<open>
  Duplicating or editing a container keeps its capabilities: what the form sends has the same effect as
  the lists it was filled from, where none of them names \<open>ALL\<close>.
\<close>

theorem capabilities_kept:
  assumes "''ALL'' \<notin> set (some_or adds [])" "''ALL'' \<notin> set (some_or drops [])"
  shows "effective (prepareCapabilities (loadFromContainerCapabilities adds drops [])) =
    effective (some_or adds [], some_or drops [])"
  unfolding effective_effect_of prepared_loaded fst_conv snd_conv using assms by (rule effect_of_saved)

theorem capabilities_kept_witness:
  "effective (prepareCapabilities (loadFromContainerCapabilities (Some [''NET_ADMIN'']) (Some [''CHOWN'']) [])) =
    effective ([''NET_ADMIN''], [''CHOWN''])"
  using capabilities_kept [of "Some [''NET_ADMIN'']" "Some [''CHOWN'']"] by (simp add: some_or_def)

text \<open>
  A container that drops all capabilities gets the default ones back when it is duplicated or edited: it
  had only those it added, and the one made from the form has every default capability.
\<close>

theorem dropped_capabilities_return:
  assumes "''ALL'' \<notin> set adds"
  shows "effective (adds, [''ALL'']) = set adds \<and>
    set default_capabilities \<subseteq>
      effective (prepareCapabilities (loadFromContainerCapabilities (Some adds) (Some [''ALL'']) []))"
proof
  show "effective (adds, [''ALL'']) = set adds" using assms by (simp add: effective_def Let_def)
  have sets: "set (some_or (Some adds) []) = set adds" "set (some_or (Some [''ALL'']) []) = {''ALL''}"
    by (simp_all add: some_or_def)
  have no: "''ALL'' \<notin> set adds \<union> (set default_capabilities - (set adds \<union> {''ALL''}))" using assms by simp
  have yes: "''ALL'' \<in> {''ALL''} \<union> (set extra_capabilities - (set adds \<union> {''ALL''}))" by simp
  have "d \<subseteq> A \<union> (d - (A \<union> {x}))" if "x \<notin> d" for A d :: "string set" and x using that by blast
  from this [OF ALL_no_capability(1)] show "set default_capabilities \<subseteq>
      effective (prepareCapabilities (loadFromContainerCapabilities (Some adds) (Some [''ALL'']) []))"
    by (simp only: effective_effect_of prepared_loaded sets effect_of_def no yes if_True if_False)
qed

theorem dropped_capabilities_return_witness:
  "effective ([''NET_BIND_SERVICE''], [''ALL'']) = {''NET_BIND_SERVICE''} \<and>
   ''NET_RAW'' \<in> effective (prepareCapabilities
     (loadFromContainerCapabilities (Some [''NET_BIND_SERVICE'']) (Some [''ALL'']) []))"
proof -
  have "''NET_RAW'' \<in> set default_capabilities" by (simp add: default_capabilities_def)
  moreover have no: "''ALL'' \<notin> set [''NET_BIND_SERVICE'']" by simp
  note dropped_capabilities_return [OF no, THEN conjunct2]
  ultimately have "''NET_RAW'' \<in> effective (prepareCapabilities
     (loadFromContainerCapabilities (Some [''NET_BIND_SERVICE'']) (Some [''ALL'']) []))"
    by (rule rev_subsetD)
  moreover have "effective ([''NET_BIND_SERVICE''], [''ALL'']) = {''NET_BIND_SERVICE''}"
    unfolding dropped_capabilities_return [OF no, THEN conjunct1] by simp
  ultimately show ?thesis by (rule conjI [rotated])
qed

text \<open>
  A memory limit that is loaded into the form and saved changes by at most 64 KiB, and not at all
  exactly when it is a multiple of 128 KiB.
\<close>

theorem memory_limit_kept:
  assumes "0 < bytes"
  shows "\<exists>saved. prepare_memory (load_memory bytes old) previous = Some saved \<and>
    \<bar>saved - bytes\<bar> \<le> 65536 \<and> (saved = bytes \<longleftrightarrow> 131072 dvd bytes)"
proof -
  let ?saved = "(bytes + 65536) div 131072 * 131072"
  have "prepare_memory (load_memory bytes old) previous = Some ?saved"
    using assms round_memory [of bytes] by (simp add: prepare_memory_def load_memory_def)
  moreover have "\<bar>?saved - bytes\<bar> \<le> 65536" "?saved = bytes \<longleftrightarrow> 131072 dvd bytes"
    using rounded_multiple [of 65536 bytes] by simp_all
  ultimately show ?thesis by blast
qed

theorem memory_limit_kept_witness:
  "\<exists>saved. prepare_memory (load_memory 536870912 0) None = Some saved \<and> saved = 536870912"
proof -
  have "(131072 :: int) dvd 536870912" by simp
  moreover have "(0 :: int) < 536870912" by simp
  note memory_limit_kept [OF this, of 0 None]
  ultimately show ?thesis by blast
qed

text \<open>
  A container in several networks is put back into the network of its mode and all others but the first
  of the list, so it keeps its networks exactly when the first one is that of its mode.
\<close>

theorem networks_kept_iff:
  assumes "obj_ok (ns_Networks d)" "length (obj_keys (ns_Networks d)) > 1"
    "loaded_mode available (ns_NetworkMode d) \<in> set (obj_keys (ns_Networks d))"
  shows "joined_networks (loadFromContainerNetworkConfig available running d f) = set (obj_keys (ns_Networks d)) \<longleftrightarrow>
    hd (obj_keys (ns_Networks d)) = loaded_mode available (ns_NetworkMode d)"
proof -
  let ?ks = "obj_keys (ns_Networks d)" and ?m = "loaded_mode available (ns_NetworkMode d)"
  have "nf_NetworkMode (loadFromContainerNetworkConfig available running d f) = ?m"
    "nf_extraNetworks (loadFromContainerNetworkConfig available running d f) = obj_del (ns_Networks d) (hd ?ks)"
    using assms(2) by (simp_all only: loaded_network_fields if_True)
  then have "joined_networks (loadFromContainerNetworkConfig available running d f) = insert ?m (set ?ks - {hd ?ks})"
    by (simp only: joined_networks_def set_keys_del)
  moreover have "insert m (K - {h}) = K \<longleftrightarrow> h = m" if "h \<in> K" "m \<in> K" for m h and K :: "string set"
    using that by blast
  moreover have "hd ?ks \<in> set ?ks" using assms(2) by (intro list.set_sel(1)) force
  ultimately show ?thesis using assms(3) by (simp only:)
qed

theorem networks_kept_iff_witness:
  "joined_networks (loadFromContainerNetworkConfig [''bridge''] []
     \<lparr>ns_NetworkMode = ''web'',
      ns_Networks = [(''app'', \<lparr>nes_IPAMConfig = None, nes_Aliases = None\<rparr>), (''web'', \<lparr>nes_IPAMConfig = None, nes_Aliases = None\<rparr>)],
      ns_MacAddress = None, ns_Dns = None, ns_ExtraHosts = None\<rparr>
     \<lparr>nf_NetworkMode = ''bridge'', nf_EndpointsConfig = [], nf_NetworkContainer = None, nf_IPv4 = [], nf_IPv6 = [],
      nf_MacAddress = None, nf_DnsPrimary = [], nf_DnsSecondary = [], nf_ExtraHosts = [], nf_extraNetworks = [],
      nf_multiple = False\<rparr>) \<noteq> {''app'', ''web''}"
proof -
  let ?es = "\<lparr>nes_IPAMConfig = None, nes_Aliases = None\<rparr> :: endpoint_settings"
  let ?nets = "[(''app'', ?es), (''web'', ?es)]"
  let ?d = "\<lparr>ns_NetworkMode = ''web'', ns_Networks = ?nets, ns_MacAddress = None, ns_Dns = None, ns_ExtraHosts = None\<rparr>"
  have ok: "obj_ok ?nets" by (simp add: obj_ok_def)
  have "\<not> is_array_index ''app''" "\<not> is_array_index ''web''" by (rule not_array_index; simp add: is_digit_def)+
  then have keys: "obj_keys ?nets = [''app'', ''web'']" by (simp add: obj_keys_def key_order_def)
  have mode: "loaded_mode [''bridge''] ''web'' = ''web''"
    by (simp add: loaded_mode_def js_index_of_def find_sub_Cons Let_def)
  show ?thesis
    using networks_kept_iff [of ?d "[''bridge'']"] by (simp add: ok keys mode del: set_obj_keys)
qed

text \<open>
  The devices of a container are given back to it with every permission: a device that was read-only is
  writable in the duplicate.
\<close>

theorem device_permissions_widened:
  assumes "\<forall>d \<in> set ds. dev_PathOnHost d \<noteq> [] \<and> dev_PathInContainer d \<noteq> []"
  shows "prepareDevices (loadFromContainerDevices ds) = map (\<lambda>d. d\<lparr>dev_CgroupPermissions := ''rwm''\<rparr>) ds"
  using assms by (induction ds) (simp_all add: prepareDevices_def loadFromContainerDevices_def)

theorem device_permissions_widened_witness:
  "prepareDevices (loadFromContainerDevices
     [\<lparr>dev_PathOnHost = ''/dev/sda'', dev_PathInContainer = ''/dev/sda'', dev_CgroupPermissions = ''r''\<rparr>]) =
   [\<lparr>dev_PathOnHost = ''/dev/sda'', dev_PathInContainer = ''/dev/sda'', dev_CgroupPermissions = ''rwm''\<rparr>]"
  using device_permissions_widened
    [of "[\<lparr>dev_PathOnHost = ''/dev/sda'', dev_PathInContainer = ''/dev/sda'', dev_CgroupPermissions = ''r''\<rparr>]"]
  by simp

text \<open>
  The other parts of the form survive a duplication: the binds are those of the container's mounts, the
  console is the same, and every label with a name keeps its value.
\<close>

theorem form_parts_kept:
  assumes "obj_ok labels"
  shows "prepareVolumes (loadFromContainerVolumes ms []) = container_binds ms \<and>
    prepareConsole (loadFromContainerConsole console) = console \<and>
    obj_get (prepareLabels (loadFromContainerLabels (Some labels) [])) k = (if k = [] then None else obj_get labels k)"
  using volumes_round_trip console_round_trip labels_round_trip [OF assms] by blast

theorem form_parts_kept_witness:
  "obj_get (prepareLabels (loadFromContainerLabels (Some [(''app'', ''web'')]) [])) ''app'' = Some ''web''"
  using form_parts_kept [of "[(''app'', ''web'')]" "[]" "(True, True)" "''app''"] by (simp add: obj_ok_def)

end
