(* ===== verification/ContainerCreation.thy ===== *)
theory ContainerCreation
  imports ContainerForm
begin

text \<open>
  What happens when the form is submitted: \<open>create()\<close> of
  \<open>app/docker/views/containers/create/createContainerController.js\<close> with the calls of
  \<open>app/docker/services/containerService.js\<close> it makes. The chain of promises is a function of a session, the
  state that the callbacks share: the requests sent so far with the answers to them, the notifications shown,
  the container found under the name. The Docker engine is a parameter: what it answers is a function of the
  requests sent before, which leaves it free to fail at any point.
\<close>

section \<open>The engine and the session\<close>

record engine_container =
  ec_Id :: string
  ec_Names :: "string list"
  ec_State :: string

text \<open>
  What the creation of a container returns; the server adds the resource control of the new container, and
  without \<open>Portainer\<close> or its control the handler throws when it reads it.
\<close>

record new_container =
  new_Id :: string
  new_Control :: "rc_data option"

datatype action =
    PullImage string
  | StopContainer string
  | RenameContainer string string
  | StartContainer string
  | ApplyControl rc_request
  | ConnectNetwork string string "string list option"
  | RemoveContainer string

text \<open>
  A request with its answer: the error, or what was returned; the answer to an action may hold a message.
\<close>

datatype exchange =
    Queried string "string + engine_container list"
  | Creation string container_request "string + new_container"
  | Sent action "string + string option"

record engine =
  eng_query :: "exchange list \<Rightarrow> string \<Rightarrow> string + engine_container list"
  eng_create :: "exchange list \<Rightarrow> string \<Rightarrow> container_request \<Rightarrow> string + new_container"
  eng_send :: "exchange list \<Rightarrow> action \<Rightarrow> string + string option"

datatype failure =
    EngineError string
  | WithMsg string failure
  | Script js_error

datatype notification =
    NotifySuccess string string
  | NotifyError failure string

record session =
  s_log :: "exchange list"
  s_notes :: "notification list"
  s_actionInProgress :: bool
  s_formValidationError :: string
  s_oldContainer :: "engine_container option"
  s_left :: bool

definition fresh :: session where
  "fresh = \<lparr>s_log = [], s_notes = [], s_actionInProgress = False, s_formValidationError = [],
            s_oldContainer = None, s_left = False\<rparr>"

text \<open>
  The form as the page opens it without a container to fill it from; the image and the capabilities are chosen
  by the user and by the settings of the environment.
\<close>

definition initial_form :: "image_model \<Rightarrow> capability list \<Rightarrow> container_form" where
  "initial_form img caps =
     \<lparr>f_RegistryModel = img, f_alwaysPull = True, f_pullImageValidity = True, f_Cmd = Some [], f_CmdMode = ''default'',
      f_Entrypoint = Some (EntryText []), f_EntrypointMode = ''default'',
      f_Network = \<lparr>nf_NetworkMode = ''bridge'', nf_EndpointsConfig = [], nf_NetworkContainer = None, nf_IPv4 = [],
        nf_IPv6 = [], nf_MacAddress = Some [], nf_DnsPrimary = [], nf_DnsSecondary = [], nf_ExtraHosts = [],
        nf_extraNetworks = [], nf_multiple = False\<rparr>,
      f_Hostname = None, f_PortBindings = [], f_Console = ''none'', f_Env = [], f_Volumes = [], f_Labels = [],
      f_Devices = [], f_MemoryLimit = 0, f_MemoryReservation = 0, f_Memory = None, f_Reservation = None,
      f_LogDriverName = [], f_LogDriverOpts = [], f_LogConfig = None, f_capabilities = caps, f_Sysctls = []\<rparr>"

text \<open>The form as it is submitted, with the answer the user gives when asked to replace a container.\<close>

record submission =
  sub_name :: string
  sub_form :: container_form
  sub_from_Id :: "string option"
  sub_access :: access_form
  sub_isAdmin :: bool
  sub_userId :: nat
  sub_confirmed :: bool

section \<open>Promises\<close>

text \<open>A step that resolves with \<open>Inr\<close> of a value or rejects with \<open>Inl\<close> of a failure; \<open>then\<close> and \<open>catch\<close>.\<close>

type_synonym 'a step = "session \<Rightarrow> (failure + 'a) \<times> session"

definition resolve :: "'a \<Rightarrow> 'a step" where
  "resolve x s = (Inr x, s)"

definition reject :: "failure \<Rightarrow> 'a step" where
  "reject e s = (Inl e, s)"

definition step_then :: "'a step \<Rightarrow> ('a \<Rightarrow> 'b step) \<Rightarrow> 'b step" where
  "step_then m k s = (case m s of (Inl e, t) \<Rightarrow> (Inl e, t) | (Inr x, t) \<Rightarrow> k x t)"

definition step_catch :: "'a step \<Rightarrow> (failure \<Rightarrow> 'a step) \<Rightarrow> 'a step" where
  "step_catch m h s = (case m s of (Inl e, t) \<Rightarrow> h e t | (Inr x, t) \<Rightarrow> (Inr x, t))"

definition notify :: "notification \<Rightarrow> unit step" where
  "notify n s = (Inr (), s\<lparr>s_notes := s_notes s @ [n]\<rparr>)"

fun answer :: "string + 'a \<Rightarrow> failure + 'a" where
  "answer (Inl e) = Inl (EngineError e)"
| "answer (Inr x) = Inr x"

definition query :: "engine \<Rightarrow> string \<Rightarrow> engine_container list step" where
  "query eng flt s =
     (let r = eng_query eng (s_log s) flt in (answer r, s\<lparr>s_log := s_log s @ [Queried flt r]\<rparr>))"

definition post_container :: "engine \<Rightarrow> string \<Rightarrow> container_request \<Rightarrow> new_container step" where
  "post_container eng name config s =
     (let r = eng_create eng (s_log s) name config
      in (answer r, s\<lparr>s_log := s_log s @ [Creation name config r]\<rparr>))"

definition send :: "engine \<Rightarrow> action \<Rightarrow> string option step" where
  "send eng a s = (let r = eng_send eng (s_log s) a in (answer r, s\<lparr>s_log := s_log s @ [Sent a r]\<rparr>))"

section \<open>The container service\<close>

definition stopContainer :: "engine \<Rightarrow> string \<Rightarrow> unit step" where
  "stopContainer eng i = step_then (send eng (StopContainer i)) (\<lambda>_. resolve ())"

definition renameContainer :: "engine \<Rightarrow> string \<Rightarrow> string \<Rightarrow> unit step" where
  "renameContainer eng i name = step_then (send eng (RenameContainer i name)) (\<lambda>_. resolve ())"

definition startContainer :: "engine \<Rightarrow> string \<Rightarrow> unit step" where
  "startContainer eng i = step_then (send eng (StartContainer i)) (\<lambda>_. resolve ())"

definition createContainer :: "engine \<Rightarrow> string \<Rightarrow> container_request \<Rightarrow> new_container step" where
  "createContainer eng name config =
     step_catch (post_container eng name config) (\<lambda>e. reject (WithMsg ''Unable to create container'' e))"

definition createAndStartContainer :: "engine \<Rightarrow> string \<Rightarrow> container_request \<Rightarrow> new_container step" where
  "createAndStartContainer eng name config =
     step_then (createContainer eng name config) (\<lambda>c.
     step_then (startContainer eng (new_Id c)) (\<lambda>_. resolve c))"

text \<open>A message in the answer means that the container was not removed.\<close>

definition remove_container :: "engine \<Rightarrow> string \<Rightarrow> unit step" where
  "remove_container eng i =
     step_then (step_catch (send eng (RemoveContainer i))
                  (\<lambda>e. reject (WithMsg ''Unable to remove container'' e)))
       (\<lambda>m. case m of
          None \<Rightarrow> resolve ()
        | Some m' \<Rightarrow> if m' = [] then resolve () else reject (WithMsg m' (EngineError m')))"

section \<open>The steps of the creation\<close>

definition name_filter :: "string \<Rightarrow> string" where
  "name_filter name = ''^/'' @ name @ ''$''"

definition findCurrentContainer :: "engine \<Rightarrow> string \<Rightarrow> engine_container option step" where
  "findCurrentContainer eng name =
     step_catch
       (step_then (query eng (name_filter name)) (\<lambda>cs. resolve (case cs of [] \<Rightarrow> None | c # _ \<Rightarrow> Some c)))
       (\<lambda>e. step_then (notify (NotifyError e ''Unable to retrieve containers'')) (\<lambda>_. resolve None))"

definition setOldContainer :: "engine_container option \<Rightarrow> engine_container option step" where
  "setOldContainer c s = (Inr c, s\<lparr>s_oldContainer := c\<rparr>)"

definition confirmCreateContainer :: "submission \<Rightarrow> engine_container option \<Rightarrow> bool step" where
  "confirmCreateContainer sub c = resolve (case c of None \<Rightarrow> True | Some _ \<Rightarrow> sub_confirmed sub)"

definition check_access :: "submission \<Rightarrow> bool step" where
  "check_access sub s =
     (let e = validateAccessControl (sub_access sub) (sub_isAdmin sub)
      in (Inr (e = []), s\<lparr>s_formValidationError := e\<rparr>))"

text \<open>A pull resolves whatever the answer, and its errors are lost (\<open>imageService.js\<close>).\<close>

definition pullImageAndIgnoreErrors :: "engine \<Rightarrow> string \<Rightarrow> unit step" where
  "pullImageAndIgnoreErrors eng img =
     step_catch (step_then (send eng (PullImage img)) (\<lambda>_. resolve ())) (\<lambda>_. resolve ())"

definition pullImageIfNeeded :: "engine \<Rightarrow> submission \<Rightarrow> unit step" where
  "pullImageIfNeeded eng sub =
     (if f_alwaysPull (sub_form sub)
      then pullImageAndIgnoreErrors eng (createImageConfigForContainer (f_RegistryModel (sub_form sub)))
      else resolve ())"

definition old_name :: "engine_container \<Rightarrow> string step" where
  "old_name c = (case ec_Names c of [] \<Rightarrow> reject (Script TypeError) | n # _ \<Rightarrow> resolve (drop 1 n))"

definition stopContainerIfNeeded :: "engine \<Rightarrow> engine_container \<Rightarrow> unit step" where
  "stopContainerIfNeeded eng c =
     (if ec_State c \<noteq> ''running'' then resolve () else stopContainer eng (ec_Id c))"

definition stopAndRenameContainer :: "engine \<Rightarrow> unit step" where
  "stopAndRenameContainer eng s = (case s_oldContainer s of
       None \<Rightarrow> resolve () s
     | Some c \<Rightarrow>
         step_then (stopContainerIfNeeded eng c) (\<lambda>_.
         step_then (old_name c) (\<lambda>n. renameContainer eng (ec_Id c) (n @ ''-old''))) s)"

definition createNewContainer :: "(string \<Rightarrow> string list) \<Rightarrow> engine \<Rightarrow> submission \<Rightarrow> new_container step" where
  "createNewContainer splitargs eng sub =
     (case prepareConfiguration splitargs (sub_from_Id sub) (sub_form sub) of
        Inl e \<Rightarrow> reject (Script e)
      | Inr config \<Rightarrow> createAndStartContainer eng (sub_name sub) config)"

definition apply_control :: "engine \<Rightarrow> submission \<Rightarrow> new_container \<Rightarrow> string step" where
  "apply_control eng sub new = (case new_Control new of
       None \<Rightarrow> reject (Script TypeError)
     | Some rc \<Rightarrow>
         step_then (send eng (ApplyControl (applyResourceControl (sub_userId sub) (sub_access sub) rc [])))
           (\<lambda>_. resolve (new_Id new)))"

text \<open>
  \<open>_.forOwn\<close> returns the object it went through, so the promises of the requests are dropped: the requests
  are sent, and no answer is waited for or looked at. The request and its answer are logged together, in
  the order in which the requests are sent.
\<close>

definition network_aliases :: "string option \<Rightarrow> endpoint_settings \<Rightarrow> string list option js_result" where
  "network_aliases from_Id es = (case nes_Aliases es of
       None \<Rightarrow> Inr None
     | Some as \<Rightarrow> (case from_Id of
           None \<Rightarrow> if as = [] then Inr (Some []) else Inl TypeError
         | Some i \<Rightarrow> Inr (Some (filter (\<lambda>a. \<not> starts_with i a) as))))"

fun connect_networks ::
    "engine \<Rightarrow> string option \<Rightarrow> string \<Rightarrow> (string \<times> endpoint_settings) list \<Rightarrow> unit step" where
  "connect_networks eng from_Id i [] s = resolve () s"
| "connect_networks eng from_Id i ((name, es) # nets) s = (case network_aliases from_Id es of
       Inl e \<Rightarrow> reject (Script e) s
     | Inr as \<Rightarrow> connect_networks eng from_Id i nets (snd (send eng (ConnectNetwork name i as) s)))"

definition connectToExtraNetworks :: "engine \<Rightarrow> submission \<Rightarrow> string \<Rightarrow> unit step" where
  "connectToExtraNetworks eng sub i =
     connect_networks eng (sub_from_Id sub) i (obj_entries (nf_extraNetworks (f_Network (sub_form sub))))"

definition removeOldContainer :: "engine \<Rightarrow> unit step" where
  "removeOldContainer eng s = (case s_oldContainer s of
       None \<Rightarrow> resolve () s
     | Some c \<Rightarrow>
         step_catch
           (step_then (remove_container eng (ec_Id c)) (\<lambda>_. notify (NotifySuccess ''Container Removed'' (ec_Id c))))
           (\<lambda>e. reject (WithMsg ''Unable to remove container'' e)) s)"

definition onSuccess :: "unit step" where
  "onSuccess = step_then (notify (NotifySuccess ''Container successfully created'' []))
                 (\<lambda>_ s. (Inr (), s\<lparr>s_left := True\<rparr>))"

section \<open>The way back\<close>

definition removeNewContainer :: "engine \<Rightarrow> submission \<Rightarrow> unit step" where
  "removeNewContainer eng sub = step_then (findCurrentContainer eng (sub_name sub)) (\<lambda>found s.
     case found of
       None \<Rightarrow> resolve () s
     | Some c \<Rightarrow>
         if (case s_oldContainer s of None \<Rightarrow> True | Some old \<Rightarrow> ec_Id c \<noteq> ec_Id old)
         then remove_container eng (ec_Id c) s else resolve () s)"

definition restoreOldContainerName :: "engine \<Rightarrow> unit step" where
  "restoreOldContainerName eng s = (case s_oldContainer s of
       None \<Rightarrow> resolve () s
     | Some c \<Rightarrow> step_then (old_name c) (renameContainer eng (ec_Id c)) s)"

definition onCreationProcessFail :: "engine \<Rightarrow> submission \<Rightarrow> failure \<Rightarrow> unit step" where
  "onCreationProcessFail eng sub e =
     step_then (removeNewContainer eng sub) (\<lambda>_.
     step_then (restoreOldContainerName eng) (\<lambda>_. reject e))"

definition creation_steps :: "(string \<Rightarrow> string list) \<Rightarrow> engine \<Rightarrow> submission \<Rightarrow> unit step" where
  "creation_steps splitargs eng sub =
     step_then (pullImageIfNeeded eng sub) (\<lambda>_.
     step_then (stopAndRenameContainer eng) (\<lambda>_.
     step_then (createNewContainer splitargs eng sub) (\<lambda>new.
     step_then (apply_control eng sub new) (\<lambda>i.
     step_then (connectToExtraNetworks eng sub i) (\<lambda>_.
     step_then (removeOldContainer eng) (\<lambda>_. onSuccess))))))"

definition startCreationProcess :: "(string \<Rightarrow> string list) \<Rightarrow> engine \<Rightarrow> submission \<Rightarrow> bool \<Rightarrow> unit step" where
  "startCreationProcess splitargs eng sub confirmed =
     (if \<not> confirmed then resolve ()
      else step_then (check_access sub) (\<lambda>ok.
        if \<not> ok then resolve ()
        else (\<lambda>s. step_catch (creation_steps splitargs eng sub) (onCreationProcessFail eng sub)
                    (s\<lparr>s_actionInProgress := True\<rparr>))))"

definition create :: "(string \<Rightarrow> string list) \<Rightarrow> engine \<Rightarrow> submission \<Rightarrow> session" where
  "create splitargs eng sub =
     (snd (step_catch
        (step_then (findCurrentContainer eng (sub_name sub)) (\<lambda>found.
         step_then (setOldContainer found) (\<lambda>c.
         step_then (confirmCreateContainer sub c) (startCreationProcess splitargs eng sub))))
        (\<lambda>e. notify (NotifyError e ''Unable to create container''))
        (fresh\<lparr>s_oldContainer := None\<rparr>)))\<lparr>s_actionInProgress := False\<rparr>"

section \<open>What holds before and after a step\<close>

text \<open>
  From a session with \<open>P\<close> a step resolves in one with \<open>Q\<close> or rejects in one with \<open>E\<close>.
\<close>

definition triple ::
    "(session \<Rightarrow> bool) \<Rightarrow> 'a step \<Rightarrow> ('a \<Rightarrow> session \<Rightarrow> bool) \<Rightarrow> (failure \<Rightarrow> session \<Rightarrow> bool) \<Rightarrow> bool" where
  "triple P m Q E \<longleftrightarrow> (\<forall>s. P s \<longrightarrow> (case m s of (Inl e, t) \<Rightarrow> E e t | (Inr x, t) \<Rightarrow> Q x t))"

named_theorems triples "rules for the steps of a chain of promises"

lemma tripleI:
  "(\<And>s. P s \<Longrightarrow> (case m s of (Inl e, t) \<Rightarrow> E e t | (Inr x, t) \<Rightarrow> Q x t)) \<Longrightarrow> triple P m Q E"
  by (simp add: triple_def)

lemma tripleD: "triple P m Q E \<Longrightarrow> P s \<Longrightarrow> case m s of (Inl e, t) \<Rightarrow> E e t | (Inr x, t) \<Rightarrow> Q x t"
  by (simp add: triple_def)

lemma triple_weaken:
  "triple P m Q E \<Longrightarrow> (\<And>s. P' s \<Longrightarrow> P s) \<Longrightarrow> (\<And>x s. Q x s \<Longrightarrow> Q' x s) \<Longrightarrow> (\<And>e s. E e s \<Longrightarrow> E' e s) \<Longrightarrow>
   triple P' m Q' E'"
  by (fastforce simp: triple_def split: prod.splits sum.splits)

lemma triple_then [triples]:
  "triple P m Q E \<Longrightarrow> (\<And>x. triple (Q x) (k x) R E) \<Longrightarrow> triple P (step_then m k) R E"
  by (fastforce simp: triple_def step_then_def split: prod.splits sum.splits)

lemma triple_catch [triples]:
  "triple P m Q E \<Longrightarrow> (\<And>e. triple (E e) (h e) Q F) \<Longrightarrow> triple P (step_catch m h) Q F"
  by (fastforce simp: triple_def step_catch_def split: prod.splits sum.splits)

lemma triple_resolve: "(\<And>s. P s \<Longrightarrow> Q x s) \<Longrightarrow> triple P (resolve x) Q E"
  by (simp add: triple_def resolve_def)

lemma triple_reject: "(\<And>s. P s \<Longrightarrow> E e s) \<Longrightarrow> triple P (reject e) Q E"
  by (simp add: triple_def reject_def)

lemma triple_notify:
  "(\<And>s. P s \<Longrightarrow> Q () (s\<lparr>s_notes := s_notes s @ [n]\<rparr>)) \<Longrightarrow> triple P (notify n) Q E"
  by (simp add: triple_def notify_def)

lemma triple_send:
  assumes "\<And>s x. P s \<Longrightarrow> Q x (s\<lparr>s_log := s_log s @ [Sent a (Inr x)]\<rparr>)"
    and "\<And>s e. P s \<Longrightarrow> E (EngineError e) (s\<lparr>s_log := s_log s @ [Sent a (Inl e)]\<rparr>)"
  shows "triple P (send eng a) Q E"
proof (rule tripleI)
  fix s assume "P s"
  then show "case send eng a s of (Inl e, t) \<Rightarrow> E e t | (Inr x, t) \<Rightarrow> Q x t"
    using assms by (cases "eng_send eng (s_log s) a") (simp_all add: send_def)
qed

lemma triple_query:
  assumes "\<And>s x. P s \<Longrightarrow> Q x (s\<lparr>s_log := s_log s @ [Queried f (Inr x)]\<rparr>)"
    and "\<And>s e. P s \<Longrightarrow> E (EngineError e) (s\<lparr>s_log := s_log s @ [Queried f (Inl e)]\<rparr>)"
  shows "triple P (query eng f) Q E"
proof (rule tripleI)
  fix s assume "P s"
  then show "case query eng f s of (Inl e, t) \<Rightarrow> E e t | (Inr x, t) \<Rightarrow> Q x t"
    using assms by (cases "eng_query eng (s_log s) f") (simp_all add: query_def)
qed

lemma triple_post:
  assumes "\<And>s x. P s \<Longrightarrow> Q x (s\<lparr>s_log := s_log s @ [Creation n q (Inr x)]\<rparr>)"
    and "\<And>s e. P s \<Longrightarrow> E (EngineError e) (s\<lparr>s_log := s_log s @ [Creation n q (Inl e)]\<rparr>)"
  shows "triple P (post_container eng n q) Q E"
proof (rule tripleI)
  fix s assume "P s"
  then show "case post_container eng n q s of (Inl e, t) \<Rightarrow> E e t | (Inr x, t) \<Rightarrow> Q x t"
    using assms by (cases "eng_create eng (s_log s) n q") (simp_all add: post_container_def)
qed

lemma triple_old:
  assumes "triple (\<lambda>s. P s \<and> s_oldContainer s = None) (f None) Q E"
    and "\<And>c. triple (\<lambda>s. P s \<and> s_oldContainer s = Some c) (f (Some c)) Q E"
  shows "triple P (\<lambda>s. f (s_oldContainer s) s) Q E"
proof (rule tripleI)
  fix s :: session assume P: "P s"
  show "case f (s_oldContainer s) s of (Inl e, t) \<Rightarrow> E e t | (Inr x, t) \<Rightarrow> Q x t"
    using assms(1) assms(2) P by (cases "s_oldContainer s") (simp_all add: triple_def)
qed

text \<open>
  A step keeps a property of the log and of the container to be replaced, whether it resolves or rejects.
\<close>

definition keeps :: "(engine_container option \<Rightarrow> exchange list \<Rightarrow> bool) \<Rightarrow> 'a step \<Rightarrow> bool" where
  "keeps ok m \<longleftrightarrow> triple (\<lambda>s. ok (s_oldContainer s) (s_log s)) m
     (\<lambda>_ s. ok (s_oldContainer s) (s_log s)) (\<lambda>_ s. ok (s_oldContainer s) (s_log s))"

named_theorems keeps_rules "rules for the steps that keep a property"

lemma keeps_then [keeps_rules]: "keeps ok m \<Longrightarrow> (\<And>x. keeps ok (k x)) \<Longrightarrow> keeps ok (step_then m k)"
  unfolding keeps_def by (rule triple_then)

lemma keeps_catch [keeps_rules]: "keeps ok m \<Longrightarrow> (\<And>e. keeps ok (h e)) \<Longrightarrow> keeps ok (step_catch m h)"
  unfolding keeps_def by (rule triple_catch)

lemma keeps_resolve [keeps_rules]: "keeps ok (resolve x)"
  unfolding keeps_def by (rule triple_resolve)

lemma keeps_reject [keeps_rules]: "keeps ok (reject e)"
  unfolding keeps_def by (rule triple_reject)

lemma keeps_notify [keeps_rules]: "keeps ok (notify n)"
  unfolding keeps_def by (rule triple_notify) simp

lemma keeps_send: "(\<And>old l r. ok old l \<Longrightarrow> ok old (l @ [Sent a r])) \<Longrightarrow> keeps ok (send eng a)"
  unfolding keeps_def by (rule triple_send) simp_all

lemma keeps_query: "(\<And>old l r. ok old l \<Longrightarrow> ok old (l @ [Queried f r])) \<Longrightarrow> keeps ok (query eng f)"
  unfolding keeps_def by (rule triple_query) simp_all

lemma keeps_old_name [keeps_rules]: "keeps ok (old_name c)"
  by (cases "ec_Names c") (simp_all add: old_name_def keeps_rules)

lemma keeps_old: "(\<And>old. keeps ok (f old)) \<Longrightarrow> keeps ok (\<lambda>s. f (s_oldContainer s) s)"
  unfolding keeps_def by (rule triple_old) (rule triple_weaken, assumption, auto)+

text \<open>
  What the steps before the creation and the way back keep: a property of the log, given the container to be
  replaced, that queries, pulls, stops and renames keep, and removals of other containers.
\<close>

locale log_invariant =
  fixes ok :: "engine_container option \<Rightarrow> exchange list \<Rightarrow> bool"
  assumes queried: "ok old l \<Longrightarrow> ok old (l @ [Queried f r])"
    and pulled: "ok old l \<Longrightarrow> ok old (l @ [Sent (PullImage img) a])"
    and stopped: "ok old l \<Longrightarrow> ok old (l @ [Sent (StopContainer i) a])"
    and renamed: "ok old l \<Longrightarrow> ok old (l @ [Sent (RenameContainer i n) a])"
    and removed: "ok old l \<Longrightarrow> (\<And>c. old = Some c \<Longrightarrow> i \<noteq> ec_Id c) \<Longrightarrow> ok old (l @ [Sent (RemoveContainer i) a])"
begin

lemma find_keeps: "keeps ok (findCurrentContainer eng n)"
  unfolding findCurrentContainer_def by (intro keeps_rules keeps_query queried)

lemma pull_keeps: "keeps ok (pullImageIfNeeded eng sub)"
  by (simp add: pullImageIfNeeded_def pullImageAndIgnoreErrors_def keeps_rules keeps_send pulled)

lemma rename_keeps: "keeps ok (renameContainer eng i n)"
  by (simp add: renameContainer_def keeps_rules keeps_send renamed)

lemma stop_keeps: "keeps ok (stopContainerIfNeeded eng c)"
  by (simp add: stopContainerIfNeeded_def stopContainer_def keeps_rules keeps_send stopped)

lemma stop_rename_keeps: "keeps ok (stopAndRenameContainer eng)"
proof -
  let ?f = "\<lambda>old. case old of None \<Rightarrow> resolve () | Some c \<Rightarrow>
    step_then (stopContainerIfNeeded eng c) (\<lambda>_.
    step_then (old_name c) (\<lambda>n. renameContainer eng (ec_Id c) (n @ ''-old'')))"
  have "stopAndRenameContainer eng = (\<lambda>s. ?f (s_oldContainer s) s)"
    by (rule ext) (simp add: stopAndRenameContainer_def split: option.split)
  moreover have "keeps ok (?f old)" for old
    by (simp add: keeps_rules stop_keeps rename_keeps split: option.split)
  ultimately show ?thesis using keeps_old [of ok ?f] by simp
qed

lemma restore_keeps: "keeps ok (restoreOldContainerName eng)"
proof -
  let ?f = "\<lambda>old. case old of None \<Rightarrow> resolve () | Some c \<Rightarrow> step_then (old_name c) (renameContainer eng (ec_Id c))"
  have "restoreOldContainerName eng = (\<lambda>s. ?f (s_oldContainer s) s)"
    by (rule ext) (simp add: restoreOldContainerName_def split: option.split)
  moreover have "keeps ok (?f old)" for old
    by (simp add: keeps_rules rename_keeps split: option.split)
  ultimately show ?thesis using keeps_old [of ok ?f] by simp
qed

lemma remove_other_keeps:
  "triple (\<lambda>s. ok (s_oldContainer s) (s_log s) \<and> (\<forall>c. s_oldContainer s = Some c \<longrightarrow> i \<noteq> ec_Id c))
     (remove_container eng i)
     (\<lambda>_ s. ok (s_oldContainer s) (s_log s)) (\<lambda>_ s. ok (s_oldContainer s) (s_log s))"
proof (rule tripleI)
  fix s :: session assume P: "ok (s_oldContainer s) (s_log s) \<and> (\<forall>c. s_oldContainer s = Some c \<longrightarrow> i \<noteq> ec_Id c)"
  have "ok (s_oldContainer s) (s_log s @ [Sent (RemoveContainer i) a])" for a
    using P by (intro removed) auto
  then show "case remove_container eng i s of (Inl e, t) \<Rightarrow> ok (s_oldContainer t) (s_log t)
      | (Inr x, t) \<Rightarrow> ok (s_oldContainer t) (s_log t)"
    by (cases "eng_send eng (s_log s) (RemoveContainer i)")
       (simp_all add: remove_container_def step_then_def step_catch_def send_def resolve_def reject_def
         split: option.split)
qed

lemma remove_new_keeps: "keeps ok (removeNewContainer eng sub)"
  unfolding keeps_def removeNewContainer_def
proof (rule triple_then [OF find_keeps [unfolded keeps_def]], rule tripleI)
  fix found and s :: session assume P: "ok (s_oldContainer s) (s_log s)"
  show "case (case found of None \<Rightarrow> resolve () s
          | Some c \<Rightarrow> if case s_oldContainer s of None \<Rightarrow> True | Some old \<Rightarrow> ec_Id c \<noteq> ec_Id old
                     then remove_container eng (ec_Id c) s else resolve () s) of
      (Inl e, t) \<Rightarrow> ok (s_oldContainer t) (s_log t) | (Inr x, t) \<Rightarrow> ok (s_oldContainer t) (s_log t)"
    using P remove_other_keeps [where eng = eng] by (cases found; cases "s_oldContainer s") (simp_all add: resolve_def triple_def)
qed

lemma fail_keeps: "keeps ok (onCreationProcessFail eng sub e)"
  unfolding onCreationProcessFail_def by (intro keeps_rules remove_new_keeps restore_keeps)

end

end
