(* ===== verification/ContainerReplacement.thy ===== *)
theory ContainerReplacement
  imports ContainerCreation
begin

text \<open>
  What the submission of the container form guarantees, whatever the engine answers: the order in which a container
  is replaced, what the way back restores, and the two cases in which a container is stopped or lost.
\<close>

section \<open>The submission from its first answer on\<close>

definition first_answer :: "engine \<Rightarrow> submission \<Rightarrow> string + engine_container list" where
  "first_answer eng sub = eng_query eng [] (name_filter (sub_name sub))"

text \<open>The container found under the name; an error counts as none.\<close>

definition found_first :: "engine \<Rightarrow> submission \<Rightarrow> engine_container option" where
  "found_first eng sub = (case first_answer eng sub of Inr (c # _) \<Rightarrow> Some c | _ \<Rightarrow> None)"

definition first_session :: "engine \<Rightarrow> submission \<Rightarrow> session" where
  "first_session eng sub = fresh\<lparr>
     s_log := [Queried (name_filter (sub_name sub)) (first_answer eng sub)],
     s_notes := (case first_answer eng sub of
         Inl e \<Rightarrow> [NotifyError (EngineError e) ''Unable to retrieve containers''] | Inr _ \<Rightarrow> []),
     s_oldContainer := found_first eng sub\<rparr>"

definition goes_on :: "engine \<Rightarrow> submission \<Rightarrow> bool" where
  "goes_on eng sub \<longleftrightarrow> (found_first eng sub = None \<or> sub_confirmed sub) \<and>
     validateAccessControl (sub_access sub) (sub_isAdmin sub) = []"

lemma first_session_simps [simp]:
  "s_log (first_session eng sub) = [Queried (name_filter (sub_name sub)) (first_answer eng sub)]"
  "s_oldContainer (first_session eng sub) = found_first eng sub"
  "s_left (first_session eng sub) = False"
  "s_actionInProgress (first_session eng sub) = False"
  "s_formValidationError (first_session eng sub) = []"
  by (simp_all add: first_session_def fresh_def)

lemma then_resolve: "step_then (resolve x) k = k x"
  by (rule ext) (simp add: step_then_def resolve_def)

lemma first_session_same:
  "(first_session eng sub)\<lparr>s_oldContainer := found_first eng sub\<rparr> = first_session eng sub"
  "(first_session eng sub)\<lparr>s_actionInProgress := False\<rparr> = first_session eng sub"
  "(first_session eng sub)\<lparr>s_formValidationError := []\<rparr> = first_session eng sub"
  by (simp_all add: first_session_def fresh_def)

lemma start_refused:
  "startCreationProcess splitargs eng sub False s = (Inr (), s)"
  "validateAccessControl (sub_access sub) (sub_isAdmin sub) = e \<Longrightarrow> e \<noteq> [] \<Longrightarrow>
   startCreationProcess splitargs eng sub True s = (Inr (), s\<lparr>s_formValidationError := e\<rparr>)"
  by (simp_all add: startCreationProcess_def step_then_def [of "check_access _"] check_access_def resolve_def)

lemma start_accepted:
  "validateAccessControl (sub_access sub) (sub_isAdmin sub) = [] \<Longrightarrow>
   startCreationProcess splitargs eng sub True s =
     step_catch (creation_steps splitargs eng sub) (onCreationProcessFail eng sub)
       (s\<lparr>s_formValidationError := [], s_actionInProgress := True\<rparr>)"
  by (simp add: startCreationProcess_def step_then_def [of "check_access _"] check_access_def)

lemma find_fresh:
  "findCurrentContainer eng (sub_name sub) fresh =
     (Inr (found_first eng sub), (first_session eng sub)\<lparr>s_oldContainer := None\<rparr>)"
  by (cases "first_answer eng sub")
     (simp_all add: findCurrentContainer_def query_def step_then_def step_catch_def notify_def resolve_def
        first_session_def found_first_def first_answer_def fresh_def)

lemma create_from_first:
  "create splitargs eng sub =
     (snd (step_catch
       (startCreationProcess splitargs eng sub (found_first eng sub = None \<or> sub_confirmed sub))
       (\<lambda>e. notify (NotifyError e ''Unable to create container'')) (first_session eng sub)))
     \<lparr>s_actionInProgress := False\<rparr>"
proof -
  have "fresh\<lparr>s_oldContainer := None\<rparr> = fresh" by (simp add: fresh_def)
  moreover have "(case found_first eng sub of None \<Rightarrow> True | Some _ \<Rightarrow> sub_confirmed sub) =
      (found_first eng sub = None \<or> sub_confirmed sub)" by (simp split: option.split)
  ultimately show ?thesis
    unfolding create_def step_catch_def
    by (simp add: step_then_def [of "findCurrentContainer _ _"] find_fresh step_then_def [of "setOldContainer _"]
        setOldContainer_def confirmCreateContainer_def then_resolve first_session_same)
qed

lemma create_stops_early:
  assumes "\<not> goes_on eng sub"
  shows "create splitargs eng sub = (first_session eng sub)\<lparr>s_formValidationError :=
    (if found_first eng sub = None \<or> sub_confirmed sub
     then validateAccessControl (sub_access sub) (sub_isAdmin sub) else [])\<rparr>"
proof (cases "found_first eng sub = None \<or> sub_confirmed sub")
  case True
  with assms have "validateAccessControl (sub_access sub) (sub_isAdmin sub) \<noteq> []" by (simp add: goes_on_def)
  with True show ?thesis
    by (simp add: create_from_first step_catch_def start_refused first_session_def fresh_def)
next
  case False
  then obtain c where "found_first eng sub = Some c" and "\<not> sub_confirmed sub" by auto
  then show ?thesis
    by (simp add: create_from_first step_catch_def start_refused first_session_same)
qed

lemma create_started:
  assumes go: "goes_on eng sub"
    and start: "\<And>s. s_log s = [Queried (name_filter (sub_name sub)) (first_answer eng sub)] \<Longrightarrow>
       s_oldContainer s = found_first eng sub \<Longrightarrow> \<not> s_left s \<Longrightarrow> P s"
    and steps: "triple P (step_catch (creation_steps splitargs eng sub) (onCreationProcessFail eng sub))
       (\<lambda>_ s. R (s_oldContainer s) (s_log s) (s_left s)) (\<lambda>_ s. R (s_oldContainer s) (s_log s) (s_left s))"
  shows "let s = create splitargs eng sub in R (s_oldContainer s) (s_log s) (s_left s)"
proof -
  let ?s = "(first_session eng sub)\<lparr>s_formValidationError := [], s_actionInProgress := True\<rparr>"
  have "P ?s" by (rule start) simp_all
  from tripleD [OF steps this] have post: "case step_catch (creation_steps splitargs eng sub) (onCreationProcessFail eng sub) ?s of
      (Inl e, t) \<Rightarrow> R (s_oldContainer t) (s_log t) (s_left t) | (Inr x, t) \<Rightarrow> R (s_oldContainer t) (s_log t) (s_left t)"
    .
  obtain r t where rt: "step_catch (creation_steps splitargs eng sub) (onCreationProcessFail eng sub) ?s = (r, t)"
    by (rule prod.exhaust)
  have "startCreationProcess splitargs eng sub (found_first eng sub = None \<or> sub_confirmed sub)
      (first_session eng sub) = (r, t)"
    using go rt by (simp only: goes_on_def start_accepted simp_thms)
  then have "create splitargs eng sub = (case r of
      Inl e \<Rightarrow> t\<lparr>s_notes := s_notes t @ [NotifyError e ''Unable to create container'']\<rparr> | Inr x \<Rightarrow> t)
      \<lparr>s_actionInProgress := False\<rparr>"
    by (cases r) (simp_all add: create_from_first step_catch_def notify_def)
  then show ?thesis using post unfolding rt by (cases r) (simp_all add: Let_def)
qed

section \<open>The old container goes last\<close>

definition made :: "exchange list \<Rightarrow> new_container \<Rightarrow> bool" where
  "made l new \<longleftrightarrow> (\<exists>n q. Creation n q (Inr new) \<in> set l) \<and> (\<exists>m. Sent (StartContainer (new_Id new)) (Inr m) \<in> set l)"

definition replaced :: "exchange list \<Rightarrow> bool" where
  "replaced l \<longleftrightarrow> (\<exists>new. made l new) \<and> (\<exists>rq m. Sent (ApplyControl rq) (Inr m) \<in> set l)"

definition removal_of :: "engine_container option \<Rightarrow> exchange \<Rightarrow> bool" where
  "removal_of old x \<longleftrightarrow> (\<exists>c r. old = Some c \<and> x = Sent (RemoveContainer (ec_Id c)) r)"

definition quiet :: "engine_container option \<Rightarrow> exchange list \<Rightarrow> bool" where
  "quiet old l \<longleftrightarrow> (\<forall>x \<in> set l. \<not> removal_of old x)"

definition safe_log :: "engine_container option \<Rightarrow> exchange list \<Rightarrow> bool" where
  "safe_log old l \<longleftrightarrow> (\<forall>pre x post. l = pre @ x # post \<and> removal_of old x \<longrightarrow> replaced pre)"

lemma made_append: "made l new \<Longrightarrow> made (l @ l') new"
  by (auto simp: made_def)

lemma replaced_append: "replaced l \<Longrightarrow> replaced (l @ l')"
  unfolding replaced_def using made_append by fastforce

lemma removal_of_simps [simp]:
  "\<not> removal_of old (Queried f q)"
  "\<not> removal_of old (Creation n c r)"
  "removal_of old (Sent a m) \<longleftrightarrow> (\<exists>c. old = Some c \<and> a = RemoveContainer (ec_Id c))"
  by (auto simp: removal_of_def)

lemma safe_log_append:
  assumes "safe_log old l" and "removal_of old x \<Longrightarrow> replaced l"
  shows "safe_log old (l @ [x])"
  unfolding safe_log_def
proof (intro allI impI, elim conjE)
  fix pre y post assume eq: "l @ [x] = pre @ y # post" and y: "removal_of old y"
  show "replaced pre"
  proof (cases post rule: rev_cases)
    case Nil with eq y assms(2) show ?thesis by simp
  next
    case (snoc p z)
    with eq have "l = pre @ y # p" by simp
    with y assms(1) show ?thesis unfolding safe_log_def by blast
  qed
qed

lemma quiet_safe: "quiet old l \<Longrightarrow> safe_log old l"
  by (auto simp: quiet_def safe_log_def)

interpretation quiet: log_invariant quiet
  by unfold_locales (auto simp: quiet_def)

interpretation safe: log_invariant safe_log
  by unfold_locales (auto intro!: safe_log_append)

lemma triple_create_new:
  "triple (\<lambda>s. quiet (s_oldContainer s) (s_log s)) (createNewContainer splitargs eng sub)
     (\<lambda>new s. quiet (s_oldContainer s) (s_log s) \<and> made (s_log s) new)
     (\<lambda>_ s. safe_log (s_oldContainer s) (s_log s))"
proof (cases "prepareConfiguration splitargs (sub_from_Id sub) (sub_form sub)")
  case (Inl e)
  then show ?thesis by (simp add: createNewContainer_def triple_reject quiet_safe)
next
  case (Inr q)
  have post: "triple (\<lambda>s. quiet (s_oldContainer s) (s_log s)) (post_container eng (sub_name sub) q)
     (\<lambda>new s. quiet (s_oldContainer s) (s_log s) \<and> (\<exists>n q. Creation n q (Inr new) \<in> set (s_log s)))
     (\<lambda>_ s. safe_log (s_oldContainer s) (s_log s))"
    by (rule triple_post) (auto simp: quiet_def intro: quiet_safe intro!: safe_log_append)
  have start: "triple (\<lambda>s. quiet (s_oldContainer s) (s_log s) \<and> (\<exists>n q. Creation n q (Inr new) \<in> set (s_log s)))
     (send eng (StartContainer (new_Id new)))
     (\<lambda>_ s. quiet (s_oldContainer s) (s_log s) \<and> made (s_log s) new)
     (\<lambda>_ s. safe_log (s_oldContainer s) (s_log s))" for new
    by (rule triple_send) (auto simp: quiet_def made_def intro: quiet_safe intro!: safe_log_append)
  show ?thesis unfolding createNewContainer_def Inr sum.case createAndStartContainer_def createContainer_def startContainer_def
    by (rule triple_then [OF triple_catch [OF post triple_reject]], assumption,
        rule triple_then [OF triple_then [OF start triple_resolve] triple_resolve]; assumption)
qed

lemma triple_apply:
  "triple (\<lambda>s. quiet (s_oldContainer s) (s_log s) \<and> made (s_log s) new) (apply_control eng sub new)
     (\<lambda>_ s. quiet (s_oldContainer s) (s_log s) \<and> replaced (s_log s))
     (\<lambda>_ s. safe_log (s_oldContainer s) (s_log s))"
proof (cases "new_Control new")
  case None
  then show ?thesis by (auto simp: apply_control_def intro!: triple_reject quiet_safe)
next
  case (Some rc)
  have "triple (\<lambda>s. quiet (s_oldContainer s) (s_log s) \<and> made (s_log s) new)
     (send eng (ApplyControl (applyResourceControl (sub_userId sub) (sub_access sub) rc [])))
     (\<lambda>_ s. quiet (s_oldContainer s) (s_log s) \<and> replaced (s_log s))
     (\<lambda>_ s. safe_log (s_oldContainer s) (s_log s))"
    by (rule triple_send)
       (auto simp: quiet_def replaced_def dest: made_append intro: quiet_safe intro!: safe_log_append)
  then show ?thesis using Some by (simp add: apply_control_def triple_then triple_resolve)
qed

lemma triple_connect:
  assumes "\<And>s n as r. P s \<Longrightarrow> P (s\<lparr>s_log := s_log s @ [Sent (ConnectNetwork n i as) r]\<rparr>)"
  shows "triple P (connectToExtraNetworks eng sub i) (\<lambda>_. P) (\<lambda>_. P)"
proof -
  have "triple P (connect_networks eng from_Id i nets) (\<lambda>_. P) (\<lambda>_. P)" for from_Id nets
  proof (induction nets)
    case Nil
    show ?case by (simp add: triple_def resolve_def)
  next
    case (Cons net nets)
    obtain n es where net: "net = (n, es)" by (rule prod.exhaust)
    show ?case
    proof (rule tripleI)
      fix s assume P: "P s"
      show "case connect_networks eng from_Id i (net # nets) s of (Inl e, t) \<Rightarrow> P t | (Inr x, t) \<Rightarrow> P t"
        using P Cons.IH assms unfolding net
        by (cases "network_aliases from_Id es") (simp_all add: triple_def reject_def send_def Let_def)
    qed
  qed
  then show ?thesis by (simp add: connectToExtraNetworks_def)
qed

lemma triple_remove_old:
  "triple (\<lambda>s. quiet (s_oldContainer s) (s_log s) \<and> replaced (s_log s)) (removeOldContainer eng)
     (\<lambda>_ s. safe_log (s_oldContainer s) (s_log s)) (\<lambda>_ s. safe_log (s_oldContainer s) (s_log s))"
proof (rule tripleI)
  fix s :: session assume P: "quiet (s_oldContainer s) (s_log s) \<and> replaced (s_log s)"
  then have "safe_log (s_oldContainer s) (s_log s)" and "safe_log (s_oldContainer s) (s_log s @ [x])" for x
    by (auto intro!: safe_log_append intro: quiet_safe)
  then show "case removeOldContainer eng s of (Inl e, t) \<Rightarrow> safe_log (s_oldContainer t) (s_log t)
      | (Inr x, t) \<Rightarrow> safe_log (s_oldContainer t) (s_log t)"
    by (cases "s_oldContainer s"; cases "eng_send eng (s_log s) (RemoveContainer (ec_Id (the (s_oldContainer s))))")
       (simp_all add: removeOldContainer_def remove_container_def step_then_def step_catch_def send_def resolve_def
         reject_def notify_def split: option.split)
qed

lemma triple_success:
  assumes "\<And>s n. P s \<Longrightarrow> Q (s\<lparr>s_notes := n, s_left := True\<rparr>)"
  shows "triple P onSuccess (\<lambda>_. Q) E"
  using assms by (simp add: triple_def onSuccess_def step_then_def notify_def)

lemma creation_safe:
  "triple (\<lambda>s. quiet (s_oldContainer s) (s_log s)) (creation_steps splitargs eng sub)
     (\<lambda>_ s. safe_log (s_oldContainer s) (s_log s)) (\<lambda>_ s. safe_log (s_oldContainer s) (s_log s))"
proof -
  let ?Q = "\<lambda>_ s. quiet (s_oldContainer s) (s_log s)"
  let ?S = "\<lambda>_ s. safe_log (s_oldContainer s) (s_log s)"
  let ?R = "\<lambda>_ s. quiet (s_oldContainer s) (s_log s) \<and> replaced (s_log s)"
  have pull: "triple (?Q ()) (pullImageIfNeeded eng sub) ?Q ?S"
    by (rule triple_weaken [OF quiet.pull_keeps [unfolded keeps_def]]) (auto intro: quiet_safe)
  have stop: "triple (?Q ()) (stopAndRenameContainer eng) ?Q ?S"
    by (rule triple_weaken [OF quiet.stop_rename_keeps [unfolded keeps_def]]) (auto intro: quiet_safe)
  have connect: "triple (?R ()) (connectToExtraNetworks eng sub i) ?R ?S" for i
    by (rule triple_weaken [OF triple_connect [of "?R ()"]])
       (auto simp: quiet_def replaced_append intro: quiet_safe [unfolded quiet_def])
  have success: "triple (?S ()) onSuccess ?S ?S" by (rule triple_success) simp
  show ?thesis unfolding creation_steps_def
    by (rule triple_then [OF pull triple_then [OF stop triple_then [OF triple_create_new
          triple_then [OF triple_apply triple_then [OF connect triple_then [OF triple_remove_old success]]]]]])
qed

text \<open>
  C3. A container that is replaced is removed last: when its removal is sent, the new container has been
  created and started and its resource control has been applied, whatever the engine answers. The way back
  after a failure never removes it.
\<close>

theorem old_container_removed_last:
  assumes "s_oldContainer (create splitargs eng sub) = Some old"
    and "s_log (create splitargs eng sub) = before @ Sent (RemoveContainer (ec_Id old)) r # after"
  shows "\<exists>new name config rq m m'. Creation name config (Inr new) \<in> set before \<and>
    Sent (StartContainer (new_Id new)) (Inr m) \<in> set before \<and> Sent (ApplyControl rq) (Inr m') \<in> set before"
proof -
  have "safe_log (s_oldContainer (create splitargs eng sub)) (s_log (create splitargs eng sub))"
  proof (cases "goes_on eng sub")
    case False
    then show ?thesis by (auto simp: create_stops_early safe_log_def Cons_eq_append_conv)
  next
    case True
    from creation_safe have "triple (\<lambda>s. quiet (s_oldContainer s) (s_log s))
        (step_catch (creation_steps splitargs eng sub) (onCreationProcessFail eng sub))
        (\<lambda>_ s. safe_log (s_oldContainer s) (s_log s)) (\<lambda>_ s. safe_log (s_oldContainer s) (s_log s))"
      by (rule triple_catch) (rule safe.fail_keeps [unfolded keeps_def])
    from create_started [OF True _ this] show ?thesis by (simp add: quiet_def Let_def)
  qed
  then have "replaced before" using assms by (auto simp: safe_log_def)
  then show ?thesis by (auto simp: replaced_def made_def)
qed

section \<open>The way back\<close>

text \<open>A property that every request keeps holds at the end of the steps, and of the way back.\<close>

locale request_invariant = log_invariant +
  assumes created: "ok old l \<Longrightarrow> ok old (l @ [Creation n q r])"
    and sent: "ok old l \<Longrightarrow> ok old (l @ [Sent act a])"
begin

lemma create_new_keeps: "keeps ok (createNewContainer splitargs eng sub)"
proof -
  have "keeps ok (post_container eng n q)" for n q
    unfolding keeps_def by (rule triple_post) (simp_all add: created)
  then show ?thesis
    by (simp add: createNewContainer_def createAndStartContainer_def createContainer_def startContainer_def
        keeps_rules keeps_send sent split: sum.split)
qed

lemma apply_keeps: "keeps ok (apply_control eng sub new)"
  by (simp add: apply_control_def keeps_rules keeps_send sent split: option.split)

lemma connect_keeps: "keeps ok (connectToExtraNetworks eng sub i)"
  unfolding keeps_def by (rule triple_connect) (simp add: sent)

lemma remove_keeps: "keeps ok (remove_container eng i)"
  by (auto simp: remove_container_def sent split: option.split intro!: keeps_rules keeps_send)

lemma remove_old_keeps: "keeps ok (removeOldContainer eng)"
proof -
  let ?f = "\<lambda>old. case old of None \<Rightarrow> resolve () | Some c \<Rightarrow> step_catch
    (step_then (remove_container eng (ec_Id c)) (\<lambda>_. notify (NotifySuccess ''Container Removed'' (ec_Id c))))
    (\<lambda>e. reject (WithMsg ''Unable to remove container'' e))"
  have eq: "removeOldContainer eng = (\<lambda>s. ?f (s_oldContainer s) s)"
    by (rule ext) (simp add: removeOldContainer_def split: option.split)
  have "keeps ok (?f old)" for old
    by (simp add: keeps_rules remove_keeps split: option.split)
  then show ?thesis unfolding eq by (rule keeps_old)
qed

lemma creation_leaves:
  "triple (\<lambda>s. ok (s_oldContainer s) (s_log s)) (creation_steps splitargs eng sub)
     (\<lambda>_. s_left) (\<lambda>_ s. ok (s_oldContainer s) (s_log s))"
proof -
  have "triple (\<lambda>s. ok (s_oldContainer s) (s_log s)) onSuccess (\<lambda>_. s_left) (\<lambda>_ s. ok (s_oldContainer s) (s_log s))"
    by (rule triple_success) simp
  then show ?thesis unfolding creation_steps_def
    by (rule triple_then [OF pull_keeps [unfolded keeps_def] triple_then [OF stop_rename_keeps [unfolded keeps_def]
        triple_then [OF create_new_keeps [unfolded keeps_def] triple_then [OF apply_keeps [unfolded keeps_def]
        triple_then [OF connect_keeps [unfolded keeps_def] triple_then [OF remove_old_keeps [unfolded keeps_def]]]]]]])
qed

end

interpretation same_old: request_invariant "\<lambda>old l. old = Some c" for c
  by unfold_locales

lemma find_never_rejects:
  assumes "triple P (findCurrentContainer eng n) Q E"
  shows "triple P (findCurrentContainer eng n) Q E'"
proof (rule tripleI)
  fix s assume "P s"
  from tripleD [OF assms this]
  show "case findCurrentContainer eng n s of (Inl e, t) \<Rightarrow> E' e t | (Inr x, t) \<Rightarrow> Q x t"
    by (cases "eng_query eng (s_log s) (name_filter n)")
       (simp_all add: findCurrentContainer_def step_catch_def step_then_def query_def notify_def resolve_def)
qed

definition removal_failed :: "string + string option \<Rightarrow> bool" where
  "removal_failed r \<longleftrightarrow> (case r of Inl e \<Rightarrow> True | Inr None \<Rightarrow> False | Inr (Some m) \<Rightarrow> m \<noteq> [])"

definition undone :: "engine_container \<Rightarrow> string \<Rightarrow> exchange list \<Rightarrow> bool" where
  "undone c n l \<longleftrightarrow> (\<exists>before r. l = before @ [Sent (RenameContainer (ec_Id c) n) r]) \<or>
     (\<exists>before i r. l = before @ [Sent (RemoveContainer i) r] \<and> i \<noteq> ec_Id c \<and> removal_failed r)"

lemma triple_fail:
  assumes "ec_Names c = n # ns"
  shows "triple (\<lambda>s. s_oldContainer s = Some c) (onCreationProcessFail eng sub e)
    (\<lambda>_ s. undone c (drop 1 n) (s_log s)) (\<lambda>_ s. undone c (drop 1 n) (s_log s))"
proof -
  have new: "triple (\<lambda>s. s_oldContainer s = Some c) (removeNewContainer eng sub)
      (\<lambda>_ s. s_oldContainer s = Some c) (\<lambda>_ s. undone c (drop 1 n) (s_log s))"
    unfolding removeNewContainer_def
  proof (rule triple_then [OF find_never_rejects [OF same_old.find_keeps [unfolded keeps_def, of c]]])
    fix found
    show "triple (\<lambda>s. s_oldContainer s = Some c) (\<lambda>s. case found of None \<Rightarrow> resolve () s
        | Some c' \<Rightarrow> if case s_oldContainer s of None \<Rightarrow> True | Some old \<Rightarrow> ec_Id c' \<noteq> ec_Id old
                   then remove_container eng (ec_Id c') s else resolve () s)
        (\<lambda>_ s. s_oldContainer s = Some c) (\<lambda>_ s. undone c (drop 1 n) (s_log s))"
    proof (cases found)
      case None
      then show ?thesis by (simp add: triple_def resolve_def)
    next
      case (Some c')
      have rem: "case remove_container eng (ec_Id c') s of (Inl e, t) \<Rightarrow> undone c (drop 1 n) (s_log t)
          | (Inr x, t) \<Rightarrow> s_oldContainer t = Some c"
        if "s_oldContainer s = Some c" and "ec_Id c' \<noteq> ec_Id c" for s
        using that by (cases "eng_send eng (s_log s) (RemoveContainer (ec_Id c'))")
          (auto simp: remove_container_def step_then_def step_catch_def send_def resolve_def reject_def undone_def
             removal_failed_def split: option.split)
      show ?thesis unfolding triple_def Some option.case
      proof (intro allI impI)
        fix s :: session assume "s_oldContainer s = Some c"
        then show "case (if case s_oldContainer s of None \<Rightarrow> True | Some old \<Rightarrow> ec_Id c' \<noteq> ec_Id old
            then remove_container eng (ec_Id c') s else resolve () s) of
              (Inl e, t) \<Rightarrow> undone c (drop 1 n) (s_log t) | (Inr x, t) \<Rightarrow> s_oldContainer t = Some c"
          using rem [of s] by (cases "ec_Id c' = ec_Id c") (simp_all add: resolve_def)
      qed
    qed
  qed
  have name: "triple (\<lambda>s. s_oldContainer s = Some c) (restoreOldContainerName eng)
      (\<lambda>_ s. undone c (drop 1 n) (s_log s)) (\<lambda>_ s. undone c (drop 1 n) (s_log s))"
    by (auto simp: triple_def assms restoreOldContainerName_def old_name_def then_resolve renameContainer_def send_def
          step_then_def resolve_def undone_def Let_def split: sum.split prod.split)
  show ?thesis unfolding onCreationProcessFail_def
    by (rule triple_then [OF new triple_then [OF name triple_reject]])
qed

text \<open>
  C4. When the creation of a replacement fails, whatever failed and whatever the engine answers, the last request
  gives the old container its name back, except where the new container was there and could not be removed.
\<close>

theorem failed_creation_restores_name:
  assumes "goes_on eng sub" and "found_first eng sub = Some old" and "ec_Names old = name # names"
    and "\<not> s_left (create splitargs eng sub)"
  shows "\<exists>before r. s_log (create splitargs eng sub) = before @ [Sent (RenameContainer (ec_Id old) (drop 1 name)) r] \<or>
    (\<exists>i. s_log (create splitargs eng sub) = before @ [Sent (RemoveContainer i) r] \<and> i \<noteq> ec_Id old \<and> removal_failed r)"
proof -
  have "triple (\<lambda>s. s_oldContainer s = Some old)
      (step_catch (creation_steps splitargs eng sub) (onCreationProcessFail eng sub))
      (\<lambda>_ s. s_left s \<or> undone old (drop 1 name) (s_log s)) (\<lambda>_ s. s_left s \<or> undone old (drop 1 name) (s_log s))"
    by (rule triple_catch [OF triple_weaken [OF same_old.creation_leaves [of old]] triple_weaken [OF triple_fail]])
       (use assms(3) in auto)
  from create_started [where R = "\<lambda>_ l left. left \<or> undone old (drop 1 name) l", OF assms(1) _ this]
  have "undone old (drop 1 name) (s_log (create splitargs eng sub))"
    using assms(2,4) by (simp add: Let_def)
  then show ?thesis unfolding undone_def by blast
qed

section \<open>A form that cannot be sent\<close>

definition unmade :: "exchange list \<Rightarrow> bool" where
  "unmade l \<longleftrightarrow> (\<forall>x \<in> set l. case x of Creation n q r \<Rightarrow> False | Sent (StartContainer i) r \<Rightarrow> False | _ \<Rightarrow> True)"

definition halted :: "engine_container \<Rightarrow> exchange list \<Rightarrow> bool" where
  "halted c l \<longleftrightarrow> unmade l \<and> (\<exists>r. Sent (StopContainer (ec_Id c)) r \<in> set l)"

lemma unmade_append [simp]: "unmade (l @ l') \<longleftrightarrow> unmade l \<and> unmade l'"
  by (auto simp: unmade_def)

lemma unmade_simps [simp]:
  "unmade []" "unmade [Queried f a]" "unmade [Sent (PullImage p) r]" "unmade [Sent (StopContainer i) r]"
  "unmade [Sent (RenameContainer i n) r]" "unmade [Sent (RemoveContainer i) r]"
  by (simp_all add: unmade_def)

lemma halted_append: "halted c l \<Longrightarrow> unmade l' \<Longrightarrow> halted c (l @ l')"
  by (auto simp: halted_def)

interpretation unmade: log_invariant "\<lambda>old l. old = Some c \<and> unmade l" for c
  by unfold_locales simp_all

interpretation halted: log_invariant "\<lambda>old l. halted c l" for c
  by unfold_locales (simp_all add: halted_append)

lemma stop_halts:
  assumes "ec_State c = ''running''"
  shows "triple (\<lambda>s. s_oldContainer s = Some c \<and> unmade (s_log s)) (stopAndRenameContainer eng)
    (\<lambda>_ s. halted c (s_log s)) (\<lambda>_ s. halted c (s_log s))"
proof -
  have stop: "triple (\<lambda>s. s_oldContainer s = Some c \<and> unmade (s_log s)) (stopContainerIfNeeded eng c)
      (\<lambda>_ s. halted c (s_log s)) (\<lambda>_ s. halted c (s_log s))"
    unfolding stopContainerIfNeeded_def stopContainer_def
    by (simp add: assms, rule triple_then [OF triple_send triple_resolve]) (auto simp: halted_def)
  have rest: "triple (\<lambda>s. halted c (s_log s))
      (step_then (old_name c) (\<lambda>n. renameContainer eng (ec_Id c) (n @ ''-old'')))
      (\<lambda>_ s. halted c (s_log s)) (\<lambda>_ s. halted c (s_log s))"
    using halted.rename_keeps [of c] unfolding keeps_def [symmetric, of "\<lambda>_. halted c"] by (intro keeps_rules)
  show ?thesis using triple_then [OF stop rest]
    by (simp add: triple_def stopAndRenameContainer_def)
qed

text \<open>
  A form that cannot be turned into a configuration stops the container it was to replace: the ports are only
  read after the old container has been stopped and renamed. Nothing is created, and nothing is started again.
\<close>

theorem invalid_form_stops_container:
  assumes "goes_on eng sub" and "found_first eng sub = Some old" and "ec_State old = ''running''"
    and "prepareConfiguration splitargs (sub_from_Id sub) (sub_form sub) = Inl e"
  shows "(\<exists>r. Sent (StopContainer (ec_Id old)) r \<in> set (s_log (create splitargs eng sub))) \<and>
    (\<forall>i r. Sent (StartContainer i) r \<notin> set (s_log (create splitargs eng sub))) \<and>
    (\<forall>n q r. Creation n q r \<notin> set (s_log (create splitargs eng sub)))"
proof -
  let ?H = "\<lambda>_ s. halted old (s_log s)"
  have "createNewContainer splitargs eng sub = reject (Script e)" using assms(4) by (simp add: createNewContainer_def)
  then have new: "triple (?H ()) (createNewContainer splitargs eng sub) (\<lambda>_ _. False) ?H"
    by (simp add: triple_reject)
  have none: "triple (\<lambda>_. False) m Q E" for m :: "'x step" and Q E by (simp add: triple_def)
  have pull: "triple (\<lambda>s. s_oldContainer s = Some old \<and> unmade (s_log s)) (pullImageIfNeeded eng sub)
      (\<lambda>_ s. s_oldContainer s = Some old \<and> unmade (s_log s)) ?H"
    by (simp add: pullImageIfNeeded_def pullImageAndIgnoreErrors_def, intro conjI impI)
       ((rule triple_catch [OF triple_then [OF triple_send triple_resolve] triple_resolve]; simp), rule triple_resolve)
  have "triple (\<lambda>s. s_oldContainer s = Some old \<and> unmade (s_log s))
      (step_catch (creation_steps splitargs eng sub) (onCreationProcessFail eng sub)) ?H ?H"
    unfolding creation_steps_def
    by (rule triple_catch [OF triple_then [OF pull triple_then [OF stop_halts [OF assms(3)] triple_then [OF new none]]]
          halted.fail_keeps [unfolded keeps_def]])
  from create_started [where R = "\<lambda>_ l _. halted old l", OF assms(1) _ this]
  have "halted old (s_log (create splitargs eng sub))" using assms(2) by (simp add: Let_def)
  then show ?thesis by (auto simp: halted_def unmade_def)
qed

section \<open>The order of the requests\<close>

text \<open>What is sent, without the answers.\<close>

datatype request = AskName string | Create string container_request | Do action

fun request_of :: "exchange \<Rightarrow> request" where
  "request_of (Queried f r) = AskName f"
| "request_of (Creation n q r) = Create n q"
| "request_of (Sent a r) = Do a"

fun is_connect :: "action \<Rightarrow> bool" where
  "is_connect (ConnectNetwork n i as) = True"
| "is_connect _ = False"

definition aliases_without :: "string \<Rightarrow> endpoint_settings \<Rightarrow> string list option" where
  "aliases_without from_Id es = map_option (filter (\<lambda>a. \<not> starts_with from_Id a)) (nes_Aliases es)"

definition connections :: "submission \<Rightarrow> string \<Rightarrow> string \<Rightarrow> request list" where
  "connections sub from_Id i = map (\<lambda>(n, es). Do (ConnectNetwork n i (aliases_without from_Id es)))
     (obj_entries (nf_extraNetworks (f_Network (sub_form sub))))"

lemma connect_networks_requests:
  "\<exists>l. connect_networks eng (Some j) i nets s = (Inr (), s\<lparr>s_log := s_log s @ l\<rparr>) \<and>
     map request_of l = map (\<lambda>(n, es). Do (ConnectNetwork n i (aliases_without j es))) nets"
proof (induction nets arbitrary: s)
  case Nil
  show ?case by (simp add: resolve_def)
next
  case (Cons net nets)
  obtain n es where net: "net = (n, es)" by (rule prod.exhaust)
  let ?a = "ConnectNetwork n i (aliases_without j es)"
  let ?x = "Sent ?a (eng_send eng (s_log s) ?a)"
  have as: "network_aliases (Some j) es = Inr (aliases_without j es)"
    by (simp add: network_aliases_def aliases_without_def split: option.split)
  obtain l where "connect_networks eng (Some j) i nets (s\<lparr>s_log := s_log s @ [?x]\<rparr>) =
      (Inr (), s\<lparr>s_log := s_log s @ ?x # l\<rparr>)"
    and "map request_of l = map (\<lambda>(n, es). Do (ConnectNetwork n i (aliases_without j es))) nets"
    using Cons.IH [of "s\<lparr>s_log := s_log s @ [?x]\<rparr>"] by auto
  then show ?case
    by (intro exI [of _ "?x # l"]) (simp add: net as send_def Let_def)
qed

lemma replacement_log:
  assumes "goes_on eng sub" and "found_first eng sub = Some old" and "ec_Names old = name # names"
    and "prepareConfiguration splitargs (sub_from_Id sub) (sub_form sub) = Inr config"
    and "sub_from_Id sub = Some from_Id"
    and "\<And>l. eng_create eng l (sub_name sub) config = Inr new" and "new_Control new = Some rc"
    and "\<forall>l a. \<not> is_connect a \<longrightarrow> eng_send eng l a = Inr None"
  shows "\<exists>l. s_log (create splitargs eng sub) = Queried (name_filter (sub_name sub)) (first_answer eng sub) #
      (if f_alwaysPull (sub_form sub)
       then [Sent (PullImage (createImageConfigForContainer (f_RegistryModel (sub_form sub)))) (Inr None)] else []) @
      (if ec_State old = ''running'' then [Sent (StopContainer (ec_Id old)) (Inr None)] else []) @
      [Sent (RenameContainer (ec_Id old) (drop 1 name @ ''-old'')) (Inr None),
       Creation (sub_name sub) config (Inr new), Sent (StartContainer (new_Id new)) (Inr None),
       Sent (ApplyControl (applyResourceControl (sub_userId sub) (sub_access sub) rc [])) (Inr None)] @ l @
      [Sent (RemoveContainer (ec_Id old)) (Inr None)] \<and>
    map request_of l = connections sub from_Id (new_Id new) \<and>
    s_oldContainer (create splitargs eng sub) = Some old \<and> s_left (create splitargs eng sub) \<and>
    s_notes (create splitargs eng sub) =
      [NotifySuccess ''Container Removed'' (ec_Id old), NotifySuccess ''Container successfully created'' []]"
proof -
  let ?c = "create splitargs eng sub"
  let ?s = "(first_session eng sub)\<lparr>s_formValidationError := [], s_actionInProgress := True\<rparr>"
  have pull: "pullImageIfNeeded eng sub s = (Inr (), s\<lparr>s_log := s_log s @ (if f_alwaysPull (sub_form sub)
      then [Sent (PullImage (createImageConfigForContainer (f_RegistryModel (sub_form sub)))) (Inr None)] else [])\<rparr>)" for s
    by (simp add: pullImageIfNeeded_def pullImageAndIgnoreErrors_def step_catch_def step_then_def send_def resolve_def assms(8))
  have stop: "stopAndRenameContainer eng s = (Inr (), s\<lparr>s_log := s_log s @
      (if ec_State old = ''running'' then [Sent (StopContainer (ec_Id old)) (Inr None)] else []) @
      [Sent (RenameContainer (ec_Id old) (drop 1 name @ ''-old'')) (Inr None)]\<rparr>)" if "s_oldContainer s = Some old" for s
    using that assms(3) by (simp add: stopAndRenameContainer_def stopContainerIfNeeded_def stopContainer_def
        renameContainer_def old_name_def step_then_def send_def resolve_def assms(8))
  have new: "createNewContainer splitargs eng sub s = (Inr new, s\<lparr>s_log := s_log s @
      [Creation (sub_name sub) config (Inr new), Sent (StartContainer (new_Id new)) (Inr None)]\<rparr>)" for s
    by (simp add: createNewContainer_def assms(4) createAndStartContainer_def createContainer_def startContainer_def
        step_then_def step_catch_def post_container_def send_def resolve_def assms(6,8))
  have access: "apply_control eng sub new s = (Inr (new_Id new), s\<lparr>s_log := s_log s @
      [Sent (ApplyControl (applyResourceControl (sub_userId sub) (sub_access sub) rc [])) (Inr None)]\<rparr>)" for s
    by (simp add: apply_control_def assms(7,8) step_then_def send_def resolve_def)
  have remove: "removeOldContainer eng s = (Inr (), s\<lparr>s_log := s_log s @ [Sent (RemoveContainer (ec_Id old)) (Inr None)],
      s_notes := s_notes s @ [NotifySuccess ''Container Removed'' (ec_Id old)]\<rparr>)" if "s_oldContainer s = Some old" for s
    using that by (simp add: removeOldContainer_def remove_container_def step_then_def step_catch_def send_def
        resolve_def notify_def assms(8))
  let ?t = "\<lambda>l. ?s\<lparr>s_log := s_log ?s @ l\<rparr>"
  let ?before = "(if f_alwaysPull (sub_form sub)
      then [Sent (PullImage (createImageConfigForContainer (f_RegistryModel (sub_form sub)))) (Inr None)] else []) @
      (if ec_State old = ''running'' then [Sent (StopContainer (ec_Id old)) (Inr None)] else []) @
      [Sent (RenameContainer (ec_Id old) (drop 1 name @ ''-old'')) (Inr None),
       Creation (sub_name sub) config (Inr new), Sent (StartContainer (new_Id new)) (Inr None),
       Sent (ApplyControl (applyResourceControl (sub_userId sub) (sub_access sub) rc [])) (Inr None)]"
  obtain l where l: "connectToExtraNetworks eng sub (new_Id new) (?t ?before) = (Inr (), ?t (?before @ l))"
    "map request_of l = connections sub from_Id (new_Id new)"
    using connect_networks_requests [of eng from_Id "new_Id new" _ "?t ?before"]
    unfolding connectToExtraNetworks_def connections_def assms(5) by fastforce
  have "creation_steps splitargs eng sub ?s = (Inr (), (?t (?before @ l @ [Sent (RemoveContainer (ec_Id old)) (Inr None)]))
      \<lparr>s_notes := s_notes ?s @ [NotifySuccess ''Container Removed'' (ec_Id old),
         NotifySuccess ''Container successfully created'' []], s_left := True\<rparr>)"
    using l(1) assms(2)
    by (simp add: creation_steps_def step_then_def pull stop new access remove onSuccess_def notify_def)
  moreover have "startCreationProcess splitargs eng sub (found_first eng sub = None \<or> sub_confirmed sub)
      (first_session eng sub) = step_catch (creation_steps splitargs eng sub) (onCreationProcessFail eng sub) ?s"
    using assms(1) by (simp only: goes_on_def start_accepted simp_thms)
  ultimately show ?thesis
    using assms(2) l(2) by (intro exI [of _ l])
      (simp add: create_from_first step_catch_def first_session_def fresh_def found_first_def split: sum.splits)
qed

text \<open>
  When the engine does what it is asked, a container is replaced in this order: the name is queried, the image
  is pulled where the form says so, the old container is stopped if it runs and renamed, the new one is created
  and started, its access is set, it is connected to the other networks, and the old one is removed. The answers
  to the connections do not matter: a network that refuses the container is not noticed, and the creation is
  reported as a success.
\<close>

theorem replacement_order:
  assumes "goes_on eng sub" and "found_first eng sub = Some old" and "ec_Names old = name # names"
    and "prepareConfiguration splitargs (sub_from_Id sub) (sub_form sub) = Inr config"
    and "sub_from_Id sub = Some from_Id"
    and "\<And>l. eng_create eng l (sub_name sub) config = Inr new" and "new_Control new = Some rc"
    and "\<forall>l a. \<not> is_connect a \<longrightarrow> eng_send eng l a = Inr None"
  shows "map request_of (s_log (create splitargs eng sub)) =
      [AskName (name_filter (sub_name sub))] @
      (if f_alwaysPull (sub_form sub)
       then [Do (PullImage (createImageConfigForContainer (f_RegistryModel (sub_form sub))))] else []) @
      (if ec_State old = ''running'' then [Do (StopContainer (ec_Id old))] else []) @
      [Do (RenameContainer (ec_Id old) (drop 1 name @ ''-old'')), Create (sub_name sub) config,
       Do (StartContainer (new_Id new)),
       Do (ApplyControl (applyResourceControl (sub_userId sub) (sub_access sub) rc []))] @
      connections sub from_Id (new_Id new) @ [Do (RemoveContainer (ec_Id old))] \<and>
    s_left (create splitargs eng sub) \<and>
    s_notes (create splitargs eng sub) =
      [NotifySuccess ''Container Removed'' (ec_Id old), NotifySuccess ''Container successfully created'' []]"
proof -
  note log = replacement_log [OF assms]
  obtain l where l: "map request_of l = connections sub from_Id (new_Id new)" and
    "s_log (create splitargs eng sub) = Queried (name_filter (sub_name sub)) (first_answer eng sub) #
      (if f_alwaysPull (sub_form sub)
       then [Sent (PullImage (createImageConfigForContainer (f_RegistryModel (sub_form sub)))) (Inr None)] else []) @
      (if ec_State old = ''running'' then [Sent (StopContainer (ec_Id old)) (Inr None)] else []) @
      [Sent (RenameContainer (ec_Id old) (drop 1 name @ ''-old'')) (Inr None),
       Creation (sub_name sub) config (Inr new), Sent (StartContainer (new_Id new)) (Inr None),
       Sent (ApplyControl (applyResourceControl (sub_userId sub) (sub_access sub) rc [])) (Inr None)] @ l @
      [Sent (RemoveContainer (ec_Id old)) (Inr None)]"
    using log by (elim exE conjE) (rule that)
  then show ?thesis using log by (simp add: l)
qed

section \<open>A query that fails\<close>

lemma remove_container_log:
  "\<exists>r a. remove_container eng i s = (r, s\<lparr>s_log := s_log s @ [Sent (RemoveContainer i) a]\<rparr>)"
proof (cases "eng_send eng (s_log s) (RemoveContainer i)")
  case (Inr m)
  then show ?thesis
    by (cases m) (auto simp: remove_container_def step_then_def step_catch_def send_def resolve_def reject_def)
qed (auto simp: remove_container_def step_then_def step_catch_def send_def reject_def)

text \<open>
  A query that fails is taken for the answer that no container has the name. The creation then fails, since the
  name is in use, and the way back removes the container that was there all along, without a question to the user.
\<close>

theorem failed_query_removes_container:
  assumes "found_first eng sub = None" and "validateAccessControl (sub_access sub) (sub_isAdmin sub) = []"
    and "prepareConfiguration splitargs (sub_from_Id sub) (sub_form sub) = Inr config"
    and "\<And>l. eng_create eng l (sub_name sub) config = Inl conflict"
    and "\<And>l. l \<noteq> [] \<Longrightarrow> eng_query eng l (name_filter (sub_name sub)) = Inr (there # others)"
  shows "(\<exists>r. Sent (RemoveContainer (ec_Id there)) r \<in> set (s_log (create splitargs eng sub))) \<and>
    (\<forall>n q new. Creation n q (Inr new) \<notin> set (s_log (create splitargs eng sub)))"
proof -
  let ?s = "(first_session eng sub)\<lparr>s_formValidationError := [], s_actionInProgress := True\<rparr>"
  let ?pulled = "\<lambda>s r. s\<lparr>s_log := s_log s @ (if f_alwaysPull (sub_form sub)
      then [Sent (PullImage (createImageConfigForContainer (f_RegistryModel (sub_form sub)))) r] else [])\<rparr>"
  define t where "t = ?pulled ?s (eng_send eng (s_log ?s) (PullImage (createImageConfigForContainer (f_RegistryModel (sub_form sub)))))"
  have pull: "pullImageIfNeeded eng sub ?s = (Inr (), t)"
    by (cases "eng_send eng (s_log ?s) (PullImage (createImageConfigForContainer (f_RegistryModel (sub_form sub))))")
       (simp_all add: pullImageIfNeeded_def pullImageAndIgnoreErrors_def step_catch_def step_then_def send_def resolve_def t_def)
  have t: "s_oldContainer t = None" "\<forall>n q new. Creation n q (Inr new) \<notin> set (s_log t)"
    using assms(1) by (simp_all add: t_def)
  let ?e = "WithMsg ''Unable to create container'' (EngineError conflict)"
  let ?u = "t\<lparr>s_log := s_log t @ [Creation (sub_name sub) config (Inl conflict)]\<rparr>"
  have "creation_steps splitargs eng sub ?s = (Inl ?e, ?u)"
    by (simp add: creation_steps_def step_then_def pull stopAndRenameContainer_def t(1) resolve_def createNewContainer_def
        assms(3,4) createAndStartContainer_def createContainer_def step_catch_def post_container_def reject_def)
  moreover obtain r l where rl: "remove_container eng (ec_Id there)
      (?u\<lparr>s_log := s_log ?u @ [Queried (name_filter (sub_name sub)) (Inr (there # others))]\<rparr>) =
      (r, ?u\<lparr>s_log := s_log ?u @ [Queried (name_filter (sub_name sub)) (Inr (there # others)),
        Sent (RemoveContainer (ec_Id there)) l]\<rparr>)"
    using remove_container_log [of eng "ec_Id there"
      "?u\<lparr>s_log := s_log ?u @ [Queried (name_filter (sub_name sub)) (Inr (there # others))]\<rparr>"] by auto
  have "\<exists>e. onCreationProcessFail eng sub ?e ?u = (Inl e, ?u\<lparr>s_log := s_log ?u @
      [Queried (name_filter (sub_name sub)) (Inr (there # others)), Sent (RemoveContainer (ec_Id there)) l]\<rparr>)"
    using rl by (cases r) (simp_all add: onCreationProcessFail_def removeNewContainer_def findCurrentContainer_def query_def
        step_then_def step_catch_def resolve_def assms(5) t(1) restoreOldContainerName_def reject_def)
  moreover have "startCreationProcess splitargs eng sub (found_first eng sub = None \<or> sub_confirmed sub)
      (first_session eng sub) = step_catch (creation_steps splitargs eng sub) (onCreationProcessFail eng sub) ?s"
    using assms(1,2) by (simp only: start_accepted simp_thms)
  ultimately have "s_log (create splitargs eng sub) = s_log ?u @
      [Queried (name_filter (sub_name sub)) (Inr (there # others)), Sent (RemoveContainer (ec_Id there)) l]"
    by (auto simp: create_from_first step_catch_def notify_def)
  then show ?thesis using t(2) by auto
qed

section \<open>Examples\<close>

text \<open>
  A running container \<open>web\<close>, and an engine that does what it is asked, one that creates nothing, and one whose
  first answer fails and that then refuses the name that is in use.
\<close>

definition web :: engine_container where
  "web = \<lparr>ec_Id = ''1'', ec_Names = [''/web''], ec_State = ''running''\<rparr>"

definition web_control :: rc_data where
  "web_control = \<lparr>rc_Id = 7, rc_Type = 1, rc_ResourceId = ''2'', rc_UserAccesses = [],
     rc_TeamAccesses = [], rc_Public = False, rc_System = False\<rparr>"

definition new_web :: new_container where
  "new_web = \<lparr>new_Id = ''2'', new_Control = Some web_control\<rparr>"

definition working_engine :: engine where
  "working_engine = \<lparr>eng_query = \<lambda>_ _. Inr [web], eng_create = \<lambda>_ _ _. Inr new_web, eng_send = \<lambda>_ _. Inr None\<rparr>"

definition full_engine :: engine where
  "full_engine = working_engine\<lparr>eng_create := \<lambda>_ _ _. Inl ''no space left''\<rparr>"

definition shaky_engine :: engine where
  "shaky_engine = \<lparr>eng_query = \<lambda>l _. if l = [] then Inl ''timeout'' else Inr [web],
     eng_create = \<lambda>_ _ _. Inl ''name in use'', eng_send = \<lambda>_ _. Inr None\<rparr>"

definition nginx :: image_model where
  "nginx = \<lparr>im_UseRegistry = False, im_Registry = \<lparr>reg_Type = ANONYMOUS, reg_URL = [],
     reg_Username = [], reg_ProjectPath = [], reg_UseOrganisation = False, reg_OrganisationName = []\<rparr>, im_Image = ''nginx''\<rparr>"

definition submit :: "container_form \<Rightarrow> bool \<Rightarrow> submission" where
  "submit form confirmed = \<lparr>sub_name = ''web'', sub_form = form, sub_from_Id = Some [],
     sub_access = AccessControlFormData, sub_isAdmin = True, sub_userId = 1, sub_confirmed = confirmed\<rparr>"

definition web_form :: container_form where
  "web_form = initial_form nginx []"

definition broken_form :: container_form where
  "broken_form = web_form\<lparr>f_PortBindings := [\<lparr>row_hostPort = Some (range_text 8000 8001),
     row_containerPort = PortText (range_text 80 85), row_protocol = ''tcp''\<rparr>]\<rparr>"

lemmas example_defs = web_def new_web_def working_engine_def full_engine_def shaky_engine_def submit_def
  AccessControlFormData_def

lemmas creation_eval = create_def findCurrentContainer_def query_def step_then_def step_catch_def resolve_def
  reject_def notify_def setOldContainer_def confirmCreateContainer_def startCreationProcess_def check_access_def
  creation_steps_def pullImageIfNeeded_def pullImageAndIgnoreErrors_def stopAndRenameContainer_def stopContainerIfNeeded_def stopContainer_def
  renameContainer_def old_name_def createNewContainer_def createAndStartContainer_def createContainer_def
  post_container_def startContainer_def apply_control_def connectToExtraNetworks_def removeOldContainer_def
  remove_container_def onSuccess_def onCreationProcessFail_def removeNewContainer_def restoreOldContainerName_def
  send_def Let_def

lemma web_form_valid: "\<exists>config. prepareConfiguration splitargs (Some i) web_form = Inr config"
  by (simp add: prepareConfiguration_def web_form_def initial_form_def prepareNetworkConfig_def kept_aliases_def
      network_container_name_def preparePortBindings_def Let_def)

lemma web_form_simps: "f_alwaysPull web_form" "f_RegistryModel web_form = nginx" "nf_extraNetworks (f_Network web_form) = []"
  by (simp_all add: web_form_def initial_form_def)

lemma nginx_uri: "createImageConfigForContainer nginx = ''nginx''"
  by (simp add: createImageConfigForContainer_def buildImageFullURI_def nginx_def)

lemma submit_simps:
  "sub_name (submit f c) = ''web''" "sub_form (submit f c) = f" "sub_from_Id (submit f c) = Some []"
  "sub_userId (submit f c) = 1" "sub_access (submit f c) = AccessControlFormData"
  by (simp_all add: submit_def)

lemma web_simps:
  "ec_Id web = ''1''" "ec_Names web = [''/web'']" "ec_State web = ''running''" "new_Id new_web = ''2''"
  "new_Control new_web = Some web_control"
  "eng_create working_engine l n q = Inr new_web" "eng_send working_engine l a = Inr None"
  "first_answer working_engine (submit f c) = Inr [web]" "name_filter ''web'' = ''^/web$''"
  by (simp_all add: web_def new_web_def working_engine_def first_answer_def name_filter_def)

lemma web_goes_on:
  "goes_on working_engine (submit f True)" "found_first working_engine (submit f True) = Some web"
  "goes_on full_engine (submit f True)" "found_first full_engine (submit f True) = Some web"
  "found_first shaky_engine (submit f c) = None"
  "validateAccessControl (sub_access (submit f c)) (sub_isAdmin (submit f c)) = []"
  by (simp_all add: goes_on_def found_first_def first_answer_def example_defs validateAccessControl_def)

lemma broken_form_invalid:
  "\<exists>e. prepareConfiguration splitargs (Some i) broken_form = Inl e"
  using prepare_length_mismatch [of 80 85 8000 8001 "''tcp''" "[]"]
  by (simp add: prepareConfiguration_def broken_form_def web_form_def initial_form_def prepareNetworkConfig_def
      kept_aliases_def network_container_name_def is_port_def Let_def)

theorem replacement_order_witness:
  "\<exists>config. map request_of (s_log (create (\<lambda>_. []) working_engine (submit web_form True))) =
     [AskName ''^/web$'', Do (PullImage ''nginx''), Do (StopContainer ''1''), Do (RenameContainer ''1'' ''web-old''),
      Create ''web'' config, Do (StartContainer ''2''),
      Do (ApplyControl (applyResourceControl 1 AccessControlFormData web_control [])),
      Do (RemoveContainer ''1'')]"
proof -
  obtain config where config: "prepareConfiguration (\<lambda>_. []) (Some []) web_form = Inr config"
    using web_form_valid by blast
  note order = replacement_order [where splitargs = "\<lambda>_. []" and name = "''/web''" and names = "[]" and config = config
      and from_Id = "[]" and new = new_web and rc = web_control, OF web_goes_on(1,2) [of web_form]]
  show ?thesis
    by (rule exI [of _ config], subst order [THEN conjunct1])
       (simp_all add: submit_simps config web_form_simps nginx_uri connections_def web_simps)
qed

theorem old_container_removed_last_witness:
  "\<exists>before r. s_log (create (\<lambda>_. []) working_engine (submit web_form True)) =
      before @ [Sent (RemoveContainer ''1'') r] \<and>
    (\<exists>(new :: new_container) m. Sent (StartContainer (new_Id new)) (Inr m) \<in> set before)"
proof -
  obtain config where config: "prepareConfiguration (\<lambda>_. []) (Some []) web_form = Inr config"
    using web_form_valid by blast
  let ?s = "create (\<lambda>_. []) working_engine (submit web_form True)"
  let ?before = "[Queried ''^/web$'' (Inr [web]), Sent (PullImage ''nginx'') (Inr None), Sent (StopContainer ''1'') (Inr None),
    Sent (RenameContainer ''1'' ''web-old'') (Inr None), Creation ''web'' config (Inr new_web),
    Sent (StartContainer ''2'') (Inr None),
    Sent (ApplyControl (applyResourceControl 1 AccessControlFormData web_control [])) (Inr None)]"
  note replacement_log [where splitargs = "\<lambda>_. []" and name = "''/web''" and names = "[]" and config = config
      and from_Id = "[]" and new = new_web and rc = web_control, OF web_goes_on(1,2) [of web_form]]
  then have s: "s_oldContainer ?s = Some web" "s_log ?s = ?before @ [Sent (RemoveContainer (ec_Id web)) (Inr None)]"
    by (simp_all add: submit_simps config web_form_simps nginx_uri connections_def web_simps)
  obtain new :: new_container and m where "Sent (StartContainer (new_Id new)) (Inr m) \<in> set ?before"
    using old_container_removed_last [OF s] by (elim exE conjE) (rule that)
  with s(2) show ?thesis unfolding web_simps(1) by (intro exI [of _ ?before] exI [of _ "Inr None"] conjI exI [of _ new] exI [of _ m])
qed

theorem failed_creation_restores_name_witness:
  "\<exists>before r. s_log (create (\<lambda>_. []) full_engine (submit web_form True)) =
      before @ [Sent (RenameContainer ''1'' ''web'') r] \<or>
    (\<exists>i. s_log (create (\<lambda>_. []) full_engine (submit web_form True)) = before @ [Sent (RemoveContainer i) r] \<and>
       i \<noteq> ''1'' \<and> removal_failed r)"
proof -
  obtain config where config: "prepareConfiguration (\<lambda>_. []) (Some []) web_form = Inr config"
    using web_form_valid by blast
  have "\<not> s_left (create (\<lambda>_. []) full_engine (submit web_form True))"
    by (simp add: creation_eval fresh_def config web_form_simps validateAccessControl_def example_defs)
  with failed_creation_restores_name [OF web_goes_on(3,4), of "''/web''" "[]" "\<lambda>_. []"]
  show ?thesis by (simp add: web_def)
qed

theorem invalid_form_stops_container_witness:
  "(\<exists>r. Sent (StopContainer ''1'') r \<in> set (s_log (create (\<lambda>_. []) working_engine (submit broken_form True)))) \<and>
   (\<forall>i r. Sent (StartContainer i) r \<notin> set (s_log (create (\<lambda>_. []) working_engine (submit broken_form True))))"
proof -
  obtain e where "prepareConfiguration (\<lambda>_. []) (Some []) broken_form = Inl e" using broken_form_invalid by blast
  with invalid_form_stops_container [where splitargs = "\<lambda>_. []" and e = e, OF web_goes_on(1,2) [of broken_form]]
  show ?thesis by (simp add: web_def submit_def)
qed

theorem failed_query_removes_container_witness:
  "\<exists>r. Sent (RemoveContainer ''1'') r \<in> set (s_log (create (\<lambda>_. []) shaky_engine (submit web_form False)))"
proof -
  obtain config where "prepareConfiguration (\<lambda>_. []) (Some []) web_form = Inr config"
    using web_form_valid by blast
  with failed_query_removes_container [where splitargs = "\<lambda>_. []" and config = config
      and conflict = "''name in use''" and there = web and others = "[]", OF web_goes_on(5,6) [of web_form False]]
  show ?thesis by (simp add: submit_def shaky_engine_def web_def)
qed

end
