(* ===== verification/ServiceHelper.thy ===== *)
theory ServiceHelper
  imports JsRegex JsObject
begin

text \<open>
  \<open>app/docker/helpers/serviceHelper.js\<close>: the translations between the specification of a Swarm service
  and the rows of its form (placement preferences and constraints, durations, log driver options, host
  entries), and the association of tasks to services. Every translation that has an inverse in the file is
  shown to be undone by it on what the engine sends.
\<close>

section \<open>Tasks of a service\<close>

record task =
  task_Id :: string
  task_ServiceId :: string
  task_ServiceName :: "string option"

record service_view =
  service_Id :: string
  service_Name :: string
  service_Tasks :: "task list"

text \<open>
  The helper mutates the service and the tasks; the assignment to its parameter \<open>tasks\<close> at the end is lost,
  so the caller's list keeps every task.
\<close>

definition name_task :: "service_view \<Rightarrow> task \<Rightarrow> task" where
  "name_task service t =
     (if task_ServiceId t = service_Id service then t\<lparr>task_ServiceName := Some (service_Name service)\<rparr> else t)"

definition associateTasksToService :: "service_view \<Rightarrow> task list \<Rightarrow> service_view \<times> task list" where
  "associateTasksToService service tasks =
     (let tasks' = map (name_task service) tasks
      in (service\<lparr>service_Tasks := filter (\<lambda>t. task_ServiceId t = service_Id service) tasks'\<rparr>, tasks'))"

section \<open>Placement preferences and constraints\<close>

record preference_row =
  pref_strategy :: "string option"
  pref_value :: "string option"

text \<open>A preference of the engine's API holds the descriptor of a spread, or something else.\<close>

type_synonym preference = "string option"

definition translateKeyValueToPlacementPreferences :: "preference_row list option \<Rightarrow> string list" where
  "translateKeyValueToPlacementPreferences kv = (case kv of
       None \<Rightarrow> []
     | Some rs \<Rightarrow> without_undefined (map (\<lambda>r.
         if truthy_str (pref_strategy r) \<and> truthy_str (pref_value r) \<and>
            to_lower (the (pref_strategy r)) = ''spread''
         then pref_value r else None) rs))"

definition translatePreferencesToKeyValue :: "preference list option \<Rightarrow> preference_row list" where
  "translatePreferencesToKeyValue ps = (case ps of
       None \<Rightarrow> []
     | Some xs \<Rightarrow> map (\<lambda>d. \<lparr>pref_strategy = Some ''Spread'', pref_value = Some d\<rparr>) (without_undefined xs))"

record constraint_row =
  crow_key :: string
  crow_value :: string
  crow_operator :: string
  crow_originalKey :: string
  crow_originalValue :: string

definition translateKeyValueToPlacementConstraints :: "constraint_row list option \<Rightarrow> string list" where
  "translateKeyValueToPlacementConstraints kv = (case kv of
       None \<Rightarrow> []
     | Some rs \<Rightarrow> map (\<lambda>r. crow_key r @ crow_operator r @ crow_value r)
         (filter (\<lambda>r. crow_key r \<noteq> [] \<and> crow_value r \<noteq> []) rs))"

definition getOperator :: "string \<Rightarrow> int \<times> string" where
  "getOperator c =
     (let i = js_index_of c ''=='' in if 0 \<le> i then (i, ''=='') else (js_index_of c ''!='', ''!=''))"

definition constraint_to_row :: "string \<Rightarrow> constraint_row" where
  "constraint_to_row c =
     (let (i, op) = getOperator c; key = slice_to c i; v = slice_from c (i + 2)
      in \<lparr>crow_key = key, crow_value = v, crow_operator = op, crow_originalKey = key, crow_originalValue = v\<rparr>)"

definition translateConstraintsToKeyValue :: "string list option \<Rightarrow> constraint_row list option" where
  "translateConstraintsToKeyValue cs = map_option (map constraint_to_row) cs"

section \<open>Durations\<close>

text \<open>
  \<open>/^([0-9]+)(h|m|s|ms|us|ns)$/i\<close>: the digits and the unit, as written. No unit starts with a digit, so the
  greedy repetition takes every leading digit.
\<close>

definition units :: "string list" where
  "units = [''h'', ''m'', ''s'', ''ms'', ''us'', ''ns'']"

definition match_duration :: "string \<Rightarrow> (string \<times> string) option" where
  "match_duration s =
     (let ds = takeWhile is_digit s; u = dropWhile is_digit s
      in if ds \<noteq> [] \<and> to_lower u \<in> set units then Some (ds, u) else None)"

text \<open>
  \<open>as_ms n u\<close> stands for \<open>moment.duration(n, u).asMilliseconds()\<close> of the moment package; what it returns for
  the units that the code relies on is the hypothesis \<open>moment_units\<close>. Numbers are exact, which a double is
  below 2 to the power 53 (104 days in nanoseconds).
\<close>

definition moment_units :: "(nat \<Rightarrow> string \<Rightarrow> nat) \<Rightarrow> bool" where
  "moment_units as_ms \<longleftrightarrow> (\<forall>n. as_ms n ''ms'' = n \<and> as_ms n ''s'' = n * 1000 \<and>
     as_ms n ''m'' = n * 60000 \<and> as_ms n ''h'' = n * 3600000)"

definition translateHumanDurationToNanos :: "(nat \<Rightarrow> string \<Rightarrow> nat) \<Rightarrow> string \<Rightarrow> nat option" where
  "translateHumanDurationToNanos as_ms s = (case match_duration s of
       None \<Rightarrow> None
     | Some (ds, u) \<Rightarrow>
         (let n = digits_value ds
          in Some (if u = ''ns'' then n else if u = ''us'' then n * 1000 else as_ms n u * 1000000)))"

definition conversionFromNano :: "(string \<times> nat) list" where
  "conversionFromNano =
     [(''ns'', 1), (''us'', 1000), (''ms'', 1000000), (''s'', 1000000000), (''m'', 60000000000),
      (''h'', 3600000000000)]"

definition translateNanosToHumanDuration :: "nat \<Rightarrow> string" where
  "translateNanosToHumanDuration nanos =
     fold (\<lambda>(u, k) human. if nanos mod k = 0 \<and> nanos div k > 0 then show_nat (nanos div k) @ u else human)
       conversionFromNano ''0s''"

section \<open>Log driver options\<close>

record option_row =
  opt_key :: string
  opt_value :: string
  opt_originalKey :: string
  opt_originalValue :: string
  opt_added :: bool

definition translateLogDriverOptsToKeyValue :: "string obj option \<Rightarrow> option_row list" where
  "translateLogDriverOptsToKeyValue logOptions = (case logOptions of
       None \<Rightarrow> []
     | Some ob \<Rightarrow> map (\<lambda>(k, v). \<lparr>opt_key = k, opt_value = v, opt_originalKey = k, opt_originalValue = v,
         opt_added = True\<rparr>) (obj_entries ob))"

definition translateKeyValueToLogDriverOpts :: "option_row list option \<Rightarrow> string obj" where
  "translateKeyValueToLogDriverOpts kv = (case kv of
       None \<Rightarrow> []
     | Some rs \<Rightarrow> fold (\<lambda>r ob. if opt_key r \<noteq> [] \<and> opt_value r \<noteq> [] then obj_set ob (opt_key r) (opt_value r)
         else ob) rs [])"

section \<open>Host entries\<close>

record host_entry =
  he_hostname :: string
  he_ip :: string

text \<open>
  The first test, \<open>entry.indexOf(' ')\<close> as a truth value, fails only for an entry that starts with a space.
\<close>

definition entry_to_host :: "string \<Rightarrow> host_entry option" where
  "entry_to_host entry =
     (let ws = split_char (CHR '' '') entry
      in if js_index_of entry '' '' \<noteq> 0 \<and> length ws = 2
         then Some \<lparr>he_hostname = ws ! 1, he_ip = ws ! 0\<rparr> else None)"

definition translateHostsEntriesToHostnameIP :: "string list option \<Rightarrow> host_entry list" where
  "translateHostsEntriesToHostnameIP entries = (case entries of
       None \<Rightarrow> [] | Some es \<Rightarrow> without_undefined (map entry_to_host es))"

definition translateHostnameIPToHostsEntries :: "host_entry list option \<Rightarrow> string list" where
  "translateHostnameIPToHostsEntries entries = (case entries of
       None \<Rightarrow> []
     | Some es \<Rightarrow> map (\<lambda>e. he_ip e @ '' '' @ he_hostname e)
         (filter (\<lambda>e. he_ip e \<noteq> [] \<and> he_hostname e \<noteq> []) es))"

section \<open>Lemmas on constraints\<close>

lemma getOperator_found:
  assumes "contains c ''=='' \<or> contains c ''!=''"
  shows "\<exists>a b op. getOperator c = (int (length a), op) \<and> c = a @ op @ b \<and> (op = ''=='' \<or> op = ''!='')"
proof -
  have found: "\<exists>a b. js_index_of c p = int (length a) \<and> c = a @ p @ b" if "contains c p" for p
  proof -
    from that obtain i where i: "find_sub c p = Some i" by (auto simp: contains_def)
    with find_sub_Some_split [OF i]
    have "js_index_of c p = int (length (take i c)) \<and> c = take i c @ p @ drop (i + length p) c"
      by (simp add: js_index_of_def)
    then show ?thesis by blast
  qed
  show ?thesis
  proof (cases "contains c ''==''")
    case True
    from found [OF this] obtain a b where "js_index_of c ''=='' = int (length a)" "c = a @ ''=='' @ b"
      by blast
    then show ?thesis by (auto simp: getOperator_def Let_def)
  next
    case False
    with assms have "contains c ''!=''" by simp
    from found [OF this] obtain a b where ab: "js_index_of c ''!='' = int (length a)" "c = a @ ''!='' @ b"
      by blast
    have "js_index_of c ''=='' = -1" using False by (simp add: contains_def js_index_of_def)
    then have "getOperator c = (int (length a), ''!='')" using ab(1) by (simp add: getOperator_def)
    with ab(2) show ?thesis by blast
  qed
qed

definition has_operator :: "string \<Rightarrow> bool" where
  "has_operator c \<longleftrightarrow> contains c ''=='' \<or> contains c ''!=''"

lemma row_of_constraint:
  assumes "has_operator c"
  shows "crow_key (constraint_to_row c) @ crow_operator (constraint_to_row c) @ crow_value (constraint_to_row c) = c"
proof -
  from getOperator_found assms obtain a b op
    where "getOperator c = (int (length a), op)" "c = a @ op @ b" "op = ''=='' \<or> op = ''!=''"
    unfolding has_operator_def by blast
  then show ?thesis by (auto simp: constraint_to_row_def slice_to_def slice_from_def nat_add_distrib)
qed

section \<open>Lemmas on durations\<close>

lemma to_lower_unit: "u \<in> set units \<Longrightarrow> to_lower u = u"
  by (auto simp: units_def to_lower_def lower_char_def)

lemma unit_no_digit: "u \<in> set units \<Longrightarrow> u \<noteq> [] \<and> \<not> is_digit (hd u)"
  by (auto simp: units_def is_digit_def)

lemma match_duration_show:
  assumes "u \<in> set units"
  shows "match_duration (show_nat n @ u) = Some (show_nat n, u)"
proof -
  have "list_all is_digit (show_nat n)" by (rule show_nat_digits)
  then have "takeWhile is_digit (show_nat n @ u) = show_nat n @ takeWhile is_digit u"
    "dropWhile is_digit (show_nat n @ u) = dropWhile is_digit u"
    by (auto simp: list_all_iff)
  moreover have "takeWhile is_digit u = []" "dropWhile is_digit u = u"
    using unit_no_digit [OF assms] by (cases u; auto)+
  ultimately show ?thesis using assms by (simp add: match_duration_def to_lower_unit)
qed

text \<open>The regular expression as the source writes it, and that the match above is its match.\<close>

definition upper_char :: "char \<Rightarrow> char" where
  "upper_char c = char_of (of_char c - 32 :: nat)"

definition rx_letter :: "char \<Rightarrow> rx" where
  "rx_letter c = Alt (rx_char c) (rx_char (upper_char c))"

definition rx_unit :: "string \<Rightarrow> rx" where
  "rx_unit u = foldr (\<lambda>c r. Seq (rx_letter c) r) u Eps"

definition durationPattern :: rx where
  "durationPattern = Seq (plus (Cls [(48, 57)])) (foldr (\<lambda>u r. Alt (rx_unit u) r) units Fail)"

definition is_lower :: "char \<Rightarrow> bool" where
  "is_lower c \<longleftrightarrow> 97 \<le> (of_char c :: nat) \<and> (of_char c :: nat) \<le> 122"

lemma lower_char_eq:
  assumes "is_lower c"
  shows "lower_char d = c \<longleftrightarrow> d = c \<or> d = upper_char c"
proof -
  let ?m = "of_char c :: nat" and ?n = "of_char d :: nat"
  have eq: "x = y \<longleftrightarrow> (of_char x :: nat) = of_char y" for x y :: char by simp
  have m: "97 \<le> ?m" "?m \<le> 122" using assms by (auto simp: is_lower_def)
  then have "(of_char (char_of (?m - 32) :: char) :: nat) = ?m - 32" by (simp add: of_char_of)
  moreover have "65 \<le> ?n \<and> ?n \<le> 90 \<Longrightarrow> (of_char (char_of (?n + 32) :: char) :: nat) = ?n + 32"
    by (simp add: of_char_of)
  ultimately show ?thesis
    unfolding lower_char_def upper_char_def Let_def eq using m by (cases "65 \<le> ?n \<and> ?n \<le> 90") auto
qed

lemma in_lang_letter_Seq:
  assumes "is_lower c"
  shows "in_lang (Seq (rx_letter c) r) s \<longleftrightarrow> (\<exists>d t. s = d # t \<and> lower_char d = c \<and> in_lang r t)"
proof -
  have "in_lang (Seq (Alt p q) r) s \<longleftrightarrow> in_lang (Seq p r) s \<or> in_lang (Seq q r) s" for p q
    by (auto simp: in_lang_Seq)
  then show ?thesis
    using lower_char_eq [OF assms] by (auto simp: rx_letter_def rx_char_def)
qed

lemma in_lang_unit: "list_all is_lower u \<Longrightarrow> in_lang (rx_unit u) s \<longleftrightarrow> to_lower s = u"
proof (induction u arbitrary: s)
  case (Cons c u)
  then show ?case
    by (cases s) (auto simp: rx_unit_def to_lower_def in_lang_letter_Seq)
qed (simp add: rx_unit_def to_lower_def)

lemma in_lang_units: "in_lang (foldr (\<lambda>u r. Alt (rx_unit u) r) units Fail) s \<longleftrightarrow> to_lower s \<in> set units"
proof -
  have "list_all (list_all is_lower) units" by code_simp
  moreover have "list_all (list_all is_lower) us \<Longrightarrow>
      in_lang (foldr (\<lambda>u r. Alt (rx_unit u) r) us Fail) s \<longleftrightarrow> to_lower s \<in> set us" for us
    by (induction us) (auto simp: in_lang_unit)
  ultimately show ?thesis by blast
qed

lemma digit_class: "in_cls [(48, 57)] = is_digit"
  by (rule ext) (simp add: in_cls_def is_digit_def)

lemma duration_pattern_lang:
  "in_lang durationPattern s \<longleftrightarrow>
     (\<exists>a b. s = a @ b \<and> a \<noteq> [] \<and> list_all is_digit a \<and> to_lower b \<in> set units)"
  by (auto simp: durationPattern_def in_lang_Seq in_lang_plus_cls in_lang_units digit_class)

lemma match_duration_pattern: "match_duration s \<noteq> None \<longleftrightarrow> in_lang durationPattern s"
proof
  assume "match_duration s \<noteq> None"
  then have "takeWhile is_digit s \<noteq> []" "to_lower (dropWhile is_digit s) \<in> set units"
    by (auto simp: match_duration_def Let_def split: if_splits)
  then show "in_lang durationPattern s"
    unfolding duration_pattern_lang
    by (intro exI [of _ "takeWhile is_digit s"] exI [of _ "dropWhile is_digit s"])
      (auto simp: list_all_iff dest: set_takeWhileD)
next
  assume "in_lang durationPattern s"
  then obtain a b where ab: "s = a @ b" "a \<noteq> []" "list_all is_digit a" "to_lower b \<in> set units"
    unfolding duration_pattern_lang by blast
  have "lower_char c = c" if "is_digit c" for c using that by (auto simp: is_digit_def lower_char_def)
  then have "b \<noteq> [] \<and> \<not> is_digit (hd b)"
    using unit_no_digit [OF ab(4)] by (cases b) (auto simp: to_lower_def)
  then have "takeWhile is_digit s = a" "dropWhile is_digit s = b"
    using ab(1,3) by (cases b; auto simp: list_all_iff)+
  then show "match_duration s \<noteq> None" using ab by (simp add: match_duration_def)
qed

text \<open>The unit that the last assignment of the loop leaves divides the duration.\<close>

lemma fold_units:
  assumes "\<forall>(u, k) \<in> set table. Q (show_nat (nanos div k) @ u) \<or> \<not> (nanos mod k = 0 \<and> nanos div k > 0)"
    and "Q human"
  shows "Q (fold (\<lambda>(u, k) human. if nanos mod k = 0 \<and> nanos div k > 0 then show_nat (nanos div k) @ u else human)
    table human)"
  using assms by (induction table arbitrary: human) auto

lemma nanos_of_unit:
  assumes "moment_units as_ms" "(u, k) \<in> set conversionFromNano"
  shows "translateHumanDurationToNanos as_ms (show_nat n @ u) = Some (n * k)"
proof -
  have "u \<in> set units" using assms(2) by (auto simp: conversionFromNano_def units_def)
  from match_duration_show [OF this, of n] show ?thesis
    using assms by (auto simp: translateHumanDurationToNanos_def conversionFromNano_def moment_units_def)
qed

definition in_unit :: "nat \<Rightarrow> string \<Rightarrow> bool" where
  "in_unit nanos h \<longleftrightarrow>
     (\<exists>(u, k) \<in> set conversionFromNano. nanos mod k = 0 \<and> h = show_nat (nanos div k) @ u)"

lemma human_duration_unit:
  assumes "0 < nanos"
  shows "in_unit nanos (translateNanosToHumanDuration nanos)"
proof -
  obtain rest where table: "conversionFromNano = (''ns'', 1) # rest" by (simp add: conversionFromNano_def)
  have first: "in_unit nanos (show_nat nanos @ ''ns'')" by (simp add: in_unit_def table)
  have "\<forall>(u, k) \<in> set rest. in_unit nanos (show_nat (nanos div k) @ u) \<or>
      \<not> (nanos mod k = 0 \<and> nanos div k > 0)"
    unfolding in_unit_def table by auto
  from fold_units [of rest "in_unit nanos" nanos, OF this first]
  show ?thesis using assms by (simp add: translateNanosToHumanDuration_def table)
qed

lemma zero_duration: "translateNanosToHumanDuration 0 = show_nat 0 @ ''s''"
  by (simp add: translateNanosToHumanDuration_def conversionFromNano_def)

section \<open>Lemmas on options and host entries\<close>

lemma driver_opts_back:
  "obj_get (translateKeyValueToLogDriverOpts (Some (translateLogDriverOptsToKeyValue (Some ob)))) k =
     map_of (rev (filter (\<lambda>(k, v). k \<noteq> [] \<and> v \<noteq> []) (obj_entries ob))) k"
proof -
  let ?f = "\<lambda>(k, v). \<lparr>opt_key = k, opt_value = v, opt_originalKey = k, opt_originalValue = v, opt_added = True\<rparr>"
  have "map (\<lambda>r. (opt_key r, opt_value r)) (filter (\<lambda>r. opt_key r \<noteq> [] \<and> opt_value r \<noteq> []) (map ?f xs)) =
      filter (\<lambda>(k, v). k \<noteq> [] \<and> v \<noteq> []) xs" for xs :: "(string \<times> string) list"
    by (induction xs) auto
  then show ?thesis
    by (simp add: translateKeyValueToLogDriverOpts_def translateLogDriverOptsToKeyValue_def
        object.get_fold_guarded split: option.split)
qed

lemma entry_to_host_text:
  assumes "CHR '' '' \<notin> set a" "CHR '' '' \<notin> set b" "a \<noteq> []"
  shows "entry_to_host (a @ '' '' @ b) = Some \<lparr>he_hostname = b, he_ip = a\<rparr>"
  using assms split_char_append [of "CHR '' ''" a b] find_sub_single_append [of "CHR '' ''" a b]
  by (simp add: entry_to_host_def split_char_notin js_index_of_def)

section \<open>Properties\<close>

text \<open>
  Every duration that the engine stores is shown as a text that the form reads back as the same
  number of nanoseconds, zero included.
\<close>

theorem duration_round_trip:
  assumes "moment_units as_ms"
  shows "translateHumanDurationToNanos as_ms (translateNanosToHumanDuration nanos) = Some nanos"
proof (cases "nanos = 0")
  case True
  have "(''s'', 1000000000) \<in> set conversionFromNano" by (simp add: conversionFromNano_def)
  from nanos_of_unit [OF assms this, of 0] True show ?thesis by (simp only: zero_duration mult_zero_left)
next
  case False
  then have "in_unit nanos (translateNanosToHumanDuration nanos)" by (simp add: human_duration_unit)
  then obtain u k where uk: "(u, k) \<in> set conversionFromNano"
    "nanos mod k = 0" "translateNanosToHumanDuration nanos = show_nat (nanos div k) @ u"
    unfolding in_unit_def by force
  from uk(2) have "nanos div k * k = nanos" by (simp add: dvd_div_mult_self mod_eq_0_iff_dvd)
  with nanos_of_unit [OF assms uk(1), of "nanos div k"] show ?thesis by (simp only: uk(3))
qed

theorem duration_round_trip_witness:
  "\<exists>as_ms. moment_units as_ms \<and>
     translateHumanDurationToNanos as_ms (translateNanosToHumanDuration 3540000000000) = Some 3540000000000"
proof -
  let ?m = "\<lambda>n u. n * (if u = ''ms'' then 1 else if u = ''s'' then 1000 else if u = ''m'' then 60000 else 3600000)"
  have "moment_units ?m" by (simp add: moment_units_def)
  from duration_round_trip [OF this] this show ?thesis by blast
qed

text \<open>
  A text is read as a duration exactly when the regular expression of the source accepts it; any other
  text gives no value, so the caller's default applies.
\<close>

theorem duration_accepted_iff:
  "(\<exists>n. translateHumanDurationToNanos as_ms s = Some n) = in_lang durationPattern s"
  unfolding match_duration_pattern [symmetric]
  by (cases "match_duration s") (auto simp: translateHumanDurationToNanos_def Let_def)

text \<open>
  The placement constraints of a service survive the form: the rows made from them give the same
  texts, for constraints that have an operator, a key and a value.
\<close>

theorem constraint_rows_round_trip:
  assumes "\<forall>c \<in> set cs. has_operator c \<and> crow_key (constraint_to_row c) \<noteq> [] \<and> crow_value (constraint_to_row c) \<noteq> []"
  shows "translateKeyValueToPlacementConstraints (translateConstraintsToKeyValue (Some cs)) = cs"
proof -
  have "map (\<lambda>c. crow_key (constraint_to_row c) @ crow_operator (constraint_to_row c) @ crow_value (constraint_to_row c)) cs
      = cs"
    using assms row_of_constraint by (simp add: map_idI)
  moreover have "filter (\<lambda>c. crow_key (constraint_to_row c) \<noteq> [] \<and> crow_value (constraint_to_row c) \<noteq> []) cs = cs"
    using assms by (simp add: filter_id_conv)
  ultimately show ?thesis
    by (simp add: translateKeyValueToPlacementConstraints_def translateConstraintsToKeyValue_def filter_map comp_def)
qed

theorem constraint_rows_round_trip_witness:
  "translateKeyValueToPlacementConstraints
     (translateConstraintsToKeyValue (Some [''node.role==manager'', ''node.labels.zone!=eu''])) =
   [''node.role==manager'', ''node.labels.zone!=eu'']"
proof (rule constraint_rows_round_trip)
  show "\<forall>c \<in> set [''node.role==manager'', ''node.labels.zone!=eu'']. has_operator c \<and>
      crow_key (constraint_to_row c) \<noteq> [] \<and> crow_value (constraint_to_row c) \<noteq> []"
    by code_simp
qed

text \<open>
  The log driver options of a service, turned into rows and back, are the options with a value and a
  name that are not empty, each with its value.
\<close>

theorem log_driver_opts_round_trip:
  assumes "obj_ok ob"
  shows "obj_get (translateKeyValueToLogDriverOpts (Some (translateLogDriverOptsToKeyValue (Some ob)))) k =
    (case obj_get ob k of Some v \<Rightarrow> if k \<noteq> [] \<and> v \<noteq> [] then Some v else None | None \<Rightarrow> None)"
proof -
  let ?es = "filter (\<lambda>(k, v). k \<noteq> [] \<and> v \<noteq> []) (obj_entries ob)"
  have dist: "distinct (map fst ?es)"
    using distinct_obj_entries [OF assms] by (simp add: distinct_map_filter)
  then have "map_of (rev ?es) = map_of ?es"
    by (intro map_of_inject_set [THEN iffD2]) (simp_all add: rev_map [symmetric])
  moreover have "map_of ?es k = (case obj_get ob k of Some v \<Rightarrow> if k \<noteq> [] \<and> v \<noteq> [] then Some v else None | None \<Rightarrow> None)"
  proof (cases "obj_get ob k")
    case None
    then have "k \<notin> fst ` set ?es" by (auto simp: set_obj_entries)
    with None show ?thesis by (simp add: map_of_eq_None_iff)
  next
    case (Some v)
    show ?thesis
    proof (cases "k \<noteq> [] \<and> v \<noteq> []")
      case True
      then have "(k, v) \<in> set ?es" using Some by (simp add: set_obj_entries)
      with dist True Some show ?thesis by simp
    next
      case False
      then have "k \<notin> fst ` set ?es" using Some by (auto simp: set_obj_entries)
      then have "map_of ?es k = None" by (simp only: map_of_eq_None_iff not_False_eq_True)
      with Some False show ?thesis by simp
    qed
  qed
  ultimately show ?thesis by (simp add: driver_opts_back)
qed

theorem log_driver_opts_round_trip_witness:
  "obj_get (translateKeyValueToLogDriverOpts (Some (translateLogDriverOptsToKeyValue
     (Some [(''max-size'', ''10m'')])))) ''max-size'' = Some ''10m''"
  using log_driver_opts_round_trip [of "[(''max-size'', ''10m'')]" "''max-size''"] by (simp add: obj_ok_def)

text \<open>
  Host entries survive the form: an address and a name without spaces, written by one translation, are
  read by the other.
\<close>

theorem host_entries_round_trip:
  assumes "\<forall>e \<in> set es. he_ip e \<noteq> [] \<and> he_hostname e \<noteq> [] \<and> CHR '' '' \<notin> set (he_ip e) \<and> CHR '' '' \<notin> set (he_hostname e)"
  shows "translateHostsEntriesToHostnameIP (Some (translateHostnameIPToHostsEntries (Some es))) = es"
  using assms
proof (induction es)
  case (Cons e es)
  then have "entry_to_host (he_ip e @ '' '' @ he_hostname e) = Some e"
    using entry_to_host_text [of "he_ip e" "he_hostname e"] by simp
  with Cons show ?case
    by (simp add: translateHostsEntriesToHostnameIP_def translateHostnameIPToHostsEntries_def)
qed (simp add: translateHostsEntriesToHostnameIP_def translateHostnameIPToHostsEntries_def)

theorem host_entries_round_trip_witness:
  "translateHostsEntriesToHostnameIP (Some (translateHostnameIPToHostsEntries
     (Some [\<lparr>he_hostname = ''db'', he_ip = ''10.0.0.7''\<rparr>]))) = [\<lparr>he_hostname = ''db'', he_ip = ''10.0.0.7''\<rparr>]"
  by (rule host_entries_round_trip) simp

end
