(* ===== verification/DockerEvents.thy ===== *)
theory DockerEvents
  imports JsString
begin

text \<open>
  \<open>app/docker/models/event.js\<close>: the sentence the event list shows for an event of the engine. The four
  switches over the action are tables from the action to the parts of the sentence, with the cases of the
  default branch after them.
\<close>

record docker_event =
  ev_time :: nat
  ev_Type :: "string option"
  ev_Action :: string
  ev_ActorID :: string
  ev_name :: "string option"
  ev_exitCode :: "string option"
  ev_status :: "string option"
  ev_from :: "string option"

datatype detail_part = Lit string | Name | ExitCode | ActorID

text \<open>A missing attribute is printed as \<open>undefined\<close>.\<close>

definition attr_text :: "string option \<Rightarrow> string" where
  "attr_text v = (case v of None \<Rightarrow> ''undefined'' | Some s \<Rightarrow> s)"

fun part_text :: "docker_event \<Rightarrow> detail_part \<Rightarrow> string" where
  "part_text e (Lit s) = s"
| "part_text e Name = attr_text (ev_name e)"
| "part_text e ExitCode = attr_text (ev_exitCode e)"
| "part_text e ActorID = ev_ActorID e"

definition parts_text :: "docker_event \<Rightarrow> detail_part list \<Rightarrow> string" where
  "parts_text e ps = concat (map (part_text e) ps)"

definition container_actions :: "(string \<times> detail_part list) list" where
  "container_actions =
     [(''stop'', [Lit ''Container '', Name, Lit '' stopped'']),
      (''destroy'', [Lit ''Container '', Name, Lit '' deleted'']),
      (''create'', [Lit ''Container '', Name, Lit '' created'']),
      (''start'', [Lit ''Container '', Name, Lit '' started'']),
      (''kill'', [Lit ''Container '', Name, Lit '' killed'']),
      (''die'', [Lit ''Container '', Name, Lit '' exited with status code '', ExitCode]),
      (''commit'', [Lit ''Container '', Name, Lit '' committed'']),
      (''restart'', [Lit ''Container '', Name, Lit '' restarted'']),
      (''pause'', [Lit ''Container '', Name, Lit '' paused'']),
      (''unpause'', [Lit ''Container '', Name, Lit '' unpaused'']),
      (''attach'', [Lit ''Container '', Name, Lit '' attached'']),
      (''detach'', [Lit ''Container '', Name, Lit '' detached'']),
      (''copy'', [Lit ''Container '', Name, Lit '' copied'']),
      (''export'', [Lit ''Container '', Name, Lit '' exported'']),
      (''health_status'', [Lit ''Container '', Name, Lit '' executed health status'']),
      (''oom'', [Lit ''Container '', Name, Lit '' goes in out of memory'']),
      (''rename'', [Lit ''Container '', Name, Lit '' renamed'']),
      (''resize'', [Lit ''Container '', Name, Lit '' resized'']),
      (''top'', [Lit ''Showed running processes for container '', Name]),
      (''update'', [Lit ''Container '', Name, Lit '' updated''])]"

definition image_actions :: "(string \<times> detail_part list) list" where
  "image_actions =
     [(''delete'', [Lit ''Image deleted'']),
      (''import'', [Lit ''Image '', ActorID, Lit '' imported'']),
      (''load'', [Lit ''Image '', ActorID, Lit '' loaded'']),
      (''tag'', [Lit ''New tag created for '', Name]),
      (''untag'', [Lit ''Image untagged'']),
      (''save'', [Lit ''Image '', ActorID, Lit '' saved'']),
      (''pull'', [Lit ''Image '', ActorID, Lit '' pulled'']),
      (''push'', [Lit ''Image '', ActorID, Lit '' pushed''])]"

definition network_actions :: "(string \<times> detail_part list) list" where
  "network_actions =
     [(''create'', [Lit ''Network '', Name, Lit '' created'']),
      (''destroy'', [Lit ''Network '', Name, Lit '' deleted'']),
      (''remove'', [Lit ''Network '', Name, Lit '' removed'']),
      (''connect'', [Lit ''Container connected to '', Name, Lit '' network'']),
      (''disconnect'', [Lit ''Container disconnected from '', Name, Lit '' network''])]"

definition volume_actions :: "(string \<times> detail_part list) list" where
  "volume_actions =
     [(''create'', [Lit ''Volume '', ActorID, Lit '' created'']),
      (''destroy'', [Lit ''Volume '', ActorID, Lit '' deleted'']),
      (''mount'', [Lit ''Volume '', ActorID, Lit '' mounted'']),
      (''unmount'', [Lit ''Volume '', ActorID, Lit '' unmounted''])]"


abbreviation unsupported :: string where
  "unsupported \<equiv> ''Unsupported event''"

definition from_table :: "(string \<times> detail_part list) list \<Rightarrow> docker_event \<Rightarrow> string \<Rightarrow> string" where
  "from_table table e other =
     (case map_of table (ev_Action e) of None \<Rightarrow> other | Some ps \<Rightarrow> parts_text e ps)"

definition container_details :: "docker_event \<Rightarrow> string" where
  "container_details e = from_table container_actions e
     (if js_index_of (ev_Action e) ''exec_create'' = 0 then ''Exec instance created''
      else if js_index_of (ev_Action e) ''exec_start'' = 0 then ''Exec instance started''
      else unsupported)"

definition createEventDetails :: "docker_event \<Rightarrow> string" where
  "createEventDetails e =
     (let type = attr_text (ev_Type e)
      in if type = ''container'' then container_details e
         else if type = ''image'' then from_table image_actions e unsupported
         else if type = ''network'' then from_table network_actions e unsupported
         else if type = ''volume'' then from_table volume_actions e unsupported
         else unsupported)"

record event_view =
  view_Time :: nat
  view_Type :: "string option"
  view_Details :: "string option"

definition EventViewModel :: "docker_event \<Rightarrow> event_view" where
  "EventViewModel data =
     (if truthy_str (ev_Type data)
      then \<lparr>view_Time = ev_time data, view_Type = ev_Type data, view_Details = Some (createEventDetails data)\<rparr>
      else \<lparr>view_Time = ev_time data, view_Type = ev_status data, view_Details = ev_from data\<rparr>)"

section \<open>Lemmas\<close>

lemma from_table_other: "ev_Action e \<notin> fst ` set table \<Longrightarrow> from_table table e d = d"
  by (simp add: from_table_def map_of_eq_None_iff [THEN iffD2])

lemma no_prefix_index: "\<not> starts_with s p \<Longrightarrow> js_index_of s p \<noteq> 0"
  by (subst js_index_of_def, subst find_sub.simps) (auto split: option.splits list.splits)

text \<open>Every sentence about a container names it.\<close>

lemma container_actions_name: "\<forall>(a, ps) \<in> set container_actions. Name \<in> set ps"
  by (simp add: container_actions_def)

lemma parts_text_contains: "Name \<in> set ps \<Longrightarrow> contains (parts_text e ps) (attr_text (ev_name e))"
proof -
  assume "Name \<in> set ps"
  then obtain as bs where "ps = as @ Name # bs" by (meson split_list)
  then show ?thesis unfolding contains_iff parts_text_def by auto
qed

section \<open>Properties\<close>

text \<open>
  The sentence for a container action of the switch names the container, and for every action outside of
  the switch that is not about an exec instance it is \<open>Unsupported event\<close>.
\<close>

theorem container_event_details:
  assumes "ev_Type e = Some ''container''"
  shows "(ev_Action e \<in> fst ` set container_actions \<longrightarrow> contains (createEventDetails e) (attr_text (ev_name e))) \<and>
    (ev_Action e \<notin> fst ` set container_actions \<and> \<not> starts_with (ev_Action e) ''exec_'' \<longrightarrow>
       createEventDetails e = unsupported)"
proof (intro conjI impI)
  have details: "createEventDetails e = container_details e"
    using assms by (simp add: createEventDetails_def attr_text_def)
  show "contains (createEventDetails e) (attr_text (ev_name e))" if act: "ev_Action e \<in> fst ` set container_actions"
  proof -
    from act have "map_of container_actions (ev_Action e) \<noteq> None" by (simp add: map_of_eq_None_iff)
    then obtain ps where ps: "map_of container_actions (ev_Action e) = Some ps" by blast
    then have "Name \<in> set ps" using map_of_SomeD [OF ps] container_actions_name by blast
    with ps details show ?thesis by (simp add: container_details_def from_table_def parts_text_contains)
  qed
  show "createEventDetails e = unsupported"
    if other: "ev_Action e \<notin> fst ` set container_actions \<and> \<not> starts_with (ev_Action e) ''exec_''"
  proof -
    have "\<not> starts_with (ev_Action e) (''exec_'' @ p)" for p using other by (auto simp: starts_with_iff)
    from no_prefix_index [OF this [of "''create''"]] no_prefix_index [OF this [of "''start''"]]
    show ?thesis using other details by (simp add: container_details_def from_table_other)
  qed
qed

theorem container_event_details_witness:
  "contains (createEventDetails \<lparr>ev_time = 0, ev_Type = Some ''container'', ev_Action = ''die'', ev_ActorID = ''c1'',
     ev_name = Some ''web'', ev_exitCode = Some ''137'', ev_status = None, ev_from = None\<rparr>) ''web''"
  using container_event_details [of "\<lparr>ev_time = 0, ev_Type = Some ''container'', ev_Action = ''die'',
     ev_ActorID = ''c1'', ev_name = Some ''web'', ev_exitCode = Some ''137'', ev_status = None, ev_from = None\<rparr>"]
  by (simp add: container_actions_def attr_text_def)

text \<open>
  A health check event, whose action the engine writes as \<open>health_status: \<close> and the status, is shown as
  an unsupported event: the case \<open>health_status\<close> of the switch is never taken for it.
\<close>

theorem health_status_unsupported:
  assumes "ev_Type e = Some ''container''" "ev_Action e = ''health_status: '' @ status"
  shows "createEventDetails e = unsupported"
proof -
  have "ev_Action e \<notin> fst ` set container_actions" using assms(2) by (simp add: container_actions_def)
  moreover have "\<not> starts_with (ev_Action e) ''exec_create''" "\<not> starts_with (ev_Action e) ''exec_start''"
    using assms(2) by simp_all
  ultimately show ?thesis
    using no_prefix_index [of "ev_Action e" "''exec_create''"] no_prefix_index [of "ev_Action e" "''exec_start''"] assms(1)
    by (simp add: createEventDetails_def attr_text_def container_details_def from_table_other)
qed

theorem health_status_unsupported_witness:
  "createEventDetails \<lparr>ev_time = 0, ev_Type = Some ''container'', ev_Action = ''health_status: healthy'',
     ev_ActorID = ''c1'', ev_name = Some ''web'', ev_exitCode = None, ev_status = None, ev_from = None\<rparr>
   = unsupported"
  by (rule health_status_unsupported [of _ "''healthy''"]) simp_all

end
