(* ===== verification/PortainerFilters.thy ===== *)
theory PortainerFilters
  imports JsString
begin

text \<open>
  \<open>app/portainer/filters/filters.js\<close>: the filters every view of the application uses. The size and date
  filters call the filesize and moment packages and are left out.
\<close>

section \<open>Shortening\<close>

text \<open>A missing length or end has its default; \<open>substring\<close> reads a negative position as 0.\<close>

definition truncate_text :: "string \<Rightarrow> nat option \<Rightarrow> string option \<Rightarrow> string" where
  "truncate_text t len end_text =
     (let n = (case len of None \<Rightarrow> 10 | Some n \<Rightarrow> n);
          e = (case end_text of None \<Rightarrow> ''...'' | Some e \<Rightarrow> e)
      in if length t \<le> n \<or> int (length t) - int (length e) \<le> int n then t
         else substring t 0 (n - length e) @ e)"

definition truncatelr :: "string \<Rightarrow> nat option \<Rightarrow> nat option \<Rightarrow> nat option \<Rightarrow> string" where
  "truncatelr t max_len left_len right_len =
     (let m = (case max_len of None \<Rightarrow> 50 | Some n \<Rightarrow> n);
          l = (case left_len of None \<Rightarrow> 25 | Some n \<Rightarrow> n);
          r = (case right_len of None \<Rightarrow> 25 | Some n \<Rightarrow> n)
      in if length t \<le> m then t
         else substring t 0 l @ ''[...]'' @ substring t (length t - r) (length t))"

definition upper_first :: "char \<Rightarrow> char" where
  "upper_first c = (let n = of_char c :: nat in if 97 \<le> n \<and> n \<le> 122 then char_of (n - 32) else c)"

definition capitalize :: "string option \<Rightarrow> string" where
  "capitalize t = (case t of
       None \<Rightarrow> [] | Some [] \<Rightarrow> [] | Some (c # s) \<Rightarrow> upper_first c # to_lower s)"

section \<open>Protocols, pairs and addresses\<close>

text \<open>
  \<open>/.*?:\/\//g\<close>: a match runs from the start of the line to the next \<open>://\<close>, so what stands before the last
  \<open>://\<close> of a line is removed.
\<close>

definition is_line_end :: "char \<Rightarrow> bool" where
  "is_line_end c \<longleftrightarrow> of_char c = (10 :: nat) \<or> of_char c = (13 :: nat)"

definition keep_lines :: "string \<Rightarrow> string" where
  "keep_lines a = rev (dropWhile (\<lambda>c. \<not> is_line_end c) (rev a))"

function stripprotocol :: "string \<Rightarrow> string" where
  "stripprotocol url =
     (case find_sub url ''://'' of
        None \<Rightarrow> url
      | Some i \<Rightarrow> keep_lines (take i url) @ stripprotocol (drop (i + 3) url))"
  by pat_completeness auto
termination
proof (relation "measure length", simp)
  fix url :: string and i
  assume "find_sub url ''://'' = Some i"
  from find_sub_Some_split [OF this] have "i + 3 \<le> length url" by simp
  then have "length url - (i + 3) < length url" by linarith
  then show "(drop (i + 3) url, url) \<in> measure length" by simp
qed

declare stripprotocol.simps [simp del]

definition key_filter :: "string \<Rightarrow> string \<Rightarrow> string" where
  "key_filter pair sep =
     (if \<not> contains pair sep then pair else slice_to pair (js_index_of pair sep))"

definition value_filter :: "string \<Rightarrow> string \<Rightarrow> string" where
  "value_filter pair sep =
     (if \<not> contains pair sep then [] else slice_from pair (js_index_of pair sep + 1))"

definition ipaddress :: "string \<Rightarrow> string" where
  "ipaddress ip = slice_to ip (js_index_of ip ''/'')"

definition arraytostr :: "string list option \<Rightarrow> string \<Rightarrow> string" where
  "arraytostr arr sep = (case arr of None \<Rightarrow> [] | Some xs \<Rightarrow> join sep xs)"

definition labelsToStr :: "(string \<times> string) list option \<Rightarrow> string \<Rightarrow> string" where
  "labelsToStr arr sep = (case arr of None \<Rightarrow> [] | Some ls \<Rightarrow> join sep (map (\<lambda>(k, v). k @ '':'' @ v) ls))"

section \<open>Names and icons\<close>

definition endpointtypename :: "nat \<Rightarrow> string" where
  "endpointtypename type =
     (if type = 1 then ''Docker''
      else if type = 2 \<or> type = 6 then ''Agent''
      else if type = 3 then ''Azure ACI''
      else if type = 5 then ''Kubernetes''
      else if type = 4 \<or> type = 7 then ''Edge Agent''
      else [])"

definition endpointtypeicon :: "nat \<Rightarrow> string" where
  "endpointtypeicon type =
     (if type = 3 then ''fab fa-microsoft''
      else if type = 4 then ''fa fa-cloud''
      else if type = 5 \<or> type = 6 \<or> type = 7 then ''fas fa-dharmachakra''
      else ''fab fa-docker'')"

definition ownershipicon :: "string \<Rightarrow> string" where
  "ownershipicon ownership =
     (if ownership = ''private'' then ''fa fa-eye-slash''
      else if ownership = ''administrators'' then ''fa fa-eye-slash''
      else if ownership = ''restricted'' then ''fa fa-users''
      else ''fa fa-eye'')"

definition endpointstatusbadge :: "nat \<Rightarrow> string" where
  "endpointstatusbadge status = (if status = 2 then ''danger'' else ''success'')"

section \<open>Lemmas\<close>

lemma key_value_single:
  assumes "c \<in> set pair"
  shows "key_filter pair [c] @ [c] @ value_filter pair [c] = pair \<and> c \<notin> set (key_filter pair [c])"
proof -
  from assms obtain a b where ab: "pair = a @ c # b" "c \<notin> set a" by (meson split_list_first)
  then have "js_index_of pair [c] = int (length a)"
    using find_sub_single_append [of c a b] by (simp add: js_index_of_def)
  with ab show ?thesis
    by (simp add: key_filter_def value_filter_def slice_to_def slice_from_def nat_add_distrib)
qed

section \<open>Properties\<close>

text \<open>
  A shortened text is at most the length and the end together, and is the text itself or a prefix of it
  followed by the end.
\<close>

theorem truncate_bounds:
  "length (truncate_text t (Some n) (Some e)) \<le> n + length e \<and>
   (truncate_text t (Some n) (Some e) = t \<or> truncate_text t (Some n) (Some e) = take (n - length e) t @ e)"
  by (auto simp: truncate_text_def substring_def)

text \<open>
  A pair with a separator of one character is cut at its first occurrence: the key, the separator and
  the value are the pair again, and the key does not hold the separator.
\<close>

theorem key_value_split:
  assumes "c \<in> set pair"
  shows "key_filter pair [c] @ [c] @ value_filter pair [c] = pair \<and> c \<notin> set (key_filter pair [c])"
  using assms by (rule key_value_single)

theorem key_value_split_witness:
  "key_filter ''PATH=/bin:/usr/bin=x'' ''='' @ ''='' @ value_filter ''PATH=/bin:/usr/bin=x'' ''='' = ''PATH=/bin:/usr/bin=x''"
  using key_value_split [of "CHR ''=''" "''PATH=/bin:/usr/bin=x''"] by simp

end
