(* ===== verification/Base64.thy ===== *)
theory Base64
  imports JsString
begin

text \<open>
  The two coders of the browser that the source calls: \<open>btoa\<close> and \<open>atob\<close> between bytes and Base64 text, and
  \<open>encodeURIComponent\<close> and \<open>decodeURIComponent\<close>, of which the source uses the UTF-8 part. A text is a list of
  code points and a binary string a list of bytes; the source's \<open>unescape(encodeURIComponent(s))\<close> turns the
  first into the second.
\<close>

section \<open>Base64\<close>

definition b64_char :: "nat \<Rightarrow> char" where
  "b64_char n =
     (if n < 26 then char_of (65 + n) else if n < 52 then char_of (71 + n)
      else if n < 62 then char_of (n - 4) else if n = 62 then CHR ''+'' else CHR ''/'')"

definition b64_value :: "char \<Rightarrow> nat option" where
  "b64_value c =
     (let k = of_char c :: nat in
      if 65 \<le> k \<and> k \<le> 90 then Some (k - 65) else if 97 \<le> k \<and> k \<le> 122 then Some (k - 71)
      else if 48 \<le> k \<and> k \<le> 57 then Some (k + 4) else if k = 43 then Some 62
      else if k = 47 then Some 63 else None)"

fun btoa :: "nat list \<Rightarrow> string" where
  "btoa [] = []"
| "btoa [a] = [b64_char (a div 4), b64_char (a mod 4 * 16), CHR ''='', CHR ''='']"
| "btoa [a, b] =
     [b64_char (a div 4), b64_char (a mod 4 * 16 + b div 16), b64_char (b mod 16 * 4), CHR ''='']"
| "btoa (a # b # c # bs) =
     b64_char (a div 4) # b64_char (a mod 4 * 16 + b div 16) # b64_char (b mod 16 * 4 + c div 64) #
     b64_char (c mod 64) # btoa bs"

fun sextets_bytes :: "nat list \<Rightarrow> nat list" where
  "sextets_bytes [x, y] = [x * 4 + y div 16]"
| "sextets_bytes [x, y, z] = [x * 4 + y div 16, y mod 16 * 16 + z div 4]"
| "sextets_bytes (x # y # z # w # r) =
     (x * 4 + y div 16) # (y mod 16 * 16 + z div 4) # (z mod 4 * 64 + w) # sextets_bytes r"
| "sextets_bytes _ = []"

text \<open>White space is skipped, one or two signs at the end of a whole number of groups are dropped.\<close>

definition ascii_space :: "char \<Rightarrow> bool" where
  "ascii_space c \<longleftrightarrow> c \<in> {CHR 0x09, CHR 0x0A, CHR 0x0C, CHR 0x0D, CHR '' ''}"

definition drop_padding :: "string \<Rightarrow> string" where
  "drop_padding s =
     (if length s mod 4 = 0 then
        (if ends_with s ''=='' then take (length s - 2) s
         else if ends_with s ''='' then take (length s - 1) s else s)
      else s)"

definition atob :: "string \<Rightarrow> nat list option" where
  "atob s =
     (let t = drop_padding (filter (\<lambda>c. \<not> ascii_space c) s) in
      if length t mod 4 = 1 then None
      else map_option sextets_bytes (those (map b64_value t)))"

section \<open>UTF-8\<close>

fun utf8_char :: "nat \<Rightarrow> nat list" where
  "utf8_char c =
     (if c < 128 then [c]
      else if c < 2048 then [192 + c div 64, 128 + c mod 64]
      else if c < 65536 then [224 + c div 4096, 128 + c div 64 mod 64, 128 + c mod 64]
      else [240 + c div 262144, 128 + c div 4096 mod 64, 128 + c div 64 mod 64, 128 + c mod 64])"

definition utf8 :: "nat list \<Rightarrow> nat list" where
  "utf8 s = concat (map utf8_char s)"

definition tail_byte :: "nat \<Rightarrow> bool" where
  "tail_byte b \<longleftrightarrow> 128 \<le> b \<and> b < 192"

definition code_point :: "nat \<Rightarrow> bool" where
  "code_point c \<longleftrightarrow> c < 1114112 \<and> \<not> (55296 \<le> c \<and> c < 57344)"

text \<open>Sequences that are too long, surrogates and numbers beyond the last code point are refused.\<close>

definition known_point :: "nat \<Rightarrow> nat \<Rightarrow> nat option" where
  "known_point least c = (if least \<le> c \<and> code_point c then Some c else None)"

fun utf8_decode :: "nat list \<Rightarrow> nat list option" where
  "utf8_decode [] = Some []"
| "utf8_decode (a # r) =
     (if a < 128 then map_option ((#) a) (utf8_decode r)
      else case r of
        b # r1 \<Rightarrow>
          if \<not> tail_byte b then None
          else if 192 \<le> a \<and> a < 224 then
            (case known_point 128 ((a - 192) * 64 + (b - 128)) of
               None \<Rightarrow> None | Some c \<Rightarrow> map_option ((#) c) (utf8_decode r1))
          else (case r1 of
            d # r2 \<Rightarrow>
              if \<not> tail_byte d then None
              else if 224 \<le> a \<and> a < 240 then
                (case known_point 2048 ((a - 224) * 4096 + (b - 128) * 64 + (d - 128)) of
                   None \<Rightarrow> None | Some c \<Rightarrow> map_option ((#) c) (utf8_decode r2))
              else (case r2 of
                e # r3 \<Rightarrow>
                  if \<not> tail_byte e then None
                  else if 240 \<le> a \<and> a < 248 then
                    (case known_point 65536 ((a - 240) * 262144 + (b - 128) * 4096 + (d - 128) * 64 + (e - 128)) of
                       None \<Rightarrow> None | Some c \<Rightarrow> map_option ((#) c) (utf8_decode r3))
                  else None
              | [] \<Rightarrow> None)
          | [] \<Rightarrow> None)
      | [] \<Rightarrow> None)"

section \<open>Round trips\<close>

lemma b64_value_char [simp]: "n < 64 \<Longrightarrow> b64_value (b64_char n) = Some n"
proof -
  assume "n < 64"
  then consider "n < 26" | "26 \<le> n \<and> n < 52" | "52 \<le> n \<and> n < 62" | "n = 62" | "n = 63" by linarith
  then show ?thesis by cases (auto simp: b64_value_def b64_char_def Let_def)
qed

lemma b64_char_plain:
  assumes "n < 64"
  shows "\<not> ascii_space (b64_char n)" "b64_char n \<noteq> CHR ''=''"
proof -
  have "b64_value c = None" if "ascii_space c \<or> c = CHR ''=''" for c
    using that by (auto simp: ascii_space_def b64_value_def Let_def)
  from this [of "b64_char n"] show "\<not> ascii_space (b64_char n)" "b64_char n \<noteq> CHR ''=''"
    using assms by auto
qed

text \<open>The text of \<open>btoa\<close> without its padding is a list of digits.\<close>

fun bytes_sextets :: "nat list \<Rightarrow> nat list" where
  "bytes_sextets [] = []"
| "bytes_sextets [a] = [a div 4, a mod 4 * 16]"
| "bytes_sextets [a, b] = [a div 4, a mod 4 * 16 + b div 16, b mod 16 * 4]"
| "bytes_sextets (a # b # c # bs) =
     a div 4 # (a mod 4 * 16 + b div 16) # (b mod 16 * 4 + c div 64) # c mod 64 # bytes_sextets bs"

fun padding :: "nat list \<Rightarrow> string" where
  "padding [a] = ''==''"
| "padding [a, b] = ''=''"
| "padding (a # b # c # bs) = padding bs"
| "padding [] = []"

lemma btoa_sextets: "btoa bs = map b64_char (bytes_sextets bs) @ padding bs"
  by (induction bs rule: btoa.induct) simp_all

lemma bytes_sextets_less: "list_all (\<lambda>b. b < 256) bs \<Longrightarrow> n \<in> set (bytes_sextets bs) \<Longrightarrow> n < 64"
  by (induction bs rule: bytes_sextets.induct) auto

lemma sextets_bytes_back: "list_all (\<lambda>b. b < 256) bs \<Longrightarrow> sextets_bytes (bytes_sextets bs) = bs"
proof (induction bs rule: bytes_sextets.induct)
  case (4 a b c bs)
  have "a div 4 * 4 + (a mod 4 * 16 + b div 16) div 16 = a" "(a mod 4 * 16 + b div 16) mod 16 * 16 + (b mod 16 * 4 + c div 64) div 4 = b"
    "(b mod 16 * 4 + c div 64) mod 4 * 64 + c mod 64 = c"
    using "4.prems" by auto
  then show ?case using 4 by simp
qed auto

lemma padding_length:
  "(length (bytes_sextets bs) + length (padding bs)) mod 4 = 0"
  "length (bytes_sextets bs) mod 4 \<noteq> 1"
  by (induction bs rule: padding.induct) auto

lemma padding_cases: "padding bs \<in> {[], ''='', ''==''}"
  by (induction bs rule: padding.induct) auto

lemma those_map_Some: "(\<And>x. x \<in> set xs \<Longrightarrow> f x = Some (g x)) \<Longrightarrow> those (map f xs) = Some (map g xs)"
  by (induction xs) auto

lemma not_ends_with:
  "c \<notin> set t \<Longrightarrow> \<not> ends_with t (s @ [c])" "c \<notin> set t \<Longrightarrow> \<not> ends_with (t @ [c]) [c, c]"
  by (auto simp: ends_with_iff)

lemma atob_btoa:
  assumes bs: "list_all (\<lambda>b. b < 256) bs"
  shows "atob (btoa bs) = Some bs"
proof -
  let ?t = "map b64_char (bytes_sextets bs)"
  have plain: "\<not> ascii_space c \<and> c \<noteq> CHR ''=''" if "c \<in> set ?t" for c
    using that b64_char_plain bytes_sextets_less [OF bs] by auto
  have "\<not> ascii_space c" if "c \<in> set (padding bs)" for c
    using that padding_cases [of bs] by (auto simp: ascii_space_def)
  with plain have all: "filter (\<lambda>c. \<not> ascii_space c) (btoa bs) = ?t @ padding bs"
    by (auto simp: btoa_sextets filter_id_conv)
  have "CHR ''='' \<notin> set ?t" using plain by blast
  then have no_end: "\<not> ends_with ?t ''=''" "\<not> ends_with (?t @ ''='') ''==''" "\<not> ends_with ?t ''==''"
    using not_ends_with(1) [of _ ?t "[]"] not_ends_with(1) [of _ ?t "''=''"] not_ends_with(2) [of _ ?t] by simp_all
  have "length (?t @ padding bs) mod 4 = 0" using padding_length(1) [of bs] by simp
  then have "drop_padding (?t @ padding bs) = ?t"
    using padding_cases [of bs] no_end by (auto simp: drop_padding_def ends_with_iff)
  moreover have "those (map b64_value ?t) = Some (bytes_sextets bs)"
    using those_map_Some [of "bytes_sextets bs" "b64_value \<circ> b64_char" id] bytes_sextets_less [OF bs]
    by (simp add: comp_def)
  ultimately show ?thesis
    using sextets_bytes_back [OF bs] padding_length(2) [of bs] by (simp add: atob_def all Let_def)
qed

section \<open>Text and bytes\<close>

lemma utf8_char_bytes: "c < 1114112 \<Longrightarrow> list_all (\<lambda>b. b < 256) (utf8_char c)"
  by auto

lemma utf8_bytes: "list_all code_point s \<Longrightarrow> list_all (\<lambda>b. b < 256) (utf8 s)"
  unfolding utf8_def list_all_iff using utf8_char_bytes by (fastforce simp: code_point_def list_all_iff)

lemma sextets_of_number:
  fixes c :: nat
  shows "c div 4096 * 4096 + c div 64 mod 64 * 64 + c mod 64 = c"
    "c div 262144 * 262144 + c div 4096 mod 64 * 4096 + c div 64 mod 64 * 64 + c mod 64 = c"
proof -
  have two: "c div 4096 = c div 64 div 64" and three: "c div 262144 = c div 4096 div 64"
    by (simp_all flip: div_mult2_eq)
  show first: "c div 4096 * 4096 + c div 64 mod 64 * 64 + c mod 64 = c"
    using div_mult_mod_eq [of c 64] div_mult_mod_eq [of "c div 64" 64] two by linarith
  show "c div 262144 * 262144 + c div 4096 mod 64 * 4096 + c div 64 mod 64 * 64 + c mod 64 = c"
    using first div_mult_mod_eq [of "c div 4096" 64] three by linarith
qed

lemma utf8_decode_char:
  assumes "code_point c"
  shows "utf8_decode (utf8_char c @ r) = map_option ((#) c) (utf8_decode r)"
proof -
  consider "c < 128" | "128 \<le> c" "c < 2048" | "2048 \<le> c" "c < 65536" | "65536 \<le> c" "c < 1114112"
    using assms by (fastforce simp: code_point_def)
  then show ?thesis
  proof cases
    case 2
    define h l where "h = c div 64" and "l = c mod 64"
    with 2 have "h < 32" "l < 64" "h * 64 + l = c" by auto
    then show ?thesis using 2 assms by (simp add: h_def [symmetric] l_def [symmetric] tail_byte_def known_point_def)
  next
    case 3
    define h m l where "h = c div 4096" and "m = c div 64 mod 64" and "l = c mod 64"
    with 3 have "h < 16" "m < 64" "l < 64" "h * 4096 + m * 64 + l = c"
      using sextets_of_number(1) [of c] by auto
    then show ?thesis using 3 assms
      by (simp add: h_def [symmetric] m_def [symmetric] l_def [symmetric] tail_byte_def known_point_def)
  next
    case 4
    define h k m l where "h = c div 262144" and "k = c div 4096 mod 64" and "m = c div 64 mod 64" and "l = c mod 64"
    with 4 have "h < 8" "k < 64" "m < 64" "l < 64" "h * 262144 + k * 4096 + m * 64 + l = c"
      using sextets_of_number(2) [of c] by auto
    then show ?thesis using 4 assms
      by (simp add: h_def [symmetric] k_def [symmetric] m_def [symmetric] l_def [symmetric] tail_byte_def known_point_def)
  qed simp
qed

lemma utf8_decode_utf8: "list_all code_point s \<Longrightarrow> utf8_decode (utf8 s) = Some s"
  by (induction s) (simp_all add: utf8_def utf8_decode_char del: utf8_char.simps)

text \<open>The bytes of a text are its code points exactly when it is plain ASCII.\<close>

lemma utf8_char_length: "length (utf8_char c) = 1 \<longleftrightarrow> c < 128" "1 \<le> length (utf8_char c)"
  by auto

lemma utf8_Cons: "utf8 (c # s) = utf8_char c @ utf8 s"
  by (simp add: utf8_def)

lemma utf8_longer: "length s \<le> length (utf8 s)"
proof (induction s)
  case (Cons c s)
  then show ?case using utf8_char_length(2) [of c] unfolding utf8_Cons length_append by simp
qed simp

lemma utf8_same_iff: "utf8 s = s \<longleftrightarrow> list_all (\<lambda>c. c < 128) s"
proof
  assume "utf8 s = s"
  then show "list_all (\<lambda>c. c < 128) s"
  proof (induction s)
    case (Cons c s)
    have "length (utf8_char c) + length (utf8 s) = Suc (length s)"
      using arg_cong [OF Cons.prems, of length] unfolding utf8_Cons length_append by simp
    then have "length (utf8_char c) = 1" using utf8_longer [of s] utf8_char_length(2) [of c] by linarith
    then have c: "c < 128" by (simp only: utf8_char_length)
    with Cons.prems have "utf8 s = s" by (simp add: utf8_Cons)
    with c Cons.IH show ?case by simp
  qed simp
qed (induction s, simp_all add: utf8_def)

end
