(* ===== verification/KubeConfigs.thy ===== *)
theory KubeConfigs
  imports JsObject Base64
begin

text \<open>
  Config maps and secrets of Kubernetes: the converters \<open>app/kubernetes/converters/configMap.js\<close>, \<open>secret.js\<close> and
  \<open>configuration.js\<close>, the helpers \<open>commonHelper.js\<close> (labels), \<open>configMapHelper.js\<close> (access policies) and the part
  of \<open>configurationHelper.js\<close> that looks at one configuration. Values are texts, lists of code points; keys, names
  and labels are strings. What the API server stores is described by a predicate on payload and answer.
\<close>

type_synonym jstext = "nat list"

definition text_of :: "string \<Rightarrow> jstext" where
  "text_of s = map of_char s"

text \<open>\<open>atob\<close> throws for a character that is no byte.\<close>

definition atob_text :: "jstext \<Rightarrow> jstext js_result" where
  "atob_text v = (case (if list_all (\<lambda>c. c < 256) v then atob (map char_of v) else None) of
     None \<Rightarrow> Inl (ThrownError ''InvalidCharacterError'') | Some bs \<Rightarrow> Inr bs)"

section \<open>Labels\<close>

definition label_char :: "char \<Rightarrow> bool" where
  "label_char c \<longleftrightarrow>
     (let k = of_char c :: nat in
      65 \<le> k \<and> k \<le> 90 \<or> 97 \<le> k \<and> k \<le> 122 \<or> 48 \<le> k \<and> k \<le> 57)"

definition label_sign :: "char \<Rightarrow> bool" where
  "label_sign c \<longleftrightarrow> c \<in> {CHR ''-'', CHR ''_'', CHR ''.''}"

definition truncate63 :: "string \<Rightarrow> string" where
  "truncate63 s = take 63 s"

definition ownerToLabel :: "string \<Rightarrow> string" where
  "ownerToLabel owner =
     (let l = map (\<lambda>c. if label_char c \<or> label_sign c then c else CHR ''.'') owner;
          l = truncate63 l;
          l = dropWhile label_sign l
      in rev (dropWhile label_sign (rev l)))"

text \<open>What Kubernetes accepts as the value of a label.\<close>

definition valid_label :: "string \<Rightarrow> bool" where
  "valid_label l \<longleftrightarrow> length l \<le> 63 \<and> list_all (\<lambda>c. label_char c \<or> label_sign c) l \<and>
     (l = [] \<or> label_char (hd l) \<and> label_char (last l))"

definition owner_label :: string where
  "owner_label = ''io.portainer.kubernetes.configuration.owner''"

definition data_annotation :: string where
  "data_annotation = ''io.portainer.kubernetes.configuration.data''"

section \<open>Config maps\<close>

record config_entry =
  en_Key :: string
  en_Value :: jstext
  en_IsBinary :: bool

record config_map =
  cm_Id :: string
  cm_Name :: string
  cm_Namespace :: string
  cm_Yaml :: string
  cm_Owner :: "string option"
  cm_CreationDate :: string
  cm_Data :: "config_entry list"

record metadata =
  md_uid :: string
  md_name :: string
  md_namespace :: string
  md_labels :: "string obj option"
  md_annotations :: "string obj option"
  md_creationTimestamp :: string

record api_config_map =
  ac_metadata :: metadata
  ac_data :: "jstext obj option"
  ac_binaryData :: "jstext obj option"

definition entries_of :: "bool \<Rightarrow> jstext obj option \<Rightarrow> config_entry list" where
  "entries_of binary ob = (case ob of
       None \<Rightarrow> []
     | Some d \<Rightarrow> map (\<lambda>(k, v). \<lparr>en_Key = k, en_Value = v, en_IsBinary = binary\<rparr>) (obj_entries d))"

definition owner_of :: "metadata \<Rightarrow> string option" where
  "owner_of md = (case md_labels md of None \<Rightarrow> Some [] | Some ls \<Rightarrow> obj_get ls owner_label)"

definition apiToConfigMap :: "api_config_map \<Rightarrow> string option \<Rightarrow> config_map" where
  "apiToConfigMap data yaml =
     \<lparr>cm_Id = md_uid (ac_metadata data), cm_Name = md_name (ac_metadata data),
      cm_Namespace = md_namespace (ac_metadata data), cm_Yaml = (case yaml of None \<Rightarrow> [] | Some y \<Rightarrow> y),
      cm_Owner = owner_of (ac_metadata data), cm_CreationDate = md_creationTimestamp (ac_metadata data),
      cm_Data = entries_of False (ac_data data) @ entries_of True (ac_binaryData data)\<rparr>"

text \<open>The identifier of a default config map is the number 0, here the empty string: both are falsy.\<close>

definition defaultConfigMap :: "string \<Rightarrow> string \<Rightarrow> config_map" where
  "defaultConfigMap namespace name =
     \<lparr>cm_Id = [], cm_Name = name, cm_Namespace = namespace, cm_Yaml = [], cm_Owner = Some [], cm_CreationDate = [],
      cm_Data = []\<rparr>"

record config_payload =
  cp_uid :: string
  cp_name :: string
  cp_namespace :: string
  cp_labels :: "string option obj"
  cp_data :: "jstext obj"
  cp_binaryData :: "jstext obj"

definition put_data :: "config_entry list \<Rightarrow> jstext obj \<times> jstext obj" where
  "put_data es = fold (\<lambda>e (data, binary).
     if en_IsBinary e then (data, obj_set binary (en_Key e) (en_Value e))
     else (obj_set data (en_Key e) (en_Value e), binary)) es ([], [])"

text \<open>\<open>_.truncate\<close> makes an empty string of a missing owner.\<close>

definition createPayload :: "config_map \<Rightarrow> config_payload" where
  "createPayload cm =
     \<lparr>cp_uid = [], cp_name = cm_Name cm, cp_namespace = cm_Namespace cm,
      cp_labels = [(owner_label, Some (truncate63 (or_str (cm_Owner cm) [])))],
      cp_data = fst (put_data (cm_Data cm)), cp_binaryData = snd (put_data (cm_Data cm))\<rparr>"

definition updatePayload :: "config_map \<Rightarrow> config_payload" where
  "updatePayload cm =
     \<lparr>cp_uid = cm_Id cm, cp_name = cm_Name cm, cp_namespace = cm_Namespace cm,
      cp_labels = [(owner_label, cm_Owner cm)],
      cp_data = fst (put_data (cm_Data cm)), cp_binaryData = snd (put_data (cm_Data cm))\<rparr>"

record config_form =
  cf_Id :: string
  cf_Name :: string
  cf_NamespaceName :: string
  cf_Owner :: "string option"
  cf_Data :: "config_entry list"

definition configurationFormValuesToConfigMap :: "config_form \<Rightarrow> config_map" where
  "configurationFormValuesToConfigMap f =
     \<lparr>cm_Id = cf_Id f, cm_Name = cf_Name f, cm_Namespace = cf_NamespaceName f, cm_Yaml = [], cm_Owner = cf_Owner f,
      cm_CreationDate = [], cm_Data = cf_Data f\<rparr>"

section \<open>Secrets\<close>

record secret =
  sec_Id :: string
  sec_Name :: string
  sec_Namespace :: string
  sec_Owner :: "string option"
  sec_CreationDate :: string
  sec_IsRegistrySecret :: bool
  sec_Yaml :: string
  sec_Data :: "config_entry list"

record secret_payload =
  sp_name :: string
  sp_namespace :: string
  sp_labels :: "string option obj"
  sp_annotations :: "string obj"
  sp_data :: "jstext obj"
  sp_stringData :: "jstext obj"

text \<open>The keys of the binary entries are listed in an annotation, with a bar between two of them.\<close>

definition add_annotation :: "config_entry \<Rightarrow> string \<Rightarrow> string" where
  "add_annotation e annotation =
     (if en_IsBinary e then annotation @ (if annotation \<noteq> [] then ''|'' @ en_Key e else en_Key e) else annotation)"

definition secret_annotations :: "config_entry list \<Rightarrow> string obj" where
  "secret_annotations es =
     (let annotation = fold add_annotation es [] in if annotation \<noteq> [] then [(data_annotation, annotation)] else [])"

definition createSecretPayload :: "secret \<Rightarrow> secret_payload" where
  "createSecretPayload s =
     \<lparr>sp_name = sec_Name s, sp_namespace = sec_Namespace s,
      sp_labels = [(owner_label, Some (truncate63 (or_str (sec_Owner s) [])))],
      sp_annotations = secret_annotations (sec_Data s),
      sp_data = snd (put_data (sec_Data s)), sp_stringData = fst (put_data (sec_Data s))\<rparr>"

definition updateSecretPayload :: "secret \<Rightarrow> secret_payload" where
  "updateSecretPayload s =
     \<lparr>sp_name = sec_Name s, sp_namespace = sec_Namespace s, sp_labels = [(owner_label, sec_Owner s)],
      sp_annotations = secret_annotations (sec_Data s),
      sp_data = snd (put_data (sec_Data s)), sp_stringData = fst (put_data (sec_Data s))\<rparr>"

lemma secret_payload_simps [simp]:
  "sp_annotations (createSecretPayload s) = secret_annotations (sec_Data s)"
  "sp_data (createSecretPayload s) = snd (put_data (sec_Data s))"
  "sp_stringData (createSecretPayload s) = fst (put_data (sec_Data s))"
  by (simp_all add: createSecretPayload_def)

record api_secret =
  as_metadata :: metadata
  as_data :: "jstext obj option"

text \<open>\<open>_.includes\<close> of a string is a search for a part of it, and of \<open>undefined\<close> is false.\<close>

definition marked_binary :: "metadata \<Rightarrow> string \<Rightarrow> bool" where
  "marked_binary md key =
     (let annotations = (case md_annotations md of None \<Rightarrow> Some [] | Some as \<Rightarrow> obj_get as data_annotation)
      in case annotations of None \<Rightarrow> False | Some a \<Rightarrow> contains a key)"

definition secret_entry :: "metadata \<Rightarrow> string \<times> jstext \<Rightarrow> config_entry list \<Rightarrow> config_entry list js_result" where
  "secret_entry md kv es = (case kv of (key, v) \<Rightarrow>
     if marked_binary md key then Inr (es @ [\<lparr>en_Key = key, en_Value = v, en_IsBinary = True\<rparr>])
     else and_then (atob_text v) (\<lambda>t. Inr (es @ [\<lparr>en_Key = key, en_Value = t, en_IsBinary = False\<rparr>])))"

definition apiToSecret :: "api_secret \<Rightarrow> string option \<Rightarrow> secret js_result" where
  "apiToSecret data yaml =
     (let md = as_metadata data in
      and_then (fold_result (secret_entry md) (case as_data data of None \<Rightarrow> [] | Some d \<Rightarrow> obj_entries d) [])
        (\<lambda>es. Inr \<lparr>sec_Id = md_uid md, sec_Name = md_name md, sec_Namespace = md_namespace md, sec_Owner = owner_of md,
          sec_CreationDate = md_creationTimestamp md,
          sec_IsRegistrySecret = (case md_annotations md of
             None \<Rightarrow> False | Some as \<Rightarrow> truthy_str (obj_get as ''portainer.io/registry.id'')),
          sec_Yaml = (case yaml of None \<Rightarrow> [] | Some y \<Rightarrow> y), sec_Data = es\<rparr>))"

definition configurationFormValuesToSecret :: "config_form \<Rightarrow> secret" where
  "configurationFormValuesToSecret f =
     \<lparr>sec_Id = [], sec_Name = cf_Name f, sec_Namespace = cf_NamespaceName f, sec_Owner = cf_Owner f,
      sec_CreationDate = [], sec_IsRegistrySecret = False, sec_Yaml = [], sec_Data = cf_Data f\<rparr>"

section \<open>Configurations\<close>

datatype config_type = CONFIGMAP | SECRET

fun KubernetesConfigurationTypes :: "config_type \<Rightarrow> nat" where
  "KubernetesConfigurationTypes CONFIGMAP = 1"
| "KubernetesConfigurationTypes SECRET = 2"

record configuration =
  cg_Type :: config_type
  cg_Id :: string
  cg_Name :: string
  cg_Namespace :: string
  cg_CreationDate :: string
  cg_Yaml :: string
  cg_Owner :: "string option"
  cg_IsRegistrySecret :: bool
  cg_Data :: "jstext obj"

definition data_of :: "config_entry list \<Rightarrow> jstext obj" where
  "data_of es = fold (\<lambda>e d. obj_set d (en_Key e) (en_Value e)) es []"

definition secretToConfiguration :: "secret \<Rightarrow> configuration" where
  "secretToConfiguration s =
     \<lparr>cg_Type = SECRET, cg_Id = sec_Id s, cg_Name = sec_Name s, cg_Namespace = sec_Namespace s,
      cg_CreationDate = sec_CreationDate s, cg_Yaml = sec_Yaml s, cg_Owner = sec_Owner s,
      cg_IsRegistrySecret = sec_IsRegistrySecret s, cg_Data = data_of (sec_Data s)\<rparr>"

definition configMapToConfiguration :: "config_map \<Rightarrow> configuration" where
  "configMapToConfiguration c =
     \<lparr>cg_Type = CONFIGMAP, cg_Id = cm_Id c, cg_Name = cm_Name c, cg_Namespace = cm_Namespace c,
      cg_CreationDate = cm_CreationDate c, cg_Yaml = cm_Yaml c, cg_Owner = cm_Owner c,
      cg_IsRegistrySecret = False, cg_Data = data_of (cm_Data c)\<rparr>"

definition isSystemToken :: "configuration \<Rightarrow> bool" where
  "isSystemToken c = starts_with (cg_Name c) ''default-token-''"

definition isBinary :: "string \<Rightarrow> bool" where
  "isBinary encoding \<longleftrightarrow> encoding \<noteq> [] \<and> \<not> contains encoding ''ISO'' \<and> \<not> contains encoding ''UTF''"

definition isExternalConfiguration :: "configuration \<Rightarrow> bool" where
  "isExternalConfiguration c \<longleftrightarrow> \<not> truthy_str (cg_Owner c)"

text \<open>
  The entries of a form that is edited as YAML: \<open>parsed\<close> is what the parser returns, and an entry is binary where
  the form had a binary entry of the same key.
\<close>

definition parseYaml :: "jstext obj \<Rightarrow> config_entry list \<Rightarrow> config_entry list" where
  "parseYaml parsed old =
     map (\<lambda>(k, v). \<lparr>en_Key = k, en_Value = v,
       en_IsBinary = (case find (\<lambda>e. en_Key e = k) old of None \<Rightarrow> False | Some e \<Rightarrow> en_IsBinary e)\<rparr>) (obj_entries parsed)"

definition parseData :: "(jstext obj \<Rightarrow> string) \<Rightarrow> config_entry list \<Rightarrow> string" where
  "parseData stringify es = (if es = [] then [] else stringify (data_of es))"

section \<open>Access policies of the namespaces\<close>

text \<open>
  The config map of the access policies: each value is JSON text, which is parsed, changed and written again.
  \<open>parse\<close> and \<open>stringify\<close> stand for \<open>JSON.parse\<close>, \<open>None\<close> where it throws, and \<open>JSON.stringify\<close>.
\<close>

definition access_key :: string where
  "access_key = ''NamespaceAccessPolicies''"

datatype access_item = UserAccess nat | TeamAccess nat

definition parseJSONData :: "(string \<Rightarrow> json option) \<Rightarrow> json obj \<Rightarrow> json obj" where
  "parseJSONData parse data = map (\<lambda>(k, v). (k, case v of
       JStr s \<Rightarrow> (case parse s of None \<Rightarrow> JStr s | Some j \<Rightarrow> j)
     | _ \<Rightarrow> v)) data"

definition role_policies :: "nat list \<Rightarrow> json" where
  "role_policies ids = JObj (obj_entries (obj_of (map (\<lambda>i. (show_nat i, JObj [(''RoleId'', JNum 0)])) ids)))"

fun user_id :: "access_item \<Rightarrow> nat option" where
  "user_id (UserAccess i) = Some i"
| "user_id (TeamAccess i) = None"

fun team_id :: "access_item \<Rightarrow> nat option" where
  "team_id (TeamAccess i) = Some i"
| "team_id (UserAccess i) = None"

definition namespace_policies :: "access_item list \<Rightarrow> json" where
  "namespace_policies items = JObj
     [(''UserAccessPolicies'', role_policies (List.map_filter user_id items)),
      (''TeamAccessPolicies'', role_policies (List.map_filter team_id items))]"

definition set_namespace :: "json \<Rightarrow> string \<Rightarrow> json \<Rightarrow> json js_result" where
  "set_namespace policies ns v = (case policies of
       JObj m \<Rightarrow> Inr (JObj (obj_entries (obj_set m ns v)))
     | JArr xs \<Rightarrow> Inr (JArr xs)
     | _ \<Rightarrow> Inl TypeError)"

definition modifiyNamespaceAccesses ::
    "(json \<Rightarrow> string) \<Rightarrow> json obj \<Rightarrow> string \<Rightarrow> access_item list \<Rightarrow> json obj js_result" where
  "modifiyNamespaceAccesses stringify data ns items = (case obj_get data access_key of
       None \<Rightarrow> Inl TypeError
     | Some policies \<Rightarrow> and_then (set_namespace policies ns (namespace_policies items)) (\<lambda>p.
         Inr (map (\<lambda>(k, v). (k, JStr (stringify v))) (obj_set data access_key p))))"

section \<open>Lemmas\<close>

lemma label_chars:
  assumes "c \<in> set (ownerToLabel owner)"
  shows "label_char c \<or> label_sign c"
proof -
  have "set (rev (dropWhile P (rev (dropWhile P (truncate63 xs))))) \<subseteq> set xs" for P and xs :: string
    unfolding truncate63_def by (auto dest!: set_dropWhileD in_set_takeD)
  with assms have "c \<in> set (map (\<lambda>c. if label_char c \<or> label_sign c then c else CHR ''.'') owner)"
    unfolding ownerToLabel_def Let_def by blast
  then show ?thesis by (auto simp: label_sign_def)
qed

lemma hd_rev_dropWhile: "rev (dropWhile P (rev xs)) \<noteq> [] \<Longrightarrow> hd (rev (dropWhile P (rev xs))) = hd xs"
proof -
  have "xs = rev (dropWhile P (rev xs)) @ rev (takeWhile P (rev xs))"
    by (metis rev_append rev_rev_ident takeWhile_dropWhile_id)
  then show "rev (dropWhile P (rev xs)) \<noteq> [] \<Longrightarrow> ?thesis" by (metis hd_append2)
qed

lemma put_data_get:
  "obj_get (fst (put_data es)) k =
     map_option en_Value (map_of (rev (map (\<lambda>e. (en_Key e, e)) (filter (\<lambda>e. \<not> en_IsBinary e) es))) k)"
  "obj_get (snd (put_data es)) k =
     map_option en_Value (map_of (rev (map (\<lambda>e. (en_Key e, e)) (filter en_IsBinary es))) k)"
proof -
  have "obj_get (fst (fold (\<lambda>e (data, binary).
       if en_IsBinary e then (data, obj_set binary (en_Key e) (en_Value e))
       else (obj_set data (en_Key e) (en_Value e), binary)) es st)) k =
     (case map_of (rev (map (\<lambda>e. (en_Key e, e)) (filter (\<lambda>e. \<not> en_IsBinary e) es))) k of
        None \<Rightarrow> obj_get (fst st) k | Some e \<Rightarrow> Some (en_Value e))"
   "obj_get (snd (fold (\<lambda>e (data, binary).
       if en_IsBinary e then (data, obj_set binary (en_Key e) (en_Value e))
       else (obj_set data (en_Key e) (en_Value e), binary)) es st)) k =
     (case map_of (rev (map (\<lambda>e. (en_Key e, e)) (filter en_IsBinary es))) k of
        None \<Rightarrow> obj_get (snd st) k | Some e \<Rightarrow> Some (en_Value e))" for st
    by (induction es arbitrary: st) (auto simp: map_add_def split: option.splits prod.splits)
  from this [of "([], [])"] show
    "obj_get (fst (put_data es)) k =
       map_option en_Value (map_of (rev (map (\<lambda>e. (en_Key e, e)) (filter (\<lambda>e. \<not> en_IsBinary e) es))) k)"
    "obj_get (snd (put_data es)) k =
       map_option en_Value (map_of (rev (map (\<lambda>e. (en_Key e, e)) (filter en_IsBinary es))) k)"
    by (simp_all add: put_data_def obj_get_def split: option.splits)
qed

lemma map_of_keyed:
  assumes "distinct (map f es)"
  shows "map_of (rev (map (\<lambda>e. (f e, e)) (filter P es))) k = Some e \<longleftrightarrow> e \<in> set es \<and> P e \<and> f e = k"
proof -
  let ?kes = "map (\<lambda>e. (f e, e)) (filter P es)"
  have "distinct (map f (filter P es))" using assms by (simp add: distinct_map_filter)
  then have "distinct (map fst (rev ?kes))" by (simp add: comp_def rev_map [symmetric])
  from map_of_eq_Some_iff [OF this, of k e] show ?thesis by auto
qed

lemma put_data_entry:
  assumes "distinct (map en_Key es)"
  shows "obj_get (fst (put_data es)) k = Some v \<longleftrightarrow> \<lparr>en_Key = k, en_Value = v, en_IsBinary = False\<rparr> \<in> set es"
    "obj_get (snd (put_data es)) k = Some v \<longleftrightarrow> \<lparr>en_Key = k, en_Value = v, en_IsBinary = True\<rparr> \<in> set es"
proof -
  have one: "(\<exists>z. (z \<in> set es \<and> en_IsBinary z = b \<and> en_Key z = k) \<and> en_Value z = v) \<longleftrightarrow>
      \<lparr>en_Key = k, en_Value = v, en_IsBinary = b\<rparr> \<in> set es" for b
  proof
    assume "\<exists>z. (z \<in> set es \<and> en_IsBinary z = b \<and> en_Key z = k) \<and> en_Value z = v"
    then obtain z where z: "z \<in> set es" "en_IsBinary z = b" "en_Key z = k" "en_Value z = v" by blast
    have "z = \<lparr>en_Key = k, en_Value = v, en_IsBinary = b\<rparr>" using z(2-4) by (cases z) simp
    with z(1) show "\<lparr>en_Key = k, en_Value = v, en_IsBinary = b\<rparr> \<in> set es" by simp
  qed force
  show "obj_get (fst (put_data es)) k = Some v \<longleftrightarrow> \<lparr>en_Key = k, en_Value = v, en_IsBinary = False\<rparr> \<in> set es"
    unfolding put_data_get map_option_eq_Some map_of_keyed [OF assms] using one [of False] by simp
  show "obj_get (snd (put_data es)) k = Some v \<longleftrightarrow> \<lparr>en_Key = k, en_Value = v, en_IsBinary = True\<rparr> \<in> set es"
    unfolding put_data_get map_option_eq_Some map_of_keyed [OF assms] using one [of True] by simp
qed

text \<open>The annotation lists the keys of the binary entries.\<close>

lemma annotation_fold:
  assumes "\<forall>e \<in> set es. en_Key e \<noteq> []" and "[] \<notin> set ks"
  shows "fold add_annotation es (join ''|'' ks) = join ''|'' (ks @ map en_Key (filter en_IsBinary es))"
  using assms
proof (induction es arbitrary: ks)
  case (Cons e es)
  have "join ''|'' ks = [] \<longleftrightarrow> ks = []"
    using Cons.prems(2) by (cases "(''|'', ks)" rule: join.cases) (auto simp: join_Cons)
  moreover have "join ''|'' (ks @ [k]) = (if ks = [] then k else join ''|'' ks @ ''|'' @ k)" for k
    by (induction ks) (auto simp: join_Cons)
  ultimately have "add_annotation e (join ''|'' ks) = join ''|'' (ks @ (if en_IsBinary e then [en_Key e] else []))"
    by (auto simp: add_annotation_def)
  then show ?case using Cons.IH [of "ks @ (if en_IsBinary e then [en_Key e] else [])"] Cons.prems by auto
qed simp

lemma contains_join: "k \<in> set ks \<Longrightarrow> contains (join sep ks) k"
proof (induction sep ks rule: join.induct)
  case (3 sep w v ws)
  show ?case
  proof (cases "k = w")
    case True
    then show ?thesis by (simp add: contains_iff) (metis append_Nil)
  next
    case False
    with 3 obtain a b where "join sep (v # ws) = a @ k @ b" by (auto simp: contains_iff)
    then have "join sep (w # v # ws) = (w @ sep @ a) @ k @ b" by simp
    then show ?thesis unfolding contains_iff by blast
  qed
qed (simp_all add: contains_iff, metis append_Nil append_Nil2)

definition read_entry :: "metadata \<Rightarrow> string \<times> jstext \<Rightarrow> config_entry js_result" where
  "read_entry md kv =
     (if marked_binary md (fst kv) then Inr \<lparr>en_Key = fst kv, en_Value = snd kv, en_IsBinary = True\<rparr>
      else and_then (atob_text (snd kv)) (\<lambda>t. Inr \<lparr>en_Key = fst kv, en_Value = t, en_IsBinary = False\<rparr>))"

lemma secret_entry_read: "secret_entry md kv es = and_then (read_entry md kv) (\<lambda>e. Inr (es @ [e]))"
  by (cases "atob_text (snd kv)") (auto simp: secret_entry_def read_entry_def split: prod.split)

lemma read_entries:
  "fold_result (secret_entry md) kvs es = Inr es' \<Longrightarrow> set es' = set es \<union> {e. \<exists>kv \<in> set kvs. read_entry md kv = Inr e}"
proof (induction kvs arbitrary: es)
  case (Cons kv kvs)
  from Cons.prems obtain u where u: "secret_entry md kv es = Inr u" and rest: "fold_result (secret_entry md) kvs u = Inr es'"
    by (auto elim: and_then_InrE)
  from u obtain e where e: "read_entry md kv = Inr e" "u = es @ [e]"
    by (cases "read_entry md kv") (simp_all add: secret_entry_read)
  from Cons.IH [OF rest] e show ?case by auto
qed simp

lemma atob_text_of: "atob_text (text_of s) = (case atob s of None \<Rightarrow> Inl (ThrownError ''InvalidCharacterError'') | Some bs \<Rightarrow> Inr bs)"
proof -
  have "list_all (\<lambda>c. c < 256) (text_of s)" by (simp add: text_of_def list_all_iff)
  moreover have "map char_of (text_of s) = s" by (simp add: text_of_def comp_def)
  ultimately show ?thesis by (simp add: atob_text_def)
qed

section \<open>Properties\<close>

text \<open>
  What the API server answers for a config map, and for a secret: the texts of \<open>stringData\<close> are written over the
  data as the Base64 form of their UTF-8 bytes.
\<close>

definition stored_map :: "config_payload \<Rightarrow> api_config_map \<Rightarrow> bool" where
  "stored_map p a \<longleftrightarrow> ac_data a = (if cp_data p = [] then None else Some (cp_data p)) \<and>
     ac_binaryData a = (if cp_binaryData p = [] then None else Some (cp_binaryData p))"

definition stored_secret :: "secret_payload \<Rightarrow> api_secret \<Rightarrow> bool" where
  "stored_secret p a \<longleftrightarrow>
     md_annotations (as_metadata a) = (if sp_annotations p = [] then None else Some (sp_annotations p)) \<and>
     (\<exists>d. as_data a = Some d \<and> obj_ok d \<and> (\<forall>k. obj_get d k = (case obj_get (sp_stringData p) k of
        Some t \<Rightarrow> Some (text_of (btoa (utf8 t))) | None \<Rightarrow> obj_get (sp_data p) k)))"

text \<open>
  A config map with different keys is read back with the entries it was created with: keys, values and the mark
  of binary data, the texts before the binary ones.
\<close>

theorem config_map_round_trip:
  assumes "distinct (map en_Key (cm_Data cm))" and "stored_map (createPayload cm) raw"
  shows "set (cm_Data (apiToConfigMap raw yaml)) = set (cm_Data cm) \<and>
    sorted (map en_IsBinary (cm_Data (apiToConfigMap raw yaml)))"
proof -
  let ?d = "put_data (cm_Data cm)"
  have entries: "set (entries_of b (if d = [] then None else Some d)) =
      {e. obj_get d (en_Key e) = Some (en_Value e) \<and> en_IsBinary e = b}" for b and d :: "jstext obj"
  proof (rule set_eqI)
    fix e :: config_entry
    show "e \<in> set (entries_of b (if d = [] then None else Some d)) \<longleftrightarrow>
        e \<in> {e. obj_get d (en_Key e) = Some (en_Value e) \<and> en_IsBinary e = b}"
      by (cases e) (auto simp: entries_of_def set_obj_entries image_iff obj_get_def)
  qed
  have raw: "ac_data raw = (if fst ?d = [] then None else Some (fst ?d))"
    "ac_binaryData raw = (if snd ?d = [] then None else Some (snd ?d))"
    using assms(2) by (simp_all add: stored_map_def createPayload_def)
  have "set (cm_Data (apiToConfigMap raw yaml)) = set (cm_Data cm)"
  proof (rule set_eqI)
    fix e
    show "e \<in> set (cm_Data (apiToConfigMap raw yaml)) \<longleftrightarrow> e \<in> set (cm_Data cm)"
      unfolding apiToConfigMap_def config_map.simps set_append raw entries
      by (cases e; cases "en_IsBinary e") (simp_all add: put_data_entry [OF assms(1)])
  qed
  moreover have "sorted (map en_IsBinary (entries_of False d @ entries_of True d'))" for d d'
    by (auto simp: sorted_append entries_of_def comp_def case_prod_unfold map_replicate_const split: option.split)
  ultimately show ?thesis by (simp add: apiToConfigMap_def)
qed

theorem config_map_round_trip_witness:
  "set (cm_Data (apiToConfigMap
     \<lparr>ac_metadata = \<lparr>md_uid = ''7'', md_name = ''web'', md_namespace = ''default'', md_labels = None,
        md_annotations = None, md_creationTimestamp = []\<rparr>,
      ac_data = Some [(''port'', [56, 48])], ac_binaryData = Some [(''icon'', [65, 65])]\<rparr> None)) =
   {\<lparr>en_Key = ''icon'', en_Value = [65, 65], en_IsBinary = True\<rparr>,
    \<lparr>en_Key = ''port'', en_Value = [56, 48], en_IsBinary = False\<rparr>}"
proof -
  let ?cm = "(defaultConfigMap ''default'' ''web'')\<lparr>cm_Data :=
    [\<lparr>en_Key = ''icon'', en_Value = [65, 65], en_IsBinary = True\<rparr>,
     \<lparr>en_Key = ''port'', en_Value = [56, 48], en_IsBinary = False\<rparr>]\<rparr>"
  show ?thesis
    by (subst config_map_round_trip [of ?cm, THEN conjunct1])
       (simp_all add: stored_map_def createPayload_def put_data_def)
qed

text \<open>
  An entry of a secret is read back as it was written exactly when it is binary, or its key is no part of the
  list of the binary keys and its value is plain ASCII: a text key that occurs in the list is taken for binary,
  and any other character comes back as the bytes of its UTF-8 form.
\<close>

theorem secret_entry_kept_iff:
  assumes "distinct (map en_Key (sec_Data s))" and "\<forall>e \<in> set (sec_Data s). en_Key e \<noteq> [] \<and> list_all code_point (en_Value e)"
    and "stored_secret (createSecretPayload s) raw" and "apiToSecret raw yaml = Inr t" and "e \<in> set (sec_Data s)"
  shows "e \<in> set (sec_Data t) \<longleftrightarrow> en_IsBinary e \<or>
    \<not> contains (join ''|'' (map en_Key (filter en_IsBinary (sec_Data s)))) (en_Key e) \<and> list_all (\<lambda>c. c < 128) (en_Value e)"
proof -
  let ?es = "sec_Data s" and ?list = "join ''|'' (map en_Key (filter en_IsBinary (sec_Data s)))" and ?k = "en_Key e"
  have k: "?k \<noteq> []" and points: "list_all code_point (en_Value e)" using assms(2,5) by auto
  obtain d where d: "as_data raw = Some d" "obj_ok d" and get: "\<And>k. obj_get d k = (case obj_get (fst (put_data ?es)) k of
      Some t \<Rightarrow> Some (text_of (btoa (utf8 t))) | None \<Rightarrow> obj_get (snd (put_data ?es)) k)"
    using assms(3) unfolding stored_secret_def secret_payload_simps by auto
  have annotation: "fold add_annotation ?es [] = ?list"
    using annotation_fold [of ?es "[]"] assms(2) by simp
  have annotations: "md_annotations (as_metadata raw) =
      (if secret_annotations ?es = [] then None else Some (secret_annotations ?es))"
    using assms(3) unfolding stored_secret_def secret_payload_simps by simp
  have marked: "marked_binary (as_metadata raw) ?k \<longleftrightarrow> contains ?list ?k"
  proof (cases "?list = []")
    case True
    have "\<not> contains [] ?k" using k by (simp add: contains_iff)
    then show ?thesis using True
      by (simp add: marked_binary_def annotations secret_annotations_def annotation)
  next
    case False
    then have "secret_annotations ?es = [(data_annotation, ?list)]"
      unfolding secret_annotations_def Let_def annotation by (rule if_P)
    then show ?thesis by (simp only: marked_binary_def annotations list.distinct if_False option.case obj_get_def
          map_of.simps fun_upd_same Let_def fst_conv snd_conv)
  qed
  have mem: "e \<in> set (sec_Data t) \<longleftrightarrow>
      (\<exists>v. obj_get d ?k = Some v \<and> read_entry (as_metadata raw) (?k, v) = Inr e)"
  proof -
    obtain es where es: "fold_result (secret_entry (as_metadata raw)) (obj_entries d) [] = Inr es" and "sec_Data t = es"
      using assms(4) d(1) by (auto simp: apiToSecret_def Let_def elim!: and_then_InrE)
    moreover have "k' = en_Key e'" if "read_entry (as_metadata raw) (k', v) = Inr e'" for k' v e'
      using that by (cases "atob_text v") (auto simp: read_entry_def split: if_splits)
    ultimately show ?thesis using read_entries [OF es] by (auto simp: set_obj_entries)
  qed
  show ?thesis
  proof (cases "en_IsBinary e")
    case True
    then have "obj_get (snd (put_data ?es)) ?k = Some (en_Value e)"
      using put_data_entry(2) [OF assms(1)] assms(5) by (cases e) simp
    moreover have "obj_get (fst (put_data ?es)) ?k = None"
    proof (rule ccontr)
      assume "obj_get (fst (put_data ?es)) ?k \<noteq> None"
      then obtain v where "\<lparr>en_Key = ?k, en_Value = v, en_IsBinary = False\<rparr> \<in> set ?es"
        using put_data_entry(1) [OF assms(1), of ?k] by auto
      with assms(1,5) have "\<lparr>en_Key = ?k, en_Value = v, en_IsBinary = False\<rparr> = e"
        by (intro inj_onD [of en_Key "set ?es"]) (auto simp: distinct_map)
      with True show False by (cases e) simp
    qed
    moreover have "contains ?list ?k" using True assms(5) by (intro contains_join) auto
    moreover have "\<lparr>en_Key = ?k, en_Value = en_Value e, en_IsBinary = True\<rparr> = e" using True by (cases e) simp
    ultimately show ?thesis using True marked by (simp add: mem get read_entry_def)
  next
    case False
    then have stored: "obj_get (fst (put_data ?es)) ?k = Some (en_Value e)"
      using put_data_entry(1) [OF assms(1)] assms(5) by (cases e) simp
    have decoded: "atob_text (text_of (btoa (utf8 (en_Value e)))) = Inr (utf8 (en_Value e))"
      by (simp add: atob_text_of atob_btoa utf8_bytes points)
    have "\<lparr>en_Key = ?k, en_Value = v, en_IsBinary = False\<rparr> = e \<longleftrightarrow> v = en_Value e" for v
      using False by (cases e) simp
    moreover have "\<lparr>en_Key = ?k, en_Value = v, en_IsBinary = True\<rparr> \<noteq> e" for v using False by (cases e) simp
    ultimately show ?thesis using False marked utf8_same_iff [of "en_Value e"]
      by (simp add: mem get stored read_entry_def decoded)
  qed
qed

definition cert_secret :: secret where
  "cert_secret = \<lparr>sec_Id = [], sec_Name = ''cert'', sec_Namespace = ''default'', sec_Owner = None, sec_CreationDate = [],
     sec_IsRegistrySecret = False, sec_Yaml = [], sec_Data =
       [\<lparr>en_Key = ''cert.pem'', en_Value = [81, 81, 61, 61], en_IsBinary = True\<rparr>,
        \<lparr>en_Key = ''cert'', en_Value = [97], en_IsBinary = False\<rparr>]\<rparr>"

definition cert_answer :: api_secret where
  "cert_answer = \<lparr>as_metadata = \<lparr>md_uid = ''1'', md_name = ''cert'', md_namespace = ''default'', md_labels = None,
       md_annotations = Some [(data_annotation, ''cert.pem'')], md_creationTimestamp = []\<rparr>,
     as_data = Some [(''cert.pem'', [81, 81, 61, 61]), (''cert'', text_of (btoa [97]))]\<rparr>"

theorem secret_entry_kept_iff_witness:
  "\<exists>t. apiToSecret cert_answer None = Inr t \<and>
     \<lparr>en_Key = ''cert'', en_Value = [97], en_IsBinary = False\<rparr> \<notin> set (sec_Data t)"
proof -
  have stored: "stored_secret (createSecretPayload cert_secret) cert_answer"
    by (auto simp: stored_secret_def cert_secret_def cert_answer_def secret_annotations_def add_annotation_def put_data_def
        obj_get_def obj_ok_def utf8_def)
  have plain: "obj_entries [(''cert.pem'', v), (''cert'', w)] = [(''cert.pem'', v), (''cert'', w)]" for v w :: jstext
    by (rule obj_entries_plain) (simp_all add: obj_ok_def not_array_index is_digit_def)
  have part: "contains ''cert.pem'' ''cert''" "contains ''cert.pem'' ''cert.pem''"
    by (simp_all add: contains_def find_sub_Cons)
  obtain t where t: "apiToSecret cert_answer None = Inr t"
    by (simp add: apiToSecret_def cert_answer_def secret_entry_def marked_binary_def plain part obj_get_def)
  have "\<lparr>en_Key = ''cert'', en_Value = [97], en_IsBinary = False\<rparr> \<notin> set (sec_Data t)"
    by (subst secret_entry_kept_iff [OF _ _ stored t]) (simp_all add: cert_secret_def code_point_def part)
  with t show ?thesis by blast
qed

text \<open>
  The label made from the name of an owner is one that Kubernetes accepts, and making it again changes nothing.
\<close>

theorem owner_label_valid: "valid_label (ownerToLabel owner) \<and> ownerToLabel (ownerToLabel owner) = ownerToLabel owner"
proof -
  let ?l = "ownerToLabel owner"
  define m where "m = truncate63 (map (\<lambda>c. if label_char c \<or> label_sign c then c else CHR ''.'') owner)"
  have l: "?l = rev (dropWhile label_sign (rev (dropWhile label_sign m)))"
    by (simp add: ownerToLabel_def m_def Let_def)
  have chars: "list_all (\<lambda>c. label_char c \<or> label_sign c) ?l" using label_chars by (auto simp: list_all_iff)
  have len: "length ?l \<le> 63"
  proof -
    have "length m \<le> 63" by (simp add: m_def truncate63_def)
    then show ?thesis using length_dropWhile_le [of label_sign m] length_dropWhile_le [of label_sign "rev (dropWhile label_sign m)"]
      unfolding l length_rev by linarith
  qed
  have sign: "\<not> label_sign (hd ?l)" "\<not> label_sign (last ?l)" if "?l \<noteq> []"
  proof -
    have ne: "dropWhile label_sign (rev (dropWhile label_sign m)) \<noteq> []" using that by (simp add: l)
    then show "\<not> label_sign (last ?l)" unfolding l by (simp add: last_rev hd_dropWhile)
    have "dropWhile label_sign m \<noteq> []"
    proof
      assume "dropWhile label_sign m = []"
      with ne show False by (simp only: rev.simps dropWhile.simps)
    qed
    moreover have "hd ?l = hd (dropWhile label_sign m)" unfolding l
      using hd_rev_dropWhile [of label_sign "dropWhile label_sign m"] that l by simp
    ultimately show "\<not> label_sign (hd ?l)" by (simp add: hd_dropWhile)
  qed
  have valid: "valid_label ?l" using chars len sign by (auto simp: valid_label_def list_all_iff)
  have "map (\<lambda>c. if label_char c \<or> label_sign c then c else CHR ''.'') ?l = ?l"
    using chars by (induction ?l) (auto simp: list_all_iff intro!: map_idI)
  moreover have "truncate63 ?l = ?l" using len by (simp add: truncate63_def)
  moreover have "dropWhile label_sign ?l = ?l" "dropWhile label_sign (rev ?l) = rev ?l"
    using sign by (cases "?l = []"; simp add: dropWhile_eq_self_iff hd_rev)+
  ultimately have "ownerToLabel ?l = ?l" by (simp add: ownerToLabel_def [of ?l] Let_def)
  with valid show ?thesis ..
qed

text \<open>
  Changing the access to a namespace leaves the policies of the other namespaces and every other value of the
  config map as they were; the namespace lets in the users and teams given, and no others.
\<close>

theorem namespace_access_frame:
  assumes "\<forall>j \<in> insert (JObj (obj_entries (obj_set policies ns (namespace_policies items)))) (snd ` set data).
      parse (stringify j) = Some j"
    and "obj_get data access_key = Some (JObj policies)" and "obj_ok policies"
    and "obj_ok data"
  shows "\<exists>written changed. modifiyNamespaceAccesses stringify data ns items = Inr written \<and>
    obj_get (parseJSONData parse written) access_key = Some (JObj changed) \<and>
    (\<forall>k. map_of changed k = (if k = ns then Some (namespace_policies items) else map_of policies k)) \<and>
    (\<forall>k. k \<noteq> access_key \<longrightarrow> obj_get (parseJSONData parse written) k = obj_get data k)"
proof -
  let ?p = "JObj (obj_entries (obj_set policies ns (namespace_policies items)))"
  let ?written = "map (\<lambda>(k, v). (k, JStr (stringify v))) (obj_set data access_key ?p)"
  have "modifiyNamespaceAccesses stringify data ns items = Inr ?written"
    using assms(2) by (simp add: modifiyNamespaceAccesses_def set_namespace_def)
  moreover have "parseJSONData parse ?written = obj_set data access_key ?p"
  proof -
    have "snd ` set (obj_set data access_key ?p) \<subseteq> insert ?p (snd ` set data)"
      by (induction data access_key ?p rule: obj_set.induct) auto
    with assms(1) have "parse (stringify (snd kv)) = Some (snd kv)" if "kv \<in> set (obj_set data access_key ?p)" for kv
      using that by blast
    then have "map (\<lambda>kv. (fst kv, case parse (stringify (snd kv)) of None \<Rightarrow> JStr (stringify (snd kv)) | Some j \<Rightarrow> j))
        (obj_set data access_key ?p) = obj_set data access_key ?p" by (intro map_idI) simp
    then show ?thesis by (simp add: parseJSONData_def case_prod_unfold comp_def)
  qed
  moreover have "map_of (obj_entries (obj_set policies ns (namespace_policies items))) k =
      (if k = ns then Some (namespace_policies items) else map_of policies k)" for k
    using assms(3) by (simp add: map_of_obj_entries) (simp add: obj_get_def)
  ultimately show ?thesis using object.get_put by auto
qed

definition dev_policies :: json where
  "dev_policies = JObj [(''prod'', namespace_policies [UserAccess 3])]"

theorem namespace_access_frame_witness:
  "\<exists>written changed. modifiyNamespaceAccesses (\<lambda>j. if j = JObj [] then ''0'' else ''1'')
      [(access_key, JObj [])] ''prod'' [UserAccess 3] = Inr written \<and>
    obj_get (parseJSONData (\<lambda>s. Some (if s = ''0'' then JObj [] else dev_policies)) written) access_key =
      Some (JObj changed) \<and>
    map_of changed ''prod'' = Some (namespace_policies [UserAccess 3])"
proof -
  let ?stringify = "\<lambda>j. if j = JObj [] then ''0'' else ''1''" and ?data = "[(access_key, JObj [])]"
  let ?parse = "\<lambda>s. Some (if s = ''0'' then JObj [] else dev_policies)"
  have kept: "\<forall>j \<in> insert (JObj (obj_entries (obj_set [] ''prod'' (namespace_policies [UserAccess 3])))) (snd ` set ?data).
      ?parse (?stringify j) = Some j"
    by (simp add: dev_policies_def)
  have get: "obj_get ?data access_key = Some (JObj [])" by (simp add: obj_get_def)
  have ok: "obj_ok ([] :: json obj)" "obj_ok ?data" by (simp_all add: obj_ok_def)
  note frame = namespace_access_frame [OF kept get ok]
  show ?thesis
    by (rule exE [OF frame], elim exE conjE, intro exI conjI, assumption, assumption) simp
qed

section \<open>The configuration service\<close>

text \<open>
  \<open>app/kubernetes/services/configMapService.js\<close> and \<open>configurationService.js\<close>. A request ends with an answer or
  with the status of an error. A config map is looked up as JSON and as YAML; it is taken from the first answer, and
  made up where both are missing.
\<close>

definition getConfigMap :: "string \<Rightarrow> string \<Rightarrow> nat + api_config_map \<Rightarrow> nat + string \<Rightarrow> config_map js_result" where
  "getConfigMap namespace name raw yaml =
     (case raw of
        Inr a \<Rightarrow> Inr (apiToConfigMap a (case yaml of Inl _ \<Rightarrow> None | Inr y \<Rightarrow> Some y))
      | Inl e \<Rightarrow>
          if e = 404 \<and> yaml = Inl 404 then Inr (defaultConfigMap namespace name)
          else Inl (ThrownError ''Unable to retrieve config map''))"

definition getSecret :: "nat + api_secret \<Rightarrow> nat + string \<Rightarrow> secret js_result" where
  "getSecret raw yaml = (case (raw, yaml) of
       (Inr a, Inr y) \<Rightarrow> (case apiToSecret a (Some y) of
           Inr s \<Rightarrow> Inr s | Inl _ \<Rightarrow> Inl (ThrownError ''Unable to retrieve secret''))
     | _ \<Rightarrow> Inl (ThrownError ''Unable to retrieve secret''))"

text \<open>The secret of the name goes first; without one, a config map that could not be read is a \<open>TypeError\<close>.\<close>

definition getConfiguration :: "config_map js_result \<Rightarrow> secret js_result \<Rightarrow> configuration js_result" where
  "getConfiguration configMap secret = (case secret of
       Inr s \<Rightarrow> Inr (secretToConfiguration s)
     | Inl _ \<Rightarrow> (case configMap of Inr c \<Rightarrow> Inr (configMapToConfiguration c) | Inl _ \<Rightarrow> Inl TypeError))"

definition getAllConfigurations :: "(config_map list \<times> secret list) list \<Rightarrow> configuration list" where
  "getAllConfigurations namespaces =
     concat (map (\<lambda>(cs, ss). map configMapToConfiguration cs @ map secretToConfiguration ss) namespaces)"

datatype config_request =
    CreateMap config_payload
  | UpdateMap config_payload
  | DeleteMap string string
  | CreateSecret secret_payload
  | UpdateSecret string secret_payload
  | DeleteSecret string string

definition createConfiguration :: "config_type \<Rightarrow> config_form \<Rightarrow> config_request" where
  "createConfiguration ty f =
     (let f = f\<lparr>cf_Owner := Some (ownerToLabel (or_str (cf_Owner f) []))\<rparr> in
      case ty of
        CONFIGMAP \<Rightarrow> CreateMap (createPayload (configurationFormValuesToConfigMap f))
      | SECRET \<Rightarrow> CreateSecret (createSecretPayload (configurationFormValuesToSecret f)))"

text \<open>A config map without an identifier is created instead.\<close>

definition updateConfigMap :: "config_map \<Rightarrow> config_request" where
  "updateConfigMap cm = (if cm_Id cm = [] then CreateMap (createPayload cm) else UpdateMap (updatePayload cm))"

definition updateConfiguration :: "config_type \<Rightarrow> config_form \<Rightarrow> configuration \<Rightarrow> config_request" where
  "updateConfiguration ty f cfg = (case ty of
       CONFIGMAP \<Rightarrow> updateConfigMap ((configurationFormValuesToConfigMap f)\<lparr>cm_Owner := cg_Owner cfg\<rparr>)
     | SECRET \<Rightarrow> UpdateSecret (sec_Name (configurationFormValuesToSecret f))
         (updateSecretPayload ((configurationFormValuesToSecret f)\<lparr>sec_Owner := cg_Owner cfg\<rparr>)))"

definition deleteConfiguration :: "configuration \<Rightarrow> config_request" where
  "deleteConfiguration cfg = (case cg_Type cfg of
       CONFIGMAP \<Rightarrow> DeleteMap (cg_Namespace cfg) (cg_Name cfg)
     | SECRET \<Rightarrow> DeleteSecret (cg_Namespace cfg) (cg_Name cfg))"

end
