(* ===== verification/DockerConfigs.thy ===== *)
theory DockerConfigs
  imports DockerModels Base64
begin

text \<open>
  Configs and secrets of a swarm: the model \<open>app/docker/models/config.js\<close>, and what the pages that create them send
  (\<open>app/docker/views/configs/create/createConfigController.js\<close>, \<open>secrets/create/createSecretController.js\<close>).
\<close>

section \<open>The model\<close>

text \<open>
  Every byte is written as a percent escape and the escapes are decoded as UTF-8; bytes that are no UTF-8 are shown
  as they are. Text that is no Base64 throws in both branches.
\<close>

definition b64DecodeUnicode :: "string \<Rightarrow> nat list js_result" where
  "b64DecodeUnicode str = (case atob str of
       None \<Rightarrow> Inl (ThrownError ''InvalidCharacterError'')
     | Some bytes \<Rightarrow> Inr (case utf8_decode bytes of Some t \<Rightarrow> t | None \<Rightarrow> bytes))"

record raw_config =
  rf_ID :: string
  rf_CreatedAt :: string
  rf_UpdatedAt :: string
  rf_Version :: nat
  rf_Name :: string
  rf_Labels :: "string obj option"
  rf_Data :: string
  rf_Portainer :: "portainer_part option"

record config_view =
  cv_Id :: string
  cv_CreatedAt :: string
  cv_UpdatedAt :: string
  cv_Version :: nat
  cv_Name :: string
  cv_Labels :: "string obj option"
  cv_Data :: "nat list"
  cv_ResourceControl :: "rc_view option"

definition ConfigViewModel :: "raw_config \<Rightarrow> config_view js_result" where
  "ConfigViewModel data = and_then (b64DecodeUnicode (rf_Data data)) (\<lambda>t. Inr
     \<lparr>cv_Id = rf_ID data, cv_CreatedAt = rf_CreatedAt data, cv_UpdatedAt = rf_UpdatedAt data,
      cv_Version = rf_Version data, cv_Name = rf_Name data, cv_Labels = rf_Labels data, cv_Data = t,
      cv_ResourceControl = control_view (rf_Portainer data)\<rparr>)"

section \<open>The page that creates a config\<close>

record config_label =
  cl_name :: string
  cl_value :: string

record config_page =
  pg_Name :: string
  pg_Labels :: "config_label list"
  pg_Access :: access_form
  pg_ConfigContent :: "nat list"
  pg_Data :: "nat list option"
  pg_displayCodeEditor :: bool
  pg_formValidationError :: string
  pg_isEditorDirty :: bool

definition new_config_page :: config_page where
  "new_config_page = \<lparr>pg_Name = [], pg_Labels = [], pg_Access = AccessControlFormData, pg_ConfigContent = [],
     pg_Data = None, pg_displayCodeEditor = False, pg_formValidationError = [], pg_isEditorDirty = False\<rparr>"

text \<open>Opened for a config that is copied, the page takes its name, data and labels; otherwise it is empty.\<close>

definition open_page :: "config_view js_result option \<Rightarrow> config_page" where
  "open_page copied = (case copied of
       Some (Inr c) \<Rightarrow> new_config_page\<lparr>pg_Name := cv_Name c @ ''_copy'', pg_Data := Some (cv_Data c),
         pg_Labels := map (\<lambda>(k, v). \<lparr>cl_name = k, cl_value = v\<rparr>)
           (case cv_Labels c of None \<Rightarrow> [] | Some ls \<Rightarrow> obj_entries ls),
         pg_displayCodeEditor := True\<rparr>
     | _ \<Rightarrow> new_config_page\<lparr>pg_displayCodeEditor := True\<rparr>)"

definition add_config_label :: "config_page \<Rightarrow> config_page" where
  "add_config_label p = p\<lparr>pg_Labels := pg_Labels p @ [\<lparr>cl_name = [], cl_value = []\<rparr>]\<rparr>"

definition remove_config_label :: "nat \<Rightarrow> config_page \<Rightarrow> config_page" where
  "remove_config_label i p = p\<lparr>pg_Labels := remove_at i (pg_Labels p)\<rparr>"

definition editorUpdate :: "nat list \<Rightarrow> config_page \<Rightarrow> config_page" where
  "editorUpdate content p = p\<lparr>pg_ConfigContent := content, pg_isEditorDirty := True\<rparr>"

text \<open>Leaving the page asks for a confirmation while there is content that was edited.\<close>

definition asks_on_exit :: "config_page \<Rightarrow> bool" where
  "asks_on_exit p \<longleftrightarrow> pg_displayCodeEditor p \<and> pg_ConfigContent p \<noteq> [] \<and> pg_isEditorDirty p"

record docker_config_request =
  cr_Name :: string
  cr_Data :: string
  cr_Labels :: "string obj"

definition prepareLabelsConfig :: "config_label list \<Rightarrow> string obj" where
  "prepareLabelsConfig ls =
     fold (\<lambda>l ob. if cl_name l \<noteq> [] \<and> cl_value l \<noteq> [] then obj_set ob (cl_name l) (cl_value l) else ob) ls []"

definition prepareConfigData :: "nat list \<Rightarrow> string" where
  "prepareConfigData content = btoa (utf8 content)"

definition prepare_config :: "config_page \<Rightarrow> docker_config_request" where
  "prepare_config p = \<lparr>cr_Name = pg_Name p, cr_Data = prepareConfigData (pg_ConfigContent p),
     cr_Labels = prepareLabelsConfig (pg_Labels p)\<rparr>"

text \<open>The request that is sent, if the checks let it.\<close>

definition create_config :: "bool \<Rightarrow> config_page \<Rightarrow> config_page \<times> docker_config_request option" where
  "create_config isAdmin p =
     (if pg_ConfigContent p = [] then (p\<lparr>pg_formValidationError := ''Config content must not be empty''\<rparr>, None)
      else (let e = validateAccessControl (pg_Access p) isAdmin; q = p\<lparr>pg_formValidationError := e\<rparr> in
        if e \<noteq> [] then (q, None) else (q, Some (prepare_config q))))"

section \<open>The page that creates a secret\<close>

definition prepareSecretData :: "bool \<Rightarrow> nat list \<Rightarrow> nat list" where
  "prepareSecretData encode data = (if encode then map of_char (btoa (utf8 data)) else data)"

section \<open>Properties\<close>

lemma labels_get:
  "obj_get (prepareLabelsConfig ls) k =
     map_of (rev (map (\<lambda>l. (cl_name l, cl_value l)) (filter (\<lambda>l. cl_name l \<noteq> [] \<and> cl_value l \<noteq> []) ls))) k"
  by (simp add: prepareLabelsConfig_def object.get_fold_guarded split: option.split)

lemma labels_kept:
  assumes "obj_ok ls"
  shows "obj_get (prepareLabelsConfig (map (\<lambda>(k, v). \<lparr>cl_name = k, cl_value = v\<rparr>) (obj_entries ls))) k =
    (if k = [] \<or> obj_get ls k = Some [] then None else obj_get ls k)"
proof -
  let ?kvs = "filter (\<lambda>(k, v). k \<noteq> [] \<and> v \<noteq> []) (obj_entries ls)"
  have "map (\<lambda>l. (cl_name l, cl_value l)) (filter (\<lambda>l. cl_name l \<noteq> [] \<and> cl_value l \<noteq> [])
      (map (\<lambda>(k, v). \<lparr>cl_name = k, cl_value = v\<rparr>) (obj_entries ls))) = ?kvs"
    by (simp add: filter_map comp_def case_prod_unfold)
  then have get: "obj_get (prepareLabelsConfig (map (\<lambda>(k, v). \<lparr>cl_name = k, cl_value = v\<rparr>) (obj_entries ls))) k =
      map_of (rev ?kvs) k" by (simp only: labels_get)
  have dist: "distinct (map fst ?kvs)" using distinct_obj_entries [OF assms] by (simp add: distinct_map_filter)
  then have "distinct (map fst (rev ?kvs))" by (simp add: rev_map [symmetric])
  from map_of_eq_Some_iff [OF this] have some: "map_of (rev ?kvs) k = Some v \<longleftrightarrow>
      obj_get ls k = Some v \<and> k \<noteq> [] \<and> v \<noteq> []" for v by (auto simp: set_obj_entries)
  show ?thesis
  proof (cases "map_of (rev ?kvs) k")
    case None
    then have "\<not> (obj_get ls k = Some v \<and> k \<noteq> [] \<and> v \<noteq> [])" for v using some [of v] by simp
    then show ?thesis using None get by (cases "obj_get ls k") auto
  qed (use some get in auto)
qed

text \<open>
  A config that is copied and created again unchanged has the data of the original, whatever the characters of
  its text, and all its labels except those with an empty name or value.
\<close>

theorem config_copy_kept:
  assumes "list_all code_point content" and "rf_Data raw = prepareConfigData content"
    and "obj_ok (case rf_Labels raw of None \<Rightarrow> [] | Some ls \<Rightarrow> ls)"
  shows "\<exists>view. ConfigViewModel raw = Inr view \<and>
    pg_Data (open_page (Some (Inr view))) = Some content \<and>
    cr_Data (prepare_config (editorUpdate (cv_Data view) (open_page (Some (Inr view))))) = rf_Data raw \<and>
    obj_get (cr_Labels (prepare_config (open_page (Some (Inr view))))) k =
      (case rf_Labels raw of None \<Rightarrow> None | Some ls \<Rightarrow>
         if k = [] \<or> obj_get ls k = Some [] then None else obj_get ls k)"
proof -
  have decoded: "b64DecodeUnicode (rf_Data raw) = Inr content"
    by (simp add: b64DecodeUnicode_def assms(2) prepareConfigData_def atob_btoa utf8_bytes utf8_decode_utf8 assms(1))
  obtain view where view: "ConfigViewModel raw = Inr view" "cv_Data view = content" "cv_Labels view = rf_Labels raw"
    by (simp add: ConfigViewModel_def decoded)
  have "obj_get (prepareLabelsConfig []) k = None" by (simp add: prepareLabelsConfig_def obj_get_def)
  then have "obj_get (cr_Labels (prepare_config (open_page (Some (Inr view))))) k =
      (case rf_Labels raw of None \<Rightarrow> None | Some ls \<Rightarrow> if k = [] \<or> obj_get ls k = Some [] then None else obj_get ls k)"
    using assms(3) by (cases "rf_Labels raw") (simp_all add: open_page_def view prepare_config_def labels_kept)
  then show ?thesis
    using view by (intro exI [of _ view]) (simp add: open_page_def editorUpdate_def prepare_config_def assms(2))
qed

theorem config_copy_kept_witness:
  "\<exists>view. ConfigViewModel \<lparr>rf_ID = ''1'', rf_CreatedAt = [], rf_UpdatedAt = [], rf_Version = 1, rf_Name = ''c'',
      rf_Labels = Some [(''env'', ''prod''), (''note'', [])], rf_Data = prepareConfigData [8364, 49], rf_Portainer = None\<rparr> =
      Inr view \<and>
    obj_get (cr_Labels (prepare_config (open_page (Some (Inr view))))) ''note'' = None"
proof -
  let ?raw = "\<lparr>rf_ID = ''1'', rf_CreatedAt = [], rf_UpdatedAt = [], rf_Version = 1, rf_Name = ''c'',
      rf_Labels = Some [(''env'', ''prod''), (''note'', [])], rf_Data = prepareConfigData [8364, 49], rf_Portainer = None\<rparr>"
  have facts: "list_all code_point [8364, 49]" "rf_Data ?raw = prepareConfigData [8364, 49]"
    "obj_ok (case rf_Labels ?raw of None \<Rightarrow> [] | Some ls \<Rightarrow> ls)" by (simp_all add: code_point_def obj_ok_def)
  obtain view where view: "ConfigViewModel ?raw = Inr view" and
    note': "obj_get (cr_Labels (prepare_config (open_page (Some (Inr view))))) ''note'' =
      (case rf_Labels ?raw of None \<Rightarrow> None | Some ls \<Rightarrow>
         if ''note'' = [] \<or> obj_get ls ''note'' = Some [] then None else obj_get ls ''note'')"
    using config_copy_kept [OF facts, of "''note''"] by (elim exE conjE) (rule that)
  have "obj_get (cr_Labels (prepare_config (open_page (Some (Inr view))))) ''note'' = None"
    unfolding note' by (simp add: obj_get_def)
  with view show ?thesis by (intro exI [of _ view] conjI)
qed

end
