(* ===== verification/KubeConfigUse.thy ===== *)
theory KubeConfigUse
  imports KubeConfigs
begin

text \<open>
  Environment variables and configurations of an application: the regions of \<open>app/kubernetes/helpers/application/index.js\<close>
  that turn the form into environment entries, volumes and mounts and back, and the part of \<open>converters/application.js\<close>
  that reads the volumes of configurations. \<open>uuid n\<close> is the n-th identifier that \<open>uuid/v4\<close> hands out.
\<close>

section \<open>Environment variables\<close>

datatype env_ref = FromConfigMap string string | FromSecret string string | FromElsewhere

record env_entry =
  ev_name :: string
  ev_value :: "string option"
  ev_valueFrom :: "env_ref option"

record env_form =
  vf_Name :: string
  vf_Value :: "string option"
  vf_IsSecret :: bool
  vf_NeedsDeletion :: bool
  vf_IsNew :: bool
  vf_NameIndex :: string

definition new_env_form :: env_form where
  "new_env_form = \<lparr>vf_Name = [], vf_Value = Some [], vf_IsSecret = False, vf_NeedsDeletion = False, vf_IsNew = True,
     vf_NameIndex = []\<rparr>"

definition generateEnvFromEnvVariables :: "env_form list \<Rightarrow> env_entry list" where
  "generateEnvFromEnvVariables vs =
     map (\<lambda>v. \<lparr>ev_name = vf_Name v, ev_value = vf_Value v, ev_valueFrom = None\<rparr>) (filter (\<lambda>v. \<not> vf_NeedsDeletion v) vs)"

definition generateEnvVariablesFromEnv :: "env_entry list \<Rightarrow> env_form list" where
  "generateEnvVariablesFromEnv env =
     without_undefined (map (\<lambda>e. if ev_valueFrom e \<noteq> None then None else Some (new_env_form
       \<lparr>vf_Name := ev_name e, vf_Value := ev_value e, vf_IsNew := False, vf_NameIndex := ev_name e\<rparr>)) env)"

section \<open>Configurations in the form\<close>

datatype override_type = NONE | ENVIRONMENT | FILESYSTEM

record override_key =
  ok_Key :: string
  ok_Path :: string
  ok_Type :: override_type

record config_use =
  cu_SelectedConfiguration :: configuration
  cu_Overriden :: bool
  cu_OverridenKeys :: "override_key list"

text \<open>A mounted key of a configuration; the key is empty where the whole configuration is mounted.\<close>

record config_volume =
  cn_fileMountPath :: string
  cn_rootMountPath :: string
  cn_configurationKey :: string
  cn_configurationName :: string

definition refers_to :: "configuration \<Rightarrow> env_entry \<Rightarrow> bool" where
  "refers_to cfg e = (case ev_valueFrom e of
       Some (FromConfigMap n k) \<Rightarrow> cg_Type cfg = CONFIGMAP \<and> n = cg_Name cfg
     | Some (FromSecret n k) \<Rightarrow> cg_Type cfg = SECRET \<and> n = cg_Name cfg
     | _ \<Rightarrow> False)"

text \<open>
  For each key the number of variables and the paths it is mounted at: \<open>Sum\<close> lists the variables first, and only
  its volumes are asked for their path.
\<close>

record key_use =
  ku_Key :: string
  ku_EnvCount :: nat
  ku_Paths :: "string list"

definition ku_Count :: "key_use \<Rightarrow> nat" where
  "ku_Count k = ku_EnvCount k + length (ku_Paths k)"

definition key_uses :: "env_entry list \<Rightarrow> config_volume list \<Rightarrow> configuration \<Rightarrow> key_use list" where
  "key_uses env volumes cfg = map (\<lambda>k.
     \<lparr>ku_Key = k, ku_EnvCount = length (filter (\<lambda>e. refers_to cfg e \<and> ev_name e = k) env),
      ku_Paths = map cn_rootMountPath
        (filter (\<lambda>v. cn_configurationName v = cg_Name cfg \<and> cn_configurationKey v = k) volumes)\<rparr>) (obj_keys (cg_Data cfg))"

text \<open>The key at a position of the list of forms: the element of \<open>Sum\<close> there is missing when the key has fewer uses.\<close>

definition override_at :: "nat \<Rightarrow> key_use \<Rightarrow> override_key js_result" where
  "override_at i k =
     (if ku_Count k = 0 then Inr \<lparr>ok_Key = ku_Key k, ok_Path = [], ok_Type = NONE\<rparr>
      else if i < ku_EnvCount k then Inr \<lparr>ok_Key = ku_Key k, ok_Path = [], ok_Type = ENVIRONMENT\<rparr>
      else if i < ku_Count k then Inr \<lparr>ok_Key = ku_Key k, ok_Path = ku_Paths k ! (i - ku_EnvCount k), ok_Type = FILESYSTEM\<rparr>
      else Inl TypeError)"

definition overrides_at :: "nat \<Rightarrow> key_use list \<Rightarrow> override_key list js_result" where
  "overrides_at i ks = fold_result (\<lambda>k acc. and_then (override_at i k) (\<lambda>ov. Inr (acc @ [ov]))) ks []"

definition max_of :: "nat list \<Rightarrow> nat" where
  "max_of ns = fold max ns 0"

text \<open>
  A configuration without keys has no maximum, and \<open>new Array(undefined)\<close> is a list of one element: it is read as one
  use that is not overriden.
\<close>

definition uses_of :: "env_entry list \<Rightarrow> config_volume list \<Rightarrow> configuration \<Rightarrow> config_use list js_result" where
  "uses_of env volumes cfg =
     (if filter (refers_to cfg) env = [] \<and> filter (\<lambda>v. cn_configurationName v = cg_Name cfg) volumes = [] then Inr []
      else
        let ks = key_uses env volumes cfg;
            most = max_of (map ku_Count ks);
            overrideThreshold = most - max_of (map (\<lambda>k. length (ku_Paths k)) ks);
            plain = \<lparr>cu_SelectedConfiguration = cfg, cu_Overriden = False, cu_OverridenKeys = []\<rparr>
        in if ks = [] then Inr [plain]
           else fold_result (\<lambda>i acc.
             if i < overrideThreshold then Inr (acc @ [plain])
             else and_then (overrides_at i ks)
               (\<lambda>os. Inr (acc @ [plain\<lparr>cu_Overriden := True, cu_OverridenKeys := os\<rparr>]))) [0..<most] [])"

definition generateConfigurationFormValuesFromEnvAndVolumes ::
    "env_entry list \<Rightarrow> config_volume list \<Rightarrow> configuration list \<Rightarrow> config_use list js_result" where
  "generateConfigurationFormValuesFromEnvAndVolumes env volumes cfgs =
     fold_result (\<lambda>cfg acc. and_then (uses_of env volumes cfg) (\<lambda>us. Inr (acc @ us))) cfgs []"

section \<open>Writing the configurations\<close>

record volume_item =
  vi_key :: string
  vi_path :: string

datatype volume_source =
    ConfigMapVolume string "volume_item list option"
  | SecretVolume string "volume_item list option"
  | ClaimVolume string
  | HostVolume string
  | OtherVolume

record app_volume =
  av_name :: string
  av_source :: volume_source

record volume_mount =
  vm_name :: string
  vm_mountPath :: string
  vm_readOnly :: bool

record written_app =
  wa_Env :: "env_entry list"
  wa_Volumes :: "app_volume list"
  wa_VolumeMounts :: "volume_mount list"

definition generatedApplicationConfigVolumeName :: "(nat \<Rightarrow> string) \<Rightarrow> nat \<Rightarrow> string \<Rightarrow> string" where
  "generatedApplicationConfigVolumeName uuid n name = ''config-'' @ name @ ''-'' @ uuid n"

definition config_env :: "configuration \<Rightarrow> string \<Rightarrow> env_entry" where
  "config_env cfg k = \<lparr>ev_name = k, ev_value = None, ev_valueFrom = Some
     (if cg_Type cfg = CONFIGMAP then FromConfigMap (cg_Name cfg) k else FromSecret (cg_Name cfg) k)\<rparr>"

definition keys_of_type :: "override_type \<Rightarrow> config_use \<Rightarrow> override_key list" where
  "keys_of_type t u = filter (\<lambda>k. ok_Type k = t) (cu_OverridenKeys u)"

definition use_env :: "config_use \<Rightarrow> env_entry list" where
  "use_env u = map (config_env (cu_SelectedConfiguration u))
     (if cu_Overriden u then map ok_Key (keys_of_type ENVIRONMENT u) else obj_keys (cg_Data (cu_SelectedConfiguration u)))"

definition use_groups :: "config_use \<Rightarrow> (string \<times> override_key list) list" where
  "use_groups u = (if cu_Overriden u then obj_entries (group_by ok_Path (keys_of_type FILESYSTEM u)) else [])"

definition config_volume_of :: "configuration \<Rightarrow> string \<Rightarrow> override_key list \<Rightarrow> app_volume" where
  "config_volume_of cfg name ks =
     (let items = Some (map (\<lambda>k. \<lparr>vi_key = ok_Key k, vi_path = ok_Key k\<rparr>) ks) in
      \<lparr>av_name = name, av_source =
        (if cg_Type cfg = CONFIGMAP then ConfigMapVolume (cg_Name cfg) items else SecretVolume (cg_Name cfg) items)\<rparr>)"

text \<open>The volumes of one use, with the number of identifiers handed out before.\<close>

fun add_groups ::
    "(nat \<Rightarrow> string) \<Rightarrow> string \<Rightarrow> configuration \<Rightarrow> nat \<Rightarrow> (string \<times> override_key list) list \<Rightarrow>
     (app_volume \<times> volume_mount) list" where
  "add_groups uuid app cfg n [] = []"
| "add_groups uuid app cfg n ((path, ks) # gs) =
     (let name = generatedApplicationConfigVolumeName uuid n app in
      (config_volume_of cfg name ks,
       \<lparr>vm_name = name, vm_mountPath = path, vm_readOnly = (cg_Type cfg \<noteq> CONFIGMAP)\<rparr>) # add_groups uuid app cfg (Suc n) gs)"

fun add_uses :: "(nat \<Rightarrow> string) \<Rightarrow> string \<Rightarrow> nat \<Rightarrow> config_use list \<Rightarrow> (app_volume \<times> volume_mount) list" where
  "add_uses uuid app n [] = []"
| "add_uses uuid app n (u # us) =
     add_groups uuid app (cu_SelectedConfiguration u) n (use_groups u) @ add_uses uuid app (n + length (use_groups u)) us"

text \<open>A use without a configuration is taken out of the form before, so \<open>SelectedConfiguration\<close> is there.\<close>

definition generateEnvOrVolumesFromConfigurations ::
    "(nat \<Rightarrow> string) \<Rightarrow> string \<Rightarrow> written_app \<Rightarrow> config_use list \<Rightarrow> written_app" where
  "generateEnvOrVolumesFromConfigurations uuid name app us =
     (let new = add_uses uuid name 0 us in
      \<lparr>wa_Env = wa_Env app @ concat (map use_env us), wa_Volumes = wa_Volumes app @ map fst new,
       wa_VolumeMounts = wa_VolumeMounts app @ map snd new\<rparr>)"

section \<open>Reading the volumes of configurations\<close>

definition volume_config :: "volume_source \<Rightarrow> (string \<times> volume_item list option) option" where
  "volume_config s = (case s of
       ConfigMapVolume n items \<Rightarrow> Some (n, items) | SecretVolume n items \<Rightarrow> Some (n, items) | _ \<Rightarrow> None)"

definition read_config_volume :: "volume_mount list \<Rightarrow> app_volume \<Rightarrow> config_volume list" where
  "read_config_volume mounts v =
     (case (volume_config (av_source v), find (\<lambda>m. vm_name m = av_name v) mounts) of
        (Some (name, items), Some m) \<Rightarrow>
          (case items of
             None \<Rightarrow> [\<lparr>cn_fileMountPath = vm_mountPath m, cn_rootMountPath = vm_mountPath m, cn_configurationKey = [],
               cn_configurationName = name\<rparr>]
           | Some is \<Rightarrow> map (\<lambda>i. \<lparr>cn_fileMountPath = vm_mountPath m @ ''/'' @ vi_path i, cn_rootMountPath = vm_mountPath m,
               cn_configurationKey = vi_key i, cn_configurationName = name\<rparr>) is)
      | _ \<Rightarrow> [])"

definition configuration_volumes :: "app_volume list \<Rightarrow> volume_mount list \<Rightarrow> config_volume list" where
  "configuration_volumes volumes mounts = concat (map (read_config_volume mounts) volumes)"

section \<open>Who uses a configuration\<close>

definition uses_configuration :: "configuration \<Rightarrow> env_entry list \<Rightarrow> app_volume list \<Rightarrow> bool" where
  "uses_configuration cfg env volumes \<longleftrightarrow> list_ex (refers_to cfg) env \<or>
     list_ex (\<lambda>v. case av_source v of
       ConfigMapVolume n items \<Rightarrow> cg_Type cfg = CONFIGMAP \<and> n = cg_Name cfg
     | SecretVolume n items \<Rightarrow> cg_Type cfg = SECRET \<and> n = cg_Name cfg
     | _ \<Rightarrow> False) volumes"

definition getUsingApplications ::
    "configuration \<Rightarrow> ('a \<times> env_entry list \<times> app_volume list) list \<Rightarrow> ('a \<times> env_entry list \<times> app_volume list) list" where
  "getUsingApplications cfg apps = filter (\<lambda>(a, env, volumes). uses_configuration cfg env volumes) apps"

definition setConfigurationsUsed ::
    "configuration list \<Rightarrow> ('a \<times> env_entry list \<times> app_volume list) list \<Rightarrow> (configuration \<times> 'a list \<times> bool) list" where
  "setConfigurationsUsed cfgs apps =
     map (\<lambda>c. (c, map fst (getUsingApplications c apps), getUsingApplications c apps \<noteq> [])) cfgs"

section \<open>Lemmas\<close>

lemma max_of_Max: "max_of ns = Max (set (0 # ns))"
  unfolding max_of_def by (simp only: Max.set_eq_fold)

lemma max_of_ge: "n \<in> set ns \<Longrightarrow> n \<le> max_of ns"
  unfolding max_of_Max by (rule Max_ge) simp_all

lemma max_of_in: "max_of ns \<in> set ns \<or> max_of ns = 0"
proof -
  have "Max (set (0 # ns)) \<in> set (0 # ns)" by (rule Max_in) simp_all
  then show ?thesis unfolding max_of_Max by auto
qed

lemma collect_results:
  "fold_result (\<lambda>x acc. and_then (f x) (\<lambda>y. Inr (acc @ [y]))) xs acc =
    (if \<exists>x \<in> set xs. \<exists>e. f x = Inl e then Inl (projl (f (hd (filter (\<lambda>x. \<exists>e. f x = Inl e) xs))))
     else Inr (acc @ map (\<lambda>x. projr (f x)) xs))"
proof (induction xs arbitrary: acc)
  case (Cons x xs)
  show ?case
  proof (cases "f x")
    case (Inr y)
    then show ?thesis by (simp add: Cons.IH)
  qed simp
qed simp

lemma override_at_error: "override_at i k = Inl e \<longleftrightarrow> e = TypeError \<and> 0 < ku_Count k \<and> ku_Count k \<le> i"
  by (auto simp: override_at_def ku_Count_def)

lemma overrides_at_result:
  "overrides_at i ks = (if \<exists>k \<in> set ks. 0 < ku_Count k \<and> ku_Count k \<le> i then Inl TypeError
     else Inr (map (\<lambda>k. projr (override_at i k)) ks))"
proof -
  have "projl (override_at i (hd (filter (\<lambda>k. \<exists>e. override_at i k = Inl e) ks))) = TypeError"
    if "\<exists>k \<in> set ks. \<exists>e. override_at i k = Inl e"
  proof -
    have "filter (\<lambda>k. \<exists>e. override_at i k = Inl e) ks \<noteq> []" using that by (auto simp: filter_empty_conv)
    then have "hd (filter (\<lambda>k. \<exists>e. override_at i k = Inl e) ks) \<in> set (filter (\<lambda>k. \<exists>e. override_at i k = Inl e) ks)"
      by (rule hd_in_set)
    then obtain e where e: "override_at i (hd (filter (\<lambda>k. \<exists>e. override_at i k = Inl e) ks)) = Inl e" by auto
    then have "e = TypeError" by (simp add: override_at_error)
    with e show ?thesis by simp
  qed
  moreover have "(\<exists>k \<in> set ks. \<exists>e. override_at i k = Inl e) \<longleftrightarrow> (\<exists>k \<in> set ks. 0 < ku_Count k \<and> ku_Count k \<le> i)"
    by (simp add: override_at_error)
  ultimately show ?thesis unfolding overrides_at_def collect_results by simp
qed

definition use_at :: "configuration \<Rightarrow> nat \<Rightarrow> key_use list \<Rightarrow> nat \<Rightarrow> config_use" where
  "use_at cfg overrideThreshold ks i =
     (if i < overrideThreshold then \<lparr>cu_SelectedConfiguration = cfg, cu_Overriden = False, cu_OverridenKeys = []\<rparr>
      else \<lparr>cu_SelectedConfiguration = cfg, cu_Overriden = True, cu_OverridenKeys = map (\<lambda>k. projr (override_at i k)) ks\<rparr>)"

lemma fold_uses:
  "fold_result (\<lambda>i acc. if i < t then Inr (acc @ [\<lparr>cu_SelectedConfiguration = cfg, cu_Overriden = False, cu_OverridenKeys = []\<rparr>])
      else and_then (overrides_at i ks) (\<lambda>ovs. Inr (acc @
        [\<lparr>cu_SelectedConfiguration = cfg, cu_Overriden = True, cu_OverridenKeys = ovs\<rparr>]))) is acc =
    (if \<exists>i \<in> set is. t \<le> i \<and> (\<exists>k \<in> set ks. 0 < ku_Count k \<and> ku_Count k \<le> i) then Inl TypeError
     else Inr (acc @ map (use_at cfg t ks) is))"
proof (induction "is" arbitrary: acc)
  case (Cons i js)
  show ?case
  proof (cases "i < t")
    case True
    then show ?thesis by (simp add: Cons.IH use_at_def)
  next
    case False
    then show ?thesis by (cases "\<exists>k \<in> set ks. 0 < ku_Count k \<and> ku_Count k \<le> i") (auto simp: Cons.IH use_at_def overrides_at_result)
  qed
qed simp

definition most_uses :: "key_use list \<Rightarrow> nat" where
  "most_uses ks = max_of (map ku_Count ks)"

definition most_paths :: "key_use list \<Rightarrow> nat" where
  "most_paths ks = max_of (map (\<lambda>k. length (ku_Paths k)) ks)"

definition used_configuration :: "env_entry list \<Rightarrow> config_volume list \<Rightarrow> configuration \<Rightarrow> bool" where
  "used_configuration env volumes cfg \<longleftrightarrow> filter (refers_to cfg) env \<noteq> [] \<or>
     filter (\<lambda>v. cn_configurationName v = cg_Name cfg) volumes \<noteq> []"

lemma most_paths_le: "most_paths ks \<le> most_uses ks"
proof (cases "ks = []")
  case False
  then consider "most_paths ks = 0" | k where "k \<in> set ks" "most_paths ks = length (ku_Paths k)"
    using max_of_in [of "map (\<lambda>k. length (ku_Paths k)) ks"] by (auto simp: most_paths_def)
  then show ?thesis
  proof cases
    case (2 k)
    then have "ku_Count k \<le> most_uses ks" unfolding most_uses_def by (intro max_of_ge) simp
    with 2 show ?thesis by (simp add: ku_Count_def)
  qed simp
qed (simp add: most_paths_def max_of_def)

lemma uses_of_result:
  assumes "used_configuration env volumes cfg" and "key_uses env volumes cfg \<noteq> []"
  shows "uses_of env volumes cfg = (let ks = key_uses env volumes cfg in
    if most_paths ks \<noteq> 0 \<and> (\<exists>k \<in> set ks. 0 < ku_Count k \<and> ku_Count k < most_uses ks) then Inl TypeError
    else Inr (map (use_at cfg (most_uses ks - most_paths ks) ks) [0..<most_uses ks]))"
proof -
  let ?ks = "key_uses env volumes cfg"
  let ?t = "most_uses ?ks - most_paths ?ks"
  have "(\<exists>i \<in> set [0..<most_uses ?ks]. ?t \<le> i \<and> (\<exists>k \<in> set ?ks. 0 < ku_Count k \<and> ku_Count k \<le> i)) \<longleftrightarrow>
      most_paths ?ks \<noteq> 0 \<and> (\<exists>k \<in> set ?ks. 0 < ku_Count k \<and> ku_Count k < most_uses ?ks)"
  proof
    assume "\<exists>i \<in> set [0..<most_uses ?ks]. ?t \<le> i \<and> (\<exists>k \<in> set ?ks. 0 < ku_Count k \<and> ku_Count k \<le> i)"
    then obtain i k where "i < most_uses ?ks" "?t \<le> i" "k \<in> set ?ks" "0 < ku_Count k" "ku_Count k \<le> i" by auto
    then show "most_paths ?ks \<noteq> 0 \<and> (\<exists>k \<in> set ?ks. 0 < ku_Count k \<and> ku_Count k < most_uses ?ks)" by (intro conjI bexI [of _ k]) simp_all
  next
    assume "most_paths ?ks \<noteq> 0 \<and> (\<exists>k \<in> set ?ks. 0 < ku_Count k \<and> ku_Count k < most_uses ?ks)"
    then obtain k where k: "k \<in> set ?ks" "0 < ku_Count k" "ku_Count k < most_uses ?ks" "most_paths ?ks \<noteq> 0" by blast
    then have "most_uses ?ks - 1 \<in> set [0..<most_uses ?ks]" "?t \<le> most_uses ?ks - 1" "ku_Count k \<le> most_uses ?ks - 1" by auto
    with k show "\<exists>i \<in> set [0..<most_uses ?ks]. ?t \<le> i \<and> (\<exists>k \<in> set ?ks. 0 < ku_Count k \<and> ku_Count k \<le> i)" by blast
  qed
  moreover have "uses_of env volumes cfg =
      fold_result (\<lambda>i acc. if i < ?t then Inr (acc @ [\<lparr>cu_SelectedConfiguration = cfg, cu_Overriden = False, cu_OverridenKeys = []\<rparr>])
        else and_then (overrides_at i ?ks) (\<lambda>ovs. Inr (acc @
          [\<lparr>cu_SelectedConfiguration = cfg, cu_Overriden = True, cu_OverridenKeys = ovs\<rparr>]))) [0..<most_uses ?ks] []"
  proof -
    have "(filter (refers_to cfg) env = [] \<and> filter (\<lambda>v. cn_configurationName v = cg_Name cfg) volumes = []) = False"
      using assms(1) by (simp only: used_configuration_def) blast
    then show ?thesis using assms(2) unfolding uses_of_def Let_def most_uses_def most_paths_def by (simp only: if_False config_use.simps)
  qed
  ultimately show ?thesis unfolding Let_def by (simp only: fold_uses append_Nil)
qed

subsection \<open>What is written is read\<close>

lemma only_one: "distinct (map f xs) \<Longrightarrow> x \<in> set xs \<Longrightarrow> filter (\<lambda>y. f y = f x \<and> Q y) xs = (if Q x then [x] else [])"
proof (induction xs)
  case (Cons y ys)
  have none: "filter (\<lambda>z. f z = f y \<and> Q z) ys = []" using Cons.prems(1) by (auto simp: filter_empty_conv image_iff)
  show ?case
  proof (cases "x = y")
    case False
    then have "x \<in> set ys" "f y \<noteq> f x" using Cons.prems by (auto simp: image_iff)
    with Cons show ?thesis by simp
  qed (simp add: none)
qed simp

lemma names_of_groups:
  "map (\<lambda>(v, m). (av_name v, vm_name m)) (add_groups uuid app cfg n gs) =
     map (\<lambda>i. (generatedApplicationConfigVolumeName uuid i app, generatedApplicationConfigVolumeName uuid i app)) [n..<n + length gs]"
proof (induction uuid app cfg n gs rule: add_groups.induct)
  case (2 uuid app cfg n path ks gs)
  have "[n..<n + length ((path, ks) # gs)] = n # [Suc n..<Suc n + length gs]" by (simp add: upt_conv_Cons del: upt_Suc)
  with 2 show ?case by (simp add: Let_def config_volume_of_def del: upt_Suc)
qed simp

lemma names_of_uses:
  "\<exists>j. map (\<lambda>(v, m). (av_name v, vm_name m)) (add_uses uuid app n us) =
     map (\<lambda>i. (generatedApplicationConfigVolumeName uuid i app, generatedApplicationConfigVolumeName uuid i app)) [n..<n + j]"
proof (induction uuid app n us rule: add_uses.induct)
  case (2 uuid app n u us)
  from 2 obtain j where j: "map (\<lambda>(v, m). (av_name v, vm_name m)) (add_uses uuid app (n + length (use_groups u)) us) =
     map (\<lambda>i. (generatedApplicationConfigVolumeName uuid i app, generatedApplicationConfigVolumeName uuid i app))
       [n + length (use_groups u)..<n + length (use_groups u) + j]" by blast
  have ids: "[n..<n + length (use_groups u)] @ [n + length (use_groups u)..<n + length (use_groups u) + j] =
      [n..<n + (length (use_groups u) + j)]" by (metis add.assoc le_add1 upt_add_eq_append)
  then show ?case
    by (intro exI [of _ "length (use_groups u) + j"])
      (unfold add_uses.simps map_append names_of_groups j, simp only: map_append [symmetric] ids)
qed (auto intro: exI [of _ 0])

lemma read_pairs:
  assumes "distinct (map (\<lambda>(v, m). vm_name m) new)" and "\<forall>(v, m) \<in> set new. av_name v = vm_name m"
  shows "configuration_volumes (map fst new) (map snd new) = concat (map (\<lambda>(v, m). read_config_volume [m] v) new)"
proof -
  have "read_config_volume (map snd new) v = read_config_volume [m] v" if vm: "(v, m) \<in> set new" for v m
  proof -
    have "find (\<lambda>x. vm_name x = vm_name m) (map snd new) = Some m"
      using assms(1) vm
    proof (induction new)
      case (Cons x xs)
      obtain w n where x: "x = (w, n)" by (cases x)
      show ?case
      proof (cases "x = (v, m)")
        case False
        then have mem: "(v, m) \<in> set xs" using Cons.prems(2) by simp
        have "vm_name m \<in> (\<lambda>(v, m). vm_name m) ` set xs" using mem by (intro rev_image_eqI) auto
        then have "vm_name n \<noteq> vm_name m" using Cons.prems(1) x by auto
        with Cons.IH mem Cons.prems(1) x show ?thesis by simp
      qed simp
    qed simp
    moreover have "av_name v = vm_name m" using assms(2) vm by blast
    ultimately show ?thesis by (simp add: read_config_volume_def)
  qed
  then show ?thesis unfolding configuration_volumes_def map_map comp_def
    by (intro arg_cong [where f = concat] map_cong refl) auto
qed

definition group_entries :: "configuration \<Rightarrow> string \<times> override_key list \<Rightarrow> config_volume list" where
  "group_entries cfg g = map (\<lambda>k. \<lparr>cn_fileMountPath = fst g @ ''/'' @ ok_Key k, cn_rootMountPath = fst g,
     cn_configurationKey = ok_Key k, cn_configurationName = cg_Name cfg\<rparr>) (snd g)"

lemma read_groups:
  "concat (map (\<lambda>(v, m). read_config_volume [m] v) (add_groups uuid app cfg n gs)) = concat (map (group_entries cfg) gs)"
  by (induction uuid app cfg n gs rule: add_groups.induct)
    (simp_all add: Let_def config_volume_of_def read_config_volume_def volume_config_def group_entries_def comp_def)

lemma read_uses:
  "concat (map (\<lambda>(v, m). read_config_volume [m] v) (add_uses uuid app n us)) =
     concat (map (\<lambda>u. concat (map (group_entries (cu_SelectedConfiguration u)) (use_groups u))) us)"
  by (induction uuid app n us rule: add_uses.induct) (simp_all add: read_groups)

lemma written_volumes:
  assumes "inj uuid"
  shows "configuration_volumes (map fst (add_uses uuid app 0 us)) (map snd (add_uses uuid app 0 us)) =
    concat (map (\<lambda>u. concat (map (group_entries (cu_SelectedConfiguration u)) (use_groups u))) us)"
proof -
  obtain j where j: "map (\<lambda>(v, m). (av_name v, vm_name m)) (add_uses uuid app 0 us) =
     map (\<lambda>i. (generatedApplicationConfigVolumeName uuid i app, generatedApplicationConfigVolumeName uuid i app)) [0..<j]"
    using names_of_uses [of uuid app 0 us] by auto
  have "map (\<lambda>(v, m). vm_name m) (add_uses uuid app 0 us) = map snd (map (\<lambda>(v, m). (av_name v, vm_name m)) (add_uses uuid app 0 us))"
    by (simp add: split_def comp_def)
  also have "distinct \<dots>" unfolding j
    using assms by (simp add: distinct_map inj_on_def inj_def generatedApplicationConfigVolumeName_def comp_def)
  finally have dist: "distinct (map (\<lambda>(v, m). vm_name m) (add_uses uuid app 0 us))" .
  have "set (map (\<lambda>(v, m). (av_name v, vm_name m)) (add_uses uuid app 0 us)) \<subseteq> {(a, b). a = b}" unfolding j by auto
  then have "\<forall>(v, m) \<in> set (add_uses uuid app 0 us). av_name v = vm_name m" by auto
  from read_pairs [OF dist this] read_uses show ?thesis by simp
qed

text \<open>The paths at which a use mounts one key: at most one.\<close>

lemma paths_of_key:
  assumes "distinct (map ok_Key (cu_OverridenKeys u))" and "cu_Overriden u"
  shows "map cn_rootMountPath (filter (\<lambda>v. cn_configurationKey v = k)
      (concat (map (group_entries cfg) (use_groups u)))) = map ok_Path (filter (\<lambda>o'. ok_Key o' = k) (keys_of_type FILESYSTEM u))"
proof -
  let ?fs = "keys_of_type FILESYSTEM u"
  have dist: "distinct (map ok_Key ?fs)" using assms(1) by (simp add: keys_of_type_def distinct_map_filter)
  have entries: "map cn_rootMountPath (filter (\<lambda>v. cn_configurationKey v = k) (group_entries cfg g)) =
      map (\<lambda>o'. fst g) (filter (\<lambda>o'. ok_Key o' = k) (snd g))" for g
    by (simp add: group_entries_def filter_map comp_def)
  have groups: "map cn_rootMountPath (filter (\<lambda>v. cn_configurationKey v = k) (concat (map (group_entries cfg) gs))) =
      concat (map (\<lambda>g. map (\<lambda>o'. fst g) (filter (\<lambda>o'. ok_Key o' = k) (snd g))) gs)" for gs
    by (simp add: map_concat filter_concat comp_def entries)
  show ?thesis
  proof (cases "\<exists>o' \<in> set ?fs. ok_Key o' = k")
    case True
    then obtain o' where o': "o' \<in> set ?fs" "ok_Key o' = k" by blast
    have here: "snd g = filter (\<lambda>x. ok_Path x = fst g) ?fs" if "g \<in> set (obj_entries (group_by ok_Path ?fs))" for g
      using that by (auto simp: set_obj_entries obj_get_group_by split: if_splits)
    have one: "map (\<lambda>o'. fst g) (filter (\<lambda>o'. ok_Key o' = k) (snd g)) = (if fst g = ok_Path o' then [ok_Path o'] else [])"
      if "g \<in> set (obj_entries (group_by ok_Path ?fs))" for g
    proof -
      have "filter (\<lambda>x. ok_Key x = k) (snd g) = (if ok_Path o' = fst g then [o'] else [])"
        using only_one [OF dist o'(1), of "\<lambda>x. ok_Path x = fst g"] unfolding here [OF that] filter_filter o'(2)
        by (simp add: conj_commute)
      then show ?thesis by auto
    qed
    have all: "map (\<lambda>g. map (\<lambda>o'. fst g) (filter (\<lambda>o'. ok_Key o' = k) (snd g))) (obj_entries (group_by ok_Path ?fs)) =
      map (\<lambda>g. if fst g = ok_Path o' then [ok_Path o'] else []) (obj_entries (group_by ok_Path ?fs))"
      by (rule map_cong [OF refl]) (rule one)
    have "concat (map (\<lambda>g. if fst g = ok_Path o' then [ok_Path o'] else []) (obj_entries (group_by ok_Path ?fs))) = [ok_Path o']"
      using concat_of_key [OF distinct_obj_entries [OF obj_ok_group_by, of ok_Path ?fs], of "ok_Path o'" "\<lambda>_. [ok_Path o']"] o'(1)
      by (auto simp: map_of_obj_entries obj_get_group_by filter_empty_conv)
    moreover have "filter (\<lambda>x. ok_Key x = k) ?fs = [o']" using only_one [OF dist o'(1), of "\<lambda>_. True"] o'(2) by simp
    ultimately show ?thesis unfolding groups use_groups_def if_P [OF assms(2)] all by simp
  next
    case False
    then have "filter (\<lambda>o'. ok_Key o' = k) ?fs = []" by (simp add: filter_empty_conv)
    moreover have "filter (\<lambda>o'. ok_Key o' = k) (snd g) = []" if "g \<in> set (obj_entries (group_by ok_Path ?fs))" for g
    proof -
      have "snd g = filter (\<lambda>x. ok_Path x = fst g) ?fs"
        using that by (auto simp: set_obj_entries obj_get_group_by split: if_splits)
      with False show ?thesis by (simp add: filter_empty_conv)
    qed
    ultimately show ?thesis unfolding groups using assms(2) by (auto simp: use_groups_def)
  qed
qed

lemma key_uses_keys: "map ku_Key (key_uses env volumes cfg) = obj_keys (cg_Data cfg)"
  by (simp add: key_uses_def comp_def)

lemma override_key_of: "ku_Count k = 0 \<or> i < ku_Count k \<Longrightarrow> ok_Key (projr (override_at i k)) = ku_Key k"
  by (auto simp: override_at_def)

text \<open>One use of the form: the variables and paths it has for a key.\<close>

lemma use_of_key:
  assumes "distinct (map ku_Key ks)" and "k \<in> set ks" and "\<forall>x \<in> set ks. ku_Count x = 0 \<or> i < ku_Count x" and "t \<le> i"
  shows "length (filter (\<lambda>e. ev_name e = ku_Key k) (use_env (use_at cfg t ks i))) =
      (if ku_Count k \<noteq> 0 \<and> i < ku_EnvCount k then 1 else 0)"
    and "map cn_rootMountPath (filter (\<lambda>v. cn_configurationKey v = ku_Key k)
      (concat (map (group_entries cfg) (use_groups (use_at cfg t ks i))))) =
      (if ku_EnvCount k \<le> i \<and> i < ku_Count k then [ku_Paths k ! (i - ku_EnvCount k)] else [])"
proof -
  let ?u = "use_at cfg t ks i" and ?o = "\<lambda>k. projr (override_at i k)"
  have u: "cu_Overriden ?u" "cu_SelectedConfiguration ?u = cfg" "cu_OverridenKeys ?u = map ?o ks"
    using assms(4) by (simp_all add: use_at_def)
  have keys: "map ok_Key (map ?o ks) = map ku_Key ks" using assms(3) override_key_of by simp
  have dist: "distinct (map ok_Key (map ?o ks))" unfolding keys by (rule assms(1))
  have key: "ok_Key (?o k) = ku_Key k" using assms(2,3) override_key_of by blast
  have one: "filter (\<lambda>y. ok_Key y = ku_Key k \<and> ok_Type y = ty) (map ?o ks) = (if ok_Type (?o k) = ty then [?o k] else [])" for ty
    using only_one [OF dist, of "?o k" "\<lambda>y. ok_Type y = ty"] assms(2) unfolding key by simp
  have filt: "filter (\<lambda>y. ok_Key y = ku_Key k) (keys_of_type ty ?u) = (if ok_Type (?o k) = ty then [?o k] else [])" for ty
    using one [of ty] by (simp add: keys_of_type_def u(3) filter_filter conj_commute)
  have "length (filter (\<lambda>e. ev_name e = ku_Key k) (use_env ?u)) =
      length (filter (\<lambda>y. ok_Key y = ku_Key k) (keys_of_type ENVIRONMENT ?u))"
    by (simp add: use_env_def u filter_map comp_def config_env_def)
  also have "\<dots> = (if ok_Type (?o k) = ENVIRONMENT then 1 else 0)" unfolding filt by simp
  also have "\<dots> = (if ku_Count k \<noteq> 0 \<and> i < ku_EnvCount k then 1 else 0)"
    using assms(2,3) by (auto simp: override_at_def)
  finally show "length (filter (\<lambda>e. ev_name e = ku_Key k) (use_env ?u)) = (if ku_Count k \<noteq> 0 \<and> i < ku_EnvCount k then 1 else 0)" .
  have "map cn_rootMountPath (filter (\<lambda>v. cn_configurationKey v = ku_Key k) (concat (map (group_entries cfg) (use_groups ?u)))) =
      map ok_Path (filter (\<lambda>y. ok_Key y = ku_Key k) (keys_of_type FILESYSTEM ?u))"
    using dist u by (intro paths_of_key) simp_all
  also have "\<dots> = (if ok_Type (?o k) = FILESYSTEM then [ok_Path (?o k)] else [])" unfolding filt by simp
  also have "\<dots> = (if ku_EnvCount k \<le> i \<and> i < ku_Count k then [ku_Paths k ! (i - ku_EnvCount k)] else [])"
    using assms(2,3) by (auto simp: override_at_def)
  finally show "map cn_rootMountPath (filter (\<lambda>v. cn_configurationKey v = ku_Key k)
      (concat (map (group_entries cfg) (use_groups ?u)))) =
      (if ku_EnvCount k \<le> i \<and> i < ku_Count k then [ku_Paths k ! (i - ku_EnvCount k)] else [])" .
qed

lemma plain_use_of_key:
  assumes "distinct (obj_keys (cg_Data cfg))" and "k \<in> set (obj_keys (cg_Data cfg))" and "i < t"
  shows "length (filter (\<lambda>e. ev_name e = k) (use_env (use_at cfg t ks i))) = 1"
    and "use_groups (use_at cfg t ks i) = []"
proof -
  have "filter (\<lambda>x. x = k) (obj_keys (cg_Data cfg)) = [k]"
    using only_one [of id "obj_keys (cg_Data cfg)" k "\<lambda>_. True"] assms(1,2) by simp
  then show "length (filter (\<lambda>e. ev_name e = k) (use_env (use_at cfg t ks i))) = 1"
    using assms(3) by (simp add: use_at_def use_env_def filter_map comp_def config_env_def)
  show "use_groups (use_at cfg t ks i) = []" using assms(3) by (simp add: use_at_def use_groups_def)
qed

lemma shifted_nth: "map (\<lambda>i. xs ! (i - e)) [e..<e + length xs] = xs"
  by (rule nth_equalityI) simp_all

lemma concat_split:
  assumes "c = e + length xs"
  shows "concat (map (\<lambda>i. if e \<le> i \<and> i < c then [xs ! (i - e)] else []) [0..<c]) = xs"
proof -
  have "[0..<c] = [0..<e] @ [e..<c]" using assms by (metis le_add1 upt_add_eq_append plus_nat.add_0)
  moreover have "map (\<lambda>i. if e \<le> i \<and> i < c then [xs ! (i - e)] else []) [0..<e] = map (\<lambda>i. []) [0..<e]" by simp
  moreover have "map (\<lambda>i. if e \<le> i \<and> i < c then [xs ! (i - e)] else []) [e..<c] = map (\<lambda>x. [x]) (map (\<lambda>i. xs ! (i - e)) [e..<c])"
    by simp
  ultimately show ?thesis using assms shifted_nth [of xs e] by (simp only: map_append concat_append) simp
qed

section \<open>Properties\<close>

text \<open>
  The form of an application can be built exactly when each configuration it uses is either mounted nowhere, or
  has all its keys in use equally often; otherwise the page for its edition fails with a type error.
\<close>

theorem config_uses_readable_iff:
  "(\<exists>us. generateConfigurationFormValuesFromEnvAndVolumes env volumes cfgs = Inr us) \<longleftrightarrow>
    (\<forall>cfg \<in> set cfgs. used_configuration env volumes cfg \<longrightarrow>
      (\<forall>k \<in> set (key_uses env volumes cfg). ku_Paths k = []) \<or>
      (\<forall>k \<in> set (key_uses env volumes cfg). \<forall>j \<in> set (key_uses env volumes cfg).
         0 < ku_Count k \<and> 0 < ku_Count j \<longrightarrow> ku_Count k = ku_Count j))"
proof -
  have each: "(\<exists>us. uses_of env volumes cfg = Inr us) \<longleftrightarrow> (used_configuration env volumes cfg \<longrightarrow>
      (\<forall>k \<in> set (key_uses env volumes cfg). ku_Paths k = []) \<or>
      (\<forall>k \<in> set (key_uses env volumes cfg). \<forall>j \<in> set (key_uses env volumes cfg).
         0 < ku_Count k \<and> 0 < ku_Count j \<longrightarrow> ku_Count k = ku_Count j))" for cfg
  proof (cases "used_configuration env volumes cfg \<and> key_uses env volumes cfg \<noteq> []")
    case True
    let ?ks = "key_uses env volumes cfg"
    have paths: "most_paths ?ks = 0 \<longleftrightarrow> (\<forall>k \<in> set ?ks. ku_Paths k = [])"
    proof
      assume "most_paths ?ks = 0"
      then show "\<forall>k \<in> set ?ks. ku_Paths k = []" using max_of_ge [of _ "map (\<lambda>k. length (ku_Paths k)) ?ks"]
        unfolding most_paths_def by fastforce
    next
      assume "\<forall>k \<in> set ?ks. ku_Paths k = []"
      then show "most_paths ?ks = 0" using max_of_in [of "map (\<lambda>k. length (ku_Paths k)) ?ks"] unfolding most_paths_def by auto
    qed
    have counts: "(\<exists>k \<in> set ?ks. 0 < ku_Count k \<and> ku_Count k < most_uses ?ks) \<longleftrightarrow>
        \<not> (\<forall>k \<in> set ?ks. \<forall>j \<in> set ?ks. 0 < ku_Count k \<and> 0 < ku_Count j \<longrightarrow> ku_Count k = ku_Count j)"
    proof
      assume "\<exists>k \<in> set ?ks. 0 < ku_Count k \<and> ku_Count k < most_uses ?ks"
      then obtain k where k: "k \<in> set ?ks" "0 < ku_Count k" "ku_Count k < most_uses ?ks" by blast
      then obtain j where "j \<in> set ?ks" "ku_Count j = most_uses ?ks"
        using max_of_in [of "map ku_Count ?ks"] unfolding most_uses_def by auto
      with k show "\<not> (\<forall>k \<in> set ?ks. \<forall>j \<in> set ?ks. 0 < ku_Count k \<and> 0 < ku_Count j \<longrightarrow> ku_Count k = ku_Count j)" by fastforce
    next
      assume "\<not> (\<forall>k \<in> set ?ks. \<forall>j \<in> set ?ks. 0 < ku_Count k \<and> 0 < ku_Count j \<longrightarrow> ku_Count k = ku_Count j)"
      then obtain k j where kj: "k \<in> set ?ks" "j \<in> set ?ks" "0 < ku_Count k" "0 < ku_Count j" "ku_Count k < ku_Count j"
        by (metis linorder_neqE_nat)
      then have "ku_Count j \<le> most_uses ?ks" unfolding most_uses_def by (intro max_of_ge) simp
      with kj show "\<exists>k \<in> set ?ks. 0 < ku_Count k \<and> ku_Count k < most_uses ?ks" by (intro bexI [of _ k]) simp_all
    qed
    have "(\<exists>us. uses_of env volumes cfg = Inr us) \<longleftrightarrow>
        \<not> (\<not> most_paths ?ks = 0 \<and> (\<exists>k \<in> set ?ks. 0 < ku_Count k \<and> ku_Count k < most_uses ?ks))"
      using True by (simp add: uses_of_result Let_def)
    then show ?thesis using True unfolding paths counts by (simp only: simp_thms de_Morgan_conj not_not)
  next
    case False
    then have "\<exists>us. uses_of env volumes cfg = Inr us" unfolding uses_of_def used_configuration_def Let_def by auto
    with False show ?thesis by auto
  qed
  have "(\<exists>us. fold_result (\<lambda>cfg acc. and_then (uses_of env volumes cfg) (\<lambda>us. Inr (acc @ us))) cfgs acc = Inr us) \<longleftrightarrow>
      (\<forall>cfg \<in> set cfgs. \<exists>us. uses_of env volumes cfg = Inr us)" for acc
  proof (induction cfgs arbitrary: acc)
    case (Cons cfg cfgs)
    then show ?case by (cases "uses_of env volumes cfg") simp_all
  qed simp
  then show ?thesis unfolding generateConfigurationFormValuesFromEnvAndVolumes_def by (simp add: each)
qed

text \<open>
  A form that was built and is saved unchanged gives every key that is in use as many variables as before and
  mounts it at the same paths; a key that was not in use is added as a variable to the uses that are not overriden.
\<close>

theorem config_uses_kept:
  assumes "inj uuid" and "obj_ok (cg_Data cfg)" and "used_configuration env volumes cfg"
    and "uses_of env volumes cfg = Inr us" and "k \<in> set (key_uses env volumes cfg)"
    and "ku_Count k \<in> {0, most_uses (key_uses env volumes cfg)}"
    and "app = generateEnvOrVolumesFromConfigurations uuid name \<lparr>wa_Env = [], wa_Volumes = [], wa_VolumeMounts = []\<rparr> us"
  shows "length (filter (\<lambda>e. ev_name e = ku_Key k) (wa_Env app)) =
      (if ku_Count k = 0 then most_uses (key_uses env volumes cfg) - most_paths (key_uses env volumes cfg) else ku_EnvCount k) \<and>
    map cn_rootMountPath (filter (\<lambda>v. cn_configurationKey v = ku_Key k)
      (configuration_volumes (wa_Volumes app) (wa_VolumeMounts app))) = ku_Paths k"
proof -
  let ?ks = "key_uses env volumes cfg"
  let ?m = "most_uses ?ks" and ?t = "most_uses ?ks - most_paths ?ks"
  have ne: "?ks \<noteq> []" using assms(5) by auto
  have us: "us = map (use_at cfg ?t ?ks) [0..<?m]" and
    ok: "most_paths ?ks = 0 \<or> (\<forall>x \<in> set ?ks. ku_Count x = 0 \<or> ?m \<le> ku_Count x)"
    using assms(4) uses_of_result [OF assms(3) ne] by (auto simp: Let_def split: if_splits)
  have keys: "map ku_Key ?ks = obj_keys (cg_Data cfg)" by (rule key_uses_keys)
  have dist: "distinct (map ku_Key ?ks)" unfolding keys using assms(2) by simp
  have k: "ku_Key k \<in> set (obj_keys (cg_Data cfg))" using assms(5) unfolding keys [symmetric] by simp
  have fits: "\<forall>x \<in> set ?ks. ku_Count x = 0 \<or> i < ku_Count x" if "?t \<le> i" "i < ?m" for i
    using ok that by auto
  have le: "most_paths ?ks \<ge> length (ku_Paths k)" unfolding most_paths_def using assms(5) by (intro max_of_ge) simp
  have env_at: "length (filter (\<lambda>e. ev_name e = ku_Key k) (use_env (use_at cfg ?t ?ks i))) =
      (if (if ku_Count k = 0 then i < ?t else i < ku_EnvCount k) then 1 else 0)" if "i < ?m" for i
  proof (cases "i < ?t")
    case True
    then have "ku_Count k \<noteq> 0 \<longrightarrow> i < ku_EnvCount k" using le assms(6) by (auto simp: ku_Count_def)
    with True plain_use_of_key(1) [OF _ k True, of ?ks] assms(2) show ?thesis by simp
  qed (use use_of_key(1) [OF dist assms(5) fits, of i ?t] that in simp)
  have paths_at: "map cn_rootMountPath (filter (\<lambda>v. cn_configurationKey v = ku_Key k)
      (concat (map (group_entries cfg) (use_groups (use_at cfg ?t ?ks i))))) =
      (if ku_EnvCount k \<le> i \<and> i < ku_Count k then [ku_Paths k ! (i - ku_EnvCount k)] else [])" if "i < ?m" for i
  proof (cases "i < ?t")
    case True
    then have "\<not> (ku_EnvCount k \<le> i \<and> i < ku_Count k)" using le assms(6) by (auto simp: ku_Count_def)
    with plain_use_of_key(2) [OF _ k True, of ?ks] assms(2) show ?thesis by simp
  qed (use use_of_key(2) [OF dist assms(5) fits, of i ?t] that in simp)
  have cfg: "cu_SelectedConfiguration (use_at cfg ?t ?ks i) = cfg" for i by (simp add: use_at_def)
  have env: "wa_Env app = concat (map (\<lambda>i. use_env (use_at cfg ?t ?ks i)) [0..<?m])"
    by (simp add: assms(7) generateEnvOrVolumesFromConfigurations_def Let_def us comp_def)
  have vols: "configuration_volumes (wa_Volumes app) (wa_VolumeMounts app) =
      concat (map (\<lambda>i. concat (map (group_entries cfg) (use_groups (use_at cfg ?t ?ks i)))) [0..<?m])"
    using written_volumes [OF assms(1), of name us]
    by (simp add: assms(7) generateEnvOrVolumesFromConfigurations_def Let_def us comp_def cfg)
  have counting: "(\<Sum>i\<leftarrow>[0..<n]. if i < e then 1 else 0) = min e n" for n e :: nat
    by (induction n) (auto simp: min_def)
  have "length (filter (\<lambda>e. ev_name e = ku_Key k) (wa_Env app)) =
      (\<Sum>i\<leftarrow>[0..<?m]. if (if ku_Count k = 0 then i < ?t else i < ku_EnvCount k) then 1 else 0)"
    unfolding env filter_concat length_concat map_map comp_def
    by (intro arg_cong [where f = sum_list] map_cong refl env_at) simp
  also have "\<dots> = (if ku_Count k = 0 then ?t else ku_EnvCount k)"
    using counting [of ?t ?m] counting [of "ku_EnvCount k" ?m] assms(6) by (auto simp: ku_Count_def)
  moreover have "map cn_rootMountPath (filter (\<lambda>v. cn_configurationKey v = ku_Key k)
      (configuration_volumes (wa_Volumes app) (wa_VolumeMounts app))) =
    concat (map (\<lambda>i. if ku_EnvCount k \<le> i \<and> i < ku_Count k then [ku_Paths k ! (i - ku_EnvCount k)] else []) [0..<?m])"
  proof -
    have outer: "map R (filter P (concat (map F xs))) = concat (map (\<lambda>i. map R (filter P (F i))) xs)"
      for R :: "config_volume \<Rightarrow> string" and P and F :: "nat \<Rightarrow> config_volume list" and xs
      by (simp add: map_concat filter_concat comp_def)
    show ?thesis
      by (subst vols, subst outer) (intro arg_cong [where f = concat] map_cong refl paths_at, simp)
  qed
  moreover have "\<dots> = ku_Paths k"
  proof (cases "ku_Count k = 0")
    case False
    then have "?m = ku_Count k" using assms(6) by simp
    then show ?thesis using concat_split [of "ku_Count k" "ku_EnvCount k" "ku_Paths k"] by (simp add: ku_Count_def)
  qed (simp add: ku_Count_def)
  ultimately show ?thesis by simp
qed

definition site_config :: configuration where
  "site_config = \<lparr>cg_Type = CONFIGMAP, cg_Id = ''1'', cg_Name = ''site'', cg_Namespace = ''default'', cg_CreationDate = [],
     cg_Yaml = [], cg_Owner = None, cg_IsRegistrySecret = False, cg_Data = [(''a'', []), (''b'', [])]\<rparr>"

definition mounted :: "string \<Rightarrow> string \<Rightarrow> config_volume" where
  "mounted key path = \<lparr>cn_fileMountPath = path @ ''/'' @ key, cn_rootMountPath = path, cn_configurationKey = key,
     cn_configurationName = ''site''\<rparr>"

lemma site_keys: "obj_keys (cg_Data site_config) = [''a'', ''b'']"
proof -
  have "\<not> is_array_index ''a''" "\<not> is_array_index ''b''" by (simp_all add: not_array_index is_digit_def)
  then show ?thesis by (simp add: site_config_def obj_keys_def key_order_def)
qed

theorem config_uses_readable_iff_witness:
  "\<not> (\<exists>us. generateConfigurationFormValuesFromEnvAndVolumes []
     [mounted ''a'' ''/x'', mounted ''a'' ''/y'', mounted ''b'' ''/y''] [site_config] = Inr us)"
proof -
  let ?volumes = "[mounted ''a'' ''/x'', mounted ''a'' ''/y'', mounted ''b'' ''/y'']"
  have "key_uses [] ?volumes site_config =
      [\<lparr>ku_Key = ''a'', ku_EnvCount = 0, ku_Paths = [''/x'', ''/y'']\<rparr>, \<lparr>ku_Key = ''b'', ku_EnvCount = 0, ku_Paths = [''/y'']\<rparr>]"
    by (simp add: key_uses_def site_keys mounted_def) (simp add: site_config_def)
  moreover have "used_configuration [] ?volumes site_config" by (simp add: used_configuration_def mounted_def site_config_def)
  ultimately show ?thesis unfolding config_uses_readable_iff by (simp add: ku_Count_def)
qed

theorem config_uses_kept_witness:
  "\<exists>us. uses_of [] [mounted ''a'' ''/x'', mounted ''a'' ''/y''] site_config = Inr us \<and>
     (let app = generateEnvOrVolumesFromConfigurations (\<lambda>n. replicate n (CHR ''x'')) ''web''
        \<lparr>wa_Env = [], wa_Volumes = [], wa_VolumeMounts = []\<rparr> us
      in map cn_rootMountPath (filter (\<lambda>v. cn_configurationKey v = ''a'')
           (configuration_volumes (wa_Volumes app) (wa_VolumeMounts app))) = [''/x'', ''/y''])"
proof -
  let ?volumes = "[mounted ''a'' ''/x'', mounted ''a'' ''/y'']" and ?a = "\<lparr>ku_Key = ''a'', ku_EnvCount = 0, ku_Paths = [''/x'', ''/y'']\<rparr>"
  have ks: "key_uses [] ?volumes site_config = [?a, \<lparr>ku_Key = ''b'', ku_EnvCount = 0, ku_Paths = []\<rparr>]"
    by (simp add: key_uses_def site_keys mounted_def) (simp add: site_config_def)
  have used: "used_configuration [] ?volumes site_config" by (simp add: used_configuration_def mounted_def site_config_def)
  have inj: "inj (\<lambda>n. replicate n (CHR ''x''))" by (rule injI) (metis length_replicate)
  have data: "obj_ok (cg_Data site_config)" by (simp add: site_config_def obj_ok_def)
  have a: "?a \<in> set (key_uses [] ?volumes site_config)" "ku_Count ?a \<in> {0, most_uses (key_uses [] ?volumes site_config)}"
    unfolding ks by (simp_all add: ku_Count_def most_uses_def max_of_def)
  obtain us where us: "uses_of [] ?volumes site_config = Inr us"
    using uses_of_result [OF used] unfolding ks Let_def by (simp add: ku_Count_def most_uses_def max_of_def)
  from config_uses_kept [OF inj data used us a refl] us show ?thesis by (simp add: Let_def)
qed

text \<open>
  The environment of an application gives back the variables that were typed in the form, without those to be
  deleted; the variables of its configurations are no part of the list.
\<close>

theorem env_variables_kept:
  "generateEnvVariablesFromEnv (generateEnvFromEnvVariables vs @ concat (map use_env us)) =
     map (\<lambda>v. v\<lparr>vf_IsSecret := False, vf_IsNew := False, vf_NameIndex := vf_Name v\<rparr>) (filter (\<lambda>v. \<not> vf_NeedsDeletion v) vs)"
proof -
  let ?f = "\<lambda>e. if ev_valueFrom e \<noteq> None then None else Some (new_env_form
       \<lparr>vf_Name := ev_name e, vf_Value := ev_value e, vf_IsNew := False, vf_NameIndex := ev_name e\<rparr>)"
  have refs: "list_all (\<lambda>e. ev_valueFrom e \<noteq> None) (concat (map use_env us))"
    by (auto simp: list_all_iff use_env_def config_env_def)
  have none: "without_undefined (map ?f es) = []" if "list_all (\<lambda>e. ev_valueFrom e \<noteq> None) es" for es
    using that by (induction es) simp_all
  have typed: "without_undefined (map ?f (generateEnvFromEnvVariables vs @ es)) =
      map (\<lambda>v. v\<lparr>vf_IsSecret := False, vf_IsNew := False, vf_NameIndex := vf_Name v\<rparr>) (filter (\<lambda>v. \<not> vf_NeedsDeletion v) vs) @
      without_undefined (map ?f es)" for es
    by (induction vs) (simp_all add: generateEnvFromEnvVariables_def new_env_form_def)
  show ?thesis unfolding generateEnvVariablesFromEnv_def typed none [OF refs] append_Nil2 ..
qed

end
