(* ===== verification/KubeWorkload.thy ===== *)
theory KubeWorkload
  imports KubeConfigUse
begin

text \<open>
  Placements, persistent volumes and the kind of an application: the regions of
  \<open>app/kubernetes/helpers/application/index.js\<close> on placements and persisted folders, the claims of
  \<open>converters/persistentVolumeClaim.js\<close>, and the part of \<open>converters/application.js\<close> that reads persisted folders and
  chooses between a deployment, a stateful set and a daemon set.
\<close>

datatype deployment_type = REPLICATED | GLOBAL
datatype data_access = SHARED | ISOLATED
datatype application_type = DEPLOYMENT | DAEMONSET | STATEFULSET | POD
datatype placement_type = PREFERRED | MANDATORY

fun KubernetesApplicationDeploymentTypes :: "deployment_type \<Rightarrow> nat" where
  "KubernetesApplicationDeploymentTypes REPLICATED = 1"
| "KubernetesApplicationDeploymentTypes GLOBAL = 2"

fun KubernetesApplicationDataAccessPolicies :: "data_access \<Rightarrow> nat" where
  "KubernetesApplicationDataAccessPolicies SHARED = 1"
| "KubernetesApplicationDataAccessPolicies ISOLATED = 2"

fun KubernetesApplicationTypes :: "application_type \<Rightarrow> nat" where
  "KubernetesApplicationTypes DEPLOYMENT = 1"
| "KubernetesApplicationTypes DAEMONSET = 2"
| "KubernetesApplicationTypes STATEFULSET = 3"
| "KubernetesApplicationTypes POD = 4"

fun KubernetesApplicationPlacementTypes :: "placement_type \<Rightarrow> nat" where
  "KubernetesApplicationPlacementTypes PREFERRED = 1"
| "KubernetesApplicationPlacementTypes MANDATORY = 2"

section \<open>Placements\<close>

record node_label =
  nl_Key :: string
  nl_Values :: "string list"

definition generateNodeLabelsFromNodes :: "string obj list \<Rightarrow> node_label list" where
  "generateNodeLabelsFromNodes nodes =
     map (\<lambda>(key, pairs). \<lparr>nl_Key = key, nl_Values = uniq (map snd pairs)\<rparr>)
       (obj_entries (group_by fst (concat (map obj_entries nodes))))"

record placement_form =
  pl_Label :: "node_label option"
  pl_Value :: "string option"
  pl_NeedsDeletion :: bool
  pl_IsNew :: bool

datatype selector_operator = IN | NOT_IN | EXISTS | DOES_NOT_EXIST | GREATER_THAN | LOWER_THAN

record requirement =
  rq_key :: string
  rq_operator :: selector_operator
  rq_values :: "string list option"

text \<open>The terms of an affinity, each a list of requirements; a preferred term has the weight 1.\<close>

record node_affinity =
  na_required :: "requirement list list option"
  na_preferred :: "requirement list list option"

definition placement_requirement :: "placement_form \<Rightarrow> requirement list \<Rightarrow> requirement list js_result" where
  "placement_requirement p acc =
     (if pl_NeedsDeletion p then Inr acc
      else (case pl_Label p of
          None \<Rightarrow> Inl TypeError
        | Some l \<Rightarrow> Inr (acc @
            [if truthy_str (pl_Value p)
             then \<lparr>rq_key = nl_Key l, rq_operator = IN, rq_values = Some [the (pl_Value p)]\<rparr>
             else \<lparr>rq_key = nl_Key l, rq_operator = EXISTS, rq_values = None\<rparr>])))"

definition generateAffinityFromPlacements ::
    "deployment_type \<Rightarrow> placement_type \<Rightarrow> placement_form list \<Rightarrow> node_affinity option js_result" where
  "generateAffinityFromPlacements deploymentType placementType placements =
     (if deploymentType = REPLICATED then
        and_then (fold_result placement_requirement placements []) (\<lambda>expressions. Inr
          (if expressions = [] then None
           else Some (case placementType of
               MANDATORY \<Rightarrow> \<lparr>na_required = Some [expressions], na_preferred = None\<rparr>
             | PREFERRED \<Rightarrow> \<lparr>na_required = None, na_preferred = Some [expressions]\<rparr>)))
      else Inr None)"

definition read_requirement :: "node_label list \<Rightarrow> requirement \<Rightarrow> placement_form list \<Rightarrow> placement_form list js_result" where
  "read_requirement nodesLabels e acc = (case rq_values e of
       None \<Rightarrow> Inl TypeError
     | Some vs \<Rightarrow> Inr (acc @ [\<lparr>pl_Label = find (\<lambda>l. nl_Key l = rq_key e) nodesLabels,
         pl_Value = elem_at vs 0, pl_NeedsDeletion = False, pl_IsNew = False\<rparr>]))"

text \<open>The affinity of a pod without one is the empty object.\<close>

definition generatePlacementsFormValuesFromAffinity ::
    "node_affinity \<Rightarrow> node_label list \<Rightarrow> (placement_type \<times> placement_form list) js_result" where
  "generatePlacementsFormValuesFromAffinity affinity nodesLabels =
     (case na_required affinity of
        Some terms \<Rightarrow> and_then (fold_result (read_requirement nodesLabels) (concat terms) []) (\<lambda>ps. Inr (MANDATORY, ps))
      | None \<Rightarrow> (case na_preferred affinity of
            Some terms \<Rightarrow> and_then (fold_result (read_requirement nodesLabels) (concat terms) []) (\<lambda>ps. Inr (PREFERRED, ps))
          | None \<Rightarrow> Inr (PREFERRED, [])))"

definition computeAffinity :: "node_affinity option \<Rightarrow> node_affinity" where
  "computeAffinity a = (case a of None \<Rightarrow> \<lparr>na_required = None, na_preferred = None\<rparr> | Some n \<Rightarrow> n)"

section \<open>Persistent volumes\<close>

record storage_class =
  sc_Name :: string
  sc_AccessModes :: "string list"
  sc_Provisioner :: string
  sc_AllowVolumeExpansion :: bool

record volume_claim =
  pv_Id :: string
  pv_Name :: string
  pv_PreviousName :: string
  pv_Namespace :: string
  pv_Storage :: string
  pv_StorageClass :: "storage_class option"
  pv_CreationDate :: string
  pv_ApplicationOwner :: "string option"
  pv_ApplicationName :: "string option"
  pv_MountPath :: string

record api_claim =
  aj_metadata :: metadata
  aj_storage :: string
  aj_storageClassName :: "string option"

definition claim_label :: "metadata \<Rightarrow> string \<Rightarrow> string option" where
  "claim_label md k = (case md_labels md of None \<Rightarrow> Some [] | Some ls \<Rightarrow> obj_get ls k)"

definition apiToPersistentVolumeClaim :: "api_claim \<Rightarrow> storage_class list \<Rightarrow> volume_claim" where
  "apiToPersistentVolumeClaim data storageClasses =
     \<lparr>pv_Id = md_uid (aj_metadata data), pv_Name = md_name (aj_metadata data), pv_PreviousName = [],
      pv_Namespace = md_namespace (aj_metadata data), pv_Storage = aj_storage data @ ''B'',
      pv_StorageClass = find (\<lambda>c. Some (sc_Name c) = aj_storageClassName data) storageClasses,
      pv_CreationDate = md_creationTimestamp (aj_metadata data),
      pv_ApplicationOwner = claim_label (aj_metadata data) ''io.portainer.kubernetes.application.owner'',
      pv_ApplicationName = claim_label (aj_metadata data) ''io.portainer.kubernetes.application.name'', pv_MountPath = []\<rparr>"

text \<open>The size of a folder is empty until it is typed; \<open>ExistingVolume\<close> is the claim of the volume.\<close>

record folder_form =
  ff_PersistentVolumeClaimName :: string
  ff_NeedsDeletion :: bool
  ff_ContainerPath :: string
  ff_Size :: "jsnum option"
  ff_SizeUnit :: string
  ff_StorageClass :: "storage_class option"
  ff_ExistingVolume :: "volume_claim option"
  ff_UseNewVolume :: bool

definition new_folder_form :: "storage_class option \<Rightarrow> folder_form" where
  "new_folder_form storageClass = \<lparr>ff_PersistentVolumeClaimName = [], ff_NeedsDeletion = False, ff_ContainerPath = [],
     ff_Size = None, ff_SizeUnit = ''GB'', ff_StorageClass = storageClass, ff_ExistingVolume = None,
     ff_UseNewVolume = True\<rparr>"

text \<open>Where a volume is mounted; one that is not a claim has the path of the host.\<close>

record persisted_folder =
  fo_MountPath :: string
  fo_PersistentVolumeClaimName :: string
  fo_HostPath :: string

definition volumes_with_templates :: "app_volume list \<Rightarrow> string list \<Rightarrow> app_volume list" where
  "volumes_with_templates volumes templates = volumes @
     map (\<lambda>n. \<lparr>av_name = n, av_source = ClaimVolume n\<rparr>)
       (filter (\<lambda>n. \<not> list_ex (\<lambda>v. av_source v = ClaimVolume n) volumes) templates)"

definition read_folder :: "volume_mount list \<Rightarrow> app_volume \<Rightarrow> persisted_folder option" where
  "read_folder mounts v =
     (case find (\<lambda>m. vm_name m = av_name v) mounts of
        None \<Rightarrow> None
      | Some m \<Rightarrow> (case av_source v of
            ClaimVolume n \<Rightarrow> Some \<lparr>fo_MountPath = vm_mountPath m, fo_PersistentVolumeClaimName = n, fo_HostPath = []\<rparr>
          | HostVolume p \<Rightarrow> Some \<lparr>fo_MountPath = vm_mountPath m, fo_PersistentVolumeClaimName = [], fo_HostPath = p\<rparr>
          | _ \<Rightarrow> None))"

definition persisted_folders :: "app_volume list \<Rightarrow> volume_mount list \<Rightarrow> persisted_folder list" where
  "persisted_folders volumes mounts = without_undefined (map (read_folder mounts) volumes)"

text \<open>The claim of a folder is the first whose name starts with the name in the folder.\<close>

definition folder_form_of :: "volume_claim list \<Rightarrow> persisted_folder \<Rightarrow> folder_form js_result" where
  "folder_form_of claims folder =
     (case find (\<lambda>c. starts_with (pv_Name c) (fo_PersistentVolumeClaimName folder)) claims of
        None \<Rightarrow> Inl TypeError
      | Some c \<Rightarrow> Inr ((new_folder_form (pv_StorageClass c))
          \<lparr>ff_PersistentVolumeClaimName := fo_PersistentVolumeClaimName folder, ff_Size := Some (parse_int (pv_Storage c)),
           ff_SizeUnit := slice_from (pv_Storage c) (-2), ff_ContainerPath := fo_MountPath folder\<rparr>))"

definition generatePersistedFoldersFormValuesFromPersistedFolders ::
    "persisted_folder list \<Rightarrow> volume_claim list \<Rightarrow> folder_form list js_result" where
  "generatePersistedFoldersFormValuesFromPersistedFolders folders claims =
     fold_result (\<lambda>f acc. and_then (folder_form_of claims f) (\<lambda>ff. Inr (acc @ [ff]))) folders []"

definition show_size :: "jsnum option \<Rightarrow> string" where
  "show_size s = (case s of None \<Rightarrow> [] | Some n \<Rightarrow> show_num n)"

definition claim_of_folder :: "string \<Rightarrow> string \<Rightarrow> string \<Rightarrow> string \<Rightarrow> folder_form \<Rightarrow> volume_claim" where
  "claim_of_folder uuid name namespace owner f =
     (let common = \<lparr>pv_Id = [], pv_Name = uuid, pv_PreviousName = [], pv_Namespace = namespace, pv_Storage = [],
        pv_StorageClass = None, pv_CreationDate = [], pv_ApplicationOwner = Some owner, pv_ApplicationName = Some name,
        pv_MountPath = ff_ContainerPath f\<rparr>
      in case ff_ExistingVolume f of
           Some e \<Rightarrow> common\<lparr>pv_Name := pv_Name e, pv_PreviousName := ff_PersistentVolumeClaimName f,
             pv_StorageClass := pv_StorageClass e, pv_Storage := take 1 (pv_Storage e), pv_CreationDate := pv_CreationDate e,
             pv_Id := pv_Id e\<rparr>
         | None \<Rightarrow> common
             \<lparr>pv_Name := (if ff_PersistentVolumeClaimName f \<noteq> [] then ff_PersistentVolumeClaimName f else name @ ''-'' @ uuid),
              pv_PreviousName := ff_PersistentVolumeClaimName f,
              pv_Storage := show_size (ff_Size f) @ take 1 (ff_SizeUnit f), pv_StorageClass := ff_StorageClass f\<rparr>)"

text \<open>The folders to be deleted are taken out of the form; each of the others draws an identifier.\<close>

definition applicationFormValuesToVolumeClaims ::
    "(nat \<Rightarrow> string) \<Rightarrow> string \<Rightarrow> string \<Rightarrow> string \<Rightarrow> folder_form list \<Rightarrow> volume_claim list" where
  "applicationFormValuesToVolumeClaims uuid name namespace owner folders =
     (let kept = filter (\<lambda>f. \<not> ff_NeedsDeletion f) folders in
      map (\<lambda>i. claim_of_folder (uuid i) name namespace owner (kept ! i)) [0..<length kept])"

definition generateVolumesFromPersistentVolumClaims :: "volume_claim list \<Rightarrow> written_app \<Rightarrow> written_app" where
  "generateVolumesFromPersistentVolumClaims claims app = app
     \<lparr>wa_VolumeMounts := map (\<lambda>c. \<lparr>vm_name = pv_Name c, vm_mountPath = pv_MountPath c, vm_readOnly = False\<rparr>) claims,
      wa_Volumes := map (\<lambda>c. \<lparr>av_name = pv_Name c, av_source = ClaimVolume (pv_Name c)\<rparr>) claims\<rparr>"

record claim_payload =
  cy_name :: string
  cy_namespace :: string
  cy_storage :: string
  cy_storageClassName :: string
  cy_labels :: "string option obj"

definition createClaimPayload :: "volume_claim \<Rightarrow> claim_payload" where
  "createClaimPayload c = \<lparr>cy_name = pv_Name c, cy_namespace = pv_Namespace c, cy_storage = pv_Storage c,
     cy_storageClassName = (case pv_StorageClass c of None \<Rightarrow> [] | Some s \<Rightarrow> sc_Name s),
     cy_labels = [(''app'', pv_ApplicationName c), (''io.portainer.kubernetes.application.owner'', pv_ApplicationOwner c),
       (''io.portainer.kubernetes.application.name'', pv_ApplicationName c)]\<rparr>"

definition hasRWOOnly :: "folder_form list \<Rightarrow> bool" where
  "hasRWOOnly folders \<longleftrightarrow> list_ex (\<lambda>f. case ff_StorageClass f of None \<Rightarrow> False | Some s \<Rightarrow> sc_AccessModes s = [''RWO'']) folders"

definition hasRWX :: "volume_claim list \<Rightarrow> bool" where
  "hasRWX claims \<longleftrightarrow> list_ex (\<lambda>c. case pv_StorageClass c of None \<Rightarrow> False | Some s \<Rightarrow> ''RWX'' \<in> set (sc_AccessModes s)) claims"

section \<open>The kind of an application\<close>

text \<open>\<open>ApplicationType\<close> is only there in a form made from an application.\<close>

definition application_kind ::
    "deployment_type \<Rightarrow> data_access \<Rightarrow> volume_claim list \<Rightarrow> application_type option \<Rightarrow> application_type js_result" where
  "application_kind deploymentType access claims applicationType =
     (let deployment = deploymentType = REPLICATED \<and> (claims = [] \<or> claims \<noteq> [] \<and> access = SHARED) \<or>
            applicationType = Some DEPLOYMENT;
          statefulSet = deploymentType = REPLICATED \<and> claims \<noteq> [] \<and> access = ISOLATED \<or> applicationType = Some STATEFULSET;
          daemonSet = deploymentType = GLOBAL \<and> (claims = [] \<or> claims \<noteq> [] \<and> access = SHARED \<and> hasRWX claims) \<or>
            applicationType = Some DAEMONSET
      in if deployment then Inr DEPLOYMENT
         else if statefulSet then Inr STATEFULSET
         else if daemonSet then Inr DAEMONSET
         else Inl (ThrownError ''Unable to determine which association to use to convert form''))"

definition needs_headless_service ::
    "deployment_type \<Rightarrow> data_access \<Rightarrow> volume_claim list \<Rightarrow> application_type option \<Rightarrow> bool" where
  "needs_headless_service deploymentType access claims applicationType \<longleftrightarrow>
     deploymentType = REPLICATED \<and> claims \<noteq> [] \<and> access = ISOLATED \<or> applicationType = Some STATEFULSET"

section \<open>Replicas\<close>

record auto_scaler =
  as_MinReplicas :: nat
  as_MaxReplicas :: nat
  as_TargetCPUUtilization :: "nat option"
  as_ApiVersion :: string

record scaler_form =
  sg_MinReplicas :: nat
  sg_MaxReplicas :: nat
  sg_TargetCPUUtilization :: "nat option"
  sg_ApiVersion :: string
  sg_IsUsed :: bool

definition generateAutoScalerFormValueFromHorizontalPodAutoScaler :: "auto_scaler option \<Rightarrow> nat \<Rightarrow> scaler_form" where
  "generateAutoScalerFormValueFromHorizontalPodAutoScaler a replicasCount = (case a of
       Some s \<Rightarrow> \<lparr>sg_MinReplicas = as_MinReplicas s, sg_MaxReplicas = as_MaxReplicas s,
         sg_TargetCPUUtilization = as_TargetCPUUtilization s, sg_ApiVersion = as_ApiVersion s, sg_IsUsed = True\<rparr>
     | None \<Rightarrow> \<lparr>sg_MinReplicas = replicasCount, sg_MaxReplicas = replicasCount, sg_TargetCPUUtilization = Some 50,
         sg_ApiVersion = ''apps/v1'', sg_IsUsed = False\<rparr>)"

definition deployment_pods :: "nat option \<Rightarrow> nat option \<Rightarrow> nat option \<Rightarrow> int" where
  "deployment_pods available replicas unavailable =
     (case available of Some n \<Rightarrow> if n \<noteq> 0 then int n else
          (case (replicas, unavailable) of (Some r, Some u) \<Rightarrow> int r - int u | _ \<Rightarrow> 0)
      | None \<Rightarrow> (case (replicas, unavailable) of (Some r, Some u) \<Rightarrow> int r - int u | _ \<Rightarrow> 0))"

section \<open>Properties\<close>

definition requirement_of :: "placement_form \<Rightarrow> requirement" where
  "requirement_of p = (if truthy_str (pl_Value p)
     then \<lparr>rq_key = nl_Key (the (pl_Label p)), rq_operator = IN, rq_values = Some [the (pl_Value p)]\<rparr>
     else \<lparr>rq_key = nl_Key (the (pl_Label p)), rq_operator = EXISTS, rq_values = None\<rparr>)"

lemma written_requirements:
  "\<forall>p \<in> set ps. \<not> pl_NeedsDeletion p \<longrightarrow> pl_Label p \<noteq> None \<Longrightarrow>
     fold_result placement_requirement ps acc = Inr (acc @ map requirement_of (filter (\<lambda>p. \<not> pl_NeedsDeletion p) ps))"
  by (induction ps arbitrary: acc) (auto simp: placement_requirement_def requirement_of_def)

lemma read_requirements:
  assumes "\<forall>p \<in> set ps. \<not> pl_NeedsDeletion p \<and> (\<exists>l. pl_Label p = Some l \<and> find (\<lambda>x. nl_Key x = nl_Key l) labels = Some l)"
  shows "fold_result (read_requirement labels) (map requirement_of ps) acc =
    (if \<forall>p \<in> set ps. truthy_str (pl_Value p) then Inr (acc @ map (\<lambda>p. p\<lparr>pl_IsNew := False\<rparr>) ps) else Inl TypeError)"
  using assms
proof (induction ps arbitrary: acc)
  case (Cons p ps)
  then obtain l where l: "\<not> pl_NeedsDeletion p" "pl_Label p = Some l" "find (\<lambda>x. nl_Key x = nl_Key l) labels = Some l" by auto
  show ?case
  proof (cases "truthy_str (pl_Value p)")
    case True
    then obtain v where v: "pl_Value p = Some v" by (auto elim: truthy_strE)
    have "read_requirement labels (requirement_of p) acc = Inr (acc @ [p\<lparr>pl_IsNew := False\<rparr>])"
      using True l v by (cases p) (simp add: read_requirement_def requirement_of_def)
    with Cons True show ?thesis by simp
  next
    case False
    then have "read_requirement labels (requirement_of p) acc = Inl TypeError"
      by (simp add: read_requirement_def requirement_of_def)
    with False show ?thesis by simp
  qed
qed simp

text \<open>
  The placements of an application are read back as they were saved, with their kind, where each has a value; one
  on a label without a value is written as an \<open>Exists\<close> requirement, and reading that fails with a type error.
\<close>

theorem placements_round_trip:
  assumes "generateAffinityFromPlacements REPLICATED t ps = Inr a" and "kept = filter (\<lambda>p. \<not> pl_NeedsDeletion p) ps" and "kept \<noteq> []"
    and "\<forall>p \<in> set kept. \<exists>l. pl_Label p = Some l \<and> find (\<lambda>x. nl_Key x = nl_Key l) labels = Some l"
  shows "generatePlacementsFormValuesFromAffinity (computeAffinity a) labels =
    (if \<forall>p \<in> set kept. truthy_str (pl_Value p) then Inr (t, map (\<lambda>p. p\<lparr>pl_IsNew := False\<rparr>) kept) else Inl TypeError)"
proof -
  have "\<forall>p \<in> set ps. \<not> pl_NeedsDeletion p \<longrightarrow> pl_Label p \<noteq> None" using assms(2,4) by fastforce
  from written_requirements [OF this, of "[]"]
  have a: "a = Some (case t of MANDATORY \<Rightarrow> \<lparr>na_required = Some [map requirement_of kept], na_preferred = None\<rparr>
      | PREFERRED \<Rightarrow> \<lparr>na_required = None, na_preferred = Some [map requirement_of kept]\<rparr>)"
    using assms(1,3) unfolding generateAffinityFromPlacements_def assms(2) by simp
  have "\<forall>p \<in> set kept. \<not> pl_NeedsDeletion p \<and> (\<exists>l. pl_Label p = Some l \<and> find (\<lambda>x. nl_Key x = nl_Key l) labels = Some l)"
    using assms(2,4) by auto
  note read = read_requirements [OF this, of "[]"]
  show ?thesis
  proof (cases t)
    case PREFERRED
    then have "computeAffinity a = \<lparr>na_required = None, na_preferred = Some [map requirement_of kept]\<rparr>" by (simp add: a computeAffinity_def)
    then show ?thesis using read PREFERRED by (simp add: generatePlacementsFormValuesFromAffinity_def)
  next
    case MANDATORY
    then have "computeAffinity a = \<lparr>na_required = Some [map requirement_of kept], na_preferred = None\<rparr>" by (simp add: a computeAffinity_def)
    then show ?thesis using read MANDATORY by (simp add: generatePlacementsFormValuesFromAffinity_def)
  qed
qed

definition master_label :: node_label where
  "master_label = \<lparr>nl_Key = ''node-role.kubernetes.io/master'', nl_Values = [[]]\<rparr>"

definition on_master :: placement_form where
  "on_master = \<lparr>pl_Label = Some master_label, pl_Value = Some [], pl_NeedsDeletion = False, pl_IsNew = True\<rparr>"

theorem placements_round_trip_witness:
  "\<exists>a. generateAffinityFromPlacements REPLICATED MANDATORY [on_master] = Inr a \<and>
     generatePlacementsFormValuesFromAffinity (computeAffinity a) [master_label] = Inl TypeError"
proof -
  obtain a where a: "generateAffinityFromPlacements REPLICATED MANDATORY [on_master] = Inr a"
    by (simp add: generateAffinityFromPlacements_def placement_requirement_def on_master_def)
  have kept: "[on_master] = filter (\<lambda>p. \<not> pl_NeedsDeletion p) [on_master]" "[on_master] \<noteq> []"
    "\<forall>p \<in> set [on_master]. \<exists>l. pl_Label p = Some l \<and> find (\<lambda>x. nl_Key x = nl_Key l) [master_label] = Some l"
    by (simp_all add: on_master_def master_label_def)
  have "\<not> (\<forall>p \<in> set [on_master]. truthy_str (pl_Value p))" by (simp add: on_master_def)
  with placements_round_trip [OF a kept] a show ?thesis by (intro exI [of _ a] conjI) (simp_all only: if_False)
qed

text \<open>
  The size of a claim that is shown in the form and written again is kept for a unit of one letter; a binary unit
  loses its letter, so 10Gi becomes 10i, and a number of bytes has its last digit twice.
\<close>

theorem claim_size_kept:
  assumes "folder_form_of claims folder = Inr f" and "\<not> is_digit u"
    and "find (\<lambda>c. starts_with (pv_Name c) (fo_PersistentVolumeClaimName folder)) claims = Some c"
  shows "(pv_Storage c = show_nat n @ u # ''B'' \<longrightarrow> pv_Storage (claim_of_folder uuid name ns owner f) = show_nat n @ [u]) \<and>
    (pv_Storage c = show_nat n @ u # ''iB'' \<longrightarrow> pv_Storage (claim_of_folder uuid name ns owner f) = show_nat n @ ''i'') \<and>
    (pv_Storage c = show_nat n @ ''B'' \<longrightarrow> pv_Storage (claim_of_folder uuid name ns owner f) = show_nat n @ [last (show_nat n)])"
proof -
  have f: "f = (new_folder_form (pv_StorageClass c))\<lparr>ff_PersistentVolumeClaimName := fo_PersistentVolumeClaimName folder,
      ff_Size := Some (parse_int (pv_Storage c)), ff_SizeUnit := slice_from (pv_Storage c) (-2), ff_ContainerPath := fo_MountPath folder\<rparr>"
    using assms(1,3) by (simp add: folder_form_of_def)
  have storage: "pv_Storage (claim_of_folder uuid name ns owner f) =
      show_num (parse_int (pv_Storage c)) @ take 1 (slice_from (pv_Storage c) (-2))"
    by (simp add: f claim_of_folder_def new_folder_form_def Let_def show_size_def)
  have num: "show_num (parse_int (show_nat n @ v # w)) = show_nat n" if "\<not> is_digit v" for v w
    using that by (simp add: parse_int_show_nat_rest show_int_def)
  have tail: "slice_from (xs @ [v, w]) (-2) = [v, w]" for xs and v w :: char by (simp add: slice_from_def nat_diff_distrib)
  have "pv_Storage (claim_of_folder uuid name ns owner f) = show_nat n @ [u]" if "pv_Storage c = show_nat n @ u # ''B''"
    unfolding storage that num [OF assms(2)] using tail [of "show_nat n" u "CHR ''B''"] by simp
  moreover have "pv_Storage (claim_of_folder uuid name ns owner f) = show_nat n @ ''i''" if "pv_Storage c = show_nat n @ u # ''iB''"
    unfolding storage that num [OF assms(2)] using tail [of "show_nat n @ [u]" "CHR ''i''" "CHR ''B''"] by simp
  moreover have "pv_Storage (claim_of_folder uuid name ns owner f) = show_nat n @ [last (show_nat n)]" if "pv_Storage c = show_nat n @ ''B''"
  proof -
    have "show_nat n @ ''B'' = butlast (show_nat n) @ [last (show_nat n), CHR ''B'']" by simp
    then have "slice_from (show_nat n @ ''B'') (-2) = [last (show_nat n), CHR ''B'']" using tail by metis
    moreover have "\<not> is_digit (CHR ''B'')" by (simp add: is_digit_def)
    ultimately show ?thesis unfolding storage that using num [of "CHR ''B''" "[]"] by simp
  qed
  ultimately show ?thesis by blast
qed

definition data_claim :: "string \<Rightarrow> volume_claim" where
  "data_claim storage = \<lparr>pv_Id = ''1'', pv_Name = ''web-data'', pv_PreviousName = [], pv_Namespace = ''default'', pv_Storage = storage,
     pv_StorageClass = None, pv_CreationDate = [], pv_ApplicationOwner = None, pv_ApplicationName = None, pv_MountPath = []\<rparr>"

theorem claim_size_kept_witness:
  "\<exists>f. folder_form_of [data_claim ''10GiB''] \<lparr>fo_MountPath = ''/data'', fo_PersistentVolumeClaimName = ''web-data'', fo_HostPath = []\<rparr> =
      Inr f \<and> pv_Storage (claim_of_folder [] ''web'' ''default'' ''bob'' f) = ''10i''"
proof -
  let ?folder = "\<lparr>fo_MountPath = ''/data'', fo_PersistentVolumeClaimName = ''web-data'', fo_HostPath = []\<rparr>"
  have found: "find (\<lambda>c. starts_with (pv_Name c) (fo_PersistentVolumeClaimName ?folder)) [data_claim ''10GiB''] = Some (data_claim ''10GiB'')"
    by (simp add: data_claim_def)
  then obtain f where f: "folder_form_of [data_claim ''10GiB''] ?folder = Inr f" by (simp add: folder_form_of_def)
  have "\<not> is_digit (CHR ''G'')" by (simp add: is_digit_def)
  note kept = claim_size_kept [OF f this found, of 10, THEN conjunct2, THEN conjunct1]
  have ten: "show_nat 10 = ''10''" by code_simp
  have "pv_Storage (data_claim ''10GiB'') = show_nat 10 @ CHR ''G'' # ''iB''" by (simp add: data_claim_def ten)
  from kept [rule_format, OF this] f show ?thesis by (intro exI [of _ f] conjI) (simp_all add: ten)
qed

lemma find_claim_mount:
  assumes "distinct (map pv_Name cs)" and "c \<in> set cs"
  shows "find (\<lambda>m. vm_name m = pv_Name c)
    (map (\<lambda>c. \<lparr>vm_name = pv_Name c, vm_mountPath = pv_MountPath c, vm_readOnly = False\<rparr>) cs @ ms) =
    Some \<lparr>vm_name = pv_Name c, vm_mountPath = pv_MountPath c, vm_readOnly = False\<rparr>"
  using assms by (induction cs) (auto simp: image_iff)

lemma config_volumes_no_folders:
  "read_folder mounts v = None" if "v \<in> fst ` set (add_uses uuid app n us)"
proof -
  have groups: "(v, m) \<in> set (add_groups uuid app cfg n gs) \<Longrightarrow> \<exists>k items. av_source v = ConfigMapVolume k items \<or> av_source v = SecretVolume k items"
    for v m uuid app cfg n gs
    by (induction uuid app cfg n gs rule: add_groups.induct) (auto simp: Let_def config_volume_of_def)
  have "(v, m) \<in> set (add_uses uuid app n us) \<Longrightarrow> \<exists>k items. av_source v = ConfigMapVolume k items \<or> av_source v = SecretVolume k items"
    for v m n
  proof (induction uuid app n us rule: add_uses.induct)
    case (2 uuid app n u us)
    then show ?case using groups [of v m uuid app "cu_SelectedConfiguration u" n "use_groups u"]
      by (simp only: add_uses.simps set_append Un_iff) blast
  qed simp
  note source = this
  from that obtain m where "(v, m) \<in> set (add_uses uuid app n us)" by auto
  from source [OF this] show ?thesis by (elim exE disjE) (simp_all add: read_folder_def split: option.split)
qed

text \<open>
  The folders of an application that is saved are read back with their paths and claims, whatever configurations
  are mounted beside them.
\<close>

theorem folders_round_trip:
  assumes "distinct (map pv_Name claims)"
    and "app = generateEnvOrVolumesFromConfigurations uuid name (generateVolumesFromPersistentVolumClaims claims start) us"
  shows "persisted_folders (wa_Volumes app) (wa_VolumeMounts app) =
    map (\<lambda>c. \<lparr>fo_MountPath = pv_MountPath c, fo_PersistentVolumeClaimName = pv_Name c, fo_HostPath = []\<rparr>) claims"
proof -
  let ?new = "add_uses uuid name 0 us"
  have vols: "wa_Volumes app = map (\<lambda>c. \<lparr>av_name = pv_Name c, av_source = ClaimVolume (pv_Name c)\<rparr>) claims @ map fst ?new"
    and mounts: "wa_VolumeMounts app =
      map (\<lambda>c. \<lparr>vm_name = pv_Name c, vm_mountPath = pv_MountPath c, vm_readOnly = False\<rparr>) claims @ map snd ?new"
    by (simp_all add: assms(2) generateEnvOrVolumesFromConfigurations_def generateVolumesFromPersistentVolumClaims_def Let_def)
  have "map (read_folder (wa_VolumeMounts app)) (map (\<lambda>c. \<lparr>av_name = pv_Name c, av_source = ClaimVolume (pv_Name c)\<rparr>) claims) =
      map (\<lambda>c. Some \<lparr>fo_MountPath = pv_MountPath c, fo_PersistentVolumeClaimName = pv_Name c, fo_HostPath = []\<rparr>) claims"
    unfolding map_map comp_def mounts
    by (rule map_cong [OF refl]) (simp add: read_folder_def find_claim_mount [OF assms(1)])
  moreover have "map (read_folder (wa_VolumeMounts app)) (map fst ?new) = map (\<lambda>_. None) ?new"
    unfolding map_map comp_def by (rule map_cong [OF refl], rule config_volumes_no_folders, rule imageI)
  moreover have "without_undefined (map (\<lambda>c. Some (g c)) cs @ map (\<lambda>_. None) ns) = map g cs"
    for g :: "volume_claim \<Rightarrow> persisted_folder" and cs and ns :: "(app_volume \<times> volume_mount) list"
  proof (induction cs)
    case Nil
    show ?case by (induction ns) simp_all
  qed simp
  ultimately show ?thesis unfolding persisted_folders_def vols map_append by (simp only:)
qed

theorem folders_round_trip_witness:
  "persisted_folders
     (wa_Volumes (generateEnvOrVolumesFromConfigurations (\<lambda>n. []) ''web''
       (generateVolumesFromPersistentVolumClaims [(data_claim ''1GB'')\<lparr>pv_MountPath := ''/data''\<rparr>]
         \<lparr>wa_Env = [], wa_Volumes = [], wa_VolumeMounts = []\<rparr>) []))
     (wa_VolumeMounts (generateEnvOrVolumesFromConfigurations (\<lambda>n. []) ''web''
       (generateVolumesFromPersistentVolumClaims [(data_claim ''1GB'')\<lparr>pv_MountPath := ''/data''\<rparr>]
         \<lparr>wa_Env = [], wa_Volumes = [], wa_VolumeMounts = []\<rparr>) [])) =
   [\<lparr>fo_MountPath = ''/data'', fo_PersistentVolumeClaimName = ''web-data'', fo_HostPath = []\<rparr>]"
proof -
  have "distinct (map pv_Name [(data_claim ''1GB'')\<lparr>pv_MountPath := ''/data''\<rparr>])" by simp
  from folders_round_trip [OF this refl] show ?thesis by (simp add: data_claim_def)
qed

end
