(* ===== verification/KubePorts.thy ===== *)
theory KubePorts
  imports JsObject JsRegex
begin

text \<open>
  Published ports of a Kubernetes application: the models of \<open>app/kubernetes/models\<close> for services, ports and
  ingresses, the part of \<open>converters/application.js\<close> and \<open>helpers/application/index.js\<close> that reads the ports of a
  service into the form, and \<open>converters/service.js\<close>, which writes them back. A port of the API is a number or the
  name of a port; \<open>Date\<close>s and addresses are strings.
\<close>

section \<open>Models\<close>

datatype port_value = PNum int | PText string

fun show_port :: "port_value \<Rightarrow> string" where
  "show_port (PNum i) = show_int i"
| "show_port (PText s) = s"

text \<open>The types of a service; the empty type of a new service leaves the choice to the API server.\<close>

datatype service_type = UNSET | LOAD_BALANCER | NODE_PORT | CLUSTER_IP | OTHER_TYPE string

datatype publishing_type = INTERNAL | CLUSTER | LOAD_BALANCED | INGRESS

fun KubernetesApplicationPublishingTypes :: "publishing_type \<Rightarrow> nat" where
  "KubernetesApplicationPublishingTypes INTERNAL = 1"
| "KubernetesApplicationPublishingTypes CLUSTER = 2"
| "KubernetesApplicationPublishingTypes LOAD_BALANCED = 3"
| "KubernetesApplicationPublishingTypes INGRESS = 4"

record ingress_rule =
  ir_IngressName :: string
  ir_ServiceName :: string
  ir_Host :: "string option"
  ir_IP :: "string option"
  ir_Port :: port_value
  ir_Path :: "string option"

record host_form =
  hf_Host :: string
  hf_PreviousHost :: string
  hf_NeedsDeletion :: bool
  hf_IsNew :: bool

text \<open>The hosts of an ingress that was read are texts, those of the form of a resource pool are objects.\<close>

datatype ingress_host = HostText string | HostForm host_form

record ingress =
  ig_Name :: string
  ig_Namespace :: string
  ig_Annotations :: "string obj"
  ig_Hosts :: "ingress_host list"
  ig_Paths :: "ingress_rule list"
  ig_IngressClassName :: "string option"

record app_port =
  ap_IngressRules :: "ingress_rule list"
  ap_NodePort :: "int option"
  ap_TargetPort :: port_value
  ap_Port :: port_value
  ap_Protocol :: string

record port_form =
  pf_NeedsDeletion :: bool
  pf_IsNew :: bool
  pf_ContainerPort :: port_value
  pf_NodePort :: "int option"
  pf_LoadBalancerPort :: port_value
  pf_LoadBalancerNodePort :: "int option"
  pf_Protocol :: string
  pf_IngressName :: "string option"
  pf_IngressRoute :: "string option"
  pf_IngressHost :: "string option"
  pf_IngressHosts :: "ingress_host list option"

text \<open>The empty text of an unset port is \<open>PText []\<close>, or no number where only a number is used.\<close>

definition new_port_form :: port_form where
  "new_port_form = \<lparr>pf_NeedsDeletion = False, pf_IsNew = True, pf_ContainerPort = PText [], pf_NodePort = None,
     pf_LoadBalancerPort = PText [], pf_LoadBalancerNodePort = None, pf_Protocol = ''TCP'', pf_IngressName = None,
     pf_IngressRoute = None, pf_IngressHost = None, pf_IngressHosts = Some []\<rparr>"

section \<open>From a service to the ports of an application\<close>

record api_port =
  aq_port :: int
  aq_targetPort :: port_value
  aq_nodePort :: "int option"
  aq_protocol :: string

record container_port =
  cq_name :: "string option"
  cq_containerPort :: int

text \<open>\<open>isNaN\<close> of a text: whether \<open>Number\<close> reads it. Blanks do not occur in the name of a port.\<close>

definition digit_cls :: rx where
  "digit_cls = Cls [(48, 57)]"

definition numeric_text :: rx where
  "numeric_text = (let sign = opt (Cls [(43, 43), (45, 45)]); digits = plus digit_cls in
     Alt Eps
    (Alt (Seq sign (Seq (Alt (Seq digits (opt (Seq (Cls [(46, 46)]) (Star digit_cls)))) (Seq (Cls [(46, 46)]) digits))
                (opt (Seq (Cls [(69, 69), (101, 101)]) (Seq sign digits)))))
    (Alt (Seq sign (rx_word ''Infinity''))
    (Alt (Seq (Cls [(48, 48)]) (Seq (Cls [(88, 88), (120, 120)]) (plus (Cls [(48, 57), (65, 70), (97, 102)]))))
    (Alt (Seq (Cls [(48, 48)]) (Seq (Cls [(79, 79), (111, 111)]) (plus (Cls [(48, 55)]))))
         (Seq (Cls [(48, 48)]) (Seq (Cls [(66, 66), (98, 98)]) (plus (Cls [(48, 49)])))))))))"

fun port_isNaN :: "port_value \<Rightarrow> bool" where
  "port_isNaN (PNum i) = False"
| "port_isNaN (PText s) = (\<not> matches numeric_text s)"

definition apiPortsToPublishedPorts :: "api_port list \<Rightarrow> container_port list \<Rightarrow> app_port list" where
  "apiPortsToPublishedPorts pList pRefs = map (\<lambda>a.
     \<lparr>ap_IngressRules = [], ap_NodePort = aq_nodePort a,
      ap_TargetPort = (if port_isNaN (aq_targetPort a) then
         (case find (\<lambda>c. map_option PText (cq_name c) = Some (aq_targetPort a)) pRefs of
            Some c \<Rightarrow> PNum (cq_containerPort c) | None \<Rightarrow> aq_targetPort a)
       else aq_targetPort a),
      ap_Port = PNum (aq_port a), ap_Protocol = aq_protocol a\<rparr>) pList"

definition findSBoundServiceIngressesRules :: "ingress list \<Rightarrow> string \<Rightarrow> ingress_rule list" where
  "findSBoundServiceIngressesRules ingresses serviceName =
     filter (\<lambda>r. ir_ServiceName r = serviceName) (concat (map ig_Paths ingresses))"

definition application_ports ::
    "api_port list \<Rightarrow> container_port list \<Rightarrow> ingress list \<Rightarrow> string \<Rightarrow> app_port list" where
  "application_ports pList pRefs ingresses serviceName =
     map (\<lambda>p. p\<lparr>ap_IngressRules := filter (\<lambda>r. ir_Port r = ap_Port p)
           (findSBoundServiceIngressesRules ingresses serviceName)\<rparr>)
       (apiPortsToPublishedPorts pList pRefs)"

section \<open>From the ports of an application to the form\<close>

definition rule_hosts :: "ingress list option \<Rightarrow> ingress_rule \<Rightarrow> ingress_host list option js_result" where
  "rule_hosts ingresses rule = (case ingresses of
       None \<Rightarrow> Inr None
     | Some is \<Rightarrow> (case find (\<lambda>i. ig_Name i = ir_IngressName rule) is of
           None \<Rightarrow> Inl TypeError | Some i \<Rightarrow> Inr (Some (ig_Hosts i))))"

definition plain_port :: "service_type \<Rightarrow> app_port \<Rightarrow> port_form" where
  "plain_port serviceType port = new_port_form
     \<lparr>pf_IsNew := False, pf_Protocol := ap_Protocol port, pf_ContainerPort := ap_TargetPort port,
      pf_LoadBalancerPort := (if serviceType = LOAD_BALANCER then ap_Port port else PText []),
      pf_LoadBalancerNodePort := (if serviceType = LOAD_BALANCER then ap_NodePort port else None),
      pf_NodePort := (if serviceType = NODE_PORT then ap_NodePort port else None)\<rparr>"

definition rule_port ::
    "service_type \<Rightarrow> ingress list option \<Rightarrow> app_port \<Rightarrow> ingress_rule \<Rightarrow> port_form list \<Rightarrow> port_form list js_result" where
  "rule_port serviceType ingresses port rule acc = and_then (rule_hosts ingresses rule) (\<lambda>hosts. Inr (acc @
     [(plain_port serviceType port)\<lparr>pf_IngressName := Some (ir_IngressName rule), pf_IngressRoute := ir_Path rule,
        pf_IngressHost := ir_Host rule, pf_IngressHosts := hosts\<rparr>]))"

definition generatePublishedPortsFormValuesFromPublishedPorts ::
    "service_type \<Rightarrow> app_port list \<Rightarrow> ingress list option \<Rightarrow> port_form list js_result" where
  "generatePublishedPortsFormValuesFromPublishedPorts serviceType ports ingresses =
     fold_result (\<lambda>port acc.
       if ap_IngressRules port \<noteq> [] then fold_result (rule_port serviceType ingresses port) (ap_IngressRules port) acc
       else Inr (acc @ [plain_port serviceType port])) ports []"

section \<open>From the form to a service\<close>

record service_port =
  sp_name :: string
  sp_port :: port_value
  sp_targetPort :: port_value
  sp_protocol :: string
  sp_nodePort :: "int option"

record kube_service =
  ks_Headless :: bool
  ks_Namespace :: string
  ks_Name :: string
  ks_StackName :: string
  ks_Ports :: "service_port list"
  ks_Type :: service_type
  ks_ApplicationName :: string
  ks_ApplicationOwner :: string

text \<open>What a service takes from the form of an application.\<close>

record service_form =
  sf_Name :: string
  sf_NamespaceName :: string
  sf_StackName :: string
  sf_ApplicationOwner :: string
  sf_PublishingType :: publishing_type
  sf_PublishedPorts :: "port_form list"

definition truthy_num :: "int option \<Rightarrow> bool" where
  "truthy_num n \<longleftrightarrow> n \<noteq> None \<and> n \<noteq> Some 0"

definition publishedPortToServicePort :: "string \<Rightarrow> service_type \<Rightarrow> port_form \<Rightarrow> service_port option" where
  "publishedPortToServicePort name type p =
     (if pf_IsNew p \<or> \<not> pf_NeedsDeletion p then Some
        \<lparr>sp_name = to_lower (name @ ''-'' @ show_port (pf_ContainerPort p) @ ''-'' @ pf_Protocol p),
         sp_port = (if type = LOAD_BALANCER then pf_LoadBalancerPort p else pf_ContainerPort p),
         sp_targetPort = pf_ContainerPort p, sp_protocol = pf_Protocol p,
         sp_nodePort =
           (if type = NODE_PORT \<and> truthy_num (pf_NodePort p) then pf_NodePort p
            else if type = LOAD_BALANCER \<and> truthy_num (pf_LoadBalancerNodePort p) then pf_LoadBalancerNodePort p
            else None)\<rparr>
      else None)"

definition service_type_of :: "publishing_type \<Rightarrow> service_type" where
  "service_type_of t = (case t of CLUSTER \<Rightarrow> NODE_PORT | LOAD_BALANCED \<Rightarrow> LOAD_BALANCER | _ \<Rightarrow> UNSET)"

definition service_port_key :: "service_port \<Rightarrow> string" where
  "service_port_key p = show_port (sp_targetPort p) @ sp_protocol p"

definition applicationFormValuesToService :: "service_form \<Rightarrow> kube_service" where
  "applicationFormValuesToService f =
     \<lparr>ks_Headless = False, ks_Namespace = sf_NamespaceName f, ks_Name = sf_Name f,
      ks_StackName = (if sf_StackName f \<noteq> [] then sf_StackName f else sf_Name f),
      ks_Ports = uniq_by service_port_key (without_undefined
        (map (publishedPortToServicePort (sf_Name f) (service_type_of (sf_PublishingType f))) (sf_PublishedPorts f))),
      ks_Type = service_type_of (sf_PublishingType f), ks_ApplicationName = sf_Name f,
      ks_ApplicationOwner = sf_ApplicationOwner f\<rparr>"

definition generateHeadlessServiceName :: "string \<Rightarrow> string" where
  "generateHeadlessServiceName name = ''headless-'' @ name"

definition applicationFormValuesToHeadlessService :: "service_form \<Rightarrow> kube_service" where
  "applicationFormValuesToHeadlessService f =
     (applicationFormValuesToService f)\<lparr>ks_Name := generateHeadlessServiceName (sf_Name f), ks_Headless := True\<rparr>"

text \<open>The payload: a headless service has no ports and the address \<open>None\<close>, another one no address of its own.\<close>

record service_payload =
  pl_name :: string
  pl_namespace :: string
  pl_labels :: "string obj"
  pl_selector_app :: string
  pl_ports :: "service_port list option"
  pl_type :: service_type
  pl_clusterIP :: string

definition createServicePayload :: "kube_service \<Rightarrow> service_payload" where
  "createServicePayload s =
     \<lparr>pl_name = ks_Name s, pl_namespace = ks_Namespace s,
      pl_labels = [(''io.portainer.kubernetes.application.stack'', ks_StackName s),
        (''io.portainer.kubernetes.application.name'', ks_ApplicationName s),
        (''io.portainer.kubernetes.application.owner'', ks_ApplicationOwner s)],
      pl_selector_app = ks_ApplicationName s,
      pl_ports = (if ks_Headless s then None else Some (ks_Ports s)),
      pl_type = (if ks_Headless s then UNSET else ks_Type s),
      pl_clusterIP = (if ks_Headless s then ''None'' else [])\<rparr>"

text \<open>
  The service of an application is the first whose selector is part of the labels of the pods; a pod without a
  template has none. A selector is \<open>None\<close> where the service has none.
\<close>

definition findApplicationBoundService ::
    "(string obj option \<times> 's) list \<Rightarrow> string obj option \<Rightarrow> 's option" where
  "findApplicationBoundService services template_labels = (case template_labels of
       None \<Rightarrow> None
     | Some labels \<Rightarrow> map_option snd (find (\<lambda>(selector, s). case selector of
           None \<Rightarrow> False
         | Some sel \<Rightarrow> list_all (\<lambda>(k, v). obj_get labels k = Some v) sel) services))"

section \<open>Port mappings of the list of applications\<close>

record app_network =
  an_Name :: string
  an_ResourcePool :: string
  an_ServiceType :: service_type
  an_LoadBalancerIPAddress :: "string option"
  an_ApplicationOwner :: string
  an_PublishedPorts :: "app_port list"

record mapping_port =
  mq_Port :: "port_value option"
  mq_TargetPort :: port_value
  mq_Protocol :: string
  mq_IngressRules :: "ingress_rule list"

record port_mapping =
  pm_Name :: string
  pm_ResourcePool :: string
  pm_ServiceType :: service_type
  pm_LoadBalancerIPAddress :: "string option"
  pm_ApplicationOwner :: string
  pm_Ports :: "mapping_port list"

definition app_mapping :: "'a app_network_scheme \<Rightarrow> port_mapping" where
  "app_mapping app =
     \<lparr>pm_Name = an_Name app, pm_ResourcePool = an_ResourcePool app, pm_ServiceType = an_ServiceType app,
      pm_LoadBalancerIPAddress = an_LoadBalancerIPAddress app, pm_ApplicationOwner = an_ApplicationOwner app,
      pm_Ports = map (\<lambda>p.
        \<lparr>mq_Port = (if an_ServiceType app = NODE_PORT then map_option PNum (ap_NodePort p) else Some (ap_Port p)),
         mq_TargetPort = ap_TargetPort p, mq_Protocol = ap_Protocol p, mq_IngressRules = ap_IngressRules p\<rparr>)
        (an_PublishedPorts app)\<rparr>"

definition portMappingsFromApplications :: "'a app_network_scheme list \<Rightarrow> port_mapping list" where
  "portMappingsFromApplications apps =
     fold (\<lambda>app acc. if an_PublishedPorts app \<noteq> [] then acc @ [app_mapping app] else acc) apps []"

section \<open>Properties\<close>

lemma to_lower_append [simp]: "to_lower (a @ b) = to_lower a @ to_lower b"
  by (simp add: to_lower_def)

lemma show_int_chars: "c \<in> set (show_int i) \<Longrightarrow> is_digit c \<or> c = CHR ''-''"
  using show_nat_digits by (auto simp: show_int_def list_all_iff split: if_splits)

lemma show_int_inj: "show_int i = show_int j \<Longrightarrow> i = j"
proof -
  have "CHR ''-'' \<notin> set (show_nat n)" for n by (rule show_nat_no_char) (simp add: is_digit_def)
  then have "show_nat n \<noteq> CHR ''-'' # show_nat m" for n m by (metis list.set_intros(1))
  then show "show_int i = show_int j \<Longrightarrow> i = j"
    by (auto simp: show_int_def split: if_splits dest: sym)
qed

text \<open>The protocols of the form.\<close>

definition protocols :: "string list" where
  "protocols = [''TCP'', ''UDP'', ''SCTP'']"

lemma key_parts:
  assumes "show_int i @ p = show_int j @ q" and "p \<in> set protocols" and "q \<in> set protocols"
  shows "i = j \<and> p = q"
proof -
  have split: "takeWhile (\<lambda>c. is_digit c \<or> c = CHR ''-'') (show_int k @ r) = show_int k" if "r \<in> set protocols" for k r
    using that show_int_chars by (subst takeWhile_append2) (auto simp: protocols_def is_digit_def)
  have "show_int i = show_int j" using split assms by metis
  with assms(1) show ?thesis using show_int_inj by auto
qed

lemma lower_protocol_inj: "to_lower p = to_lower q \<Longrightarrow> p \<in> set protocols \<Longrightarrow> q \<in> set protocols \<Longrightarrow> p = q"
  by (auto simp: protocols_def to_lower_def lower_char_def)

lemma name_parts:
  assumes "to_lower (show_int i) @ CHR ''-'' # to_lower p = to_lower (show_int j) @ CHR ''-'' # to_lower q"
    and "p \<in> set protocols" and "q \<in> set protocols"
  shows "i = j \<and> p = q"
proof -
  have low: "to_lower (show_int k) = show_int k" for k
    unfolding to_lower_def
    by (rule map_idI) (use show_int_chars in \<open>force simp: lower_char_def is_digit_def\<close>)
  have "list_all (\<lambda>r. CHR ''-'' \<notin> set (to_lower r)) protocols" by code_simp
  then have last: "CHR ''-'' \<notin> set (to_lower r)" if "r \<in> set protocols" for r
    using that unfolding list_all_iff by blast
  have parts: "takeWhile (\<lambda>c. c \<noteq> CHR ''-'') (rev (to_lower (show_int k) @ CHR ''-'' # to_lower r)) = rev (to_lower r)"
    "drop (Suc (length r)) (rev (to_lower (show_int k) @ CHR ''-'' # to_lower r)) = rev (show_int k)"
    if "r \<in> set protocols" for k r
  proof -
    show "takeWhile (\<lambda>c. c \<noteq> CHR ''-'') (rev (to_lower (show_int k) @ CHR ''-'' # to_lower r)) = rev (to_lower r)"
      using last [OF that] by (simp, subst takeWhile_append2) auto
    show "drop (Suc (length r)) (rev (to_lower (show_int k) @ CHR ''-'' # to_lower r)) = rev (show_int k)"
      by (simp add: low) (simp add: to_lower_def)
  qed
  have "rev (to_lower p) = rev (to_lower q)" using parts(1) assms by metis
  then have "p = q" using lower_protocol_inj assms(2,3) by simp
  with assms(1) show ?thesis using low show_int_inj by simp
qed

definition plain_ports :: "port_form list \<Rightarrow> bool" where
  "plain_ports ps \<longleftrightarrow> (\<forall>p \<in> set ps. (\<exists>i. pf_ContainerPort p = PNum i) \<and> pf_Protocol p \<in> set protocols)"

lemma service_ports_from:
  assumes "sp \<in> set (ks_Ports (applicationFormValuesToService f))"
  shows "\<exists>p \<in> set (sf_PublishedPorts f).
    publishedPortToServicePort (sf_Name f) (service_type_of (sf_PublishingType f)) p = Some sp"
  using assms set_uniq_by_subset by (fastforce simp: applicationFormValuesToService_def)

lemma published_port_fields:
  assumes "publishedPortToServicePort name type p = Some sp"
  shows "sp_targetPort sp = pf_ContainerPort p" "sp_protocol sp = pf_Protocol p"
    "sp_name sp = to_lower (name @ ''-'' @ show_port (pf_ContainerPort p) @ ''-'' @ pf_Protocol p)"
    "sp_port sp = (if type = LOAD_BALANCER then pf_LoadBalancerPort p else pf_ContainerPort p)"
  using assms by (auto simp: publishedPortToServicePort_def split: if_splits)

text \<open>
  The ports of a service have different names, as Kubernetes asks for, and each port of the form that is
  not to be deleted is among them.
\<close>

theorem service_port_names:
  assumes "plain_ports (sf_PublishedPorts f)"
  shows "distinct (map sp_name (ks_Ports (applicationFormValuesToService f))) \<and>
    (\<forall>p \<in> set (sf_PublishedPorts f). \<not> pf_NeedsDeletion p \<longrightarrow> (\<exists>sp \<in> set (ks_Ports (applicationFormValuesToService f)).
       sp_targetPort sp = pf_ContainerPort p \<and> sp_protocol sp = pf_Protocol p))"
proof -
  let ?all = "without_undefined
    (map (publishedPortToServicePort (sf_Name f) (service_type_of (sf_PublishingType f))) (sf_PublishedPorts f))"
  let ?ports = "ks_Ports (applicationFormValuesToService f)"
  have ports: "?ports = uniq_by service_port_key ?all" by (simp add: applicationFormValuesToService_def)
  have of_form: "\<exists>i. sp_targetPort sp = PNum i \<and> sp_protocol sp \<in> set protocols \<and>
      sp_name sp = to_lower (sf_Name f @ ''-'' @ show_int i @ ''-'' @ sp_protocol sp)" if sp: "sp \<in> set ?all" for sp
  proof -
    from sp obtain p where p: "p \<in> set (sf_PublishedPorts f)" and
      some: "publishedPortToServicePort (sf_Name f) (service_type_of (sf_PublishingType f)) p = Some sp"
      by (auto simp: eq_commute)
    from p assms obtain i where "pf_ContainerPort p = PNum i" "pf_Protocol p \<in> set protocols"
      unfolding plain_ports_def by blast
    with published_port_fields [OF some] show ?thesis by simp
  qed
  have same: "service_port_key a = service_port_key b \<longleftrightarrow> sp_targetPort a = sp_targetPort b \<and> sp_protocol a = sp_protocol b"
    if ab: "a \<in> set ?all" "b \<in> set ?all" for a b
  proof -
    obtain i where i: "sp_targetPort a = PNum i" "sp_protocol a \<in> set protocols" using of_form [OF ab(1)] by blast
    obtain j where j: "sp_targetPort b = PNum j" "sp_protocol b \<in> set protocols" using of_form [OF ab(2)] by blast
    show ?thesis using key_parts [OF _ i(2) j(2), of i j] by (auto simp: service_port_key_def i(1) j(1))
  qed
  have key: "service_port_key a = service_port_key b" if ab: "a \<in> set ?all" "b \<in> set ?all" "sp_name a = sp_name b" for a b
  proof -
    obtain i where i: "sp_targetPort a = PNum i" "sp_protocol a \<in> set protocols"
        "sp_name a = to_lower (sf_Name f @ ''-'' @ show_int i @ ''-'' @ sp_protocol a)" using of_form [OF ab(1)] by blast
    obtain j where j: "sp_targetPort b = PNum j" "sp_protocol b \<in> set protocols"
        "sp_name b = to_lower (sf_Name f @ ''-'' @ show_int j @ ''-'' @ sp_protocol b)" using of_form [OF ab(2)] by blast
    have "to_lower (show_int i) @ CHR ''-'' # to_lower (sp_protocol a) =
        to_lower (show_int j) @ CHR ''-'' # to_lower (sp_protocol b)"
      using ab(3) unfolding i(3) j(3) to_lower_append by (simp add: to_lower_def [of "[c]" for c] lower_char_def)
    from name_parts [OF this i(2) j(2)] show ?thesis by (simp add: service_port_key_def i(1) j(1))
  qed
  have "inj_on sp_name (set ?ports)"
  proof (rule inj_onI)
    fix a b assume ab: "a \<in> set ?ports" "b \<in> set ?ports" "sp_name a = sp_name b"
    then have "service_port_key a = service_port_key b" using key set_uniq_by_subset [of service_port_key ?all] unfolding ports by blast
    moreover have "inj_on service_port_key (set ?ports)" using distinct_map_uniq_by [of service_port_key ?all] unfolding ports distinct_map ..
    ultimately show "a = b" using ab(1,2) by (auto dest: inj_onD)
  qed
  moreover have "distinct ?ports" using distinct_map_uniq_by [of service_port_key ?all] unfolding ports distinct_map ..
  moreover have "\<exists>sp \<in> set ?ports. sp_targetPort sp = pf_ContainerPort p \<and> sp_protocol sp = pf_Protocol p"
    if p: "p \<in> set (sf_PublishedPorts f)" "\<not> pf_NeedsDeletion p" for p
  proof -
    obtain a where a: "publishedPortToServicePort (sf_Name f) (service_type_of (sf_PublishingType f)) p = Some a"
      using p(2) by (simp add: publishedPortToServicePort_def)
    then have mem: "a \<in> set ?all" using p(1) by (force simp: image_iff)
    then have "service_port_key a \<in> service_port_key ` set ?ports" unfolding ports map_uniq_by_set by (rule imageI)
    then obtain b where b: "b \<in> set ?ports" "service_port_key b = service_port_key a" by (metis imageE)
    then have "b \<in> set ?all" using set_uniq_by_subset [of service_port_key ?all] unfolding ports by blast
    with same [OF this mem] b published_port_fields(1,2) [OF a] show ?thesis by metis
  qed
  ultimately show ?thesis by (simp add: distinct_map)
qed

definition web_form :: service_form where
  "web_form = \<lparr>sf_Name = ''Web'', sf_NamespaceName = ''default'', sf_StackName = [], sf_ApplicationOwner = ''bob'',
     sf_PublishingType = LOAD_BALANCED, sf_PublishedPorts =
       [new_port_form\<lparr>pf_ContainerPort := PNum 80, pf_LoadBalancerPort := PNum 8080\<rparr>,
        new_port_form\<lparr>pf_ContainerPort := PNum 80, pf_LoadBalancerPort := PNum 8081, pf_Protocol := ''UDP''\<rparr>]\<rparr>"

theorem service_port_names_witness:
  "distinct (map sp_name (ks_Ports (applicationFormValuesToService web_form)))"
proof -
  have "plain_ports (sf_PublishedPorts web_form)" by (simp add: plain_ports_def web_form_def new_port_form_def protocols_def)
  from service_port_names [OF this] show ?thesis ..
qed

text \<open>
  What the API server stores of the ports of a service: it keeps what it is given and chooses the node ports that
  are left open.
\<close>

definition stored_port :: "service_port \<Rightarrow> api_port \<Rightarrow> bool" where
  "stored_port sp a \<longleftrightarrow> PNum (aq_port a) = sp_port sp \<and> aq_targetPort a = sp_targetPort sp \<and>
     aq_protocol a = sp_protocol sp \<and> (sp_nodePort sp \<noteq> None \<longrightarrow> aq_nodePort a = sp_nodePort sp)"

definition kept_port :: "publishing_type \<Rightarrow> port_form \<Rightarrow> port_form \<Rightarrow> bool" where
  "kept_port t p q \<longleftrightarrow> pf_ContainerPort q = pf_ContainerPort p \<and> pf_Protocol q = pf_Protocol p \<and>
     (t = LOAD_BALANCED \<longrightarrow> pf_LoadBalancerPort q = pf_LoadBalancerPort p) \<and>
     (t = CLUSTER \<and> truthy_num (pf_NodePort p) \<longrightarrow> pf_NodePort q = pf_NodePort p) \<and>
     \<not> pf_IsNew q \<and> \<not> pf_NeedsDeletion q \<and> pf_IngressName q = None"

lemma plain_ports_fold:
  "fold_result (\<lambda>port acc.
       if ap_IngressRules port \<noteq> [] then fold_result (rule_port t is port) (ap_IngressRules port) acc
       else Inr (acc @ [plain_port t port])) (map (\<lambda>p. p\<lparr>ap_IngressRules := []\<rparr>) ps) acc =
     Inr (acc @ map (\<lambda>p. plain_port t (p\<lparr>ap_IngressRules := []\<rparr>)) ps)"
  by (induction ps arbitrary: acc) simp_all

text \<open>
  The ports of an application that no ingress rule uses come back from the service as they were published:
  container port and protocol, the port of the load balancer, and a node port that was chosen in the form.
\<close>

theorem published_ports_round_trip:
  assumes "plain_ports (sf_PublishedPorts f)" and "\<forall>p \<in> set (sf_PublishedPorts f). \<not> pf_NeedsDeletion p"
    and "distinct (map (\<lambda>p. (pf_ContainerPort p, pf_Protocol p)) (sf_PublishedPorts f))"
    and "list_all2 stored_port (ks_Ports (applicationFormValuesToService f)) stored"
    and "findSBoundServiceIngressesRules ingresses (sf_Name f) = []"
  shows "\<exists>qs. generatePublishedPortsFormValuesFromPublishedPorts (ks_Type (applicationFormValuesToService f))
      (application_ports stored refs ingresses (sf_Name f)) shown = Inr qs \<and>
    list_all2 (kept_port (sf_PublishingType f)) (sf_PublishedPorts f) qs"
proof -
  let ?t = "service_type_of (sf_PublishingType f)"
  let ?sp = "\<lambda>p. the (publishedPortToServicePort (sf_Name f) ?t p)"
  have some: "map (publishedPortToServicePort (sf_Name f) ?t) (sf_PublishedPorts f) =
      map (\<lambda>p. Some (?sp p)) (sf_PublishedPorts f)"
    using assms(2) by (simp add: publishedPortToServicePort_def)
  have "inj_on (\<lambda>p. service_port_key (?sp p)) (set (sf_PublishedPorts f))"
  proof (rule inj_onI)
    fix p q assume pq: "p \<in> set (sf_PublishedPorts f)" "q \<in> set (sf_PublishedPorts f)"
      "service_port_key (?sp p) = service_port_key (?sp q)"
    have fields: "service_port_key (?sp r) = show_port (pf_ContainerPort r) @ pf_Protocol r" if "r \<in> set (sf_PublishedPorts f)" for r
      using that assms(2) by (simp add: publishedPortToServicePort_def service_port_key_def)
    obtain i where i: "pf_ContainerPort p = PNum i" "pf_Protocol p \<in> set protocols"
      using assms(1) pq(1) unfolding plain_ports_def by blast
    obtain j where j: "pf_ContainerPort q = PNum j" "pf_Protocol q \<in> set protocols"
      using assms(1) pq(2) unfolding plain_ports_def by blast
    have "show_int i @ pf_Protocol p = show_int j @ pf_Protocol q"
      using pq(3) fields [OF pq(1)] fields [OF pq(2)] i(1) j(1) by simp
    from key_parts [OF this i(2) j(2)]
    have "(pf_ContainerPort p, pf_Protocol p) = (pf_ContainerPort q, pf_Protocol q)" using i(1) j(1) by simp
    with assms(3) pq(1,2) show "p = q" by (auto simp: distinct_map dest: inj_onD)
  qed
  moreover have "distinct (sf_PublishedPorts f)" using assms(3) by (simp add: distinct_map)
  ultimately have "distinct (map service_port_key (map ?sp (sf_PublishedPorts f)))" by (simp add: distinct_map comp_def inj_on_def)
  then have ports: "ks_Ports (applicationFormValuesToService f) = map ?sp (sf_PublishedPorts f)"
    by (simp add: applicationFormValuesToService_def some uniq_by_distinct)
  have "application_ports stored refs ingresses (sf_Name f) =
      map (\<lambda>p. p\<lparr>ap_IngressRules := []\<rparr>) (apiPortsToPublishedPorts stored refs)"
    by (simp add: application_ports_def assms(5))
  then have gen: "generatePublishedPortsFormValuesFromPublishedPorts ?t
      (application_ports stored refs ingresses (sf_Name f)) shown =
      Inr (map (\<lambda>p. plain_port ?t (p\<lparr>ap_IngressRules := []\<rparr>)) (apiPortsToPublishedPorts stored refs))"
    by (simp add: generatePublishedPortsFormValuesFromPublishedPorts_def plain_ports_fold)
  have kept: "kept_port (sf_PublishingType f) p (plain_port ?t (a'\<lparr>ap_IngressRules := []\<rparr>))"
    if p: "p \<in> set (sf_PublishedPorts f)" and a: "stored_port (?sp p) a" and
       a': "[a'] = apiPortsToPublishedPorts [a] refs" for p a a'
  proof -
    obtain i where i: "pf_ContainerPort p = PNum i" using assms(1) p unfolding plain_ports_def by blast
    have "publishedPortToServicePort (sf_Name f) ?t p = Some (?sp p)"
      using assms(2) p by (simp add: publishedPortToServicePort_def)
    note fields = published_port_fields [OF this]
    have node: "sp_nodePort (?sp p) = pf_NodePort p" if "?t = NODE_PORT" "truthy_num (pf_NodePort p)"
      using assms(2) p that by (simp add: publishedPortToServicePort_def)
    have ap: "ap_TargetPort a' = PNum i" "ap_Port a' = PNum (aq_port a)" "ap_Protocol a' = aq_protocol a"
        "ap_NodePort a' = aq_nodePort a"
      using a' a fields(1) i by (simp_all add: apiPortsToPublishedPorts_def stored_port_def)
    show ?thesis
      using a fields i ap node by (cases "sf_PublishingType f")
        (simp_all add: kept_port_def plain_port_def new_port_form_def stored_port_def service_type_of_def truthy_num_def)
  qed
  have "list_all2 (kept_port (sf_PublishingType f)) (sf_PublishedPorts f)
      (map (\<lambda>p. plain_port ?t (p\<lparr>ap_IngressRules := []\<rparr>)) (apiPortsToPublishedPorts stored refs))"
    using assms(4) kept unfolding ports list_all2_map1 list_all2_map2 apiPortsToPublishedPorts_def
    by (simp add: list_all2_conv_all_nth)
  with gen show ?thesis by (simp add: applicationFormValuesToService_def)
qed

theorem published_ports_round_trip_witness:
  "\<exists>qs. generatePublishedPortsFormValuesFromPublishedPorts LOAD_BALANCER (application_ports
      [\<lparr>aq_port = 8080, aq_targetPort = PNum 80, aq_nodePort = Some 31000, aq_protocol = ''TCP''\<rparr>,
       \<lparr>aq_port = 8081, aq_targetPort = PNum 80, aq_nodePort = Some 31001, aq_protocol = ''UDP''\<rparr>] [] [] ''Web'') None =
      Inr qs \<and> list_all2 (kept_port LOAD_BALANCED) (sf_PublishedPorts web_form) qs"
proof -
  let ?stored = "[\<lparr>aq_port = 8080, aq_targetPort = PNum 80, aq_nodePort = Some 31000, aq_protocol = ''TCP''\<rparr>,
       \<lparr>aq_port = 8081, aq_targetPort = PNum 80, aq_nodePort = Some 31001, aq_protocol = ''UDP''\<rparr>]"
  have form: "plain_ports (sf_PublishedPorts web_form)" "\<forall>p \<in> set (sf_PublishedPorts web_form). \<not> pf_NeedsDeletion p"
    "distinct (map (\<lambda>p. (pf_ContainerPort p, pf_Protocol p)) (sf_PublishedPorts web_form))"
    by (simp_all add: plain_ports_def web_form_def new_port_form_def protocols_def)
  have stored: "list_all2 stored_port (ks_Ports (applicationFormValuesToService web_form)) ?stored"
    by (simp add: applicationFormValuesToService_def web_form_def new_port_form_def publishedPortToServicePort_def
        service_type_of_def service_port_key_def show_int_def stored_port_def truthy_num_def)
  have none: "findSBoundServiceIngressesRules [] (sf_Name web_form) = []" by (simp add: findSBoundServiceIngressesRules_def)
  have "ks_Type (applicationFormValuesToService web_form) = LOAD_BALANCER" "sf_Name web_form = ''Web''"
    "sf_PublishingType web_form = LOAD_BALANCED"
    by (simp_all add: applicationFormValuesToService_def web_form_def service_type_of_def)
  with published_ports_round_trip [OF form stored none, of "[]" None] show ?thesis by metis
qed

end
