(* ===== verification/KubeIngress.thy ===== *)
theory KubeIngress
  imports KubePorts
begin

text \<open>
  Ingresses: \<open>app/kubernetes/ingress/converter.js\<close>, and the loop of \<open>services/applicationService.js\<close> that takes the
  rules of a deleted application out of the ingresses of its namespace.
\<close>

section \<open>Reading an ingress\<close>

text \<open>
  The answer of the API server. A list of addresses that is present is not empty, so \<open>ri_address\<close> is the address of
  its first entry; a rule without \<open>http\<close> has no paths.
\<close>

record raw_path =
  rp_serviceName :: string
  rp_servicePort :: port_value
  rp_path :: "string option"

record raw_rule =
  rr_host :: "string option"
  rr_http :: "raw_path list option"

record raw_ingress =
  ri_name :: string
  ri_namespace :: string
  ri_annotations :: "string obj option"
  ri_ingressClassName :: "string option"
  ri_rules :: "raw_rule list"
  ri_address :: "string option option"

definition class_annotation :: string where
  "class_annotation = ''kubernetes.io/ingress.class''"

definition rule_paths :: "raw_ingress \<Rightarrow> raw_rule \<Rightarrow> ingress_rule list" where
  "rule_paths data rule = (case rr_http rule of
       None \<Rightarrow> []
     | Some ps \<Rightarrow> map (\<lambda>p.
         \<lparr>ir_IngressName = ri_name data, ir_ServiceName = rp_serviceName p, ir_Host = Some (or_str (rr_host rule) []),
          ir_IP = (case ri_address data of None \<Rightarrow> None | Some a \<Rightarrow> a), ir_Port = rp_servicePort p,
          ir_Path = rp_path p\<rparr>) ps)"

text \<open>At most one host is undefined once duplicates are gone; it becomes the empty text.\<close>

definition apiToModel :: "raw_ingress \<Rightarrow> ingress" where
  "apiToModel data =
     \<lparr>ig_Name = ri_name data, ig_Namespace = ri_namespace data,
      ig_Annotations = (case ri_annotations data of None \<Rightarrow> [] | Some as \<Rightarrow> as),
      ig_Hosts = map (\<lambda>h. HostText (or_str h [])) (uniq (map rr_host (ri_rules data))),
      ig_Paths = concat (map (rule_paths data) (ri_rules data)),
      ig_IngressClassName = (case ri_annotations data of
         None \<Rightarrow> ri_ingressClassName data
       | Some as \<Rightarrow> if truthy_str (obj_get as class_annotation) then obj_get as class_annotation
           else ri_ingressClassName data)\<rparr>"

section \<open>The rules of an application\<close>

text \<open>
  \<open>_.remove\<close> with an object removes what is equal to it, and with \<open>undefined\<close>, which is what the search returns
  when it finds nothing, it removes every element.
\<close>

definition delete_rule :: "string \<Rightarrow> port_form \<Rightarrow> ingress_rule list \<Rightarrow> ingress_rule list" where
  "delete_rule serviceName p paths =
     (case find (\<lambda>r. ir_Port r = pf_ContainerPort p \<and> ir_ServiceName r = serviceName \<and> ir_Path r = pf_IngressRoute p) paths of
        None \<Rightarrow> []
      | Some path \<Rightarrow> filter (\<lambda>r. r \<noteq> path) paths)"

definition new_rule :: "string \<Rightarrow> port_form \<Rightarrow> ingress \<Rightarrow> ingress_rule" where
  "new_rule serviceName p i =
     \<lparr>ir_IngressName = ig_Name i, ir_ServiceName = serviceName, ir_Host = pf_IngressHost p, ir_IP = Some [],
      ir_Port = pf_ContainerPort p,
      ir_Path = Some (case pf_IngressRoute p of
         None \<Rightarrow> []
       | Some r \<Rightarrow> if r = [] then [] else if starts_with r ''/'' then r else ''/'' @ r)\<rparr>"

definition change_ingress :: "string \<Rightarrow> port_form \<Rightarrow> ingress \<Rightarrow> ingress" where
  "change_ingress serviceName p i =
     (if pf_NeedsDeletion p then i\<lparr>ig_Paths := delete_rule serviceName p (ig_Paths i)\<rparr>
      else if pf_IsNew p then i\<lparr>ig_Paths := ig_Paths i @ [new_rule serviceName p i]\<rparr>
      else i)"

fun update_first :: "('a \<Rightarrow> bool) \<Rightarrow> ('a \<Rightarrow> 'a) \<Rightarrow> 'a list \<Rightarrow> 'a list" where
  "update_first P f [] = []"
| "update_first P f (x # xs) = (if P x then f x # xs else x # update_first P f xs)"

definition applicationFormValuesToIngresses :: "ingress list \<Rightarrow> port_form list \<Rightarrow> string \<Rightarrow> ingress list" where
  "applicationFormValuesToIngresses originals ports serviceName =
     fold (\<lambda>p. update_first (\<lambda>i. Some (ig_Name i) = pf_IngressName p) (change_ingress serviceName p)) ports originals"

text \<open>The rules that remain when an application is deleted.\<close>

definition ingresses_without_application ::
    "service_type \<Rightarrow> app_port list \<Rightarrow> ingress list \<Rightarrow> string \<Rightarrow> ingress list js_result" where
  "ingresses_without_application serviceType ports originals serviceName =
     and_then (generatePublishedPortsFormValuesFromPublishedPorts serviceType ports None)
       (\<lambda>ps. Inr (applicationFormValuesToIngresses originals (map (\<lambda>p. p\<lparr>pf_NeedsDeletion := True\<rparr>) ps) serviceName))"

section \<open>Writing an ingress\<close>

record rule_path =
  pa_path :: "string option"
  pa_serviceName :: string
  pa_servicePort :: port_value

record payload_rule =
  pr_host :: "ingress_host option"
  pr_paths :: "rule_path list option"

record ingress_payload =
  ip_name :: string
  ip_namespace :: string
  ip_annotations :: "string obj"
  ip_rules :: "payload_rule list option"

definition path_host :: "ingress_rule \<Rightarrow> string" where
  "path_host p = (case ir_Host p of None \<Rightarrow> [] | Some h \<Rightarrow> if h = ''undefined'' then [] else h)"

definition host_matches :: "string \<Rightarrow> ingress_host \<Rightarrow> bool" where
  "host_matches host h = (case h of HostText t \<Rightarrow> t = host | HostForm f \<Rightarrow> hf_PreviousHost f = host)"

definition host_dropped :: "ingress_host \<Rightarrow> bool" where
  "host_dropped h = (case h of HostText t \<Rightarrow> False | HostForm f \<Rightarrow> hf_NeedsDeletion f)"

text \<open>\<open>h.Host || h\<close>: the object itself where its host is empty.\<close>

definition host_value :: "ingress_host \<Rightarrow> ingress_host" where
  "host_value h = (case h of HostText t \<Rightarrow> h | HostForm f \<Rightarrow> if hf_Host f \<noteq> [] then HostText (hf_Host f) else h)"

definition payload_path :: "ingress_rule \<Rightarrow> rule_path" where
  "payload_path p = \<lparr>pa_path = ir_Path p, pa_serviceName = ir_ServiceName p, pa_servicePort = ir_Port p\<rparr>"

definition host_rule ::
    "ingress_host list \<Rightarrow> string \<times> ingress_rule list \<Rightarrow> payload_rule list \<times> ingress_host list \<Rightarrow>
     (payload_rule list \<times> ingress_host list) js_result" where
  "host_rule hosts gr acc =
     (case find (host_matches (fst gr)) hosts of
        None \<Rightarrow> Inl TypeError
      | Some updated \<Rightarrow>
          if host_dropped updated then Inr acc
          else Inr (fst acc @ [\<lparr>pr_host = (if host_value updated = HostText [] then None else Some (host_value updated)),
                  pr_paths = Some (map payload_path (snd gr))\<rparr>],
                snd acc @ [host_value updated]))"

text \<open>
  Every model has a list of paths and a list of hosts, so the branch that drops the rules is not taken. Objects are
  compared by value here and by identity in the source; the hosts of a form differ in their values.
\<close>

definition createIngressPayload :: "ingress \<Rightarrow> ingress_payload js_result" where
  "createIngressPayload data =
     (let payload = (\<lambda>rules. \<lparr>ip_name = ig_Name data, ip_namespace = ig_Namespace data,
        ip_annotations = ig_Annotations data, ip_rules = rules\<rparr>) in
      if ig_Paths data \<noteq> [] then
        and_then (fold_result (host_rule (ig_Hosts data)) (obj_entries (group_by path_host (ig_Paths data))) ([], []))
          (\<lambda>(rules, hostsWithRules).
             let keptHosts = map host_value (filter (\<lambda>h. \<not> host_dropped h) (ig_Hosts data));
                 hostsWithoutRules = filter (\<lambda>h. h \<notin> set hostsWithRules) keptHosts;
                 all = rules @ map (\<lambda>h. \<lparr>pr_host = Some h, pr_paths = None\<rparr>) hostsWithoutRules
             in Inr (payload (if all = [] then None else Some all)))
      else Inr (payload (Some (List.map_filter (\<lambda>h. if host_dropped h then None else Some
        \<lparr>pr_host = (case h of HostText t \<Rightarrow> None | HostForm f \<Rightarrow> Some (HostText (hf_Host f))), pr_paths = None\<rparr>)
        (ig_Hosts data)))))"

section \<open>Ingresses of a resource pool\<close>

record ingress_class =
  ic_Name :: string
  ic_Type :: string

record ingress_annotation =
  ia_Key :: string
  ia_Value :: string

record class_form =
  fc_Namespace :: string
  fc_IngressClass :: ingress_class
  fc_RewriteTarget :: bool
  fc_Annotations :: "ingress_annotation list"
  fc_Hosts :: "ingress_host list"
  fc_Selected :: bool
  fc_WasSelected :: bool
  fc_AdvancedConfig :: bool
  fc_Paths :: "ingress_rule list"

text \<open>The annotation that rewrites the target, for the two types of ingress classes.\<close>

definition rewrite_annotations :: "string \<Rightarrow> string obj option" where
  "rewrite_annotations type =
     (if type = ''nginx'' then Some [(''nginx.ingress.kubernetes.io/rewrite-target'', ''/'')]
      else if type = ''traefik'' then Some [(''traefik.ingress.kubernetes.io/rewrite-target'', ''/'')]
      else None)"

definition resourcePoolIngressClassFormValueToIngress :: "class_form \<Rightarrow> ingress" where
  "resourcePoolIngressClassFormValueToIngress f =
     (let given = obj_of (map (\<lambda>a. (ia_Key a, ia_Value a)) (fc_Annotations f));
          rewritten = (if fc_RewriteTarget f
            then fold (\<lambda>(k, v) ob. obj_set ob k v) (case rewrite_annotations (ic_Type (fc_IngressClass f)) of
                None \<Rightarrow> [] | Some as \<Rightarrow> as) given
            else given)
      in \<lparr>ig_Name = ic_Name (fc_IngressClass f), ig_Namespace = fc_Namespace f,
          ig_Annotations = obj_set rewritten class_annotation (ic_Name (fc_IngressClass f)),
          ig_Hosts = fc_Hosts f, ig_Paths = fc_Paths f, ig_IngressClassName = Some []\<rparr>)"

definition new_class_form :: "ingress_class \<Rightarrow> class_form" where
  "new_class_form ic = \<lparr>fc_Namespace = [], fc_IngressClass = ic, fc_RewriteTarget = False, fc_Annotations = [],
     fc_Hosts = [], fc_Selected = False, fc_WasSelected = False, fc_AdvancedConfig = False, fc_Paths = []\<rparr>"

definition host_text :: "ingress_host \<Rightarrow> string" where
  "host_text h = (case h of HostText t \<Rightarrow> t | HostForm f \<Rightarrow> hf_Host f)"

text \<open>A class of another type has no annotation to look for, and taking the first of none throws.\<close>

definition ingress_class_form :: "ingress list \<Rightarrow> ingress_class \<Rightarrow> class_form js_result" where
  "ingress_class_form ingresses ic =
     (case find (\<lambda>i. ig_Name i = ic_Name ic) ingresses of
        None \<Rightarrow> Inr (new_class_form ic)
      | Some i \<Rightarrow>
          (case rewrite_annotations (ic_Type ic) of
             None \<Rightarrow> Inl TypeError
           | Some rewrite \<Rightarrow>
               (let rewriteKey = fst (hd rewrite); entries = obj_entries (ig_Annotations i);
                    others = filter (\<lambda>(k, v). k \<noteq> rewriteKey \<and> k \<noteq> class_annotation) entries;
                    annotations = map (\<lambda>(k, v). \<lparr>ia_Key = k, ia_Value = v\<rparr>) others
                in Inr ((new_class_form ic)\<lparr>fc_Selected := True, fc_WasSelected := True,
                     fc_Hosts := map (\<lambda>h. HostForm \<lparr>hf_Host = host_text h, hf_PreviousHost = host_text h,
                       hf_NeedsDeletion = False, hf_IsNew = False\<rparr>) (ig_Hosts i),
                     fc_RewriteTarget := (\<exists>e \<in> set entries. fst e = rewriteKey),
                     fc_Annotations := annotations, fc_AdvancedConfig := annotations \<noteq> [],
                     fc_Paths := ig_Paths i\<rparr>))))"

definition ingressClassesToFormValues :: "ingress_class list \<Rightarrow> ingress list \<Rightarrow> class_form list js_result" where
  "ingressClassesToFormValues ics ingresses =
     fold_result (\<lambda>ic acc. and_then (ingress_class_form ingresses ic) (\<lambda>f. Inr (acc @ [f]))) ics []"

section \<open>Lemmas on the rules of an application\<close>

fun rules_found :: "string \<Rightarrow> port_form list \<Rightarrow> ingress_rule list \<Rightarrow> bool" where
  "rules_found svc [] paths = True"
| "rules_found svc (p # ps) paths \<longleftrightarrow>
     (\<exists>r \<in> set paths. ir_Port r = pf_ContainerPort p \<and> ir_ServiceName r = svc \<and> ir_Path r = pf_IngressRoute p) \<and>
     rules_found svc ps (delete_rule svc p paths)"

lemma delete_rule_Nil [simp]: "delete_rule svc p [] = []"
  by (simp add: delete_rule_def)

lemma delete_rules_Nil [simp]: "fold (delete_rule svc) ps [] = []"
  by (induction ps) simp_all

lemma delete_rule_cases:
  obtains (absent) "\<forall>r \<in> set paths. \<not> (ir_Port r = pf_ContainerPort p \<and> ir_ServiceName r = svc \<and> ir_Path r = pf_IngressRoute p)"
      "delete_rule svc p paths = []"
    | (present) r where "r \<in> set paths" "ir_Port r = pf_ContainerPort p" "ir_ServiceName r = svc"
      "ir_Path r = pf_IngressRoute p" "delete_rule svc p paths = filter (\<lambda>q. q \<noteq> r) paths"
proof (cases "find (\<lambda>r. ir_Port r = pf_ContainerPort p \<and> ir_ServiceName r = svc \<and> ir_Path r = pf_IngressRoute p) paths")
  case None
  then have "delete_rule svc p paths = []" by (simp add: delete_rule_def)
  with None that(1) show ?thesis unfolding find_None_iff by blast
next
  case (Some r)
  then have "r \<in> set paths" "ir_Port r = pf_ContainerPort p" "ir_ServiceName r = svc" "ir_Path r = pf_IngressRoute p"
    by (auto simp: find_Some_iff)
  with that(2) Some show ?thesis by (simp add: delete_rule_def)
qed

lemma delete_rules:
  "if rules_found svc ps paths
   then filter (\<lambda>r. ir_ServiceName r \<noteq> svc) (fold (delete_rule svc) ps paths) = filter (\<lambda>r. ir_ServiceName r \<noteq> svc) paths
   else fold (delete_rule svc) ps paths = []"
proof (induction ps arbitrary: paths)
  case (Cons p ps)
  show ?case
  proof (rule delete_rule_cases [of paths p svc])
    assume absent: "\<forall>r \<in> set paths. \<not> (ir_Port r = pf_ContainerPort p \<and> ir_ServiceName r = svc \<and> ir_Path r = pf_IngressRoute p)"
      "delete_rule svc p paths = []"
    then have "\<not> rules_found svc (p # ps) paths" by auto
    moreover have "fold (delete_rule svc) (p # ps) paths = []" by (simp add: absent(2))
    ultimately show ?thesis by (simp only: if_False)
  next
    fix r assume present: "r \<in> set paths" "ir_Port r = pf_ContainerPort p" "ir_ServiceName r = svc"
      "ir_Path r = pf_IngressRoute p" "delete_rule svc p paths = filter (\<lambda>q. q \<noteq> r) paths"
    have "filter (\<lambda>r. ir_ServiceName r \<noteq> svc) (delete_rule svc p paths) = filter (\<lambda>r. ir_ServiceName r \<noteq> svc) paths"
      unfolding present(5) filter_filter by (intro filter_cong refl) (use present(3) in auto)
    with Cons.IH [of "delete_rule svc p paths"] present(1-4) show ?thesis by auto
  qed
qed simp

lemma update_first_unique:
  assumes "distinct (map f xs)"
  shows "update_first (\<lambda>x. Some (f x) = k) g xs = map (\<lambda>x. if Some (f x) = k then g x else x) xs"
  using assms
proof (induction xs)
  case (Cons x xs)
  have "map (\<lambda>y. if Some (f y) = k then g y else y) xs = xs" if "Some (f x) = k"
    using Cons.prems that by (intro map_idI) (auto simp: image_iff)
  with Cons show ?case by simp
qed simp

lemma change_ingress_name [simp]: "ig_Name (change_ingress svc p i) = ig_Name i"
  by (simp add: change_ingress_def)

lemma applied_ports:
  assumes "distinct (map ig_Name is)"
  shows "applicationFormValuesToIngresses is ps svc =
    map (\<lambda>i. fold (change_ingress svc) (filter (\<lambda>p. pf_IngressName p = Some (ig_Name i)) ps) i) is"
  using assms unfolding applicationFormValuesToIngresses_def
proof (induction ps arbitrary: "is")
  case (Cons p ps)
  let ?step = "\<lambda>i. if Some (ig_Name i) = pf_IngressName p then change_ingress svc p i else i"
  have "map ig_Name (map ?step is) = map ig_Name is" by simp
  then have "distinct (map ig_Name (map ?step is))" using Cons.prems by metis
  note rest = Cons.IH [OF this]
  have "fold (change_ingress svc) (filter (\<lambda>p. pf_IngressName p = Some (ig_Name (?step i))) ps) (?step i) =
      fold (change_ingress svc) (filter (\<lambda>p. pf_IngressName p = Some (ig_Name i)) (p # ps)) i" for i
    by auto
  then show ?case unfolding fold_simps comp_apply update_first_unique [OF Cons.prems] rest map_map comp_def by simp
qed simp

lemma change_deleted:
  assumes "\<forall>p \<in> set ps. pf_NeedsDeletion p"
  shows "fold (change_ingress svc) ps i = i\<lparr>ig_Paths := fold (delete_rule svc) ps (ig_Paths i)\<rparr>"
  using assms by (induction ps arbitrary: i) (simp_all add: change_ingress_def)

lemma rules_found_each:
  "rules_found svc ps paths \<Longrightarrow> p \<in> set ps \<Longrightarrow>
     \<exists>r \<in> set paths. ir_Port r = pf_ContainerPort p \<and> ir_ServiceName r = svc \<and> ir_Path r = pf_IngressRoute p"
proof (induction ps arbitrary: paths)
  case (Cons q ps)
  have "set (delete_rule svc q paths) \<subseteq> set paths" by (auto simp: delete_rule_def split: option.split)
  with Cons show ?case by fastforce
qed simp

lemma delete_all_rules:
  assumes "inj_on (\<lambda>r. (ir_Port r, ir_Path r)) {r \<in> set paths. ir_ServiceName r = svc}"
    and "set rs \<subseteq> {r \<in> set paths. ir_ServiceName r = svc}" and "distinct rs"
    and "\<And>r. pf_ContainerPort (f r) = ir_Port r \<and> pf_IngressRoute (f r) = ir_Path r"
  shows "fold (delete_rule svc) (map f rs) paths = filter (\<lambda>q. q \<notin> set rs) paths"
  using assms(1-3)
proof (induction rs arbitrary: paths)
  case (Cons r rs)
  have "delete_rule svc (f r) paths = filter (\<lambda>q. q \<noteq> r) paths"
  proof (rule delete_rule_cases [of paths "f r" svc])
    assume "\<forall>q \<in> set paths. \<not> (ir_Port q = pf_ContainerPort (f r) \<and> ir_ServiceName q = svc \<and> ir_Path q = pf_IngressRoute (f r))"
    with Cons.prems(2) assms(4) [of r] show ?thesis by auto
  next
    fix q assume q: "q \<in> set paths" "ir_Port q = pf_ContainerPort (f r)" "ir_ServiceName q = svc"
      "ir_Path q = pf_IngressRoute (f r)" "delete_rule svc (f r) paths = filter (\<lambda>x. x \<noteq> q) paths"
    have "q = r"
      by (rule inj_onD [OF Cons.prems(1)]) (use q(1-4) Cons.prems(2) assms(4) [of r] in auto)
    with q(5) show ?thesis by simp
  qed
  moreover have "inj_on (\<lambda>r. (ir_Port r, ir_Path r)) {q \<in> set (filter (\<lambda>q. q \<noteq> r) paths). ir_ServiceName q = svc}"
    by (rule inj_on_subset [OF Cons.prems(1)]) auto
  moreover have "set rs \<subseteq> {q \<in> set (filter (\<lambda>q. q \<noteq> r) paths). ir_ServiceName q = svc}"
    using Cons.prems(2,3) by auto
  ultimately show ?case using Cons.IH [of "filter (\<lambda>q. q \<noteq> r) paths"] Cons.prems(3)
    by (simp add: filter_filter conj_commute)
qed simp

definition rule_form :: "service_type \<Rightarrow> app_port \<Rightarrow> ingress_rule \<Rightarrow> port_form" where
  "rule_form t p r = (plain_port t p)\<lparr>pf_IngressName := Some (ir_IngressName r), pf_IngressRoute := ir_Path r,
     pf_IngressHost := ir_Host r, pf_IngressHosts := None\<rparr>"

lemma rule_ports: "fold_result (rule_port t None p) rs acc = Inr (acc @ map (rule_form t p) rs)"
  by (induction rs arbitrary: acc) (simp_all add: rule_port_def rule_hosts_def rule_form_def)

lemma generated_ports:
  "generatePublishedPortsFormValuesFromPublishedPorts t ports None = Inr (concat (map (\<lambda>p.
     if ap_IngressRules p \<noteq> [] then map (rule_form t p) (ap_IngressRules p) else [plain_port t p]) ports))"
proof -
  have "fold_result (\<lambda>p acc. if ap_IngressRules p \<noteq> [] then fold_result (rule_port t None p) (ap_IngressRules p) acc
      else Inr (acc @ [plain_port t p])) ps acc = Inr (acc @ concat (map (\<lambda>p.
     if ap_IngressRules p \<noteq> [] then map (rule_form t p) (ap_IngressRules p) else [plain_port t p]) ps))" for ps acc
    by (induction ps arbitrary: acc) (simp_all add: rule_ports)
  then show ?thesis by (simp add: generatePublishedPortsFormValuesFromPublishedPorts_def)
qed

text \<open>The ports of the form that belong to one ingress are its rules of the ports of the service.\<close>

definition deleted_port :: "service_type \<Rightarrow> app_port \<Rightarrow> ingress_rule \<Rightarrow> port_form" where
  "deleted_port t p r = (rule_form t p r)\<lparr>pf_NeedsDeletion := True\<rparr>"

definition well_named :: "ingress list \<Rightarrow> bool" where
  "well_named is \<longleftrightarrow> distinct (map ig_Name is) \<and> (\<forall>i \<in> set is. \<forall>r \<in> set (ig_Paths i). ir_IngressName r = ig_Name i)"

lemma rules_of_ingress:
  assumes "well_named is" and "i \<in> set is"
  shows "filter (\<lambda>r. ir_IngressName r = ig_Name i) (concat (map ig_Paths is)) = ig_Paths i"
  using assms
proof (induction "is")
  case (Cons j js)
  then have wn: "well_named js" by (simp add: well_named_def)
  have own: "filter (\<lambda>r. ir_IngressName r = ig_Name i) (ig_Paths j) = (if ig_Name j = ig_Name i then ig_Paths j else [])"
    using Cons.prems(1) by (auto simp: well_named_def filter_empty_conv)
  show ?case
  proof (cases "i = j")
    case True
    have "ir_IngressName r \<noteq> ig_Name i" if "k \<in> set js" "r \<in> set (ig_Paths k)" for k r
    proof -
      have "ir_IngressName r = ig_Name k" using that Cons.prems(1) by (simp add: well_named_def)
      moreover have "ig_Name k \<noteq> ig_Name j" using that(1) Cons.prems(1) by (auto simp: well_named_def image_iff)
      ultimately show ?thesis using True by simp
    qed
    then have "filter (\<lambda>r. ir_IngressName r = ig_Name i) (concat (map ig_Paths js)) = []"
      unfolding filter_empty_conv set_concat set_map by blast
    with own True show ?thesis by simp
  next
    case False
    then have "i \<in> set js" "ig_Name j \<noteq> ig_Name i" using Cons.prems by (auto simp: well_named_def)
    with Cons.IH [OF wn] own show ?thesis by simp
  qed
qed simp

lemma deletions_of_ingress:
  assumes "well_named is" and "i \<in> set is" and "ports = application_ports plist refs is svc"
  shows "filter (\<lambda>p. pf_IngressName p = Some (ig_Name i)) (map (\<lambda>p. p\<lparr>pf_NeedsDeletion := True\<rparr>)
      (concat (map (\<lambda>p. if ap_IngressRules p \<noteq> [] then map (rule_form t p) (ap_IngressRules p) else [plain_port t p]) ports))) =
    concat (map (\<lambda>p. map (deleted_port t p)
      (filter (\<lambda>r. ir_ServiceName r = svc \<and> ir_Port r = ap_Port p) (ig_Paths i))) ports)"
proof -
  have one: "filter (\<lambda>q. pf_IngressName q = Some (ig_Name i)) (map (\<lambda>q. q\<lparr>pf_NeedsDeletion := True\<rparr>)
      (if ap_IngressRules p \<noteq> [] then map (rule_form t p) (ap_IngressRules p) else [plain_port t p])) =
    map (deleted_port t p) (filter (\<lambda>r. ir_IngressName r = ig_Name i) (ap_IngressRules p))" for p
  proof (cases "ap_IngressRules p = []")
    case False
    have "pf_IngressName (rule_form t p r) = Some (ir_IngressName r)" for r by (simp add: rule_form_def)
    with False show ?thesis by (simp add: filter_map comp_def deleted_port_def)
  qed (simp add: plain_port_def new_port_form_def)
  have rules: "filter (\<lambda>r. ir_IngressName r = ig_Name i) (ap_IngressRules p) =
      filter (\<lambda>r. ir_ServiceName r = svc \<and> ir_Port r = ap_Port p) (ig_Paths i)" if p: "p \<in> set ports" for p
  proof -
    have "ap_IngressRules p = filter (\<lambda>r. ir_ServiceName r = svc \<and> ir_Port r = ap_Port p) (concat (map ig_Paths is))"
    proof -
      obtain q where "p = q\<lparr>ap_IngressRules := filter (\<lambda>r. ir_Port r = ap_Port q)
          (filter (\<lambda>r. ir_ServiceName r = svc) (concat (map ig_Paths is)))\<rparr>"
        using p unfolding assms(3) application_ports_def findSBoundServiceIngressesRules_def set_map by (rule imageE)
      then show ?thesis by (simp add: filter_filter)
    qed
    then have "filter (\<lambda>r. ir_IngressName r = ig_Name i) (ap_IngressRules p) =
        filter (\<lambda>r. ir_ServiceName r = svc \<and> ir_Port r = ap_Port p)
          (filter (\<lambda>r. ir_IngressName r = ig_Name i) (concat (map ig_Paths is)))"
      by (simp only: filter_filter conj_ac)
    with rules_of_ingress [OF assms(1,2)] show ?thesis by simp
  qed
  show ?thesis
    unfolding map_concat filter_concat map_map comp_def one
    by (intro arg_cong [where f = concat] map_cong refl) (simp add: rules)
qed

lemma without_application:
  assumes "well_named is" and "i \<in> set is" and "ports = application_ports plist refs is svc"
  shows "\<exists>result. ingresses_without_application t ports is svc = Inr result \<and>
    i\<lparr>ig_Paths := fold (delete_rule svc) (concat (map (\<lambda>p. map (deleted_port t p)
      (filter (\<lambda>r. ir_ServiceName r = svc \<and> ir_Port r = ap_Port p) (ig_Paths i))) ports)) (ig_Paths i)\<rparr> \<in> set result"
proof -
  let ?ps = "map (\<lambda>p. p\<lparr>pf_NeedsDeletion := True\<rparr>)
      (concat (map (\<lambda>p. if ap_IngressRules p \<noteq> [] then map (rule_form t p) (ap_IngressRules p) else [plain_port t p]) ports))"
  let ?result = "applicationFormValuesToIngresses is ?ps svc"
  have "ingresses_without_application t ports is svc = Inr ?result"
    by (simp add: ingresses_without_application_def generated_ports)
  moreover have "fold (change_ingress svc) (filter (\<lambda>p. pf_IngressName p = Some (ig_Name i)) ?ps) i \<in> set ?result"
    using assms(1,2) by (simp add: applied_ports well_named_def)
  moreover have "\<forall>p \<in> set (filter (\<lambda>p. pf_IngressName p = Some (ig_Name i)) ?ps). pf_NeedsDeletion p" by auto
  ultimately show ?thesis
    unfolding deletions_of_ingress [OF assms] by (simp only: change_deleted) blast
qed

section \<open>Properties\<close>

text \<open>
  Deleting an application whose service has the port numbers of its containers takes exactly the rules of its
  ports out of an ingress; the rules of other applications stay, in their order.
\<close>

theorem deleted_application_rules:
  assumes "well_named originals" and "i \<in> set originals" and "ports = application_ports plist refs originals svc"
    and "\<forall>p \<in> set ports. ap_TargetPort p = ap_Port p" and "distinct (map ap_Port ports)"
    and "distinct (map (\<lambda>r. (ir_Port r, ir_Path r)) (filter (\<lambda>r. ir_ServiceName r = svc) (ig_Paths i)))"
  shows "\<exists>result. ingresses_without_application t ports originals svc = Inr result \<and>
    i\<lparr>ig_Paths := filter (\<lambda>r. \<not> (ir_ServiceName r = svc \<and> ir_Port r \<in> ap_Port ` set ports)) (ig_Paths i)\<rparr> \<in> set result"
proof -
  let ?own = "\<lambda>p. filter (\<lambda>r. ir_ServiceName r = svc \<and> ir_Port r = ap_Port p) (ig_Paths i)"
  let ?rs = "concat (map ?own ports)"
  let ?f = "\<lambda>r. new_port_form\<lparr>pf_ContainerPort := ir_Port r, pf_IngressRoute := ir_Path r\<rparr>"
  have same: "delete_rule svc (deleted_port t p r) = delete_rule svc (?f r)" if "p \<in> set ports" "ir_Port r = ap_Port p" for p r
    using that assms(4) by (simp add: delete_rule_def deleted_port_def rule_form_def plain_port_def new_port_form_def fun_eq_iff)
  have "fold (delete_rule svc) (concat (map (\<lambda>p. map (deleted_port t p) (?own p)) ps)) paths =
      fold (delete_rule svc) (map ?f (concat (map ?own ps))) paths" if "set ps \<subseteq> set ports" for ps paths
    using that
  proof (induction ps arbitrary: paths)
    case (Cons p ps)
    have "fold (delete_rule svc) (map (deleted_port t p) (?own p)) paths = fold (delete_rule svc) (map ?f (?own p)) paths"
      unfolding fold_map comp_def by (rule fold_cong) (use Cons.prems same in auto)
    with Cons show ?case by (simp only: fold_append list.map concat.simps map_append comp_apply) simp
  qed simp
  then have folds: "fold (delete_rule svc) (concat (map (\<lambda>p. map (deleted_port t p) (?own p)) ports)) (ig_Paths i) =
      fold (delete_rule svc) (map ?f ?rs) (ig_Paths i)" by blast
  have own_set: "set (filter (\<lambda>r. ir_ServiceName r = svc) (ig_Paths i)) = {r \<in> set (ig_Paths i). ir_ServiceName r = svc}" by auto
  have inj: "inj_on (\<lambda>r. (ir_Port r, ir_Path r)) {r \<in> set (ig_Paths i). ir_ServiceName r = svc}"
    using assms(6) unfolding distinct_map own_set ..
  have dist: "distinct (filter (\<lambda>r. ir_ServiceName r = svc) (ig_Paths i))" using assms(6) unfolding distinct_map ..
  have "distinct (concat (map ?own ps))" if "distinct (map ap_Port ps)" for ps
    using that
  proof (induction ps)
    case (Cons p ps)
    have "distinct (?own p)" using distinct_filter [OF dist, of "\<lambda>r. ir_Port r = ap_Port p"] by (simp add: filter_filter conj_commute)
    with Cons show ?case by (auto simp: image_iff)
  qed simp
  then have "distinct ?rs" using assms(5) .
  moreover have "set ?rs \<subseteq> {r \<in> set (ig_Paths i). ir_ServiceName r = svc}" by auto
  ultimately have "fold (delete_rule svc) (map ?f ?rs) (ig_Paths i) = filter (\<lambda>q. q \<notin> set ?rs) (ig_Paths i)"
    by (intro delete_all_rules [OF inj]) (simp_all add: new_port_form_def)
  also have "\<dots> = filter (\<lambda>r. \<not> (ir_ServiceName r = svc \<and> ir_Port r \<in> ap_Port ` set ports)) (ig_Paths i)"
    by (intro filter_cong refl) auto
  finally show ?thesis using without_application [OF assms(1,2,3), of t] unfolding folds by simp
qed

text \<open>
  Where a port of the service differs from the port of its containers and has a rule in an ingress, deleting the
  application takes every rule out of that ingress, those of other applications too.
\<close>

theorem mismatched_port_empties_ingress:
  assumes "well_named originals" and "i \<in> set originals" and "ports = application_ports plist refs originals svc"
    and "p \<in> set ports" and "r \<in> set (ig_Paths i)" and "ir_ServiceName r = svc" and "ir_Port r = ap_Port p"
    and "\<forall>q \<in> set (ig_Paths i). ir_ServiceName q = svc \<and> ir_Path q = ir_Path r \<longrightarrow> ir_Port q \<noteq> ap_TargetPort p"
  shows "\<exists>result. ingresses_without_application t ports originals svc = Inr result \<and> i\<lparr>ig_Paths := []\<rparr> \<in> set result"
proof -
  let ?ps = "concat (map (\<lambda>p. map (deleted_port t p)
      (filter (\<lambda>r. ir_ServiceName r = svc \<and> ir_Port r = ap_Port p) (ig_Paths i))) ports)"
  have "deleted_port t p r \<in> set ?ps" using assms(4-7) by auto
  moreover have "pf_ContainerPort (deleted_port t p r) = ap_TargetPort p" "pf_IngressRoute (deleted_port t p r) = ir_Path r"
    by (simp_all add: deleted_port_def rule_form_def plain_port_def)
  ultimately have "\<not> rules_found svc ?ps (ig_Paths i)"
    using rules_found_each [of svc ?ps "ig_Paths i" "deleted_port t p r"] assms(8) by metis
  with delete_rules [of svc ?ps "ig_Paths i"] have "fold (delete_rule svc) ?ps (ig_Paths i) = []" by simp
  with without_application [OF assms(1,2,3), of t] show ?thesis by simp
qed

definition shop_rule :: ingress_rule where
  "shop_rule = \<lparr>ir_IngressName = ''nginx'', ir_ServiceName = ''shop'', ir_Host = Some ''a.io'', ir_IP = None,
     ir_Port = PNum 80, ir_Path = Some ''/''\<rparr>"

definition blog_rule :: ingress_rule where
  "blog_rule = shop_rule\<lparr>ir_ServiceName := ''blog'', ir_Path := Some ''/blog''\<rparr>"

definition shared_ingress :: ingress where
  "shared_ingress = \<lparr>ig_Name = ''nginx'', ig_Namespace = ''default'', ig_Annotations = [], ig_Hosts = [HostText ''a.io''],
     ig_Paths = [shop_rule, blog_rule], ig_IngressClassName = None\<rparr>"

definition shop_port :: "int \<Rightarrow> api_port" where
  "shop_port target = \<lparr>aq_port = 80, aq_targetPort = PNum target, aq_nodePort = None, aq_protocol = ''TCP''\<rparr>"

lemma shared_well_named: "well_named [shared_ingress]"
  by (simp add: well_named_def shared_ingress_def blog_rule_def shop_rule_def)

lemma shop_ports: "application_ports [shop_port n] [] [shared_ingress] ''shop'' =
    [\<lparr>ap_IngressRules = [shop_rule], ap_NodePort = None, ap_TargetPort = PNum n, ap_Port = PNum 80, ap_Protocol = ''TCP''\<rparr>]"
  by (simp add: application_ports_def apiPortsToPublishedPorts_def shop_port_def findSBoundServiceIngressesRules_def
      shared_ingress_def blog_rule_def shop_rule_def)

theorem deleted_application_rules_witness:
  "\<exists>result. ingresses_without_application CLUSTER_IP (application_ports [shop_port 80] [] [shared_ingress] ''shop'')
     [shared_ingress] ''shop'' = Inr result \<and> shared_ingress\<lparr>ig_Paths := [blog_rule]\<rparr> \<in> set result"
proof -
  have "\<forall>p \<in> set (application_ports [shop_port 80] [] [shared_ingress] ''shop''). ap_TargetPort p = ap_Port p"
    "distinct (map ap_Port (application_ports [shop_port 80] [] [shared_ingress] ''shop''))"
    "distinct (map (\<lambda>r. (ir_Port r, ir_Path r)) (filter (\<lambda>r. ir_ServiceName r = ''shop'') (ig_Paths shared_ingress)))"
      by (simp_all add: shop_ports) (simp add: shared_ingress_def blog_rule_def shop_rule_def)
  from deleted_application_rules [OF shared_well_named _ refl this, of CLUSTER_IP]
  show ?thesis by (simp add: shop_ports) (simp add: shared_ingress_def blog_rule_def shop_rule_def)
qed

theorem mismatched_port_empties_ingress_witness:
  "\<exists>result. ingresses_without_application CLUSTER_IP (application_ports [shop_port 8080] [] [shared_ingress] ''shop'')
     [shared_ingress] ''shop'' = Inr result \<and> shared_ingress\<lparr>ig_Paths := []\<rparr> \<in> set result"
proof -
  let ?p = "\<lparr>ap_IngressRules = [shop_rule], ap_NodePort = None, ap_TargetPort = PNum 8080, ap_Port = PNum 80, ap_Protocol = ''TCP''\<rparr>"
  have "?p \<in> set (application_ports [shop_port 8080] [] [shared_ingress] ''shop'')" by (simp add: shop_ports)
  moreover have "shop_rule \<in> set (ig_Paths shared_ingress)" "ir_ServiceName shop_rule = ''shop''" "ir_Port shop_rule = ap_Port ?p"
    "\<forall>q \<in> set (ig_Paths shared_ingress). ir_ServiceName q = ''shop'' \<and> ir_Path q = ir_Path shop_rule \<longrightarrow> ir_Port q \<noteq> ap_TargetPort ?p"
    by (simp_all add: shared_ingress_def blog_rule_def shop_rule_def)
  ultimately show ?thesis using mismatched_port_empties_ingress [OF shared_well_named _ refl, of shared_ingress] by simp
qed

section \<open>Writing and reading back\<close>

text \<open>What the API server returns for a payload: texts for hosts, an empty one may be left out.\<close>

definition payload_host :: "payload_rule \<Rightarrow> string" where
  "payload_host p = (case pr_host p of Some (HostText t) \<Rightarrow> t | _ \<Rightarrow> [])"

definition payload_paths :: "payload_rule \<Rightarrow> rule_path list" where
  "payload_paths p = (case pr_paths p of None \<Rightarrow> [] | Some ps \<Rightarrow> ps)"

lemma payload_parts [simp]:
  "payload_host \<lparr>pr_host = (if v = HostText [] then None else Some v), pr_paths = ps\<rparr> =
     (case v of HostText t \<Rightarrow> t | HostForm f \<Rightarrow> [])"
  "payload_host \<lparr>pr_host = Some v, pr_paths = ps\<rparr> = (case v of HostText t \<Rightarrow> t | HostForm f \<Rightarrow> [])"
  "payload_paths \<lparr>pr_host = h, pr_paths = Some qs\<rparr> = qs"
  "payload_paths \<lparr>pr_host = h, pr_paths = None\<rparr> = []"
  by (simp_all add: payload_host_def payload_paths_def split: ingress_host.split)

definition raw_rule_of :: "payload_rule \<Rightarrow> raw_rule \<Rightarrow> bool" where
  "raw_rule_of p r \<longleftrightarrow> or_str (rr_host r) [] = payload_host p \<and>
     rr_http r = map_option (map (\<lambda>a. \<lparr>rp_serviceName = pa_serviceName a, rp_servicePort = pa_servicePort a,
       rp_path = pa_path a\<rparr>)) (pr_paths p)"

definition stored_ingress :: "ingress_payload \<Rightarrow> raw_ingress \<Rightarrow> bool" where
  "stored_ingress p raw \<longleftrightarrow> ri_name raw = ip_name p \<and> ri_namespace raw = ip_namespace p \<and>
     ri_annotations raw = Some (ip_annotations p) \<and>
     list_all2 raw_rule_of (case ip_rules p of None \<Rightarrow> [] | Some rs \<Rightarrow> rs) (ri_rules raw)"

lemma raw_paths:
  assumes "raw_rule_of p r"
  shows "map payload_path (filter (\<lambda>q. ir_Host q = Some h) (rule_paths raw r)) =
    (if payload_host p = h then payload_paths p else [])"
proof -
  have same: "map (\<lambda>x. \<lparr>pa_path = pa_path x, pa_serviceName = pa_serviceName x, pa_servicePort = pa_servicePort x\<rparr>) ps = ps"
    for ps by (intro map_idI) simp
  show ?thesis using assms
    by (cases "pr_paths p") (simp_all add: raw_rule_of_def payload_paths_def rule_paths_def payload_path_def filter_map comp_def same)
qed

lemma read_paths:
  assumes "list_all2 raw_rule_of rules (ri_rules raw)"
  shows "map payload_path (filter (\<lambda>q. ir_Host q = Some h) (ig_Paths (apiToModel raw))) =
    concat (map (\<lambda>p. if payload_host p = h
      then payload_paths p else []) rules)"
proof -
  have "map payload_path (filter (\<lambda>q. ir_Host q = Some h) (concat (map (rule_paths raw) rs))) =
    concat (map (\<lambda>p. if payload_host p = h
      then payload_paths p else []) ps)" if "list_all2 raw_rule_of ps rs" for ps rs
    using that by (induction rule: list_all2_induct) (simp_all add: raw_paths)
  from this [OF assms] show ?thesis by (simp add: apiToModel_def)
qed

lemma read_hosts:
  assumes "list_all2 raw_rule_of rules (ri_rules raw)"
  shows "set (ig_Hosts (apiToModel raw)) =
    (\<lambda>p. HostText (payload_host p)) ` set rules"
proof -
  have "set (ig_Hosts (apiToModel raw)) = (\<lambda>r. HostText (or_str (rr_host r) [])) ` set (ri_rules raw)"
    by (simp add: apiToModel_def image_image)
  also have "\<dots> = (\<lambda>p. HostText (payload_host p)) ` set rules"
    using assms by (induction rule: list_all2_induct) (simp_all add: raw_rule_of_def)
  finally show ?thesis .
qed

definition updated_host :: "ingress_host list \<Rightarrow> string \<Rightarrow> ingress_host" where
  "updated_host hosts h = the (find (host_matches h) hosts)"

definition shown_host :: "ingress_host \<Rightarrow> string" where
  "shown_host h = (case host_value h of HostText t \<Rightarrow> t | HostForm f \<Rightarrow> [])"

lemma host_rules:
  assumes "\<forall>g \<in> set gs. find (host_matches (fst g)) hosts \<noteq> None"
  shows "fold_result (host_rule hosts) gs acc =
    (let kept = filter (\<lambda>g. \<not> host_dropped (updated_host hosts (fst g))) gs in
     Inr (fst acc @ map (\<lambda>g. let v = host_value (updated_host hosts (fst g)) in
         \<lparr>pr_host = (if v = HostText [] then None else Some v), pr_paths = Some (map payload_path (snd g))\<rparr>) kept,
       snd acc @ map (\<lambda>g. host_value (updated_host hosts (fst g))) kept))"
  using assms
  by (induction gs arbitrary: acc) (auto simp: host_rule_def updated_host_def Let_def)

lemma image_without: "{x \<in> f ` {h \<in> A. P h}. x \<notin> B} = f ` {h \<in> A. P h \<and> f h \<notin> B}"
  by auto

text \<open>What is read back of a payload with rules: the paths under each host, and the hosts.\<close>

lemma payload_read_back:
  assumes "ig_Paths data \<noteq> []" and "\<forall>p \<in> set (ig_Paths data). find (host_matches (path_host p)) (ig_Hosts data) \<noteq> None"
  shows "\<exists>payload. createIngressPayload data = Inr payload \<and> (\<forall>raw. stored_ingress payload raw \<longrightarrow>
    set (ig_Hosts (apiToModel raw)) =
      (\<lambda>h. HostText (shown_host h)) ` {h \<in> set (ig_Hosts data). \<not> host_dropped h} \<and>
    (\<forall>h. map payload_path (filter (\<lambda>q. ir_Host q = Some h) (ig_Paths (apiToModel raw))) =
      concat (map (\<lambda>g. if shown_host (updated_host (ig_Hosts data) (fst g)) = h then map payload_path (snd g) else [])
        (filter (\<lambda>g. \<not> host_dropped (updated_host (ig_Hosts data) (fst g)))
          (obj_entries (group_by path_host (ig_Paths data)))))))"
proof -
  let ?gs = "obj_entries (group_by path_host (ig_Paths data))" and ?hosts = "ig_Hosts data"
  let ?upd = "\<lambda>g. updated_host ?hosts (fst g)"
  let ?kept = "filter (\<lambda>g. \<not> host_dropped (?upd g)) ?gs"
  let ?rules = "map (\<lambda>g. let v = host_value (?upd g) in
      \<lparr>pr_host = (if v = HostText [] then None else Some v), pr_paths = Some (map payload_path (snd g))\<rparr>) ?kept"
  let ?empty = "map (\<lambda>h. \<lparr>pr_host = Some h, pr_paths = None\<rparr>)
      (filter (\<lambda>h. h \<notin> (\<lambda>g. host_value (?upd g)) ` set ?kept)
        (map host_value (filter (\<lambda>h. \<not> host_dropped h) ?hosts)))"
  have group: "\<exists>p \<in> set (ig_Paths data). fst g = path_host p" if "g \<in> set ?gs" for g
    using that by (auto simp: set_obj_entries obj_get_group_by filter_empty_conv split: if_splits)
  have found: "find (host_matches (fst g)) ?hosts \<noteq> None" if "g \<in> set ?gs" for g
    using group [OF that] assms(2) by metis
  have upd: "?upd g \<in> set ?hosts" if "g \<in> set ?gs" for g
  proof -
    from found [OF that] obtain u where "find (host_matches (fst g)) ?hosts = Some u" by blast
    moreover from this have "u \<in> set ?hosts" by (auto simp: find_Some_iff)
    ultimately show ?thesis by (simp add: updated_host_def)
  qed
  obtain payload where payload: "createIngressPayload data = Inr payload"
    and rules: "(case ip_rules payload of None \<Rightarrow> [] | Some rs \<Rightarrow> rs) = ?rules @ ?empty"
    using assms(1) found by (simp add: createIngressPayload_def host_rules Let_def)
  have read: "set (ig_Hosts (apiToModel raw)) = (\<lambda>h. HostText (shown_host h)) ` {h \<in> set ?hosts. \<not> host_dropped h} \<and>
    (\<forall>h. map payload_path (filter (\<lambda>q. ir_Host q = Some h) (ig_Paths (apiToModel raw))) =
      concat (map (\<lambda>g. if shown_host (?upd g) = h then map payload_path (snd g) else []) ?kept))"
    if stored: "stored_ingress payload raw" for raw
  proof -
    have all2: "list_all2 raw_rule_of (?rules @ ?empty) (ri_rules raw)"
      using stored unfolding stored_ingress_def rules by blast
    have "map payload_path (filter (\<lambda>q. ir_Host q = Some h) (ig_Paths (apiToModel raw))) =
      concat (map (\<lambda>g. if shown_host (?upd g) = h then map payload_path (snd g) else []) ?kept)" for h
    proof -
      have none: "concat (map (\<lambda>x. []) xs) = []" for xs :: "ingress_host list" by simp
      show ?thesis
        unfolding read_paths [OF all2] map_append concat_append map_map
        by (simp only: comp_def Let_def payload_parts shown_host_def if_cancel none append_Nil2)
    qed
    moreover have "set (ig_Hosts (apiToModel raw)) = (\<lambda>h. HostText (shown_host h)) ` {h \<in> set ?hosts. \<not> host_dropped h}"
    proof -
      have one: "(\<lambda>p. HostText (payload_host p)) ` set ?rules =
          (\<lambda>g. HostText (shown_host (?upd g))) ` set ?kept"
        unfolding set_map image_image Let_def payload_parts shown_host_def ..
      have two: "(\<lambda>p. HostText (payload_host p)) ` set ?empty =
          (\<lambda>h. HostText (shown_host h)) ` {h \<in> set ?hosts. \<not> host_dropped h \<and> host_value h \<notin> (\<lambda>g. host_value (?upd g)) ` set ?kept}"
        by (simp only: set_map set_filter image_without image_image payload_parts shown_host_def)
      have "(\<lambda>g. HostText (shown_host (?upd g))) ` set ?kept \<subseteq> (\<lambda>h. HostText (shown_host h)) ` {h \<in> set ?hosts. \<not> host_dropped h}"
        using upd by auto
      moreover have "HostText (shown_host h) \<in> (\<lambda>g. HostText (shown_host (?upd g))) ` set ?kept"
        if "host_value h \<in> (\<lambda>g. host_value (?upd g)) ` set ?kept" for h
        using that by (auto simp: shown_host_def image_iff)
      ultimately show ?thesis unfolding read_hosts [OF all2] set_append image_Un one two by blast
    qed
    ultimately show ?thesis by blast
  qed
  with payload show ?thesis by blast
qed

lemma find_host_text: "find (host_matches h) (map HostText ts) = (if h \<in> set ts then Some (HostText h) else None)"
  by (induction ts) (auto simp: host_matches_def)

text \<open>
  An ingress with rules that is written and read back has the same hosts, and under each host the same paths to
  the same services in the same order.
\<close>

theorem ingress_round_trip:
  assumes "ig_Paths data \<noteq> []" and "ig_Hosts data = map HostText ts" and "path_host ` set (ig_Paths data) \<subseteq> set ts"
  shows "\<exists>payload. createIngressPayload data = Inr payload \<and> (\<forall>raw. stored_ingress payload raw \<longrightarrow>
    set (ig_Hosts (apiToModel raw)) = set (ig_Hosts data) \<and>
    (\<forall>h. map payload_path (filter (\<lambda>q. ir_Host q = Some h) (ig_Paths (apiToModel raw))) =
       map payload_path (filter (\<lambda>q. path_host q = h) (ig_Paths data))))"
proof -
  let ?gs = "obj_entries (group_by path_host (ig_Paths data))"
  have found: "\<forall>p \<in> set (ig_Paths data). find (host_matches (path_host p)) (ig_Hosts data) \<noteq> None"
    using assms(3) unfolding assms(2) find_host_text by auto
  have upd: "updated_host (ig_Hosts data) (fst g) = HostText (fst g)" if "g \<in> set ?gs" for g
  proof -
    have "fst g \<in> path_host ` set (ig_Paths data)"
      using that by (auto simp: set_obj_entries obj_get_group_by filter_empty_conv split: if_splits)
    then have "fst g \<in> set ts" using assms(3) by blast
    then show ?thesis unfolding updated_host_def assms(2) find_host_text by simp
  qed
  then have "filter (\<lambda>g. \<not> host_dropped (updated_host (ig_Hosts data) (fst g))) ?gs = ?gs"
    by (simp add: filter_id_conv host_dropped_def)
  moreover have "concat (map (\<lambda>g. if shown_host (updated_host (ig_Hosts data) (fst g)) = h then map payload_path (snd g) else []) ?gs) =
      map payload_path (filter (\<lambda>q. path_host q = h) (ig_Paths data))" for h
  proof -
    have groups: "map (\<lambda>g. if shown_host (updated_host (ig_Hosts data) (fst g)) = h then map payload_path (snd g) else []) ?gs =
        map (\<lambda>g. if fst g = h then map payload_path (snd g) else []) ?gs"
      by (rule map_cong [OF refl]) (simp only: upd shown_host_def host_value_def ingress_host.case)
    show ?thesis unfolding groups
      by (simp add: concat_of_key distinct_obj_entries map_of_obj_entries obj_get_group_by)
  qed
  moreover have "(\<lambda>h. HostText (shown_host h)) ` {h \<in> set (ig_Hosts data). \<not> host_dropped h} = set (ig_Hosts data)"
  proof -
    have "{h \<in> set (ig_Hosts data). \<not> host_dropped h} = HostText ` set ts" by (auto simp: assms(2) host_dropped_def)
    then show ?thesis by (simp add: assms(2) image_image shown_host_def host_value_def)
  qed
  ultimately show ?thesis using payload_read_back [OF assms(1) found] by simp
qed

theorem ingress_round_trip_witness:
  "\<exists>payload. createIngressPayload shared_ingress = Inr payload \<and> (\<forall>raw. stored_ingress payload raw \<longrightarrow>
    set (ig_Hosts (apiToModel raw)) = set (ig_Hosts shared_ingress))"
proof -
  have "ig_Paths shared_ingress \<noteq> []" "ig_Hosts shared_ingress = map HostText [''a.io'']"
    "path_host ` set (ig_Paths shared_ingress) \<subseteq> set [''a.io'']"
    by (simp_all add: shared_ingress_def blog_rule_def shop_rule_def path_host_def)
  from ingress_round_trip [OF this] show ?thesis by blast
qed

text \<open>
  Saving the hosts of a resource pool: the paths of a host that was renamed are found under its new name, those
  of a host that was removed are gone, and the hosts are those of the form.
\<close>

theorem edited_hosts_applied:
  assumes "ig_Paths data \<noteq> []" and "ig_Hosts data = map HostForm fs"
    and "\<forall>f \<in> set fs. \<not> hf_NeedsDeletion f \<longrightarrow> hf_Host f \<noteq> []"
    and "\<forall>f \<in> set fs. \<forall>g \<in> set fs. hf_Host f = hf_Host g \<and> \<not> hf_NeedsDeletion f \<and> \<not> hf_NeedsDeletion g \<longrightarrow> f = g"
    and "\<forall>f \<in> set fs. \<forall>g \<in> set fs. hf_PreviousHost f = hf_PreviousHost g \<and> \<not> hf_IsNew f \<and> \<not> hf_IsNew g \<longrightarrow> f = g"
    and "\<forall>f \<in> set fs. hf_IsNew f \<longrightarrow> hf_PreviousHost f = []"
    and "\<forall>p \<in> set (ig_Paths data). path_host p \<noteq> [] \<and> (\<exists>f \<in> set fs. hf_PreviousHost f = path_host p)"
  shows "\<exists>payload. createIngressPayload data = Inr payload \<and> (\<forall>raw. stored_ingress payload raw \<longrightarrow>
    set (ig_Hosts (apiToModel raw)) = (\<lambda>f. HostText (hf_Host f)) ` {f \<in> set fs. \<not> hf_NeedsDeletion f} \<and>
    (\<forall>f \<in> set fs. \<not> hf_NeedsDeletion f \<longrightarrow>
       map payload_path (filter (\<lambda>q. ir_Host q = Some (hf_Host f)) (ig_Paths (apiToModel raw))) =
       (if hf_IsNew f then [] else map payload_path (filter (\<lambda>q. path_host q = hf_PreviousHost f) (ig_Paths data)))))"
proof -
  let ?gs = "obj_entries (group_by path_host (ig_Paths data))"
  let ?upd = "\<lambda>g. updated_host (ig_Hosts data) (fst g)"
  have find_form: "\<exists>f \<in> set fs. find (host_matches h) (ig_Hosts data) = Some (HostForm f) \<and> hf_PreviousHost f = h"
    if "\<exists>f \<in> set fs. hf_PreviousHost f = h" for h
    using that unfolding assms(2) by (induction fs) (auto simp: host_matches_def)
  have group: "fst g \<noteq> []" "\<exists>f \<in> set fs. ?upd g = HostForm f \<and> hf_PreviousHost f = fst g \<and> \<not> hf_IsNew f" if g: "g \<in> set ?gs" for g
  proof -
    from g obtain p where "p \<in> set (ig_Paths data)" "fst g = path_host p"
      by (auto simp: set_obj_entries obj_get_group_by filter_empty_conv split: if_splits)
    then show ne: "fst g \<noteq> []" and "\<exists>f \<in> set fs. ?upd g = HostForm f \<and> hf_PreviousHost f = fst g \<and> \<not> hf_IsNew f"
      using assms(6,7) find_form [of "fst g"] unfolding updated_host_def by (metis, metis option.sel)
  qed
  have shown: "shown_host (HostForm f) = hf_Host f" if "f \<in> set fs" "\<not> hf_NeedsDeletion f" for f
    using assms(3) that by (simp add: shown_host_def host_value_def)
  have found: "\<forall>p \<in> set (ig_Paths data). find (host_matches (path_host p)) (ig_Hosts data) \<noteq> None"
    using assms(7) find_form by (metis option.distinct(1))
  have hosts: "(\<lambda>h. HostText (shown_host h)) ` {h \<in> set (ig_Hosts data). \<not> host_dropped h} =
      (\<lambda>f. HostText (hf_Host f)) ` {f \<in> set fs. \<not> hf_NeedsDeletion f}"
    unfolding assms(2) by (force simp: host_dropped_def shown image_iff)
  have paths: "concat (map (\<lambda>g. if shown_host (?upd g) = hf_Host f then map payload_path (snd g) else [])
      (filter (\<lambda>g. \<not> host_dropped (?upd g)) ?gs)) =
    (if hf_IsNew f then [] else map payload_path (filter (\<lambda>q. path_host q = hf_PreviousHost f) (ig_Paths data)))"
    if f: "f \<in> set fs" "\<not> hf_NeedsDeletion f" for f
  proof -
    have here: "(\<not> host_dropped (?upd g) \<and> shown_host (?upd g) = hf_Host f) \<longleftrightarrow> (\<not> hf_IsNew f \<and> fst g = hf_PreviousHost f)"
      if g: "g \<in> set ?gs" for g
    proof -
      obtain u where u: "u \<in> set fs" "?upd g = HostForm u" "hf_PreviousHost u = fst g" "\<not> hf_IsNew u"
        using group(2) [OF g] by blast
      have "(\<not> hf_NeedsDeletion u \<and> hf_Host u = hf_Host f) \<longleftrightarrow> u = f" using assms(4) u(1) f by blast
      moreover have "u = f \<longleftrightarrow> \<not> hf_IsNew f \<and> fst g = hf_PreviousHost f" using assms(5) u f(1) by metis
      moreover have "(\<not> host_dropped (?upd g) \<and> shown_host (?upd g) = hf_Host f) \<longleftrightarrow> (\<not> hf_NeedsDeletion u \<and> hf_Host u = hf_Host f)"
        using shown [OF u(1)] by (auto simp: u(2) host_dropped_def)
      ultimately show ?thesis by simp
    qed
    have "concat (map (\<lambda>g. if P g then F g else []) (filter Q xs)) = concat (map (\<lambda>g. if Q g \<and> P g then F g else []) xs)"
      for P Q and F :: "string \<times> ingress_rule list \<Rightarrow> rule_path list" and xs by (induction xs) simp_all
    then have "concat (map (\<lambda>g. if shown_host (?upd g) = hf_Host f then map payload_path (snd g) else [])
        (filter (\<lambda>g. \<not> host_dropped (?upd g)) ?gs)) =
      concat (map (\<lambda>g. if \<not> host_dropped (?upd g) \<and> shown_host (?upd g) = hf_Host f then map payload_path (snd g) else []) ?gs)" .
    also have "map (\<lambda>g. if \<not> host_dropped (?upd g) \<and> shown_host (?upd g) = hf_Host f then map payload_path (snd g) else []) ?gs =
      map (\<lambda>g. if \<not> hf_IsNew f \<and> fst g = hf_PreviousHost f then map payload_path (snd g) else []) ?gs"
      by (rule map_cong [OF refl]) (simp only: here)
    also have "concat \<dots> = (if hf_IsNew f then [] else map payload_path (filter (\<lambda>q. path_host q = hf_PreviousHost f) (ig_Paths data)))"
      by (cases "hf_IsNew f") (simp_all add: concat_of_key distinct_obj_entries map_of_obj_entries obj_get_group_by)
    finally show ?thesis .
  qed
  obtain payload where payload: "createIngressPayload data = Inr payload" and read: "\<And>raw. stored_ingress payload raw \<Longrightarrow>
    (\<forall>h. map payload_path (filter (\<lambda>q. ir_Host q = Some h) (ig_Paths (apiToModel raw))) =
      concat (map (\<lambda>g. if shown_host (?upd g) = h then map payload_path (snd g) else [])
        (filter (\<lambda>g. \<not> host_dropped (?upd g)) ?gs))) \<and>
    set (ig_Hosts (apiToModel raw)) = (\<lambda>h. HostText (shown_host h)) ` {h \<in> set (ig_Hosts data). \<not> host_dropped h}"
    using payload_read_back [OF assms(1) found] by blast
  show ?thesis using payload read hosts paths by (intro exI [of _ payload]) simp
qed

definition form_host :: "string \<Rightarrow> string \<Rightarrow> bool \<Rightarrow> ingress_host" where
  "form_host host previous new = HostForm \<lparr>hf_Host = host, hf_PreviousHost = previous, hf_NeedsDeletion = False, hf_IsNew = new\<rparr>"

theorem edited_hosts_applied_witness:
  "\<exists>payload. createIngressPayload (shared_ingress\<lparr>ig_Hosts := [form_host ''b.io'' ''a.io'' False, form_host ''c.io'' [] True]\<rparr>) =
      Inr payload \<and>
    (\<forall>raw. stored_ingress payload raw \<longrightarrow>
      map payload_path (filter (\<lambda>q. ir_Host q = Some ''b.io'') (ig_Paths (apiToModel raw))) =
        map payload_path [shop_rule, blog_rule])"
proof -
  let ?b = "\<lparr>hf_Host = ''b.io'', hf_PreviousHost = ''a.io'', hf_NeedsDeletion = False, hf_IsNew = False\<rparr>"
  let ?fs = "[?b, \<lparr>hf_Host = ''c.io'', hf_PreviousHost = [], hf_NeedsDeletion = False, hf_IsNew = True\<rparr>]"
  let ?data = "shared_ingress\<lparr>ig_Hosts := [form_host ''b.io'' ''a.io'' False, form_host ''c.io'' [] True]\<rparr>"
  have "ig_Paths ?data \<noteq> []" "ig_Hosts ?data = map HostForm ?fs"
    "\<forall>f \<in> set ?fs. \<not> hf_NeedsDeletion f \<longrightarrow> hf_Host f \<noteq> []"
    "\<forall>f \<in> set ?fs. \<forall>g \<in> set ?fs. hf_Host f = hf_Host g \<and> \<not> hf_NeedsDeletion f \<and> \<not> hf_NeedsDeletion g \<longrightarrow> f = g"
    "\<forall>f \<in> set ?fs. \<forall>g \<in> set ?fs. hf_PreviousHost f = hf_PreviousHost g \<and> \<not> hf_IsNew f \<and> \<not> hf_IsNew g \<longrightarrow> f = g"
    "\<forall>f \<in> set ?fs. hf_IsNew f \<longrightarrow> hf_PreviousHost f = []"
    "\<forall>p \<in> set (ig_Paths ?data). path_host p \<noteq> [] \<and> (\<exists>f \<in> set ?fs. hf_PreviousHost f = path_host p)"
    by (simp_all add: shared_ingress_def form_host_def blog_rule_def shop_rule_def path_host_def)
  note edited = edited_hosts_applied [OF this]
  have paths: "filter (\<lambda>q. path_host q = hf_PreviousHost ?b) (ig_Paths ?data) = [shop_rule, blog_rule]"
    "?b \<in> set ?fs" "\<not> hf_NeedsDeletion ?b" "\<not> hf_IsNew ?b" "hf_Host ?b = ''b.io''"
    by (simp_all add: shared_ingress_def blog_rule_def shop_rule_def path_host_def)
  show ?thesis
  proof (rule exE [OF edited], elim conjE)
    fix payload
    assume payload: "createIngressPayload ?data = Inr payload" and read: "\<forall>raw. stored_ingress payload raw \<longrightarrow>
      set (ig_Hosts (apiToModel raw)) = (\<lambda>f. HostText (hf_Host f)) ` {f \<in> set ?fs. \<not> hf_NeedsDeletion f} \<and>
      (\<forall>f \<in> set ?fs. \<not> hf_NeedsDeletion f \<longrightarrow>
       map payload_path (filter (\<lambda>q. ir_Host q = Some (hf_Host f)) (ig_Paths (apiToModel raw))) =
       (if hf_IsNew f then [] else map payload_path (filter (\<lambda>q. path_host q = hf_PreviousHost f) (ig_Paths ?data))))"
    have "map payload_path (filter (\<lambda>q. ir_Host q = Some (hf_Host ?b)) (ig_Paths (apiToModel raw))) =
        map payload_path [shop_rule, blog_rule]" if "stored_ingress payload raw" for raw
      using read [rule_format, OF that, THEN conjunct2, rule_format, OF paths(2,3)] paths(1,4) by (simp only: if_False)
    with payload show ?thesis by (simp only: paths(5)) blast
  qed
qed

text \<open>
  When an application gives up the last rule of an ingress, the ingress is written without its hosts: what was
  read as texts has no \<open>Host\<close>, and all that is left of the hosts is one empty name.
\<close>

theorem last_route_loses_hosts:
  assumes "ig_Paths i = [r]" and "ig_Hosts i = map HostText ts" and "ts \<noteq> []" and "pf_NeedsDeletion p"
    and "ir_Port r = pf_ContainerPort p" and "ir_ServiceName r = svc" and "ir_Path r = pf_IngressRoute p"
  shows "\<exists>payload. createIngressPayload (change_ingress svc p i) = Inr payload \<and>
    (\<forall>raw. stored_ingress payload raw \<longrightarrow> ig_Paths (apiToModel raw) = [] \<and> set (ig_Hosts (apiToModel raw)) = {HostText []})"
proof -
  let ?rules = "map (\<lambda>t. \<lparr>pr_host = None, pr_paths = None\<rparr>) ts"
  have "ig_Paths (change_ingress svc p i) = []" "ig_Hosts (change_ingress svc p i) = map HostText ts"
    using assms by (simp_all add: change_ingress_def delete_rule_def)
  then obtain payload where payload: "createIngressPayload (change_ingress svc p i) = Inr payload" "ip_rules payload = Some ?rules"
    by (simp add: createIngressPayload_def map_filter_map_filter host_dropped_def map_filter_def comp_def)
  have "ig_Paths (apiToModel raw) = [] \<and> set (ig_Hosts (apiToModel raw)) = {HostText []}" if "stored_ingress payload raw" for raw
  proof -
    have all2: "list_all2 raw_rule_of ?rules (ri_rules raw)" using that payload(2) by (simp add: stored_ingress_def)
    have "concat (map (rule_paths raw) rs) = []" if "list_all2 raw_rule_of (map (\<lambda>t. \<lparr>pr_host = None, pr_paths = None\<rparr>) us) rs" for us :: "string list" and rs
      using that by (induction us arbitrary: rs) (auto simp: list_all2_Cons1 raw_rule_of_def rule_paths_def)
    from this [OF all2] have "ig_Paths (apiToModel raw) = []" by (simp add: apiToModel_def)
    moreover have "set (ig_Hosts (apiToModel raw)) = {HostText []}"
      using read_hosts [OF all2] assms(3) by (cases ts) (auto simp: payload_host_def)
    ultimately show ?thesis ..
  qed
  with payload(1) show ?thesis by blast
qed

theorem last_route_loses_hosts_witness:
  "\<exists>payload. createIngressPayload (change_ingress ''shop''
      (new_port_form\<lparr>pf_NeedsDeletion := True, pf_ContainerPort := PNum 80, pf_IngressRoute := Some ''/''\<rparr>)
      (shared_ingress\<lparr>ig_Paths := [shop_rule]\<rparr>)) = Inr payload \<and>
    (\<forall>raw. stored_ingress payload raw \<longrightarrow> set (ig_Hosts (apiToModel raw)) = {HostText []})"
proof -
  let ?p = "new_port_form\<lparr>pf_NeedsDeletion := True, pf_ContainerPort := PNum 80, pf_IngressRoute := Some ''/''\<rparr>"
    and ?i = "shared_ingress\<lparr>ig_Paths := [shop_rule]\<rparr>"
  have "ig_Paths ?i = [shop_rule]" "ig_Hosts ?i = map HostText [''a.io'']" "[''a.io''] \<noteq> []" "pf_NeedsDeletion ?p"
    "ir_Port shop_rule = pf_ContainerPort ?p" "ir_ServiceName shop_rule = ''shop''" "ir_Path shop_rule = pf_IngressRoute ?p"
    by (simp_all add: shared_ingress_def shop_rule_def new_port_form_def)
  from last_route_loses_hosts [OF this] show ?thesis by blast
qed

end
