(* ===== verification/KubeAppForm.thy ===== *)
theory KubeAppForm
  imports KubeWorkload KubeIngress
begin

text \<open>
  The page on which an application is created or edited: \<open>helpers/formValidationHelper.js\<close> and the row operations,
  validations and conditions of \<open>views/applications/create/createApplicationController.js\<close>. The page passes positions
  of rows that are there, so a row out of range is an error. The comparison of reservations with quotas is done in
  floating point numbers and is not modelled.
\<close>

section \<open>Duplicates\<close>

text \<open>
  A field of a form is a text, a number or undefined. \<open>_.groupBy\<close> groups by the text of a field, so the undefined ones
  fall together with the text \<open>undefined\<close>. The map from positions to fields is a list in the order of the positions.
\<close>

fun name_text :: "port_value option \<Rightarrow> string" where
  "name_text None = ''undefined''"
| "name_text (Some v) = show_port v"

fun name_truthy :: "port_value option \<Rightarrow> bool" where
  "name_truthy None = False"
| "name_truthy (Some (PNum i)) = (i \<noteq> 0)"
| "name_truthy (Some (PText s)) = (s \<noteq> [])"

definition name_rx :: rx where
  "name_rx = plus (Cls [(45, 45), (46, 46), (95, 95), (97, 122), (65, 90), (48, 57)])"

definition getInvalidKeys :: "string list \<Rightarrow> nat list" where
  "getInvalidKeys names = map fst (filter (\<lambda>(index, name). \<not> matches name_rx name) (enumerate 0 names))"

definition getDuplicates :: "port_value option list \<Rightarrow> (nat \<times> port_value) list" where
  "getDuplicates names =
     (let groupped = group_by name_text names in
      without_undefined (map (\<lambda>(index, name).
        if name_truthy name \<and> 1 < length (the (obj_get groupped (name_text name))) then Some (index, the name) else None)
        (enumerate 0 names)))"

record 'k validation_refs =
  vr_refs :: "('k \<times> port_value) list"
  vr_hasRefs :: bool

definition refs_of :: "('k \<times> port_value) list \<Rightarrow> 'k validation_refs" where
  "refs_of rs = \<lparr>vr_refs = rs, vr_hasRefs = (rs \<noteq> [])\<rparr>"

section \<open>The form and the page\<close>

record config_row =
  cr_SelectedConfiguration :: "configuration option"
  cr_Overriden :: bool
  cr_OverridenKeys :: "override_key list"

record app_form =
  fv_Name :: string
  fv_ApplicationType :: "application_type option"
  fv_ReplicaCount :: "nat option"
  fv_DeploymentType :: deployment_type
  fv_AutoScaler :: scaler_form
  fv_Containers :: "string list"
  fv_EnvironmentVariables :: "env_form list"
  fv_DataAccessPolicy :: data_access
  fv_PersistedFolders :: "folder_form list"
  fv_Configurations :: "config_row list"
  fv_PublishingType :: publishing_type
  fv_PublishedPorts :: "port_form list"
  fv_PlacementType :: placement_type
  fv_Placements :: "placement_form list"

record app_page =
  pg_form :: app_form
  pg_isEdit :: bool
  pg_alreadyExists :: bool
  pg_persistedFoldersUseExistingVolumes :: bool
  pg_environmentVariables :: "nat validation_refs"
  pg_persistedFolders :: "nat validation_refs"
  pg_configurationPaths :: "(nat \<times> nat) validation_refs"
  pg_existingVolumes :: "nat validation_refs"
  pg_containerPorts :: "nat validation_refs"
  pg_nodePorts :: "nat validation_refs"
  pg_ingressRoutes :: "nat validation_refs"
  pg_loadBalancerPorts :: "nat validation_refs"
  pg_placements :: "nat validation_refs"
  pg_applicationId :: string
  pg_applications :: "(string \<times> string) list"
  pg_storageClasses :: "storage_class list"
  pg_nodesLabels :: "node_label list"
  pg_configurations :: "configuration list"
  pg_ingresses :: "ingress list"
  pg_filteredIngresses :: "ingress list"
  pg_serviceType :: service_type
  pg_loadBalancerIPAddress :: "string option"
  pg_savedPublishingType :: "publishing_type option"

definition at_row :: "'a list \<Rightarrow> nat \<Rightarrow> ('a \<Rightarrow> 'b js_result) \<Rightarrow> 'b js_result" where
  "at_row xs i k = (if i < length xs then k (xs ! i) else Inl TypeError)"

text \<open>\<open>pg_applications\<close> are the identifiers and names of the applications of the namespace.\<close>

definition onChangeName :: "app_page \<Rightarrow> app_page" where
  "onChangeName p = p\<lparr>pg_alreadyExists :=
     (case find (\<lambda>a. snd a = fv_Name (pg_form p)) (pg_applications p) of
        None \<Rightarrow> False
      | Some a \<Rightarrow> \<not> pg_isEdit p \<or> pg_applicationId p \<noteq> fst a)\<rparr>"

definition unselectAutoScaler :: "app_form \<Rightarrow> app_form" where
  "unselectAutoScaler f =
     (if fv_DeploymentType f = GLOBAL then f\<lparr>fv_AutoScaler := (fv_AutoScaler f)\<lparr>sg_IsUsed := False\<rparr>\<rparr> else f)"

section \<open>Configurations\<close>

definition key_refs :: "string list \<Rightarrow> nat \<times> config_row \<Rightarrow> ((nat \<times> nat) \<times> port_value) list" where
  "key_refs duplicatePaths = (\<lambda>(index, c).
     without_undefined (map (\<lambda>(keyIndex, k).
       if ok_Path k \<noteq> [] \<and> ok_Path k \<in> set duplicatePaths then Some ((index, keyIndex), PText (ok_Path k)) else None)
       (enumerate 0 (cr_OverridenKeys c))))"

definition configuration_paths :: "config_row list \<Rightarrow> string list" where
  "configuration_paths cs = concat (map (\<lambda>c. uniq (map ok_Path (cr_OverridenKeys c))) cs)"

definition path_refs :: "config_row list \<Rightarrow> ((nat \<times> nat) \<times> port_value) list" where
  "path_refs cs =
     (let duplicatePaths = map (show_port \<circ> snd) (getDuplicates (map (Some \<circ> PText) (configuration_paths cs)))
      in concat (map (key_refs duplicatePaths) (enumerate 0 cs)))"

definition onChangeConfigurationPath :: "app_page \<Rightarrow> app_page" where
  "onChangeConfigurationPath p = p\<lparr>pg_configurationPaths := refs_of (path_refs (fv_Configurations (pg_form p)))\<rparr>"

definition with_configurations :: "(config_row list \<Rightarrow> config_row list) \<Rightarrow> app_page \<Rightarrow> app_page" where
  "with_configurations g p = p\<lparr>pg_form := (pg_form p)\<lparr>fv_Configurations := g (fv_Configurations (pg_form p))\<rparr>\<rparr>"

definition addConfiguration :: "app_page \<Rightarrow> app_page" where
  "addConfiguration p = with_configurations (\<lambda>cs. cs @
     [\<lparr>cr_SelectedConfiguration = elem_at (pg_configurations p) 0, cr_Overriden = False, cr_OverridenKeys = []\<rparr>]) p"

definition removeConfiguration :: "nat \<Rightarrow> app_page \<Rightarrow> app_page" where
  "removeConfiguration index p = onChangeConfigurationPath (with_configurations (remove_at index) p)"

text \<open>The keys of a row without a configuration cannot be read.\<close>

definition overrideConfiguration :: "nat \<Rightarrow> app_page \<Rightarrow> app_page js_result" where
  "overrideConfiguration index p = at_row (fv_Configurations (pg_form p)) index (\<lambda>c.
     case cr_SelectedConfiguration c of
       None \<Rightarrow> Inl TypeError
     | Some cfg \<Rightarrow> Inr (with_configurations (\<lambda>cs. cs[index := c\<lparr>cr_Overriden := True, cr_OverridenKeys :=
         map (\<lambda>k. \<lparr>ok_Key = k, ok_Path = [], ok_Type = ENVIRONMENT\<rparr>) (obj_keys (cg_Data cfg))\<rparr>]) p))"

definition resetConfiguration :: "nat \<Rightarrow> app_page \<Rightarrow> app_page js_result" where
  "resetConfiguration index p = at_row (fv_Configurations (pg_form p)) index (\<lambda>c. Inr (onChangeConfigurationPath
     (with_configurations (\<lambda>cs. cs[index := c\<lparr>cr_Overriden := False, cr_OverridenKeys := []\<rparr>]) p)))"

definition clearConfigurations :: "app_page \<Rightarrow> app_page" where
  "clearConfigurations p = with_configurations (\<lambda>cs. []) p"

section \<open>Environment variables\<close>

text \<open>Variables that are to be deleted take part in the comparison.\<close>

definition env_refs :: "env_form list \<Rightarrow> (nat \<times> port_value) list" where
  "env_refs vs = getDuplicates (map (Some \<circ> PText \<circ> vf_Name) vs)"

definition onChangeEnvironmentName :: "app_page \<Rightarrow> app_page" where
  "onChangeEnvironmentName p = p\<lparr>pg_environmentVariables := refs_of (env_refs (fv_EnvironmentVariables (pg_form p)))\<rparr>"

definition with_variables :: "(env_form list \<Rightarrow> env_form list) \<Rightarrow> app_page \<Rightarrow> app_page" where
  "with_variables g p = p\<lparr>pg_form := (pg_form p)\<lparr>fv_EnvironmentVariables := g (fv_EnvironmentVariables (pg_form p))\<rparr>\<rparr>"

definition addEnvironmentVariable :: "app_page \<Rightarrow> app_page" where
  "addEnvironmentVariable p = with_variables (\<lambda>vs. vs @ [new_env_form]) p"

text \<open>The row is an object of the form; here it is given by its position.\<close>

definition restoreEnvironmentVariable :: "nat \<Rightarrow> app_page \<Rightarrow> app_page js_result" where
  "restoreEnvironmentVariable i p = at_row (fv_EnvironmentVariables (pg_form p)) i
     (\<lambda>v. Inr (with_variables (\<lambda>vs. vs[i := v\<lparr>vf_NeedsDeletion := False\<rparr>]) p))"

definition removeEnvironmentVariable :: "nat \<Rightarrow> app_page \<Rightarrow> app_page js_result" where
  "removeEnvironmentVariable i p = at_row (fv_EnvironmentVariables (pg_form p)) i
     (\<lambda>v. Inr (onChangeEnvironmentName (with_variables
       (\<lambda>vs. if \<not> vf_IsNew v then vs[i := v\<lparr>vf_NeedsDeletion := True\<rparr>] else remove_at i vs) p)))"

section \<open>Persisted folders\<close>

definition folder_refs :: "folder_form list \<Rightarrow> (nat \<times> port_value) list" where
  "folder_refs fs = getDuplicates (map (\<lambda>f. if ff_NeedsDeletion f then None else Some (PText (ff_ContainerPath f))) fs)"

definition volume_refs :: "folder_form list \<Rightarrow> (nat \<times> port_value) list" where
  "volume_refs fs = getDuplicates (map (\<lambda>f. if ff_NeedsDeletion f then None else Some (PText
     (case ff_ExistingVolume f of Some c \<Rightarrow> pv_Name c | None \<Rightarrow> []))) fs)"

definition onChangePersistedFolderPath :: "app_page \<Rightarrow> app_page" where
  "onChangePersistedFolderPath p = p\<lparr>pg_persistedFolders := refs_of (folder_refs (fv_PersistedFolders (pg_form p)))\<rparr>"

definition onChangeExistingVolumeSelection :: "app_page \<Rightarrow> app_page" where
  "onChangeExistingVolumeSelection p = p\<lparr>pg_existingVolumes := refs_of (volume_refs (fv_PersistedFolders (pg_form p)))\<rparr>"

definition validatePersistedFolders :: "app_page \<Rightarrow> app_page" where
  "validatePersistedFolders p = onChangeExistingVolumeSelection (onChangePersistedFolderPath p)"

definition with_folders :: "(folder_form list \<Rightarrow> folder_form list) \<Rightarrow> app_page \<Rightarrow> app_page" where
  "with_folders g p = p\<lparr>pg_form := (pg_form p)\<lparr>fv_PersistedFolders := g (fv_PersistedFolders (pg_form p))\<rparr>\<rparr>"

definition resetDeploymentType :: "app_page \<Rightarrow> app_page" where
  "resetDeploymentType p = p\<lparr>pg_form := (pg_form p)\<lparr>fv_DeploymentType := REPLICATED\<rparr>\<rparr>"

text \<open>Without a storage class the class of a new folder is the empty object.\<close>

definition addPersistedFolder :: "app_page \<Rightarrow> app_page" where
  "addPersistedFolder p =
     resetDeploymentType (with_folders (\<lambda>fs. fs @ [new_folder_form (elem_at (pg_storageClasses p) 0)]) p)"

definition restorePersistedFolder :: "nat \<Rightarrow> app_page \<Rightarrow> app_page js_result" where
  "restorePersistedFolder i p = at_row (fv_PersistedFolders (pg_form p)) i
     (\<lambda>f. Inr (validatePersistedFolders (with_folders (\<lambda>fs. fs[i := f\<lparr>ff_NeedsDeletion := False\<rparr>]) p)))"

definition resetPersistedFolders :: "app_page \<Rightarrow> app_page" where
  "resetPersistedFolders p = validatePersistedFolders
     (with_folders (map (\<lambda>f. f\<lparr>ff_ExistingVolume := None, ff_UseNewVolume := True\<rparr>)) p)"

text \<open>Only on the page for editing the row has to be there.\<close>

definition removePersistedFolder :: "nat \<Rightarrow> app_page \<Rightarrow> app_page js_result" where
  "removePersistedFolder i p =
     (let spliced = validatePersistedFolders (with_folders (remove_at i) p) in
      if pg_isEdit p then at_row (fv_PersistedFolders (pg_form p)) i
        (\<lambda>f. Inr (if ff_PersistentVolumeClaimName f \<noteq> []
           then validatePersistedFolders (with_folders (\<lambda>fs. fs[i := f\<lparr>ff_NeedsDeletion := True\<rparr>]) p)
           else spliced))
      else Inr spliced)"

definition useNewVolume :: "nat \<Rightarrow> app_page \<Rightarrow> app_page js_result" where
  "useNewVolume i p = at_row (fv_PersistedFolders (pg_form p)) i (\<lambda>f.
     let q = with_folders (\<lambda>fs. fs[i := f\<lparr>ff_UseNewVolume := True, ff_ExistingVolume := None\<rparr>]) p in
     Inr (validatePersistedFolders (q\<lparr>pg_persistedFoldersUseExistingVolumes :=
       \<not> list_all ff_UseNewVolume (fv_PersistedFolders (pg_form q))\<rparr>)))"

definition useExistingVolume :: "nat \<Rightarrow> app_page \<Rightarrow> app_page js_result" where
  "useExistingVolume i p = at_row (fv_PersistedFolders (pg_form p)) i (\<lambda>f.
     let q = with_folders (\<lambda>fs. fs[i := f\<lparr>ff_UseNewVolume := False\<rparr>]) p;
         q = q\<lparr>pg_persistedFoldersUseExistingVolumes := list_ex (\<lambda>f. \<not> ff_UseNewVolume f) (fv_PersistedFolders (pg_form q))\<rparr>;
         q = (if fv_DataAccessPolicy (pg_form q) = ISOLATED
              then resetDeploymentType (q\<lparr>pg_form := (pg_form q)\<lparr>fv_DataAccessPolicy := SHARED\<rparr>\<rparr>) else q)
     in Inr (validatePersistedFolders q))"

section \<open>Placements\<close>

text \<open>A placement without a label is one whose label is no longer on any node.\<close>

definition placement_refs :: "placement_form list \<Rightarrow> (nat \<times> port_value) list js_result" where
  "placement_refs ps = and_then (fold_result (\<lambda>q acc.
       if pl_NeedsDeletion q then Inr (acc @ [None])
       else (case pl_Label q of None \<Rightarrow> Inl TypeError | Some l \<Rightarrow> Inr (acc @ [Some (PText (nl_Key l))]))) ps [])
     (\<lambda>names. Inr (getDuplicates names))"

definition onChangePlacementLabelValidate :: "app_page \<Rightarrow> app_page js_result" where
  "onChangePlacementLabelValidate p =
     and_then (placement_refs (fv_Placements (pg_form p))) (\<lambda>rs. Inr (p\<lparr>pg_placements := refs_of rs\<rparr>))"

definition onChangePlacement :: "app_page \<Rightarrow> app_page js_result" where
  "onChangePlacement p = onChangePlacementLabelValidate p"

definition with_placements :: "(placement_form list \<Rightarrow> placement_form list) \<Rightarrow> app_page \<Rightarrow> app_page" where
  "with_placements g p = p\<lparr>pg_form := (pg_form p)\<lparr>fv_Placements := g (fv_Placements (pg_form p))\<rparr>\<rparr>"

definition addPlacement :: "app_page \<Rightarrow> app_page js_result" where
  "addPlacement p = (case pg_nodesLabels p of
       [] \<Rightarrow> Inl TypeError
     | l # ls \<Rightarrow> onChangePlacement (with_placements (\<lambda>ps. ps @
         [\<lparr>pl_Label = Some l, pl_Value = elem_at (nl_Values l) 0, pl_NeedsDeletion = False, pl_IsNew = True\<rparr>]) p))"

definition restorePlacement :: "nat \<Rightarrow> app_page \<Rightarrow> app_page js_result" where
  "restorePlacement i p = at_row (fv_Placements (pg_form p)) i
     (\<lambda>q. onChangePlacement (with_placements (\<lambda>ps. ps[i := q\<lparr>pl_NeedsDeletion := False\<rparr>]) p))"

definition removePlacement :: "nat \<Rightarrow> app_page \<Rightarrow> app_page js_result" where
  "removePlacement i p =
     (let spliced = onChangePlacement (with_placements (remove_at i) p) in
      if pg_isEdit p then at_row (fv_Placements (pg_form p)) i
        (\<lambda>q. if \<not> pl_IsNew q then onChangePlacement (with_placements (\<lambda>ps. ps[i := q\<lparr>pl_NeedsDeletion := True\<rparr>]) p)
             else spliced)
      else spliced)"

definition onChangePlacementLabel :: "nat \<Rightarrow> app_page \<Rightarrow> app_page js_result" where
  "onChangePlacementLabel i p = at_row (fv_Placements (pg_form p)) i (\<lambda>q. case pl_Label q of
       None \<Rightarrow> Inl TypeError
     | Some l \<Rightarrow> onChangePlacementLabelValidate (with_placements (\<lambda>ps. ps[i := q\<lparr>pl_Value := elem_at (nl_Values l) 0\<rparr>]) p))"

section \<open>Published ports\<close>

text \<open>The field of a port is a number or the empty text of a new row. The hosts of an ingress are texts on this page.\<close>

definition container_port_refs :: "port_form list \<Rightarrow> (nat \<times> port_value) list" where
  "container_port_refs ps = getDuplicates (map (\<lambda>q. if pf_NeedsDeletion q then None
     else Some (PText (show_port (pf_ContainerPort q) @ pf_Protocol q))) ps)"

definition node_port_refs :: "port_form list \<Rightarrow> (nat \<times> port_value) list" where
  "node_port_refs ps = getDuplicates (map (\<lambda>q. if pf_NeedsDeletion q then None else map_option PNum (pf_NodePort q)) ps)"

definition load_balancer_refs :: "port_form list \<Rightarrow> (nat \<times> port_value) list" where
  "load_balancer_refs ps = getDuplicates (map (\<lambda>q. if pf_NeedsDeletion q then None else Some (pf_LoadBalancerPort q)) ps)"

definition template_text :: "string option \<Rightarrow> string" where
  "template_text v = (case v of None \<Rightarrow> ''undefined'' | Some s \<Rightarrow> s)"

definition port_route :: "port_form \<Rightarrow> string" where
  "port_route q = template_text (or_opt (pf_IngressHost q) (pf_IngressName q)) @ template_text (pf_IngressRoute q)"

definition routes_of :: "(port_form \<Rightarrow> bool) \<Rightarrow> port_form list \<Rightarrow> string option list" where
  "routes_of P ps = map (\<lambda>q. if P q \<and> truthy_str (pf_IngressRoute q) then Some (port_route q) else None) ps"

definition ingress_routes :: "ingress list \<Rightarrow> string list" where
  "ingress_routes is = concat (map (\<lambda>i. map (\<lambda>r.
     template_text (or_opt (ir_Host r) (Some (ig_Name i))) @ template_text (ir_Path r)) (ig_Paths i)) is)"

definition route_refs :: "ingress list \<Rightarrow> port_form list \<Rightarrow> (nat \<times> port_value) list" where
  "route_refs is ps =
     (let newRoutes = routes_of pf_IsNew ps; toDelRoutes = routes_of pf_NeedsDeletion ps; allRoutes = ingress_routes is;
          duplicates = getDuplicates (map (map_option PText) newRoutes)
      in without_undefined (map (\<lambda>(idx, route). case route of
           None \<Rightarrow> None
         | Some r \<Rightarrow> if idx \<in> set (map fst duplicates) \<or> r \<in> set allRoutes \<and> route \<notin> set toDelRoutes
             then Some (idx, PText r) else None) (enumerate 0 newRoutes)))"

definition refs_when :: "bool \<Rightarrow> ('k \<times> port_value) list \<Rightarrow> 'k validation_refs" where
  "refs_when b rs = (if b then refs_of rs else \<lparr>vr_refs = [], vr_hasRefs = False\<rparr>)"

definition onChangePortMappingContainerPort :: "app_page \<Rightarrow> app_page" where
  "onChangePortMappingContainerPort p = p\<lparr>pg_containerPorts := refs_when (fv_PublishingType (pg_form p) \<noteq> INGRESS)
     (container_port_refs (fv_PublishedPorts (pg_form p)))\<rparr>"

definition onChangePortMappingNodePort :: "app_page \<Rightarrow> app_page" where
  "onChangePortMappingNodePort p = p\<lparr>pg_nodePorts := refs_when (fv_PublishingType (pg_form p) = CLUSTER)
     (node_port_refs (fv_PublishedPorts (pg_form p)))\<rparr>"

definition onChangePortMappingIngressRoute :: "app_page \<Rightarrow> app_page" where
  "onChangePortMappingIngressRoute p = p\<lparr>pg_ingressRoutes := refs_when (fv_PublishingType (pg_form p) = INGRESS)
     (route_refs (pg_ingresses p) (fv_PublishedPorts (pg_form p)))\<rparr>"

definition onChangePortMappingLoadBalancer :: "app_page \<Rightarrow> app_page" where
  "onChangePortMappingLoadBalancer p = p\<lparr>pg_loadBalancerPorts := refs_when (fv_PublishingType (pg_form p) = LOAD_BALANCED)
     (load_balancer_refs (fv_PublishedPorts (pg_form p)))\<rparr>"

definition with_ports :: "(port_form list \<Rightarrow> port_form list) \<Rightarrow> app_page \<Rightarrow> app_page" where
  "with_ports g p = p\<lparr>pg_form := (pg_form p)\<lparr>fv_PublishedPorts := g (fv_PublishedPorts (pg_form p))\<rparr>\<rparr>"

definition set_new_protocols :: "string \<Rightarrow> port_form list \<Rightarrow> port_form list" where
  "set_new_protocols protocol = map (\<lambda>q. if pf_IsNew q then q\<lparr>pf_Protocol := protocol\<rparr> else q)"

text \<open>The position 0 counts as no position.\<close>

definition onChangePortProtocol :: "nat option \<Rightarrow> app_page \<Rightarrow> app_page js_result" where
  "onChangePortProtocol index p =
     (let ports = fv_PublishedPorts (pg_form p); newPorts = filter pf_IsNew ports in
      if fv_PublishingType (pg_form p) = LOAD_BALANCED then
        and_then
          (if newPorts = [] then Inr p
           else (case index of
               Some (Suc j) \<Rightarrow> at_row ports (Suc j) (\<lambda>q. Inr (with_ports (set_new_protocols (pf_Protocol q)) p))
             | _ \<Rightarrow> Inr (with_ports (set_new_protocols (pf_Protocol (hd newPorts))) p)))
          (\<lambda>q. Inr (onChangePortMappingContainerPort (onChangePortMappingLoadBalancer q)))
      else Inr (onChangePortMappingContainerPort p))"

definition onChangePublishedPorts :: "app_page \<Rightarrow> app_page js_result" where
  "onChangePublishedPorts p = onChangePortProtocol None
     (onChangePortMappingLoadBalancer (onChangePortMappingIngressRoute
       (onChangePortMappingNodePort (onChangePortMappingContainerPort p))))"

definition first_host :: "ingress \<Rightarrow> string option" where
  "first_host i = (case ig_Hosts i of HostText h # hs \<Rightarrow> Some h | _ \<Rightarrow> None)"

definition first_ingress :: "app_page \<Rightarrow> port_form \<Rightarrow> port_form" where
  "first_ingress p q = (case pg_filteredIngresses p of
       [] \<Rightarrow> q\<lparr>pf_IngressName := None, pf_IngressHost := None\<rparr>
     | i # is \<Rightarrow> q\<lparr>pf_IngressName := Some (ig_Name i), pf_IngressHost := first_host i\<rparr>)"

definition addPublishedPort :: "app_page \<Rightarrow> app_page" where
  "addPublishedPort p =
     (let q = (first_ingress p new_port_form)\<lparr>pf_IngressHosts :=
            (case pg_filteredIngresses p of [] \<Rightarrow> None | i # is \<Rightarrow> Some (ig_Hosts i))\<rparr>;
          q = (case fv_PublishedPorts (pg_form p) of [] \<Rightarrow> q | r # rs \<Rightarrow> q\<lparr>pf_Protocol := pf_Protocol r\<rparr>)
      in with_ports (\<lambda>ps. ps @ [q]) p)"

definition resetPublishedPorts :: "app_page \<Rightarrow> app_page" where
  "resetPublishedPorts p = with_ports (map (first_ingress p)) p"

definition restorePublishedPort :: "nat \<Rightarrow> app_page \<Rightarrow> app_page js_result" where
  "restorePublishedPort i p = at_row (fv_PublishedPorts (pg_form p)) i
     (\<lambda>q. onChangePublishedPorts (with_ports (\<lambda>ps. ps[i := q\<lparr>pf_NeedsDeletion := False\<rparr>]) p))"

definition removePublishedPort :: "nat \<Rightarrow> app_page \<Rightarrow> app_page js_result" where
  "removePublishedPort i p =
     (let spliced = onChangePublishedPorts (with_ports (remove_at i) p) in
      if pg_isEdit p then at_row (fv_PublishedPorts (pg_form p)) i
        (\<lambda>q. if \<not> pf_IsNew q then onChangePublishedPorts (with_ports (\<lambda>ps. ps[i := q\<lparr>pf_NeedsDeletion := True\<rparr>]) p)
             else spliced)
      else spliced)"

section \<open>Conditions of the page\<close>

definition isValid :: "app_page \<Rightarrow> bool" where
  "isValid p \<longleftrightarrow> \<not> pg_alreadyExists p \<and> \<not> vr_hasRefs (pg_environmentVariables p) \<and> \<not> vr_hasRefs (pg_persistedFolders p) \<and>
     \<not> vr_hasRefs (pg_configurationPaths p) \<and> \<not> vr_hasRefs (pg_existingVolumes p) \<and> \<not> vr_hasRefs (pg_containerPorts p) \<and>
     \<not> vr_hasRefs (pg_nodePorts p) \<and> \<not> vr_hasRefs (pg_ingressRoutes p) \<and> \<not> vr_hasRefs (pg_loadBalancerPorts p)"

definition storageClassAvailable :: "app_page \<Rightarrow> bool" where
  "storageClassAvailable p \<longleftrightarrow> 0 < length (pg_storageClasses p)"

definition hasMultipleStorageClassesAvailable :: "app_page \<Rightarrow> bool" where
  "hasMultipleStorageClassesAvailable p \<longleftrightarrow> 1 < length (pg_storageClasses p)"

definition showDataAccessPolicySection :: "app_form \<Rightarrow> bool" where
  "showDataAccessPolicySection f \<longleftrightarrow> fv_PersistedFolders f \<noteq> []"

definition supportGlobalDeployment :: "app_form \<Rightarrow> bool" where
  "supportGlobalDeployment f \<longleftrightarrow>
     \<not> (fv_PersistedFolders f \<noteq> [] \<and> (hasRWOOnly (fv_PersistedFolders f) \<or> fv_DataAccessPolicy f = ISOLATED))"

definition isEditAndStatefulSet :: "app_page \<Rightarrow> bool" where
  "isEditAndStatefulSet p \<longleftrightarrow> pg_isEdit p \<and> fv_DataAccessPolicy (pg_form p) = ISOLATED"

definition supportScalableReplicaDeployment :: "app_form \<Rightarrow> bool" where
  "supportScalableReplicaDeployment f \<longleftrightarrow> fv_PersistedFolders f = [] \<or> fv_DataAccessPolicy f = ISOLATED \<or>
     fv_PersistedFolders f \<noteq> [] \<and> \<not> hasRWOOnly (fv_PersistedFolders f)"

definition getNonScalableStorage :: "app_form \<Rightarrow> string" where
  "getNonScalableStorage f = join '', '' (uniq (map (\<lambda>x. case ff_StorageClass x of
       Some s \<Rightarrow> if sc_AccessModes s = [''RWO''] then sc_Name s else ''<no storage option available>''
     | None \<Rightarrow> ''<no storage option available>'') (fv_PersistedFolders f)))"

definition enforceReplicaCountMinimum :: "app_form \<Rightarrow> app_form" where
  "enforceReplicaCountMinimum f = (if fv_ReplicaCount f = None then f\<lparr>fv_ReplicaCount := Some 1\<rparr> else f)"

definition isAddPersistentFolderButtonShowed :: "app_page \<Rightarrow> bool" where
  "isAddPersistentFolderButtonShowed p \<longleftrightarrow> \<not> isEditAndStatefulSet p \<and> length (fv_Containers (pg_form p)) \<le> 1"

definition isEditAndExistingPersistedFolder :: "nat \<Rightarrow> app_page \<Rightarrow> bool js_result" where
  "isEditAndExistingPersistedFolder i p = (if pg_isEdit p then at_row (fv_PersistedFolders (pg_form p)) i
     (\<lambda>f. Inr (ff_PersistentVolumeClaimName f \<noteq> [])) else Inr False)"

definition isEditAndNotNewPublishedPort :: "nat \<Rightarrow> app_page \<Rightarrow> bool js_result" where
  "isEditAndNotNewPublishedPort i p = (if pg_isEdit p then at_row (fv_PublishedPorts (pg_form p)) i
     (\<lambda>q. Inr (\<not> pf_IsNew q)) else Inr False)"

definition isNotInternalAndHasNoPublishedPorts :: "app_form \<Rightarrow> bool" where
  "isNotInternalAndHasNoPublishedPorts f \<longleftrightarrow>
     fv_PublishingType f \<noteq> INTERNAL \<and> filter (\<lambda>q. \<not> pf_NeedsDeletion q) (fv_PublishedPorts f) = []"

definition isEditAndNotNewPlacement :: "nat \<Rightarrow> app_page \<Rightarrow> bool js_result" where
  "isEditAndNotNewPlacement i p = (if pg_isEdit p then at_row (fv_Placements (pg_form p)) i
     (\<lambda>q. Inr (\<not> pl_IsNew q)) else Inr False)"

definition isNewAndNotFirst :: "nat \<Rightarrow> app_page \<Rightarrow> bool" where
  "isNewAndNotFirst i p \<longleftrightarrow> \<not> pg_isEdit p \<and> i \<noteq> 0"

definition showPlacementPolicySection :: "app_form \<Rightarrow> bool" where
  "showPlacementPolicySection f \<longleftrightarrow> filter (\<lambda>q. \<not> pl_NeedsDeletion q) (fv_Placements f) \<noteq> []"

definition isNonScalable :: "app_form \<Rightarrow> bool" where
  "isNonScalable f \<longleftrightarrow>
     (let replica = (case fv_ReplicaCount f of None \<Rightarrow> False | Some n \<Rightarrow> 1 < n); replicated = fv_DeploymentType f = REPLICATED
      in replicated \<and> \<not> supportScalableReplicaDeployment f \<and> replica \<or> \<not> replicated \<and> \<not> supportGlobalDeployment f)"

text \<open>The comparisons with the quota and with the form that was saved are arguments.\<close>

definition isDeployUpdateButtonDisabled :: "bool \<Rightarrow> bool \<Rightarrow> bool \<Rightarrow> bool \<Rightarrow> app_page \<Rightarrow> bool" where
  "isDeployUpdateButtonDisabled overflow autoScalerOverflow inProgress noChangesMade p \<longleftrightarrow>
     overflow \<or> autoScalerOverflow \<or> inProgress \<or> \<not> isValid p \<or> (pg_isEdit p \<and> noChangesMade) \<or>
     isNonScalable (pg_form p) \<or> isNotInternalAndHasNoPublishedPorts (pg_form p)"

definition disableLoadBalancerEdit :: "app_page \<Rightarrow> bool" where
  "disableLoadBalancerEdit p \<longleftrightarrow> pg_isEdit p \<and> pg_serviceType p = LOAD_BALANCER \<and>
     \<not> truthy_str (pg_loadBalancerIPAddress p) \<and> fv_PublishingType (pg_form p) = LOAD_BALANCED"

definition isPublishingTypeEditDisabled :: "app_page \<Rightarrow> bool" where
  "isPublishingTypeEditDisabled p \<longleftrightarrow> pg_isEdit p \<and> 0 < length (fv_PublishedPorts (pg_form p)) \<and>
     0 < length (filter (\<lambda>q. \<not> pf_IsNew q \<and> \<not> pf_NeedsDeletion q) (fv_PublishedPorts (pg_form p)))"

definition isEditLBWithPorts :: "app_form \<Rightarrow> bool" where
  "isEditLBWithPorts f \<longleftrightarrow> fv_PublishingType f = LOAD_BALANCED \<and> filter (\<lambda>q. \<not> pf_IsNew q) (fv_PublishedPorts f) \<noteq> []"

definition isProtocolOptionDisabled :: "nat \<Rightarrow> string \<Rightarrow> app_page \<Rightarrow> bool js_result" where
  "isProtocolOptionDisabled i protocol p =
     (if disableLoadBalancerEdit p then Inr True
      else if pg_isEdit p \<or> isEditLBWithPorts (pg_form p) \<or> isNewAndNotFirst i p
      then at_row (fv_PublishedPorts (pg_form p)) i (\<lambda>q. Inr (pf_Protocol q \<noteq> protocol \<and>
        (pg_isEdit p \<and> \<not> pf_IsNew q \<or> isEditLBWithPorts (pg_form p) \<or> isNewAndNotFirst i p)))
      else Inr False)"

section \<open>Change of the resource pool and deployment\<close>

definition refreshIngresses :: "string \<Rightarrow> app_page \<Rightarrow> app_page" where
  "refreshIngresses namespace p =
     (let q = p\<lparr>pg_filteredIngresses := filter (\<lambda>i. ig_Namespace i = namespace) (pg_ingresses p)\<rparr> in
      if pg_filteredIngresses q \<noteq> [] then q
      else q\<lparr>pg_form := (pg_form q)\<lparr>fv_PublishingType :=
        (case pg_savedPublishingType p of Some t \<Rightarrow> t | None \<Rightarrow> INTERNAL)\<rparr>\<rparr>)"

definition resetFormValues :: "app_page \<Rightarrow> app_page" where
  "resetFormValues p = resetPublishedPorts (resetPersistedFolders (clearConfigurations p))"

text \<open>The rows without a configuration are taken out before an application is created.\<close>

definition kept_configurations :: "config_row list \<Rightarrow> config_use list" where
  "kept_configurations cs = without_undefined (map (\<lambda>c. map_option (\<lambda>cfg.
     \<lparr>cu_SelectedConfiguration = cfg, cu_Overriden = cr_Overriden c, cu_OverridenKeys = cr_OverridenKeys c\<rparr>)
     (cr_SelectedConfiguration c)) cs)"

section \<open>Lemmas on duplicates\<close>

lemma show_port_ne [simp]: "name_truthy (Some v) \<Longrightarrow> show_port v \<noteq> []"
  by (cases v) (simp_all add: show_int_def)

lemma more_than_one:
  assumes "i < length xs" and "P (xs ! i)"
  shows "1 < length (filter P xs) \<longleftrightarrow> (\<exists>j < length xs. j \<noteq> i \<and> P (xs ! j))"
proof -
  let ?S = "{j. j < length xs \<and> P (xs ! j)}"
  have S: "finite ?S" "i \<in> ?S" using assms by auto
  have "1 < length (filter P xs) \<longleftrightarrow> 1 < card ?S" by (simp add: length_filter_conv_card)
  also have "\<dots> \<longleftrightarrow> card (?S - {i}) \<noteq> 0" using S card_Suc_Diff1 [OF S] by linarith
  also have "\<dots> \<longleftrightarrow> ?S - {i} \<noteq> {}" using S(1) by (metis card_0_eq finite_Diff)
  also have "\<dots> \<longleftrightarrow> (\<exists>j < length xs. j \<noteq> i \<and> P (xs ! j))" by blast
  finally show ?thesis .
qed

lemma getDuplicates_eq:
  "getDuplicates names = without_undefined (map (\<lambda>(index, name).
     if name_truthy name \<and> 1 < length (filter (\<lambda>n. name_text n = name_text name) names) then Some (index, the name) else None)
     (enumerate 0 names))"
proof -
  have "the (obj_get (group_by name_text names) (name_text name)) = filter (\<lambda>n. name_text n = name_text name) names"
    if "name \<in> set names" for name
    using that by (auto simp: obj_get_group_by filter_empty_conv)
  then have "\<forall>x \<in> set (enumerate 0 names). (\<lambda>(index, name).
      if name_truthy name \<and> 1 < length (the (obj_get (group_by name_text names) (name_text name))) then Some (index, the name) else None) x =
    (\<lambda>(index, name).
      if name_truthy name \<and> 1 < length (filter (\<lambda>n. name_text n = name_text name) names) then Some (index, the name) else None) x"
    by (auto simp: in_set_enumerate_eq)
  then show ?thesis unfolding getDuplicates_def Let_def by (simp cong: map_cong)
qed

lemma getDuplicates_mem:
  "(i, v) \<in> set (getDuplicates names) \<longleftrightarrow> i < length names \<and> names ! i = Some v \<and> name_truthy (Some v) \<and>
     (\<exists>j < length names. j \<noteq> i \<and> name_text (names ! j) = show_port v)"
proof -
  have "(i, v) \<in> set (getDuplicates names) \<longleftrightarrow> i < length names \<and> name_truthy (names ! i) \<and> v = the (names ! i) \<and>
      1 < length (filter (\<lambda>n. name_text n = name_text (names ! i)) names)"
    unfolding getDuplicates_eq set_without_undefined mem_Collect_eq set_map image_iff
    by (auto simp: in_set_enumerate_eq split: if_splits intro!: bexI [of _ "(i, names ! i)"])
  also have "\<dots> \<longleftrightarrow> i < length names \<and> names ! i = Some v \<and> name_truthy (Some v) \<and>
      1 < length (filter (\<lambda>n. name_text n = name_text (names ! i)) names)"
    by (cases "names ! i") auto
  finally show ?thesis using more_than_one [of i names "\<lambda>n. name_text n = name_text (names ! i)"] by auto
qed

lemma getDuplicates_Nil:
  "getDuplicates names = [] \<longleftrightarrow> (\<forall>i < length names. \<forall>j < length names.
     i \<noteq> j \<and> name_truthy (names ! i) \<longrightarrow> name_text (names ! i) \<noteq> name_text (names ! j))" (is "?L \<longleftrightarrow> ?R")
proof
  assume L: ?L
  show ?R
  proof (intro allI impI notI)
    fix i j assume i: "i < length names" and j: "j < length names" and ne: "i \<noteq> j \<and> name_truthy (names ! i)"
      and eq: "name_text (names ! i) = name_text (names ! j)"
    then obtain v where "names ! i = Some v" by (cases "names ! i") auto
    with i j ne eq have "(i, v) \<in> set (getDuplicates names)" unfolding getDuplicates_mem by auto
    with L show False by simp
  qed
next
  assume R: ?R
  have "x \<notin> set (getDuplicates names)" for x
    using R getDuplicates_mem [of "fst x" "snd x" names] by fastforce
  then show ?L by (metis all_not_in_conv set_empty)
qed

lemma distinct_without_undefined:
  "distinct (without_undefined xs) \<longleftrightarrow>
     (\<forall>i < length xs. \<forall>j < length xs. i \<noteq> j \<and> xs ! i \<noteq> None \<longrightarrow> xs ! i \<noteq> xs ! j)"
proof (induction xs)
  case (Cons x xs)
  have "(\<forall>i < length (x # xs). \<forall>j < length (x # xs). i \<noteq> j \<and> (x # xs) ! i \<noteq> None \<longrightarrow> (x # xs) ! i \<noteq> (x # xs) ! j) \<longleftrightarrow>
      (x \<noteq> None \<longrightarrow> x \<notin> set xs) \<and>
      (\<forall>i < length xs. \<forall>j < length xs. i \<noteq> j \<and> xs ! i \<noteq> None \<longrightarrow> xs ! i \<noteq> xs ! j)"
    unfolding length_Cons All_less_Suc2 by (auto simp: in_set_conv_nth; metis)
  with Cons show ?case by (cases x) auto
qed simp

lemma getDuplicates_distinct:
  assumes "getDuplicates names = []"
  shows "distinct (without_undefined (map (\<lambda>n. if name_truthy n then n else None) names))"
  unfolding distinct_without_undefined using assms unfolding getDuplicates_Nil by (auto split: if_splits; metis)

lemma getDuplicates_add_empty: "name_text n = [] \<Longrightarrow> getDuplicates (names @ [n]) = getDuplicates names"
proof -
  assume n: "name_text n = []"
  then have falsy: "\<not> name_truthy n" using show_port_ne by (cases n) auto
  have "filter (\<lambda>m. name_text m = name_text name) (names @ [n]) = filter (\<lambda>m. name_text m = name_text name) names"
    if "name_truthy name" for name
    using that n by (cases name) (auto dest: show_port_ne simp del: name_truthy.simps)
  then have same: "(\<lambda>(index, name). if name_truthy name \<and> 1 < length (filter (\<lambda>m. name_text m = name_text name) (names @ [n]))
      then Some (index, the name) else None) = (\<lambda>(index :: nat, name). if name_truthy name \<and>
        1 < length (filter (\<lambda>m. name_text m = name_text name) names) then Some (index, the name) else None)"
    by (simp only: cong: conj_cong)
  show ?thesis unfolding getDuplicates_eq same
    by (simp add: enumerate_append_eq falsy without_undefined_def map_filter_def)
qed

section \<open>The page as a state machine\<close>

text \<open>
  The handlers of the rows of variables, folders and placements, the changes of their fields, and the handlers of the
  other rows as far as they leave these alone.
\<close>

inductive page_step :: "app_page \<Rightarrow> app_page \<Rightarrow> bool" where
  add_variable: "page_step p (addEnvironmentVariable p)"
| restore_variable: "restoreEnvironmentVariable i p = Inr q \<Longrightarrow> page_step p q"
| remove_variable: "removeEnvironmentVariable i p = Inr q \<Longrightarrow> page_step p q"
| name_variable: "page_step p (onChangeEnvironmentName (with_variables (\<lambda>vs. vs[i := (vs ! i)\<lparr>vf_Name := n\<rparr>]) p))"
| add_folder: "page_step p (addPersistedFolder p)"
| restore_folder: "restorePersistedFolder i p = Inr q \<Longrightarrow> page_step p q"
| remove_folder: "removePersistedFolder i p = Inr q \<Longrightarrow> page_step p q"
| reset_folders: "page_step p (resetPersistedFolders p)"
| new_volume: "useNewVolume i p = Inr q \<Longrightarrow> page_step p q"
| existing_volume: "useExistingVolume i p = Inr q \<Longrightarrow> page_step p q"
| folder_path: "page_step p (onChangePersistedFolderPath (with_folders (\<lambda>fs. fs[i := (fs ! i)\<lparr>ff_ContainerPath := s\<rparr>]) p))"
| choose_volume: "page_step p (onChangeExistingVolumeSelection (with_folders (\<lambda>fs. fs[i := (fs ! i)\<lparr>ff_ExistingVolume := c\<rparr>]) p))"
| add_configuration: "page_step p (addConfiguration p)"
| remove_configuration: "page_step p (removeConfiguration i p)"
| override_configuration: "overrideConfiguration i p = Inr q \<Longrightarrow> page_step p q"
| reset_configuration: "resetConfiguration i p = Inr q \<Longrightarrow> page_step p q"
| clear_configurations: "page_step p (clearConfigurations p)"
| add_port: "page_step p (addPublishedPort p)"
| reset_ports: "page_step p (resetPublishedPorts p)"
| change_name: "page_step p (onChangeName (p\<lparr>pg_form := (pg_form p)\<lparr>fv_Name := n\<rparr>\<rparr>))"

text \<open>The duplicates of the page are those of the rows of the form.\<close>

definition rows_checked :: "app_page \<Rightarrow> bool" where
  "rows_checked p \<longleftrightarrow>
     pg_environmentVariables p = refs_of (env_refs (fv_EnvironmentVariables (pg_form p))) \<and>
     pg_persistedFolders p = refs_of (folder_refs (fv_PersistedFolders (pg_form p))) \<and>
     pg_existingVolumes p = refs_of (volume_refs (fv_PersistedFolders (pg_form p)))"

named_theorems page_defs
lemmas [page_defs] = at_row_def onChangeName_def onChangeConfigurationPath_def with_configurations_def addConfiguration_def
  removeConfiguration_def overrideConfiguration_def resetConfiguration_def clearConfigurations_def
  onChangeEnvironmentName_def with_variables_def addEnvironmentVariable_def restoreEnvironmentVariable_def
  removeEnvironmentVariable_def onChangePersistedFolderPath_def onChangeExistingVolumeSelection_def
  validatePersistedFolders_def with_folders_def resetDeploymentType_def addPersistedFolder_def restorePersistedFolder_def
  resetPersistedFolders_def removePersistedFolder_def useNewVolume_def useExistingVolume_def with_ports_def
  addPublishedPort_def resetPublishedPorts_def

lemma env_refs_new: "env_refs (vs @ [new_env_form]) = env_refs vs"
  by (simp add: env_refs_def new_env_form_def getDuplicates_add_empty)

lemma env_refs_deletion: "i < length vs \<Longrightarrow> env_refs (vs[i := (vs ! i)\<lparr>vf_NeedsDeletion := b\<rparr>]) = env_refs vs"
  unfolding env_refs_def by (rule arg_cong [of _ _ getDuplicates], rule nth_equalityI) (auto simp: nth_list_update)

lemma folder_refs_new: "folder_refs (fs @ [new_folder_form c]) = folder_refs fs"
  by (simp add: folder_refs_def new_folder_form_def getDuplicates_add_empty)

lemma volume_refs_new: "volume_refs (fs @ [new_folder_form c]) = volume_refs fs"
  by (simp add: volume_refs_def new_folder_form_def getDuplicates_add_empty)

lemma folder_refs_volume: "folder_refs (fs[i := (fs ! i)\<lparr>ff_ExistingVolume := c\<rparr>]) = folder_refs fs"
  by (cases "i < length fs")
    (auto simp: folder_refs_def nth_list_update intro!: arg_cong [of _ _ getDuplicates] nth_equalityI)

lemma volume_refs_path: "volume_refs (fs[i := (fs ! i)\<lparr>ff_ContainerPath := s\<rparr>]) = volume_refs fs"
  by (cases "i < length fs")
    (auto simp: volume_refs_def nth_list_update intro!: arg_cong [of _ _ getDuplicates] nth_equalityI)

lemma step_rows_checked: "page_step p q \<Longrightarrow> rows_checked p \<Longrightarrow> rows_checked q"
  by (induction rule: page_step.induct)
    (auto simp: rows_checked_def page_defs Let_def env_refs_new env_refs_deletion folder_refs_new volume_refs_new
      folder_refs_volume volume_refs_path split: if_splits option.splits)

section \<open>Properties\<close>

definition new_app_form :: app_form where
  "new_app_form = \<lparr>fv_Name = [], fv_ApplicationType = None, fv_ReplicaCount = Some 1, fv_DeploymentType = REPLICATED,
     fv_AutoScaler = generateAutoScalerFormValueFromHorizontalPodAutoScaler None 1, fv_Containers = [],
     fv_EnvironmentVariables = [], fv_DataAccessPolicy = SHARED, fv_PersistedFolders = [], fv_Configurations = [],
     fv_PublishingType = INTERNAL, fv_PublishedPorts = [], fv_PlacementType = PREFERRED, fv_Placements = []\<rparr>"

definition new_page :: app_page where
  "new_page = \<lparr>pg_form = new_app_form, pg_isEdit = False, pg_alreadyExists = False,
     pg_persistedFoldersUseExistingVolumes = False, pg_environmentVariables = refs_of [], pg_persistedFolders = refs_of [],
     pg_configurationPaths = refs_of [], pg_existingVolumes = refs_of [], pg_containerPorts = refs_of [],
     pg_nodePorts = refs_of [], pg_ingressRoutes = refs_of [], pg_loadBalancerPorts = refs_of [], pg_placements = refs_of [],
     pg_applicationId = [], pg_applications = [], pg_storageClasses = [], pg_nodesLabels = [], pg_configurations = [],
     pg_ingresses = [], pg_filteredIngresses = [], pg_serviceType = UNSET, pg_loadBalancerIPAddress = None,
     pg_savedPublishingType = None\<rparr>"

lemma new_rows_checked: "rows_checked new_page"
  by (simp add: rows_checked_def new_page_def new_app_form_def env_refs_def folder_refs_def volume_refs_def getDuplicates_def)

lemma distinct_kept:
  assumes "getDuplicates (map (\<lambda>x. if P x then None else Some (PText (f x))) xs) = []"
  shows "distinct (filter (\<lambda>s. s \<noteq> []) (map f (filter (\<lambda>x. \<not> P x) xs)))"
proof -
  have "without_undefined (map (\<lambda>n. if name_truthy n then n else None) (map (\<lambda>x. if P x then None else Some (PText (f x))) xs)) =
      map PText (filter (\<lambda>s. s \<noteq> []) (map f (filter (\<lambda>x. \<not> P x) xs)))"
    by (induction xs) simp_all
  with getDuplicates_distinct [OF assms] show ?thesis by (metis distinct_map)
qed

text \<open>
  Whatever is done with the rows of variables, folders and configurations: a form that is valid has no two variables
  of one name, and no two folders, of those that are kept, at one path or on one existing volume.
\<close>

theorem valid_form_rows_differ:
  assumes "rows_checked start" and "page_step\<^sup>*\<^sup>* start p" and "isValid p"
    and "folders = filter (\<lambda>f. \<not> ff_NeedsDeletion f) (fv_PersistedFolders (pg_form p))"
  shows "distinct (filter (\<lambda>n. n \<noteq> []) (map vf_Name (fv_EnvironmentVariables (pg_form p)))) \<and>
    distinct (filter (\<lambda>s. s \<noteq> []) (map ff_ContainerPath folders)) \<and>
    distinct (filter (\<lambda>s. s \<noteq> []) (map (\<lambda>f. case ff_ExistingVolume f of Some c \<Rightarrow> pv_Name c | None \<Rightarrow> []) folders))"
proof -
  from assms(2,1) have "rows_checked p" by (induction rule: rtranclp_induct) (auto intro: step_rows_checked)
  then have none: "env_refs (fv_EnvironmentVariables (pg_form p)) = []" "folder_refs (fv_PersistedFolders (pg_form p)) = []"
    "volume_refs (fv_PersistedFolders (pg_form p)) = []"
    using assms(3) by (simp_all add: rows_checked_def isValid_def refs_of_def)
  have variables: "distinct (filter (\<lambda>n. n \<noteq> []) (map vf_Name (fv_EnvironmentVariables (pg_form p))))"
    using distinct_kept [of "\<lambda>v. False" vf_Name] none(1) by (simp add: env_refs_def comp_def)
  show ?thesis unfolding assms(4)
    by (intro conjI variables distinct_kept [OF none(2) [unfolded folder_refs_def]]
        distinct_kept [OF none(3) [unfolded volume_refs_def]])
qed

text \<open>
  A variable that is to be deleted still counts: the form in which a new variable takes over the name of a deleted
  one is not valid, so the value of a variable cannot be changed by removing it and adding it again.
\<close>

theorem deleted_variable_blocks_name:
  assumes "i < length (fv_EnvironmentVariables (pg_form p))" and "v = fv_EnvironmentVariables (pg_form p) ! i"
    and "\<not> vf_IsNew v" and "vf_Name v \<noteq> []" and "removeEnvironmentVariable i p = Inr q"
    and "r = addEnvironmentVariable q" and "j = length (fv_EnvironmentVariables (pg_form q))"
  shows "\<not> isValid (onChangeEnvironmentName (with_variables (\<lambda>vs. vs[j := (vs ! j)\<lparr>vf_Name := vf_Name v\<rparr>]) r))"
proof -
  let ?vs = "fv_EnvironmentVariables (pg_form p)"
  let ?us = "?vs[i := v\<lparr>vf_NeedsDeletion := True\<rparr>]"
  have us: "fv_EnvironmentVariables (pg_form q) = ?us"
    using assms(1,2,3,5) by (auto simp: page_defs)
  have j: "j = length ?vs" using assms(7) us by simp
  let ?new = "?us @ [new_env_form\<lparr>vf_Name := vf_Name v\<rparr>]"
  have "(i, PText (vf_Name v)) \<in> set (env_refs ?new)"
    unfolding env_refs_def getDuplicates_mem using assms(1,4) by (auto simp: nth_append intro!: exI [of _ j] simp: j)
  then have "env_refs ?new \<noteq> []" by auto
  moreover have "fv_EnvironmentVariables (pg_form (with_variables (\<lambda>vs. vs[j := (vs ! j)\<lparr>vf_Name := vf_Name v\<rparr>]) r)) = ?new"
    using us j by (simp add: assms(6) page_defs list_update_append nth_append)
  ultimately show ?thesis by (simp add: isValid_def onChangeEnvironmentName_def refs_of_def)
qed

text \<open>
  Changing the resource pool takes all configurations out of the form, but duplicates found among their paths stay:
  the form cannot be deployed although nothing in it is wrong.
\<close>

theorem cleared_configurations_block:
  assumes "vr_hasRefs (pg_configurationPaths p)"
  shows "fv_Configurations (pg_form (resetFormValues p)) = [] \<and> \<not> isValid (resetFormValues p)"
  using assms by (simp add: resetFormValues_def page_defs isValid_def)

lemma pg_form_checks [simp]:
  "pg_form (onChangePortMappingContainerPort p) = pg_form p" "pg_form (onChangePortMappingNodePort p) = pg_form p"
  "pg_form (onChangePortMappingIngressRoute p) = pg_form p" "pg_form (onChangePortMappingLoadBalancer p) = pg_form p"
  by (simp_all add: onChangePortMappingContainerPort_def onChangePortMappingNodePort_def
      onChangePortMappingIngressRoute_def onChangePortMappingLoadBalancer_def)

text \<open>The ports that are kept when the published ports were checked and the form is valid.\<close>

lemma checked_ports:
  assumes "onChangePublishedPorts p = Inr q" and "isValid q" and "fv_PublishingType (pg_form p) \<noteq> INGRESS"
  shows "fv_PublishingType (pg_form q) = fv_PublishingType (pg_form p) \<and>
    container_port_refs (fv_PublishedPorts (pg_form q)) = [] \<and>
    (fv_PublishingType (pg_form q) = LOAD_BALANCED \<longrightarrow> load_balancer_refs (fv_PublishedPorts (pg_form q)) = [])"
  using assms by (cases "fv_PublishingType (pg_form p)")
    (auto simp: onChangePublishedPorts_def onChangePortProtocol_def Let_def onChangePortMappingContainerPort_def
      onChangePortMappingNodePort_def onChangePortMappingIngressRoute_def onChangePortMappingLoadBalancer_def
      with_ports_def isValid_def refs_when_def refs_of_def split: if_splits)

lemma distinct_load_balancer:
  assumes "load_balancer_refs ps = []" and "\<forall>r \<in> set ps. \<exists>n. pf_LoadBalancerPort r = PNum n \<and> n \<noteq> 0"
  shows "distinct (map pf_LoadBalancerPort (filter (\<lambda>r. \<not> pf_NeedsDeletion r) ps))"
proof -
  have "without_undefined (map (\<lambda>n. if name_truthy n then n else None)
      (map (\<lambda>r. if pf_NeedsDeletion r then None else Some (pf_LoadBalancerPort r)) ps)) =
    map pf_LoadBalancerPort (filter (\<lambda>r. \<not> pf_NeedsDeletion r) ps)"
    using assms(2) by (induction ps) auto
  with getDuplicates_distinct [OF assms(1) [unfolded load_balancer_refs_def]] show ?thesis by simp
qed

text \<open>
  C21. For a form that is not published through an ingress, whose ports are numbers with a known protocol, has given load
  balancer ports where it uses one, and marks no new row for deletion: when its ports were checked and the form is valid,
  every port that is kept has a port of its own in the service, with its protocol and in the order of the rows, and no two
  ports of the service have the same number and protocol. (Behind an ingress two rows of one container port, for two
  routes, have one port in the service.)
\<close>

theorem valid_form_ports_written:
  assumes "onChangePublishedPorts p = Inr q" and "isValid q" and "fv_PublishingType (pg_form p) \<noteq> INGRESS"
    and "plain_ports (fv_PublishedPorts (pg_form q))"
    and "\<forall>r \<in> set (fv_PublishedPorts (pg_form q)). pf_NeedsDeletion r \<longrightarrow> \<not> pf_IsNew r"
    and "fv_PublishingType (pg_form p) = LOAD_BALANCED \<longrightarrow>
      (\<forall>r \<in> set (fv_PublishedPorts (pg_form q)). \<exists>n. pf_LoadBalancerPort r = PNum n \<and> n \<noteq> 0)"
    and "sf_PublishingType f = fv_PublishingType (pg_form q)" and "sf_PublishedPorts f = fv_PublishedPorts (pg_form q)"
    and "kept = filter (\<lambda>r. \<not> pf_NeedsDeletion r) (fv_PublishedPorts (pg_form q))"
  shows "map sp_targetPort (ks_Ports (applicationFormValuesToService f)) = map pf_ContainerPort kept \<and>
    map sp_protocol (ks_Ports (applicationFormValuesToService f)) = map pf_Protocol kept \<and>
    distinct (map (\<lambda>s. (sp_port s, sp_protocol s)) (ks_Ports (applicationFormValuesToService f)))"
proof -
  let ?ps = "fv_PublishedPorts (pg_form q)" and ?t = "service_type_of (sf_PublishingType f)"
  let ?sp = "\<lambda>r. the (publishedPortToServicePort (sf_Name f) ?t r)"
  note checked = checked_ports [OF assms(1-3)]
  have written: "without_undefined (map (publishedPortToServicePort (sf_Name f) ?t) rs) = map ?sp (filter (\<lambda>r. \<not> pf_NeedsDeletion r) rs)"
    if "\<forall>r \<in> set rs. pf_NeedsDeletion r \<longrightarrow> \<not> pf_IsNew r" for rs
    using that by (induction rs) (simp_all add: publishedPortToServicePort_def)
  have key: "service_port_key (?sp r) = show_port (pf_ContainerPort r) @ pf_Protocol r" if "r \<in> set kept" for r
    using that by (simp add: assms(9) publishedPortToServicePort_def service_port_key_def)
  have "filter (\<lambda>s. s \<noteq> []) (map (\<lambda>r. show_port (pf_ContainerPort r) @ pf_Protocol r) kept) =
      map (\<lambda>r. show_port (pf_ContainerPort r) @ pf_Protocol r) kept"
    using assms(4) unfolding assms(9) plain_ports_def by (auto simp: filter_id_conv protocols_def)
  with distinct_kept [OF conjunct1 [OF conjunct2 [OF checked], unfolded container_port_refs_def]]
  have texts: "distinct (map (\<lambda>r. show_port (pf_ContainerPort r) @ pf_Protocol r) kept)" by (simp add: assms(9))
  then have "distinct (map service_port_key (map ?sp kept))"
    using key by (simp cong: map_cong add: comp_def)
  then have ports: "ks_Ports (applicationFormValuesToService f) = map ?sp kept"
    using written [OF assms(5)] assms(7-9) by (simp add: applicationFormValuesToService_def uniq_by_distinct)
  have fields: "sp_targetPort (?sp r) = pf_ContainerPort r \<and> sp_protocol (?sp r) = pf_Protocol r \<and>
      sp_port (?sp r) = (if ?t = LOAD_BALANCER then pf_LoadBalancerPort r else pf_ContainerPort r)" if "r \<in> set kept" for r
    using that by (simp add: assms(9) publishedPortToServicePort_def)
  have "distinct (map (\<lambda>r. (if ?t = LOAD_BALANCER then pf_LoadBalancerPort r else pf_ContainerPort r, pf_Protocol r)) kept)"
  proof (cases "?t = LOAD_BALANCER")
    case True
    then have "sf_PublishingType f = LOAD_BALANCED" by (simp add: service_type_of_def split: publishing_type.splits)
    with checked assms(7) have "load_balancer_refs ?ps = []" by simp
    then have "distinct (map pf_LoadBalancerPort kept)"
      unfolding assms(9) using True assms(6) checked assms(7) \<open>sf_PublishingType f = LOAD_BALANCED\<close>
      by (intro distinct_load_balancer) simp_all
    then show ?thesis using True by (auto simp: distinct_map inj_on_def)
  next
    case False
    with texts show ?thesis by (auto simp: distinct_map inj_on_def)
  qed
  then have "distinct (map (\<lambda>s. (sp_port s, sp_protocol s)) (map ?sp kept))"
    using fields by (simp cong: map_cong add: comp_def)
  then show ?thesis unfolding ports using fields by (simp cong: map_cong add: comp_def)
qed

text \<open>
  When the button is enabled, the form has a kind of application unless the deployment is global and none of the
  volumes it writes can be shared; that can only be when an existing volume is used, as the page looks at the storage
  classes chosen for new volumes.
\<close>

definition known_modes :: "storage_class \<Rightarrow> bool" where
  "known_modes s \<longleftrightarrow> sc_AccessModes s \<noteq> [] \<and> sc_AccessModes s \<noteq> [''RWO''] \<longrightarrow> ''RWX'' \<in> set (sc_AccessModes s)"

theorem enabled_form_has_kind:
  assumes "\<not> isNonScalable f" and "claims = applicationFormValuesToVolumeClaims uuid name ns owner (fv_PersistedFolders f)"
  shows "((\<exists>e. application_kind (fv_DeploymentType f) (fv_DataAccessPolicy f) claims None = Inl e) \<longleftrightarrow>
      fv_DeploymentType f = GLOBAL \<and> claims \<noteq> [] \<and> \<not> hasRWX claims) \<and>
    ((\<forall>x \<in> set (fv_PersistedFolders f). ff_ExistingVolume x = None \<and>
        (\<exists>s. ff_StorageClass x = Some s \<and> sc_AccessModes s \<noteq> [] \<and> known_modes s)) \<longrightarrow>
      (\<exists>t. application_kind (fv_DeploymentType f) (fv_DataAccessPolicy f) claims None = Inr t))"
proof -
  let ?kept = "filter (\<lambda>x. \<not> ff_NeedsDeletion x) (fv_PersistedFolders f)"
  have len: "length claims = length ?kept" by (simp add: assms(2) applicationFormValuesToVolumeClaims_def Let_def)
  have shared: "fv_DataAccessPolicy f = SHARED \<and> \<not> hasRWOOnly (fv_PersistedFolders f)"
    if "fv_DeploymentType f = GLOBAL" "claims \<noteq> []"
  proof -
    have "fv_PersistedFolders f \<noteq> []" using that(2) len by auto
    with that(1) assms(1) show ?thesis
      by (cases "fv_DataAccessPolicy f") (auto simp: isNonScalable_def supportGlobalDeployment_def)
  qed
  then have fails: "(\<exists>e. application_kind (fv_DeploymentType f) (fv_DataAccessPolicy f) claims None = Inl e) \<longleftrightarrow>
      fv_DeploymentType f = GLOBAL \<and> claims \<noteq> [] \<and> \<not> hasRWX claims"
    by (cases "fv_DeploymentType f"; cases "fv_DataAccessPolicy f") (auto simp: application_kind_def Let_def)
  have "hasRWX claims" if new: "\<forall>x \<in> set (fv_PersistedFolders f). ff_ExistingVolume x = None \<and>
      (\<exists>s. ff_StorageClass x = Some s \<and> sc_AccessModes s \<noteq> [] \<and> known_modes s)"
    and ne: "fv_DeploymentType f = GLOBAL" "claims \<noteq> []"
  proof -
    obtain x xs where kept: "?kept = x # xs" using ne(2) len by (cases ?kept) auto
    then have "x \<in> set ?kept" by simp
    then have x: "x \<in> set (fv_PersistedFolders f)" by simp
    then obtain s where s: "ff_StorageClass x = Some s" "sc_AccessModes s \<noteq> []" "known_modes s" and none: "ff_ExistingVolume x = None"
      using new by blast
    have "sc_AccessModes s \<noteq> [''RWO'']" using shared [OF ne] x s(1) by (auto simp: hasRWOOnly_def list_ex_iff)
    with s have "''RWX'' \<in> set (sc_AccessModes s)" by (simp add: known_modes_def)
    moreover have "claim_of_folder (uuid 0) name ns owner x \<in> set claims"
      by (simp add: assms(2) applicationFormValuesToVolumeClaims_def Let_def kept upt_rec [of 0])
    moreover have "pv_StorageClass (claim_of_folder (uuid 0) name ns owner x) = Some s"
      using none s(1) by (simp add: claim_of_folder_def Let_def)
    ultimately show ?thesis by (force simp: hasRWX_def list_ex_iff)
  qed
  with fails show ?thesis by (meson sum.exhaust)
qed

text \<open>
  A route that is typed without its leading slash is compared as it is typed but stored with the slash: a route that
  another application has is accepted, and the ingress is given two rules for one host and path.
\<close>

theorem slashless_route_accepted:
  assumes "distinct (map ig_Name is)" and "i \<in> set is" and "e \<in> set (ig_Paths i)"
    and "ir_Host e = Some h" and "h \<noteq> []" and "ir_Path e = Some (''/'' @ s)" and "s \<noteq> []" and "\<not> starts_with s ''/''"
    and "pf_IsNew r" and "\<not> pf_NeedsDeletion r" and "pf_IngressName r = Some (ig_Name i)" and "pf_IngressHost r = Some h"
    and "pf_IngressRoute r = Some s" and "h @ s \<notin> set (ingress_routes is)"
  shows "route_refs is [r] = [] \<and> (\<exists>j \<in> set (applicationFormValuesToIngresses is [r] service). ig_Name j = ig_Name i \<and>
    1 < length (filter (\<lambda>x. ir_Host x = Some h \<and> ir_Path x = Some (''/'' @ s)) (ig_Paths j)))"
proof
  have "routes_of pf_IsNew [r] = [Some (h @ s)]"
    using assms(5,7,9,12,13) by (simp add: routes_of_def port_route_def template_text_def or_opt_def)
  moreover have "getDuplicates [Some (PText (h @ s))] = []" by (simp add: getDuplicates_Nil)
  ultimately show "route_refs is [r] = []" using assms(14) by (simp add: route_refs_def Let_def)
next
  let ?j = "change_ingress service r i"
  have j: "?j = i\<lparr>ig_Paths := ig_Paths i @ [new_rule service r i]\<rparr>" using assms(9,10) by (simp add: change_ingress_def)
  have "?j \<in> set (applicationFormValuesToIngresses is [r] service)"
  proof -
    have "applicationFormValuesToIngresses is [r] service =
        map (\<lambda>x. if Some (ig_Name x) = pf_IngressName r then change_ingress service r x else x) is"
      unfolding applicationFormValuesToIngresses_def fold_simps comp_def id_def update_first_unique [OF assms(1)] ..
    then show ?thesis using assms(2,11) by force
  qed
  moreover have "filter (\<lambda>x. ir_Host x = Some h \<and> ir_Path x = Some (''/'' @ s)) (ig_Paths i) \<noteq> []"
    using assms(3,4,6) by (auto simp: filter_empty_conv)
  moreover have "ir_Host (new_rule service r i) = Some h \<and> ir_Path (new_rule service r i) = Some (''/'' @ s)"
    using assms(7,8,12,13) by (simp add: new_rule_def)
  ultimately show "\<exists>j \<in> set (applicationFormValuesToIngresses is [r] service). ig_Name j = ig_Name i \<and>
      1 < length (filter (\<lambda>x. ir_Host x = Some h \<and> ir_Path x = Some (''/'' @ s)) (ig_Paths j))"
    by (intro bexI [of _ ?j]) (simp_all add: j)
qed

section \<open>Witnesses\<close>

definition used_variable :: env_form where
  "used_variable = new_env_form\<lparr>vf_Name := ''KEY'', vf_IsNew := False\<rparr>"

definition edit_page :: app_page where
  "edit_page = new_page\<lparr>pg_isEdit := True, pg_form := new_app_form\<lparr>fv_EnvironmentVariables := [used_variable]\<rparr>\<rparr>"

theorem valid_form_rows_differ_witness:
  "distinct (filter (\<lambda>n. n \<noteq> []) (map vf_Name (fv_EnvironmentVariables (pg_form (addEnvironmentVariable new_page)))))"
proof -
  have "page_step\<^sup>*\<^sup>* new_page (addEnvironmentVariable new_page)" by (rule r_into_rtranclp) (rule add_variable)
  moreover have "isValid (addEnvironmentVariable new_page)"
    by (simp add: isValid_def addEnvironmentVariable_def with_variables_def new_page_def refs_of_def)
  ultimately show ?thesis using valid_form_rows_differ [OF new_rows_checked _ _ refl] by blast
qed

theorem deleted_variable_blocks_name_witness:
  "\<exists>q. removeEnvironmentVariable 0 edit_page = Inr q \<and> \<not> isValid (onChangeEnvironmentName
     (with_variables (\<lambda>vs. vs[1 := (vs ! 1)\<lparr>vf_Name := ''KEY''\<rparr>]) (addEnvironmentVariable q)))"
proof -
  have rows: "fv_EnvironmentVariables (pg_form edit_page) = [used_variable]" "\<not> vf_IsNew used_variable"
    by (simp_all add: edit_page_def used_variable_def)
  obtain q where q: "removeEnvironmentVariable 0 edit_page = Inr q" "length (fv_EnvironmentVariables (pg_form q)) = 1"
    by (simp add: removeEnvironmentVariable_def at_row_def rows onChangeEnvironmentName_def with_variables_def)
  have "\<not> isValid (onChangeEnvironmentName (with_variables
      (\<lambda>vs. vs[1 := (vs ! 1)\<lparr>vf_Name := vf_Name used_variable\<rparr>]) (addEnvironmentVariable q)))"
    by (rule deleted_variable_blocks_name [OF _ _ _ _ q(1) refl, of used_variable 1])
      (simp_all add: q(2) edit_page_def used_variable_def)
  then show ?thesis using q(1) by (auto simp: used_variable_def)
qed

definition clashing_page :: app_page where
  "clashing_page = new_page\<lparr>pg_configurationPaths := refs_of [((0, 0), PText ''/etc''), ((1, 0), PText ''/etc'')]\<rparr>"

theorem cleared_configurations_block_witness: "\<not> isValid (resetFormValues clashing_page)"
proof -
  have "vr_hasRefs (pg_configurationPaths clashing_page)" by (simp add: clashing_page_def refs_of_def)
  from cleared_configurations_block [OF this] show ?thesis by blast
qed

definition two_ports :: app_page where
  "two_ports = new_page\<lparr>pg_form := new_app_form\<lparr>fv_PublishingType := CLUSTER, fv_PublishedPorts :=
     [new_port_form\<lparr>pf_ContainerPort := PNum 53\<rparr>, new_port_form\<lparr>pf_ContainerPort := PNum 53, pf_Protocol := ''UDP''\<rparr>]\<rparr>\<rparr>"

theorem valid_form_ports_written_witness:
  "map sp_targetPort (ks_Ports (applicationFormValuesToService \<lparr>sf_Name = ''dns'', sf_NamespaceName = ''default'',
     sf_StackName = [], sf_ApplicationOwner = [], sf_PublishingType = CLUSTER,
     sf_PublishedPorts = fv_PublishedPorts (pg_form two_ports)\<rparr>)) = [PNum 53, PNum 53]"
proof -
  have refs: "container_port_refs (fv_PublishedPorts (pg_form two_ports)) = []" "node_port_refs (fv_PublishedPorts (pg_form two_ports)) = []"
    by (simp_all add: container_port_refs_def node_port_refs_def two_ports_def new_port_form_def getDuplicates_Nil All_less_Suc2)
  let ?q = "onChangePortMappingContainerPort (onChangePortMappingLoadBalancer (onChangePortMappingIngressRoute
    (onChangePortMappingNodePort (onChangePortMappingContainerPort two_ports))))"
  have type: "fv_PublishingType (pg_form two_ports) = CLUSTER" by (simp add: two_ports_def)
  have q: "onChangePublishedPorts two_ports = Inr ?q" by (simp add: onChangePublishedPorts_def onChangePortProtocol_def type)
  have valid: "isValid ?q"
    by (simp add: isValid_def onChangePortMappingContainerPort_def onChangePortMappingNodePort_def
        onChangePortMappingIngressRoute_def onChangePortMappingLoadBalancer_def refs_when_def refs type)
      (simp add: refs_of_def two_ports_def new_page_def)
  have ports: "fv_PublishedPorts (pg_form two_ports) =
      [new_port_form\<lparr>pf_ContainerPort := PNum 53\<rparr>, new_port_form\<lparr>pf_ContainerPort := PNum 53, pf_Protocol := ''UDP''\<rparr>]"
    by (simp add: two_ports_def)
  show ?thesis
    using valid_form_ports_written [OF q valid, of "\<lparr>sf_Name = ''dns'', sf_NamespaceName = ''default'', sf_StackName = [],
      sf_ApplicationOwner = [], sf_PublishingType = CLUSTER, sf_PublishedPorts = fv_PublishedPorts (pg_form two_ports)\<rparr>"]
    unfolding pg_form_checks type ports by (simp add: plain_ports_def protocols_def new_port_form_def)
qed

definition rw_class :: "string list \<Rightarrow> storage_class" where
  "rw_class modes = \<lparr>sc_Name = ''class'', sc_AccessModes = modes, sc_Provisioner = [], sc_AllowVolumeExpansion = False\<rparr>"

definition global_form :: app_form where
  "global_form = new_app_form\<lparr>fv_DeploymentType := GLOBAL, fv_PersistedFolders :=
     [(new_folder_form (Some (rw_class [''RWX''])))\<lparr>ff_ContainerPath := ''/data'', ff_UseNewVolume := False,
        ff_ExistingVolume := Some ((data_claim ''1GB'')\<lparr>pv_StorageClass := Some (rw_class [''RWO''])\<rparr>)\<rparr>]\<rparr>"

theorem enabled_form_has_kind_witness:
  "\<exists>e. application_kind GLOBAL SHARED (applicationFormValuesToVolumeClaims (\<lambda>n. []) ''web'' ''default'' ''bob''
     (fv_PersistedFolders global_form)) None = Inl e"
proof -
  let ?claims = "applicationFormValuesToVolumeClaims (\<lambda>n. []) ''web'' ''default'' ''bob'' (fv_PersistedFolders global_form)"
  have "\<not> isNonScalable global_form"
    by (simp add: isNonScalable_def supportGlobalDeployment_def global_form_def new_app_form_def hasRWOOnly_def new_folder_form_def
        rw_class_def)
  note kind = enabled_form_has_kind [OF this refl, THEN conjunct1, of "\<lambda>n. []" "''web''" "''default''" "''bob''"]
  have claims: "?claims = [claim_of_folder [] ''web'' ''default'' ''bob'' (hd (fv_PersistedFolders global_form))]"
    by (simp add: applicationFormValuesToVolumeClaims_def Let_def global_form_def new_folder_form_def)
  then have "?claims \<noteq> [] \<and> \<not> hasRWX ?claims"
    by (simp add: hasRWX_def claim_of_folder_def global_form_def data_claim_def rw_class_def new_folder_form_def)
  with kind show ?thesis by (simp add: global_form_def new_app_form_def)
qed

theorem slashless_route_accepted_witness:
  "route_refs [shared_ingress] [new_port_form\<lparr>pf_ContainerPort := PNum 80, pf_IngressName := Some ''nginx'',
     pf_IngressHost := Some ''a.io'', pf_IngressRoute := Some ''blog''\<rparr>] = []"
proof -
  let ?r = "new_port_form\<lparr>pf_ContainerPort := PNum 80, pf_IngressName := Some ''nginx'', pf_IngressHost := Some ''a.io'',
    pf_IngressRoute := Some ''blog''\<rparr>"
  have "distinct (map ig_Name [shared_ingress])" "shared_ingress \<in> set [shared_ingress]"
    "blog_rule \<in> set (ig_Paths shared_ingress)" "ir_Host blog_rule = Some ''a.io''" "''a.io'' \<noteq> []"
    "ir_Path blog_rule = Some (''/'' @ ''blog'')" "''blog'' \<noteq> []" "\<not> starts_with ''blog'' ''/''"
    "pf_IsNew ?r" "\<not> pf_NeedsDeletion ?r" "pf_IngressName ?r = Some (ig_Name shared_ingress)" "pf_IngressHost ?r = Some ''a.io''"
    "pf_IngressRoute ?r = Some ''blog''" "''a.io'' @ ''blog'' \<notin> set (ingress_routes [shared_ingress])"
    by (simp_all add: shared_ingress_def blog_rule_def shop_rule_def new_port_form_def ingress_routes_def
        template_text_def or_opt_def)
  from slashless_route_accepted [OF this] show ?thesis ..
qed

end
