(* ===== verification/KubeConverters.thy ===== *)
theory KubeConverters
  imports KubeAppForm DockerHelpers
begin

text \<open>
  From the form of an application to the objects of the cluster: the converters \<open>deployment.js\<close>, \<open>daemonSet.js\<close> and
  \<open>statefulSet.js\<close>, that of the auto scaler, and \<open>applicationFormValuesToApplication\<close>, which puts the objects together
  and decides on the kind of the application, for a new form and for one that was read from the cluster. Limits of the processor are counted in thousandths; \<open>filesize-parser\<close> is a parameter.
\<close>

section \<open>The form of an application\<close>

text \<open>
  What the converters read beside the fields of the page. \<open>fx_AuthenticatedRegistry\<close> is the identifier of the registry
  of the image when it has credentials.
\<close>

record app_values = app_form +
  fx_Namespace :: string
  fx_StackName :: string
  fx_ApplicationOwner :: string
  fx_ImageModel :: image_model
  fx_AuthenticatedRegistry :: "int option"
  fx_CpuLimit :: int
  fx_MemoryLimit :: int
  fx_OriginalIngresses :: "ingress list"

definition service_form_of :: "app_values \<Rightarrow> service_form" where
  "service_form_of v =
     \<lparr>sf_Name = fv_Name v, sf_NamespaceName = fx_Namespace v, sf_StackName = fx_StackName v,
      sf_ApplicationOwner = fx_ApplicationOwner v, sf_PublishingType = fv_PublishingType v,
      sf_PublishedPorts = fv_PublishedPorts v\<rparr>"

section \<open>Workloads\<close>

record workload =
  wl_Type :: application_type
  wl_Namespace :: string
  wl_Name :: string
  wl_StackName :: string
  wl_ApplicationOwner :: string
  wl_ApplicationName :: string
  wl_ReplicaCount :: "nat option"
  wl_ImageModel :: image_model
  wl_AuthenticatedRegistry :: "int option"
  wl_CpuLimit :: int
  wl_MemoryLimit :: int
  wl_Written :: written_app
  wl_Affinity :: "node_affinity option"
  wl_Containers :: "string list"
  wl_Note :: string
  wl_ServiceName :: string
  wl_VolumeClaims :: "volume_claim list"

definition bytesValue :: "(int \<Rightarrow> int) \<Rightarrow> int \<Rightarrow> int" where
  "bytesValue filesizeParser mem = filesizeParser mem * 1000 * 1000"

text \<open>A row without a configuration has no keys to read.\<close>

definition config_uses :: "config_row list \<Rightarrow> config_use list js_result" where
  "config_uses cs = fold_result (\<lambda>c acc. case cr_SelectedConfiguration c of
       None \<Rightarrow> Inl TypeError
     | Some cfg \<Rightarrow> Inr (acc @ [\<lparr>cu_SelectedConfiguration = cfg, cu_Overriden = cr_Overriden c,
         cu_OverridenKeys = cr_OverridenKeys c\<rparr>])) cs []"

definition written_of ::
    "(nat \<Rightarrow> string) \<Rightarrow> app_values \<Rightarrow> volume_claim list \<Rightarrow> written_app js_result" where
  "written_of uuid v claims = and_then (config_uses (fv_Configurations v)) (\<lambda>us. Inr
     (generateEnvOrVolumesFromConfigurations uuid (fv_Name v)
       (generateVolumesFromPersistentVolumClaims claims
         \<lparr>wa_Env = generateEnvFromEnvVariables (fv_EnvironmentVariables v), wa_Volumes = [], wa_VolumeMounts = []\<rparr>) us))"

text \<open>The assignments that the three converters share.\<close>

definition common_workload ::
    "application_type \<Rightarrow> (int \<Rightarrow> int) \<Rightarrow> (nat \<Rightarrow> string) \<Rightarrow> app_values \<Rightarrow> volume_claim list \<Rightarrow> workload js_result" where
  "common_workload type filesizeParser uuid v claims =
     and_then (written_of uuid v claims) (\<lambda>written.
     and_then (generateAffinityFromPlacements (fv_DeploymentType v) (fv_PlacementType v) (fv_Placements v)) (\<lambda>affinity. Inr
       \<lparr>wl_Type = type, wl_Namespace = fx_Namespace v, wl_Name = fv_Name v,
        wl_StackName = (if fx_StackName v \<noteq> [] then fx_StackName v else fv_Name v),
        wl_ApplicationOwner = fx_ApplicationOwner v, wl_ApplicationName = fv_Name v, wl_ReplicaCount = Some 0,
        wl_ImageModel = fx_ImageModel v, wl_AuthenticatedRegistry = fx_AuthenticatedRegistry v,
        wl_CpuLimit = fx_CpuLimit v, wl_MemoryLimit = bytesValue filesizeParser (fx_MemoryLimit v),
        wl_Written = written, wl_Affinity = affinity, wl_Containers = [], wl_Note = [], wl_ServiceName = [],
        wl_VolumeClaims = []\<rparr>))"

definition applicationFormValuesToDeployment ::
    "(int \<Rightarrow> int) \<Rightarrow> (nat \<Rightarrow> string) \<Rightarrow> app_values \<Rightarrow> volume_claim list \<Rightarrow> workload js_result" where
  "applicationFormValuesToDeployment filesizeParser uuid v claims =
     and_then (common_workload DEPLOYMENT filesizeParser uuid v claims)
       (\<lambda>w. Inr (w\<lparr>wl_ReplicaCount := fv_ReplicaCount v, wl_Containers := fv_Containers v\<rparr>))"

definition applicationFormValuesToStatefulSet ::
    "(int \<Rightarrow> int) \<Rightarrow> (nat \<Rightarrow> string) \<Rightarrow> app_values \<Rightarrow> volume_claim list \<Rightarrow> workload js_result" where
  "applicationFormValuesToStatefulSet filesizeParser uuid v claims =
     and_then (common_workload STATEFULSET filesizeParser uuid v claims)
       (\<lambda>w. Inr (w\<lparr>wl_ReplicaCount := fv_ReplicaCount v\<rparr>))"

definition applicationFormValuesToDaemonSet ::
    "(int \<Rightarrow> int) \<Rightarrow> (nat \<Rightarrow> string) \<Rightarrow> app_values \<Rightarrow> volume_claim list \<Rightarrow> workload js_result" where
  "applicationFormValuesToDaemonSet filesizeParser uuid v claims =
     and_then (common_workload DAEMONSET filesizeParser uuid v claims) (\<lambda>w. Inr (w\<lparr>wl_ReplicaCount := None\<rparr>))"

section \<open>Payloads of workloads\<close>

text \<open>Parts of the payload that are empty are left out; \<open>wp_resources\<close> are the limits of processor and memory.\<close>

record workload_payload =
  wp_name :: string
  wp_namespace :: string
  wp_labels :: "string obj"
  wp_note :: string
  wp_replicas :: "nat option"
  wp_selector_app :: string
  wp_template_labels :: "string obj"
  wp_container_name :: string
  wp_image :: string
  wp_imagePullSecret :: "string option"
  wp_affinity :: "node_affinity option"
  wp_env :: "env_entry list option"
  wp_volumeMounts :: "volume_mount list option"
  wp_volumes :: "app_volume list option"
  wp_resources :: "(int option \<times> int option) option"
  wp_serviceName :: "string option"
  wp_volumeClaimTemplates :: "claim_payload list option"

definition assignOrDeleteIfEmpty :: "'a list \<Rightarrow> 'a list option" where
  "assignOrDeleteIfEmpty xs = (if xs = [] then None else Some xs)"

definition pod_resources :: "workload \<Rightarrow> (int option \<times> int option) option" where
  "pod_resources w =
     (if wl_CpuLimit w = 0 \<and> wl_MemoryLimit w = 0 then None
      else Some (if wl_CpuLimit w \<noteq> 0 then Some (wl_CpuLimit w) else None,
                 if wl_MemoryLimit w \<noteq> 0 then Some (wl_MemoryLimit w) else None))"

definition pull_secret :: "workload \<Rightarrow> string option" where
  "pull_secret w = map_option (\<lambda>n. ''registry-'' @ show_int n) (wl_AuthenticatedRegistry w)"

definition createDeploymentPayload :: "workload \<Rightarrow> workload_payload" where
  "createDeploymentPayload w =
     \<lparr>wp_name = wl_Name w, wp_namespace = wl_Namespace w,
      wp_labels = [(''io.portainer.kubernetes.application.stack'', wl_StackName w),
        (''io.portainer.kubernetes.application.name'', wl_ApplicationName w),
        (''io.portainer.kubernetes.application.owner'', wl_ApplicationOwner w)],
      wp_note = wl_Note w, wp_replicas = wl_ReplicaCount w, wp_selector_app = wl_Name w,
      wp_template_labels = [(''app'', wl_Name w), (''io.portainer.kubernetes.application.name'', wl_ApplicationName w)],
      wp_container_name = wl_Name w, wp_image = buildImageFullURI (wl_ImageModel w), wp_imagePullSecret = pull_secret w,
      wp_affinity = wl_Affinity w, wp_env = assignOrDeleteIfEmpty (wa_Env (wl_Written w)),
      wp_volumeMounts = assignOrDeleteIfEmpty (wa_VolumeMounts (wl_Written w)),
      wp_volumes = assignOrDeleteIfEmpty (wa_Volumes (wl_Written w)), wp_resources = pod_resources w,
      wp_serviceName = None, wp_volumeClaimTemplates = None\<rparr>"

text \<open>A daemon set has no replicas, so they are undefined in its payload.\<close>

definition createDaemonSetPayload :: "workload \<Rightarrow> workload_payload" where
  "createDaemonSetPayload w = createDeploymentPayload w"

definition createStatefulSetPayload :: "workload \<Rightarrow> workload_payload" where
  "createStatefulSetPayload w = (createDeploymentPayload w)
     \<lparr>wp_image := (if im_Image (wl_ImageModel w) \<noteq> [] then buildImageFullURI (wl_ImageModel w) else []),
      wp_imagePullSecret := (if im_Image (wl_ImageModel w) \<noteq> [] then pull_secret w else None),
      wp_serviceName := Some (wl_ServiceName w),
      wp_volumeClaimTemplates := Some (map createClaimPayload (wl_VolumeClaims w))\<rparr>"

section \<open>Auto scalers\<close>

record scaler =
  hp_Namespace :: string
  hp_Name :: string
  hp_MinReplicas :: nat
  hp_MaxReplicas :: nat
  hp_TargetCPUUtilization :: "nat option"
  hp_TargetApiVersion :: string
  hp_TargetKind :: string
  hp_TargetName :: string

fun getApplicationTypeString :: "application_type \<Rightarrow> string" where
  "getApplicationTypeString DEPLOYMENT = ''Deployment''"
| "getApplicationTypeString DAEMONSET = ''DaemonSet''"
| "getApplicationTypeString STATEFULSET = ''StatefulSet''"
| "getApplicationTypeString POD = ''Pod''"

definition findApplicationBoundScaler :: "scaler list \<Rightarrow> application_type \<Rightarrow> string \<Rightarrow> scaler option" where
  "findApplicationBoundScaler sList type name =
     find (\<lambda>s. hp_TargetKind s = getApplicationTypeString type \<and> hp_TargetName s = name) sList"

definition applicationFormValuesToModel :: "app_values \<Rightarrow> string \<Rightarrow> scaler" where
  "applicationFormValuesToModel v kind =
     \<lparr>hp_Namespace = fx_Namespace v, hp_Name = fv_Name v, hp_MinReplicas = sg_MinReplicas (fv_AutoScaler v),
      hp_MaxReplicas = sg_MaxReplicas (fv_AutoScaler v), hp_TargetCPUUtilization = sg_TargetCPUUtilization (fv_AutoScaler v),
      hp_TargetApiVersion = sg_ApiVersion (fv_AutoScaler v), hp_TargetKind = kind, hp_TargetName = fv_Name v\<rparr>"

record scaler_payload =
  hy_namespace :: string
  hy_name :: string
  hy_minReplicas :: nat
  hy_maxReplicas :: nat
  hy_targetCPUUtilizationPercentage :: "nat option"
  hy_apiVersion :: string
  hy_kind :: string
  hy_target :: string

definition createScalerPayload :: "scaler \<Rightarrow> scaler_payload" where
  "createScalerPayload s =
     \<lparr>hy_namespace = hp_Namespace s, hy_name = hp_TargetName s, hy_minReplicas = hp_MinReplicas s,
      hy_maxReplicas = hp_MaxReplicas s, hy_targetCPUUtilizationPercentage = hp_TargetCPUUtilization s,
      hy_apiVersion = hp_TargetApiVersion s, hy_kind = hp_TargetKind s, hy_target = hp_TargetName s\<rparr>"

section \<open>The objects of an application\<close>

record app_objects =
  ao_app :: workload
  ao_headless :: "kube_service option"
  ao_service :: "kube_service option"
  ao_claims :: "volume_claim list"

text \<open>
  The conversion changes the form: the owner becomes a label, and the folders and variables that are to be deleted are
  taken out of it.
\<close>

definition converted_form :: "app_values \<Rightarrow> app_values" where
  "converted_form v = v
     \<lparr>fv_EnvironmentVariables := filter (\<lambda>x. \<not> vf_NeedsDeletion x) (fv_EnvironmentVariables v),
      fv_PersistedFolders := filter (\<lambda>x. \<not> ff_NeedsDeletion x) (fv_PersistedFolders v),
      fx_ApplicationOwner := ownerToLabel (fx_ApplicationOwner v)\<rparr>"

text \<open>The claims draw their identifiers first.\<close>

definition applicationFormValuesToApplication ::
    "(int \<Rightarrow> int) \<Rightarrow> (nat \<Rightarrow> string) \<Rightarrow> app_values \<Rightarrow> app_objects js_result" where
  "applicationFormValuesToApplication filesizeParser uuid v =
     (let f = v\<lparr>fx_ApplicationOwner := ownerToLabel (fx_ApplicationOwner v)\<rparr>;
          claims = applicationFormValuesToVolumeClaims uuid (fv_Name f) (fx_Namespace f) (fx_ApplicationOwner f) (fv_PersistedFolders f);
          further = (\<lambda>n. uuid (length claims + n));
          service = applicationFormValuesToService (service_form_of f)
      in and_then (application_kind (fv_DeploymentType f) (fv_DataAccessPolicy f) claims (fv_ApplicationType f)) (\<lambda>kind.
         and_then (case kind of
             DEPLOYMENT \<Rightarrow> applicationFormValuesToDeployment filesizeParser further f claims
           | STATEFULSET \<Rightarrow> applicationFormValuesToStatefulSet filesizeParser further f claims
           | _ \<Rightarrow> applicationFormValuesToDaemonSet filesizeParser further f claims) (\<lambda>app. Inr
         \<lparr>ao_app = app,
          ao_headless = (if needs_headless_service (fv_DeploymentType f) (fv_DataAccessPolicy f) claims (fv_ApplicationType f)
            then Some (applicationFormValuesToHeadlessService (service_form_of f)) else None),
          ao_service = (if ks_Ports service = [] then None else Some service),
          ao_claims = claims\<rparr>)))"

section \<open>The kind of an application\<close>

text \<open>The values that are read from an application of a kind; a pod has none.\<close>

definition kind_form :: "application_type \<Rightarrow> (deployment_type \<times> data_access) option" where
  "kind_form t = (case t of
       DEPLOYMENT \<Rightarrow> Some (REPLICATED, SHARED) | DAEMONSET \<Rightarrow> Some (GLOBAL, SHARED)
     | STATEFULSET \<Rightarrow> Some (REPLICATED, ISOLATED) | POD \<Rightarrow> None)"

text \<open>The storage class of a folder, that of the existing volume when one is used, lets several nodes write.\<close>

definition shareable :: "folder_form \<Rightarrow> bool" where
  "shareable x = (case (case ff_ExistingVolume x of Some e \<Rightarrow> pv_StorageClass e | None \<Rightarrow> ff_StorageClass x) of
       None \<Rightarrow> False | Some s \<Rightarrow> ''RWX'' \<in> set (sc_AccessModes s))"

text \<open>Each row of the form has a configuration and a label chosen.\<close>

definition rows_chosen :: "app_values \<Rightarrow> bool" where
  "rows_chosen v \<longleftrightarrow> list_all (\<lambda>c. cr_SelectedConfiguration c \<noteq> None) (fv_Configurations v) \<and>
     list_all (\<lambda>p. pl_Label p \<noteq> None) (fv_Placements v)"

lemma claims_of_kept:
  assumes "kept = filter (\<lambda>x. \<not> ff_NeedsDeletion x) folders" and "claims = applicationFormValuesToVolumeClaims uuid name ns owner folders"
  shows "(claims = []) = (kept = [])" and "hasRWX claims \<longleftrightarrow> list_ex shareable kept"
    and "map pv_MountPath claims = map ff_ContainerPath kept"
proof -
  have c: "claims = map (\<lambda>i. claim_of_folder (uuid i) name ns owner (kept ! i)) [0..<length kept]"
    by (simp add: assms applicationFormValuesToVolumeClaims_def Let_def)
  show "(claims = []) = (kept = [])" by (simp add: c)
  show "map pv_MountPath claims = map ff_ContainerPath kept"
    by (rule nth_equalityI) (simp_all add: c claim_of_folder_def Let_def split: option.splits)
  have "(case pv_StorageClass (claim_of_folder u name ns owner x) of None \<Rightarrow> False | Some s \<Rightarrow> ''RWX'' \<in> set (sc_AccessModes s)) = shareable x"
    for u x by (simp add: claim_of_folder_def shareable_def Let_def split: option.splits)
  then show "hasRWX claims \<longleftrightarrow> list_ex shareable kept"
    by (simp add: hasRWX_def c list_ex_length cong: conj_cong)
qed

lemma common_workload_made:
  assumes "rows_chosen v"
  obtains w where "common_workload type fp uuid v claims = Inr w" "wl_Type w = type"
proof -
  have "\<exists>us. fold_result (\<lambda>c acc. case cr_SelectedConfiguration c of
       None \<Rightarrow> Inl TypeError
     | Some cfg \<Rightarrow> Inr (acc @ [\<lparr>cu_SelectedConfiguration = cfg, cu_Overriden = cr_Overriden c,
         cu_OverridenKeys = cr_OverridenKeys c\<rparr>])) cs acc = Inr us"
    if "list_all (\<lambda>c. cr_SelectedConfiguration c \<noteq> None) cs" for cs acc
    using that by (induction cs arbitrary: acc) auto
  moreover have "\<exists>es. fold_result placement_requirement ps acc = Inr es"
    if "list_all (\<lambda>p. pl_Label p \<noteq> None) ps" for ps acc
    using that by (induction ps arbitrary: acc) (auto simp: placement_requirement_def)
  ultimately have "\<exists>us. config_uses (fv_Configurations v) = Inr us"
    and "\<exists>es. fold_result placement_requirement (fv_Placements v) [] = Inr es"
    using assms unfolding rows_chosen_def config_uses_def by blast+
  moreover from this(2) have "\<exists>a. generateAffinityFromPlacements (fv_DeploymentType v) (fv_PlacementType v) (fv_Placements v) = Inr a"
    by (cases "fv_DeploymentType v") (auto simp: generateAffinityFromPlacements_def)
  ultimately obtain us a where "config_uses (fv_Configurations v) = Inr us"
    and "generateAffinityFromPlacements (fv_DeploymentType v) (fv_PlacementType v) (fv_Placements v) = Inr a"
    by blast
  with that show ?thesis by (simp add: common_workload_def written_of_def)
qed

lemma objects_of_kind:
  assumes "rows_chosen v" and "claims = applicationFormValuesToVolumeClaims uuid (fv_Name v) (fx_Namespace v)
      (ownerToLabel (fx_ApplicationOwner v)) (fv_PersistedFolders v)"
    and "application_kind (fv_DeploymentType v) (fv_DataAccessPolicy v) claims (fv_ApplicationType v) = Inr k" and "k \<noteq> POD"
  shows "\<exists>a. applicationFormValuesToApplication fp uuid v = Inr a \<and> wl_Type (ao_app a) = k \<and> ao_claims a = claims \<and>
    (ao_headless a \<noteq> None \<longleftrightarrow>
      needs_headless_service (fv_DeploymentType v) (fv_DataAccessPolicy v) claims (fv_ApplicationType v)) \<and>
    wl_ReplicaCount (ao_app a) = (if k = DAEMONSET then None else fv_ReplicaCount v)"
proof -
  let ?f = "v\<lparr>fx_ApplicationOwner := ownerToLabel (fx_ApplicationOwner v)\<rparr>"
  have "rows_chosen ?f" using assms(1) by (simp add: rows_chosen_def)
  then obtain w where w: "common_workload k fp (\<lambda>n. uuid (length claims + n)) ?f claims = Inr w" "wl_Type w = k"
    by (rule common_workload_made)
  then show ?thesis
    using assms(3,4) by (cases k)
      (simp_all add: applicationFormValuesToApplication_def Let_def assms(2) [symmetric] applicationFormValuesToDeployment_def
        applicationFormValuesToStatefulSet_def applicationFormValuesToDaemonSet_def)
qed

lemma kind_of_read_form:
  assumes "kind_form t = Some (d, a)"
  shows "application_kind d a claims (Some t) = Inr (if t = STATEFULSET \<and> claims = [] then DEPLOYMENT else t)" and "t \<noteq> POD"
  using assms by (cases t; auto simp: kind_form_def application_kind_def Let_def)+

lemma kind_of_new_form:
  "application_kind d a claims None =
    (if d = GLOBAL \<and> claims \<noteq> [] \<and> \<not> (a = SHARED \<and> hasRWX claims)
     then Inl (ThrownError ''Unable to determine which association to use to convert form'')
     else Inr (if d = GLOBAL then DAEMONSET else if claims \<noteq> [] \<and> a = ISOLATED then STATEFULSET else DEPLOYMENT))"
  by (cases d; cases a) (auto simp: application_kind_def Let_def)

text \<open>
  C40. A form whose rows are chosen and which has no kind of its own (a new form, or that of the edit page, which deletes
  it) is turned into a daemon set when it is global, into a stateful set when it is replicated with isolated folders, and
  into a deployment otherwise, with a claim for each folder that is kept and a headless service exactly for a stateful set;
  it fails exactly when it is global and has folders that are isolated or of which none can be shared. The form of an
  application with the kind it was read with, which the edit page compares with, always gives this kind, but for a stateful
  set without folders, which gives a deployment. So the unchanged form of an application keeps the kind, unless it fails.
\<close>

theorem application_kind_correct:
  assumes "rows_chosen v" and "fv_ApplicationType v = None"
    and "kept = filter (\<lambda>x. \<not> ff_NeedsDeletion x) (fv_PersistedFolders v)"
    and "refused \<longleftrightarrow> fv_DeploymentType v = GLOBAL \<and> kept \<noteq> [] \<and> \<not> (fv_DataAccessPolicy v = SHARED \<and> list_ex shareable kept)"
  shows "(if refused then applicationFormValuesToApplication fp uuid v =
        Inl (ThrownError ''Unable to determine which association to use to convert form'')
      else \<exists>a. applicationFormValuesToApplication fp uuid v = Inr a \<and>
        wl_Type (ao_app a) = (if fv_DeploymentType v = GLOBAL then DAEMONSET
          else if kept \<noteq> [] \<and> fv_DataAccessPolicy v = ISOLATED then STATEFULSET else DEPLOYMENT) \<and>
        (ao_headless a \<noteq> None \<longleftrightarrow> wl_Type (ao_app a) = STATEFULSET) \<and>
        wl_ReplicaCount (ao_app a) = (if fv_DeploymentType v = GLOBAL then None else fv_ReplicaCount v) \<and>
        map pv_MountPath (ao_claims a) = map ff_ContainerPath kept) \<and>
    (\<forall>t. kind_form t = Some (fv_DeploymentType v, fv_DataAccessPolicy v) \<longrightarrow>
      (\<exists>b. applicationFormValuesToApplication fp uuid (v\<lparr>fv_ApplicationType := Some t\<rparr>) = Inr b \<and>
        wl_Type (ao_app b) = (if t = STATEFULSET \<and> kept = [] then DEPLOYMENT else t)))"
proof -
  define claims where "claims = applicationFormValuesToVolumeClaims uuid (fv_Name v) (fx_Namespace v)
    (ownerToLabel (fx_ApplicationOwner v)) (fv_PersistedFolders v)"
  note kept = claims_of_kept [OF assms(3) claims_def]
  have refused: "refused \<longleftrightarrow> fv_DeploymentType v = GLOBAL \<and> claims \<noteq> [] \<and> \<not> (fv_DataAccessPolicy v = SHARED \<and> hasRWX claims)"
    by (simp add: assms(4) kept(1,2))
  note kind = kind_of_new_form [of "fv_DeploymentType v" "fv_DataAccessPolicy v" claims, folded refused]
  have new: "if refused then applicationFormValuesToApplication fp uuid v =
        Inl (ThrownError ''Unable to determine which association to use to convert form'')
      else \<exists>a. applicationFormValuesToApplication fp uuid v = Inr a \<and>
        wl_Type (ao_app a) = (if fv_DeploymentType v = GLOBAL then DAEMONSET
          else if claims \<noteq> [] \<and> fv_DataAccessPolicy v = ISOLATED then STATEFULSET else DEPLOYMENT) \<and>
        (ao_headless a \<noteq> None \<longleftrightarrow> needs_headless_service (fv_DeploymentType v) (fv_DataAccessPolicy v) claims None) \<and>
        wl_ReplicaCount (ao_app a) = (if wl_Type (ao_app a) = DAEMONSET then None else fv_ReplicaCount v) \<and>
        map pv_MountPath (ao_claims a) = map ff_ContainerPath kept"
  proof (cases refused)
    case True
    then show ?thesis
      by (simp add: applicationFormValuesToApplication_def Let_def claims_def [symmetric] assms(2) kind)
  next
    case False
    define k where "k = (if fv_DeploymentType v = GLOBAL then DAEMONSET
        else if claims \<noteq> [] \<and> fv_DataAccessPolicy v = ISOLATED then STATEFULSET else DEPLOYMENT)"
    have "application_kind (fv_DeploymentType v) (fv_DataAccessPolicy v) claims (fv_ApplicationType v) = Inr k" "k \<noteq> POD"
      using False by (simp_all add: assms(2) kind k_def)
    from objects_of_kind [OF assms(1) claims_def this, of fp] obtain a where
      "applicationFormValuesToApplication fp uuid v = Inr a" "wl_Type (ao_app a) = k" "ao_claims a = claims"
      "ao_headless a \<noteq> None \<longleftrightarrow> needs_headless_service (fv_DeploymentType v) (fv_DataAccessPolicy v) claims None"
      "wl_ReplicaCount (ao_app a) = (if k = DAEMONSET then None else fv_ReplicaCount v)"
      unfolding assms(2) by blast
    with False show ?thesis by (simp add: k_def [symmetric] kept(3))
  qed
  moreover have "\<exists>b. applicationFormValuesToApplication fp uuid (v\<lparr>fv_ApplicationType := Some t\<rparr>) = Inr b \<and>
      wl_Type (ao_app b) = (if t = STATEFULSET \<and> kept = [] then DEPLOYMENT else t)"
    if "kind_form t = Some (fv_DeploymentType v, fv_DataAccessPolicy v)" for t
  proof -
    define k where "k = (if t = STATEFULSET \<and> claims = [] then DEPLOYMENT else t)"
    have "k \<noteq> POD" using kind_of_read_form(2) [OF that] by (simp add: k_def)
    moreover have "rows_chosen (v\<lparr>fv_ApplicationType := Some t\<rparr>)" using assms(1) by (simp add: rows_chosen_def)
    ultimately show ?thesis
      using objects_of_kind [of "v\<lparr>fv_ApplicationType := Some t\<rparr>" claims uuid k fp] kind_of_read_form(1) [OF that, of claims]
      by (auto simp: claims_def [symmetric] k_def kept(1))
  qed
  ultimately show ?thesis
    by (cases "fv_DeploymentType v") (auto simp: kept(1) needs_headless_service_def)
qed

section \<open>Examples\<close>

definition hub_image :: image_model where
  "hub_image = \<lparr>im_UseRegistry = False, im_Registry = \<lparr>reg_Type = DOCKERHUB, reg_URL = [], reg_Username = [],
     reg_ProjectPath = [], reg_UseOrganisation = False, reg_OrganisationName = []\<rparr>, im_Image = ''nginx''\<rparr>"

definition web_values :: "deployment_type \<Rightarrow> bool \<Rightarrow> app_values" where
  "web_values type scaled = \<lparr>fv_Name = ''web'', fv_ApplicationType = None, fv_ReplicaCount = Some 1, fv_DeploymentType = type,
     fv_AutoScaler = \<lparr>sg_MinReplicas = 1, sg_MaxReplicas = 2, sg_TargetCPUUtilization = Some 50, sg_ApiVersion = ''apps/v1'',
       sg_IsUsed = scaled\<rparr>, fv_Containers = [],
     fv_EnvironmentVariables = [], fv_DataAccessPolicy = SHARED, fv_PersistedFolders = [], fv_Configurations = [],
     fv_PublishingType = INTERNAL, fv_PublishedPorts = [], fv_PlacementType = PREFERRED, fv_Placements = [],
     fx_Namespace = ''default'', fx_StackName = [], fx_ApplicationOwner = [], fx_ImageModel = hub_image,
     fx_AuthenticatedRegistry = None, fx_CpuLimit = 0, fx_MemoryLimit = 0, fx_OriginalIngresses = []\<rparr>"

text \<open>The same application with a folder of its own for each pod, which makes it a stateful set.\<close>

definition stored_values :: app_values where
  "stored_values = (web_values REPLICATED True)\<lparr>fv_DataAccessPolicy := ISOLATED,
     fv_PersistedFolders := [(new_folder_form None)\<lparr>ff_ContainerPath := ''/data'', ff_Size := Some (Num 1)\<rparr>]\<rparr>"

theorem application_kind_correct_witness:
  "(\<exists>a. applicationFormValuesToApplication (\<lambda>n. n) (\<lambda>n. []) stored_values = Inr a \<and> wl_Type (ao_app a) = STATEFULSET \<and>
     ao_headless a \<noteq> None \<and> map pv_MountPath (ao_claims a) = [''/data'']) \<and>
   applicationFormValuesToApplication (\<lambda>n. n) (\<lambda>n. []) (stored_values\<lparr>fv_DeploymentType := GLOBAL\<rparr>) =
     Inl (ThrownError ''Unable to determine which association to use to convert form'') \<and>
   (\<exists>b. applicationFormValuesToApplication (\<lambda>n. n) (\<lambda>n. [])
     (web_values REPLICATED True\<lparr>fv_ApplicationType := Some DEPLOYMENT\<rparr>) = Inr b \<and> wl_Type (ao_app b) = DEPLOYMENT)"
proof -
  have rows: "rows_chosen (web_values d s)" "rows_chosen stored_values" "rows_chosen (stored_values\<lparr>fv_DeploymentType := GLOBAL\<rparr>)" for d s
    by (simp_all add: rows_chosen_def web_values_def stored_values_def)
  have fields: "fv_ApplicationType (web_values d s) = None" "fv_DeploymentType (web_values d s) = d"
    "fv_DataAccessPolicy (web_values d s) = SHARED" "fv_PersistedFolders (web_values d s) = []"
    "fv_ApplicationType stored_values = None" "fv_DeploymentType stored_values = REPLICATED"
    "fv_DataAccessPolicy stored_values = ISOLATED"
    "fv_PersistedFolders stored_values = [(new_folder_form None)\<lparr>ff_ContainerPath := ''/data'', ff_Size := Some (Num 1)\<rparr>]" for d s
    by (simp_all add: web_values_def stored_values_def)
  have folder: "\<not> ff_NeedsDeletion (new_folder_form None)" by (simp add: new_folder_form_def)
  have "\<exists>a. applicationFormValuesToApplication (\<lambda>n. n) (\<lambda>n. []) stored_values = Inr a \<and> wl_Type (ao_app a) = STATEFULSET \<and>
     ao_headless a \<noteq> None \<and> map pv_MountPath (ao_claims a) = [''/data'']"
    using application_kind_correct [OF rows(2) _ refl refl, of "\<lambda>n. n" "\<lambda>n. []"] by (auto simp: fields folder)
  moreover have "applicationFormValuesToApplication (\<lambda>n. n) (\<lambda>n. []) (stored_values\<lparr>fv_DeploymentType := GLOBAL\<rparr>) =
     Inl (ThrownError ''Unable to determine which association to use to convert form'')"
    using application_kind_correct [OF rows(3) _ refl refl, of "\<lambda>n. n" "\<lambda>n. []"] by (simp add: fields folder)
  moreover have "kind_form DEPLOYMENT = Some (REPLICATED, SHARED)" by (simp add: kind_form_def)
  then have "\<exists>b. applicationFormValuesToApplication (\<lambda>n. n) (\<lambda>n. [])
     (web_values REPLICATED True\<lparr>fv_ApplicationType := Some DEPLOYMENT\<rparr>) = Inr b \<and> wl_Type (ao_app b) = DEPLOYMENT"
    using application_kind_correct [OF rows(1) _ refl refl, of REPLICATED True "\<lambda>n. n" "\<lambda>n. []"] by (auto simp: fields)
  ultimately show ?thesis by blast
qed

end
