(* ===== verification/KubeStages.thy ===== *)
theory KubeStages
  imports JsPrelude
begin

text \<open>
  Requests that are sent in stages, as the services of Kubernetes do: the calls that \<open>Promise.all\<close> awaits together are all
  made, and the next ones only when none of them failed. The requests and the server that accepts or refuses them are
  parameters.
\<close>

section \<open>Stages\<close>

text \<open>What one call of a service does: send a request, find that nothing changed, or fail before sending.\<close>

datatype 'r call = Send 'r | Unchanged | Failed

text \<open>
  Calls that are awaited together form a stage: all of them are made, and the flow goes on when none failed. The server
  accepts a request or not, depending on the requests before it.
\<close>

type_synonym 'r server = "'r list \<Rightarrow> 'r \<Rightarrow> bool"

fun send_all :: "'r server \<Rightarrow> 'r call list \<Rightarrow> 'r list \<Rightarrow> 'r list \<times> bool" where
  "send_all server [] sent = (sent, True)"
| "send_all server (Unchanged # cs) sent = send_all server cs sent"
| "send_all server (Failed # cs) sent = (fst (send_all server cs sent), False)"
| "send_all server (Send r # cs) sent =
     (let rest = send_all server cs (sent @ [r]) in (fst rest, server sent r \<and> snd rest))"

fun run_stages :: "'r server \<Rightarrow> 'r call list list \<Rightarrow> 'r list \<Rightarrow> 'r list \<times> bool" where
  "run_stages server [] sent = (sent, True)"
| "run_stages server (s # ss) sent =
     (let r = send_all server s sent in if snd r then run_stages server ss (fst r) else r)"

definition and_run :: "'r list \<times> bool \<Rightarrow> ('r list \<Rightarrow> 'r list \<times> bool) \<Rightarrow> 'r list \<times> bool" where
  "and_run r k = (if snd r then k (fst r) else r)"

section \<open>Lemmas\<close>

definition sends :: "'r call list \<Rightarrow> 'r list" where
  "sends cs = without_undefined (map (\<lambda>c. case c of Send r \<Rightarrow> Some r | _ \<Rightarrow> None) cs)"

lemma sends_simps [simp]:
  "sends [] = []" "sends (Send r # cs) = r # sends cs" "sends (Unchanged # cs) = sends cs" "sends (Failed # cs) = sends cs"
  "sends (cs @ ds) = sends cs @ sends ds"
  by (induction cs) (simp_all add: sends_def split: call.splits)

fun accepted :: "'r server \<Rightarrow> 'r list \<Rightarrow> 'r list \<Rightarrow> bool" where
  "accepted server sent [] = True"
| "accepted server sent (r # rs) = (server sent r \<and> accepted server (sent @ [r]) rs)"

lemma accepted_append: "accepted server sent (rs @ qs) \<longleftrightarrow> accepted server sent rs \<and> accepted server (sent @ rs) qs"
  by (induction rs arbitrary: sent) simp_all

lemma accepted_all [simp]: "accepted (\<lambda>_ _. True) sent rs"
  by (induction rs arbitrary: sent) simp_all

lemma send_all_requests: "fst (send_all server cs sent) = sent @ sends cs"
  by (induction server cs sent rule: send_all.induct) (simp_all add: Let_def)

lemma send_all_ok: "snd (send_all server cs sent) \<longleftrightarrow> Failed \<notin> set cs \<and> accepted server sent (sends cs)"
  by (induction server cs sent rule: send_all.induct) (auto simp: Let_def)

lemma run_stages_ok: "snd (run_stages server ss sent) \<longleftrightarrow> Failed \<notin> set (concat ss) \<and> accepted server sent (sends (concat ss))"
  by (induction ss arbitrary: sent) (auto simp: Let_def send_all_ok send_all_requests accepted_append)

lemma run_stages_requests: "snd (run_stages server ss sent) \<Longrightarrow> fst (run_stages server ss sent) = sent @ sends (concat ss)"
  by (induction ss arbitrary: sent) (auto simp: Let_def send_all_requests split: if_splits)

lemma run_stages_sent: "\<exists>rs. fst (run_stages server ss sent) = sent @ rs \<and> set rs \<subseteq> set (sends (concat ss))"
proof (induction ss arbitrary: sent)
  case (Cons s ss)
  show ?case
  proof (cases "snd (send_all server s sent)")
    case True
    obtain rs where "fst (run_stages server ss (sent @ sends s)) = (sent @ sends s) @ rs" "set rs \<subseteq> set (sends (concat ss))"
      using Cons.IH by blast
    with True show ?thesis by (intro exI [of _ "sends s @ rs"]) (auto simp: send_all_requests)
  next
    case False
    then show ?thesis by (intro exI [of _ "sends s"]) (auto simp: send_all_requests)
  qed
qed simp

lemma run_stages_append:
  "run_stages server (ss @ ts) sent = and_run (run_stages server ss sent) (run_stages server ts)"
  by (induction ss arbitrary: sent) (simp_all add: Let_def and_run_def)

lemma run_stages_single: "run_stages server [[Send r]] sent = (sent @ [r], server sent r)"
  by (simp add: Let_def)

lemma run_stages_last:
  "snd (run_stages server ss sent) \<Longrightarrow>
     fst (run_stages server (ss @ [s]) sent) = fst (run_stages server ss sent) @ sends s"
  by (simp add: run_stages_append and_run_def Let_def send_all_requests)

lemma run_stages_stopped:
  "\<not> snd (run_stages server ss sent) \<Longrightarrow> run_stages server (ss @ ts) sent = run_stages server ss sent"
  by (simp add: run_stages_append and_run_def)

end
