(* ===== verification/KubeAppService.thy ===== *)
theory KubeAppService
  imports KubeConverters KubeStages
begin

text \<open>
  The requests with which applications are created, changed and deleted: \<open>services/applicationService.js\<close> with the
  services it calls, and \<open>views/summary/resources/applicationResources.js\<close>, which tells the user beforehand what will be
  done. \<open>fast-json-patch\<close> is a parameter: for each kind of payload whether the patch from one to another has operations.
\<close>

section \<open>Requests\<close>

record patch_tests =
  pt_service :: "service_payload \<Rightarrow> service_payload \<Rightarrow> bool"
  pt_claim :: "claim_payload \<Rightarrow> claim_payload \<Rightarrow> bool"
  pt_ingress :: "ingress_payload \<Rightarrow> ingress_payload \<Rightarrow> bool"
  pt_scaler :: "scaler_payload \<Rightarrow> scaler_payload \<Rightarrow> bool"
  pt_workload :: "workload_payload \<Rightarrow> workload_payload \<Rightarrow> bool"

datatype kube_request =
    CreateService kube_service
  | UpdateService kube_service kube_service
  | DeleteService string string
  | UpdateIngress ingress ingress
  | ReadIngresses string
  | CreateClaim volume_claim
  | UpdateClaim volume_claim volume_claim
  | CreateScaler scaler
  | UpdateScaler scaler scaler
  | DeleteScaler string string
  | CreateApp workload
  | UpdateApp workload workload
  | DeleteApp application_type string string

section \<open>Calls\<close>

definition claim_call :: "volume_claim \<Rightarrow> kube_request call" where
  "claim_call c = (if pv_PreviousName c = [] \<and> pv_Id c = [] then Send (CreateClaim c) else Unchanged)"

definition service_patch :: "patch_tests \<Rightarrow> kube_service \<Rightarrow> kube_service \<Rightarrow> kube_request call" where
  "service_patch t old new =
     (if pt_service t (createServicePayload old) (createServicePayload new) then Send (UpdateService old new) else Unchanged)"

definition ingress_changed :: "patch_tests \<Rightarrow> ingress option \<Rightarrow> ingress \<Rightarrow> bool js_result" where
  "ingress_changed t old new = (case old of
       None \<Rightarrow> Inl TypeError
     | Some i \<Rightarrow> and_then (createIngressPayload i) (\<lambda>op. and_then (createIngressPayload new) (\<lambda>np. Inr (pt_ingress t op np))))"

definition old_ingress :: "ingress list \<Rightarrow> ingress \<Rightarrow> ingress option" where
  "old_ingress oldIngresses new = find (\<lambda>i. ig_Name i = ig_Name new) oldIngresses"

definition ingress_call :: "patch_tests \<Rightarrow> ingress list \<Rightarrow> ingress \<Rightarrow> kube_request call" where
  "ingress_call t oldIngresses new = (case ingress_changed t (old_ingress oldIngresses new) new of
       Inl e \<Rightarrow> Failed
     | Inr True \<Rightarrow> Send (UpdateIngress (the (old_ingress oldIngresses new)) new)
     | Inr False \<Rightarrow> Unchanged)"

definition generateIngressPatchPromises :: "patch_tests \<Rightarrow> ingress list \<Rightarrow> ingress list \<Rightarrow> kube_request call list" where
  "generateIngressPatchPromises t oldIngresses newIngresses = map (ingress_call t oldIngresses) newIngresses"

definition claim_patch :: "patch_tests \<Rightarrow> volume_claim list \<Rightarrow> volume_claim \<Rightarrow> kube_request call" where
  "claim_patch t oldClaims c =
     (if pv_PreviousName c = [] \<and> pv_Id c = [] then Send (CreateClaim c)
      else if pv_Id c = [] then
        (case find (\<lambda>x. pv_Name x = pv_PreviousName c) oldClaims of
           None \<Rightarrow> Failed
         | Some old \<Rightarrow> if pt_claim t (createClaimPayload old) (createClaimPayload c) then Send (UpdateClaim old c) else Unchanged)
      else Unchanged)"

definition scaler_patch :: "patch_tests \<Rightarrow> scaler \<Rightarrow> scaler \<Rightarrow> kube_request call" where
  "scaler_patch t old new =
     (if pt_scaler t (createScalerPayload old) (createScalerPayload new) then Send (UpdateScaler old new) else Unchanged)"

fun createWorkloadPayload :: "application_type \<Rightarrow> workload \<Rightarrow> workload_payload" where
  "createWorkloadPayload STATEFULSET w = createStatefulSetPayload w"
| "createWorkloadPayload DAEMONSET w = createDaemonSetPayload w"
| "createWorkloadPayload _ w = createDeploymentPayload w"

definition workload_patch :: "patch_tests \<Rightarrow> workload \<Rightarrow> workload \<Rightarrow> kube_request call" where
  "workload_patch t old new =
     (if pt_workload t (createWorkloadPayload (wl_Type new) old) (createWorkloadPayload (wl_Type new) new)
      then Send (UpdateApp old new) else Unchanged)"

section \<open>Creation\<close>

text \<open>The name of the headless service is the one in the answer of the server, which is the one that was sent.\<close>

definition create_stages :: "patch_tests \<Rightarrow> app_values \<Rightarrow> app_objects \<Rightarrow> kube_request call list list" where
  "create_stages t v a =
     (case ao_service a of
        None \<Rightarrow> []
      | Some service \<Rightarrow> [Send (CreateService service)] #
          (if fv_PublishingType v = INGRESS
           then [generateIngressPatchPromises t (fx_OriginalIngresses v)
             (applicationFormValuesToIngresses (fx_OriginalIngresses v) (fv_PublishedPorts v) (ks_Name service))]
           else [])) @
     (if wl_Type (ao_app a) = STATEFULSET
      then [[case ao_headless a of Some h \<Rightarrow> Send (CreateService h) | None \<Rightarrow> Failed]]
      else [map claim_call (ao_claims a)]) @
     (if sg_IsUsed (fv_AutoScaler v) \<and> fv_DeploymentType v \<noteq> GLOBAL
      then [[Send (CreateScaler (applicationFormValuesToModel v (getApplicationTypeString (wl_Type (ao_app a)))))]]
      else []) @
     [[Send (CreateApp
       (if wl_Type (ao_app a) = STATEFULSET
        then (ao_app a)\<lparr>wl_VolumeClaims := ao_claims a,
          wl_ServiceName := (case ao_headless a of Some h \<Rightarrow> ks_Name h | None \<Rightarrow> [])\<rparr>
        else ao_app a))]]"

definition createAsync ::
    "patch_tests \<Rightarrow> (int \<Rightarrow> int) \<Rightarrow> (nat \<Rightarrow> string) \<Rightarrow> kube_request server \<Rightarrow> app_values \<Rightarrow> kube_request list \<Rightarrow> kube_request list \<times> bool" where
  "createAsync t filesizeParser uuid server v sent =
     (case applicationFormValuesToApplication filesizeParser uuid v of
        Inl e \<Rightarrow> (sent, False)
      | Inr a \<Rightarrow> run_stages server (create_stages t (converted_form v) a) sent)"

section \<open>Deletion\<close>

text \<open>
  What is deleted: an application that was read, or the workload made from a form, which has no service type, no ports
  and no auto scaler.
\<close>

record deletable =
  dl_Type :: application_type
  dl_Namespace :: string
  dl_Name :: string
  dl_HeadlessServiceName :: string
  dl_ServiceType :: "service_type option"
  dl_PublishedPorts :: "app_port list"
  dl_AutoScaler :: "scaler option"

definition deletable_workload :: "workload \<Rightarrow> deletable" where
  "deletable_workload w = \<lparr>dl_Type = wl_Type w, dl_Namespace = wl_Namespace w, dl_Name = wl_Name w,
     dl_HeadlessServiceName = wl_ServiceName w, dl_ServiceType = None, dl_PublishedPorts = [], dl_AutoScaler = None\<rparr>"

text \<open>\<open>stored\<close> gives the ingresses that the server returns after the requests before.\<close>

definition delete_ingress_stage ::
    "patch_tests \<Rightarrow> deletable \<Rightarrow> service_type \<Rightarrow> ingress list \<Rightarrow> kube_request call list" where
  "delete_ingress_stage t app serviceType originals =
     (case ingresses_without_application serviceType (dl_PublishedPorts app) originals (dl_Name app) of
        Inl e \<Rightarrow> [Failed]
      | Inr ingresses \<Rightarrow> generateIngressPatchPromises t originals ingresses)"

definition deleteAsync ::
    "patch_tests \<Rightarrow> kube_request server \<Rightarrow> (kube_request list \<Rightarrow> ingress list) \<Rightarrow> deletable \<Rightarrow> kube_request list \<Rightarrow> kube_request list \<times> bool" where
  "deleteAsync t server stored app sent =
     and_run (run_stages server ([Send (DeleteApp (dl_Type app) (dl_Namespace app) (dl_Name app))] #
       (if dl_Type app = STATEFULSET then [[Send (DeleteService (dl_Namespace app) (dl_HeadlessServiceName app))]] else [])) sent)
     (\<lambda>sent. and_run (case dl_ServiceType app of
         None \<Rightarrow> (sent, True)
       | Some serviceType \<Rightarrow> and_run (run_stages server [[Send (DeleteService (dl_Namespace app) (dl_Name app))]] sent)
           (\<lambda>sent. if filter (\<lambda>p. ap_IngressRules p \<noteq> []) (dl_PublishedPorts app) = [] then (sent, True)
             else and_run (run_stages server [[Send (ReadIngresses (dl_Namespace app))]] sent)
               (\<lambda>sent. run_stages server [delete_ingress_stage t app serviceType (stored sent)] sent)))
     (\<lambda>sent. case dl_AutoScaler app of
         None \<Rightarrow> (sent, True)
       | Some s \<Rightarrow> run_stages server [[Send (DeleteScaler (hp_Namespace s) (hp_Name s))]] sent))"

section \<open>Change\<close>

definition service_stages :: "patch_tests \<Rightarrow> app_values \<Rightarrow> app_values \<Rightarrow> app_objects \<Rightarrow> app_objects \<Rightarrow> kube_request call list list" where
  "service_stages t old new a b =
     (case (ao_service a, ao_service b) of
        (Some s, Some r) \<Rightarrow> [service_patch t s r] #
          (if fv_PublishingType new = INGRESS \<or> fv_PublishingType old = INGRESS
           then [generateIngressPatchPromises t
             (applicationFormValuesToIngresses (fx_OriginalIngresses old) (fv_PublishedPorts old) (ks_Name s))
             (applicationFormValuesToIngresses (fx_OriginalIngresses new) (fv_PublishedPorts new) (ks_Name r))]
           else [])
      | (None, Some r) \<Rightarrow> [Send (CreateService r)] #
          (if fv_PublishingType new = INGRESS
           then [generateIngressPatchPromises t (fx_OriginalIngresses new)
             (applicationFormValuesToIngresses (fx_OriginalIngresses new) (fv_PublishedPorts new) (ks_Name r))]
           else [])
      | (Some s, None) \<Rightarrow> [Send (DeleteService (ks_Namespace s) (ks_Name s))] #
          (if fv_PublishingType old = INGRESS
           then [generateIngressPatchPromises t (fx_OriginalIngresses old)
             (applicationFormValuesToIngresses (fx_OriginalIngresses new) (fv_PublishedPorts new) (ks_Name s))]
           else [])
      | (None, None) \<Rightarrow> [])"

definition scaler_of :: "app_values \<Rightarrow> app_objects \<Rightarrow> scaler" where
  "scaler_of v a = applicationFormValuesToModel v (getApplicationTypeString (wl_Type (ao_app a)))"

definition scaler_stages :: "patch_tests \<Rightarrow> app_values \<Rightarrow> app_values \<Rightarrow> app_objects \<Rightarrow> app_objects \<Rightarrow> kube_request call list list" where
  "scaler_stages t old new a b =
     (if \<not> sg_IsUsed (fv_AutoScaler old)
      then (if sg_IsUsed (fv_AutoScaler new) then [[Send (CreateScaler (scaler_of new b))]] else [])
      else if sg_IsUsed (fv_AutoScaler new) then [[scaler_patch t (scaler_of old a) (scaler_of new b)]]
      else [[Send (DeleteScaler (hp_Namespace (scaler_of old a)) (hp_Name (scaler_of old a)))]])"

definition patch_stages :: "patch_tests \<Rightarrow> app_values \<Rightarrow> app_values \<Rightarrow> app_objects \<Rightarrow> app_objects \<Rightarrow> kube_request call list list" where
  "patch_stages t old new a b =
     (if wl_Type (ao_app b) = STATEFULSET
      then [[case (ao_headless a, ao_headless b) of (Some g, Some h) \<Rightarrow> service_patch t g h | _ \<Rightarrow> Failed]]
      else [map (claim_patch t (ao_claims a)) (ao_claims b)]) @
     [[workload_patch t (ao_app a) (ao_app b)]] @ service_stages t old new a b @ scaler_stages t old new a b"

text \<open>Each conversion draws its own identifiers.\<close>

definition patchAsync ::
    "patch_tests \<Rightarrow> (int \<Rightarrow> int) \<Rightarrow> (nat \<Rightarrow> string) \<Rightarrow> (nat \<Rightarrow> string) \<Rightarrow> (nat \<Rightarrow> string) \<Rightarrow> kube_request server \<Rightarrow>
     (kube_request list \<Rightarrow> ingress list) \<Rightarrow> app_values \<Rightarrow> app_values \<Rightarrow> kube_request list \<times> bool" where
  "patchAsync t filesizeParser uuid1 uuid2 uuid3 server stored old new =
     (case applicationFormValuesToApplication filesizeParser uuid1 old of
        Inl e \<Rightarrow> ([], False)
      | Inr a \<Rightarrow> (case applicationFormValuesToApplication filesizeParser uuid2 new of
          Inl e \<Rightarrow> ([], False)
        | Inr b \<Rightarrow>
            if wl_Type (ao_app a) \<noteq> wl_Type (ao_app b) then
              and_run (deleteAsync t server stored (deletable_workload (ao_app a)) [])
              (\<lambda>sent. and_run (case ao_service a of
                  None \<Rightarrow> (sent, True)
                | Some s \<Rightarrow> run_stages server [[Send (DeleteService (ks_Namespace s) (ks_Name s))]] sent)
              (createAsync t filesizeParser uuid3 server (converted_form new)))
            else run_stages server (patch_stages t (converted_form old) (converted_form new) a b) []))"

section \<open>The summary\<close>

datatype resource_action = CREATE | UPDATE | DELETE

datatype resource_type =
    SERVICE_RESOURCE | INGRESS_RESOURCE | PERSISTENT_VOLUME_CLAIM | HORIZONTAL_POD_AUTOSCALER | APP_RESOURCE application_type

fun KubernetesResourceActions :: "resource_action \<Rightarrow> string" where
  "KubernetesResourceActions CREATE = ''Create''"
| "KubernetesResourceActions UPDATE = ''Update''"
| "KubernetesResourceActions DELETE = ''Delete''"

text \<open>A pod has no type among the resources.\<close>

fun KubernetesResourceTypes :: "resource_type \<Rightarrow> string option" where
  "KubernetesResourceTypes SERVICE_RESOURCE = Some ''Service''"
| "KubernetesResourceTypes INGRESS_RESOURCE = Some ''Ingress''"
| "KubernetesResourceTypes PERSISTENT_VOLUME_CLAIM = Some ''PersistentVolumeClaim''"
| "KubernetesResourceTypes HORIZONTAL_POD_AUTOSCALER = Some ''HorizontalPodAutoscaler''"
| "KubernetesResourceTypes (APP_RESOURCE DEPLOYMENT) = Some ''Deployment''"
| "KubernetesResourceTypes (APP_RESOURCE DAEMONSET) = Some ''Daemonset''"
| "KubernetesResourceTypes (APP_RESOURCE STATEFULSET) = Some ''StatefulSet''"
| "KubernetesResourceTypes (APP_RESOURCE POD) = None"

record resource_summary =
  rs_action :: resource_action
  rs_kind :: resource_type
  rs_name :: string
  rs_type :: "service_type option"

definition summary :: "resource_action \<Rightarrow> resource_type \<Rightarrow> string \<Rightarrow> resource_summary" where
  "summary action kind name = \<lparr>rs_action = action, rs_kind = kind, rs_name = name, rs_type = None\<rparr>"

definition service_summary :: "resource_action \<Rightarrow> kube_service \<Rightarrow> resource_summary" where
  "service_summary action s = \<lparr>rs_action = action, rs_kind = SERVICE_RESOURCE, rs_name = ks_Name s,
     rs_type = Some (if ks_Type s = UNSET then CLUSTER_IP else ks_Type s)\<rparr>"

definition getIngressUpdateSummary ::
    "patch_tests \<Rightarrow> ingress list \<Rightarrow> ingress list \<Rightarrow> resource_summary list js_result" where
  "getIngressUpdateSummary t oldIngresses newIngresses = fold_result (\<lambda>new acc.
     and_then (ingress_changed t (old_ingress oldIngresses new) new) (\<lambda>changed. Inr
       (if changed then acc @ [summary UPDATE INGRESS_RESOURCE (ig_Name (the (old_ingress oldIngresses new)))] else acc)))
     newIngresses []"

definition getServiceUpdateResourceSummary :: "patch_tests \<Rightarrow> kube_service \<Rightarrow> kube_service \<Rightarrow> resource_summary list" where
  "getServiceUpdateResourceSummary t old new =
     (if pt_service t (createServicePayload old) (createServicePayload new) then [service_summary UPDATE old] else [])"

definition getVolumeClaimSummary ::
    "patch_tests \<Rightarrow> volume_claim list \<Rightarrow> volume_claim \<Rightarrow> resource_summary list js_result" where
  "getVolumeClaimSummary t oldClaims c =
     (if pv_PreviousName c = [] \<and> pv_Id c = [] then Inr [summary CREATE PERSISTENT_VOLUME_CLAIM (pv_Name c)]
      else if pv_Id c = [] then
        (case find (\<lambda>x. pv_Name x = pv_PreviousName c) oldClaims of
           None \<Rightarrow> Inl TypeError
         | Some old \<Rightarrow> Inr (if pt_claim t (createClaimPayload old) (createClaimPayload c)
             then [summary UPDATE PERSISTENT_VOLUME_CLAIM (pv_Name old)] else []))
      else Inr [])"

definition getHorizontalPodAutoScalerUpdateResourceSummary :: "patch_tests \<Rightarrow> scaler \<Rightarrow> scaler \<Rightarrow> resource_summary list" where
  "getHorizontalPodAutoScalerUpdateResourceSummary t old new =
     (if pt_scaler t (createScalerPayload old) (createScalerPayload new)
      then [summary UPDATE HORIZONTAL_POD_AUTOSCALER (hp_Name old)] else [])"

definition created_ingresses :: "patch_tests \<Rightarrow> app_values \<Rightarrow> kube_service \<Rightarrow> resource_summary list js_result" where
  "created_ingresses t v service =
     (if fv_PublishingType v = INGRESS then getIngressUpdateSummary t (fx_OriginalIngresses v)
        (applicationFormValuesToIngresses (fx_OriginalIngresses v) (fv_PublishedPorts v) (ks_Name service))
      else Inr [])"

definition created_claims :: "app_objects \<Rightarrow> resource_summary list js_result" where
  "created_claims a =
     (if wl_Type (ao_app a) = STATEFULSET
      then (case ao_headless a of None \<Rightarrow> Inl TypeError | Some h \<Rightarrow> Inr [service_summary CREATE h])
      else Inr (map (\<lambda>c. summary CREATE PERSISTENT_VOLUME_CLAIM (pv_Name c))
        (filter (\<lambda>c. pv_PreviousName c = [] \<and> pv_Id c = []) (ao_claims a))))"

definition created_resources :: "patch_tests \<Rightarrow> app_values \<Rightarrow> app_objects \<Rightarrow> resource_summary list js_result" where
  "created_resources t v a =
     and_then (case ao_service a of
         None \<Rightarrow> Inr []
       | Some service \<Rightarrow> and_then (created_ingresses t v service) (\<lambda>is. Inr (service_summary CREATE service # is)))
     (\<lambda>rs. and_then (created_claims a) (\<lambda>cs. Inr (rs @ cs @
       (if sg_IsUsed (fv_AutoScaler v) \<and> fv_DeploymentType v \<noteq> GLOBAL
        then [summary CREATE HORIZONTAL_POD_AUTOSCALER (hp_Name (scaler_of v a))] else []) @
       [summary CREATE (APP_RESOURCE (wl_Type (ao_app a))) (wl_Name (ao_app a))])))"

definition getCreatedApplicationResources ::
    "patch_tests \<Rightarrow> (int \<Rightarrow> int) \<Rightarrow> (nat \<Rightarrow> string) \<Rightarrow> app_values \<Rightarrow> resource_summary list js_result" where
  "getCreatedApplicationResources t filesizeParser uuid v =
     and_then (applicationFormValuesToApplication filesizeParser uuid v) (created_resources t (converted_form v))"

definition updated_claims :: "patch_tests \<Rightarrow> app_objects \<Rightarrow> app_objects \<Rightarrow> resource_summary list js_result" where
  "updated_claims t a b =
     (if wl_Type (ao_app b) = STATEFULSET
      then (case (ao_headless a, ao_headless b) of
          (Some g, Some h) \<Rightarrow> Inr (getServiceUpdateResourceSummary t g h) | _ \<Rightarrow> Inl TypeError)
      else fold_result (\<lambda>c acc. and_then (getVolumeClaimSummary t (ao_claims a) c) (\<lambda>rs. Inr (acc @ rs))) (ao_claims b) [])"

definition updated_services ::
    "patch_tests \<Rightarrow> app_values \<Rightarrow> app_values \<Rightarrow> app_objects \<Rightarrow> app_objects \<Rightarrow> resource_summary list js_result" where
  "updated_services t old new a b =
     (case (ao_service a, ao_service b) of
        (Some s, Some r) \<Rightarrow> and_then
          (if fv_PublishingType new = INGRESS \<or> fv_PublishingType old = INGRESS
           then getIngressUpdateSummary t
             (applicationFormValuesToIngresses (fx_OriginalIngresses old) (fv_PublishedPorts old) (ks_Name s))
             (applicationFormValuesToIngresses (fx_OriginalIngresses new) (fv_PublishedPorts new) (ks_Name r))
           else Inr []) (\<lambda>is. Inr (getServiceUpdateResourceSummary t s r @ is))
      | (None, Some r) \<Rightarrow> and_then (created_ingresses t new r) (\<lambda>is. Inr (service_summary CREATE r # is))
      | (Some s, None) \<Rightarrow> and_then
          (if fv_PublishingType old = INGRESS
           then getIngressUpdateSummary t (fx_OriginalIngresses old)
             (applicationFormValuesToIngresses (fx_OriginalIngresses new) (fv_PublishedPorts new) (ks_Name s))
           else Inr []) (\<lambda>is. Inr (service_summary DELETE s # is))
      | (None, None) \<Rightarrow> Inr [])"

definition updated_scaler :: "patch_tests \<Rightarrow> app_values \<Rightarrow> app_values \<Rightarrow> app_objects \<Rightarrow> app_objects \<Rightarrow> resource_summary list" where
  "updated_scaler t old new a b =
     (if \<not> sg_IsUsed (fv_AutoScaler old)
      then (if sg_IsUsed (fv_AutoScaler new) then [summary CREATE HORIZONTAL_POD_AUTOSCALER (hp_Name (scaler_of new b))] else [])
      else if sg_IsUsed (fv_AutoScaler new)
      then getHorizontalPodAutoScalerUpdateResourceSummary t (scaler_of old a) (scaler_of new b)
      else [summary DELETE HORIZONTAL_POD_AUTOSCALER (hp_Name (scaler_of old a))])"

definition getUpdatedApplicationResources ::
    "patch_tests \<Rightarrow> (int \<Rightarrow> int) \<Rightarrow> (nat \<Rightarrow> string) \<Rightarrow> (nat \<Rightarrow> string) \<Rightarrow> (nat \<Rightarrow> string) \<Rightarrow> app_values \<Rightarrow> app_values \<Rightarrow>
     resource_summary list js_result" where
  "getUpdatedApplicationResources t filesizeParser uuid1 uuid2 uuid3 old new =
     and_then (applicationFormValuesToApplication filesizeParser uuid1 old) (\<lambda>a.
     and_then (applicationFormValuesToApplication filesizeParser uuid2 new) (\<lambda>b.
       let v = converted_form old; w = converted_form new; type = APP_RESOURCE (wl_Type (ao_app a)); name = wl_Name (ao_app a) in
       if wl_Type (ao_app a) \<noteq> wl_Type (ao_app b) then
         and_then (getCreatedApplicationResources t filesizeParser uuid3 w) (\<lambda>rs. Inr (summary DELETE type name #
           (case ao_service a of None \<Rightarrow> [] | Some s \<Rightarrow> [service_summary DELETE s]) @ rs))
       else and_then (updated_claims t a b) (\<lambda>cs. and_then (updated_services t v w a b) (\<lambda>ss. Inr
         (cs @ [summary UPDATE type name] @ ss @ updated_scaler t v w a b)))))"

section \<open>Lemmas\<close>

text \<open>Kind, action and name of what a request does.\<close>

fun described :: "kube_request \<Rightarrow> (resource_action \<times> resource_type \<times> string) option" where
  "described (CreateService s) = Some (CREATE, SERVICE_RESOURCE, ks_Name s)"
| "described (UpdateService old new) = Some (UPDATE, SERVICE_RESOURCE, ks_Name old)"
| "described (DeleteService namespace name) = Some (DELETE, SERVICE_RESOURCE, name)"
| "described (UpdateIngress old new) = Some (UPDATE, INGRESS_RESOURCE, ig_Name old)"
| "described (ReadIngresses namespace) = None"
| "described (CreateClaim c) = Some (CREATE, PERSISTENT_VOLUME_CLAIM, pv_Name c)"
| "described (UpdateClaim old new) = Some (UPDATE, PERSISTENT_VOLUME_CLAIM, pv_Name old)"
| "described (CreateScaler s) = Some (CREATE, HORIZONTAL_POD_AUTOSCALER, hp_Name s)"
| "described (UpdateScaler old new) = Some (UPDATE, HORIZONTAL_POD_AUTOSCALER, hp_Name old)"
| "described (DeleteScaler namespace name) = Some (DELETE, HORIZONTAL_POD_AUTOSCALER, name)"
| "described (CreateApp w) = Some (CREATE, APP_RESOURCE (wl_Type w), wl_Name w)"
| "described (UpdateApp old new) = Some (UPDATE, APP_RESOURCE (wl_Type old), wl_Name old)"
| "described (DeleteApp type namespace name) = Some (DELETE, APP_RESOURCE type, name)"

definition brief :: "resource_summary \<Rightarrow> (resource_action \<times> resource_type \<times> string) option" where
  "brief s = Some (rs_action s, rs_kind s, rs_name s)"

lemma brief_simps [simp]:
  "brief (summary a k n) = Some (a, k, n)" "brief (service_summary a s) = Some (a, SERVICE_RESOURCE, ks_Name s)"
  by (simp_all add: brief_def summary_def service_summary_def)

text \<open>A list of calls does what a summary says, and fails where the summary cannot be made.\<close>

definition summarises :: "kube_request call list \<Rightarrow> resource_summary list js_result \<Rightarrow> bool" where
  "summarises cs x = (case x of
       Inl e \<Rightarrow> Failed \<in> set cs
     | Inr rs \<Rightarrow> Failed \<notin> set cs \<and> map described (sends cs) = map brief rs)"

lemma summarises_simps [simp]:
  "summarises cs (Inl e) = (Failed \<in> set cs)"
  "summarises cs (Inr rs) = (Failed \<notin> set cs \<and> map described (sends cs) = map brief rs)"
  by (simp_all add: summarises_def)

lemma summarises_append:
  "summarises cs x \<Longrightarrow> summarises ds y \<Longrightarrow> summarises (cs @ ds) (and_then x (\<lambda>rs. and_then y (\<lambda>ss. Inr (rs @ ss))))"
  by (cases x; cases y) auto

lemma summarises_fold:
  assumes "\<And>x. x \<in> set xs \<Longrightarrow> summarises [f x] (g x)" and "summarises cs (Inr acc)"
  shows "summarises (cs @ map f xs) (fold_result (\<lambda>x acc. and_then (g x) (\<lambda>rs. Inr (acc @ rs))) xs acc)"
  using assms
proof (induction xs arbitrary: cs acc)
  case (Cons x xs)
  show ?case
  proof (cases "g x")
    case (Inl e)
    then show ?thesis using Cons.prems(1) [of x] by simp
  next
    case (Inr rs)
    then have "summarises (cs @ [f x]) (Inr (acc @ rs))" using Cons.prems(1) [of x] Cons.prems(2) by auto
    from Cons.IH [OF Cons.prems(1) this] Inr show ?thesis by simp
  qed
qed simp

lemma ingress_summarised:
  "summarises (generateIngressPatchPromises t olds news) (getIngressUpdateSummary t olds news)"
proof -
  let ?g = "\<lambda>new. and_then (ingress_changed t (old_ingress olds new) new) (\<lambda>changed. Inr
    (if changed then [summary UPDATE INGRESS_RESOURCE (ig_Name (the (old_ingress olds new)))] else []))"
  have "and_then (ingress_changed t (old_ingress olds new) new) (\<lambda>changed. Inr
      (if changed then acc @ [summary UPDATE INGRESS_RESOURCE (ig_Name (the (old_ingress olds new)))] else acc)) =
    and_then (?g new) (\<lambda>rs. Inr (acc @ rs))" for new acc
    by (cases "ingress_changed t (old_ingress olds new) new") simp_all
  then have "getIngressUpdateSummary t olds news = fold_result (\<lambda>x acc. and_then (?g x) (\<lambda>rs. Inr (acc @ rs))) news []"
    unfolding getIngressUpdateSummary_def by simp
  moreover have "summarises [ingress_call t olds new] (?g new)" for new
    by (cases "ingress_changed t (old_ingress olds new) new") (simp_all add: ingress_call_def split: bool.split)
  ultimately show ?thesis
    using summarises_fold [of news "ingress_call t olds" ?g "[]" "[]"] by (simp add: generateIngressPatchPromises_def)
qed

lemma claims_summarised:
  "summarises (map (claim_patch t olds) cs)
    (fold_result (\<lambda>c acc. and_then (getVolumeClaimSummary t olds c) (\<lambda>rs. Inr (acc @ rs))) cs [])"
proof -
  have "summarises [claim_patch t olds c] (getVolumeClaimSummary t olds c)" for c
    by (simp add: claim_patch_def getVolumeClaimSummary_def split: option.split)
  then show ?thesis using summarises_fold [of cs "claim_patch t olds" "getVolumeClaimSummary t olds" "[]" "[]"] by simp
qed

lemma new_claims_summarised:
  "summarises (map claim_call cs) (Inr (map (\<lambda>c. summary CREATE PERSISTENT_VOLUME_CLAIM (pv_Name c))
     (filter (\<lambda>c. pv_PreviousName c = [] \<and> pv_Id c = []) cs)))"
  by (induction cs) (auto simp: claim_call_def)

lemma summarises_Cons:
  "summarises [c] (Inr rs) \<Longrightarrow> summarises cs x \<Longrightarrow> summarises (c # cs) (and_then x (\<lambda>ss. Inr (rs @ ss)))"
  using summarises_append [of "[c]" "Inr rs" cs x] by simp

lemma created_services_summarised:
  "summarises (concat (case ao_service a of
        None \<Rightarrow> []
      | Some service \<Rightarrow> [Send (CreateService service)] #
          (if fv_PublishingType v = INGRESS
           then [generateIngressPatchPromises t (fx_OriginalIngresses v)
             (applicationFormValuesToIngresses (fx_OriginalIngresses v) (fv_PublishedPorts v) (ks_Name service))]
           else [])))
     (case ao_service a of
         None \<Rightarrow> Inr []
       | Some service \<Rightarrow> and_then (created_ingresses t v service) (\<lambda>is. Inr (service_summary CREATE service # is)))"
proof (cases "ao_service a")
  case (Some s)
  have "summarises [Send (CreateService s)] (Inr [service_summary CREATE s])" by simp
  from summarises_Cons [OF this ingress_summarised] Some show ?thesis by (simp add: created_ingresses_def)
qed simp

lemma creation_summarised: "summarises (concat (create_stages t v a)) (created_resources t v a)"
proof -
  let ?scaler = "if sg_IsUsed (fv_AutoScaler v) \<and> fv_DeploymentType v \<noteq> GLOBAL
    then [Send (CreateScaler (applicationFormValuesToModel v (getApplicationTypeString (wl_Type (ao_app a)))))] else []"
  let ?app = "[Send (CreateApp (if wl_Type (ao_app a) = STATEFULSET
        then (ao_app a)\<lparr>wl_VolumeClaims := ao_claims a,
          wl_ServiceName := (case ao_headless a of Some h \<Rightarrow> ks_Name h | None \<Rightarrow> [])\<rparr>
        else ao_app a))]"
  let ?rest = "(if sg_IsUsed (fv_AutoScaler v) \<and> fv_DeploymentType v \<noteq> GLOBAL
        then [summary CREATE HORIZONTAL_POD_AUTOSCALER (hp_Name (scaler_of v a))] else []) @
       [summary CREATE (APP_RESOURCE (wl_Type (ao_app a))) (wl_Name (ao_app a))]"
  have claims: "summarises (if wl_Type (ao_app a) = STATEFULSET
      then [case ao_headless a of Some h \<Rightarrow> Send (CreateService h) | None \<Rightarrow> Failed] else map claim_call (ao_claims a)) (created_claims a)"
    using new_claims_summarised [of "ao_claims a"] by (auto simp: created_claims_def split: option.split)
  have rest: "summarises (?scaler @ ?app) (Inr ?rest)" by (simp add: scaler_of_def)
  from summarises_append [OF claims rest] have tail: "summarises ((if wl_Type (ao_app a) = STATEFULSET
      then [case ao_headless a of Some h \<Rightarrow> Send (CreateService h) | None \<Rightarrow> Failed] else map claim_call (ao_claims a)) @ ?scaler @ ?app)
      (and_then (created_claims a) (\<lambda>cs. Inr (cs @ ?rest)))" by simp
  have eq: "and_then (and_then (created_claims a) (\<lambda>cs. Inr (cs @ ?rest))) (\<lambda>ss. Inr (rs @ ss)) =
      and_then (created_claims a) (\<lambda>cs. Inr (rs @ cs @ ?rest))" for rs
    by (cases "created_claims a") simp_all
  have stages: "concat (create_stages t v a) = concat (case ao_service a of
        None \<Rightarrow> []
      | Some service \<Rightarrow> [Send (CreateService service)] #
          (if fv_PublishingType v = INGRESS
           then [generateIngressPatchPromises t (fx_OriginalIngresses v)
             (applicationFormValuesToIngresses (fx_OriginalIngresses v) (fv_PublishedPorts v) (ks_Name service))]
           else [])) @ (if wl_Type (ao_app a) = STATEFULSET
      then [case ao_headless a of Some h \<Rightarrow> Send (CreateService h) | None \<Rightarrow> Failed] else map claim_call (ao_claims a)) @ ?scaler @ ?app"
    unfolding create_stages_def by simp
  show ?thesis unfolding stages created_resources_def
    using summarises_append [OF created_services_summarised tail] unfolding eq .
qed

lemma updated_services_summarised: "summarises (concat (service_stages t old new a b)) (updated_services t old new a b)"
proof (cases "ao_service a")
  case None
  show ?thesis
  proof (cases "ao_service b")
    case (Some r)
    have "summarises [Send (CreateService r)] (Inr [service_summary CREATE r])" by simp
    from summarises_Cons [OF this ingress_summarised] None Some show ?thesis
      by (simp add: service_stages_def updated_services_def created_ingresses_def)
  qed (simp add: None service_stages_def updated_services_def)
next
  case (Some s)
  show ?thesis
  proof (cases "ao_service b")
    case None
    have "summarises [Send (DeleteService (ks_Namespace s) (ks_Name s))] (Inr [service_summary DELETE s])" by simp
    from summarises_Cons [OF this ingress_summarised] None Some show ?thesis
      by (simp add: service_stages_def updated_services_def)
  next
    case (Some r)
    have "summarises [service_patch t s r] (Inr (getServiceUpdateResourceSummary t s r))"
      by (simp add: service_patch_def getServiceUpdateResourceSummary_def)
    from summarises_Cons [OF this ingress_summarised] this Some \<open>ao_service a = Some s\<close> show ?thesis
      by (simp add: service_stages_def updated_services_def)
  qed
qed

lemma updated_claims_summarised:
  "summarises (if wl_Type (ao_app b) = STATEFULSET
      then [case (ao_headless a, ao_headless b) of (Some g, Some h) \<Rightarrow> service_patch t g h | _ \<Rightarrow> Failed]
      else map (claim_patch t (ao_claims a)) (ao_claims b)) (updated_claims t a b)"
  using claims_summarised
  by (auto simp: updated_claims_def service_patch_def getServiceUpdateResourceSummary_def split: option.split)

lemma updated_scaler_summarised: "summarises (concat (scaler_stages t old new a b)) (Inr (updated_scaler t old new a b))"
  by (simp add: scaler_stages_def updated_scaler_def scaler_patch_def getHorizontalPodAutoScalerUpdateResourceSummary_def)

lemma creation_follows_summary:
  "case getCreatedApplicationResources t filesizeParser uuid v of
     Inr rs \<Rightarrow> (\<exists>qs. createAsync t filesizeParser uuid (\<lambda>_ _. True) v sent = (sent @ qs, True) \<and> map described qs = map brief rs)
   | Inl e \<Rightarrow> \<not> snd (createAsync t filesizeParser uuid server v sent)"
proof (cases "applicationFormValuesToApplication filesizeParser uuid v")
  case (Inl e)
  then show ?thesis by (simp add: getCreatedApplicationResources_def createAsync_def)
next
  case (Inr a)
  let ?ss = "create_stages t (converted_form v) a"
  have sum: "summarises (concat ?ss) (created_resources t (converted_form v) a)" by (rule creation_summarised)
  show ?thesis
  proof (cases "created_resources t (converted_form v) a")
    case (Inl e)
    then show ?thesis using Inr sum by (auto simp: getCreatedApplicationResources_def createAsync_def run_stages_ok)
  next
    case (Inr rs)
    have ok: "snd (run_stages (\<lambda>_ _. True) ?ss sent)" using sum Inr unfolding run_stages_ok by simp
    have "run_stages (\<lambda>_ _. True) ?ss sent = (sent @ sends (concat ?ss), True)"
      using ok run_stages_requests [OF ok] by (cases "run_stages (\<lambda>_ _. True) ?ss sent") simp
    then show ?thesis using sum Inr \<open>applicationFormValuesToApplication filesizeParser uuid v = Inr a\<close>
      by (simp add: getCreatedApplicationResources_def createAsync_def)
  qed
qed

lemma change_summarised:
  assumes "wl_Type (ao_app a) = wl_Type (ao_app b)"
    and "x = and_then (updated_claims t a b) (\<lambda>cs. and_then (updated_services t v w a b) (\<lambda>ss. Inr (cs, ss @ updated_scaler t v w a b)))"
  shows "case x of
     Inl e \<Rightarrow> Failed \<in> set (concat (patch_stages t v w a b))
   | Inr (cs, ss) \<Rightarrow> Failed \<notin> set (concat (patch_stages t v w a b)) \<and>
       map described (sends (concat (patch_stages t v w a b))) = map brief cs @
         (if workload_patch t (ao_app a) (ao_app b) = Unchanged then []
          else [Some (UPDATE, APP_RESOURCE (wl_Type (ao_app a)), wl_Name (ao_app a))]) @ map brief ss"
proof -
  note parts = updated_claims_summarised [where a = a and b = b and t = t] updated_services_summarised [of t v w a b] updated_scaler_summarised [of t v w a b]
  show ?thesis unfolding assms(2)
  proof (cases "updated_claims t a b")
    case (Inl e)
    then show "case and_then (updated_claims t a b) (\<lambda>cs. and_then (updated_services t v w a b)
        (\<lambda>ss. Inr (cs, ss @ updated_scaler t v w a b))) of
       Inl e \<Rightarrow> Failed \<in> set (concat (patch_stages t v w a b))
     | Inr (cs, ss) \<Rightarrow> Failed \<notin> set (concat (patch_stages t v w a b)) \<and>
         map described (sends (concat (patch_stages t v w a b))) = map brief cs @
           (if workload_patch t (ao_app a) (ao_app b) = Unchanged then []
            else [Some (UPDATE, APP_RESOURCE (wl_Type (ao_app a)), wl_Name (ao_app a))]) @ map brief ss"
      using parts(1) by (auto simp: patch_stages_def split: if_splits)
  next
    case (Inr cs)
    show "case and_then (updated_claims t a b) (\<lambda>cs. and_then (updated_services t v w a b)
        (\<lambda>ss. Inr (cs, ss @ updated_scaler t v w a b))) of
       Inl e \<Rightarrow> Failed \<in> set (concat (patch_stages t v w a b))
     | Inr (cs, ss) \<Rightarrow> Failed \<notin> set (concat (patch_stages t v w a b)) \<and>
         map described (sends (concat (patch_stages t v w a b))) = map brief cs @
           (if workload_patch t (ao_app a) (ao_app b) = Unchanged then []
            else [Some (UPDATE, APP_RESOURCE (wl_Type (ao_app a)), wl_Name (ao_app a))]) @ map brief ss"
      using parts Inr by (cases "updated_services t v w a b") (auto simp: patch_stages_def workload_patch_def split: if_splits)
  qed
qed

fun prepares :: "kube_request \<Rightarrow> bool" where
  "prepares (CreateService s) = True"
| "prepares (UpdateIngress old new) = True"
| "prepares (CreateClaim c) = True"
| "prepares _ = False"

lemma ingress_calls_prepare: "r \<in> set (sends (generateIngressPatchPromises t olds news)) \<Longrightarrow> prepares r"
  by (induction news) (auto simp: generateIngressPatchPromises_def ingress_call_def split: sum.splits bool.splits)

lemma claim_calls_prepare: "r \<in> set (sends (map claim_call cs)) \<Longrightarrow> prepares r"
  by (induction cs) (auto simp: claim_call_def split: if_splits)

lemma create_stages_parts:
  "\<exists>pre x. create_stages t v a = pre @ (if sg_IsUsed (fv_AutoScaler v) \<and> fv_DeploymentType v \<noteq> GLOBAL
       then [[Send (CreateScaler (scaler_of v a))]] else []) @ [[Send (CreateApp x)]] \<and>
     (\<forall>r \<in> set (sends (concat pre)). prepares r)"
proof -
  let ?pre = "(case ao_service a of
        None \<Rightarrow> []
      | Some service \<Rightarrow> [Send (CreateService service)] #
          (if fv_PublishingType v = INGRESS
           then [generateIngressPatchPromises t (fx_OriginalIngresses v)
             (applicationFormValuesToIngresses (fx_OriginalIngresses v) (fv_PublishedPorts v) (ks_Name service))]
           else [])) @
     (if wl_Type (ao_app a) = STATEFULSET
      then [[case ao_headless a of Some h \<Rightarrow> Send (CreateService h) | None \<Rightarrow> Failed]]
      else [map claim_call (ao_claims a)])"
  have "prepares r" if "r \<in> set (sends (concat ?pre))" for r
    using that ingress_calls_prepare claim_calls_prepare by (auto split: option.splits if_splits)
  then show ?thesis by (intro exI [of _ ?pre]) (auto simp: create_stages_def scaler_of_def)
qed

lemma not_prepares: "\<not> prepares (CreateApp w)" "\<not> prepares (DeleteScaler n m)"
  by simp_all

section \<open>Properties\<close>

text \<open>
  C17. The summary that is shown lists what creating the application does, request by request; where no summary can be
  made, the creation fails.
\<close>

theorem summary_lists_creation:
  "case getCreatedApplicationResources t filesizeParser uuid v of
     Inr rs \<Rightarrow> (\<exists>sent. createAsync t filesizeParser uuid (\<lambda>_ _. True) v [] = (sent, True) \<and> map described sent = map brief rs)
   | Inl e \<Rightarrow> \<not> snd (createAsync t filesizeParser uuid server v [])"
  using creation_follows_summary [where server = server and sent = "[]"] by (simp only: append_Nil)

text \<open>
  C18. The summary of a change. While the kind of the application stays, it lists what is done, except that it names the
  update of the application also when there is nothing to update. Where the kind changes, it lists the deletions and
  the new creation, unless the application was a stateful set, whose headless service is deleted without notice.
\<close>

theorem summary_lists_change:
  assumes "applicationFormValuesToApplication filesizeParser uuid1 old = Inr a"
    and "applicationFormValuesToApplication filesizeParser uuid2 new = Inr b"
    and "getUpdatedApplicationResources t filesizeParser uuid1 uuid2 uuid3 old new = Inr rs"
    and "patchAsync t filesizeParser uuid1 uuid2 uuid3 (\<lambda>_ _. True) stored old new = (sent, ok)"
  shows "ok \<and>
    (wl_Type (ao_app a) = wl_Type (ao_app b) \<longrightarrow> (\<exists>before after.
      rs = before @ [summary UPDATE (APP_RESOURCE (wl_Type (ao_app a))) (wl_Name (ao_app a))] @ after \<and>
      map described sent = map brief (if workload_patch t (ao_app a) (ao_app b) = Unchanged then before @ after else rs))) \<and>
    (wl_Type (ao_app a) \<noteq> wl_Type (ao_app b) \<longrightarrow>
      map described sent = map brief (if wl_Type (ao_app a) = STATEFULSET
        then hd rs # summary DELETE SERVICE_RESOURCE (wl_ServiceName (ao_app a)) # tl rs else rs))"
proof (cases "wl_Type (ao_app a) = wl_Type (ao_app b)")
  case True
  let ?v = "converted_form old" and ?w = "converted_form new"
  obtain cs ss where parts: "updated_claims t a b = Inr cs" "updated_services t ?v ?w a b = Inr ss"
    and rs: "rs = cs @ [summary UPDATE (APP_RESOURCE (wl_Type (ao_app a))) (wl_Name (ao_app a))] @ ss @ updated_scaler t ?v ?w a b"
    using assms(3) True by (auto simp: getUpdatedApplicationResources_def assms(1,2) Let_def elim!: and_then_InrE)
  let ?ss = "patch_stages t ?v ?w a b"
  have "Failed \<notin> set (concat ?ss) \<and> map described (sends (concat ?ss)) = map brief cs @
      (if workload_patch t (ao_app a) (ao_app b) = Unchanged then []
       else [Some (UPDATE, APP_RESOURCE (wl_Type (ao_app a)), wl_Name (ao_app a))]) @ map brief (ss @ updated_scaler t ?v ?w a b)"
    using change_summarised [OF True refl, of t ?v ?w] by (simp add: parts)
  moreover from this have ok: "snd (run_stages (\<lambda>_ _. True) ?ss [])" unfolding run_stages_ok by simp
  moreover have "(sent, ok) = run_stages (\<lambda>_ _. True) ?ss []" using assms(4) True by (simp add: patchAsync_def assms(1,2))
  ultimately have res: "ok" "map described sent = map brief (if workload_patch t (ao_app a) (ao_app b) = Unchanged
      then cs @ ss @ updated_scaler t ?v ?w a b else rs)"
    using run_stages_requests [OF ok] by (simp_all add: rs prod_eq_iff)
  show ?thesis using res True rs by blast
next
  case False
  let ?w = "converted_form new"
  obtain cs where created: "getCreatedApplicationResources t filesizeParser uuid3 ?w = Inr cs"
    and rs: "rs = summary DELETE (APP_RESOURCE (wl_Type (ao_app a))) (wl_Name (ao_app a)) #
      (case ao_service a of None \<Rightarrow> [] | Some s \<Rightarrow> [service_summary DELETE s]) @ cs"
    using assms(3) False by (auto simp: getUpdatedApplicationResources_def assms(1,2) Let_def elim!: and_then_InrE)
  let ?del = "DeleteApp (wl_Type (ao_app a)) (wl_Namespace (ao_app a)) (wl_Name (ao_app a)) #
    (if wl_Type (ao_app a) = STATEFULSET then [DeleteService (wl_Namespace (ao_app a)) (wl_ServiceName (ao_app a))] else []) @
    (case ao_service a of None \<Rightarrow> [] | Some s \<Rightarrow> [DeleteService (ks_Namespace s) (ks_Name s)])"
  have "patchAsync t filesizeParser uuid1 uuid2 uuid3 (\<lambda>_ _. True) stored old new =
      createAsync t filesizeParser uuid3 (\<lambda>_ _. True) ?w ?del"
    using False by (simp add: patchAsync_def assms(1,2) deleteAsync_def deletable_workload_def and_run_def split: option.split)
  moreover obtain qs where "createAsync t filesizeParser uuid3 (\<lambda>_ _. True) ?w ?del = (?del @ qs, True)"
    and qs: "map described qs = map brief cs"
    using creation_follows_summary [where sent = "?del" and t = t and uuid = uuid3 and v = "?w" and filesizeParser = filesizeParser]
    unfolding created sum.case by blast
  ultimately have sent: "sent = ?del @ qs" and ok: "ok" using assms(4) by simp_all
  show ?thesis using False ok by (simp add: sent rs qs split: option.split)
qed

text \<open>
  What an application needs: its service with the rules of its ingresses, then its claims (for a stateful set the headless
  service, as the claims are part of it), then its scaler.
\<close>

definition needed_first :: "patch_tests \<Rightarrow> app_values \<Rightarrow> app_objects \<Rightarrow> kube_request list" where
  "needed_first t v a =
     (case ao_service a of
        None \<Rightarrow> []
      | Some s \<Rightarrow> CreateService s #
          (if fv_PublishingType v = INGRESS
           then sends (generateIngressPatchPromises t (fx_OriginalIngresses v)
             (applicationFormValuesToIngresses (fx_OriginalIngresses v) (fv_PublishedPorts v) (ks_Name s))) else [])) @
     (if wl_Type (ao_app a) = STATEFULSET then [CreateService (the (ao_headless a))]
      else map CreateClaim (filter (\<lambda>c. pv_PreviousName c = [] \<and> pv_Id c = []) (ao_claims a))) @
     (if sg_IsUsed (fv_AutoScaler v) \<and> fv_DeploymentType v \<noteq> GLOBAL then [CreateScaler (scaler_of v a)] else [])"

definition needed_app :: "app_objects \<Rightarrow> workload" where
  "needed_app a =
     (if wl_Type (ao_app a) = STATEFULSET
      then (ao_app a)\<lparr>wl_VolumeClaims := ao_claims a, wl_ServiceName := ks_Name (the (ao_headless a))\<rparr>
      else ao_app a)"

definition creates :: "kube_request \<Rightarrow> bool" where
  "creates r \<longleftrightarrow> prepares r \<or> (\<exists>s. r = CreateScaler s) \<or> (\<exists>w. r = CreateApp w)"

lemma sent_claims: "sends (map claim_call cs) = map CreateClaim (filter (\<lambda>c. pv_PreviousName c = [] \<and> pv_Id c = []) cs)"
  by (induction cs) (simp_all add: claim_call_def)

lemma create_stages_front:
  "\<exists>front x. create_stages t v a = front @ [[Send (CreateApp x)]] \<and>
     (Failed \<notin> set (concat front) \<longrightarrow> sends (concat front) = needed_first t v a \<and> x = needed_app a) \<and>
     (\<forall>r \<in> set (sends (concat front)). creates r \<and> (\<forall>w. r \<noteq> CreateApp w))"
proof -
  let ?fs = "case ao_service a of
        None \<Rightarrow> []
      | Some service \<Rightarrow> [Send (CreateService service)] #
          (if fv_PublishingType v = INGRESS
           then [generateIngressPatchPromises t (fx_OriginalIngresses v)
             (applicationFormValuesToIngresses (fx_OriginalIngresses v) (fv_PublishedPorts v) (ks_Name service))]
           else [])"
  let ?fc = "if wl_Type (ao_app a) = STATEFULSET
      then [[case ao_headless a of Some h \<Rightarrow> Send (CreateService h) | None \<Rightarrow> Failed]]
      else [map claim_call (ao_claims a)]"
  let ?fh = "if sg_IsUsed (fv_AutoScaler v) \<and> fv_DeploymentType v \<noteq> GLOBAL then [[Send (CreateScaler (scaler_of v a))]] else []"
  let ?x = "if wl_Type (ao_app a) = STATEFULSET
        then (ao_app a)\<lparr>wl_VolumeClaims := ao_claims a,
          wl_ServiceName := (case ao_headless a of Some h \<Rightarrow> ks_Name h | None \<Rightarrow> [])\<rparr> else ao_app a"
  have "create_stages t v a = (?fs @ ?fc @ ?fh) @ [[Send (CreateApp ?x)]]"
    unfolding create_stages_def scaler_of_def by (simp only: append_assoc)
  moreover have "sends (concat (?fs @ ?fc @ ?fh)) = needed_first t v a \<and> ?x = needed_app a"
    if "Failed \<notin> set (concat (?fs @ ?fc @ ?fh))"
  proof -
    have none: "wl_Type (ao_app a) = STATEFULSET \<Longrightarrow> ao_headless a \<noteq> None"
      using that by (cases "ao_headless a") auto
    have 1: "sends (concat ?fs) = (case ao_service a of
        None \<Rightarrow> []
      | Some s \<Rightarrow> CreateService s #
          (if fv_PublishingType v = INGRESS
           then sends (generateIngressPatchPromises t (fx_OriginalIngresses v)
             (applicationFormValuesToIngresses (fx_OriginalIngresses v) (fv_PublishedPorts v) (ks_Name s))) else []))"
      by (simp split: option.split)
    have 2: "sends (concat ?fc) = (if wl_Type (ao_app a) = STATEFULSET then [CreateService (the (ao_headless a))]
        else map CreateClaim (filter (\<lambda>c. pv_PreviousName c = [] \<and> pv_Id c = []) (ao_claims a)))"
      using none by (auto simp: sent_claims)
    have 3: "sends (concat ?fh) = (if sg_IsUsed (fv_AutoScaler v) \<and> fv_DeploymentType v \<noteq> GLOBAL
        then [CreateScaler (scaler_of v a)] else [])"
      by simp
    have 4: "?x = needed_app a" using none by (auto simp: needed_app_def)
    show ?thesis
      by (simp only: 1 2 3 4 needed_first_def concat_append sends_simps(5) simp_thms)
  qed
  moreover have "creates r \<and> (\<forall>w. r \<noteq> CreateApp w)" if r: "r \<in> set (sends (concat (?fs @ ?fc @ ?fh)))" for r
  proof -
    have "prepares r" if "r \<in> set (sends (concat ?fs))"
      using that ingress_calls_prepare by (auto split: option.splits if_splits)
    moreover have "prepares r" if "r \<in> set (sends (concat ?fc))"
      using that claim_calls_prepare by (auto split: option.splits if_splits)
    moreover have "r = CreateScaler (scaler_of v a)" if "r \<in> set (sends (concat ?fh))"
      using that by (auto split: if_splits)
    ultimately have "prepares r \<or> (\<exists>s. r = CreateScaler s)"
      using r unfolding concat_append sends_simps set_append Un_iff by blast
    then show ?thesis by (cases r) (simp_all add: creates_def)
  qed
  ultimately show ?thesis by (intro exI [of _ "?fs @ ?fc @ ?fh"] exI [of _ ?x]) blast
qed

text \<open>
  C19. The application is asked for last, and only after everything it needs was created and accepted: its service and the
  rules of its ingresses, its new claims or its headless service, its scaler, in this order and nothing else. The creation
  succeeds exactly when it was asked for and accepted too. Every request creates something or adds rules to an ingress, so
  nothing is deleted, and nothing that was created before a refusal is taken back.
\<close>

theorem application_created_last:
  assumes "createAsync t filesizeParser uuid server v [] = (sent, ok)"
  shows "(\<forall>w. CreateApp w \<in> set sent \<longrightarrow>
      (\<exists>a. applicationFormValuesToApplication filesizeParser uuid v = Inr a \<and> w = needed_app a \<and>
        sent = needed_first t (converted_form v) a @ [CreateApp w] \<and>
        accepted server [] (needed_first t (converted_form v) a))) \<and>
    (ok \<longleftrightarrow> accepted server [] sent \<and> (\<exists>w. CreateApp w \<in> set sent)) \<and>
    (\<forall>r \<in> set sent. creates r)"
proof (cases "applicationFormValuesToApplication filesizeParser uuid v")
  case (Inl e)
  then show ?thesis using assms by (auto simp: createAsync_def)
next
  case (Inr a)
  obtain front x where stages: "create_stages t (converted_form v) a = front @ [[Send (CreateApp x)]]"
    and needed: "Failed \<notin> set (concat front) \<longrightarrow> sends (concat front) = needed_first t (converted_form v) a \<and> x = needed_app a"
    and quiet: "\<forall>r \<in> set (sends (concat front)). creates r \<and> (\<forall>w. r \<noteq> CreateApp w)"
    using create_stages_front [of t "converted_form v" a] by blast
  have run: "(sent, ok) = and_run (run_stages server front []) (run_stages server [[Send (CreateApp x)]])"
    using assms by (simp add: createAsync_def Inr stages run_stages_append)
  obtain rs where rs: "fst (run_stages server front []) = rs" "set rs \<subseteq> set (sends (concat front))"
    using run_stages_sent [of server front "[]"] by auto
  have none: "CreateApp w \<notin> set rs" "r \<in> set rs \<Longrightarrow> creates r" for w r using rs(2) quiet by blast+
  show ?thesis
  proof (cases "snd (run_stages server front [])")
    case True
    then have "Failed \<notin> set (concat front)" "rs = sends (concat front)" "accepted server [] rs"
      using rs(1) run_stages_requests run_stages_ok by (metis append_Nil)+
    then have "rs = needed_first t (converted_form v) a" "x = needed_app a" "accepted server [] rs" using needed by simp_all
    moreover have "sent = rs @ [CreateApp x]" "ok = server rs (CreateApp x)"
      using run True rs(1) unfolding run_stages_single and_run_def by simp_all
    moreover have "creates (CreateApp x)" by (simp add: creates_def)
    ultimately show ?thesis using none by (auto simp: accepted_append Inr)
  next
    case False
    then have "sent = rs" "\<not> ok" using run rs(1) by (auto simp: and_run_def prod_eq_iff)
    with none show ?thesis by auto
  qed
qed

text \<open>
  C20. A change of the kind deletes the old application but not its auto scaler. The server keeps the scalers it has until
  they are deleted and refuses to create another one of their name, so an application that is scaled by itself before and
  after the change (which a global one never is) is deleted and never created again.
\<close>

theorem changed_kind_loses_application:
  assumes "applicationFormValuesToApplication filesizeParser uuid1 old = Inr a"
    and "applicationFormValuesToApplication filesizeParser uuid2 new = Inr b" and "wl_Type (ao_app a) \<noteq> wl_Type (ao_app b)"
    and "sg_IsUsed (fv_AutoScaler new)" and "fv_DeploymentType new \<noteq> GLOBAL"
    and "sg_IsUsed (fv_AutoScaler old)" and "fv_DeploymentType old \<noteq> GLOBAL"
    and "fv_Name new = fv_Name old" and "fx_Namespace new = fx_Namespace old"
    and "(hp_Namespace (scaler_of old a), hp_Name (scaler_of old a)) \<in> existing"
    and "\<And>h s. (hp_Namespace s, hp_Name s) \<in> existing \<Longrightarrow> DeleteScaler (hp_Namespace s) (hp_Name s) \<notin> set h \<Longrightarrow>
      \<not> server h (CreateScaler s)"
    and "patchAsync t filesizeParser uuid1 uuid2 uuid3 server stored old new = (sent, ok)"
  shows "\<not> ok \<and> hd sent = DeleteApp (wl_Type (ao_app a)) (wl_Namespace (ao_app a)) (wl_Name (ao_app a)) \<and>
    (\<forall>w. CreateApp w \<notin> set sent)"
proof -
  let ?w = "converted_form new"
  let ?d = "DeleteApp (wl_Type (ao_app a)) (wl_Namespace (ao_app a)) (wl_Name (ao_app a))"
  let ?dels = "[[Send ?d]] @ (if wl_Type (ao_app a) = STATEFULSET
      then [[Send (DeleteService (wl_Namespace (ao_app a)) (wl_ServiceName (ao_app a)))]] else []) @
    (case ao_service a of None \<Rightarrow> [] | Some s \<Rightarrow> [[Send (DeleteService (ks_Namespace s) (ks_Name s))]])"
  have run: "(sent, ok) = and_run (run_stages server ?dels []) (createAsync t filesizeParser uuid3 server ?w)"
    using assms(3,12)
    by (cases "ao_service a") (auto simp: patchAsync_def assms(1,2) deleteAsync_def deletable_workload_def and_run_def Let_def)
  obtain ds where ds: "fst (run_stages server ?dels []) = ds" "set ds \<subseteq> set (sends (concat ?dels))"
    using run_stages_sent [of server ?dels "[]"] by auto
  have first: "hd ds = ?d" "ds \<noteq> []" using ds(1) by (auto simp: Let_def hd_append split: if_splits option.splits)
  have no_app: "CreateApp w \<notin> set ds" "DeleteScaler n m \<notin> set ds" for w n m
    using ds(2) by (auto split: if_splits option.splits)
  show ?thesis
  proof (cases "snd (run_stages server ?dels [])")
    case False
    then have "sent = ds" "\<not> ok" using run ds(1) by (auto simp: and_run_def prod_eq_iff)
    with first no_app show ?thesis by blast
  next
    case True
    then have run2: "(sent, ok) = createAsync t filesizeParser uuid3 server ?w ds"
      using run ds(1) by (simp add: and_run_def)
    show ?thesis
    proof (cases "applicationFormValuesToApplication filesizeParser uuid3 ?w")
      case (Inl e)
      then have "sent = ds" "\<not> ok" using run2 by (auto simp: createAsync_def)
      with first no_app show ?thesis by blast
    next
      case (Inr c)
      let ?s = "scaler_of (converted_form ?w) c"
      obtain pre x where pre: "\<forall>r \<in> set (sends (concat pre)). prepares r"
        and stages: "create_stages t (converted_form ?w) c = (pre @ [[Send (CreateScaler ?s)]]) @ [[Send (CreateApp x)]]"
        using create_stages_parts [of t "converted_form ?w" c] assms(4,5) by (auto simp: converted_form_def)
      have "DeleteScaler n m \<notin> set (ds @ sends (concat pre))" for n m using pre no_app(2) by auto
      then have "\<not> server (ds @ sends (concat pre)) (CreateScaler ?s)"
        using assms(8-10) by (intro assms(11)) (simp_all add: scaler_of_def applicationFormValuesToModel_def converted_form_def)
      then have fails: "\<not> snd (run_stages server (pre @ [[Send (CreateScaler ?s)]]) ds)"
        unfolding run_stages_ok by (simp add: accepted_append)
      obtain rs where rs: "fst (run_stages server (pre @ [[Send (CreateScaler ?s)]]) ds) = ds @ rs"
        "set rs \<subseteq> set (sends (concat (pre @ [[Send (CreateScaler ?s)]])))"
        using run_stages_sent [of server "pre @ [[Send (CreateScaler ?s)]]" ds] by auto
      have "(sent, ok) = run_stages server (pre @ [[Send (CreateScaler ?s)]]) ds"
        using run2 fails by (simp only: createAsync_def Inr sum.case stages run_stages_append [of server "pre @ [[Send (CreateScaler ?s)]]"] and_run_def if_False)
      with fails rs have "sent = ds @ rs" "\<not> ok" by (auto simp: prod_eq_iff)
      moreover have "CreateApp w \<notin> set rs" for w
      proof
        assume "CreateApp w \<in> set rs"
        then have "CreateApp w \<in> set (sends (concat pre))" using rs(2) by auto
        with pre not_prepares(1) show False by blast
      qed
      ultimately show ?thesis using first no_app by simp
    qed
  qed
qed

section \<open>Witnesses\<close>

lemma web_objects:
  "\<exists>a. applicationFormValuesToApplication (\<lambda>n. n) (\<lambda>n. []) (web_values type scaled) = Inr a \<and>
     wl_Type (ao_app a) = (if type = REPLICATED then DEPLOYMENT else DAEMONSET) \<and> ao_service a = None \<and> ao_claims a = []"
  by (cases type)
    (simp_all add: applicationFormValuesToApplication_def Let_def web_values_def applicationFormValuesToVolumeClaims_def
      application_kind_def applicationFormValuesToService_def service_form_of_def applicationFormValuesToDeployment_def applicationFormValuesToDaemonSet_def common_workload_def
      written_of_def config_uses_def generateAffinityFromPlacements_def)

definition any_difference :: "patch_tests" where
  "any_difference = \<lparr>pt_service = (\<noteq>), pt_claim = (\<noteq>), pt_ingress = (\<noteq>), pt_scaler = (\<noteq>), pt_workload = (\<noteq>)\<rparr>"

definition scaler_exists :: "kube_request server" where
  "scaler_exists h r = (case r of CreateScaler s \<Rightarrow> DeleteScaler (hp_Namespace s) (hp_Name s) \<in> set h | _ \<Rightarrow> True)"

theorem summary_lists_change_witness:
  "\<exists>sent rs. patchAsync any_difference (\<lambda>n. n) (\<lambda>n. []) (\<lambda>n. []) (\<lambda>n. []) (\<lambda>_ _. True) (\<lambda>_. []) (web_values GLOBAL False)
       (web_values REPLICATED True) = (sent, True) \<and>
     getUpdatedApplicationResources any_difference (\<lambda>n. n) (\<lambda>n. []) (\<lambda>n. []) (\<lambda>n. []) (web_values GLOBAL False)
       (web_values REPLICATED True) = Inr rs \<and> map described sent = map brief rs"
proof -
  obtain a where a: "applicationFormValuesToApplication (\<lambda>n. n) (\<lambda>n. []) (web_values GLOBAL False) = Inr a" "wl_Type (ao_app a) = DAEMONSET"
    using web_objects [of GLOBAL False] by auto
  obtain b where b: "applicationFormValuesToApplication (\<lambda>n. n) (\<lambda>n. []) (web_values REPLICATED True) = Inr b" "wl_Type (ao_app b) = DEPLOYMENT" "ao_service b = None"
    using web_objects [of REPLICATED True] by auto
  have again: "converted_form (web_values REPLICATED True) = web_values REPLICATED True"
    by (simp add: converted_form_def web_values_def ownerToLabel_def truncate63_def)
  obtain rs where rs: "getUpdatedApplicationResources any_difference (\<lambda>n. n) (\<lambda>n. []) (\<lambda>n. []) (\<lambda>n. []) (web_values GLOBAL False)
      (web_values REPLICATED True) = Inr rs"
    by (simp add: getUpdatedApplicationResources_def Let_def getCreatedApplicationResources_def again a b
        created_resources_def created_claims_def)
  obtain sent ok where run: "patchAsync any_difference (\<lambda>n. n) (\<lambda>n. []) (\<lambda>n. []) (\<lambda>n. []) (\<lambda>_ _. True) (\<lambda>_. []) (web_values GLOBAL False)
      (web_values REPLICATED True) = (sent, ok)" by force
  from summary_lists_change [OF a(1) b(1) rs run] a(2) b(2) run rs show ?thesis by auto
qed

theorem application_created_last_witness:
  "\<exists>sent w. createAsync any_difference (\<lambda>n. n) (\<lambda>n. []) scaler_exists (web_values REPLICATED False) [] = (sent, True) \<and>
     accepted scaler_exists [] sent \<and> CreateApp w \<in> set sent"
proof -
  obtain a where a: "applicationFormValuesToApplication (\<lambda>n. n) (\<lambda>n. []) (web_values REPLICATED False) = Inr a"
    "wl_Type (ao_app a) = DEPLOYMENT" "ao_service a = None" "ao_claims a = []"
    using web_objects [of REPLICATED False] by auto
  obtain sent where run: "createAsync any_difference (\<lambda>n. n) (\<lambda>n. []) scaler_exists (web_values REPLICATED False) [] = (sent, True)"
    by (simp add: createAsync_def a create_stages_def scaler_exists_def) (simp add: converted_form_def web_values_def scaler_exists_def)
  from application_created_last [OF run] run show ?thesis by blast
qed

lemma stored_objects:
  "\<exists>b. applicationFormValuesToApplication (\<lambda>n. n) (\<lambda>n. []) stored_values = Inr b \<and> wl_Type (ao_app b) = STATEFULSET"
  by (simp add: applicationFormValuesToApplication_def Let_def stored_values_def web_values_def applicationFormValuesToVolumeClaims_def
      application_kind_def applicationFormValuesToService_def service_form_of_def applicationFormValuesToStatefulSet_def common_workload_def
      written_of_def config_uses_def generateAffinityFromPlacements_def new_folder_form_def)

theorem changed_kind_loses_application_witness:
  "\<exists>sent. patchAsync any_difference (\<lambda>n. n) (\<lambda>n. []) (\<lambda>n. []) (\<lambda>n. []) scaler_exists (\<lambda>_. []) (web_values REPLICATED True)
     stored_values = (sent, False) \<and> (\<forall>w. CreateApp w \<notin> set sent)"
proof -
  obtain a where a: "applicationFormValuesToApplication (\<lambda>n. n) (\<lambda>n. []) (web_values REPLICATED True) = Inr a" "wl_Type (ao_app a) = DEPLOYMENT"
    using web_objects [of REPLICATED True] by auto
  obtain b where b: "applicationFormValuesToApplication (\<lambda>n. n) (\<lambda>n. []) stored_values = Inr b" "wl_Type (ao_app b) = STATEFULSET"
    using stored_objects by auto
  obtain sent ok where run: "patchAsync any_difference (\<lambda>n. n) (\<lambda>n. []) (\<lambda>n. []) (\<lambda>n. []) scaler_exists (\<lambda>_. [])
      (web_values REPLICATED True) stored_values = (sent, ok)" by force
  have "wl_Type (ao_app a) \<noteq> wl_Type (ao_app b)" "sg_IsUsed (fv_AutoScaler stored_values)"
    "fv_DeploymentType stored_values \<noteq> GLOBAL" "sg_IsUsed (fv_AutoScaler (web_values REPLICATED True))"
    "fv_DeploymentType (web_values REPLICATED True) \<noteq> GLOBAL" "fv_Name stored_values = fv_Name (web_values REPLICATED True)"
    "fx_Namespace stored_values = fx_Namespace (web_values REPLICATED True)"
    using a(2) b(2) by (simp_all add: stored_values_def web_values_def)
  note facts = this
  have "(hp_Namespace (scaler_of (web_values REPLICATED True) a), hp_Name (scaler_of (web_values REPLICATED True) a)) \<in>
      {(''default'', ''web'')}"
    by (simp add: scaler_of_def applicationFormValuesToModel_def web_values_def)
  from changed_kind_loses_application [OF a(1) b(1) facts this _ run] run show ?thesis by (auto simp: scaler_exists_def)
qed

end
