(* ===== verification/ServiceForm.thy ===== *)
theory ServiceForm
  imports ContainerForm ServiceHelper EnvVars
begin

text \<open>
  The creation of a Swarm service, \<open>app/docker/views/services/create/createServiceController.js\<close>: the rows of the
  form, the request that is built from them one section after the other, and the requests that follow it. The types
  of the request are those of the engine's API and are shared with the page of an existing service
  (\<open>ServicePage\<close>). Processor numbers and sizes are exact rational numbers; what is typed as a number is a whole
  number or nothing.
\<close>

section \<open>The specification of a service\<close>

text \<open>A volume of the engine, and what a mount names: nothing, a volume that was chosen in a list, or a text.\<close>

record volume_object =
  vo_Id :: string
  vo_Labels :: "string obj option"
  vo_Driver :: "string option"
  vo_Options :: "string obj option"

datatype mount_source = NoSource | ObjectSource volume_object | NameSource string

record volume_options =
  vop_Labels :: "string obj option"
  vop_DriverName :: "string option"
  vop_DriverOptions :: "string obj option"

record service_mount =
  smount_Type :: string
  smount_Source :: mount_source
  smount_Target :: string
  smount_ReadOnly :: bool
  smount_VolumeOptions :: "volume_options option"

text \<open>
  A port is missing, \<open>null\<close>, a text or a number. \<open>NaN\<close> and the infinite numbers are sent as \<open>null\<close>.
\<close>

datatype port_field = NoPort | NullPort | TextPort string | NumberPort rat

record swarm_port =
  sport_Protocol :: string
  sport_PublishMode :: string
  sport_TargetPort :: port_field
  sport_PublishedPort :: port_field

record network_attachment =
  na_Target :: "string option"
  na_Aliases :: "string list option"

text \<open>The fields of the container that no page sets are kept together.\<close>

record service_container =
  sct_Image :: string
  sct_Mounts :: "service_mount list"
  sct_Command :: "string list option"
  sct_Args :: "string list option"
  sct_User :: "string option"
  sct_Dir :: "string option"
  sct_Env :: "string list option"
  sct_Labels :: "string obj option"
  sct_Hosts :: "string list option"
  sct_Configs :: "file_ref list option"
  sct_Secrets :: "file_ref list option"
  sct_Rest :: "json obj"

record amounts =
  am_NanoCPUs :: "rat option"
  am_MemoryBytes :: "int option"

record service_resources =
  sres_Limits :: "amounts option"
  sres_Reservations :: "amounts option"
  sres_Rest :: "json obj"

record service_placement =
  spl_Constraints :: "string list option"
  spl_Preferences :: "preference list option"
  spl_Rest :: "json obj"

record task_template =
  stt_ContainerSpec :: service_container
  stt_Placement :: "service_placement option"
  stt_Resources :: "service_resources option"
  stt_RestartPolicy :: "restart_policy option"
  stt_LogDriver :: "log_driver option"
  stt_Networks :: "network_attachment list option"
  stt_ForceUpdate :: "nat option"
  stt_Rest :: "json obj"

text \<open>The update policy of the model, with the fields that the pages never show (the monitored time, the failure ratio).\<close>

record service_update = update_config +
  ucr_Rest :: "json obj"

datatype service_mode = Replicated "nat option" | GlobalMode

record endpoint_spec =
  esp_Mode :: "string option"
  esp_Ports :: "swarm_port list option"

record service_config =
  scfg_Name :: string
  scfg_Labels :: "string obj option"
  scfg_TaskTemplate :: task_template
  scfg_Mode :: service_mode
  scfg_UpdateConfig :: "service_update option"
  scfg_Networks :: "network_attachment list option"
  scfg_EndpointSpec :: "endpoint_spec option"

section \<open>Numbers in texts\<close>

text \<open>
  \<open>+text\<close>: a decimal number with an optional sign, fraction and exponent, a number in base 16, 8 or 2, or 0 for a
  blank text; anything else is \<open>NaN\<close>, and it is sent like the infinite numbers.
\<close>

definition read_exponent :: "string \<Rightarrow> int option" where
  "read_exponent s = (case s of
       [] \<Rightarrow> Some 0
     | c # u \<Rightarrow>
         if c = CHR ''e'' \<or> c = CHR ''E'' then
           (let neg = starts_with u ''-''; ds = (if neg \<or> starts_with u ''+'' then tl u else u)
            in if ds \<noteq> [] \<and> list_all is_digit ds
               then Some (if neg then - int (digits_value ds) else int (digits_value ds)) else None)
         else None)"

definition ten_to :: "int \<Rightarrow> rat" where
  "ten_to e = (if 0 \<le> e then 10 ^ nat e else 1 / 10 ^ nat (- e))"

definition read_decimal :: "string \<Rightarrow> rat option" where
  "read_decimal s =
     (let neg = starts_with s ''-''; t = (if neg \<or> starts_with s ''+'' then tl s else s);
          ds = takeWhile is_digit t; r = dropWhile is_digit t;
          fs = (if starts_with r ''.'' then takeWhile is_digit (tl r) else []);
          e = (if starts_with r ''.'' then dropWhile is_digit (tl r) else r);
          n = of_nat (digits_value (ds @ fs)) :: rat
      in if ds @ fs = [] then None
         else map_option (\<lambda>x. (if neg then - n else n) * ten_to (x - int (length fs))) (read_exponent e))"

definition base_digit :: "char \<Rightarrow> nat" where
  "base_digit c = (if is_digit c then digit_value c
     else let d = of_char (lower_char c) :: nat in if 97 \<le> d \<and> d \<le> 102 then d - 87 else 16)"

definition read_base :: "nat \<Rightarrow> string \<Rightarrow> rat option" where
  "read_base b ds =
     (if ds \<noteq> [] \<and> list_all (\<lambda>c. base_digit c < b) ds
      then Some (of_nat (foldl (\<lambda>n c. b * n + base_digit c) 0 ds)) else None)"

definition text_number :: "string \<Rightarrow> rat option" where
  "text_number s =
     (let t = trim s; p = to_lower (take 2 t)
      in if t = [] then Some 0
         else if p = ''0x'' then read_base 16 (drop 2 t)
         else if p = ''0o'' then read_base 8 (drop 2 t)
         else if p = ''0b'' then read_base 2 (drop 2 t)
         else read_decimal t)"

fun truthy_port :: "port_field \<Rightarrow> bool" where
  "truthy_port NoPort = False"
| "truthy_port NullPort = False"
| "truthy_port (TextPort s) = (s \<noteq> [])"
| "truthy_port (NumberPort r) = (r \<noteq> 0)"

definition number_field :: "rat option \<Rightarrow> port_field" where
  "number_field n = (case n of None \<Rightarrow> NullPort | Some r \<Rightarrow> NumberPort r)"

fun port_number :: "port_field \<Rightarrow> port_field" where
  "port_number NoPort = NullPort"
| "port_number NullPort = NumberPort 0"
| "port_number (TextPort s) = number_field (text_number s)"
| "port_number (NumberPort r) = NumberPort r"

section \<open>The form\<close>

record volume_choice =
  vc_Type :: string
  vc_Source :: mount_source
  vc_Target :: string
  vc_ReadOnly :: bool

record config_choice =
  cc_model :: "flat_file option"
  cc_FileName :: "string option"

record secret_choice =
  sch_model :: "flat_file option"
  sch_overrideTarget :: bool
  sch_target :: "string option"

record driver_opt =
  dopt_name :: string
  dopt_value :: string

record swarm_form =
  svf_Name :: string
  svf_RegistryModel :: image_model
  svf_Mode :: string
  svf_Replicas :: "nat option"
  svf_Command :: string
  svf_EntryPoint :: string
  svf_WorkingDir :: string
  svf_User :: string
  svf_Env :: "env_var list"
  svf_Labels :: "label list"
  svf_ContainerLabels :: "label list"
  svf_Volumes :: "volume_choice list"
  svf_Network :: string
  svf_ExtraNetworks :: "string list"
  svf_HostsEntries :: "string option list"
  svf_Ports :: "swarm_port list"
  svf_Parallelism :: "nat option"
  svf_PlacementConstraints :: "constraint_row list"
  svf_PlacementPreferences :: "preference_row list"
  svf_UpdateDelay :: string
  svf_UpdateOrder :: string
  svf_FailureAction :: string
  svf_Secrets :: "secret_choice list"
  svf_Configs :: "config_choice list"
  svf_AccessControlData :: access_form
  svf_CpuLimit :: rat
  svf_CpuReservation :: rat
  svf_MemoryLimit :: rat
  svf_MemoryReservation :: rat
  svf_MemoryLimitUnit :: string
  svf_MemoryReservationUnit :: string
  svf_RestartCondition :: string
  svf_RestartDelay :: string
  svf_RestartMaxAttempts :: "nat option"
  svf_RestartWindow :: string
  svf_LogDriverName :: string
  svf_LogDriverOpts :: "driver_opt list"
  svf_Webhook :: bool

definition initial_swarm_form :: "image_model \<Rightarrow> swarm_form" where
  "initial_swarm_form img =
     \<lparr>svf_Name = [], svf_RegistryModel = img, svf_Mode = ''replicated'', svf_Replicas = Some 1, svf_Command = [],
      svf_EntryPoint = [], svf_WorkingDir = [], svf_User = [], svf_Env = [], svf_Labels = [], svf_ContainerLabels = [],
      svf_Volumes = [], svf_Network = [], svf_ExtraNetworks = [], svf_HostsEntries = [], svf_Ports = [],
      svf_Parallelism = Some 1, svf_PlacementConstraints = [], svf_PlacementPreferences = [], svf_UpdateDelay = ''0s'',
      svf_UpdateOrder = ''stop-first'', svf_FailureAction = ''pause'', svf_Secrets = [], svf_Configs = [],
      svf_AccessControlData = AccessControlFormData, svf_CpuLimit = 0, svf_CpuReservation = 0, svf_MemoryLimit = 0,
      svf_MemoryReservation = 0, svf_MemoryLimitUnit = ''MB'', svf_MemoryReservationUnit = ''MB'',
      svf_RestartCondition = ''any'', svf_RestartDelay = ''5s'', svf_RestartMaxAttempts = Some 0,
      svf_RestartWindow = ''0s'', svf_LogDriverName = [], svf_LogDriverOpts = [], svf_Webhook = False\<rparr>"

text \<open>The buttons that add a row and remove one. The text of a new host entry is missing until it is typed.\<close>

definition add_port_row :: "swarm_form \<Rightarrow> swarm_form" where
  "add_port_row f = f\<lparr>svf_Ports := svf_Ports f @ [\<lparr>sport_Protocol = ''tcp'', sport_PublishMode = ''ingress'',
     sport_TargetPort = TextPort [], sport_PublishedPort = TextPort []\<rparr>]\<rparr>"

definition remove_port_row :: "nat \<Rightarrow> swarm_form \<Rightarrow> swarm_form" where
  "remove_port_row i f = f\<lparr>svf_Ports := remove_at i (svf_Ports f)\<rparr>"

definition addExtraNetwork :: "swarm_form \<Rightarrow> swarm_form" where
  "addExtraNetwork f = f\<lparr>svf_ExtraNetworks := svf_ExtraNetworks f @ [[]]\<rparr>"

definition removeExtraNetwork :: "nat \<Rightarrow> swarm_form \<Rightarrow> swarm_form" where
  "removeExtraNetwork i f = f\<lparr>svf_ExtraNetworks := remove_at i (svf_ExtraNetworks f)\<rparr>"

definition add_host_row :: "swarm_form \<Rightarrow> swarm_form" where
  "add_host_row f = f\<lparr>svf_HostsEntries := svf_HostsEntries f @ [None]\<rparr>"

definition remove_host_row :: "nat \<Rightarrow> swarm_form \<Rightarrow> swarm_form" where
  "remove_host_row i f = f\<lparr>svf_HostsEntries := remove_at i (svf_HostsEntries f)\<rparr>"

definition add_volume_row :: "swarm_form \<Rightarrow> swarm_form" where
  "add_volume_row f = f\<lparr>svf_Volumes := svf_Volumes f @
     [\<lparr>vc_Type = ''volume'', vc_Source = NoSource, vc_Target = [], vc_ReadOnly = False\<rparr>]\<rparr>"

definition remove_volume_row :: "nat \<Rightarrow> swarm_form \<Rightarrow> swarm_form" where
  "remove_volume_row i f = f\<lparr>svf_Volumes := remove_at i (svf_Volumes f)\<rparr>"

definition add_config_row :: "swarm_form \<Rightarrow> swarm_form" where
  "add_config_row f = f\<lparr>svf_Configs := svf_Configs f @ [\<lparr>cc_model = None, cc_FileName = None\<rparr>]\<rparr>"

definition remove_config_row :: "nat \<Rightarrow> swarm_form \<Rightarrow> swarm_form" where
  "remove_config_row i f = f\<lparr>svf_Configs := remove_at i (svf_Configs f)\<rparr>"

definition add_secret_row :: "swarm_form \<Rightarrow> swarm_form" where
  "add_secret_row f = f\<lparr>svf_Secrets := svf_Secrets f @
     [\<lparr>sch_model = None, sch_overrideTarget = False, sch_target = None\<rparr>]\<rparr>"

definition remove_secret_row :: "nat \<Rightarrow> swarm_form \<Rightarrow> swarm_form" where
  "remove_secret_row i f = f\<lparr>svf_Secrets := remove_at i (svf_Secrets f)\<rparr>"

definition empty_constraint :: constraint_row where
  "empty_constraint =
     \<lparr>crow_key = [], crow_value = [], crow_operator = ''=='', crow_originalKey = [], crow_originalValue = []\<rparr>"

definition add_constraint_row :: "swarm_form \<Rightarrow> swarm_form" where
  "add_constraint_row f = f\<lparr>svf_PlacementConstraints := svf_PlacementConstraints f @ [empty_constraint]\<rparr>"

definition remove_constraint_row :: "nat \<Rightarrow> swarm_form \<Rightarrow> swarm_form" where
  "remove_constraint_row i f = f\<lparr>svf_PlacementConstraints := remove_at i (svf_PlacementConstraints f)\<rparr>"

definition add_preference_row :: "swarm_form \<Rightarrow> swarm_form" where
  "add_preference_row f = f\<lparr>svf_PlacementPreferences := svf_PlacementPreferences f @
     [\<lparr>pref_strategy = Some ''spread'', pref_value = Some []\<rparr>]\<rparr>"

definition remove_preference_row :: "nat \<Rightarrow> swarm_form \<Rightarrow> swarm_form" where
  "remove_preference_row i f = f\<lparr>svf_PlacementPreferences := remove_at i (svf_PlacementPreferences f)\<rparr>"

definition add_service_label :: "swarm_form \<Rightarrow> swarm_form" where
  "add_service_label f = f\<lparr>svf_Labels := svf_Labels f @ [\<lparr>label_key = [], label_value = []\<rparr>]\<rparr>"

definition remove_service_label :: "nat \<Rightarrow> swarm_form \<Rightarrow> swarm_form" where
  "remove_service_label i f = f\<lparr>svf_Labels := remove_at i (svf_Labels f)\<rparr>"

definition add_container_label :: "swarm_form \<Rightarrow> swarm_form" where
  "add_container_label f = f\<lparr>svf_ContainerLabels := svf_ContainerLabels f @ [\<lparr>label_key = [], label_value = []\<rparr>]\<rparr>"

definition remove_container_label :: "nat \<Rightarrow> swarm_form \<Rightarrow> swarm_form" where
  "remove_container_label i f = f\<lparr>svf_ContainerLabels := remove_at i (svf_ContainerLabels f)\<rparr>"

definition add_driver_row :: "swarm_form \<Rightarrow> swarm_form" where
  "add_driver_row f = f\<lparr>svf_LogDriverOpts := svf_LogDriverOpts f @ [\<lparr>dopt_name = [], dopt_value = []\<rparr>]\<rparr>"

definition remove_driver_row :: "nat \<Rightarrow> swarm_form \<Rightarrow> swarm_form" where
  "remove_driver_row i f = f\<lparr>svf_LogDriverOpts := remove_at i (svf_LogDriverOpts f)\<rparr>"

section \<open>From the form to the request\<close>

definition with_container :: "(service_container \<Rightarrow> service_container) \<Rightarrow> service_config \<Rightarrow> service_config" where
  "with_container h c = c\<lparr>scfg_TaskTemplate := (scfg_TaskTemplate c)
     \<lparr>stt_ContainerSpec := h (stt_ContainerSpec (scfg_TaskTemplate c))\<rparr>\<rparr>"

definition prepareImageConfig :: "swarm_form \<Rightarrow> service_config \<Rightarrow> service_config" where
  "prepareImageConfig f = with_container (sct_Image_update (\<lambda>_. createImageConfigForContainer (svf_RegistryModel f)))"

definition publish_row :: "swarm_port \<Rightarrow> swarm_port option" where
  "publish_row b =
     (if truthy_port (sport_TargetPort b)
      then Some (b\<lparr>sport_TargetPort := port_number (sport_TargetPort b),
        sport_PublishedPort := (if truthy_port (sport_PublishedPort b) then port_number (sport_PublishedPort b) else NoPort)\<rparr>)
      else None)"

definition preparePortsConfig :: "swarm_form \<Rightarrow> service_config \<Rightarrow> service_config" where
  "preparePortsConfig f c = c\<lparr>scfg_EndpointSpec := map_option
     (\<lambda>e. e\<lparr>esp_Ports := Some (without_undefined (map publish_row (svf_Ports f)))\<rparr>) (scfg_EndpointSpec c)\<rparr>"

definition prepareSchedulingConfig :: "swarm_form \<Rightarrow> service_config \<Rightarrow> service_config" where
  "prepareSchedulingConfig f c =
     c\<lparr>scfg_Mode := (if svf_Mode f = ''replicated'' then Replicated (svf_Replicas f) else GlobalMode)\<rparr>"

text \<open>Every second piece between quotes is one argument, the others are cut at the blanks; empty pieces are dropped.\<close>

fun command_tokens :: "bool \<Rightarrow> string list \<Rightarrow> string list" where
  "command_tokens quoted [] = []"
| "command_tokens quoted (p # ps) =
     (if quoted then [p] else split_char CHR '' '' p) @ command_tokens (\<not> quoted) ps"

definition commandToArray :: "string \<Rightarrow> string list" where
  "commandToArray cmd = filter (\<lambda>t. t \<noteq> []) (command_tokens False (split_char CHR 0x27 cmd))"

definition prepareCommandConfig :: "swarm_form \<Rightarrow> service_config \<Rightarrow> service_config" where
  "prepareCommandConfig f = with_container (\<lambda>s. s
     \<lparr>sct_Command := (if svf_EntryPoint f \<noteq> [] then Some (commandToArray (svf_EntryPoint f)) else sct_Command s),
      sct_Args := (if svf_Command f \<noteq> [] then Some (commandToArray (svf_Command f)) else sct_Args s),
      sct_User := (if svf_User f \<noteq> [] then Some (svf_User f) else sct_User s),
      sct_Dir := (if svf_WorkingDir f \<noteq> [] then Some (svf_WorkingDir f) else sct_Dir s)\<rparr>)"

definition prepareEnvConfig :: "swarm_form \<Rightarrow> service_config \<Rightarrow> service_config" where
  "prepareEnvConfig f = with_container (sct_Env_update (\<lambda>_. Some (convertToArrayOfStrings (Some (svf_Env f)))))"

definition prepareServiceLabels :: "swarm_form \<Rightarrow> service_config \<Rightarrow> service_config" where
  "prepareServiceLabels f c =
     with_container (sct_Labels_update (\<lambda>_. Some (fromKeyValueToLabelHash (Some (svf_ContainerLabels f)))))
       (c\<lparr>scfg_Labels := Some (fromKeyValueToLabelHash (Some (svf_Labels f)))\<rparr>)"

text \<open>The fields of a text in place of a volume are missing.\<close>

fun chosen_volume :: "mount_source \<Rightarrow> volume_object option" where
  "chosen_volume (ObjectSource v) = Some v"
| "chosen_volume _ = None"

definition createMountObjectFromVolume :: "mount_source \<Rightarrow> string \<Rightarrow> bool \<Rightarrow> service_mount" where
  "createMountObjectFromVolume src target readonly =
     \<lparr>smount_Type = ''volume'',
      smount_Source = (case chosen_volume src of None \<Rightarrow> NoSource | Some v \<Rightarrow> NameSource (vo_Id v)),
      smount_Target = target, smount_ReadOnly = readonly,
      smount_VolumeOptions = Some \<lparr>vop_Labels = Option.bind (chosen_volume src) vo_Labels,
        vop_DriverName = Option.bind (chosen_volume src) vo_Driver,
        vop_DriverOptions = Option.bind (chosen_volume src) vo_Options\<rparr>\<rparr>"

fun truthy_source :: "mount_source \<Rightarrow> bool" where
  "truthy_source NoSource = False"
| "truthy_source (ObjectSource v) = True"
| "truthy_source (NameSource s) = (s \<noteq> [])"

definition mount_of_choice :: "volume_choice \<Rightarrow> service_mount option" where
  "mount_of_choice v =
     (if truthy_source (vc_Source v) \<and> vc_Target v \<noteq> []
      then Some (if vc_Type v \<noteq> ''volume''
        then \<lparr>smount_Type = vc_Type v, smount_Source = vc_Source v, smount_Target = vc_Target v,
              smount_ReadOnly = vc_ReadOnly v, smount_VolumeOptions = None\<rparr>
        else createMountObjectFromVolume (vc_Source v) (vc_Target v) (vc_ReadOnly v))
      else None)"

definition prepare_service_volumes :: "swarm_form \<Rightarrow> service_config \<Rightarrow> service_config" where
  "prepare_service_volumes f =
     with_container (sct_Mounts_update (\<lambda>ms. ms @ without_undefined (map mount_of_choice (svf_Volumes f))))"

text \<open>Two networks are equal when they have the same target: the first of them stays.\<close>

definition prepareNetworks :: "swarm_form \<Rightarrow> service_config \<Rightarrow> service_config" where
  "prepareNetworks f c = c\<lparr>scfg_Networks := Some (map (\<lambda>t. \<lparr>na_Target = Some t, na_Aliases = None\<rparr>)
     (uniq_by (\<lambda>t. t) ((if svf_Network f \<noteq> [] then [svf_Network f] else []) @ svf_ExtraNetworks f)))\<rparr>"

text \<open>
  The test \<open>indexOf(':')\<close> as a truth value fails only for an entry that starts with a colon; an entry has one colon.
\<close>

definition host_line :: "string option \<Rightarrow> string option" where
  "host_line v = (case v of
       None \<Rightarrow> None
     | Some s \<Rightarrow>
         (let kv = split_char CHR '':'' s
          in if s \<noteq> [] \<and> js_index_of s '':'' \<noteq> 0 \<and> length kv = 2 then Some (kv ! 1 @ '' '' @ kv ! 0) else None))"

definition prepareHostsEntries :: "swarm_form \<Rightarrow> service_config \<Rightarrow> service_config" where
  "prepareHostsEntries f =
     (let hs = without_undefined (map host_line (svf_HostsEntries f))
      in if hs \<noteq> [] then with_container (sct_Hosts_update (\<lambda>_. Some hs)) else (\<lambda>c. c))"

definition nanos_or :: "(nat \<Rightarrow> string \<Rightarrow> nat) \<Rightarrow> string \<Rightarrow> nat \<Rightarrow> nat" where
  "nanos_or as_ms s d = or_nat (translateHumanDurationToNanos as_ms s) d"

definition prepareUpdateConfig :: "(nat \<Rightarrow> string \<Rightarrow> nat) \<Rightarrow> swarm_form \<Rightarrow> service_config \<Rightarrow> service_config" where
  "prepareUpdateConfig as_ms f c = c\<lparr>scfg_UpdateConfig := Some
     \<lparr>uc_Parallelism = Some (or_nat (svf_Parallelism f) 0), uc_Delay = Some (nanos_or as_ms (svf_UpdateDelay f) 0),
      uc_FailureAction = Some (svf_FailureAction f), uc_Order = Some (svf_UpdateOrder f), ucr_Rest = []\<rparr>\<rparr>"

definition with_template :: "(task_template \<Rightarrow> task_template) \<Rightarrow> service_config \<Rightarrow> service_config" where
  "with_template h c = c\<lparr>scfg_TaskTemplate := h (scfg_TaskTemplate c)\<rparr>"

definition prepareRestartPolicy :: "(nat \<Rightarrow> string \<Rightarrow> nat) \<Rightarrow> swarm_form \<Rightarrow> service_config \<Rightarrow> service_config" where
  "prepareRestartPolicy as_ms f = with_template (stt_RestartPolicy_update (\<lambda>_. Some
     \<lparr>rp_Condition = Some (or_str (Some (svf_RestartCondition f)) ''any''),
      rp_Delay = Some (nanos_or as_ms (svf_RestartDelay f) 5000000000),
      rp_MaxAttempts = Some (or_nat (svf_RestartMaxAttempts f) 0),
      rp_Window = Some (nanos_or as_ms (svf_RestartWindow f) 0)\<rparr>))"

definition preparePlacementConfig :: "swarm_form \<Rightarrow> service_config \<Rightarrow> service_config" where
  "preparePlacementConfig f = with_template (stt_Placement_update (map_option (\<lambda>p. p
     \<lparr>spl_Constraints := Some (translateKeyValueToPlacementConstraints (Some (svf_PlacementConstraints f))),
      spl_Preferences := Some (map Some (translateKeyValueToPlacementPreferences (Some (svf_PlacementPreferences f))))\<rparr>)))"

definition name_file :: "string option \<Rightarrow> file_ref \<Rightarrow> file_ref" where
  "name_file n r = r\<lparr>fr_File := (fr_File r)\<lparr>ft_Name := n\<rparr>\<rparr>"

definition config_of_choice :: "config_choice \<Rightarrow> file_ref option" where
  "config_of_choice c = map_option (\<lambda>s. name_file (or_opt (cc_FileName c) (ft_Name (fr_File s))) s) (configConfig (cc_model c))"

definition prepareConfigConfig :: "swarm_form \<Rightarrow> service_config \<Rightarrow> service_config" where
  "prepareConfigConfig f =
     with_container (sct_Configs_update (\<lambda>_. Some (without_undefined (map config_of_choice (svf_Configs f)))))"

definition secret_of_choice :: "secret_choice \<Rightarrow> file_ref option" where
  "secret_of_choice c = map_option (\<lambda>s. name_file
     (if sch_overrideTarget c \<and> truthy_str (sch_target c) then sch_target c else Some (fr_RefName s)) s)
     (secretConfig (sch_model c))"

definition prepareSecretConfig :: "swarm_form \<Rightarrow> service_config \<Rightarrow> service_config" where
  "prepareSecretConfig f =
     with_container (sct_Secrets_update (\<lambda>_. Some (without_undefined (map secret_of_choice (svf_Secrets f)))))"

definition set_limit :: "(amounts \<Rightarrow> amounts) \<Rightarrow> service_config \<Rightarrow> service_config" where
  "set_limit h = with_template (stt_Resources_update (map_option (sres_Limits_update (map_option h))))"

definition set_reservation :: "(amounts \<Rightarrow> amounts) \<Rightarrow> service_config \<Rightarrow> service_config" where
  "set_reservation h = with_template (stt_Resources_update (map_option (sres_Reservations_update (map_option h))))"

definition prepareResourcesCpuConfig :: "swarm_form \<Rightarrow> service_config \<Rightarrow> service_config" where
  "prepareResourcesCpuConfig f c =
     (let c1 = (if svf_CpuLimit f > 0 then set_limit (am_NanoCPUs_update (\<lambda>_. Some (svf_CpuLimit f * 1000000000))) c else c)
      in if svf_CpuReservation f > 0
         then set_reservation (am_NanoCPUs_update (\<lambda>_. Some (svf_CpuReservation f * 1000000000))) c1 else c1)"

text \<open>A size is rounded to one eighth of a megabyte, which three decimals show exactly, and counted in bytes.\<close>

definition bytes_of :: "rat \<Rightarrow> string \<Rightarrow> int" where
  "bytes_of n unit = (let b = js_round (n * 8) * 131072 in if unit = ''GB'' then b * 1024 else b)"

definition prepareResourcesMemoryConfig :: "swarm_form \<Rightarrow> service_config \<Rightarrow> service_config" where
  "prepareResourcesMemoryConfig f c =
     (let l = bytes_of (svf_MemoryLimit f) (svf_MemoryLimitUnit f);
          r = bytes_of (svf_MemoryReservation f) (svf_MemoryReservationUnit f);
          c1 = (if l > 0 then set_limit (am_MemoryBytes_update (\<lambda>_. Some l)) c else c)
      in if r > 0 then set_reservation (am_MemoryBytes_update (\<lambda>_. Some r)) c1 else c1)"

definition driver_options :: "driver_opt list \<Rightarrow> string obj" where
  "driver_options opts = fold (\<lambda>d ob. if dopt_name d \<noteq> [] then obj_set ob (dopt_name d) (dopt_value d) else ob) opts []"

definition log_driver_of :: "string \<Rightarrow> string obj \<Rightarrow> log_driver" where
  "log_driver_of name opts =
     \<lparr>ld_Name = Some name, ld_Options = (if name \<noteq> ''none'' \<and> opts \<noteq> [] then Some opts else None)\<rparr>"

definition prepareLogDriverConfig :: "swarm_form \<Rightarrow> service_config \<Rightarrow> service_config" where
  "prepareLogDriverConfig f c =
     (if svf_LogDriverName f = [] then c
      else with_template (stt_LogDriver_update (\<lambda>_.
        Some (log_driver_of (svf_LogDriverName f) (driver_options (svf_LogDriverOpts f))))) c)"

definition no_amounts :: amounts where
  "no_amounts = \<lparr>am_NanoCPUs = None, am_MemoryBytes = None\<rparr>"

definition empty_service_config :: "string \<Rightarrow> service_config" where
  "empty_service_config name =
     \<lparr>scfg_Name = name, scfg_Labels = None,
      scfg_TaskTemplate =
        \<lparr>stt_ContainerSpec = \<lparr>sct_Image = [], sct_Mounts = [], sct_Command = None, sct_Args = None, sct_User = None,
           sct_Dir = None, sct_Env = None, sct_Labels = None, sct_Hosts = None, sct_Configs = None, sct_Secrets = None,
           sct_Rest = []\<rparr>,
         stt_Placement = Some \<lparr>spl_Constraints = None, spl_Preferences = None, spl_Rest = []\<rparr>,
         stt_Resources = Some \<lparr>sres_Limits = Some no_amounts, sres_Reservations = Some no_amounts, sres_Rest = []\<rparr>,
         stt_RestartPolicy = None, stt_LogDriver = None, stt_Networks = None, stt_ForceUpdate = None, stt_Rest = []\<rparr>,
      scfg_Mode = GlobalMode, scfg_UpdateConfig = None, scfg_Networks = None,
      scfg_EndpointSpec = Some \<lparr>esp_Mode = None, esp_Ports = None\<rparr>\<rparr>"

definition service_configuration :: "(nat \<Rightarrow> string \<Rightarrow> nat) \<Rightarrow> swarm_form \<Rightarrow> service_config" where
  "service_configuration as_ms f =
     (prepareLogDriverConfig f \<circ> prepareRestartPolicy as_ms f \<circ> prepareResourcesMemoryConfig f \<circ>
      prepareResourcesCpuConfig f \<circ> preparePlacementConfig f \<circ> prepareSecretConfig f \<circ> prepareConfigConfig f \<circ>
      prepareUpdateConfig as_ms f \<circ> prepareHostsEntries f \<circ> prepareNetworks f \<circ> prepare_service_volumes f \<circ>
      prepareServiceLabels f \<circ> prepareEnvConfig f \<circ> prepareCommandConfig f \<circ> preparePortsConfig f \<circ>
      prepareImageConfig f \<circ> prepareSchedulingConfig f) (empty_service_config (svf_Name f))"

section \<open>The requests of the creation\<close>

record new_service =
  ns_ID :: string
  ns_Control :: "rc_data option"

datatype service_call = PostService service_config | PostControl rc_request | PostWebhook string nat

record service_server =
  srv_create :: "service_config \<Rightarrow> string + new_service"
  srv_accepts :: "service_call list \<Rightarrow> service_call \<Rightarrow> bool"

record creation_result =
  cre_calls :: "service_call list"
  cre_created :: bool
  cre_failed :: bool
  cre_validationError :: string
  cre_inProgress :: bool

text \<open>
  The control of the new service and its webhook are requested together, whatever the first answer is. Without a
  control in the answer the handler throws, and nothing more is sent.
\<close>

definition createNewService ::
    "service_server \<Rightarrow> nat \<Rightarrow> nat \<Rightarrow> nat \<Rightarrow> swarm_form \<Rightarrow> service_config \<Rightarrow> creation_result" where
  "createNewService srv userId endpointId endpointType f config =
     (let stop = (\<lambda>calls ok. \<lparr>cre_calls = calls, cre_created = ok, cre_failed = \<not> ok, cre_validationError = [],
                     cre_inProgress = False\<rparr>)
      in case srv_create srv config of
           Inl e \<Rightarrow> stop [PostService config] False
         | Inr new \<Rightarrow> (case ns_Control new of
               None \<Rightarrow> stop [PostService config] False
             | Some rc \<Rightarrow>
                 (let c1 = PostControl (applyResourceControl userId (svf_AccessControlData f) rc []);
                      hooks = (if endpointType \<noteq> 4 \<and> svf_Webhook f then [PostWebhook (ns_ID new) endpointId] else [])
                  in stop ([PostService config, c1] @ hooks)
                       (srv_accepts srv [PostService config] c1 \<and>
                        list_all (srv_accepts srv [PostService config, c1]) hooks))))"

definition volumesAreValid :: "swarm_form \<Rightarrow> bool" where
  "volumesAreValid f = list_all (\<lambda>v. vc_Target v \<noteq> [] \<and> truthy_source (vc_Source v)) (svf_Volumes f)"

definition createService ::
    "(nat \<Rightarrow> string \<Rightarrow> nat) \<Rightarrow> service_server \<Rightarrow> nat \<Rightarrow> bool \<Rightarrow> nat \<Rightarrow> nat \<Rightarrow> swarm_form \<Rightarrow> creation_result" where
  "createService as_ms srv userId isAdmin endpointId endpointType f =
     (let e = validateAccessControl (svf_AccessControlData f) isAdmin
      in if e \<noteq> [] then \<lparr>cre_calls = [], cre_created = False, cre_failed = False, cre_validationError = e,
           cre_inProgress = False\<rparr>
         else createNewService srv userId endpointId endpointType f (service_configuration as_ms f))"

text \<open>The greatest processor number and memory of the nodes set the range of the sliders.\<close>

definition initSlidersMaxValuesBasedOnNodeData :: "(nat option \<times> nat option) list \<Rightarrow> rat \<times> int" where
  "initSlidersMaxValuesBasedOnNodeData nodes =
     (let top = (\<lambda>vs. fold (\<lambda>v m. if or_nat v 0 > m then or_nat v 0 else m) vs (0 :: nat));
          c = top (map fst nodes); m = top (map snd nodes)
      in (if c > 0 then of_nat c / 1000000000 else 32, if m > 0 then int (m div 1000000) else 32768))"

section \<open>Commands\<close>

lemma split_char_quoted:
  assumes "c \<notin> set t"
  shows "split_char c (t @ c # s) = t # split_char c s"
  using assms by (induction t) auto

text \<open>
  Arguments that are written between quotes and separated by blanks are passed to the command of the service as
  they were written, blanks included, as long as they are not empty and hold no quote.
\<close>

theorem quoted_arguments_kept:
  assumes "\<forall>t \<in> set ts. t \<noteq> [] \<and> CHR 0x27 \<notin> set t"
  shows "commandToArray (join '' '' (map (\<lambda>t. CHR 0x27 # t @ [CHR 0x27]) ts)) = ts"
proof -
  let ?q = "\<lambda>t. CHR 0x27 # t @ [CHR 0x27]"
  have "filter (\<lambda>t. t \<noteq> []) (command_tokens False (split_char CHR 0x27 (join '' '' (map ?q ts)))) = ts"
    using assms
  proof (induction ts rule: induct_list012)
    case (2 t)
    then show ?case using split_char_quoted [of "CHR 0x27" t "[]"] by simp
  next
    case (3 t u us)
    have cut: "split_char CHR 0x27 (join '' '' (map ?q (t # u # us))) =
        [] # t # split_char CHR 0x27 (CHR '' '' # join '' '' (map ?q (u # us)))"
      using 3(3) split_char_quoted [of "CHR 0x27" t] by simp
    have open_quote: "join '' '' (map ?q (u # us)) = CHR 0x27 # (u @ CHR 0x27 # drop (Suc (Suc (length u))) (join '' '' (map ?q (u # us))))"
      by (cases us) simp_all
    then obtain rest where rest: "join '' '' (map ?q (u # us)) = CHR 0x27 # rest" by blast
    have "filter (\<lambda>t. t \<noteq> []) (command_tokens False (split_char CHR 0x27 (CHR '' '' # join '' '' (map ?q (u # us))))) =
        filter (\<lambda>t. t \<noteq> []) (command_tokens False (split_char CHR 0x27 (join '' '' (map ?q (u # us)))))"
      unfolding rest by simp
    with 3 cut show ?case by simp
  qed simp
  then show ?thesis by (simp add: commandToArray_def)
qed

theorem quoted_arguments_kept_witness:
  "commandToArray (join '' '' (map (\<lambda>t. CHR 0x27 # t @ [CHR 0x27]) [''sh'', ''-c'', ''echo a b''])) = [''sh'', ''-c'', ''echo a b'']"
  by (rule quoted_arguments_kept) simp

end
