(* ===== verification/ServicePage.thy ===== *)
theory ServicePage
  imports ServiceForm DockerModels
begin

text \<open>
  The page of an existing Swarm service, \<open>app/docker/views/services/edit/serviceController.js\<close>: how a service is
  loaded into rows, how the rows are edited, what is tracked as changed, what cancelling restores, and the
  specification that an update, a rollback and a forced update send.

  The page keeps two copies of the service, and cancelling assigns the arrays of the original to the copy that is
  edited: from then on both copies hold the same array. Arrays are only ever shared between the two copies of one
  attribute, so the page records which attributes are shared, and a change made in place reaches both copies. The
  specification \<open>Model\<close> is itself changed when a request is built, and its mounts become the array of the rows.
\<close>

section \<open>The service as it is edited\<close>

record env_row = env_var +
  env_added :: bool

record service_network =
  sn_Id :: "string option"
  sn_Name :: "string option"
  sn_Addr :: "string option"
  sn_Editable :: bool

datatype attribute =
    Attr_Model | Attr_Name | Attr_Image | Attr_Mode | Attr_Replicas | Attr_Webhooks
  | Attr_EnvironmentVariables | Attr_ServiceConfigs | Attr_ServiceSecrets | Attr_ServiceLabels
  | Attr_ServiceContainerLabels | Attr_ServiceMounts | Attr_Networks | Attr_ServiceConstraints
  | Attr_ServicePreferences | Attr_Ports | Attr_Hosts | Attr_LogDriverName | Attr_LogDriverOpts
  | Attr_LimitNanoCPUs | Attr_LimitMemoryBytes | Attr_ReservationNanoCPUs | Attr_ReservationMemoryBytes
  | Attr_UpdateFailureAction | Attr_UpdateDelay | Attr_UpdateParallelism | Attr_UpdateOrder
  | Attr_RestartCondition | Attr_RestartDelay | Attr_RestartMaxAttempts | Attr_RestartWindow

text \<open>\<open>Model\<close> is the specification inside the answer of the engine. A list that may be missing is an option.\<close>

record edited =
  ed_Model :: service_config
  ed_Name :: string
  ed_Image :: string
  ed_Mode :: string
  ed_Replicas :: "nat option"
  ed_EnvironmentVariables :: "env_row list"
  ed_ServiceConfigs :: "flat_file list"
  ed_ServiceSecrets :: "flat_file list"
  ed_ServiceLabels :: "label_row list"
  ed_ServiceContainerLabels :: "label_row list"
  ed_ServiceMounts :: "service_mount list"
  ed_Networks :: "service_network list option"
  ed_ServiceConstraints :: "constraint_row list"
  ed_ServicePreferences :: "preference_row list"
  ed_Ports :: "swarm_port list option"
  ed_Hosts :: "host_entry list"
  ed_LogDriverName :: string
  ed_LogDriverOpts :: "option_row list"
  ed_LimitNanoCPUs :: rat
  ed_LimitMemoryBytes :: rat
  ed_ReservationNanoCPUs :: rat
  ed_ReservationMemoryBytes :: rat
  ed_UpdateFailureAction :: string
  ed_UpdateDelay :: string
  ed_UpdateParallelism :: "nat option"
  ed_UpdateOrder :: string
  ed_RestartCondition :: string
  ed_RestartDelay :: string
  ed_RestartMaxAttempts :: "nat option"
  ed_RestartWindow :: string

text \<open>Whether two copies have the same value of an attribute, and the copying of an attribute.\<close>

fun same_attr :: "attribute \<Rightarrow> edited \<Rightarrow> edited \<Rightarrow> bool" where
  "same_attr Attr_Model x y = (ed_Model x = ed_Model y)"
| "same_attr Attr_Name x y = (ed_Name x = ed_Name y)"
| "same_attr Attr_Image x y = (ed_Image x = ed_Image y)"
| "same_attr Attr_Mode x y = (ed_Mode x = ed_Mode y)"
| "same_attr Attr_Replicas x y = (ed_Replicas x = ed_Replicas y)"
| "same_attr Attr_Webhooks x y = True"
| "same_attr Attr_EnvironmentVariables x y = (ed_EnvironmentVariables x = ed_EnvironmentVariables y)"
| "same_attr Attr_ServiceConfigs x y = (ed_ServiceConfigs x = ed_ServiceConfigs y)"
| "same_attr Attr_ServiceSecrets x y = (ed_ServiceSecrets x = ed_ServiceSecrets y)"
| "same_attr Attr_ServiceLabels x y = (ed_ServiceLabels x = ed_ServiceLabels y)"
| "same_attr Attr_ServiceContainerLabels x y = (ed_ServiceContainerLabels x = ed_ServiceContainerLabels y)"
| "same_attr Attr_ServiceMounts x y = (ed_ServiceMounts x = ed_ServiceMounts y)"
| "same_attr Attr_Networks x y = (ed_Networks x = ed_Networks y)"
| "same_attr Attr_ServiceConstraints x y = (ed_ServiceConstraints x = ed_ServiceConstraints y)"
| "same_attr Attr_ServicePreferences x y = (ed_ServicePreferences x = ed_ServicePreferences y)"
| "same_attr Attr_Ports x y = (ed_Ports x = ed_Ports y)"
| "same_attr Attr_Hosts x y = (ed_Hosts x = ed_Hosts y)"
| "same_attr Attr_LogDriverName x y = (ed_LogDriverName x = ed_LogDriverName y)"
| "same_attr Attr_LogDriverOpts x y = (ed_LogDriverOpts x = ed_LogDriverOpts y)"
| "same_attr Attr_LimitNanoCPUs x y = (ed_LimitNanoCPUs x = ed_LimitNanoCPUs y)"
| "same_attr Attr_LimitMemoryBytes x y = (ed_LimitMemoryBytes x = ed_LimitMemoryBytes y)"
| "same_attr Attr_ReservationNanoCPUs x y = (ed_ReservationNanoCPUs x = ed_ReservationNanoCPUs y)"
| "same_attr Attr_ReservationMemoryBytes x y = (ed_ReservationMemoryBytes x = ed_ReservationMemoryBytes y)"
| "same_attr Attr_UpdateFailureAction x y = (ed_UpdateFailureAction x = ed_UpdateFailureAction y)"
| "same_attr Attr_UpdateDelay x y = (ed_UpdateDelay x = ed_UpdateDelay y)"
| "same_attr Attr_UpdateParallelism x y = (ed_UpdateParallelism x = ed_UpdateParallelism y)"
| "same_attr Attr_UpdateOrder x y = (ed_UpdateOrder x = ed_UpdateOrder y)"
| "same_attr Attr_RestartCondition x y = (ed_RestartCondition x = ed_RestartCondition y)"
| "same_attr Attr_RestartDelay x y = (ed_RestartDelay x = ed_RestartDelay y)"
| "same_attr Attr_RestartMaxAttempts x y = (ed_RestartMaxAttempts x = ed_RestartMaxAttempts y)"
| "same_attr Attr_RestartWindow x y = (ed_RestartWindow x = ed_RestartWindow y)"

fun copy_attr :: "attribute \<Rightarrow> edited \<Rightarrow> edited \<Rightarrow> edited" where
  "copy_attr Attr_Model x y = y\<lparr>ed_Model := ed_Model x\<rparr>"
| "copy_attr Attr_Name x y = y\<lparr>ed_Name := ed_Name x\<rparr>"
| "copy_attr Attr_Image x y = y\<lparr>ed_Image := ed_Image x\<rparr>"
| "copy_attr Attr_Mode x y = y\<lparr>ed_Mode := ed_Mode x\<rparr>"
| "copy_attr Attr_Replicas x y = y\<lparr>ed_Replicas := ed_Replicas x\<rparr>"
| "copy_attr Attr_Webhooks x y = y"
| "copy_attr Attr_EnvironmentVariables x y = y\<lparr>ed_EnvironmentVariables := ed_EnvironmentVariables x\<rparr>"
| "copy_attr Attr_ServiceConfigs x y = y\<lparr>ed_ServiceConfigs := ed_ServiceConfigs x\<rparr>"
| "copy_attr Attr_ServiceSecrets x y = y\<lparr>ed_ServiceSecrets := ed_ServiceSecrets x\<rparr>"
| "copy_attr Attr_ServiceLabels x y = y\<lparr>ed_ServiceLabels := ed_ServiceLabels x\<rparr>"
| "copy_attr Attr_ServiceContainerLabels x y = y\<lparr>ed_ServiceContainerLabels := ed_ServiceContainerLabels x\<rparr>"
| "copy_attr Attr_ServiceMounts x y = y\<lparr>ed_ServiceMounts := ed_ServiceMounts x\<rparr>"
| "copy_attr Attr_Networks x y = y\<lparr>ed_Networks := ed_Networks x\<rparr>"
| "copy_attr Attr_ServiceConstraints x y = y\<lparr>ed_ServiceConstraints := ed_ServiceConstraints x\<rparr>"
| "copy_attr Attr_ServicePreferences x y = y\<lparr>ed_ServicePreferences := ed_ServicePreferences x\<rparr>"
| "copy_attr Attr_Ports x y = y\<lparr>ed_Ports := ed_Ports x\<rparr>"
| "copy_attr Attr_Hosts x y = y\<lparr>ed_Hosts := ed_Hosts x\<rparr>"
| "copy_attr Attr_LogDriverName x y = y\<lparr>ed_LogDriverName := ed_LogDriverName x\<rparr>"
| "copy_attr Attr_LogDriverOpts x y = y\<lparr>ed_LogDriverOpts := ed_LogDriverOpts x\<rparr>"
| "copy_attr Attr_LimitNanoCPUs x y = y\<lparr>ed_LimitNanoCPUs := ed_LimitNanoCPUs x\<rparr>"
| "copy_attr Attr_LimitMemoryBytes x y = y\<lparr>ed_LimitMemoryBytes := ed_LimitMemoryBytes x\<rparr>"
| "copy_attr Attr_ReservationNanoCPUs x y = y\<lparr>ed_ReservationNanoCPUs := ed_ReservationNanoCPUs x\<rparr>"
| "copy_attr Attr_ReservationMemoryBytes x y = y\<lparr>ed_ReservationMemoryBytes := ed_ReservationMemoryBytes x\<rparr>"
| "copy_attr Attr_UpdateFailureAction x y = y\<lparr>ed_UpdateFailureAction := ed_UpdateFailureAction x\<rparr>"
| "copy_attr Attr_UpdateDelay x y = y\<lparr>ed_UpdateDelay := ed_UpdateDelay x\<rparr>"
| "copy_attr Attr_UpdateParallelism x y = y\<lparr>ed_UpdateParallelism := ed_UpdateParallelism x\<rparr>"
| "copy_attr Attr_UpdateOrder x y = y\<lparr>ed_UpdateOrder := ed_UpdateOrder x\<rparr>"
| "copy_attr Attr_RestartCondition x y = y\<lparr>ed_RestartCondition := ed_RestartCondition x\<rparr>"
| "copy_attr Attr_RestartDelay x y = y\<lparr>ed_RestartDelay := ed_RestartDelay x\<rparr>"
| "copy_attr Attr_RestartMaxAttempts x y = y\<lparr>ed_RestartMaxAttempts := ed_RestartMaxAttempts x\<rparr>"
| "copy_attr Attr_RestartWindow x y = y\<lparr>ed_RestartWindow := ed_RestartWindow x\<rparr>"

text \<open>The attributes that hold an object or an array, which an assignment shares.\<close>

definition object_attrs :: "attribute list" where
  "object_attrs =
     [Attr_Model, Attr_EnvironmentVariables, Attr_ServiceConfigs, Attr_ServiceSecrets, Attr_ServiceLabels,
      Attr_ServiceContainerLabels, Attr_ServiceMounts, Attr_Networks, Attr_ServiceConstraints,
      Attr_ServicePreferences, Attr_Ports, Attr_Hosts, Attr_LogDriverOpts]"

definition service_attrs :: "attribute list" where
  "service_attrs = object_attrs @
     [Attr_Name, Attr_Image, Attr_Mode, Attr_Replicas, Attr_LogDriverName, Attr_LimitNanoCPUs, Attr_LimitMemoryBytes,
      Attr_ReservationNanoCPUs, Attr_ReservationMemoryBytes, Attr_UpdateFailureAction, Attr_UpdateDelay,
      Attr_UpdateParallelism, Attr_UpdateOrder, Attr_RestartCondition, Attr_RestartDelay, Attr_RestartMaxAttempts,
      Attr_RestartWindow]"

section \<open>The page\<close>

record service_page =
  pg_service :: edited
  pg_original :: edited
  pg_previous :: "attribute list"
  pg_hasChanges :: bool
  pg_RegistryModel :: image_model
  pg_shared :: "attribute list"
  pg_mountsInModel :: bool

definition set_mounts :: "service_mount list \<Rightarrow> service_config \<Rightarrow> service_config" where
  "set_mounts ms = with_container (sct_Mounts_update (\<lambda>_. ms))"

text \<open>A change in place of the array of an attribute, and a change of the mounts, which the model may hold as well.\<close>

definition mutate :: "attribute \<Rightarrow> (edited \<Rightarrow> edited) \<Rightarrow> service_page \<Rightarrow> service_page" where
  "mutate a h p = p\<lparr>pg_service := h (pg_service p),
     pg_original := (if a \<in> set (pg_shared p) then h (pg_original p) else pg_original p)\<rparr>"

definition refresh_model_mounts :: "service_page \<Rightarrow> service_page" where
  "refresh_model_mounts p =
     (if pg_mountsInModel p
      then mutate Attr_Model (ed_Model_update (set_mounts (ed_ServiceMounts (pg_service p)))) p else p)"

definition mutate_mounts :: "(service_mount list \<Rightarrow> service_mount list) \<Rightarrow> service_page \<Rightarrow> service_page" where
  "mutate_mounts h p = refresh_model_mounts (mutate Attr_ServiceMounts (ed_ServiceMounts_update h) p)"

text \<open>An assignment to an attribute of the edited copy; an array that is assigned is a new one.\<close>

definition assign :: "attribute \<Rightarrow> (edited \<Rightarrow> edited) \<Rightarrow> service_page \<Rightarrow> service_page" where
  "assign a h p = p\<lparr>pg_service := h (pg_service p), pg_shared := filter (\<lambda>b. b \<noteq> a) (pg_shared p)\<rparr>"

definition updateServiceArray :: "attribute \<Rightarrow> service_page \<Rightarrow> service_page" where
  "updateServiceArray a p = p\<lparr>pg_previous := pg_previous p @ [a], pg_hasChanges := True\<rparr>"

definition updateServiceAttribute :: "attribute \<Rightarrow> service_page \<Rightarrow> service_page" where
  "updateServiceAttribute a p =
     p\<lparr>pg_hasChanges := (pg_hasChanges p \<or> \<not> same_attr a (pg_service p) (pg_original p)),
       pg_previous := pg_previous p @ [a]\<rparr>"

text \<open>Typing into a field of the page that is not an array.\<close>

definition edit_field :: "attribute \<Rightarrow> (edited \<Rightarrow> edited) \<Rightarrow> service_page \<Rightarrow> service_page" where
  "edit_field a h p = updateServiceAttribute a (assign a h p)"

section \<open>Rows\<close>

definition edit_rows :: "attribute \<Rightarrow> (edited \<Rightarrow> edited) \<Rightarrow> service_page \<Rightarrow> service_page" where
  "edit_rows a h p = updateServiceArray a (mutate a h p)"

definition addServiceVariable :: "service_page \<Rightarrow> service_page" where
  "addServiceVariable = edit_rows Attr_EnvironmentVariables (ed_EnvironmentVariables_update
     (\<lambda>vs. vs @ [\<lparr>env_name = [], env_value = Some [], env_added = False\<rparr>]))"

text \<open>The mark of an engine's variable is found again by its name.\<close>

definition mark_env :: "env_row list \<Rightarrow> env_var \<Rightarrow> env_row" where
  "mark_env old v = \<lparr>env_name = env_name v, env_value = env_value v,
     env_added = (case List.find (\<lambda>w. env_name w = env_name v) old of None \<Rightarrow> False | Some w \<Rightarrow> env_added w)\<rparr>"

definition onChangeEnvVars :: "env_var list \<Rightarrow> service_page \<Rightarrow> service_page" where
  "onChangeEnvVars env p = updateServiceArray Attr_EnvironmentVariables
     (assign Attr_EnvironmentVariables (ed_EnvironmentVariables_update (\<lambda>old. map (mark_env old) env)) p)"

definition addConfig :: "(string \<times> string) option \<Rightarrow> service_page \<Rightarrow> service_page" where
  "addConfig config p = (case config of
       None \<Rightarrow> p
     | Some (i, name) \<Rightarrow>
         if list_ex (\<lambda>c. fl_Id c = i) (ed_ServiceConfigs (pg_service p)) then p
         else edit_rows Attr_ServiceConfigs (ed_ServiceConfigs_update (\<lambda>cs. cs @
           [\<lparr>fl_Id = i, fl_Name = name, fl_FileName = Some name, fl_Uid = Some ''0'', fl_Gid = Some ''0'',
             fl_Mode = Some 292\<rparr>])) p)"

definition removeConfig :: "nat \<Rightarrow> service_page \<Rightarrow> service_page" where
  "removeConfig i = edit_rows Attr_ServiceConfigs (ed_ServiceConfigs_update (remove_at i))"

definition updateConfig :: "nat \<Rightarrow> string \<Rightarrow> service_page \<Rightarrow> service_page" where
  "updateConfig i name = edit_rows Attr_ServiceConfigs (ed_ServiceConfigs_update
     (\<lambda>cs. if i < length cs then cs[i := (cs ! i)\<lparr>fl_FileName := Some name\<rparr>] else cs))"

definition addSecret :: "(string \<times> string) option \<Rightarrow> bool \<Rightarrow> string \<Rightarrow> service_page \<Rightarrow> service_page" where
  "addSecret secret override target p = (case secret of
       None \<Rightarrow> p
     | Some (i, name) \<Rightarrow>
         (let filename = (if override then target else name)
          in if list_ex (\<lambda>s. fl_Id s = i \<and> fl_FileName s = Some filename) (ed_ServiceSecrets (pg_service p)) then p
             else edit_rows Attr_ServiceSecrets (ed_ServiceSecrets_update (\<lambda>ss. ss @
               [\<lparr>fl_Id = i, fl_Name = name, fl_FileName = Some filename, fl_Uid = Some ''0'', fl_Gid = Some ''0'',
                 fl_Mode = Some 444\<rparr>])) p))"

definition removeSecret :: "nat \<Rightarrow> service_page \<Rightarrow> service_page" where
  "removeSecret i = edit_rows Attr_ServiceSecrets (ed_ServiceSecrets_update (remove_at i))"

text \<open>A new row has no original key, so the first key that is typed into it differs from it.\<close>

definition new_label :: label_row where
  "new_label = \<lparr>label_key = [], label_value = [], label_originalKey = [], label_originalValue = [], label_added = False\<rparr>"

definition label_changed :: "label_row \<Rightarrow> bool" where
  "label_changed l \<longleftrightarrow> label_value l \<noteq> label_originalValue l \<or> label_key l \<noteq> label_originalKey l \<or> \<not> label_added l"

definition set_label :: "nat \<Rightarrow> string \<Rightarrow> string \<Rightarrow> label_row list \<Rightarrow> label_row list" where
  "set_label i k v ls = (if i < length ls then ls[i := (ls ! i)\<lparr>label_key := k, label_value := v\<rparr>] else ls)"

definition tracked_if :: "bool \<Rightarrow> attribute \<Rightarrow> service_page \<Rightarrow> service_page" where
  "tracked_if b a p = (if b then updateServiceArray a p else p)"

definition addServiceLabel :: "service_page \<Rightarrow> service_page" where
  "addServiceLabel = edit_rows Attr_ServiceLabels (ed_ServiceLabels_update (\<lambda>ls. ls @ [new_label]))"

definition removeServiceLabel :: "nat \<Rightarrow> service_page \<Rightarrow> service_page" where
  "removeServiceLabel i = edit_rows Attr_ServiceLabels (ed_ServiceLabels_update (remove_at i))"

definition updateServiceLabel :: "nat \<Rightarrow> string \<Rightarrow> string \<Rightarrow> service_page \<Rightarrow> service_page" where
  "updateServiceLabel i k v p =
     (let q = mutate Attr_ServiceLabels (ed_ServiceLabels_update (set_label i k v)) p
      in tracked_if (i < length (ed_ServiceLabels (pg_service q)) \<and> label_changed (ed_ServiceLabels (pg_service q) ! i))
           Attr_ServiceLabels q)"

definition addContainerLabel :: "service_page \<Rightarrow> service_page" where
  "addContainerLabel = edit_rows Attr_ServiceContainerLabels (ed_ServiceContainerLabels_update (\<lambda>ls. ls @ [new_label]))"

definition removeContainerLabel :: "nat \<Rightarrow> service_page \<Rightarrow> service_page" where
  "removeContainerLabel i = edit_rows Attr_ServiceContainerLabels (ed_ServiceContainerLabels_update (remove_at i))"

definition updateContainerLabel :: "nat \<Rightarrow> string \<Rightarrow> string \<Rightarrow> service_page \<Rightarrow> service_page" where
  "updateContainerLabel i k v p =
     (let q = mutate Attr_ServiceContainerLabels (ed_ServiceContainerLabels_update (set_label i k v)) p
      in tracked_if (i < length (ed_ServiceContainerLabels (pg_service q)) \<and>
                     label_changed (ed_ServiceContainerLabels (pg_service q) ! i)) Attr_ServiceContainerLabels q)"

definition addMount :: "service_page \<Rightarrow> service_page" where
  "addMount p = updateServiceArray Attr_ServiceMounts (mutate_mounts (\<lambda>ms. ms @
     [\<lparr>smount_Type = ''volume'', smount_Source = NoSource, smount_Target = [], smount_ReadOnly = False,
       smount_VolumeOptions = None\<rparr>]) p)"

definition removeMount :: "nat \<Rightarrow> service_page \<Rightarrow> service_page" where
  "removeMount i p = updateServiceArray Attr_ServiceMounts (mutate_mounts (remove_at i) p)"

definition updateMount :: "nat \<Rightarrow> (service_mount \<Rightarrow> service_mount) \<Rightarrow> service_page \<Rightarrow> service_page" where
  "updateMount i h p = updateServiceArray Attr_ServiceMounts
     (mutate_mounts (\<lambda>ms. if i < length ms then ms[i := h (ms ! i)] else ms) p)"

definition onChangeMountType :: "nat \<Rightarrow> string \<Rightarrow> service_page \<Rightarrow> service_page" where
  "onChangeMountType i ty = updateMount i (\<lambda>m. m\<lparr>smount_Type := ty, smount_Source := NoSource\<rparr>)"

text \<open>A network that is added is not tracked, and a removed one is when it has an identifier.\<close>

definition addNetwork :: "service_page \<Rightarrow> service_page" where
  "addNetwork p = (if ed_Networks (pg_service p) = None
     then assign Attr_Networks (ed_Networks_update (\<lambda>_. Some
       [\<lparr>sn_Id = None, sn_Name = None, sn_Addr = None, sn_Editable = True\<rparr>])) p
     else mutate Attr_Networks (ed_Networks_update (map_option (\<lambda>ns. ns @
       [\<lparr>sn_Id = None, sn_Name = None, sn_Addr = None, sn_Editable = True\<rparr>]))) p)"

definition removeNetwork :: "nat \<Rightarrow> service_page \<Rightarrow> service_page" where
  "removeNetwork i p = (case ed_Networks (pg_service p) of
       None \<Rightarrow> p
     | Some ns \<Rightarrow> tracked_if (i < length ns \<and> truthy_str (sn_Id (ns ! i))) Attr_Networks
         (mutate Attr_Networks (ed_Networks_update (map_option (remove_at i))) p))"

definition updateNetwork :: "nat \<Rightarrow> string \<Rightarrow> service_page \<Rightarrow> service_page" where
  "updateNetwork i netId = edit_rows Attr_Networks (ed_Networks_update (map_option
     (\<lambda>ns. if i < length ns then ns[i := (ns ! i)\<lparr>sn_Id := Some netId\<rparr>] else ns)))"

definition addPlacementConstraint :: "service_page \<Rightarrow> service_page" where
  "addPlacementConstraint = edit_rows Attr_ServiceConstraints (ed_ServiceConstraints_update (\<lambda>cs. cs @ [empty_constraint]))"

definition removePlacementConstraint :: "nat \<Rightarrow> service_page \<Rightarrow> service_page" where
  "removePlacementConstraint i = edit_rows Attr_ServiceConstraints (ed_ServiceConstraints_update (remove_at i))"

definition updatePlacementConstraint :: "nat \<Rightarrow> constraint_row \<Rightarrow> service_page \<Rightarrow> service_page" where
  "updatePlacementConstraint i c = edit_rows Attr_ServiceConstraints (ed_ServiceConstraints_update (\<lambda>cs. cs[i := c]))"

definition addPlacementPreference :: "service_page \<Rightarrow> service_page" where
  "addPlacementPreference = edit_rows Attr_ServicePreferences (ed_ServicePreferences_update (\<lambda>ps. ps @
     [\<lparr>pref_strategy = Some ''spread'', pref_value = Some []\<rparr>]))"

definition removePlacementPreference :: "nat \<Rightarrow> service_page \<Rightarrow> service_page" where
  "removePlacementPreference i = edit_rows Attr_ServicePreferences (ed_ServicePreferences_update (remove_at i))"

definition updatePlacementPreference :: "nat \<Rightarrow> preference_row \<Rightarrow> service_page \<Rightarrow> service_page" where
  "updatePlacementPreference i r = edit_rows Attr_ServicePreferences (ed_ServicePreferences_update (\<lambda>ps. ps[i := r]))"

text \<open>A port that is added is not tracked until it is edited.\<close>

definition new_service_port :: swarm_port where
  "new_service_port = \<lparr>sport_Protocol = ''tcp'', sport_PublishMode = ''ingress'', sport_TargetPort = TextPort [],
     sport_PublishedPort = TextPort []\<rparr>"

definition addServicePort :: "service_page \<Rightarrow> service_page" where
  "addServicePort p = (if ed_Ports (pg_service p) = None
     then assign Attr_Ports (ed_Ports_update (\<lambda>_. Some [new_service_port])) p
     else mutate Attr_Ports (ed_Ports_update (map_option (\<lambda>ps. ps @ [new_service_port]))) p)"

definition updatePublishedPort :: "nat \<Rightarrow> swarm_port \<Rightarrow> service_page \<Rightarrow> service_page" where
  "updatePublishedPort i b = edit_rows Attr_Ports (ed_Ports_update (map_option (\<lambda>ps. ps[i := b])))"

definition removePortPublishedBinding :: "nat \<Rightarrow> service_page \<Rightarrow> service_page" where
  "removePortPublishedBinding i = edit_rows Attr_Ports (ed_Ports_update (map_option (remove_at i)))"

definition new_option :: option_row where
  "new_option = \<lparr>opt_key = [], opt_value = [], opt_originalKey = [], opt_originalValue = [], opt_added = False\<rparr>"

definition option_changed :: "option_row \<Rightarrow> bool" where
  "option_changed l \<longleftrightarrow> opt_value l \<noteq> opt_originalValue l \<or> opt_key l \<noteq> opt_originalKey l \<or> \<not> opt_added l"

definition addServiceDriverOpt :: "service_page \<Rightarrow> service_page" where
  "addServiceDriverOpt = edit_rows Attr_LogDriverOpts (ed_LogDriverOpts_update (\<lambda>os. os @ [new_option]))"

definition removeServiceDriverOpt :: "nat \<Rightarrow> service_page \<Rightarrow> service_page" where
  "removeServiceDriverOpt i = edit_rows Attr_LogDriverOpts (ed_LogDriverOpts_update (remove_at i))"

definition updateServiceDriverOpt :: "nat \<Rightarrow> string \<Rightarrow> service_page \<Rightarrow> service_page" where
  "updateServiceDriverOpt i v p =
     (let q = mutate Attr_LogDriverOpts (ed_LogDriverOpts_update
            (\<lambda>os. if i < length os then os[i := (os ! i)\<lparr>opt_value := v\<rparr>] else os)) p
      in tracked_if (i < length (ed_LogDriverOpts (pg_service q)) \<and> option_changed (ed_LogDriverOpts (pg_service q) ! i))
           Attr_LogDriverOpts q)"

definition updateLogDriverName :: "string \<Rightarrow> service_page \<Rightarrow> service_page" where
  "updateLogDriverName n p = updateServiceArray Attr_LogDriverName (assign Attr_LogDriverName (ed_LogDriverName_update (\<lambda>_. n)) p)"

definition addHostsEntry :: "service_page \<Rightarrow> service_page" where
  "addHostsEntry = mutate Attr_Hosts (ed_Hosts_update (\<lambda>hs. hs @ [\<lparr>he_hostname = [], he_ip = []\<rparr>]))"

definition removeHostsEntry :: "nat \<Rightarrow> service_page \<Rightarrow> service_page" where
  "removeHostsEntry i = edit_rows Attr_Hosts (ed_Hosts_update (remove_at i))"

definition updateHostsEntry :: "nat \<Rightarrow> host_entry \<Rightarrow> service_page \<Rightarrow> service_page" where
  "updateHostsEntry i h = edit_rows Attr_Hosts (ed_Hosts_update (\<lambda>hs. hs[i := h]))"

section \<open>Loading a service\<close>

record service_spec = service_config +
  spec_RollbackConfig :: "json option"

record engine_service =
  es_ID :: string
  es_CreatedAt :: string
  es_UpdatedAt :: string
  es_Version :: nat
  es_Spec :: service_spec
  es_Ports :: "swarm_port list option"

definition raw_amounts :: "amounts \<Rightarrow> resource_amounts" where
  "raw_amounts a = \<lparr>ra_NanoCPUs = map_option (\<lambda>c. nat \<lfloor>c\<rfloor>) (am_NanoCPUs a), ra_MemoryBytes = map_option nat (am_MemoryBytes a)\<rparr>"

text \<open>
  The view model of the service (\<open>DockerModels\<close>) is made from the parts of the answer that it computes with. The
  fields that it only passes on, those of the container and the ports, are read where they are used.
\<close>

definition raw_of :: "engine_service \<Rightarrow> raw_service" where
  "raw_of s =
     (let c = es_Spec s; t = scfg_TaskTemplate c
      in \<lparr>rv_ID = es_ID s, rv_Name = scfg_Name c, rv_CreatedAt = es_CreatedAt s, rv_UpdatedAt = es_UpdatedAt s,
          rv_Image = sct_Image (stt_ContainerSpec t), rv_Version = es_Version s,
          rv_Replicated = (case scfg_Mode c of Replicated r \<Rightarrow> r | GlobalMode \<Rightarrow> None),
          rv_Limits = map_option raw_amounts (Option.bind (stt_Resources t) sres_Limits),
          rv_Reservations = map_option raw_amounts (Option.bind (stt_Resources t) sres_Reservations),
          rv_RestartPolicy = stt_RestartPolicy t, rv_LogDriver = stt_LogDriver t,
          rv_Placement = map_option (\<lambda>q. \<lparr>pl_Constraints = spl_Constraints q, pl_Preferences = None,
            pl_Platforms = None\<rparr>) (stt_Placement t),
          rv_Labels = scfg_Labels c, rv_UpdateConfig = map_option update_config.truncate (scfg_UpdateConfig c),
          rv_ContainerSpec = None, rv_Endpoint = None, rv_Runtime = None, rv_RollbackConfig = JNull,
          rv_Portainer = None\<rparr>)"

definition serviceToConfig :: "service_spec \<Rightarrow> service_config" where
  "serviceToConfig s = service_config.truncate s"

text \<open>\<open>x / 1000000000 || 0\<close> and \<open>x / 1024 / 1024 || 0\<close>, where a missing amount gives \<open>NaN\<close>.\<close>

definition cores_of :: "nat option \<Rightarrow> rat" where
  "cores_of n = (case n of None \<Rightarrow> 0 | Some x \<Rightarrow> of_nat x / 1000000000)"

definition megabytes_of :: "nat option \<Rightarrow> rat" where
  "megabytes_of n = (case n of None \<Rightarrow> 0 | Some x \<Rightarrow> of_nat x / 1024 / 1024)"

text \<open>
  The comparison of the sort never gives 0, so variables of the same name come in an order that the language leaves
  open; here they keep theirs.
\<close>

definition env_rows :: "string list option \<Rightarrow> env_row list" where
  "env_rows env = sort_key env_name
     (map (\<lambda>v. \<lparr>env_name = env_name v, env_value = env_value v, env_added = True\<rparr>) (parseArrayOfStrings env))"

record engine_network =
  enet_Id :: string
  enet_Name :: string
  enet_Ingress :: bool
  enet_Subnets :: "string option list"

text \<open>\<open>inspect\<close> is the answer of the engine when a network is read again, for a network without a subnet in the list.\<close>

definition network_row :: "(string \<Rightarrow> engine_network option) \<Rightarrow> engine_network \<Rightarrow> service_network" where
  "network_row inspect n =
     \<lparr>sn_Id = Some (enet_Id n), sn_Name = Some (enet_Name n),
      sn_Addr = (case enet_Subnets n of
          a # _ \<Rightarrow> a
        | [] \<Rightarrow> (case inspect (enet_Id n) of
              None \<Rightarrow> Some []
            | Some m \<Rightarrow> (case enet_Subnets m of [] \<Rightarrow> Some [] | a # _ \<Rightarrow> Some (or_str a [])))),
      sn_Editable = (\<not> enet_Ingress n)\<rparr>"

definition attached_networks :: "engine_network list \<Rightarrow> engine_service \<Rightarrow> engine_network list" where
  "attached_networks available s =
     (let own = uniq_by na_Target (some_or (scfg_Networks (es_Spec s)) [] @
              some_or (stt_Networks (scfg_TaskTemplate (es_Spec s))) []);
          found = without_undefined (map (\<lambda>a. List.find (\<lambda>n. Some (enet_Id n) = na_Target a) available) own)
      in (if list_ex (\<lambda>q. sport_PublishMode q = ''ingress'') (some_or (es_Ports s) [])
          then (case List.find enet_Ingress available of None \<Rightarrow> [] | Some n \<Rightarrow> [n]) else []) @ found)"

definition load_service ::
    "(string \<Rightarrow> engine_network option) \<Rightarrow> engine_network list \<Rightarrow> engine_service \<Rightarrow> edited" where
  "load_service inspect available s =
     (let m = ServiceViewModel (raw_of s) None None; spec = es_Spec s; t = scfg_TaskTemplate spec; c = stt_ContainerSpec t
      in \<lparr>ed_Model = serviceToConfig spec, ed_Name = sm_Name m, ed_Image = sm_Image m,
          ed_Mode = (case scfg_Mode spec of Replicated r \<Rightarrow> ''replicated'' | GlobalMode \<Rightarrow> ''global''),
          ed_Replicas = sm_Replicas m, ed_EnvironmentVariables = env_rows (sct_Env c),
          ed_ServiceConfigs = without_undefined (map (\<lambda>f. flattenConfig (Some f)) (some_or (sct_Configs c) [])),
          ed_ServiceSecrets = without_undefined (map (\<lambda>f. flattenSecret (Some f)) (some_or (sct_Secrets c) [])),
          ed_ServiceLabels = fromLabelHashToKeyValue (sm_Labels m),
          ed_ServiceContainerLabels = fromLabelHashToKeyValue (sct_Labels c),
          ed_ServiceMounts = sct_Mounts c,
          ed_Networks = Some (map (network_row inspect) (attached_networks available s)),
          ed_ServiceConstraints = some_or (translateConstraintsToKeyValue (Some (sm_Constraints m))) [],
          ed_ServicePreferences = translatePreferencesToKeyValue (Some (case stt_Placement t of
            None \<Rightarrow> [] | Some q \<Rightarrow> some_or (spl_Preferences q) [])),
          ed_Ports = es_Ports s, ed_Hosts = translateHostsEntriesToHostnameIP (sct_Hosts c),
          ed_LogDriverName = sm_LogDriverName m,
          ed_LogDriverOpts = translateLogDriverOptsToKeyValue (Some (sm_LogDriverOpts m)),
          ed_LimitNanoCPUs = cores_of (sm_LimitNanoCPUs m), ed_LimitMemoryBytes = megabytes_of (sm_LimitMemoryBytes m),
          ed_ReservationNanoCPUs = cores_of (sm_ReservationNanoCPUs m),
          ed_ReservationMemoryBytes = megabytes_of (sm_ReservationMemoryBytes m),
          ed_UpdateFailureAction = sm_UpdateFailureAction m,
          ed_UpdateDelay = or_str (Some (translateNanosToHumanDuration (sm_UpdateDelay m))) ''0s'',
          ed_UpdateParallelism = Some (sm_UpdateParallelism m), ed_UpdateOrder = sm_UpdateOrder m,
          ed_RestartCondition = sm_RestartCondition m,
          ed_RestartDelay = or_str (Some (translateNanosToHumanDuration (sm_RestartDelay m))) ''5s'',
          ed_RestartMaxAttempts = Some (sm_RestartMaxAttempts m),
          ed_RestartWindow = or_str (Some (translateNanosToHumanDuration (sm_RestartWindow m))) ''0s''\<rparr>)"

text \<open>A service that is loaded is copied, and nothing is shared with the copy.\<close>

definition show_service :: "edited \<Rightarrow> service_page \<Rightarrow> service_page" where
  "show_service x p = p\<lparr>pg_service := x, pg_original := x, pg_hasChanges := False, pg_shared := [], pg_mountsInModel := False\<rparr>"

definition open_service :: "image_model \<Rightarrow> edited \<Rightarrow> service_page" where
  "open_service img x = \<lparr>pg_service = x, pg_original = x, pg_previous = [], pg_hasChanges = False, pg_RegistryModel = img,
     pg_shared = [], pg_mountsInModel = False\<rparr>"

section \<open>Changes\<close>

definition hasChanges :: "service_page \<Rightarrow> attribute list \<Rightarrow> bool" where
  "hasChanges p elements =
     list_ex (\<lambda>k. if k = Attr_Image then im_Image (pg_RegistryModel p) \<noteq> [] else k \<in> set (pg_previous p)) elements"

definition clear_image :: "service_page \<Rightarrow> service_page" where
  "clear_image p = p\<lparr>pg_RegistryModel := (pg_RegistryModel p)\<lparr>im_Image := []\<rparr>\<rparr>"

text \<open>Of the entries of an attribute in the list of changes only the first is taken out.\<close>

definition forget_key :: "attribute \<Rightarrow> service_page \<Rightarrow> service_page" where
  "forget_key k p = (if k = Attr_Image then clear_image p else p\<lparr>pg_previous := remove1 k (pg_previous p)\<rparr>)"

definition restore_attr :: "attribute \<Rightarrow> service_page \<Rightarrow> service_page" where
  "restore_attr a p = p\<lparr>pg_service := copy_attr a (pg_original p) (pg_service p),
     pg_shared := (if a \<in> set object_attrs \<and> a \<notin> set (pg_shared p) then a # pg_shared p else pg_shared p),
     pg_mountsInModel := (pg_mountsInModel p \<and> (a \<in> {Attr_Model, Attr_ServiceMounts} \<longrightarrow> a \<in> set (pg_shared p)))\<rparr>"

definition cancelChanges :: "attribute list option \<Rightarrow> service_page \<Rightarrow> service_page" where
  "cancelChanges keys p = (case keys of
       Some ks \<Rightarrow> (fold restore_attr ks (fold forget_key ks p))\<lparr>pg_hasChanges := False\<rparr>
     | None \<Rightarrow> (fold restore_attr service_attrs ((clear_image p)\<lparr>pg_previous := []\<rparr>))\<lparr>pg_hasChanges := False\<rparr>)"

text \<open>\<open>cancelChanges({})\<close> before the service is loaded again: only the list of changes and the image are emptied.\<close>

definition clear_changes :: "service_page \<Rightarrow> service_page" where
  "clear_changes p = (clear_image p)\<lparr>pg_previous := []\<rparr>"

definition mountsAreValid :: "service_page \<Rightarrow> bool" where
  "mountsAreValid p = list_all (\<lambda>m. truthy_source (smount_Source m) \<and> smount_Target m \<noteq> []) (ed_ServiceMounts (pg_service p))"

definition filterNetworks :: "engine_network list \<Rightarrow> service_network \<Rightarrow> service_page \<Rightarrow> engine_network list" where
  "filterNetworks networks current p = filter (\<lambda>n. \<not> enet_Ingress n \<and> (Some (enet_Id n) = sn_Id current \<or>
     list_all (\<lambda>m. Some (enet_Id n) \<noteq> sn_Id m) (some_or (ed_Networks (pg_service p)) []))) networks"

section \<open>The specification that is sent\<close>

definition built_container :: "service_page \<Rightarrow> service_container \<Rightarrow> service_container" where
  "built_container p c =
     (let s = pg_service p
      in c\<lparr>sct_Env := Some (convertToArrayOfStrings (Some (map env_var.truncate (ed_EnvironmentVariables s)))),
           sct_Labels := Some (fromKeyValueToLabelHash (Some (ed_ServiceContainerLabels s))),
           sct_Image := (if hasChanges p [Attr_Image] then createImageConfigForContainer (pg_RegistryModel p) else ed_Image s),
           sct_Secrets := Some (without_undefined (map (\<lambda>f. secretConfig (Some f)) (ed_ServiceSecrets s))),
           sct_Configs := Some (without_undefined (map (\<lambda>f. configConfig (Some f)) (ed_ServiceConfigs s))),
           sct_Hosts := Some (translateHostnameIPToHostsEntries (Some (ed_Hosts s))),
           sct_Mounts := ed_ServiceMounts s\<rparr>)"

definition built_networks :: "service_page \<Rightarrow> network_attachment list" where
  "built_networks p = map (\<lambda>n. \<lparr>na_Target = sn_Id n, na_Aliases = None\<rparr>)
     (filter (\<lambda>n. truthy_str (sn_Id n) \<and> sn_Editable n) (some_or (ed_Networks (pg_service p)) []))"

definition built_placement :: "service_page \<Rightarrow> service_placement option \<Rightarrow> service_placement option" where
  "built_placement p q = Some ((some_or q \<lparr>spl_Constraints = None, spl_Preferences = None, spl_Rest = []\<rparr>)
     \<lparr>spl_Constraints := Some (translateKeyValueToPlacementConstraints (Some (ed_ServiceConstraints (pg_service p)))),
      spl_Preferences := Some (map Some (translateKeyValueToPlacementPreferences (Some (ed_ServicePreferences (pg_service p)))))\<rparr>)"

definition resource_keys :: "attribute list" where
  "resource_keys = [Attr_LimitNanoCPUs, Attr_LimitMemoryBytes, Attr_ReservationNanoCPUs, Attr_ReservationMemoryBytes]"

definition built_resources :: "service_page \<Rightarrow> service_resources option \<Rightarrow> service_resources option" where
  "built_resources p r =
     (let s = pg_service p
      in if hasChanges p resource_keys
         then Some \<lparr>sres_Limits = Some \<lparr>am_NanoCPUs = Some (ed_LimitNanoCPUs s * 1000000000),
                am_MemoryBytes = Some (bytes_of (ed_LimitMemoryBytes s) ''MB'')\<rparr>,
              sres_Reservations = Some \<lparr>am_NanoCPUs = Some (ed_ReservationNanoCPUs s * 1000000000),
                am_MemoryBytes = Some (bytes_of (ed_ReservationMemoryBytes s) ''MB'')\<rparr>, sres_Rest = []\<rparr>
         else r)"

definition update_keys :: "attribute list" where
  "update_keys = [Attr_UpdateFailureAction, Attr_UpdateDelay, Attr_UpdateParallelism, Attr_UpdateOrder]"

definition built_update :: "(nat \<Rightarrow> string \<Rightarrow> nat) \<Rightarrow> service_page \<Rightarrow> service_update option \<Rightarrow> service_update option" where
  "built_update as_ms p u =
     (let s = pg_service p
      in if hasChanges p update_keys
         then Some \<lparr>uc_Parallelism = ed_UpdateParallelism s, uc_Delay = Some (nanos_or as_ms (ed_UpdateDelay s) 0),
              uc_FailureAction = Some (ed_UpdateFailureAction s), uc_Order = Some (ed_UpdateOrder s), ucr_Rest = []\<rparr>
         else u)"

definition restart_keys :: "attribute list" where
  "restart_keys = [Attr_RestartCondition, Attr_RestartDelay, Attr_RestartMaxAttempts, Attr_RestartWindow]"

definition built_restart :: "(nat \<Rightarrow> string \<Rightarrow> nat) \<Rightarrow> service_page \<Rightarrow> restart_policy option \<Rightarrow> restart_policy option" where
  "built_restart as_ms p r =
     (let s = pg_service p
      in if hasChanges p restart_keys
         then Some \<lparr>rp_Condition = Some (ed_RestartCondition s),
              rp_Delay = Some (nanos_or as_ms (ed_RestartDelay s) 5000000000),
              rp_MaxAttempts = ed_RestartMaxAttempts s, rp_Window = Some (nanos_or as_ms (ed_RestartWindow s) 0)\<rparr>
         else r)"

definition built_driver :: "service_page \<Rightarrow> log_driver option" where
  "built_driver p =
     (let s = pg_service p
      in if ed_LogDriverName s = [] then None
         else Some (log_driver_of (ed_LogDriverName s) (translateKeyValueToLogDriverOpts (Some (ed_LogDriverOpts s)))))"

definition built_template :: "(nat \<Rightarrow> string \<Rightarrow> nat) \<Rightarrow> service_page \<Rightarrow> task_template \<Rightarrow> task_template" where
  "built_template as_ms p t =
     t\<lparr>stt_ContainerSpec := built_container p (stt_ContainerSpec t),
       stt_Networks := (if hasChanges p [Attr_Networks] then Some (built_networks p) else stt_Networks t),
       stt_Placement := built_placement p (stt_Placement t),
       stt_Resources := built_resources p (stt_Resources t),
       stt_RestartPolicy := built_restart as_ms p (stt_RestartPolicy t),
       stt_LogDriver := built_driver p\<rparr>"

definition built_mode :: "service_page \<Rightarrow> service_mode \<Rightarrow> service_mode" where
  "built_mode p m = (case m of
       Replicated r \<Rightarrow> if ed_Mode (pg_service p) = ''replicated'' then Replicated (ed_Replicas (pg_service p)) else m
     | GlobalMode \<Rightarrow> GlobalMode)"

text \<open>A published port that was emptied is left out; the rows themselves are changed.\<close>

definition clean_port :: "swarm_port \<Rightarrow> swarm_port" where
  "clean_port b = (if sport_PublishedPort b \<in> {NullPort, TextPort []} then b\<lparr>sport_PublishedPort := NoPort\<rparr> else b)"

definition clean_ports :: "service_page \<Rightarrow> service_page" where
  "clean_ports = mutate Attr_Ports (ed_Ports_update (map_option (map clean_port)))"

text \<open>
  The task template and the mode of the model are changed in place; the other parts are set in the object that is
  sent.
\<close>

definition built_model :: "(nat \<Rightarrow> string \<Rightarrow> nat) \<Rightarrow> service_page \<Rightarrow> service_config \<Rightarrow> service_config" where
  "built_model as_ms p m = m\<lparr>scfg_TaskTemplate := built_template as_ms p (scfg_TaskTemplate m),
     scfg_Mode := built_mode p (scfg_Mode m)\<rparr>"

definition buildChanges :: "(nat \<Rightarrow> string \<Rightarrow> nat) \<Rightarrow> service_page \<Rightarrow> service_config \<times> service_page" where
  "buildChanges as_ms p =
     (let q = clean_ports ((mutate Attr_Model (ed_Model_update (built_model as_ms p)) p)\<lparr>pg_mountsInModel := True\<rparr>);
          s = pg_service q; m = ed_Model s
      in (m\<lparr>scfg_Name := ed_Name s,
            scfg_Labels := Some (fromKeyValueToLabelHash (Some (ed_ServiceLabels s))),
            scfg_UpdateConfig := built_update as_ms p (scfg_UpdateConfig m),
            scfg_Networks := (if hasChanges p [Attr_Networks] then Some (built_networks p) else scfg_Networks m),
            scfg_EndpointSpec := Some \<lparr>esp_Mode = Some (or_str (Option.bind (scfg_EndpointSpec m) esp_Mode) ''vip''),
              esp_Ports = ed_Ports s\<rparr>\<rparr>, q))"

section \<open>Updates\<close>

text \<open>
  A request is refused, or answered with a message that may be an error. After a success the service is read again;
  \<open>reloaded\<close> is what is shown then.
\<close>

datatype update_answer = Refused | Answered "string option"

definition rpc_error :: "string option \<Rightarrow> bool" where
  "rpc_error m \<longleftrightarrow> (case m of None \<Rightarrow> False | Some s \<Rightarrow> starts_with s ''rpc error:'')"

definition updateService ::
    "(nat \<Rightarrow> string \<Rightarrow> nat) \<Rightarrow> update_answer \<Rightarrow> edited \<Rightarrow> service_page \<Rightarrow> service_config \<times> service_page" where
  "updateService as_ms ans reloaded p =
     (let r = buildChanges as_ms p
      in (fst r, case ans of Refused \<Rightarrow> snd r | Answered m \<Rightarrow> show_service reloaded (clear_changes (snd r))))"

definition rollbackService ::
    "(nat \<Rightarrow> string \<Rightarrow> nat) \<Rightarrow> update_answer \<Rightarrow> edited \<Rightarrow> service_page \<Rightarrow> service_config \<times> service_page" where
  "rollbackService as_ms ans reloaded p =
     (let r = buildChanges as_ms p
      in (fst r, case ans of
            Refused \<Rightarrow> snd r
          | Answered m \<Rightarrow> if rpc_error m then snd r else show_service reloaded (clear_changes (snd r))))"

definition forced_template :: "bool \<Rightarrow> task_template \<Rightarrow> task_template" where
  "forced_template pullImage t =
     (let c = stt_ContainerSpec t
      in t\<lparr>stt_ContainerSpec := (if pullImage then c\<lparr>sct_Image := removeDigestFromRepository (sct_Image c)\<rparr> else c),
           stt_ForceUpdate := map_option Suc (stt_ForceUpdate t)\<rparr>)"

definition forceUpdateService :: "bool \<Rightarrow> update_answer \<Rightarrow> edited \<Rightarrow> service_page \<Rightarrow> service_config \<times> service_page" where
  "forceUpdateService pullImage ans reloaded p =
     (let q = mutate Attr_Model (ed_Model_update (scfg_TaskTemplate_update (forced_template pullImage))) p
      in (ed_Model (pg_service q), case ans of
            Refused \<Rightarrow> q
          | Answered m \<Rightarrow> show_service reloaded (clear_changes q)))"

text \<open>An update sends the version that the service has at that moment, which is read first.\<close>

datatype service_request = PostUpdate string nat bool service_config | DeleteService string | DeleteWebhook string

definition update_request :: "string + nat \<Rightarrow> string \<Rightarrow> bool \<Rightarrow> service_config \<Rightarrow> string + service_request" where
  "update_request version i rollback config = (case version of
       Inl e \<Rightarrow> Inl e | Inr v \<Rightarrow> Inr (PostUpdate i v rollback config))"

section \<open>The webhook and the removal\<close>

record webhook_state =
  wh_exists :: bool
  wh_ID :: "string option"
  wh_URL :: "string option"

definition updateWebhook :: "string + unit \<Rightarrow> string + (string \<times> string) \<Rightarrow> (string \<Rightarrow> string) \<Rightarrow> webhook_state \<Rightarrow> webhook_state" where
  "updateWebhook deleted created url w =
     (if wh_exists w then (case deleted of Inl e \<Rightarrow> w | Inr _ \<Rightarrow> \<lparr>wh_exists = False, wh_ID = None, wh_URL = None\<rparr>)
      else (case created of Inl e \<Rightarrow> w | Inr (i, token) \<Rightarrow> \<lparr>wh_exists = True, wh_ID = Some i, wh_URL = Some (url token)\<rparr>))"

text \<open>The service is removed first; a message in the answer is an error, and the webhook then stays.\<close>

definition removeService :: "string + string option \<Rightarrow> string \<Rightarrow> webhook_state \<Rightarrow> service_request list" where
  "removeService ans i w = DeleteService i #
     (case ans of Inr m \<Rightarrow> if truthy_str m then [] else
         (case wh_ID w of Some h \<Rightarrow> if h = [] then [] else [DeleteWebhook h] | None \<Rightarrow> [])
      | Inl e \<Rightarrow> [])"

definition sliderMaxCpu :: "nat option list \<Rightarrow> rat" where
  "sliderMaxCpu cpus = fst (initSlidersMaxValuesBasedOnNodeData (map (\<lambda>c. (c, None)) cpus))"

end
