(* ===== verification/ServiceEditing.thy ===== *)
theory ServiceEditing
  imports ServicePage
begin

text \<open>
  What holds on the page of a service however it is edited (\<open>ServicePage\<close>): the list of changed attributes is
  complete, cancelling gives back what was loaded as long as no section is cancelled twice, and a forced update sends
  what the engine has as long as no update was refused.
\<close>

section \<open>The steps of the page\<close>

text \<open>
  The texts and numbers that are typed into a field of their own. The identifier, the mode and the image are shown only.
\<close>

definition typed_fields :: "(attribute \<times> (edited \<Rightarrow> edited \<Rightarrow> edited)) list" where
  "typed_fields = map (\<lambda>a. (a, copy_attr a))
     [Attr_Name, Attr_Replicas, Attr_LimitNanoCPUs, Attr_LimitMemoryBytes, Attr_ReservationNanoCPUs,
      Attr_ReservationMemoryBytes, Attr_UpdateFailureAction, Attr_UpdateDelay, Attr_UpdateParallelism,
      Attr_UpdateOrder, Attr_RestartCondition, Attr_RestartDelay, Attr_RestartMaxAttempts, Attr_RestartWindow]"

text \<open>The key of an option can be typed when the option is new; the page does not call the controller then.\<close>

definition type_option_key :: "nat \<Rightarrow> string \<Rightarrow> service_page \<Rightarrow> service_page" where
  "type_option_key i k p =
     (if i < length (ed_LogDriverOpts (pg_service p)) \<and> \<not> opt_added (ed_LogDriverOpts (pg_service p) ! i)
      then mutate Attr_LogDriverOpts (ed_LogDriverOpts_update (\<lambda>os. os[i := (os ! i)\<lparr>opt_key := k\<rparr>])) p else p)"

definition choose_image :: "image_model \<Rightarrow> service_page \<Rightarrow> service_page" where
  "choose_image img p = p\<lparr>pg_RegistryModel := img\<rparr>"

text \<open>The editing of rows and fields, and the requests that the engine refuses, which leave the page as it is.\<close>

inductive edit_step :: "service_page \<Rightarrow> service_page \<Rightarrow> bool" where
  "edit_step p (addServiceVariable p)"
| "edit_step p (onChangeEnvVars env p)"
| "edit_step p (addConfig cfg p)"
| "edit_step p (removeConfig i p)"
| "edit_step p (updateConfig i name p)"
| "edit_step p (addSecret sec override target p)"
| "edit_step p (removeSecret i p)"
| "edit_step p (addServiceLabel p)"
| "edit_step p (removeServiceLabel i p)"
| "edit_step p (updateServiceLabel i k v p)"
| "edit_step p (addContainerLabel p)"
| "edit_step p (removeContainerLabel i p)"
| "edit_step p (updateContainerLabel i k v p)"
| "edit_step p (addMount p)"
| "edit_step p (removeMount i p)"
| "edit_step p (updateMount i h p)"
| "edit_step p (onChangeMountType i k p)"
| "edit_step p (addNetwork p)"
| "edit_step p (removeNetwork i p)"
| "edit_step p (updateNetwork i k p)"
| "edit_step p (addPlacementConstraint p)"
| "edit_step p (removePlacementConstraint i p)"
| "edit_step p (updatePlacementConstraint i c p)"
| "edit_step p (addPlacementPreference p)"
| "edit_step p (removePlacementPreference i p)"
| "edit_step p (updatePlacementPreference i r p)"
| "edit_step p (addServicePort p)"
| "edit_step p (updatePublishedPort i b p)"
| "edit_step p (removePortPublishedBinding i p)"
| "edit_step p (addServiceDriverOpt p)"
| "edit_step p (removeServiceDriverOpt i p)"
| "edit_step p (updateServiceDriverOpt i v p)"
| "edit_step p (type_option_key i k p)"
| "edit_step p (updateLogDriverName k p)"
| "edit_step p (addHostsEntry p)"
| "edit_step p (removeHostsEntry i p)"
| "edit_step p (updateHostsEntry i e p)"
| "(a, g) \<in> set typed_fields \<Longrightarrow> edit_step p (edit_field a (g x) p)"
| "edit_step p (choose_image img p)"

text \<open>
  The pages that are reached from a service that was loaded, without loading it again, with the attributes that were
  cancelled on the way.
\<close>

definition cancelled_by :: "attribute list option \<Rightarrow> attribute set" where
  "cancelled_by keys = (case keys of None \<Rightarrow> UNIV | Some ks \<Rightarrow> set ks)"

inductive reachable_page :: "edited \<Rightarrow> attribute set \<Rightarrow> service_page \<Rightarrow> bool" for x where
  opened: "reachable_page x {} (open_service img x)"
| edits: "reachable_page x C p \<Longrightarrow> edit_step p q \<Longrightarrow> reachable_page x C q"
| cancels: "reachable_page x C p \<Longrightarrow> reachable_page x (C \<union> cancelled_by keys) (cancelChanges keys p)"
| update_refused: "reachable_page x C p \<Longrightarrow> reachable_page x C (snd (updateService as_ms Refused y p))"
| rollback_refused: "reachable_page x C p \<Longrightarrow> reachable_page x C (snd (rollbackService as_ms Refused y p))"
| force_refused: "reachable_page x C p \<Longrightarrow> reachable_page x C (snd (forceUpdateService pull Refused y p))"

section \<open>Attributes\<close>

lemma same_attr_refl [simp]: "same_attr a x x"
  by (cases a) simp_all

lemma same_attr_sym: "same_attr a x y \<Longrightarrow> same_attr a y x"
  by (cases a) simp_all

lemma same_attr_trans: "same_attr a x y \<Longrightarrow> same_attr a y z \<Longrightarrow> same_attr a x z"
  by (cases a) simp_all

lemma same_attr_copy: "same_attr b (copy_attr a x y) z \<longleftrightarrow> same_attr b (if a = b then x else y) z"
  by (cases a; cases b) simp_all

lemma same_attr_copy_right: "same_attr b z (copy_attr a x y) \<longleftrightarrow> same_attr b z (if a = b then x else y)"
  using same_attr_copy same_attr_sym by metis

text \<open>A change of one attribute: the others stay, and its new value depends on its old value only.\<close>

definition local_to :: "attribute \<Rightarrow> (edited \<Rightarrow> edited) \<Rightarrow> bool" where
  "local_to a h \<longleftrightarrow> (\<forall>x b. b \<noteq> a \<longrightarrow> same_attr b (h x) x) \<and> (\<forall>x y. same_attr a x y \<longrightarrow> same_attr a (h x) (h y))"

lemma local_toI:
  "(\<And>b x. b \<noteq> a \<Longrightarrow> same_attr b (h x) x) \<Longrightarrow> (\<And>x y. same_attr a x y \<Longrightarrow> same_attr a (h x) (h y)) \<Longrightarrow> local_to a h"
  by (simp add: local_to_def)

lemma local_updates [simp]:
  "local_to Attr_Model (ed_Model_update f1)"
  "local_to Attr_EnvironmentVariables (ed_EnvironmentVariables_update f2)"
  "local_to Attr_ServiceConfigs (ed_ServiceConfigs_update f3)"
  "local_to Attr_ServiceSecrets (ed_ServiceSecrets_update f4)"
  "local_to Attr_ServiceLabels (ed_ServiceLabels_update f5)"
  "local_to Attr_ServiceContainerLabels (ed_ServiceContainerLabels_update f6)"
  "local_to Attr_ServiceMounts (ed_ServiceMounts_update f7)"
  "local_to Attr_Networks (ed_Networks_update f8)"
  "local_to Attr_ServiceConstraints (ed_ServiceConstraints_update f9)"
  "local_to Attr_ServicePreferences (ed_ServicePreferences_update f10)"
  "local_to Attr_Ports (ed_Ports_update f11)"
  "local_to Attr_Hosts (ed_Hosts_update f12)"
  "local_to Attr_LogDriverName (ed_LogDriverName_update f13)"
  "local_to Attr_LogDriverOpts (ed_LogDriverOpts_update f14)"
  by ((rule local_toI, (case_tac b; simp)), simp)+

lemma local_copy: "local_to a (copy_attr a x)"
  by (simp add: local_to_def same_attr_copy same_attr_copy_right)

section \<open>What every event keeps\<close>

text \<open>Rows that are added to the ports, the networks and the host entries are not tracked, nor is the model.\<close>

definition tracked :: "attribute \<Rightarrow> bool" where
  "tracked a \<longleftrightarrow> a \<notin> {Attr_Ports, Attr_Networks, Attr_Hosts, Attr_Model}"

definition loaded_rows :: "edited \<Rightarrow> bool" where
  "loaded_rows x \<longleftrightarrow> (\<forall>l \<in> set (ed_ServiceLabels x @ ed_ServiceContainerLabels x). \<not> label_changed l) \<and>
     (\<forall>r \<in> set (ed_LogDriverOpts x). \<not> option_changed r)"

text \<open>The arrays that are only changed in place: once they are shared they stay so.\<close>

definition kept_arrays :: "attribute set" where
  "kept_arrays = {Attr_ServiceLabels, Attr_ServiceContainerLabels, Attr_LogDriverOpts}"

text \<open>
  An attribute that is not in the list of changes is as in the original, an attribute that is shared too, and the
  original of an attribute that was never cancelled is as it was loaded.
\<close>

definition page_ok :: "edited \<Rightarrow> attribute set \<Rightarrow> service_page \<Rightarrow> bool" where
  "page_ok x C p \<longleftrightarrow>
     (\<forall>a. tracked a \<and> a \<notin> set (pg_previous p) \<longrightarrow> same_attr a (pg_service p) (pg_original p)) \<and>
     (\<forall>a \<in> set (pg_shared p). same_attr a (pg_service p) (pg_original p)) \<and>
     (\<forall>a. a \<notin> C \<longrightarrow> a \<notin> set (pg_shared p) \<and> same_attr a (pg_original p) x) \<and>
     C \<inter> kept_arrays \<subseteq> set (pg_shared p)"

lemma page_ok_open: "page_ok x {} (open_service img x)"
  by (simp add: page_ok_def open_service_def)

lemma page_okD:
  assumes "page_ok x C p"
  shows "tracked a \<Longrightarrow> a \<notin> set (pg_previous p) \<Longrightarrow> same_attr a (pg_service p) (pg_original p)"
    and "a \<in> set (pg_shared p) \<Longrightarrow> same_attr a (pg_service p) (pg_original p)"
    and "a \<notin> C \<Longrightarrow> same_attr a (pg_original p) x"
    and "a \<notin> C \<Longrightarrow> a \<notin> set (pg_shared p)"
    and "a \<in> C \<Longrightarrow> a \<in> kept_arrays \<Longrightarrow> a \<in> set (pg_shared p)"
  using assms by (auto simp: page_ok_def)

lemma page_okI:
  assumes "\<And>a. tracked a \<Longrightarrow> a \<notin> set (pg_previous p) \<Longrightarrow> same_attr a (pg_service p) (pg_original p)"
    and "\<And>a. a \<in> set (pg_shared p) \<Longrightarrow> same_attr a (pg_service p) (pg_original p)"
    and "\<And>a. a \<notin> C \<Longrightarrow> same_attr a (pg_original p) x"
    and "\<And>a. a \<notin> C \<Longrightarrow> a \<notin> set (pg_shared p)"
    and "\<And>a. a \<in> C \<Longrightarrow> a \<in> kept_arrays \<Longrightarrow> a \<in> set (pg_shared p)"
  shows "page_ok x C p"
  using assms by (auto simp: page_ok_def)

lemma mutate_selects [simp]:
  "pg_previous (mutate a h p) = pg_previous p"
  "pg_shared (mutate a h p) = pg_shared p"
  "pg_service (mutate a h p) = h (pg_service p)"
  "pg_mountsInModel (mutate a h p) = pg_mountsInModel p"
  "pg_RegistryModel (mutate a h p) = pg_RegistryModel p"
  by (simp_all add: mutate_def)

lemma mutate_original:
  assumes "local_to a h"
  shows "b \<noteq> a \<Longrightarrow> same_attr b (pg_original (mutate a h p)) (pg_original p)"
    and "a \<notin> set (pg_shared p) \<Longrightarrow> pg_original (mutate a h p) = pg_original p"
    and "a \<in> set (pg_shared p) \<Longrightarrow> pg_original (mutate a h p) = h (pg_original p)"
  using assms by (simp_all add: mutate_def local_to_def)

text \<open>Where the two copies agree on an attribute they agree after a change in place, as far as it reaches both.\<close>

lemma mutate_agrees:
  assumes h: "local_to a h" and old: "same_attr b (pg_service p) (pg_original p)"
    and t: "b = a \<Longrightarrow> a \<notin> set (pg_shared p) \<Longrightarrow> same_attr a (h (pg_service p)) (pg_service p)"
  shows "same_attr b (h (pg_service p)) (pg_original (mutate a h p))"
proof (cases "b = a")
  case False
  then have "same_attr b (h (pg_service p)) (pg_service p)" using h by (simp add: local_to_def)
  from same_attr_trans [OF same_attr_trans [OF this old] same_attr_sym [OF mutate_original(1) [OF h False]]]
  show ?thesis .
next
  case True
  show ?thesis
  proof (cases "a \<in> set (pg_shared p)")
    case shared: True
    then show ?thesis using True old h mutate_original(3) [OF h shared] by (simp add: local_to_def)
  next
    case unshared: False
    with t True have "same_attr b (h (pg_service p)) (pg_service p)" by simp
    from same_attr_trans [OF this old] show ?thesis by (simp only: mutate_original(2) [OF h unshared])
  qed
qed

text \<open>A change in place keeps the invariant when it is tracked, or when it changes nothing in an array that is not.\<close>

lemma page_ok_mutate:
  assumes ok: "page_ok x C p" and h: "local_to a h"
    and t: "tracked a \<Longrightarrow> a \<notin> set (pg_previous p) \<Longrightarrow> a \<notin> set (pg_shared p) \<Longrightarrow> same_attr a (h (pg_service p)) (pg_service p)"
  shows "page_ok x C (mutate a h p)"
proof (rule page_okI, unfold mutate_selects)
  fix b assume "tracked b" "b \<notin> set (pg_previous p)"
  then show "same_attr b (h (pg_service p)) (pg_original (mutate a h p))"
    using page_okD(1) [OF ok] t by (intro mutate_agrees [OF h]) simp_all
next
  fix b assume "b \<in> set (pg_shared p)"
  then show "same_attr b (h (pg_service p)) (pg_original (mutate a h p))"
    using page_okD(2) [OF ok] by (intro mutate_agrees [OF h]) simp_all
next
  fix b assume b: "b \<notin> C"
  show "same_attr b (pg_original (mutate a h p)) x"
  proof (cases "b = a")
    case True
    with b page_okD(4) [OF ok] have "a \<notin> set (pg_shared p)" by simp
    then show ?thesis using page_okD(3) [OF ok b] True by (simp add: mutate_original(2) [OF h])
  next
    case False
    from same_attr_trans [OF mutate_original(1) [OF h False] page_okD(3) [OF ok b]] show ?thesis .
  qed
qed (use page_okD(4,5) [OF ok] in auto)

text \<open>The list of changes only decides the first part, so marking an attribute keeps the invariant.\<close>

lemma page_ok_mark: "page_ok x C p \<Longrightarrow> page_ok x C (updateServiceArray a p)"
  by (simp add: page_ok_def updateServiceArray_def)

lemma page_ok_tracked_if: "page_ok x C p \<Longrightarrow> page_ok x C (tracked_if b a p)"
  by (simp add: tracked_if_def page_ok_mark)

lemma mutate_mark: "updateServiceArray a (mutate b h p) = mutate b h (updateServiceArray a p)"
  by (simp add: updateServiceArray_def mutate_def)

lemma page_ok_edit_rows: "page_ok x C p \<Longrightarrow> local_to a h \<Longrightarrow> page_ok x C (edit_rows a h p)"
  unfolding edit_rows_def mutate_mark
  by (rule page_ok_mutate) (simp_all add: page_ok_mark, simp add: updateServiceArray_def)

text \<open>An assignment only changes the copy that is edited.\<close>

lemma page_ok_assign:
  assumes ok: "page_ok x C p" and h: "local_to a h" and prev: "a \<in> set (pg_previous p) \<or> \<not> tracked a"
    and other: "a \<notin> kept_arrays"
  shows "page_ok x C (assign a h p)"
proof (rule page_okI)
  note sel = assign_def service_page.simps
  have same: "same_attr b (h (pg_service p)) (pg_original p)" if "b \<noteq> a" "same_attr b (pg_service p) (pg_original p)" for b
    using h that same_attr_trans unfolding local_to_def by blast
  fix b
  show "same_attr b (pg_service (assign a h p)) (pg_original (assign a h p))"
    if "tracked b" "b \<notin> set (pg_previous (assign a h p))"
    using that same [of b] prev page_okD(1) [OF ok, of b] by (auto simp: assign_def)
  show "same_attr b (pg_service (assign a h p)) (pg_original (assign a h p))" if "b \<in> set (pg_shared (assign a h p))"
    using that same [of b] page_okD(2) [OF ok, of b] by (auto simp: assign_def)
  show "same_attr b (pg_original (assign a h p)) x" if "b \<notin> C" using that page_okD(3) [OF ok] by (simp add: assign_def)
  show "b \<notin> set (pg_shared (assign a h p))" if "b \<notin> C" using that page_okD(4) [OF ok] by (simp add: assign_def)
  show "b \<in> set (pg_shared (assign a h p))" if "b \<in> C" "b \<in> kept_arrays"
    using that other page_okD(5) [OF ok] by (auto simp: assign_def)
qed

text \<open>
  While the attributes of a list are copied, the list of changes may lack those that are still to come: the invariant
  is not asked of them.
\<close>

definition page_ok_but :: "attribute set \<Rightarrow> edited \<Rightarrow> attribute set \<Rightarrow> service_page \<Rightarrow> bool" where
  "page_ok_but A x C p \<longleftrightarrow>
     (\<forall>a. tracked a \<and> a \<notin> set (pg_previous p) \<and> a \<notin> A \<longrightarrow> same_attr a (pg_service p) (pg_original p)) \<and>
     (\<forall>a \<in> set (pg_shared p). same_attr a (pg_service p) (pg_original p)) \<and>
     (\<forall>a. a \<notin> C \<longrightarrow> a \<notin> set (pg_shared p) \<and> same_attr a (pg_original p) x) \<and>
     C \<inter> kept_arrays \<subseteq> set (pg_shared p)"

lemma page_ok_but_none: "page_ok_but {} x C p = page_ok x C p"
  by (simp add: page_ok_but_def page_ok_def)

lemma restore_selects [simp]:
  "pg_previous (restore_attr a p) = pg_previous p"
  "pg_original (restore_attr a p) = pg_original p"
  "pg_service (restore_attr a p) = copy_attr a (pg_original p) (pg_service p)"
  by (simp_all add: restore_attr_def)

lemma restore_shared:
  "set (pg_shared (restore_attr a p)) = set (pg_shared p) \<union> (if a \<in> set object_attrs then {a} else {})"
  by (auto simp: restore_attr_def)

lemma kept_are_objects: "kept_arrays \<subseteq> set object_attrs"
  by (auto simp: kept_arrays_def object_attrs_def)

text \<open>Cancelling an attribute shares it and makes the two copies agree on it.\<close>

lemma page_ok_but_restore:
  assumes ok: "page_ok_but (insert a A) x C p"
  shows "page_ok_but A x (insert a C) (restore_attr a p)"
proof -
  have agree: "b = a \<or> same_attr b (pg_service p) (pg_original p) \<Longrightarrow>
      same_attr b (copy_attr a (pg_original p) (pg_service p)) (pg_original p)" for b
    by (auto simp: same_attr_copy)
  have 1: "\<forall>b. tracked b \<and> b \<notin> set (pg_previous p) \<and> b \<notin> A \<longrightarrow>
      same_attr b (copy_attr a (pg_original p) (pg_service p)) (pg_original p)"
    using ok agree unfolding page_ok_but_def by blast
  have 2: "\<forall>b \<in> set (pg_shared (restore_attr a p)).
      same_attr b (copy_attr a (pg_original p) (pg_service p)) (pg_original p)"
    using ok agree unfolding page_ok_but_def restore_shared by (auto split: if_splits)
  have 3: "\<forall>b. b \<notin> insert a C \<longrightarrow> b \<notin> set (pg_shared (restore_attr a p)) \<and> same_attr b (pg_original p) x"
    using ok unfolding page_ok_but_def restore_shared by auto
  have 4: "insert a C \<inter> kept_arrays \<subseteq> set (pg_shared (restore_attr a p))"
    using ok kept_are_objects unfolding page_ok_but_def restore_shared by auto
  show ?thesis unfolding page_ok_but_def restore_selects using 1 2 3 4 by (intro conjI)
qed

lemma page_ok_but_fold: "page_ok_but (set ks) x C p \<Longrightarrow> page_ok x (C \<union> set ks) (fold restore_attr ks p)"
proof (induction ks arbitrary: C p)
  case Nil
  then show ?case by (simp add: page_ok_but_none)
next
  case (Cons a ks)
  then have "page_ok_but (set ks) x (insert a C) (restore_attr a p)" by (intro page_ok_but_restore) simp
  from Cons.IH [OF this] show ?case by simp
qed

lemma service_attrs_all: "a \<noteq> Attr_Webhooks \<Longrightarrow> a \<in> set service_attrs"
  by (cases a) (simp_all add: service_attrs_def object_attrs_def)

lemma untracked_rest: "a \<notin> set service_attrs \<Longrightarrow> same_attr a y z"
  using service_attrs_all [of a] by (cases "a = Attr_Webhooks") simp_all

lemma forget_keys:
  "pg_service (fold forget_key ks p) = pg_service p" "pg_original (fold forget_key ks p) = pg_original p"
  "pg_shared (fold forget_key ks p) = pg_shared p"
  "b \<notin> set ks \<Longrightarrow> b \<in> set (pg_previous (fold forget_key ks p)) \<longleftrightarrow> b \<in> set (pg_previous p)"
  by (induction ks arbitrary: p) (auto simp: forget_key_def clear_image_def in_set_remove1)

lemma page_ok_set_changes: "page_ok x C (p\<lparr>pg_hasChanges := b\<rparr>) = page_ok x C p"
  by (simp add: page_ok_def)

lemma page_ok_UNIV: "page_ok x C p \<Longrightarrow> set service_attrs \<subseteq> C \<Longrightarrow> page_ok x UNIV p"
  unfolding page_ok_def using kept_are_objects by (auto simp: service_attrs_def)

lemma page_ok_cancel:
  assumes ok: "page_ok x C p"
  shows "page_ok x (C \<union> cancelled_by keys) (cancelChanges keys p)"
proof (cases keys)
  case (Some ks)
  have "page_ok_but (set ks) x C (fold forget_key ks p)"
    using ok unfolding page_ok_def page_ok_but_def by (auto simp: forget_keys)
  from page_ok_but_fold [OF this] show ?thesis
    by (simp add: Some cancelChanges_def cancelled_by_def page_ok_set_changes)
next
  case None
  let ?p = "(clear_image p)\<lparr>pg_previous := []\<rparr>"
  have "page_ok_but (set service_attrs) x C ?p"
    using ok untracked_rest unfolding page_ok_def page_ok_but_def by (simp add: clear_image_def)
  from page_ok_but_fold [OF this] have "page_ok x (C \<union> set service_attrs) (fold restore_attr service_attrs ?p)" .
  from page_ok_UNIV [OF this] show ?thesis
    by (simp add: None cancelChanges_def cancelled_by_def page_ok_set_changes)
qed

text \<open>The requests change the model, which is not tracked, and the rows of the ports.\<close>

lemma page_ok_mounts_flag [simp]: "page_ok x C (p\<lparr>pg_mountsInModel := b\<rparr>) = page_ok x C p"
  by (simp add: page_ok_def)

lemma untracked [simp]:
  "\<not> tracked Attr_Model" "\<not> tracked Attr_Ports" "\<not> tracked Attr_Networks" "\<not> tracked Attr_Hosts"
  by (simp_all add: tracked_def)

lemma page_ok_untracked: "page_ok x C p \<Longrightarrow> local_to a h \<Longrightarrow> \<not> tracked a \<Longrightarrow> page_ok x C (mutate a h p)"
  by (rule page_ok_mutate) simp_all

lemma page_ok_build: "page_ok x C p \<Longrightarrow> page_ok x C (snd (buildChanges as_ms p))"
  by (simp add: buildChanges_def clean_ports_def Let_def page_ok_untracked)

lemma page_ok_refused:
  assumes "page_ok x C p"
  shows "page_ok x C (snd (updateService as_ms Refused y p))"
    and "page_ok x C (snd (rollbackService as_ms Refused y p))"
    and "page_ok x C (snd (forceUpdateService pull Refused y p))"
  using assms by (simp_all add: updateService_def rollbackService_def forceUpdateService_def Let_def page_ok_build page_ok_untracked)

lemma page_ok_mutate_mounts:
  assumes "page_ok x C p" and "Attr_ServiceMounts \<in> set (pg_previous p)"
  shows "page_ok x C (mutate_mounts h p)"
proof -
  have "page_ok x C (mutate Attr_ServiceMounts (ed_ServiceMounts_update h) p)"
    using assms by (intro page_ok_mutate) simp_all
  then show ?thesis by (simp add: mutate_mounts_def refresh_model_mounts_def page_ok_untracked)
qed

lemma mark_mounts: "updateServiceArray Attr_ServiceMounts (mutate_mounts h p) = mutate_mounts h (updateServiceArray Attr_ServiceMounts p)"
  by (simp add: updateServiceArray_def mutate_mounts_def refresh_model_mounts_def mutate_def)

lemma page_ok_mounts: "page_ok x C p \<Longrightarrow> page_ok x C (updateServiceArray Attr_ServiceMounts (mutate_mounts h p))"
  unfolding mark_mounts by (rule page_ok_mutate_mounts) (simp_all add: page_ok_mark, simp add: updateServiceArray_def)

lemma mark_assign: "updateServiceArray a (assign b h p) = assign b h (updateServiceArray a p)"
  by (simp add: updateServiceArray_def assign_def)

lemma page_ok_assign_mark:
  "page_ok x C p \<Longrightarrow> local_to a h \<Longrightarrow> a \<notin> kept_arrays \<Longrightarrow> page_ok x C (updateServiceArray a (assign a h p))"
  unfolding mark_assign by (rule page_ok_assign) (simp_all add: page_ok_mark, simp add: updateServiceArray_def)

lemma page_ok_edit_field:
  assumes "page_ok x C p" "local_to a h" "a \<notin> kept_arrays"
  shows "page_ok x C (edit_field a h p)"
proof -
  have "page_ok x C (updateServiceArray a (assign a h p))" by (rule page_ok_assign_mark) (use assms in simp_all)
  then show ?thesis by (simp add: page_ok_def edit_field_def updateServiceAttribute_def updateServiceArray_def)
qed

text \<open>
  A label that is typed back to what was loaded is not tracked; where the attribute is not tracked yet, nothing was
  changed then.
\<close>

lemma unchanged_row:
  assumes ok: "page_ok x C p" and a: "a \<in> kept_arrays" and n: "a \<notin> set (pg_previous p)" "a \<notin> set (pg_shared p)"
  shows "same_attr a (pg_service p) x"
proof -
  have t: "tracked a" using a by (auto simp: kept_arrays_def tracked_def)
  have "a \<notin> C" using page_okD(5) [OF ok _ a] n by blast
  from same_attr_trans [OF page_okD(1) [OF ok t n(1)] page_okD(3) [OF ok this]] show ?thesis .
qed

lemma set_label_same:
  assumes "\<forall>l \<in> set ls. \<not> label_changed l" "i < length ls \<Longrightarrow> \<not> label_changed (set_label i k v ls ! i)"
  shows "set_label i k v ls = ls"
proof (cases "i < length ls")
  case True
  then have "\<not> label_changed (ls ! i)" "\<not> label_changed ((ls ! i)\<lparr>label_key := k, label_value := v\<rparr>)"
    using assms by (simp_all add: set_label_def)
  then have "(ls ! i)\<lparr>label_key := k, label_value := v\<rparr> = ls ! i" by (cases "ls ! i") (simp add: label_changed_def)
  then show ?thesis by (simp add: set_label_def)
qed (simp add: set_label_def)

lemma page_ok_tracked_mutate:
  assumes ok: "page_ok x C p" and h: "local_to a h" and a: "a \<in> kept_arrays"
    and t: "\<not> b \<Longrightarrow> same_attr a (pg_service p) x \<Longrightarrow> same_attr a (h (pg_service p)) (pg_service p)"
  shows "page_ok x C (tracked_if b a (mutate a h p))"
proof (cases b)
  case True
  then show ?thesis using page_ok_edit_rows [OF ok h] by (simp add: tracked_if_def edit_rows_def)
next
  case False
  have "page_ok x C (mutate a h p)"
    by (rule page_ok_mutate [OF ok h]) (use unchanged_row [OF ok a] t False in blast)
  with False show ?thesis by (simp add: tracked_if_def)
qed

lemma length_set_label [simp]: "length (set_label i k v ls) = length ls"
  by (simp add: set_label_def)

lemma page_ok_labels:
  assumes ok: "page_ok x C p" and rows: "loaded_rows x"
  shows "page_ok x C (updateServiceLabel i k v p)" and "page_ok x C (updateContainerLabel i k v p)"
proof -
  have l: "\<forall>l \<in> set (ed_ServiceLabels x). \<not> label_changed l" "\<forall>l \<in> set (ed_ServiceContainerLabels x). \<not> label_changed l"
    using rows by (simp_all add: loaded_rows_def)
  show "page_ok x C (updateServiceLabel i k v p)"
    unfolding updateServiceLabel_def Let_def
  proof (rule page_ok_tracked_mutate [OF ok])
    assume n: "\<not> (i < length (ed_ServiceLabels (pg_service (mutate Attr_ServiceLabels (ed_ServiceLabels_update (set_label i k v)) p))) \<and>
        label_changed (ed_ServiceLabels (pg_service (mutate Attr_ServiceLabels (ed_ServiceLabels_update (set_label i k v)) p)) ! i))"
      and "same_attr Attr_ServiceLabels (pg_service p) x"
    then have "set_label i k v (ed_ServiceLabels (pg_service p)) = ed_ServiceLabels (pg_service p)"
      using l by (intro set_label_same) simp_all
    then show "same_attr Attr_ServiceLabels (ed_ServiceLabels_update (set_label i k v) (pg_service p)) (pg_service p)" by simp
  qed (rule local_updates, simp add: kept_arrays_def)
  show "page_ok x C (updateContainerLabel i k v p)"
    unfolding updateContainerLabel_def Let_def
  proof (rule page_ok_tracked_mutate [OF ok])
    assume n: "\<not> (i < length (ed_ServiceContainerLabels (pg_service (mutate Attr_ServiceContainerLabels (ed_ServiceContainerLabels_update (set_label i k v)) p))) \<and>
        label_changed (ed_ServiceContainerLabels (pg_service (mutate Attr_ServiceContainerLabels (ed_ServiceContainerLabels_update (set_label i k v)) p)) ! i))"
      and "same_attr Attr_ServiceContainerLabels (pg_service p) x"
    then have "set_label i k v (ed_ServiceContainerLabels (pg_service p)) = ed_ServiceContainerLabels (pg_service p)"
      using l by (intro set_label_same) simp_all
    then show "same_attr Attr_ServiceContainerLabels (ed_ServiceContainerLabels_update (set_label i k v) (pg_service p)) (pg_service p)" by simp
  qed (rule local_updates, simp add: kept_arrays_def)
qed

definition set_option_value :: "nat \<Rightarrow> string \<Rightarrow> option_row list \<Rightarrow> option_row list" where
  "set_option_value i v os = (if i < length os then os[i := (os ! i)\<lparr>opt_value := v\<rparr>] else os)"

lemma set_option_same:
  assumes "\<forall>r \<in> set os. \<not> option_changed r" "i < length os \<Longrightarrow> \<not> option_changed (set_option_value i v os ! i)"
  shows "set_option_value i v os = os"
proof (cases "i < length os")
  case True
  then have "\<not> option_changed (os ! i)" "\<not> option_changed ((os ! i)\<lparr>opt_value := v\<rparr>)"
    using assms by (simp_all add: set_option_value_def)
  then have "(os ! i)\<lparr>opt_value := v\<rparr> = os ! i" by (cases "os ! i") (simp add: option_changed_def)
  then show ?thesis by (simp add: set_option_value_def)
qed (simp add: set_option_value_def)

lemma length_set_option_value [simp]: "length (set_option_value i v os) = length os"
  by (simp add: set_option_value_def)

lemma page_ok_options:
  assumes ok: "page_ok x C p" and rows: "loaded_rows x"
  shows "page_ok x C (updateServiceDriverOpt i v p)" and "page_ok x C (type_option_key i k p)"
proof -
  have l: "\<forall>r \<in> set (ed_LogDriverOpts x). \<not> option_changed r" using rows by (simp add: loaded_rows_def)
  show "page_ok x C (updateServiceDriverOpt i v p)"
    unfolding updateServiceDriverOpt_def Let_def set_option_value_def [symmetric]
  proof (rule page_ok_tracked_mutate [OF ok])
    assume n: "\<not> (i < length (ed_LogDriverOpts (pg_service (mutate Attr_LogDriverOpts (ed_LogDriverOpts_update (set_option_value i v)) p))) \<and>
        option_changed (ed_LogDriverOpts (pg_service (mutate Attr_LogDriverOpts (ed_LogDriverOpts_update (set_option_value i v)) p)) ! i))"
      and "same_attr Attr_LogDriverOpts (pg_service p) x"
    then have "set_option_value i v (ed_LogDriverOpts (pg_service p)) = ed_LogDriverOpts (pg_service p)"
      using l by (intro set_option_same) simp_all
    then show "same_attr Attr_LogDriverOpts (ed_LogDriverOpts_update (set_option_value i v) (pg_service p)) (pg_service p)" by simp
  qed (rule local_updates, simp add: kept_arrays_def)
  show "page_ok x C (type_option_key i k p)"
  proof (cases "i < length (ed_LogDriverOpts (pg_service p)) \<and> \<not> opt_added (ed_LogDriverOpts (pg_service p) ! i)")
    case True
    have "page_ok x C (mutate Attr_LogDriverOpts (ed_LogDriverOpts_update (\<lambda>os. os[i := (os ! i)\<lparr>opt_key := k\<rparr>])) p)"
    proof (rule page_ok_mutate [OF ok])
      assume "Attr_LogDriverOpts \<notin> set (pg_previous p)" "Attr_LogDriverOpts \<notin> set (pg_shared p)"
      with unchanged_row [OF ok, of Attr_LogDriverOpts] have "ed_LogDriverOpts (pg_service p) = ed_LogDriverOpts x"
        by (simp add: kept_arrays_def)
      then have "\<not> option_changed (ed_LogDriverOpts (pg_service p) ! i)"
        using l nth_mem [OF conjunct1 [OF True]] by simp
      with conjunct2 [OF True] have False unfolding option_changed_def by blast
      then show "same_attr Attr_LogDriverOpts (ed_LogDriverOpts_update (\<lambda>os. os[i := (os ! i)\<lparr>opt_key := k\<rparr>])
          (pg_service p)) (pg_service p)" ..
    qed (rule local_updates)
    with True show ?thesis by (simp only: type_option_key_def if_True simp_thms)
  next
    case False
    with ok show ?thesis by (simp only: type_option_key_def if_False)
  qed
qed

lemmas row_defs =
  addServiceVariable_def removeConfig_def updateConfig_def removeSecret_def addServiceLabel_def removeServiceLabel_def
  addContainerLabel_def removeContainerLabel_def updateNetwork_def addPlacementConstraint_def
  removePlacementConstraint_def updatePlacementConstraint_def addPlacementPreference_def
  removePlacementPreference_def updatePlacementPreference_def updatePublishedPort_def
  removePortPublishedBinding_def addServiceDriverOpt_def removeServiceDriverOpt_def removeHostsEntry_def
  updateHostsEntry_def

lemmas mount_defs = addMount_def removeMount_def updateMount_def onChangeMountType_def

lemma typed_field_local: "(a, g) \<in> set typed_fields \<Longrightarrow> g = copy_attr a \<and> a \<notin> kept_arrays"
  by (auto simp: typed_fields_def kept_arrays_def)

lemma page_ok_single_edits:
  assumes ok: "page_ok x C p"
  shows "page_ok x C (onChangeEnvVars env p)" "page_ok x C (addConfig cfg p)"
    "page_ok x C (addSecret sec override target p)" "page_ok x C (addNetwork p)" "page_ok x C (removeNetwork i p)"
    "page_ok x C (addServicePort p)" "page_ok x C (updateLogDriverName n p)" "page_ok x C (addHostsEntry p)"
    "page_ok x C (choose_image img p)"
proof -
  note simps = page_ok_assign_mark page_ok_edit_rows page_ok_untracked page_ok_tracked_if page_ok_assign
    kept_arrays_def ok
  show "page_ok x C (onChangeEnvVars env p)" by (simp add: onChangeEnvVars_def simps)
  show "page_ok x C (addConfig cfg p)" by (simp add: addConfig_def simps split: option.splits)
  show "page_ok x C (addSecret sec override target p)" by (simp add: addSecret_def Let_def simps split: option.splits)
  show "page_ok x C (addNetwork p)" by (simp add: addNetwork_def simps)
  show "page_ok x C (removeNetwork i p)" by (simp add: removeNetwork_def simps split: option.splits)
  show "page_ok x C (addServicePort p)" by (simp add: addServicePort_def simps)
  show "page_ok x C (updateLogDriverName n p)" by (simp add: updateLogDriverName_def simps)
  show "page_ok x C (addHostsEntry p)" by (simp add: addHostsEntry_def simps)
  show "page_ok x C (choose_image img p)" using ok by (simp add: choose_image_def page_ok_def)
qed

lemma page_ok_typed: "page_ok x C p \<Longrightarrow> (a, g) \<in> set typed_fields \<Longrightarrow> page_ok x C (edit_field a (g y) p)"
  by (drule typed_field_local) (simp add: page_ok_edit_field local_copy)

lemma page_ok_edit:
  assumes "edit_step p q" and ok: "page_ok x C p" and rows: "loaded_rows x"
  shows "page_ok x C q"
  using assms(1)
proof cases
qed (simp_all add: row_defs mount_defs page_ok_edit_rows page_ok_mounts page_ok_labels page_ok_options
    page_ok_single_edits page_ok_typed ok rows)

theorem reachable_page_ok:
  assumes "reachable_page x C p" and "loaded_rows x"
  shows "page_ok x C p"
  using assms(1)
proof induction
  case (edits C p q)
  then show ?case using page_ok_edit assms(2) by blast
qed (simp_all add: page_ok_open page_ok_cancel page_ok_refused)

section \<open>A service that was loaded\<close>

lemma loaded_service_rows: "loaded_rows (load_service inspect available s)"
proof -
  have "\<forall>l \<in> set (fromLabelHashToKeyValue labels). \<not> label_changed l" for labels
    by (auto simp: fromLabelHashToKeyValue_def label_rows_def label_changed_def split: option.splits)
  moreover have "\<forall>r \<in> set (translateLogDriverOptsToKeyValue os). \<not> option_changed r" for os
    by (auto simp: translateLogDriverOptsToKeyValue_def option_changed_def split: option.splits)
  ultimately show ?thesis by (simp add: loaded_rows_def load_service_def Let_def ball_Un)
qed

text \<open>Without a refused request the model is the specification that was loaded, and its mounts are its own.\<close>

inductive untouched_page :: "edited \<Rightarrow> service_page \<Rightarrow> bool" for x where
  "untouched_page x (open_service img x)"
| "untouched_page x p \<Longrightarrow> edit_step p q \<Longrightarrow> untouched_page x q"
| "untouched_page x p \<Longrightarrow> untouched_page x (cancelChanges keys p)"

definition model_kept :: "edited \<Rightarrow> service_page \<Rightarrow> bool" where
  "model_kept x p \<longleftrightarrow> ed_Model (pg_service p) = ed_Model x \<and> ed_Model (pg_original p) = ed_Model x \<and> \<not> pg_mountsInModel p"

lemma local_keeps_model: "local_to a h \<Longrightarrow> a \<noteq> Attr_Model \<Longrightarrow> ed_Model (h y) = ed_Model y"
proof -
  assume h: "local_to a h" and "a \<noteq> Attr_Model"
  then have "Attr_Model \<noteq> a" by (rule_tac not_sym)
  with h have "same_attr Attr_Model (h y) y" unfolding local_to_def by blast
  then show ?thesis by simp
qed

lemma model_kept_mutate: "model_kept x p \<Longrightarrow> local_to a h \<Longrightarrow> a \<noteq> Attr_Model \<Longrightarrow> model_kept x (mutate a h p)"
  by (simp add: model_kept_def mutate_def local_keeps_model)

lemma model_kept_assign: "model_kept x p \<Longrightarrow> local_to a h \<Longrightarrow> a \<noteq> Attr_Model \<Longrightarrow> model_kept x (assign a h p)"
  by (simp add: model_kept_def assign_def local_keeps_model)

lemma model_kept_mark [simp]: "model_kept x (updateServiceArray a p) = model_kept x p"
  by (simp add: model_kept_def updateServiceArray_def)

lemma model_kept_tracked_if [simp]: "model_kept x (tracked_if b a p) = model_kept x p"
  by (simp add: tracked_if_def)

lemma model_kept_mounts: "model_kept x p \<Longrightarrow> model_kept x (mutate_mounts h p)"
proof -
  assume p: "model_kept x p"
  then have "\<not> pg_mountsInModel p" by (simp add: model_kept_def)
  then show ?thesis using model_kept_mutate [OF p] by (simp add: mutate_mounts_def refresh_model_mounts_def)
qed

lemma typed_not_model: "(a, g) \<in> set typed_fields \<Longrightarrow> g = copy_attr a \<and> a \<noteq> Attr_Model"
  by (auto simp: typed_fields_def)

lemma model_kept_typed: "model_kept x p \<Longrightarrow> (a, g) \<in> set typed_fields \<Longrightarrow> model_kept x (edit_field a (g y) p)"
  using model_kept_assign [OF _ local_copy, of x p a y] typed_not_model [of a g]
  by (auto simp: edit_field_def updateServiceAttribute_def model_kept_def)

lemma model_kept_edit:
  assumes "edit_step p q" and ok: "model_kept x p"
  shows "model_kept x q"
  using assms(1)
proof cases
qed (simp_all add: row_defs mount_defs edit_rows_def model_kept_mutate model_kept_assign model_kept_mounts
    model_kept_typed updateServiceLabel_def updateContainerLabel_def updateServiceDriverOpt_def Let_def
    onChangeEnvVars_def addConfig_def addSecret_def addNetwork_def removeNetwork_def addServicePort_def
    updateLogDriverName_def addHostsEntry_def ok type_option_key_def split: option.splits,
    use ok in \<open>simp_all add: choose_image_def model_kept_def\<close>)

lemma model_kept_restore: "model_kept x p \<Longrightarrow> model_kept x (restore_attr a p)"
  by (cases a) (simp_all add: model_kept_def restore_attr_def)

lemma model_kept_cancel: "model_kept x p \<Longrightarrow> model_kept x (cancelChanges keys p)"
proof -
  assume p: "model_kept x p"
  have fold: "model_kept x q \<Longrightarrow> model_kept x (fold restore_attr ks q)" for ks q
    by (induction ks arbitrary: q) (simp_all add: model_kept_restore)
  have forget: "model_kept x q \<Longrightarrow> model_kept x (fold forget_key ks q)" for ks q
    by (induction ks arbitrary: q) (simp_all add: forget_key_def clear_image_def model_kept_def)
  have "model_kept x ((clear_image p)\<lparr>pg_previous := []\<rparr>)" using p by (simp add: model_kept_def clear_image_def)
  with fold forget p show ?thesis by (simp add: cancelChanges_def model_kept_def split: option.splits)
qed

lemma untouched_model: "untouched_page x p \<Longrightarrow> model_kept x p"
proof (induction rule: untouched_page.induct)
  case (1 img)
  then show ?case by (simp add: model_kept_def open_service_def)
qed (simp_all add: model_kept_edit model_kept_cancel)

section \<open>Properties\<close>

text \<open>
  However the page of a service is edited, cancelled and refused, a section whose attributes are not in the list
  of changes shows what the copy of the service holds: no edit is offered as unchanged, the rows that are added to
  the ports, the networks and the host entries apart.
\<close>

theorem changes_tracked:
  assumes "reachable_page (load_service inspect available s) C p"
    and "tracked a" and "a \<noteq> Attr_Image" and "\<not> hasChanges p [a]"
  shows "same_attr a (pg_service p) (pg_original p)"
  using page_okD(1) [OF reachable_page_ok [OF assms(1) loaded_service_rows] assms(2)] assms(3,4)
  by (simp add: hasChanges_def)

definition sample_service :: engine_service where
  "sample_service = \<lparr>es_ID = ''s1'', es_CreatedAt = [], es_UpdatedAt = [], es_Version = 7,
     es_Spec = service_config.extend ((empty_service_config ''web'')\<lparr>scfg_Labels := Some [(''team'', ''a'')],
       scfg_Mode := Replicated (Some 2)\<rparr>) \<lparr>spec_RollbackConfig = None\<rparr>,
     es_Ports = None\<rparr>"

text \<open>The page of a service with a label, opened, and edited by adding and removing labels.\<close>

definition sample_loaded :: edited where
  "sample_loaded = load_service (\<lambda>_. None) [] sample_service"

definition no_image :: image_model where
  "no_image = \<lparr>im_UseRegistry = False, im_Registry = \<lparr>reg_Type = ANONYMOUS, reg_URL = [], reg_Username = [],
     reg_ProjectPath = [], reg_UseOrganisation = False, reg_OrganisationName = []\<rparr>, im_Image = []\<rparr>"

definition sample_page :: service_page where
  "sample_page = addServiceLabel (open_service no_image sample_loaded)"

lemma sample_reachable: "reachable_page sample_loaded {} sample_page"
  unfolding sample_page_def by (rule reachable_page.edits [OF reachable_page.opened]) (rule edit_step.intros)

theorem changes_tracked_witness:
  "same_attr Attr_ServiceMounts (pg_service sample_page) (pg_original sample_page) \<and>
   \<not> same_attr Attr_ServiceLabels (pg_service sample_page) (pg_original sample_page)"
proof
  have n: "\<not> hasChanges sample_page [Attr_ServiceMounts]"
    by (simp add: hasChanges_def sample_page_def addServiceLabel_def edit_rows_def updateServiceArray_def mutate_def open_service_def)
  show "same_attr Attr_ServiceMounts (pg_service sample_page) (pg_original sample_page)"
    by (rule changes_tracked [OF sample_reachable [unfolded sample_loaded_def] _ _ n]) (simp_all add: tracked_def)
  show "\<not> same_attr Attr_ServiceLabels (pg_service sample_page) (pg_original sample_page)"
    by (simp add: sample_page_def addServiceLabel_def edit_rows_def updateServiceArray_def mutate_def open_service_def)
qed

lemma restore_keeps_original: "pg_original (fold restore_attr ks p) = pg_original p"
  by (induction ks arbitrary: p) simp_all

lemma restore_copies: "a \<in> set ks \<Longrightarrow> same_attr a (pg_service (fold restore_attr ks p)) (pg_original p)"
proof (induction ks arbitrary: p)
  case (Cons b ks)
  show ?case
  proof (cases "a \<in> set ks")
    case True
    then show ?thesis using Cons.IH [of "restore_attr b p"] by simp
  next
    case False
    then have "same_attr a (pg_service (fold restore_attr ks q)) (pg_service q)" for q
    proof (induction ks arbitrary: q)
      case (Cons c ks)
      have "same_attr a (pg_service (restore_attr c q)) (pg_service q)" using Cons.prems by (auto simp: same_attr_copy)
      from same_attr_trans [OF Cons.IH this] Cons.prems show ?case by simp
    qed simp
    note this [of "restore_attr b p"]
    moreover have "a = b" using Cons.prems False by simp
    then have "same_attr a (pg_service (restore_attr b p)) (pg_original p)" by (simp add: same_attr_copy)
    ultimately show ?thesis using same_attr_trans by (metis fold_simps(2))
  qed
qed simp

text \<open>
  Cancelling the changes of a section that was not cancelled before gives back the attributes as they were loaded,
  whatever was edited in between, and whatever requests were refused.
\<close>

theorem first_cancel_restores:
  assumes "reachable_page (load_service inspect available s) C p" and "a \<notin> C" and "a \<in> set keys"
  shows "same_attr a (pg_service (cancelChanges (Some keys) p)) (load_service inspect available s)"
proof -
  have o: "same_attr a (pg_original p) (load_service inspect available s)"
    using page_okD(3) [OF reachable_page_ok [OF assms(1) loaded_service_rows] assms(2)] .
  have "same_attr a (pg_service (cancelChanges (Some keys) p)) (pg_original p)"
    using restore_copies [OF assms(3), of "fold forget_key keys p"] by (simp add: cancelChanges_def forget_keys)
  from same_attr_trans [OF this o] show ?thesis .
qed

theorem first_cancel_restores_witness:
  "same_attr Attr_ServiceLabels (pg_service (cancelChanges (Some [Attr_ServiceLabels]) sample_page)) sample_loaded"
  unfolding sample_loaded_def
  by (rule first_cancel_restores [OF sample_reachable [unfolded sample_loaded_def]]) simp_all

text \<open>
  The second cancelling of a section does not: after the first, the two copies of the service share the rows, so a
  row that is added then stays.
\<close>

theorem second_cancel_keeps_row:
  "ed_ServiceLabels (pg_service (cancelChanges (Some [Attr_ServiceLabels])
      (addServiceLabel (cancelChanges (Some [Attr_ServiceLabels]) p)))) =
   ed_ServiceLabels (pg_original p) @ [new_label]"
  by (simp add: cancelChanges_def forget_key_def restore_attr_def addServiceLabel_def edit_rows_def mutate_def
      updateServiceArray_def object_attrs_def)

text \<open>
  A forced update sends the specification that the engine has, with a greater counter, whatever was edited and
  cancelled on the page, as long as no request was refused.
\<close>

theorem forced_update_keeps_service:
  assumes "untouched_page (load_service inspect available s) p"
  shows "fst (forceUpdateService pull ans y p) =
    (serviceToConfig (es_Spec s))\<lparr>scfg_TaskTemplate := forced_template pull (scfg_TaskTemplate (serviceToConfig (es_Spec s)))\<rparr>"
proof -
  have "ed_Model (pg_service p) = serviceToConfig (es_Spec s)"
    using untouched_model [OF assms] by (simp add: model_kept_def load_service_def Let_def)
  then show ?thesis by (simp add: forceUpdateService_def Let_def)
qed

lemma sample_untouched: "untouched_page sample_loaded sample_page"
  unfolding sample_page_def by (rule untouched_page.intros(2) [OF untouched_page.intros(1)]) (rule edit_step.intros)

theorem forced_update_keeps_service_witness:
  "scfg_Name (fst (forceUpdateService False Refused sample_loaded sample_page)) = ''web''"
  unfolding forced_update_keeps_service [OF sample_untouched [unfolded sample_loaded_def]]
  by (simp add: sample_service_def serviceToConfig_def service_config.defs empty_service_config_def)

text \<open>
  After an update that the engine refused, a forced update sends the task template of the refused update, edits
  included.
\<close>

theorem refused_update_is_forced:
  "scfg_TaskTemplate (fst (forceUpdateService pull ans y (snd (updateService as_ms Refused z p)))) =
   forced_template pull (scfg_TaskTemplate (fst (updateService as_ms Refused z p)))"
  by (simp add: forceUpdateService_def updateService_def buildChanges_def clean_ports_def Let_def)

end
