(* ===== verification/ServiceSaving.thy ===== *)
theory ServiceSaving
  imports ServicePage
begin

text \<open>
  Saving on the page of a service what was loaded: a service that the page can show is sent back as it is, and what
  the form of a new service asked for is among those.
\<close>

section \<open>Services that differ in the order of their parts only\<close>

text \<open>A missing object is an empty one, and objects are the same when they have the same properties.\<close>

definition same_labels :: "string obj option \<Rightarrow> string obj option \<Rightarrow> bool" where
  "same_labels a b \<longleftrightarrow> (\<forall>k. obj_get (some_or a []) k = obj_get (some_or b []) k)"

definition same_container :: "service_container \<Rightarrow> service_container \<Rightarrow> bool" where
  "same_container c d \<longleftrightarrow>
     sct_Image c = sct_Image d \<and> sct_Mounts c = sct_Mounts d \<and> sct_Command c = sct_Command d \<and>
     sct_Args c = sct_Args d \<and> sct_User c = sct_User d \<and> sct_Dir c = sct_Dir d \<and> sct_Rest c = sct_Rest d \<and>
     mset (some_or (sct_Env c) []) = mset (some_or (sct_Env d) []) \<and> same_labels (sct_Labels c) (sct_Labels d) \<and>
     some_or (sct_Hosts c) [] = some_or (sct_Hosts d) [] \<and> some_or (sct_Configs c) [] = some_or (sct_Configs d) [] \<and>
     some_or (sct_Secrets c) [] = some_or (sct_Secrets d) []"

definition placed :: "service_placement option \<Rightarrow> string list \<times> preference list \<times> json obj" where
  "placed q = (case q of None \<Rightarrow> ([], [], [])
     | Some r \<Rightarrow> (some_or (spl_Constraints r) [], some_or (spl_Preferences r) [], spl_Rest r))"

definition same_driver :: "log_driver option \<Rightarrow> log_driver option \<Rightarrow> bool" where
  "same_driver a b \<longleftrightarrow> (case (a, b) of
       (None, None) \<Rightarrow> True
     | (Some d, Some e) \<Rightarrow> ld_Name d = ld_Name e \<and> same_labels (ld_Options d) (ld_Options e)
     | _ \<Rightarrow> False)"

definition same_template :: "task_template \<Rightarrow> task_template \<Rightarrow> bool" where
  "same_template t u \<longleftrightarrow>
     same_container (stt_ContainerSpec t) (stt_ContainerSpec u) \<and> placed (stt_Placement t) = placed (stt_Placement u) \<and>
     stt_Resources t = stt_Resources u \<and> stt_RestartPolicy t = stt_RestartPolicy u \<and>
     same_driver (stt_LogDriver t) (stt_LogDriver u) \<and> stt_Networks t = stt_Networks u \<and>
     stt_ForceUpdate t = stt_ForceUpdate u \<and> stt_Rest t = stt_Rest u"

definition endpoint_of :: "service_config \<Rightarrow> string \<times> swarm_port list option" where
  "endpoint_of c = (or_str (Option.bind (scfg_EndpointSpec c) esp_Mode) ''vip'', Option.bind (scfg_EndpointSpec c) esp_Ports)"

definition same_service :: "service_config \<Rightarrow> service_config \<Rightarrow> bool" where
  "same_service c d \<longleftrightarrow>
     scfg_Name c = scfg_Name d \<and> same_labels (scfg_Labels c) (scfg_Labels d) \<and>
     same_template (scfg_TaskTemplate c) (scfg_TaskTemplate d) \<and> scfg_Mode c = scfg_Mode d \<and>
     scfg_UpdateConfig c = scfg_UpdateConfig d \<and> scfg_Networks c = scfg_Networks d \<and> endpoint_of c = endpoint_of d"

section \<open>What the page can show\<close>

definition showable_labels :: "string obj option \<Rightarrow> bool" where
  "showable_labels labels \<longleftrightarrow> (case labels of None \<Rightarrow> True | Some ob \<Rightarrow> obj_ok ob \<and> obj_get ob [] = None)"

definition showable_env :: "string \<Rightarrow> bool" where
  "showable_env t \<longleftrightarrow> (case parse_variable t of None \<Rightarrow> False | Some v \<Rightarrow> variable_text v = t \<and> env_name v \<noteq> [])"

definition showable_host :: "string \<Rightarrow> bool" where
  "showable_host h \<longleftrightarrow> (case entry_to_host h of
       None \<Rightarrow> False
     | Some e \<Rightarrow> he_ip e \<noteq> [] \<and> he_hostname e \<noteq> [] \<and> he_ip e @ '' '' @ he_hostname e = h)"

definition showable_constraint :: "string \<Rightarrow> bool" where
  "showable_constraint c \<longleftrightarrow> has_operator c \<and> crow_key (constraint_to_row c) \<noteq> [] \<and> crow_value (constraint_to_row c) \<noteq> []"

definition showable_file :: "file_ref \<Rightarrow> bool" where
  "showable_file r \<longleftrightarrow> truthy_str (ft_UID (fr_File r)) \<and> truthy_str (ft_GID (fr_File r)) \<and>
     truthy_str (ft_Name (fr_File r)) \<and> or_mode (ft_Mode (fr_File r)) 0 \<noteq> 0"

definition showable_driver :: "log_driver option \<Rightarrow> bool" where
  "showable_driver d \<longleftrightarrow> (case d of
       None \<Rightarrow> True
     | Some l \<Rightarrow> truthy_str (ld_Name l) \<and> (case ld_Options l of None \<Rightarrow> True
         | Some ob \<Rightarrow> ld_Name l \<noteq> Some ''none'' \<and> obj_ok ob \<and> list_all (\<lambda>(k, v). k \<noteq> [] \<and> v \<noteq> []) ob))"

definition showable_placement :: "service_placement option \<Rightarrow> bool" where
  "showable_placement q \<longleftrightarrow> list_all showable_constraint (fst (placed q)) \<and> list_all truthy_str (fst (snd (placed q)))"

definition showable_container :: "service_container \<Rightarrow> bool" where
  "showable_container c \<longleftrightarrow> list_all showable_env (some_or (sct_Env c) []) \<and> showable_labels (sct_Labels c) \<and>
     list_all showable_host (some_or (sct_Hosts c) []) \<and> list_all showable_file (some_or (sct_Configs c) []) \<and>
     list_all showable_file (some_or (sct_Secrets c) [])"

text \<open>The ports that the engine opened are those that were asked for.\<close>

definition showable :: "engine_service \<Rightarrow> bool" where
  "showable s \<longleftrightarrow>
     (let c = es_Spec s; t = scfg_TaskTemplate c
      in showable_labels (scfg_Labels c) \<and> showable_container (stt_ContainerSpec t) \<and>
         showable_placement (stt_Placement t) \<and> showable_driver (stt_LogDriver t) \<and>
         es_Ports s = Option.bind (scfg_EndpointSpec c) esp_Ports \<and>
         list_all (\<lambda>b. sport_PublishedPort b \<notin> {NullPort, TextPort []}) (some_or (es_Ports s) []))"

section \<open>Rows and objects\<close>

lemma some_or_simps [simp]:
  "some_or None d = d"
  "some_or (Some x) d = x"
  by (simp_all add: some_or_def)

lemma or_str_full:
  "truthy_str v \<Longrightarrow> or_str v d \<noteq> []"
  "d \<noteq> [] \<Longrightarrow> or_str (Some (or_str v d)) d = or_str v d"
  by (auto simp: or_str_def split: option.splits elim!: truthy_strE)

lemma entries_lookup:
  assumes "obj_ok ob"
  shows "map_of (rev (filter P (obj_entries ob))) k =
    (case obj_get ob k of None \<Rightarrow> None | Some v \<Rightarrow> if P (k, v) then Some v else None)"
proof -
  let ?es = "filter P (obj_entries ob)"
  have dist: "distinct (map fst (rev ?es))"
    using distinct_obj_entries [OF assms] by (simp add: distinct_map_filter rev_map [symmetric])
  have some: "map_of (rev ?es) k = Some v \<longleftrightarrow> obj_get ob k = Some v \<and> P (k, v)" for v
    unfolding map_of_eq_Some_iff [OF dist] by (auto simp: set_obj_entries)
  show ?thesis
  proof (cases "map_of (rev ?es) k")
    case (Some v)
    with some [of v] have "obj_get ob k = Some v" "P (k, v)" by blast+
    with Some show ?thesis by (simp only: option.case if_True)
  next
    case None
    then have "obj_get ob k = Some v \<Longrightarrow> \<not> P (k, v)" for v using some [of v] by (simp only: option.distinct) blast
    with None show ?thesis by (cases "obj_get ob k") simp_all
  qed
qed

lemma label_hash_lookup:
  "obj_get (fromKeyValueToLabelHash (Some ls)) k =
   map_of (rev (map (\<lambda>l. (label_key l, label_value l)) (filter (\<lambda>l. label_key l \<noteq> []) ls))) k"
  by (simp add: fromKeyValueToLabelHash_def object.get_fold_guarded split: option.split)

lemma labels_saved:
  assumes "showable_labels labels"
  shows "same_labels (Some (fromKeyValueToLabelHash (Some (fromLabelHashToKeyValue labels)))) labels"
proof (cases labels)
  case None
  then show ?thesis by (simp add: same_labels_def fromKeyValueToLabelHash_def fromLabelHashToKeyValue_def label_rows_def)
next
  case (Some ob)
  then have ob: "obj_ok ob" "obj_get ob [] = None" using assms by (simp_all add: showable_labels_def)
  have rows: "map (\<lambda>l. (label_key l, label_value l)) (filter (\<lambda>l. label_key l \<noteq> []) (fromLabelHashToKeyValue (Some ob))) =
      filter (\<lambda>(k, v). k \<noteq> []) (obj_entries ob)"
    by (simp add: fromLabelHashToKeyValue_def label_rows_def filter_map comp_def case_prod_unfold)
  have "obj_get (fromKeyValueToLabelHash (Some (fromLabelHashToKeyValue (Some ob)))) k = obj_get ob k" for k
    unfolding label_hash_lookup rows entries_lookup [OF ob(1)]
    using ob(2) by (cases "obj_get ob k") auto
  with Some show ?thesis by (simp add: same_labels_def)
qed

text \<open>Of variables the sort only changes the order.\<close>

lemma env_saved:
  assumes "list_all showable_env (some_or env [])"
  shows "mset (convertToArrayOfStrings (Some (map env_var.truncate (env_rows env)))) = mset (some_or env [])"
proof -
  have parsed: "\<exists>vs. without_undefined (map parse_variable ts) = vs \<and> map variable_text vs = ts \<and> (\<forall>v \<in> set vs. env_name v \<noteq> [])"
    if "list_all showable_env ts" for ts
    using that
  proof (induction ts)
    case (Cons t ts)
    then show ?case by (cases "parse_variable t") (simp_all add: showable_env_def)
  qed simp
  obtain vs where vs: "parseArrayOfStrings env = vs" "map variable_text vs = some_or env []" "\<forall>v \<in> set vs. env_name v \<noteq> []"
    using parsed [OF assms] by (cases env) (auto simp: parseArrayOfStrings_def)
  let ?rows = "map (\<lambda>v. \<lparr>env_name = env_name v, env_value = env_value v, env_added = True\<rparr>) vs"
  have "mset (map env_var.truncate (sort_key env_name ?rows)) = mset vs"
  proof -
    have "env_var.truncate \<lparr>env_name = env_name v, env_value = env_value v, env_added = True\<rparr> = v" for v :: env_var
      by (cases v) (simp add: env_var.truncate_def)
    then have "map env_var.truncate ?rows = vs" by (simp add: map_idI)
    moreover have "mset (map env_var.truncate (sort_key env_name ?rows)) = mset (map env_var.truncate ?rows)"
      by (simp only: mset_map mset_sort)
    ultimately show ?thesis by simp
  qed
  moreover have "mset (map variable_text (filter (\<lambda>v. env_name v \<noteq> []) ws)) = mset (map variable_text vs)" if "mset ws = mset vs" for ws
  proof -
    have "\<forall>v \<in> set ws. env_name v \<noteq> []" using vs(3) mset_eq_setD [OF that] by simp
    then have "filter (\<lambda>v. env_name v \<noteq> []) ws = ws" by (simp add: filter_id_conv)
    with that show ?thesis by (simp add: mset_map)
  qed
  ultimately show ?thesis by (simp add: convertToArrayOfStrings_def env_rows_def vs)
qed

lemma hosts_saved:
  assumes "list_all showable_host (some_or hosts [])"
  shows "translateHostnameIPToHostsEntries (Some (translateHostsEntriesToHostnameIP hosts)) = some_or hosts []"
proof -
  have "map (\<lambda>e. he_ip e @ '' '' @ he_hostname e) (filter (\<lambda>e. he_ip e \<noteq> [] \<and> he_hostname e \<noteq> [])
      (without_undefined (map entry_to_host hs))) = hs" if "list_all showable_host hs" for hs
    using that
  proof (induction hs)
    case (Cons h hs)
    then show ?case by (cases "entry_to_host h") (simp_all add: showable_host_def)
  qed simp
  with assms show ?thesis
    by (cases hosts) (simp_all add: translateHostnameIPToHostsEntries_def translateHostsEntriesToHostnameIP_def)
qed

lemma files_saved:
  assumes "list_all showable_file rs"
  shows "without_undefined (map (\<lambda>f. secretConfig (Some f)) (without_undefined (map (\<lambda>r. flattenSecret (Some r)) rs))) = rs"
    and "without_undefined (map (\<lambda>f. configConfig (Some f)) (without_undefined (map (\<lambda>r. flattenConfig (Some r)) rs))) = rs"
proof -
  have one: "secretConfig (flattenSecret (Some r)) = Some r \<and> configConfig (flattenConfig (Some r)) = Some r" if "showable_file r" for r
    using that by (auto simp: showable_file_def secretConfig_def flattenSecret_def configConfig_def flattenConfig_def
        or_str_def or_mode_def or_opt_def split: option.splits if_splits elim!: truthy_strE)
  have flat: "flattenSecret (Some r) \<noteq> None" "flattenConfig (Some r) \<noteq> None" for r
    by (simp_all add: flattenSecret_def flattenConfig_def)
  from assms show "without_undefined (map (\<lambda>f. secretConfig (Some f)) (without_undefined (map (\<lambda>r. flattenSecret (Some r)) rs))) = rs"
  proof (induction rs)
    case (Cons r rs)
    then show ?case using one [of r] flat(1) [of r] by (cases "flattenSecret (Some r)") simp_all
  qed simp
  from assms show "without_undefined (map (\<lambda>f. configConfig (Some f)) (without_undefined (map (\<lambda>r. flattenConfig (Some r)) rs))) = rs"
  proof (induction rs)
    case (Cons r rs)
    then show ?case using one [of r] flat(2) [of r] by (cases "flattenConfig (Some r)") simp_all
  qed simp
qed

lemma driver_saved:
  assumes "showable_driver d"
  shows "same_driver (case d of None \<Rightarrow> None
      | Some l \<Rightarrow> Some (log_driver_of (or_str (ld_Name l) [])
          (translateKeyValueToLogDriverOpts (Some (translateLogDriverOptsToKeyValue (Some (some_or (ld_Options l) [])))))))
    d"
proof (cases d)
  case None
  then show ?thesis by (simp add: same_driver_def)
next
  case (Some l)
  obtain n where n: "ld_Name l = Some n" "n \<noteq> []"
    using assms Some by (auto simp: showable_driver_def elim: truthy_strE)
  then have name: "or_str (ld_Name l) [] = n" by (cases n) simp_all
  show ?thesis
  proof (cases "ld_Options l")
    case None
    have "translateKeyValueToLogDriverOpts (Some (translateLogDriverOptsToKeyValue (Some ([] :: string obj)))) = []"
      by (simp add: translateKeyValueToLogDriverOpts_def translateLogDriverOptsToKeyValue_def)
    with Some n name None show ?thesis by (simp add: same_driver_def same_labels_def log_driver_of_def)
  next
    case (Some ob)
    with assms \<open>d = Some l\<close> n have ob: "n \<noteq> ''none''" "obj_ok ob" "list_all (\<lambda>(k, v). k \<noteq> [] \<and> v \<noteq> []) ob"
      by (simp_all add: showable_driver_def)
    let ?os = "translateKeyValueToLogDriverOpts (Some (translateLogDriverOptsToKeyValue (Some ob)))"
    have get: "obj_get ?os k = obj_get ob k" for k
    proof (cases "obj_get ob k")
      case None
      then show ?thesis by (simp add: log_driver_opts_round_trip [OF ob(2)])
    next
      case (Some v)
      then have "(k, v) \<in> set ob" using ob(2) by (simp add: obj_get_in_set)
      then have "k \<noteq> [] \<and> v \<noteq> []" using ob(3) by (auto simp: list_all_iff)
      with Some show ?thesis by (simp add: log_driver_opts_round_trip [OF ob(2)])
    qed
    have "obj_get (some_or (if ?os \<noteq> [] then Some ?os else None) []) k = obj_get ob k" for k
      using get [of k] by (cases "?os = []") simp_all
    with \<open>d = Some l\<close> \<open>ld_Options l = Some ob\<close> n name ob(1) show ?thesis
      by (simp add: same_driver_def same_labels_def log_driver_of_def)
  qed
qed

lemma constraints_saved:
  assumes "list_all showable_constraint cs"
  shows "translateKeyValueToPlacementConstraints (Some (some_or (translateConstraintsToKeyValue (Some cs)) [])) = cs"
proof -
  have "some_or (translateConstraintsToKeyValue (Some cs)) [] = map constraint_to_row cs"
    by (simp add: translateConstraintsToKeyValue_def)
  then have "Some (some_or (translateConstraintsToKeyValue (Some cs)) []) = translateConstraintsToKeyValue (Some cs)"
    by (simp add: translateConstraintsToKeyValue_def)
  then show ?thesis using assms by (simp add: constraint_rows_round_trip showable_constraint_def list_all_iff)
qed

lemma preferences_saved:
  assumes "list_all truthy_str ps"
  shows "map Some (translateKeyValueToPlacementPreferences (Some (translatePreferencesToKeyValue (Some ps)))) = ps"
proof -
  have spread: "to_lower ''Spread'' = ''spread''" by code_simp
  from assms show ?thesis
  proof (induction ps)
    case (Cons q ps)
    then show ?case
      by (cases q) (simp_all add: translateKeyValueToPlacementPreferences_def translatePreferencesToKeyValue_def spread)
  qed (simp add: translateKeyValueToPlacementPreferences_def translatePreferencesToKeyValue_def)
qed

lemma ports_saved:
  assumes "list_all (\<lambda>b. sport_PublishedPort b \<notin> {NullPort, TextPort []}) (some_or ps [])"
  shows "map_option (map clean_port) ps = ps"
proof (cases ps)
  case (Some bs)
  with assms have "\<forall>b \<in> set bs. clean_port b = b" by (simp add: clean_port_def list_all_iff)
  with Some show ?thesis by (simp add: map_idI)
qed simp

section \<open>Saving without changes\<close>

lemma view_fields:
  "sm_Name (ServiceViewModel (raw_of s) None None) = scfg_Name (es_Spec s)"
  "sm_Image (ServiceViewModel (raw_of s) None None) = sct_Image (stt_ContainerSpec (scfg_TaskTemplate (es_Spec s)))"
  "sm_Labels (ServiceViewModel (raw_of s) None None) = scfg_Labels (es_Spec s)"
  "sm_Replicas (ServiceViewModel (raw_of s) None None) =
     (case scfg_Mode (es_Spec s) of Replicated r \<Rightarrow> r | GlobalMode \<Rightarrow> None)"
  "sm_Constraints (ServiceViewModel (raw_of s) None None) = fst (placed (stt_Placement (scfg_TaskTemplate (es_Spec s))))"
  "sm_LogDriverName (ServiceViewModel (raw_of s) None None) =
     (case stt_LogDriver (scfg_TaskTemplate (es_Spec s)) of None \<Rightarrow> [] | Some l \<Rightarrow> or_str (ld_Name l) [])"
  "sm_LogDriverOpts (ServiceViewModel (raw_of s) None None) =
     (case stt_LogDriver (scfg_TaskTemplate (es_Spec s)) of None \<Rightarrow> [] | Some l \<Rightarrow> some_or (ld_Options l) [])"
  by (simp_all add: ServiceViewModel_def raw_of_def Let_def placed_def placement_part_def
      split: option.split service_mode.split)

lemma loaded_fields:
  "ed_Model (load_service inspect available s) = serviceToConfig (es_Spec s)"
  "ed_Name (load_service inspect available s) = scfg_Name (es_Spec s)"
  "ed_Image (load_service inspect available s) = sct_Image (stt_ContainerSpec (scfg_TaskTemplate (es_Spec s)))"
  "ed_Replicas (load_service inspect available s) = (case scfg_Mode (es_Spec s) of Replicated r \<Rightarrow> r | GlobalMode \<Rightarrow> None)"
  "ed_Mode (load_service inspect available s) = (case scfg_Mode (es_Spec s) of Replicated r \<Rightarrow> ''replicated'' | GlobalMode \<Rightarrow> ''global'')"
  "ed_ServiceLabels (load_service inspect available s) = fromLabelHashToKeyValue (scfg_Labels (es_Spec s))"
  "ed_ServiceConstraints (load_service inspect available s) =
     some_or (translateConstraintsToKeyValue (Some (fst (placed (stt_Placement (scfg_TaskTemplate (es_Spec s))))))) []"
  "ed_ServicePreferences (load_service inspect available s) =
     translatePreferencesToKeyValue (Some (fst (snd (placed (stt_Placement (scfg_TaskTemplate (es_Spec s)))))))"
  "ed_LogDriverName (load_service inspect available s) =
     (case stt_LogDriver (scfg_TaskTemplate (es_Spec s)) of None \<Rightarrow> [] | Some l \<Rightarrow> or_str (ld_Name l) [])"
  "ed_LogDriverOpts (load_service inspect available s) = translateLogDriverOptsToKeyValue (Some
     (case stt_LogDriver (scfg_TaskTemplate (es_Spec s)) of None \<Rightarrow> [] | Some l \<Rightarrow> some_or (ld_Options l) []))"
  "ed_Ports (load_service inspect available s) = es_Ports s"
  by (simp_all add: load_service_def Let_def view_fields placed_def split: option.split)

lemma loaded_container:
  "ed_EnvironmentVariables (load_service inspect available s) =
     env_rows (sct_Env (stt_ContainerSpec (scfg_TaskTemplate (es_Spec s))))"
  "ed_ServiceContainerLabels (load_service inspect available s) =
     fromLabelHashToKeyValue (sct_Labels (stt_ContainerSpec (scfg_TaskTemplate (es_Spec s))))"
  "ed_ServiceMounts (load_service inspect available s) = sct_Mounts (stt_ContainerSpec (scfg_TaskTemplate (es_Spec s)))"
  "ed_Hosts (load_service inspect available s) =
     translateHostsEntriesToHostnameIP (sct_Hosts (stt_ContainerSpec (scfg_TaskTemplate (es_Spec s))))"
  "ed_ServiceConfigs (load_service inspect available s) = without_undefined (map (\<lambda>f. flattenConfig (Some f))
     (some_or (sct_Configs (stt_ContainerSpec (scfg_TaskTemplate (es_Spec s)))) []))"
  "ed_ServiceSecrets (load_service inspect available s) = without_undefined (map (\<lambda>f. flattenSecret (Some f))
     (some_or (sct_Secrets (stt_ContainerSpec (scfg_TaskTemplate (es_Spec s)))) []))"
  by (simp_all add: load_service_def Let_def)

lemma no_changes: "im_Image img = [] \<Longrightarrow> hasChanges (open_service img x) ks = False"
  by (induction ks) (simp_all add: hasChanges_def open_service_def)

lemma page_service [simp]: "pg_service (open_service img x) = x"
  by (simp add: open_service_def)

lemma built_config:
  assumes "im_Image img = []"
  shows "fst (buildChanges as_ms (open_service img x)) =
    (built_model as_ms (open_service img x) (ed_Model x))
      \<lparr>scfg_Name := ed_Name x, scfg_Labels := Some (fromKeyValueToLabelHash (Some (ed_ServiceLabels x))),
       scfg_EndpointSpec := Some \<lparr>esp_Mode = Some (or_str (Option.bind (scfg_EndpointSpec (ed_Model x)) esp_Mode) ''vip''),
         esp_Ports = map_option (map clean_port) (ed_Ports x)\<rparr>\<rparr>"
  by (simp add: buildChanges_def clean_ports_def Let_def mutate_def built_model_def built_update_def no_changes [OF assms]
      open_service_def [of img x, symmetric])

lemma template_saved:
  assumes ok: "showable s" and img: "im_Image img = []"
  shows "same_template (built_template as_ms (open_service img (load_service inspect available s))
      (scfg_TaskTemplate (es_Spec s))) (scfg_TaskTemplate (es_Spec s))"
proof -
  let ?t = "scfg_TaskTemplate (es_Spec s)" and ?x = "load_service inspect available s"
  let ?p = "open_service img ?x"
  note parts = ok [unfolded showable_def Let_def] 
  have c: "showable_container (stt_ContainerSpec ?t)" and q: "showable_placement (stt_Placement ?t)"
    and d: "showable_driver (stt_LogDriver ?t)" using parts by blast+
  have "same_container (built_container ?p (stt_ContainerSpec ?t)) (stt_ContainerSpec ?t)"
    using c unfolding showable_container_def
    by (simp add: same_container_def built_container_def Let_def no_changes [OF img] loaded_container loaded_fields
        env_saved labels_saved hosts_saved files_saved)
  moreover have "placed (built_placement ?p (stt_Placement ?t)) = placed (stt_Placement ?t)"
  proof -
    let ?cs = "fst (placed (stt_Placement ?t))" and ?ps = "fst (snd (placed (stt_Placement ?t)))"
    have rest: "spl_Rest (some_or (stt_Placement ?t) \<lparr>spl_Constraints = None, spl_Preferences = None, spl_Rest = []\<rparr>) =
        snd (snd (placed (stt_Placement ?t)))"
      by (simp add: placed_def split: option.split)
    have "placed (built_placement ?p (stt_Placement ?t)) = (?cs, ?ps, snd (snd (placed (stt_Placement ?t))))"
      using q by (simp add: showable_placement_def built_placement_def placed_def [of "Some y" for y] loaded_fields
          constraints_saved preferences_saved rest)
    then show ?thesis by simp
  qed
  moreover have "same_driver (built_driver ?p) (stt_LogDriver ?t)"
  proof (cases "stt_LogDriver ?t")
    case None
    then show ?thesis by (simp add: same_driver_def built_driver_def Let_def loaded_fields)
  next
    case (Some l)
    then have "or_str (ld_Name l) [] \<noteq> []" using d or_str_full(1) by (simp add: showable_driver_def)
    with driver_saved [OF d] Some show ?thesis by (simp add: built_driver_def Let_def loaded_fields)
  qed
  ultimately show ?thesis
    by (simp add: same_template_def built_template_def built_resources_def built_restart_def Let_def no_changes [OF img])
qed

lemma saved_unchanged:
  assumes "showable s" and "im_Image img = []"
  shows "same_service (fst (buildChanges as_ms (open_service img (load_service inspect available s)))) (serviceToConfig (es_Spec s))"
proof -
  let ?x = "load_service inspect available s" and ?c = "serviceToConfig (es_Spec s)"
  have tr: "scfg_Name ?c = scfg_Name (es_Spec s)" "scfg_Labels ?c = scfg_Labels (es_Spec s)"
    "scfg_TaskTemplate ?c = scfg_TaskTemplate (es_Spec s)" "scfg_Mode ?c = scfg_Mode (es_Spec s)"
    "scfg_EndpointSpec ?c = scfg_EndpointSpec (es_Spec s)"
    by (simp_all add: serviceToConfig_def service_config.truncate_def)
  have labels: "showable_labels (scfg_Labels (es_Spec s))"
    and ports: "es_Ports s = Option.bind (scfg_EndpointSpec (es_Spec s)) esp_Ports"
      "map_option (map clean_port) (es_Ports s) = es_Ports s"
    using assms(1) ports_saved unfolding showable_def Let_def by blast+
  have mode: "built_mode (open_service img ?x) (scfg_Mode (es_Spec s)) = scfg_Mode (es_Spec s)"
    by (simp add: built_mode_def loaded_fields split: service_mode.split)
  have spec: "endpoint_of (fst (buildChanges as_ms (open_service img ?x))) = endpoint_of ?c"
    unfolding built_config [OF assms(2)] endpoint_of_def loaded_fields tr ports(2)
    using ports(1) by (simp add: tr or_str_full)
  show ?thesis
    using spec template_saved [OF assms, of as_ms inspect available] labels_saved [OF labels]
    unfolding same_service_def built_config [OF assms(2)]
    by (simp add: built_model_def loaded_fields tr mode)
qed

section \<open>What the form of a new service asks for\<close>

lemma config_sections:
  "scfg_EndpointSpec (prepareLogDriverConfig f c) = scfg_EndpointSpec c"
  "scfg_Labels (prepareLogDriverConfig f c) = scfg_Labels c"
  "stt_Placement (scfg_TaskTemplate (prepareLogDriverConfig f c)) = stt_Placement (scfg_TaskTemplate c)"
  "stt_ContainerSpec (scfg_TaskTemplate (prepareLogDriverConfig f c)) = stt_ContainerSpec (scfg_TaskTemplate c)"
  "scfg_EndpointSpec (prepareResourcesMemoryConfig f c) = scfg_EndpointSpec c"
  "scfg_Labels (prepareResourcesMemoryConfig f c) = scfg_Labels c"
  "stt_Placement (scfg_TaskTemplate (prepareResourcesMemoryConfig f c)) = stt_Placement (scfg_TaskTemplate c)"
  "stt_ContainerSpec (scfg_TaskTemplate (prepareResourcesMemoryConfig f c)) = stt_ContainerSpec (scfg_TaskTemplate c)"
  "stt_LogDriver (scfg_TaskTemplate (prepareResourcesMemoryConfig f c)) = stt_LogDriver (scfg_TaskTemplate c)"
  "scfg_EndpointSpec (prepareResourcesCpuConfig f c) = scfg_EndpointSpec c"
  "scfg_Labels (prepareResourcesCpuConfig f c) = scfg_Labels c"
  "stt_Placement (scfg_TaskTemplate (prepareResourcesCpuConfig f c)) = stt_Placement (scfg_TaskTemplate c)"
  "stt_ContainerSpec (scfg_TaskTemplate (prepareResourcesCpuConfig f c)) = stt_ContainerSpec (scfg_TaskTemplate c)"
  "stt_LogDriver (scfg_TaskTemplate (prepareResourcesCpuConfig f c)) = stt_LogDriver (scfg_TaskTemplate c)"
  by (simp_all add: prepareLogDriverConfig_def prepareResourcesMemoryConfig_def prepareResourcesCpuConfig_def
      with_template_def set_limit_def set_reservation_def Let_def)

lemma hosts_section:
  "scfg_EndpointSpec (prepareHostsEntries f c) = scfg_EndpointSpec c"
  "scfg_Labels (prepareHostsEntries f c) = scfg_Labels c"
  "stt_Placement (scfg_TaskTemplate (prepareHostsEntries f c)) = stt_Placement (scfg_TaskTemplate c)"
  "stt_LogDriver (scfg_TaskTemplate (prepareHostsEntries f c)) = stt_LogDriver (scfg_TaskTemplate c)"
  "stt_ContainerSpec (scfg_TaskTemplate (prepareHostsEntries f c)) =
     (let hs = without_undefined (map host_line (svf_HostsEntries f)); k = stt_ContainerSpec (scfg_TaskTemplate c)
      in if hs \<noteq> [] then k\<lparr>sct_Hosts := Some hs\<rparr> else k)"
  by (simp_all add: prepareHostsEntries_def with_container_def Let_def)

lemmas plain_sections = prepareRestartPolicy_def preparePlacementConfig_def prepareSecretConfig_def
  prepareConfigConfig_def prepareUpdateConfig_def prepareNetworks_def prepare_service_volumes_def
  prepareServiceLabels_def prepareEnvConfig_def prepareCommandConfig_def preparePortsConfig_def
  prepareImageConfig_def prepareSchedulingConfig_def with_container_def with_template_def empty_service_config_def

lemma created_fields:
  "scfg_Labels (service_configuration as_ms f) = Some (fromKeyValueToLabelHash (Some (svf_Labels f)))"
  "stt_Placement (scfg_TaskTemplate (service_configuration as_ms f)) = Some
     \<lparr>spl_Constraints = Some (translateKeyValueToPlacementConstraints (Some (svf_PlacementConstraints f))),
      spl_Preferences = Some (map Some (translateKeyValueToPlacementPreferences (Some (svf_PlacementPreferences f)))),
      spl_Rest = []\<rparr>"
  "Option.bind (scfg_EndpointSpec (service_configuration as_ms f)) esp_Ports =
     Some (without_undefined (map publish_row (svf_Ports f)))"
  "stt_LogDriver (scfg_TaskTemplate (service_configuration as_ms f)) =
     (if svf_LogDriverName f = [] then None
      else Some (log_driver_of (svf_LogDriverName f) (driver_options (svf_LogDriverOpts f))))"
  by (simp_all add: service_configuration_def config_sections hosts_section plain_sections)
    (simp add: prepareLogDriverConfig_def with_template_def config_sections hosts_section plain_sections)

lemma created_container:
  "sct_Env (stt_ContainerSpec (scfg_TaskTemplate (service_configuration as_ms f))) =
     Some (convertToArrayOfStrings (Some (svf_Env f)))"
  "sct_Labels (stt_ContainerSpec (scfg_TaskTemplate (service_configuration as_ms f))) =
     Some (fromKeyValueToLabelHash (Some (svf_ContainerLabels f)))"
  "sct_Configs (stt_ContainerSpec (scfg_TaskTemplate (service_configuration as_ms f))) =
     Some (without_undefined (map config_of_choice (svf_Configs f)))"
  "sct_Secrets (stt_ContainerSpec (scfg_TaskTemplate (service_configuration as_ms f))) =
     Some (without_undefined (map secret_of_choice (svf_Secrets f)))"
  "some_or (sct_Hosts (stt_ContainerSpec (scfg_TaskTemplate (service_configuration as_ms f)))) [] =
     without_undefined (map host_line (svf_HostsEntries f))"
  by (simp_all add: service_configuration_def config_sections hosts_section plain_sections Let_def)

text \<open>
  A form whose rows the page of the service can show: variables that a text can hold, host entries and constraints
  that can be read back, files with a name, a value for every log option that has a name, and numbers for ports.
\<close>

definition well_filled :: "swarm_form \<Rightarrow> bool" where
  "well_filled f \<longleftrightarrow>
     (\<forall>v \<in> set (svf_Env f). env_name v = [] \<or> storable v) \<and>
     list_all showable_host (without_undefined (map host_line (svf_HostsEntries f))) \<and>
     list_all showable_constraint (translateKeyValueToPlacementConstraints (Some (svf_PlacementConstraints f))) \<and>
     (\<forall>c \<in> set (svf_Configs f). case cc_model c of None \<Rightarrow> True | Some m \<Rightarrow> fl_Name m \<noteq> []) \<and>
     (\<forall>c \<in> set (svf_Secrets f). case sch_model c of None \<Rightarrow> True | Some m \<Rightarrow> fl_Name m \<noteq> []) \<and>
     (\<forall>o' \<in> set (svf_LogDriverOpts f). dopt_name o' = [] \<or> dopt_value o' \<noteq> []) \<and>
     (\<forall>b \<in> set (svf_Ports f). port_number (sport_PublishedPort b) \<noteq> NullPort)"

lemma hash_showable: "showable_labels (Some (fromKeyValueToLabelHash (Some ls)))"
proof -
  have ok: "obj_ok (fold (\<lambda>l ob. if label_key l \<noteq> [] then obj_set ob (label_key l) (label_value l) else ob) ls ob)"
    if "obj_ok ob" for ob using that by (induction ls arbitrary: ob) simp_all
  have "map_of (rev (map (\<lambda>l. (label_key l, label_value l)) (filter (\<lambda>l. label_key l \<noteq> []) ls))) [] = None"
    by (auto simp: map_of_eq_None_iff)
  then have "obj_get (fromKeyValueToLabelHash (Some ls)) [] = None" by (simp only: label_hash_lookup)
  with ok [of "[]"] show ?thesis by (simp add: showable_labels_def fromKeyValueToLabelHash_def)
qed

lemma env_showable:
  assumes "\<forall>v \<in> set vs. env_name v = [] \<or> storable v"
  shows "list_all showable_env (convertToArrayOfStrings (Some vs))"
proof -
  have "showable_env (variable_text v)" if "env_name v \<noteq> []" "storable v" for v
    using that storable_text(6) [OF that(2)] by (simp add: showable_env_def)
  with assms show ?thesis by (auto simp: convertToArrayOfStrings_def list_all_iff)
qed

lemma or_str_zero: "or_str v ''0'' \<noteq> []"
  by (simp add: or_str_def split: option.split)

lemma truthy_or_opt: "truthy_str (or_opt v w) \<longleftrightarrow> truthy_str v \<or> truthy_str w"
  by (simp add: or_opt_def)

lemma choices_showable:
  "config_of_choice c = Some r \<Longrightarrow> (case cc_model c of None \<Rightarrow> True | Some m \<Rightarrow> fl_Name m \<noteq> []) \<Longrightarrow> showable_file r"
  "secret_of_choice d = Some r \<Longrightarrow> (case sch_model d of None \<Rightarrow> True | Some m \<Rightarrow> fl_Name m \<noteq> []) \<Longrightarrow> showable_file r"
  by (auto simp: config_of_choice_def secret_of_choice_def configConfig_def secretConfig_def name_file_def
      showable_file_def or_str_zero truthy_or_opt or_mode_def split: option.splits)

lemma publish_clean:
  assumes "publish_row b = Some q" and "port_number (sport_PublishedPort b) \<noteq> NullPort"
  shows "sport_PublishedPort q \<notin> {NullPort, TextPort []}"
proof -
  have no_text: "port_number x \<noteq> TextPort []" for x by (cases x) (simp_all add: number_field_def split: option.split)
  show ?thesis using assms no_text by (auto simp: publish_row_def split: if_splits)
qed

lemma options_full:
  assumes "\<forall>r \<in> set opts. dopt_name r = [] \<or> dopt_value r \<noteq> []"
  shows "obj_ok (driver_options opts)" and "list_all (\<lambda>(k, v). k \<noteq> [] \<and> v \<noteq> []) (driver_options opts)"
proof -
  let ?f = "\<lambda>d ob. if dopt_name d \<noteq> [] then obj_set ob (dopt_name d) (dopt_value d) else ob"
  have set: "list_all P (obj_set ob k v)" if "list_all P ob" "P (k, v)" for P :: "string \<times> string \<Rightarrow> bool" and ob k v
    using that by (induction ob k v rule: obj_set.induct) auto
  have "obj_ok (fold ?f opts ob) \<and> list_all (\<lambda>(k, v). k \<noteq> [] \<and> v \<noteq> []) (fold ?f opts ob)"
    if "obj_ok ob" "list_all (\<lambda>(k, v). k \<noteq> [] \<and> v \<noteq> []) ob" for ob
    using that assms
  proof (induction opts arbitrary: ob)
    case (Cons d opts)
    then show ?case using set [of "\<lambda>(k, v). k \<noteq> [] \<and> v \<noteq> []" ob "dopt_name d" "dopt_value d"] by auto
  qed simp
  from this [of "[]"] show "obj_ok (driver_options opts)" "list_all (\<lambda>(k, v). k \<noteq> [] \<and> v \<noteq> []) (driver_options opts)"
    by (simp_all add: driver_options_def)
qed

lemma created_driver_showable:
  assumes "\<forall>r \<in> set opts. dopt_name r = [] \<or> dopt_value r \<noteq> []" and "name \<noteq> []"
  shows "showable_driver (Some (log_driver_of name (driver_options opts)))"
  using options_full [OF assms(1)] assms(2) by (simp add: showable_driver_def log_driver_of_def)

lemma preferences_full: "list_all truthy_str (map Some (translateKeyValueToPlacementPreferences (Some rs)))"
proof -
  have "w \<noteq> []" if "r \<in> set rs" "truthy_str (pref_value r)" "Some w = pref_value r" for r and w :: string
    using that by (metis truthy_str_simps(2))
  then show ?thesis by (fastforce simp: list_all_iff translateKeyValueToPlacementPreferences_def split: if_splits)
qed

lemma created_showable:
  assumes f: "well_filled f" and stored: "serviceToConfig (es_Spec s) = service_configuration as_ms f"
    and ports: "es_Ports s = Some (without_undefined (map publish_row (svf_Ports f)))"
  shows "showable s"
proof -
  have spec: "scfg_Labels (es_Spec s) = scfg_Labels (service_configuration as_ms f)"
    "scfg_TaskTemplate (es_Spec s) = scfg_TaskTemplate (service_configuration as_ms f)"
    "scfg_EndpointSpec (es_Spec s) = scfg_EndpointSpec (service_configuration as_ms f)"
    unfolding stored [symmetric] by (simp_all add: serviceToConfig_def service_config.truncate_def)
  have files: "list_all showable_file (without_undefined (map config_of_choice (svf_Configs f)))"
    "list_all showable_file (without_undefined (map secret_of_choice (svf_Secrets f)))"
    using f choices_showable unfolding well_filled_def by (force simp: list_all_iff)+
  have "list_all (\<lambda>b. sport_PublishedPort b \<notin> {NullPort, TextPort []}) (without_undefined (map publish_row (svf_Ports f)))"
    using f publish_clean unfolding well_filled_def by (force simp: list_all_iff)
  moreover have "showable_container (stt_ContainerSpec (scfg_TaskTemplate (service_configuration as_ms f)))"
    using f files hash_showable env_showable unfolding well_filled_def showable_container_def created_container by simp
  moreover have "showable_placement (stt_Placement (scfg_TaskTemplate (service_configuration as_ms f)))"
    using f unfolding well_filled_def showable_placement_def created_fields
    using preferences_full by (simp add: placed_def)
  moreover have "showable_driver (stt_LogDriver (scfg_TaskTemplate (service_configuration as_ms f)))"
    using f created_driver_showable unfolding well_filled_def created_fields by (simp add: showable_driver_def)
  ultimately show ?thesis
    unfolding showable_def Let_def spec ports created_fields(1,3) using hash_showable by simp
qed

section \<open>Properties\<close>

lemma config_of_spec: "serviceToConfig (service_config.extend c x) = c"
  by (simp add: serviceToConfig_def service_config.truncate_def service_config.extend_def)

text \<open>
  C25. Saving the page of a service without a change and without choosing an image sends every part \<open>c\<close> of the
  specification that the engine has, except the configuration of rollbacks, which no update carries: the labels and log
  options as properties, the variables as a collection, everything else as it is. This is for a service that the page can
  show: labels with names, variables and hosts that are read back as they were written, constraints with an operator,
  files with an owner, a mode and a name, a log driver with a name and options with names and values, and published ports
  that are those asked for.
\<close>

theorem unchanged_service_kept:
  assumes "showable s" and "im_Image img = []" and "es_Spec s = service_config.extend c \<lparr>spec_RollbackConfig = r\<rparr>"
  shows "same_service (fst (buildChanges as_ms (open_service img (load_service inspect available s)))) c"
  using saved_unchanged [OF assms(1,2), of as_ms inspect available] by (simp only: assms(3) config_of_spec)

text \<open>A form with a label, a variable, a host, a constraint and a published port.\<close>

definition filled_form :: swarm_form where
  "filled_form = (initial_swarm_form \<lparr>im_UseRegistry = False, im_Registry = \<lparr>reg_Type = ANONYMOUS, reg_URL = [],
       reg_Username = [], reg_ProjectPath = [], reg_UseOrganisation = False, reg_OrganisationName = []\<rparr>, im_Image = ''nginx''\<rparr>)
     \<lparr>svf_Name := ''web'', svf_Env := [\<lparr>env_name = ''DEBUG'', env_value = None\<rparr>],
      svf_Labels := [\<lparr>label_key = ''team'', label_value = ''a''\<rparr>], svf_HostsEntries := [Some ''db:10.0.0.7''],
      svf_PlacementConstraints := [\<lparr>crow_key = ''node.role'', crow_value = ''manager'', crow_operator = ''=='',
        crow_originalKey = [], crow_originalValue = []\<rparr>],
      svf_Ports := [\<lparr>sport_Protocol = ''tcp'', sport_PublishMode = ''ingress'', sport_TargetPort = TextPort ''80'',
        sport_PublishedPort = TextPort ''8080''\<rparr>]\<rparr>"

text \<open>A replicated service with labels, a variable, a constraint, a secret, a log driver and a published port.\<close>

definition stored_config :: service_config where
  "stored_config =
       \<lparr>scfg_Name = ''web'', scfg_Labels = Some [(''team'', ''a''), (''tier'', ''front'')],
        scfg_TaskTemplate =
          \<lparr>stt_ContainerSpec = \<lparr>sct_Image = ''nginx:1'', sct_Mounts = [], sct_Command = None, sct_Args = None,
             sct_User = None, sct_Dir = None, sct_Env = Some [''MODE=fast'', ''DEBUG''],
             sct_Labels = None, sct_Hosts = Some [''10.0.0.7 db''], sct_Configs = None,
             sct_Secrets = Some [\<lparr>fr_ID = ''k1'', fr_RefName = ''key'', fr_File = \<lparr>ft_Name = Some ''key'',
               ft_UID = Some ''0'', ft_GID = Some ''0'', ft_Mode = Some 292\<rparr>\<rparr>], sct_Rest = []\<rparr>,
           stt_Placement = Some \<lparr>spl_Constraints = Some [''node.role==manager''], spl_Preferences = None, spl_Rest = []\<rparr>,
           stt_Resources = None, stt_RestartPolicy = None,
           stt_LogDriver = Some \<lparr>ld_Name = Some ''json-file'', ld_Options = Some [(''max-size'', ''10m'')]\<rparr>,
           stt_Networks = None, stt_ForceUpdate = Some 0, stt_Rest = []\<rparr>,
        scfg_Mode = Replicated (Some 2), scfg_UpdateConfig = None, scfg_Networks = None,
        scfg_EndpointSpec = Some \<lparr>esp_Mode = None, esp_Ports = Some [\<lparr>sport_Protocol = ''tcp'',
          sport_PublishMode = ''ingress'', sport_TargetPort = NumberPort 80, sport_PublishedPort = NumberPort 8080\<rparr>]\<rparr>\<rparr>"

definition stored_service :: engine_service where
  "stored_service = \<lparr>es_ID = ''s1'', es_CreatedAt = [], es_UpdatedAt = [], es_Version = 3,
     es_Spec = service_config.extend stored_config \<lparr>spec_RollbackConfig = None\<rparr>,
     es_Ports = Some [\<lparr>sport_Protocol = ''tcp'', sport_PublishMode = ''ingress'', sport_TargetPort = NumberPort 80,
       sport_PublishedPort = NumberPort 8080\<rparr>]\<rparr>"

lemma stored_texts:
  "showable_env ''MODE=fast''" "showable_env ''DEBUG''" "showable_host ''10.0.0.7 db''" "showable_constraint ''node.role==manager''"
  by code_simp+

lemma stored_showable: "showable stored_service"
  by (simp add: showable_def stored_service_def stored_config_def service_config.defs showable_labels_def showable_container_def
      showable_placement_def placed_def showable_file_def or_mode_def showable_driver_def stored_texts obj_ok_def)

theorem unchanged_service_kept_witness:
  "\<exists>img. same_service (fst (buildChanges (\<lambda>n u. 0) (open_service img (load_service (\<lambda>_. None) [] stored_service)))) stored_config"
proof
  let ?img = "\<lparr>im_UseRegistry = False, im_Registry = im_Registry (svf_RegistryModel filled_form), im_Image = []\<rparr>"
  show "same_service (fst (buildChanges (\<lambda>n u. 0) (open_service ?img (load_service (\<lambda>_. None) [] stored_service)))) stored_config"
    by (rule unchanged_service_kept [OF stored_showable]) (simp_all add: stored_service_def)
qed

text \<open>
  What the form of a new service asked for survives a later update from the page of that service: when the engine
  has stored the request of the form and opened its ports, saving the page unchanged sends the request again.
\<close>

theorem created_service_kept:
  assumes "well_filled f" and "im_Image img = []"
    and "serviceToConfig (es_Spec s) = service_configuration as_ms f"
    and "es_Ports s = Some (without_undefined (map publish_row (svf_Ports f)))"
  shows "same_service (fst (buildChanges ms (open_service img (load_service inspect available s)))) (service_configuration as_ms f)"
  using saved_unchanged [OF created_showable [OF assms(1,3,4)] assms(2), of ms inspect available] assms(3) by simp

text \<open>What the engine stores of that form.\<close>

definition stored_form :: engine_service where
  "stored_form = \<lparr>es_ID = ''s2'', es_CreatedAt = [], es_UpdatedAt = [], es_Version = 1,
     es_Spec = service_config.extend (service_configuration (\<lambda>n u. n * 1000) filled_form) \<lparr>spec_RollbackConfig = None\<rparr>,
     es_Ports = Some (without_undefined (map publish_row (svf_Ports filled_form)))\<rparr>"

lemma filled_variable: "storable \<lparr>env_name = ''DEBUG'', env_value = None\<rparr>"
  by (simp add: storable_def trimmed_def is_space_def one_line_def)

lemma filled_host: "list_all showable_host (without_undefined (map host_line [Some ''db:10.0.0.7'']))"
  by code_simp

lemma filled_constraint: "list_all showable_constraint [''node.role==manager'']"
  by code_simp

lemma filled_port: "port_number (TextPort ''8080'') \<noteq> NullPort"
proof -
  have "trim ''8080'' = ''8080''" "to_lower ''80'' = ''80''" "takeWhile is_digit ''8080'' = ''8080''"
    "dropWhile is_digit ''8080'' = []" by code_simp+
  then show ?thesis by (simp add: number_field_def text_number_def read_decimal_def read_exponent_def Let_def)
qed

lemmas filled_texts = filled_variable filled_host filled_constraint filled_port

lemma filled_well: "well_filled filled_form"
  using filled_texts
  by (simp add: well_filled_def filled_form_def initial_swarm_form_def translateKeyValueToPlacementConstraints_def)

theorem created_service_kept_witness:
  "\<exists>img. same_service (fst (buildChanges (\<lambda>n u. 0) (open_service img (load_service (\<lambda>_. None) [] stored_form))))
     (service_configuration (\<lambda>n u. n * 1000) filled_form)"
proof
  let ?img = "\<lparr>im_UseRegistry = False, im_Registry = im_Registry (svf_RegistryModel filled_form), im_Image = []\<rparr>"
  show "same_service (fst (buildChanges (\<lambda>n u. 0) (open_service ?img (load_service (\<lambda>_. None) [] stored_form))))
     (service_configuration (\<lambda>n u. n * 1000) filled_form)"
    by (rule created_service_kept [OF filled_well])
      (simp_all add: stored_form_def serviceToConfig_def service_config.truncate_def service_config.extend_def)
qed

end
