(* ===== verification/BrowserStorage.thy ===== *)
theory BrowserStorage
  imports JsObject
begin

text \<open>
  What the browser keeps for the user: \<open>portainer/services/localStorage.js\<close> with the services that write through it
  (\<open>datatableService.js\<close>, \<open>pagination.js\<close>), \<open>session-storage.js\<close>, and the queue of agent headers of
  \<open>httpRequestHelper.js\<close>. The package \<open>angular-local-storage\<close> is a parameter: its four functions on a store of any
  type, and the laws of a store that its documentation promises.
\<close>

section \<open>Values\<close>

text \<open>What JavaScript takes for true, and a property of a value, \<open>None\<close> where it is \<open>undefined\<close>.\<close>

fun truthy_json :: "json \<Rightarrow> bool" where
  "truthy_json JNull = False"
| "truthy_json (JBool b) = b"
| "truthy_json (JNum n) = (n \<noteq> 0)"
| "truthy_json (JStr s) = (s \<noteq> [])"
| "truthy_json (JArr xs) = True"
| "truthy_json (JObj ob) = True"

fun json_field :: "json \<Rightarrow> string \<Rightarrow> json option" where
  "json_field (JObj ob) k = obj_get ob k"
| "json_field _ k = None"

section \<open>The local storage\<close>

record 's storage_package =
  ls_get :: "'s \<Rightarrow> string \<Rightarrow> json"
  ls_set :: "'s \<Rightarrow> string \<Rightarrow> json \<Rightarrow> 's"
  ls_remove :: "'s \<Rightarrow> string list \<Rightarrow> 's"
  ls_clearAll :: "'s \<Rightarrow> 's"

text \<open>A key that is not set reads as \<open>null\<close>; \<open>remove\<close> takes any number of keys.\<close>

definition storage_laws :: "('s, 'z) storage_package_scheme \<Rightarrow> bool" where
  "storage_laws L \<longleftrightarrow>
     (\<forall>s k v j. ls_get L (ls_set L s k v) j = (if j = k then v else ls_get L s j)) \<and>
     (\<forall>s ks j. ls_get L (ls_remove L s ks) j = (if j \<in> set ks then JNull else ls_get L s j)) \<and>
     (\<forall>s j. ls_get L (ls_clearAll L s) j = JNull)"

text \<open>
  The places of the store: one for each pair of functions of the service, and for the settings of a table one for each
  table.
\<close>

datatype storage_slot =
    EndpointID | EndpointPublicURL | LoginStateUUID | OfflineMode | Endpoints | EndpointState | ApplicationState
  | UIState | JWT | JobImage | ToolbarToggle | LogoutReason | KubernetesSummaryToggle
  | PaginationLimit string | DataTableOrder string | DataTableTextFilters string | DataTableFilters string
  | DataTableSettings string | DataTableExpandedItems string | DataTableSelectedItems string
  | SwarmVisualizerSettings string | ColumnVisibilitySettings string | ActiveTab string

fun slot_key :: "storage_slot \<Rightarrow> string" where
  "slot_key EndpointID = ''ENDPOINT_ID''"
| "slot_key EndpointPublicURL = ''ENDPOINT_PUBLIC_URL''"
| "slot_key LoginStateUUID = ''LOGIN_STATE_UUID''"
| "slot_key OfflineMode = ''ENDPOINT_OFFLINE_MODE''"
| "slot_key Endpoints = ''ENDPOINTS_DATA''"
| "slot_key EndpointState = ''ENDPOINT_STATE''"
| "slot_key ApplicationState = ''APPLICATION_STATE''"
| "slot_key UIState = ''UI_STATE''"
| "slot_key JWT = ''JWT''"
| "slot_key JobImage = ''job_image''"
| "slot_key ToolbarToggle = ''toolbar_toggle''"
| "slot_key LogoutReason = ''logout_reason''"
| "slot_key KubernetesSummaryToggle = ''kubernetes_summary_expanded''"
| "slot_key (PaginationLimit k) = ''datatable_pagination_'' @ k"
| "slot_key (DataTableOrder k) = ''datatable_order_'' @ k"
| "slot_key (DataTableTextFilters k) = ''datatable_text_filter_'' @ k"
| "slot_key (DataTableFilters k) = ''datatable_filters_'' @ k"
| "slot_key (DataTableSettings k) = ''datatable_settings_'' @ k"
| "slot_key (DataTableExpandedItems k) = ''datatable_expandeditems_'' @ k"
| "slot_key (DataTableSelectedItems k) = ''datatable_selecteditems_'' @ k"
| "slot_key (SwarmVisualizerSettings k) = ''swarmvisualizer_'' @ k"
| "slot_key (ColumnVisibilitySettings k) = ''col_visibility_'' @ k"
| "slot_key (ActiveTab k) = ''active_tab_'' @ k"

definition store_slot :: "('s, 'z) storage_package_scheme \<Rightarrow> storage_slot \<Rightarrow> json \<Rightarrow> 's \<Rightarrow> 's" where
  "store_slot L sl v s = ls_set L s (slot_key sl) v"

definition read_slot :: "('s, 'z) storage_package_scheme \<Rightarrow> storage_slot \<Rightarrow> 's \<Rightarrow> json" where
  "read_slot L sl s = ls_get L s (slot_key sl)"

definition deleteJWT :: "('s, 'z) storage_package_scheme \<Rightarrow> 's \<Rightarrow> 's" where
  "deleteJWT L s = ls_remove L s [''JWT'']"

definition cleanLogoutReason :: "('s, 'z) storage_package_scheme \<Rightarrow> 's \<Rightarrow> 's" where
  "cleanLogoutReason L s = ls_remove L s [''logout_reason'']"

definition cleanAuthData :: "('s, 'z) storage_package_scheme \<Rightarrow> 's \<Rightarrow> 's" where
  "cleanAuthData L s = ls_remove L s [''JWT'', ''APPLICATION_STATE'', ''LOGIN_STATE_UUID'']"

definition cleanEndpointData :: "('s, 'z) storage_package_scheme \<Rightarrow> 's \<Rightarrow> 's" where
  "cleanEndpointData L s = ls_remove L s
     [''ENDPOINT_ID'', ''ENDPOINT_PUBLIC_URL'', ''ENDPOINT_OFFLINE_MODE'', ''ENDPOINTS_DATA'', ''ENDPOINT_STATE'']"

definition clean_storage :: "('s, 'z) storage_package_scheme \<Rightarrow> 's \<Rightarrow> 's" where
  "clean_storage L s = ls_clearAll L s"

definition getActiveTab :: "('s, 'z) storage_package_scheme \<Rightarrow> string \<Rightarrow> 's \<Rightarrow> json" where
  "getActiveTab L k s = (let t = read_slot L (ActiveTab k) s in if t = JNull then JNum 0 else t)"

text \<open>
  The place of a table's settings that \<open>DatatableService\<close> uses; the order is stored with its direction. The limit of a
  page is 10 where none was stored, and is read as a text.
\<close>

definition setDataTableOrder :: "('s, 'z) storage_package_scheme \<Rightarrow> string \<Rightarrow> json \<Rightarrow> bool \<Rightarrow> 's \<Rightarrow> 's" where
  "setDataTableOrder L k orderBy reverse s =
     store_slot L (DataTableOrder k) (JObj [(''orderBy'', orderBy), (''reverse'', JBool reverse)]) s"

fun json_text :: "json \<Rightarrow> string" where
  "json_text (JStr t) = t"
| "json_text (JNum n) = show_int n"
| "json_text (JBool b) = (if b then ''true'' else ''false'')"
| "json_text JNull = ''null''"
| "json_text (JArr xs) = join '','' (map (\<lambda>x. if x = JNull then [] else json_text x) xs)"
| "json_text (JObj ob) = ''[object Object]''"

definition PAGINATION_MAX_ITEMS :: int where
  "PAGINATION_MAX_ITEMS = 10"

definition getPaginationLimit :: "('s, 'z) storage_package_scheme \<Rightarrow> string \<Rightarrow> 's \<Rightarrow> string" where
  "getPaginationLimit L k s =
     (let v = read_slot L (PaginationLimit k) s in json_text (if v = JNull then JNum PAGINATION_MAX_ITEMS else v))"

definition setPaginationLimit :: "('s, 'z) storage_package_scheme \<Rightarrow> string \<Rightarrow> json \<Rightarrow> 's \<Rightarrow> 's" where
  "setPaginationLimit L k limit s = store_slot L (PaginationLimit k) limit s"

section \<open>The session storage\<close>

text \<open>
  Values are written as texts and read back. \<open>undefined\<close> is written as a text that cannot be read, which gives
  \<open>undefined\<close> again; a key that is missing reads as \<open>null\<close>.
\<close>

type_synonym session_store = "json option obj"

definition session_save :: "session_store \<Rightarrow> string \<Rightarrow> json option \<Rightarrow> session_store" where
  "session_save s k v = obj_set s k v"

definition session_get :: "session_store \<Rightarrow> string \<Rightarrow> json option" where
  "session_get s k = (case obj_get s k of None \<Rightarrow> Some JNull | Some v \<Rightarrow> v)"

definition session_clear :: "session_store \<Rightarrow> session_store" where
  "session_clear s = []"

definition setDataTableTextFilters :: "string \<Rightarrow> json option \<Rightarrow> session_store \<Rightarrow> session_store" where
  "setDataTableTextFilters k v s = session_save s (''datatable_text_filter_'' @ k) v"

definition getDataTableTextFilters :: "string \<Rightarrow> session_store \<Rightarrow> json option" where
  "getDataTableTextFilters k s = session_get s (''datatable_text_filter_'' @ k)"

section \<open>The headers of the agent\<close>

record agent_headers =
  ah_queue :: "string list"
  ah_last :: "string option"
  ah_manager :: bool

definition no_headers :: agent_headers where
  "no_headers = \<lparr>ah_queue = [], ah_last = None, ah_manager = False\<rparr>"

definition portainerAgentTargetHeader :: "agent_headers \<Rightarrow> string option \<times> agent_headers" where
  "portainerAgentTargetHeader h = (case ah_queue h of
       [] \<Rightarrow> (ah_last h, h)
     | [x] \<Rightarrow> (Some x, h\<lparr>ah_queue := [], ah_last := Some x\<rparr>)
     | x # xs \<Rightarrow> (Some x, h\<lparr>ah_queue := xs\<rparr>))"

definition setPortainerAgentTargetHeader :: "string \<Rightarrow> agent_headers \<Rightarrow> agent_headers" where
  "setPortainerAgentTargetHeader v h = (if v \<noteq> [] then h\<lparr>ah_queue := ah_queue h @ [v]\<rparr> else h)"

definition setPortainerAgentManagerOperation :: "bool \<Rightarrow> agent_headers \<Rightarrow> agent_headers" where
  "setPortainerAgentManagerOperation b h = h\<lparr>ah_manager := b\<rparr>"

definition resetAgentHeaders :: "agent_headers \<Rightarrow> agent_headers" where
  "resetAgentHeaders h = no_headers"

text \<open>The headers that the requests to the engine carry: \<open>null\<close> for the target where there is none.\<close>

definition request_headers :: "string \<Rightarrow> agent_headers \<Rightarrow> (string option \<times> bool) option \<times> agent_headers" where
  "request_headers url h =
     (if contains url ''/docker/''
      then (let (t, h') = portainerAgentTargetHeader h in (Some (t, ah_manager h'), h'))
      else (None, h))"

fun send_requests :: "string list \<Rightarrow> agent_headers \<Rightarrow> (string option \<times> bool) option list" where
  "send_requests [] h = []"
| "send_requests (u # us) h = (let (r, h') = request_headers u h in r # send_requests us h')"

section \<open>Lemmas\<close>

text \<open>No key is taken for another one: the prefixes are not prefixes of one another.\<close>

lemma slot_key_inj: "slot_key a = slot_key b \<longleftrightarrow> a = b"
  by (cases a; cases b; simp)

lemma read_store_slot: "storage_laws L \<Longrightarrow> read_slot L b (store_slot L a v s) = (if b = a then v else read_slot L b s)"
  unfolding storage_laws_def read_slot_def store_slot_def by (simp only: slot_key_inj)

lemma read_removed:
  "storage_laws L \<Longrightarrow> ls_get L (ls_remove L s (map slot_key sls)) (slot_key b) = (if b \<in> set sls then JNull else ls_get L s (slot_key b))"
  unfolding storage_laws_def by (auto simp: slot_key_inj)

interpretation session: property_store obj_get "session_save"
  by unfold_locales (simp add: session_save_def)

lemma session_get_save [simp]: "session_get (session_save s k v) j = (if j = k then v else session_get s j)"
  by (simp add: session_get_def session.get_put)

lemma header_queue:
  "ah_queue h = v # vs \<Longrightarrow> portainerAgentTargetHeader h =
     (Some v, h\<lparr>ah_queue := vs, ah_last := (if vs = [] then Some v else ah_last h)\<rparr>)"
  by (cases vs) (simp_all add: portainerAgentTargetHeader_def)

section \<open>The store as a map from places to values\<close>

text \<open>The operations that change the local storage.\<close>

datatype storage_op = StoreSlot storage_slot json | DeleteJWT | CleanLogoutReason | CleanAuthData | CleanEndpointData | CleanStorage

fun storage_step :: "('s, 'z) storage_package_scheme \<Rightarrow> storage_op \<Rightarrow> 's \<Rightarrow> 's" where
  "storage_step L (StoreSlot sl v) s = store_slot L sl v s"
| "storage_step L DeleteJWT s = deleteJWT L s"
| "storage_step L CleanLogoutReason s = cleanLogoutReason L s"
| "storage_step L CleanAuthData s = cleanAuthData L s"
| "storage_step L CleanEndpointData s = cleanEndpointData L s"
| "storage_step L CleanStorage s = clean_storage L s"

text \<open>What each of them promises: one place gets the value, or the places that it names are empty.\<close>

definition forget :: "storage_slot set \<Rightarrow> (storage_slot \<Rightarrow> json) \<Rightarrow> storage_slot \<Rightarrow> json" where
  "forget A m sl = (if sl \<in> A then JNull else m sl)"

fun slot_step :: "storage_op \<Rightarrow> (storage_slot \<Rightarrow> json) \<Rightarrow> storage_slot \<Rightarrow> json" where
  "slot_step (StoreSlot sl v) m = m(sl := v)"
| "slot_step DeleteJWT m = forget {JWT} m"
| "slot_step CleanLogoutReason m = forget {LogoutReason} m"
| "slot_step CleanAuthData m = forget {JWT, ApplicationState, LoginStateUUID} m"
| "slot_step CleanEndpointData m = forget {EndpointID, EndpointPublicURL, OfflineMode, Endpoints, EndpointState} m"
| "slot_step CleanStorage m = (\<lambda>_. JNull)"

definition slots_of :: "('s, 'z) storage_package_scheme \<Rightarrow> 's \<Rightarrow> storage_slot \<Rightarrow> json" where
  "slots_of L s = (\<lambda>sl. read_slot L sl s)"

lemma slots_removed: "storage_laws L \<Longrightarrow> slots_of L (ls_remove L s (map slot_key sls)) = forget (set sls) (slots_of L s)"
  by (rule ext) (simp add: slots_of_def forget_def read_slot_def read_removed)

lemma slots_step: "storage_laws L \<Longrightarrow> slots_of L (storage_step L a s) = slot_step a (slots_of L s)"
proof (cases a)
  case (StoreSlot sl v)
  assume "storage_laws L"
  then show ?thesis by (simp add: StoreSlot slots_of_def read_store_slot fun_eq_iff)
next
  case CleanStorage
  assume "storage_laws L"
  then show ?thesis by (simp add: CleanStorage slots_of_def read_slot_def clean_storage_def storage_laws_def)
next
  case DeleteJWT
  assume "storage_laws L"
  from slots_removed [OF this, of s "[JWT]"] show ?thesis by (simp add: DeleteJWT deleteJWT_def)
next
  case CleanLogoutReason
  assume "storage_laws L"
  from slots_removed [OF this, of s "[LogoutReason]"] show ?thesis by (simp add: CleanLogoutReason cleanLogoutReason_def)
next
  case CleanAuthData
  assume "storage_laws L"
  from slots_removed [OF this, of s "[JWT, ApplicationState, LoginStateUUID]"] show ?thesis
    by (simp add: CleanAuthData cleanAuthData_def)
next
  case CleanEndpointData
  assume "storage_laws L"
  from slots_removed [OF this, of s "[EndpointID, EndpointPublicURL, OfflineMode, Endpoints, EndpointState]"] show ?thesis
    by (simp add: CleanEndpointData cleanEndpointData_def)
qed

text \<open>A store for the examples: the pairs of key and value.\<close>

definition pair_storage :: "json obj storage_package" where
  "pair_storage = \<lparr>ls_get = (\<lambda>s k. case obj_get s k of None \<Rightarrow> JNull | Some v \<Rightarrow> v), ls_set = obj_set,
     ls_remove = (\<lambda>s ks. filter (\<lambda>(k, v). k \<notin> set ks) s), ls_clearAll = (\<lambda>s. [])\<rparr>"

lemma obj_get_filter: "obj_get (filter (\<lambda>(k, v). k \<notin> K) s) j = (if j \<in> K then None else obj_get s j)"
  by (induction s) (auto split: if_splits)

lemma pair_storage_laws: "storage_laws pair_storage"
  by (simp add: storage_laws_def pair_storage_def obj_get_filter session.get_put [unfolded session_save_def])

text \<open>
  The local storage, under any sequence of the operations of the service, is a map from places to values: storing
  changes the one place that it names, and cleaning empties the places of the token, the state and the login, or the five
  places of the endpoint, and no other.
\<close>

theorem storage_is_slot_map:
  assumes "storage_laws L"
  shows "slots_of L (fold (storage_step L) ops s) = fold slot_step ops (slots_of L s)"
  using assms by (induction ops arbitrary: s) (simp_all add: slots_step)

theorem storage_is_slot_map_witness:
  "slots_of pair_storage (fold (storage_step pair_storage) [StoreSlot JWT (JStr ''t''), StoreSlot UIState JNull, CleanAuthData] [])
     = fold slot_step [StoreSlot JWT (JStr ''t''), StoreSlot UIState JNull, CleanAuthData] (slots_of pair_storage [])"
  by (rule storage_is_slot_map [OF pair_storage_laws])

section \<open>The order of the headers\<close>

lemma headers_queued: "[] \<notin> set vs \<Longrightarrow> fold setPortainerAgentTargetHeader vs h = h\<lparr>ah_queue := ah_queue h @ vs\<rparr>"
  by (induction vs arbitrary: h) (auto simp: setPortainerAgentTargetHeader_def)

lemma sent_repeated:
  assumes "ah_queue h = []" and "\<forall>u\<in>set us. contains u ''/docker/''"
  shows "send_requests us h = replicate (length us) (Some (ah_last h, ah_manager h))"
  using assms(2) by (induction us) (simp_all add: request_headers_def portainerAgentTargetHeader_def assms(1))

lemma docker_urls: "contains ''/docker/a'' ''/docker/'' \<and> contains ''/docker/b'' ''/docker/'' \<and> contains ''/docker/c'' ''/docker/''"
  by code_simp

lemma sent_queue:
  assumes "\<forall>u\<in>set us. contains u ''/docker/''" and "ah_queue h = v # vs"
  shows "send_requests us h = map (\<lambda>t. Some (Some t, ah_manager h))
    (take (length us) (v # vs) @ replicate (length us - length (v # vs)) (last (v # vs)))"
  using assms
proof (induction us arbitrary: h v vs)
  case (Cons u us)
  show ?case
  proof (cases vs)
    case Nil
    from Cons.prems show ?thesis by (simp add: Nil request_headers_def portainerAgentTargetHeader_def sent_repeated)
  next
    case (Cons w ws)
    from Cons Cons.prems Cons.IH [of "h\<lparr>ah_queue := vs\<rparr>" w ws] show ?thesis
      by (simp add: request_headers_def portainerAgentTargetHeader_def)
  qed
qed simp

text \<open>
  Targets that are set before the requests to the engine are sent go out with these requests in the order in which
  they were set, one target to each request; the requests after the last target all carry the last one again. All of them
  carry the mark of a manager operation as it was set.
\<close>

theorem headers_sent_in_order:
  assumes "vs \<noteq> []" and "[] \<notin> set vs" and "\<forall>u\<in>set us. contains u ''/docker/''"
  shows "send_requests us (fold setPortainerAgentTargetHeader vs (setPortainerAgentManagerOperation b no_headers)) =
    map (\<lambda>t. Some (Some t, b)) (take (length us) vs @ replicate (length us - length vs) (last vs))"
proof -
  obtain v ws where vs: "vs = v # ws" using assms(1) by (cases vs) auto
  define h where "h = fold setPortainerAgentTargetHeader vs (setPortainerAgentManagerOperation b no_headers)"
  have "ah_queue h = v # ws" and b: "ah_manager h = b"
    by (simp_all only: h_def headers_queued [OF assms(2)]) (simp_all add: setPortainerAgentManagerOperation_def no_headers_def vs)
  from sent_queue [OF assms(3) this(1)] show ?thesis by (simp only: b vs [symmetric] h_def [symmetric])
qed

theorem headers_sent_in_order_witness:
  "send_requests [''/docker/a'', ''/docker/b'', ''/docker/c'']
     (fold setPortainerAgentTargetHeader [''n1'', ''n2''] (setPortainerAgentManagerOperation True no_headers)) =
   map (\<lambda>t. Some (Some t, True)) (take 3 [''n1'', ''n2''] @ replicate (3 - 2) (last [''n1'', ''n2'']))"
proof -
  have "length [''/docker/a'', ''/docker/b'', ''/docker/c''] = 3" "length [''n1'', ''n2''] = 2" by simp_all
  with docker_urls show ?thesis
    using headers_sent_in_order [of "[''n1'', ''n2'']" "[''/docker/a'', ''/docker/b'', ''/docker/c'']" True]
    by (simp del: fold_simps take_Cons_numeral send_requests.simps)
qed

end
