(* ===== verification/Session.thy ===== *)
theory Session
  imports BrowserStorage DockerHelpers
begin

text \<open>
  The session of a user: \<open>portainer/services/authentication.js\<close>, \<open>endpointProvider.js\<close>, \<open>stateManager.js\<close> and the
  pages that log in and out (\<open>views/auth/authController.js\<close>, \<open>views/logout/logoutController.js\<close>). The answers of the
  server are arguments of each operation, the error or the value; the package that reads tokens is a parameter.
\<close>

section \<open>The state of the application\<close>

text \<open>A field of an object, \<open>undefined\<close> where it is missing.\<close>

record user_info =
  us_username :: "json option"
  us_ID :: "json option"
  us_role :: "json option"

record endpoint_info =
  ep_ID :: "json option"
  ep_PublicURL :: "json option"
  ep_OfflineMode :: "json option"

definition no_endpoint :: endpoint_info where
  "no_endpoint = \<lparr>ep_ID = None, ep_PublicURL = None, ep_OfflineMode = None\<rparr>"

record manager_state =
  ms_loading :: bool
  ms_application :: "json obj"
  ms_endpoint :: "json obj"
  ms_UI :: "json obj"

definition initial_state :: manager_state where
  "initial_state = \<lparr>ms_loading = True, ms_application = [], ms_endpoint = [],
     ms_UI = [(''dismissedInfoPanels'', JObj []), (''dismissedInfoHash'', JStr [])]\<rparr>"

record 's client =
  cl_store :: 's
  cl_session :: session_store
  cl_user :: user_info
  cl_endpoint :: endpoint_info
  cl_state :: manager_state

text \<open>The client after the page is loaded: what was in memory is gone, what was stored stays.\<close>

definition reload_page :: "'s client \<Rightarrow> 's client" where
  "reload_page c = c\<lparr>cl_user := \<lparr>us_username = None, us_ID = None, us_role = None\<rparr>, cl_endpoint := no_endpoint,
     cl_state := initial_state\<rparr>"

definition put_slot :: "('s, 'z) storage_package_scheme \<Rightarrow> storage_slot \<Rightarrow> json \<Rightarrow> 's client \<Rightarrow> 's client" where
  "put_slot L sl v c = c\<lparr>cl_store := store_slot L sl v (cl_store c)\<rparr>"

section \<open>The endpoint\<close>

definition endpoint_initialize :: "('s, 'z) storage_package_scheme \<Rightarrow> 's client \<Rightarrow> 's client" where
  "endpoint_initialize L c =
     (let i = read_slot L EndpointID (cl_store c); u = read_slot L EndpointPublicURL (cl_store c);
          m = read_slot L OfflineMode (cl_store c); e = cl_endpoint c
      in c\<lparr>cl_endpoint := e\<lparr>ep_ID := (if truthy_json i then Some i else ep_ID e),
           ep_PublicURL := (if truthy_json u then Some u else ep_PublicURL e),
           ep_OfflineMode := (if truthy_json m then Some m else ep_OfflineMode e)\<rparr>\<rparr>)"

definition endpoint_clean :: "('s, 'z) storage_package_scheme \<Rightarrow> 's client \<Rightarrow> 's client" where
  "endpoint_clean L c = c\<lparr>cl_store := cleanEndpointData L (cl_store c), cl_endpoint := no_endpoint\<rparr>"

text \<open>\<open>urlId\<close> is the parameter of the route, read when no endpoint was chosen.\<close>

definition endpointID :: "('s, 'z) storage_package_scheme \<Rightarrow> json option \<Rightarrow> 's client \<Rightarrow> json option \<times> 's client" where
  "endpointID L urlId c =
     (let e = cl_endpoint c;
          i = (case ep_ID e of None \<Rightarrow> Some (read_slot L EndpointID (cl_store c)) | Some v \<Rightarrow> Some v)
      in (if i = None \<or> i = Some JNull then urlId else i, c\<lparr>cl_endpoint := e\<lparr>ep_ID := i\<rparr>\<rparr>))"

definition setEndpointID :: "('s, 'z) storage_package_scheme \<Rightarrow> json \<Rightarrow> 's client \<Rightarrow> 's client" where
  "setEndpointID L v c = put_slot L EndpointID v (c\<lparr>cl_endpoint := (cl_endpoint c)\<lparr>ep_ID := Some v\<rparr>\<rparr>)"

definition endpointPublicURL :: "('s, 'z) storage_package_scheme \<Rightarrow> 's client \<Rightarrow> json option \<times> 's client" where
  "endpointPublicURL L c =
     (let e = cl_endpoint c;
          u = (case ep_PublicURL e of None \<Rightarrow> Some (read_slot L EndpointPublicURL (cl_store c)) | Some v \<Rightarrow> Some v)
      in (u, c\<lparr>cl_endpoint := e\<lparr>ep_PublicURL := u\<rparr>\<rparr>))"

definition setEndpointPublicURL :: "('s, 'z) storage_package_scheme \<Rightarrow> json \<Rightarrow> 's client \<Rightarrow> 's client" where
  "setEndpointPublicURL L v c =
     put_slot L EndpointPublicURL v (c\<lparr>cl_endpoint := (cl_endpoint c)\<lparr>ep_PublicURL := Some v\<rparr>\<rparr>)"

definition setOfflineMode :: "('s, 'z) storage_package_scheme \<Rightarrow> bool \<Rightarrow> 's client \<Rightarrow> 's client" where
  "setOfflineMode L b c =
     put_slot L OfflineMode (JBool b) (c\<lparr>cl_endpoint := (cl_endpoint c)\<lparr>ep_OfflineMode := Some (JBool b)\<rparr>\<rparr>)"

definition setOfflineModeFromStatus :: "('s, 'z) storage_package_scheme \<Rightarrow> int \<Rightarrow> 's client \<Rightarrow> 's client" where
  "setOfflineModeFromStatus L status c = setOfflineMode L (status \<noteq> 1) c"

definition currentEndpoint :: "('s, 'z) storage_package_scheme \<Rightarrow> 's client \<Rightarrow> json option" where
  "currentEndpoint L c = (case read_slot L Endpoints (cl_store c) of
       JArr es \<Rightarrow> List.find (\<lambda>e. json_field e ''Id'' = ep_ID (cl_endpoint c)) es
     | _ \<Rightarrow> None)"

section \<open>The state manager\<close>

definition set_application :: "('s, 'z) storage_package_scheme \<Rightarrow> json obj \<Rightarrow> 's client \<Rightarrow> 's client" where
  "set_application L app c = put_slot L ApplicationState (JObj app) (c\<lparr>cl_state := (cl_state c)\<lparr>ms_application := app\<rparr>\<rparr>)"

definition update_application :: "('s, 'z) storage_package_scheme \<Rightarrow> string \<Rightarrow> json \<Rightarrow> 's client \<Rightarrow> 's client" where
  "update_application L k v c = set_application L (obj_set (ms_application (cl_state c)) k v) c"

definition setVersionInfo :: "('s, 'z) storage_package_scheme \<Rightarrow> json \<Rightarrow> 's client \<Rightarrow> 's client" where
  "setVersionInfo L v = update_application L ''versionStatus'' v"

definition updateLogo :: "('s, 'z) storage_package_scheme \<Rightarrow> json \<Rightarrow> 's client \<Rightarrow> 's client" where
  "updateLogo L v = update_application L ''logo'' v"

definition updateSnapshotInterval :: "('s, 'z) storage_package_scheme \<Rightarrow> json \<Rightarrow> 's client \<Rightarrow> 's client" where
  "updateSnapshotInterval L v = update_application L ''snapshotInterval'' v"

definition updateEnableEdgeComputeFeatures :: "('s, 'z) storage_package_scheme \<Rightarrow> json \<Rightarrow> 's client \<Rightarrow> 's client" where
  "updateEnableEdgeComputeFeatures L v = update_application L ''enableEdgeComputeFeatures'' v"

definition updateEnableTelemetry :: "('s, 'z) storage_package_scheme \<Rightarrow> json \<Rightarrow> 's client \<Rightarrow> 's client" where
  "updateEnableTelemetry L v = update_application L ''enableTelemetry'' v"

definition set_UI :: "('s, 'z) storage_package_scheme \<Rightarrow> json obj \<Rightarrow> 's client \<Rightarrow> 's client" where
  "set_UI L ui c = put_slot L UIState (JObj ui) (c\<lparr>cl_state := (cl_state c)\<lparr>ms_UI := ui\<rparr>\<rparr>)"

definition dismissed_panels :: "json obj \<Rightarrow> json obj" where
  "dismissed_panels ui = (case obj_get ui ''dismissedInfoPanels'' of Some (JObj ob) \<Rightarrow> ob | _ \<Rightarrow> [])"

definition dismissInformationPanel :: "('s, 'z) storage_package_scheme \<Rightarrow> string \<Rightarrow> 's client \<Rightarrow> 's client" where
  "dismissInformationPanel L i c =
     (let ui = ms_UI (cl_state c)
      in set_UI L (obj_set ui ''dismissedInfoPanels'' (JObj (obj_set (dismissed_panels ui) i (JBool True)))) c)"

definition dismissImportantInformation :: "('s, 'z) storage_package_scheme \<Rightarrow> json \<Rightarrow> 's client \<Rightarrow> 's client" where
  "dismissImportantInformation L h c = set_UI L (obj_set (ms_UI (cl_state c)) ''dismissedInfoHash'' h) c"

definition manager_clean :: "'s client \<Rightarrow> 's client" where
  "manager_clean c = c\<lparr>cl_state := (cl_state c)\<lparr>ms_endpoint := [], ms_application := []\<rparr>\<rparr>"

record settings_answer =
  sa_EnableTelemetry :: json
  sa_LogoURL :: json
  sa_SnapshotInterval :: json
  sa_EnableEdgeComputeFeatures :: json

definition assignStateFromStatusAndSettings :: "json \<Rightarrow> settings_answer \<Rightarrow> int \<Rightarrow> json obj \<Rightarrow> json obj" where
  "assignStateFromStatusAndSettings version st now app =
     fold (\<lambda>(k, v) ob. obj_set ob k v)
       [(''version'', version), (''enableTelemetry'', sa_EnableTelemetry st), (''logo'', sa_LogoURL st),
        (''snapshotInterval'', sa_SnapshotInterval st),
        (''enableEdgeComputeFeatures'', sa_EnableEdgeComputeFeatures st), (''validity'', JNum now)] app"

text \<open>Both requests are made; the state is loaded when both succeed, and it is not loading any more in any case.\<close>

definition loadApplicationState ::
    "('s, 'z) storage_package_scheme \<Rightarrow> string + settings_answer \<Rightarrow> string + json \<Rightarrow> int \<Rightarrow> 's client \<Rightarrow> bool \<times> 's client" where
  "loadApplicationState L settings status now c =
     (let done' = (\<lambda>d :: 's client. d\<lparr>cl_state := (cl_state d)\<lparr>ms_loading := False\<rparr>\<rparr>)
      in case (settings, status) of
           (Inr st, Inr version) \<Rightarrow>
             (True, done' (set_application L (assignStateFromStatusAndSettings version st now (ms_application (cl_state c))) c))
         | _ \<Rightarrow> (False, done' c))"

definition APPLICATION_CACHE_VALIDITY :: int where
  "APPLICATION_CACHE_VALIDITY = 3600"

text \<open>The time at which a stored state was loaded, when it has one that counts.\<close>

fun stored_validity :: "json \<Rightarrow> int option" where
  "stored_validity (JObj app) = (case obj_get app ''validity'' of Some (JNum n) \<Rightarrow> if n = 0 then None else Some n | _ \<Rightarrow> None)"
| "stored_validity _ = None"

fun stored_object :: "json \<Rightarrow> json obj option" where
  "stored_object (JObj ob) = Some ob"
| "stored_object _ = None"

definition manager_initialize ::
    "('s, 'z) storage_package_scheme \<Rightarrow> string + settings_answer \<Rightarrow> string + json \<Rightarrow> int \<Rightarrow> 's client \<Rightarrow> bool \<times> 's client" where
  "manager_initialize L settings status now c =
     (let ui = stored_object (read_slot L UIState (cl_store c));
          ep = stored_object (read_slot L EndpointState (cl_store c));
          app = read_slot L ApplicationState (cl_store c);
          c1 = c\<lparr>cl_state := (cl_state c)\<lparr>ms_UI := (case ui of None \<Rightarrow> ms_UI (cl_state c) | Some u \<Rightarrow> u),
                 ms_endpoint := (case ep of None \<Rightarrow> ms_endpoint (cl_state c) | Some e \<Rightarrow> e)\<rparr>\<rparr>
      in case (stored_validity app, stored_object app) of
           (Some t, Some ob) \<Rightarrow>
             if now - t > APPLICATION_CACHE_VALIDITY then loadApplicationState L settings status now c1
             else (True, c1\<lparr>cl_state := (cl_state c1)\<lparr>ms_application := ob, ms_loading := False\<rparr>\<rparr>)
         | _ \<Rightarrow> loadApplicationState L settings status now c1)"

definition assignExtensions :: "nat list \<Rightarrow> string list" where
  "assignExtensions types = map (\<lambda>_. ''storidge'') (filter (\<lambda>t. t = 1) types)"

text \<open>
  An endpoint of the list. The test for a snapshot asks for a field \<open>Snaphosts\<close>, which no endpoint has, so the engine is
  always asked.
\<close>

record endpoint_row =
  er_Name :: string
  er_Type :: nat
  er_Status :: nat
  er_snapshots :: nat

definition missing_field :: "endpoint_row \<Rightarrow> nat option" where
  "missing_field e = None"

definition asks_engine :: "endpoint_row \<Rightarrow> bool" where
  "asks_engine e \<longleftrightarrow> er_Status e = 1 \<or> missing_field e = None \<or> missing_field e = Some 0 \<or> er_snapshots e = 0"

definition set_endpoint_fields :: "(string \<times> json) list \<Rightarrow> 's client \<Rightarrow> 's client" where
  "set_endpoint_fields kvs c =
     c\<lparr>cl_state := (cl_state c)\<lparr>ms_endpoint := fold (\<lambda>(k, v) ob. obj_set ob k v) kvs (ms_endpoint (cl_state c))\<rparr>\<rparr>"

definition store_endpoint :: "('s, 'z) storage_package_scheme \<Rightarrow> 's client \<Rightarrow> 's client" where
  "store_endpoint L c = put_slot L EndpointState (JObj (ms_endpoint (cl_state c))) c"

definition provider_only :: "string \<Rightarrow> json" where
  "provider_only p = JObj [(''provider'', JStr p)]"

definition mode_json :: "endpoint_mode \<Rightarrow> json" where
  "mode_json m = JObj [(''provider'', JStr (em_provider m)), (''role'', JStr (em_role m)), (''agentProxy'', JBool (em_agentProxy m))]"

text \<open>\<open>version\<close> is the number that \<open>parseFloat\<close> reads from the API version, \<open>ping\<close> the version that an agent answers.\<close>

definition updateEndpointState ::
    "('s, 'z) storage_package_scheme \<Rightarrow> string + (json \<times> swarm_info option) \<Rightarrow> string + json \<Rightarrow> endpoint_row \<Rightarrow> nat list \<Rightarrow>
       's client \<Rightarrow> bool \<times> 's client" where
  "updateEndpointState L answers ping e extensions c =
     (if er_Type e = 3
      then (True, store_endpoint L (set_endpoint_fields [(''name'', JStr (er_Name e)), (''mode'', provider_only ''AZURE'')] c))
      else if er_Type e \<in> {5, 6, 7}
      then (True, store_endpoint L (set_endpoint_fields [(''name'', JStr (er_Name e)), (''mode'', provider_only ''KUBERNETES'')] c))
      else
        (let loaded = (\<lambda>d :: 's client. d\<lparr>cl_state := (cl_state d)\<lparr>ms_loading := False\<rparr>\<rparr>)
         in case answers of
              Inl err \<Rightarrow> (False, loaded c)
            | Inr (version, info) \<Rightarrow>
                (let m = determineEndpointMode info (er_Type e);
                     c1 = set_endpoint_fields [(''mode'', mode_json m), (''name'', JStr (er_Name e)),
                            (''type'', JNum (int (er_Type e))), (''apiVersion'', version),
                            (''extensions'', JArr (map JStr (assignExtensions extensions)))] c
                 in if em_agentProxy m \<and> er_Status e = 1
                    then (case ping of
                            Inl err \<Rightarrow> (False, loaded c1)
                          | Inr v \<Rightarrow> (True, loaded (store_endpoint L (set_endpoint_fields [(''agentApiVersion'', v)] c1))))
                    else (True, loaded (store_endpoint L c1)))))"

section \<open>Authentication\<close>

text \<open>\<open>jt_decode\<close> and \<open>jt_expired\<close> stand for the functions of the token package; \<open>None\<close> is an error that they throw.\<close>

record token_tools =
  jt_decode :: "string \<Rightarrow> user_info option"
  jt_expired :: "string \<Rightarrow> bool option"

definition setUser :: "('s, 'z) storage_package_scheme \<Rightarrow> token_tools \<Rightarrow> string \<Rightarrow> 's client \<Rightarrow> bool \<times> 's client" where
  "setUser L jt token c =
     (let c1 = put_slot L JWT (JStr token) c
      in case jt_decode jt token of None \<Rightarrow> (False, c1) | Some u \<Rightarrow> (True, c1\<lparr>cl_user := u\<rparr>))"

fun json_token :: "json \<Rightarrow> string option" where
  "json_token (JStr t) = (if t = [] then None else Some t)"
| "json_token _ = None"

definition auth_init :: "('s, 'z) storage_package_scheme \<Rightarrow> token_tools \<Rightarrow> 's client \<Rightarrow> bool \<times> 's client" where
  "auth_init L jt c = (case json_token (read_slot L JWT (cl_store c)) of
       None \<Rightarrow> (False, c) | Some t \<Rightarrow> setUser L jt t c)"

text \<open>A login, with a password or with a code, stores the token that the server answers.\<close>

definition login :: "('s, 'z) storage_package_scheme \<Rightarrow> token_tools \<Rightarrow> string + string \<Rightarrow> 's client \<Rightarrow> bool \<times> 's client" where
  "login L jt answer c = (case answer of Inl e \<Rightarrow> (False, c) | Inr t \<Rightarrow> setUser L jt t c)"

text \<open>\<open>api\<close> is the answer of the logout request, when one is made.\<close>

definition auth_logout :: "('s, 'z) storage_package_scheme \<Rightarrow> (string + unit) option \<Rightarrow> 's client \<Rightarrow> bool \<times> 's client" where
  "auth_logout L api c = (case api of
       Some (Inl e) \<Rightarrow> (False, c)
     | _ \<Rightarrow>
         (let c1 = endpoint_clean L (manager_clean (c\<lparr>cl_session := session_clear (cl_session c)\<rparr>));
              c2 = c1\<lparr>cl_store := cleanAuthData L (cl_store c1)\<rparr>
          in (True, put_slot L LoginStateUUID (JStr []) c2)))"

definition isAuthenticated :: "('s, 'z) storage_package_scheme \<Rightarrow> token_tools \<Rightarrow> 's client \<Rightarrow> bool option" where
  "isAuthenticated L jt c = (case json_token (read_slot L JWT (cl_store c)) of
       None \<Rightarrow> Some False | Some t \<Rightarrow> map_option Not (jt_expired jt t))"

definition isAdmin :: "'s client \<Rightarrow> bool" where
  "isAdmin c \<longleftrightarrow> us_role (cl_user c) = Some (JNum 1)"

section \<open>The login page\<close>

record auth_page =
  ap_showOAuthLogin :: bool
  ap_showStandardLogin :: bool
  ap_AuthenticationError :: json
  ap_loginInProgress :: bool
  ap_OAuthProvider :: string
  ap_baseURI :: string
  ap_OAuthLoginURI :: string

definition initial_auth_page :: auth_page where
  "initial_auth_page = \<lparr>ap_showOAuthLogin = False, ap_showStandardLogin = False, ap_AuthenticationError = JStr [],
     ap_loginInProgress = True, ap_OAuthProvider = [], ap_baseURI = [], ap_OAuthLoginURI = []\<rparr>"

text \<open>What the page asks of the server and of the router, in order.\<close>

datatype auth_event = ExchangeCode string | SubmitPassword string string | GoTo string | ReloadWindow | CleanURL

record 's auth_run =
  ar_page :: auth_page
  ar_client :: "'s client"
  ar_events :: "auth_event list"

definition log_event :: "auth_event \<Rightarrow> 's auth_run \<Rightarrow> 's auth_run" where
  "log_event e r = r\<lparr>ar_events := ar_events r @ [e]\<rparr>"

definition on_client :: "('s client \<Rightarrow> 's client) \<Rightarrow> 's auth_run \<Rightarrow> 's auth_run" where
  "on_client h r = r\<lparr>ar_client := h (ar_client r)\<rparr>"

definition show_error :: "string \<Rightarrow> 's auth_run \<Rightarrow> 's auth_run" where
  "show_error m r = r\<lparr>ar_page := (ar_page r)\<lparr>ap_AuthenticationError := JStr m, ap_loginInProgress := False\<rparr>\<rparr>"

definition determineOauthProvider :: "string \<Rightarrow> string" where
  "determineOauthProvider uri =
     (if contains uri ''login.microsoftonline.com'' then ''Microsoft''
      else if contains uri ''accounts.google.com'' then ''Google''
      else if contains uri ''github.com'' then ''Github''
      else ''OAuth'')"

text \<open>\<open>uuid\<close> is the fresh identifier of the package \<open>uuid\<close>; it is stored, and sent along to the provider.\<close>

definition generateOAuthLoginURI :: "('s, 'z) storage_package_scheme \<Rightarrow> string \<Rightarrow> 's auth_run \<Rightarrow> 's auth_run" where
  "generateOAuthLoginURI L uuid r = (on_client (put_slot L LoginStateUUID (JStr uuid)) r)
     \<lparr>ar_page := (ar_page r)\<lparr>ap_OAuthLoginURI := ap_baseURI (ar_page r) @ ''&state='' @ uuid\<rparr>\<rparr>"

definition hasValidState :: "('s, 'z) storage_package_scheme \<Rightarrow> string \<Rightarrow> 's client \<Rightarrow> bool" where
  "hasValidState L st c \<longleftrightarrow> json_token (read_slot L LoginStateUUID (cl_store c)) = Some st"

definition oAuthLogin :: "('s, 'z) storage_package_scheme \<Rightarrow> token_tools \<Rightarrow> string + string \<Rightarrow> string \<Rightarrow> 's auth_run \<Rightarrow> 's auth_run" where
  "oAuthLogin L jt answer code r =
     (let l = login L jt answer (ar_client r); r1 = log_event (ExchangeCode code) (r\<lparr>ar_client := snd l\<rparr>)
      in if fst l then log_event CleanURL r1 else show_error ''Unable to login via OAuth'' r1)"

definition manageOauthCodeReturn ::
    "('s, 'z) storage_package_scheme \<Rightarrow> token_tools \<Rightarrow> string + string \<Rightarrow> string \<Rightarrow> string \<Rightarrow> 's auth_run \<Rightarrow> 's auth_run" where
  "manageOauthCodeReturn L jt answer code st r =
     (if hasValidState L st (ar_client r) then oAuthLogin L jt answer code r
      else show_error ''Invalid OAuth state, try again.'' r)"

text \<open>The answers to the steps after a login: the state, the number of endpoints, the version.\<close>

record login_answers =
  la_settings :: "string + settings_answer"
  la_status :: "string + json"
  la_now :: int
  la_endpoints :: "string + nat"
  la_version :: "string + json option"

definition checkForEndpoints :: "string + nat \<Rightarrow> 's auth_run \<Rightarrow> 's auth_run" where
  "checkForEndpoints endpoints r = (case endpoints of
       Inl e \<Rightarrow> show_error ''Unable to retrieve endpoints'' r
     | Inr n \<Rightarrow> log_event (GoTo (if n = 0 \<and> isAdmin (ar_client r) then ''portainer.init.endpoint'' else ''portainer.home'')) r)"

text \<open>\<open>Some\<close> of a version is one that can be updated to. The version is stored in any case, and an error is thrown on.\<close>

definition version_info :: "string + json option \<Rightarrow> json" where
  "version_info v = (case v of
       Inr (Some latest) \<Rightarrow> JObj [(''UpdateAvailable'', JBool True), (''LatestVersion'', latest)]
     | _ \<Rightarrow> JObj [(''UpdateAvailable'', JBool False), (''LatestVersion'', JStr [])])"

definition postLoginSteps :: "('s, 'z) storage_package_scheme \<Rightarrow> login_answers \<Rightarrow> 's auth_run \<Rightarrow> bool \<times> 's auth_run" where
  "postLoginSteps L a r =
     (let i = manager_initialize L (la_settings a) (la_status a) (la_now a) (ar_client r); r1 = r\<lparr>ar_client := snd i\<rparr>
      in if \<not> fst i then (False, r1)
         else (let r2 = on_client (setVersionInfo L (version_info (la_version a))) (checkForEndpoints (la_endpoints a) r1)
               in (\<not> isl (la_version a), r2)))"

definition authenticateUser ::
    "('s, 'z) storage_package_scheme \<Rightarrow> token_tools \<Rightarrow> string + string \<Rightarrow> login_answers \<Rightarrow> string \<Rightarrow> string \<Rightarrow> 's auth_run \<Rightarrow> 's auth_run" where
  "authenticateUser L jt answer a username password r =
     (let r0 = log_event (SubmitPassword username password) (r\<lparr>ar_page := (ar_page r)\<lparr>ap_loginInProgress := True\<rparr>\<rparr>);
          l = login L jt answer (ar_client r0); r1 = r0\<lparr>ar_client := snd l\<rparr>
      in if \<not> fst l then show_error ''Unable to login'' r1
         else (let q = postLoginSteps L a r1 in if fst q then snd q else show_error ''Unable to login'' (snd q)))"

definition toggleStandardLogin :: "auth_page \<Rightarrow> auth_page" where
  "toggleStandardLogin p = p\<lparr>ap_showStandardLogin := (\<not> ap_showStandardLogin p)\<rparr>"

definition page_logout :: "('s, 'z) storage_package_scheme \<Rightarrow> string \<Rightarrow> json \<Rightarrow> 's auth_run \<Rightarrow> 's auth_run" where
  "page_logout L uuid reason r =
     log_event ReloadWindow (on_client (put_slot L LogoutReason reason)
       (generateOAuthLoginURI L uuid
         (on_client (\<lambda>c. snd (auth_logout L None c)) (r\<lparr>ar_page := (ar_page r)\<lparr>ap_loginInProgress := False\<rparr>\<rparr>))))"

definition authEnabledFlow :: "string + bool \<Rightarrow> 's auth_run \<Rightarrow> 's auth_run" where
  "authEnabledFlow exists' r = (case exists' of
       Inl e \<Rightarrow> show_error ''Unable to verify administrator account existence'' r
     | Inr b \<Rightarrow> if b then r else log_event (GoTo ''portainer.init.admin'') r)"

text \<open>The parameters of the page: the method and address of the settings, the query of the address, the route.\<close>

record auth_params =
  au_method :: nat
  au_uri :: string
  au_code :: "string option"
  au_state :: "string option"
  au_logout :: bool
  au_error :: "json option"

definition auth_onInit ::
    "('s, 'z) storage_package_scheme \<Rightarrow> token_tools \<Rightarrow> string \<Rightarrow> string + string \<Rightarrow> login_answers \<Rightarrow> string + bool \<Rightarrow>
       auth_params \<Rightarrow> 's client \<Rightarrow> 's auth_run" where
  "auth_onInit L jt uuid answer a exists' p c =
     (let r = \<lparr>ar_page = initial_auth_page
            \<lparr>ap_showOAuthLogin := (au_method p = 3), ap_showStandardLogin := (au_method p \<noteq> 3),
             ap_baseURI := au_uri p, ap_OAuthProvider := determineOauthProvider (au_uri p)\<rparr>, ar_client = c, ar_events = []\<rparr>
      in if truthy_str (au_code p) \<and> truthy_str (au_state p)
         then generateOAuthLoginURI L uuid (manageOauthCodeReturn L jt answer (the (au_code p)) (the (au_state p)) r)
         else
           (let r1 = generateOAuthLoginURI L uuid r; reason = (case au_error p of None \<Rightarrow> JNull | Some e \<Rightarrow> e)
            in if au_logout p \<or> truthy_json reason then page_logout L uuid reason r1
               else
                 (let e = read_slot L LogoutReason (cl_store (ar_client r1));
                      r2 = (if truthy_json e then (on_client (\<lambda>c. c\<lparr>cl_store := cleanLogoutReason L (cl_store c)\<rparr>) r1)
                              \<lparr>ar_page := (ar_page r1)\<lparr>ap_AuthenticationError := e\<rparr>\<rparr> else r1);
                      q = (case isAuthenticated L jt (ar_client r2) of
                             None \<Rightarrow> (False, r2) | Some b \<Rightarrow> if b then postLoginSteps L a r2 else (True, r2))
                  in if \<not> fst q then snd q
                     else authEnabledFlow exists' ((snd q)\<lparr>ar_page := (ar_page (snd q))\<lparr>ap_loginInProgress := False\<rparr>\<rparr>))))"

section \<open>The logout page\<close>

datatype logout_target = ProviderLogout string | LoginPage

text \<open>
  Without the settings nothing is done. Then the reason is stored and the page is left whether the logout succeeded or
  not; a failure is reported as well.
\<close>

definition logout_page ::
    "('s, 'z) storage_package_scheme \<Rightarrow> (string + unit) option \<Rightarrow> string + string \<Rightarrow> json \<Rightarrow> 's client \<Rightarrow>
       bool \<times> logout_target option \<times> 's client" where
  "logout_page L api settings reason c = (case settings of
       Inl e \<Rightarrow> (False, None, c)
     | Inr logoutURI \<Rightarrow>
         (let l = auth_logout L api c; c1 = put_slot L LogoutReason reason (snd l)
          in (fst l, Some (if logoutURI \<noteq> [] \<and> us_ID (cl_user c1) \<noteq> Some (JNum 1) then ProviderLogout logoutURI
                           else LoginPage), c1)))"

section \<open>Lemmas\<close>

lemma store_put_slot [simp]:
  "cl_store (put_slot L sl v c) = store_slot L sl v (cl_store c)"
  "cl_session (put_slot L sl v c) = cl_session c"
  "cl_user (put_slot L sl v c) = cl_user c"
  "cl_endpoint (put_slot L sl v c) = cl_endpoint c"
  "cl_state (put_slot L sl v c) = cl_state c"
  by (simp_all add: put_slot_def)

lemma read_cleaned:
  assumes "storage_laws L"
  shows "read_slot L sl (cleanAuthData L s) = (if sl \<in> {JWT, ApplicationState, LoginStateUUID} then JNull else read_slot L sl s)"
    and "read_slot L sl (cleanEndpointData L s) =
      (if sl \<in> {EndpointID, EndpointPublicURL, OfflineMode, Endpoints, EndpointState} then JNull else read_slot L sl s)"
  using slots_step [OF assms, of CleanAuthData s] slots_step [OF assms, of CleanEndpointData s]
  by (simp_all add: slots_of_def forget_def fun_eq_iff)

lemma client_cleaned [simp]:
  "cl_store (endpoint_clean L c) = cleanEndpointData L (cl_store c)" "cl_session (endpoint_clean L c) = cl_session c"
  "cl_user (endpoint_clean L c) = cl_user c" "cl_state (endpoint_clean L c) = cl_state c"
  "cl_endpoint (endpoint_clean L c) = no_endpoint"
  "cl_store (manager_clean c) = cl_store c" "cl_session (manager_clean c) = cl_session c"
  "cl_user (manager_clean c) = cl_user c"
  by (simp_all add: endpoint_clean_def manager_clean_def)

lemma logout_store:
  "fst (auth_logout L api c) \<Longrightarrow> cl_store (snd (auth_logout L api c)) =
     store_slot L LoginStateUUID (JStr []) (cleanAuthData L (cleanEndpointData L (cl_store c)))"
  by (simp add: auth_logout_def Let_def split: option.splits sum.splits)

lemma logout_memory:
  "fst (auth_logout L api c) \<Longrightarrow> cl_session (snd (auth_logout L api c)) = [] \<and> cl_endpoint (snd (auth_logout L api c)) = no_endpoint
     \<and> ms_application (cl_state (snd (auth_logout L api c))) = [] \<and> ms_endpoint (cl_state (snd (auth_logout L api c))) = []"
  by (simp add: auth_logout_def Let_def session_clear_def manager_clean_def split: option.splits sum.splits)

lemma logout_user: "cl_user (snd (auth_logout L api c)) = cl_user c"
  by (simp add: auth_logout_def Let_def split: option.splits sum.splits)

text \<open>
  A logout that succeeds forgets the session: nobody is authenticated, the places of the token, the state of the
  application and of the endpoint are empty, nothing is left in the session storage, and no identifier of a login is
  accepted until a new one is made. What is stored of the settings of the pages stays. The user that is held in memory
  is not reset: who was an administrator still counts as one until the page is loaded again.
\<close>

theorem logout_forgets_session:
  assumes "storage_laws L" and "fst (auth_logout L api c)"
  shows "let d = snd (auth_logout L api c) in
    isAuthenticated L jt d = Some False \<and> (\<forall>st. \<not> hasValidState L st d) \<and> cl_session d = [] \<and> cl_endpoint d = no_endpoint \<and>
    slots_of L (cl_store d) =
      (forget {JWT, ApplicationState, EndpointID, EndpointPublicURL, OfflineMode, Endpoints, EndpointState}
        (slots_of L (cl_store c))) (LoginStateUUID := JStr []) \<and>
    isAdmin d = isAdmin c \<and> \<not> isAdmin (reload_page d)"
proof -
  let ?d = "snd (auth_logout L api c)"
  have r: "read_slot L sl (cl_store ?d) =
    (if sl = LoginStateUUID then JStr [] else if sl \<in> {JWT, ApplicationState, EndpointID, EndpointPublicURL, OfflineMode, Endpoints, EndpointState}
     then JNull else read_slot L sl (cl_store c))" for sl
    by (simp add: logout_store [OF assms(2)] read_store_slot [OF assms(1)] read_cleaned [OF assms(1)])
  from logout_memory [OF assms(2)] show ?thesis
    by (simp add: isAuthenticated_def hasValidState_def r slots_of_def forget_def fun_eq_iff isAdmin_def logout_user reload_page_def)
qed

definition example_client :: "json obj client" where
  "example_client = \<lparr>cl_store = [(''JWT'', JStr ''t'')], cl_session = [], cl_user = \<lparr>us_username = None, us_ID = None, us_role = Some (JNum 1)\<rparr>,
     cl_endpoint = no_endpoint, cl_state = initial_state\<rparr>"

definition example_tokens :: token_tools where
  "example_tokens = \<lparr>jt_decode = (\<lambda>t. Some \<lparr>us_username = Some (JStr t), us_ID = Some (JNum 2), us_role = Some (JNum 2)\<rparr>),
     jt_expired = (\<lambda>t. Some False)\<rparr>"

theorem logout_forgets_session_witness:
  "let d = snd (auth_logout pair_storage None example_client) in
    isAuthenticated pair_storage example_tokens d = Some False \<and> (\<forall>st. \<not> hasValidState pair_storage st d) \<and> cl_session d = [] \<and> cl_endpoint d = no_endpoint \<and>
    slots_of pair_storage (cl_store d) =
      (forget {JWT, ApplicationState, EndpointID, EndpointPublicURL, OfflineMode, Endpoints, EndpointState}
        (slots_of pair_storage (cl_store example_client))) (LoginStateUUID := JStr []) \<and>
    isAdmin d = isAdmin example_client \<and> \<not> isAdmin (reload_page d)"
  by (rule logout_forgets_session [OF pair_storage_laws]) (simp add: auth_logout_def Let_def)

section \<open>The code of a provider\<close>

definition codes_of :: "'s auth_run \<Rightarrow> auth_event list" where
  "codes_of r = filter (\<lambda>e. case e of ExchangeCode k \<Rightarrow> True | _ \<Rightarrow> False) (ar_events r)"

lemma codes_kept [simp]:
  "codes_of (on_client h r) = codes_of r"
  "codes_of (show_error m r) = codes_of r"
  "codes_of (log_event (ExchangeCode k) r) = codes_of r @ [ExchangeCode k]"
  "codes_of (log_event (SubmitPassword u w) r) = codes_of r"
  "codes_of (log_event (GoTo g) r) = codes_of r"
  "codes_of (log_event ReloadWindow r) = codes_of r"
  "codes_of (log_event CleanURL r) = codes_of r"
  "codes_of (r\<lparr>ar_page := pg\<rparr>) = codes_of r"
  "codes_of (r\<lparr>ar_client := cl\<rparr>) = codes_of r"
  "codes_of (generateOAuthLoginURI L uuid r) = codes_of r"
  by (simp_all add: codes_of_def on_client_def show_error_def log_event_def generateOAuthLoginURI_def)

lemma codes_post_login [simp]:
  "codes_of (checkForEndpoints es r) = codes_of r"
  "codes_of (snd (postLoginSteps L a r)) = codes_of r"
  "codes_of (authEnabledFlow ex r) = codes_of r"
  "codes_of (page_logout L uuid reason r) = codes_of r"
  by (simp_all add: checkForEndpoints_def postLoginSteps_def authEnabledFlow_def page_logout_def Let_def split: sum.splits)

lemma codes_of_code_return:
  "codes_of (manageOauthCodeReturn L jt answer code st r) =
     codes_of r @ (if hasValidState L st (ar_client r) then [ExchangeCode code] else [])"
  by (simp add: manageOauthCodeReturn_def oAuthLogin_def Let_def)

lemma codes_of_onInit:
  "codes_of (auth_onInit L jt uuid answer a ex p c) =
     (if truthy_str (au_code p) \<and> truthy_str (au_state p) \<and> hasValidState L (the (au_state p)) c
      then [ExchangeCode (the (au_code p))] else [])"
proof -
  have "codes_of \<lparr>ar_page = pg, ar_client = c, ar_events = []\<rparr> = []" for pg and c :: "'a client" by (simp add: codes_of_def)
  then show ?thesis
    by (simp add: auth_onInit_def codes_of_code_return Let_def split: option.splits)
qed

lemma uuid_stored: "storage_laws L \<Longrightarrow> read_slot L LoginStateUUID (cl_store (ar_client (generateOAuthLoginURI L uuid r))) = JStr uuid"
  by (simp add: generateOAuthLoginURI_def on_client_def read_store_slot)

lemma uuid_after_code:
  assumes "storage_laws L" and "truthy_str (au_code p)" and "truthy_str (au_state p)"
  shows "read_slot L LoginStateUUID (cl_store (ar_client (auth_onInit L jt uuid answer a ex p c))) = JStr uuid"
  using assms(2,3) by (simp add: auth_onInit_def uuid_stored [OF assms(1)] Let_def)

lemma reload_store [simp]: "cl_store (reload_page c) = cl_store c"
  by (simp add: reload_page_def)

text \<open>
  C37. The code that a provider answers is exchanged for a token exactly when the page was opened with a state that is the
  identifier of the login, as it is stored; nothing else than this code is exchanged. The identifier is used up: the same
  address opened again, after the page made a new identifier, exchanges nothing.
\<close>

theorem oauth_code_used_once:
  assumes "storage_laws L" and "au_code p = Some code" and "au_state p = Some st" and "code \<noteq> []" and "uuid \<noteq> st"
  shows "let r = auth_onInit L jt uuid answer a ex p c in
    codes_of r = (if st \<noteq> [] \<and> read_slot L LoginStateUUID (cl_store c) = JStr st then [ExchangeCode code] else []) \<and>
    (st \<noteq> [] \<longrightarrow> codes_of (auth_onInit L jt uuid' answer' a' ex' p (reload_page (ar_client r))) = [])"
proof -
  have v: "hasValidState L st c \<longleftrightarrow> st \<noteq> [] \<and> read_slot L LoginStateUUID (cl_store c) = JStr st"
    by (cases "read_slot L LoginStateUUID (cl_store c)") (auto simp: hasValidState_def)
  have "st \<noteq> [] \<Longrightarrow> truthy_str (au_code p) \<and> truthy_str (au_state p)" using assms(2-4) by (simp add: truthy_str_def)
  then have "st \<noteq> [] \<Longrightarrow> \<not> hasValidState L st (reload_page (ar_client (auth_onInit L jt uuid answer a ex p c)))"
    using assms(5) by (simp add: hasValidState_def uuid_after_code [OF assms(1)])
  with assms(2-4) v show ?thesis by (simp add: codes_of_onInit truthy_str_def)
qed

definition code_address :: auth_params where
  "code_address = \<lparr>au_method = 3, au_uri = ''u'', au_code = Some ''k'', au_state = Some ''s1'', au_logout = False, au_error = None\<rparr>"

definition no_answers :: login_answers where
  "no_answers = \<lparr>la_settings = Inl ''e'', la_status = Inl ''e'', la_now = 0, la_endpoints = Inl ''e'', la_version = Inl ''e''\<rparr>"

theorem oauth_code_used_once_witness:
  "let r = auth_onInit pair_storage example_tokens ''s2'' (Inr ''t'') no_answers (Inr True) code_address
         (put_slot pair_storage LoginStateUUID (JStr ''s1'') example_client)
   in codes_of r = [ExchangeCode ''k''] \<and>
      codes_of (auth_onInit pair_storage example_tokens ''s3'' (Inr ''t'') no_answers (Inr True) code_address (reload_page (ar_client r))) = []"
  using oauth_code_used_once [of pair_storage code_address "''k''" "''s1''" "''s2''" example_tokens "Inr ''t''" no_answers "Inr True"
      "put_slot pair_storage LoginStateUUID (JStr ''s1'') example_client" "''s3''" "Inr ''t''" no_answers "Inr True"]
  by (simp add: code_address_def pair_storage_laws read_store_slot)

section \<open>The state that is kept for an hour\<close>

lemma load_done:
  "loadApplicationState L (Inr st) (Inr version) now c = (True, d) \<Longrightarrow>
     d = (set_application L (assignStateFromStatusAndSettings version st now (ms_application (cl_state c))) c)
       \<lparr>cl_state := (cl_state (set_application L (assignStateFromStatusAndSettings version st now (ms_application (cl_state c))) c))\<lparr>ms_loading := False\<rparr>\<rparr>"
  by (simp add: loadApplicationState_def)

lemma assigned_validity: "obj_get (assignStateFromStatusAndSettings version st now app) ''validity'' = Some (JNum now)"
  by (simp add: assignStateFromStatusAndSettings_def session.get_put [unfolded session_save_def])

lemma set_application_fields [simp]:
  "cl_store (set_application L app c) = store_slot L ApplicationState (JObj app) (cl_store c)"
  "ms_application (cl_state (set_application L app c)) = app"
  by (simp_all add: set_application_def)

text \<open>
  The state of the application that a page loaded is the one that the next page has, for an hour, and no request is
  made for it: whatever the server would answer, the page that is opened at most 3600 seconds later starts with this
  state. After this time the server is asked again, and the page does not start when it does not answer.
\<close>

theorem loaded_state_kept_an_hour:
  assumes "storage_laws L" and "loadApplicationState L (Inr st) (Inr version) t c = (True, d)" and "t \<noteq> 0"
  shows "let r = manager_initialize L settings status now (reload_page d) in
    if now \<le> t + 3600 then fst r \<and> ms_application (cl_state (snd r)) = ms_application (cl_state d)
    else fst r = (\<not> isl settings \<and> \<not> isl status)"
proof -
  let ?app = "assignStateFromStatusAndSettings version st t (ms_application (cl_state c))"
  have app: "ms_application (cl_state d) = ?app" and s: "cl_store d = store_slot L ApplicationState (JObj ?app) (cl_store c)"
    by (simp_all add: load_done [OF assms(2)])
  have r: "read_slot L ApplicationState (cl_store d) = JObj ?app"
    by (simp add: s read_store_slot [OF assms(1)])
  have v: "stored_validity (JObj ?app) = Some t" using assms(3) by (simp add: assigned_validity)
  show ?thesis
    by (simp add: manager_initialize_def r v app Let_def APPLICATION_CACHE_VALIDITY_def loadApplicationState_def
        del: stored_validity.simps split: sum.splits)
qed

definition example_settings :: settings_answer where
  "example_settings = \<lparr>sa_EnableTelemetry = JBool False, sa_LogoURL = JStr [], sa_SnapshotInterval = JStr ''5m'', sa_EnableEdgeComputeFeatures = JBool False\<rparr>"

theorem loaded_state_kept_an_hour_witness:
  "let d = snd (loadApplicationState pair_storage (Inr example_settings) (Inr (JStr ''2'')) 5 example_client)
   in fst (manager_initialize pair_storage (Inl ''e'') (Inl ''e'') 3605 (reload_page d)) \<and>
      \<not> fst (manager_initialize pair_storage (Inl ''e'') (Inl ''e'') 3606 (reload_page d))"
proof -
  let ?d = "snd (loadApplicationState pair_storage (Inr example_settings) (Inr (JStr ''2'')) 5 example_client)"
  have l: "loadApplicationState pair_storage (Inr example_settings) (Inr (JStr ''2'')) 5 example_client = (True, ?d)"
    by (simp add: loadApplicationState_def)
  show ?thesis
    using loaded_state_kept_an_hour [OF pair_storage_laws l, of "Inl ''e''" "Inl ''e''" 3605]
      loaded_state_kept_an_hour [OF pair_storage_laws l, of "Inl ''e''" "Inl ''e''" 3606]
    by (simp add: Let_def)
qed

end
