(* ===== verification/GitlabRegistry.thy ===== *)
theory GitlabRegistry
  imports BrowserStorage
begin

text \<open>
  The projects and repositories of a GitLab registry: \<open>portainer/services/registryGitlabService.js\<close> with the transformation
  of the answers (\<open>rest/transform/gitlabResponseGetLink.js\<close>) and the models of \<open>models/gitlabRegistry.js\<close> and
  \<open>models/registryRepository.js\<close>. A list comes in pages, and the requests follow the header that names the next one, so
  the functions may run for ever: they are partial, \<open>None\<close> for a list that never ends.
\<close>

section \<open>The answers\<close>

text \<open>The body of an answer, \<open>None\<close> when it is not JSON, and the header of the next page, empty when it is missing.\<close>

record gitlab_answer =
  ga_body :: "json option"
  ga_next :: string

record gitlab_response =
  gr_data :: "json option"
  gr_next :: string

text \<open>A body that cannot be read is passed on as it is, so it has neither data nor a next page.\<close>

definition gitlabResponseGetLink :: "gitlab_answer \<Rightarrow> gitlab_response" where
  "gitlabResponseGetLink a = (case ga_body a of
       None \<Rightarrow> \<lparr>gr_data = None, gr_next = []\<rparr>
     | Some d \<Rightarrow> \<lparr>gr_data = Some d, gr_next = ga_next a\<rparr>)"

text \<open>What \<open>_.concat\<close> adds: the elements of an array, any other value (also \<open>undefined\<close>) itself.\<close>

fun added_items :: "json option \<Rightarrow> json option list" where
  "added_items (Some (JArr xs)) = map Some xs"
| "added_items v = [v]"

section \<open>The models\<close>

definition some_value :: "json option \<Rightarrow> json option" where
  "some_value v = (if v = Some JNull then None else v)"

record gitlab_project =
  gp_Id :: "json option"
  gp_Description :: "json option"
  gp_Name :: "json option"
  gp_Namespace :: "json option"
  gp_PathWithNamespace :: "json option"
  gp_RegistryEnabled :: "json option"

text \<open>Reading a property of \<open>undefined\<close> or \<open>null\<close> is an error.\<close>

definition RegistryGitlabProject :: "json option \<Rightarrow> gitlab_project option" where
  "RegistryGitlabProject v = (case some_value v of
       None \<Rightarrow> None
     | Some p \<Rightarrow> Some \<lparr>gp_Id = json_field p ''id'', gp_Description = json_field p ''description'', gp_Name = json_field p ''name'',
         gp_Namespace = (case json_field p ''namespace'' of
            Some n \<Rightarrow> if truthy_json n then json_field n ''name'' else Some (JStr []) | None \<Rightarrow> Some (JStr [])),
         gp_PathWithNamespace = json_field p ''path_with_namespace'',
         gp_RegistryEnabled = json_field p ''container_registry_enabled''\<rparr>)"

record registry_repository =
  rr_Name :: "json option"
  rr_TagsCount :: "json option"

text \<open>The property \<open>length\<close> of a value.\<close>

fun json_length :: "json \<Rightarrow> json option" where
  "json_length (JArr xs) = Some (JNum (int (length xs)))"
| "json_length (JStr s) = Some (JNum (int (length s)))"
| "json_length (JObj ob) = obj_get ob ''length''"
| "json_length _ = None"

definition RegistryRepositoryGitlabViewModel :: "json option \<Rightarrow> registry_repository option" where
  "RegistryRepositoryGitlabViewModel v = (case some_value v of
       None \<Rightarrow> None
     | Some d \<Rightarrow> (case some_value (json_field d ''tags'') of
           None \<Rightarrow> None
         | Some ts \<Rightarrow> Some \<lparr>rr_Name = json_field d ''path'', rr_TagsCount = json_length ts\<rparr>))"

text \<open>The tags of a repository of the registry itself; \<open>_.without\<close> takes what is not an array for an empty one.\<close>

fun tags_without_null :: "json \<Rightarrow> nat" where
  "tags_without_null (JArr xs) = length (filter (\<lambda>x. x \<noteq> JNull) xs)"
| "tags_without_null _ = 0"

definition RegistryRepositoryViewModel :: "json option \<Rightarrow> registry_repository option" where
  "RegistryRepositoryViewModel v = (case some_value v of
       None \<Rightarrow> None
     | Some item \<Rightarrow> Some (case (json_field item ''name'', json_field item ''tags'') of
           (Some n, Some ts) \<Rightarrow> if truthy_json n \<and> truthy_json ts
             then \<lparr>rr_Name = Some n, rr_TagsCount = Some (JNum (int (tags_without_null ts)))\<rparr>
             else \<lparr>rr_Name = Some item, rr_TagsCount = Some (JNum 0)\<rparr>
         | _ \<Rightarrow> \<lparr>rr_Name = Some item, rr_TagsCount = Some (JNum 0)\<rparr>))"

section \<open>The pages\<close>

text \<open>
  The server answers the number of the request and the page that is asked for; it may answer the same page differently
  at another time. The first page is 1.
\<close>

type_synonym gitlab_server = "nat \<Rightarrow> string \<Rightarrow> string + gitlab_answer"

partial_function (option) getProjectsPage ::
    "gitlab_server \<Rightarrow> nat \<Rightarrow> string \<Rightarrow> json option list \<Rightarrow> (string + json option list) option" where
  "getProjectsPage srv k page projects = (case srv k page of
       Inl e \<Rightarrow> Some (Inl e)
     | Inr a \<Rightarrow>
         (let response = gitlabResponseGetLink a; projects' = projects @ added_items (gr_data response)
          in if gr_next response \<noteq> [] then getProjectsPage srv (Suc k) (gr_next response) projects'
             else Some (Inr projects')))"

partial_function (option) getRepositoriesPage ::
    "gitlab_server \<Rightarrow> nat \<Rightarrow> string \<Rightarrow> json option list \<Rightarrow> (string + json option list) option" where
  "getRepositoriesPage srv k page repositories = (case srv k page of
       Inl e \<Rightarrow> Some (Inl e)
     | Inr a \<Rightarrow>
         (let response = gitlabResponseGetLink a; repositories' = repositories @ added_items (gr_data response)
          in if gr_next response \<noteq> [] then getRepositoriesPage srv (Suc k) (gr_next response) repositories'
             else Some (Inr repositories')))"

definition all_or_error :: "('a \<Rightarrow> 'b option) \<Rightarrow> string \<Rightarrow> string + 'a list \<Rightarrow> string + 'b list" where
  "all_or_error model msg d = (case d of
       Inl e \<Rightarrow> Inl msg
     | Inr xs \<Rightarrow> if \<forall>x\<in>set xs. model x \<noteq> None then Inr (map (the \<circ> model) xs) else Inl msg)"

definition gitlab_projects :: "gitlab_server \<Rightarrow> (string + gitlab_project list) option" where
  "gitlab_projects srv = map_option (all_or_error RegistryGitlabProject ''Unable to retrieve projects'') (getProjectsPage srv 0 ''1'' [])"

definition gitlab_repositories :: "gitlab_server \<Rightarrow> (string + registry_repository list) option" where
  "gitlab_repositories srv =
     map_option (all_or_error RegistryRepositoryGitlabViewModel ''Unable to retrieve repositories'') (getRepositoriesPage srv 0 ''1'' [])"

section \<open>Lemmas\<close>

text \<open>The two functions over the pages are the same one.\<close>

lemma same_pages: "getRepositoriesPage = getProjectsPage"
proof -
  have 1: "getProjectsPage srv k page acc = Some r \<Longrightarrow> getRepositoriesPage srv k page acc = Some r" for srv k page acc r
  proof (induction srv k page acc r rule: getProjectsPage.raw_induct [rotated, consumes 1, case_names step])
    case (step gp srv k page acc r)
    then show ?case by (subst getRepositoriesPage.simps) (auto simp: Let_def split: sum.splits if_splits)
  qed
  have 2: "getRepositoriesPage srv k page acc = Some r \<Longrightarrow> getProjectsPage srv k page acc = Some r" for srv k page acc r
  proof (induction srv k page acc r rule: getRepositoriesPage.raw_induct [rotated, consumes 1, case_names step])
    case (step gp srv k page acc r)
    then show ?case by (subst getProjectsPage.simps) (auto simp: Let_def split: sum.splits if_splits)
  qed
  have "getRepositoriesPage srv k page acc = getProjectsPage srv k page acc" for srv k page acc
    using 1 [of srv k page acc] 2 [of srv k page acc]
    by (cases "getRepositoriesPage srv k page acc"; cases "getProjectsPage srv k page acc") simp_all
  then show ?thesis by (intro ext)
qed

text \<open>What GitLab documents of the header: page numbers go up by one until the last page, which has no header.\<close>

definition numbered_pages :: "(nat \<Rightarrow> json list) \<Rightarrow> nat \<Rightarrow> gitlab_server \<Rightarrow> bool" where
  "numbered_pages d n srv \<longleftrightarrow> (\<forall>k. \<forall>i \<in> {1..n}. srv k (show_nat i) =
     Inr \<lparr>ga_body = Some (JArr (d i)), ga_next = (if i < n then show_nat (Suc i) else [])\<rparr>)"

lemma pages_collected:
  assumes "numbered_pages d n srv" and "1 \<le> i" and "i \<le> n"
  shows "getProjectsPage srv k (show_nat i) acc = Some (Inr (acc @ map Some (concat (map d [i..<Suc n]))))"
  using assms(2,3)
proof (induction "n - i" arbitrary: i k acc)
  case 0
  with assms(1) show ?case
    by (subst getProjectsPage.simps) (simp add: numbered_pages_def gitlabResponseGetLink_def)
next
  case (Suc m)
  from Suc.hyps(2) have "i < n" by simp
  with Suc.prems have a: "srv k (show_nat i) = Inr \<lparr>ga_body = Some (JArr (d i)), ga_next = show_nat (Suc i)\<rparr>"
    using assms(1) by (simp add: numbered_pages_def)
  have "getProjectsPage srv (Suc k) (show_nat (Suc i)) (acc @ map Some (d i)) =
      Some (Inr ((acc @ map Some (d i)) @ map Some (concat (map d [Suc i..<Suc n]))))"
    using Suc.hyps(2) \<open>i < n\<close> by (intro Suc.hyps(1)) simp_all
  with \<open>i < n\<close> show ?case
    by (subst getProjectsPage.simps) (simp add: a gitlabResponseGetLink_def show_nat_nonempty upt_conv_Cons)
qed

text \<open>Each page that is named as the next one has a higher rank, and no rank is above \<open>N\<close>.\<close>

definition rising_pages :: "(string \<Rightarrow> nat) \<Rightarrow> nat \<Rightarrow> gitlab_server \<Rightarrow> bool" where
  "rising_pages rank N srv \<longleftrightarrow> (\<forall>k page a. srv k page = Inr a \<and> ga_next a \<noteq> [] \<longrightarrow>
     rank page < rank (ga_next a) \<and> rank (ga_next a) \<le> N)"

lemma next_of_response: "gr_next (gitlabResponseGetLink a) \<noteq> [] \<Longrightarrow> gr_next (gitlabResponseGetLink a) = ga_next a \<and> ga_next a \<noteq> []"
  by (cases "ga_body a") (simp_all add: gitlabResponseGetLink_def)

lemma rising_pages_end:
  assumes "rising_pages rank N srv"
  shows "\<exists>r. getProjectsPage srv k page acc = Some r"
proof (induction "N - rank page" arbitrary: k page acc rule: less_induct)
  case less
  show ?case
  proof (cases "srv k page")
    case (Inl e)
    then show ?thesis by (subst getProjectsPage.simps) simp
  next
    case (Inr a)
    let ?n = "gr_next (gitlabResponseGetLink a)"
    show ?thesis
    proof (cases "?n = []")
      case True
      then show ?thesis by (subst getProjectsPage.simps) (simp add: Inr Let_def)
    next
      case False
      with next_of_response have n: "?n = ga_next a" "ga_next a \<noteq> []" by blast+
      with assms Inr have "rank page < rank ?n \<and> rank ?n \<le> N" by (simp add: rising_pages_def)
      then have "N - rank ?n < N - rank page" by arith
      then have "\<exists>r. getProjectsPage srv (Suc k) ?n (acc @ added_items (gr_data (gitlabResponseGetLink a))) = Some r"
        by (rule less)
      with False show ?thesis by (subst getProjectsPage.simps) (simp add: Inr Let_def)
    qed
  qed
qed

text \<open>
  The pages of \<open>Q\<close> name no end: whenever one of them is asked for, its answer can be read and names a page of \<open>Q\<close> as the
  next one. A page that names itself is such a set alone, a circle of pages another.
\<close>

definition endless_pages :: "string set \<Rightarrow> gitlab_server \<Rightarrow> bool" where
  "endless_pages Q srv \<longleftrightarrow> (\<forall>k. \<forall>p\<in>Q. \<exists>a. srv k p = Inr a \<and> ga_body a \<noteq> None \<and> ga_next a \<in> Q \<and> ga_next a \<noteq> [])"

lemma endless_pages_never_end:
  assumes "endless_pages Q srv" and "page \<in> Q"
  shows "getProjectsPage srv k page acc = None"
proof -
  have "getProjectsPage s i p acc = Some r \<Longrightarrow> s = srv \<Longrightarrow> p \<in> Q \<Longrightarrow> False" for s i p acc r
  proof (induction s i p acc r rule: getProjectsPage.raw_induct [rotated, consumes 1, case_names step])
    case (step gp s i p acc r)
    from assms(1) step.prems obtain a b where a: "s i p = Inr a" "ga_body a = Some b" "ga_next a \<in> Q" "ga_next a \<noteq> []"
      unfolding endless_pages_def by blast
    with step.hyps have "gp s (Suc i) (ga_next a) (acc @ added_items (Some b)) = Some r"
      by (simp add: gitlabResponseGetLink_def Let_def)
    with a(3) step.IH step.prems(1) show ?case by blast
  qed
  from this [OF _ refl assms(2)] show ?thesis by (cases "getProjectsPage srv k page acc") blast+
qed

lemma small_numbers: "show_nat 1 = ''1''" "show_nat 2 = ''2''"
  by code_simp+

text \<open>
  C38. A list of projects or of repositories is answered, with the list or with an error, when the pages that the server
  names as the next ones go up to a highest one, whatever their contents and whichever requests fail. When the first page
  is one of a set of pages each of which can be read and names a page of the set as the next one (a page that names itself,
  or a circle of pages), neither list is ever answered.
\<close>

theorem gitlab_lists_end:
  "(rising_pages rank N srv \<longrightarrow> (\<exists>r. gitlab_projects srv = Some r) \<and> (\<exists>r. gitlab_repositories srv = Some r)) \<and>
   (endless_pages Q srv \<and> ''1'' \<in> Q \<longrightarrow> gitlab_projects srv = None \<and> gitlab_repositories srv = None)"
proof (intro conjI impI)
  assume "rising_pages rank N srv"
  from rising_pages_end [OF this, of 0 "''1''" "[]"] obtain r where "getProjectsPage srv 0 ''1'' [] = Some r" by blast
  then show "\<exists>r. gitlab_projects srv = Some r" "\<exists>r. gitlab_repositories srv = Some r"
    by (simp_all add: gitlab_projects_def gitlab_repositories_def same_pages)
next
  assume "endless_pages Q srv \<and> ''1'' \<in> Q"
  then have "getProjectsPage srv 0 ''1'' [] = None" by (blast intro: endless_pages_never_end)
  then show "gitlab_projects srv = None" "gitlab_repositories srv = None"
    by (simp_all add: gitlab_projects_def gitlab_repositories_def same_pages)
qed

definition two_pages :: gitlab_server where
  "two_pages = (\<lambda>k page. if page = ''1'' then Inr \<lparr>ga_body = Some (JArr [JObj [(''path'', JStr ''a''), (''tags'', JArr [])]]), ga_next = ''2''\<rparr>
     else Inr \<lparr>ga_body = Some (JArr [JObj [(''path'', JStr ''b''), (''tags'', JArr [JNull])]]), ga_next = []\<rparr>)"

text \<open>Two pages that name each other.\<close>

definition circle_of_pages :: gitlab_server where
  "circle_of_pages = (\<lambda>k page. Inr \<lparr>ga_body = Some (JArr []), ga_next = (if page = ''1'' then ''2'' else ''1'')\<rparr>)"

theorem gitlab_lists_end_witness:
  "(\<exists>r. gitlab_projects two_pages = Some r) \<and> (\<exists>r. gitlab_repositories two_pages = Some r) \<and>
   gitlab_projects circle_of_pages = None \<and> gitlab_repositories circle_of_pages = None"
proof -
  have "rising_pages (\<lambda>p. if p = ''2'' then 1 else 0) 1 two_pages" by (simp add: rising_pages_def two_pages_def)
  moreover have "endless_pages {''1'', ''2''} circle_of_pages" by (simp add: endless_pages_def circle_of_pages_def)
  ultimately show ?thesis
    using gitlab_lists_end [of "\<lambda>p. if p = ''2'' then 1 else 0" 1 two_pages "{}"]
      gitlab_lists_end [of "\<lambda>p. 0" 0 circle_of_pages "{''1'', ''2''}"]
    by simp
qed

text \<open>
  When the pages of a server are numbered as GitLab documents it, the list has every item of every page, in order,
  and each once: the projects when every item is an object, and the error of the service when one of them is not.
\<close>

theorem gitlab_list_complete:
  assumes "numbered_pages d n srv" and "1 \<le> n"
  shows "gitlab_projects srv = Some
      (let items = concat (map d [1..<Suc n]) in
       if JNull \<in> set items then Inl ''Unable to retrieve projects''
       else Inr (map (the \<circ> RegistryGitlabProject \<circ> Some) items))"
proof -
  define items where "items = concat (map d [1..<Suc n])"
  have p: "getProjectsPage srv 0 ''1'' [] = Some (Inr (map Some items))"
    using pages_collected [OF assms(1), of 1 0 "[]"] assms(2) by (simp only: small_numbers items_def) simp
  have q: "(\<forall>x\<in>set (map Some xs). RegistryGitlabProject x \<noteq> None) \<longleftrightarrow> JNull \<notin> set xs" for xs
    by (auto simp: RegistryGitlabProject_def some_value_def split: option.splits)
  show ?thesis
    unfolding gitlab_projects_def p items_def [symmetric]
    by (simp only: all_or_error_def option.map sum.case q Let_def map_map comp_assoc) simp
qed

theorem gitlab_list_complete_witness:
  "gitlab_projects (\<lambda>k p. if p = ''1'' then Inr \<lparr>ga_body = Some (JArr [JNum 4]), ga_next = ''2''\<rparr>
       else Inr \<lparr>ga_body = Some (JArr [JNull]), ga_next = []\<rparr>)
     = Some (Inl ''Unable to retrieve projects'')"
proof -
  have "numbered_pages (\<lambda>i. if i = 1 then [JNum 4] else [JNull]) 2
    (\<lambda>k p. if p = ''1'' then Inr \<lparr>ga_body = Some (JArr [JNum 4]), ga_next = ''2''\<rparr>
       else Inr \<lparr>ga_body = Some (JArr [JNull]), ga_next = []\<rparr>)"
    by (simp add: numbered_pages_def atLeastAtMost_upt upt_rec small_numbers small_numbers [unfolded One_nat_def numeral_2_eq_2])
  from gitlab_list_complete [OF this] show ?thesis by (simp add: upt_rec)
qed

end
