(* ===== verification/KubeNode.thy ===== *)
theory KubeNode
  imports KubeAppForm Complex_Main
begin

text \<open>
  The nodes of a Kubernetes cluster: \<open>kubernetes/node/converter.js\<close>, \<open>helper.js\<close>, \<open>filters.js\<close> and the models, the sums of
  \<open>helpers/resourceReservationHelper.js\<close>, and the endpoints of \<open>kubernetes/endpoint/converter.js\<close>. A field that the API may
  leave out is an option; a node without the condition \<open>Ready\<close> is an error, as in the code. The package that reads sizes
  is a parameter.
\<close>

section \<open>Reserved resources\<close>

text \<open>\<open>None\<close> is \<open>NaN\<close>, also as the sum with one.\<close>

definition number_plus :: "rat option \<Rightarrow> rat option \<Rightarrow> rat option" where
  "number_plus a b = (case (a, b) of (Some x, Some y) \<Rightarrow> Some (x + y) | _ \<Rightarrow> None)"

fun jsnum_rat :: "jsnum \<Rightarrow> rat option" where
  "jsnum_rat NaN = None"
| "jsnum_rat (Num i) = Some (rat_of_int i)"

definition parseCPU :: "string \<Rightarrow> rat option" where
  "parseCPU cpu =
     (let res = jsnum_rat (parse_int cpu)
      in if ends_with cpu ''m'' then map_option (\<lambda>n. n / 1000) res
         else if ends_with cpu ''n'' then map_option (\<lambda>n. n / 1000000000) res
         else res)"

record container_requests =
  rq_memory :: "string option"
  rq_cpu :: "string option"

record node_pod =
  np_Name :: string
  np_Namespace :: string
  np_Node :: string
  np_NodeSelector :: "string obj option"
  np_Containers :: "container_requests option list"

record reservation =
  rs_Memory :: "rat option"
  rs_CPU :: "rat option"

definition no_reservation :: reservation where
  "no_reservation = \<lparr>rs_Memory = Some 0, rs_CPU = Some 0\<rparr>"

text \<open>\<open>fsize\<close> stands for the package that reads sizes, with base 10.\<close>

definition add_requests :: "(string \<Rightarrow> rat option) \<Rightarrow> container_requests option \<Rightarrow> reservation \<Rightarrow> reservation" where
  "add_requests fsize c acc = (case c of
       None \<Rightarrow> acc
     | Some r \<Rightarrow>
         acc\<lparr>rs_Memory := (if truthy_str (rq_memory r) then number_plus (rs_Memory acc) (fsize (the (rq_memory r))) else rs_Memory acc),
             rs_CPU := (if truthy_str (rq_cpu r) then number_plus (rs_CPU acc) (parseCPU (the (rq_cpu r))) else rs_CPU acc)\<rparr>)"

definition computeResourceReservation :: "(string \<Rightarrow> rat option) \<Rightarrow> node_pod list \<Rightarrow> reservation" where
  "computeResourceReservation fsize pods = fold (add_requests fsize) (concat (map np_Containers pods)) no_reservation"

definition megaBytesValue :: "rat option \<Rightarrow> int option" where
  "megaBytesValue v = map_option (\<lambda>n. \<lfloor>n / 1000 / 1000\<rfloor>) v"

definition bytesValue_rat :: "rat option \<Rightarrow> rat option" where
  "bytesValue_rat v = map_option (\<lambda>n. n * 1000 * 1000) v"

section \<open>Nodes\<close>

datatype node_availability = NodeActive | NodePause | NodeDrain

definition drain_label :: string where
  "drain_label = ''io.portainer/node-status-drain''"

record node_taint =
  ta_Key :: "string option"
  ta_Value :: "string option"
  ta_Effect :: string

record api_node =
  an_uid :: string
  an_labels :: "string obj"
  an_addresses :: "(string \<times> string) list"
  an_conditions :: "(string \<times> string) list"
  an_unschedulable :: bool
  an_taints :: "node_taint list option"
  an_cpu :: string
  an_memory :: string
  an_kubeletVersion :: string
  an_creationTimestamp :: string
  an_architecture :: string
  an_operatingSystem :: string
  an_osImage :: string

text \<open>Whether a condition holds; one that is missing does not.\<close>

record node_conditions =
  nc_MemoryPressure :: bool
  nc_PIDPressure :: bool
  nc_DiskPressure :: bool
  nc_NetworkUnavailable :: bool

record kube_node =
  kn_Id :: string
  kn_Name :: "string option"
  kn_Labels :: "string obj"
  kn_Role :: string
  kn_Conditions :: node_conditions
  kn_Availability :: node_availability
  kn_Status :: string
  kn_CPU :: "rat option"
  kn_Memory :: string
  kn_Version :: string
  kn_IPAddress :: string
  kn_Taints :: "node_taint list"
  kn_Api :: bool
  kn_Port :: "nat option"

record node_details = kube_node +
  nd_CreationDate :: string
  nd_Architecture :: string
  nd_Platform :: string
  nd_Image :: string
  nd_Yaml :: string

definition condition_true :: "api_node \<Rightarrow> string \<Rightarrow> bool" where
  "condition_true data t \<longleftrightarrow> map_of (an_conditions data) t = Some ''True''"

definition node_status :: "string \<Rightarrow> node_conditions \<Rightarrow> string" where
  "node_status ready c =
     (if ready = ''False'' then ''Unhealthy''
      else if ready = ''Unknown'' \<or> nc_MemoryPressure c \<or> nc_PIDPressure c \<or> nc_DiskPressure c \<or> nc_NetworkUnavailable c then ''Warning''
      else ''Ready'')"

definition read_availability :: "api_node \<Rightarrow> node_availability" where
  "read_availability data =
     (if an_unschedulable data then if obj_has (an_labels data) drain_label then NodeDrain else NodePause else NodeActive)"

text \<open>The name falls back on \<open>metadata.Name\<close>, which does not exist.\<close>

definition apiToNode :: "api_node \<Rightarrow> kube_node option" where
  "apiToNode data =
     (let conditions = \<lparr>nc_MemoryPressure = condition_true data ''MemoryPressure'', nc_PIDPressure = condition_true data ''PIDPressure'',
            nc_DiskPressure = condition_true data ''DiskPressure'', nc_NetworkUnavailable = condition_true data ''NetworkUnavailable''\<rparr>
      in map_option (\<lambda>ready.
           \<lparr>kn_Id = an_uid data, kn_Name = map_of (an_addresses data) ''Hostname'', kn_Labels = an_labels data,
            kn_Role = (if obj_has (an_labels data) ''node-role.kubernetes.io/master'' then ''Master'' else ''Worker''),
            kn_Conditions = conditions, kn_Availability = read_availability data,
            kn_Status = node_status ready conditions, kn_CPU = parseCPU (an_cpu data), kn_Memory = an_memory data,
            kn_Version = an_kubeletVersion data,
            kn_IPAddress = (case map_of (an_addresses data) ''InternalIP'' of None \<Rightarrow> ''-'' | Some a \<Rightarrow> a),
            kn_Taints = (case an_taints data of None \<Rightarrow> [] | Some ts \<Rightarrow> ts), kn_Api = False, kn_Port = Some 0\<rparr>)
         (map_of (an_conditions data) ''Ready''))"

definition apiToNodeDetails :: "api_node \<Rightarrow> string option \<Rightarrow> node_details option" where
  "apiToNodeDetails data yaml = map_option (\<lambda>n.
     kube_node.extend n \<lparr>nd_CreationDate = an_creationTimestamp data, nd_Architecture = an_architecture data,
       nd_Platform = an_operatingSystem data, nd_Image = an_osImage data,
       nd_Yaml = (case yaml of None \<Rightarrow> [] | Some y \<Rightarrow> y)\<rparr>) (apiToNode data)"

section \<open>The form of a node\<close>

text \<open>The constructors of the rows set nothing, so the fields of a new row are \<open>undefined\<close> until they are filled in.\<close>

record taint_row =
  tr_Key :: "string option"
  tr_Value :: "string option"
  tr_Effect :: string
  tr_NeedsDeletion :: bool
  tr_IsNew :: bool
  tr_IsChanged :: bool

record node_label_row =
  lr_Key :: "string option"
  lr_Value :: "string option"
  lr_NeedsDeletion :: bool
  lr_IsNew :: bool
  lr_IsUsed :: bool
  lr_IsChanged :: bool

record node_form =
  nv_Availability :: node_availability
  nv_Taints :: "taint_row list"
  nv_Labels :: "node_label_row list"

definition nodeToFormValues :: "('z) kube_node_scheme \<Rightarrow> node_form" where
  "nodeToFormValues node =
     \<lparr>nv_Availability = kn_Availability node,
      nv_Taints = map (\<lambda>t. \<lparr>tr_Key = ta_Key t, tr_Value = ta_Value t, tr_Effect = ta_Effect t, tr_NeedsDeletion = False,
         tr_IsNew = False, tr_IsChanged = False\<rparr>) (kn_Taints node),
      nv_Labels = map (\<lambda>(key, v). \<lparr>lr_Key = Some key, lr_Value = Some v, lr_NeedsDeletion = False, lr_IsNew = False,
         lr_IsUsed = False, lr_IsChanged = False\<rparr>) (obj_entries (kn_Labels node))\<rparr>"

text \<open>A key that is \<open>undefined\<close> is the key of that name, and a value that is missing the empty text.\<close>

definition property_key :: "string option \<Rightarrow> string" where
  "property_key k = (case k of None \<Rightarrow> ''undefined'' | Some t \<Rightarrow> t)"

definition form_labels :: "node_label_row list \<Rightarrow> string obj" where
  "form_labels ls = obj_of (map (\<lambda>l. (property_key (lr_Key l), case lr_Value l of None \<Rightarrow> [] | Some v \<Rightarrow> v))
     (filter (\<lambda>l. \<not> lr_NeedsDeletion l) ls))"

definition form_taints :: "taint_row list \<Rightarrow> node_taint list" where
  "form_taints ts = map (\<lambda>t. \<lparr>ta_Key = tr_Key t, ta_Value = tr_Value t, ta_Effect = tr_Effect t\<rparr>)
     (filter (\<lambda>t. \<not> tr_NeedsDeletion t) ts)"

definition formValuesToNode :: "('z) kube_node_scheme \<Rightarrow> node_form \<Rightarrow> ('z) kube_node_scheme" where
  "formValuesToNode node f =
     node\<lparr>kn_Availability := nv_Availability f, kn_Taints := form_taints (nv_Taints f), kn_Labels := form_labels (nv_Labels f)\<rparr>"

text \<open>The part of a node that a patch compares; a field that is not set is not part of it.\<close>

record node_payload =
  ny_name :: "string option"
  ny_labels :: "string obj"
  ny_taints :: "node_taint list option"
  ny_unschedulable :: bool

definition node_createPayload :: "('z) kube_node_scheme \<Rightarrow> node_payload" where
  "node_createPayload node =
     \<lparr>ny_name = kn_Name node,
      ny_labels = (case kn_Availability node of
         NodeActive \<Rightarrow> kn_Labels node
       | NodeDrain \<Rightarrow> obj_set (kn_Labels node) drain_label []
       | NodePause \<Rightarrow> obj_del (kn_Labels node) drain_label),
      ny_taints = (if kn_Taints node = [] then None else Some (kn_Taints node)),
      ny_unschedulable = (kn_Availability node \<noteq> NodeActive)\<rparr>"

text \<open>\<open>compare\<close> stands for the package that makes the operations of a patch.\<close>

definition node_patchPayload ::
    "(node_payload \<Rightarrow> node_payload \<Rightarrow> 'p list) \<Rightarrow> ('z) kube_node_scheme \<Rightarrow> ('z) kube_node_scheme \<Rightarrow> 'p list" where
  "node_patchPayload compare oldNode newNode = compare (node_createPayload oldNode) (node_createPayload newNode)"

section \<open>Labels of nodes\<close>

definition isSystemLabel :: "node_label_row \<Rightarrow> bool" where
  "isSystemLabel l \<longleftrightarrow> \<not> lr_IsNew l \<and>
     (let k = (case lr_Key l of None \<Rightarrow> [] | Some t \<Rightarrow> t)
      in starts_with k ''beta.kubernetes.io'' \<or> starts_with k ''kubernetes.io'' \<or> k = ''node-role.kubernetes.io/master'')"

definition reorderLabels :: "node_label_row list \<Rightarrow> node_label_row list" where
  "reorderLabels ls = filter isSystemLabel ls @ filter (\<lambda>l. \<not> isSystemLabel l) ls"

definition computeUsedLabels :: "node_pod list list \<Rightarrow> node_label_row list \<Rightarrow> node_label_row list" where
  "computeUsedLabels apps ls =
     (let nodeSelectors = map np_NodeSelector (concat apps)
      in map (\<lambda>l. l\<lparr>lr_IsUsed := (\<exists>ns\<in>set nodeSelectors. case ns of None \<Rightarrow> False
            | Some s \<Rightarrow> obj_get s (property_key (lr_Key l)) = lr_Value l)\<rparr>) ls)"

definition kubernetesNodeStatusColor :: "string \<Rightarrow> string" where
  "kubernetesNodeStatusColor t =
     (let status = to_lower t in if status = ''ready'' then ''success'' else if status = ''warning'' then ''warning'' else ''danger'')"

definition kubernetesNodeConditionsMessage :: "node_conditions \<Rightarrow> string option" where
  "kubernetesNodeConditionsMessage c =
     (if nc_MemoryPressure c then Some ''Node memory is running low''
      else if nc_PIDPressure c then Some ''Too many processes running on the node''
      else if nc_DiskPressure c then Some ''Node disk capacity is running low''
      else if nc_NetworkUnavailable c then Some ''Incorrect node network configuration''
      else None)"

section \<open>Endpoints of the cluster\<close>

record api_endpoint =
  ae_uid :: string
  ae_name :: string
  ae_namespace :: string
  ae_leader :: "string option"
  ae_subsets :: "(string list \<times> (string \<times> nat) list) list option"

record kube_subset =
  ks_Ips :: "string list"
  ks_Port :: "nat option"

record kube_endpoint =
  ke_Id :: string
  ke_Name :: string
  ke_Namespace :: string
  ke_HolderIdentity :: string
  ke_Subsets :: "kube_subset list"

text \<open>
  \<open>holder\<close> reads the field of the annotation, \<open>None\<close> when it is not JSON. The identity is the part before the first
  underscore.
\<close>

definition apiToEndpoint :: "(string \<Rightarrow> string option) \<Rightarrow> api_endpoint \<Rightarrow> kube_endpoint option" where
  "apiToEndpoint holder data =
     (let res = \<lparr>ke_Id = ae_uid data, ke_Name = ae_name data, ke_Namespace = ae_namespace data, ke_HolderIdentity = [],
            ke_Subsets = (case ae_subsets data of None \<Rightarrow> []
              | Some ss \<Rightarrow> map (\<lambda>(ips, ports). \<lparr>ks_Ips = ips, ks_Port = map_of ports ''https''\<rparr>) ss)\<rparr>
      in if truthy_str (ae_leader data)
         then map_option (\<lambda>h. res\<lparr>ke_HolderIdentity := split_char CHR ''_'' h ! 0\<rparr>) (holder (the (ae_leader data)))
         else Some res)"

section \<open>Names without duplicates\<close>

text \<open>The names of a form that are filled in; when the form finds no duplicates they differ.\<close>

fun filled_key :: "string option \<Rightarrow> string list" where
  "filled_key None = []"
| "filled_key (Some k) = (if k = [] then [] else [k])"

lemma filled_names:
  "map PText (concat (map filled_key ns)) = without_undefined (map (\<lambda>n. if name_truthy n then n else None) (map (map_option PText) ns))"
proof (induction ns)
  case (Cons n ns)
  then show ?case by (cases n) simp_all
qed simp

lemma filled_distinct: "getDuplicates (map (map_option PText) ns) = [] \<Longrightarrow> distinct (concat (map filled_key ns))"
  using getDuplicates_distinct [of "map (map_option PText) ns"] unfolding filled_names [symmetric] by (metis distinct_map)

end
