(* ===== verification/KubeNodePage.thy ===== *)
theory KubeNodePage
  imports KubeNode
begin

text \<open>
  The page of a node of the cluster, \<open>kubernetes/views/cluster/node/nodeController.js\<close>, with the requests of
  \<open>kubernetes/node/service.js\<close>, and the sums of the page of the cluster (\<open>views/cluster/clusterController.js\<close>).
\<close>

section \<open>The page\<close>

record node_page =
  ng_form :: node_form
  ng_duplicateTaintKeys :: "(nat \<times> port_value) list"
  ng_hasDuplicateTaintKeys :: bool
  ng_duplicateLabelKeys :: "(nat \<times> port_value) list"
  ng_hasDuplicateLabelKeys :: bool
  ng_isDrainOperation :: bool
  ng_isContainPortainer :: bool

definition with_taints :: "(taint_row list \<Rightarrow> taint_row list) \<Rightarrow> node_page \<Rightarrow> node_page" where
  "with_taints h p = p\<lparr>ng_form := (ng_form p)\<lparr>nv_Taints := h (nv_Taints (ng_form p))\<rparr>\<rparr>"

definition with_labels :: "(node_label_row list \<Rightarrow> node_label_row list) \<Rightarrow> node_page \<Rightarrow> node_page" where
  "with_labels h p = p\<lparr>ng_form := (ng_form p)\<lparr>nv_Labels := h (nv_Labels (ng_form p))\<rparr>\<rparr>"

text \<open>An operation on a row that is not there is an error; a change without a row marks nothing.\<close>

definition taint_names :: "taint_row list \<Rightarrow> port_value option list" where
  "taint_names ts = map (\<lambda>t. if tr_NeedsDeletion t then None else map_option PText (tr_Key t)) ts"

definition label_names :: "node_label_row list \<Rightarrow> port_value option list" where
  "label_names ls = map (\<lambda>l. if lr_NeedsDeletion l then None else map_option PText (lr_Key l)) ls"

definition onChangeTaint :: "nat option \<Rightarrow> node_page \<Rightarrow> node_page" where
  "onChangeTaint index p = (case index of
       Some i \<Rightarrow> with_taints (\<lambda>ts. if i < length ts then ts[i := (ts ! i)\<lparr>tr_IsChanged := True\<rparr>] else ts) p
     | None \<Rightarrow> p)"

definition onChangeTaintKey :: "nat option \<Rightarrow> node_page \<Rightarrow> node_page" where
  "onChangeTaintKey index p =
     (let d = getDuplicates (taint_names (nv_Taints (ng_form p)))
      in onChangeTaint index (p\<lparr>ng_duplicateTaintKeys := d, ng_hasDuplicateTaintKeys := (d \<noteq> [])\<rparr>))"

definition new_taint :: taint_row where
  "new_taint = \<lparr>tr_Key = None, tr_Value = None, tr_Effect = ''NoSchedule'', tr_NeedsDeletion = False, tr_IsNew = True,
     tr_IsChanged = False\<rparr>"

definition addTaint :: "node_page \<Rightarrow> node_page" where
  "addTaint = with_taints (\<lambda>ts. ts @ [new_taint])"

definition removeTaint :: "nat \<Rightarrow> node_page \<Rightarrow> node_page option" where
  "removeTaint i p =
     (let ts = nv_Taints (ng_form p)
      in if i < length ts
         then Some (onChangeTaintKey None (with_taints (\<lambda>ts. if tr_IsNew (ts ! i) then remove_at i ts
                else ts[i := (ts ! i)\<lparr>tr_NeedsDeletion := True\<rparr>]) p))
         else None)"

definition restoreTaint :: "nat \<Rightarrow> node_page \<Rightarrow> node_page option" where
  "restoreTaint i p =
     (if i < length (nv_Taints (ng_form p))
      then Some (onChangeTaintKey None (with_taints (\<lambda>ts. ts[i := (ts ! i)\<lparr>tr_NeedsDeletion := False\<rparr>]) p))
      else None)"

definition computeTaintsWarning :: "node_form \<Rightarrow> nat" where
  "computeTaintsWarning f = length (filter (\<lambda>t. tr_Effect t = ''NoExecute'' \<and> (tr_IsNew t \<or> tr_IsChanged t)) (nv_Taints f))"

definition onChangeLabel :: "nat option \<Rightarrow> node_page \<Rightarrow> node_page" where
  "onChangeLabel index p = (case index of
       Some i \<Rightarrow> with_labels (\<lambda>ls. if i < length ls then ls[i := (ls ! i)\<lparr>lr_IsChanged := True\<rparr>] else ls) p
     | None \<Rightarrow> p)"

definition onChangeLabelKey :: "nat option \<Rightarrow> node_page \<Rightarrow> node_page" where
  "onChangeLabelKey index p =
     (let d = getDuplicates (label_names (nv_Labels (ng_form p)))
      in onChangeLabel index (p\<lparr>ng_duplicateLabelKeys := d, ng_hasDuplicateLabelKeys := (d \<noteq> [])\<rparr>))"

definition new_node_label :: node_label_row where
  "new_node_label = \<lparr>lr_Key = None, lr_Value = None, lr_NeedsDeletion = False, lr_IsNew = True, lr_IsUsed = False,
     lr_IsChanged = False\<rparr>"

definition addNodeLabel :: "node_page \<Rightarrow> node_page" where
  "addNodeLabel = with_labels (\<lambda>ls. ls @ [new_node_label])"

definition removeNodeLabel :: "nat \<Rightarrow> node_page \<Rightarrow> node_page option" where
  "removeNodeLabel i p =
     (let ls = nv_Labels (ng_form p)
      in if i < length ls
         then Some (onChangeLabelKey None (with_labels (\<lambda>ls. if lr_IsNew (ls ! i) then remove_at i ls
                else ls[i := (ls ! i)\<lparr>lr_NeedsDeletion := True\<rparr>]) p))
         else None)"

definition restoreNodeLabel :: "nat \<Rightarrow> node_page \<Rightarrow> node_page option" where
  "restoreNodeLabel i p =
     (if i < length (nv_Labels (ng_form p))
      then Some (onChangeLabelKey None (with_labels (\<lambda>ls. ls[i := (ls ! i)\<lparr>lr_NeedsDeletion := False\<rparr>]) p))
      else None)"

definition computeLabelsWarning :: "node_form \<Rightarrow> nat" where
  "computeLabelsWarning f = length (filter (\<lambda>l. lr_IsUsed l \<and> (lr_NeedsDeletion l \<or> lr_IsChanged l)) (nv_Labels f))"

text \<open>The fields of the page: a key, a value or an effect is written into its row and the change is noted.\<close>

definition editTaintKey :: "nat \<Rightarrow> string option \<Rightarrow> node_page \<Rightarrow> node_page" where
  "editTaintKey i k p = onChangeTaintKey (Some i) (with_taints (\<lambda>ts. ts[i := (ts ! i)\<lparr>tr_Key := k\<rparr>]) p)"

definition editTaintValue :: "nat \<Rightarrow> string option \<Rightarrow> node_page \<Rightarrow> node_page" where
  "editTaintValue i v p = onChangeTaint (Some i) (with_taints (\<lambda>ts. ts[i := (ts ! i)\<lparr>tr_Value := v\<rparr>]) p)"

definition editTaintEffect :: "nat \<Rightarrow> string \<Rightarrow> node_page \<Rightarrow> node_page" where
  "editTaintEffect i e p = onChangeTaint (Some i) (with_taints (\<lambda>ts. ts[i := (ts ! i)\<lparr>tr_Effect := e\<rparr>]) p)"

definition editLabelKey :: "nat \<Rightarrow> string option \<Rightarrow> node_page \<Rightarrow> node_page" where
  "editLabelKey i k p = onChangeLabelKey (Some i) (with_labels (\<lambda>ls. ls[i := (ls ! i)\<lparr>lr_Key := k\<rparr>]) p)"

definition editLabelValue :: "nat \<Rightarrow> string option \<Rightarrow> node_page \<Rightarrow> node_page" where
  "editLabelValue i v p = onChangeLabel (Some i) (with_labels (\<lambda>ls. ls[i := (ls ! i)\<lparr>lr_Value := v\<rparr>]) p)"

definition editAvailability :: "node_availability \<Rightarrow> node_page \<Rightarrow> node_page" where
  "editAvailability a p = p\<lparr>ng_form := (ng_form p)\<lparr>nv_Availability := a\<rparr>\<rparr>"

section \<open>Whether the form can be sent\<close>

definition isNoChangesMade ::
    "(node_payload \<Rightarrow> node_payload \<Rightarrow> 'p list) \<Rightarrow> ('z) kube_node_scheme \<Rightarrow> node_page \<Rightarrow> bool" where
  "isNoChangesMade compare node p \<longleftrightarrow> node_patchPayload compare node (formValuesToNode node (ng_form p)) = []"

definition isDrainError :: "node_page \<Rightarrow> bool" where
  "isDrainError p \<longleftrightarrow> (ng_isDrainOperation p \<or> ng_isContainPortainer p) \<and> nv_Availability (ng_form p) = NodeDrain"

definition isNodeFormValid :: "(node_payload \<Rightarrow> node_payload \<Rightarrow> 'p list) \<Rightarrow> ('z) kube_node_scheme \<Rightarrow> node_page \<Rightarrow> bool" where
  "isNodeFormValid compare node p \<longleftrightarrow>
     \<not> ng_hasDuplicateTaintKeys p \<and> \<not> ng_hasDuplicateLabelKeys p \<and> \<not> isNoChangesMade compare node p \<and> \<not> isDrainError p"

text \<open>A reset makes the form again, but not what was found out about duplicates and used labels.\<close>

definition resetNodeForm :: "('z) kube_node_scheme \<Rightarrow> node_page \<Rightarrow> node_page" where
  "resetNodeForm node p = p\<lparr>ng_form := nodeToFormValues node\<rparr>"

section \<open>Updating\<close>

datatype 'p node_call = PatchNode "string option" "'p list" | Evict node_pod

text \<open>The answer to a request after those before: an error, or the node (which an eviction does not use).\<close>

type_synonym 'p node_server = "'p node_call list \<Rightarrow> 'p node_call \<Rightarrow> string + api_node"

definition patch_node ::
    "(node_payload \<Rightarrow> node_payload \<Rightarrow> 'p list) \<Rightarrow> 'p node_server \<Rightarrow> ('z) kube_node_scheme \<Rightarrow> node_form \<Rightarrow> 'p node_call list \<Rightarrow>
       (string + node_details) \<times> 'p node_call list" where
  "patch_node compare srv node f calls =
     (let c = PatchNode (kn_Name node) (node_patchPayload compare node (formValuesToNode node f))
      in (case srv calls c of
            Inl e \<Rightarrow> Inl ''Unable to patch node''
          | Inr data \<Rightarrow> (case apiToNodeDetails data None of None \<Rightarrow> Inl ''Unable to patch node'' | Some n \<Rightarrow> Inr n), calls @ [c]))"

definition pause_node ::
    "(node_payload \<Rightarrow> node_payload \<Rightarrow> 'p list) \<Rightarrow> 'p node_server \<Rightarrow> ('z) kube_node_scheme \<Rightarrow> node_form \<Rightarrow> 'p node_call list \<Rightarrow>
       bool \<times> node_form \<times> 'p node_call list" where
  "pause_node compare srv node f calls =
     (let f' = f\<lparr>nv_Availability := NodePause\<rparr>; r = patch_node compare srv node f' calls
      in (\<not> isl (fst r), f', snd r))"

text \<open>
  The pods are evicted one after the other. After an eviction that failed the node is paused, and after the last pod it
  is paused again, both times with the patch from the node as it was before; an error of a pause ends the loop.
\<close>

fun drain_pods ::
    "(node_payload \<Rightarrow> node_payload \<Rightarrow> 'p list) \<Rightarrow> 'p node_server \<Rightarrow> ('z) kube_node_scheme \<Rightarrow> node_pod list \<Rightarrow> node_form \<Rightarrow>
       'p node_call list \<Rightarrow> bool \<times> node_form \<times> 'p node_call list" where
  "drain_pods compare srv node [] f calls = (True, f, calls)"
| "drain_pods compare srv node (pod # pods) f calls =
     (let evicted = \<not> isl (srv calls (Evict pod)); calls1 = calls @ [Evict pod];
          (ok1, f1, calls2) = (if evicted then (True, f, calls1) else pause_node compare srv node f calls1);
          (ok2, f2, calls3) = (if pods = [] then pause_node compare srv node f1 calls2 else (True, f1, calls2))
      in if ok1 \<and> ok2 then drain_pods compare srv node pods f2 calls3 else (False, f2, calls3))"

definition updateNodeAsync ::
    "(node_payload \<Rightarrow> node_payload \<Rightarrow> 'p list) \<Rightarrow> 'p node_server \<Rightarrow> node_pod list \<Rightarrow> node_details \<Rightarrow> node_form \<Rightarrow>
       bool \<times> node_form \<times> 'p node_call list" where
  "updateNodeAsync compare srv pods node f = (case patch_node compare srv node f [] of
       (Inl e, calls) \<Rightarrow> (False, f, calls)
     | (Inr node', calls) \<Rightarrow>
         if nv_Availability f = NodeDrain then drain_pods compare srv node' pods f calls else (True, f, calls))"

datatype node_warning = WarnTaints | WarnLabels | WarnTaintsAndLabels | WarnCordon | WarnDrain

definition node_warning_of :: "node_form \<Rightarrow> node_warning option" where
  "node_warning_of f =
     (let taintsWarning = computeTaintsWarning f > 0; labelsWarning = computeLabelsWarning f > 0
      in if taintsWarning \<and> \<not> labelsWarning then Some WarnTaints
         else if \<not> taintsWarning \<and> labelsWarning then Some WarnLabels
         else if taintsWarning \<and> labelsWarning then Some WarnTaintsAndLabels
         else if nv_Availability f = NodePause then Some WarnCordon
         else if nv_Availability f = NodeDrain then Some WarnDrain
         else None)"

definition updateNode ::
    "(node_payload \<Rightarrow> node_payload \<Rightarrow> 'p list) \<Rightarrow> 'p node_server \<Rightarrow> node_pod list \<Rightarrow> node_details \<Rightarrow> node_form \<Rightarrow>
       (node_warning \<Rightarrow> bool) \<Rightarrow> (bool \<times> node_form \<times> 'p node_call list) option" where
  "updateNode compare srv pods node f confirmed = (case node_warning_of f of
       Some w \<Rightarrow> if confirmed w then Some (updateNodeAsync compare srv pods node f) else None
     | None \<Rightarrow> Some (updateNodeAsync compare srv pods node f))"

section \<open>Opening the page\<close>

record node_application =
  na_ApplicationName :: string
  na_Pods :: "node_pod list"

definition node_applications :: "string option \<Rightarrow> node_application list \<Rightarrow> node_application list" where
  "node_applications name apps = filter (\<lambda>a. na_Pods a \<noteq> [])
     (map (\<lambda>a. a\<lparr>na_Pods := filter (\<lambda>q. Some (np_Node q) = name) (na_Pods a)\<rparr>) apps)"

definition sum_reservations :: "(string \<Rightarrow> rat option) \<Rightarrow> node_application list \<Rightarrow> reservation" where
  "sum_reservations fsize apps = fold (\<lambda>a acc.
     (let r = computeResourceReservation fsize (na_Pods a)
      in \<lparr>rs_Memory = number_plus (rs_Memory acc) (rs_Memory r), rs_CPU = number_plus (rs_CPU acc) (rs_CPU r)\<rparr>)) apps no_reservation"

text \<open>
  The last subset with the address of the node gives the port: the inner loop stops at the first address, the outer one
  goes on.
\<close>

definition api_node_port :: "kube_endpoint list \<Rightarrow> ('z) kube_node_scheme \<Rightarrow> ('z) kube_node_scheme" where
  "api_node_port endpoints node = (case find (\<lambda>e. ke_Name e = ''kubernetes'') endpoints of
       None \<Rightarrow> node
     | Some e \<Rightarrow> fold (\<lambda>s n. if kn_IPAddress n \<in> set (ks_Ips s) then n\<lparr>kn_Api := True, kn_Port := ks_Port s\<rparr> else n)
         (ke_Subsets e) node)"

text \<open>
  \<open>None\<close> when the node is not found, which is an error of the page. Without the list of applications it is taken for an
  empty one.
\<close>

definition open_node ::
    "string + kube_node list \<Rightarrow> string + node_application list \<Rightarrow> string + kube_endpoint list \<Rightarrow> string \<Rightarrow>
       (kube_node \<times> node_application list \<times> node_page) option" where
  "open_node nodes apps endpoints name =
     (let ns = (case nodes of Inl e \<Rightarrow> [] | Inr xs \<Rightarrow> xs)
      in map_option (\<lambda>node.
           (let mine = (case apps of Inl e \<Rightarrow> [] | Inr as \<Rightarrow> node_applications (kn_Name node) as);
                n = (case endpoints of Inl e \<Rightarrow> node | Inr es \<Rightarrow> api_node_port es node);
                f = nodeToFormValues n
            in (n, mine,
                \<lparr>ng_form = f\<lparr>nv_Labels := reorderLabels (computeUsedLabels (map na_Pods mine) (nv_Labels f))\<rparr>,
                 ng_duplicateTaintKeys = [], ng_hasDuplicateTaintKeys = False, ng_duplicateLabelKeys = [],
                 ng_hasDuplicateLabelKeys = False,
                 ng_isDrainOperation = (\<exists>m\<in>set ns. kn_Availability m = NodeDrain),
                 ng_isContainPortainer = (\<exists>a\<in>set mine. na_ApplicationName a = ''portainer'')\<rparr>)))
         (find (\<lambda>m. kn_Name m = Some name) ns))"

section \<open>The page of the cluster\<close>

definition api_nodes :: "kube_endpoint list \<Rightarrow> kube_node list \<Rightarrow> kube_node list" where
  "api_nodes endpoints nodes = (case find (\<lambda>e. ke_Name e = ''kubernetes'') endpoints of
       None \<Rightarrow> nodes
     | Some e \<Rightarrow> map (\<lambda>n. n\<lparr>kn_Api := (kn_IPAddress n \<in> set (concat (map ks_Ips (ke_Subsets e))))\<rparr>) nodes)"

definition leader_endpoints :: "kube_endpoint list \<Rightarrow> kube_endpoint list" where
  "leader_endpoints endpoints = filter (\<lambda>e. ke_HolderIdentity e \<noteq> []) (filter (\<lambda>e. ke_Namespace e = ''kube-system'') endpoints)"

definition cluster_cpu :: "kube_node list \<Rightarrow> rat option" where
  "cluster_cpu nodes = fold (\<lambda>n acc. number_plus (kn_CPU n) acc) nodes (Some 0)"

definition cluster_reservation :: "(string \<Rightarrow> rat option) \<Rightarrow> kube_node list \<Rightarrow> node_application list \<Rightarrow> reservation" where
  "cluster_reservation fsize nodes apps =
     sum_reservations fsize (map (\<lambda>a. a\<lparr>na_Pods := filter (\<lambda>q. Some (np_Node q) \<in> set (map kn_Name nodes)) (na_Pods a)\<rparr>) apps)"

section \<open>The form of a node that was opened\<close>

definition label_entry :: "node_label_row \<Rightarrow> string \<times> string" where
  "label_entry l = (property_key (lr_Key l), case lr_Value l of None \<Rightarrow> [] | Some v \<Rightarrow> v)"

lemma form_labels_entries: "form_labels ls = obj_of (map label_entry (filter (\<lambda>l. \<not> lr_NeedsDeletion l) ls))"
  by (simp add: form_labels_def label_entry_def [abs_def])

lemma obj_get_obj_of_distinct: "distinct (map fst kvs) \<Longrightarrow> obj_get (obj_of kvs) k = map_of kvs k"
  by (simp add: obj_of_def object.get_fold_put_distinct split: option.splits)

text \<open>The order of the rows and what is marked on them do not matter to the labels.\<close>

lemma set_reorderLabels: "set (reorderLabels ls) = set ls"
  by (auto simp: reorderLabels_def)

lemma mset_reorderLabels: "mset (reorderLabels ls) = mset ls"
  by (simp add: reorderLabels_def)

lemma used_labels_entries:
  "map label_entry (computeUsedLabels apps ls) = map label_entry ls"
  "map lr_NeedsDeletion (computeUsedLabels apps ls) = map lr_NeedsDeletion ls"
  "map lr_Key (computeUsedLabels apps ls) = map lr_Key ls"
  by (simp_all add: computeUsedLabels_def label_entry_def Let_def)

lemma loaded_entries:
  "map label_entry (nv_Labels (nodeToFormValues n)) = obj_entries (kn_Labels n)"
  "map lr_Key (nv_Labels (nodeToFormValues n)) = map Some (obj_keys (kn_Labels n))"
  "list_all (\<lambda>l. \<not> lr_NeedsDeletion l) (nv_Labels (nodeToFormValues n))"
  by (auto simp: nodeToFormValues_def label_entry_def property_key_def comp_def case_prod_beta list_all_iff
      map_fst_obj_entries [symmetric])

definition opened_labels :: "('z) kube_node_scheme \<Rightarrow> node_pod list list \<Rightarrow> node_label_row list" where
  "opened_labels n apps = reorderLabels (computeUsedLabels apps (nv_Labels (nodeToFormValues n)))"

lemma opened_labels_kept: "list_all (\<lambda>l. \<not> lr_NeedsDeletion l) (opened_labels n apps)"
proof -
  have "True \<notin> set (map lr_NeedsDeletion (computeUsedLabels apps (nv_Labels (nodeToFormValues n))))"
    unfolding used_labels_entries using loaded_entries(3) [of n] by (auto simp: list_all_iff)
  then show ?thesis by (auto simp: opened_labels_def list_all_iff set_reorderLabels)
qed

lemma opened_labels_entries: "mset (map label_entry (opened_labels n apps)) = mset (obj_entries (kn_Labels n))"
proof -
  have "mset (map label_entry (opened_labels n apps)) = mset (map label_entry (computeUsedLabels apps (nv_Labels (nodeToFormValues n))))"
    by (simp only: opened_labels_def mset_map mset_reorderLabels)
  then show ?thesis by (simp only: used_labels_entries loaded_entries)
qed

lemma opened_labels_keys: "mset (map lr_Key (opened_labels n apps)) = mset (map Some (obj_keys (kn_Labels n)))"
proof -
  have "mset (map lr_Key (opened_labels n apps)) = mset (map lr_Key (computeUsedLabels apps (nv_Labels (nodeToFormValues n))))"
    by (simp only: opened_labels_def mset_map mset_reorderLabels)
  then show ?thesis by (simp only: used_labels_entries loaded_entries)
qed

lemma form_labels_opened:
  assumes "obj_ok (kn_Labels n)"
  shows "obj_get (form_labels (opened_labels n apps)) k = obj_get (kn_Labels n) k"
proof -
  let ?es = "map label_entry (opened_labels n apps)"
  have keep: "filter (\<lambda>l. \<not> lr_NeedsDeletion l) (opened_labels n apps) = opened_labels n apps"
    using opened_labels_kept by (simp add: list_all_iff filter_id_conv)
  have d: "distinct (map fst (obj_entries (kn_Labels n)))" by (rule distinct_obj_entries [OF assms])
  have m: "mset (map fst ?es) = mset (map fst (obj_entries (kn_Labels n)))"
    unfolding mset_map [of fst] by (simp only: opened_labels_entries)
  have de: "distinct (map fst ?es)" using d mset_eq_imp_distinct_iff [OF m] by simp
  have "set ?es = set (obj_entries (kn_Labels n))" by (rule mset_eq_setD [OF opened_labels_entries])
  then have "map_of ?es = map_of (obj_entries (kn_Labels n))"
    using map_of_inject_set [OF de d] by simp
  then show ?thesis
    by (simp only: form_labels_entries keep obj_get_obj_of_distinct [OF de] map_of_obj_entries [OF assms])
qed

lemma form_taints_loaded: "form_taints (nv_Taints (nodeToFormValues n)) = kn_Taints n"
  by (simp add: form_taints_def nodeToFormValues_def filter_map comp_def map_idI)

text \<open>The package that makes patches compares objects by their properties, in any order.\<close>

definition same_payload :: "node_payload \<Rightarrow> node_payload \<Rightarrow> bool" where
  "same_payload a b \<longleftrightarrow> ny_name a = ny_name b \<and> ny_taints a = ny_taints b \<and> ny_unschedulable a = ny_unschedulable b \<and>
     obj_get (ny_labels a) = obj_get (ny_labels b)"

lemma opened_form_same_payload:
  assumes "obj_ok (kn_Labels n)"
  shows "same_payload (node_createPayload n)
    (node_createPayload (formValuesToNode n ((nodeToFormValues n)\<lparr>nv_Labels := opened_labels n apps\<rparr>)))"
  using form_labels_opened [OF assms] form_taints_loaded [of n]
  by (cases "kn_Availability n") (simp_all add: same_payload_def node_createPayload_def formValuesToNode_def
      nodeToFormValues_def fun_eq_iff)

lemma port_fold_labels:
  "kn_Labels (fold (\<lambda>s n. if kn_IPAddress n \<in> set (ks_Ips s) then n\<lparr>kn_Api := True, kn_Port := ks_Port s\<rparr> else n) ss n) = kn_Labels n"
  by (induction ss arbitrary: n) simp_all

lemma api_port_labels: "kn_Labels (api_node_port es n) = kn_Labels n"
  by (cases "find (\<lambda>e. ke_Name e = ''kubernetes'') es") (simp_all only: api_node_port_def option.case port_fold_labels)

lemma open_nodeD:
  assumes "open_node nodes apps endpoints name = Some (n, mine, p)"
  shows "ng_form p = (nodeToFormValues n)\<lparr>nv_Labels := opened_labels n (map na_Pods mine)\<rparr>"
    and "\<not> ng_hasDuplicateTaintKeys p" and "\<not> ng_hasDuplicateLabelKeys p"
    and "\<exists>ns m. nodes = Inr ns \<and> m \<in> set ns \<and> kn_Labels n = kn_Labels m"
proof -
  from assms obtain m where m: "find (\<lambda>m. kn_Name m = Some name) (case nodes of Inl e \<Rightarrow> [] | Inr xs \<Rightarrow> xs) = Some m"
    by (auto simp: open_node_def Let_def)
  then obtain ns where "nodes = Inr ns" "m \<in> set ns" by (cases nodes) (auto simp: find_Some_iff)
  moreover have "n = (case endpoints of Inl e \<Rightarrow> m | Inr es \<Rightarrow> api_node_port es m)"
    using assms by (simp add: open_node_def Let_def m)
  then have "kn_Labels n = kn_Labels m" by (cases endpoints) (simp_all add: api_port_labels)
  ultimately show "\<exists>ns m. nodes = Inr ns \<and> m \<in> set ns \<and> kn_Labels n = kn_Labels m" by blast
  show "ng_form p = (nodeToFormValues n)\<lparr>nv_Labels := opened_labels n (map na_Pods mine)\<rparr>"
    "\<not> ng_hasDuplicateTaintKeys p" "\<not> ng_hasDuplicateLabelKeys p"
    using assms by (auto simp: open_node_def Let_def m opened_labels_def)
qed

text \<open>
  The page of a node that was opened and not edited offers no change: the node that is made of the form has the
  labels, the taints and the availability of the node, although the labels are shown in another order and marked.
\<close>

theorem opened_node_unchanged:
  assumes "\<forall>a b. compare a b = [] \<longleftrightarrow> same_payload a b" and "\<forall>m \<in> set nodes. obj_ok (kn_Labels m)"
    and "open_node (Inr nodes) apps endpoints name = Some (n, mine, p)"
  shows "isNoChangesMade compare n p"
proof -
  have "obj_ok (kn_Labels n)" using open_nodeD(4) [OF assms(3)] assms(2) by auto
  from opened_form_same_payload [OF this] show ?thesis
    by (simp add: isNoChangesMade_def node_patchPayload_def assms(1) open_nodeD(1) [OF assms(3)])
qed

definition example_node :: kube_node where
  "example_node = \<lparr>kn_Id = ''u'', kn_Name = Some ''n1'', kn_Labels = [(''zone'', ''a''), (''kubernetes.io/os'', ''linux''), (drain_label, [])],
     kn_Role = ''Worker'', kn_Conditions = \<lparr>nc_MemoryPressure = False, nc_PIDPressure = False, nc_DiskPressure = False, nc_NetworkUnavailable = False\<rparr>,
     kn_Availability = NodeDrain, kn_Status = ''Ready'', kn_CPU = Some 2, kn_Memory = ''2Gi'', kn_Version = ''v1'', kn_IPAddress = ''10.0.0.1'',
     kn_Taints = [], kn_Api = False, kn_Port = Some 0\<rparr>"

definition compare_payloads :: "node_payload \<Rightarrow> node_payload \<Rightarrow> unit list" where
  "compare_payloads a b = (if same_payload a b then [] else [()])"

theorem opened_node_unchanged_witness:
  "\<exists>n mine p. open_node (Inr [example_node]) (Inl ''e'') (Inl ''e'') ''n1'' = Some (n, mine, p) \<and> isNoChangesMade compare_payloads n p"
proof -
  have "find (\<lambda>m. kn_Name m = Some ''n1'') [example_node] = Some example_node" by (simp add: example_node_def)
  then have "open_node (Inr [example_node]) (Inl ''e'') (Inl ''e'') ''n1'' \<noteq> None" by (simp add: open_node_def)
  then obtain n mine p where o: "open_node (Inr [example_node]) (Inl ''e'') (Inl ''e'') ''n1'' = Some (n, mine, p)" by auto
  have "\<forall>m \<in> set [example_node]. obj_ok (kn_Labels m)" by (simp add: example_node_def obj_ok_def drain_label_def)
  moreover have "\<forall>a b. compare_payloads a b = [] \<longleftrightarrow> same_payload a b" by (simp add: compare_payloads_def)
  ultimately have "isNoChangesMade compare_payloads n p" using o by (intro opened_node_unchanged)
  with o show ?thesis by blast
qed

section \<open>Editing\<close>

inductive node_edit :: "('z) kube_node_scheme \<Rightarrow> node_page \<Rightarrow> node_page \<Rightarrow> bool" for n where
  "node_edit n p (addTaint p)"
| "removeTaint i p = Some q \<Longrightarrow> node_edit n p q"
| "restoreTaint i p = Some q \<Longrightarrow> node_edit n p q"
| "node_edit n p (editTaintKey i k p)"
| "node_edit n p (editTaintValue i v p)"
| "node_edit n p (editTaintEffect i e p)"
| "node_edit n p (addNodeLabel p)"
| "removeNodeLabel i p = Some q \<Longrightarrow> node_edit n p q"
| "restoreNodeLabel i p = Some q \<Longrightarrow> node_edit n p q"
| "node_edit n p (editLabelKey i k p)"
| "node_edit n p (editLabelValue i v p)"
| "node_edit n p (editAvailability a p)"
| "node_edit n p (resetNodeForm n p)"

inductive node_edits :: "('z) kube_node_scheme \<Rightarrow> node_page \<Rightarrow> node_page \<Rightarrow> bool" for n p where
  opened: "node_edits n p p"
| edited: "node_edits n p q \<Longrightarrow> node_edit n q r \<Longrightarrow> node_edits n p r"

text \<open>The keys of the rows that are kept, without the rows that have none.\<close>

definition kept_key :: "node_label_row \<Rightarrow> string list" where
  "kept_key l = filled_key (if lr_NeedsDeletion l then None else lr_Key l)"

definition kept_keys :: "node_label_row list \<Rightarrow> string list" where
  "kept_keys ls = concat (map kept_key ls)"

definition labels_ok :: "node_page \<Rightarrow> bool" where
  "labels_ok p \<longleftrightarrow> ng_hasDuplicateLabelKeys p \<or> distinct (kept_keys (nv_Labels (ng_form p)))"

lemma kept_keys_checked: "getDuplicates (label_names ls) = [] \<Longrightarrow> distinct (kept_keys ls)"
proof -
  have "label_names ls = map (map_option PText) (map (\<lambda>l. if lr_NeedsDeletion l then None else lr_Key l) ls)"
    by (auto simp: label_names_def)
  then show "getDuplicates (label_names ls) = [] \<Longrightarrow> distinct (kept_keys ls)"
    using filled_distinct [of "map (\<lambda>l. if lr_NeedsDeletion l then None else lr_Key l) ls"]
    by (simp add: kept_keys_def kept_key_def [abs_def] comp_def)
qed

lemma kept_keys_update: "kept_key x = kept_key (ls ! i) \<Longrightarrow> kept_keys (ls[i := x]) = kept_keys ls"
  by (metis kept_keys_def list_update_id map_update)

lemma kept_keys_added: "kept_keys (ls @ [new_node_label]) = kept_keys ls"
  by (simp add: kept_keys_def kept_key_def new_node_label_def)

lemma kept_key_changed: "kept_key (l\<lparr>lr_IsChanged := b\<rparr>) = kept_key l" "kept_key (l\<lparr>lr_Value := v\<rparr>) = kept_key l"
  "kept_key (l\<lparr>lr_Value := v, lr_IsChanged := b\<rparr>) = kept_key l"
  by (simp_all add: kept_key_def)

lemmas kept_keys_changed = kept_keys_update kept_keys_added kept_key_changed

lemma labels_checked: "labels_ok (onChangeLabelKey i p)"
proof (cases "getDuplicates (label_names (nv_Labels (ng_form p))) = []")
  case True
  from kept_keys_checked [OF this] show ?thesis
    by (simp add: onChangeLabelKey_def onChangeLabel_def labels_ok_def with_labels_def Let_def kept_keys_changed split: option.splits)
next
  case False
  then show ?thesis
    by (simp add: onChangeLabelKey_def onChangeLabel_def labels_ok_def with_labels_def Let_def split: option.splits)
qed

lemma labels_value: "labels_ok p \<Longrightarrow> labels_ok (editLabelValue i v p)"
  by (simp add: editLabelValue_def onChangeLabel_def labels_ok_def with_labels_def kept_keys_changed)

lemma kept_keys_all: "list_all (\<lambda>l. \<not> lr_NeedsDeletion l) ls \<Longrightarrow> kept_keys ls = concat (map filled_key (map lr_Key ls))"
  by (induction ls) (simp_all add: kept_keys_def kept_key_def)

lemma filled_keys: "concat (map filled_key (map Some ks)) = filter (\<lambda>k. k \<noteq> []) ks"
  by (induction ks) simp_all

lemma loaded_keys_distinct: "obj_ok (kn_Labels n) \<Longrightarrow> distinct (kept_keys (nv_Labels (nodeToFormValues n)))"
  by (simp only: kept_keys_all [OF loaded_entries(3)] loaded_entries(2) filled_keys) simp

lemma opened_keys_distinct:
  assumes "obj_ok (kn_Labels n)"
  shows "distinct (kept_keys (opened_labels n apps))"
proof -
  have "mset (kept_keys (opened_labels n apps)) = mset (concat (map filled_key (map Some (obj_keys (kn_Labels n)))))"
    unfolding kept_keys_all [OF opened_labels_kept] mset_concat mset_map [of _ "map lr_Key _"] mset_map [of _ "map filled_key _"]
    by (metis mset_map opened_labels_keys sum_mset_sum_list)
  from mset_eq_imp_distinct_iff [OF this] show ?thesis using assms by (simp only: filled_keys) simp
qed

lemma labels_ok_edit: "node_edit n p q \<Longrightarrow> obj_ok (kn_Labels n) \<Longrightarrow> labels_ok p \<Longrightarrow> labels_ok q"
proof (induction rule: node_edit.induct)
  case (8 i p q)
  then show ?case by (auto simp: removeNodeLabel_def Let_def labels_checked split: if_splits)
next
  case (9 i p q)
  then show ?case by (auto simp: restoreNodeLabel_def labels_checked split: if_splits)
next
  case (10 p i k)
  then show ?case by (simp add: editLabelKey_def labels_checked)
next
  case (11 p i v)
  then show ?case by (simp add: labels_value)
next
  case (13 p)
  then show ?case by (simp add: resetNodeForm_def labels_ok_def loaded_keys_distinct)
qed (auto simp: labels_ok_def addTaint_def with_taints_def removeTaint_def restoreTaint_def editTaintKey_def editTaintValue_def
    editTaintEffect_def onChangeTaintKey_def onChangeTaint_def addNodeLabel_def with_labels_def kept_keys_changed
    editAvailability_def Let_def split: if_splits)

lemma labels_ok_edits: "node_edits n p q \<Longrightarrow> obj_ok (kn_Labels n) \<Longrightarrow> labels_ok p \<Longrightarrow> labels_ok q"
  by (induction rule: node_edits.induct) (auto intro: labels_ok_edit)

text \<open>A row that is kept and has a key is a label of its own.\<close>

lemma kept_rows_sent:
  assumes "distinct (kept_keys ls)" and "\<forall>l \<in> set ls. lr_NeedsDeletion l \<or> (\<exists>k. lr_Key l = Some k \<and> k \<noteq> [])"
  shows "obj_get (form_labels ls) k = Some v \<longleftrightarrow> (\<exists>l \<in> set ls. \<not> lr_NeedsDeletion l \<and> label_entry l = (k, v))"
proof -
  let ?kept = "filter (\<lambda>l. \<not> lr_NeedsDeletion l) ls"
  have "map fst (map label_entry ?kept) = kept_keys ls"
    using assms(2) by (induction ls) (auto simp: kept_keys_def kept_key_def label_entry_def property_key_def)
  with assms(1) have d: "distinct (map fst (map label_entry ?kept))" by simp
  show ?thesis
    unfolding form_labels_entries obj_get_obj_of_distinct [OF d] map_of_eq_Some_iff [OF d] by (auto simp: image_iff)
qed

text \<open>
  Whatever was done with the rows of a node that was opened: when the form is valid and every row that is kept has a
  key, the node that is sent has exactly the labels of these rows, each with its value; no row overwrites another one.
\<close>

theorem valid_node_labels_sent:
  assumes "open_node (Inr nodes) apps endpoints name = Some (n, mine, p)" and "\<forall>m \<in> set nodes. obj_ok (kn_Labels m)"
    and "node_edits n p q" and "isNodeFormValid compare n q"
    and "\<forall>l \<in> set (nv_Labels (ng_form q)). lr_NeedsDeletion l \<or> (\<exists>k. lr_Key l = Some k \<and> k \<noteq> [])"
  shows "obj_get (kn_Labels (formValuesToNode n (ng_form q))) k = Some v \<longleftrightarrow>
    (\<exists>l \<in> set (nv_Labels (ng_form q)). \<not> lr_NeedsDeletion l \<and> label_entry l = (k, v))"
proof -
  have ok: "obj_ok (kn_Labels n)" using open_nodeD(4) [OF assms(1)] assms(2) by auto
  have "labels_ok p" by (simp add: labels_ok_def open_nodeD(1) [OF assms(1)] opened_keys_distinct [OF ok])
  from labels_ok_edits [OF assms(3) ok this] assms(4) have "distinct (kept_keys (nv_Labels (ng_form q)))"
    by (simp add: labels_ok_def isNodeFormValid_def)
  from kept_rows_sent [OF this assms(5)] show ?thesis by (simp add: formValuesToNode_def)
qed

definition plain_node :: kube_node where
  "plain_node = example_node\<lparr>kn_Availability := NodeActive, kn_Labels := [(''zone'', ''a'')]\<rparr>"

definition plain_page :: node_page where
  "plain_page = \<lparr>ng_form = nodeToFormValues plain_node, ng_duplicateTaintKeys = [], ng_hasDuplicateTaintKeys = False,
     ng_duplicateLabelKeys = [], ng_hasDuplicateLabelKeys = False, ng_isDrainOperation = False, ng_isContainPortainer = False\<rparr>"

definition edited_page :: node_page where
  "edited_page = editLabelValue 1 (Some ''r1'') (editLabelKey 1 (Some ''rack'') (addNodeLabel plain_page))"

lemma plain_opened: "open_node (Inr [plain_node]) (Inr []) (Inr []) ''n1'' = Some (plain_node, [], plain_page)"
  by code_simp

lemma edited_rows: "map label_entry (nv_Labels (ng_form edited_page)) = [(''zone'', ''a''), (''rack'', ''r1'')]"
  "list_all (\<lambda>l. \<not> lr_NeedsDeletion l \<and> lr_Key l \<noteq> None \<and> lr_Key l \<noteq> Some []) (nv_Labels (ng_form edited_page))"
  "isNodeFormValid (\<lambda>a b. if a = b then [] else [()]) plain_node edited_page"
  by code_simp+

lemma edited_reached: "node_edits plain_node plain_page edited_page"
  unfolding edited_page_def by (rule edited [OF edited [OF edited [OF opened node_edit.intros(7)] node_edit.intros(10)] node_edit.intros(11)])

theorem valid_node_labels_sent_witness:
  "obj_get (kn_Labels (formValuesToNode plain_node (ng_form edited_page))) ''rack'' = Some ''r1''"
proof -
  have r: "\<forall>l \<in> set (nv_Labels (ng_form edited_page)). lr_NeedsDeletion l \<or> (\<exists>k. lr_Key l = Some k \<and> k \<noteq> [])"
    using edited_rows(2) by (auto simp: list_all_iff)
  have "\<forall>m \<in> set [plain_node]. obj_ok (kn_Labels m)" by (simp add: plain_node_def obj_ok_def)
  from valid_node_labels_sent [OF plain_opened this edited_reached edited_rows(3) r, of "''rack''" "''r1''"]
  have "obj_get (kn_Labels (formValuesToNode plain_node (ng_form edited_page))) ''rack'' = Some ''r1'' \<longleftrightarrow>
      (\<exists>l \<in> set (nv_Labels (ng_form edited_page)). \<not> lr_NeedsDeletion l \<and> label_entry l = (''rack'', ''r1''))" .
  moreover have "(''rack'', ''r1'') \<in> set (map label_entry (nv_Labels (ng_form edited_page)))" by (simp only: edited_rows) simp
  ultimately show ?thesis using edited_rows(2) by (auto simp: list_all_iff)
qed

section \<open>Draining\<close>

definition evictions :: "'p node_call list \<Rightarrow> node_pod list" where
  "evictions calls = concat (map (\<lambda>c. case c of Evict q \<Rightarrow> [q] | _ \<Rightarrow> []) calls)"

definition patches :: "'p node_call list \<Rightarrow> 'p node_call list" where
  "patches calls = filter (\<lambda>c. case c of PatchNode _ _ \<Rightarrow> True | _ \<Rightarrow> False) calls"

lemma calls_append [simp]:
  "evictions (a @ b) = evictions a @ evictions b" "patches (a @ b) = patches a @ patches b"
  "evictions [Evict q] = [q]" "patches [Evict q] = []"
  "evictions [PatchNode nm x] = []" "patches [PatchNode nm x] = [PatchNode nm x]"
  "evictions [] = []" "patches [] = []"
  by (simp_all add: evictions_def patches_def)

definition pause_patch ::
    "(node_payload \<Rightarrow> node_payload \<Rightarrow> 'p list) \<Rightarrow> ('z) kube_node_scheme \<Rightarrow> node_form \<Rightarrow> 'p node_call" where
  "pause_patch compare node f =
     PatchNode (kn_Name node) (node_patchPayload compare node (formValuesToNode node (f\<lparr>nv_Availability := NodePause\<rparr>)))"

text \<open>The server accepts a request with an answer that the client can read, and refuses to evict the pods of a set.\<close>

definition takes_patch :: "'p node_server \<Rightarrow> 'p node_call list \<Rightarrow> 'p node_call \<Rightarrow> bool" where
  "takes_patch srv calls c \<longleftrightarrow> (case srv calls c of Inl e \<Rightarrow> False | Inr d \<Rightarrow> map_of (an_conditions d) ''Ready'' \<noteq> None)"

definition refuses_pods :: "node_pod set \<Rightarrow> 'p node_server \<Rightarrow> bool" where
  "refuses_pods bad srv \<longleftrightarrow> (\<forall>h q. isl (srv h (Evict q)) \<longleftrightarrow> q \<in> bad)"

text \<open>The pods up to the one that is refused after as many other refusals.\<close>

fun until_refused :: "nat \<Rightarrow> node_pod set \<Rightarrow> node_pod list \<Rightarrow> node_pod list" where
  "until_refused k bad [] = []"
| "until_refused k bad (q # qs) =
     q # (if q \<notin> bad then until_refused k bad qs else if k = 0 then [] else until_refused (k - 1) bad qs)"

lemma pause_result:
  "pause_node compare srv node f calls =
     (takes_patch srv calls (pause_patch compare node f), f\<lparr>nv_Availability := NodePause\<rparr>, calls @ [pause_patch compare node f])"
  by (simp add: pause_node_def patch_node_def pause_patch_def takes_patch_def apiToNodeDetails_def apiToNode_def Let_def
      split: sum.split option.split)

lemma pause_again: "pause_patch compare node (f\<lparr>nv_Availability := NodePause\<rparr>) = pause_patch compare node f"
  by (simp add: pause_patch_def)

definition drained ::
    "bool \<Rightarrow> node_pod set \<Rightarrow> 'p node_call \<Rightarrow> node_pod list \<Rightarrow> node_form \<Rightarrow> 'p node_call list \<Rightarrow> bool \<times> node_form \<times> 'p node_call list \<Rightarrow> bool" where
  "drained again bad p pods f calls r \<longleftrightarrow>
     (\<exists>new. r = (again \<or> p \<notin> set (tl calls) \<and> (\<forall>q \<in> set pods. q \<notin> bad), f\<lparr>nv_Availability := NodePause\<rparr>, calls @ new) \<and>
        new \<noteq> [] \<and> last new = p \<and>
        evictions new = (if again then pods else until_refused (if p \<in> set (tl calls) then 0 else 1) bad pods) \<and>
        (again \<longrightarrow> patches new = replicate (Suc (length (filter (\<lambda>q. q \<in> bad) pods))) p))"

lemma drain_run:
  assumes "\<And>h. takes_patch srv h p \<longleftrightarrow> again \<or> p \<notin> set (tl h)" and "refuses_pods bad srv" and "pods \<noteq> []" and "calls \<noteq> []"
    and "p = pause_patch compare node f"
  shows "drained again bad p pods f calls (drain_pods compare srv node pods f calls)"
  using assms(3-5)
proof (induction pods arbitrary: f calls)
  case (Cons pod pods)
  let ?f = "f\<lparr>nv_Availability := NodePause\<rparr>"
  have bad: "isl (srv h (Evict pod)) \<longleftrightarrow> pod \<in> bad" for h using assms(2) by (simp add: refuses_pods_def)
  have p: "pause_patch compare node f = p" "pause_patch compare node ?f = p" using Cons.prems(3) by (simp_all add: pause_again)
  have pt: "patches [p] = [p]" "evictions [p] = []" "Evict q \<noteq> p" for q using Cons.prems(3) by (auto simp: pause_patch_def)
  have tl: "tl (calls @ xs) = tl calls @ xs" for xs using Cons.prems(2) by simp
  note run = bad p pause_result pt(3) pt(3) [symmetric] assms(1) tl
  have parts: "evictions (Evict q # xs) = q # evictions xs" "patches (Evict q # xs) = patches xs"
    "evictions (p # xs) = evictions xs" "patches (p # xs) = p # patches xs" for q xs
    using calls_append(1) [of "[p]" xs] calls_append(2) [of "[p]" xs] pt by (simp_all add: evictions_def patches_def)
  show ?case
  proof (cases "pod \<in> bad")
    case False
    show ?thesis
    proof (cases "pods = []")
      case True
      have "drain_pods compare srv node (pod # pods) f calls =
          (again \<or> p \<notin> set (tl calls), ?f, calls @ [Evict pod, p])"
        using False by (simp add: True Let_def run)
      then show ?thesis using False True parts unfolding drained_def by (intro exI [of _ "[Evict pod, p]"]) (simp add: parts)
    next
      case nonempty: False
      have "drain_pods compare srv node (pod # pods) f calls = drain_pods compare srv node pods f (calls @ [Evict pod])"
        using False nonempty by (simp add: Let_def run)
      moreover have "drained again bad p pods f (calls @ [Evict pod]) (drain_pods compare srv node pods f (calls @ [Evict pod]))"
        using nonempty Cons.prems by (intro Cons.IH) simp_all
      ultimately have D: "drained again bad p pods f (calls @ [Evict pod]) (drain_pods compare srv node (pod # pods) f calls)"
        by (simp only:)
      have same: "p \<in> set (tl (calls @ [Evict pod])) \<longleftrightarrow> p \<in> set (tl calls)" using pt(3) [of pod] by (auto simp: tl)
      from D [unfolded drained_def same] obtain new where new: "drain_pods compare srv node (pod # pods) f calls =
          (again \<or> p \<notin> set (tl calls) \<and> (\<forall>q \<in> set pods. q \<notin> bad), ?f, (calls @ [Evict pod]) @ new)"
        "new \<noteq> []" "last new = p" "evictions new = (if again then pods else until_refused (if p \<in> set (tl calls) then 0 else 1) bad pods)"
        "again \<longrightarrow> patches new = replicate (Suc (length (filter (\<lambda>q. q \<in> bad) pods))) p"
        by (elim exE conjE) (rule that)
      then show ?thesis using False unfolding drained_def by (intro exI [of _ "Evict pod # new"]) (simp add: parts)
    qed
  next
    case True
    show ?thesis
    proof (cases "pods = []")
      case empty: True
      have "drain_pods compare srv node (pod # pods) f calls = (again, ?f, calls @ [Evict pod, p, p])"
        using True by (simp add: empty Let_def run)
      then show ?thesis using True empty unfolding drained_def
        by (intro exI [of _ "[Evict pod, p, p]"]) (simp add: parts)
    next
      case nonempty: False
      show ?thesis
      proof (cases "again \<or> p \<notin> set (tl calls)")
        case goes_on: True
        have "drain_pods compare srv node (pod # pods) f calls = drain_pods compare srv node pods ?f (calls @ [Evict pod, p])"
          using True nonempty goes_on by (auto simp: Let_def run)
        moreover have "drained again bad p pods ?f (calls @ [Evict pod, p]) (drain_pods compare srv node pods ?f (calls @ [Evict pod, p]))"
          using nonempty Cons.prems p by (intro Cons.IH) simp_all
        ultimately have D: "drained again bad p pods ?f (calls @ [Evict pod, p]) (drain_pods compare srv node (pod # pods) f calls)"
          by (simp only:)
        have sent: "(p \<in> set (tl (calls @ [Evict pod, p]))) = True" by (simp add: tl)
        have paused: "?f\<lparr>nv_Availability := NodePause\<rparr> = ?f" by simp
        from D [unfolded drained_def sent paused not_True_eq_False if_True simp_thms] obtain new where new: "drain_pods compare srv node (pod # pods) f calls = (again, ?f, (calls @ [Evict pod, p]) @ new)"
          "new \<noteq> []" "last new = p" "evictions new = (if again then pods else until_refused 0 bad pods)"
          "again \<longrightarrow> patches new = replicate (Suc (length (filter (\<lambda>q. q \<in> bad) pods))) p"
          by (elim exE conjE) (rule that)
        then show ?thesis using True goes_on unfolding drained_def
          by (intro exI [of _ "Evict pod # p # new"]) (auto simp: parts)
      next
        case False
        then have "drain_pods compare srv node (pod # pods) f calls = (False, ?f, calls @ [Evict pod, p])"
          using True nonempty by (simp add: Let_def run)
        then show ?thesis using True False unfolding drained_def
          by (intro exI [of _ "[Evict pod, p]"]) (simp add: parts)
      qed
    qed
  qed
qed simp

text \<open>
  C30. Draining a node, when the patch of the form is accepted and the pausing patch is, at least when it is sent for the
  first time. It is sent once for every eviction that is refused and once after the last pod, always made against the node
  that was draining. When the server accepts it every time, every pod is asked to leave, each once and in order, whichever
  refuse. When it refuses the repetition - as the API does, for the label that the patch removes is gone - the pods are asked
  up to the second refusal only, and the update fails unless no pod refuses. The last request is the pausing patch. A node
  without pods is not paused: it stays in the state of draining.
\<close>

theorem drain_evicts_every_pod:
  assumes "first = PatchNode (kn_Name node) (node_patchPayload compare node (formValuesToNode node f))"
    and "srv [] first = Inr d" and "apiToNodeDetails d None = Some n" and "p = pause_patch compare n f"
    and "\<And>h. takes_patch srv h p \<longleftrightarrow> again \<or> p \<notin> set (tl h)" and "refuses_pods bad srv" and "nv_Availability f = NodeDrain"
  shows "\<exists>ok new f'. updateNodeAsync compare srv pods node f = (ok, f', first # new) \<and>
    evictions new = (if again then pods else until_refused 1 bad pods) \<and>
    (if pods = [] then ok \<and> new = [] \<and> nv_Availability f' = NodeDrain
     else (ok \<longleftrightarrow> again \<or> (\<forall>q \<in> set pods. q \<notin> bad)) \<and> nv_Availability f' = NodePause \<and> last new = p \<and>
       (again \<longrightarrow> patches new = replicate (Suc (length (filter (\<lambda>q. q \<in> bad) pods))) p))"
proof -
  have run: "updateNodeAsync compare srv pods node f = drain_pods compare srv n pods f [first]"
    using assms(1-3,7) by (simp add: updateNodeAsync_def patch_node_def Let_def)
  show ?thesis
  proof (cases "pods = []")
    case True
    then have "updateNodeAsync compare srv pods node f = (True, f, [first])" unfolding run by simp
    then show ?thesis using True assms(7) by (intro exI [of _ True] exI [of _ "[]"] exI [of _ f]) simp
  next
    case False
    from drain_run [OF assms(5,6) False _ assms(4), of "[first]"]
    have "drained again bad p pods f [first] (drain_pods compare srv n pods f [first])" by simp
    then obtain new where "updateNodeAsync compare srv pods node f =
        (again \<or> (\<forall>q \<in> set pods. q \<notin> bad), f\<lparr>nv_Availability := NodePause\<rparr>, first # new)"
      "last new = p" "evictions new = (if again then pods else until_refused 1 bad pods)"
      "again \<longrightarrow> patches new = replicate (Suc (length (filter (\<lambda>q. q \<in> bad) pods))) p"
      by (auto simp: drained_def run)
    with False show ?thesis
      by (intro exI [of _ "again \<or> (\<forall>q \<in> set pods. q \<notin> bad)"] exI [of _ new] exI [of _ "f\<lparr>nv_Availability := NodePause\<rparr>"]) simp
  qed
qed

definition example_pod :: "string \<Rightarrow> node_pod" where
  "example_pod name = \<lparr>np_Name = name, np_Namespace = ''default'', np_Node = ''n1'', np_NodeSelector = None, np_Containers = []\<rparr>"

definition ready_node :: api_node where
  "ready_node = \<lparr>an_uid = ''u'', an_labels = [(drain_label, [])], an_addresses = [], an_conditions = [(''Ready'', ''True'')], an_unschedulable = True,
     an_taints = None, an_cpu = ''2'', an_memory = ''2Gi'', an_kubeletVersion = ''v1'', an_creationTimestamp = [],
     an_architecture = [], an_operatingSystem = [], an_osImage = []\<rparr>"

text \<open>Two pods refuse; a patch that removes the label of draining is refused when the label is gone.\<close>

definition stubborn_server :: "bool node_server" where
  "stubborn_server h c = (case c of PatchNode nm x \<Rightarrow> if x = [True] \<and> c \<in> set (tl h) then Inl ''no such label'' else Inr ready_node
     | Evict q \<Rightarrow> if q \<in> {example_pod ''a'', example_pod ''b''} then Inl ''disruption budget'' else Inr ready_node)"

definition removes_drain :: "node_payload \<Rightarrow> node_payload \<Rightarrow> bool list" where
  "removes_drain old new = [obj_has (ny_labels old) drain_label \<and> \<not> obj_has (ny_labels new) drain_label]"

definition draining_form :: node_form where
  "draining_form = \<lparr>nv_Availability = NodeDrain, nv_Taints = [], nv_Labels = []\<rparr>"

definition opened_node :: node_details where
  "opened_node = kube_node.extend plain_node \<lparr>nd_CreationDate = [], nd_Architecture = [], nd_Platform = [], nd_Image = [], nd_Yaml = []\<rparr>"

text \<open>The third pod is not asked to leave, and the update fails.\<close>

theorem drain_evicts_every_pod_witness:
  "\<exists>c new f'. updateNodeAsync removes_drain stubborn_server [example_pod ''a'', example_pod ''b'', example_pod ''c'']
      opened_node draining_form = (False, f', c # new) \<and>
    evictions new = [example_pod ''a'', example_pod ''b''] \<and> nv_Availability f' = NodePause"
proof -
  let ?bad = "{example_pod ''a'', example_pod ''b''}" and ?pods = "[example_pod ''a'', example_pod ''b'', example_pod ''c'']"
  let ?first = "PatchNode (kn_Name opened_node) (node_patchPayload removes_drain opened_node (formValuesToNode opened_node draining_form))"
  have s: "stubborn_server [] ?first = Inr ready_node" by (simp add: stubborn_server_def)
  obtain n where n: "apiToNodeDetails ready_node None = Some n" "kn_Availability n = NodeDrain" "kn_Labels n = [(drain_label, [])]"
    by (auto simp: ready_node_def apiToNodeDetails_def apiToNode_def Let_def read_availability_def obj_has_def kube_node.defs)
  have "pause_patch removes_drain n draining_form = PatchNode (kn_Name n) [True]"
    by (simp add: pause_patch_def node_patchPayload_def removes_drain_def node_createPayload_def n formValuesToNode_def draining_form_def
        form_labels_def obj_has_def)
  then have a: "takes_patch stubborn_server h (pause_patch removes_drain n draining_form) \<longleftrightarrow>
      False \<or> pause_patch removes_drain n draining_form \<notin> set (tl h)" for h
    by (simp add: takes_patch_def stubborn_server_def ready_node_def)
  have r: "refuses_pods ?bad stubborn_server" by (simp add: refuses_pods_def stubborn_server_def)
  have d: "nv_Availability draining_form = NodeDrain" by (simp add: draining_form_def)
  have u: "until_refused 1 ?bad ?pods = [example_pod ''a'', example_pod ''b'']" by simp
  from drain_evicts_every_pod [OF refl s n(1) refl a r d, of ?pods] show ?thesis unfolding u by auto
qed

section \<open>What the availability is read as\<close>

text \<open>The labels and the mark that are sent for an availability are read as that availability.\<close>

lemma availability_read_back:
  "read_availability (d\<lparr>an_labels := ny_labels (node_createPayload m), an_unschedulable := ny_unschedulable (node_createPayload m)\<rparr>) =
     kn_Availability m"
  by (cases "kn_Availability m") (simp_all add: read_availability_def node_createPayload_def obj_has_def)

end
