(* ===== verification/KubeResourcePool.thy ===== *)
theory KubeResourcePool
  imports KubeNode KubeStages "HOL-Library.AList"
begin

text \<open>
  Namespaces with their quotas, ingresses and registries: \<open>kubernetes/converters/resourceQuota.js\<close>, \<open>namespace.js\<close> and
  \<open>resourcePool.js\<close>, the requests of \<open>services/resourcePoolService.js\<close> with the services it calls, and the pages that
  create and edit a namespace. Numbers are rationals, \<open>None\<close> is \<open>NaN\<close>. The package that reads sizes and the one that
  compares payloads are parameters; a size that is a number is read as itself.
\<close>

section \<open>Quotas\<close>

definition truthy_rat :: "rat option \<Rightarrow> bool" where
  "truthy_rat v \<longleftrightarrow> v \<noteq> None \<and> v \<noteq> Some 0"

definition less_num :: "rat option \<Rightarrow> rat option \<Rightarrow> bool" where
  "less_num a b \<longleftrightarrow> (case (a, b) of (Some x, Some y) \<Rightarrow> x < y | _ \<Rightarrow> False)"

record api_quota =
  xq_uid :: string
  xq_namespace :: string
  xq_name :: string
  xq_hard :: "string obj option"
  xq_used :: "string obj option"
  xq_labels :: "string obj option"

record kube_quota =
  qt_Id :: string
  qt_Namespace :: string
  qt_Name :: string
  qt_CpuLimit :: "rat option"
  qt_MemoryLimit :: "rat option"
  qt_CpuLimitUsed :: "rat option"
  qt_MemoryLimitUsed :: "rat option"
  qt_Yaml :: string
  qt_ResourcePoolName :: "string option"
  qt_ResourcePoolOwner :: "string option"

definition pool_name_label :: string where
  "pool_name_label = ''io.portainer.kubernetes.resourcepool.name''"

definition pool_owner_label :: string where
  "pool_owner_label = ''io.portainer.kubernetes.resourcepool.owner''"

definition generateResourceQuotaName :: "string \<Rightarrow> string" where
  "generateResourceQuotaName name = ''portainer-rq-'' @ name"

definition new_quota :: "string \<Rightarrow> kube_quota" where
  "new_quota namespace = \<lparr>qt_Id = [], qt_Namespace = namespace,
     qt_Name = (if namespace = [] then [] else generateResourceQuotaName namespace),
     qt_CpuLimit = Some 0, qt_MemoryLimit = Some 0, qt_CpuLimitUsed = Some 0, qt_MemoryLimitUsed = Some 0, qt_Yaml = [],
     qt_ResourcePoolName = Some [], qt_ResourcePoolOwner = Some []\<rparr>"

definition read_limit :: "(string \<Rightarrow> rat option) \<Rightarrow> string obj option \<Rightarrow> string \<Rightarrow> rat option" where
  "read_limit rd ob k = (case ob of
       None \<Rightarrow> Some 0
     | Some kvs \<Rightarrow> if truthy_str (obj_get kvs k) then rd (the (obj_get kvs k)) else Some 0)"

definition read_label :: "string obj option \<Rightarrow> string \<Rightarrow> string option" where
  "read_label labels k = (case labels of None \<Rightarrow> Some [] | Some ls \<Rightarrow> obj_get ls k)"

definition apiToResourceQuota :: "(string \<Rightarrow> rat option) \<Rightarrow> api_quota \<Rightarrow> string option \<Rightarrow> kube_quota" where
  "apiToResourceQuota fsize data yaml =
     \<lparr>qt_Id = xq_uid data, qt_Namespace = xq_namespace data, qt_Name = xq_name data,
      qt_CpuLimit = read_limit parseCPU (xq_hard data) ''limits.cpu'',
      qt_MemoryLimit = read_limit fsize (xq_hard data) ''limits.memory'',
      qt_CpuLimitUsed = read_limit parseCPU (xq_used data) ''limits.cpu'',
      qt_MemoryLimitUsed = read_limit fsize (xq_used data) ''limits.memory'',
      qt_Yaml = (case yaml of None \<Rightarrow> [] | Some y \<Rightarrow> y),
      qt_ResourcePoolName = read_label (xq_labels data) pool_name_label,
      qt_ResourcePoolOwner = read_label (xq_labels data) pool_owner_label\<rparr>"

record quota_payload =
  qy_name :: string
  qy_namespace :: string
  qy_hard :: "(string \<times> rat) list"
  qy_labels :: "string obj"

text \<open>A limit of zero, or one that is not a number, is left out.\<close>

definition hard_limits :: "kube_quota \<Rightarrow> (string \<times> rat) list" where
  "hard_limits q =
     (let cpu = (\<lambda>k. if truthy_rat (qt_CpuLimit q) then [(k, the (qt_CpuLimit q))] else []);
          memory = (\<lambda>k. if truthy_rat (qt_MemoryLimit q) then [(k, the (qt_MemoryLimit q))] else [])
      in cpu ''requests.cpu'' @ memory ''requests.memory'' @ cpu ''limits.cpu'' @ memory ''limits.memory'')"

definition createQuotaPayload :: "kube_quota \<Rightarrow> quota_payload" where
  "createQuotaPayload q =
     \<lparr>qy_name = generateResourceQuotaName (qt_Namespace q), qy_namespace = qt_Namespace q, qy_hard = hard_limits q,
      qy_labels = (case qt_ResourcePoolName q of None \<Rightarrow> [] | Some n \<Rightarrow> [(pool_name_label, n)]) @
        (if truthy_str (qt_ResourcePoolOwner q) then [(pool_owner_label, the (qt_ResourcePoolOwner q))] else [])\<rparr>"

section \<open>Namespaces\<close>

record kube_namespace =
  nm_Name :: string
  nm_ResourcePoolName :: "string option"
  nm_ResourcePoolOwner :: "string option"
  nm_Status :: string
  nm_Yaml :: string

record api_namespace =
  xn_name :: string
  xn_phase :: string
  xn_labels :: "string obj option"

definition apiToNamespace :: "api_namespace \<Rightarrow> string option \<Rightarrow> kube_namespace" where
  "apiToNamespace data yaml =
     \<lparr>nm_Name = xn_name data, nm_ResourcePoolName = read_label (xn_labels data) pool_name_label,
      nm_ResourcePoolOwner = read_label (xn_labels data) pool_owner_label, nm_Status = xn_phase data,
      nm_Yaml = (case yaml of None \<Rightarrow> [] | Some y \<Rightarrow> y)\<rparr>"

record namespace_payload =
  ny_ns_name :: string
  ny_ns_labels :: "string obj"

definition createNamespacePayload :: "kube_namespace \<Rightarrow> namespace_payload" where
  "createNamespacePayload n =
     \<lparr>ny_ns_name = nm_Name n,
      ny_ns_labels = (case nm_ResourcePoolName n of None \<Rightarrow> [] | Some t \<Rightarrow> [(pool_name_label, t)]) @
        (if truthy_str (nm_ResourcePoolOwner n) then [(pool_owner_label, take 63 (the (nm_ResourcePoolOwner n)))] else [])\<rparr>"

text \<open>The namespaces whose state was answered and that are not being deleted.\<close>

definition visible_namespaces :: "(string + api_namespace) list \<Rightarrow> kube_namespace list" where
  "visible_namespaces answers = List.map_filter (\<lambda>a. case a of
       Inl e \<Rightarrow> None
     | Inr n \<Rightarrow> if xn_phase n \<noteq> ''Terminating'' then Some (apiToNamespace n None) else None) answers"

record resource_pool =
  rp_Namespace :: kube_namespace
  rp_Quota :: "kube_quota option"
  rp_Yaml :: string

definition pool_of :: "kube_namespace \<Rightarrow> string + kube_quota \<Rightarrow> resource_pool" where
  "pool_of n quotaAttempt = (case quotaAttempt of
       Inl e \<Rightarrow> \<lparr>rp_Namespace = n, rp_Quota = None, rp_Yaml = nm_Yaml n\<rparr>
     | Inr q \<Rightarrow> \<lparr>rp_Namespace = n, rp_Quota = Some q, rp_Yaml = nm_Yaml n @ ''---'' @ [CHR 0x0A] @ qt_Yaml q\<rparr>)"

section \<open>The form\<close>

text \<open>The accesses of a registry, for each endpoint; only the namespaces are changed here.\<close>

record registry_access =
  rx_UserAccessPolicies :: "string obj"
  rx_TeamAccessPolicies :: "string obj"
  rx_Namespaces :: "string list"

record pool_registry =
  rg_Id :: nat
  rg_RegistryAccesses :: "(nat \<times> registry_access) list"

record pool_form =
  pl_Name :: string
  pl_Owner :: "string option"
  pl_MemoryLimit :: "rat option"
  pl_CpuLimit :: "rat option"
  pl_HasQuota :: bool
  pl_IngressClasses :: "class_form list"
  pl_Registries :: "pool_registry list"
  pl_EndpointId :: nat

definition new_pool_form :: pool_form where
  "new_pool_form = \<lparr>pl_Name = [], pl_Owner = None, pl_MemoryLimit = Some 0, pl_CpuLimit = Some 0, pl_HasQuota = False,
     pl_IngressClasses = [], pl_Registries = [], pl_EndpointId = 0\<rparr>"

definition quotaToResourcePoolFormValues :: "kube_quota \<Rightarrow> pool_form" where
  "quotaToResourcePoolFormValues q =
     (let cpu = qt_CpuLimit q; memory = map_option rat_of_int (megaBytesValue (qt_MemoryLimit q))
      in new_pool_form\<lparr>pl_Name := qt_Namespace q, pl_CpuLimit := cpu, pl_MemoryLimit := memory,
           pl_HasQuota := (truthy_rat cpu \<or> truthy_rat memory)\<rparr>)"

definition resourcePoolFormValuesToResourceQuota :: "pool_form \<Rightarrow> kube_quota option" where
  "resourcePoolFormValuesToResourceQuota f =
     (if pl_HasQuota f
      then Some ((new_quota (pl_Name f))\<lparr>qt_CpuLimit := pl_CpuLimit f, qt_MemoryLimit := bytesValue_rat (pl_MemoryLimit f),
             qt_ResourcePoolName := Some (pl_Name f), qt_ResourcePoolOwner := pl_Owner f\<rparr>)
      else None)"

definition no_access :: registry_access where
  "no_access = \<lparr>rx_UserAccessPolicies = [], rx_TeamAccessPolicies = [], rx_Namespaces = []\<rparr>"

definition access_of :: "nat \<Rightarrow> pool_registry \<Rightarrow> registry_access" where
  "access_of endpoint r = (case map_of (rg_RegistryAccesses r) endpoint of None \<Rightarrow> no_access | Some a \<Rightarrow> a)"

definition set_access :: "nat \<Rightarrow> registry_access \<Rightarrow> pool_registry \<Rightarrow> pool_registry" where
  "set_access endpoint a r = r\<lparr>rg_RegistryAccesses := AList.update endpoint a (rg_RegistryAccesses r)\<rparr>"

definition give_access :: "nat \<Rightarrow> string \<Rightarrow> pool_registry \<Rightarrow> pool_registry" where
  "give_access endpoint name r =
     (let a = access_of endpoint r
      in set_access endpoint (if name \<in> set (rx_Namespaces a) then a else a\<lparr>rx_Namespaces := rx_Namespaces a @ [name]\<rparr>) r)"

definition take_access :: "nat \<Rightarrow> string \<Rightarrow> pool_registry \<Rightarrow> pool_registry" where
  "take_access endpoint name r =
     (let a = access_of endpoint r in set_access endpoint (a\<lparr>rx_Namespaces := filter (\<lambda>n. n \<noteq> name) (rx_Namespaces a)\<rparr>) r)"

text \<open>What a form stands for: the namespace, its quota, its ingresses and its registries.\<close>

definition form_namespace :: "pool_form \<Rightarrow> kube_namespace" where
  "form_namespace f = \<lparr>nm_Name = pl_Name f, nm_ResourcePoolName = Some (pl_Name f), nm_ResourcePoolOwner = pl_Owner f,
     nm_Status = [], nm_Yaml = []\<rparr>"

definition form_ingresses :: "pool_form \<Rightarrow> ingress list" where
  "form_ingresses f = map (\<lambda>c. resourcePoolIngressClassFormValueToIngress (c\<lparr>fc_Namespace := pl_Name f\<rparr>))
     (filter fc_Selected (pl_IngressClasses f))"

definition form_registries :: "pool_form \<Rightarrow> pool_registry list" where
  "form_registries f = map (give_access (pl_EndpointId f) (pl_Name f)) (pl_Registries f)"

section \<open>Requests\<close>

datatype pool_request =
    CreateNamespace namespace_payload
  | DeleteNamespace string
  | CreateQuota quota_payload
  | UpdateQuota kube_quota kube_quota
  | DeleteQuota string string
  | CreatePoolIngress ingress_payload
  | UpdatePoolIngress ingress ingress
  | DeletePoolIngress string string
  | SetRegistryAccess nat nat registry_access

text \<open>Whether the patch from one payload to another has operations.\<close>

record pool_patches =
  pp_quota :: "quota_payload \<Rightarrow> quota_payload \<Rightarrow> bool"
  pp_ingress :: "ingress_payload \<Rightarrow> ingress_payload \<Rightarrow> bool"

definition create_ingress_call :: "ingress \<Rightarrow> pool_request call" where
  "create_ingress_call i = (case createIngressPayload i of Inl e \<Rightarrow> Failed | Inr y \<Rightarrow> Send (CreatePoolIngress y))"

definition access_call :: "nat \<Rightarrow> pool_registry \<Rightarrow> pool_request call" where
  "access_call endpoint r = Send (SetRegistryAccess endpoint (rg_Id r) (access_of endpoint r))"

definition create_pool_stages :: "pool_form \<Rightarrow> pool_request call list list" where
  "create_pool_stages f =
     [[Send (CreateNamespace (createNamespacePayload (form_namespace f)))]] @
     (case resourcePoolFormValuesToResourceQuota f of None \<Rightarrow> [] | Some q \<Rightarrow> [[Send (CreateQuota (createQuotaPayload q))]]) @
     [map create_ingress_call (form_ingresses f), map (access_call (pl_EndpointId f)) (form_registries f)]"

definition create_pool :: "pool_request server \<Rightarrow> pool_form \<Rightarrow> pool_request list \<times> bool" where
  "create_pool server f = run_stages server (create_pool_stages f) []"

definition quota_calls :: "pool_patches \<Rightarrow> kube_quota option \<Rightarrow> kube_quota option \<Rightarrow> pool_request call list" where
  "quota_calls t old new = (case (old, new) of
       (Some a, Some b) \<Rightarrow> [if pp_quota t (createQuotaPayload a) (createQuotaPayload b) then Send (UpdateQuota a b) else Unchanged]
     | (None, Some b) \<Rightarrow> [Send (CreateQuota (createQuotaPayload b))]
     | (Some a, None) \<Rightarrow> [Send (DeleteQuota (qt_Namespace a) (qt_Name a))]
     | (None, None) \<Rightarrow> [])"

text \<open>An ingress that is kept gets the paths of the old form.\<close>

definition patch_ingress_call :: "pool_patches \<Rightarrow> ingress list \<Rightarrow> ingress \<Rightarrow> pool_request call" where
  "patch_ingress_call t olds i = (case find (\<lambda>j. ig_Name j = ig_Name i) olds of
       None \<Rightarrow> Failed
     | Some old \<Rightarrow>
         (let new = i\<lparr>ig_Paths := ig_Paths old\<rparr>
          in case (createIngressPayload old, createIngressPayload new) of
               (Inr a, Inr b) \<Rightarrow> if pp_ingress t a b then Send (UpdatePoolIngress old new) else Unchanged
             | _ \<Rightarrow> Failed))"

definition named_in :: "ingress list \<Rightarrow> ingress \<Rightarrow> bool" where
  "named_in is i \<longleftrightarrow> ig_Name i \<in> set (map ig_Name is)"

definition patch_pool_stages :: "pool_patches \<Rightarrow> pool_form \<Rightarrow> pool_form \<Rightarrow> pool_request call list list" where
  "patch_pool_stages t old new =
     (let oldIngresses = form_ingresses old; newIngresses = form_ingresses new; endpoint = pl_EndpointId new;
          oldRegistries = form_registries old; newRegistries = form_registries new;
          removed = filter (\<lambda>r. rg_Id r \<notin> set (map rg_Id newRegistries)) oldRegistries
      in [quota_calls t (resourcePoolFormValuesToResourceQuota old) (resourcePoolFormValuesToResourceQuota new),
          map create_ingress_call (filter (\<lambda>i. \<not> named_in oldIngresses i) newIngresses) @
          map (\<lambda>i. Send (DeletePoolIngress (ig_Namespace i) (ig_Name i))) (filter (\<lambda>i. \<not> named_in newIngresses i) oldIngresses) @
          map (patch_ingress_call t oldIngresses) (filter (named_in oldIngresses) newIngresses),
          map (access_call endpoint) newRegistries @ map (access_call endpoint \<circ> take_access endpoint (pl_Name new)) removed])"

definition patch_pool :: "pool_patches \<Rightarrow> pool_request server \<Rightarrow> pool_form \<Rightarrow> pool_form \<Rightarrow> pool_request list \<times> bool" where
  "patch_pool t server old new = run_stages server (patch_pool_stages t old new) []"

definition delete_pool :: "resource_pool \<Rightarrow> pool_request" where
  "delete_pool p = DeleteNamespace (nm_Name (rp_Namespace p))"

end
