(* ===== verification/KubePoolPage.thy ===== *)
theory KubePoolPage
  imports KubeResourcePool
begin

text \<open>
  The pages on which a namespace is created and edited: \<open>kubernetes/views/resource-pools/create/createResourcePoolController.js\<close>
  and \<open>edit/resourcePoolController.js\<close>. A host name that the form finds invalid is \<open>undefined\<close>, \<open>None\<close> here.
\<close>

section \<open>Quotas on the pages\<close>

definition isQuotaValid :: "rat option \<Rightarrow> rat option \<Rightarrow> pool_form \<Rightarrow> bool" where
  "isQuotaValid sliderMaxCpu sliderMaxMemory f \<longleftrightarrow>
     \<not> (less_num sliderMaxCpu (pl_CpuLimit f) \<or> less_num sliderMaxMemory (pl_MemoryLimit f) \<or>
        pl_CpuLimit f = Some 0 \<and> pl_MemoryLimit f = Some 0)"

text \<open>The defaults are zero, so only a negative limit is changed.\<close>

definition checkDefaults :: "pool_form \<Rightarrow> pool_form" where
  "checkDefaults f =
     f\<lparr>pl_CpuLimit := (if less_num (pl_CpuLimit f) (Some 0) then Some 0 else pl_CpuLimit f),
       pl_MemoryLimit := (if less_num (pl_MemoryLimit f) (Some 0) then Some 0 else pl_MemoryLimit f)\<rparr>"

definition hasResourceQuotaBeenReduced :: "kube_quota option \<Rightarrow> pool_form \<Rightarrow> bool" where
  "hasResourceQuotaBeenReduced oldQuota f = (case oldQuota of
       Some q \<Rightarrow> pl_HasQuota f \<and>
         (less_num (pl_CpuLimit f) (qt_CpuLimit q) \<or> less_num (bytesValue_rat (pl_MemoryLimit f)) (qt_MemoryLimit q))
     | None \<Rightarrow> False)"

definition slider_sum :: "(kube_node \<Rightarrow> rat option) \<Rightarrow> kube_node list \<Rightarrow> rat option" where
  "slider_sum h nodes = fold (\<lambda>n acc. number_plus acc (h n)) nodes (Some 0)"

section \<open>Host names of a namespace that is edited\<close>

record host_row =
  hr_Host :: "string option"
  hr_NeedsDeletion :: bool
  hr_IsNew :: bool
  hr_Duplicate :: bool

definition new_host_row :: host_row where
  "new_host_row = \<lparr>hr_Host = Some [], hr_NeedsDeletion = False, hr_IsNew = True, hr_Duplicate = False\<rparr>"

record hosts_page =
  eh_classes :: "host_row list list"
  eh_hasRefs :: bool

text \<open>\<open>allHosts\<close> are the hosts of the ingresses of the other namespaces.\<close>

definition kept_hostnames :: "host_row list list \<Rightarrow> string option list" where
  "kept_hostnames cs = map hr_Host (filter (\<lambda>h. \<not> hr_NeedsDeletion h) (concat cs))"

definition duplicated_hostnames :: "string list \<Rightarrow> string option list \<Rightarrow> string set" where
  "duplicated_hostnames allHosts hostnames =
     set (map (show_port \<circ> snd) (getDuplicates (map (map_option PText) hostnames))) \<union> {h \<in> set allHosts. Some h \<in> set hostnames}"

definition is_duplicate :: "string set \<Rightarrow> host_row \<Rightarrow> bool" where
  "is_duplicate d h \<longleftrightarrow> (case hr_Host h of None \<Rightarrow> False | Some t \<Rightarrow> t \<in> d) \<and> \<not> hr_NeedsDeletion h"

definition onChangeIngressHostname :: "string list \<Rightarrow> hosts_page \<Rightarrow> hosts_page" where
  "onChangeIngressHostname allHosts p =
     (let d = duplicated_hostnames allHosts (kept_hostnames (eh_classes p))
      in \<lparr>eh_classes = map (map (\<lambda>h. h\<lparr>hr_Duplicate := is_duplicate d h\<rparr>)) (eh_classes p),
          eh_hasRefs = (\<exists>h \<in> set (concat (eh_classes p)). is_duplicate d h)\<rparr>)"

definition with_hosts :: "nat \<Rightarrow> (host_row list \<Rightarrow> host_row list) \<Rightarrow> hosts_page \<Rightarrow> hosts_page" where
  "with_hosts c h p = p\<lparr>eh_classes := (eh_classes p)[c := h (eh_classes p ! c)]\<rparr>"

definition has_host :: "nat \<Rightarrow> nat \<Rightarrow> hosts_page \<Rightarrow> bool" where
  "has_host c i p \<longleftrightarrow> c < length (eh_classes p) \<and> i < length (eh_classes p ! c)"

definition editHostname :: "string list \<Rightarrow> nat \<Rightarrow> nat \<Rightarrow> string option \<Rightarrow> hosts_page \<Rightarrow> hosts_page option" where
  "editHostname allHosts c i t p =
     (if has_host c i p
      then Some (onChangeIngressHostname allHosts (with_hosts c (\<lambda>hs. hs[i := (hs ! i)\<lparr>hr_Host := t\<rparr>]) p))
      else None)"

definition addHostname :: "nat \<Rightarrow> hosts_page \<Rightarrow> hosts_page" where
  "addHostname c p = with_hosts c (\<lambda>hs. hs @ [new_host_row]) p"

definition removeHostname :: "string list \<Rightarrow> nat \<Rightarrow> nat \<Rightarrow> hosts_page \<Rightarrow> hosts_page option" where
  "removeHostname allHosts c i p =
     (if has_host c i p
      then Some (onChangeIngressHostname allHosts (with_hosts c (\<lambda>hs. if \<not> hr_IsNew (hs ! i)
             then hs[i := (hs ! i)\<lparr>hr_NeedsDeletion := True\<rparr>] else remove_at i hs) p))
      else None)"

text \<open>A host that is restored is not compared with the others again.\<close>

definition restoreHostname :: "nat \<Rightarrow> nat \<Rightarrow> hosts_page \<Rightarrow> hosts_page option" where
  "restoreHostname c i p =
     (if has_host c i p
      then Some (with_hosts c (\<lambda>hs. if \<not> hr_IsNew (hs ! i) then hs[i := (hs ! i)\<lparr>hr_NeedsDeletion := False\<rparr>] else hs) p)
      else None)"

definition isUpdateButtonDisabled :: "bool \<Rightarrow> rat option \<Rightarrow> rat option \<Rightarrow> pool_form \<Rightarrow> hosts_page \<Rightarrow> bool" where
  "isUpdateButtonDisabled actionInProgress cpu memory f p \<longleftrightarrow>
     actionInProgress \<or> (pl_HasQuota f \<and> \<not> isQuotaValid cpu memory f) \<or> eh_hasRefs p"

section \<open>Updating\<close>

record pool_warnings =
  pw_quota :: bool
  pw_ingress :: bool

definition update_warnings :: "kube_quota option \<Rightarrow> pool_form \<Rightarrow> pool_warnings" where
  "update_warnings oldQuota f =
     \<lparr>pw_quota = hasResourceQuotaBeenReduced oldQuota f,
      pw_ingress = (\<exists>c \<in> set (pl_IngressClasses f). fc_WasSelected c \<and> \<not> fc_Selected c)\<rparr>"

definition updateResourcePool ::
    "pool_patches \<Rightarrow> pool_request server \<Rightarrow> (pool_warnings \<Rightarrow> bool) \<Rightarrow> kube_quota option \<Rightarrow> pool_form \<Rightarrow> pool_form \<Rightarrow>
       (pool_request list \<times> bool) option" where
  "updateResourcePool t server confirmed oldQuota saved f =
     (let w = update_warnings oldQuota f
      in if pw_quota w \<or> pw_ingress w
         then (if confirmed w then Some (patch_pool t server saved (checkDefaults f)) else None)
         else Some (patch_pool t server saved (checkDefaults f)))"

definition registry_checked :: "nat \<Rightarrow> string \<Rightarrow> pool_registry \<Rightarrow> bool" where
  "registry_checked endpoint name r = (case map_of (rg_RegistryAccesses r) endpoint of
       None \<Rightarrow> False | Some a \<Rightarrow> name \<in> set (rx_Namespaces a))"

text \<open>The form of a namespace that is opened; a class without hosts gets an empty one.\<close>

definition open_pool ::
    "nat \<Rightarrow> resource_pool \<Rightarrow> ingress_class list \<Rightarrow> ingress list \<Rightarrow> pool_registry list \<Rightarrow> pool_form js_result" where
  "open_pool endpoint pool classes ingresses registries =
     (let name = nm_Name (rp_Namespace pool);
          f = (case rp_Quota pool of None \<Rightarrow> new_pool_form\<lparr>pl_Name := name\<rparr> | Some q \<Rightarrow> quotaToResourcePoolFormValues q)
                \<lparr>pl_EndpointId := endpoint\<rparr>;
          g = f\<lparr>pl_Registries := filter (registry_checked endpoint name) registries\<rparr>;
          host = HostForm \<lparr>hf_Host = [], hf_PreviousHost = [], hf_NeedsDeletion = False, hf_IsNew = True\<rparr>
      in if classes = [] then Inr g
         else and_then (ingressClassesToFormValues classes (filter (\<lambda>i. ig_Namespace i = name) ingresses))
           (\<lambda>cs. Inr (g\<lparr>pl_IngressClasses := map (\<lambda>c. if fc_Hosts c = [] then c\<lparr>fc_Hosts := [host]\<rparr> else c) cs\<rparr>)))"

section \<open>Creating\<close>

text \<open>
  The host names of a new namespace, for each class. The filter for removed ones reads a property of a text, and so of
  \<open>undefined\<close> when a host name is invalid.
\<close>

definition created_duplicates :: "string list \<Rightarrow> (string \<times> string option list) list \<Rightarrow> (string \<times> (nat \<times> string) list) list js_result" where
  "created_duplicates allHosts classes =
     (let hostnames = concat (map snd classes)
      in if None \<in> set hostnames then Inl TypeError
         else
           (let found = getDuplicates (map (map_option PText) hostnames);
                taken = (\<lambda>i. if the (hostnames ! i) \<in> set allHosts then True else i \<in> set (map fst found))
            in Inr (snd (fold (\<lambda>(name, hs) (count, acc).
                 (count + length hs,
                  obj_set acc name (map (\<lambda>i. (i, the (hs ! i))) (filter (\<lambda>i. taken (count + i)) [0..<length hs])))) classes (0, [])))))"

definition created_hasRefs :: "(string \<times> (nat \<times> string) list) list \<Rightarrow> bool" where
  "created_hasRefs duplicates \<longleftrightarrow> (\<exists>d \<in> set duplicates. snd d \<noteq> [])"

definition isCreateButtonDisabled :: "bool \<Rightarrow> rat option \<Rightarrow> rat option \<Rightarrow> bool \<Rightarrow> bool \<Rightarrow> pool_form \<Rightarrow> bool" where
  "isCreateButtonDisabled actionInProgress cpu memory isAlreadyExist hasRefs f \<longleftrightarrow>
     actionInProgress \<or> (pl_HasQuota f \<and> \<not> isQuotaValid cpu memory f) \<or> isAlreadyExist \<or> hasRefs"

definition name_exists :: "resource_pool list \<Rightarrow> pool_form \<Rightarrow> bool" where
  "name_exists pools f \<longleftrightarrow> (\<exists>p \<in> set pools. nm_Name (rp_Namespace p) = pl_Name f)"

definition createResourcePool :: "pool_request server \<Rightarrow> string option \<Rightarrow> pool_form \<Rightarrow> pool_request list \<times> bool" where
  "createResourcePool server username f = create_pool server ((checkDefaults f)\<lparr>pl_Owner := username\<rparr>)"

section \<open>Creation in order\<close>

fun is_access :: "pool_request \<Rightarrow> bool" where
  "is_access (SetRegistryAccess e i a) = True"
| "is_access _ = False"

lemma access_of_set [simp]: "access_of e (set_access e a r) = a" "rg_Id (set_access e a r) = rg_Id r"
  by (simp_all add: access_of_def set_access_def update_conv')

lemma give_access_simps [simp]:
  "rg_Id (give_access e n r) = rg_Id r"
  "access_of e (give_access e n r) = (if n \<in> set (rx_Namespaces (access_of e r)) then access_of e r
     else (access_of e r)\<lparr>rx_Namespaces := rx_Namespaces (access_of e r) @ [n]\<rparr>)"
  "rg_Id (take_access e n r) = rg_Id r"
  "access_of e (take_access e n r) = (access_of e r)\<lparr>rx_Namespaces := filter (\<lambda>m. m \<noteq> n) (rx_Namespaces (access_of e r))\<rparr>"
  by (simp_all add: give_access_def take_access_def Let_def)

lemma sends_access: "sends (map (access_call e) rs) = map (\<lambda>r. SetRegistryAccess e (rg_Id r) (access_of e r)) rs"
  by (induction rs) (simp_all add: access_call_def)

lemma sends_ingresses: "r \<in> set (sends (map create_ingress_call is)) \<Longrightarrow> \<not> is_access r"
  by (induction "is") (auto simp: create_ingress_call_def split: sum.splits)

definition pool_plan :: "pool_form \<Rightarrow> pool_request call list list" where
  "pool_plan f = [[Send (CreateNamespace (createNamespacePayload (form_namespace f)))]] @
     (case resourcePoolFormValuesToResourceQuota f of None \<Rightarrow> [] | Some q \<Rightarrow> [[Send (CreateQuota (createQuotaPayload q))]]) @
     [map create_ingress_call (form_ingresses f)]"

lemma stages_plan: "create_pool_stages f = pool_plan f @ [map (access_call (pl_EndpointId f)) (form_registries f)]"
  by (simp add: create_pool_stages_def pool_plan_def)

lemma plan_no_access: "r \<in> set (sends (concat (pool_plan f))) \<Longrightarrow> \<not> is_access r"
  by (auto simp: pool_plan_def dest: sends_ingresses split: option.splits)

lemma plan_first: "\<exists>rest. sends (concat (pool_plan f)) = CreateNamespace (createNamespacePayload (form_namespace f)) # rest"
  by (simp add: pool_plan_def)

lemma run_plan_first:
  "\<exists>rest. fst (run_stages server (pool_plan f @ ss) []) = CreateNamespace (createNamespacePayload (form_namespace f)) # rest \<and>
    (\<not> server [] (CreateNamespace (createNamespacePayload (form_namespace f))) \<longrightarrow> rest = [] \<and> \<not> snd (run_stages server (pool_plan f @ ss) []))"
proof (cases "server [] (CreateNamespace (createNamespacePayload (form_namespace f)))")
  case True
  let ?tail = "tl (pool_plan f) @ ss"
  have "run_stages server (pool_plan f @ ss) [] = run_stages server ?tail [CreateNamespace (createNamespacePayload (form_namespace f))]"
    using True by (simp add: pool_plan_def)
  then show ?thesis
    using True run_stages_sent [of server ?tail "[CreateNamespace (createNamespacePayload (form_namespace f))]"] by auto
next
  case False
  then show ?thesis by (simp add: pool_plan_def)
qed

text \<open>
  The namespace is created first, and nothing else is sent when that is refused. A registry is given to the namespace
  only when the namespace, its quota and all its ingresses were accepted, and when the creation succeeds every request was
  accepted and every registry of the form has the namespace in its accesses.
\<close>

theorem pool_created_in_order:
  assumes "createResourcePool server user f = (sent, ok)"
  shows "\<exists>rest. sent = CreateNamespace (createNamespacePayload (form_namespace ((checkDefaults f)\<lparr>pl_Owner := user\<rparr>))) # rest \<and>
    (\<not> server [] (hd sent) \<longrightarrow> rest = [] \<and> \<not> ok) \<and>
    ((\<exists>r \<in> set sent. is_access r) \<longrightarrow> accepted server [] (filter (\<lambda>r. \<not> is_access r) sent)) \<and>
    (ok \<longrightarrow> accepted server [] sent \<and> (\<forall>r \<in> set (pl_Registries f). \<exists>a. SetRegistryAccess (pl_EndpointId f) (rg_Id r) a \<in> set sent \<and>
       pl_Name f \<in> set (rx_Namespaces a)))"
proof -
  let ?f = "(checkDefaults f)\<lparr>pl_Owner := user\<rparr>"
  let ?plan = "pool_plan ?f" and ?access = "map (access_call (pl_EndpointId ?f)) (form_registries ?f)"
  have run: "(sent, ok) = run_stages server (?plan @ [?access]) []"
    using assms by (simp add: createResourcePool_def create_pool_def stages_plan)
  then have s: "sent = fst (run_stages server (?plan @ [?access]) [])" "ok = snd (run_stages server (?plan @ [?access]) [])"
    by (metis fst_conv snd_conv)+
  obtain rest where rest: "sent = CreateNamespace (createNamespacePayload (form_namespace ?f)) # rest"
      "\<not> server [] (CreateNamespace (createNamespacePayload (form_namespace ?f))) \<longrightarrow> rest = [] \<and> \<not> ok"
    using run_plan_first [of server ?f "[?access]"] unfolding s [symmetric] by blast
  have acc: "accepted server [] (filter (\<lambda>r. \<not> is_access r) sent)" if "\<exists>r \<in> set sent. is_access r"
  proof (cases "snd (run_stages server ?plan [])")
    case True
    then have p: "fst (run_stages server ?plan []) = sends (concat ?plan)" "accepted server [] (sends (concat ?plan))"
      using run_stages_requests [OF True] run_stages_ok [of server ?plan "[]"] by simp_all
    have "sent = sends (concat ?plan) @ sends ?access"
      by (simp only: s(1) run_stages_last [OF True] p(1))
    moreover have "filter (\<lambda>r. \<not> is_access r) (sends ?access) = []" unfolding sends_access by (simp add: filter_empty_conv)
    moreover have "filter (\<lambda>r. \<not> is_access r) (sends (concat ?plan)) = sends (concat ?plan)"
      using plan_no_access by (simp add: filter_id_conv)
    ultimately show ?thesis using p(2) by simp
  next
    case False
    then have "sent = fst (run_stages server ?plan [])" by (simp only: s(1) run_stages_stopped [OF False])
    then have "set sent \<subseteq> set (sends (concat ?plan))" using run_stages_sent [of server ?plan "[]"] by auto
    with that plan_no_access show ?thesis by blast
  qed
  have done': "accepted server [] sent \<and> (\<forall>r \<in> set (pl_Registries f). \<exists>a. SetRegistryAccess (pl_EndpointId f) (rg_Id r) a \<in> set sent \<and>
       pl_Name f \<in> set (rx_Namespaces a))" if ok
  proof -
    have k: "snd (run_stages server (?plan @ [?access]) [])" using that s(2) by simp
    have e: "sent = sends (concat (?plan @ [?access]))" using run_stages_requests [OF k] s(1) by simp
    have "accepted server [] sent" using k unfolding run_stages_ok e by simp
    moreover have "\<exists>a. SetRegistryAccess (pl_EndpointId f) (rg_Id r) a \<in> set sent \<and> pl_Name f \<in> set (rx_Namespaces a)"
      if "r \<in> set (pl_Registries f)" for r
    proof -
      have f: "pl_EndpointId ?f = pl_EndpointId f" "pl_Registries ?f = pl_Registries f" "pl_Name ?f = pl_Name f"
        by (simp_all add: checkDefaults_def)
      let ?g = "give_access (pl_EndpointId f) (pl_Name f) r"
      have "?g \<in> set (form_registries ?f)" using that unfolding form_registries_def f by simp
      then have "SetRegistryAccess (pl_EndpointId f) (rg_Id ?g) (access_of (pl_EndpointId f) ?g) \<in> set (sends ?access)"
        unfolding sends_access f by (simp only: set_map image_eqI)
      then show ?thesis unfolding e by (intro exI [of _ "access_of (pl_EndpointId f) ?g"]) simp
    qed
    ultimately show ?thesis by blast
  qed
  have "\<not> server [] (hd sent) \<longrightarrow> rest = [] \<and> \<not> ok" using rest(2) by (simp only: rest(1) list.sel simp_thms)
  then show ?thesis using rest(1) impI [OF acc] impI [OF done'] by (intro exI [of _ rest] conjI)
qed

definition shop_form :: pool_form where
  "shop_form = new_pool_form\<lparr>pl_Name := ''shop'', pl_CpuLimit := Some 1, pl_HasQuota := True, pl_EndpointId := 2,
     pl_Registries := [\<lparr>rg_Id = 5, rg_RegistryAccesses = []\<rparr>]\<rparr>"

theorem pool_created_in_order_witness:
  "\<exists>sent. createResourcePool (\<lambda>_ _. True) (Some ''ann'') shop_form = (sent, True) \<and>
    (\<exists>a. SetRegistryAccess 2 5 a \<in> set sent \<and> ''shop'' \<in> set (rx_Namespaces a))"
proof -
  let ?r = "createResourcePool (\<lambda>_ _. True) (Some ''ann'') shop_form"
  have "form_ingresses g = []" if "pl_IngressClasses g = []" for g using that by (simp add: form_ingresses_def)
  then have "snd ?r"
    by (simp add: createResourcePool_def create_pool_def run_stages_ok create_pool_stages_def form_registries_def access_call_def
        shop_form_def new_pool_form_def checkDefaults_def resourcePoolFormValuesToResourceQuota_def)
  then obtain sent where "?r = (sent, True)" by (cases ?r) simp
  with pool_created_in_order [OF this] show ?thesis by (auto simp: shop_form_def new_pool_form_def)
qed

section \<open>Quotas that are not whole megabytes\<close>

lemma whole_megabytes: "rat_of_int \<lfloor>m / 1000 / 1000\<rfloor> * 1000 * 1000 < m \<longleftrightarrow> (\<forall>k :: int. m \<noteq> of_int k * 1000000)"
proof
  assume "\<forall>k :: int. m \<noteq> of_int k * 1000000"
  then have "m \<noteq> rat_of_int \<lfloor>m / 1000 / 1000\<rfloor> * 1000000" by blast
  moreover have "rat_of_int \<lfloor>m / 1000 / 1000\<rfloor> * 1000000 \<le> m / 1000 / 1000 * 1000000"
    by (intro mult_right_mono of_int_floor_le) simp
  ultimately show "rat_of_int \<lfloor>m / 1000 / 1000\<rfloor> * 1000 * 1000 < m" by simp
next
  assume l: "rat_of_int \<lfloor>m / 1000 / 1000\<rfloor> * 1000 * 1000 < m"
  show "\<forall>k :: int. m \<noteq> of_int k * 1000000"
  proof (intro allI notI)
    fix k :: int
    assume "m = of_int k * 1000000"
    then have "m / 1000 / 1000 = of_int k" by simp
    then have "\<lfloor>m / 1000 / 1000\<rfloor> = k" by (simp only: floor_of_int)
    with l \<open>m = of_int k * 1000000\<close> show False by simp
  qed
qed

text \<open>
  A namespace whose quota was not edited is reported as reduced exactly when the memory of its quota is not a whole
  number of megabytes: the form holds whole megabytes, rounded down, and they are compared with the quota itself.
\<close>

theorem unchanged_quota_warned:
  assumes "qt_MemoryLimit q = Some m" and "pl_HasQuota (quotaToResourcePoolFormValues q)"
  shows "hasResourceQuotaBeenReduced (Some q) (quotaToResourcePoolFormValues q) \<longleftrightarrow> (\<forall>k :: int. m \<noteq> of_int k * 1000000)"
proof -
  have "\<not> less_num (qt_CpuLimit q) (qt_CpuLimit q)" by (simp add: less_num_def split: option.splits)
  with assms(2) show ?thesis
    by (simp add: hasResourceQuotaBeenReduced_def quotaToResourcePoolFormValues_def Let_def assms(1) bytesValue_rat_def megaBytesValue_def
        whole_megabytes [symmetric] less_num_def)
qed

definition odd_quota :: kube_quota where
  "odd_quota = (new_quota ''shop'')\<lparr>qt_MemoryLimit := Some 1500000\<rparr>"

lemma odd_megabytes: "megaBytesValue (Some 1500000) = Some 1"
proof -
  have "\<lfloor>(3 :: rat) / 2\<rfloor> = 1" by (simp add: floor_eq_iff)
  moreover have "(1500000 :: rat) / 1000 / 1000 = 3 / 2" by simp
  ultimately show ?thesis by (simp only: megaBytesValue_def option.map)
qed

lemma odd_not_whole: "(1500000 :: rat) \<noteq> of_int k * 1000000"
proof
  assume "(1500000 :: rat) = of_int k * 1000000"
  then have "(of_int 1500000 :: rat) = of_int (k * 1000000)" by simp
  then have "1500000 = k * 1000000" by (simp only: of_int_eq_iff)
  then have "2 * k = 3" by simp
  then show False by presburger
qed

theorem unchanged_quota_warned_witness:
  "hasResourceQuotaBeenReduced (Some odd_quota) (quotaToResourcePoolFormValues odd_quota)"
proof (rule iffD2 [OF unchanged_quota_warned])
  show m: "qt_MemoryLimit odd_quota = Some 1500000" by (simp add: odd_quota_def)
  show "pl_HasQuota (quotaToResourcePoolFormValues odd_quota)"
    unfolding quotaToResourcePoolFormValues_def m odd_megabytes Let_def by (simp add: truthy_rat_def)
  show "\<forall>k :: int. (1500000 :: rat) \<noteq> of_int k * 1000000" using odd_not_whole by blast
qed

section \<open>Updating\<close>

definition payloads_made :: "pool_form \<Rightarrow> bool" where
  "payloads_made f \<longleftrightarrow> distinct (map ig_Name (form_ingresses f)) \<and> (\<forall>i \<in> set (form_ingresses f). \<exists>y. createIngressPayload i = Inr y)"

lemma found_itself: "distinct (map ig_Name is) \<Longrightarrow> i \<in> set is \<Longrightarrow> find (\<lambda>j. ig_Name j = ig_Name i) is = Some i"
  by (induction "is") (auto simp: image_iff)

lemma same_ingress_calls:
  assumes "payloads_made f" and "\<And>a. \<not> pp_ingress t a a"
  shows "map (patch_ingress_call t (form_ingresses f)) (form_ingresses f) = map (\<lambda>i. Unchanged) (form_ingresses f)"
proof -
  have "patch_ingress_call t (form_ingresses f) i = Unchanged" if i: "i \<in> set (form_ingresses f)" for i
  proof -
    obtain y where "createIngressPayload i = Inr y" using assms(1) i by (auto simp: payloads_made_def)
    moreover have "i\<lparr>ig_Paths := ig_Paths i\<rparr> = i" by simp
    ultimately show ?thesis
      using found_itself [OF _ i] assms by (simp add: patch_ingress_call_def payloads_made_def Let_def)
  qed
  then show ?thesis by simp
qed

lemma checked_access: "registry_checked e n r \<Longrightarrow> n \<in> set (rx_Namespaces (access_of e r))"
  by (auto simp: registry_checked_def access_of_def split: option.splits)

lemma sends_unchanged: "sends (map (\<lambda>i. Unchanged) xs) = []"
  by (induction xs) simp_all

text \<open>
  Saving a namespace that was not edited changes neither its quota nor an ingress: the only requests that are sent give
  the namespace to the registries of the form, which have it already.
\<close>

theorem unchanged_pool_keeps_ingresses:
  assumes "\<And>a. \<not> pp_quota t a a" and "\<And>a. \<not> pp_ingress t a a" and "payloads_made f"
    and "\<forall>r \<in> set (pl_Registries f). registry_checked (pl_EndpointId f) (pl_Name f) r"
  shows "patch_pool t (\<lambda>_ _. True) f f =
    (map (\<lambda>r. SetRegistryAccess (pl_EndpointId f) (rg_Id r) (access_of (pl_EndpointId f) r)) (pl_Registries f), True)"
proof -
  let ?is = "form_ingresses f"
  have n: "filter (\<lambda>i. \<not> named_in ?is i) ?is = []" "filter (named_in ?is) ?is = ?is"
    by (simp_all add: named_in_def filter_empty_conv filter_id_conv)
  have r: "filter (\<lambda>r. rg_Id r \<notin> set (map rg_Id (form_registries f))) (form_registries f) = []"
    by (simp add: filter_empty_conv)
  have q: "quota_calls t (resourcePoolFormValuesToResourceQuota f) (resourcePoolFormValuesToResourceQuota f) =
      (if pl_HasQuota f then [Unchanged] else [])"
    by (simp add: quota_calls_def resourcePoolFormValuesToResourceQuota_def assms(1))
  have stages: "patch_pool_stages t f f = [if pl_HasQuota f then [Unchanged] else [], map (\<lambda>i. Unchanged) ?is,
      map (access_call (pl_EndpointId f)) (form_registries f)]"
    unfolding patch_pool_stages_def Let_def n r q same_ingress_calls [OF assms(3,2)] by simp
  have a: "map (\<lambda>r. SetRegistryAccess (pl_EndpointId f) (rg_Id r) (access_of (pl_EndpointId f) r)) (form_registries f) =
      map (\<lambda>r. SetRegistryAccess (pl_EndpointId f) (rg_Id r) (access_of (pl_EndpointId f) r)) (pl_Registries f)"
    using assms(4) by (auto simp: form_registries_def dest: checked_access)
  have ok: "snd (run_stages (\<lambda>_ _. True) (patch_pool_stages t f f) [])"
    unfolding run_stages_ok stages by (auto simp: access_call_def)
  from run_stages_requests [OF ok] have "fst (patch_pool t (\<lambda>_ _. True) f f) =
      map (\<lambda>r. SetRegistryAccess (pl_EndpointId f) (rg_Id r) (access_of (pl_EndpointId f) r)) (pl_Registries f)"
    unfolding patch_pool_def stages by (simp add: sends_unchanged sends_access a)
  with ok show ?thesis by (simp add: patch_pool_def prod_eq_iff)
qed

definition no_patches :: pool_patches where
  "no_patches = \<lparr>pp_quota = (\<lambda>a b. False), pp_ingress = (\<lambda>a b. False)\<rparr>"

definition kept_form :: pool_form where
  "kept_form = shop_form\<lparr>pl_Registries := [\<lparr>rg_Id = 5, rg_RegistryAccesses = [(2, no_access\<lparr>rx_Namespaces := [''a'', ''shop'']\<rparr>)]\<rparr>]\<rparr>"

theorem unchanged_pool_keeps_ingresses_witness:
  "patch_pool no_patches (\<lambda>_ _. True) kept_form kept_form =
     ([SetRegistryAccess 2 5 (no_access\<lparr>rx_Namespaces := [''a'', ''shop'']\<rparr>)], True)"
proof -
  have "payloads_made kept_form" by (simp add: payloads_made_def form_ingresses_def kept_form_def shop_form_def new_pool_form_def)
  moreover have "\<forall>r \<in> set (pl_Registries kept_form). registry_checked (pl_EndpointId kept_form) (pl_Name kept_form) r"
    by (simp add: kept_form_def shop_form_def new_pool_form_def registry_checked_def)
  ultimately show ?thesis
    using unchanged_pool_keeps_ingresses [of no_patches kept_form]
    by (simp add: no_patches_def kept_form_def shop_form_def new_pool_form_def access_of_def)
qed

section \<open>Registries of a namespace\<close>

text \<open>The accesses that the server keeps for an endpoint, and what the accepted requests make of them.\<close>

fun apply_access :: "pool_request \<Rightarrow> (nat \<Rightarrow> registry_access) \<Rightarrow> nat \<Rightarrow> registry_access" where
  "apply_access (SetRegistryAccess e i a) s = s(i := a)"
| "apply_access _ s = s"

lemma apply_no_access: "(\<And>r. r \<in> set rs \<Longrightarrow> \<not> is_access r) \<Longrightarrow> fold apply_access rs s = s"
proof (induction rs arbitrary: s)
  case (Cons r rs)
  have "\<not> is_access r" using Cons.prems [of r] by simp
  then have "apply_access r s = s" by (cases r) simp_all
  with Cons show ?case by simp
qed simp

lemma apply_accesses:
  assumes "distinct (map rg_Id rs)"
  shows "fold apply_access (map (\<lambda>r. SetRegistryAccess e (rg_Id r) (access_of e r)) rs) s i =
    (case map_of (map (\<lambda>r. (rg_Id r, access_of e r)) rs) i of None \<Rightarrow> s i | Some a \<Rightarrow> a)"
  using assms
proof (induction rs arbitrary: s)
  case (Cons r rs)
  show ?case
  proof (cases "i = rg_Id r")
    case True
    with Cons.prems have "map_of (map (\<lambda>r. (rg_Id r, access_of e r)) rs) i = None"
      by (simp add: map_of_eq_None_iff image_image)
    with Cons True show ?thesis by simp
  next
    case False
    with Cons show ?thesis by (simp split: option.splits)
  qed
qed simp

lemma sends_other_stages:
  "r \<in> set (sends (quota_calls t a b)) \<Longrightarrow> \<not> is_access r"
  "r \<in> set (sends (map (\<lambda>i. Send (DeletePoolIngress (ig_Namespace i) (ig_Name i))) is)) \<Longrightarrow> \<not> is_access r"
  "r \<in> set (sends (map (patch_ingress_call t os) is)) \<Longrightarrow> \<not> is_access r"
proof -
  show "r \<in> set (sends (quota_calls t a b)) \<Longrightarrow> \<not> is_access r"
    by (auto simp: quota_calls_def split: option.splits if_splits)
  show "r \<in> set (sends (map (\<lambda>i. Send (DeletePoolIngress (ig_Namespace i) (ig_Name i))) is)) \<Longrightarrow> \<not> is_access r"
    by (induction "is") auto
  show "r \<in> set (sends (map (patch_ingress_call t os) is)) \<Longrightarrow> \<not> is_access r"
    by (induction "is") (auto simp: patch_ingress_call_def Let_def split: option.splits sum.splits if_splits)
qed

lemma map_of_accesses:
  assumes "distinct (map rg_Id rs)"
  shows "map_of (map (\<lambda>r. (rg_Id r, h r)) rs) i = Some a \<longleftrightarrow> (\<exists>r \<in> set rs. rg_Id r = i \<and> h r = a)"
proof -
  have "distinct (map fst (map (\<lambda>r. (rg_Id r, h r)) rs))" using assms by (simp add: comp_def)
  from map_of_eq_Some_iff [OF this, of i a] show ?thesis by (auto simp: image_iff)
qed

definition removed_registries :: "pool_form \<Rightarrow> pool_form \<Rightarrow> pool_registry list" where
  "removed_registries old new = filter (\<lambda>r. rg_Id r \<notin> set (map rg_Id (pl_Registries new))) (pl_Registries old)"

text \<open>
  C26. After an update that succeeds the accesses to the registries are those of the form: a registry of the form has the
  namespace, one that was taken out of the form does not have it any more, no other namespace is given or taken, and no
  other registry is changed, when the accesses that the page was opened with are still those of the server.
\<close>

theorem registries_follow_form:
  assumes "patch_pool t server old new = (sent, True)" and "pl_Name old = pl_Name new" and "pl_EndpointId old = pl_EndpointId new"
    and "distinct (map rg_Id (pl_Registries old))" and "distinct (map rg_Id (pl_Registries new))"
    and "\<forall>r \<in> set (pl_Registries old) \<union> set (pl_Registries new). s (rg_Id r) = access_of (pl_EndpointId new) r"
  shows "set (rx_Namespaces (fold apply_access sent s i)) =
    (if i \<in> set (map rg_Id (pl_Registries new)) then insert (pl_Name new) (set (rx_Namespaces (s i)))
     else if i \<in> set (map rg_Id (pl_Registries old)) then set (rx_Namespaces (s i)) - {pl_Name new}
     else set (rx_Namespaces (s i)))"
proof -
  let ?e = "pl_EndpointId new" and ?n = "pl_Name new"
  let ?rs = "map (give_access ?e ?n) (pl_Registries new) @
    map (take_access ?e ?n) (map (give_access ?e ?n) (removed_registries old new))"
  have ids: "rg_Id \<circ> give_access ?e ?n = rg_Id" "rg_Id \<circ> (take_access ?e ?n \<circ> give_access ?e ?n) = rg_Id" by (simp_all add: comp_def)
  have stages: "patch_pool_stages t old new =
      [quota_calls t (resourcePoolFormValuesToResourceQuota old) (resourcePoolFormValuesToResourceQuota new),
       map create_ingress_call (filter (\<lambda>i. \<not> named_in (form_ingresses old) i) (form_ingresses new)) @
       map (\<lambda>i. Send (DeletePoolIngress (ig_Namespace i) (ig_Name i)))
         (filter (\<lambda>i. \<not> named_in (form_ingresses new) i) (form_ingresses old)) @
       map (patch_ingress_call t (form_ingresses old)) (filter (named_in (form_ingresses old)) (form_ingresses new)),
       map (access_call ?e) ?rs]" (is "_ = [?q, ?i, _]")
    by (simp add: patch_pool_stages_def Let_def form_registries_def removed_registries_def assms(2,3) filter_map comp_def image_image)
  have ok: "snd (run_stages server (patch_pool_stages t old new) [])" using assms(1) by (simp add: patch_pool_def)
  have "sent = [] @ sends (concat (patch_pool_stages t old new))"
    using assms(1) run_stages_requests [OF ok] by (simp add: patch_pool_def)
  then have sent: "sent = sends (?q @ ?i) @ map (\<lambda>r. SetRegistryAccess ?e (rg_Id r) (access_of ?e r)) ?rs"
    unfolding stages by (simp only: sends_simps concat.simps append_Nil append_Nil2 append_assoc sends_access)
  have no: "\<And>r. r \<in> set (sends (?q @ ?i)) \<Longrightarrow> \<not> is_access r"
    using sends_other_stages sends_ingresses by auto
  have n: "fold apply_access (sends (?q @ ?i)) s = s" by (rule apply_no_access) (erule no)
  have d: "distinct (map rg_Id ?rs)"
    using assms(4,5) by (auto simp: ids removed_registries_def distinct_map_filter) (metis image_eqI)
  have f: "fold apply_access sent s i = (case map_of (map (\<lambda>r. (rg_Id r, access_of ?e r)) ?rs) i of None \<Rightarrow> s i | Some a \<Rightarrow> a)"
    unfolding sent fold_append comp_def n by (rule apply_accesses [OF d])
  show ?thesis
  proof (cases "map_of (map (\<lambda>r. (rg_Id r, access_of ?e r)) ?rs) i")
    case None
    then have "i \<notin> set (map rg_Id ?rs)" by (simp add: map_of_eq_None_iff image_image)
    then have "i \<notin> rg_Id ` set (pl_Registries new)" "i \<notin> rg_Id ` set (removed_registries old new)"
      by (simp_all add: ids image_Un)
    then have "i \<notin> rg_Id ` set (pl_Registries new)" "i \<notin> rg_Id ` set (pl_Registries old)"
      by (auto simp: removed_registries_def)
    then show ?thesis unfolding f None by simp
  next
    case (Some a)
    then obtain r where r: "r \<in> set ?rs" "rg_Id r = i" "access_of ?e r = a" unfolding map_of_accesses [OF d] by blast
    then consider x where "x \<in> set (pl_Registries new)" "r = give_access ?e ?n x"
      | x where "x \<in> set (removed_registries old new)" "r = take_access ?e ?n (give_access ?e ?n x)" by auto
    then show ?thesis
    proof cases
      case 1
      then have "i \<in> rg_Id ` set (pl_Registries new)" "s i = access_of ?e x" using r assms(6) by auto
      then show ?thesis unfolding f Some using r(3) 1(2) by (auto split: if_splits)
    next
      case 2
      then have "i \<notin> rg_Id ` set (pl_Registries new)" "i \<in> rg_Id ` set (pl_Registries old)" "s i = access_of ?e x"
        using r assms(6) by (auto simp: removed_registries_def)
      then show ?thesis unfolding f Some using r(3) 2(2) by (auto split: if_splits)
    qed
  qed
qed

definition other_form :: pool_form where
  "other_form = kept_form\<lparr>pl_Registries := [\<lparr>rg_Id = 7, rg_RegistryAccesses = []\<rparr>]\<rparr>"

definition stored_access :: "nat \<Rightarrow> registry_access" where
  "stored_access i = (if i = 5 then no_access\<lparr>rx_Namespaces := [''a'', ''shop'']\<rparr> else no_access)"

theorem registries_follow_form_witness:
  "\<exists>sent. patch_pool no_patches (\<lambda>_ _. True) kept_form other_form = (sent, True) \<and>
    set (rx_Namespaces (fold apply_access sent stored_access 5)) = {''a''} \<and>
    set (rx_Namespaces (fold apply_access sent stored_access 7)) = {''shop''}"
proof -
  have "form_ingresses kept_form = []" "form_ingresses other_form = []"
    by (simp_all add: form_ingresses_def other_form_def kept_form_def shop_form_def new_pool_form_def)
  then have "snd (patch_pool no_patches (\<lambda>_ _. True) kept_form other_form)"
    unfolding patch_pool_def run_stages_ok
    by (auto simp: patch_pool_stages_def Let_def access_call_def quota_calls_def no_patches_def
        split: option.splits)
  then obtain sent where p: "patch_pool no_patches (\<lambda>_ _. True) kept_form other_form = (sent, True)"
    by (cases "patch_pool no_patches (\<lambda>_ _. True) kept_form other_form") simp
  have s: "\<forall>r \<in> set (pl_Registries kept_form) \<union> set (pl_Registries other_form).
      stored_access (rg_Id r) = access_of (pl_EndpointId other_form) r"
    by (simp add: other_form_def kept_form_def shop_form_def new_pool_form_def stored_access_def access_of_def)
  have f: "pl_Name kept_form = pl_Name other_form" "pl_EndpointId kept_form = pl_EndpointId other_form"
    "distinct (map rg_Id (pl_Registries kept_form))" "distinct (map rg_Id (pl_Registries other_form))"
    "pl_Name other_form = ''shop''" "map rg_Id (pl_Registries kept_form) = [5]" "map rg_Id (pl_Registries other_form) = [7]"
    by (simp_all add: other_form_def kept_form_def shop_form_def new_pool_form_def)
  have "{''a'', ''shop''} - {''shop''} = {''a''}" by auto
  moreover have "rx_Namespaces (stored_access 5) = [''a'', ''shop'']" "rx_Namespaces (stored_access 7) = []"
    by (simp_all add: stored_access_def no_access_def)
  ultimately show ?thesis
    using p registries_follow_form [OF p f(1,2,3,4) s, of 5] registries_follow_form [OF p f(1,2,3,4) s, of 7]
    by (simp add: f)
qed

section \<open>Host names\<close>

inductive host_edit :: "string list \<Rightarrow> hosts_page \<Rightarrow> hosts_page \<Rightarrow> bool" for allHosts where
  "editHostname allHosts c i t p = Some q \<Longrightarrow> host_edit allHosts p q"
| "c < length (eh_classes p) \<Longrightarrow> host_edit allHosts p (addHostname c p)"
| "removeHostname allHosts c i p = Some q \<Longrightarrow> host_edit allHosts p q"

inductive host_edits :: "string list \<Rightarrow> hosts_page \<Rightarrow> hosts_page \<Rightarrow> bool" for allHosts p where
  opened: "host_edits allHosts p p"
| edited: "host_edits allHosts p q \<Longrightarrow> host_edit allHosts q r \<Longrightarrow> host_edits allHosts p r"

definition filled_hosts :: "host_row list list \<Rightarrow> string list" where
  "filled_hosts cs = concat (map filled_key (kept_hostnames cs))"

definition hosts_differ :: "string list \<Rightarrow> hosts_page \<Rightarrow> bool" where
  "hosts_differ allHosts p \<longleftrightarrow> distinct (filled_hosts (eh_classes p)) \<and> set (filled_hosts (eh_classes p)) \<inter> set allHosts = {}"

lemma kept_hostnames_marked: "kept_hostnames (map (map (\<lambda>h. h\<lparr>hr_Duplicate := f h\<rparr>)) cs) = kept_hostnames cs"
proof -
  have "concat (map (map (\<lambda>h. h\<lparr>hr_Duplicate := f h\<rparr>)) cs) = map (\<lambda>h. h\<lparr>hr_Duplicate := f h\<rparr>) (concat cs)"
    by (simp add: map_concat)
  then show ?thesis by (simp add: kept_hostnames_def filter_map comp_def)
qed

lemma set_filled: "x \<in> set (concat (map filled_key ns)) \<longleftrightarrow> x \<noteq> [] \<and> Some x \<in> set ns"
proof (induction ns)
  case (Cons n ns)
  then show ?case by (cases n) auto
qed simp

text \<open>A check that marks nothing has found that the hosts differ.\<close>

lemma unmarked_hosts:
  assumes "\<not> (\<exists>h \<in> set (concat cs). is_duplicate (duplicated_hostnames allHosts (kept_hostnames cs)) h)"
  shows "duplicated_hostnames allHosts (kept_hostnames cs) = {}"
proof -
  have "False" if "t \<in> duplicated_hostnames allHosts (kept_hostnames cs)" for t
  proof -
    have "Some t \<in> set (kept_hostnames cs)"
    proof -
      from that consider "t \<in> set (map (show_port \<circ> snd) (getDuplicates (map (map_option PText) (kept_hostnames cs))))"
        | "Some t \<in> set (kept_hostnames cs)" unfolding duplicated_hostnames_def by blast
      then show ?thesis
      proof cases
        case 1
        then obtain i v where iv: "(i, v) \<in> set (getDuplicates (map (map_option PText) (kept_hostnames cs)))" "t = show_port v" by auto
        then have "i < length (kept_hostnames cs)" "map_option PText (kept_hostnames cs ! i) = Some v" by (auto simp: getDuplicates_mem)
        then show ?thesis using iv(2) by (cases "kept_hostnames cs ! i") (auto simp: in_set_conv_nth)
      qed
    qed
    then obtain h where "h \<in> set (concat cs)" "\<not> hr_NeedsDeletion h" "hr_Host h = Some t"
      by (auto simp: kept_hostnames_def) (metis)
    with assms that show False by (auto simp: is_duplicate_def)
  qed
  then show ?thesis by blast
qed

lemma checked_hosts: "eh_hasRefs (onChangeIngressHostname allHosts p) \<or> hosts_differ allHosts (onChangeIngressHostname allHosts p)"
proof (cases "eh_hasRefs (onChangeIngressHostname allHosts p)")
  case False
  let ?ns = "kept_hostnames (eh_classes p)"
  from False have "\<not> (\<exists>h \<in> set (concat (eh_classes p)). is_duplicate (duplicated_hostnames allHosts ?ns) h)"
    by (simp add: onChangeIngressHostname_def Let_def)
  from unmarked_hosts [OF this] have d: "getDuplicates (map (map_option PText) ?ns) = []" "{h \<in> set allHosts. Some h \<in> set ?ns} = {}"
    unfolding duplicated_hostnames_def by auto
  have "kept_hostnames (eh_classes (onChangeIngressHostname allHosts p)) = ?ns"
    by (simp add: onChangeIngressHostname_def Let_def kept_hostnames_marked)
  then show ?thesis using filled_distinct [OF d(1)] d(2) by (auto simp: hosts_differ_def filled_hosts_def set_filled simp del: set_concat)
qed simp

lemma added_host: "c < length (eh_classes p) \<Longrightarrow> mset (filled_hosts (eh_classes (addHostname c p))) = mset (filled_hosts (eh_classes p))"
proof -
  assume c: "c < length (eh_classes p)"
  let ?cs = "eh_classes p" and ?h = "new_host_row"
  have "?cs = take c ?cs @ ?cs ! c # drop (Suc c) ?cs" by (rule id_take_nth_drop [OF c])
  then have "mset (concat ?cs) = mset (concat (take c ?cs)) + mset (?cs ! c) + mset (concat (drop (Suc c) ?cs))"
    by (metis add.assoc concat.simps(2) concat_append mset_append)
  then have m: "mset (concat (?cs[c := ?cs ! c @ [?h]])) = mset (concat ?cs) + {#?h#}"
    using c by (simp add: upd_conv_take_nth_drop)
  have "mset (kept_hostnames (?cs[c := ?cs ! c @ [?h]])) = mset (kept_hostnames ?cs) + {#Some []#}"
    unfolding kept_hostnames_def mset_map mset_filter m by (simp add: new_host_row_def)
  then have "sum_mset (image_mset (mset \<circ> filled_key) (mset (kept_hostnames (?cs[c := ?cs ! c @ [?h]])))) =
      sum_mset (image_mset (mset \<circ> filled_key) (mset (kept_hostnames ?cs)))" by simp
  then show ?thesis
    by (simp add: filled_hosts_def addHostname_def with_hosts_def mset_concat sum_mset_sum_list [symmetric] image_mset.compositionality)
qed

lemma hosts_edit:
  assumes "host_edit allHosts p q" and "eh_hasRefs p \<or> hosts_differ allHosts p"
  shows "eh_hasRefs q \<or> hosts_differ allHosts q"
  using assms
proof cases
  case (2 c)
  then have "mset (filled_hosts (eh_classes q)) = mset (filled_hosts (eh_classes p))" by (simp add: added_host)
  then have "distinct (filled_hosts (eh_classes q)) = distinct (filled_hosts (eh_classes p))"
    "set (filled_hosts (eh_classes q)) = set (filled_hosts (eh_classes p))"
    by (rule mset_eq_imp_distinct_iff, rule mset_eq_setD)
  moreover have "eh_hasRefs q = eh_hasRefs p" using 2 by (simp add: addHostname_def with_hosts_def)
  ultimately show ?thesis using assms(2) by (simp add: hosts_differ_def)
qed (use checked_hosts in \<open>auto simp: editHostname_def removeHostname_def split: if_splits\<close>)

lemma hosts_edits:
  assumes "host_edits allHosts p q" and "eh_hasRefs p \<or> hosts_differ allHosts p"
  shows "eh_hasRefs q \<or> hosts_differ allHosts q"
  using assms by (induction rule: host_edits.induct) (auto dest: hosts_edit)

text \<open>
  C27. Along any editing, adding and removing of host names, a page whose host names differ when it is opened lets the
  namespace be updated only while the host names that are filled in differ from each other and from those of the other
  namespaces. Restoring a removed host name is outside of this: it is not compared again, so a host name that was given
  to another row in between is sent twice.
\<close>

theorem edited_hosts_differ:
  assumes "eh_hasRefs p \<or> hosts_differ allHosts p" and "host_edits allHosts p q"
    and "\<not> isUpdateButtonDisabled busy cpu memory form q"
  shows "distinct (filled_hosts (eh_classes q)) \<and> set (filled_hosts (eh_classes q)) \<inter> set allHosts = {}"
  using hosts_edits [OF assms(2,1)] assms(3) by (simp add: isUpdateButtonDisabled_def hosts_differ_def)

definition stored_row :: "string \<Rightarrow> host_row" where
  "stored_row t = new_host_row\<lparr>hr_Host := Some t, hr_IsNew := False\<rparr>"

definition opened_page :: hosts_page where
  "opened_page = \<lparr>eh_classes = [[stored_row ''a'']], eh_hasRefs = False\<rparr>"

definition given_page :: hosts_page where
  "given_page = opened_page\<lparr>eh_classes :=
     [[(stored_row ''a'')\<lparr>hr_NeedsDeletion := True\<rparr>, new_host_row\<lparr>hr_Host := Some ''a''\<rparr>]]\<rparr>"

lemma given_page_reached: "host_edits [''b''] opened_page given_page"
proof -
  have "removeHostname [''b''] 0 0 opened_page = Some (opened_page\<lparr>eh_classes := [[(stored_row ''a'')\<lparr>hr_NeedsDeletion := True\<rparr>]]\<rparr>)"
    by code_simp
  note 1 = host_edits.edited [OF host_edits.opened host_edit.intros(3) [OF this]]
  note 2 = host_edits.edited [OF 1 host_edit.intros(2) [of 0]]
  have "editHostname [''b''] 0 1 (Some ''a'')
      (addHostname 0 (opened_page\<lparr>eh_classes := [[(stored_row ''a'')\<lparr>hr_NeedsDeletion := True\<rparr>]]\<rparr>)) = Some given_page"
    by code_simp
  from host_edits.edited [OF 2 host_edit.intros(1) [OF this]] show ?thesis by (simp add: opened_page_def)
qed

theorem edited_hosts_differ_witness:
  "host_edits [''b''] opened_page given_page \<and> filled_hosts (eh_classes given_page) = [''a''] \<and>
   distinct (filled_hosts (eh_classes given_page)) \<and> set (filled_hosts (eh_classes given_page)) \<inter> set [''b''] = {} \<and>
   (\<exists>q. restoreHostname 0 0 given_page = Some q \<and> filled_hosts (eh_classes q) = [''a'', ''a''] \<and>
      \<not> isUpdateButtonDisabled False None None new_pool_form q)"
proof -
  have o: "eh_hasRefs opened_page \<or> hosts_differ [''b''] opened_page" by code_simp
  have e: "\<not> isUpdateButtonDisabled False None None new_pool_form given_page" by code_simp
  have f: "filled_hosts (eh_classes given_page) = [''a'']" by code_simp
  have "restoreHostname 0 0 given_page = Some (given_page\<lparr>eh_classes :=
     [[stored_row ''a'', new_host_row\<lparr>hr_Host := Some ''a''\<rparr>]]\<rparr>)" by code_simp
  moreover have "filled_hosts [[stored_row ''a'', new_host_row\<lparr>hr_Host := Some ''a''\<rparr>]] = [''a'', ''a'']" by code_simp
  moreover have "\<not> isUpdateButtonDisabled False None None new_pool_form (given_page\<lparr>eh_classes :=
     [[stored_row ''a'', new_host_row\<lparr>hr_Host := Some ''a''\<rparr>]]\<rparr>)" by code_simp
  ultimately show ?thesis
    using given_page_reached f edited_hosts_differ [OF o given_page_reached e] by (intro conjI exI) simp_all
qed

end
