(* ===== verification/ContainerPage.thy ===== *)
theory ContainerPage
  imports ContainerReplacement
begin

text \<open>
  The page of a container, \<open>docker/views/containers/edit/containerController.js\<close>: what it shows, its buttons, and how a
  container is created again from its own configuration, with \<open>configFromContainer\<close> of
  \<open>docker/helpers/containerHelper.js\<close> and the search for the registry of an image in
  \<open>portainer/services/api/registryService.js\<close>. The chain of promises is made of the steps of \<open>ContainerCreation\<close>.
\<close>

section \<open>The registry of an image\<close>

definition getURL :: "registry \<Rightarrow> string" where
  "getURL r = (case reg_Type r of
       GITLAB \<Rightarrow> reg_URL r @ ''/'' @ reg_ProjectPath r
     | QUAY \<Rightarrow> reg_URL r @ ''/'' @ (if reg_UseOrganisation r then reg_OrganisationName r else reg_Username r)
     | _ \<Rightarrow> reg_URL r)"

definition DockerHubViewModel :: registry where
  "DockerHubViewModel = \<lparr>reg_Type = ANONYMOUS, reg_URL = ''docker.io'', reg_Username = [], reg_ProjectPath = [],
     reg_UseOrganisation = False, reg_OrganisationName = []\<rparr>"

text \<open>\<open>lastIndexOf\<close> with a text, \<open>None\<close> for -1.\<close>

definition last_sub :: "string \<Rightarrow> string \<Rightarrow> nat option" where
  "last_sub s p = (case filter (\<lambda>i. starts_with (drop i s) p) [0..<Suc (length s)] of [] \<Rightarrow> None | is \<Rightarrow> Some (last is))"

text \<open>The registry that an image is taken from when no identifier of a registry is given.\<close>

definition matches_registry :: "string \<Rightarrow> registry \<Rightarrow> bool" where
  "matches_registry repository r =
     contains repository (if reg_Type r = DOCKERHUB then reg_Username r else getURL r)"

definition retrievePorRegistryModel :: "string \<Rightarrow> registry list \<Rightarrow> image_model" where
  "retrievePorRegistryModel repository registries = (case find (matches_registry repository) registries of
       Some r \<Rightarrow>
         (let url = getURL r;
              img = drop (case last_sub repository url of None \<Rightarrow> 0 | Some i \<Rightarrow> i + length url) repository
          in \<lparr>im_UseRegistry = True, im_Registry = r,
              im_Image = (if starts_with img ''/'' then drop 1 img else img)\<rparr>)
     | None \<Rightarrow> \<lparr>im_UseRegistry = \<not> imageContainsURL repository, im_Registry = DockerHubViewModel,
               im_Image = repository\<rparr>)"

section \<open>The configuration of a container\<close>

text \<open>
  A container as the engine describes it. Its configuration and that of its host are the fields of a request that
  creates it, apart from the networks, the mounts, and the exposed ports, which may be missing.
\<close>

record inspected_container =
  ic_Id :: string
  ic_Name :: string
  ic_Running :: bool
  ic_Config :: container_request
  ic_ExposedPorts :: "unit obj option"
  ic_Networks :: "endpoint_settings obj"
  ic_Mounts :: "mount list"
  ic_Control :: "rc_view option"

definition configured_name :: "string \<Rightarrow> string" where
  "configured_name name = (if starts_with name ''/'' then drop 1 name else name)"

definition configFromContainer :: "inspected_container \<Rightarrow> string \<times> container_request" where
  "configFromContainer c =
     (let q = ic_Config c; net = q_Network q; shared = contains (nc_NetworkMode net) ''container:'';
          binds = container_binds (ic_Mounts c)
      in (configured_name (ic_Name c),
          q\<lparr>q_Network := net\<lparr>nc_EndpointsConfig := map (\<lambda>(n, es). (n, Some es)) (ic_Networks c),
                nc_Hostname := (if shared then None else nc_Hostname net)\<rparr>,
            q_ExposedPorts := (if shared then [] else (case ic_ExposedPorts c of None \<Rightarrow> [] | Some ps \<Rightarrow> ps)),
            q_Binds := fst binds, q_Volumes := snd binds\<rparr>))"

section \<open>Creating a container again\<close>

text \<open>What the user asks for, with the registries that were answered.\<close>

record recreation =
  re_container :: inspected_container
  re_pullImage :: bool
  re_registries :: "string + registry list"
  re_userId :: nat

definition re_pull :: "engine \<Rightarrow> recreation \<Rightarrow> unit step" where
  "re_pull eng rec =
     (if \<not> re_pullImage rec then resolve ()
      else (case re_registries rec of
          Inl e \<Rightarrow> reject (WithMsg ''Unable to retrieve the registry associated to the repository'' (EngineError e))
        | Inr regs \<Rightarrow> pullImageAndIgnoreErrors eng
            (createImageConfigForContainer (retrievePorRegistryModel (q_Image (ic_Config (re_container rec))) regs))))"

definition re_stop :: "engine \<Rightarrow> inspected_container \<Rightarrow> unit step" where
  "re_stop eng c = (if \<not> ic_Running c then resolve () else stopContainer eng (ic_Id c))"

definition re_rename :: "engine \<Rightarrow> inspected_container \<Rightarrow> unit step" where
  "re_rename eng c = renameContainer eng (ic_Id c) (ic_Name c @ ''-old'')"

text \<open>
  With several networks the first one is to be the only one of the request. Its settings are read as the entry \<open>0\<close> of
  the networks, which are kept by their names.
\<close>

definition setMainNetwork :: "inspected_container \<Rightarrow> string \<times> container_request" where
  "setMainNetwork c =
     (let (name, q) = configFromContainer c; nets = ic_Networks c; names = obj_keys nets
      in if length names > 1
         then (name, q\<lparr>q_Network := (q_Network q)\<lparr>nc_EndpointsConfig := [(hd names, obj_get nets ''0'')]\<rparr>\<rparr>)
         else (name, q))"

definition re_create :: "engine \<Rightarrow> inspected_container \<Rightarrow> new_container step" where
  "re_create eng c = (let (name, q) = setMainNetwork c in createContainer eng name q)"

text \<open>The promises of the connections are not returned: the requests are sent, and their answers are not looked at.\<close>

fun connect_all :: "engine \<Rightarrow> string \<Rightarrow> string list \<Rightarrow> unit step" where
  "connect_all eng i [] s = resolve () s"
| "connect_all eng i (n # ns) s = connect_all eng i ns (snd (send eng (ConnectNetwork n i None) s))"

definition re_start :: "engine \<Rightarrow> inspected_container \<Rightarrow> new_container \<Rightarrow> unit step" where
  "re_start eng c new = (if \<not> ic_Running c then resolve () else startContainer eng (new_Id new))"

definition re_control :: "engine \<Rightarrow> recreation \<Rightarrow> new_container \<Rightarrow> unit step" where
  "re_control eng rec new = (case new_Control new of
       None \<Rightarrow> reject (Script TypeError)
     | Some rc \<Rightarrow> step_then
         (send eng (ApplyControl (duplicateResourceControl (re_userId rec) (ic_Control (re_container rec)) rc)))
         (\<lambda>_. resolve ()))"

definition re_success :: "unit step" where
  "re_success = step_then (notify (NotifySuccess ''Container successfully re-created'' []))
                  (\<lambda>_ s. (Inr (), s\<lparr>s_left := True\<rparr>))"

definition re_failed :: "failure \<Rightarrow> unit step" where
  "re_failed e = step_then (notify (NotifyError e ''Unable to re-create container''))
                   (\<lambda>_ s. (Inr (), s\<lparr>s_actionInProgress := False\<rparr>))"

definition recreate_steps :: "engine \<Rightarrow> recreation \<Rightarrow> unit step" where
  "recreate_steps eng rec =
     (let c = re_container rec in
     step_then (re_pull eng rec) (\<lambda>_.
     step_then (re_stop eng c) (\<lambda>_.
     step_then (re_rename eng c) (\<lambda>_.
     step_then (re_create eng c) (\<lambda>new.
     step_then (connect_all eng (new_Id new) (obj_keys (ic_Networks c))) (\<lambda>_.
     step_then (re_start eng c new) (\<lambda>_.
     step_then (re_control eng rec new) (\<lambda>_.
     step_then (remove_container eng (ic_Id c)) (\<lambda>_. re_success)))))))))"

definition recreateContainer :: "engine \<Rightarrow> recreation \<Rightarrow> session" where
  "recreateContainer eng rec =
     snd (step_catch (recreate_steps eng rec) re_failed (fresh\<lparr>s_actionInProgress := True\<rparr>))"

text \<open>The dialog answers with nothing, or with whether the image is to be pulled.\<close>

definition recreate :: "engine \<Rightarrow> bool option \<Rightarrow> recreation \<Rightarrow> session" where
  "recreate eng result rec = (case result of
       None \<Rightarrow> fresh | Some pull \<Rightarrow> recreateContainer eng (rec\<lparr>re_pullImage := pull\<rparr>))"

section \<open>What the page shows\<close>

definition shown_bindings :: "(string \<times> string) list option obj \<Rightarrow> (string \<times> string) list" where
  "shown_bindings ports = concat (map (\<lambda>(key, bs). case bs of
       None \<Rightarrow> [] | Some ms \<Rightarrow> map (\<lambda>(ip, port). (key, ip @ '':'' @ port)) ms) (obj_entries ports))"

record security_settings =
  sec_capabilities :: bool
  sec_hostNamespace :: bool
  sec_devices :: bool
  sec_sysctls :: bool
  sec_bindMounts :: bool
  sec_privileged :: bool

definition settingRestrictsRegularUsers :: "security_settings \<Rightarrow> bool" where
  "settingRestrictsRegularUsers s \<longleftrightarrow> \<not> sec_capabilities s \<or> \<not> sec_bindMounts s \<or> \<not> sec_devices s \<or> \<not> sec_sysctls s \<or>
     \<not> sec_hostNamespace s \<or> \<not> sec_privileged s"

definition displayRecreateButton :: "string obj \<Rightarrow> bool \<Rightarrow> bool \<Rightarrow> security_settings \<Rightarrow> bool" where
  "displayRecreateButton labels autoRemove admin s \<longleftrightarrow>
     \<not> truthy_str (obj_get labels ''com.docker.swarm.service.id'') \<and> \<not> autoRemove \<and>
     (admin \<or> \<not> settingRestrictsRegularUsers s)"

section \<open>The other buttons\<close>

datatype container_action = StartIt | StopIt | KillIt | PauseIt | UnpauseIt | RestartIt

definition action_messages :: "container_action \<Rightarrow> string \<times> string" where
  "action_messages a = (case a of
       StartIt \<Rightarrow> (''Container successfully started'', ''Unable to start container'')
     | StopIt \<Rightarrow> (''Container successfully stopped'', ''Unable to stop container'')
     | KillIt \<Rightarrow> (''Container successfully killed'', ''Unable to kill container'')
     | PauseIt \<Rightarrow> (''Container successfully paused'', ''Unable to pause container'')
     | UnpauseIt \<Rightarrow> (''Container successfully resumed'', ''Unable to resume container'')
     | RestartIt \<Rightarrow> (''Container successfully restarted'', ''Unable to restart container''))"

text \<open>The answer to an action; after a success the container is read again.\<close>

definition executeContainerAction :: "string \<Rightarrow> container_action \<Rightarrow> string + unit \<Rightarrow> notification \<times> bool" where
  "executeContainerAction i a r = (case r of
       Inr _ \<Rightarrow> (NotifySuccess (fst (action_messages a)) i, True)
     | Inl e \<Rightarrow> (NotifyError (EngineError e) (snd (action_messages a)), False))"

record container_names =
  cn_Name :: string
  cn_newContainerName :: string
  cn_edit :: bool

definition loaded_names :: "string \<Rightarrow> container_names" where
  "loaded_names name = \<lparr>cn_Name = name, cn_newContainerName = trimcontainername (Some name), cn_edit = False\<rparr>"

definition rename_answered :: "string + unit \<Rightarrow> container_names \<Rightarrow> container_names" where
  "rename_answered r p = (case r of
       Inr _ \<Rightarrow> p\<lparr>cn_Name := cn_newContainerName p, cn_edit := False\<rparr>
     | Inl e \<Rightarrow> p\<lparr>cn_newContainerName := cn_Name p, cn_edit := False\<rparr>)"

record shown_policy =
  rp_PolicyName :: string
  rp_MaximumRetryCount :: "nat option"

definition requested_policy :: "string \<Rightarrow> nat option \<Rightarrow> shown_policy" where
  "requested_policy restartPolicy n =
     \<lparr>rp_PolicyName = restartPolicy, rp_MaximumRetryCount = (if restartPolicy = ''on-failure'' then n else None)\<rparr>"

definition updateRestartPolicy :: "string \<Rightarrow> nat option \<Rightarrow> string + unit \<Rightarrow> shown_policy \<Rightarrow> (failure + shown_policy)" where
  "updateRestartPolicy restartPolicy n r old = (case r of
       Inr _ \<Rightarrow> Inr (requested_policy restartPolicy n) | Inl e \<Rightarrow> Inl (EngineError e))"

definition confirmRemove :: "engine \<Rightarrow> inspected_container \<Rightarrow> bool option \<Rightarrow> session" where
  "confirmRemove eng c result = (case result of
       None \<Rightarrow> fresh
     | Some cleanAssociatedVolumes \<Rightarrow> snd (step_catch
         (step_then (remove_container eng (ic_Id c)) (\<lambda>_.
          step_then (notify (NotifySuccess ''Container successfully removed'' [])) (\<lambda>_ s. (Inr (), s\<lparr>s_left := True\<rparr>))))
         (\<lambda>e. notify (NotifyError e ''Unable to remove container'')) fresh))"

section \<open>The order of the requests\<close>

fun is_removal :: "exchange \<Rightarrow> bool" where
  "is_removal (Sent (RemoveContainer i) r) = True"
| "is_removal _ = False"

definition removal_free :: "exchange list \<Rightarrow> bool" where
  "removal_free l \<longleftrightarrow> (\<forall>x \<in> set l. \<not> is_removal x)"

lemma removal_free_append [simp]:
  "removal_free []"
  "removal_free (l @ l') \<longleftrightarrow> removal_free l \<and> removal_free l'"
  "removal_free [x] \<longleftrightarrow> \<not> is_removal x"
  by (auto simp: removal_free_def)

definition re_created :: "recreation \<Rightarrow> exchange list \<Rightarrow> new_container \<Rightarrow> bool" where
  "re_created rec l new \<longleftrightarrow>
     Creation (fst (setMainNetwork (re_container rec))) (snd (setMainNetwork (re_container rec))) (Inr new) \<in> set l"

definition re_started :: "recreation \<Rightarrow> exchange list \<Rightarrow> new_container \<Rightarrow> bool" where
  "re_started rec l new \<longleftrightarrow> (ic_Running (re_container rec) \<longrightarrow> (\<exists>m. Sent (StartContainer (new_Id new)) (Inr m) \<in> set l))"

definition re_controlled :: "recreation \<Rightarrow> exchange list \<Rightarrow> new_container \<Rightarrow> bool" where
  "re_controlled rec l new \<longleftrightarrow> (\<exists>rc m. new_Control new = Some rc \<and>
     Sent (ApplyControl (duplicateResourceControl (re_userId rec) (ic_Control (re_container rec)) rc)) (Inr m) \<in> set l)"

lemmas re_defs = re_created_def re_started_def re_controlled_def

definition orderly :: "recreation \<Rightarrow> exchange list \<Rightarrow> bool" where
  "orderly rec l \<longleftrightarrow> removal_free l \<or>
     (\<exists>pre r new. l = pre @ [Sent (RemoveContainer (ic_Id (re_container rec))) r] \<and> removal_free pre \<and>
        re_created rec pre new \<and> re_started rec pre new \<and> re_controlled rec pre new)"

lemma orderly_free: "removal_free l \<Longrightarrow> orderly rec l"
  by (simp add: orderly_def)

text \<open>The steps before the creation, for a property of the log that their requests keep.\<close>

lemma triple_re_pull:
  assumes "\<And>l img r. P l \<Longrightarrow> P (l @ [Sent (PullImage img) r])" and "\<And>l. P l \<Longrightarrow> E l"
  shows "triple (\<lambda>s. P (s_log s)) (re_pull eng rec) (\<lambda>_ s. P (s_log s)) (\<lambda>_ s. E (s_log s))"
proof (cases "re_pullImage rec")
  case False
  then show ?thesis by (simp add: re_pull_def triple_resolve)
next
  case True
  have "triple (\<lambda>s. P (s_log s)) (pullImageAndIgnoreErrors eng img) (\<lambda>_ s. P (s_log s)) (\<lambda>_ s. E (s_log s))" for img
    unfolding pullImageAndIgnoreErrors_def
    by (rule triple_catch [where E = "\<lambda>_ s. P (s_log s)"], rule triple_then [where Q = "\<lambda>_ s. P (s_log s)"])
       (simp_all add: triple_send triple_resolve assms(1))
  with True show ?thesis by (auto simp: re_pull_def triple_reject assms(2) split: sum.split)
qed

lemma triple_re_send:
  assumes "\<And>l m. P l \<Longrightarrow> Q (l @ [Sent a (Inr m)])" and "\<And>l e. P l \<Longrightarrow> E (l @ [Sent a (Inl e)])"
  shows "triple (\<lambda>s. P (s_log s)) (step_then (send eng a) (\<lambda>_. resolve ())) (\<lambda>_ s. Q (s_log s)) (\<lambda>_ s. E (s_log s))"
  by (rule triple_then [where Q = "\<lambda>_ s. Q (s_log s)"]) (simp_all add: triple_send triple_resolve assms)

lemma triple_re_stop:
  assumes "\<And>l m. P l \<Longrightarrow> ic_Running c \<Longrightarrow> Q (l @ [Sent (StopContainer (ic_Id c)) (Inr m)])"
    and "\<And>l e. P l \<Longrightarrow> E (l @ [Sent (StopContainer (ic_Id c)) (Inl e)])" and "\<And>l. P l \<Longrightarrow> \<not> ic_Running c \<Longrightarrow> Q l"
  shows "triple (\<lambda>s. P (s_log s)) (re_stop eng c) (\<lambda>_ s. Q (s_log s)) (\<lambda>_ s. E (s_log s))"
  by (cases "ic_Running c") (simp_all add: re_stop_def stopContainer_def triple_resolve triple_re_send assms)

lemma triple_re_create:
  assumes "\<And>l new. P l \<Longrightarrow> Q new (l @ [Creation (fst (setMainNetwork c)) (snd (setMainNetwork c)) (Inr new)])"
    and "\<And>l e. P l \<Longrightarrow> E (l @ [Creation (fst (setMainNetwork c)) (snd (setMainNetwork c)) (Inl e)])"
  shows "triple (\<lambda>s. P (s_log s)) (re_create eng c) (\<lambda>new s. Q new (s_log s)) (\<lambda>_ s. E (s_log s))"
  unfolding re_create_def createContainer_def Let_def case_prod_unfold
  by (rule triple_catch [where E = "\<lambda>_ s. E (s_log s)"]) (simp_all add: triple_post triple_reject assms)

lemma triple_connect_all:
  assumes "\<And>l n r. P l \<Longrightarrow> P (l @ [Sent (ConnectNetwork n i None) r])"
  shows "triple (\<lambda>s. P (s_log s)) (connect_all eng i ns) (\<lambda>_ s. P (s_log s)) (\<lambda>_ s. E (s_log s))"
proof (rule tripleI)
  fix s :: session assume "P (s_log s)"
  then show "case connect_all eng i ns s of (Inl e, t) \<Rightarrow> E (s_log t) | (Inr x, t) \<Rightarrow> P (s_log t)"
    by (induction ns arbitrary: s) (simp_all add: resolve_def send_def Let_def assms)
qed

lemma triple_re_start:
  assumes "\<And>l m. P l \<Longrightarrow> ic_Running c \<Longrightarrow> Q (l @ [Sent (StartContainer (new_Id new)) (Inr m)])"
    and "\<And>l e. P l \<Longrightarrow> E (l @ [Sent (StartContainer (new_Id new)) (Inl e)])" and "\<And>l. P l \<Longrightarrow> \<not> ic_Running c \<Longrightarrow> Q l"
  shows "triple (\<lambda>s. P (s_log s)) (re_start eng c new) (\<lambda>_ s. Q (s_log s)) (\<lambda>_ s. E (s_log s))"
  by (cases "ic_Running c") (simp_all add: re_start_def startContainer_def triple_resolve triple_re_send assms)

lemma triple_re_control:
  assumes "\<And>l m rc. P l \<Longrightarrow> new_Control new = Some rc \<Longrightarrow>
      Q (l @ [Sent (ApplyControl (duplicateResourceControl (re_userId rec) (ic_Control (re_container rec)) rc)) (Inr m)])"
    and "\<And>l a e. P l \<Longrightarrow> E (l @ [Sent (ApplyControl a) (Inl e)])" and "\<And>l. P l \<Longrightarrow> E l"
  shows "triple (\<lambda>s. P (s_log s)) (re_control eng rec new) (\<lambda>_ s. Q (s_log s)) (\<lambda>_ s. E (s_log s))"
  by (cases "new_Control new") (simp_all add: re_control_def triple_reject triple_re_send assms)

lemma triple_remove:
  assumes "\<And>l r. P l \<Longrightarrow> E (l @ [Sent (RemoveContainer i) r])"
  shows "triple (\<lambda>s. P (s_log s)) (remove_container eng i) (\<lambda>_ s. E (s_log s)) (\<lambda>_ s. E (s_log s))"
proof (rule tripleI)
  fix s :: session assume "P (s_log s)"
  then show "case remove_container eng i s of (Inl e, t) \<Rightarrow> E (s_log t) | (Inr x, t) \<Rightarrow> E (s_log t)"
    using assms by (cases "eng_send eng (s_log s) (RemoveContainer i)")
      (simp_all add: remove_container_def step_then_def step_catch_def send_def resolve_def reject_def split: option.split)
qed

text \<open>
  Properties of the log between the steps: \<open>P0\<close> before the container is stopped, \<open>P1\<close> before it is renamed, \<open>P2\<close> before
  the new one is created, \<open>P3\<close> while it is connected, \<open>P4\<close> when it runs, \<open>P5\<close> when it has its access, and \<open>E\<close> at the end,
  wherever that is.
\<close>

locale recreation_invariant =
  fixes rec :: recreation and P0 P1 P2 :: "exchange list \<Rightarrow> bool" and P3 P4 P5 :: "new_container \<Rightarrow> exchange list \<Rightarrow> bool"
    and E :: "exchange list \<Rightarrow> bool"
  assumes start: "P0 []"
    and pulled: "P0 l \<Longrightarrow> P0 (l @ [Sent (PullImage img) a])"
    and unpulled: "P0 l \<Longrightarrow> E l"
    and stopped: "P0 l \<Longrightarrow> ic_Running (re_container rec) \<Longrightarrow> P1 (l @ [Sent (StopContainer (ic_Id (re_container rec))) (Inr m)])"
    and unstopped: "P0 l \<Longrightarrow> E (l @ [Sent (StopContainer (ic_Id (re_container rec))) (Inl e)])"
    and resting: "P0 l \<Longrightarrow> \<not> ic_Running (re_container rec) \<Longrightarrow> P1 l"
    and renamed: "P1 l \<Longrightarrow>
      P2 (l @ [Sent (RenameContainer (ic_Id (re_container rec)) (ic_Name (re_container rec) @ ''-old'')) (Inr m)])"
    and unrenamed: "P1 l \<Longrightarrow>
      E (l @ [Sent (RenameContainer (ic_Id (re_container rec)) (ic_Name (re_container rec) @ ''-old'')) (Inl e)])"
    and created: "P2 l \<Longrightarrow> P3 new (l @ [Creation (fst (setMainNetwork (re_container rec)))
      (snd (setMainNetwork (re_container rec))) (Inr new)])"
    and uncreated: "P2 l \<Longrightarrow> E (l @ [Creation (fst (setMainNetwork (re_container rec)))
      (snd (setMainNetwork (re_container rec))) (Inl e)])"
    and connected: "P3 new l \<Longrightarrow> P3 new (l @ [Sent (ConnectNetwork n (new_Id new) None) a])"
    and started: "P3 new l \<Longrightarrow> ic_Running (re_container rec) \<Longrightarrow> P4 new (l @ [Sent (StartContainer (new_Id new)) (Inr m)])"
    and unstarted: "P3 new l \<Longrightarrow> E (l @ [Sent (StartContainer (new_Id new)) (Inl e)])"
    and still: "P3 new l \<Longrightarrow> \<not> ic_Running (re_container rec) \<Longrightarrow> P4 new l"
    and controlled: "P4 new l \<Longrightarrow> new_Control new = Some rc \<Longrightarrow>
      P5 new (l @ [Sent (ApplyControl (duplicateResourceControl (re_userId rec) (ic_Control (re_container rec)) rc)) (Inr m)])"
    and uncontrolled: "P4 new l \<Longrightarrow> E (l @ [Sent (ApplyControl rq) (Inl e)])"
    and without_control: "P4 new l \<Longrightarrow> E l"
    and removed: "P5 new l \<Longrightarrow> E (l @ [Sent (RemoveContainer (ic_Id (re_container rec))) a])"
begin

lemma steps_triple:
  "triple (\<lambda>s. P0 (s_log s)) (recreate_steps eng rec) (\<lambda>_ s. E (s_log s)) (\<lambda>_ s. E (s_log s))"
  unfolding recreate_steps_def Let_def
proof (rule triple_then [where Q = "\<lambda>_ s. P0 (s_log s)"])
  let ?c = "re_container rec" and ?E = "\<lambda>_ s. E (s_log s)"
  show "triple (\<lambda>s. P0 (s_log s)) (re_pull eng rec) (\<lambda>_ s. P0 (s_log s)) ?E"
    by (rule triple_re_pull) (rule pulled unpulled, assumption)+
  have rest: "triple (\<lambda>s. P3 new (s_log s))
      (step_then (connect_all eng (new_Id new) (obj_keys (ic_Networks ?c))) (\<lambda>_.
       step_then (re_start eng ?c new) (\<lambda>_. step_then (re_control eng rec new) (\<lambda>_.
       step_then (remove_container eng (ic_Id ?c)) (\<lambda>_. re_success))))) ?E ?E" for new
  proof (rule triple_then [where Q = "\<lambda>_ s. P3 new (s_log s)"])
    show "triple (\<lambda>s. P3 new (s_log s)) (connect_all eng (new_Id new) (obj_keys (ic_Networks ?c))) (\<lambda>_ s. P3 new (s_log s)) ?E"
      by (rule triple_connect_all) (rule connected)
    have "triple (\<lambda>s. P3 new (s_log s)) (re_start eng ?c new) (\<lambda>_ s. P4 new (s_log s)) ?E"
      by (rule triple_re_start) (simp_all add: started unstarted still)
    moreover have "triple (\<lambda>s. P4 new (s_log s)) (re_control eng rec new) (\<lambda>_ s. P5 new (s_log s)) ?E"
      by (rule triple_re_control) (simp_all add: controlled uncontrolled without_control)
    moreover have "triple (\<lambda>s. P5 new (s_log s)) (remove_container eng (ic_Id ?c)) ?E ?E"
      by (rule triple_remove) (rule removed)
    moreover have "triple (\<lambda>s. E (s_log s)) re_success ?E ?E"
      by (simp add: triple_def re_success_def step_then_def notify_def)
    ultimately show "triple (\<lambda>s. P3 new (s_log s)) (step_then (re_start eng ?c new) (\<lambda>_. step_then (re_control eng rec new)
        (\<lambda>_. step_then (remove_container eng (ic_Id ?c)) (\<lambda>_. re_success)))) ?E ?E" for x
      by - (rule triple_then, assumption, rule triple_then, assumption, rule triple_then, assumption, assumption)
  qed
  have "triple (\<lambda>s. P0 (s_log s)) (re_stop eng ?c) (\<lambda>_ s. P1 (s_log s)) ?E"
    by (rule triple_re_stop) (simp_all add: stopped unstopped resting)
  moreover have "triple (\<lambda>s. P1 (s_log s)) (re_rename eng ?c) (\<lambda>_ s. P2 (s_log s)) ?E"
    unfolding re_rename_def renameContainer_def by (rule triple_re_send) (simp_all add: renamed unrenamed)
  moreover have "triple (\<lambda>s. P2 (s_log s)) (re_create eng ?c) (\<lambda>new s. P3 new (s_log s)) ?E"
    by (rule triple_re_create) (simp_all add: created uncreated)
  ultimately show "triple (\<lambda>s. P0 (s_log s)) (step_then (re_stop eng ?c) (\<lambda>_. step_then (re_rename eng ?c) (\<lambda>_.
      step_then (re_create eng ?c) (\<lambda>new. step_then (connect_all eng (new_Id new) (obj_keys (ic_Networks ?c))) (\<lambda>_.
      step_then (re_start eng ?c new) (\<lambda>_. step_then (re_control eng rec new) (\<lambda>_.
      step_then (remove_container eng (ic_Id ?c)) (\<lambda>_. re_success)))))))) ?E ?E" for x
    by - (rule triple_then, assumption, rule triple_then, assumption, rule triple_then, assumption, rule rest)
qed

lemma recreated: "E (s_log (recreateContainer eng rec))"
proof -
  let ?s = "fresh\<lparr>s_actionInProgress := True\<rparr>"
  have "P0 (s_log ?s)" using start by (simp add: fresh_def)
  from tripleD [OF steps_triple [of eng] this] show ?thesis
    by (auto simp: recreateContainer_def step_catch_def re_failed_def step_then_def notify_def split: prod.splits sum.splits)
qed

end

interpretation removal: recreation_invariant rec removal_free removal_free removal_free
    "\<lambda>new l. removal_free l \<and> re_created rec l new"
    "\<lambda>new l. removal_free l \<and> re_created rec l new \<and> re_started rec l new"
    "\<lambda>new l. removal_free l \<and> re_created rec l new \<and> re_started rec l new \<and> re_controlled rec l new"
    "orderly rec" for rec
  by unfold_locales (auto simp: re_defs orderly_def)

text \<open>
  C5. Whatever the engine answers, a container that is created again is removed by the last request only, and only after
  the new one was created from its configuration, was started when the old one had been running, and was given its access.
\<close>

theorem recreated_container_removed_last:
  assumes "s_log (recreateContainer eng rec) = pre @ Sent (RemoveContainer i) r # post"
  shows "i = ic_Id (re_container rec) \<and> post = [] \<and> (\<exists>new.
    Creation (fst (setMainNetwork (re_container rec))) (snd (setMainNetwork (re_container rec))) (Inr new) \<in> set pre \<and>
    (ic_Running (re_container rec) \<longrightarrow> (\<exists>m. Sent (StartContainer (new_Id new)) (Inr m) \<in> set pre)) \<and>
    (\<exists>rc m. new_Control new = Some rc \<and>
      Sent (ApplyControl (duplicateResourceControl (re_userId rec) (ic_Control (re_container rec)) rc)) (Inr m) \<in> set pre))"
proof -
  have "\<not> removal_free (pre @ Sent (RemoveContainer i) r # post)" by (simp add: removal_free_def)
  then obtain l a new where eq: "pre @ Sent (RemoveContainer i) r # post = l @ [Sent (RemoveContainer (ic_Id (re_container rec))) a]"
    and l: "removal_free l" "re_created rec l new" "re_started rec l new" "re_controlled rec l new"
    using removal.recreated [of rec eng] unfolding assms orderly_def by blast
  have "post = []"
  proof (cases post rule: rev_cases)
    case (snoc p x)
    with eq have "Sent (RemoveContainer i) r \<in> set l" by (metis append_Cons append_assoc butlast_snoc in_set_conv_decomp)
    with l(1) show ?thesis by (auto simp: removal_free_def)
  qed
  with eq l show ?thesis by (auto simp: re_defs)
qed

definition none_refused :: "exchange list \<Rightarrow> bool" where
  "none_refused l \<longleftrightarrow> (\<forall>n q e. Creation n q (Inl e) \<notin> set l)"

definition re_stopped :: "recreation \<Rightarrow> exchange list \<Rightarrow> bool" where
  "re_stopped rec l \<longleftrightarrow> (ic_Running (re_container rec) \<longrightarrow>
     (\<exists>m. Sent (StopContainer (ic_Id (re_container rec))) (Inr m) \<in> set l))"

definition re_renamed :: "recreation \<Rightarrow> exchange list \<Rightarrow> bool" where
  "re_renamed rec l \<longleftrightarrow> (\<exists>m. Sent (RenameContainer (ic_Id (re_container rec)) (ic_Name (re_container rec) @ ''-old'')) (Inr m) \<in> set l)"

definition ends_refused :: "recreation \<Rightarrow> exchange list \<Rightarrow> bool" where
  "ends_refused rec l \<longleftrightarrow> none_refused l \<or>
     (\<exists>pre n q e. l = pre @ [Creation n q (Inl e)] \<and> none_refused pre \<and> re_stopped rec pre \<and> re_renamed rec pre)"

interpretation refusal: recreation_invariant rec none_refused "\<lambda>l. none_refused l \<and> re_stopped rec l"
    "\<lambda>l. none_refused l \<and> re_stopped rec l \<and> re_renamed rec l" "\<lambda>new. none_refused" "\<lambda>new. none_refused"
    "\<lambda>new. none_refused" "ends_refused rec" for rec
  by unfold_locales (auto simp: none_refused_def re_stopped_def re_renamed_def ends_refused_def)

text \<open>
  C6. When the engine refuses the new container, the refusal is the last exchange: the old container, which was stopped
  if it was running and has been given another name, is neither started again nor given its name back.
\<close>

theorem refused_recreation_stays_stopped:
  assumes "Creation n q (Inl e) \<in> set (s_log (recreateContainer eng rec))"
  shows "\<exists>pre. s_log (recreateContainer eng rec) = pre @ [Creation n q (Inl e)] \<and>
    (ic_Running (re_container rec) \<longrightarrow> (\<exists>m. Sent (StopContainer (ic_Id (re_container rec))) (Inr m) \<in> set pre)) \<and>
    (\<exists>m. Sent (RenameContainer (ic_Id (re_container rec)) (ic_Name (re_container rec) @ ''-old'')) (Inr m) \<in> set pre)"
proof -
  have "\<not> none_refused (s_log (recreateContainer eng rec))" using assms by (auto simp: none_refused_def)
  then obtain pre n' q' e' where l: "s_log (recreateContainer eng rec) = pre @ [Creation n' q' (Inl e')]"
    and pre: "none_refused pre" "re_stopped rec pre" "re_renamed rec pre"
    using refusal.recreated [of rec eng] unfolding ends_refused_def by blast
  from assms pre(1) have "n' = n" "q' = q" "e' = e" unfolding l by (auto simp: none_refused_def)
  with l pre(2,3) show ?thesis by (auto simp: re_stopped_def re_renamed_def)
qed

section \<open>A container that is created again\<close>

definition web_request :: container_request where
  "web_request = \<lparr>q_Image = ''nginx:1'', q_Cmd = None, q_Entrypoint = None,
     q_Network = \<lparr>nc_NetworkMode = ''bridge'', nc_Hostname = None, nc_MacAddress = None, nc_EndpointsConfig = [], nc_Dns = [],
       nc_ExtraHosts = []\<rparr>,
     q_ExposedPorts = [], q_PortBindings = [], q_OpenStdin = False, q_Tty = False, q_Env = [], q_Binds = [], q_Volumes = [],
     q_Labels = [], q_Devices = [], q_Memory = None, q_MemoryReservation = None, q_LogConfig = None, q_CapAdd = [],
     q_CapDrop = [], q_Sysctls = []\<rparr>"

definition web_container :: inspected_container where
  "web_container = \<lparr>ic_Id = ''1'', ic_Name = ''/web'', ic_Running = True, ic_Config = web_request, ic_ExposedPorts = None,
     ic_Networks = [], ic_Mounts = [], ic_Control = None\<rparr>"

definition web_recreation :: recreation where
  "web_recreation = \<lparr>re_container = web_container, re_pullImage = False, re_registries = Inr [], re_userId = 1\<rparr>"

definition willing :: engine where
  "willing = \<lparr>eng_query = \<lambda>l f. Inr [], eng_create = \<lambda>l n q. Inr \<lparr>new_Id = ''2'',
       new_Control = Some \<lparr>rc_Id = 1, rc_Type = 1, rc_ResourceId = [], rc_UserAccesses = [], rc_TeamAccesses = [],
         rc_Public = False, rc_System = False\<rparr>\<rparr>, eng_send = \<lambda>l a. Inr None\<rparr>"

definition unwilling :: engine where
  "unwilling = willing\<lparr>eng_create := \<lambda>l n q. Inl ''conflict''\<rparr>"

lemmas re_steps = recreateContainer_def recreate_steps_def re_pull_def re_stop_def re_rename_def re_create_def re_start_def
  re_control_def re_success_def re_failed_def stopContainer_def renameContainer_def startContainer_def createContainer_def
  post_container_def remove_container_def send_def notify_def resolve_def reject_def step_then_def step_catch_def fresh_def

lemma recreated_simps:
  "re_container web_recreation = web_container" "\<not> re_pullImage web_recreation" "ic_Running web_container"
  "ic_Id web_container = ''1''" "obj_keys (ic_Networks web_container) = []" "fst (setMainNetwork web_container) = ''web''"
  by (simp_all add: web_recreation_def web_container_def setMainNetwork_def configFromContainer_def configured_name_def
      obj_keys_def key_order_def Let_def)

lemma web_removed: "\<exists>pre r. s_log (recreateContainer willing web_recreation) = pre @ Sent (RemoveContainer ''1'') r # []"
  by (simp add: re_steps recreated_simps willing_def case_prod_unfold Let_def)

theorem recreated_container_removed_last_witness:
  "\<exists>pre r new m. s_log (recreateContainer willing web_recreation) = pre @ [Sent (RemoveContainer ''1'') r] \<and>
     Creation ''web'' (snd (setMainNetwork web_container)) (Inr new) \<in> set pre \<and>
     Sent (StartContainer (new_Id new)) (Inr m) \<in> set pre"
proof -
  obtain pre r where l: "s_log (recreateContainer willing web_recreation) = pre @ Sent (RemoveContainer ''1'') r # []"
    using web_removed by blast
  from recreated_container_removed_last [OF l] l show ?thesis by (auto simp: recreated_simps)
qed

lemma web_refused: "Creation ''web'' (snd (setMainNetwork web_container)) (Inl ''conflict'') \<in>
    set (s_log (recreateContainer unwilling web_recreation))"
  by (simp add: re_steps recreated_simps unwilling_def willing_def case_prod_unfold Let_def)

theorem refused_recreation_stays_stopped_witness:
  "\<exists>pre m. s_log (recreateContainer unwilling web_recreation) =
     pre @ [Creation ''web'' (snd (setMainNetwork web_container)) (Inl ''conflict'')] \<and>
     Sent (StopContainer ''1'') (Inr m) \<in> set pre"
  using refused_recreation_stays_stopped [OF web_refused] by (auto simp: recreated_simps)

section \<open>The image that is pulled\<close>

lemma registry_image_name:
  assumes "reg_Type r \<notin> {DOCKERHUB, ANONYMOUS}" and "reg_URL r \<noteq> []" and "CHR '':'' \<in> set img"
  shows "createImageConfigForContainer \<lparr>im_UseRegistry = True, im_Registry = r, im_Image = img\<rparr> =
    getURL r @ (if reg_Type r = GITLAB \<and> starts_with img '':'' then [] else ''/'') @ img"
  using assms by (cases "reg_Type r") (simp_all add: createImageConfigForContainer_def buildImageFullURI_def full_image_name_def
      getURL_def)

text \<open>
  The image that is pulled before a container is created again is the part of its image from the last place on where
  the address of the first matching registry occurs. It is the image of the container exactly when that is its start: a
  registry whose address is only a part of the host lets another image be pulled.
\<close>

theorem pulled_image_is_own_iff:
  assumes "repository = host @ getURL r @ ''/'' @ img" and "find (matches_registry repository) regs = Some r"
    and "reg_Type r \<notin> {DOCKERHUB, ANONYMOUS}" and "reg_URL r \<noteq> []"
    and "last_sub repository (getURL r) = Some (length host)"
    and "CHR '':'' \<in> set img" and "\<not> starts_with img '':''"
  shows "createImageConfigForContainer (retrievePorRegistryModel repository regs) = getURL r @ ''/'' @ img \<and>
    (createImageConfigForContainer (retrievePorRegistryModel repository regs) = repository \<longleftrightarrow> host = [])"
proof -
  have "drop (length host + length (getURL r)) repository = CHR ''/'' # img" by (simp add: assms(1))
  then have "retrievePorRegistryModel repository regs = \<lparr>im_UseRegistry = True, im_Registry = r, im_Image = img\<rparr>"
    by (simp add: retrievePorRegistryModel_def assms(2,5) Let_def)
  then have "createImageConfigForContainer (retrievePorRegistryModel repository regs) = getURL r @ ''/'' @ img"
    using registry_image_name [OF assms(3,4,6)] assms(7) by simp
  then show ?thesis using assms(1) by auto
qed

definition team_registry :: registry where
  "team_registry = \<lparr>reg_Type = CUSTOM, reg_URL = ''r.io'', reg_Username = [], reg_ProjectPath = [],
     reg_UseOrganisation = False, reg_OrganisationName = []\<rparr>"

theorem pulled_image_is_own_iff_witness:
  "createImageConfigForContainer (retrievePorRegistryModel ''my-r.io/app:1'' [team_registry]) = ''r.io/app:1''"
proof -
  have "''my-r.io/app:1'' = ''my-'' @ getURL team_registry @ ''/'' @ ''app:1''"
    "find (matches_registry ''my-r.io/app:1'') [team_registry] = Some team_registry"
    "reg_Type team_registry \<notin> {DOCKERHUB, ANONYMOUS}" "reg_URL team_registry \<noteq> []"
    "last_sub ''my-r.io/app:1'' (getURL team_registry) = Some (length ''my-'')"
    "CHR '':'' \<in> set ''app:1''" "\<not> starts_with ''app:1'' '':''"
    by code_simp+
  from pulled_image_is_own_iff [OF this] show ?thesis by (simp add: team_registry_def getURL_def)
qed

end
