(* ===== verification/DataTables.thy ===== *)
theory DataTables
  imports BrowserStorage DockerHelpers KubeConfigs
begin

text \<open>
  The tables of the pages: \<open>portainer/components/datatables/genericDatatableController.js\<close> and the controllers that extend
  it. A table shows a part of the items, in an order, and the user selects rows by clicking on them, with the shift key
  for a range, or all at once; what the buttons of the page act on is the list of the selected items. The items are
  objects, and equality on their type stands for their identity. Whether an item is checked is a function of the table,
  and a missing mark counts as not checked.
\<close>

section \<open>The generic table\<close>

record 'i table =
  tb_selectAll :: bool
  tb_filtered :: "'i list"
  tb_selected :: "'i list"
  tb_first :: "'i option"
  tb_checked :: "'i \<Rightarrow> bool"

definition new_table :: "'i list \<Rightarrow> 'i table" where
  "new_table shown = \<lparr>tb_selectAll = False, tb_filtered = shown, tb_selected = [], tb_first = None, tb_checked = \<lambda>_. False\<rparr>"

definition selectedItemCount :: "'i table \<Rightarrow> nat" where
  "selectedItemCount t = length (tb_selected t)"

definition isBetween :: "int \<Rightarrow> int \<Rightarrow> int \<Rightarrow> bool" where
  "isBetween v a b \<longleftrightarrow> (a \<le> v \<and> v \<le> b) \<or> (b \<le> v \<and> v \<le> a)"

definition resetSelectionState :: "'i table \<Rightarrow> 'i table" where
  "resetSelectionState t = t\<lparr>tb_selectAll := False, tb_selected := [],
     tb_checked := (\<lambda>i. if i \<in> set (tb_filtered t) then False else tb_checked t i)\<rparr>"

text \<open>The items between two positions; the position of an item that is not shown is -1.\<close>

definition items_in_range :: "'i list \<Rightarrow> 'i \<Rightarrow> 'i \<Rightarrow> 'i list" where
  "items_in_range shown a b =
     map snd (filter (\<lambda>(k, i). isBetween (int k) (index_of shown a) (index_of shown b)) (enumerate 0 shown))"

text \<open>A click may be missing, and may be one with the shift key.\<close>

definition click_item :: "('i \<Rightarrow> bool) \<Rightarrow> 'i \<Rightarrow> bool option \<Rightarrow> 'i table \<Rightarrow> 'i table" where
  "click_item allow item event t = (case event of
       None \<Rightarrow> t
     | Some shift \<Rightarrow>
         (case (shift, tb_first t) of
            (True, Some f) \<Rightarrow>
              t\<lparr>tb_checked := (\<lambda>i. if i \<in> set (items_in_range (tb_filtered t) f item) \<and> allow i
                                   then tb_checked t f else tb_checked t i),
                tb_first := Some item\<rparr>
          | _ \<Rightarrow> t\<lparr>tb_checked := (tb_checked t)(item := \<not> tb_checked t item), tb_first := Some item\<rparr>))"

definition collect_selected :: "'i table \<Rightarrow> 'i table" where
  "collect_selected t = t\<lparr>tb_selected := filter (tb_checked t) (uniq (tb_selected t @ tb_filtered t))\<rparr>"

definition selectItem :: "('i \<Rightarrow> bool) \<Rightarrow> 'i \<Rightarrow> bool option \<Rightarrow> 'i table \<Rightarrow> 'i table" where
  "selectItem allow item event t =
     (let u = collect_selected (click_item allow item event t)
      in if event \<noteq> None \<and> tb_selectAll u \<and> length (tb_selected u) \<noteq> length (tb_filtered u)
         then u\<lparr>tb_selectAll := False\<rparr> else u)"

text \<open>The box of the head of the table has set the mark before all rows are visited.\<close>

definition select_row :: "('i \<Rightarrow> bool) \<Rightarrow> 'i \<Rightarrow> 'i table \<Rightarrow> 'i table" where
  "select_row allow item t =
     (if allow item \<and> tb_checked t item \<noteq> tb_selectAll t
      then selectItem allow item None (t\<lparr>tb_checked := (tb_checked t)(item := tb_selectAll t)\<rparr>) else t)"

definition selectAll :: "('i \<Rightarrow> bool) \<Rightarrow> bool \<Rightarrow> 'i table \<Rightarrow> 'i table" where
  "selectAll allow b t = fold (select_row allow) (tb_filtered t) (t\<lparr>tb_selectAll := b, tb_first := None\<rparr>)"

section \<open>The settings of a table\<close>

text \<open>The order, the text that is searched, and the limit of a page, which is kept as a text.\<close>

record table_settings =
  ts_orderBy :: string
  ts_reverse :: bool
  ts_textFilter :: "json option"
  ts_limit :: string

definition changeOrderBy ::
    "('s, 'z) storage_package_scheme \<Rightarrow> string \<Rightarrow> string \<Rightarrow> table_settings \<times> 's \<Rightarrow> table_settings \<times> 's" where
  "changeOrderBy L key orderField = (\<lambda>(t, s).
     let reverse = (if ts_orderBy t = orderField then \<not> ts_reverse t else False)
     in (t\<lparr>ts_reverse := reverse, ts_orderBy := orderField\<rparr>, setDataTableOrder L key (JStr orderField) reverse s))"

definition onTextFilterChange :: "string \<Rightarrow> table_settings \<Rightarrow> session_store \<Rightarrow> session_store" where
  "onTextFilterChange key t ss = setDataTableTextFilters key (ts_textFilter t) ss"

definition changePaginationLimit :: "('s, 'z) storage_package_scheme \<Rightarrow> string \<Rightarrow> table_settings \<Rightarrow> 's \<Rightarrow> 's" where
  "changePaginationLimit L key t s = setPaginationLimit L key (JStr (ts_limit t)) s"

definition setDefaults :: "('s, 'z) storage_package_scheme \<Rightarrow> string \<Rightarrow> bool \<Rightarrow> 's \<Rightarrow> table_settings \<Rightarrow> table_settings" where
  "setDefaults L key reverse s t = t\<lparr>ts_reverse := reverse, ts_limit := getPaginationLimit L key s\<rparr>"

fun order_text :: "json \<Rightarrow> string" where
  "order_text (JStr x) = x"
| "order_text _ = []"

definition restore_order :: "('s, 'z) storage_package_scheme \<Rightarrow> string \<Rightarrow> 's \<Rightarrow> table_settings \<Rightarrow> table_settings" where
  "restore_order L key s t = (case read_slot L (DataTableOrder key) s of
       JObj ob \<Rightarrow> t\<lparr>ts_reverse := (obj_get ob ''reverse'' = Some (JBool True)),
                   ts_orderBy := (case obj_get ob ''orderBy'' of None \<Rightarrow> [] | Some v \<Rightarrow> order_text v)\<rparr>
     | _ \<Rightarrow> t)"

definition restore_filter :: "string \<Rightarrow> session_store \<Rightarrow> table_settings \<Rightarrow> table_settings" where
  "restore_filter key ss t = (let v = getDataTableTextFilters key ss
     in if v \<noteq> Some JNull then t\<lparr>ts_textFilter := v\<rparr> else t)"

definition open_table ::
    "('s, 'z) storage_package_scheme \<Rightarrow> string \<Rightarrow> string \<Rightarrow> bool \<Rightarrow> 's \<Rightarrow> session_store \<Rightarrow> table_settings" where
  "open_table L key orderBy reverse s ss =
     restore_filter key ss (restore_order L key s (setDefaults L key reverse s
       \<lparr>ts_orderBy = orderBy, ts_reverse = False, ts_textFilter = None, ts_limit = show_int PAGINATION_MAX_ITEMS\<rparr>))"

text \<open>The table reads its data again from time to time; a timer is kept with its rate in seconds.\<close>

record repeater =
  rt_autoRefresh :: bool
  rt_refreshRate :: nat
  rt_timer :: "nat option"

definition stopRepeater :: "repeater \<Rightarrow> repeater" where
  "stopRepeater r = r\<lparr>rt_timer := None\<rparr>"

definition startRepeater :: "repeater \<Rightarrow> repeater" where
  "startRepeater r = r\<lparr>rt_timer := Some (rt_refreshRate r)\<rparr>"

definition onSettingsRepeaterChange :: "bool \<Rightarrow> repeater \<Rightarrow> repeater" where
  "onSettingsRepeaterChange hasCallback r =
     (let u = stopRepeater r in if hasCallback \<and> rt_autoRefresh u then startRepeater u else u)"

section \<open>Which rows can be selected\<close>

definition PREDEFINED_NETWORKS :: "string list" where
  "PREDEFINED_NETWORKS = [''host'', ''bridge'', ''none'']"

definition isSystemNetwork :: "string \<Rightarrow> bool" where
  "isSystemNetwork name \<longleftrightarrow> name \<in> set PREDEFINED_NETWORKS"

record network_item =
  nk_Id :: string
  nk_Name :: string

definition network_allowSelection :: "network_item \<Rightarrow> bool" where
  "network_allowSelection item \<longleftrightarrow> \<not> isSystemNetwork (nk_Name item)"

definition KUBERNETES_SYSTEM_NAMESPACES :: "string list" where
  "KUBERNETES_SYSTEM_NAMESPACES = [''kube-system'', ''kube-public'', ''kube-node-lease'', ''portainer'']"

definition isSystemNamespace :: "string \<Rightarrow> bool" where
  "isSystemNamespace namespace \<longleftrightarrow> namespace \<in> set KUBERNETES_SYSTEM_NAMESPACES"

definition isDefaultNamespace :: "string \<Rightarrow> bool" where
  "isDefaultNamespace namespace \<longleftrightarrow> namespace = ''default''"

record pool_item =
  po_Id :: string
  po_Namespace :: string

definition canManageAccess :: "pool_item \<Rightarrow> bool" where
  "canManageAccess item \<longleftrightarrow> po_Namespace item \<noteq> ''default'' \<and> \<not> isSystemNamespace (po_Namespace item)"

definition pool_disableRemove :: "pool_item \<Rightarrow> bool" where
  "pool_disableRemove item \<longleftrightarrow> isSystemNamespace (po_Namespace item) \<or> po_Namespace item = ''default''"

definition pool_isDisplayed :: "bool \<Rightarrow> bool \<Rightarrow> pool_item \<Rightarrow> bool" where
  "pool_isDisplayed showSystem isAdmin item \<longleftrightarrow> \<not> isSystemNamespace (po_Namespace item) \<or> (showSystem \<and> isAdmin)"

definition pool_allowSelection :: "pool_item \<Rightarrow> bool" where
  "pool_allowSelection item \<longleftrightarrow> \<not> pool_disableRemove item"

record application_item =
  ai_Id :: string
  ai_ResourcePool :: string
  ai_Owner :: "string option"

definition isExternalApplication :: "application_item \<Rightarrow> bool" where
  "isExternalApplication item \<longleftrightarrow> \<not> truthy_str (ai_Owner item)"

definition application_isDisplayed :: "bool \<Rightarrow> application_item \<Rightarrow> bool" where
  "application_isDisplayed showSystem item \<longleftrightarrow> \<not> isSystemNamespace (ai_ResourcePool item) \<or> showSystem"

definition application_allowSelection :: "application_item \<Rightarrow> bool" where
  "application_allowSelection item \<longleftrightarrow> \<not> isSystemNamespace (ai_ResourcePool item)"

record configuration_item =
  ci_Configuration :: configuration
  ci_IsRegistrySecret :: bool
  ci_Used :: bool

definition isSystemConfig :: "configuration_item \<Rightarrow> bool" where
  "isSystemConfig item \<longleftrightarrow> isSystemNamespace (cg_Namespace (ci_Configuration item)) \<or>
     isSystemToken (ci_Configuration item) \<or> ci_IsRegistrySecret item"

definition configuration_isDisplayed :: "bool \<Rightarrow> bool \<Rightarrow> configuration_item \<Rightarrow> bool" where
  "configuration_isDisplayed showSystem isAdmin item \<longleftrightarrow> \<not> isSystemConfig item \<or> (showSystem \<and> isAdmin)"

definition configuration_allowSelection :: "configuration_item \<Rightarrow> bool" where
  "configuration_allowSelection item \<longleftrightarrow> \<not> isSystemConfig item \<and> \<not> ci_Used item"

record volume_line =
  vi_Id :: string
  vi_Namespace :: string
  vi_Applications :: "string list"
  vi_Owner :: "string option"

definition volume_isUsed :: "volume_line \<Rightarrow> bool" where
  "volume_isUsed item \<longleftrightarrow> vi_Applications item \<noteq> []"

definition isExternalVolume :: "volume_line \<Rightarrow> bool" where
  "isExternalVolume item \<longleftrightarrow> \<not> truthy_str (vi_Owner item)"

definition volume_disableRemove :: "volume_line \<Rightarrow> bool" where
  "volume_disableRemove item \<longleftrightarrow> isSystemNamespace (vi_Namespace item) \<or> volume_isUsed item"

definition volume_isDisplayed :: "bool \<Rightarrow> volume_line \<Rightarrow> bool" where
  "volume_isDisplayed showSystem item \<longleftrightarrow> \<not> isSystemNamespace (vi_Namespace item) \<or> showSystem"

definition volume_allowSelection :: "volume_line \<Rightarrow> bool" where
  "volume_allowSelection item \<longleftrightarrow> \<not> volume_disableRemove item"

text \<open>The first user is the administrator that the server was started with.\<close>

definition user_allowSelection :: "nat \<Rightarrow> bool" where
  "user_allowSelection i \<longleftrightarrow> i \<noteq> 1"

record access_row =
  ax_Id :: nat
  ax_Inherited :: bool

definition access_disableRemove :: "bool \<Rightarrow> access_row \<Rightarrow> bool" where
  "access_disableRemove inheritFrom item \<longleftrightarrow> ax_Inherited item \<and> inheritFrom"

definition access_allowSelection :: "bool \<Rightarrow> access_row \<Rightarrow> bool" where
  "access_allowSelection inheritFrom item \<longleftrightarrow> \<not> access_disableRemove inheritFrom item"

section \<open>Containers, images and volumes\<close>

record container_flags =
  fl_noStopped :: bool
  fl_noRunning :: bool
  fl_noPaused :: bool

definition status_flags :: "string \<Rightarrow> container_flags \<Rightarrow> container_flags" where
  "status_flags status f =
     (if status = ''paused'' then f\<lparr>fl_noPaused := False\<rparr>
      else if status \<in> {''stopped'', ''created''} then f\<lparr>fl_noStopped := False\<rparr>
      else if status \<in> {''running'', ''healthy'', ''unhealthy'', ''starting''} then f\<lparr>fl_noRunning := False\<rparr>
      else f)"

definition updateSelectionState :: "('i \<Rightarrow> string) \<Rightarrow> 'i list \<Rightarrow> ('i \<Rightarrow> bool) \<Rightarrow> container_flags" where
  "updateSelectionState status dataset checked =
     fold (\<lambda>i f. if checked i then status_flags (status i) f else f) dataset
       \<lparr>fl_noStopped = True, fl_noRunning = True, fl_noPaused = True\<rparr>"

record state_filter =
  sf_label :: string
  sf_display :: bool

definition container_applyFilters :: "state_filter list \<Rightarrow> string \<Rightarrow> bool" where
  "container_applyFilters filters status \<longleftrightarrow> (\<exists>f \<in> set filters. sf_label f = status \<and> sf_display f)"

definition onStateFilterChange :: "state_filter list \<Rightarrow> bool" where
  "onStateFilterChange filters \<longleftrightarrow> (\<exists>f \<in> set filters. \<not> sf_display f)"

definition prepareTableFromDataset :: "string list \<Rightarrow> state_filter list" where
  "prepareTableFromDataset statuses = uniq_by sf_label (map (\<lambda>s. \<lparr>sf_label = s, sf_display = True\<rparr>) statuses)"

definition updateStoredFilters :: "state_filter list \<Rightarrow> bool \<Rightarrow> state_filter list \<Rightarrow> state_filter list \<times> bool" where
  "updateStoredFilters stored enabled filters =
     (let hidden = (\<lambda>f. case find (\<lambda>g. sf_label g = sf_label f) stored of None \<Rightarrow> False | Some g \<Rightarrow> \<not> sf_display g)
      in (map (\<lambda>f. if hidden f then f\<lparr>sf_display := False\<rparr> else f) filters, enabled \<or> list_ex hidden filters))"

definition nameTruncateSize :: "bool \<Rightarrow> nat" where
  "nameTruncateSize truncated = (if truncated then 32 else 256)"

text \<open>The table of images shows the used ones, the unused ones, or both; that of volumes has the same filter.\<close>

definition image_applyFilters :: "bool \<Rightarrow> bool \<Rightarrow> nat \<Rightarrow> bool" where
  "image_applyFilters showUsed showUnused containerCount \<longleftrightarrow>
     (containerCount = 0 \<and> showUnused) \<or> (containerCount \<noteq> 0 \<and> showUsed)"

definition usage_filter_enabled :: "bool \<Rightarrow> bool \<Rightarrow> bool" where
  "usage_filter_enabled showUsed showUnused \<longleftrightarrow> \<not> showUsed \<or> \<not> showUnused"

definition volume_applyFilters :: "bool \<Rightarrow> bool \<Rightarrow> bool \<Rightarrow> bool" where
  "volume_applyFilters showUsed showUnused dangling \<longleftrightarrow> (dangling \<and> showUnused) \<or> (\<not> dangling \<and> showUsed)"

section \<open>Rows that are opened\<close>

text \<open>The table of services keeps the identifiers of the opened rows in the store.\<close>

record 'i expansion =
  ex_expandAll :: bool
  ex_items :: "string list"
  ex_open :: "'i \<Rightarrow> bool"

definition expandItem :: "('i \<Rightarrow> string) \<Rightarrow> 'i \<Rightarrow> bool \<Rightarrow> 'i expansion \<Rightarrow> 'i expansion" where
  "expandItem ident item expanded e =
     e\<lparr>ex_open := (ex_open e)(item := expanded),
       ex_items := (if expanded then (if ident item \<in> set (ex_items e) then ex_items e else ex_items e @ [ident item])
                    else remove1 (ident item) (ex_items e))\<rparr>"

definition expandAll :: "('i \<Rightarrow> string) \<Rightarrow> 'i list \<Rightarrow> 'i expansion \<Rightarrow> 'i expansion" where
  "expandAll ident shown e =
     (let b = \<not> ex_expandAll e in fold (\<lambda>i. expandItem ident i b) shown (e\<lparr>ex_expandAll := b\<rparr>))"

definition expandItems :: "('i \<Rightarrow> string) \<Rightarrow> 'i list \<Rightarrow> string list \<Rightarrow> 'i expansion \<Rightarrow> 'i expansion" where
  "expandItems ident dataset stored e =
     (let u = fold (\<lambda>i e. if ident i \<noteq> [] \<and> ident i \<in> set (ex_items e) then expandItem ident i True e else e) dataset
                (e\<lparr>ex_items := stored\<rparr>)
      in if length (filter (ex_open u) dataset) = length dataset then u\<lparr>ex_expandAll := True\<rparr> else u)"

section \<open>Tables that read one page at a time\<close>

text \<open>
  A request for a page is sent with its first row, limit and search text, and any answer that arrives is shown. Requests
  are numbered in the order in which they are sent.
\<close>

record 'i paged =
  pd_pageNumber :: nat
  pd_limit :: nat
  pd_filter :: string
  pd_loading :: bool
  pd_shown :: "'i list"
  pd_total :: nat
  pd_sent :: "(nat \<times> nat \<times> string) list"

definition paginationChanged :: "'i paged \<Rightarrow> 'i paged" where
  "paginationChanged p = p\<lparr>pd_loading := True, pd_shown := [],
     pd_sent := pd_sent p @ [((pd_pageNumber p - 1) * pd_limit p + 1, pd_limit p, pd_filter p)]\<rparr>"

definition onPageChange :: "nat \<Rightarrow> 'i paged \<Rightarrow> 'i paged" where
  "onPageChange n p = paginationChanged (p\<lparr>pd_pageNumber := n\<rparr>)"

definition page_answered :: "string + ('i list \<times> nat) \<Rightarrow> 'i paged \<Rightarrow> 'i paged" where
  "page_answered r p = (case r of
       Inl e \<Rightarrow> p\<lparr>pd_loading := False\<rparr>
     | Inr (is, n) \<Rightarrow> p\<lparr>pd_shown := is, pd_total := n, pd_loading := False\<rparr>)"

section \<open>What the user can reach\<close>

inductive table_step :: "('i \<Rightarrow> bool) \<Rightarrow> 'i table \<Rightarrow> 'i table \<Rightarrow> bool" for allow where
  clicked: "i \<in> set (tb_filtered t) \<Longrightarrow> allow i \<Longrightarrow> table_step allow t (selectItem allow i (Some shift) t)"
| all_clicked: "table_step allow t (selectAll allow b t)"
| shown: "table_step allow t (t\<lparr>tb_filtered := items\<rparr>)"

inductive table_reach :: "('i \<Rightarrow> bool) \<Rightarrow> 'i table \<Rightarrow> bool" for allow where
  opened: "table_reach allow (new_table items)"
| step: "table_reach allow t \<Longrightarrow> table_step allow t u \<Longrightarrow> table_reach allow u"

definition selection_ok :: "('i \<Rightarrow> bool) \<Rightarrow> 'i table \<Rightarrow> bool" where
  "selection_ok allow t \<longleftrightarrow>
     distinct (tb_selected t) \<and> set (tb_selected t) = {i. tb_checked t i} \<and> (\<forall>i. tb_checked t i \<longrightarrow> allow i)"

lemma range_shown: "i \<in> set (items_in_range shown a b) \<Longrightarrow> i \<in> set shown"
  by (auto simp: items_in_range_def in_set_enumerate_eq)

lemma select_item_ok:
  assumes "\<forall>i. tb_checked (click_item allow item event t) i \<longrightarrow> (i \<in> set (tb_selected t) \<or> i \<in> set (tb_filtered t)) \<and> allow i"
    and "tb_selected (click_item allow item event t) = tb_selected t" and "tb_filtered (click_item allow item event t) = tb_filtered t"
  shows "selection_ok allow (selectItem allow item event t)"
  using assms by (auto simp: selectItem_def collect_selected_def Let_def selection_ok_def)

lemma click_item_keeps [simp]:
  "tb_selected (click_item allow item event t) = tb_selected t"
  "tb_filtered (click_item allow item event t) = tb_filtered t"
  "tb_selectAll (click_item allow item event t) = tb_selectAll t"
  by (simp_all add: click_item_def split: option.split bool.split)

lemma clicked_ok:
  assumes "selection_ok allow t" and "item \<in> set (tb_filtered t)" and "allow item"
  shows "selection_ok allow (selectItem allow item (Some shift) t)"
proof (rule select_item_ok)
  have c: "\<And>i. tb_checked t i \<Longrightarrow> i \<in> set (tb_selected t) \<and> allow i" using assms(1) by (auto simp: selection_ok_def)
  show "\<forall>i. tb_checked (click_item allow item (Some shift) t) i \<longrightarrow>
      (i \<in> set (tb_selected t) \<or> i \<in> set (tb_filtered t)) \<and> allow i"
    using c assms(2,3) by (auto simp: click_item_def dest: range_shown split: option.split bool.split if_splits)
qed simp_all

lemma select_row_simps [simp]:
  "tb_filtered (select_row allow i t) = tb_filtered t" "tb_selectAll (select_row allow i t) = tb_selectAll t"
  "tb_first (select_row allow i t) = tb_first t"
  "tb_checked (select_row allow i t) = (if allow i then (tb_checked t)(i := tb_selectAll t) else tb_checked t)"
  by (auto simp: select_row_def selectItem_def collect_selected_def click_item_def Let_def fun_upd_idem)

lemma select_row_ok:
  assumes "selection_ok allow t" and "item \<in> set (tb_filtered t)"
  shows "selection_ok allow (select_row allow item t)"
proof (cases "allow item \<and> tb_checked t item \<noteq> tb_selectAll t")
  case True
  let ?u = "t\<lparr>tb_checked := (tb_checked t)(item := tb_selectAll t)\<rparr>"
  have "selection_ok allow (selectItem allow item None ?u)"
    by (rule select_item_ok) (use assms True in \<open>auto simp: click_item_def selection_ok_def\<close>)
  with True show ?thesis by (simp add: select_row_def)
next
  case False
  show ?thesis using assms(1) unfolding select_row_def if_not_P [OF False] .
qed

lemma select_rows_ok:
  "selection_ok allow t \<Longrightarrow> set is \<subseteq> set (tb_filtered t) \<Longrightarrow> selection_ok allow (fold (select_row allow) is t)"
  by (induction "is" arbitrary: t) (simp_all add: select_row_ok)

lemma selectAll_ok: "selection_ok allow t \<Longrightarrow> selection_ok allow (selectAll allow b t)"
  unfolding selectAll_def by (rule select_rows_ok) (simp_all add: selection_ok_def)

lemma reached_ok: "table_reach allow t \<Longrightarrow> selection_ok allow t"
proof (induction rule: table_reach.induct)
  case (opened items)
  show ?case by (simp add: new_table_def selection_ok_def)
next
  case (step t u)
  from step(2) show ?case
  proof cases
    case (clicked i shift)
    with step(3) show ?thesis by (simp add: clicked_ok)
  next
    case (all_clicked b)
    with step(3) show ?thesis by (simp add: selectAll_ok)
  next
    case (shown items)
    with step(3) show ?thesis by (simp add: selection_ok_def)
  qed
qed

text \<open>
  C32. However rows are clicked on, ranges and all rows are chosen, and the rows that are shown change in between, the
  selected items are exactly the checked ones, each once, and none of them is one that the table does not let be selected.
\<close>

theorem selection_is_checked:
  assumes "table_reach allow t"
  shows "distinct (tb_selected t) \<and> set (tb_selected t) = {i. tb_checked t i} \<and> (\<forall>i \<in> set (tb_selected t). allow i)"
  using reached_ok [OF assms] by (auto simp: selection_ok_def)

lemma checked_all: "tb_checked (fold (select_row allow) is t) i =
    (if i \<in> set is \<and> allow i then tb_selectAll t else tb_checked t i)"
  by (induction "is" arbitrary: t) auto

lemma in_range:
  assumes "distinct shown" and "k < length shown"
  shows "shown ! k \<in> set (items_in_range shown a b) \<longleftrightarrow> isBetween (int k) (index_of shown a) (index_of shown b)"
proof
  assume "shown ! k \<in> set (items_in_range shown a b)"
  then obtain j where j: "(j, shown ! k) \<in> set (enumerate 0 shown)" "isBetween (int j) (index_of shown a) (index_of shown b)"
    by (auto simp: items_in_range_def)
  then have "j < length shown" "shown ! j = shown ! k" by (auto simp: in_set_enumerate_eq)
  with assms have "j = k" by (simp add: nth_eq_iff_index_eq)
  with j show "isBetween (int k) (index_of shown a) (index_of shown b)" by simp
next
  assume b: "isBetween (int k) (index_of shown a) (index_of shown b)"
  have "(k, shown ! k) \<in> set (enumerate 0 shown)" using assms(2) by (auto simp: in_set_enumerate_eq)
  with b have "(k, shown ! k) \<in> set (filter (\<lambda>(k, i). isBetween (int k) (index_of shown a) (index_of shown b)) (enumerate 0 shown))"
    by simp
  from imageI [OF this, of snd] show "shown ! k \<in> set (items_in_range shown a b)"
    unfolding items_in_range_def set_map by (simp only: snd_conv)
qed

lemma index_of_at: "distinct xs \<Longrightarrow> k < length xs \<Longrightarrow> index_of xs (xs ! k) = int k"
  using index_of_nth [of "xs ! k" xs] by (auto simp: nth_eq_iff_index_eq)

text \<open>
  C33. A click with the shift key gives every row between the row that was clicked on before and this one the mark of the
  former, if the row lets itself be selected. When the former is not shown any more, as after a search, the range starts
  with the first row that is shown.
\<close>

theorem range_takes_mark:
  assumes "tb_first t = Some f" and "distinct (tb_filtered t)" and "j < length (tb_filtered t)" and "k < length (tb_filtered t)"
  shows "tb_checked (selectItem allow (tb_filtered t ! j) (Some True) t) (tb_filtered t ! k) =
    (if allow (tb_filtered t ! k) \<and>
        (\<exists>a. (if f \<in> set (tb_filtered t) then a < length (tb_filtered t) \<and> tb_filtered t ! a = f else a = 0) \<and>
           (a \<le> k \<and> k \<le> j \<or> j \<le> k \<and> k \<le> a))
     then tb_checked t f else tb_checked t (tb_filtered t ! k))"
proof -
  let ?xs = "tb_filtered t"
  have m: "tb_checked (selectItem allow (?xs ! j) (Some True) t) (?xs ! k) =
      (if isBetween (int k) (index_of ?xs f) (int j) \<and> allow (?xs ! k) then tb_checked t f else tb_checked t (?xs ! k))"
    using assms by (simp add: selectItem_def collect_selected_def click_item_def Let_def in_range index_of_at)
  have "isBetween (int k) (index_of ?xs f) (int j) \<longleftrightarrow>
      (\<exists>a. (if f \<in> set ?xs then a < length ?xs \<and> ?xs ! a = f else a = 0) \<and> (a \<le> k \<and> k \<le> j \<or> j \<le> k \<and> k \<le> a))"
  proof (cases "f \<in> set ?xs")
    case True
    then obtain a where a: "a < length ?xs" "?xs ! a = f" by (auto simp: in_set_conv_nth)
    then have "index_of ?xs f = int a" using assms(2) index_of_at by blast
    moreover have "\<And>b. b < length ?xs \<Longrightarrow> ?xs ! b = f \<Longrightarrow> b = a" using a assms(2) nth_eq_iff_index_eq by metis
    ultimately have "(\<exists>c. (if f \<in> set ?xs then c < length ?xs \<and> ?xs ! c = f else c = 0) \<and> P c) \<longleftrightarrow> P a" for P
      using a True by metis
    then show ?thesis using \<open>index_of ?xs f = int a\<close> by (simp add: isBetween_def)
  next
    case False
    then have "index_of ?xs f = -1" using index_of_neg [of ?xs f] index_of_ge [of ?xs f] by simp
    then show ?thesis using False by (auto simp: isBetween_def)
  qed
  with m show ?thesis by auto
qed

text \<open>
  The box of the head of the table selects, or takes out of the selection, exactly the rows that are shown and let
  themselves be selected; what was selected of the other rows stays.
\<close>

theorem all_rows_selected:
  assumes "table_reach allow t"
  shows "set (tb_selected (selectAll allow b t)) = {i. if i \<in> set (tb_filtered t) \<and> allow i then b else i \<in> set (tb_selected t)}"
proof -
  have "set (tb_selected (selectAll allow b t)) = {i. tb_checked (selectAll allow b t) i}"
    using selectAll_ok [OF reached_ok [OF assms]] by (simp add: selection_ok_def)
  also have "\<dots> = {i. if i \<in> set (tb_filtered t) \<and> allow i then b else tb_checked t i}"
    by (simp add: selectAll_def checked_all)
  finally show ?thesis using reached_ok [OF assms] by (auto simp: selection_ok_def)
qed

section \<open>Rows that are protected\<close>

text \<open>A table that refuses to select the rows that must not be acted on never hands one of them to its buttons.\<close>

locale protected_table =
  fixes allow :: "'i \<Rightarrow> bool" and protected :: "'i \<Rightarrow> bool"
  assumes refuses: "protected i \<Longrightarrow> \<not> allow i"
begin

lemma never_selected: "table_reach allow t \<Longrightarrow> i \<in> set (tb_selected t) \<Longrightarrow> \<not> protected i"
  using reached_ok [of allow t] refuses by (auto simp: selection_ok_def)

lemma never_checked: "table_reach allow t \<Longrightarrow> tb_checked t i \<Longrightarrow> \<not> protected i"
  using reached_ok [of allow t] refuses by (auto simp: selection_ok_def)

end

interpretation networks: protected_table network_allowSelection "\<lambda>i. isSystemNetwork (nk_Name i)"
  by unfold_locales (simp add: network_allowSelection_def)

interpretation pools: protected_table pool_allowSelection
    "\<lambda>i. isSystemNamespace (po_Namespace i) \<or> isDefaultNamespace (po_Namespace i)"
  by unfold_locales (auto simp: pool_allowSelection_def pool_disableRemove_def isDefaultNamespace_def)

interpretation applications: protected_table application_allowSelection "\<lambda>i. isSystemNamespace (ai_ResourcePool i)"
  by unfold_locales (simp add: application_allowSelection_def)

interpretation configurations: protected_table configuration_allowSelection "\<lambda>i. isSystemConfig i \<or> ci_Used i"
  by unfold_locales (auto simp: configuration_allowSelection_def)

interpretation volumes: protected_table volume_allowSelection "\<lambda>i. isSystemNamespace (vi_Namespace i) \<or> vi_Applications i \<noteq> []"
  by unfold_locales (auto simp: volume_allowSelection_def volume_disableRemove_def volume_isUsed_def)

interpretation users: protected_table user_allowSelection "\<lambda>i. i = 1"
  by unfold_locales (simp add: user_allowSelection_def)

interpretation accesses: protected_table "access_allowSelection inheritFrom" "\<lambda>i. ax_Inherited i \<and> inheritFrom" for inheritFrom
  by unfold_locales (simp add: access_allowSelection_def access_disableRemove_def)

text \<open>
  Whatever is clicked on, the buttons of the tables are never given a network of the engine itself, a namespace of the
  system or the default one, a configuration or a volume that is used or of the system, or the first administrator.
\<close>

theorem protected_never_selected:
  assumes "table_reach network_allowSelection n" and "table_reach pool_allowSelection p"
    and "table_reach configuration_allowSelection c" and "table_reach volume_allowSelection v" and "table_reach user_allowSelection u"
  shows "(\<forall>i \<in> set (tb_selected n). nk_Name i \<notin> {''host'', ''bridge'', ''none''}) \<and>
    (\<forall>i \<in> set (tb_selected p). \<not> isSystemNamespace (po_Namespace i) \<and> po_Namespace i \<noteq> ''default'') \<and>
    (\<forall>i \<in> set (tb_selected c). \<not> isSystemConfig i \<and> \<not> ci_Used i) \<and>
    (\<forall>i \<in> set (tb_selected v). \<not> isSystemNamespace (vi_Namespace i) \<and> vi_Applications i = []) \<and>
    1 \<notin> set (tb_selected u)"
proof (intro conjI ballI)
  fix i assume "i \<in> set (tb_selected n)"
  from networks.never_selected [OF assms(1) this] show "nk_Name i \<notin> {''host'', ''bridge'', ''none''}"
    by (auto simp: isSystemNetwork_def PREDEFINED_NETWORKS_def)
next
  fix i assume "i \<in> set (tb_selected p)"
  from pools.never_selected [OF assms(2) this] show "\<not> isSystemNamespace (po_Namespace i)" "po_Namespace i \<noteq> ''default''"
    by (auto simp: isDefaultNamespace_def)
next
  fix i assume "i \<in> set (tb_selected c)"
  from configurations.never_selected [OF assms(3) this] show "\<not> isSystemConfig i" "\<not> ci_Used i" by auto
next
  fix i assume "i \<in> set (tb_selected v)"
  from volumes.never_selected [OF assms(4) this] show "\<not> isSystemNamespace (vi_Namespace i)" "vi_Applications i = []" by auto
next
  show "1 \<notin> set (tb_selected u)" using users.never_selected [OF assms(5)] by blast
qed

section \<open>The order of a table\<close>

text \<open>
  The order that was chosen last is that of the table when it is opened again, with its direction; choosing the same
  column again turns the direction, and the other tables keep their order.
\<close>

theorem order_restored:
  assumes "storage_laws L" and "changeOrderBy L key field (t, s) = (u, s')"
  shows "ts_orderBy (open_table L key orderBy reverse s' ss) = field \<and>
    (ts_reverse (open_table L key orderBy reverse s' ss) \<longleftrightarrow> ts_orderBy t = field \<and> \<not> ts_reverse t) \<and>
    (other \<noteq> key \<longrightarrow> open_table L other orderBy reverse s' ss = open_table L other orderBy reverse s ss)"
proof -
  have s': "s' = store_slot L (DataTableOrder key)
      (JObj [(''orderBy'', JStr field), (''reverse'', JBool (if ts_orderBy t = field then \<not> ts_reverse t else False))]) s"
    using assms(2) by (auto simp: changeOrderBy_def Let_def setDataTableOrder_def)
  have "restore_filter k ss x = x\<lparr>ts_textFilter := ts_textFilter (restore_filter k ss x)\<rparr>" for k x
    by (simp add: restore_filter_def Let_def)
  then have f: "ts_orderBy (restore_filter k ss x) = ts_orderBy x" "ts_reverse (restore_filter k ss x) = ts_reverse x" for k x
    by (metis table_settings.select_convs(1) table_settings.surjective table_settings.update_convs(3),
        metis table_settings.select_convs(2) table_settings.surjective table_settings.update_convs(3))
  show ?thesis
    unfolding open_table_def f
    by (simp add: s' restore_order_def setDefaults_def getPaginationLimit_def read_store_slot [OF assms(1)])
qed

section \<open>Concrete tables\<close>

definition small_table :: "nat table" where
  "small_table = selectItem (\<lambda>i. i \<noteq> 3) 4 (Some True) (selectItem (\<lambda>i. i \<noteq> 3) 2 (Some False) (new_table [1, 2, 3, 4]))"

lemma small_reached: "table_reach (\<lambda>i. i \<noteq> 3) small_table"
  unfolding small_table_def
  by (rule table_reach.step [OF table_reach.step [OF table_reach.opened table_step.clicked] table_step.clicked])
     (simp_all add: new_table_def selectItem_def collect_selected_def Let_def)

lemma small_selected: "tb_selected small_table = [2, 4]"
  by code_simp

theorem selection_is_checked_witness: "tb_selected small_table = [2, 4] \<and> {i. tb_checked small_table i} = {2, 4}"
proof -
  from selection_is_checked [OF small_reached] have "set (tb_selected small_table) = {i. tb_checked small_table i}" by blast
  with small_selected show ?thesis by simp
qed

theorem range_takes_mark_witness:
  "tb_checked (selectItem (\<lambda>i. i \<noteq> 3) 1 (Some True) small_table) 3 = False \<and>
   tb_checked (selectItem (\<lambda>i. i \<noteq> 3) 1 (Some True) (small_table\<lparr>tb_filtered := [5, 1]\<rparr>)) 5"
proof -
  have a: "tb_first small_table = Some 4" "distinct (tb_filtered small_table)" "0 < length (tb_filtered small_table)"
    "2 < length (tb_filtered small_table)" "tb_filtered small_table ! 0 = 1" "tb_filtered small_table ! 2 = 3"
    "tb_checked small_table 3 = False" by code_simp+
  let ?t = "small_table\<lparr>tb_filtered := [5, 1]\<rparr>"
  have b: "tb_first ?t = Some 4" "distinct (tb_filtered ?t)" "1 < length (tb_filtered ?t)" "0 < length (tb_filtered ?t)"
    "tb_filtered ?t ! 1 = 1" "tb_filtered ?t ! 0 = 5" "tb_checked ?t 4" by code_simp+
  show ?thesis
    using range_takes_mark [OF a(1-4), of "\<lambda>i. i \<noteq> 3"] range_takes_mark [OF b(1-4), of "\<lambda>i. i \<noteq> 3"] a(5-7) b(5-7)
    by simp
qed

theorem protected_never_selected_witness:
  "''host'' \<notin> nk_Name ` set (tb_selected (selectAll network_allowSelection True
     (new_table [\<lparr>nk_Id = ''1'', nk_Name = ''host''\<rparr>, \<lparr>nk_Id = ''2'', nk_Name = ''web''\<rparr>]))) \<and>
   tb_selected (selectAll network_allowSelection True
     (new_table [\<lparr>nk_Id = ''1'', nk_Name = ''host''\<rparr>, \<lparr>nk_Id = ''2'', nk_Name = ''web''\<rparr>])) = [\<lparr>nk_Id = ''2'', nk_Name = ''web''\<rparr>]"
proof
  let ?n = "selectAll network_allowSelection True (new_table [\<lparr>nk_Id = ''1'', nk_Name = ''host''\<rparr>, \<lparr>nk_Id = ''2'', nk_Name = ''web''\<rparr>])"
  have "table_reach network_allowSelection ?n" by (rule table_reach.step [OF table_reach.opened table_step.all_clicked])
  from protected_never_selected [OF this table_reach.opened [of _ "[]"] table_reach.opened [of _ "[]"]
      table_reach.opened [of _ "[]"] table_reach.opened [of _ "[]"]]
  have "\<forall>i \<in> set (tb_selected ?n). nk_Name i \<notin> {''host'', ''bridge'', ''none''}" by blast
  then show "''host'' \<notin> nk_Name ` set (tb_selected ?n)" by auto
  show "tb_selected ?n = [\<lparr>nk_Id = ''2'', nk_Name = ''web''\<rparr>]" by code_simp
qed

theorem all_rows_selected_witness:
  "set (tb_selected (selectAll (\<lambda>i. i \<noteq> 3) False (small_table\<lparr>tb_filtered := [4, 5]\<rparr>))) = {2}"
proof -
  have "table_reach (\<lambda>i. i \<noteq> 3) (small_table\<lparr>tb_filtered := [4, 5]\<rparr>)"
    by (rule table_reach.step [OF small_reached table_step.shown])
  from all_rows_selected [OF this, of False] show ?thesis
    using small_selected by auto
qed

theorem order_restored_witness:
  "ts_orderBy (open_table pair_storage ''nodes'' ''Name'' False (snd (changeOrderBy pair_storage ''nodes'' ''Role''
     (\<lparr>ts_orderBy = ''Name'', ts_reverse = False, ts_textFilter = None, ts_limit = ''10''\<rparr>, []))) []) = ''Role''"
proof -
  let ?r = "changeOrderBy pair_storage ''nodes'' ''Role''
     (\<lparr>ts_orderBy = ''Name'', ts_reverse = False, ts_textFilter = None, ts_limit = ''10''\<rparr>, [])"
  have "?r = (fst ?r, snd ?r)" by (rule prod.collapse [symmetric])
  from order_restored [OF pair_storage_laws this, THEN conjunct1] show ?thesis .
qed

end
