(* ===== verification/Stacks.thy ===== *)
theory Stacks
  imports DataTables ResourceControl
begin

text \<open>
  Stacks: \<open>portainer/services/api/stackService.js\<close> with the models of \<open>portainer/models/stack.js\<close>, the pages that list,
  create and edit a stack under \<open>portainer/views/stacks\<close>, and the table of stacks. The client keeps the endpoint that its
  requests to an engine go to; a request is logged with its parameters, and the server answers it knowing what was sent
  before.
\<close>

section \<open>Models\<close>

record api_stack =
  as_Id :: nat
  as_Type :: nat
  as_Name :: string
  as_EndpointId :: nat
  as_SwarmId :: string
  as_Env :: "(string \<times> string) list option"
  as_Status :: nat
  as_ResourceControl :: "rc_data option"

text \<open>A stack of the list; an external one has neither an identifier nor an endpoint. A missing status is 0.\<close>

record stack =
  sk_Id :: nat
  sk_Type :: nat
  sk_Name :: string
  sk_EndpointId :: nat
  sk_SwarmId :: string
  sk_Env :: "(string \<times> string) list"
  sk_Status :: nat
  sk_ResourceControl :: "rc_view option"
  sk_Regular :: bool
  sk_External :: bool
  sk_Orphaned :: bool
  sk_OrphanedRunning :: bool

definition stack_control :: "api_stack \<Rightarrow> rc_view option" where
  "stack_control data = (case as_ResourceControl data of
       Some rc \<Rightarrow> if rc_Id rc \<noteq> 0 then Some (ResourceControlViewModel rc) else None
     | None \<Rightarrow> None)"

definition StackViewModel :: "api_stack \<Rightarrow> stack" where
  "StackViewModel data =
     \<lparr>sk_Id = as_Id data, sk_Type = as_Type data, sk_Name = as_Name data, sk_EndpointId = as_EndpointId data,
      sk_SwarmId = as_SwarmId data, sk_Env = (case as_Env data of None \<Rightarrow> [] | Some env \<Rightarrow> env), sk_Status = as_Status data,
      sk_ResourceControl = stack_control data, sk_Regular = True, sk_External = False, sk_Orphaned = False,
      sk_OrphanedRunning = False\<rparr>"

definition ExternalStackViewModel :: "external_stack \<Rightarrow> stack" where
  "ExternalStackViewModel e =
     \<lparr>sk_Id = 0, sk_Type = es_Type e, sk_Name = es_Name e, sk_EndpointId = 0, sk_SwarmId = [], sk_Env = [], sk_Status = 0,
      sk_ResourceControl = None, sk_Regular = False, sk_External = True, sk_Orphaned = False, sk_OrphanedRunning = False\<rparr>"

definition OrphanedStackViewModel :: "api_stack \<Rightarrow> stack" where
  "OrphanedStackViewModel data = (StackViewModel data)\<lparr>sk_Regular := False, sk_Orphaned := True\<rparr>"

section \<open>Lists of stacks\<close>

definition unionStacks :: "stack list \<Rightarrow> stack list \<Rightarrow> stack list" where
  "unionStacks stacks externalStacks =
     (let marked = map (\<lambda>s. if sk_Orphaned s \<and> sk_Name s \<in> set (map sk_Name externalStacks)
                            then s\<lparr>sk_OrphanedRunning := True\<rparr> else s) stacks
      in uniq_by sk_Name (marked @ externalStacks))"

definition managed_stack :: "nat \<Rightarrow> api_stack \<Rightarrow> stack" where
  "managed_stack endpointId item =
     (if as_EndpointId item = endpointId then StackViewModel item else OrphanedStackViewModel item)"

definition composeStacks :: "nat \<Rightarrow> string + api_stack list \<Rightarrow> string + labelled_item list \<Rightarrow> string + stack list" where
  "composeStacks endpointId stacks containers = (case (stacks, containers) of
       (Inr items, Inr cs) \<Rightarrow>
         Inr (unionStacks (map (managed_stack endpointId) items) (map ExternalStackViewModel (getExternalStacksFromContainers cs)))
     | _ \<Rightarrow> Inl ''Unable to retrieve stacks'')"

definition swarmStacks ::
    "nat \<Rightarrow> string + string \<Rightarrow> (string \<Rightarrow> string + api_stack list) \<Rightarrow> string + labelled_item list \<Rightarrow> string + stack list" where
  "swarmStacks endpointId swarm stacks services = (case swarm of
       Inl e \<Rightarrow> Inl ''Unable to retrieve stacks''
     | Inr swarmId \<Rightarrow> (case (stacks swarmId, services) of
           (Inr items, Inr ss) \<Rightarrow>
             Inr (unionStacks (map (managed_stack endpointId) items) (map ExternalStackViewModel (getExternalStacksFromServices ss)))
         | _ \<Rightarrow> Inl ''Unable to retrieve stacks''))"

definition stacks_of :: "(string + stack list) option \<Rightarrow> (string + stack list) option \<Rightarrow> string + stack list" where
  "stacks_of compose swarm =
     (let get = (\<lambda>q. case q of None \<Rightarrow> Inr [] | Some r \<Rightarrow> r)
      in case (get compose, get swarm) of (Inr a, Inr b) \<Rightarrow> Inr (a @ b) | _ \<Rightarrow> Inl ''Unable to retrieve stacks'')"

section \<open>Requests\<close>

record git_options =
  go_URL :: string
  go_ReferenceName :: string
  go_ComposeFilePath :: string
  go_Authentication :: bool
  go_Username :: string
  go_Password :: string

datatype stack_source = Content string | Upload string | Repository git_options

record stack_payload =
  py_Name :: string
  py_SwarmID :: "string option"
  py_Source :: stack_source
  py_Env :: "(string \<times> string) list"

datatype stack_request =
    GetSwarm nat
  | MigrateStack nat nat nat "string option" string
  | CreateStack nat nat stack_payload
  | AssociateStack nat nat "string option" bool
  | UpdateStack nat nat string "(string \<times> string) list" bool
  | RemoveStack "nat + string" bool nat
  | StartStack nat
  | StopStack nat
  | ApplyStackControl rc_request

record stack_server =
  sr_swarm :: "stack_request list \<Rightarrow> nat \<Rightarrow> string + string"
  sr_control :: "stack_request list \<Rightarrow> stack_request \<Rightarrow> string + rc_data"
  sr_send :: "stack_request list \<Rightarrow> stack_request \<Rightarrow> string + unit"

record stack_client =
  sc_endpoint :: nat
  sc_log :: "stack_request list"

type_synonym 'a call_of = "stack_client \<Rightarrow> (string + 'a) \<times> stack_client"

definition client_setEndpointID :: "nat \<Rightarrow> stack_client \<Rightarrow> stack_client" where
  "client_setEndpointID e c = c\<lparr>sc_endpoint := e\<rparr>"

text \<open>The swarm is asked for at the endpoint of the client.\<close>

definition swarm_call :: "stack_server \<Rightarrow> string call_of" where
  "swarm_call srv c = (sr_swarm srv (sc_log c) (sc_endpoint c), c\<lparr>sc_log := sc_log c @ [GetSwarm (sc_endpoint c)]\<rparr>)"

definition stack_send :: "stack_server \<Rightarrow> stack_request \<Rightarrow> unit call_of" where
  "stack_send srv r c = (sr_send srv (sc_log c) r, c\<lparr>sc_log := sc_log c @ [r]\<rparr>)"

definition stack_send_control :: "stack_server \<Rightarrow> stack_request \<Rightarrow> rc_data call_of" where
  "stack_send_control srv r c = (sr_control srv (sc_log c) r, c\<lparr>sc_log := sc_log c @ [r]\<rparr>)"

definition call_then :: "'a call_of \<Rightarrow> ('a \<Rightarrow> 'b call_of) \<Rightarrow> 'b call_of" where
  "call_then m k c = (case m c of (Inl e, d) \<Rightarrow> (Inl e, d) | (Inr x, d) \<Rightarrow> k x d)"

text \<open>A call whose failure is reported with a message of its own.\<close>

definition with_message :: "string \<Rightarrow> 'a call_of \<Rightarrow> 'a call_of" where
  "with_message msg m c = (case m c of (Inl e, d) \<Rightarrow> (Inl msg, d) | (Inr x, d) \<Rightarrow> (Inr x, d))"

definition migrateSwarmStack :: "stack_server \<Rightarrow> stack \<Rightarrow> nat \<Rightarrow> string \<Rightarrow> unit call_of" where
  "migrateSwarmStack srv stack target newName c =
     (let (r, d) = call_then (with_message ''Unable to migrate stack'' (swarm_call srv)) (\<lambda>swarm.
            if swarm = sk_SwarmId stack
            then (\<lambda>d. (Inl ''Target endpoint is located in the same Swarm cluster as the current endpoint'', d))
            else with_message ''Unable to migrate stack''
              (stack_send srv (MigrateStack (sk_Id stack) (sk_EndpointId stack) target (Some swarm) newName)))
            (client_setEndpointID target c)
      in (r, client_setEndpointID (sk_EndpointId stack) d))"

definition migrateComposeStack :: "stack_server \<Rightarrow> stack \<Rightarrow> nat \<Rightarrow> string \<Rightarrow> unit call_of" where
  "migrateComposeStack srv stack target newName c =
     (case stack_send srv (MigrateStack (sk_Id stack) (sk_EndpointId stack) target None newName) (client_setEndpointID target c) of
        (Inr x, d) \<Rightarrow> (Inr x, d)
      | (Inl e, d) \<Rightarrow> (Inl ''Unable to migrate stack'', client_setEndpointID (sk_EndpointId stack) d))"

definition remove_stack :: "stack_server \<Rightarrow> stack \<Rightarrow> bool \<Rightarrow> nat \<Rightarrow> unit call_of" where
  "remove_stack srv stack external endpointId =
     with_message ''Unable to remove the stack''
       (stack_send srv (RemoveStack (if sk_Id stack \<noteq> 0 then Inl (sk_Id stack) else Inr (sk_Name stack)) external endpointId))"

definition associate :: "stack_server \<Rightarrow> stack \<Rightarrow> nat \<Rightarrow> bool \<Rightarrow> rc_data call_of" where
  "associate srv stack endpointId orphanedRunning =
     with_message ''Unable to associate the stack''
     (if sk_Type stack = 1
      then call_then (swarm_call srv) (\<lambda>swarm.
        stack_send_control srv (AssociateStack (sk_Id stack) endpointId (Some swarm) orphanedRunning))
      else stack_send_control srv (AssociateStack (sk_Id stack) endpointId None orphanedRunning))"

definition updateStack :: "stack_server \<Rightarrow> stack \<Rightarrow> string \<Rightarrow> (string \<times> string) list \<Rightarrow> bool \<Rightarrow> unit call_of" where
  "updateStack srv stack stackFile env prune =
     stack_send srv (UpdateStack (sk_EndpointId stack) (sk_Id stack) stackFile env prune)"

definition createComposeStack :: "stack_server \<Rightarrow> string \<Rightarrow> stack_source \<Rightarrow> (string \<times> string) list \<Rightarrow> nat \<Rightarrow> rc_data call_of" where
  "createComposeStack srv name source env endpointId =
     stack_send_control srv (CreateStack 2 endpointId \<lparr>py_Name = name, py_SwarmID = None, py_Source = source, py_Env = env\<rparr>)"

definition createSwarmStack :: "stack_server \<Rightarrow> string \<Rightarrow> stack_source \<Rightarrow> (string \<times> string) list \<Rightarrow> nat \<Rightarrow> rc_data call_of" where
  "createSwarmStack srv name source env endpointId =
     with_message ''Unable to create the stack'' (call_then (swarm_call srv) (\<lambda>swarm. stack_send_control srv
       (CreateStack 1 endpointId \<lparr>py_Name = name, py_SwarmID = Some swarm, py_Source = source, py_Env = env\<rparr>)))"

definition duplicateStack ::
    "stack_server \<Rightarrow> string \<Rightarrow> string \<Rightarrow> (string \<times> string) list \<Rightarrow> nat \<Rightarrow> nat \<Rightarrow> rc_data call_of" where
  "duplicateStack srv name content env endpointId type =
     (if type = 1 then createSwarmStack srv name (Content content) env endpointId
      else createComposeStack srv name (Content content) env endpointId)"

end
