(* ===== verification/StackPages.thy ===== *)
theory StackPages
  imports Stacks
begin

text \<open>
  The pages of stacks: \<open>portainer/views/stacks/edit/stackController.js\<close>, \<open>create/createStackController.js\<close>,
  \<open>stacksController.js\<close>, and the table of stacks, with what holds of the lists, of the endpoint that the client is left
  with, and of the text that is deployed.
\<close>

section \<open>The page of a stack\<close>

text \<open>What a page shows when it is opened: the address says which kinds of stack it is.\<close>

record stack_params =
  sp_regular :: bool
  sp_external :: bool
  sp_orphaned :: bool
  sp_orphanedRunning :: bool
  sp_type :: string

definition loads_external :: "stack_params \<Rightarrow> bool" where
  "loads_external p \<longleftrightarrow> sp_external p \<or> (sp_orphaned p \<and> sp_orphanedRunning p)"

definition loads_stack :: "stack_params \<Rightarrow> bool" where
  "loads_stack p \<longleftrightarrow> sp_regular p \<or> sp_orphaned p"

definition external_type :: "stack_params \<Rightarrow> string + nat" where
  "external_type p =
     (if sp_type p = ''1'' then Inr 1 else if sp_type p = ''2'' then Inr 2 else Inl ''Invalid type URL parameter.'')"

text \<open>The resources of a stack: services and tasks of a swarm; on agents, all containers of the endpoint.\<close>

record stack_resources =
  rs_services :: nat
  rs_containers :: nat

definition resources_retrieved :: "stack \<Rightarrow> bool" where
  "resources_retrieved s \<longleftrightarrow> sk_Status s = 0 \<or> sk_Status s = 1"

definition loaded_status :: "stack \<Rightarrow> stack_resources \<Rightarrow> nat" where
  "loaded_status s r =
     (if sk_Status s \<noteq> 0 then sk_Status s
      else if (sk_Type s = 1 \<and> rs_services r \<noteq> 0) \<or> rs_containers r \<noteq> 0 then 1 else 2)"

text \<open>
  The page of a stack, with the deployments that are under way: the text that each has sent and the answer that is on
  its way. (The buttons of a deployment are disabled while one runs, but any other action enables them again.)
\<close>

record stack_page =
  kp_stack :: stack
  kp_client :: stack_client
  kp_env :: "(string \<times> string) list"
  kp_prune :: bool
  kp_content :: string
  kp_dirty :: bool
  kp_yamlError :: "string option"
  kp_left :: bool
  kp_inProgress :: bool
  kp_pending :: "(string \<times> (string + unit)) list"

text \<open>The endpoint of a stack that was stored without one is that of the page.\<close>

definition with_endpoint :: "nat \<Rightarrow> stack \<Rightarrow> stack" where
  "with_endpoint endpointId s = (if sk_EndpointId s = 0 then s\<lparr>sk_EndpointId := endpointId\<rparr> else s)"

text \<open>Taking the invalid variables out changes the variables of the form itself.\<close>

definition page_duplicateStack :: "stack_server \<Rightarrow> string \<Rightarrow> nat \<Rightarrow> stack_page \<Rightarrow> stack_page" where
  "page_duplicateStack srv name endpointId p =
     (case duplicateStack srv name (kp_content p) (removeInvalidEnvVars (kp_env p)) endpointId (sk_Type (kp_stack p))
             (client_setEndpointID endpointId (kp_client p)) of
        (Inr x, c) \<Rightarrow> p\<lparr>kp_env := removeInvalidEnvVars (kp_env p),
          kp_client := client_setEndpointID (sk_EndpointId (kp_stack p)) c, kp_left := True\<rparr>
      | (Inl e, c) \<Rightarrow> p\<lparr>kp_env := removeInvalidEnvVars (kp_env p), kp_client := c\<rparr>)"

definition page_migrateStack :: "stack_server \<Rightarrow> bool \<Rightarrow> string \<Rightarrow> nat \<Rightarrow> stack_page \<Rightarrow> stack_page" where
  "page_migrateStack srv confirmed name endpointId p =
     (if \<not> confirmed then p
      else
        (let s = with_endpoint (sc_endpoint (kp_client p)) (kp_stack p);
             (r, c) = (if sk_Type s = 2 then migrateComposeStack else migrateSwarmStack) srv s endpointId name (kp_client p)
         in p\<lparr>kp_stack := s, kp_client := c, kp_left := (kp_left p \<or> \<not> isl r)\<rparr>))"

definition page_deleteStack :: "stack_server \<Rightarrow> bool \<Rightarrow> bool \<Rightarrow> nat \<Rightarrow> stack_page \<Rightarrow> stack_page" where
  "page_deleteStack srv confirmed external endpointId p =
     (if \<not> confirmed then p
      else (let (r, c) = remove_stack srv (kp_stack p) external endpointId (kp_client p)
            in p\<lparr>kp_client := c, kp_left := (kp_left p \<or> \<not> isl r)\<rparr>))"

definition associateStack :: "stack_server \<Rightarrow> nat \<Rightarrow> access_form \<Rightarrow> nat \<Rightarrow> bool \<Rightarrow> stack_page \<Rightarrow> stack_page" where
  "associateStack srv userId access endpointId orphanedRunning p =
     (let (r, c) = call_then (associate srv (kp_stack p) endpointId orphanedRunning)
            (\<lambda>rc. stack_send srv (ApplyStackControl (applyResourceControl userId access rc []))) (kp_client p)
      in p\<lparr>kp_client := c, kp_left := (kp_left p \<or> \<not> isl r), kp_inProgress := False\<rparr>)"

text \<open>
  A deployment is sent with the text of the moment; its answer is taken later, and the text may have been edited in
  between: an accepted one makes the page clean whatever its text is by then, and loads the page anew.
\<close>

definition deployStack :: "stack_server \<Rightarrow> stack_page \<Rightarrow> stack_page" where
  "deployStack srv p =
     (let s = with_endpoint (sc_endpoint (kp_client p)) (kp_stack p);
          (r, c) = updateStack srv s (kp_content p) (removeInvalidEnvVars (kp_env p)) (kp_prune p) (kp_client p)
      in p\<lparr>kp_stack := s, kp_env := removeInvalidEnvVars (kp_env p), kp_client := c, kp_inProgress := True,
           kp_pending := kp_pending p @ [(kp_content p, r)]\<rparr>)"

definition deploy_answered :: "nat \<Rightarrow> stack_page \<Rightarrow> stack_page" where
  "deploy_answered i p =
     (if i < length (kp_pending p)
      then p\<lparr>kp_dirty := (kp_dirty p \<and> isl (snd (kp_pending p ! i))), kp_inProgress := False,
             kp_pending := take i (kp_pending p) @ drop (Suc i) (kp_pending p)\<rparr>
      else p)"

definition stopStack :: "stack_server \<Rightarrow> bool \<Rightarrow> stack_page \<Rightarrow> stack_page" where
  "stopStack srv confirmed p =
     (if \<not> confirmed then p
      else p\<lparr>kp_client := snd (stack_send srv (StopStack (sk_Id (kp_stack p))) (kp_client p)), kp_inProgress := False\<rparr>)"

definition startStack :: "stack_server \<Rightarrow> stack_page \<Rightarrow> stack_page" where
  "startStack srv p = p\<lparr>kp_client := snd (stack_send srv (StartStack (sk_Id (kp_stack p))) (kp_client p)), kp_inProgress := False\<rparr>"

text \<open>The editor reports its whole text; it is compared with the text of the page without the line breaks.\<close>

definition without_breaks :: "string \<Rightarrow> string" where
  "without_breaks s = filter (\<lambda>c. c \<notin> {CHR 0x0A, CHR 0x0D}) s"

definition stack_editorUpdate :: "(string \<Rightarrow> string + json) \<Rightarrow> string list \<Rightarrow> string \<Rightarrow> stack_page \<Rightarrow> stack_page" where
  "stack_editorUpdate parse containerNames v p =
     (if without_breaks (kp_content p) \<noteq> without_breaks v
      then p\<lparr>kp_dirty := True, kp_content := v, kp_yamlError := validateYAML parse v containerNames\<rparr>
      else p)"

definition asks_before_exit :: "stack_page \<Rightarrow> bool" where
  "asks_before_exit p \<longleftrightarrow> kp_content p \<noteq> [] \<and> kp_dirty p"

section \<open>The page that creates a stack\<close>

datatype creation_method = Editor | TemplateMethod | UploadMethod | RepositoryMethod

record stack_form =
  sf_Name :: string
  sf_StackFileContent :: string
  sf_StackFile :: string
  sf_Git :: git_options
  sf_Env :: "(string \<times> string) list"
  sf_Access :: access_form
  sf_Method :: creation_method
  sf_StackType :: nat

definition new_git_options :: git_options where
  "new_git_options = \<lparr>go_URL = [], go_ReferenceName = [], go_ComposeFilePath = ''docker-compose.yml'', go_Authentication = False,
     go_Username = [], go_Password = []\<rparr>"

definition form_source :: "stack_form \<Rightarrow> stack_source" where
  "form_source f = (case sf_Method f of
       Editor \<Rightarrow> Content (sf_StackFileContent f)
     | TemplateMethod \<Rightarrow> Content (sf_StackFileContent f)
     | UploadMethod \<Rightarrow> Upload (sf_StackFile f)
     | RepositoryMethod \<Rightarrow> Repository (sf_Git f))"

definition stack_type_of :: "string \<Rightarrow> string \<Rightarrow> nat" where
  "stack_type_of provider role = (if provider = ''DOCKER_SWARM_MODE'' \<and> role = ''MANAGER'' then 1 else 2)"

definition validateStackForm :: "stack_form \<Rightarrow> bool \<Rightarrow> string" where
  "validateStackForm f isAdmin =
     (if sf_Method f = Editor \<and> sf_StackFileContent f = [] then ''Stack file content must not be empty''
      else validateAccessControl (sf_Access f) isAdmin)"

definition create_stack :: "stack_server \<Rightarrow> nat \<Rightarrow> nat \<Rightarrow> stack_form \<Rightarrow> unit call_of" where
  "create_stack srv endpointId userId f =
     call_then ((if sf_StackType f = 2 then createComposeStack else createSwarmStack) srv (sf_Name f) (form_source f)
         (removeInvalidEnvVars (sf_Env f)) endpointId)
       (\<lambda>rc. stack_send srv (ApplyStackControl (applyResourceControl userId (sf_Access f) rc [])))"

definition deploy_new_stack :: "stack_server \<Rightarrow> nat \<Rightarrow> nat \<Rightarrow> bool \<Rightarrow> stack_form \<Rightarrow> stack_client \<Rightarrow> (string + unit) \<times> stack_client" where
  "deploy_new_stack srv endpointId userId isAdmin f c =
     (let e = validateStackForm f isAdmin in if e \<noteq> [] then (Inl e, c) else create_stack srv endpointId userId f c)"

definition asks_before_exit_new :: "stack_form \<Rightarrow> bool \<Rightarrow> bool" where
  "asks_before_exit_new f dirty \<longleftrightarrow> sf_Method f = Editor \<and> sf_StackFileContent f \<noteq> [] \<and> dirty"

section \<open>The list of stacks\<close>

definition stack_allowSelection :: "bool \<Rightarrow> stack \<Rightarrow> bool" where
  "stack_allowSelection isAdmin item =
     (if sk_External item \<and> sk_Type item = 2 then False else \<not> (sk_External item \<and> \<not> isAdmin))"

definition stack_applyFilters :: "bool \<Rightarrow> bool \<Rightarrow> bool \<Rightarrow> stack \<Rightarrow> bool" where
  "stack_applyFilters showActive showUnactive allOrphaned s =
     (if sk_Orphaned s then sk_OrphanedRunning s \<or> allOrphaned
      else (sk_Status s = 1 \<and> showActive) \<or> (sk_Status s = 2 \<and> showUnactive) \<or> sk_External s \<or> sk_Status s = 0)"

definition stack_filter_enabled :: "bool \<Rightarrow> bool \<Rightarrow> bool" where
  "stack_filter_enabled showActive showUnactive \<longleftrightarrow> \<not> showActive \<or> \<not> showUnactive"

text \<open>
  The removals go out together; a stack that was removed leaves the list, and the last of the list leaves in its place when
  the list no longer has it (the index -1 of \<open>splice\<close> is the last position).
\<close>

definition leave_list :: "stack \<Rightarrow> stack list \<Rightarrow> stack list" where
  "leave_list s shown = splice_out s shown"

fun deleteSelectedStacks :: "stack_server \<Rightarrow> nat \<Rightarrow> stack list \<Rightarrow> stack list \<times> stack_client \<Rightarrow> stack list \<times> stack_client" where
  "deleteSelectedStacks srv endpointId [] st = st"
| "deleteSelectedStacks srv endpointId (s # ss) (shown, c) =
     (let (r, d) = remove_stack srv s (sk_External s) endpointId c
      in deleteSelectedStacks srv endpointId ss (if isl r then shown else leave_list s shown, d))"

definition stacks_removeAction :: "stack_server \<Rightarrow> bool \<Rightarrow> stack table \<Rightarrow> stack list \<times> stack_client \<Rightarrow> stack list \<times> stack_client" where
  "stacks_removeAction srv confirmed t st =
     (if confirmed then deleteSelectedStacks srv (sc_endpoint (snd st)) (tb_selected t) st else st)"

section \<open>Lists without doubles\<close>

lemma uniq_by_append:
  "uniq_by f (xs @ ys) = uniq_by f xs @ filter (\<lambda>y. f y \<notin> f ` set xs) (uniq_by f ys)"
  by (induction xs) (auto simp: filter_filter conj_commute intro: filter_cong)

text \<open>A stack as the list shows it.\<close>

definition listed_as :: "stack list \<Rightarrow> stack \<Rightarrow> stack" where
  "listed_as external s = (if sk_Orphaned s \<and> sk_Name s \<in> set (map sk_Name external) then s\<lparr>sk_OrphanedRunning := True\<rparr> else s)"

lemma listed_as_name [simp]: "sk_Name (listed_as external s) = sk_Name s"
  by (simp add: listed_as_def)

lemma uniq_by_map: "(\<And>x. g (h x) = f x) \<Longrightarrow> uniq_by g (map h xs) = map h (uniq_by f xs)"
  by (induction xs) (simp_all add: filter_map comp_def)

text \<open>
  C10. The list of stacks is that of the server followed by that of the external stacks, each with its first stack of every
  name only, less the external stacks whose name a managed one has; and a stack of another endpoint is shown as running
  exactly when an external stack has its name. So no name is listed twice, and none is lost.
\<close>

theorem stacks_listed_once:
  "unionStacks stacks external =
     map (listed_as external) (uniq_by sk_Name stacks) @
     filter (\<lambda>e. sk_Name e \<notin> sk_Name ` set stacks) (uniq_by sk_Name external) \<and>
   distinct (map sk_Name (unionStacks stacks external)) \<and>
   sk_Name ` set (unionStacks stacks external) = sk_Name ` set stacks \<union> sk_Name ` set external"
proof -
  have marked: "map (\<lambda>s. if sk_Orphaned s \<and> sk_Name s \<in> set (map sk_Name external) then s\<lparr>sk_OrphanedRunning := True\<rparr> else s) stacks
      = map (listed_as external) stacks" by (simp add: listed_as_def)
  have union: "unionStacks stacks external = uniq_by sk_Name (map (listed_as external) stacks @ external)"
    unfolding unionStacks_def marked Let_def ..
  have "unionStacks stacks external = map (listed_as external) (uniq_by sk_Name stacks) @
      filter (\<lambda>e. sk_Name e \<notin> sk_Name ` set stacks) (uniq_by sk_Name external)"
    unfolding union uniq_by_append by (simp add: uniq_by_map image_image)
  moreover have "distinct (map sk_Name (unionStacks stacks external))" by (simp add: union)
  moreover have "sk_Name ` set (unionStacks stacks external) = sk_Name ` set stacks \<union> sk_Name ` set external"
    unfolding union map_uniq_by_set by (simp add: image_Un image_image)
  ultimately show ?thesis by blast
qed

section \<open>The endpoint that requests go to\<close>

lemma call_endpoints [simp]:
  "sc_endpoint (snd (stack_send srv r c)) = sc_endpoint c"
  "sc_endpoint (snd (stack_send_control srv r c)) = sc_endpoint c"
  "sc_endpoint (snd (swarm_call srv c)) = sc_endpoint c"
  "sc_endpoint (client_setEndpointID e c) = e"
  by (simp_all add: stack_send_def stack_send_control_def swarm_call_def client_setEndpointID_def)

lemma with_message_simps [simp]:
  "snd (with_message msg m c) = snd (m c)" "isl (fst (with_message msg m c)) = isl (fst (m c))"
  by (simp_all add: with_message_def split: prod.split sum.split)

lemma call_then_endpoint:
  assumes "\<And>c. sc_endpoint (snd (m c)) = sc_endpoint c" and "\<And>x c. sc_endpoint (snd (k x c)) = sc_endpoint c"
  shows "sc_endpoint (snd (call_then m k c)) = sc_endpoint c"
proof -
  obtain r d where m: "m c = (r, d)" by (cases "m c")
  then show ?thesis using assms(1) [of c] assms(2) by (cases r) (simp_all add: call_then_def)
qed

lemma created_endpoint:
  "sc_endpoint (snd (createComposeStack srv n src env e c)) = sc_endpoint c"
  "sc_endpoint (snd (createSwarmStack srv n src env e c)) = sc_endpoint c"
  by (simp_all add: createComposeStack_def createSwarmStack_def call_then_endpoint)

lemma duplicate_endpoint: "sc_endpoint (snd (duplicateStack srv n text env e type c)) = sc_endpoint c"
  by (simp add: duplicateStack_def created_endpoint)

lemma migrate_endpoint:
  "sc_endpoint (snd (migrateSwarmStack srv s target n c)) = sk_EndpointId s"
  "sc_endpoint (snd (migrateComposeStack srv s target n c)) =
     (if isl (fst (migrateComposeStack srv s target n c)) then sk_EndpointId s else target)"
  by (simp_all add: migrateSwarmStack_def migrateComposeStack_def stack_send_def client_setEndpointID_def Let_def split: prod.split sum.split)

text \<open>
  After a confirmed migration the requests of the client go to the endpoint of the stack again, except after the
  successful migration of a compose stack, when they go on to the target endpoint; after a duplication they go to the
  endpoint of the stack exactly when it succeeded, and on to the target endpoint when it failed. A page that was not left
  before is left exactly on success.
\<close>

theorem endpoint_after_actions:
  assumes "\<not> kp_left p" and "s = with_endpoint (sc_endpoint (kp_client p)) (kp_stack p)"
    and "m = page_migrateStack srv True name target p" and "d = page_duplicateStack srv name target p"
  shows "sc_endpoint (kp_client m) = (if sk_Type s = 2 \<and> kp_left m then target else sk_EndpointId s) \<and>
         sc_endpoint (kp_client d) = (if kp_left d then sk_EndpointId (kp_stack p) else target)"
proof
  show "sc_endpoint (kp_client m) = (if sk_Type s = 2 \<and> kp_left m then target else sk_EndpointId s)"
    using assms(1) migrate_endpoint [of srv s target name "kp_client p"]
    unfolding assms(3) page_migrateStack_def assms(2) [symmetric] by (auto simp: Let_def split: prod.splits)
  show "sc_endpoint (kp_client d) = (if kp_left d then sk_EndpointId (kp_stack p) else target)"
    using assms(1) duplicate_endpoint [of srv name "kp_content p" "removeInvalidEnvVars (kp_env p)" target "sk_Type (kp_stack p)"
        "client_setEndpointID target (kp_client p)"]
    unfolding assms(4) by (auto simp: page_duplicateStack_def split: prod.split sum.split)
qed

section \<open>What the user can do on the page of a stack\<close>

text \<open>
  The page with the last text that the editor reported, at first the file of the stack, and whether the answer of an
  accepted deployment was taken while the page showed another text than the deployment had sent.
\<close>

definition takes_stale :: "nat \<Rightarrow> stack_page \<Rightarrow> bool" where
  "takes_stale i p \<longleftrightarrow>
     i < length (kp_pending p) \<and> \<not> isl (snd (kp_pending p ! i)) \<and> fst (kp_pending p ! i) \<noteq> kp_content p"

inductive page_run ::
    "stack_server \<Rightarrow> (string \<Rightarrow> string + json) \<Rightarrow> string list \<Rightarrow> stack \<Rightarrow> string \<Rightarrow> string \<Rightarrow> bool \<Rightarrow> stack_page \<Rightarrow> bool"
  for srv parse names s orig where
  loaded: "kp_stack p = s \<Longrightarrow> kp_content p = orig \<Longrightarrow> \<not> kp_dirty p \<Longrightarrow> sc_log (kp_client p) = [] \<Longrightarrow> kp_pending p = [] \<Longrightarrow>
     page_run srv parse names s orig orig False p"
| edited: "page_run srv parse names s orig cur b p \<Longrightarrow> page_run srv parse names s orig v b (stack_editorUpdate parse names v p)"
| env_changed: "page_run srv parse names s orig cur b p \<Longrightarrow> page_run srv parse names s orig cur b (p\<lparr>kp_env := env\<rparr>)"
| prune_changed: "page_run srv parse names s orig cur b p \<Longrightarrow> page_run srv parse names s orig cur b (p\<lparr>kp_prune := prune\<rparr>)"
| duplicated: "page_run srv parse names s orig cur b p \<Longrightarrow> page_run srv parse names s orig cur b (page_duplicateStack srv name e p)"
| migrated: "page_run srv parse names s orig cur b p \<Longrightarrow> page_run srv parse names s orig cur b (page_migrateStack srv ok name e p)"
| deleted: "page_run srv parse names s orig cur b p \<Longrightarrow> page_run srv parse names s orig cur b (page_deleteStack srv ok ext e p)"
| associated: "page_run srv parse names s orig cur b p \<Longrightarrow>
     page_run srv parse names s orig cur b (associateStack srv u access e orphaned p)"
| deployed: "page_run srv parse names s orig cur b p \<Longrightarrow> page_run srv parse names s orig cur b (deployStack srv p)"
| answered: "page_run srv parse names s orig cur b p \<Longrightarrow>
     page_run srv parse names s orig cur (b \<or> takes_stale i p) (deploy_answered i p)"
| stopped: "page_run srv parse names s orig cur b p \<Longrightarrow> page_run srv parse names s orig cur b (stopStack srv ok p)"
| started: "page_run srv parse names s orig cur b p \<Longrightarrow> page_run srv parse names s orig cur b (startStack srv p)"

definition page_reach ::
    "stack_server \<Rightarrow> (string \<Rightarrow> string + json) \<Rightarrow> string list \<Rightarrow> stack \<Rightarrow> string \<Rightarrow> string \<Rightarrow> stack_page \<Rightarrow> bool" where
  "page_reach srv parse names s orig cur p \<longleftrightarrow> (\<exists>b. page_run srv parse names s orig cur b p)"

text \<open>The text that was read or accepted last, as far as the requests tell.\<close>

definition accepted_text :: "stack_server \<Rightarrow> string \<Rightarrow> stack_request list \<Rightarrow> string \<Rightarrow> bool" where
  "accepted_text srv orig log cur \<longleftrightarrow> cur = orig \<or>
     (\<exists>l e i env prune rest. log = l @ UpdateStack e i cur env prune # rest \<and> sr_send srv l (UpdateStack e i cur env prune) = Inr ())"

lemma accepted_text_append: "accepted_text srv orig log cur \<Longrightarrow> accepted_text srv orig (log @ added) cur"
  unfolding accepted_text_def by fastforce

text \<open>Every operation only adds requests to the log; \<open>quiet_call\<close> ones are no migrations to a swarm.\<close>

definition is_swarm_migration :: "stack_request \<Rightarrow> bool" where
  "is_swarm_migration r = (case r of MigrateStack i e t sw n \<Rightarrow> sw \<noteq> None | _ \<Rightarrow> False)"

inductive migrations_ok :: "stack_server \<Rightarrow> string \<Rightarrow> stack_request list \<Rightarrow> bool" for srv own where
  none: "migrations_ok srv own []"
| other: "migrations_ok srv own log \<Longrightarrow> \<not> is_swarm_migration r \<Longrightarrow> migrations_ok srv own (log @ [r])"
| migration: "migrations_ok srv own log \<Longrightarrow> sr_swarm srv log t = Inr sw \<Longrightarrow> sw \<noteq> own \<Longrightarrow>
     migrations_ok srv own (log @ [GetSwarm t, MigrateStack i e t (Some sw) n])"

definition quiet_call :: "'a call_of \<Rightarrow> bool" where
  "quiet_call m \<longleftrightarrow> (\<forall>c. \<exists>added. sc_log (snd (m c)) = sc_log c @ added \<and> (\<forall>r \<in> set added. \<not> is_swarm_migration r))"

lemma quiet_send: "\<not> is_swarm_migration r \<Longrightarrow> quiet_call (stack_send srv r)" "\<not> is_swarm_migration r \<Longrightarrow> quiet_call (stack_send_control srv r)"
  "quiet_call (swarm_call srv)"
  by (simp_all add: quiet_call_def stack_send_def stack_send_control_def swarm_call_def is_swarm_migration_def)

lemma quiet_message: "quiet_call m \<Longrightarrow> quiet_call (with_message msg m)"
  by (simp add: quiet_call_def)

lemma quiet_then:
  assumes "quiet_call m" and "\<And>x. quiet_call (k x)"
  shows "quiet_call (call_then m k)"
  unfolding quiet_call_def
proof
  fix c
  obtain r d where m: "m c = (r, d)" by (cases "m c")
  obtain a where a: "sc_log d = sc_log c @ a" "\<forall>r \<in> set a. \<not> is_swarm_migration r"
    using assms(1) m unfolding quiet_call_def by (metis snd_conv)
  show "\<exists>added. sc_log (snd (call_then m k c)) = sc_log c @ added \<and> (\<forall>r \<in> set added. \<not> is_swarm_migration r)"
  proof (cases r)
    case (Inl e)
    then show ?thesis using m a by (simp add: call_then_def)
  next
    case (Inr x)
    obtain b where "sc_log (snd (k x d)) = sc_log d @ b" "\<forall>r \<in> set b. \<not> is_swarm_migration r"
      using assms(2) [of x] unfolding quiet_call_def by metis
    then show ?thesis using m a Inr by (intro exI [of _ "a @ b"]) (auto simp: call_then_def)
  qed
qed

lemma quiet_ok:
  assumes "quiet_call m" and "migrations_ok srv own (sc_log c)"
  shows "migrations_ok srv own (sc_log (snd (m c)))"
proof -
  obtain added where added: "sc_log (snd (m c)) = sc_log c @ added" "\<forall>r \<in> set added. \<not> is_swarm_migration r"
    using assms(1) unfolding quiet_call_def by metis
  from added(2) have "migrations_ok srv own (sc_log c @ added)"
  proof (induction added rule: rev_induct)
    case Nil
    show ?case using assms(2) by simp
  next
    case (snoc r added)
    then have "migrations_ok srv own ((sc_log c @ added) @ [r])" by (intro migrations_ok.other) simp_all
    then show ?case by simp
  qed
  with added(1) show ?thesis by simp
qed

lemma quiet_grows: "quiet_call m \<Longrightarrow> accepted_text srv orig (sc_log c) cur \<Longrightarrow> accepted_text srv orig (sc_log (snd (m c))) cur"
  unfolding quiet_call_def by (metis accepted_text_append)

lemmas quiet_calls = quiet_send quiet_message quiet_then

lemma quiet_operations:
  "quiet_call (remove_stack srv s ext e)" "quiet_call (associate srv s e b)" "quiet_call (updateStack srv s text env prune)"
  "quiet_call (duplicateStack srv name text env e type)" "quiet_call (migrateComposeStack srv s e n)"
proof -
  show "quiet_call (remove_stack srv s ext e)" unfolding remove_stack_def by (intro quiet_calls) (simp add: is_swarm_migration_def)
  show "quiet_call (associate srv s e b)" unfolding associate_def by (auto simp: is_swarm_migration_def intro!: quiet_calls)
  show "quiet_call (updateStack srv s text env prune)" unfolding updateStack_def by (intro quiet_calls) (simp add: is_swarm_migration_def)
  show "quiet_call (duplicateStack srv name text env e type)"
    unfolding duplicateStack_def createSwarmStack_def createComposeStack_def by (auto simp: is_swarm_migration_def intro!: quiet_calls)
  show "quiet_call (migrateComposeStack srv s e n)"
    by (simp add: quiet_call_def migrateComposeStack_def stack_send_def client_setEndpointID_def is_swarm_migration_def split: sum.split)
qed

text \<open>The one call that is not quiet_call asks the target for its swarm just before.\<close>

lemma swarm_migration_log:
  "sc_log (snd (migrateSwarmStack srv s target n c)) = sc_log c @ GetSwarm target #
     (case sr_swarm srv (sc_log c) target of
        Inl e \<Rightarrow> []
      | Inr sw \<Rightarrow> if sw = sk_SwarmId s then [] else [MigrateStack (sk_Id s) (sk_EndpointId s) target (Some sw) n])"
  by (simp add: migrateSwarmStack_def swarm_call_def stack_send_def with_message_def call_then_def client_setEndpointID_def Let_def
        split: sum.split prod.split)

lemma swarm_migration_ok:
  assumes "migrations_ok srv (sk_SwarmId s) (sc_log c)"
  shows "migrations_ok srv (sk_SwarmId s) (sc_log (snd (migrateSwarmStack srv s target n c)))"
proof -
  have "migrations_ok srv (sk_SwarmId s) (sc_log c @ [GetSwarm target])"
    using assms by (rule migrations_ok.other) (simp add: is_swarm_migration_def)
  then show ?thesis using assms by (auto simp: swarm_migration_log migrations_ok.migration split: sum.split)
qed

section \<open>What holds on the page of a stack\<close>

text \<open>The texts that accepted deployments under way have sent are accepted ones.\<close>

definition sent_accepted :: "stack_server \<Rightarrow> string \<Rightarrow> stack_page \<Rightarrow> bool" where
  "sent_accepted srv orig p \<longleftrightarrow>
     (\<forall>x \<in> set (kp_pending p). isl (snd x) \<or> accepted_text srv orig (sc_log (kp_client p)) (fst x))"

definition stack_page_ok :: "stack_server \<Rightarrow> stack \<Rightarrow> string \<Rightarrow> string \<Rightarrow> bool \<Rightarrow> stack_page \<Rightarrow> bool" where
  "stack_page_ok srv s orig cur b p \<longleftrightarrow>
     sk_Id (kp_stack p) = sk_Id s \<and> sk_SwarmId (kp_stack p) = sk_SwarmId s \<and>
     without_breaks (kp_content p) = without_breaks cur \<and>
     (b \<or> kp_dirty p \<or> accepted_text srv orig (sc_log (kp_client p)) (kp_content p)) \<and>
     sent_accepted srv orig p \<and>
     migrations_ok srv (sk_SwarmId s) (sc_log (kp_client p))"

lemma sent_accepted_grows:
  assumes "sent_accepted srv orig p" and "sc_log (kp_client q) = sc_log (kp_client p) @ added" and "kp_pending q = kp_pending p"
  shows "sent_accepted srv orig q"
  using assms accepted_text_append unfolding sent_accepted_def by metis

lemma quiet_page:
  assumes "stack_page_ok srv s orig cur b p" and "quiet_call m" and "sc_log c = sc_log (kp_client p)"
    and "sc_log (kp_client q) = sc_log (snd (m c))" and "kp_content q = kp_content p" and "kp_dirty q = kp_dirty p"
    and "sk_Id (kp_stack q) = sk_Id (kp_stack p)" and "sk_SwarmId (kp_stack q) = sk_SwarmId (kp_stack p)"
    and "kp_pending q = kp_pending p"
  shows "stack_page_ok srv s orig cur b q"
proof -
  obtain added where added: "sc_log (kp_client q) = sc_log (kp_client p) @ added"
    using assms(2-4) unfolding quiet_call_def by metis
  have "migrations_ok srv (sk_SwarmId s) (sc_log (kp_client q))"
    using quiet_ok [OF assms(2), of srv "sk_SwarmId s" c] assms(1,3,4) by (simp add: stack_page_ok_def)
  moreover have "sent_accepted srv orig q"
    using assms(1) sent_accepted_grows [OF _ added assms(9)] by (simp add: stack_page_ok_def)
  ultimately show ?thesis
    using assms(1,5-8) added accepted_text_append unfolding stack_page_ok_def by metis
qed

lemma set_endpoint_log [simp]: "sc_log (client_setEndpointID e c) = sc_log c"
  by (simp add: client_setEndpointID_def)

lemma with_endpoint_keeps [simp]:
  "sk_Id (with_endpoint e s) = sk_Id s" "sk_SwarmId (with_endpoint e s) = sk_SwarmId s" "sk_Type (with_endpoint e s) = sk_Type s"
  by (simp_all add: with_endpoint_def)

lemma page_migrate_ok:
  assumes "stack_page_ok srv s orig cur b p"
  shows "stack_page_ok srv s orig cur b (page_migrateStack srv ok name e p)"
proof -
  let ?s = "with_endpoint (sc_endpoint (kp_client p)) (kp_stack p)"
  let ?c = "snd (migrateSwarmStack srv ?s e name (kp_client p))"
  show ?thesis
  proof (cases "ok \<and> sk_Type ?s \<noteq> 2")
    case True
    have own: "sk_SwarmId ?s = sk_SwarmId s" using assms by (simp add: stack_page_ok_def)
    then have "migrations_ok srv (sk_SwarmId s) (sc_log ?c)"
      using swarm_migration_ok [of srv ?s "kp_client p" e name] assms by (simp add: stack_page_ok_def)
    moreover have "b \<or> kp_dirty p \<or> accepted_text srv orig (sc_log ?c) (kp_content p)"
      using assms unfolding stack_page_ok_def swarm_migration_log by (blast intro: accepted_text_append)
    moreover have "sent_accepted srv orig (page_migrateStack srv ok name e p)"
    proof (rule sent_accepted_grows)
      show "sent_accepted srv orig p" using assms by (simp add: stack_page_ok_def)
      show "sc_log (kp_client (page_migrateStack srv ok name e p)) = sc_log (kp_client p) @ GetSwarm e #
        (case sr_swarm srv (sc_log (kp_client p)) e of
           Inl x \<Rightarrow> []
         | Inr sw \<Rightarrow> if sw = sk_SwarmId ?s then [] else [MigrateStack (sk_Id ?s) (sk_EndpointId ?s) e (Some sw) name])"
        using True by (simp add: page_migrateStack_def Let_def case_prod_beta del: with_endpoint_keeps)
          (simp add: swarm_migration_log)
      show "kp_pending (page_migrateStack srv ok name e p) = kp_pending p"
        by (simp add: page_migrateStack_def Let_def case_prod_beta)
    qed
    ultimately show ?thesis using assms True by (simp add: stack_page_ok_def page_migrateStack_def Let_def case_prod_beta)
  next
    case False
    show ?thesis
      using assms quiet_page [OF assms quiet_operations(5) [of srv ?s e name], of "kp_client p" "page_migrateStack srv ok name e p"] False
      by (cases ok) (simp_all add: page_migrateStack_def Let_def split: prod.split)
  qed
qed

lemma page_deploy_ok:
  assumes "stack_page_ok srv s orig cur b p"
  shows "stack_page_ok srv s orig cur b (deployStack srv p)"
proof -
  let ?s = "with_endpoint (sc_endpoint (kp_client p)) (kp_stack p)" and ?log = "sc_log (kp_client p)"
  let ?r = "UpdateStack (sk_EndpointId ?s) (sk_Id ?s) (kp_content p) (removeInvalidEnvVars (kp_env p)) (kp_prune p)"
  note unfolded = deployStack_def updateStack_def stack_send_def Let_def
  have log: "sc_log (kp_client (deployStack srv p)) = ?log @ [?r]" by (simp add: unfolded)
  have "migrations_ok srv (sk_SwarmId s) (?log @ [?r])"
    using assms by (intro migrations_ok.other) (simp_all add: stack_page_ok_def is_swarm_migration_def)
  moreover have "isl (sr_send srv ?log ?r) \<or> accepted_text srv orig (?log @ [?r]) (kp_content p)"
  proof (cases "sr_send srv ?log ?r")
    case (Inr u)
    then have "sr_send srv ?log ?r = Inr ()" by simp
    then show ?thesis unfolding accepted_text_def by fastforce
  qed simp
  then have "sent_accepted srv orig (deployStack srv p)"
    using assms accepted_text_append [of srv orig ?log _ "[?r]"] unfolding sent_accepted_def log
    by (auto simp: stack_page_ok_def sent_accepted_def unfolded)
  ultimately show ?thesis using assms log accepted_text_append [of srv orig ?log "kp_content p" "[?r]"]
    by (auto simp: stack_page_ok_def unfolded)
qed

lemma page_answer_ok:
  assumes "stack_page_ok srv s orig cur b p"
  shows "stack_page_ok srv s orig cur (b \<or> takes_stale i p) (deploy_answered i p)"
proof (cases "i < length (kp_pending p)")
  case True
  then have "kp_pending p ! i \<in> set (kp_pending p)" by simp
  then have "isl (snd (kp_pending p ! i)) \<or> accepted_text srv orig (sc_log (kp_client p)) (fst (kp_pending p ! i))"
    using assms unfolding stack_page_ok_def sent_accepted_def by blast
  moreover have "sent_accepted srv orig (deploy_answered i p)"
    using assms by (auto simp: stack_page_ok_def sent_accepted_def deploy_answered_def dest: in_set_takeD in_set_dropD)
  ultimately show ?thesis using assms True by (auto simp: stack_page_ok_def deploy_answered_def takes_stale_def)
qed (use assms in \<open>auto simp: stack_page_ok_def deploy_answered_def\<close>)

lemma quiet_association:
  "quiet_call (call_then (associate srv s e b) (\<lambda>rc. stack_send srv (ApplyStackControl (applyResourceControl u access rc []))))"
  by (intro quiet_then quiet_operations quiet_send) (simp add: is_swarm_migration_def)

lemma page_run_ok: "page_run srv parse names s orig cur b p \<Longrightarrow> stack_page_ok srv s orig cur b p"
proof (induction rule: page_run.induct)
  case (loaded p)
  then show ?case by (simp add: stack_page_ok_def accepted_text_def sent_accepted_def migrations_ok.none)
next
  case (edited cur b p v)
  then show ?case by (auto simp: stack_page_ok_def sent_accepted_def stack_editorUpdate_def)
next
  case (env_changed cur b p env)
  then show ?case by (simp add: stack_page_ok_def sent_accepted_def)
next
  case (prune_changed cur b p prune)
  then show ?case by (simp add: stack_page_ok_def sent_accepted_def)
next
  case (duplicated cur b p name e)
  show ?case
    by (rule quiet_page [OF duplicated.IH quiet_operations(4) [of srv name "kp_content p" "removeInvalidEnvVars (kp_env p)" e
          "sk_Type (kp_stack p)"], of "client_setEndpointID e (kp_client p)"])
      (auto simp: page_duplicateStack_def split: prod.split sum.split)
next
  case (migrated cur b p ok name e)
  show ?case using migrated.IH by (rule page_migrate_ok)
next
  case (deleted cur b p ok ext e)
  show ?case
  proof (cases ok)
    case True
    then show ?thesis
      by (intro quiet_page [OF deleted.IH quiet_operations(1) [of srv "kp_stack p" ext e], of "kp_client p"])
        (simp_all add: page_deleteStack_def Let_def case_prod_beta)
  qed (use deleted.IH in \<open>simp add: page_deleteStack_def\<close>)
next
  case (associated cur b p u access e orphaned)
  show ?case
    by (rule quiet_page [OF associated.IH quiet_association [of srv "kp_stack p" e orphaned u access], of "kp_client p"])
      (simp_all add: associateStack_def Let_def case_prod_beta)
next
  case (deployed cur b p)
  show ?case using deployed.IH by (rule page_deploy_ok)
next
  case (answered cur b p i)
  show ?case using answered.IH by (rule page_answer_ok)
next
  case (stopped cur b p ok)
  show ?case
  proof (cases ok)
    case True
    then show ?thesis
      by (intro quiet_page [OF stopped.IH quiet_send(1) [of "StopStack (sk_Id (kp_stack p))" srv], of "kp_client p"])
        (simp_all add: stopStack_def is_swarm_migration_def)
  qed (use stopped.IH in \<open>simp add: stopStack_def\<close>)
next
  case (started cur b p)
  show ?case
    by (rule quiet_page [OF started.IH quiet_send(1) [of "StartStack (sk_Id (kp_stack p))" srv], of "kp_client p"])
      (simp_all add: startStack_def is_swarm_migration_def)
qed

lemma page_reach_ok: "page_reach srv parse names s orig cur p \<Longrightarrow> \<exists>b. stack_page_ok srv s orig cur b p"
  unfolding page_reach_def using page_run_ok by blast

text \<open>
  C8. Whatever the user does on the page of a stack, a stack is asked to move to another swarm only right after the target
  endpoint has answered the identifier of a swarm that is not that of the stack, and the request carries that identifier.
\<close>

theorem migrated_to_other_swarm:
  assumes "page_reach srv parse names s orig cur p"
  shows "migrations_ok srv (sk_SwarmId s) (sc_log (kp_client p))"
  using page_reach_ok [OF assms] by (auto simp: stack_page_ok_def)

text \<open>
  Whatever the user did on the page of a stack, what a deployment sends is the text that the editor reported last (at
  first the file of the stack) up to line breaks: an edit that changes only line breaks is not noticed, and the text from
  before it is sent; with the stack's identifier, without the variables that lack a name or a content.
\<close>

theorem deployed_text_up_to_breaks:
  assumes "page_reach srv parse names s orig cur p" and "q = deployStack srv p"
  shows "\<exists>e text env. sc_log (kp_client q) = sc_log (kp_client p) @ [UpdateStack e (sk_Id s) text env (kp_prune p)] \<and>
           text = kp_content p \<and> without_breaks text = without_breaks cur \<and>
           env = filter (\<lambda>v. fst v \<noteq> [] \<and> snd v \<noteq> []) (kp_env p) \<and>
           (\<forall>v. without_breaks v = without_breaks cur \<longrightarrow> deployStack srv (stack_editorUpdate parse names v p) = q)"
  using page_reach_ok [OF assms(1)] unfolding assms(2)
  by (auto simp: stack_page_ok_def deployStack_def updateStack_def stack_send_def Let_def stack_editorUpdate_def removeInvalidEnvVars_filter)

text \<open>
  C9. The page of a stack is left without a question only when nothing is lost - its text is empty, or it is the file that
  was read, or the server has accepted it in a deployment - or when the answer of an accepted deployment was taken while
  the page already showed another text. The exception is real: a text that is typed while an accepted deployment is under
  way is never sent, and when the answer comes the page is left (by the reload that follows it) without a question.
\<close>

theorem unasked_exit_loses_nothing:
  assumes "page_run srv parse names s orig cur stale p"
  shows "(\<not> asks_before_exit p \<and> \<not> stale \<longrightarrow>
       kp_content p = [] \<or> accepted_text srv orig (sc_log (kp_client p)) (kp_content p)) \<and>
    (kp_pending (deployStack srv p) = [(kp_content p, Inr ())] \<and> without_breaks v \<noteq> without_breaks (kp_content p) \<and>
     q = deploy_answered 0 (stack_editorUpdate parse names v (deployStack srv p)) \<longrightarrow>
       page_run srv parse names s orig v True q \<and> \<not> asks_before_exit q \<and> kp_content q = v \<and>
       (\<exists>e env. sc_log (kp_client q) = sc_log (kp_client p) @ [UpdateStack e (sk_Id s) (kp_content p) env (kp_prune p)]))"
proof (intro conjI impI)
  assume "\<not> asks_before_exit p \<and> \<not> stale"
  then show "kp_content p = [] \<or> accepted_text srv orig (sc_log (kp_client p)) (kp_content p)"
    using page_run_ok [OF assms] by (auto simp: stack_page_ok_def asks_before_exit_def)
next
  let ?e = "stack_editorUpdate parse names v (deployStack srv p)"
  assume "kp_pending (deployStack srv p) = [(kp_content p, Inr ())] \<and> without_breaks v \<noteq> without_breaks (kp_content p) \<and>
    q = deploy_answered 0 ?e"
  then have pending: "kp_pending (deployStack srv p) = [(kp_content p, Inr ())]"
    and differs: "without_breaks v \<noteq> without_breaks (kp_content p)" and q: "q = deploy_answered 0 ?e" by blast+
  have content: "kp_content (deployStack srv p) = kp_content p" by (simp add: deployStack_def Let_def case_prod_beta)
  then have e: "kp_pending ?e = [(kp_content p, Inr ())]" "kp_content ?e = v" "kp_client ?e = kp_client (deployStack srv p)"
    using pending differs by (simp_all add: stack_editorUpdate_def)
  have "v \<noteq> kp_content p" using differs by blast
  then have "takes_stale 0 ?e" using e by (simp add: takes_stale_def)
  then show "page_run srv parse names s orig v True q"
    using page_run.answered [OF page_run.edited [OF page_run.deployed [OF assms]], of v 0] by (simp add: q)
  show "\<not> asks_before_exit q" "kp_content q = v" using e by (simp_all add: q deploy_answered_def asks_before_exit_def)
  show "\<exists>e env. sc_log (kp_client q) = sc_log (kp_client p) @ [UpdateStack e (sk_Id s) (kp_content p) env (kp_prune p)]"
    using page_run_ok [OF assms] e(3)
    by (simp add: q deploy_answered_def stack_page_ok_def deployStack_def updateStack_def stack_send_def Let_def)
qed

section \<open>Removing stacks from the list\<close>

text \<open>A stack that Portainer does not manage is protected from users that are no administrators, and a compose one from all.\<close>

interpretation stacks: protected_table "stack_allowSelection isAdmin" "\<lambda>s. sk_External s \<and> (sk_Type s = 2 \<or> \<not> isAdmin)" for isAdmin
  by unfold_locales (auto simp: stack_allowSelection_def split: if_splits)

lemma remove_log:
  "sc_log (snd (remove_stack srv s ext e c)) = sc_log c @ [RemoveStack (if sk_Id s \<noteq> 0 then Inl (sk_Id s) else Inr (sk_Name s)) ext e]"
  by (simp add: remove_stack_def stack_send_def)

lemma delete_log:
  "sc_log (snd (deleteSelectedStacks srv e ss st)) = sc_log (snd st) @
     map (\<lambda>s. RemoveStack (if sk_Id s \<noteq> 0 then Inl (sk_Id s) else Inr (sk_Name s)) (sk_External s) e) ss"
  by (induction srv e ss st rule: deleteSelectedStacks.induct) (simp_all add: Let_def case_prod_beta remove_log)

text \<open>
  Whatever rows of the table of stacks were clicked, the removal asks the server once for every selected stack, in the
  order of the selection, by its identifier or, when it is external, by its name; and it asks for an external stack only
  for an administrator and only when it is a swarm stack.
\<close>

theorem removed_as_selected:
  assumes "table_reach (stack_allowSelection isAdmin) t"
  shows "sc_log (snd (stacks_removeAction srv True t (shown, c))) = sc_log c @
      map (\<lambda>s. RemoveStack (if sk_Id s \<noteq> 0 then Inl (sk_Id s) else Inr (sk_Name s)) (sk_External s) (sc_endpoint c)) (tb_selected t)"
    and "distinct (tb_selected t)"
    and "s \<in> set (tb_selected t) \<Longrightarrow> sk_External s \<Longrightarrow> isAdmin \<and> sk_Type s \<noteq> 2"
proof -
  show "sc_log (snd (stacks_removeAction srv True t (shown, c))) = sc_log c @
      map (\<lambda>s. RemoveStack (if sk_Id s \<noteq> 0 then Inl (sk_Id s) else Inr (sk_Name s)) (sk_External s) (sc_endpoint c)) (tb_selected t)"
    by (simp add: stacks_removeAction_def delete_log)
  show "distinct (tb_selected t)" using reached_ok [OF assms] by (simp add: selection_ok_def)
  show "isAdmin \<and> sk_Type s \<noteq> 2" if "s \<in> set (tb_selected t)" "sk_External s"
    using stacks.never_selected [OF assms that(1)] that(2) by simp
qed

section \<open>The theorems on a small endpoint\<close>

text \<open>Endpoint 5 belongs to the swarm \<open>b\<close>, every other one to \<open>a\<close>; every request is accepted but the creations.\<close>

definition small_server :: stack_server where
  "small_server = \<lparr>sr_swarm = (\<lambda>_ e. Inr (if e = 5 then ''b'' else ''a'')), sr_control = (\<lambda>_ _. Inl ''refused''),
     sr_send = (\<lambda>_ _. Inr ())\<rparr>"

definition small_stack :: "nat \<Rightarrow> stack" where
  "small_stack type = \<lparr>sk_Id = 7, sk_Type = type, sk_Name = ''web'', sk_EndpointId = 1, sk_SwarmId = ''a'', sk_Env = [], sk_Status = 1,
     sk_ResourceControl = None, sk_Regular = True, sk_External = False, sk_Orphaned = False, sk_OrphanedRunning = False\<rparr>"

definition small_page :: "nat \<Rightarrow> stack_page" where
  "small_page type = \<lparr>kp_stack = small_stack type, kp_client = \<lparr>sc_endpoint = 1, sc_log = []\<rparr>, kp_env = [(''A'', ''1''), (''B'', [])],
     kp_prune = False, kp_content = ''x'', kp_dirty = False, kp_yamlError = None, kp_left = False, kp_inProgress = False,
     kp_pending = []\<rparr>"

lemma small_page_run: "page_run small_server (\<lambda>_. Inl []) [] (small_stack type) ''x'' ''x'' False (small_page type)"
  by (rule page_run.loaded) (simp_all add: small_page_def)

lemma small_page_loaded: "page_reach small_server (\<lambda>_. Inl []) [] (small_stack type) ''x'' ''x'' (small_page type)"
  using small_page_run unfolding page_reach_def by blast

lemma small_page_migrated:
  "page_reach small_server (\<lambda>_. Inl []) [] (small_stack 1) ''x'' ''x'' (page_migrateStack small_server True ''y'' 5 (small_page 1))"
  using page_run.migrated [OF small_page_run] unfolding page_reach_def by blast

lemma small_migration_log: "sc_log (kp_client (page_migrateStack small_server True ''y'' 5 (small_page 1))) =
    [GetSwarm 5, MigrateStack 7 1 5 (Some ''b'') ''y'']"
  by (simp add: page_migrateStack_def Let_def case_prod_beta swarm_migration_log small_page_def small_server_def small_stack_def
      with_endpoint_def)

theorem endpoint_after_actions_witness:
  "sc_endpoint (kp_client (page_migrateStack small_server True ''y'' 5 (small_page 1))) = 1 \<and>
   sc_endpoint (kp_client (page_duplicateStack small_server ''y'' 5 (small_page 1))) =
     (if kp_left (page_duplicateStack small_server ''y'' 5 (small_page 1)) then 1 else 5)"
proof -
  have "\<not> kp_left (small_page 1)" by (simp add: small_page_def)
  from endpoint_after_actions [OF this refl refl refl, of small_server "''y''" 5]
  show ?thesis by (simp add: small_page_def small_stack_def with_endpoint_def)
qed

theorem migrated_to_other_swarm_witness:
  "migrations_ok small_server ''a'' [GetSwarm 5, MigrateStack 7 1 5 (Some ''b'') ''y'']"
  using migrated_to_other_swarm [OF small_page_migrated] unfolding small_migration_log by (simp add: small_stack_def)

theorem deployed_text_up_to_breaks_witness:
  "deployStack small_server (stack_editorUpdate (\<lambda>_. Inl []) [] [CHR ''x'', CHR 0x0A] (small_page 2)) = deployStack small_server (small_page 2)"
proof -
  have "without_breaks [CHR ''x'', CHR 0x0A] = without_breaks ''x''" by (simp add: without_breaks_def)
  with deployed_text_up_to_breaks [OF small_page_loaded [of 2] refl] show ?thesis by blast
qed

theorem unasked_exit_loses_nothing_witness:
  "accepted_text small_server ''x'' [] ''x'' \<and>
   \<not> asks_before_exit (deploy_answered 0 (stack_editorUpdate (\<lambda>_. Inl []) [] ''z'' (deployStack small_server (small_page 2))))"
proof
  show "accepted_text small_server ''x'' [] ''x''"
    using unasked_exit_loses_nothing [OF small_page_run [of 1]] by (simp add: small_page_def asks_before_exit_def)
  have "kp_pending (deployStack small_server (small_page 2)) = [(kp_content (small_page 2), Inr ())]"
    by (simp add: small_page_def small_server_def deployStack_def updateStack_def stack_send_def Let_def)
  moreover have "without_breaks ''z'' \<noteq> without_breaks (kp_content (small_page 2))"
    by (simp add: without_breaks_def small_page_def)
  ultimately show "\<not> asks_before_exit (deploy_answered 0 (stack_editorUpdate (\<lambda>_. Inl []) [] ''z'' (deployStack small_server (small_page 2))))"
    using unasked_exit_loses_nothing [OF small_page_run [of 2]] by blast
qed

definition small_external :: stack where
  "small_external = (small_stack 1)\<lparr>sk_Id := 0, sk_External := True\<rparr>"

definition stacks_table :: "stack table" where
  "stacks_table = selectAll (stack_allowSelection True) True (new_table [small_external, small_stack 2])"

lemma stacks_table_reached: "table_reach (stack_allowSelection True) stacks_table"
  unfolding stacks_table_def by (rule table_reach.step [OF table_reach.opened table_step.all_clicked])

lemma stacks_table_selected: "tb_selected stacks_table = [small_external, small_stack 2]"
  by (simp add: stacks_table_def selectAll_def select_row_def selectItem_def click_item_def collect_selected_def new_table_def
      Let_def small_external_def small_stack_def stack_allowSelection_def)

theorem removed_as_selected_witness:
  "sc_log (snd (stacks_removeAction small_server True stacks_table ([], \<lparr>sc_endpoint = 1, sc_log = []\<rparr>))) =
     [RemoveStack (Inr ''web'') True 1, RemoveStack (Inl 7) False 1]"
  using removed_as_selected(1) [OF stacks_table_reached, of small_server "[]" "\<lparr>sc_endpoint = 1, sc_log = []\<rparr>"]
  by (simp add: stacks_table_selected small_external_def small_stack_def)

end
