(* ===== verification/KubeHistory.thy ===== *)
theory KubeHistory
  imports KubeWorkload
begin

text \<open>
  The history of an application: \<open>kubernetes/helpers/history\<close>, \<open>kubernetes/services/historyService.js\<close>,
  \<open>kubernetes/helpers/application/rollback.js\<close>, and the rollback of the page of an application. A deployment keeps its
  revisions in replica sets, whose number is a text in an annotation; daemon sets and stateful sets keep theirs in
  controller revisions, whose number is a number. What a template or a revision holds beside the labels is not looked
  into: it is a type of its own.
\<close>

section \<open>Revisions\<close>

definition KubernetesSystem_DefaultDeploymentUniqueLabelKey :: string where
  "KubernetesSystem_DefaultDeploymentUniqueLabelKey = ''pod-template-hash''"

definition KubernetesSystem_RevisionAnnotation :: string where
  "KubernetesSystem_RevisionAnnotation = ''deployment.kubernetes.io/revision''"

definition KubernetesSystem_AnnotationsToSkip :: "string list" where
  "KubernetesSystem_AnnotationsToSkip =
     [''kubectl.kubernetes.io/last-applied-configuration'', KubernetesSystem_RevisionAnnotation,
      ''deployment.kubernetes.io/revision-history'', ''deployment.kubernetes.io/desired-replicas'',
      ''deployment.kubernetes.io/max-replicas'', ''deprecated.deployment.rollback.to'']"

text \<open>The template of a pod; an object of labels is a dictionary.\<close>

record 't pod_template =
  pt_labels :: "string obj"
  pt_spec :: 't

record 't replica_set =
  rs_name :: string
  rs_created :: string
  rs_selector :: "string obj"
  rs_owners :: "string list"
  rs_annotations :: "string obj"
  rs_template :: "'t pod_template"
  rs_revision :: "string option"

record 't raw_deployment =
  dp_uid :: string
  dp_selector :: "string obj"
  dp_annotations :: "string obj"
  dp_template :: "'t pod_template"

record 'd controller_revision =
  cr_revision :: nat
  cr_created :: string
  cr_labels :: "string obj"
  cr_owners :: "string list"
  cr_data :: 'd

record raw_set =
  st_uid :: string
  st_selector :: "string obj"

text \<open>The comparison of \<open>filter\<close> with a property is partial: what the source has, the object must have.\<close>

definition has_all :: "string obj \<Rightarrow> string obj \<Rightarrow> bool" where
  "has_all obj source \<longleftrightarrow> list_all (\<lambda>(k, v). obj_get obj k = Some v) (obj_entries source)"

definition same_obj :: "string obj \<Rightarrow> string obj \<Rightarrow> bool" where
  "same_obj a b \<longleftrightarrow> has_all a b \<and> has_all b a"

definition equal_template :: "'t pod_template \<Rightarrow> 't pod_template \<Rightarrow> bool" where
  "equal_template a b \<longleftrightarrow> same_obj (pt_labels a) (pt_labels b) \<and> pt_spec a = pt_spec b"

section \<open>The revisions of a deployment\<close>

definition deployment_filterOwnedRevisions :: "'t replica_set list \<Rightarrow> 't raw_deployment \<Rightarrow> 't replica_set list" where
  "deployment_filterOwnedRevisions rsList d =
     sort_key (\<lambda>r. (rs_created r, rs_name r))
       (filter (\<lambda>r. dp_uid d \<in> set (rs_owners r)) (filter (\<lambda>r. has_all (rs_selector r) (dp_selector d)) rsList))"

definition without_hash :: "'t pod_template \<Rightarrow> 't pod_template" where
  "without_hash t = t\<lparr>pt_labels := obj_del (pt_labels t) KubernetesSystem_DefaultDeploymentUniqueLabelKey\<rparr>"

definition deployment_getCurrentRevision :: "'t replica_set list \<Rightarrow> 't raw_deployment \<Rightarrow> 't replica_set js_result" where
  "deployment_getCurrentRevision rsList d =
     (case find (\<lambda>r. equal_template (dp_template d) (without_hash (rs_template r))) rsList of
        None \<Rightarrow> Inl TypeError
      | Some r \<Rightarrow> Inr (r\<lparr>rs_template := without_hash (rs_template r),
          rs_revision := obj_get (rs_annotations r) KubernetesSystem_RevisionAnnotation\<rparr>))"

definition filterVersionedRevisions :: "'t replica_set list \<Rightarrow> 't replica_set list" where
  "filterVersionedRevisions rsList =
     map (\<lambda>r. r\<lparr>rs_revision := obj_get (rs_annotations r) KubernetesSystem_RevisionAnnotation\<rparr>)
       (filter (\<lambda>r. obj_has (rs_annotations r) KubernetesSystem_RevisionAnnotation) rsList)"

text \<open>Sorting by the revision compares texts.\<close>

definition getDeploymentRevisions ::
    "'t replica_set list \<Rightarrow> 't raw_deployment \<Rightarrow> ('t replica_set \<times> 't replica_set list) js_result" where
  "getDeploymentRevisions rsList d =
     (let own = deployment_filterOwnedRevisions rsList d
      in and_then (deployment_getCurrentRevision own d) (\<lambda>current.
           Inr (current, sort_key (\<lambda>r. the (rs_revision r)) (filterVersionedRevisions own))))"

section \<open>The revisions of daemon sets and stateful sets\<close>

definition set_filterOwnedRevisions :: "'d controller_revision list \<Rightarrow> raw_set \<Rightarrow> 'd controller_revision list" where
  "set_filterOwnedRevisions crList s =
     sort_key (\<lambda>r. (cr_revision r, cr_created r))
       (filter (\<lambda>r. st_uid s \<in> set (cr_owners r)) (filter (\<lambda>r. has_all (cr_labels r) (st_selector s)) crList))"

definition set_getCurrentRevision :: "'d controller_revision list \<Rightarrow> 'd controller_revision option" where
  "set_getCurrentRevision crList = (if crList = [] then None else Some (last crList))"

definition getSetRevisions :: "'d controller_revision list \<Rightarrow> raw_set \<Rightarrow> 'd controller_revision option \<times> 'd controller_revision list" where
  "getSetRevisions crList s =
     (let own = set_filterOwnedRevisions crList s in (set_getCurrentRevision own, sort_key cr_revision own))"

section \<open>The history of an application\<close>

datatype 't raw_application = DeploymentApp "'t raw_deployment" | SetApp application_type raw_set | PodApp

datatype ('t, 'd) history =
    DeploymentHistory "'t replica_set" "'t replica_set list"
  | SetHistory "'d controller_revision option" "'d controller_revision list"

text \<open>Nothing is looked for when the server has no revisions; a failure is one with an empty message.\<close>

definition history_get ::
    "string + 't replica_set list \<Rightarrow> string + 'd controller_revision list \<Rightarrow> 't raw_application \<Rightarrow> string + ('t, 'd) history option" where
  "history_get replicaSets revisions app = (case app of
       DeploymentApp d \<Rightarrow> (case replicaSets of
           Inl e \<Rightarrow> Inl []
         | Inr [] \<Rightarrow> Inr None
         | Inr rs \<Rightarrow> (case getDeploymentRevisions rs d of
             Inl e \<Rightarrow> Inl []
           | Inr (current, all) \<Rightarrow> Inr (Some (DeploymentHistory current all))))
     | SetApp type s \<Rightarrow> (case revisions of
           Inl e \<Rightarrow> Inl []
         | Inr [] \<Rightarrow> Inr None
         | Inr crs \<Rightarrow> (let (current, all) = getSetRevisions crs s in Inr (Some (SetHistory current all))))
     | PodApp \<Rightarrow> Inr None)"

section \<open>Rolling back\<close>

text \<open>The patch of a deployment replaces its template and its annotations; that of a set is kept in the revision.\<close>

datatype ('t, 'd) rollback_payload = ReplaceTemplate "'t pod_template" "string obj" | RevisionData 'd

definition rollback_annotations :: "string obj \<Rightarrow> string obj \<Rightarrow> string obj" where
  "rollback_annotations own target =
     fold (\<lambda>(k, v) a. if k \<in> set KubernetesSystem_AnnotationsToSkip then a else obj_set a k v) (obj_entries target)
       (fold (\<lambda>k a. case obj_get own k of Some v \<Rightarrow> if v \<noteq> [] then obj_set a k v else a | None \<Rightarrow> a)
          KubernetesSystem_AnnotationsToSkip [])"

definition getDeploymentPayload :: "'t raw_deployment \<Rightarrow> 't replica_set \<Rightarrow> ('t, 'd) rollback_payload" where
  "getDeploymentPayload d target =
     ReplaceTemplate (without_hash (rs_template target)) (rollback_annotations (dp_annotations d) (rs_annotations target))"

text \<open>The page goes back to the revision before the last one; with fewer than two there is none.\<close>

definition nth_last2 :: "'a list \<Rightarrow> 'a option" where
  "nth_last2 xs = (if length xs < 2 then None else Some (xs ! (length xs - 2)))"

definition rollbackApplication :: "'t raw_application \<Rightarrow> ('t, 'd) history option \<Rightarrow> ('t, 'd) rollback_payload js_result" where
  "rollbackApplication app history = (case (app, history) of
       (DeploymentApp d, Some (DeploymentHistory current all)) \<Rightarrow>
         (case nth_last2 all of None \<Rightarrow> Inl TypeError | Some target \<Rightarrow> Inr (getDeploymentPayload d target))
     | (SetApp type s, Some (SetHistory current all)) \<Rightarrow>
         (case nth_last2 all of None \<Rightarrow> Inl TypeError | Some target \<Rightarrow> Inr (RevisionData (cr_data target)))
     | (PodApp, h) \<Rightarrow> Inl (ThrownError ''Unable to determine which association to use to convert patch'')
     | (a, h) \<Rightarrow> Inl TypeError)"

text \<open>What the cluster makes of the patch of a deployment.\<close>

fun patched :: "'t raw_deployment \<Rightarrow> ('t, 'd) rollback_payload \<Rightarrow> 't raw_deployment" where
  "patched d (ReplaceTemplate t a) = d\<lparr>dp_template := t, dp_annotations := a\<rparr>"
| "patched d (RevisionData x) = d"

section \<open>Lemmas\<close>

lemma has_all_get: "has_all obj source \<longleftrightarrow> (\<forall>k v. obj_get source k = Some v \<longrightarrow> obj_get obj k = Some v)"
  by (auto simp: has_all_def list_all_iff set_obj_entries)

lemma equal_template_refl [simp]: "equal_template t t"
  by (simp add: equal_template_def same_obj_def has_all_get)

lemma set_annotations:
  assumes "\<And>k v. (k, v) \<in> set es \<Longrightarrow> obj_get target k = Some v"
  shows "obj_get (fold (\<lambda>(k, v) a. if k \<in> skip then a else obj_set a k v) es a) j =
    (if j \<notin> skip \<and> j \<in> fst ` set es then obj_get target j else obj_get a j)"
  using assms
proof (induction es arbitrary: a)
  case (Cons e es)
  obtain k v where e: "e = (k, v)" by (cases e)
  have v: "obj_get target k = Some v" using Cons.prems e by simp
  have IH: "\<And>a. obj_get (fold (\<lambda>(k, v) a. if k \<in> skip then a else obj_set a k v) es a) j =
      (if j \<notin> skip \<and> j \<in> fst ` set es then obj_get target j else obj_get a j)"
    by (rule Cons.IH) (use Cons.prems in auto)
  show ?case using v e by (simp add: IH)
qed simp

lemma kept_annotations:
  "obj_get (fold (\<lambda>k a. case obj_get own k of Some v \<Rightarrow> if v \<noteq> [] then obj_set a k v else a | None \<Rightarrow> a) ks a) j =
    (if j \<in> set ks \<and> truthy_str (obj_get own j) then obj_get own j else obj_get a j)"
  by (induction ks arbitrary: a) (auto simp: truthy_str_def split: option.splits)

lemma rollback_annotations_get:
  "obj_get (rollback_annotations own target) k =
    (if k \<in> set KubernetesSystem_AnnotationsToSkip then if truthy_str (obj_get own k) then obj_get own k else None
     else obj_get target k)"
proof -
  have "fst ` set (obj_entries target) = {k. obj_get target k \<noteq> None}" by (force simp: set_obj_entries)
  then show ?thesis unfolding rollback_annotations_def
    by (subst set_annotations [where target = target]) (auto simp: set_obj_entries kept_annotations simp del: not_None_eq)
qed

lemma second_largest:
  fixes key :: "'a \<Rightarrow> 'k :: linorder"
  assumes "sorted (map key xs)" and "distinct (map key xs)" and "nth_last2 xs = Some x"
  shows "{y \<in> set xs. key x < key y} = {last xs}" and "x \<in> set xs"
proof -
  from assms(3) have len: "2 \<le> length xs" and x: "x = xs ! (length xs - 2)" by (auto simp: nth_last2_def split: if_splits)
  have "sorted_wrt (<) (map key xs)" using assms(1,2) by (simp add: strict_sorted_iff)
  then have step: "\<And>i j. i < j \<Longrightarrow> j < length xs \<Longrightarrow> key (xs ! i) < key (xs ! j)"
    using sorted_wrt_nth_less [of "(<)" "map key xs"] by simp
  have less: "key (xs ! i) < key (xs ! j) \<longleftrightarrow> i < j" if "i < length xs" "j < length xs" for i j
    using step [of i j] step [of j i] that by (cases i j rule: linorder_cases) auto
  have "key x < key y \<longleftrightarrow> y = last xs" if y: "y \<in> set xs" for y
  proof -
    from y obtain j where j: "j < length xs" "y = xs ! j" by (auto simp: in_set_conv_nth)
    have "key x < key y \<longleftrightarrow> length xs - 2 < j" using less [of "length xs - 2" j] len j x by simp
    also have "\<dots> \<longleftrightarrow> j = length xs - 1" using j(1) len by auto
    also have "\<dots> \<longleftrightarrow> xs ! j = xs ! (length xs - 1)"
      using j(1) len nth_eq_iff_index_eq [of xs j "length xs - 1"] assms(2) by (simp add: distinct_map)
    also have "xs ! (length xs - 1) = last xs" using len by (subst last_conv_nth) auto
    finally show ?thesis using j(2) by simp
  qed
  moreover have "last xs \<in> set xs" using len by (intro last_in_set) auto
  ultimately show "{y \<in> set xs. key x < key y} = {last xs}" by auto
  show "x \<in> set xs" using x len by simp
qed

text \<open>Numbers of as many digits are in the order of their texts.\<close>

lemma foldl_digits: "foldl (\<lambda>a c. 10 * a + digit_value c) a s = a * 10 ^ length s + digits_value s"
proof (induction s arbitrary: a)
  case (Cons c s)
  have "foldl (\<lambda>a c. 10 * a + digit_value c) a (c # s) = (10 * a + digit_value c) * 10 ^ length s + digits_value s"
    using Cons.IH by simp
  moreover have "digits_value (c # s) = digit_value c * 10 ^ length s + digits_value s"
    unfolding digits_value_def using Cons.IH [of "digit_value c"] by (simp add: digits_value_def)
  ultimately show ?case by (simp add: algebra_simps)
qed (simp add: digits_value_def)

lemma digits_value_Cons: "digits_value (c # s) = digit_value c * 10 ^ length s + digits_value s"
  using foldl_digits [of "digit_value c" s] by (simp add: digits_value_def)

lemma digits_less:
  assumes "length s = length t" and "list_all is_digit s" and "list_all is_digit t"
  shows "s < t \<longleftrightarrow> digits_value s < digits_value t"
  using assms
proof (induction s t rule: list_induct2)
  case (Cons c s d t)
  have bounds: "digits_value s < 10 ^ length s" "digits_value t < 10 ^ length s"
    using Cons digits_value_bound by fastforce+
  have digits: "is_digit c" "is_digit d" using Cons.prems by simp_all
  then have char1: "c < d \<longleftrightarrow> digit_value c < digit_value d" by (simp add: less_char_def is_digit_def digit_value_def) linarith
  have char2: "c = d \<longleftrightarrow> digit_value c = digit_value d" using digit_char_value digits by metis
  have "a * 10 ^ length s + x < b * 10 ^ length s + y \<longleftrightarrow> a < b \<or> a = b \<and> x < y"
    if "x < 10 ^ length s" "y < 10 ^ length s" for a b x y :: nat
  proof (cases a b rule: linorder_cases)
    case less
    then have "(a + 1) * 10 ^ length s \<le> b * 10 ^ length s" by (intro mult_right_mono) simp_all
    with that less show ?thesis by simp
  next
    case greater
    then have "(b + 1) * 10 ^ length s \<le> a * 10 ^ length s" by (intro mult_right_mono) simp_all
    with that greater show ?thesis by simp
  qed simp
  then show ?case using Cons bounds char1 char2 by (simp add: digits_value_Cons)
qed simp

lemma show_nat_less: "length (show_nat a) = length (show_nat b) \<Longrightarrow> show_nat a < show_nat b \<longleftrightarrow> a < b"
  using digits_less show_nat_digits by simp

section \<open>Properties\<close>

lemma versioned_revision: "r \<in> set (filterVersionedRevisions rs) \<Longrightarrow> rs_revision r = obj_get (rs_annotations r) KubernetesSystem_RevisionAnnotation"
  by (auto simp: filterVersionedRevisions_def)

lemma second_unique:
  fixes key :: "'a \<Rightarrow> 'k :: linorder"
  assumes "distinct (map key xs)" and "2 \<le> length xs"
  obtains x where "nth_last2 (sort_key key xs) = Some x" and "x \<in> set xs" and "\<exists>!y. y \<in> set xs \<and> key x < key y"
proof -
  obtain x where x: "nth_last2 (sort_key key xs) = Some x" using assms(2) by (simp add: nth_last2_def)
  have d: "distinct (map key (sort_key key xs))"
    using assms(1) by (simp add: distinct_map)
  note second = second_largest [OF sorted_sort_key d x]
  have "y \<in> set xs \<and> key x < key y \<longleftrightarrow> y = last (sort_key key xs)" for y using second(1) by auto
  then have "\<exists>!y. y \<in> set xs \<and> key x < key y" by simp
  moreover have "x \<in> set xs" using second(2) by simp
  ultimately show ?thesis using x by (intro that)
qed

text \<open>
  C22. The button that rolls an application back. For a deployment it asks for the template, without its hash, of the
  revision whose number is exceeded, as a text, by that of exactly one other revision of the deployment; the annotations
  that belong to the deployment stay and all others are those of the revision. This is the revision before the newest when
  all numbers have as many digits; otherwise the order of texts puts 10 before 9. For a daemon set and a stateful set it asks
  for the data of the revision whose number is exceeded by exactly one other.
\<close>

theorem rollback_to_second_text:
  assumes "own = filterVersionedRevisions (deployment_filterOwnedRevisions rs d)"
    and "history_get (Inr rs) crs (DeploymentApp d) = Inr (Some h)" and "2 \<le> length own" and "distinct (map rs_revision own)"
    and "\<forall>r \<in> set own. rs_revision r = Some (show_nat (num r))"
    and "kept = set_filterOwnedRevisions srs s" and "history_get rss (Inr srs) (SetApp type s) = Inr (Some g)"
    and "2 \<le> length kept" and "distinct (map cr_revision kept)"
  shows "(\<exists>target a. target \<in> set own \<and>
       rollbackApplication (DeploymentApp d) (Some h) = Inr (ReplaceTemplate (without_hash (rs_template target)) a) \<and>
       (\<forall>k. obj_get a k = (if k \<in> set KubernetesSystem_AnnotationsToSkip
          then if truthy_str (obj_get (dp_annotations d) k) then obj_get (dp_annotations d) k else None
          else obj_get (rs_annotations target) k)) \<and>
       (\<exists>!r. r \<in> set own \<and> show_nat (num target) < show_nat (num r)) \<and>
       ((\<forall>r \<in> set own. length (show_nat (num r)) = n) \<longrightarrow> (\<exists>!r. r \<in> set own \<and> num target < num r))) \<and>
    (\<exists>target \<in> set kept. rollbackApplication (SetApp type s) (Some g) = Inr (RevisionData (cr_data target)) \<and>
       (\<exists>!r. r \<in> set kept \<and> cr_revision target < cr_revision r))"
proof
  let ?key = "\<lambda>r. the (rs_revision r)"
  have keys: "map ?key own = map (\<lambda>r. show_nat (num r)) own" using assms(5) by simp
  have "map rs_revision own = map Some (map (\<lambda>r. show_nat (num r)) own)" using assms(5) by simp
  then have "distinct (map ?key own)" using assms(4) unfolding keys by (metis distinct_map)
  then obtain target where target: "nth_last2 (sort_key ?key own) = Some target" "target \<in> set own"
    and one: "\<exists>!r. r \<in> set own \<and> ?key target < ?key r"
    using assms(3) by (rule second_unique)
  obtain current where h: "h = DeploymentHistory current (sort_key ?key own)"
    using assms(1,2) by (auto simp: history_get_def getDeploymentRevisions_def Let_def elim!: and_then_InrE
        split: list.splits sum.splits)
  have texts: "r \<in> set own \<Longrightarrow> ?key target < ?key r \<longleftrightarrow> show_nat (num target) < show_nat (num r)" for r
    using assms(5) target(2) by simp
  have "rollbackApplication (DeploymentApp d) (Some h) = Inr (ReplaceTemplate (without_hash (rs_template target))
      (rollback_annotations (dp_annotations d) (rs_annotations target)))"
    by (simp add: rollbackApplication_def h target(1) getDeploymentPayload_def)
  moreover have "\<exists>!r. r \<in> set own \<and> num target < num r" if "\<forall>r \<in> set own. length (show_nat (num r)) = n"
    using one texts that target(2) show_nat_less by metis
  moreover have "\<exists>!r. r \<in> set own \<and> show_nat (num target) < show_nat (num r)" using one texts by metis
  ultimately show "\<exists>target a. target \<in> set own \<and>
       rollbackApplication (DeploymentApp d) (Some h) = Inr (ReplaceTemplate (without_hash (rs_template target)) a) \<and>
       (\<forall>k. obj_get a k = (if k \<in> set KubernetesSystem_AnnotationsToSkip
          then if truthy_str (obj_get (dp_annotations d) k) then obj_get (dp_annotations d) k else None
          else obj_get (rs_annotations target) k)) \<and>
       (\<exists>!r. r \<in> set own \<and> show_nat (num target) < show_nat (num r)) \<and>
       ((\<forall>r \<in> set own. length (show_nat (num r)) = n) \<longrightarrow> (\<exists>!r. r \<in> set own \<and> num target < num r))"
    using target(2) rollback_annotations_get by blast
next
  obtain target where target: "nth_last2 (sort_key cr_revision kept) = Some target" "target \<in> set kept"
    and one: "\<exists>!r. r \<in> set kept \<and> cr_revision target < cr_revision r"
    using assms(9,8) by (rule second_unique)
  obtain current where "g = SetHistory current (sort_key cr_revision kept)"
    using assms(6,7) by (auto simp: history_get_def getSetRevisions_def Let_def split: list.splits)
  then have "rollbackApplication (SetApp type s) (Some g) = Inr (RevisionData (cr_data target))"
    by (simp add: rollbackApplication_def target(1))
  with target(2) one show "\<exists>target \<in> set kept. rollbackApplication (SetApp type s) (Some g) = Inr (RevisionData (cr_data target)) \<and>
       (\<exists>!r. r \<in> set kept \<and> cr_revision target < cr_revision r)" by blast
qed

text \<open>
  When the cluster applies the patch of a rollback, the deployment has the template of the revision without its hash,
  keeps its own annotations of the kinds that belong to the deployment and takes all others from the revision; the current
  revision that is found afterwards is one with that template.
\<close>

theorem rollback_restores_template:
  assumes "target \<in> set (deployment_filterOwnedRevisions rs d)" and "e = patched d (getDeploymentPayload d target)"
  shows "(\<exists>current. deployment_getCurrentRevision (deployment_filterOwnedRevisions rs e) e = Inr current \<and>
           equal_template (rs_template current) (without_hash (rs_template target))) \<and>
    obj_get (dp_annotations e) k =
      (if k \<in> set KubernetesSystem_AnnotationsToSkip then if truthy_str (obj_get (dp_annotations d) k) then obj_get (dp_annotations d) k else None
       else obj_get (rs_annotations target) k)"
proof
  have e: "dp_template e = without_hash (rs_template target)" "dp_annotations e = rollback_annotations (dp_annotations d) (rs_annotations target)"
    "deployment_filterOwnedRevisions rs e = deployment_filterOwnedRevisions rs d"
    by (simp_all add: assms(2) getDeploymentPayload_def deployment_filterOwnedRevisions_def)
  let ?P = "\<lambda>r. equal_template (dp_template e) (without_hash (rs_template r))"
  have "?P target" using e by simp
  then obtain r where r: "find ?P (deployment_filterOwnedRevisions rs d) = Some r"
    using assms(1) by (metis find_None_iff option.exhaust)
  then have "?P r" by (metis find_Some_iff)
  then have "equal_template (without_hash (rs_template r)) (without_hash (rs_template target))"
    using e by (simp add: equal_template_def same_obj_def conj_commute)
  then show "\<exists>current. deployment_getCurrentRevision (deployment_filterOwnedRevisions rs e) e = Inr current \<and>
      equal_template (rs_template current) (without_hash (rs_template target))"
    using r e(3) by (simp add: deployment_getCurrentRevision_def)
  show "obj_get (dp_annotations e) k =
      (if k \<in> set KubernetesSystem_AnnotationsToSkip then if truthy_str (obj_get (dp_annotations d) k) then obj_get (dp_annotations d) k else None
       else obj_get (rs_annotations target) k)" unfolding e by (rule rollback_annotations_get)
qed

section \<open>A deployment with its ninth to eleventh revision\<close>

definition small_set :: "nat \<Rightarrow> nat replica_set" where
  "small_set n = \<lparr>rs_name = show_nat n, rs_created = ''2021'', rs_selector = [(''app'', ''web'')], rs_owners = [''d''],
     rs_annotations = [(KubernetesSystem_RevisionAnnotation, show_nat n)],
     rs_template = \<lparr>pt_labels = [(''pod-template-hash'', show_nat n)], pt_spec = n\<rparr>, rs_revision = None\<rparr>"

definition small_versioned :: "nat \<Rightarrow> nat replica_set" where
  "small_versioned n = (small_set n)\<lparr>rs_revision := Some (show_nat n)\<rparr>"

definition small_deployment :: "nat raw_deployment" where
  "small_deployment = \<lparr>dp_uid = ''d'', dp_selector = [(''app'', ''web'')], dp_annotations = [], dp_template = \<lparr>pt_labels = [], pt_spec = 11\<rparr>\<rparr>"

lemma small_revisions: "\<exists>current. getDeploymentRevisions (map small_set [9, 10, 11]) small_deployment = Inr (current, map small_versioned [10, 11, 9])"
  by (rule exI [of _ "(small_versioned 11)\<lparr>rs_template := \<lparr>pt_labels = [], pt_spec = 11\<rparr>\<rparr>"]) code_simp

lemma small_fields [simp]: "pt_spec (rs_template (small_versioned n)) = n" "rs_revision (small_versioned n) = Some (show_nat n)"
  by (simp_all add: small_versioned_def small_set_def)

definition small_controller :: "nat \<Rightarrow> nat controller_revision" where
  "small_controller n = \<lparr>cr_revision = n, cr_created = ''2021'', cr_labels = [(''app'', ''web'')], cr_owners = [''s''], cr_data = n\<rparr>"

definition small_raw_set :: raw_set where
  "small_raw_set = \<lparr>st_uid = ''s'', st_selector = [(''app'', ''web'')]\<rparr>"

text \<open>Of the texts of the revisions that of the ninth is the greatest, so the rollback goes to the eleventh, the current one.\<close>

theorem rollback_to_second_text_witness:
  "\<exists>h target a. history_get (Inr (map small_set [9, 10, 11])) (Inr (map small_controller [9, 10, 11])) (DeploymentApp small_deployment) =
       Inr (Some h) \<and>
     target \<in> set (map small_versioned [10, 11, 9]) \<and>
     rollbackApplication (DeploymentApp small_deployment) (Some h) = Inr (ReplaceTemplate (without_hash (rs_template target)) a) \<and>
     (\<exists>!r. r \<in> set (map small_versioned [10, 11, 9]) \<and> show_nat (pt_spec (rs_template target)) < show_nat (pt_spec (rs_template r)))"
proof -
  let ?rs = "map small_set [9, 10, 11]" and ?crs = "map small_controller [9, 10, 11]"
  let ?num = "\<lambda>r. pt_spec (rs_template r)"
  obtain current where r: "getDeploymentRevisions ?rs small_deployment = Inr (current, map small_versioned [10, 11, 9])"
    using small_revisions by blast
  have h: "history_get (Inr ?rs) (Inr ?crs) (DeploymentApp small_deployment) =
      Inr (Some (DeploymentHistory current (map small_versioned [10, 11, 9])))"
    using r by (simp add: history_get_def)
  have own: "map small_versioned [10, 11, 9] = filterVersionedRevisions (deployment_filterOwnedRevisions ?rs small_deployment)"
    by code_simp
  have kept: "?crs = set_filterOwnedRevisions ?crs small_raw_set" by code_simp
  have g: "history_get (Inr ?rs) (Inr ?crs) (SetApp DAEMONSET small_raw_set) =
      Inr (Some (SetHistory (fst (getSetRevisions ?crs small_raw_set)) (snd (getSetRevisions ?crs small_raw_set))))"
    by (simp add: history_get_def case_prod_beta)
  have d: "2 \<le> length (map small_versioned [10, 11, 9])" "distinct (map rs_revision (map small_versioned [10, 11, 9]))"
    "\<forall>r \<in> set (map small_versioned [10, 11, 9]). rs_revision r = Some (show_nat (?num r))" by simp_all
  have e: "2 \<le> length ?crs" "distinct (map cr_revision ?crs)" by (simp_all add: small_controller_def)
  from conjunct1 [OF rollback_to_second_text [OF own h d kept g e, where n = 0]] obtain target a
    where "target \<in> set (map small_versioned [10, 11, 9])"
      and "rollbackApplication (DeploymentApp small_deployment) (Some (DeploymentHistory current (map small_versioned [10, 11, 9]) :: (nat, nat) history)) =
        Inr (ReplaceTemplate (without_hash (rs_template target)) a)"
      and "\<exists>!r. r \<in> set (map small_versioned [10, 11, 9]) \<and> show_nat (?num target) < show_nat (?num r)"
    by (elim exE conjE) (rule that)
  with h show ?thesis by (intro exI conjI)
qed

definition small_payload :: "(nat, unit) rollback_payload" where
  "small_payload = getDeploymentPayload small_deployment (small_set 9)"

theorem rollback_restores_template_witness:
  "\<exists>current. deployment_getCurrentRevision (deployment_filterOwnedRevisions [small_set 9] (patched small_deployment small_payload))
       (patched small_deployment small_payload) = Inr current \<and>
     equal_template (rs_template current) (without_hash (rs_template (small_set 9)))"
proof -
  have own: "small_set 9 \<in> set (deployment_filterOwnedRevisions [small_set 9] small_deployment)" by code_simp
  have "patched small_deployment small_payload = patched small_deployment (getDeploymentPayload small_deployment (small_set 9) :: (nat, unit) rollback_payload)"
    by (simp add: small_payload_def)
  from rollback_restores_template [OF own this] show ?thesis by (rule conjunct1)
qed

end
