(* ===== verification/KubeAppPage.thy ===== *)
theory KubeAppPage
  imports KubeHistory KubeNode KubeStages KubePorts KubeConfigUse
begin

text \<open>
  The page of a Kubernetes application, \<open>kubernetes/views/applications/edit/applicationController.js\<close>, with the pods of
  \<open>kubernetes/pod/converter.js\<close>: which nodes accept the application, its events, its folders by container, and its actions;
  and what the page says of a node against what the scheduler does.
\<close>

section \<open>Pods\<close>

text \<open>A field that the API leaves out is missing in the model too, whatever the constructor had put there.\<close>

record toleration =
  tn_Key :: "string option"
  tn_Operator :: "string option"
  tn_Value :: "string option"
  tn_Effect :: "string option"
  tn_Seconds :: "nat option"

record container_status =
  cs_name :: string
  cs_running :: bool
  cs_waiting :: bool
  cs_restarts :: nat

definition pod_computeStatus :: "container_status list \<Rightarrow> string" where
  "pod_computeStatus statuses =
     (if filter cs_waiting statuses \<noteq> [] then ''Waiting''
      else if filter cs_running statuses = [] then ''Terminated'' else ''Running'')"

definition computeContainerStatus :: "container_status list \<Rightarrow> string \<Rightarrow> string" where
  "computeContainerStatus statuses name = (case find (\<lambda>s. cs_name s = name) statuses of
       None \<Rightarrow> ''Terminated''
     | Some s \<Rightarrow> if cs_waiting s then ''Waiting'' else if \<not> cs_running s then ''Terminated'' else ''Running'')"

datatype container_type = InitContainer | AppContainer

record api_pod_container =
  pc_name :: string
  pc_image :: string
  pc_mounts :: "string list"

record pod_container =
  pk_Type :: container_type
  pk_PodName :: string
  pk_Name :: string
  pk_Image :: string
  pk_Node :: string
  pk_Status :: string
  pk_mounts :: "string list"

record api_pod =
  po_uid :: string
  po_name :: string
  po_namespace :: string
  po_nodeName :: string
  po_containers :: "api_pod_container list"
  po_initContainers :: "api_pod_container list"
  po_statuses :: "container_status list"
  po_labels :: "string obj"
  po_affinity :: "node_affinity option"
  po_nodeSelector :: "string obj option"
  po_tolerations :: "toleration list"

record pod =
  pd_Id :: string
  pd_Name :: string
  pd_Namespace :: string
  pd_Images :: "string list"
  pd_Status :: string
  pd_Restarts :: nat
  pd_Node :: string
  pd_Containers :: "pod_container list"
  pd_Labels :: "string obj"
  pd_Affinity :: node_affinity
  pd_NodeSelector :: "string obj option"
  pd_Tolerations :: "toleration list"

definition computeContainers :: "api_pod \<Rightarrow> pod_container list" where
  "computeContainers data =
     (let make = (\<lambda>type c. \<lparr>pk_Type = type, pk_PodName = po_name data, pk_Name = pc_name c, pk_Image = pc_image c,
            pk_Node = po_nodeName data, pk_Status = computeContainerStatus (po_statuses data) (pc_name c), pk_mounts = pc_mounts c\<rparr>)
      in map (make AppContainer) (po_containers data) @ map (make InitContainer) (po_initContainers data))"

definition pod_apiToModel :: "api_pod \<Rightarrow> pod" where
  "pod_apiToModel data =
     \<lparr>pd_Id = po_uid data, pd_Name = po_name data, pd_Namespace = po_namespace data,
      pd_Images = map pc_image (po_containers data), pd_Status = pod_computeStatus (po_statuses data),
      pd_Restarts = sum_list (map cs_restarts (po_statuses data)), pd_Node = po_nodeName data,
      pd_Containers = computeContainers data, pd_Labels = po_labels data, pd_Affinity = computeAffinity (po_affinity data),
      pd_NodeSelector = po_nodeSelector data, pd_Tolerations = po_tolerations data\<rparr>"

section \<open>Placements\<close>

record placed_node =
  pn_node :: kube_node
  pn_Accepts :: bool
  pn_UnmetTaints :: "node_taint list option"
  pn_UnmatchedLabels :: "(string \<times> string) list option"
  pn_UnmatchedAffinities :: "requirement list list option"

definition page_tolerates :: "toleration list \<Rightarrow> node_taint \<Rightarrow> bool" where
  "page_tolerates ts t \<longleftrightarrow>
     (\<exists>p \<in> set ts. tn_Key p = ta_Key t \<and> tn_Operator p = Some ''Equal'' \<and> tn_Value p = ta_Value t \<and> tn_Effect p = Some (ta_Effect t)) \<or>
     (\<exists>p \<in> set ts. tn_Key p = ta_Key t \<and> tn_Operator p = Some ''Exists'' \<and> tn_Effect p = Some (ta_Effect t)) \<or>
     (\<exists>p \<in> set ts. tn_Key p = ta_Key t \<and> tn_Operator p = Some ''Equal'' \<and> tn_Value p = ta_Value t \<and> tn_Effect p = Some []) \<or>
     (\<exists>p \<in> set ts. tn_Key p = ta_Key t \<and> tn_Operator p = Some ''Exists'' \<and> tn_Effect p = Some []) \<or>
     (\<exists>p \<in> set ts. tn_Key p = Some [] \<and> tn_Operator p = Some ''Exists'' \<and> tn_Effect p = Some [])"

text \<open>Every taint sets anew whether the node accepts the application, so the last one decides.\<close>

fun place_taint :: "toleration list \<Rightarrow> node_taint \<Rightarrow> placed_node \<Rightarrow> placed_node" where
  "place_taint ts t n =
     (if page_tolerates ts t then n\<lparr>pn_Accepts := True\<rparr>
      else n\<lparr>pn_Accepts := False, pn_UnmetTaints := map_option (\<lambda>us. us @ [t]) (pn_UnmetTaints n)\<rparr>)"

definition computeTolerations :: "kube_node list \<Rightarrow> pod list \<Rightarrow> placed_node list" where
  "computeTolerations nodes pods = map (\<lambda>n.
       let p = \<lparr>pn_node = n, pn_Accepts = True, pn_UnmetTaints = None, pn_UnmatchedLabels = None, pn_UnmatchedAffinities = None\<rparr>
       in case pods of
            [] \<Rightarrow> p
          | pod # _ \<Rightarrow> fold (place_taint (pd_Tolerations pod)) (kn_Taints n) (p\<lparr>pn_UnmetTaints := Some []\<rparr>)) nodes"

text \<open>\<open>values[0]\<close> of a requirement without values throws; of an empty list it is no number.\<close>

definition first_number :: "requirement \<Rightarrow> jsnum js_result" where
  "first_number e = (case rq_values e of
       None \<Rightarrow> Inl TypeError
     | Some [] \<Rightarrow> Inr NaN
     | Some (v # _) \<Rightarrow> Inr (parse_int v))"

definition page_requirement :: "string obj \<Rightarrow> requirement \<Rightarrow> bool js_result" where
  "page_requirement labels e =
     (let label = obj_get labels (rq_key e); exists = label \<noteq> None;
          isIn = (exists \<and> the label \<in> set (case rq_values e of None \<Rightarrow> [] | Some vs \<Rightarrow> vs))
      in case rq_operator e of
           EXISTS \<Rightarrow> Inr exists
         | DOES_NOT_EXIST \<Rightarrow> Inr (\<not> exists)
         | IN \<Rightarrow> Inr isIn
         | NOT_IN \<Rightarrow> Inr (\<not> isIn)
         | GREATER_THAN \<Rightarrow> if exists then and_then (first_number e) (\<lambda>v. Inr (num_less v (parse_int (the label)))) else Inr False
         | LOWER_THAN \<Rightarrow> if exists then and_then (first_number e) (\<lambda>v. Inr (num_less (parse_int (the label)) v)) else Inr False)"

definition unmatched_expressions :: "string obj \<Rightarrow> requirement list \<Rightarrow> requirement list js_result" where
  "unmatched_expressions labels es =
     fold_result (\<lambda>e acc. and_then (page_requirement labels e) (\<lambda>met. Inr (if met then acc else acc @ [e]))) es []"

definition unmatched_terms :: "string obj \<Rightarrow> requirement list list \<Rightarrow> requirement list list js_result" where
  "unmatched_terms labels terms =
     fold_result (\<lambda>t acc. and_then (unmatched_expressions labels t) (\<lambda>us. Inr (if us = [] then acc else acc @ [us]))) terms []"

text \<open>The package that compares the labels with the selector gives operations with a pointer and a text.\<close>

datatype patch_kind = AddOp | ReplaceOp | RemoveOp

record label_patch =
  lp_op :: patch_kind
  lp_path :: string
  lp_value :: string

type_synonym label_compare = "string obj \<Rightarrow> string obj \<Rightarrow> label_patch list"

definition place_selector :: "label_compare \<Rightarrow> pod \<Rightarrow> placed_node \<Rightarrow> placed_node" where
  "place_selector compare pod n = (case pd_NodeSelector pod of
       None \<Rightarrow> n
     | Some selector \<Rightarrow>
         (let us = map (\<lambda>i. (dropWhile (\<lambda>c. c = CHR ''/'') (lp_path i), lp_value i))
                     (filter (\<lambda>i. lp_op i \<noteq> RemoveOp) (compare (kn_Labels (pn_node n)) selector))
          in n\<lparr>pn_UnmatchedLabels := Some us, pn_Accepts := (pn_Accepts n \<and> us = [])\<rparr>))"

definition place_affinity :: "pod \<Rightarrow> placed_node \<Rightarrow> placed_node js_result" where
  "place_affinity pod n = (case na_required (pd_Affinity pod) of
       None \<Rightarrow> Inr n
     | Some terms \<Rightarrow> and_then (unmatched_terms (kn_Labels (pn_node n)) terms) (\<lambda>us.
         Inr (n\<lparr>pn_UnmatchedAffinities := Some us, pn_Accepts := (pn_Accepts n \<and> us = [])\<rparr>)))"

definition computeAffinities :: "label_compare \<Rightarrow> placed_node list \<Rightarrow> pod list \<Rightarrow> placed_node list js_result" where
  "computeAffinities compare nodes pods = (case pods of
       [] \<Rightarrow> Inr nodes
     | pod # _ \<Rightarrow> fold_result (\<lambda>n acc. and_then (place_affinity pod (place_selector compare pod n)) (\<lambda>p. Inr (acc @ [p]))) nodes [])"

definition computePlacements :: "label_compare \<Rightarrow> kube_node list \<Rightarrow> pod list \<Rightarrow> placed_node list js_result" where
  "computePlacements compare nodes pods = computeAffinities compare (computeTolerations nodes pods) pods"

definition placementWarning :: "placed_node list \<Rightarrow> bool" where
  "placementWarning ps \<longleftrightarrow> \<not> (\<exists>p \<in> set ps. pn_Accepts p)"

section \<open>The containers of an application\<close>

definition container_folders :: "persisted_folder list \<Rightarrow> pod_container \<Rightarrow> persisted_folder list" where
  "container_folders folders c = filter (\<lambda>f. fo_MountPath f \<noteq> [] \<and> fo_MountPath f \<in> set (pk_mounts c)) folders"

definition container_config_volumes :: "config_volume list \<Rightarrow> pod_container \<Rightarrow> config_volume list" where
  "container_config_volumes volumes c = filter (\<lambda>v. cn_rootMountPath v \<noteq> [] \<and> cn_rootMountPath v \<in> set (pk_mounts c)) volumes"

definition associateContainerPersistedFoldersAndConfigurations ::
    "persisted_folder list \<Rightarrow> config_volume list \<Rightarrow> pod_container list \<Rightarrow> (pod_container \<times> persisted_folder list \<times> config_volume list) list" where
  "associateContainerPersistedFoldersAndConfigurations folders volumes cs =
     map (\<lambda>c. (c, container_folders folders c, container_config_volumes volumes c)) cs"

definition associateContainersAndApplication ::
    "persisted_folder list \<Rightarrow> config_volume list \<Rightarrow> pod list \<Rightarrow> (pod_container \<times> persisted_folder list \<times> config_volume list) list" where
  "associateContainersAndApplication folders volumes pods = (case pods of
       [] \<Rightarrow> []
     | p # _ \<Rightarrow> associateContainerPersistedFoldersAndConfigurations folders volumes (pd_Containers p))"

definition associateAllContainersAndApplication ::
    "persisted_folder list \<Rightarrow> config_volume list \<Rightarrow> pod list \<Rightarrow> (pod_container \<times> persisted_folder list \<times> config_volume list) list" where
  "associateAllContainersAndApplication folders volumes pods =
     associateContainerPersistedFoldersAndConfigurations folders volumes (concat (map pd_Containers pods))"

section \<open>The rest of the page\<close>

definition js_text :: "string option \<Rightarrow> string" where
  "js_text s = (case s of None \<Rightarrow> ''undefined'' | Some x \<Rightarrow> x)"

definition buildIngressRuleURL :: "ingress_rule \<Rightarrow> string" where
  "buildIngressRuleURL rule = ''http://'' @ js_text (if truthy_str (ir_Host rule) then ir_Host rule else ir_IP rule) @ js_text (ir_Path rule)"

definition ruleCanBeDisplayed :: "ingress_rule \<Rightarrow> bool" where
  "ruleCanBeDisplayed rule \<longleftrightarrow> \<not> (\<not> truthy_str (ir_Host rule) \<and> \<not> truthy_str (ir_IP rule))"

definition portHasIngressRules :: "ingress_rule list \<Rightarrow> bool" where
  "portHasIngressRules rules \<longleftrightarrow> rules \<noteq> []"

definition useIngress :: "ingress_rule list list \<Rightarrow> bool" where
  "useIngress ports \<longleftrightarrow> find portHasIngressRules ports \<noteq> None"

record kube_event =
  ev_uid :: string
  ev_Type :: string

definition warningCount :: "kube_event list \<Rightarrow> nat" where
  "warningCount events = length (filter (\<lambda>e. ev_Type e = ''Warning'') events)"

definition application_events :: "string \<Rightarrow> string option \<Rightarrow> pod list \<Rightarrow> kube_event list \<Rightarrow> kube_event list" where
  "application_events appId serviceId pods events =
     filter (\<lambda>e. ev_uid e = appId \<or> Some (ev_uid e) = serviceId \<or> find (\<lambda>p. pd_Id p = ev_uid e) pods \<noteq> None) events"

text \<open>The pods are deleted together; the page is loaded again when all were.\<close>

definition redeployApplication :: "(string \<times> string) server \<Rightarrow> bool \<Rightarrow> pod list \<Rightarrow> (string \<times> string) list \<times> bool" where
  "redeployApplication server confirmed pods =
     (if confirmed then run_stages server [map (\<lambda>p. Send (pd_Namespace p, pd_Name p)) pods] [] else ([], False))"

section \<open>What the scheduler does\<close>

text \<open>
  The documented rules of the cluster: an empty effect stands for every effect, an empty key for every key, and a missing
  operator for \<open>Equal\<close>; a taint keeps a pod away unless its effect is only a preference; one required term must hold.
\<close>

definition tolerates :: "toleration \<Rightarrow> node_taint \<Rightarrow> bool" where
  "tolerates p t \<longleftrightarrow>
     (or_str (tn_Effect p) [] \<noteq> [] \<longrightarrow> tn_Effect p = Some (ta_Effect t)) \<and>
     (or_str (tn_Key p) [] \<noteq> [] \<longrightarrow> or_str (tn_Key p) [] = or_str (ta_Key t) []) \<and>
     (or_str (tn_Operator p) ''Equal'' = ''Exists'' \<or>
      or_str (tn_Operator p) ''Equal'' = ''Equal'' \<and> or_str (tn_Value p) [] = or_str (ta_Value t) [])"

definition untainted :: "toleration list \<Rightarrow> node_taint list \<Rightarrow> bool" where
  "untainted ts taints \<longleftrightarrow> (\<forall>t \<in> set taints. ta_Effect t \<in> {''NoSchedule'', ''NoExecute''} \<longrightarrow> (\<exists>p \<in> set ts. tolerates p t))"

definition integer_of :: "string \<Rightarrow> int option" where
  "integer_of s = (case parse_int s of NaN \<Rightarrow> None | Num i \<Rightarrow> if show_int i = s then Some i else None)"

definition requirement_holds :: "string obj \<Rightarrow> requirement \<Rightarrow> bool" where
  "requirement_holds labels e =
     (let label = obj_get labels (rq_key e); values = (case rq_values e of None \<Rightarrow> [] | Some vs \<Rightarrow> vs);
          numbers = (\<lambda>less. case (label, values) of
            (Some l, [v]) \<Rightarrow> (case (integer_of l, integer_of v) of (Some a, Some b) \<Rightarrow> less a b | _ \<Rightarrow> False)
          | _ \<Rightarrow> False)
      in case rq_operator e of
           IN \<Rightarrow> label \<in> Some ` set values
         | NOT_IN \<Rightarrow> label \<notin> Some ` set values
         | EXISTS \<Rightarrow> label \<noteq> None
         | DOES_NOT_EXIST \<Rightarrow> label = None
         | GREATER_THAN \<Rightarrow> numbers (\<lambda>a b. b < (a::int))
         | LOWER_THAN \<Rightarrow> numbers (\<lambda>a b. a < (b::int)))"

definition schedulable :: "pod \<Rightarrow> kube_node \<Rightarrow> bool" where
  "schedulable pod n \<longleftrightarrow>
     untainted (pd_Tolerations pod) (kn_Taints n) \<and>
     (case pd_NodeSelector pod of None \<Rightarrow> True | Some s \<Rightarrow> has_all (kn_Labels n) s) \<and>
     (case na_required (pd_Affinity pod) of None \<Rightarrow> True
      | Some terms \<Rightarrow> \<exists>t \<in> set terms. t \<noteq> [] \<and> (\<forall>e \<in> set t. requirement_holds (kn_Labels n) e))"

section \<open>What the page says of a node\<close>

lemma placed_taints:
  "pn_Accepts (fold (place_taint ts) taints n) = (if taints = [] then pn_Accepts n else page_tolerates ts (last taints))"
  "pn_UnmetTaints (fold (place_taint ts) taints n) = map_option (\<lambda>us. us @ filter (\<lambda>t. \<not> page_tolerates ts t) taints) (pn_UnmetTaints n)"
  "pn_node (fold (place_taint ts) taints n) = pn_node n"
  by (induction taints arbitrary: n) (simp_all add: option.map_comp comp_def option.map_ident)

lemma fold_unmet:
  "fold_result (\<lambda>x acc. and_then (f x) (\<lambda>met. Inr (if met then acc else acc @ [x]))) xs acc = Inr us \<longleftrightarrow>
     list_all (\<lambda>x. \<not> isl (f x)) xs \<and> us = acc @ filter (\<lambda>x. f x = Inr False) xs"
proof (induction xs arbitrary: acc)
  case (Cons x xs)
  show ?case
  proof (cases "f x")
    case (Inr met)
    then show ?thesis using Cons.IH by (cases met) auto
  qed simp
qed auto

lemma fold_collected:
  "fold_result (\<lambda>x acc. and_then (f x) (\<lambda>p. Inr (acc @ [p]))) xs acc = Inr ps \<longleftrightarrow>
     (\<exists>qs. ps = acc @ qs \<and> list_all2 (\<lambda>x q. f x = Inr q) xs qs)"
proof (induction xs arbitrary: acc)
  case (Cons x xs)
  show ?case
  proof (cases "f x")
    case (Inl e)
    then show ?thesis by (auto simp: list_all2_Cons1)
  next
    case (Inr p)
    then show ?thesis using Cons.IH by (auto simp: list_all2_Cons1)
  qed
qed auto

lemma unmatched_expressions_empty:
  "unmatched_expressions labels es = Inr [] \<longleftrightarrow> (\<forall>e \<in> set es. page_requirement labels e = Inr True)"
proof -
  have r: "\<not> isl r \<and> r \<noteq> Inr False \<longleftrightarrow> r = Inr True" for r :: "bool js_result" by (cases r) auto
  have "unmatched_expressions labels es = Inr [] \<longleftrightarrow>
      (\<forall>e \<in> set es. \<not> isl (page_requirement labels e) \<and> page_requirement labels e \<noteq> Inr False)"
    unfolding unmatched_expressions_def fold_unmet by (auto simp: list_all_iff filter_empty_conv eq_commute [of "[]"])
  then show ?thesis unfolding r .
qed

lemma unmatched_terms_empty:
  assumes "unmatched_terms labels terms = Inr us"
  shows "us = [] \<longleftrightarrow> (\<forall>t \<in> set terms. \<forall>e \<in> set t. page_requirement labels e = Inr True)"
proof -
  have "fold_result (\<lambda>t acc. and_then (unmatched_expressions labels t) (\<lambda>us. Inr (if us = [] then acc else acc @ [us]))) terms acc = Inr us \<Longrightarrow>
      us = [] \<longleftrightarrow> acc = [] \<and> (\<forall>t \<in> set terms. unmatched_expressions labels t = Inr [])" for acc
  proof (induction terms arbitrary: acc)
    case (Cons t terms)
    from Cons.prems obtain u where u: "unmatched_expressions labels t = Inr u"
      by (cases "unmatched_expressions labels t") simp_all
    with Cons.prems have "fold_result (\<lambda>t acc. and_then (unmatched_expressions labels t) (\<lambda>us. Inr (if us = [] then acc else acc @ [us]))) terms
        (if u = [] then acc else acc @ [u]) = Inr us" by simp
    from Cons.IH [OF this] u show ?case by auto
  qed simp
  from this [of "[]"] assms show ?thesis unfolding unmatched_terms_def by (simp add: unmatched_expressions_empty)
qed

text \<open>The laws of the package: an operation for every label of the selector that the node has not, at the pointer of its key.\<close>

definition pointer_of :: "string \<Rightarrow> string" where
  "pointer_of k = CHR ''/'' # concat (map (\<lambda>c. if c = CHR ''~'' then ''~0'' else if c = CHR ''/'' then ''~1'' else [c]) k)"

definition label_compare_laws :: "label_compare \<Rightarrow> bool" where
  "label_compare_laws compare \<longleftrightarrow> (\<forall>old new.
     (\<lambda>i. (lp_path i, lp_value i)) ` {i \<in> set (compare old new). lp_op i \<noteq> RemoveOp} =
     {(pointer_of k, v) | k v. obj_get new k = Some v \<and> obj_get old k \<noteq> Some v})"

lemma selector_unmatched:
  assumes "label_compare_laws compare"
  shows "filter (\<lambda>i. lp_op i \<noteq> RemoveOp) (compare labels selector) = [] \<longleftrightarrow> has_all labels selector"
proof -
  have "filter (\<lambda>i. lp_op i \<noteq> RemoveOp) (compare labels selector) = [] \<longleftrightarrow>
      (\<lambda>i. (lp_path i, lp_value i)) ` {i \<in> set (compare labels selector). lp_op i \<noteq> RemoveOp} = {}"
    by (auto simp: filter_empty_conv)
  also have "\<dots> \<longleftrightarrow> has_all labels selector"
    using assms unfolding label_compare_laws_def has_all_get by auto
  finally show ?thesis .
qed

lemma placed_selector:
  assumes "label_compare_laws compare"
  shows "pn_Accepts (place_selector compare pod n) \<longleftrightarrow>
      pn_Accepts n \<and> (case pd_NodeSelector pod of None \<Rightarrow> True | Some s \<Rightarrow> has_all (kn_Labels (pn_node n)) s)"
    and "pn_node (place_selector compare pod n) = pn_node n" and "pn_UnmetTaints (place_selector compare pod n) = pn_UnmetTaints n"
  by (auto simp: place_selector_def Let_def selector_unmatched [OF assms] split: option.split)

lemma placed_affinity:
  assumes "place_affinity pod n = Inr p"
  shows "pn_Accepts p \<longleftrightarrow> pn_Accepts n \<and> (case na_required (pd_Affinity pod) of None \<Rightarrow> True
      | Some terms \<Rightarrow> \<forall>t \<in> set terms. \<forall>e \<in> set t. page_requirement (kn_Labels (pn_node n)) e = Inr True)"
    and "pn_UnmetTaints p = pn_UnmetTaints n"
proof -
  have "(pn_Accepts p \<longleftrightarrow> pn_Accepts n \<and> (case na_required (pd_Affinity pod) of None \<Rightarrow> True
      | Some terms \<Rightarrow> \<forall>t \<in> set terms. \<forall>e \<in> set t. page_requirement (kn_Labels (pn_node n)) e = Inr True)) \<and>
      pn_UnmetTaints p = pn_UnmetTaints n"
  proof (cases "na_required (pd_Affinity pod)")
    case None
    then show ?thesis using assms by (simp add: place_affinity_def)
  next
    case (Some terms)
    with assms obtain us where us: "unmatched_terms (kn_Labels (pn_node n)) terms = Inr us"
      and p: "p = n\<lparr>pn_UnmatchedAffinities := Some us, pn_Accepts := (pn_Accepts n \<and> us = [])\<rparr>"
      by (auto simp: place_affinity_def elim!: and_then_InrE)
    show ?thesis using Some p unmatched_terms_empty [OF us] by simp
  qed
  then show "pn_Accepts p \<longleftrightarrow> pn_Accepts n \<and> (case na_required (pd_Affinity pod) of None \<Rightarrow> True
      | Some terms \<Rightarrow> \<forall>t \<in> set terms. \<forall>e \<in> set t. page_requirement (kn_Labels (pn_node n)) e = Inr True)"
    and "pn_UnmetTaints p = pn_UnmetTaints n" by blast+
qed

definition shown_as_accepting :: "pod \<Rightarrow> kube_node \<Rightarrow> bool" where
  "shown_as_accepting pod n \<longleftrightarrow>
     (kn_Taints n = [] \<or> page_tolerates (pd_Tolerations pod) (last (kn_Taints n))) \<and>
     (case pd_NodeSelector pod of None \<Rightarrow> True | Some s \<Rightarrow> has_all (kn_Labels n) s) \<and>
     (case na_required (pd_Affinity pod) of None \<Rightarrow> True
      | Some terms \<Rightarrow> \<forall>t \<in> set terms. \<forall>e \<in> set t. page_requirement (kn_Labels n) e = Inr True)"

lemma placement_shown:
  assumes "computePlacements compare nodes (pod # pods) = Inr ps" and "label_compare_laws compare" and "i < length nodes"
  shows "pn_Accepts (ps ! i) \<longleftrightarrow> shown_as_accepting pod (nodes ! i)"
    and "pn_UnmetTaints (ps ! i) = Some (filter (\<lambda>t. \<not> page_tolerates (pd_Tolerations pod) t) (kn_Taints (nodes ! i)))"
proof -
  let ?ns = "computeTolerations nodes (pod # pods)"
  have "list_all2 (\<lambda>n p. place_affinity pod (place_selector compare pod n) = Inr p) ?ns ps"
    using assms(1) by (simp add: computePlacements_def computeAffinities_def fold_collected)
  then have p: "place_affinity pod (place_selector compare pod (?ns ! i)) = Inr (ps ! i)"
    using assms(3) by (simp add: list_all2_conv_all_nth computeTolerations_def)
  have n: "pn_Accepts (?ns ! i) \<longleftrightarrow> kn_Taints (nodes ! i) = [] \<or> page_tolerates (pd_Tolerations pod) (last (kn_Taints (nodes ! i)))"
    "pn_node (?ns ! i) = nodes ! i"
    "pn_UnmetTaints (?ns ! i) = Some (filter (\<lambda>t. \<not> page_tolerates (pd_Tolerations pod) t) (kn_Taints (nodes ! i)))"
    using assms(3) by (simp_all add: computeTolerations_def Let_def placed_taints)
  show "pn_Accepts (ps ! i) \<longleftrightarrow> shown_as_accepting pod (nodes ! i)"
    unfolding placed_affinity(1) [OF p] placed_selector [OF assms(2)] n shown_as_accepting_def by blast
  show "pn_UnmetTaints (ps ! i) = Some (filter (\<lambda>t. \<not> page_tolerates (pd_Tolerations pod) t) (kn_Taints (nodes ! i)))"
    unfolding placed_affinity(2) [OF p] placed_selector(3) [OF assms(2)] n ..
qed

section \<open>Where the page and the scheduler agree\<close>

definition spelled_out :: "toleration \<Rightarrow> bool" where
  "spelled_out p \<longleftrightarrow> tn_Key p \<noteq> None \<and> tn_Effect p \<noteq> None \<and> tn_Operator p \<in> {Some ''Equal'', Some ''Exists''} \<and>
     tn_Value p \<noteq> Some [] \<and> (tn_Key p = Some [] \<longrightarrow> tn_Operator p = Some ''Exists'' \<and> tn_Effect p = Some [])"

definition plain_taint :: "node_taint \<Rightarrow> bool" where
  "plain_taint t \<longleftrightarrow> or_str (ta_Key t) [] \<noteq> [] \<and> ta_Value t \<noteq> Some [] \<and> ta_Effect t \<in> {''NoSchedule'', ''NoExecute''}"

definition plain_requirement :: "requirement \<Rightarrow> bool" where
  "plain_requirement e \<longleftrightarrow> rq_operator e \<in> {IN, NOT_IN, EXISTS, DOES_NOT_EXIST}"

definition page_matches :: "toleration \<Rightarrow> node_taint \<Rightarrow> bool" where
  "page_matches p t \<longleftrightarrow>
     (tn_Key p = ta_Key t \<and> (tn_Operator p = Some ''Equal'' \<and> tn_Value p = ta_Value t \<or> tn_Operator p = Some ''Exists'') \<and>
        tn_Effect p \<in> {Some (ta_Effect t), Some []}) \<or>
     tn_Key p = Some [] \<and> tn_Operator p = Some ''Exists'' \<and> tn_Effect p = Some []"

lemma page_tolerates_matches: "page_tolerates ts t \<longleftrightarrow> (\<exists>p \<in> set ts. page_matches p t)"
  unfolding page_tolerates_def page_matches_def by blast

lemma or_str_empty: "or_str x [] = (case x of None \<Rightarrow> [] | Some s \<Rightarrow> s)"
  by (simp add: or_str_def truthy_str_def split: option.split)

lemma same_value: "x \<noteq> Some [] \<Longrightarrow> y \<noteq> Some [] \<Longrightarrow> or_str x [] = or_str y [] \<longleftrightarrow> x = y"
  by (auto simp: or_str_empty split: option.splits)

lemma matches_tolerates:
  assumes "spelled_out p" and "plain_taint t"
  shows "page_matches p t \<longleftrightarrow> tolerates p t"
proof -
  have v: "or_str (tn_Value p) [] = or_str (ta_Value t) [] \<longleftrightarrow> tn_Value p = ta_Value t"
    using assms by (intro same_value) (simp_all add: spelled_out_def plain_taint_def)
  have e: "ta_Effect t \<noteq> []" using assms(2) by (auto simp: plain_taint_def)
  obtain k where k: "ta_Key t = Some k" "k \<noteq> []" using assms(2) by (cases "ta_Key t") (auto simp: plain_taint_def or_str_empty)
  obtain pk pe where p: "tn_Key p = Some pk" "tn_Effect p = Some pe" using assms(1) by (auto simp: spelled_out_def)
  have op: "tn_Operator p = Some ''Equal'' \<or> tn_Operator p = Some ''Exists''" using assms(1) by (auto simp: spelled_out_def)
  have ops: "or_str (Some ''Equal'') ''Equal'' = ''Equal''" "or_str (Some ''Exists'') ''Equal'' = ''Exists''" by code_simp+
  have empty: "pk = [] \<Longrightarrow> tn_Operator p = Some ''Exists'' \<and> pe = []" using assms(1) p by (simp add: spelled_out_def)
  from op show ?thesis
  proof
    assume o1: "tn_Operator p = Some ''Equal''"
    then have "pk \<noteq> []" using empty by auto
    then show ?thesis unfolding page_matches_def tolerates_def p o1 ops k v using k(2) by (auto simp: or_str_empty v [unfolded or_str_empty])
  next
    assume o2: "tn_Operator p = Some ''Exists''"
    show ?thesis
    proof (cases "pk = []")
      case True
      with empty have "pe = []" by blast
      with True show ?thesis unfolding page_matches_def tolerates_def p o2 ops k or_str_empty by simp
    next
      case False
      then show ?thesis unfolding page_matches_def tolerates_def p o2 ops k or_str_empty by auto
    qed
  qed
qed

lemma plain_requirement_holds: "plain_requirement e \<Longrightarrow> page_requirement labels e = Inr (requirement_holds labels e)"
  by (cases "obj_get labels (rq_key e)")
     (auto simp: plain_requirement_def page_requirement_def requirement_holds_def Let_def split: option.split)

text \<open>
  C23. Of a node with at most one taint, which has a key and keeps pods away (its effect is no mere preference), and of an
  application whose tolerations have all their fields and which requires at most one term of requirements (In, NotIn,
  Exists, DoesNotExist; no comparison of numbers), the page shows the node as accepting the application exactly when its
  taints, the selector and the required affinity of the pods let the scheduler put them there. (A taint that is only a
  preference, a comparison, or a second taint or term makes the page and the scheduler disagree.)
\<close>

theorem acceptance_is_scheduling:
  assumes "computePlacements compare nodes (pod # pods) = Inr ps" and "label_compare_laws compare" and "i < length nodes"
    and "length (kn_Taints (nodes ! i)) \<le> 1" and "\<forall>t \<in> set (kn_Taints (nodes ! i)). plain_taint t"
    and "\<forall>p \<in> set (pd_Tolerations pod). spelled_out p"
    and "na_required (pd_Affinity pod) = None \<or> na_required (pd_Affinity pod) = Some [tm]"
    and "tm \<noteq> []" and "\<forall>e \<in> set tm. plain_requirement e"
  shows "pn_Accepts (ps ! i) \<longleftrightarrow> schedulable pod (nodes ! i)"
proof -
  let ?n = "nodes ! i" and ?ts = "pd_Tolerations pod"
  have t: "page_tolerates ?ts t \<longleftrightarrow> (\<exists>p \<in> set ?ts. tolerates p t)" "ta_Effect t \<in> {''NoSchedule'', ''NoExecute''}"
    if "t \<in> set (kn_Taints ?n)" for t
    using that assms(5,6) matches_tolerates unfolding page_tolerates_matches plain_taint_def by blast+
  have "(kn_Taints ?n = [] \<or> page_tolerates ?ts (last (kn_Taints ?n))) \<longleftrightarrow> untainted ?ts (kn_Taints ?n)"
  proof (cases "kn_Taints ?n")
    case (Cons t rest)
    with assms(4) have "kn_Taints ?n = [t]" by simp
    with t [of t] show ?thesis by (simp add: untainted_def)
  qed (simp add: untainted_def)
  moreover have "(case na_required (pd_Affinity pod) of None \<Rightarrow> True
        | Some terms \<Rightarrow> \<forall>t \<in> set terms. \<forall>e \<in> set t. page_requirement (kn_Labels ?n) e = Inr True) \<longleftrightarrow>
      (case na_required (pd_Affinity pod) of None \<Rightarrow> True
        | Some terms \<Rightarrow> \<exists>t \<in> set terms. t \<noteq> [] \<and> (\<forall>e \<in> set t. requirement_holds (kn_Labels ?n) e))"
    using assms(7-9) by (auto simp: plain_requirement_holds)
  ultimately show ?thesis
    unfolding placement_shown(1) [OF assms(1-3)] shown_as_accepting_def schedulable_def by blast
qed

text \<open>Where it does not: of two taints only the last one counts, so a node that no pod of the application can go to is shown.\<close>

lemma last_taint_counts:
  assumes "computePlacements compare nodes (pod # pods) = Inr ps" and "label_compare_laws compare" and "i < length nodes"
    and "kn_Taints (nodes ! i) = [a, b]" and "page_tolerates (pd_Tolerations pod) b"
    and "pd_NodeSelector pod = None" and "na_required (pd_Affinity pod) = None"
  shows "pn_Accepts (ps ! i)"
  using placement_shown(1) [OF assms(1-3)] assms(4-7) by (simp add: shown_as_accepting_def)

section \<open>A small cluster\<close>

definition small_compare :: label_compare where
  "small_compare old new = map (\<lambda>(k, v). \<lparr>lp_op = ReplaceOp, lp_path = pointer_of k, lp_value = v\<rparr>)
     (filter (\<lambda>(k, v). obj_get old k \<noteq> Some v) (obj_entries new))"

lemma small_compare_laws: "label_compare_laws small_compare"
proof -
  have "(\<lambda>i. (lp_path i, lp_value i)) ` {i \<in> set (small_compare old new). lp_op i \<noteq> RemoveOp} =
      (\<lambda>(k, v). (pointer_of k, v)) ` {(k, v). obj_get new k = Some v \<and> obj_get old k \<noteq> Some v}" for old new
  proof -
    have "{i \<in> set (small_compare old new). lp_op i \<noteq> RemoveOp} =
        (\<lambda>(k, v). \<lparr>lp_op = ReplaceOp, lp_path = pointer_of k, lp_value = v\<rparr>) ` {(k, v). obj_get new k = Some v \<and> obj_get old k \<noteq> Some v}"
      by (auto simp: small_compare_def set_obj_entries)
    then show ?thesis by (simp add: image_image case_prod_beta)
  qed
  then show ?thesis unfolding label_compare_laws_def by auto
qed

definition small_kube_node :: kube_node where
  "small_kube_node = \<lparr>kn_Id = ''1'', kn_Name = Some ''n1'', kn_Labels = [(''disk'', ''ssd'')], kn_Role = ''Worker'',
     kn_Conditions = \<lparr>nc_MemoryPressure = False, nc_PIDPressure = False, nc_DiskPressure = False, nc_NetworkUnavailable = False\<rparr>,
     kn_Availability = NodeActive, kn_Status = ''Ready'', kn_CPU = None, kn_Memory = [], kn_Version = [], kn_IPAddress = [],
     kn_Taints = [\<lparr>ta_Key = Some ''db'', ta_Value = Some ''x'', ta_Effect = ''NoSchedule''\<rparr>], kn_Api = False, kn_Port = None\<rparr>"

definition small_pod :: pod where
  "small_pod = pod_apiToModel \<lparr>po_uid = ''p'', po_name = ''web'', po_namespace = ''default'', po_nodeName = ''n1'', po_containers = [],
     po_initContainers = [], po_statuses = [], po_labels = [], po_affinity = Some \<lparr>na_required =
       Some [[\<lparr>rq_key = ''disk'', rq_operator = IN, rq_values = Some [''ssd'']\<rparr>]], na_preferred = None\<rparr>,
     po_nodeSelector = Some [(''disk'', ''ssd'')],
     po_tolerations = [\<lparr>tn_Key = Some ''db'', tn_Operator = Some ''Equal'', tn_Value = Some ''x'', tn_Effect = Some ''NoSchedule'', tn_Seconds = None\<rparr>]\<rparr>"

lemma small_placements: "\<exists>p. computePlacements small_compare [small_kube_node] [small_pod] = Inr [p] \<and> pn_Accepts p"
  by (rule exI [of _ "\<lparr>pn_node = small_kube_node, pn_Accepts = True, pn_UnmetTaints = Some [], pn_UnmatchedLabels = Some [],
      pn_UnmatchedAffinities = Some []\<rparr>"]) code_simp

theorem acceptance_is_scheduling_witness: "schedulable small_pod small_kube_node"
proof -
  obtain p where p: "computePlacements small_compare [small_kube_node] [small_pod] = Inr [p]" "pn_Accepts p"
    using small_placements by blast
  let ?alt = "[\<lparr>rq_key = ''disk'', rq_operator = IN, rq_values = Some [''ssd'']\<rparr>]"
  have "\<forall>t \<in> set (kn_Taints small_kube_node). plain_taint t" "\<forall>p \<in> set (pd_Tolerations small_pod). spelled_out p" by code_simp+
  moreover have "na_required (pd_Affinity small_pod) = Some [?alt]" by code_simp
  moreover have "length (kn_Taints small_kube_node) \<le> 1" by code_simp
  moreover have "\<forall>e \<in> set ?alt. plain_requirement e" by (simp add: plain_requirement_def)
  ultimately have "pn_Accepts ([p] ! 0) \<longleftrightarrow> schedulable small_pod ([small_kube_node] ! 0)"
    by (intro acceptance_is_scheduling [OF p(1) small_compare_laws, where i = 0 and tm = ?alt]) simp_all
  with p(2) show ?thesis by simp
qed

end
