(* ===== verification/Accesses.thy ===== *)
theory Accesses
  imports KubeConfigs
begin

text \<open>
  Who may use an endpoint, a group, a registry or a namespace: \<open>portainer/services/api/accessService.js\<close>, the models of
  \<open>portainer/models/access.js\<close>, the component of \<open>portainer/components/accessManagement\<close> and the page
  \<open>kubernetes/views/resource-pools/access/resourcePoolAccessController.js\<close>. Policies are maps from the identifier of a user or
  a team to a role; those of a namespace are kept as JSON text in a config map (\<open>KubeConfigs\<close>).
\<close>

section \<open>Accesses\<close>

type_synonym policies = "nat \<rightharpoonup> nat"

record access =
  ac_Id :: nat
  ac_Name :: string
  ac_User :: bool
  ac_Inherited :: bool
  ac_Override :: bool
  ac_Role :: nat
  ac_Updated :: bool

definition UserAccessViewModel :: "nat \<Rightarrow> string \<Rightarrow> access" where
  "UserAccessViewModel i name = \<lparr>ac_Id = i, ac_Name = name, ac_User = True, ac_Inherited = False, ac_Override = False,
     ac_Role = 0, ac_Updated = False\<rparr>"

definition TeamAccessViewModel :: "nat \<Rightarrow> string \<Rightarrow> access" where
  "TeamAccessViewModel i name = \<lparr>ac_Id = i, ac_Name = name, ac_User = False, ac_Inherited = False, ac_Override = False,
     ac_Role = 0, ac_Updated = False\<rparr>"

record access_lists =
  al_available :: "access list"
  al_authorized :: "access list"

definition map_access :: "policies \<Rightarrow> policies \<Rightarrow> access \<Rightarrow> access_lists \<Rightarrow> access_lists" where
  "map_access authorizedPolicies inheritedPolicies access l =
     (let authorized = authorizedPolicies (ac_Id access) \<noteq> None; inherited = inheritedPolicies (ac_Id access) \<noteq> None
      in if authorized \<and> inherited then l\<lparr>al_authorized := al_authorized l @ [access\<lparr>ac_Override := True\<rparr>]\<rparr>
         else if authorized \<and> \<not> inherited then l\<lparr>al_authorized := al_authorized l @ [access]\<rparr>
         else if \<not> authorized \<and> inherited
           then l\<lparr>al_authorized := al_authorized l @ [access\<lparr>ac_Inherited := True\<rparr>],
                  al_available := al_available l @ [access\<lparr>ac_Inherited := True\<rparr>]\<rparr>
         else l\<lparr>al_available := al_available l @ [access]\<rparr>)"

definition mapAccessData :: "access list \<Rightarrow> policies \<Rightarrow> policies \<Rightarrow> access_lists" where
  "mapAccessData accesses authorizedPolicies inheritedPolicies =
     fold (map_access authorizedPolicies inheritedPolicies) accesses \<lparr>al_available = [], al_authorized = []\<rparr>"

text \<open>The policies of an entity that has none are empty, and so are those of a missing parent.\<close>

record entity =
  en_UserAccessPolicies :: "policies option"
  en_TeamAccessPolicies :: "policies option"

definition user_policies :: "entity \<Rightarrow> policies" where
  "user_policies e = (case en_UserAccessPolicies e of None \<Rightarrow> Map.empty | Some p \<Rightarrow> p)"

definition team_policies :: "entity \<Rightarrow> policies" where
  "team_policies e = (case en_TeamAccessPolicies e of None \<Rightarrow> Map.empty | Some p \<Rightarrow> p)"

definition getAccesses :: "access list \<Rightarrow> access list \<Rightarrow> policies \<Rightarrow> policies \<Rightarrow> policies \<Rightarrow> policies \<Rightarrow> access_lists" where
  "getAccesses users teams userPolicies teamPolicies inheritedUsers inheritedTeams =
     (let u = mapAccessData users userPolicies inheritedUsers; t = mapAccessData teams teamPolicies inheritedTeams
      in \<lparr>al_available = al_available u @ al_available t, al_authorized = al_authorized u @ al_authorized t\<rparr>)"

definition accesses :: "string + access list \<times> access list \<Rightarrow> entity option \<Rightarrow> entity option \<Rightarrow> string + access_lists" where
  "accesses loaded ent parent = (case ent of
       None \<Rightarrow> Inl ''Unable to retrieve accesses''
     | Some e \<Rightarrow> (case loaded of
         Inl x \<Rightarrow> Inl ''Unable to retrieve users and teams''
       | Inr (users, teams) \<Rightarrow> Inr (getAccesses users teams (user_policies e) (team_policies e)
           (case parent of None \<Rightarrow> Map.empty | Some p \<Rightarrow> user_policies p)
           (case parent of None \<Rightarrow> Map.empty | Some p \<Rightarrow> team_policies p))))"

definition add_policy :: "nat \<Rightarrow> access \<Rightarrow> policies \<Rightarrow> policies" where
  "add_policy selectedRoleId a m = m(ac_Id a \<mapsto> (if selectedRoleId \<noteq> 0 then selectedRoleId else ac_Role a))"

definition generateAccessPolicies ::
    "policies \<Rightarrow> policies \<Rightarrow> access list \<Rightarrow> access list \<Rightarrow> nat \<Rightarrow> policies \<times> policies" where
  "generateAccessPolicies users teams selectedUsers selectedTeams selectedRoleId =
     (fold (add_policy selectedRoleId) selectedUsers users, fold (add_policy selectedRoleId) selectedTeams teams)"

section \<open>The component that manages accesses\<close>

definition with_policies :: "policies \<times> policies \<Rightarrow> entity \<Rightarrow> entity" where
  "with_policies p e = e\<lparr>en_UserAccessPolicies := Some (fst p), en_TeamAccessPolicies := Some (snd p)\<rparr>"

definition updateAction :: "access list \<Rightarrow> entity \<Rightarrow> entity" where
  "updateAction authorized e = with_policies
     (generateAccessPolicies (user_policies e) (team_policies e)
        (filter (\<lambda>a. ac_Updated a \<and> ac_User a \<and> \<not> ac_Inherited a) authorized)
        (filter (\<lambda>a. ac_Updated a \<and> \<not> ac_User a \<and> \<not> ac_Inherited a) authorized) 0) e"

definition authorizeAccess :: "access list \<Rightarrow> entity \<Rightarrow> entity" where
  "authorizeAccess selected e = with_policies
     (generateAccessPolicies (user_policies e) (team_policies e) (filter ac_User selected) (filter (\<lambda>a. \<not> ac_User a) selected) 0) e"

definition unauthorizeAccess :: "access list \<Rightarrow> entity \<Rightarrow> entity" where
  "unauthorizeAccess selected e = with_policies
     (fold (\<lambda>a m. m(ac_Id a := None)) (filter ac_User selected) (user_policies e),
      fold (\<lambda>a m. m(ac_Id a := None)) (filter (\<lambda>a. \<not> ac_User a) selected) (team_policies e)) e"

definition open_access_page ::
    "(access list \<Rightarrow> access list) option \<Rightarrow> string + access list \<times> access list \<Rightarrow> entity option \<Rightarrow> entity option \<Rightarrow> access_lists" where
  "open_access_page filterUsers loaded ent parent = (case accesses loaded ent parent of
       Inl e \<Rightarrow> \<lparr>al_available = [], al_authorized = []\<rparr>
     | Inr l \<Rightarrow> l\<lparr>al_available := sort_key ac_Name (case filterUsers of None \<Rightarrow> al_available l | Some f \<Rightarrow> f (al_available l))\<rparr>)"

section \<open>Access to a namespace\<close>

definition item_of :: "access \<Rightarrow> access_item" where
  "item_of a = (if ac_User a then UserAccess (ac_Id a) else TeamAccess (ac_Id a))"

text \<open>A config map with the identifier 0 is the one that is made up when the server has none.\<close>

record access_config =
  xc_Id :: nat
  xc_Data :: "json obj"

definition initAccessConfigMap :: "access_config \<Rightarrow> access_config" where
  "initAccessConfigMap c = c\<lparr>xc_Data := obj_set (xc_Data c) access_key (JObj [])\<rparr>"

definition load_access_config :: "(string \<Rightarrow> json option) \<Rightarrow> access_config \<Rightarrow> access_config" where
  "load_access_config parse c =
     (let d = (if xc_Id c = 0 then initAccessConfigMap c else c) in d\<lparr>xc_Data := parseJSONData parse (xc_Data d)\<rparr>)"

text \<open>Reading a property of a missing value throws; other values than objects have no such property.\<close>

definition pool_accesses :: "access_config \<Rightarrow> string \<Rightarrow> json option js_result" where
  "pool_accesses c name = (case obj_get (xc_Data c) access_key of
       None \<Rightarrow> Inl TypeError
     | Some JNull \<Rightarrow> Inl TypeError
     | Some (JObj o') \<Rightarrow> Inr (obj_get o' name)
     | Some v \<Rightarrow> Inr None)"

definition policy_has :: "json \<Rightarrow> string \<Rightarrow> nat \<Rightarrow> bool" where
  "policy_has p field i = (case p of
       JObj o' \<Rightarrow> (case obj_get o' field of Some (JObj ps) \<Rightarrow> obj_has ps (show_nat i) | _ \<Rightarrow> False)
     | _ \<Rightarrow> False)"

definition in_pool :: "json option \<Rightarrow> access \<Rightarrow> bool" where
  "in_pool pool a = (case pool of
       None \<Rightarrow> False
     | Some p \<Rightarrow> policy_has p (if ac_User a then ''UserAccessPolicies'' else ''TeamAccessPolicies'') (ac_Id a))"

record pool_access_page =
  pg_config :: access_config
  pg_authorized :: "access list"
  pg_available :: "access list"

definition open_pool_access :: "(string \<Rightarrow> json option) \<Rightarrow> string \<Rightarrow> access list \<Rightarrow> access_config \<Rightarrow> pool_access_page js_result" where
  "open_pool_access parse name endpointAccesses c =
     (let d = load_access_config parse c
      in and_then (pool_accesses d name) (\<lambda>pool.
           let authorized = filter (in_pool pool) endpointAccesses
           in Inr \<lparr>pg_config = d, pg_authorized = authorized, pg_available = filter (\<lambda>a. a \<notin> set authorized) endpointAccesses\<rparr>))"

definition pool_authorize :: "(json \<Rightarrow> string) \<Rightarrow> string \<Rightarrow> access list \<Rightarrow> pool_access_page \<Rightarrow> access_config js_result" where
  "pool_authorize stringify name selected p =
     and_then (modifiyNamespaceAccesses stringify (xc_Data (pg_config p)) name (map item_of (pg_authorized p @ selected)))
       (\<lambda>d. Inr ((pg_config p)\<lparr>xc_Data := d\<rparr>))"

definition pool_unauthorize :: "(json \<Rightarrow> string) \<Rightarrow> string \<Rightarrow> access list \<Rightarrow> pool_access_page \<Rightarrow> access_config js_result" where
  "pool_unauthorize stringify name selected p =
     and_then (modifiyNamespaceAccesses stringify (xc_Data (pg_config p)) name
         (map item_of (filter (\<lambda>a. a \<notin> set selected) (pg_authorized p))))
       (\<lambda>d. Inr ((pg_config p)\<lparr>xc_Data := d\<rparr>))"

text \<open>A config map without an identifier is created, the server giving it one; the other is replaced.\<close>

definition updateAccess :: "nat \<Rightarrow> access_config \<Rightarrow> access_config" where
  "updateAccess new c = (if xc_Id c = 0 then c\<lparr>xc_Id := new\<rparr> else c)"

section \<open>What the lists hold\<close>

definition marked :: "policies \<Rightarrow> policies \<Rightarrow> access \<Rightarrow> access" where
  "marked own inherited a =
     (if inherited (ac_Id a) = None then a
      else if own (ac_Id a) \<noteq> None then a\<lparr>ac_Override := True\<rparr> else a\<lparr>ac_Inherited := True\<rparr>)"

lemma map_access_lists:
  "al_authorized (fold (map_access own inherited) as l) =
     al_authorized l @ map (marked own inherited) (filter (\<lambda>a. own (ac_Id a) \<noteq> None \<or> inherited (ac_Id a) \<noteq> None) as)"
  "al_available (fold (map_access own inherited) as l) =
     al_available l @ map (marked own inherited) (filter (\<lambda>a. own (ac_Id a) = None) as)"
  by (induction as arbitrary: l) (simp_all add: map_access_def marked_def Let_def)

lemma mapAccessData_lists:
  "al_authorized (mapAccessData as own inherited) =
     map (marked own inherited) (filter (\<lambda>a. own (ac_Id a) \<noteq> None \<or> inherited (ac_Id a) \<noteq> None) as)"
  "al_available (mapAccessData as own inherited) = map (marked own inherited) (filter (\<lambda>a. own (ac_Id a) = None) as)"
  by (simp_all add: mapAccessData_def map_access_lists)

lemma marked_keeps [simp]: "ac_Id (marked own inherited a) = ac_Id a" "ac_User (marked own inherited a) = ac_User a"
  by (simp_all add: marked_def)

lemma added_policies:
  "fold (add_policy 0) as m i = (if i \<in> ac_Id ` set as then fold (add_policy 0) as m i else m i)"
  "i \<in> ac_Id ` set as \<Longrightarrow> fold (add_policy 0) as m i \<noteq> None"
proof -
  show "fold (add_policy 0) as m i = (if i \<in> ac_Id ` set as then fold (add_policy 0) as m i else m i)"
    by (induction as arbitrary: m) (auto simp: add_policy_def)
  show "fold (add_policy 0) as m i \<noteq> None" if "i \<in> ac_Id ` set as"
  proof -
    have "i \<in> ac_Id ` set as \<or> m i \<noteq> None \<Longrightarrow> fold (add_policy 0) as m i \<noteq> None"
      by (induction as arbitrary: m) (auto simp: add_policy_def)
    with that show ?thesis by blast
  qed
qed

lemma removed_policies: "fold (\<lambda>a m. m(ac_Id a := None)) as m i = (if i \<in> ac_Id ` set as then None else m i)"
  by (induction as arbitrary: m) auto

lemma removed_added:
  assumes "\<And>a. a \<in> set as \<Longrightarrow> m (ac_Id a) = None"
  shows "fold (\<lambda>a m. m(ac_Id a := None)) as (fold (add_policy 0) as m) = m"
proof
  fix i
  show "fold (\<lambda>a m. m(ac_Id a := None)) as (fold (add_policy 0) as m) i = m i"
    using assms added_policies(1) [of as m i] unfolding removed_policies by auto
qed

text \<open>
  Whoever the page offers for authorization has no policy of its own: authorizing any of them adds a policy for each of
  them and changes no other, and taking their authorization away again gives the policies from before.
\<close>

theorem authorized_and_back:
  assumes "selected = filter P (al_available (getAccesses users teams (user_policies e) (team_policies e) iu it))"
    and "\<forall>a \<in> set users. ac_User a" and "\<forall>a \<in> set teams. \<not> ac_User a" and "e' = authorizeAccess selected e"
  shows "(\<forall>a \<in> set selected. (if ac_User a then user_policies e' else team_policies e') (ac_Id a) \<noteq> None) \<and>
    (\<forall>i. i \<notin> ac_Id ` set (filter ac_User selected) \<longrightarrow> user_policies e' i = user_policies e i) \<and>
    (\<forall>i. i \<notin> ac_Id ` set (filter (\<lambda>a. \<not> ac_User a) selected) \<longrightarrow> team_policies e' i = team_policies e i) \<and>
    user_policies (unauthorizeAccess selected e') = user_policies e \<and> team_policies (unauthorizeAccess selected e') = team_policies e"
proof -
  let ?us = "filter ac_User selected" and ?ts = "filter (\<lambda>a. \<not> ac_User a) selected"
  have u: "user_policies e (ac_Id a) = None" if "a \<in> set ?us" for a
    using that assms(1,3) by (auto simp: getAccesses_def Let_def mapAccessData_lists)
  have t: "team_policies e (ac_Id a) = None" if "a \<in> set ?ts" for a
    using that assms(1,2) by (auto simp: getAccesses_def Let_def mapAccessData_lists)
  have e': "user_policies e' = fold (add_policy 0) ?us (user_policies e)" "team_policies e' = fold (add_policy 0) ?ts (team_policies e)"
    by (simp_all add: assms(4) authorizeAccess_def with_policies_def generateAccessPolicies_def user_policies_def team_policies_def)
  have "user_policies (unauthorizeAccess selected e') = user_policies e" "team_policies (unauthorizeAccess selected e') = team_policies e"
    using removed_added [of ?us "user_policies e"] removed_added [of ?ts "team_policies e"] u t e'
    by (simp_all add: unauthorizeAccess_def with_policies_def user_policies_def [of "e'\<lparr>en_UserAccessPolicies := x, en_TeamAccessPolicies := y\<rparr>" for x y]
        team_policies_def [of "e'\<lparr>en_UserAccessPolicies := x, en_TeamAccessPolicies := y\<rparr>" for x y])
  moreover have "\<forall>a \<in> set selected. (if ac_User a then user_policies e' else team_policies e') (ac_Id a) \<noteq> None"
    unfolding e' using added_policies(2) by auto
  moreover have "\<forall>i. i \<notin> ac_Id ` set ?us \<longrightarrow> user_policies e' i = user_policies e i"
    "\<forall>i. i \<notin> ac_Id ` set ?ts \<longrightarrow> team_policies e' i = team_policies e i"
    unfolding e' using added_policies(1) by metis+
  ultimately show ?thesis by blast
qed

section \<open>Namespaces\<close>

lemma map_of_obj_entries_get: "map_of (obj_entries ob) k = obj_get ob k"
proof (cases "obj_get ob k")
  case None
  then show ?thesis by (force simp: map_of_eq_None_iff set_obj_entries)
next
  case (Some v)
  then have "(k, v) \<in> set (obj_entries ob)" by (simp add: set_obj_entries)
  then obtain w where "map_of (obj_entries ob) k = Some w" by (metis not_None_eq weak_map_of_SomeI)
  moreover from this have "obj_get ob k = Some w" using map_of_SomeD [of "obj_entries ob" k w] by (simp add: set_obj_entries)
  ultimately show ?thesis by simp
qed

lemma obj_get_entries [simp]: "obj_get (obj_entries ob) k = obj_get ob k"
  using map_of_obj_entries_get by (simp add: obj_get_def)

lemma policies_of_ids: "obj_get (obj_of (map (\<lambda>i. (show_nat i, j)) ids)) (show_nat i) = (if i \<in> set ids then Some j else None)"
proof -
  have "map_of (rev (map (\<lambda>i. (show_nat i, j)) ids)) (show_nat i) = (if i \<in> set ids then Some j else None)"
    by (induction ids) (auto simp: map_add_def split: option.split)
  then show ?thesis by (simp add: obj_get_obj_of)
qed

lemma namespace_policies_has:
  "policy_has (namespace_policies items) ''UserAccessPolicies'' i \<longleftrightarrow> UserAccess i \<in> set items"
  "policy_has (namespace_policies items) ''TeamAccessPolicies'' i \<longleftrightarrow> TeamAccess i \<in> set items"
proof -
  have has: "obj_has ob k \<longleftrightarrow> obj_get ob k \<noteq> None" for ob :: "json obj" and k
    by (simp add: obj_has_def obj_get_eq_None)
  have u: "i \<in> set (List.map_filter user_id items) \<longleftrightarrow> UserAccess i \<in> set items"
    by (induction items) (auto simp: List.map_filter_simps elim: user_id.elims split: option.split)
  have t: "i \<in> set (List.map_filter team_id items) \<longleftrightarrow> TeamAccess i \<in> set items"
    by (induction items) (auto simp: List.map_filter_simps elim: team_id.elims split: option.split)
  show "policy_has (namespace_policies items) ''UserAccessPolicies'' i \<longleftrightarrow> UserAccess i \<in> set items"
    "policy_has (namespace_policies items) ''TeamAccessPolicies'' i \<longleftrightarrow> TeamAccess i \<in> set items"
    by (simp_all add: policy_has_def namespace_policies_def role_policies_def has policies_of_ids u t)
qed

lemma in_pool_namespace: "in_pool (Some (namespace_policies items)) a \<longleftrightarrow> item_of a \<in> set items"
  by (simp add: in_pool_def namespace_policies_has item_of_def)

lemma written_read_back:
  assumes "modifiyNamespaceAccesses stringify data ns items = Inr d"
    and "\<And>j. JStr (stringify j) \<in> snd ` set d \<Longrightarrow> parse (stringify j) = Some j"
    and "obj_get data access_key = Some (JObj policies)"
  shows "obj_get (parseJSONData parse d) access_key = Some (JObj (obj_entries (obj_set policies ns (namespace_policies items))))"
proof -
  let ?p = "JObj (obj_entries (obj_set policies ns (namespace_policies items)))"
  let ?written = "map (\<lambda>(k, v). (k, JStr (stringify v))) (obj_set data access_key ?p)"
  have d: "d = ?written" using assms(1,3) by (simp add: modifiyNamespaceAccesses_def set_namespace_def)
  have "parse (stringify (snd kv)) = Some (snd kv)" if "kv \<in> set (obj_set data access_key ?p)" for kv
  proof -
    have "JStr (stringify (snd kv)) = snd (case kv of (k, v) \<Rightarrow> (k, JStr (stringify v)))" by (simp add: case_prod_beta)
    with that have "JStr (stringify (snd kv)) \<in> snd ` set d" unfolding d set_map by blast
    then show ?thesis by (rule assms(2))
  qed
  then have "map (\<lambda>kv. (fst kv, case parse (stringify (snd kv)) of None \<Rightarrow> JStr (stringify (snd kv)) | Some j \<Rightarrow> j))
      (obj_set data access_key ?p) = obj_set data access_key ?p" by (intro map_idI) simp
  then have "parseJSONData parse d = obj_set data access_key ?p" by (simp add: d parseJSONData_def case_prod_unfold comp_def)
  then show ?thesis by simp
qed

text \<open>
  When what is written into the config map is read back, a namespace whose page is opened again after an authorization
  lets in those of the endpoint who were let in before and those chosen, and no others; after taking accesses away, those
  let in before less those taken; and the policies of every other namespace stay as they were.
\<close>

theorem namespace_accesses_reloaded:
  assumes "open_pool_access parse name endpointAccesses c = Inr p"
    and "pool_authorize stringify name selected p = Inr d \<and> after = pg_authorized p @ selected \<or>
         pool_unauthorize stringify name selected p = Inr d \<and> after = filter (\<lambda>a. a \<notin> set selected) (pg_authorized p)"
    and "\<forall>j. JStr (stringify j) \<in> snd ` set (xc_Data d) \<longrightarrow> parse (stringify j) = Some j"
    and "obj_get (xc_Data (pg_config p)) access_key = Some (JObj policies)" and "new \<noteq> 0"
  shows "\<exists>q. open_pool_access parse name endpointAccesses (updateAccess new d) = Inr q \<and>
           pg_authorized q = filter (\<lambda>a. item_of a \<in> item_of ` set after) endpointAccesses \<and>
           pg_available q = filter (\<lambda>a. item_of a \<notin> item_of ` set after) endpointAccesses \<and>
           (other \<noteq> name \<longrightarrow> pool_accesses (pg_config q) other = pool_accesses (pg_config p) other)"
proof -
  let ?written = "obj_entries (obj_set policies name (namespace_policies (map item_of after)))"
  from assms(2) have m: "modifiyNamespaceAccesses stringify (xc_Data (pg_config p)) name (map item_of after) = Inr (xc_Data d)"
    by (auto simp: pool_authorize_def pool_unauthorize_def elim!: and_then_InrE)
  have "xc_Id (updateAccess new d) \<noteq> 0" using assms(5) by (simp add: updateAccess_def)
  then have l: "load_access_config parse (updateAccess new d) = (updateAccess new d)\<lparr>xc_Data := parseJSONData parse (xc_Data d)\<rparr>"
    by (simp add: load_access_config_def updateAccess_def)
  have "obj_get (parseJSONData parse (xc_Data d)) access_key = Some (JObj ?written)"
    by (rule written_read_back [OF m _ assms(4)]) (use assms(3) in blast)
  then have g: "pool_accesses (load_access_config parse (updateAccess new d)) n =
      Inr (if n = name then Some (namespace_policies (map item_of after)) else obj_get policies n)" for n
    unfolding l by (simp add: pool_accesses_def)
  moreover have "pool_accesses (pg_config p) n = Inr (obj_get policies n)" for n
    using assms(4) by (simp add: pool_accesses_def)
  moreover have "filter (\<lambda>a. a \<notin> set (filter P endpointAccesses)) endpointAccesses = filter (\<lambda>a. \<not> P a) endpointAccesses" for P
    by (rule filter_cong) auto
  moreover have "in_pool (Some (namespace_policies (map item_of after))) = (\<lambda>a. item_of a \<in> item_of ` set after)"
    by (rule ext) (simp add: in_pool_namespace)
  ultimately show ?thesis by (simp add: open_pool_access_def Let_def)
qed

section \<open>A small endpoint\<close>

definition small_users :: "access list" where
  "small_users = [UserAccessViewModel 2 ''ann'', UserAccessViewModel 3 ''bob'']"

definition small_teams :: "access list" where
  "small_teams = [TeamAccessViewModel 1 ''dev'']"

definition small_entity :: entity where
  "small_entity = \<lparr>en_UserAccessPolicies = Some [2 \<mapsto> 1], en_TeamAccessPolicies = None\<rparr>"

theorem authorized_and_back_witness:
  "user_policies (unauthorizeAccess [UserAccessViewModel 3 ''bob''] (authorizeAccess [UserAccessViewModel 3 ''bob''] small_entity)) = [2 \<mapsto> 1]"
proof -
  have s: "[UserAccessViewModel 3 ''bob''] = filter ac_User (al_available (getAccesses small_users small_teams (user_policies small_entity)
      (team_policies small_entity) Map.empty Map.empty))"
    by (simp add: getAccesses_def Let_def mapAccessData_lists small_users_def small_teams_def small_entity_def user_policies_def
        team_policies_def marked_def UserAccessViewModel_def TeamAccessViewModel_def)
  have u: "\<forall>a \<in> set small_users. ac_User a" "\<forall>a \<in> set small_teams. \<not> ac_User a"
    by (simp_all add: small_users_def small_teams_def UserAccessViewModel_def TeamAccessViewModel_def)
  from authorized_and_back [OF s u refl] have "user_policies (unauthorizeAccess [UserAccessViewModel 3 ''bob'']
      (authorizeAccess [UserAccessViewModel 3 ''bob''] small_entity)) = user_policies small_entity" by blast
  then show ?thesis by (simp add: small_entity_def user_policies_def)
qed

definition small_policies :: json where
  "small_policies = JObj [(''prod'', namespace_policies [UserAccess 3])]"

definition small_stringify :: "json \<Rightarrow> string" where
  "small_stringify j = (if j = small_policies then ''1'' else ''2'')"

definition small_parse :: "string \<Rightarrow> json option" where
  "small_parse s = (if s = ''1'' then Some small_policies else None)"

lemma small_pool: "open_pool_access small_parse ''prod'' small_users \<lparr>xc_Id = 0, xc_Data = []\<rparr> =
    Inr \<lparr>pg_config = \<lparr>xc_Id = 0, xc_Data = [(access_key, JObj [])]\<rparr>, pg_authorized = [], pg_available = small_users\<rparr>"
  by (simp add: open_pool_access_def load_access_config_def initAccessConfigMap_def parseJSONData_def pool_accesses_def in_pool_def Let_def)

lemma small_authorized: "pool_authorize small_stringify ''prod'' [UserAccessViewModel 3 ''bob'']
    \<lparr>pg_config = \<lparr>xc_Id = 0, xc_Data = [(access_key, JObj [])]\<rparr>, pg_authorized = [], pg_available = small_users\<rparr> =
    Inr \<lparr>xc_Id = 0, xc_Data = [(access_key, JStr ''1'')]\<rparr>"
  by (simp add: pool_authorize_def modifiyNamespaceAccesses_def set_namespace_def small_stringify_def small_policies_def item_of_def
      UserAccessViewModel_def)

theorem namespace_accesses_reloaded_witness:
  "\<exists>q. open_pool_access small_parse ''prod'' small_users \<lparr>xc_Id = 4, xc_Data = [(access_key, JStr ''1'')]\<rparr> = Inr q \<and>
     pg_authorized q = [UserAccessViewModel 3 ''bob'']"
proof -
  let ?d = "\<lparr>xc_Id = 0, xc_Data = [(access_key, JStr ''1'')]\<rparr>"
  let ?p = "\<lparr>pg_config = \<lparr>xc_Id = 0, xc_Data = [(access_key, JObj [])]\<rparr>, pg_authorized = [], pg_available = small_users\<rparr>"
  have rb: "\<forall>j. JStr (small_stringify j) \<in> snd ` set (xc_Data ?d) \<longrightarrow> small_parse (small_stringify j) = Some j"
    by (simp add: small_stringify_def small_parse_def)
  have get: "obj_get (xc_Data (pg_config ?p)) access_key = Some (JObj [])" by simp
  have four: "(4::nat) \<noteq> 0" by simp
  obtain q where "open_pool_access small_parse ''prod'' small_users (updateAccess 4 ?d) = Inr q"
    "pg_authorized q = filter (\<lambda>a. item_of a \<in> item_of ` set (pg_authorized ?p @ [UserAccessViewModel 3 ''bob''])) small_users"
    using namespace_accesses_reloaded [OF small_pool disjI1 [OF conjI [OF small_authorized refl]] rb get four] by blast
  then show ?thesis by (simp add: updateAccess_def small_users_def item_of_def UserAccessViewModel_def)
qed

end
