(* ===== verification/KubeClusterPage.thy ===== *)
theory KubeClusterPage
  imports KubeAppForm DataTables
begin

text \<open>
  The page that configures a Kubernetes cluster, \<open>kubernetes/views/configure/configureController.js\<close>: the classes of
  ingresses, the storage classes, and the requests that apply the configuration. A server answers a request knowing what
  was sent before; an object that is missing is an answer of its own, because the removal of ingresses does not mind it.
\<close>

section \<open>The form\<close>

datatype ingress_class_type = NginxClass | TraefikClass

record class_row =
  ik_Name :: string
  ik_Type :: "ingress_class_type option"
  ik_NeedsDeletion :: bool
  ik_IsNew :: bool

definition KubernetesIngressClass :: class_row where
  "KubernetesIngressClass = \<lparr>ik_Name = [], ik_Type = None, ik_NeedsDeletion = False, ik_IsNew = True\<rparr>"

record storage_row =
  sw_Name :: string
  sw_Provisioner :: string
  sw_AllowVolumeExpansion :: bool
  sw_selected :: bool
  sw_AccessModes :: "string list"

record cluster_page =
  cp_IngressClasses :: "class_row list"
  cp_refs :: "nat validation_refs"
  cp_StorageClasses :: "storage_row list"
  cp_oldStorageClasses :: "storage_row list"
  cp_UseLoadBalancer :: bool
  cp_UseServerMetrics :: bool
  cp_isServerRunning :: bool

definition hasValidStorageConfiguration :: "cluster_page \<Rightarrow> bool" where
  "hasValidStorageConfiguration p \<longleftrightarrow> list_all (\<lambda>s. \<not> (sw_selected s \<and> sw_AccessModes s = [])) (cp_StorageClasses p)"

definition class_names :: "class_row list \<Rightarrow> port_value option list" where
  "class_names cs = map (\<lambda>c. if ik_NeedsDeletion c then None else Some (PText (ik_Name c))) cs"

definition onChangeIngressClass :: "cluster_page \<Rightarrow> cluster_page" where
  "onChangeIngressClass p = p\<lparr>cp_refs := refs_of (getDuplicates (class_names (cp_IngressClasses p)))\<rparr>"

definition with_classes :: "(class_row list \<Rightarrow> class_row list) \<Rightarrow> cluster_page \<Rightarrow> cluster_page" where
  "with_classes f p = onChangeIngressClass (p\<lparr>cp_IngressClasses := f (cp_IngressClasses p)\<rparr>)"

definition addIngressClass :: "cluster_page \<Rightarrow> cluster_page" where
  "addIngressClass = with_classes (\<lambda>cs. cs @ [KubernetesIngressClass])"

text \<open>An index without a row throws before anything is changed.\<close>

definition restoreIngressClass :: "nat \<Rightarrow> cluster_page \<Rightarrow> cluster_page js_result" where
  "restoreIngressClass i p = (case elem_at (cp_IngressClasses p) i of
       None \<Rightarrow> Inl TypeError
     | Some c \<Rightarrow> Inr (with_classes (\<lambda>cs. cs[i := c\<lparr>ik_NeedsDeletion := False\<rparr>]) p))"

definition removeIngressClass :: "nat \<Rightarrow> cluster_page \<Rightarrow> cluster_page js_result" where
  "removeIngressClass i p = (case elem_at (cp_IngressClasses p) i of
       None \<Rightarrow> Inl TypeError
     | Some c \<Rightarrow> Inr (with_classes (\<lambda>cs. if \<not> ik_IsNew c then cs[i := c\<lparr>ik_NeedsDeletion := True\<rparr>] else remove_at i cs) p))"

definition class_type :: "string \<Rightarrow> ingress_class_type option \<Rightarrow> ingress_class_type option" where
  "class_type name old =
     (if contains name ''nginx'' then Some NginxClass else if contains name ''traefik'' then Some TraefikClass else old)"

definition onChangeIngressClassName :: "nat \<Rightarrow> string \<Rightarrow> cluster_page \<Rightarrow> cluster_page js_result" where
  "onChangeIngressClassName i name p = (case elem_at (cp_IngressClasses p) i of
       None \<Rightarrow> Inl TypeError
     | Some c \<Rightarrow> Inr (with_classes (\<lambda>cs. cs[i := c\<lparr>ik_Name := name, ik_Type := class_type name (ik_Type c)\<rparr>]) p))"

definition hasTraefikIngress :: "cluster_page \<Rightarrow> bool" where
  "hasTraefikIngress p \<longleftrightarrow> find (\<lambda>c. ik_Type c = Some TraefikClass) (cp_IngressClasses p) \<noteq> None"

text \<open>Turning the metrics on asks the server whether it has them, and turns them off again when it has not.\<close>

definition enableMetricsServer :: "string + unit \<Rightarrow> cluster_page \<Rightarrow> cluster_page" where
  "enableMetricsServer answer p =
     (if cp_UseServerMetrics p
      then (case answer of
          Inr _ \<Rightarrow> p\<lparr>cp_isServerRunning := True, cp_UseServerMetrics := True\<rparr>
        | Inl _ \<Rightarrow> p\<lparr>cp_isServerRunning := False, cp_UseServerMetrics := False\<rparr>)
      else p\<lparr>cp_UseServerMetrics := False\<rparr>)"

section \<open>Applying the configuration\<close>

record cluster_config =
  cc_StorageClasses :: "storage_class list"
  cc_UseLoadBalancer :: bool
  cc_UseServerMetrics :: bool
  cc_IngressClasses :: "class_row list"

definition transformFormValues :: "cluster_page \<Rightarrow> storage_class list \<times> class_row list" where
  "transformFormValues p =
     (map (\<lambda>s. \<lparr>sc_Name = sw_Name s, sc_AccessModes = sw_AccessModes s, sc_Provisioner = sw_Provisioner s,
            sc_AllowVolumeExpansion = sw_AllowVolumeExpansion s\<rparr>) (filter sw_selected (cp_StorageClasses p)),
      filter (\<lambda>c. \<not> ik_NeedsDeletion c) (cp_IngressClasses p))"

definition assignFormValuesToEndpoint :: "cluster_page \<Rightarrow> cluster_config" where
  "assignFormValuesToEndpoint p = (let (storageClasses, ingressClasses) = transformFormValues p in
     \<lparr>cc_StorageClasses = storageClasses, cc_UseLoadBalancer = cp_UseLoadBalancer p, cc_UseServerMetrics = cp_UseServerMetrics p,
      cc_IngressClasses = ingressClasses\<rparr>)"

datatype cluster_request =
    GetPools
  | DeleteIngress string string
  | UpdateEndpoint cluster_config
  | PatchStorage storage_row storage_class

datatype cluster_answer = Accepted | Missing | Refused

record cluster_server =
  cv_pools :: "cluster_request list \<Rightarrow> string list option"
  cv_answer :: "cluster_request list \<Rightarrow> cluster_request \<Rightarrow> cluster_answer"

text \<open>Requests that go out together; their answers in the order of the requests.\<close>

fun send_together :: "cluster_server \<Rightarrow> cluster_request list \<Rightarrow> cluster_request list \<Rightarrow> cluster_answer list \<times> cluster_request list" where
  "send_together srv [] log = ([], log)"
| "send_together srv (r # rs) log =
     (let (as, l) = send_together srv rs (log @ [r]) in (cv_answer srv log r # as, l))"

definition removed_classes :: "cluster_page \<Rightarrow> class_row list" where
  "removed_classes p = filter ik_NeedsDeletion (cp_IngressClasses p)"

definition ingress_deletions :: "class_row list \<Rightarrow> string list \<Rightarrow> cluster_request list" where
  "ingress_deletions cs pools =
     concat (map (\<lambda>c. map (\<lambda>ns. DeleteIngress ns (ik_Name c)) (filter (\<lambda>ns. \<not> isSystemNamespace ns \<and> \<not> isDefaultNamespace ns) pools)) cs)"

definition removeIngressesAcrossNamespaces :: "cluster_server \<Rightarrow> cluster_page \<Rightarrow> cluster_request list \<Rightarrow> bool \<times> cluster_request list" where
  "removeIngressesAcrossNamespaces srv p log =
     (if removed_classes p = [] then (True, log)
      else (case cv_pools srv log of
          None \<Rightarrow> (False, log @ [GetPools])
        | Some pools \<Rightarrow> (let (as, l) = send_together srv (ingress_deletions (removed_classes p) pools) (log @ [GetPools])
                         in (Refused \<notin> set as, l))))"

definition storage_patches :: "cluster_page \<Rightarrow> cluster_request list" where
  "storage_patches p = List.map_filter (\<lambda>s. map_option (\<lambda>o'. PatchStorage o' s)
       (find (\<lambda>o'. sw_Name o' = sc_Name s) (cp_oldStorageClasses p))) (fst (transformFormValues p))"

text \<open>The configuration that the browser keeps for the endpoint, when it keeps one, is changed last.\<close>

definition configureAsync ::
    "cluster_server \<Rightarrow> cluster_page \<Rightarrow> cluster_config option \<Rightarrow> cluster_request list \<times> cluster_config option \<times> bool" where
  "configureAsync srv p kept =
     (let (removed, l1) = removeIngressesAcrossNamespaces srv p []
      in if \<not> removed then (l1, kept, False)
         else
           (let config = assignFormValuesToEndpoint p; a = cv_answer srv l1 (UpdateEndpoint config); l2 = l1 @ [UpdateEndpoint config]
            in if a \<noteq> Accepted then (l2, kept, False)
               else
                 (let (as, l3) = send_together srv (storage_patches p) l2
                  in if list_all (\<lambda>a. a = Accepted) as then (l3, map_option (\<lambda>_. config) kept, True) else (l3, kept, False))))"

definition configure ::
    "cluster_server \<Rightarrow> bool \<Rightarrow> cluster_page \<Rightarrow> cluster_config option \<Rightarrow> cluster_request list \<times> cluster_config option \<times> bool" where
  "configure srv confirmed p kept =
     (if removed_classes p \<noteq> [] \<and> \<not> confirmed then ([], kept, False) else configureAsync srv p kept)"

section \<open>Opening the page\<close>

record api_storage_class =
  ap_Name :: string
  ap_Provisioner :: string
  ap_AllowVolumeExpansion :: bool

text \<open>
  The access modes that are offered are \<open>RWO\<close>, selected at first, and \<open>RWX\<close>; those of the endpoint are selected beside. The
  list of a row is filled by the component of the page, so what it holds at first is a parameter.
\<close>

definition available_modes :: "string list \<Rightarrow> (string \<times> bool) list" where
  "available_modes stored = [(''RWO'', True), (''RWX'', ''RWX'' \<in> set stored)]"

definition read_storage :: "storage_class list \<Rightarrow> (storage_class option \<Rightarrow> string list) \<Rightarrow> api_storage_class \<Rightarrow> storage_row" where
  "read_storage stored modes s =
     (let known = find (\<lambda>c. sc_Name c = ap_Name s) stored
      in \<lparr>sw_Name = ap_Name s, sw_Provisioner = ap_Provisioner s, sw_AllowVolumeExpansion = ap_AllowVolumeExpansion s,
          sw_selected = (known \<noteq> None), sw_AccessModes = modes known\<rparr>)"

definition open_cluster_page :: "api_storage_class list \<Rightarrow> cluster_config \<Rightarrow> (storage_class option \<Rightarrow> string list) \<Rightarrow> cluster_page" where
  "open_cluster_page classes config modes =
     (let rows = map (read_storage (cc_StorageClasses config) modes) classes
      in \<lparr>cp_IngressClasses = map (\<lambda>c. c\<lparr>ik_IsNew := False, ik_NeedsDeletion := False\<rparr>) (cc_IngressClasses config),
          cp_refs = \<lparr>vr_refs = [], vr_hasRefs = False\<rparr>, cp_StorageClasses = rows, cp_oldStorageClasses = rows,
          cp_UseLoadBalancer = cc_UseLoadBalancer config, cp_UseServerMetrics = cc_UseServerMetrics config,
          cp_isServerRunning = False\<rparr>)"

section \<open>The rows of the form\<close>

inductive classes_edited :: "cluster_page \<Rightarrow> cluster_page \<Rightarrow> bool" where
  added: "classes_edited p (addIngressClass p)"
| restored: "restoreIngressClass i p = Inr q \<Longrightarrow> classes_edited p q"
| removed: "removeIngressClass i p = Inr q \<Longrightarrow> classes_edited p q"
| renamed: "onChangeIngressClassName i name p = Inr q \<Longrightarrow> classes_edited p q"

lemma with_classes_simps [simp]:
  "cp_IngressClasses (with_classes f p) = f (cp_IngressClasses p)"
  "cp_refs (with_classes f p) = refs_of (getDuplicates (class_names (f (cp_IngressClasses p))))"
  by (simp_all add: with_classes_def onChangeIngressClass_def)

definition kept_classes :: "cluster_page \<Rightarrow> nat" where
  "kept_classes p = length (filter (\<lambda>c. \<not> ik_IsNew c) (cp_IngressClasses p))"

lemma filter_update_same:
  assumes "P (xs ! i) \<longleftrightarrow> P y" and "i < length xs"
  shows "length (filter P (xs[i := y])) = length (filter P xs)"
  using assms by (induction xs arbitrary: i) (auto split: nat.split)

lemma filter_remove_at: "i < length xs \<Longrightarrow> \<not> P (xs ! i) \<Longrightarrow> filter P (remove_at i xs) = filter P xs"
  unfolding remove_at_def using id_take_nth_drop [of i xs] filter_append [of P "take i xs"] by (metis append_Nil filter.simps(2) filter_append)

lemma edited_classes:
  assumes "classes_edited p q"
  shows "cp_refs q = refs_of (getDuplicates (class_names (cp_IngressClasses q))) \<and> kept_classes q = kept_classes p"
  using assms
proof cases
  case added
  then show ?thesis by (simp add: addIngressClass_def kept_classes_def KubernetesIngressClass_def)
next
  case (restored i)
  then show ?thesis
    by (auto simp: restoreIngressClass_def kept_classes_def elem_at_def filter_update_same split: option.splits if_splits)
next
  case (removed i)
  then show ?thesis
    by (auto simp: removeIngressClass_def kept_classes_def elem_at_def filter_update_same filter_remove_at split: option.splits if_splits)
next
  case (renamed i name)
  then show ?thesis
    by (auto simp: onChangeIngressClassName_def kept_classes_def elem_at_def filter_update_same split: option.splits if_splits)
qed

text \<open>
  However the classes are edited, the rows that are marked are those kept rows whose filled name another kept row has, and
  no class that the endpoint had is lost from the form: removing it only marks it.
\<close>

theorem class_rows_tracked:
  assumes "classes_edited\<^sup>*\<^sup>* p q" and "cp_refs p = refs_of (getDuplicates (class_names (cp_IngressClasses p)))"
  shows "cp_refs q = refs_of (getDuplicates (class_names (cp_IngressClasses q))) \<and> kept_classes q = kept_classes p"
  using assms by (induction rule: rtranclp_induct) (auto dest: edited_classes)

section \<open>The order of the requests\<close>

lemma send_together_log: "snd (send_together srv rs log) = log @ rs"
  by (induction srv rs log rule: send_together.induct) (simp_all add: case_prod_beta)

lemma update_not_deleted: "UpdateEndpoint c \<notin> set (ingress_deletions cs pools)"
  by (auto simp: ingress_deletions_def)

lemma configure_parts:
  assumes "removeIngressesAcrossNamespaces srv p [] = (removed, l1)"
    and "config = assignFormValuesToEndpoint p" and "a = cv_answer srv l1 (UpdateEndpoint config)"
  shows "configureAsync srv p kept =
    (if \<not> removed then (l1, kept, False)
     else if a \<noteq> Accepted then (l1 @ [UpdateEndpoint config], kept, False)
     else if list_all (\<lambda>a. a = Accepted) (fst (send_together srv (storage_patches p) (l1 @ [UpdateEndpoint config])))
     then (l1 @ UpdateEndpoint config # storage_patches p, map_option (\<lambda>_. config) kept, True)
     else (l1 @ UpdateEndpoint config # storage_patches p, kept, False))"
  using assms send_together_log [of srv "storage_patches p" "l1 @ [UpdateEndpoint config]"]
  by (simp add: configureAsync_def Let_def case_prod_beta)

text \<open>
  C31. The configuration of the endpoint is sent at most once, with the classes that are not marked for removal, and only
  after every removed class was asked to leave every namespace that is neither of the system nor the default one and
  nothing but a missing ingress was answered; the storage classes are changed exactly when it was accepted; the
  configuration succeeds exactly when it and every change of a storage class was accepted, and exactly then the browser takes
  it over. When it is not sent, nothing succeeds and nothing is taken over.
\<close>

theorem cluster_configured_in_order:
  assumes "configureAsync srv p kept = (log, kept', ok)"
  shows "(UpdateEndpoint config \<in> set log \<longrightarrow>
      config = assignFormValuesToEndpoint p \<and>
      (\<exists>pre post. log = pre @ UpdateEndpoint config # post \<and>
        (if removed_classes p = [] then pre = []
         else \<exists>pools. cv_pools srv [] = Some pools \<and> pre = GetPools # ingress_deletions (removed_classes p) pools \<and>
           Refused \<notin> set (fst (send_together srv (tl pre) [GetPools]))) \<and>
        post = (if cv_answer srv pre (UpdateEndpoint config) = Accepted then storage_patches p else []) \<and>
        (ok \<longleftrightarrow> cv_answer srv pre (UpdateEndpoint config) = Accepted \<and>
           list_all (\<lambda>a. a = Accepted) (fst (send_together srv post (pre @ [UpdateEndpoint config])))) \<and>
        kept' = (if ok then map_option (\<lambda>_. config) kept else kept))) \<and>
    ((\<forall>c. UpdateEndpoint c \<notin> set log) \<longrightarrow> \<not> ok \<and> kept' = kept)"
proof -
  obtain removed l1 where r: "removeIngressesAcrossNamespaces srv p [] = (removed, l1)" by fastforce
  have l1: "if removed_classes p = [] then removed \<and> l1 = []
      else case cv_pools srv [] of None \<Rightarrow> \<not> removed \<and> l1 = [GetPools]
        | Some pools \<Rightarrow> l1 = GetPools # ingress_deletions (removed_classes p) pools \<and>
            removed = (Refused \<notin> set (fst (send_together srv (tl l1) [GetPools])))"
    using r send_together_log [of srv _ "[GetPools]"]
    by (auto simp: removeIngressesAcrossNamespaces_def Let_def case_prod_beta split: option.splits if_splits)
  then have not_l1: "UpdateEndpoint x \<notin> set l1" for x using update_not_deleted by (auto split: if_splits option.splits)
  let ?c = "assignFormValuesToEndpoint p"
  note c = configure_parts [OF r refl refl, of kept, unfolded assms]
  have not_patched: "UpdateEndpoint x \<notin> set (storage_patches p)" for x by (auto simp: storage_patches_def List.map_filter_def)
  show ?thesis
  proof (cases removed)
    case False
    with c have "log = l1" "\<not> ok" "kept' = kept" by simp_all
    with not_l1 show ?thesis by blast
  next
    case True
    have pre: "if removed_classes p = [] then l1 = []
      else \<exists>pools. cv_pools srv [] = Some pools \<and> l1 = GetPools # ingress_deletions (removed_classes p) pools \<and>
         Refused \<notin> set (fst (send_together srv (tl l1) [GetPools]))"
      using l1 True by (auto split: if_splits option.splits)
    let ?post = "if cv_answer srv l1 (UpdateEndpoint ?c) = Accepted then storage_patches p else []"
    have log: "log = l1 @ UpdateEndpoint ?c # ?post"
      and ok: "ok \<longleftrightarrow> cv_answer srv l1 (UpdateEndpoint ?c) = Accepted \<and>
           list_all (\<lambda>a. a = Accepted) (fst (send_together srv ?post (l1 @ [UpdateEndpoint ?c])))"
      and taken: "kept' = (if ok then map_option (\<lambda>_. ?c) kept else kept)"
      using c True by (simp_all split: if_splits)
    have config: "config = ?c" if "UpdateEndpoint config \<in> set log"
      using that not_l1 not_patched unfolding log by (auto split: if_splits)
    have sent: "UpdateEndpoint ?c \<in> set log" by (simp add: log)
    show ?thesis
    proof (rule conjI; rule impI)
      assume "UpdateEndpoint config \<in> set log"
      then have config: "config = ?c" by (rule config)
      show "config = ?c \<and> (\<exists>pre post. log = pre @ UpdateEndpoint config # post \<and>
        (if removed_classes p = [] then pre = []
         else \<exists>pools. cv_pools srv [] = Some pools \<and> pre = GetPools # ingress_deletions (removed_classes p) pools \<and>
           Refused \<notin> set (fst (send_together srv (tl pre) [GetPools]))) \<and>
        post = (if cv_answer srv pre (UpdateEndpoint config) = Accepted then storage_patches p else []) \<and>
        (ok \<longleftrightarrow> cv_answer srv pre (UpdateEndpoint config) = Accepted \<and>
           list_all (\<lambda>a. a = Accepted) (fst (send_together srv post (pre @ [UpdateEndpoint config])))) \<and>
        kept' = (if ok then map_option (\<lambda>_. config) kept else kept))"
        unfolding config by (intro conjI exI [of _ l1] exI [of _ ?post]) (rule refl log pre ok taken)+
    next
      assume "\<forall>c. UpdateEndpoint c \<notin> set log"
      with sent show "\<not> ok \<and> kept' = kept" by blast
    qed
  qed
qed

section \<open>A cluster whose class is removed\<close>

definition small_cluster_page :: cluster_page where
  "small_cluster_page = \<lparr>cp_IngressClasses = [\<lparr>ik_Name = ''nginx'', ik_Type = Some NginxClass, ik_NeedsDeletion = True, ik_IsNew = False\<rparr>],
     cp_refs = refs_of [], cp_StorageClasses = [], cp_oldStorageClasses = [], cp_UseLoadBalancer = True, cp_UseServerMetrics = False,
     cp_isServerRunning = False\<rparr>"

definition small_cluster :: cluster_server where
  "small_cluster = \<lparr>cv_pools = (\<lambda>_. Some [''default'', ''kube-system'', ''prod'']),
     cv_answer = (\<lambda>_ r. case r of DeleteIngress _ _ \<Rightarrow> Missing | _ \<Rightarrow> Accepted)\<rparr>"

definition small_config :: cluster_config where
  "small_config = \<lparr>cc_StorageClasses = [], cc_UseLoadBalancer = True, cc_UseServerMetrics = False, cc_IngressClasses = []\<rparr>"

lemma small_configured: "configureAsync small_cluster small_cluster_page (Some c) =
    ([GetPools, DeleteIngress ''prod'' ''nginx'', UpdateEndpoint small_config], Some small_config, True)"
  by (simp add: configureAsync_def removeIngressesAcrossNamespaces_def removed_classes_def ingress_deletions_def small_cluster_def
      small_cluster_page_def small_config_def assignFormValuesToEndpoint_def transformFormValues_def storage_patches_def Let_def
      isSystemNamespace_def isDefaultNamespace_def KUBERNETES_SYSTEM_NAMESPACES_def List.map_filter_simps)

theorem cluster_configured_in_order_witness:
  "\<exists>pre post. [GetPools, DeleteIngress ''prod'' ''nginx'', UpdateEndpoint small_config] = pre @ UpdateEndpoint small_config # post \<and>
     post = storage_patches small_cluster_page"
proof -
  have "UpdateEndpoint small_config \<in> set [GetPools, DeleteIngress ''prod'' ''nginx'', UpdateEndpoint small_config]" by simp
  from mp [OF conjunct1 [OF cluster_configured_in_order [OF small_configured [of small_config]]] this]
  obtain pre post where "[GetPools, DeleteIngress ''prod'' ''nginx'', UpdateEndpoint small_config] = pre @ UpdateEndpoint small_config # post"
    and "post = (if cv_answer small_cluster pre (UpdateEndpoint small_config) = Accepted then storage_patches small_cluster_page else [])"
    by (elim conjE exE) (rule that)
  then show ?thesis by (intro exI [of _ pre] exI [of _ post]) (simp add: small_cluster_def)
qed

end
