(* ===== verification/DockerForms.thy ===== *)
theory DockerForms
  imports DockerHelpers ResourceControl BrowserStorage
begin

text \<open>
  The pages that create a volume and a network: \<open>docker/views/volumes/create/createVolumeController.js\<close> with the forms of
  network shares under \<open>docker/components\<close>, and \<open>docker/views/networks/create/createNetworkController.js\<close>.
\<close>

section \<open>The form of a volume\<close>

record nfs_form =
  nf_useNFS :: bool
  nf_serverAddress :: string
  nf_mountPoint :: string
  nf_version :: string
  nf_options :: string

definition VolumesNFSFormData :: nfs_form where
  "VolumesNFSFormData = \<lparr>nf_useNFS = False, nf_serverAddress = [], nf_mountPoint = [], nf_version = ''NFS4'',
     nf_options = ''rw,noatime,rsize=8192,wsize=8192,tcp,timeo=14''\<rparr>"

record cifs_form =
  ci_useCIFS :: bool
  ci_serverAddress :: string
  ci_share :: string
  ci_version :: string
  ci_username :: string
  ci_password :: string

definition cifs_versions :: "(string \<times> string) list" where
  "cifs_versions =
     [(''CIFS v1.0 (Used by Windows XP / Server 2003 and earlier)'', ''1.0''),
      (''CIFS v2.0 (Used by Windows Vista / Server 2008)'', ''2.0''),
      (''CIFS v2.1 (Used by Windows 7 / Server 2008 R2)'', ''2.1''),
      (''CIFS 3.0 (Used by Windows 8 / Server 2012 and newer)'', ''3.0'')]"

definition VolumesCIFSFormData :: cifs_form where
  "VolumesCIFSFormData = \<lparr>ci_useCIFS = False, ci_serverAddress = [], ci_share = [],
     ci_version = ''CIFS v2.0 (Used by Windows Vista / Server 2008)'', ci_username = [], ci_password = []\<rparr>"

record volume_form =
  vo_Name :: string
  vo_Driver :: string
  vo_DriverOptions :: "driver_option list"
  vo_Access :: access_form
  vo_NodeName :: string
  vo_StoridgeProfile :: "string option"
  vo_NFS :: nfs_form
  vo_CIFS :: cifs_form

definition driver_row :: "string \<Rightarrow> string \<Rightarrow> driver_option" where
  "driver_row n v = \<lparr>do_name = n, do_value = v\<rparr>"

text \<open>Only the first backslash of a share is turned into a slash.\<close>

definition cifs_share :: "string \<Rightarrow> string" where
  "cifs_share s = (let t = replace_first [CHR 0x5C] ''/'' s in if starts_with t ''/'' then t else CHR ''/'' # t)"

definition cifs_version_number :: "string \<Rightarrow> string" where
  "cifs_version_number v = (case map_of cifs_versions v of None \<Rightarrow> ''undefined'' | Some n \<Rightarrow> n)"

definition prepareCIFSConfiguration :: "cifs_form \<Rightarrow> driver_option list" where
  "prepareCIFSConfiguration d =
     [driver_row ''type'' ''cifs'',
      driver_row ''device'' (''//'' @ ci_serverAddress d @ cifs_share (ci_share d)),
      driver_row ''o'' (''username='' @ ci_username d @ '',password='' @ ci_password d @ '',vers='' @ cifs_version_number (ci_version d))]"

definition prepareNFSConfiguration :: "nfs_form \<Rightarrow> driver_option list" where
  "prepareNFSConfiguration d =
     [driver_row ''type'' ''nfs'',
      driver_row ''o'' (''addr='' @ nf_serverAddress d @ '','' @ nf_options d @ (if nf_version d = ''NFS4'' then '',nfsvers=4'' else [])),
      driver_row ''device'' (if starts_with (nf_mountPoint d) '':'' then nf_mountPoint d else CHR '':'' # nf_mountPoint d)]"

text \<open>The options of a share are added to the rows of the form itself, before the form is checked.\<close>

definition add_driver_options :: "volume_form \<Rightarrow> volume_form" where
  "add_driver_options f = f\<lparr>vo_DriverOptions := vo_DriverOptions f @
     (case vo_StoridgeProfile f of Some p \<Rightarrow> if vo_Driver f = ''cio:latest'' then [driver_row ''profile'' p] else [] | None \<Rightarrow> []) @
     (if nf_useNFS (vo_NFS f) then prepareNFSConfiguration (vo_NFS f) else []) @
     (if ci_useCIFS (vo_CIFS f) then prepareCIFSConfiguration (vo_CIFS f) else [])\<rparr>"

record volume_body =
  vc_Name :: string
  vc_Driver :: string
  vc_DriverOpts :: "string obj"

definition createVolumeConfiguration :: "string \<Rightarrow> string \<Rightarrow> driver_option list \<Rightarrow> volume_body" where
  "createVolumeConfiguration name driver opts = \<lparr>vc_Name = name, vc_Driver = driver, vc_DriverOpts = createDriverOptions opts\<rparr>"

text \<open>
  The engine answers with a message or with the resource control of the new volume, which is then set as the form asks. The
  rows of the form are kept in every case.
\<close>

datatype volume_request = CreateVolume volume_body | ControlVolume rc_request

definition create_volume ::
    "(volume_body \<Rightarrow> string + rc_view) \<Rightarrow> nat \<Rightarrow> bool \<Rightarrow> volume_form \<Rightarrow>
     volume_form \<times> (string + volume_request list)" where
  "create_volume engine userId isAdmin f =
     (let g = add_driver_options f; c = createVolumeConfiguration (vo_Name g) (vo_Driver g) (vo_DriverOptions g);
          e = validateAccessControl (vo_Access g) isAdmin
      in (g, if e \<noteq> [] then Inl e
             else Inr (CreateVolume c # (case engine c of Inl m \<Rightarrow> []
                         | Inr rc \<Rightarrow> [ControlVolume (applyResourceControl userId (vo_Access g) rc [])]))))"

section \<open>The form of a network\<close>

record ip_form =
  ip_Subnet :: string
  ip_Gateway :: string
  ip_IPRange :: string
  ip_Aux :: "string list"

text \<open>The marks of the addresses are in a list of their own, which may be shorter.\<close>

type_synonym ip_rows = "ip_form \<times> bool list"

definition addAuxAddress :: "ip_rows \<Rightarrow> ip_rows" where
  "addAuxAddress r = ((fst r)\<lparr>ip_Aux := ip_Aux (fst r) @ [[]]\<rparr>, snd r)"

definition removeAuxAddress :: "nat \<Rightarrow> ip_rows \<Rightarrow> ip_rows" where
  "removeAuxAddress i r = ((fst r)\<lparr>ip_Aux := remove_at i (ip_Aux (fst r))\<rparr>, remove_at i (snd r))"

definition checkAuxiliaryAddress :: "string \<Rightarrow> string \<Rightarrow> bool" where
  "checkAuxiliaryAddress excludedIP gateway =
     (let parts = split_char (CHR ''='') excludedIP in if length parts = 2 then parts ! 1 = gateway else excludedIP = gateway)"

definition set_mark :: "nat \<Rightarrow> bool \<Rightarrow> bool list \<Rightarrow> bool list" where
  "set_mark i b es = (if i < length es then es[i := b] else es @ replicate (i - length es) False @ [b])"

definition changeAuxAddress :: "nat \<Rightarrow> string \<Rightarrow> ip_rows \<Rightarrow> ip_rows" where
  "changeAuxAddress i v r =
     ((fst r)\<lparr>ip_Aux := (ip_Aux (fst r))[i := v]\<rparr>, set_mark i (checkAuxiliaryAddress v (ip_Gateway (fst r))) (snd r))"

definition network_isValid :: "ip_rows \<Rightarrow> ip_rows \<Rightarrow> bool" where
  "network_isValid v4 v6 \<longleftrightarrow> True \<notin> set (snd v4) \<and> True \<notin> set (snd v6)"

section \<open>The request for a network\<close>

record ipam_config =
  im_Subnet :: string
  im_Gateway :: "string option"
  im_IPRange :: "string option"
  im_AuxiliaryAddresses :: "string obj option"

definition aux_entry :: "nat \<times> string \<Rightarrow> string \<times> string" where
  "aux_entry x = (case x of (index, a) \<Rightarrow>
     (let parts = split_char (CHR ''='') a in if length parts = 2 then (parts ! 0, parts ! 1) else (''device'' @ show_nat index, a)))"

definition prepareAuxiliaryAddresses :: "string list \<Rightarrow> string obj" where
  "prepareAuxiliaryAddresses addresses = obj_of (map aux_entry (enumerate 0 addresses))"

definition ipam_of :: "ip_form \<Rightarrow> ipam_config list" where
  "ipam_of f = (if ip_Subnet f = [] then []
     else [\<lparr>im_Subnet = ip_Subnet f, im_Gateway = (if ip_Gateway f \<noteq> [] then Some (ip_Gateway f) else None),
            im_IPRange = (if ip_IPRange f \<noteq> [] then Some (ip_IPRange f) else None),
            im_AuxiliaryAddresses = (if ip_Aux f \<noteq> [] then Some (prepareAuxiliaryAddresses (ip_Aux f)) else None)\<rparr>])"

text \<open>The table of the nodes adds the number of selected ones to its state, so it is missing until the table reports.\<close>

datatype macvlan_scope = MacvlanLocal | MacvlanSwarm | OtherScope

record macvlan_form =
  mv_Scope :: macvlan_scope
  mv_Selected :: "(string \<times> string) option"
  mv_nodes :: "string list"
  mv_count :: "nat option"
  mv_ParentNetworkCard :: string

record network_page =
  nw_Name :: string
  nw_Driver :: string
  nw_Internal :: bool
  nw_Attachable :: bool
  nw_DriverOptions :: "driver_option list"
  nw_IPV4 :: ip_form
  nw_IPV6 :: ip_form
  nw_Labels :: "label_row list"
  nw_Access :: access_form
  nw_NodeName :: string
  nw_Macvlan :: macvlan_form

record network_body =
  nc_Name :: string
  nc_Driver :: string
  nc_CheckDuplicate :: bool
  nc_Internal :: "bool option"
  nc_Attachable :: "bool option"
  nc_EnableIPv6 :: bool
  nc_IPAM :: "ipam_config list"
  nc_Options :: "string obj"
  nc_Labels :: "string obj"
  nc_ConfigOnly :: bool
  nc_ConfigFrom :: "string option"
  nc_Scope :: "string option"

definition network_prepareConfiguration :: "network_page \<Rightarrow> network_body" where
  "network_prepareConfiguration f =
     \<lparr>nc_Name = nw_Name f, nc_Driver = nw_Driver f, nc_CheckDuplicate = True, nc_Internal = Some (nw_Internal f),
      nc_Attachable = Some (nw_Attachable f), nc_EnableIPv6 = (ip_Subnet (nw_IPV6 f) \<noteq> []),
      nc_IPAM = ipam_of (nw_IPV4 f) @ ipam_of (nw_IPV6 f), nc_Options = createDriverOptions (nw_DriverOptions f),
      nc_Labels = fromKeyValueToLabelHash (Some (nw_Labels f)), nc_ConfigOnly = False, nc_ConfigFrom = None, nc_Scope = None\<rparr>"

definition modifyNetworkConfigurationForMacvlanConfigOnly :: "macvlan_form \<Rightarrow> network_body \<Rightarrow> network_body" where
  "modifyNetworkConfigurationForMacvlanConfigOnly m c = c\<lparr>nc_Internal := None, nc_Attachable := None, nc_ConfigOnly := True,
     nc_Options := obj_set (nc_Options c) ''parent'' (mv_ParentNetworkCard m)\<rparr>"

definition modifyNetworkConfigurationForMacvlanConfigFrom :: "string \<Rightarrow> bool \<Rightarrow> network_body \<Rightarrow> network_body" where
  "modifyNetworkConfigurationForMacvlanConfigFrom name swarm c =
     c\<lparr>nc_ConfigFrom := Some name, nc_Scope := Some (if swarm then ''swarm'' else ''local'')\<rparr>"

text \<open>
  One creation for the endpoint or for each selected node: the node it goes to, whether a manager must answer, and the
  configuration. A missing selection of a network to configure from throws.
\<close>

type_synonym network_creation = "string \<times> bool \<times> network_body"

definition network_creations :: "bool \<Rightarrow> bool \<Rightarrow> network_page \<Rightarrow> network_creation list js_result" where
  "network_creations agentProxy swarm f =
     (let c = network_prepareConfiguration f; m = nw_Macvlan f; manager = (agentProxy \<and> swarm \<and> nw_Driver f = ''overlay'')
      in if nw_Driver f = ''macvlan'' \<and> mv_Scope m = MacvlanLocal
         then (let c' = modifyNetworkConfigurationForMacvlanConfigOnly m c
               in Inr (if agentProxy \<and> swarm then map (\<lambda>n. (n, manager, c')) (mv_nodes m) else [(nw_NodeName f, manager, c')]))
         else if nw_Driver f = ''macvlan'' \<and> mv_Scope m = MacvlanSwarm
         then (case mv_Selected m of
             None \<Rightarrow> Inl TypeError
           | Some (name, node) \<Rightarrow> Inr [(node, manager, modifyNetworkConfigurationForMacvlanConfigFrom name swarm c)])
         else Inr [(nw_NodeName f, manager, c)])"

definition network_create :: "bool \<Rightarrow> bool \<Rightarrow> bool \<Rightarrow> network_page \<Rightarrow> (string + network_creation list) js_result" where
  "network_create agentProxy swarm isAdmin f =
     (let e = validateAccessControl (nw_Access f) isAdmin
      in if e \<noteq> [] then Inr (Inl e) else and_then (network_creations agentProxy swarm f) (\<lambda>cs. Inr (Inr cs)))"

text \<open>The headers of the creations: the node is queued for each request, the manager flag is set for all that follow.\<close>

definition creation_headers :: "network_creation list \<Rightarrow> agent_headers \<Rightarrow> agent_headers" where
  "creation_headers cs h = fold (\<lambda>(node, manager, c) h. (setPortainerAgentTargetHeader node h)\<lparr>ah_manager := manager\<rparr>) cs h"

definition MacvlanFormData :: macvlan_form where
  "MacvlanFormData = \<lparr>mv_Scope = MacvlanLocal, mv_Selected = None, mv_nodes = [], mv_count = None, mv_ParentNetworkCard = []\<rparr>"

text \<open>Each creation is followed by the access control that the form asks for, when the engine accepts it.\<close>

datatype network_request = CreateNetwork network_body | ControlNetwork rc_request

definition createNetwork ::
    "(network_body \<Rightarrow> string + rc_data) \<Rightarrow> nat \<Rightarrow> access_form \<Rightarrow> network_creation \<Rightarrow> network_request list" where
  "createNetwork engine userId access x =
     CreateNetwork (snd (snd x)) #
       (case engine (snd (snd x)) of Inl m \<Rightarrow> [] | Inr rc \<Rightarrow> [ControlNetwork (applyResourceControl userId access rc [])])"

definition requiredNodeSelection :: "macvlan_form \<Rightarrow> bool" where
  "requiredNodeSelection m \<longleftrightarrow> mv_Scope m = MacvlanLocal \<and> mv_count m = Some 0"

definition requiredConfigSelection :: "macvlan_form \<Rightarrow> bool" where
  "requiredConfigSelection m \<longleftrightarrow> mv_Scope m = MacvlanSwarm \<and> mv_Selected m = None"

definition availableNetworkDrivers :: "string list \<Rightarrow> string list" where
  "availableNetworkDrivers drivers = filter (\<lambda>d. d \<noteq> ''host'' \<and> d \<noteq> ''null'') drivers"

section \<open>The options of a volume\<close>

lemma driver_options_append: "createDriverOptions (xs @ ys) = fold (\<lambda>d ob. obj_set ob (do_name d) (do_value d)) ys (createDriverOptions xs)"
  by (simp add: createDriverOptions_def)

text \<open>The options of a share in the body of a request.\<close>

definition has_share :: "nfs_form \<Rightarrow> string obj \<Rightarrow> bool" where
  "has_share d opts \<longleftrightarrow>
     obj_get opts ''type'' = Some ''nfs'' \<and>
     obj_get opts ''o'' = Some (''addr='' @ nf_serverAddress d @ '','' @ nf_options d @ (if nf_version d = ''NFS4'' then '',nfsvers=4'' else [])) \<and>
     obj_get opts ''device'' = Some (if starts_with (nf_mountPoint d) '':'' then nf_mountPoint d else CHR '':'' # nf_mountPoint d)"

lemma share_options:
  "has_share d (createDriverOptions (xs @ prepareNFSConfiguration d @
     (case profile of Some p \<Rightarrow> if b then [driver_row ''profile'' p] else [] | None \<Rightarrow> [])))"
  by (simp add: has_share_def driver_options_append prepareNFSConfiguration_def driver_row_def split: option.split)

lemma valid_volume_sent:
  assumes "validateAccessControl (vo_Access f) isAdmin = []"
  shows "\<exists>rest. snd (create_volume engine userId isAdmin f) = Inr (CreateVolume \<lparr>vc_Name = vo_Name f, vc_Driver = vo_Driver f,
     vc_DriverOpts = createDriverOptions (vo_DriverOptions (add_driver_options f))\<rparr> # rest)"
  using assms by (simp add: create_volume_def createVolumeConfiguration_def add_driver_options_def Let_def)

text \<open>
  C14. A valid form of a volume on an NFS share, without a CIFS one, asks for the volume with the type, the options and the
  device of the share, whatever rows of these names the user added. The form keeps the rows of an attempt, so a later
  attempt asks for the same share even when it was switched off in between.
\<close>

theorem refused_share_sent_again:
  assumes "nf_useNFS (vo_NFS f)" and "\<not> ci_useCIFS (vo_CIFS f)" and "create_volume engine userId isAdmin f = (g, r)"
    and "h = g\<lparr>vo_NFS := (vo_NFS g)\<lparr>nf_useNFS := False\<rparr>, vo_Access := access\<rparr>"
  shows "(validateAccessControl (vo_Access f) isAdmin = [] \<longrightarrow>
      (\<exists>opts rest. r = Inr (CreateVolume \<lparr>vc_Name = vo_Name f, vc_Driver = vo_Driver f, vc_DriverOpts = opts\<rparr> # rest) \<and>
         has_share (vo_NFS f) opts)) \<and>
    (validateAccessControl access isAdmin = [] \<longrightarrow>
      (\<exists>opts rest. snd (create_volume engine userId isAdmin h) =
           Inr (CreateVolume \<lparr>vc_Name = vo_Name f, vc_Driver = vo_Driver f, vc_DriverOpts = opts\<rparr> # rest) \<and>
         has_share (vo_NFS f) opts))"
proof (intro conjI impI)
  have g: "g = add_driver_options f" using assms(3) by (auto simp: create_volume_def Let_def)
  have kept: "vo_Name h = vo_Name f" "vo_Driver h = vo_Driver f" "vo_Access h = access"
    by (simp_all add: assms(4) g add_driver_options_def)
  have shared: "has_share (vo_NFS f) (createDriverOptions (vo_DriverOptions (add_driver_options f)))"
    using share_options [of "vo_NFS f" "vo_DriverOptions f @ (case vo_StoridgeProfile f of
        Some p \<Rightarrow> if vo_Driver f = ''cio:latest'' then [driver_row ''profile'' p] else [] | None \<Rightarrow> [])" False None] assms(1,2)
    by (simp add: add_driver_options_def)
  have again: "has_share (vo_NFS f) (createDriverOptions (vo_DriverOptions (add_driver_options h)))"
    using share_options [of "vo_NFS f" "vo_DriverOptions f @ (case vo_StoridgeProfile f of
        Some p \<Rightarrow> if vo_Driver f = ''cio:latest'' then [driver_row ''profile'' p] else [] | None \<Rightarrow> [])" "vo_Driver f = ''cio:latest''"
        "vo_StoridgeProfile f"] assms(1,2)
    by (auto simp: assms(4) g add_driver_options_def split: option.splits)
  show "\<exists>opts rest. r = Inr (CreateVolume \<lparr>vc_Name = vo_Name f, vc_Driver = vo_Driver f, vc_DriverOpts = opts\<rparr> # rest) \<and>
      has_share (vo_NFS f) opts" if "validateAccessControl (vo_Access f) isAdmin = []"
    using valid_volume_sent [OF that, of engine userId] assms(3) shared by auto
  show "\<exists>opts rest. snd (create_volume engine userId isAdmin h) =
      Inr (CreateVolume \<lparr>vc_Name = vo_Name f, vc_Driver = vo_Driver f, vc_DriverOpts = opts\<rparr> # rest) \<and>
      has_share (vo_NFS f) opts" if "validateAccessControl access isAdmin = []"
    using valid_volume_sent [of h isAdmin engine userId] that kept again by auto
qed

section \<open>The excluded addresses of a network\<close>

inductive aux_edited :: "ip_rows \<Rightarrow> ip_rows \<Rightarrow> bool" where
  added: "aux_edited r (addAuxAddress r)"
| removed: "i < length (ip_Aux (fst r)) \<Longrightarrow> aux_edited r (removeAuxAddress i r)"
| changed: "i < length (ip_Aux (fst r)) \<Longrightarrow> aux_edited r (changeAuxAddress i v r)"

definition aux_marked :: "ip_rows \<Rightarrow> bool" where
  "aux_marked r \<longleftrightarrow> length (snd r) \<le> length (ip_Aux (fst r)) \<and>
     (\<forall>i < length (ip_Aux (fst r)). ip_Aux (fst r) ! i \<noteq> [] \<longrightarrow>
        i < length (snd r) \<and> snd r ! i = checkAuxiliaryAddress (ip_Aux (fst r) ! i) (ip_Gateway (fst r)))"

lemma nth_remove_at: "i < length xs \<Longrightarrow> j < length xs - 1 \<Longrightarrow> remove_at i xs ! j = (if j < i then xs ! j else xs ! Suc j)"
  by (auto simp: remove_at_def nth_append)

lemma remove_at_beyond: "length xs \<le> i \<Longrightarrow> remove_at i xs = xs"
  by (simp add: remove_at_def)

lemma set_mark_nth: "length (set_mark i b es) = max (length es) (Suc i)"
  "j < max (length es) (Suc i) \<Longrightarrow> set_mark i b es ! j = (if j = i then b else if j < length es then es ! j else False)"
  by (auto simp: set_mark_def nth_append nth_Cons split: nat.split)

lemma edited_marked:
  assumes "aux_edited r q" and "aux_marked r"
  shows "aux_marked q \<and> ip_Gateway (fst q) = ip_Gateway (fst r)"
  using assms(1)
proof cases
  case added
  then show ?thesis using assms(2) by (auto simp: aux_marked_def addAuxAddress_def nth_append)
next
  case (removed i)
  let ?l = "ip_Aux (fst r)" and ?g = "ip_Gateway (fst r)" and ?m = "snd r"
  have marked: "length ?m \<le> length ?l"
    "\<And>k. k < length ?l \<Longrightarrow> ?l ! k \<noteq> [] \<Longrightarrow> k < length ?m \<and> ?m ! k = checkAuxiliaryAddress (?l ! k) ?g"
    using assms(2) by (simp_all add: aux_marked_def)
  have short: "length (remove_at i ?m) \<le> length (remove_at i ?l)"
    using marked(1) removed(2) by (cases "i < length ?m") (simp_all add: length_remove_at remove_at_beyond)
  have "j < length (remove_at i ?m) \<and> remove_at i ?m ! j = checkAuxiliaryAddress (remove_at i ?l ! j) ?g"
    if j: "j < length (remove_at i ?l)" "remove_at i ?l ! j \<noteq> []" for j
  proof -
    define k where "k = (if j < i then j else Suc j)"
    have l: "remove_at i ?l ! j = ?l ! k" "k < length ?l"
      using j(1) removed(2) by (auto simp: length_remove_at nth_remove_at k_def)
    then have m: "k < length ?m" "?m ! k = checkAuxiliaryAddress (?l ! k) ?g" using marked(2) j(2) by simp_all
    then have "j < length (remove_at i ?m) \<and> remove_at i ?m ! j = ?m ! k"
      by (cases "i < length ?m") (auto simp: length_remove_at nth_remove_at remove_at_beyond k_def split: if_splits)
    then show ?thesis using l m by simp
  qed
  with short show ?thesis using removed(1) by (simp add: aux_marked_def removeAuxAddress_def)
next
  case (changed i v)
  then show ?thesis using assms(2)
    by (auto simp: aux_marked_def changeAuxAddress_def set_mark_nth nth_list_update)
qed

lemma reached_marked: "aux_edited\<^sup>*\<^sup>* r q \<Longrightarrow> aux_marked r \<Longrightarrow> aux_marked q \<and> ip_Gateway (fst q) = ip_Gateway (fst r)"
proof (induction rule: rtranclp_induct)
  case (step q s)
  then show ?case using edited_marked by metis
qed simp

lemma entry_not_gateway:
  assumes "\<not> checkAuxiliaryAddress a g \<or> a = []" and "g \<noteq> []"
  shows "snd (aux_entry (i, a)) \<noteq> g"
  using assms by (auto simp: aux_entry_def checkAuxiliaryAddress_def Let_def)

text \<open>
  When the gateway was filled in before the addresses that are to be left out, a form that is accepted, however its
  addresses are edited, sends no such address that is the gateway, with or without a name.
\<close>

theorem gateway_never_excluded:
  assumes "aux_edited\<^sup>*\<^sup>* (f, []) r" and "ip_Aux f = []" and "ip_Gateway f \<noteq> []" and "network_isValid r v6"
  shows "obj_get (prepareAuxiliaryAddresses (ip_Aux (fst r))) name \<noteq> Some (ip_Gateway f)"
proof
  have m: "aux_marked r" "ip_Gateway (fst r) = ip_Gateway f"
    using reached_marked [OF assms(1)] assms(2) by (simp_all add: aux_marked_def)
  let ?as = "ip_Aux (fst r)"
  assume "obj_get (prepareAuxiliaryAddresses ?as) name = Some (ip_Gateway f)"
  then have "(name, ip_Gateway f) \<in> set (rev (map aux_entry (enumerate 0 ?as)))"
    by (intro map_of_SomeD) (simp add: prepareAuxiliaryAddresses_def obj_get_obj_of)
  then obtain i where i: "i < length ?as" "snd (aux_entry (i, ?as ! i)) = ip_Gateway f"
    by (auto simp: in_set_enumerate_eq image_iff) (metis snd_conv)
  have "?as ! i \<noteq> [] \<Longrightarrow> \<not> checkAuxiliaryAddress (?as ! i) (ip_Gateway f)"
    using m i(1) assms(4) unfolding aux_marked_def network_isValid_def by (metis nth_mem)
  with entry_not_gateway [of "?as ! i" "ip_Gateway f" i] i(2) assms(3) show False by blast
qed

section \<open>Two forms\<close>

definition shared_volume :: volume_form where
  "shared_volume = \<lparr>vo_Name = ''data'', vo_Driver = ''local'', vo_DriverOptions = [driver_row ''type'' ''tmpfs''],
     vo_Access = AccessControlFormData\<lparr>af_Ownership := RESTRICTED\<rparr>, vo_NodeName = [], vo_StoridgeProfile = None,
     vo_NFS = VolumesNFSFormData\<lparr>nf_useNFS := True, nf_serverAddress := ''nas'', nf_mountPoint := ''/export''\<rparr>,
     vo_CIFS = VolumesCIFSFormData\<rparr>"

theorem refused_share_sent_again_witness:
  "\<exists>opts rest. snd (create_volume (\<lambda>c. Inl ''refused'') 7 True
      ((fst (create_volume (\<lambda>c. Inl ''refused'') 7 True shared_volume))
        \<lparr>vo_NFS := (vo_NFS (fst (create_volume (\<lambda>c. Inl ''refused'') 7 True shared_volume)))\<lparr>nf_useNFS := False\<rparr>,
         vo_Access := AccessControlFormData\<rparr>)) =
    Inr (CreateVolume \<lparr>vc_Name = ''data'', vc_Driver = ''local'', vc_DriverOpts = opts\<rparr> # rest) \<and>
    has_share (vo_NFS shared_volume) opts"
proof -
  have n: "nf_useNFS (vo_NFS shared_volume)" "\<not> ci_useCIFS (vo_CIFS shared_volume)"
    by (simp_all add: shared_volume_def VolumesNFSFormData_def VolumesCIFSFormData_def)
  have a: "validateAccessControl AccessControlFormData True = []"
    by (simp add: AccessControlFormData_def validateAccessControl_def)
  show ?thesis
    using refused_share_sent_again [OF n surjective_pairing refl, where engine = "\<lambda>c. Inl ''refused''" and userId = 7 and
        isAdmin = True and access = AccessControlFormData] a
    by (simp add: shared_volume_def)
qed

definition excluding_rows :: ip_rows where
  "excluding_rows = changeAuxAddress 0 ''router=10.0.0.2''
     (addAuxAddress (\<lparr>ip_Subnet = ''10.0.0.0/24'', ip_Gateway = ''10.0.0.1'', ip_IPRange = [], ip_Aux = []\<rparr>, []))"

lemma gateway_never_excluded_witness:
  "obj_get (prepareAuxiliaryAddresses (ip_Aux (fst excluding_rows))) ''router'' \<noteq> Some ''10.0.0.1''"
proof -
  let ?f = "\<lparr>ip_Subnet = ''10.0.0.0/24'', ip_Gateway = ''10.0.0.1'', ip_IPRange = [], ip_Aux = []\<rparr>"
  have e: "aux_edited\<^sup>*\<^sup>* (?f, []) excluding_rows"
    unfolding excluding_rows_def
    by (rule rtranclp.rtrancl_into_rtrancl, rule rtranclp.rtrancl_into_rtrancl, rule rtranclp.rtrancl_refl,
        rule aux_edited.added, rule aux_edited.changed) (simp add: addAuxAddress_def)
  have v: "network_isValid excluding_rows (?f, [])"
    by (simp add: excluding_rows_def network_isValid_def changeAuxAddress_def addAuxAddress_def set_mark_def) code_simp
  show ?thesis using gateway_never_excluded [OF e _ _ v] by simp
qed

end
