(* ===== verification/KubeConfigPage.thy ===== *)
theory KubeConfigPage
  imports KubeAppForm KubeConfigs
begin

text \<open>
  The pages that create and edit a configuration of Kubernetes: the component of the rows
  (\<open>kubernetes/components/kubernetes-configuration-data\<close>) and the two controllers under
  \<open>kubernetes/views/configurations\<close>.
\<close>

section \<open>The rows\<close>

record data_row =
  dr_entry :: config_entry
  dr_Used :: bool

definition new_entry :: data_row where
  "new_entry = \<lparr>dr_entry = \<lparr>en_Key = [], en_Value = [], en_IsBinary = False\<rparr>, dr_Used = False\<rparr>"

record data_page =
  dp_rows :: "data_row list"
  dp_yaml :: string
  dp_simple :: bool
  dp_duplicates :: "(nat \<times> port_value) list"
  dp_invalid :: "nat list"
  dp_valid :: bool
  dp_dirty :: bool

definition row_keys :: "data_page \<Rightarrow> string list" where
  "row_keys p = map (en_Key \<circ> dr_entry) (dp_rows p)"

definition check_keys :: "data_page \<Rightarrow> data_page" where
  "check_keys p =
     (let d = getDuplicates (map (Some \<circ> PText) (row_keys p)); i = getInvalidKeys (row_keys p)
      in p\<lparr>dp_duplicates := d, dp_invalid := i, dp_valid := (d = [] \<and> i = [])\<rparr>)"

text \<open>A change of a row that an application uses is not checked.\<close>

definition onChangeKey :: "data_row option \<Rightarrow> data_page \<Rightarrow> data_page" where
  "onChangeKey entry p = (case entry of Some e \<Rightarrow> if dr_Used e then p else check_keys p | None \<Rightarrow> check_keys p)"

definition addEntry :: "data_page \<Rightarrow> data_page" where
  "addEntry p = p\<lparr>dp_rows := dp_rows p @ [new_entry]\<rparr>"

definition removeEntry :: "nat \<Rightarrow> data_row \<Rightarrow> data_page \<Rightarrow> data_page" where
  "removeEntry i entry p = (if dr_Used entry then p else onChangeKey None (p\<lparr>dp_rows := remove_at i (dp_rows p)\<rparr>))"

definition typed_key :: "string \<Rightarrow> data_row \<Rightarrow> data_row" where
  "typed_key k r = r\<lparr>dr_entry := (dr_entry r)\<lparr>en_Key := k\<rparr>\<rparr>"

definition typed_value :: "jstext \<Rightarrow> data_row \<Rightarrow> data_row" where
  "typed_value v r = r\<lparr>dr_entry := (dr_entry r)\<lparr>en_Value := v\<rparr>\<rparr>"

definition type_key :: "nat \<Rightarrow> string \<Rightarrow> data_page \<Rightarrow> data_page" where
  "type_key i k p = (let r = typed_key k (dp_rows p ! i) in onChangeKey (Some r) (p\<lparr>dp_rows := (dp_rows p)[i := r]\<rparr>))"

definition type_value :: "nat \<Rightarrow> jstext \<Rightarrow> data_page \<Rightarrow> data_page" where
  "type_value i v p = p\<lparr>dp_rows := (dp_rows p)[i := typed_value v (dp_rows p ! i)]\<rparr>"

definition config_editorUpdate :: "string \<Rightarrow> data_page \<Rightarrow> data_page" where
  "config_editorUpdate s p = (if dp_yaml p \<noteq> s then p\<lparr>dp_yaml := s, dp_dirty := True\<rparr> else p)"

text \<open>
  A file: the encoding that was detected, the text that was decoded, and the coder of the package for binary content.
\<close>

definition file_entry :: "(jstext \<Rightarrow> jstext) \<Rightarrow> string \<Rightarrow> string \<Rightarrow> jstext \<Rightarrow> config_entry" where
  "file_entry encode fileName encoding decoded =
     \<lparr>en_Key = fileName, en_Value = (if isBinary encoding then encode decoded else decoded), en_IsBinary = isBinary encoding\<rparr>"

definition onFileLoad :: "(jstext \<Rightarrow> jstext) \<Rightarrow> string \<Rightarrow> string \<Rightarrow> jstext \<Rightarrow> data_page \<Rightarrow> data_page" where
  "onFileLoad encode fileName encoding decoded p =
     onChangeKey None (p\<lparr>dp_rows := dp_rows p @ [\<lparr>dr_entry = file_entry encode fileName encoding decoded, dr_Used = False\<rparr>]\<rparr>)"

text \<open>
  The two modes. \<open>parse\<close> stands for the package that reads YAML, \<open>None\<close> where it throws; the mode has changed by then.
\<close>

definition showSimpleMode :: "(string \<Rightarrow> jstext obj option) \<Rightarrow> data_page \<Rightarrow> data_page" where
  "showSimpleMode parse p =
     (let q = p\<lparr>dp_simple := True\<rparr>
      in case parse (dp_yaml p) of None \<Rightarrow> q
       | Some ob \<Rightarrow> onChangeKey None (q\<lparr>dp_rows := map (\<lambda>e. \<lparr>dr_entry = e, dr_Used = False\<rparr>)
                     (parseYaml ob (map dr_entry (dp_rows p)))\<rparr>))"

definition showAdvancedMode :: "(jstext obj \<Rightarrow> string) \<Rightarrow> data_page \<Rightarrow> data_page" where
  "showAdvancedMode stringify p = p\<lparr>dp_simple := False, dp_yaml := parseData stringify (map dr_entry (dp_rows p))\<rparr>"

section \<open>The page that creates a configuration\<close>

definition name_taken :: "(string \<times> string) list \<Rightarrow> string \<Rightarrow> string \<Rightarrow> bool" where
  "name_taken configurations namespace name \<longleftrightarrow> name \<in> set (map snd (filter (\<lambda>c. fst c = namespace) configurations))"

definition isFormValid :: "bool \<Rightarrow> data_page \<Rightarrow> bool" where
  "isFormValid alreadyExist p \<longleftrightarrow>
     (if dp_simple p then dp_rows p \<noteq> [] \<and> \<not> alreadyExist \<and> dp_valid p else \<not> alreadyExist \<and> dp_valid p)"

definition new_data_page :: data_page where
  "new_data_page = \<lparr>dp_rows = [new_entry], dp_yaml = [], dp_simple = True, dp_duplicates = [], dp_invalid = [],
     dp_valid = True, dp_dirty = False\<rparr>"

text \<open>In the advanced mode the text is parsed when it is sent; what it throws ends the creation.\<close>

definition sent_entries :: "(string \<Rightarrow> jstext obj option) \<Rightarrow> data_page \<Rightarrow> config_entry list option" where
  "sent_entries parse p =
     (if dp_simple p then Some (map dr_entry (dp_rows p))
      else map_option (\<lambda>ob. parseYaml ob (map dr_entry (dp_rows p))) (parse (dp_yaml p)))"

definition page_createConfiguration ::
    "(string \<Rightarrow> jstext obj option) \<Rightarrow> (config_request \<Rightarrow> bool) \<Rightarrow> string \<Rightarrow> config_type \<Rightarrow> config_form \<Rightarrow> data_page \<Rightarrow>
     config_request option \<times> data_page" where
  "page_createConfiguration parse srv username ty f p = (case sent_entries parse p of
       None \<Rightarrow> (None, p)
     | Some es \<Rightarrow>
         (let r = createConfiguration ty (f\<lparr>cf_Owner := Some username, cf_Data := es\<rparr>);
              q = (if dp_simple p then p else p\<lparr>dp_rows := map (\<lambda>e. \<lparr>dr_entry = e, dr_Used = False\<rparr>) es\<rparr>)
          in (Some r, if srv r then q\<lparr>dp_dirty := False\<rparr> else q)))"

definition create_asks_before_exit :: "data_page \<Rightarrow> bool" where
  "create_asks_before_exit p \<longleftrightarrow> \<not> dp_simple p \<and> dp_yaml p \<noteq> [] \<and> dp_dirty p"

section \<open>The page that edits a configuration\<close>

text \<open>
  The answers for a secret and a config map of the name. A secret that may not be read leaves the page; a config map that
  was not found throws when its fields are read.
\<close>

datatype 'a settled = Fulfilled 'a | Rejected nat

definition page_getConfiguration :: "config_map settled \<Rightarrow> secret settled \<Rightarrow> (configuration \<times> config_entry list) js_result" where
  "page_getConfiguration configMap secret = (case secret of
       Fulfilled s \<Rightarrow> Inr (secretToConfiguration s, sec_Data s)
     | Rejected status \<Rightarrow>
         if status = 403 then Inl (ThrownError ''Not authorized to edit secret'')
         else (case configMap of Fulfilled c \<Rightarrow> Inr (configMapToConfiguration c, cm_Data c) | Rejected _ \<Rightarrow> Inl TypeError))"

text \<open>The variables of an application that are read from a config map: their name, the map and the key in it.\<close>

record env_source =
  ce_name :: string
  ce_configMap :: "(string \<times> string) option"

definition used_data_keys :: "string \<Rightarrow> env_source list list \<Rightarrow> string list" where
  "used_data_keys configName applications = uniq (concat (map (\<lambda>app. map ce_name
     (filter (\<lambda>e. case ce_configMap e of Some (m, k) \<Rightarrow> m = configName | None \<Rightarrow> False) app)) applications))"

definition tagUsedDataKeys :: "string \<Rightarrow> env_source list list \<Rightarrow> data_row list \<Rightarrow> data_row list" where
  "tagUsedDataKeys configName applications rows =
     (let used = used_data_keys configName applications
      in map (\<lambda>r. if en_Key (dr_entry r) \<in> set used then r\<lparr>dr_Used := True\<rparr> else r) rows)"

definition opened_data_page :: "string \<Rightarrow> env_source list list \<Rightarrow> config_entry list \<Rightarrow> data_page" where
  "opened_data_page configName applications es =
     new_data_page\<lparr>dp_rows := tagUsedDataKeys configName applications (map (\<lambda>e. \<lparr>dr_entry = e, dr_Used = False\<rparr>) es)\<rparr>"

definition updateConfigurationAsync ::
    "(config_request list \<Rightarrow> config_request \<Rightarrow> bool) \<Rightarrow> config_type \<Rightarrow> config_form \<Rightarrow> configuration \<Rightarrow> config_request list \<times> bool" where
  "updateConfigurationAsync srv ty f cfg =
     (if ty \<noteq> cg_Type cfg \<or> cf_NamespaceName f \<noteq> cg_Namespace cfg \<or> cf_Name f \<noteq> cg_Name cfg
      then (let c = createConfiguration ty f; d = deleteConfiguration cfg
            in if srv [] c then ([c, d], srv [c] d) else ([c], False))
      else (let u = updateConfiguration ty f cfg in ([u], srv [] u)))"

definition page_updateConfiguration ::
    "(config_request list \<Rightarrow> config_request \<Rightarrow> bool) \<Rightarrow> bool \<Rightarrow> nat \<Rightarrow> config_type \<Rightarrow> config_form \<Rightarrow> configuration \<Rightarrow>
     config_request list \<times> bool" where
  "page_updateConfiguration srv confirmed users ty f cfg =
     (if users \<noteq> 0 \<and> \<not> confirmed then ([], False) else updateConfigurationAsync srv ty f cfg)"

definition edit_isFormValid :: "data_page \<Rightarrow> bool" where
  "edit_isFormValid p = isFormValid False p"

definition edit_asks_before_exit :: "string \<Rightarrow> data_page \<Rightarrow> bool" where
  "edit_asks_before_exit oldDataYaml p \<longleftrightarrow> \<not> dp_simple p \<and> dp_yaml p \<noteq> oldDataYaml \<and> dp_dirty p"

section \<open>Editing\<close>

text \<open>What a user can do: the fields and the button of a row that is in use are disabled; only the creation has modes.\<close>

inductive data_edited ::
    "(string \<Rightarrow> jstext obj option) \<Rightarrow> (jstext obj \<Rightarrow> string) \<Rightarrow> (jstext \<Rightarrow> jstext) \<Rightarrow> bool \<Rightarrow> data_page \<Rightarrow> data_page \<Rightarrow> bool"
  for parse stringify encode isCreation where
  entry_added: "dp_simple p \<Longrightarrow> data_edited parse stringify encode isCreation p (addEntry p)"
| entry_removed: "dp_simple p \<Longrightarrow> i < length (dp_rows p) \<Longrightarrow>
    data_edited parse stringify encode isCreation p (removeEntry i (dp_rows p ! i) p)"
| key_typed: "dp_simple p \<Longrightarrow> i < length (dp_rows p) \<Longrightarrow> \<not> dr_Used (dp_rows p ! i) \<Longrightarrow>
    data_edited parse stringify encode isCreation p (type_key i k p)"
| value_typed: "dp_simple p \<Longrightarrow> i < length (dp_rows p) \<Longrightarrow> data_edited parse stringify encode isCreation p (type_value i v p)"
| file_loaded: "dp_simple p \<Longrightarrow> data_edited parse stringify encode isCreation p (onFileLoad encode name encoding decoded p)"
| editor_typed: "\<not> dp_simple p \<Longrightarrow> data_edited parse stringify encode isCreation p (config_editorUpdate s p)"
| to_simple: "isCreation \<Longrightarrow> \<not> dp_simple p \<Longrightarrow> data_edited parse stringify encode isCreation p (showSimpleMode parse p)"
| to_advanced: "isCreation \<Longrightarrow> dp_simple p \<Longrightarrow> data_edited parse stringify encode isCreation p (showAdvancedMode stringify p)"

text \<open>What a valid mark says: the keys that are filled in differ and are well formed.\<close>

definition keys_checked :: "data_page \<Rightarrow> bool" where
  "keys_checked p \<longleftrightarrow> (dp_valid p \<longrightarrow> distinct (filter (\<lambda>k. k \<noteq> []) (row_keys p)) \<and>
     (\<forall>k \<in> set (row_keys p). k \<noteq> [] \<longrightarrow> matches name_rx k))"

lemma getInvalidKeys_Nil: "getInvalidKeys names = [] \<longleftrightarrow> (\<forall>k \<in> set names. matches name_rx k)"
proof -
  have "map snd (enumerate 0 names) = names" by simp
  then have "set names = snd ` set (enumerate 0 names)" by (metis set_map)
  then show ?thesis by (auto simp: getInvalidKeys_def filter_empty_conv)
qed

lemma text_keys_distinct: "getDuplicates (map (Some \<circ> PText) ks) = [] \<Longrightarrow> distinct (filter (\<lambda>k. k \<noteq> []) ks)"
proof -
  assume "getDuplicates (map (Some \<circ> PText) ks) = []"
  from getDuplicates_distinct [OF this]
  have d: "distinct (without_undefined (map (\<lambda>k. if k \<noteq> [] then Some (PText k) else None) ks))" by (simp add: comp_def)
  have "without_undefined (map (\<lambda>k. if k \<noteq> [] then Some (PText k) else None) ks) = map PText (filter (\<lambda>k. k \<noteq> []) ks)"
    by (induction ks) (auto simp: without_undefined_def)
  with d show ?thesis by (simp add: distinct_map)
qed

lemma check_keys_checked [intro]: "keys_checked (check_keys p)"
proof -
  have "row_keys (check_keys p) = row_keys p" by (simp add: check_keys_def row_keys_def Let_def)
  moreover have "dp_valid (check_keys p) \<longleftrightarrow> getDuplicates (map (Some \<circ> PText) (row_keys p)) = [] \<and> getInvalidKeys (row_keys p) = []"
    by (simp add: check_keys_def Let_def)
  ultimately show ?thesis unfolding keys_checked_def getInvalidKeys_Nil using text_keys_distinct [of "row_keys p"] by simp
qed

lemma edited_checked:
  assumes "data_edited parse stringify encode c p q" and "keys_checked p"
  shows "keys_checked q"
  using assms(1)
proof cases
  case entry_added
  then show ?thesis using assms(2) by (simp add: keys_checked_def addEntry_def row_keys_def new_entry_def)
next
  case (entry_removed i)
  then show ?thesis using assms(2) by (auto simp: removeEntry_def onChangeKey_def)
next
  case (key_typed i k)
  then show ?thesis by (auto simp: type_key_def onChangeKey_def typed_key_def Let_def)
next
  case (value_typed i v)
  have "map (en_Key \<circ> dr_entry) ((dp_rows p)[i := typed_value v (dp_rows p ! i)]) = map (en_Key \<circ> dr_entry) (dp_rows p)"
    using value_typed(3) by (simp add: map_update typed_value_def) (metis comp_apply list_update_id map_update)
  then show ?thesis using assms(2) value_typed(1) by (simp add: keys_checked_def type_value_def row_keys_def)
next
  case (file_loaded name encoding decoded)
  then show ?thesis by (auto simp: onFileLoad_def onChangeKey_def)
next
  case (editor_typed s)
  then show ?thesis using assms(2) by (auto simp: keys_checked_def config_editorUpdate_def row_keys_def)
next
  case to_simple
  then show ?thesis using assms(2)
    by (cases "parse (dp_yaml p)")
      (auto simp: showSimpleMode_def onChangeKey_def Let_def keys_checked_def [of "p\<lparr>dp_simple := True\<rparr>"] keys_checked_def [of p] row_keys_def)
next
  case to_advanced
  then show ?thesis using assms(2) by (simp add: keys_checked_def showAdvancedMode_def row_keys_def)
qed


lemma reached_checked: "(data_edited parse stringify encode c)\<^sup>*\<^sup>* p q \<Longrightarrow> keys_checked p \<Longrightarrow> keys_checked q"
  by (induction rule: rtranclp_induct) (auto intro: edited_checked)

lemma new_page_checked: "keys_checked new_data_page"
  by (simp add: keys_checked_def new_data_page_def row_keys_def new_entry_def)

text \<open>
  C28. However the rows of a new configuration are edited and the modes are switched, when the page accepts the form with
  every key filled in, the config map that is asked for has under each key the value of its row, with the binary ones apart,
  and no other key.
\<close>

theorem accepted_rows_sent:
  assumes "(data_edited parse stringify encode True)\<^sup>*\<^sup>* new_data_page p" and "dp_simple p" and "isFormValid taken p"
    and "[] \<notin> set (row_keys p)"
  shows "\<exists>pl. fst (page_createConfiguration parse srv username CONFIGMAP f p) = Some (CreateMap pl) \<and>
    (obj_get (cp_data pl) k = Some v \<longleftrightarrow> \<lparr>en_Key = k, en_Value = v, en_IsBinary = False\<rparr> \<in> set (map dr_entry (dp_rows p))) \<and>
    (obj_get (cp_binaryData pl) k = Some v \<longleftrightarrow> \<lparr>en_Key = k, en_Value = v, en_IsBinary = True\<rparr> \<in> set (map dr_entry (dp_rows p)))"
proof -
  have "keys_checked p" by (rule reached_checked [OF assms(1) new_page_checked])
  moreover have "dp_valid p" using assms(2,3) by (simp add: isFormValid_def)
  moreover have "filter (\<lambda>k. k \<noteq> []) (row_keys p) = row_keys p" using assms(4) by (auto simp: filter_id_conv)
  ultimately have d: "distinct (map en_Key (map dr_entry (dp_rows p)))" by (simp add: keys_checked_def row_keys_def)
  show ?thesis using put_data_entry [OF d] assms(2)
    by (simp add: page_createConfiguration_def sent_entries_def createConfiguration_def Let_def createPayload_def
        configurationFormValuesToConfigMap_def)
qed

lemma update_filter: "i < length xs \<Longrightarrow> P x = P (xs ! i) \<Longrightarrow> f x = f (xs ! i) \<Longrightarrow> map f (filter P (xs[i := x])) = map f (filter P xs)"
  by (induction xs arbitrary: i) (auto split: nat.split)

lemma update_filter_out: "i < length xs \<Longrightarrow> \<not> P x \<Longrightarrow> \<not> P (xs ! i) \<Longrightarrow> filter P (xs[i := x]) = filter P xs"
  by (induction xs arbitrary: i) (auto split: nat.split)

lemma remove_filter_out: "i < length xs \<Longrightarrow> \<not> P (xs ! i) \<Longrightarrow> filter P (remove_at i xs) = filter P xs"
  by (simp add: remove_at_def) (metis append.right_neutral append_Cons filter.simps(2) filter_append id_take_nth_drop)

lemma check_keys_rows [simp]: "dp_rows (check_keys p) = dp_rows p" "dp_simple (check_keys p) = dp_simple p"
  by (simp_all add: check_keys_def Let_def)

lemma onChangeKey_rows [simp]: "dp_rows (onChangeKey e p) = dp_rows p" "dp_simple (onChangeKey e p) = dp_simple p"
  by (simp_all add: onChangeKey_def split: option.split)

lemma used_rows_kept:
  "filter dr_Used (dp_rows (addEntry p)) = filter dr_Used (dp_rows p)" "dp_simple (addEntry p) = dp_simple p"
  "i < length (dp_rows p) \<Longrightarrow> filter dr_Used (dp_rows (removeEntry i (dp_rows p ! i) p)) = filter dr_Used (dp_rows p)"
  "dp_simple (removeEntry i e p) = dp_simple p" "dp_simple (type_key i k p) = dp_simple p" "dp_simple (type_value i v p) = dp_simple p"
  "i < length (dp_rows p) \<Longrightarrow> \<not> dr_Used (dp_rows p ! i) \<Longrightarrow>
     filter dr_Used (dp_rows (type_key i k p)) = filter dr_Used (dp_rows p)"
  "i < length (dp_rows p) \<Longrightarrow> map (en_Key \<circ> dr_entry) (filter dr_Used (dp_rows (type_value i v p))) =
     map (en_Key \<circ> dr_entry) (filter dr_Used (dp_rows p))"
  "filter dr_Used (dp_rows (onFileLoad encode n c d p)) = filter dr_Used (dp_rows p)" "dp_simple (onFileLoad encode n c d p) = dp_simple p"
  by (simp_all add: addEntry_def new_entry_def removeEntry_def remove_filter_out type_key_def Let_def update_filter_out
      typed_key_def type_value_def update_filter typed_value_def onFileLoad_def)

text \<open>
  C29. The rows of an existing configuration whose keys are in use keep their keys, their order and their mark, however the
  page is edited.
\<close>

theorem used_rows_stay:
  assumes "(data_edited parse stringify encode False)\<^sup>*\<^sup>* p q" and "dp_simple p"
  shows "dp_simple q \<and> map (en_Key \<circ> dr_entry) (filter dr_Used (dp_rows q)) = map (en_Key \<circ> dr_entry) (filter dr_Used (dp_rows p))"
  using assms
proof (induction rule: rtranclp_induct)
  case (step q r)
  then have q: "dp_simple q" by simp
  have "dp_simple r \<and> map (en_Key \<circ> dr_entry) (filter dr_Used (dp_rows r)) = map (en_Key \<circ> dr_entry) (filter dr_Used (dp_rows q))"
    using step.hyps(2) q by cases (simp_all add: used_rows_kept)
  with step show ?case by (metis (lifting))
qed simp


text \<open>A duplicate that is left in the rows keeps the page from accepting whatever text is typed in the advanced mode.\<close>

lemma advanced_keeps_mark:
  "dp_valid (config_editorUpdate s p) = dp_valid p" "dp_valid (showAdvancedMode stringify p) = dp_valid p"
  "\<not> dp_valid p \<Longrightarrow> \<not> isFormValid taken (config_editorUpdate s (showAdvancedMode stringify p))"
  by (simp_all add: config_editorUpdate_def showAdvancedMode_def isFormValid_def)

text \<open>An old configuration is deleted only after the new one was accepted.\<close>

lemma deleted_after_creation:
  assumes "updateConfigurationAsync srv ty f cfg = (l, ok)" and "deleteConfiguration cfg \<in> set l"
    and "deleteConfiguration cfg \<noteq> createConfiguration ty f" and "deleteConfiguration cfg \<noteq> updateConfiguration ty f cfg"
  shows "l = [createConfiguration ty f, deleteConfiguration cfg] \<and> srv [] (createConfiguration ty f)"
  using assms by (auto simp: updateConfigurationAsync_def Let_def split: if_splits)

section \<open>Two pages\<close>

definition typed_page :: data_page where
  "typed_page = onFileLoad id ''logo'' ''windows'' (text_of ''png'') (type_key 0 ''mode'' new_data_page)"

lemma typed_reached: "(data_edited parse stringify id True)\<^sup>*\<^sup>* new_data_page typed_page"
proof -
  let ?e = "data_edited parse stringify id True" and ?q = "type_key 0 ''mode'' new_data_page"
  have n: "dp_simple new_data_page" "0 < length (dp_rows new_data_page)" "\<not> dr_Used (dp_rows new_data_page ! 0)"
    by (simp_all add: new_data_page_def new_entry_def)
  have "?e new_data_page ?q" by (rule data_edited.key_typed [OF n])
  moreover have "?e ?q typed_page" unfolding typed_page_def by (rule data_edited.file_loaded) (simp add: used_rows_kept n)
  ultimately show ?thesis by (meson rtranclp.rtrancl_into_rtrancl rtranclp.rtrancl_refl)
qed

lemma accepted_rows_sent_witness:
  "obj_get (case fst (page_createConfiguration (\<lambda>s. None) (\<lambda>r. True) ''ann'' CONFIGMAP
       \<lparr>cf_Id = [], cf_Name = ''web'', cf_NamespaceName = ''dev'', cf_Owner = None, cf_Data = []\<rparr> typed_page) of
     Some (CreateMap pl) \<Rightarrow> cp_binaryData pl) ''logo'' = Some (text_of ''png'')"
proof -
  have v: "dp_simple typed_page" "isFormValid False typed_page" "[] \<notin> set (row_keys typed_page)" by code_simp+
  have m: "\<lparr>en_Key = ''logo'', en_Value = text_of ''png'', en_IsBinary = True\<rparr> \<in> set (map dr_entry (dp_rows typed_page))"
    by code_simp
  show ?thesis
    using accepted_rows_sent [OF typed_reached v, of "\<lambda>s. None" "\<lambda>r. True" "''ann''"
      "\<lparr>cf_Id = [], cf_Name = ''web'', cf_NamespaceName = ''dev'', cf_Owner = None, cf_Data = []\<rparr>" "''logo''" "text_of ''png''"] m
    by auto
qed

definition tagged_page :: data_page where
  "tagged_page = opened_data_page ''web'' [[\<lparr>ce_name = ''mode'', ce_configMap = Some (''web'', ''mode'')\<rparr>]]
     [\<lparr>en_Key = ''mode'', en_Value = [], en_IsBinary = False\<rparr>, \<lparr>en_Key = ''port'', en_Value = [], en_IsBinary = False\<rparr>]"

lemma used_rows_stay_witness:
  "map (en_Key \<circ> dr_entry) (filter dr_Used (dp_rows (removeEntry 1 (dp_rows tagged_page ! 1) tagged_page))) = [''mode'']"
proof -
  have s: "dp_simple tagged_page" "1 < length (dp_rows tagged_page)" by code_simp+
  have u: "map (en_Key \<circ> dr_entry) (filter dr_Used (dp_rows tagged_page)) = [''mode'']" by code_simp
  have "(data_edited (\<lambda>s. None) (\<lambda>ob. []) id False)\<^sup>*\<^sup>* tagged_page (removeEntry 1 (dp_rows tagged_page ! 1) tagged_page)"
    by (rule rtranclp.rtrancl_into_rtrancl [OF rtranclp.rtrancl_refl], rule data_edited.entry_removed [OF s])
  from used_rows_stay [OF this s(1)] u show ?thesis by simp
qed

end
