(* ===== verification/TemplatePages.thy ===== *)
theory TemplatePages
  imports AppTemplates StackPages ContainerPage
begin

text \<open>
  The pages of templates: \<open>portainer/views/templates/templatesController.js\<close> with the service of templates, and the pages of
  custom templates under \<open>portainer/views/custom-templates\<close>.
\<close>

section \<open>The configuration of a container from a template\<close>

record template_config =
  tc_Image :: string
  tc_name :: string
  tc_Hostname :: "string option"
  tc_NetworkMode :: string
  tc_Privileged :: bool
  tc_RestartPolicy :: string
  tc_Hosts :: "string list"
  tc_Env :: "string list"
  tc_Cmd :: "string list"
  tc_Ports :: port_configuration
  tc_Console :: "bool \<times> bool"
  tc_Labels :: "string obj"
  tc_Volumes :: "unit obj"
  tc_Binds :: "string list"

text \<open>
  The registry of a template is one of the endpoint with its address, or the hub; with no such registry, or no image, the
  name of the image cannot be built and an error is thrown.
\<close>

definition template_registry :: "registry list \<Rightarrow> template_view \<Rightarrow> registry option" where
  "template_registry registries t =
     (if t_RegistryURL t \<noteq> [] then find (\<lambda>r. reg_URL r = t_RegistryURL t) registries else Some DockerHubViewModel)"

definition template_model :: "registry list \<Rightarrow> template_view \<Rightarrow> image_model js_result" where
  "template_model registries t = (case (template_registry registries t, t_Image t) of
       (Some r, Some i) \<Rightarrow> Inr \<lparr>im_UseRegistry = True, im_Registry = r, im_Image = i\<rparr>
     | _ \<Rightarrow> Inl TypeError)"

definition createContainerConfiguration ::
    "(string \<Rightarrow> string list) \<Rightarrow> template_view \<Rightarrow> string \<Rightarrow> string \<Rightarrow> string \<Rightarrow> template_config" where
  "createContainerConfiguration splitargs t containerName network img =
     \<lparr>tc_Image = img, tc_name = containerName, tc_Hostname = t_Hostname t, tc_NetworkMode = network,
      tc_Privileged = t_Privileged t, tc_RestartPolicy = t_RestartPolicy t, tc_Hosts = t_Hosts t,
      tc_Env = EnvToStringArray (t_Env t), tc_Cmd = splitargs (t_Command t), tc_Ports = portArrayToPortConfiguration (t_Ports t),
      tc_Console = getConsoleConfiguration (Some (t_Interactive t)),
      tc_Labels = updateContainerConfigurationWithLabels
        (map (\<lambda>(n, v). \<lparr>tl_name = Some n, tl_value = Some v\<rparr>) (t_Labels t)),
      tc_Volumes = [], tc_Binds = []\<rparr>"

definition createTemplateConfiguration ::
    "(string \<Rightarrow> string list) \<Rightarrow> registry list \<Rightarrow> template_view \<Rightarrow> string \<Rightarrow> string option \<Rightarrow> template_config js_result" where
  "createTemplateConfiguration splitargs registries t containerName network =
     and_then (template_model registries t) (\<lambda>m. case network of
         None \<Rightarrow> Inl TypeError
       | Some n \<Rightarrow> Inr (createContainerConfiguration splitargs t containerName n (createImageConfigForContainer m)))"

definition add_binding :: "template_volume \<Rightarrow> template_config \<Rightarrow> template_config" where
  "add_binding v c = (if truthy_str (tv_binding v)
     then c\<lparr>tc_Volumes := obj_set (tc_Volumes c) (undefined_text (tv_container v)) (), tc_Binds := tc_Binds c @ [the (tv_binding v)]\<rparr>
     else c)"

definition updateContainerConfigurationWithVolumes ::
    "template_config \<Rightarrow> template_view \<Rightarrow> string list \<Rightarrow> template_config js_result" where
  "updateContainerConfigurationWithVolumes c t pile =
     and_then (createVolumeBindings (t_Volumes t) pile) (\<lambda>(vs, rest). Inr (fold add_binding vs c))"

section \<open>The deployment of a template\<close>

datatype template_request =
    NewVolume
  | TemplatePull string
  | NewContainer template_config
  | StartNew string
  | ControlNew rc_request

record template_server =
  ts_volume :: "template_request list \<Rightarrow> string option"
  ts_container :: "template_request list \<Rightarrow> template_config \<Rightarrow> (string \<times> rc_data) option"
  ts_accepts :: "template_request list \<Rightarrow> template_request \<Rightarrow> bool"

definition createXAutoGeneratedLocalVolumes :: "template_server \<Rightarrow> nat \<Rightarrow> string option list" where
  "createXAutoGeneratedLocalVolumes srv x = map (\<lambda>i. ts_volume srv (replicate i NewVolume)) [0..<x]"

text \<open>
  All volumes are asked for at once; the image is pulled whatever the answer; an error that is thrown before the first
  request leaves the page busy.
\<close>

definition createContainerFromTemplate ::
    "template_server \<Rightarrow> (string \<Rightarrow> string list) \<Rightarrow> registry list \<Rightarrow> nat \<Rightarrow> access_form \<Rightarrow> string \<Rightarrow> string option \<Rightarrow> template_view \<Rightarrow>
     (template_request list \<times> bool) js_result" where
  "createContainerFromTemplate srv splitargs registries userId access name network t =
     and_then (createTemplateConfiguration splitargs registries t name network) (\<lambda>cfg.
       let n = determineRequiredGeneratedVolumeCount (t_Volumes t); answers = createXAutoGeneratedLocalVolumes srv n;
           l1 = replicate n NewVolume
       in if None \<in> set answers then Inr (l1, False)
          else (case updateContainerConfigurationWithVolumes cfg t (map the answers) of
              Inl e \<Rightarrow> Inr (l1, False)
            | Inr c \<Rightarrow>
                (let l2 = l1 @ [TemplatePull (tc_Image cfg)]; l3 = l2 @ [NewContainer c]
                 in case ts_container srv l2 c of
                     None \<Rightarrow> Inr (l3, False)
                   | Some (i, rc) \<Rightarrow>
                       (let l4 = l3 @ [StartNew i]; q = ControlNew (applyResourceControl userId access rc (map the answers))
                        in if ts_accepts srv l3 (StartNew i) then Inr (l4 @ [q], ts_accepts srv l4 q) else Inr (l4, False)))))"

text \<open>The variables of a stack; a preset one has the default of the template, whatever was chosen for it.\<close>

record stack_var =
  sv_name :: string
  sv_value :: string
  sv_default :: "string option"
  sv_preset :: bool

definition swarm_env :: "stack_var list \<Rightarrow> (string \<times> string) list" where
  "swarm_env vars = filter (\<lambda>(n, v). v \<noteq> [] \<and> n \<noteq> [])
     (map (\<lambda>x. (sv_name x, if sv_preset x \<or> sv_value x = [] then or_str (sv_default x) [] else sv_value x)) vars)"

definition compose_env :: "stack_var list \<Rightarrow> stack_var list" where
  "compose_env vars = map (\<lambda>x. if sv_preset x then x\<lparr>sv_value := or_str (sv_default x) []\<rparr> else x) vars"

definition template_git :: "string \<Rightarrow> string \<Rightarrow> git_options" where
  "template_git url stackfile = \<lparr>go_URL = url, go_ReferenceName = [], go_ComposeFilePath = stackfile,
     go_Authentication = False, go_Username = [], go_Password = []\<rparr>"

definition createStackFromTemplate ::
    "stack_server \<Rightarrow> nat \<Rightarrow> nat \<Rightarrow> access_form \<Rightarrow> string \<Rightarrow> string \<Rightarrow> string \<Rightarrow> stack_var list \<Rightarrow> unit call_of" where
  "createStackFromTemplate srv endpointId userId access name url stackfile vars =
     call_then (createSwarmStack srv name (Repository (template_git url stackfile)) (swarm_env vars) endpointId)
       (\<lambda>rc. stack_send srv (ApplyStackControl (applyResourceControl userId access rc [])))"

definition createComposeStackFromTemplate ::
    "stack_server \<Rightarrow> nat \<Rightarrow> nat \<Rightarrow> access_form \<Rightarrow> string \<Rightarrow> string \<Rightarrow> string \<Rightarrow> stack_var list \<Rightarrow> unit call_of" where
  "createComposeStackFromTemplate srv endpointId userId access name url stackfile vars =
     call_then (createComposeStack srv name (Repository (template_git url stackfile))
         (map (\<lambda>x. (sv_name x, sv_value x)) (compose_env vars)) endpointId)
       (\<lambda>rc. stack_send srv (ApplyStackControl (applyResourceControl userId access rc [])))"

definition template_deployable :: "string \<Rightarrow> nat \<Rightarrow> bool" where
  "template_deployable provider type =
     (if type = 1 then provider = ''DOCKER_SWARM_MODE'' \<or> provider = ''DOCKER_STANDALONE''
      else if type = 2 then provider = ''DOCKER_SWARM_MODE'' else if type = 3 then provider = ''DOCKER_STANDALONE'' else False)"

definition template_network :: "string list \<Rightarrow> template_view \<Rightarrow> string option" where
  "template_network available t = find (\<lambda>n. n = (if t_Network t \<noteq> [] then t_Network t else ''bridge'')) available"

section \<open>The page of custom templates\<close>

record custom_template =
  cu_Id :: nat
  cu_Title :: string
  cu_Type :: nat
  cu_CreatedBy :: nat

record custom_page =
  xp_selected :: "custom_template option"
  xp_pending :: "nat list"
  xp_content :: string
  xp_name :: string

definition isEditAllowed :: "bool \<Rightarrow> nat \<Rightarrow> custom_template \<Rightarrow> bool" where
  "isEditAllowed isAdmin userId t \<longleftrightarrow> isAdmin \<or> userId = cu_CreatedBy t"

definition custom_type :: "string \<Rightarrow> string \<Rightarrow> nat" where
  "custom_type provider role = (if provider = ''DOCKER_SWARM_MODE'' \<and> role = ''MANAGER'' then 1 else 2)"

definition custom_deployable :: "string \<Rightarrow> nat \<Rightarrow> bool" where
  "custom_deployable provider type =
     (if type = 1 then provider = ''DOCKER_SWARM_MODE'' else if type = 2 then provider = ''DOCKER_STANDALONE'' else False)"

definition unselectTemplate :: "custom_page \<Rightarrow> custom_page" where
  "unselectTemplate p = p\<lparr>xp_selected := None, xp_content := [], xp_name := []\<rparr>"

text \<open>The file of the template is asked for last; until it is answered the page can be used.\<close>

definition selectTemplate :: "custom_template \<Rightarrow> custom_page \<Rightarrow> custom_page" where
  "selectTemplate t p =
     (let q = (case xp_selected p of None \<Rightarrow> p | Some s \<Rightarrow> unselectTemplate p)
      in q\<lparr>xp_selected := Some t, xp_name := cu_Title t, xp_pending := xp_pending q @ [cu_Id t]\<rparr>)"

definition file_answered :: "(nat \<Rightarrow> string) \<Rightarrow> nat \<Rightarrow> custom_page \<Rightarrow> custom_page" where
  "file_answered files i p =
     (if i < length (xp_pending p)
      then p\<lparr>xp_content := files (xp_pending p ! i), xp_pending := remove_at i (xp_pending p)\<rparr> else p)"

text \<open>A request for a file that fails is caught by nobody: the text of the page stays what it is.\<close>

definition file_failed :: "nat \<Rightarrow> custom_page \<Rightarrow> custom_page" where
  "file_failed i p = p\<lparr>xp_pending := remove_at i (xp_pending p)\<rparr>"

definition custom_editorUpdate :: "string \<Rightarrow> custom_page \<Rightarrow> custom_page" where
  "custom_editorUpdate s p = p\<lparr>xp_content := s\<rparr>"

definition createStack :: "stack_server \<Rightarrow> nat \<Rightarrow> nat \<Rightarrow> bool \<Rightarrow> access_form \<Rightarrow> custom_page \<Rightarrow> stack_client \<Rightarrow> (string + unit) \<times> stack_client" where
  "createStack srv endpointId userId isAdmin access p c =
     (let e = validateAccessControl access isAdmin
      in if e \<noteq> [] then (Inl e, c)
         else call_then ((if map_option cu_Type (xp_selected p) = Some 1 then createSwarmStack else createComposeStack) srv
             (xp_name p) (Content (xp_content p)) [] endpointId)
           (\<lambda>rc. stack_send srv (ApplyStackControl (applyResourceControl userId access rc []))) c)"

text \<open>A template leaves the list when its removal was confirmed and accepted.\<close>

definition custom_confirmDelete :: "bool \<Rightarrow> bool \<Rightarrow> nat \<Rightarrow> custom_template list \<Rightarrow> nat list \<times> custom_template list" where
  "custom_confirmDelete confirmed accepted i templates =
     (if \<not> confirmed then ([], templates)
      else ([i], if accepted then filter (\<lambda>t. cu_Id t \<noteq> i) templates else templates))"

datatype custom_event = Selected custom_template | Unselected | Answered nat | Failed nat | Typed string

fun step_custom :: "(nat \<Rightarrow> string) \<Rightarrow> custom_event \<Rightarrow> custom_page \<Rightarrow> custom_page" where
  "step_custom files (Selected t) p = selectTemplate t p"
| "step_custom files Unselected p = unselectTemplate p"
| "step_custom files (Answered i) p = file_answered files i p"
| "step_custom files (Failed i) p = file_failed i p"
| "step_custom files (Typed s) p = custom_editorUpdate s p"

definition new_custom_page :: custom_page where
  "new_custom_page = \<lparr>xp_selected = None, xp_pending = [], xp_content = [], xp_name = []\<rparr>"

section \<open>The pages that create and edit a custom template\<close>

record custom_form =
  xf_Title :: string
  xf_FileContent :: string
  xf_Type :: nat
  xf_Access :: access_form
  xf_Method :: creation_method
  xf_dirty :: bool

definition custom_method :: "creation_method \<Rightarrow> creation_method" where
  "custom_method m = (if m = TemplateMethod then Editor else m)"

definition validateCustomForm :: "custom_template list \<Rightarrow> bool \<Rightarrow> custom_form \<Rightarrow> string" where
  "validateCustomForm templates isAdmin f =
     (if custom_method (xf_Method f) = Editor \<and> xf_FileContent f = [] then ''Template file content must not be empty''
      else if \<exists>t \<in> set templates. cu_Title t = xf_Title f then ''A template with the same name already exists''
      else validateAccessControl (xf_Access f) isAdmin)"

definition custom_onChangeMethod :: "custom_form \<Rightarrow> custom_form" where
  "custom_onChangeMethod f = f\<lparr>xf_FileContent := []\<rparr>"

definition new_editorUpdate :: "string \<Rightarrow> custom_form \<Rightarrow> custom_form" where
  "new_editorUpdate s f = f\<lparr>xf_FileContent := s, xf_dirty := True\<rparr>"

datatype custom_request = CreateCustom creation_method custom_form | UpdateCustom nat custom_form | ControlCustom rc_request

definition createCustomTemplate ::
    "(custom_form \<Rightarrow> rc_data option) \<Rightarrow> (rc_request \<Rightarrow> bool) \<Rightarrow> custom_template list \<Rightarrow> nat \<Rightarrow> bool \<Rightarrow> custom_form \<Rightarrow>
     string + custom_request list \<times> custom_form" where
  "createCustomTemplate srv control templates userId isAdmin f =
     (let e = validateCustomForm templates isAdmin f; c = CreateCustom (custom_method (xf_Method f)) f
      in if e \<noteq> [] then Inl e
         else (case srv f of None \<Rightarrow> Inr ([c], f)
           | Some rc \<Rightarrow> (let q = applyResourceControl userId (xf_Access f) rc []
               in Inr ([c, ControlCustom q], if control q then f\<lparr>xf_dirty := False\<rparr> else f))))"

definition new_custom_asks :: "custom_form \<Rightarrow> bool" where
  "new_custom_asks f \<longleftrightarrow> xf_Method f = Editor \<and> xf_FileContent f \<noteq> [] \<and> xf_dirty f"

definition initial_custom_type :: "string \<Rightarrow> nat option \<Rightarrow> nat" where
  "initial_custom_type provider asked = (case asked of Some t \<Rightarrow> t
     | None \<Rightarrow> if provider = ''DOCKER_STANDALONE'' then 2 else if provider = ''DOCKER_SWARM_MODE'' then 1 else 0)"

definition validateEditedForm :: "custom_template list \<Rightarrow> nat \<Rightarrow> bool \<Rightarrow> custom_form \<Rightarrow> string" where
  "validateEditedForm templates i isAdmin f =
     (if xf_FileContent f = [] then ''Template file content must not be empty''
      else if \<exists>t \<in> set templates. cu_Title t = xf_Title f \<and> cu_Id t \<noteq> i
      then ''A template with the name '' @ xf_Title f @ '' already exists''
      else validateAccessControl (xf_Access f) isAdmin)"

definition submitAction ::
    "bool \<Rightarrow> (rc_request \<Rightarrow> bool) \<Rightarrow> custom_template list \<Rightarrow> nat \<Rightarrow> rc_view \<Rightarrow> nat \<Rightarrow> bool \<Rightarrow> custom_form \<Rightarrow>
     string + custom_request list \<times> custom_form" where
  "submitAction accepted control templates i rc userId isAdmin f =
     (let e = validateEditedForm templates i isAdmin f; q = applyResourceControl userId (xf_Access f) rc []
      in if e \<noteq> [] then Inl e
         else if \<not> accepted then Inr ([UpdateCustom i f], f)
         else Inr ([UpdateCustom i f, ControlCustom q], if control q then f\<lparr>xf_dirty := False\<rparr> else f))"

definition edited_editorUpdate :: "string \<Rightarrow> custom_form \<Rightarrow> custom_form" where
  "edited_editorUpdate s f =
     (if without_breaks (xf_FileContent f) \<noteq> without_breaks s then f\<lparr>xf_FileContent := s, xf_dirty := True\<rparr> else f)"

definition edited_custom_asks :: "string \<Rightarrow> custom_form \<Rightarrow> bool" where
  "edited_custom_asks oldFileContent f \<longleftrightarrow> xf_FileContent f \<noteq> oldFileContent \<and> xf_dirty f"


section \<open>Files in the order of their requests\<close>

lemma fold_binding: "tc_Binds (fold add_binding vs c) = tc_Binds c @ map (the \<circ> tv_binding) (filter (truthy_str \<circ> tv_binding) vs)"
  by (induction vs arbitrary: c) (simp_all add: add_binding_def)

definition file_of_selected :: "(nat \<Rightarrow> string) \<Rightarrow> custom_page \<Rightarrow> bool" where
  "file_of_selected files p \<longleftrightarrow> (case xp_selected p of None \<Rightarrow> True
     | Some t \<Rightarrow> xp_name p = cu_Title t \<and>
         (if xp_pending p = [] then xp_content p = files (cu_Id t) else last (xp_pending p) = cu_Id t))"

text \<open>
  Answers in the order of the requests, of which that for the selected template does not fail, and nothing is typed while
  no file is awaited.
\<close>

fun in_order :: "(nat \<Rightarrow> string) \<Rightarrow> custom_event list \<Rightarrow> custom_page \<Rightarrow> bool" where
  "in_order files [] p = True"
| "in_order files (e # es) p =
     ((case e of Answered i \<Rightarrow> i = 0 | Failed i \<Rightarrow> i = 0 \<and> (xp_selected p = None \<or> 1 < length (xp_pending p))
        | Typed s \<Rightarrow> xp_selected p = None \<or> xp_pending p \<noteq> [] | _ \<Rightarrow> True) \<and>
      in_order files es (step_custom files e p))"

lemma step_keeps_file:
  assumes "file_of_selected files p" and "in_order files [e] p"
  shows "file_of_selected files (step_custom files e p)"
proof (cases e)
  case (Answered i)
  then show ?thesis
    using assms
    by (cases "xp_pending p") (auto simp: file_of_selected_def file_answered_def remove_at_def split: option.splits)
next
  case (Failed i)
  then show ?thesis
    using assms
    by (cases "xp_pending p") (auto simp: file_of_selected_def file_failed_def remove_at_def split: option.splits)
next
  case (Typed s)
  then show ?thesis
    using assms by (auto simp: file_of_selected_def custom_editorUpdate_def split: option.splits)
qed (simp_all add: file_of_selected_def selectTemplate_def unselectTemplate_def Let_def split: option.split)

lemma steps_keep_file:
  "file_of_selected files p \<Longrightarrow> in_order files es p \<Longrightarrow> file_of_selected files (fold (step_custom files) es p)"
proof (induction es arbitrary: p)
  case (Cons e es)
  then have "file_of_selected files (step_custom files e p)" by (intro step_keeps_file) auto
  with Cons show ?case by simp
qed simp

lemma typed_last:
  "fold (step_custom files) (map Typed ss) p = p\<lparr>xp_content := last (xp_content p # ss)\<rparr>"
  by (induction ss arbitrary: p) (simp_all add: custom_editorUpdate_def)

text \<open>The request that deploys a text under the name of a custom template, after that for the swarm where there is one.\<close>

definition deployment_of :: "custom_template \<Rightarrow> string \<Rightarrow> nat \<Rightarrow> string \<Rightarrow> stack_request" where
  "deployment_of t swarm endpointId s =
     CreateStack (if cu_Type t = 1 then 1 else 2) endpointId
       \<lparr>py_Name = cu_Title t, py_SwarmID = (if cu_Type t = 1 then Some swarm else None), py_Source = Content s, py_Env = []\<rparr>"

lemma createStack_log:
  assumes "validateAccessControl access isAdmin = []" and "sr_swarm srv (sc_log c) (sc_endpoint c) = Inr swarm"
    and "xp_selected p = Some t" and "xp_name p = cu_Title t"
  shows "\<exists>controls. sc_log (snd (createStack srv endpointId userId isAdmin access p c)) =
      sc_log c @ (if cu_Type t = 1 then [GetSwarm (sc_endpoint c)] else []) @
        deployment_of t swarm endpointId (xp_content p) # controls \<and> set controls \<subseteq> range ApplyStackControl"
  using assms
  by (auto simp: createStack_def createComposeStack_def createSwarmStack_def deployment_of_def with_message_def swarm_call_def
      call_then_def stack_send_control_def stack_send_def split: sum.split prod.split)


section \<open>The container of a template\<close>

lemma bound_volumes:
  "createVolumeBindings vs pile = Inr (vs', rest) \<Longrightarrow> v \<in> set vs' \<Longrightarrow> takes_volume v \<Longrightarrow> truthy_str (tv_binding v)"
proof (induction vs pile arbitrary: vs' rest rule: createVolumeBindings.induct)
  case (2 w vs pile)
  then obtain w' pile' us where w: "bind_volume w pile = Inr (w', pile')" "createVolumeBindings vs pile' = Inr (us, rest)" "vs' = w' # us"
    by (auto elim!: and_then_InrE split: prod.splits)
  have "truthy_str (tv_binding w')" if "takes_volume w'"
    using w(1) that by (auto simp: bind_volume_def takes_volume_def Let_def split: if_splits)
  with 2 w show ?case by auto
qed simp

lemma takes_auto: "length (filter takes_volume us) \<le> length (filter (\<lambda>v. tv_type v = ''auto'') us)"
  by (induction us) (auto simp: takes_volume_def)

lemma template_binds:
  assumes "updateContainerConfigurationWithVolumes cfg t pile = Inr c" and "vs = filter takes_volume (t_Volumes t)"
    and "length vs \<le> length pile"
  shows "set (map2 auto_binding (take (length vs) (rev pile)) vs) \<subseteq> set (tc_Binds c) \<and> tc_Image c = tc_Image cfg"
proof -
  from bindings_from_pile [of "t_Volumes t" pile] assms(2,3) obtain vs' where
    b: "createVolumeBindings (t_Volumes t) pile = Inr (vs', take (length pile - length vs) pile)"
      "map (\<lambda>v. the (tv_binding v)) (filter takes_volume vs') = map2 auto_binding (take (length vs) (rev pile)) vs" by auto
  then have c: "c = fold add_binding vs' cfg" using assms(1) by (simp add: updateContainerConfigurationWithVolumes_def)
  have "tc_Image (fold add_binding us d) = tc_Image d" for us d
    by (induction us arbitrary: d) (simp_all add: add_binding_def)
  moreover have "set (map (\<lambda>v. the (tv_binding v)) (filter takes_volume vs')) \<subseteq> set (tc_Binds c)"
    using bound_volumes [OF b(1)] by (auto simp: c fold_binding)
  ultimately show ?thesis using b(2) c by simp
qed

text \<open>
  C7. The container of a template is asked for after one volume for each row of the kind auto was created and the image was
  asked for; the rows take their volumes from the last one backwards, each a volume of its own, and the access control that
  follows names all the volumes.
\<close>

theorem template_container_last:
  assumes "createContainerFromTemplate srv splitargs registries userId access name network t = Inr (l, r)"
    and "NewContainer c \<in> set l" and "vs = filter takes_volume (t_Volumes t)"
  shows "\<exists>ids rest. length ids = determineRequiredGeneratedVolumeCount (t_Volumes t) \<and>
    l = replicate (length ids) NewVolume @ TemplatePull (tc_Image c) # NewContainer c # rest \<and>
    createXAutoGeneratedLocalVolumes srv (length ids) = map Some ids \<and>
    set (map2 auto_binding (take (length vs) (rev ids)) vs) \<subseteq> set (tc_Binds c) \<and>
    (\<exists>i (rc :: rc_data). set rest \<subseteq> {StartNew i, ControlNew (applyResourceControl userId access rc ids)})"
proof -
  from assms(1) obtain cfg where cfg: "createTemplateConfiguration splitargs registries t name network = Inr cfg"
    by (cases "createTemplateConfiguration splitargs registries t name network") (simp_all add: createContainerFromTemplate_def)
  define n where "n = determineRequiredGeneratedVolumeCount (t_Volumes t)"
  define answers where "answers = createXAutoGeneratedLocalVolumes srv n"
  define ids where "ids = map the answers"
  note run = assms(1) [unfolded createContainerFromTemplate_def cfg and_then_simps Let_def n_def [symmetric] answers_def [symmetric] ids_def [symmetric]]
  have all: "None \<notin> set answers" using run assms(2) by (auto split: if_splits)
  obtain d where d: "updateContainerConfigurationWithVolumes cfg t ids = Inr d"
    using run all assms(2) by (auto split: sum.splits)
  have len: "length ids = n" by (simp add: ids_def answers_def createXAutoGeneratedLocalVolumes_def)
  have known: "answers = map Some ids"
    using all by (auto simp: ids_def comp_def intro!: map_idI [symmetric]) (metis option.collapse)
  have "length vs \<le> length ids" unfolding len n_def count_auto assms(3) by (rule takes_auto)
  note binds = template_binds [OF d assms(3) this]
  from run all d assms(2) have "c = d" by (auto split: option.splits prod.splits if_splits)
  moreover have "\<exists>rest. l = replicate n NewVolume @ TemplatePull (tc_Image cfg) # NewContainer d # rest \<and>
      (\<exists>i (rc :: rc_data). set rest \<subseteq> {StartNew i, ControlNew (applyResourceControl userId access rc ids)})"
    using run all d by (auto split: option.splits prod.splits if_splits)
  ultimately show ?thesis using binds len known n_def answers_def by metis
qed


section \<open>Two examples\<close>

definition web_template :: template_view where
  "web_template = setTemplatesV2 \<lparr>rt_Id = 1, rt_title = ''web'', rt_type = 1, rt_description = [], rt_AdministratorOnly = False,
     rt_name = None, rt_note = None, rt_categories = None, rt_platform = None, rt_logo = None, rt_repository = None,
     rt_hostname = None, rt_image = Some ''nginx:1'', rt_registry = None, rt_command = None, rt_network = None,
     rt_privileged = None, rt_interactive = None, rt_restart_policy = None, rt_labels = None, rt_hosts = None, rt_env = None,
     rt_volumes = Some [\<lparr>rv_container = Some ''/data'', rv_readonly = None, rv_bind = None\<rparr>], rt_ports = None\<rparr>"

definition web_template_server :: template_server where
  "web_template_server = \<lparr>ts_volume = \<lambda>l. Some ''v1'', ts_container = \<lambda>l c. Some (''c1'', web_control), ts_accepts = \<lambda>l r. True\<rparr>"

lemma web_template_created:
  "\<exists>l r c. createContainerFromTemplate web_template_server (\<lambda>s. []) [] 7 AccessControlFormData ''web'' (Some ''bridge'') web_template =
     Inr (l, r) \<and> NewContainer c \<in> set l"
proof -
  have m: "\<exists>m. template_model [] web_template = Inr m"
    by (simp add: template_model_def template_registry_def web_template_def setTemplatesV2_def)
  have v: "t_Volumes web_template = [template_volume_of \<lparr>rv_container = Some ''/data'', rv_readonly = None, rv_bind = None\<rparr>]"
    by (simp add: web_template_def setTemplatesV2_def templateVolumes_def)
  have b: "\<exists>vs q. createVolumeBindings (t_Volumes web_template) [''v1''] = Inr (vs, q)"
    by (simp add: v bind_volume_def template_volume_of_def Let_def)
  have n: "determineRequiredGeneratedVolumeCount (t_Volumes web_template) = 1"
    by (simp add: v determineRequiredGeneratedVolumeCount_def template_volume_of_def)
  have a: "createXAutoGeneratedLocalVolumes web_template_server 1 = [Some ''v1'']"
    by (simp add: createXAutoGeneratedLocalVolumes_def web_template_server_def)
  have t: "ts_container web_template_server = (\<lambda>l c. Some (''c1'', web_control))" "ts_accepts web_template_server = (\<lambda>l r. True)"
    by (simp_all add: web_template_server_def)
  from m b show ?thesis
    by (auto simp: createContainerFromTemplate_def createTemplateConfiguration_def Let_def n a [unfolded One_nat_def] a t
        updateContainerConfigurationWithVolumes_def)
qed

lemma template_container_last_witness:
  "\<exists>l r c. createContainerFromTemplate web_template_server (\<lambda>s. []) [] 7 AccessControlFormData ''web'' (Some ''bridge'') web_template =
     Inr (l, r) \<and> NewContainer c \<in> set l \<and> ''v1:/data'' \<in> set (tc_Binds c)"
proof -
  obtain l r c where c: "createContainerFromTemplate web_template_server (\<lambda>s. []) [] 7 AccessControlFormData ''web'' (Some ''bridge'')
     web_template = Inr (l, r)" "NewContainer c \<in> set l" using web_template_created by blast
  have v: "filter takes_volume (t_Volumes web_template) =
      [template_volume_of \<lparr>rv_container = Some ''/data'', rv_readonly = None, rv_bind = None\<rparr>]"
    "determineRequiredGeneratedVolumeCount (t_Volumes web_template) = 1"
    by (simp_all add: web_template_def setTemplatesV2_def templateVolumes_def template_volume_of_def takes_volume_def
        determineRequiredGeneratedVolumeCount_def)
  from template_container_last [OF c refl] obtain ids where ids: "length ids = 1"
    "createXAutoGeneratedLocalVolumes web_template_server (length ids) = map Some ids"
    "set (map2 auto_binding (take 1 (rev ids)) (filter takes_volume (t_Volumes web_template))) \<subseteq> set (tc_Binds c)"
    unfolding v by auto
  then have "ids = [''v1'']" by (cases ids) (auto simp: createXAutoGeneratedLocalVolumes_def web_template_server_def)
  with ids(3) have "''v1:/data'' \<in> set (tc_Binds c)" by (simp add: v auto_binding_def template_volume_of_def)
  with c show ?thesis by blast
qed


end
