(* ===== verification/EndpointPages.thy ===== *)
theory EndpointPages
  imports PortainerFilters Base64
begin

text \<open>
  The pages of endpoints: \<open>portainer/views/endpoints\<close> with the service of endpoints, the first endpoint
  (\<open>portainer/views/init/endpoint\<close>), and the component of certificates (\<open>portainer/components/endpointSecurity\<close>).
\<close>

section \<open>Endpoints\<close>

datatype endpoint_type =
    DockerEnvironment | AgentOnDockerEnvironment | AzureEnvironment | EdgeAgentOnDockerEnvironment
  | KubernetesLocalEnvironment | AgentOnKubernetesEnvironment | EdgeAgentOnKubernetesEnvironment

fun PortainerEndpointTypes :: "endpoint_type \<Rightarrow> nat" where
  "PortainerEndpointTypes DockerEnvironment = 1"
| "PortainerEndpointTypes AgentOnDockerEnvironment = 2"
| "PortainerEndpointTypes AzureEnvironment = 3"
| "PortainerEndpointTypes EdgeAgentOnDockerEnvironment = 4"
| "PortainerEndpointTypes KubernetesLocalEnvironment = 5"
| "PortainerEndpointTypes AgentOnKubernetesEnvironment = 6"
| "PortainerEndpointTypes EdgeAgentOnKubernetesEnvironment = 7"

datatype creation_type =
    LocalDockerCreation | AgentCreation | AzureCreation | EdgeAgentCreation | LocalKubernetesCreation

fun PortainerEndpointCreationTypes :: "creation_type \<Rightarrow> nat" where
  "PortainerEndpointCreationTypes LocalDockerCreation = 1"
| "PortainerEndpointCreationTypes AgentCreation = 2"
| "PortainerEndpointCreationTypes AzureCreation = 3"
| "PortainerEndpointCreationTypes EdgeAgentCreation = 4"
| "PortainerEndpointCreationTypes LocalKubernetesCreation = 5"

record tls_config =
  tl_TLS :: bool
  tl_SkipVerify :: bool
  tl_CACert :: "string option"
  tl_Cert :: "string option"
  tl_Key :: "string option"

record endpoint_data =
  ed_Id :: nat
  ed_Name :: string
  ed_Type :: endpoint_type
  ed_URL :: string
  ed_PublicURL :: string
  ed_GroupId :: nat
  ed_TagIds :: "nat list"
  ed_CheckinInterval :: nat
  ed_TLSConfig :: tls_config
  ed_Azure :: "string \<times> string \<times> string"

definition endpoint_isLocal :: "endpoint_data \<Rightarrow> bool" where
  "endpoint_isLocal e \<longleftrightarrow> contains (ed_URL e) ''unix://'' \<or> contains (ed_URL e) ''npipe://'' \<or> ed_Type e = KubernetesLocalEnvironment"

definition endpoint_isAgent :: "endpoint_type \<Rightarrow> bool" where
  "endpoint_isAgent t \<longleftrightarrow> t \<in> {AgentOnDockerEnvironment, EdgeAgentOnDockerEnvironment, AgentOnKubernetesEnvironment,
     EdgeAgentOnKubernetesEnvironment}"

section \<open>Certificates\<close>

datatype tls_mode = TlsClientCa | TlsClientNoca | TlsCa | TlsOnly

record security_form =
  sy_TLS :: bool
  sy_TLSMode :: tls_mode
  sy_TLSCACert :: "string option"
  sy_TLSCert :: "string option"
  sy_TLSKey :: "string option"

definition EndpointSecurityFormData :: security_form where
  "EndpointSecurityFormData =
     \<lparr>sy_TLS = False, sy_TLSMode = TlsClientCa, sy_TLSCACert = None, sy_TLSCert = None, sy_TLSKey = None\<rparr>"

definition opened_security :: "tls_config \<Rightarrow> security_form \<Rightarrow> security_form" where
  "opened_security c f =
     (let ca = truthy_str (tl_CACert c); cert = truthy_str (tl_Cert c); key = truthy_str (tl_Key c)
      in \<lparr>sy_TLS = tl_TLS c,
          sy_TLSMode = (if tl_TLS c then if ca \<and> cert \<and> key then TlsClientCa else if cert \<and> key then TlsClientNoca
            else if ca then TlsCa else TlsOnly else sy_TLSMode f),
          sy_TLSCACert = tl_CACert c, sy_TLSCert = tl_Cert c, sy_TLSKey = tl_Key c\<rparr>)"

definition skips_verify :: "security_form \<Rightarrow> bool" where
  "skips_verify s \<longleftrightarrow> sy_TLS s \<and> (sy_TLSMode s = TlsClientNoca \<or> sy_TLSMode s = TlsOnly)"

definition skips_client :: "security_form \<Rightarrow> bool" where
  "skips_client s \<longleftrightarrow> sy_TLS s \<and> (sy_TLSMode s = TlsCa \<or> sy_TLSMode s = TlsOnly)"

section \<open>The page of an endpoint\<close>

definition endpoint_is_local :: "string \<Rightarrow> bool" where
  "endpoint_is_local url \<longleftrightarrow> starts_with url ''unix://'' \<or> starts_with url ''npipe://''"

record endpoint_page =
  ep_local :: bool
  ep_kubernetes :: bool
  ep_edge :: bool
  ep_azure :: bool
  ep_agent :: bool
  ep_endpoint :: endpoint_data
  ep_security :: security_form

definition configureState :: "endpoint_page \<Rightarrow> endpoint_page" where
  "configureState p =
     (let t = ed_Type (ep_endpoint p) in p\<lparr>
       ep_kubernetes := (ep_kubernetes p \<or> t = KubernetesLocalEnvironment \<or> t = AgentOnKubernetesEnvironment
         \<or> t = EdgeAgentOnKubernetesEnvironment),
       ep_edge := (ep_edge p \<or> t = EdgeAgentOnDockerEnvironment \<or> t = EdgeAgentOnKubernetesEnvironment),
       ep_azure := (ep_azure p \<or> t = AzureEnvironment),
       ep_agent := (ep_agent p \<or> t = AgentOnDockerEnvironment \<or> t = EdgeAgentOnDockerEnvironment
         \<or> t = AgentOnKubernetesEnvironment \<or> t = EdgeAgentOnKubernetesEnvironment)\<rparr>)"

text \<open>The form of the certificates is shown, and filled in, for remote endpoints that are neither of these kinds.\<close>

definition shows_security :: "endpoint_page \<Rightarrow> bool" where
  "shows_security p \<longleftrightarrow> \<not> ep_local p \<and> \<not> ep_azure p \<and> \<not> ep_kubernetes p \<and> \<not> ep_edge p"

definition open_endpoint :: "endpoint_data \<Rightarrow> endpoint_page" where
  "open_endpoint e =
     (let p = configureState \<lparr>ep_local = endpoint_is_local (ed_URL e), ep_kubernetes = False, ep_edge = False, ep_azure = False,
            ep_agent = False, ep_endpoint = e\<lparr>ed_URL := stripprotocol (ed_URL e)\<rparr>, ep_security = EndpointSecurityFormData\<rparr>
      in if shows_security p then p\<lparr>ep_security := opened_security (ed_TLSConfig e) (ep_security p)\<rparr> else p)"

record endpoint_payload =
  ey_Name :: string
  ey_PublicURL :: string
  ey_GroupID :: nat
  ey_TagIds :: "nat list"
  ey_CheckinInterval :: nat
  ey_URL :: "string option"
  ey_TLS :: bool
  ey_TLSSkipVerify :: bool
  ey_TLSSkipClientVerify :: bool
  ey_TLSCACert :: "string option"
  ey_TLSCert :: "string option"
  ey_TLSKey :: "string option"
  ey_Azure :: "string \<times> string \<times> string"

definition updated_url :: "bool \<Rightarrow> endpoint_type \<Rightarrow> string \<Rightarrow> string option" where
  "updated_url isLocal t url =
     (if t = AgentOnKubernetesEnvironment \<or> t = KubernetesLocalEnvironment then Some url
      else if \<not> isLocal \<and> t \<noteq> AzureEnvironment then Some (''tcp://'' @ url) else None)"

definition endpoint_payload_of :: "endpoint_page \<Rightarrow> endpoint_payload" where
  "endpoint_payload_of p =
     (let e = ep_endpoint p; s = ep_security p; c = ed_TLSConfig e; changed = (\<lambda>old new. if new = old then None else new)
      in \<lparr>ey_Name = ed_Name e, ey_PublicURL = ed_PublicURL e, ey_GroupID = ed_GroupId e, ey_TagIds = ed_TagIds e,
          ey_CheckinInterval = ed_CheckinInterval e, ey_URL = updated_url (ep_local p) (ed_Type e) (ed_URL e),
          ey_TLS = sy_TLS s, ey_TLSSkipVerify = skips_verify s, ey_TLSSkipClientVerify = skips_client s,
          ey_TLSCACert = (if skips_verify s then None else changed (tl_CACert c) (sy_TLSCACert s)),
          ey_TLSCert = (if skips_client s then None else changed (tl_Cert c) (sy_TLSCert s)),
          ey_TLSKey = (if skips_client s then None else changed (tl_Key c) (sy_TLSKey s)), ey_Azure = ed_Azure e\<rparr>)"

datatype certificate_kind = CaFile | CertFile | KeyFile

datatype endpoint_request =
    UploadCertificate certificate_kind nat string
  | SaveEndpoint nat endpoint_payload
  | DeleteEndpoint nat

definition certificate_uploads :: "nat \<Rightarrow> endpoint_payload \<Rightarrow> endpoint_request list" where
  "certificate_uploads i y =
     (if truthy_str (ey_TLSCACert y) then [UploadCertificate CaFile i (the (ey_TLSCACert y))] else []) @
     (if truthy_str (ey_TLSCert y) then [UploadCertificate CertFile i (the (ey_TLSCert y))] else []) @
     (if truthy_str (ey_TLSKey y) then [UploadCertificate KeyFile i (the (ey_TLSKey y))] else [])"

text \<open>All files are uploaded at once; the endpoint is saved when all were accepted.\<close>

definition service_updateEndpoint :: "(endpoint_request \<Rightarrow> bool) \<Rightarrow> nat \<Rightarrow> endpoint_payload \<Rightarrow> endpoint_request list \<times> bool" where
  "service_updateEndpoint accepts i y =
     (let us = certificate_uploads i y
      in if list_all accepts us then (us @ [SaveEndpoint i y], accepts (SaveEndpoint i y)) else (us, False))"

definition updateEndpoint :: "(endpoint_request \<Rightarrow> bool) \<Rightarrow> endpoint_page \<Rightarrow> endpoint_request list \<times> bool" where
  "updateEndpoint accepts p = service_updateEndpoint accepts (ed_Id (ep_endpoint p)) (endpoint_payload_of p)"

definition endpoints_removeAction :: "(endpoint_request \<Rightarrow> bool) \<Rightarrow> endpoint_data list \<Rightarrow> endpoint_request list \<times> endpoint_data list" where
  "endpoints_removeAction accepts es =
     (map (\<lambda>e. DeleteEndpoint (ed_Id e)) es, filter (\<lambda>e. accepts (DeleteEndpoint (ed_Id e))) es)"

definition onCreateTag :: "nat option \<Rightarrow> nat list \<times> nat list \<Rightarrow> nat list \<times> nat list" where
  "onCreateTag answer tags = (case answer of Some t \<Rightarrow> (fst tags @ [t], snd tags @ [t]) | None \<Rightarrow> tags)"

definition decodeEdgeKey :: "string \<Rightarrow> (string option \<times> string option) js_result" where
  "decodeEdgeKey key =
     (if key = [] then Inr (None, None)
      else (case atob key of None \<Rightarrow> Inl (ThrownError ''InvalidCharacterError'')
        | Some bs \<Rightarrow> (let parts = split_char (CHR ''|'') (map char_of bs) in Inr (elem_at parts 0, elem_at parts 1))))"

section \<open>The commands of an edge agent\<close>

definition quoted :: "string \<Rightarrow> string" where
  "quoted s = CHR 0x27 # s @ [CHR 0x27]"

definition pipe_mount :: string where
  "pipe_mount = ''--mount type=npipe,src='' @ [CHR 0x5C, CHR 0x5C] @ ''.'' @ [CHR 0x5C] @ ''pipe'' @ [CHR 0x5C] @ ''docker_engine,dst='' @
     [CHR 0x5C, CHR 0x5C] @ ''.'' @ [CHR 0x5C] @ ''pipe'' @ [CHR 0x5C] @ ''docker_engine''"

definition windows_volumes_mount :: string where
  "windows_volumes_mount = ''--mount type=bind,src=C:'' @ [CHR 0x5C] @ ''ProgramData'' @ [CHR 0x5C] @ ''docker'' @ [CHR 0x5C] @ ''volumes,dst=C:'' @
     [CHR 0x5C] @ ''ProgramData'' @ [CHR 0x5C] @ ''docker'' @ [CHR 0x5C] @ ''volumes''"

definition windows_data_mount :: string where
  "windows_data_mount = ''--mount type=volume,src=portainer_agent_data,dst=C:'' @ [CHR 0x5C] @ ''data''"

definition edge_variables :: "string \<Rightarrow> string \<Rightarrow> string list" where
  "edge_variables edgeId edgeKey = [''-e EDGE=1'', ''-e EDGE_ID='' @ edgeId, ''-e EDGE_KEY='' @ edgeKey, ''-e CAP_HOST_MANAGEMENT=1'']"

definition linux_standalone_lines :: "string \<Rightarrow> string \<Rightarrow> string list" where
  "linux_standalone_lines edgeId edgeKey =
     [''docker run -d'', ''-v /var/run/docker.sock:/var/run/docker.sock'', ''-v /var/lib/docker/volumes:/var/lib/docker/volumes'', ''-v /:/host'',
      ''-v portainer_agent_data:/data'', ''--restart always''] @ edge_variables edgeId edgeKey @ [''--name portainer_edge_agent'', ''portainer/agent'']"

definition windows_standalone_lines :: "string \<Rightarrow> string \<Rightarrow> string list" where
  "windows_standalone_lines edgeId edgeKey =
     [''docker run -d'', pipe_mount, windows_volumes_mount, windows_data_mount, ''--restart always''] @
     edge_variables edgeId edgeKey @ [''--name portainer_edge_agent'', ''portainer/agent'']"

definition network_lines :: "string \<Rightarrow> string list" where
  "network_lines network = [''docker network create'', ''--driver overlay'', network]"

definition swarm_service_lines :: "string \<Rightarrow> string \<Rightarrow> string list \<Rightarrow> string \<Rightarrow> string \<Rightarrow> string list" where
  "swarm_service_lines network constraint mounts edgeId edgeKey =
     [''docker service create'', ''--name portainer_edge_agent'', ''--network '' @ network, ''-e AGENT_CLUSTER_ADDR=tasks.portainer_edge_agent''] @
     edge_variables edgeId edgeKey @ [''--mode global'', ''--constraint '' @ constraint] @ mounts @ [''portainer/agent'']"

definition linux_swarm_mounts :: "string list" where
  "linux_swarm_mounts = [''--mount type=bind,src=//var/run/docker.sock,dst=/var/run/docker.sock'',
     ''--mount type=bind,src=//var/lib/docker/volumes,dst=/var/lib/docker/volumes'', ''--mount type=bind,src=//,dst=/host'',
     ''--mount type=volume,src=portainer_agent_data,dst=/data'']"

definition windows_swarm_mounts :: "string list" where
  "windows_swarm_mounts = [pipe_mount, windows_volumes_mount, windows_data_mount]"

text \<open>What is shown continues each line with a backslash; what is copied is one line.\<close>

definition shown_lines :: "string list \<Rightarrow> string" where
  "shown_lines ls = join ('' '' @ [CHR 0x5C, CHR 0x0A] @ ''  '') ls"

datatype platform = LinuxPlatform | WindowsPlatform

fun shown_standalone :: "platform \<Rightarrow> string \<Rightarrow> string \<Rightarrow> string" where
  "shown_standalone LinuxPlatform i k = shown_lines (linux_standalone_lines i k)"
| "shown_standalone WindowsPlatform i k = shown_lines (windows_standalone_lines i k)"

fun shown_swarm :: "platform \<Rightarrow> string \<Rightarrow> string \<Rightarrow> string" where
  "shown_swarm LinuxPlatform i k = shown_lines (network_lines ''portainer_agent_network'') @ '';'' @ [CHR 0x0A, CHR 0x0A] @
     shown_lines (swarm_service_lines ''portainer_agent_network'' (quoted ''node.platform.os == linux'') linux_swarm_mounts i k)"
| "shown_swarm WindowsPlatform i k = shown_lines (network_lines ''portainer_edge_agent_network'') @ '' && '' @ [CHR 0x5C, CHR 0x0A] @
     shown_lines (swarm_service_lines ''portainer_edge_agent_network'' ''node.platform.os==windows'' windows_swarm_mounts i k)"

definition shown_kubernetes :: "string \<Rightarrow> string \<Rightarrow> string" where
  "shown_kubernetes i k =
     ''curl https://downloads.portainer.io/portainer-edge-agent-setup.sh | sudo bash -s -- '' @ i @ '' '' @ k"

text \<open>
  The commands that are copied are written out apart from the ones that are shown; in the texts here a caret stands for a
  backslash.
\<close>

definition with_backslashes :: "string \<Rightarrow> string" where
  "with_backslashes s = map (\<lambda>c. if c = CHR ''^'' then CHR 0x5C else c) s"

definition copied_linux_standalone :: "string \<Rightarrow> string \<Rightarrow> string" where
  "copied_linux_standalone i k =
     ''docker run -d -v /var/run/docker.sock:/var/run/docker.sock -v /var/lib/docker/volumes:/var/lib/docker/volumes -v /:/host -v portainer_agent_data:/data --restart always -e EDGE=1 -e EDGE_ID='' @ i @
     '' -e EDGE_KEY='' @ k @ '' -e CAP_HOST_MANAGEMENT=1 --name portainer_edge_agent portainer/agent''"

definition copied_windows_standalone :: "string \<Rightarrow> string \<Rightarrow> string" where
  "copied_windows_standalone i k =
     with_backslashes ''docker run -d --mount type=npipe,src=^^.^pipe^docker_engine,dst=^^.^pipe^docker_engine --mount type=bind,src=C:^ProgramData^docker^volumes,dst=C:^ProgramData^docker^volumes --mount type=volume,src=portainer_agent_data,dst=C:^data -e EDGE=1 -e EDGE_ID='' @ i @
     '' -e EDGE_KEY='' @ k @ '' -e CAP_HOST_MANAGEMENT=1 --name portainer_edge_agent portainer/agent''"

definition copied_linux_swarm :: "string \<Rightarrow> string \<Rightarrow> string" where
  "copied_linux_swarm i k =
     ''docker network create --driver overlay portainer_agent_network; docker service create --name portainer_edge_agent --network portainer_agent_network -e AGENT_CLUSTER_ADDR=tasks.portainer_edge_agent -e EDGE=1 -e EDGE_ID='' @ i @
     '' -e EDGE_KEY='' @ k @ '' -e CAP_HOST_MANAGEMENT=1 --mode global --constraint '' @ quoted ''node.platform.os == linux'' @
     '' --mount type=bind,src=//var/run/docker.sock,dst=/var/run/docker.sock --mount type=bind,src=//var/lib/docker/volumes,dst=/var/lib/docker/volumes --mount type=bind,src=//,dst=/host --mount type=volume,src=portainer_agent_data,dst=/data portainer/agent''"

definition copied_windows_swarm :: "string \<Rightarrow> string \<Rightarrow> string" where
  "copied_windows_swarm i k =
     ''docker network create --driver overlay portainer_edge_agent_network && docker service create --name portainer_edge_agent --network portainer_edge_agent_network -e AGENT_CLUSTER_ADDR=tasks.portainer_edge_agent -e EDGE=1 -e EDGE_ID='' @ i @
     '' -e EDGE_KEY='' @ k @ with_backslashes '' -e CAP_HOST_MANAGEMENT=1 --mode global --constraint node.platform.os==windows --mount type=npipe,src=^^.^pipe^docker_engine,dst=^^.^pipe^docker_engine --mount type=bind,src=C:^ProgramData^docker^volumes,dst=C:^ProgramData^docker^volumes --mount type=volume,src=portainer_agent_data,dst=C:^data portainer/agent''"

text \<open>The tab of a swarm is 1, of a single engine 2; on any other the script for Kubernetes is copied.\<close>

definition copied_command :: "nat \<Rightarrow> platform \<Rightarrow> string \<Rightarrow> string \<Rightarrow> string" where
  "copied_command tab platform i k =
     (if tab = 2 \<and> platform = LinuxPlatform then copied_linux_standalone i k
      else if tab = 2 \<and> platform = WindowsPlatform then copied_windows_standalone i k
      else if tab = 1 \<and> platform = LinuxPlatform then copied_linux_swarm i k
      else if tab = 1 \<and> platform = WindowsPlatform then copied_windows_swarm i k
      else ''curl https://downloads.portainer.io/portainer-edge-agent-setup.sh | bash -s -- '' @ i @ '' '' @ k)"

section \<open>New endpoints\<close>

record new_endpoint =
  ne_Name :: string
  ne_URL :: string
  ne_PublicURL :: string
  ne_GroupId :: nat
  ne_TagIds :: "nat list"
  ne_Security :: security_form
  ne_ConnectSocket :: bool
  ne_SocketPath :: string
  ne_CheckinInterval :: nat
  ne_Azure :: "string \<times> string \<times> string"

record endpoint_creation =
  ec_Name :: string
  ec_Type :: creation_type
  ec_URL :: string
  ec_PublicURL :: string
  ec_GroupID :: nat
  ec_TagIds :: "nat list"
  ec_TLS :: bool
  ec_TLSSkipVerify :: bool
  ec_TLSSkipClientVerify :: bool
  ec_TLSCAFile :: "string option"
  ec_TLSCertFile :: "string option"
  ec_TLSKeyFile :: "string option"
  ec_CheckinInterval :: "nat option"

definition plain_creation :: "string \<Rightarrow> creation_type \<Rightarrow> string \<Rightarrow> string \<Rightarrow> nat \<Rightarrow> nat list \<Rightarrow> bool \<Rightarrow> endpoint_creation" where
  "plain_creation name t url publicURL groupId tagIds tls =
     \<lparr>ec_Name = name, ec_Type = t, ec_URL = url, ec_PublicURL = publicURL, ec_GroupID = groupId, ec_TagIds = tagIds, ec_TLS = tls,
      ec_TLSSkipVerify = tls, ec_TLSSkipClientVerify = tls, ec_TLSCAFile = None, ec_TLSCertFile = None, ec_TLSKeyFile = None,
      ec_CheckinInterval = None\<rparr>"

definition createLocalEndpoint :: "string \<Rightarrow> string \<Rightarrow> string \<Rightarrow> nat \<Rightarrow> nat list \<Rightarrow> endpoint_creation" where
  "createLocalEndpoint name url publicURL groupId tagIds = plain_creation name LocalDockerCreation
     (if url \<noteq> [] then (if starts_with url ''//./pipe/'' then ''npipe://'' @ url else ''unix://'' @ url) else url) publicURL groupId tagIds False"

definition createRemoteEndpoint :: "endpoint_creation \<Rightarrow> endpoint_creation" where
  "createRemoteEndpoint c = (if ec_Type c \<noteq> EdgeAgentCreation then c\<lparr>ec_URL := ''tcp://'' @ ec_URL c\<rparr> else c)"

definition createLocalKubernetesEndpoint :: "string \<Rightarrow> endpoint_creation" where
  "createLocalKubernetesEndpoint name = plain_creation name LocalKubernetesCreation [] [] 1 [] True"

definition host_of :: "string \<Rightarrow> string" where
  "host_of url = hd (split_char (CHR '':'') url)"

definition addDockerEndpoint :: "new_endpoint \<Rightarrow> endpoint_creation" where
  "addDockerEndpoint f =
     (let url = stripprotocol (ne_URL f); s = ne_Security f
      in if ne_ConnectSocket f then createLocalEndpoint (ne_Name f) (ne_SocketPath f) (ne_PublicURL f) (ne_GroupId f) (ne_TagIds f)
         else createRemoteEndpoint (plain_creation (ne_Name f) LocalDockerCreation url
           (if ne_PublicURL f = [] then host_of url else ne_PublicURL f) (ne_GroupId f) (ne_TagIds f) False)
           \<lparr>ec_TLS := sy_TLS s, ec_TLSSkipVerify := skips_verify s, ec_TLSSkipClientVerify := skips_client s,
            ec_TLSCAFile := (if skips_verify s then None else sy_TLSCACert s),
            ec_TLSCertFile := (if skips_client s then None else sy_TLSCert s),
            ec_TLSKeyFile := (if skips_client s then None else sy_TLSKey s)\<rparr>)"

text \<open>The protocol is not taken off the address of an agent.\<close>

definition addAgentEndpoint :: "new_endpoint \<Rightarrow> endpoint_creation" where
  "addAgentEndpoint f = createRemoteEndpoint (plain_creation (ne_Name f) AgentCreation (ne_URL f)
     (if ne_PublicURL f = [] then host_of (ne_URL f) else ne_PublicURL f) (ne_GroupId f) (ne_TagIds f) True)"

definition addEdgeAgentEndpoint :: "new_endpoint \<Rightarrow> endpoint_creation" where
  "addEdgeAgentEndpoint f = createRemoteEndpoint (plain_creation (ne_Name f) EdgeAgentCreation (ne_URL f) [] (ne_GroupId f) (ne_TagIds f) False)
     \<lparr>ec_CheckinInterval := Some (ne_CheckinInterval f)\<rparr>"

text \<open>The page that is opened after a creation.\<close>

datatype endpoint_route = ListRoute | EndpointRoute nat | KubernetesConfigRoute nat | HomeRoute

definition created_route :: "endpoint_type \<Rightarrow> nat \<Rightarrow> endpoint_route" where
  "created_route t i = (case t of
       EdgeAgentOnDockerEnvironment \<Rightarrow> EndpointRoute i
     | EdgeAgentOnKubernetesEnvironment \<Rightarrow> EndpointRoute i
     | AgentOnKubernetesEnvironment \<Rightarrow> KubernetesConfigRoute i
     | _ \<Rightarrow> ListRoute)"

datatype connection_type = DockerLocal | KubernetesLocal | RemoteConnection | AzureConnection | AgentConnection | EdgeConnection

definition isConnectButtonDisabled :: "connection_type \<Rightarrow> bool \<Rightarrow> string \<Rightarrow> string \<Rightarrow> bool option" where
  "isConnectButtonDisabled t actionInProgress name url = (case t of
       DockerLocal \<Rightarrow> Some actionInProgress
     | KubernetesLocal \<Rightarrow> Some actionInProgress
     | AgentConnection \<Rightarrow> Some (actionInProgress \<or> name = [] \<or> url = [])
     | _ \<Rightarrow> None)"

definition init_createEndpoint :: "connection_type \<Rightarrow> string \<Rightarrow> string \<Rightarrow> string + endpoint_creation" where
  "init_createEndpoint t name url = (case t of
       DockerLocal \<Rightarrow> Inr (createLocalEndpoint ''local'' [] [] 1 [])
     | KubernetesLocal \<Rightarrow> Inr (createLocalKubernetesEndpoint ''local'')
     | AgentConnection \<Rightarrow> Inr (createRemoteEndpoint (plain_creation name AgentCreation url (host_of url) 1 [] True))
     | _ \<Rightarrow> Inl ''Unable to determine which action to do to create endpoint'')"

definition init_route :: "connection_type \<Rightarrow> endpoint_type \<Rightarrow> nat \<Rightarrow> endpoint_route" where
  "init_route c t i = (if c = KubernetesLocal \<or> (c = AgentConnection \<and> t = AgentOnKubernetesEnvironment)
     then KubernetesConfigRoute i else HomeRoute)"

section \<open>An endpoint that is saved unchanged\<close>

lemma strip_tcp: "stripprotocol (''tcp://'' @ h) = stripprotocol h"
proof -
  have "find_sub (''tcp://'' @ h) ''://'' = Some 3" by (simp add: find_sub_Cons eval_nat_numeral)
  then show ?thesis by (subst stripprotocol.simps) (simp add: keep_lines_def is_line_end_def eval_nat_numeral)
qed

lemma no_uploads: "certificate_uploads i (endpoint_payload_of (open_endpoint e)) = []"
  by (auto simp: certificate_uploads_def endpoint_payload_of_def open_endpoint_def opened_security_def EndpointSecurityFormData_def
      configureState_def Let_def)

text \<open>
  C35. Opening the page of a remote Docker endpoint and saving it uploads no certificate and sends its name, group, tags,
  public address, interval and whether it uses TLS as they are. What is verified is made of the certificates alone: the flag
  that skips the verification of the server is kept exactly when it was set just for TLS without an authority - it is turned
  off where there is one, and on where there is none - and the client is not verified exactly when it lacks a certificate or a
  key. The address is kept exactly when it is one of TCP with no further protocol in it, any other protocol is replaced.
\<close>

theorem unchanged_endpoint_saved:
  assumes "ed_Type e = DockerEnvironment \<or> ed_Type e = AgentOnDockerEnvironment" and "\<not> endpoint_is_local (ed_URL e)"
    and "c = ed_TLSConfig e"
  shows "\<exists>y. fst (updateEndpoint accepts (open_endpoint e)) = [SaveEndpoint (ed_Id e) y] \<and>
    ey_Name y = ed_Name e \<and> ey_PublicURL y = ed_PublicURL e \<and> ey_GroupID y = ed_GroupId e \<and> ey_TagIds y = ed_TagIds e \<and>
    ey_CheckinInterval y = ed_CheckinInterval e \<and> ey_Azure y = ed_Azure e \<and>
    (ey_URL y = Some (ed_URL e) \<longleftrightarrow> (\<exists>h. ed_URL e = ''tcp://'' @ h \<and> stripprotocol h = h)) \<and>
    ey_TLS y = tl_TLS c \<and>
    (ey_TLSSkipVerify y = tl_SkipVerify c \<longleftrightarrow> (tl_SkipVerify c \<longleftrightarrow> tl_TLS c \<and> \<not> truthy_str (tl_CACert c))) \<and>
    (ey_TLSSkipClientVerify y \<longleftrightarrow> tl_TLS c \<and> \<not> (truthy_str (tl_Cert c) \<and> truthy_str (tl_Key c))) \<and>
    ey_TLSCACert y = None \<and> ey_TLSCert y = None \<and> ey_TLSKey y = None"
proof -
  let ?p = "open_endpoint e"
  have s: "ep_security ?p = opened_security (ed_TLSConfig e) EndpointSecurityFormData" "\<not> ep_local ?p"
    "ed_Type (ep_endpoint ?p) = ed_Type e" "ed_URL (ep_endpoint ?p) = stripprotocol (ed_URL e)" "ed_Id (ep_endpoint ?p) = ed_Id e"
    using assms by (auto simp: open_endpoint_def configureState_def shows_security_def Let_def)
  have "fst (updateEndpoint accepts ?p) = [SaveEndpoint (ed_Id e) (endpoint_payload_of ?p)]"
    by (simp add: updateEndpoint_def service_updateEndpoint_def no_uploads s(5))
  moreover have "ey_URL (endpoint_payload_of ?p) = Some (''tcp://'' @ stripprotocol (ed_URL e))"
    using assms(1) s by (auto simp: endpoint_payload_of_def updated_url_def Let_def)
  moreover have "''tcp://'' @ stripprotocol (ed_URL e) = ed_URL e \<longleftrightarrow> (\<exists>h. ed_URL e = ''tcp://'' @ h \<and> stripprotocol h = h)"
    by (metis same_append_eq strip_tcp)
  moreover have "ey_TLS (endpoint_payload_of ?p) = tl_TLS (ed_TLSConfig e)"
    by (simp add: endpoint_payload_of_def s(1) opened_security_def Let_def)
  moreover have "skips_verify (ep_security ?p) \<longleftrightarrow> tl_TLS c \<and> \<not> truthy_str (tl_CACert c)"
    "skips_client (ep_security ?p) \<longleftrightarrow> tl_TLS c \<and> \<not> (truthy_str (tl_Cert c) \<and> truthy_str (tl_Key c))"
    by (auto simp: s(1) assms(3) skips_verify_def skips_client_def opened_security_def Let_def)
  moreover have "ed_Name (ep_endpoint ?p) = ed_Name e" "ed_PublicURL (ep_endpoint ?p) = ed_PublicURL e"
    "ed_GroupId (ep_endpoint ?p) = ed_GroupId e" "ed_TagIds (ep_endpoint ?p) = ed_TagIds e"
    "ed_CheckinInterval (ep_endpoint ?p) = ed_CheckinInterval e" "ed_Azure (ep_endpoint ?p) = ed_Azure e"
    "ed_TLSConfig (ep_endpoint ?p) = ed_TLSConfig e"
    by (simp_all add: open_endpoint_def configureState_def Let_def)
  ultimately show ?thesis by (auto simp: endpoint_payload_of_def Let_def assms(3) s(1) opened_security_def)
qed

definition web_endpoint :: endpoint_data where
  "web_endpoint = \<lparr>ed_Id = 3, ed_Name = ''web'', ed_Type = DockerEnvironment, ed_URL = ''https://web:2376'', ed_PublicURL = [],
     ed_GroupId = 1, ed_TagIds = [], ed_CheckinInterval = 0,
     ed_TLSConfig = \<lparr>tl_TLS = True, tl_SkipVerify = True, tl_CACert = Some ''ca.pem'', tl_Cert = None, tl_Key = None\<rparr>, ed_Azure = ([], [], [])\<rparr>"

text \<open>An endpoint with an authority whose verification is skipped nevertheless, as the flags of the server can make one.\<close>

theorem unchanged_endpoint_saved_witness:
  "\<exists>y. fst (updateEndpoint (\<lambda>r. True) (open_endpoint web_endpoint)) = [SaveEndpoint 3 y] \<and> ey_URL y \<noteq> Some ''https://web:2376'' \<and>
     \<not> ey_TLSSkipVerify y"
proof -
  have "ed_Type web_endpoint = DockerEnvironment \<or> ed_Type web_endpoint = AgentOnDockerEnvironment"
    "\<not> endpoint_is_local (ed_URL web_endpoint)" by (simp_all add: web_endpoint_def endpoint_is_local_def)
  from unchanged_endpoint_saved [OF this refl, of "\<lambda>r. True"] show ?thesis
    by (auto simp: web_endpoint_def truthy_str_def)
qed

section \<open>The command that is copied\<close>

text \<open>The words of a command line: a backslash before the end of a line continues it, blanks separate words.\<close>

fun drop_breaks :: "string \<Rightarrow> string" where
  "drop_breaks [] = []"
| "drop_breaks [c] = [c]"
| "drop_breaks (c # d # s) = (if c = CHR 0x5C \<and> d = CHR 0x0A then drop_breaks s else c # drop_breaks (d # s))"

definition shell_words :: "string \<Rightarrow> string list" where
  "shell_words s = filter (\<lambda>w. w \<noteq> []) (split_char (CHR '' '') (map (\<lambda>c. if c = CHR 0x0A then CHR '' '' else c) (drop_breaks s)))"

lemma drop_breaks_append: "a = [] \<or> last a \<noteq> CHR 0x5C \<Longrightarrow> drop_breaks (a @ b) = drop_breaks a @ drop_breaks b"
proof (induction a rule: drop_breaks.induct)
  case (2 c)
  then show ?case by (cases b) auto
next
  case (3 c d s)
  then show ?case by (cases s) auto
qed simp

lemma drop_breaks_space: "drop_breaks (a @ [CHR '' '']) = drop_breaks a @ [CHR '' '']"
  by (induction a rule: drop_breaks.induct) auto

lemma split_blank: "split_char c (a @ c # b) = split_char c a @ split_char c b"
proof (induction a)
  case (Cons x a)
  then show ?case by (cases "split_char c a") auto
qed simp

lemma shell_words_space: "shell_words (a @ CHR '' '' # b) = shell_words a @ shell_words b"
proof -
  have "drop_breaks (a @ CHR '' '' # b) = drop_breaks a @ CHR '' '' # drop_breaks b"
    using drop_breaks_append [of "a @ [CHR '' '']" b] drop_breaks_space [of a] by simp
  then show ?thesis by (simp add: shell_words_def split_blank)
qed

lemma shell_words_line: "a = [] \<or> last a \<noteq> CHR 0x5C \<Longrightarrow> shell_words (a @ CHR 0x0A # b) = shell_words a @ shell_words b"
proof -
  assume a: "a = [] \<or> last a \<noteq> CHR 0x5C"
  have "drop_breaks (CHR 0x0A # b) = CHR 0x0A # drop_breaks b" by (cases b) simp_all
  with drop_breaks_append [OF a, of "CHR 0x0A # b"] show ?thesis by (simp add: shell_words_def split_blank)
qed

lemma shell_words_continued: "shell_words (CHR 0x5C # CHR 0x0A # b) = shell_words b"
  by (simp add: shell_words_def)

lemma shell_words_Nil [simp]: "shell_words [] = []"
  by (simp add: shell_words_def)

lemma shell_words_space_first: "shell_words (CHR '' '' # b) = shell_words b"
  using shell_words_space [of "[]" b] by simp

lemma shown_words: "shell_words (shown_lines ls) = concat (map shell_words ls)"
proof (induction "'' '' @ [CHR 0x5C, CHR 0x0A] @ ''  ''" ls rule: join.induct)
  case (3 w v ws)
  then show ?case
    by (simp add: shown_lines_def shell_words_space shell_words_continued shell_words_space_first)
qed (simp_all add: shown_lines_def)

lemma joined_words: "shell_words (join '' '' ls) = concat (map shell_words ls)"
  by (induction "'' ''" ls rule: join.induct) (simp_all add: shell_words_space)

text \<open>The lines of what is shown, joined by blanks.\<close>

lemma copied_joined:
  "copied_linux_standalone i k = join '' '' (linux_standalone_lines i k)"
  "copied_linux_swarm i k = join '' '' (network_lines ''portainer_agent_network'') @ ''; '' @ join '' ''
     (swarm_service_lines ''portainer_agent_network'' (quoted ''node.platform.os == linux'') linux_swarm_mounts i k)"
  "copied_windows_swarm i k = join '' '' (network_lines ''portainer_edge_agent_network'') @ '' && '' @ join '' ''
     (swarm_service_lines ''portainer_edge_agent_network'' ''node.platform.os==windows'' windows_swarm_mounts i k)"
  "copied_windows_standalone i k = join '' '' ([''docker run -d'', pipe_mount, windows_volumes_mount, windows_data_mount] @
     edge_variables i k @ [''--name portainer_edge_agent'', ''portainer/agent''])"
  by (simp_all add: copied_linux_standalone_def copied_linux_swarm_def copied_windows_swarm_def copied_windows_standalone_def
      linux_standalone_lines_def edge_variables_def network_lines_def swarm_service_lines_def linux_swarm_mounts_def
      windows_swarm_mounts_def pipe_mount_def windows_volumes_mount_def windows_data_mount_def with_backslashes_def quoted_def)

lemma ended_words:
  "shell_words (join '' '' (network_lines n) @ [CHR '';'']) = shell_words (shown_lines (network_lines n) @ [CHR '';''])"
  using shown_words [of "network_lines (n @ [CHR '';''])"] joined_words [of "network_lines (n @ [CHR '';''])"]
  by (simp add: network_lines_def shown_lines_def)

lemma linux_words:
  assumes "shell_words c = shell_words d"
  shows "shell_words (join '' '' (network_lines n) @ '';'' @ '' '' @ c) =
    shell_words (shown_lines (network_lines n) @ '';'' @ [CHR 0x0A, CHR 0x0A] @ d)"
proof -
  have "shell_words ((shown_lines (network_lines n) @ [CHR '';'']) @ CHR 0x0A # CHR 0x0A # d) =
      shell_words (shown_lines (network_lines n) @ [CHR '';'']) @ shell_words (CHR 0x0A # d)"
    by (rule shell_words_line) simp
  moreover have "shell_words (CHR 0x0A # d) = shell_words d" using shell_words_line [of "[]" d] by simp
  moreover have "shell_words ((join '' '' (network_lines n) @ [CHR '';'']) @ CHR '' '' # c) =
      shell_words (join '' '' (network_lines n) @ [CHR '';'']) @ shell_words c" by (rule shell_words_space)
  ultimately show ?thesis using assms ended_words [of n] by simp
qed

lemma windows_words:
  assumes "shell_words c = shell_words d"
  shows "shell_words (join '' '' (network_lines n) @ '' && '' @ c) =
    shell_words (shown_lines (network_lines n) @ '' && '' @ [CHR 0x5C, CHR 0x0A] @ d)"
proof -
  have "shell_words (x @ '' && '' @ e) = shell_words x @ shell_words ''&&'' @ shell_words e" for x e
    using shell_words_space [of x "''&& '' @ e"] shell_words_space [of "''&&'' :: string" e] by simp
  then show ?thesis using assms by (simp add: shown_words joined_words shell_words_continued)
qed

lemma same_words:
  "shell_words (copied_linux_standalone i k) = shell_words (shown_standalone LinuxPlatform i k)"
  "shell_words (copied_linux_swarm i k) = shell_words (shown_swarm LinuxPlatform i k)"
  "shell_words (copied_windows_swarm i k) = shell_words (shown_swarm WindowsPlatform i k)"
  unfolding copied_joined
  by (simp_all add: linux_words [simplified] windows_words [simplified] shown_words joined_words)

text \<open>
  C36. For a swarm, and for a single engine on Linux, the command that is copied has the words of the one that is shown. For a
  single engine on Windows the one that is copied lacks the flag that starts the agent again, and for Kubernetes it runs the
  script without the rights of the administrator that the one that is shown asks for.
\<close>

theorem copied_command_runs_as_shown:
  "shell_words (copied_command 1 platform i k) = shell_words (shown_swarm platform i k) \<and>
   shell_words (copied_command 2 LinuxPlatform i k) = shell_words (shown_standalone LinuxPlatform i k) \<and>
   (\<exists>a b. shell_words (copied_command 2 WindowsPlatform i k) = a @ b \<and>
     shell_words (shown_standalone WindowsPlatform i k) = a @ [''--restart'', ''always''] @ b \<and>
     b \<noteq> [] \<and> a \<noteq> []) \<and>
   (\<exists>a b. shell_words (copied_command 0 LinuxPlatform i k) = a @ b \<and>
     shell_words (shown_kubernetes i k) = a @ [''sudo''] @ b \<and> hd b = ''bash'' \<and> hd a = ''curl'')"
proof (intro conjI)
  show "shell_words (copied_command 1 platform i k) = shell_words (shown_swarm platform i k)"
    by (cases platform) (simp_all only: copied_command_def same_words platform.distinct simp_thms if_True if_False one_eq_numeral_iff
        num.distinct)
  show "shell_words (copied_command 2 LinuxPlatform i k) = shell_words (shown_standalone LinuxPlatform i k)"
    by (simp only: copied_command_def same_words simp_thms if_True)
  let ?a = "concat (map shell_words [''docker run -d'', pipe_mount, windows_volumes_mount, windows_data_mount])"
  let ?b = "concat (map shell_words (edge_variables i k @ [''--name portainer_edge_agent'', ''portainer/agent'']))"
  have r: "shell_words ''--restart always'' = [''--restart'', ''always'']" by code_simp
  have e: "shell_words ''portainer/agent'' \<noteq> []" "shell_words ''docker run -d'' \<noteq> []" by code_simp+
  have "shell_words (copied_command 2 WindowsPlatform i k) = ?a @ ?b"
    by (simp only: copied_command_def copied_joined joined_words platform.distinct simp_thms if_True if_False) simp
  moreover have "shell_words (shown_standalone WindowsPlatform i k) = ?a @ [''--restart'', ''always''] @ ?b"
    using shown_words [of "windows_standalone_lines i k"] by (simp add: windows_standalone_lines_def r)
  ultimately show "\<exists>a b. shell_words (copied_command 2 WindowsPlatform i k) = a @ b \<and>
     shell_words (shown_standalone WindowsPlatform i k) = a @ [''--restart'', ''always''] @ b \<and> b \<noteq> [] \<and> a \<noteq> []"
    using e by (intro exI [of _ ?a] exI [of _ ?b]) simp
  let ?c = "''curl https://downloads.portainer.io/portainer-edge-agent-setup.sh |''" and ?d = "''bash -s --'' @ CHR '' '' # i @ CHR '' '' # k"
  have c: "shell_words ?c = [''curl'', ''https://downloads.portainer.io/portainer-edge-agent-setup.sh'', ''|'']"
    and s: "shell_words ''sudo'' = [''sudo'']" and d: "shell_words ''bash -s --'' = [''bash'', ''-s'', ''--'']" by code_simp+
  have "shell_words (copied_command 0 LinuxPlatform i k) = shell_words ?c @ shell_words ?d"
    using shell_words_space [of ?c ?d] by (simp add: copied_command_def)
  moreover have "shell_words (shown_kubernetes i k) = shell_words ?c @ [''sudo''] @ shell_words ?d"
    using shell_words_space [of ?c "''sudo'' @ CHR '' '' # ?d"] shell_words_space [of "''sudo''" ?d] s by (simp add: shown_kubernetes_def)
  moreover have "hd (shell_words ?d) = ''bash''" using shell_words_space [of "''bash -s --''" "i @ CHR '' '' # k"] d by simp
  moreover have "hd (shell_words ?c) = ''curl''" by (simp only: c list.sel)
  ultimately show "\<exists>a b. shell_words (copied_command 0 LinuxPlatform i k) = a @ b \<and>
     shell_words (shown_kubernetes i k) = a @ [''sudo''] @ b \<and> hd b = ''bash'' \<and> hd a = ''curl''"
    by (intro exI [of _ "shell_words ?c"] exI [of _ "shell_words ?d"]) simp
qed

end
