(* ===== verification/KubeAppReading.thy ===== *)
theory KubeAppReading
  imports KubeAppPage KubeConverters
begin

text \<open>
  Applications as they are read from the cluster: \<open>kubernetes/converters/application.js\<close>, from what the API answers for a
  workload and its service to the application of the pages, and from the application to the form in which it is edited.
  The package that reads sizes is a parameter.
\<close>

section \<open>What the API answers\<close>

record api_container =
  aj_image :: string
  aj_env :: "env_entry list option"
  aj_ports :: "container_port list option"
  aj_limits :: "container_requests option"
  aj_requests :: "container_requests option"
  aj_mounts :: "volume_mount list option"

text \<open>\<open>aw_templated\<close> tells a workload with a template of pods from a single pod, which has the same fields itself.\<close>

record api_workload =
  aw_uid :: string
  aw_name :: string
  aw_namespace :: string
  aw_creation :: string
  aw_labels :: "string obj option"
  aw_annotations :: "string obj option"
  aw_templated :: bool
  aw_containers :: "api_container list"
  aw_initContainers :: "api_container list"
  aw_pullSecrets :: "string list"
  aw_volumes :: "app_volume list option"
  aw_matchLabels :: "string obj option"
  aw_claimTemplates :: "string list option"
  aw_replicas :: "nat option"
  aw_serviceName :: "string option"
  aw_available :: "nat option"
  aw_wanted :: "nat option"
  aw_unavailable :: "nat option"

record api_service =
  ax_type :: service_type
  ax_uid :: string
  ax_name :: string
  ax_ports :: "api_port list"
  ax_ingress :: "(string option \<times> string option) list option"

section \<open>The application\<close>

record bound_service =
  bs_Type :: service_type
  bs_Id :: string
  bs_Name :: string
  bs_LoadBalancerIPAddress :: "string option"
  bs_PublishedPorts :: "app_port list"

record application =
  ka_Id :: string
  ka_Name :: string
  ka_StackName :: string
  ka_ApplicationOwner :: string
  ka_Note :: string
  ka_ApplicationName :: string
  ka_ResourcePool :: string
  ka_Image :: "string option"
  ka_RegistryId :: "jsnum option"
  ka_CreationDate :: string
  ka_Env :: "env_entry list"
  ka_Limits :: reservation
  ka_Requests :: reservation
  ka_Service :: "bound_service option"
  ka_Volumes :: "app_volume list"
  ka_PersistedFolders :: "persisted_folder list"
  ka_ConfigurationVolumes :: "config_volume list"
  ka_Type :: application_type
  ka_DeploymentType :: "deployment_type option"
  ka_DataAccessPolicy :: "data_access option"
  ka_RunningPodsCount :: int
  ka_TotalPodsCount :: "nat option"
  ka_HeadlessServiceName :: "string option"

definition app_label :: "string \<Rightarrow> string" where
  "app_label k = ''io.portainer.kubernetes.application.'' @ k"

definition label_or :: "string obj option \<Rightarrow> string \<Rightarrow> string \<Rightarrow> string" where
  "label_or labels k d = (case labels of None \<Rightarrow> d | Some ls \<Rightarrow> or_str (obj_get ls k) d)"

text \<open>The identifier of the registry is read from the name of its secret, and may be NaN.\<close>

definition registry_id :: "api_workload \<Rightarrow> jsnum option" where
  "registry_id w = (if aw_templated w \<and> aw_pullSecrets w \<noteq> []
     then Some (parse_int (replace_first ''registry-'' [] (hd (aw_pullSecrets w)))) else None)"

definition workload_containers :: "api_workload \<Rightarrow> api_container list" where
  "workload_containers w = (if aw_templated w then aw_containers w @ aw_initContainers w else aw_containers w)"

definition present :: "'a list option list \<Rightarrow> 'a list" where
  "present xss = concat (without_undefined xss)"

definition load_balancer_address :: "api_service \<Rightarrow> string option" where
  "load_balancer_address s = (if ax_type s = LOAD_BALANCER then (case ax_ingress s of
       Some ((ip, hostname) # is) \<Rightarrow> (if truthy_str ip then ip else hostname)
     | _ \<Rightarrow> None) else None)"

definition bound_service_of :: "container_port list \<Rightarrow> ingress list \<Rightarrow> api_service \<Rightarrow> bound_service" where
  "bound_service_of refs ingresses s =
     \<lparr>bs_Type = ax_type s, bs_Id = ax_uid s, bs_Name = ax_name s, bs_LoadBalancerIPAddress = load_balancer_address s,
      bs_PublishedPorts = application_ports (ax_ports s) refs ingresses (ax_name s)\<rparr>"

text \<open>The volumes of a workload, with one for each claim template that none of them refers to.\<close>

definition read_volumes :: "api_workload \<Rightarrow> app_volume list" where
  "read_volumes w = (let vs = (case aw_volumes w of None \<Rightarrow> [] | Some vs \<Rightarrow> vs)
     in case aw_claimTemplates w of None \<Rightarrow> vs | Some ts \<Rightarrow> volumes_with_templates vs ts)"

definition applicationCommon ::
    "(string \<Rightarrow> rat option) \<Rightarrow> application_type \<Rightarrow> api_workload \<Rightarrow> api_service option \<Rightarrow> ingress list \<Rightarrow> application" where
  "applicationCommon fsize type w service ingresses =
     (let cs = workload_containers w; mounts = present (map aj_mounts cs); vs = read_volumes w
      in \<lparr>ka_Id = aw_uid w, ka_Name = aw_name w, ka_StackName = label_or (aw_labels w) (app_label ''stack'') ''-'',
          ka_ApplicationOwner = label_or (aw_labels w) (app_label ''owner'') [],
          ka_Note = label_or (aw_annotations w) (app_label ''note'') [],
          ka_ApplicationName = label_or (aw_labels w) (app_label ''name'') (aw_name w), ka_ResourcePool = aw_namespace w,
          ka_Image = (case cs of [] \<Rightarrow> None | c # _ \<Rightarrow> Some (aj_image c)), ka_RegistryId = registry_id w,
          ka_CreationDate = aw_creation w, ka_Env = present (map aj_env cs),
          ka_Limits = fold (add_requests fsize) (map aj_limits cs) no_reservation,
          ka_Requests = fold (add_requests fsize) (map aj_requests cs) no_reservation,
          ka_Service = map_option (bound_service_of (present (map aj_ports cs)) ingresses) service,
          ka_Volumes = vs, ka_PersistedFolders = persisted_folders vs mounts,
          ka_ConfigurationVolumes = configuration_volumes vs mounts, ka_Type = type, ka_DeploymentType = None,
          ka_DataAccessPolicy = None, ka_RunningPodsCount = 0, ka_TotalPodsCount = None, ka_HeadlessServiceName = None\<rparr>)"

definition apiPodToApplication ::
    "(string \<Rightarrow> rat option) \<Rightarrow> api_workload \<Rightarrow> api_service option \<Rightarrow> ingress list \<Rightarrow> application" where
  "apiPodToApplication fsize w service ingresses = applicationCommon fsize POD w service ingresses"

definition apiDeploymentToApplication ::
    "(string \<Rightarrow> rat option) \<Rightarrow> api_workload \<Rightarrow> api_service option \<Rightarrow> ingress list \<Rightarrow> application" where
  "apiDeploymentToApplication fsize w service ingresses = (applicationCommon fsize DEPLOYMENT w service ingresses)
     \<lparr>ka_DeploymentType := Some REPLICATED, ka_DataAccessPolicy := Some SHARED,
      ka_RunningPodsCount := deployment_pods (aw_available w) (aw_wanted w) (aw_unavailable w), ka_TotalPodsCount := aw_replicas w\<rparr>"

definition apiDaemonSetToApplication ::
    "(string \<Rightarrow> rat option) \<Rightarrow> api_workload \<Rightarrow> api_service option \<Rightarrow> ingress list \<Rightarrow> application" where
  "apiDaemonSetToApplication fsize w service ingresses = (applicationCommon fsize DAEMONSET w service ingresses)
     \<lparr>ka_DeploymentType := Some GLOBAL, ka_DataAccessPolicy := Some SHARED,
      ka_RunningPodsCount := deployment_pods (aw_available w) (aw_wanted w) (aw_unavailable w), ka_TotalPodsCount := aw_wanted w\<rparr>"

definition apiStatefulSetToapplication ::
    "(string \<Rightarrow> rat option) \<Rightarrow> api_workload \<Rightarrow> api_service option \<Rightarrow> ingress list \<Rightarrow> application" where
  "apiStatefulSetToapplication fsize w service ingresses = (applicationCommon fsize STATEFULSET w service ingresses)
     \<lparr>ka_DeploymentType := Some REPLICATED, ka_DataAccessPolicy := Some ISOLATED,
      ka_RunningPodsCount := (case aw_available w of None \<Rightarrow> 0 | Some n \<Rightarrow> int n), ka_TotalPodsCount := aw_replicas w,
      ka_HeadlessServiceName := aw_serviceName w\<rparr>"

text \<open>The pods of a workload are those whose labels contain the ones of its selector.\<close>

definition associatePodsAndApplication :: "api_pod list \<Rightarrow> string obj \<Rightarrow> api_pod list" where
  "associatePodsAndApplication pods matchLabels =
     filter (\<lambda>p. \<forall>(k, v) \<in> set matchLabels. obj_get (po_labels p) k = Some v) pods"

section \<open>The form of an application that is edited\<close>

record read_form =
  rf_ApplicationType :: application_type
  rf_ResourcePool :: "string option"
  rf_Name :: string
  rf_StackName :: string
  rf_ApplicationOwner :: string
  rf_Image :: "string option"
  rf_RegistryId :: "jsnum option"
  rf_ReplicaCount :: "nat option"
  rf_MemoryLimit :: "int option"
  rf_CpuLimit :: "rat option"
  rf_DeploymentType :: "deployment_type option"
  rf_DataAccessPolicy :: "data_access option"
  rf_EnvironmentVariables :: "env_form list"
  rf_PersistedFolders :: "folder_form list"
  rf_Configurations :: "config_use list"
  rf_AutoScaler :: "scaler_form option"
  rf_PublishedPorts :: "port_form list"
  rf_PublishingType :: publishing_type
  rf_Placements :: "placement_type \<times> placement_form list"

definition read_publishing_type :: "service_type option \<Rightarrow> port_form list \<Rightarrow> publishing_type" where
  "read_publishing_type t ports =
     (if t = Some LOAD_BALANCER then LOAD_BALANCED
      else if t = Some NODE_PORT then CLUSTER
      else if t = Some CLUSTER_IP \<and> list_ex (\<lambda>p. truthy_str (pf_IngressName p)) ports then INGRESS
      else INTERNAL)"

text \<open>
  The rows of the form read the answers of the other objects: claims, configurations, labels of nodes and ingresses. A
  scaler without counts of its own takes the number of pods, which a pod does not have.
\<close>

definition applicationToFormValues ::
    "string list \<Rightarrow> configuration list \<Rightarrow> volume_claim list \<Rightarrow> node_label list \<Rightarrow> ingress list option \<Rightarrow> auto_scaler option \<Rightarrow>
     node_affinity option \<Rightarrow> application \<Rightarrow> read_form js_result" where
  "applicationToFormValues pools configurations claims nodesLabels ingresses scaler affinity app =
     and_then (generatePersistedFoldersFormValuesFromPersistedFolders (ka_PersistedFolders app) claims) (\<lambda>folders.
     and_then (generateConfigurationFormValuesFromEnvAndVolumes (ka_Env app) (ka_ConfigurationVolumes app) configurations) (\<lambda>uses.
     and_then (case ka_Service app of
         None \<Rightarrow> Inr []
       | Some s \<Rightarrow> generatePublishedPortsFormValuesFromPublishedPorts (bs_Type s) (bs_PublishedPorts s) ingresses) (\<lambda>ports.
     and_then (case affinity of
         None \<Rightarrow> Inr (PREFERRED, [])
       | Some a \<Rightarrow> generatePlacementsFormValuesFromAffinity a nodesLabels) (\<lambda>placements. Inr
       \<lparr>rf_ApplicationType = ka_Type app, rf_ResourcePool = find (\<lambda>n. n = ka_ResourcePool app) pools, rf_Name = ka_Name app,
        rf_StackName = ka_StackName app, rf_ApplicationOwner = ka_ApplicationOwner app, rf_Image = ka_Image app,
        rf_RegistryId = ka_RegistryId app, rf_ReplicaCount = ka_TotalPodsCount app,
        rf_MemoryLimit = megaBytesValue (rs_Memory (ka_Limits app)), rf_CpuLimit = rs_CPU (ka_Limits app),
        rf_DeploymentType = ka_DeploymentType app, rf_DataAccessPolicy = ka_DataAccessPolicy app,
        rf_EnvironmentVariables = generateEnvVariablesFromEnv (ka_Env app), rf_PersistedFolders = folders,
        rf_Configurations = uses,
        rf_AutoScaler = (case ka_TotalPodsCount app of
            Some n \<Rightarrow> Some (generateAutoScalerFormValueFromHorizontalPodAutoScaler scaler n)
          | None \<Rightarrow> map_option (\<lambda>s. generateAutoScalerFormValueFromHorizontalPodAutoScaler (Some s) 0) scaler),
        rf_PublishedPorts = ports, rf_PublishingType = read_publishing_type (map_option bs_Type (ka_Service app)) ports,
        rf_Placements = placements\<rparr>))))"

section \<open>A deployment that is opened again\<close>

text \<open>
  What the cluster answers for a deployment that was asked for: names, labels, the note, the number of pods, and one container
  with the image, the variables, the mounts and the limits, whose quantities are written in some way that reads as the same
  amount.
\<close>

definition stored_amount :: "(string \<Rightarrow> rat option) \<Rightarrow> rat option \<Rightarrow> string option \<Rightarrow> bool" where
  "stored_amount read x s = (case x of None \<Rightarrow> s = None | Some v \<Rightarrow> truthy_str s \<and> read (the s) = Some v)"

definition stored_limits :: "(string \<Rightarrow> rat option) \<Rightarrow> (int option \<times> int option) option \<Rightarrow> container_requests option \<Rightarrow> bool" where
  "stored_limits fsize res l = (case res of
       None \<Rightarrow> l = None
     | Some (cpu, mem) \<Rightarrow> (case l of None \<Rightarrow> False
         | Some r \<Rightarrow> stored_amount parseCPU (map_option (\<lambda>i. rat_of_int i / 1000) cpu) (rq_cpu r) \<and>
             stored_amount fsize (map_option rat_of_int mem) (rq_memory r)))"

definition stored_workload :: "(string \<Rightarrow> rat option) \<Rightarrow> workload_payload \<Rightarrow> api_workload \<Rightarrow> bool" where
  "stored_workload fsize pl w \<longleftrightarrow> aw_name w = wp_name pl \<and> aw_namespace w = wp_namespace pl \<and> aw_labels w = Some (wp_labels pl) \<and>
     label_or (aw_annotations w) (app_label ''note'') [] = wp_note pl \<and> aw_templated w \<and> aw_initContainers w = [] \<and>
     aw_volumes w = wp_volumes pl \<and> aw_claimTemplates w = None \<and> aw_replicas w = wp_replicas pl \<and>
     (case aw_containers w of [c] \<Rightarrow> aj_image c = wp_image pl \<and> aj_env c = wp_env pl \<and> aj_mounts c = wp_volumeMounts pl \<and>
        stored_limits fsize (wp_resources pl) (aj_limits c) | _ \<Rightarrow> False)"

lemma limits_read:
  assumes "stored_limits fsize (pod_resources d) l"
  shows "add_requests fsize l no_reservation =
    \<lparr>rs_Memory = Some (rat_of_int (wl_MemoryLimit d)), rs_CPU = Some (rat_of_int (wl_CpuLimit d) / 1000)\<rparr>"
  using assms
  by (auto simp: stored_limits_def pod_resources_def add_requests_def no_reservation_def number_plus_def stored_amount_def
      split: if_splits option.splits)

lemma megabytes_kept: "megaBytesValue (Some (rat_of_int (n * 1000 * 1000))) = Some n"
  by (simp add: megaBytesValue_def)

lemma present_kept: "present [assignOrDeleteIfEmpty xs] = xs"
  by (simp add: present_def assignOrDeleteIfEmpty_def)

lemma deployment_fields:
  assumes "applicationFormValuesToApplication filesizeParser uuid v = Inr objects" and "wl_Type (ao_app objects) = DEPLOYMENT"
  shows "\<exists>us. wl_Name (ao_app objects) = fv_Name v \<and>
    wl_StackName (ao_app objects) = (if fx_StackName v \<noteq> [] then fx_StackName v else fv_Name v) \<and>
    wl_ApplicationOwner (ao_app objects) = ownerToLabel (fx_ApplicationOwner v) \<and> wl_ReplicaCount (ao_app objects) = fv_ReplicaCount v \<and>
    wl_CpuLimit (ao_app objects) = fx_CpuLimit v \<and> wl_MemoryLimit (ao_app objects) = bytesValue filesizeParser (fx_MemoryLimit v) \<and>
    wa_Env (wl_Written (ao_app objects)) = generateEnvFromEnvVariables (fv_EnvironmentVariables v) @ concat (map use_env us)"
  using assms unfolding applicationFormValuesToApplication_def Let_def
  by (auto elim!: and_then_InrE split: application_type.splits simp: applicationFormValuesToDeployment_def
      applicationFormValuesToStatefulSet_def applicationFormValuesToDaemonSet_def common_workload_def written_of_def
      generateEnvOrVolumesFromConfigurations_def generateVolumesFromPersistentVolumClaims_def Let_def) blast+

lemma read_form_fields:
  assumes "applicationToFormValues pools configurations claims labels ingresses scaler affinity a = Inr f"
  shows "rf_Name f = ka_Name a" "rf_StackName f = ka_StackName a" "rf_ApplicationOwner f = ka_ApplicationOwner a"
    "rf_ReplicaCount f = ka_TotalPodsCount a" "rf_MemoryLimit f = megaBytesValue (rs_Memory (ka_Limits a))"
    "rf_CpuLimit f = rs_CPU (ka_Limits a)" "rf_DeploymentType f = ka_DeploymentType a" "rf_DataAccessPolicy f = ka_DataAccessPolicy a"
    "rf_EnvironmentVariables f = generateEnvVariablesFromEnv (ka_Env a)"
  using assms unfolding applicationToFormValues_def by (auto elim!: and_then_InrE)

text \<open>
  C24. A deployment that is asked for from a form and read again from the cluster gives the form its names, its owner as a
  label, the number of pods, the limits of processor and memory, and the variables that were typed, without those to be
  deleted, however many configurations the form uses.
\<close>

theorem deployment_reopened:
  assumes "applicationFormValuesToApplication filesizeParser uuid v = Inr objects" and "wl_Type (ao_app objects) = DEPLOYMENT"
    and "stored_workload fsize (createDeploymentPayload (ao_app objects)) w" and "fv_Name v \<noteq> []"
    and "filesizeParser (fx_MemoryLimit v) = fx_MemoryLimit v"
    and "applicationToFormValues pools configurations claims labels ingresses scaler affinity
      (apiDeploymentToApplication fsize w service rules) = Inr f"
  shows "rf_Name f = fv_Name v \<and> rf_StackName f = (if fx_StackName v \<noteq> [] then fx_StackName v else fv_Name v) \<and>
    rf_ApplicationOwner f = ownerToLabel (fx_ApplicationOwner v) \<and> rf_ReplicaCount f = fv_ReplicaCount v \<and>
    rf_CpuLimit f = Some (rat_of_int (fx_CpuLimit v) / 1000) \<and> rf_MemoryLimit f = Some (fx_MemoryLimit v) \<and>
    rf_DeploymentType f = Some REPLICATED \<and> rf_DataAccessPolicy f = Some SHARED \<and>
    rf_EnvironmentVariables f = map (\<lambda>x. x\<lparr>vf_IsSecret := False, vf_IsNew := False, vf_NameIndex := vf_Name x\<rparr>)
      (filter (\<lambda>x. \<not> vf_NeedsDeletion x) (fv_EnvironmentVariables v))"
proof -
  let ?d = "ao_app objects"
  from deployment_fields [OF assms(1,2)] obtain us where d: "wl_Name ?d = fv_Name v"
    "wl_StackName ?d = (if fx_StackName v \<noteq> [] then fx_StackName v else fv_Name v)"
    "wl_ApplicationOwner ?d = ownerToLabel (fx_ApplicationOwner v)" "wl_ReplicaCount ?d = fv_ReplicaCount v"
    "wl_CpuLimit ?d = fx_CpuLimit v" "wl_MemoryLimit ?d = bytesValue filesizeParser (fx_MemoryLimit v)"
    "wa_Env (wl_Written ?d) = generateEnvFromEnvVariables (fv_EnvironmentVariables v) @ concat (map use_env us)" by blast
  obtain c where c: "aw_containers w = [c]" using assms(3) by (auto simp: stored_workload_def split: list.splits)
  note w = assms(3) [unfolded stored_workload_def c list.case]
  have cs: "workload_containers w = [c]" using w c by (simp add: workload_containers_def)
  let ?a = "apiDeploymentToApplication fsize w service rules"
  have names: "ka_Name ?a = fv_Name v" "ka_StackName ?a = wl_StackName ?d" "ka_ApplicationOwner ?a = wl_ApplicationOwner ?d"
    using w d(1,2) assms(4) by (simp_all add: apiDeploymentToApplication_def applicationCommon_def Let_def createDeploymentPayload_def
        label_or_def app_label_def or_str_def obj_get_def truthy_str_def split: list.splits)
  have env: "ka_Env ?a = wa_Env (wl_Written ?d)"
    using w by (simp add: apiDeploymentToApplication_def applicationCommon_def Let_def createDeploymentPayload_def cs present_kept)
  have "add_requests fsize (aj_limits c) no_reservation =
      \<lparr>rs_Memory = Some (rat_of_int (wl_MemoryLimit ?d)), rs_CPU = Some (rat_of_int (wl_CpuLimit ?d) / 1000)\<rparr>"
    using w by (intro limits_read) (simp add: createDeploymentPayload_def)
  then have limits: "ka_Limits ?a = \<lparr>rs_Memory = Some (rat_of_int (fx_MemoryLimit v * 1000 * 1000)),
      rs_CPU = Some (rat_of_int (fx_CpuLimit v) / 1000)\<rparr>"
    using d(5,6) assms(5) by (simp add: apiDeploymentToApplication_def applicationCommon_def Let_def cs bytesValue_def)
  have rest: "ka_TotalPodsCount ?a = fv_ReplicaCount v" "ka_DeploymentType ?a = Some REPLICATED" "ka_DataAccessPolicy ?a = Some SHARED"
    using w d(4) by (simp_all add: apiDeploymentToApplication_def createDeploymentPayload_def)
  show ?thesis
    using read_form_fields [OF assms(6)] names env limits rest d megabytes_kept env_variables_kept by simp
qed

section \<open>An example\<close>

definition small_values :: app_values where
  "small_values = \<lparr>fv_Name = ''web'', fv_ApplicationType = None, fv_ReplicaCount = Some 2, fv_DeploymentType = REPLICATED,
     fv_AutoScaler = \<lparr>sg_MinReplicas = 1, sg_MaxReplicas = 1, sg_TargetCPUUtilization = None, sg_ApiVersion = [], sg_IsUsed = False\<rparr>,
     fv_Containers = [], fv_EnvironmentVariables = [new_env_form\<lparr>vf_Name := ''MODE'', vf_Value := Some ''fast''\<rparr>],
     fv_DataAccessPolicy = SHARED, fv_PersistedFolders = [], fv_Configurations = [], fv_PublishingType = INTERNAL,
     fv_PublishedPorts = [], fv_PlacementType = PREFERRED, fv_Placements = [], fx_Namespace = ''dev'', fx_StackName = [],
     fx_ApplicationOwner = ''ann'', fx_ImageModel = \<lparr>im_UseRegistry = False, im_Registry = \<lparr>reg_Type = ANONYMOUS, reg_URL = [],
       reg_Username = [], reg_ProjectPath = [], reg_UseOrganisation = False, reg_OrganisationName = []\<rparr>, im_Image = ''nginx''\<rparr>,
     fx_AuthenticatedRegistry = None, fx_CpuLimit = 0, fx_MemoryLimit = 64, fx_OriginalIngresses = []\<rparr>"

definition stored_answer :: "workload_payload \<Rightarrow> api_workload" where
  "stored_answer pl = \<lparr>aw_uid = ''u'', aw_name = wp_name pl, aw_namespace = wp_namespace pl, aw_creation = [],
     aw_labels = Some (wp_labels pl), aw_annotations = Some [(app_label ''note'', wp_note pl)], aw_templated = True,
     aw_containers = [\<lparr>aj_image = wp_image pl, aj_env = wp_env pl, aj_ports = None,
       aj_limits = Some \<lparr>rq_memory = Some ''64M'', rq_cpu = None\<rparr>, aj_requests = None, aj_mounts = wp_volumeMounts pl\<rparr>],
     aw_initContainers = [], aw_pullSecrets = [], aw_volumes = wp_volumes pl, aw_matchLabels = None, aw_claimTemplates = None,
     aw_replicas = wp_replicas pl, aw_serviceName = None, aw_available = None, aw_wanted = None, aw_unavailable = None\<rparr>"

lemma small_objects:
  "\<exists>os. applicationFormValuesToApplication id (\<lambda>n. []) small_values = Inr os \<and> wl_Type (ao_app os) = DEPLOYMENT \<and>
     wl_CpuLimit (ao_app os) = 0 \<and> wl_MemoryLimit (ao_app os) = 64000000 \<and> wa_Volumes (wl_Written (ao_app os)) = [] \<and>
     wa_Env (wl_Written (ao_app os)) = [\<lparr>ev_name = ''MODE'', ev_value = Some ''fast'', ev_valueFrom = None\<rparr>]"
  by (simp add: applicationFormValuesToApplication_def small_values_def Let_def applicationFormValuesToVolumeClaims_def
      application_kind_def applicationFormValuesToDeployment_def common_workload_def written_of_def config_uses_def
      generateAffinityFromPlacements_def generateEnvOrVolumesFromConfigurations_def generateVolumesFromPersistentVolumClaims_def
      generateEnvFromEnvVariables_def new_env_form_def bytesValue_def)

lemma deployment_reopened_witness:
  "\<exists>f. applicationToFormValues [] [] [] [] None None None (apiDeploymentToApplication (\<lambda>s. Some 64000000)
      (stored_answer (createDeploymentPayload (ao_app (projr (applicationFormValuesToApplication id (\<lambda>n. []) small_values))))) None []) =
      Inr f \<and> rf_ReplicaCount f = Some 2 \<and> rf_MemoryLimit f = Some 64"
proof -
  obtain os where os: "applicationFormValuesToApplication id (\<lambda>n. []) small_values = Inr os" "wl_Type (ao_app os) = DEPLOYMENT"
    "wl_CpuLimit (ao_app os) = 0" "wl_MemoryLimit (ao_app os) = 64000000" "wa_Volumes (wl_Written (ao_app os)) = []"
    "wa_Env (wl_Written (ao_app os)) = [\<lparr>ev_name = ''MODE'', ev_value = Some ''fast'', ev_valueFrom = None\<rparr>]"
    using small_objects by blast
  let ?w = "stored_answer (createDeploymentPayload (ao_app os))"
  have w: "stored_workload (\<lambda>s. Some 64000000) (createDeploymentPayload (ao_app os)) ?w"
    using os(3,4) by (simp add: stored_workload_def stored_answer_def createDeploymentPayload_def stored_limits_def pod_resources_def
        stored_amount_def label_or_def obj_get_def or_str_def truthy_str_def split: list.splits)
  let ?a = "apiDeploymentToApplication (\<lambda>s. Some 64000000) ?w None []"
  have a: "ka_PersistedFolders ?a = []" "ka_Service ?a = None"
    using os(5) by (simp_all add: apiDeploymentToApplication_def applicationCommon_def Let_def read_volumes_def stored_answer_def
        createDeploymentPayload_def assignOrDeleteIfEmpty_def persisted_folders_def)
  obtain f where f: "applicationToFormValues [] [] [] [] None None None ?a = Inr f"
    by (simp add: applicationToFormValues_def a generatePersistedFoldersFormValuesFromPersistedFolders_def
        generateConfigurationFormValuesFromEnvAndVolumes_def)
  have n: "fv_Name small_values \<noteq> []" "id (fx_MemoryLimit small_values) = fx_MemoryLimit small_values" by (simp_all add: small_values_def)
  from deployment_reopened [OF os(1,2) w n f] f os(1) show ?thesis by (simp add: small_values_def)
qed

end
