(* ===== verification/TeamPages.thy ===== *)
theory TeamPages
  imports JsString
begin

text \<open>
  Users and teams: \<open>portainer/services/api/userService.js\<close>, \<open>teamService.js\<close>, \<open>teamMembershipService.js\<close> and the pages under
  \<open>portainer/views/users\<close>, \<open>views/teams\<close> and \<open>views/init/admin\<close>. The server is a function from what was asked before, with its
  answers, and the request to the identifier that it answers, or nothing when it refuses.
\<close>

section \<open>Models and requests\<close>

record user_view =
  uv_Id :: nat
  uv_Username :: string
  uv_Role :: nat
  uv_RoleName :: string
  uv_isTeamLeader :: bool

definition UserViewModel :: "nat \<Rightarrow> string \<Rightarrow> nat \<Rightarrow> user_view" where
  "UserViewModel i name role = \<lparr>uv_Id = i, uv_Username = name, uv_Role = role,
     uv_RoleName = (if role = 1 then ''administrator'' else ''user''), uv_isTeamLeader = False\<rparr>"

record team_view =
  tv_Id :: nat
  tv_Name :: string

record team_membership =
  tm_Id :: nat
  tm_UserId :: nat
  tm_TeamId :: nat
  tm_Role :: nat

datatype user_request =
    CreateUser string string nat
  | UpdateUser nat "string option" "nat option" "string option"
  | DeleteUser nat
  | CreateTeam string
  | DeleteTeam nat
  | CreateMembership nat nat nat
  | UpdateMembership "nat option" nat nat nat
  | DeleteMembership "nat option"

type_synonym user_log = "(user_request \<times> nat option) list"
type_synonym user_server = "user_log \<Rightarrow> user_request \<Rightarrow> nat option"

definition ask :: "user_server \<Rightarrow> user_request \<Rightarrow> user_log \<Rightarrow> nat option \<times> user_log" where
  "ask srv q l = (srv l q, l @ [(q, srv l q)])"

text \<open>Requests that are sent together are all sent, whatever is answered.\<close>

fun ask_all :: "user_server \<Rightarrow> user_request list \<Rightarrow> user_log \<Rightarrow> nat option list \<times> user_log" where
  "ask_all srv [] l = ([], l)"
| "ask_all srv (q # qs) l = (let (a, l1) = ask srv q l; (as, l2) = ask_all srv qs l1 in (a # as, l2))"

text \<open>A promise is resolved, rejected with a message, or never settled.\<close>

datatype outcome = Resolved | RejectedWith string | Pending

section \<open>The services\<close>

definition non_administrators :: "user_view list \<Rightarrow> user_view list" where
  "non_administrators users = filter (\<lambda>u. uv_Role u \<noteq> 1) users"

definition service_users :: "bool \<Rightarrow> user_view list \<Rightarrow> user_view list" where
  "service_users includeAdministrators users = (if includeAdministrators then users else non_administrators users)"

text \<open>
  The promise of the memberships has no handler for its rejection, so when one is refused the promise of the service is never
  settled.
\<close>

definition createUser :: "user_server \<Rightarrow> string \<Rightarrow> string \<Rightarrow> nat \<Rightarrow> nat list \<Rightarrow> user_log \<Rightarrow> outcome \<times> user_log" where
  "createUser srv username password role teamIds l =
     (let (created, l1) = ask srv (CreateUser username password role) l
      in case created of
           None \<Rightarrow> (RejectedWith ''Unable to create user'', l1)
         | Some userId \<Rightarrow> (let (answers, l2) = ask_all srv (map (\<lambda>teamId. CreateMembership userId teamId 2) teamIds) l1
             in (if None \<in> set answers then Pending else Resolved, l2)))"

definition createTeam :: "user_server \<Rightarrow> string \<Rightarrow> nat list \<Rightarrow> user_log \<Rightarrow> outcome \<times> user_log" where
  "createTeam srv name leaderIds l =
     (let (created, l1) = ask srv (CreateTeam name) l
      in case created of
           None \<Rightarrow> (RejectedWith ''Unable to create team'', l1)
         | Some teamId \<Rightarrow> (let (answers, l2) = ask_all srv (map (\<lambda>userId. CreateMembership userId teamId 1) leaderIds) l1
             in (if None \<in> set answers then Pending else Resolved, l2)))"

text \<open>The teams that a user leads, by the first membership of the user in each.\<close>

definition userLeadingTeams :: "team_view list \<Rightarrow> team_membership list \<Rightarrow> team_view list" where
  "userLeadingTeams teams memberships = filter (\<lambda>t. case List.find (\<lambda>m. tm_TeamId m = tv_Id t) memberships of
       None \<Rightarrow> False | Some m \<Rightarrow> tm_Role m = 1) teams"

text \<open>The answer is a status: none for a success. A status of 404 resolves the promise first, and the rejection is ignored.\<close>

definition administratorExists :: "nat option \<Rightarrow> string + bool" where
  "administratorExists failed = (case failed of
       None \<Rightarrow> Inr True
     | Some status \<Rightarrow> if status = 404 then Inr False else Inl ''Unable to verify administrator account existence'')"

section \<open>The page of the users\<close>

record new_user =
  nu_Username :: string
  nu_Password :: string
  nu_Administrator :: bool
  nu_Teams :: "team_view list"

definition checkUsernameValidity :: "user_view list \<Rightarrow> string \<Rightarrow> bool \<times> string" where
  "checkUsernameValidity users name =
     (let valid = \<not> list_ex (\<lambda>u. to_lower name = to_lower (uv_Username u)) users
      in (valid, if valid then [] else ''Username already taken''))"

text \<open>What is left of a creation: whether the page is still busy, whether it is loaded again, and what was asked.\<close>

definition settled_page :: "outcome \<times> user_log \<Rightarrow> bool \<times> bool \<times> user_log" where
  "settled_page r = (fst r = Pending, fst r = Resolved, snd r)"

definition page_addUser :: "user_server \<Rightarrow> new_user \<Rightarrow> user_log \<Rightarrow> bool \<times> bool \<times> user_log" where
  "page_addUser srv f l = settled_page (createUser srv (nu_Username f) (nu_Password f) (if nu_Administrator f then 1 else 2)
     (map tv_Id (nu_Teams f)) l)"

text \<open>A selected user that is removed leaves the list; the page is loaded again when the last answer is there.\<close>

definition deleteSelectedUsers :: "user_server \<Rightarrow> user_view list \<Rightarrow> user_view list \<Rightarrow> user_log \<Rightarrow> user_view list \<times> bool \<times> user_log" where
  "deleteSelectedUsers srv selected users l =
     (let (answers, l1) = ask_all srv (map (\<lambda>u. DeleteUser (uv_Id u)) selected) l;
          removed = map fst (filter (\<lambda>x. snd x \<noteq> None) (zip selected answers))
      in (fold splice_out removed users, selected \<noteq> [], l1))"

definition users_removeAction ::
    "bool \<Rightarrow> user_server \<Rightarrow> user_view list \<Rightarrow> user_view list \<Rightarrow> user_log \<Rightarrow> user_view list \<times> bool \<times> user_log" where
  "users_removeAction confirmed srv selected users l =
     (if confirmed then deleteSelectedUsers srv selected users l else (users, False, l))"

definition assignTeamLeaders :: "user_view list \<Rightarrow> team_membership list \<Rightarrow> user_view list" where
  "assignTeamLeaders users memberships = map (\<lambda>u.
     if list_ex (\<lambda>m. uv_Id u = tm_UserId m \<and> tm_Role m = 1) memberships
     then u\<lparr>uv_isTeamLeader := True, uv_RoleName := ''team leader''\<rparr> else u\<lparr>uv_isTeamLeader := False\<rparr>) users"

section \<open>The page of a user\<close>

record user_form =
  uf_username :: string
  uf_newPassword :: string
  uf_Administrator :: bool

definition open_user :: "user_view \<Rightarrow> user_form" where
  "open_user u = \<lparr>uf_username = uv_Username u, uf_newPassword = [], uf_Administrator = (uv_Role u = 1)\<rparr>"

definition isSubmitEnabled :: "user_view \<Rightarrow> user_form \<Rightarrow> bool" where
  "isSubmitEnabled u f \<longleftrightarrow> uv_Username u \<noteq> uf_username f \<or> (uf_Administrator f \<and> uv_Role u \<noteq> 1) \<or>
     (\<not> uf_Administrator f \<and> uv_Role u = 1)"

definition isDeleteDisabled :: "user_view \<Rightarrow> bool" where
  "isDeleteDisabled u \<longleftrightarrow> uv_Id u = 1"

text \<open>A change of the name is confirmed first.\<close>

definition page_updateUser :: "bool \<Rightarrow> user_view \<Rightarrow> user_form \<Rightarrow> user_request option" where
  "page_updateUser confirmed u f =
     (if uf_username f \<noteq> uv_Username u \<and> \<not> confirmed then None
      else Some (UpdateUser (uv_Id u) None (Some (if uf_Administrator f then 1 else 2)) (Some (uf_username f))))"

definition page_updatePassword :: "user_view \<Rightarrow> user_form \<Rightarrow> user_request" where
  "page_updatePassword u f = UpdateUser (uv_Id u) (Some (uf_newPassword f)) None None"

section \<open>The page of the teams\<close>

definition team_checkNameValidity :: "team_view list \<Rightarrow> string \<Rightarrow> bool" where
  "team_checkNameValidity teams name \<longleftrightarrow> \<not> list_ex (\<lambda>t. name = tv_Name t) teams"

definition addTeam :: "user_server \<Rightarrow> string \<Rightarrow> user_view list \<Rightarrow> user_log \<Rightarrow> bool \<times> bool \<times> user_log" where
  "addTeam srv name leaders l = settled_page (createTeam srv name (map uv_Id leaders) l)"

definition deleteSelectedTeams :: "user_server \<Rightarrow> team_view list \<Rightarrow> team_view list \<Rightarrow> user_log \<Rightarrow> team_view list \<times> bool \<times> user_log" where
  "deleteSelectedTeams srv selected teams l =
     (let (answers, l1) = ask_all srv (map (\<lambda>t. DeleteTeam (tv_Id t)) selected) l;
          removed = map fst (filter (\<lambda>x. snd x \<noteq> None) (zip selected answers))
      in (fold splice_out removed teams, selected \<noteq> [], l1))"

section \<open>The page of a team\<close>

datatype team_role = TeamLeader | TeamMember

record team_user =
  tu_Id :: nat
  tu_Username :: string
  tu_TeamRole :: "team_role option"
  tu_MembershipId :: "nat option"

record team_page =
  tp_team :: nat
  tp_users :: "team_user list"
  tp_teamMembers :: "team_user list"
  tp_leaderCount :: int

definition role_of :: "team_membership \<Rightarrow> team_role" where
  "role_of m = (if tm_Role m = 1 then TeamLeader else TeamMember)"

text \<open>The first membership of a user decides.\<close>

fun assignUsersAndMembers :: "team_user list \<Rightarrow> team_membership list \<Rightarrow> team_page \<Rightarrow> team_page" where
  "assignUsersAndMembers [] ms p = p"
| "assignUsersAndMembers (u # us) ms p = assignUsersAndMembers us ms
     (case List.find (\<lambda>m. tu_Id u = tm_UserId m) ms of
        None \<Rightarrow> p\<lparr>tp_users := tp_users p @ [u]\<rparr>
      | Some m \<Rightarrow> p\<lparr>tp_leaderCount := (if tm_Role m = 1 then tp_leaderCount p + 1 else tp_leaderCount p),
          tp_teamMembers := tp_teamMembers p @ [u\<lparr>tu_TeamRole := Some (role_of m), tu_MembershipId := Some (tm_Id m)\<rparr>]\<rparr>)"

definition open_team :: "nat \<Rightarrow> user_view list \<Rightarrow> team_membership list \<Rightarrow> team_page" where
  "open_team team users ms = assignUsersAndMembers
     (map (\<lambda>u. \<lparr>tu_Id = uv_Id u, tu_Username = uv_Username u, tu_TeamRole = None, tu_MembershipId = None\<rparr>) (service_users False users))
     ms \<lparr>tp_team = team, tp_users = [], tp_teamMembers = [], tp_leaderCount = 0\<rparr>"

fun removeUserFromArray :: "nat \<Rightarrow> team_user list \<Rightarrow> team_user list" where
  "removeUserFromArray i [] = []"
| "removeUserFromArray i (u # us) = (if tu_Id u = i then us else u # removeUserFromArray i us)"

text \<open>The role of an object of the list of members is changed in place.\<close>

definition with_role :: "team_role \<Rightarrow> team_user \<Rightarrow> team_user list \<Rightarrow> team_user list" where
  "with_role r u us = map (\<lambda>x. if tu_Id x = tu_Id u then x\<lparr>tu_TeamRole := Some r\<rparr> else x) us"

definition promoteToLeader :: "user_server \<Rightarrow> team_user \<Rightarrow> team_page \<Rightarrow> user_log \<Rightarrow> team_page \<times> user_log" where
  "promoteToLeader srv u p l = (let (a, l1) = ask srv (UpdateMembership (tu_MembershipId u) (tu_Id u) (tp_team p) 1) l
     in (if a = None then p else p\<lparr>tp_leaderCount := tp_leaderCount p + 1,
           tp_teamMembers := with_role TeamLeader u (tp_teamMembers p)\<rparr>, l1))"

definition demoteToMember :: "user_server \<Rightarrow> team_user \<Rightarrow> team_page \<Rightarrow> user_log \<Rightarrow> team_page \<times> user_log" where
  "demoteToMember srv u p l = (let (a, l1) = ask srv (UpdateMembership (tu_MembershipId u) (tu_Id u) (tp_team p) 2) l
     in (if a = None then p else p\<lparr>tp_leaderCount := tp_leaderCount p - 1,
           tp_teamMembers := with_role TeamMember u (tp_teamMembers p)\<rparr>, l1))"

definition joined :: "team_user \<Rightarrow> nat option \<Rightarrow> team_user" where
  "joined u i = u\<lparr>tu_MembershipId := i, tu_TeamRole := Some TeamMember\<rparr>"

definition addAllUsers :: "user_server \<Rightarrow> team_page \<Rightarrow> user_log \<Rightarrow> team_page \<times> user_log" where
  "addAllUsers srv p l =
     (let (answers, l1) = ask_all srv (map (\<lambda>u. CreateMembership (tu_Id u) (tp_team p) 2) (tp_users p)) l
      in (if None \<in> set answers then p
          else p\<lparr>tp_teamMembers := tp_teamMembers p @ map2 joined (tp_users p) answers, tp_users := []\<rparr>, l1))"

definition team_addUser :: "user_server \<Rightarrow> team_user \<Rightarrow> team_page \<Rightarrow> user_log \<Rightarrow> team_page \<times> user_log" where
  "team_addUser srv u p l = (let (a, l1) = ask srv (CreateMembership (tu_Id u) (tp_team p) 2) l
     in (if a = None then p else p\<lparr>tp_users := removeUserFromArray (tu_Id u) (tp_users p),
           tp_teamMembers := tp_teamMembers p @ [joined u a]\<rparr>, l1))"

definition removeAllUsers :: "user_server \<Rightarrow> team_page \<Rightarrow> user_log \<Rightarrow> team_page \<times> user_log" where
  "removeAllUsers srv p l =
     (let (answers, l1) = ask_all srv (map (\<lambda>u. DeleteMembership (tu_MembershipId u)) (tp_teamMembers p)) l
      in (if None \<in> set answers then p
          else p\<lparr>tp_users := tp_users p @ tp_teamMembers p, tp_teamMembers := [], tp_leaderCount := 0\<rparr>, l1))"

definition team_removeUser :: "user_server \<Rightarrow> team_user \<Rightarrow> team_page \<Rightarrow> user_log \<Rightarrow> team_page \<times> user_log" where
  "team_removeUser srv u p l = (let (a, l1) = ask srv (DeleteMembership (tu_MembershipId u)) l
     in (if a = None then p else p\<lparr>tp_teamMembers := removeUserFromArray (tu_Id u) (tp_teamMembers p),
           tp_leaderCount := (if tu_TeamRole u = Some TeamLeader then tp_leaderCount p - 1 else tp_leaderCount p),
           tp_users := tp_users p @ [u]\<rparr>, l1))"

definition team_deleteTeam :: "bool \<Rightarrow> user_server \<Rightarrow> team_page \<Rightarrow> user_log \<Rightarrow> bool \<times> user_log" where
  "team_deleteTeam confirmed srv p l =
     (if confirmed then (let (a, l1) = ask srv (DeleteTeam (tp_team p)) l in (a \<noteq> None, l1)) else (False, l))"

section \<open>The first administrator\<close>

datatype admin_step = InitAdministrator string string | LoginAs string string | UpdateTelemetry bool | InitializeState | ListEndpoints

text \<open>Each step is sent when the one before was accepted.\<close>

fun admin_steps :: "(admin_step \<Rightarrow> bool) \<Rightarrow> admin_step list \<Rightarrow> admin_step list \<times> bool" where
  "admin_steps accepts [] = ([], True)"
| "admin_steps accepts (s # ss) = (if accepts s then (let (sent, ok) = admin_steps accepts ss in (s # sent, ok)) else ([s], False))"

definition createAdminUser :: "(admin_step \<Rightarrow> bool) \<Rightarrow> nat \<Rightarrow> string \<Rightarrow> string \<Rightarrow> bool \<Rightarrow> admin_step list \<times> string option" where
  "createAdminUser accepts endpoints username password telemetry =
     (let (sent, ok) = admin_steps accepts [InitAdministrator username password, LoginAs username password, UpdateTelemetry telemetry,
        InitializeState, ListEndpoints]
      in (sent, if ok then Some (if endpoints = 0 then ''portainer.init.endpoint'' else ''portainer.home'') else None))"

text \<open>The server is asked ten times for its version.\<close>

definition waitPortainerRestart :: "(nat \<Rightarrow> string option) \<Rightarrow> bool" where
  "waitPortainerRestart version = list_ex (\<lambda>i. truthy_str (version i)) [0..<10]"

section \<open>The memberships of the server\<close>

text \<open>What the accepted requests make of the memberships that the server keeps.\<close>

fun membership_step :: "user_request \<times> nat option \<Rightarrow> team_membership list \<Rightarrow> team_membership list" where
  "membership_step (CreateMembership u t r, Some i) T = T @ [\<lparr>tm_Id = i, tm_UserId = u, tm_TeamId = t, tm_Role = r\<rparr>]"
| "membership_step (UpdateMembership (Some i) u t r, Some a) T =
     map (\<lambda>m. if tm_Id m = i then \<lparr>tm_Id = i, tm_UserId = u, tm_TeamId = t, tm_Role = r\<rparr> else m) T"
| "membership_step (DeleteMembership (Some i), Some a) T = filter (\<lambda>m. tm_Id m \<noteq> i) T"
| "membership_step x T = T"

definition table_after :: "user_log \<Rightarrow> team_membership list \<Rightarrow> team_membership list" where
  "table_after = fold membership_step"

definition consistent :: "team_membership list \<Rightarrow> bool" where
  "consistent T \<longleftrightarrow> distinct (map tm_Id T) \<and> distinct (map (\<lambda>m. (tm_UserId m, tm_TeamId m)) T)"

definition shown_as :: "nat \<Rightarrow> team_user \<Rightarrow> team_membership \<Rightarrow> bool" where
  "shown_as team u m \<longleftrightarrow> tm_TeamId m = team \<and> tm_UserId m = tu_Id u \<and> tu_MembershipId u = Some (tm_Id m) \<and>
     tu_TeamRole u = Some (role_of m)"

definition leads :: "team_user \<Rightarrow> bool" where
  "leads u \<longleftrightarrow> tu_TeamRole u = Some TeamLeader"

definition shows_table :: "team_membership list \<Rightarrow> team_page \<Rightarrow> bool" where
  "shows_table T p \<longleftrightarrow> distinct (map tu_Id (tp_users p @ tp_teamMembers p)) \<and>
     (\<forall>u \<in> set (tp_users p). \<forall>m \<in> set T. tm_TeamId m = tp_team p \<longrightarrow> tm_UserId m \<noteq> tu_Id u) \<and>
     (\<forall>u \<in> set (tp_teamMembers p). \<exists>m \<in> set T. shown_as (tp_team p) u m) \<and>
     tp_leaderCount p = int (length (filter leads (tp_teamMembers p)))"

datatype team_action = Promote team_user | Demote team_user | AddUser team_user | RemoveUser team_user | AddAll | RemoveAll

fun team_act :: "user_server \<Rightarrow> team_action \<Rightarrow> team_page \<Rightarrow> user_log \<Rightarrow> team_page \<times> user_log" where
  "team_act srv (Promote u) p l = promoteToLeader srv u p l"
| "team_act srv (Demote u) p l = demoteToMember srv u p l"
| "team_act srv (AddUser u) p l = team_addUser srv u p l"
| "team_act srv (RemoveUser u) p l = team_removeUser srv u p l"
| "team_act srv AddAll p l = addAllUsers srv p l"
| "team_act srv RemoveAll p l = removeAllUsers srv p l"

text \<open>The page offers each button only where it makes sense.\<close>

fun offered :: "team_page \<Rightarrow> team_action \<Rightarrow> bool" where
  "offered p (Promote u) \<longleftrightarrow> u \<in> set (tp_teamMembers p) \<and> tu_TeamRole u = Some TeamMember"
| "offered p (Demote u) \<longleftrightarrow> u \<in> set (tp_teamMembers p) \<and> tu_TeamRole u = Some TeamLeader"
| "offered p (AddUser u) \<longleftrightarrow> u \<in> set (tp_users p)"
| "offered p (RemoveUser u) \<longleftrightarrow> u \<in> set (tp_teamMembers p)"
| "offered p AddAll \<longleftrightarrow> True"
| "offered p RemoveAll \<longleftrightarrow> True"

definition mixed :: "user_log \<Rightarrow> bool" where
  "mixed new \<longleftrightarrow> None \<in> snd ` set new \<and> \<not> snd ` set new \<subseteq> {None}"

section \<open>Requests that are sent together\<close>

lemma ask_all_log: "snd (ask_all srv qs l) = l @ zip qs (fst (ask_all srv qs l)) \<and> length (fst (ask_all srv qs l)) = length qs"
  by (induction qs arbitrary: l) (simp_all add: ask_def Let_def case_prod_unfold)

lemma creations_table:
  "length us = length as \<Longrightarrow> table_after (zip (map (\<lambda>u. CreateMembership (tu_Id u) t 2) us) as) T =
    T @ concat (map2 (\<lambda>u a. case a of None \<Rightarrow> [] | Some i \<Rightarrow> [\<lparr>tm_Id = i, tm_UserId = tu_Id u, tm_TeamId = t, tm_Role = 2\<rparr>]) us as)"
  by (induction us as arbitrary: T rule: list_induct2) (auto simp: table_after_def split: option.split)

definition taken_ids :: "team_user list \<Rightarrow> nat option list \<Rightarrow> nat set" where
  "taken_ids us as = {i. \<exists>u a. (u, Some a) \<in> set (zip us as) \<and> tu_MembershipId u = Some i}"

lemma deletions_table:
  "length us = length as \<Longrightarrow> table_after (zip (map (\<lambda>u. DeleteMembership (tu_MembershipId u)) us) as) T =
    filter (\<lambda>m. tm_Id m \<notin> taken_ids us as) T"
proof (induction us as arbitrary: T rule: list_induct2)
  case Nil
  then show ?case by (simp add: table_after_def taken_ids_def)
next
  case (Cons u us a as)
  have "taken_ids (u # us) (a # as) = taken_ids us as \<union> (case (tu_MembershipId u, a) of (Some i, Some b) \<Rightarrow> {i} | _ \<Rightarrow> {})"
    by (auto simp: taken_ids_def split: option.split)
  moreover have "table_after ((DeleteMembership (tu_MembershipId u), a) # xs) T =
      table_after xs (case (tu_MembershipId u, a) of (Some i, Some b) \<Rightarrow> filter (\<lambda>m. tm_Id m \<noteq> i) T | _ \<Rightarrow> T)" for xs
    by (cases "tu_MembershipId u"; cases a) (simp_all add: table_after_def)
  ultimately show ?case using Cons.IH by (auto split: option.split intro!: filter_cong)
qed

lemma removed_users: "distinct (map tu_Id us) \<Longrightarrow> set (removeUserFromArray i us) = {u \<in> set us. tu_Id u \<noteq> i} \<and>
    distinct (map tu_Id (removeUserFromArray i us))"
  by (induction us) (auto simp: image_iff)

lemma with_role_ids [simp]: "map tu_Id (with_role r u us) = map tu_Id us"
  by (simp add: with_role_def)

lemma same_row: "consistent T \<Longrightarrow> m \<in> set T \<Longrightarrow> n \<in> set T \<Longrightarrow> tm_UserId m = tm_UserId n \<Longrightarrow> tm_TeamId m = tm_TeamId n \<Longrightarrow> m = n"
  unfolding consistent_def distinct_map inj_on_def by auto

section \<open>One button\<close>

lemma refused_step [simp]: "membership_step (q, None) T = T"
  by (cases q) auto

lemma table_of_one [simp]: "table_after [x] T = membership_step x T"
  by (simp add: table_after_def)

lemma one_not_mixed [simp]: "\<not> mixed [x]"
  by (auto simp: mixed_def)

lemma with_role_unchanged: "tu_Id u \<notin> tu_Id ` set us \<Longrightarrow> with_role R u us = us"
  by (induction us) (auto simp: with_role_def)

lemma with_role_leaders:
  "distinct (map tu_Id us) \<Longrightarrow> u \<in> set us \<Longrightarrow> int (length (filter leads (with_role R u us))) =
    int (length (filter leads us)) + (if R = TeamLeader then 1 else 0) - (if leads u then 1 else 0)"
proof (induction us)
  case (Cons x us)
  have c: "with_role R u (x # us) = (if tu_Id x = tu_Id u then x\<lparr>tu_TeamRole := Some R\<rparr> else x) # with_role R u us"
    by (simp add: with_role_def)
  show ?case
  proof (cases "tu_Id x = tu_Id u")
    case True
    then have "x = u" "with_role R u us = us" using Cons.prems by (auto simp: with_role_unchanged)
    then have "with_role R u (x # us) = u\<lparr>tu_TeamRole := Some R\<rparr> # us" using c by simp
    moreover have "leads (u\<lparr>tu_TeamRole := Some R\<rparr>) \<longleftrightarrow> R = TeamLeader" by (simp add: leads_def)
    ultimately show ?thesis using \<open>x = u\<close> by simp
  next
    case False
    then show ?thesis using Cons by (auto simp: c)
  qed
qed simp

lemma role_changed:
  assumes T: "consistent T" "shows_table T p" and u: "u \<in> set (tp_teamMembers p)"
    and R: "R = role_of \<lparr>tm_Id = 0, tm_UserId = 0, tm_TeamId = 0, tm_Role = r\<rparr>"
    and c: "c = tp_leaderCount p + (if R = TeamLeader then 1 else 0) - (if leads u then 1 else 0)"
  shows "shows_table (membership_step (UpdateMembership (tu_MembershipId u) (tu_Id u) (tp_team p) r, Some a) T)
    (p\<lparr>tp_leaderCount := c, tp_teamMembers := with_role R u (tp_teamMembers p)\<rparr>)"
proof -
  note s = T(2) [unfolded shows_table_def]
  obtain m where m: "m \<in> set T" "shown_as (tp_team p) u m" using s u by blast
  let ?n = "\<lparr>tm_Id = tm_Id m, tm_UserId = tu_Id u, tm_TeamId = tp_team p, tm_Role = r\<rparr>"
  let ?T = "map (\<lambda>x. if tm_Id x = tm_Id m then ?n else x) T"
  have t: "membership_step (UpdateMembership (tu_MembershipId u) (tu_Id u) (tp_team p) r, Some a) T = ?T"
    using m(2) by (simp add: shown_as_def)
  have ids: "x \<in> set T \<Longrightarrow> tm_Id x = tm_Id m \<Longrightarrow> x = m" for x
    using T(1) m(1) unfolding consistent_def distinct_map inj_on_def by blast
  have rows: "\<exists>y \<in> set T. tm_UserId y = tm_UserId x \<and> tm_TeamId y = tm_TeamId x" if "x \<in> set ?T" for x
    using that m by (auto simp: shown_as_def split: if_splits)
  have d: "distinct (map tu_Id (tp_teamMembers p))" using s by simp
  have users: "tm_UserId x \<noteq> tu_Id y" if "y \<in> set (tp_users p)" "x \<in> set ?T" "tm_TeamId x = tp_team p" for x y
    using rows [OF that(2)] s that(1,3) by metis
  have members: "\<exists>x \<in> set ?T. shown_as (tp_team p) y x" if y: "y \<in> set (with_role R u (tp_teamMembers p))" for y
  proof -
    obtain z where z: "z \<in> set (tp_teamMembers p)" "y = (if tu_Id z = tu_Id u then z\<lparr>tu_TeamRole := Some R\<rparr> else z)"
      using y by (auto simp: with_role_def)
    show ?thesis
    proof (cases "tu_Id z = tu_Id u")
      case True
      then have "z = u" using z(1) u d by (metis distinct_map inj_onD)
      then have "shown_as (tp_team p) y ?n" using z(2) m(2) R by (simp add: shown_as_def role_of_def)
      moreover have "?n \<in> set ?T" using m(1) by force
      ultimately show ?thesis by blast
    next
      case False
      obtain x where x: "x \<in> set T" "shown_as (tp_team p) z x" using s z(1) by blast
      then have "tm_Id x \<noteq> tm_Id m" using ids [of x] m(2) False by (auto simp: shown_as_def)
      then have "x \<in> set ?T" using x(1) by force
      then show ?thesis using x(2) z(2) False by auto
    qed
  qed
  have n: "tp_leaderCount p = int (length (filter leads (tp_teamMembers p)))" using s by simp
  have dd: "distinct (map tu_Id (tp_users p @ with_role R u (tp_teamMembers p)))" using s by simp
  show ?thesis unfolding t shows_table_def
    using dd users members with_role_leaders [OF d u, of R] n c by simp
qed

lemma user_added:
  assumes "shows_table T p" and u: "u \<in> set (tp_users p)"
  shows "shows_table (T @ [\<lparr>tm_Id = i, tm_UserId = tu_Id u, tm_TeamId = tp_team p, tm_Role = 2\<rparr>])
    (p\<lparr>tp_users := removeUserFromArray (tu_Id u) (tp_users p), tp_teamMembers := tp_teamMembers p @ [joined u (Some i)]\<rparr>)"
proof -
  note s = assms(1) [unfolded shows_table_def]
  have r: "set (removeUserFromArray (tu_Id u) (tp_users p)) = {x \<in> set (tp_users p). tu_Id x \<noteq> tu_Id u}"
    "distinct (map tu_Id (removeUserFromArray (tu_Id u) (tp_users p)))"
    using removed_users [of "tp_users p" "tu_Id u"] s by auto
  have "tu_Id u \<notin> tu_Id ` set (tp_teamMembers p)" using s u by auto
  moreover have "shown_as (tp_team p) (joined u (Some i)) \<lparr>tm_Id = i, tm_UserId = tu_Id u, tm_TeamId = tp_team p, tm_Role = 2\<rparr>"
    by (simp add: shown_as_def joined_def role_of_def)
  moreover have "\<not> leads (joined u (Some i))" by (simp add: leads_def joined_def)
  moreover have "tu_Id (joined u (Some i)) = tu_Id u" by (simp add: joined_def)
  ultimately show ?thesis unfolding shows_table_def using s r by auto
qed

lemma removed_leaders: "distinct (map tu_Id us) \<Longrightarrow> u \<in> set us \<Longrightarrow>
    int (length (filter leads (removeUserFromArray (tu_Id u) us))) = int (length (filter leads us)) - (if leads u then 1 else 0)"
  by (induction us) (auto simp: image_iff)

text \<open>What is left of the rows when some memberships are deleted.\<close>

lemma kept_row:
  assumes "consistent T" "m \<in> set T" "shown_as t u m" "x \<in> set T" "shown_as t y x" "tu_Id y \<noteq> tu_Id u"
  shows "tm_Id x \<noteq> tm_Id m"
  using assms unfolding consistent_def distinct_map inj_on_def shown_as_def by metis

lemma no_row:
  assumes "consistent T" "m \<in> set T" "shown_as t u m" "x \<in> set T" "tm_TeamId x = t" "tm_Id x \<noteq> tm_Id m"
  shows "tm_UserId x \<noteq> tu_Id u"
  using same_row [OF assms(1,2,4)] assms(3,5,6) by (auto simp: shown_as_def)

lemma user_removed:
  assumes T: "consistent T" "shows_table T p" and u: "u \<in> set (tp_teamMembers p)"
  shows "shows_table (membership_step (DeleteMembership (tu_MembershipId u), Some a) T)
    (p\<lparr>tp_teamMembers := removeUserFromArray (tu_Id u) (tp_teamMembers p),
       tp_leaderCount := (if tu_TeamRole u = Some TeamLeader then tp_leaderCount p - 1 else tp_leaderCount p),
       tp_users := tp_users p @ [u]\<rparr>)"
proof -
  note s = T(2) [unfolded shows_table_def]
  obtain m where m: "m \<in> set T" "shown_as (tp_team p) u m" using s u by blast
  let ?T = "filter (\<lambda>x. tm_Id x \<noteq> tm_Id m) T"
  have t: "membership_step (DeleteMembership (tu_MembershipId u), Some a) T = ?T" using m(2) by (simp add: shown_as_def)
  have d: "distinct (map tu_Id (tp_teamMembers p))" using s by simp
  note r = removed_users [OF d, of "tu_Id u"]
  have users: "tm_UserId x \<noteq> tu_Id y" if "y \<in> set (tp_users p @ [u])" "x \<in> set ?T" "tm_TeamId x = tp_team p" for x y
    using that s no_row [OF T(1) m, of x] by auto
  have members: "\<exists>x \<in> set ?T. shown_as (tp_team p) y x" if y: "y \<in> set (removeUserFromArray (tu_Id u) (tp_teamMembers p))" for y
  proof -
    obtain x where x: "x \<in> set T" "shown_as (tp_team p) y x" "tu_Id y \<noteq> tu_Id u" using s y r by auto
    then show ?thesis using kept_row [OF T(1) m x] by auto
  qed
  have "tu_Id u \<notin> tu_Id ` set (tp_users p)" using s u by auto
  then have dd: "distinct (map tu_Id ((tp_users p @ [u]) @ removeUserFromArray (tu_Id u) (tp_teamMembers p)))" using s r by auto
  have n: "tp_leaderCount p = int (length (filter leads (tp_teamMembers p)))" using s by simp
  show ?thesis unfolding t shows_table_def
    using dd users members removed_leaders [OF d u] n by (simp add: leads_def)
qed

section \<open>All users at once\<close>

lemma creations_all:
  "length us = length is \<Longrightarrow> table_after (zip (map (\<lambda>u. CreateMembership (tu_Id u) t 2) us) (map Some is)) T =
    T @ map2 (\<lambda>u i. \<lparr>tm_Id = i, tm_UserId = tu_Id u, tm_TeamId = t, tm_Role = 2\<rparr>) us is"
  by (induction us "is" arbitrary: T rule: list_induct2) (simp_all add: table_after_def)

lemma joined_ids: "length us = length as \<Longrightarrow> map tu_Id (map2 joined us as) = map tu_Id us"
  by (induction us as rule: list_induct2) (simp_all add: joined_def)

lemma joined_never_leads [simp]: "filter leads (map2 joined us as) = []"
  by (auto simp: filter_empty_conv leads_def joined_def)

lemma joined_shown:
  assumes "y \<in> set (map2 joined us (map Some is))"
  shows "\<exists>x \<in> set (map2 (\<lambda>u i. \<lparr>tm_Id = i, tm_UserId = tu_Id u, tm_TeamId = t, tm_Role = 2\<rparr>) us is). shown_as t y x"
proof -
  obtain u i where "(u, i) \<in> set (zip us is)" "y = joined u (Some i)"
    using assms by (auto simp: zip_map2)
  moreover have "shown_as t (joined u (Some i)) \<lparr>tm_Id = i, tm_UserId = tu_Id u, tm_TeamId = t, tm_Role = 2\<rparr>" for u i
    by (simp add: shown_as_def joined_def role_of_def)
  ultimately show ?thesis by (force simp: case_prod_unfold)
qed

lemma all_added:
  assumes "shows_table T p" and "length is = length (tp_users p)"
  shows "shows_table (table_after (zip (map (\<lambda>u. CreateMembership (tu_Id u) (tp_team p) 2) (tp_users p)) (map Some is)) T)
    (p\<lparr>tp_teamMembers := tp_teamMembers p @ map2 joined (tp_users p) (map Some is), tp_users := []\<rparr>)"
proof -
  note s = assms(1) [unfolded shows_table_def]
  define new where "new = map2 (\<lambda>u i. \<lparr>tm_Id = i, tm_UserId = tu_Id u, tm_TeamId = tp_team p, tm_Role = 2\<rparr>) (tp_users p) is"
  define ms where "ms = map2 joined (tp_users p) (map Some is)"
  have t: "table_after (zip (map (\<lambda>u. CreateMembership (tu_Id u) (tp_team p) 2) (tp_users p)) (map Some is)) T = T @ new"
    unfolding new_def by (rule creations_all) (simp add: assms(2))
  have "map tu_Id ms = map tu_Id (tp_users p)" unfolding ms_def by (rule joined_ids) (simp add: assms(2))
  moreover have "set (map tu_Id ms) = set (map tu_Id (tp_users p))" using calculation by simp
  ultimately have d: "distinct (map tu_Id (tp_teamMembers p @ ms))" using s by auto
  have "filter leads ms = []" by (simp add: ms_def)
  moreover have "\<exists>x \<in> set new. shown_as (tp_team p) y x" if "y \<in> set ms" for y
    using joined_shown that unfolding ms_def new_def by blast
  ultimately show ?thesis unfolding t ms_def [symmetric] shows_table_def using s d by (auto simp: bex_Un)
qed

text \<open>Some answers only: a user who was added is still offered.\<close>

lemma some_added:
  assumes "length as = length (tp_users p)" and "Some i \<in> set as"
  shows "\<not> shows_table (table_after (zip (map (\<lambda>u. CreateMembership (tu_Id u) (tp_team p) 2) (tp_users p)) as) T) p"
proof -
  obtain k where k: "k < length as" "as ! k = Some i" using assms(2) by (auto simp: in_set_conv_nth)
  let ?u = "tp_users p ! k"
  have "(?u, Some i) \<in> set (zip (tp_users p) as)" using k assms(1) by (force simp: in_set_zip)
  then have "\<lparr>tm_Id = i, tm_UserId = tu_Id ?u, tm_TeamId = tp_team p, tm_Role = 2\<rparr> \<in> set (table_after (zip (map
      (\<lambda>u. CreateMembership (tu_Id u) (tp_team p) 2) (tp_users p)) as) T)"
    using assms(1) by (force simp: creations_table)
  moreover have "?u \<in> set (tp_users p)" using k assms(1) by simp
  ultimately show ?thesis unfolding shows_table_def by force
qed

lemma none_added: "set qs_answers \<subseteq> {None} \<Longrightarrow> table_after (zip qs qs_answers) T = T"
proof (induction qs qs_answers arbitrary: T rule: list_induct2')
  case (4 q qs a as)
  then show ?case by (simp add: table_after_def)
qed (simp_all add: table_after_def)

lemma taken_all:
  assumes "length is = length us" "u \<in> set us" "tu_MembershipId u = Some i"
  shows "i \<in> taken_ids us (map Some is)"
proof -
  obtain k where "k < length us" "us ! k = u" using assms(2) by (auto simp: in_set_conv_nth)
  then have "(u, Some (is ! k)) \<in> set (zip us (map Some is))" using assms(1) by (force simp: in_set_zip)
  then show ?thesis using assms(3) by (auto simp: taken_ids_def)
qed

lemma all_removed:
  assumes T: "consistent T" "shows_table T p" and len: "length is = length (tp_teamMembers p)"
  shows "shows_table (table_after (zip (map (\<lambda>u. DeleteMembership (tu_MembershipId u)) (tp_teamMembers p)) (map Some is)) T)
    (p\<lparr>tp_users := tp_users p @ tp_teamMembers p, tp_teamMembers := [], tp_leaderCount := 0\<rparr>)"
proof -
  note s = T(2) [unfolded shows_table_def]
  let ?T = "filter (\<lambda>m. tm_Id m \<notin> taken_ids (tp_teamMembers p) (map Some is)) T"
  have t: "table_after (zip (map (\<lambda>u. DeleteMembership (tu_MembershipId u)) (tp_teamMembers p)) (map Some is)) T = ?T"
    by (rule deletions_table) (simp add: len)
  have "tm_UserId x \<noteq> tu_Id u" if u: "u \<in> set (tp_teamMembers p)" and x: "x \<in> set ?T" "tm_TeamId x = tp_team p" for u x
  proof -
    obtain m where m: "m \<in> set T" "shown_as (tp_team p) u m" using s u by blast
    then have "tm_Id m \<in> taken_ids (tp_teamMembers p) (map Some is)" using taken_all [OF len u] by (simp add: shown_as_def)
    then have "tm_Id x \<noteq> tm_Id m" using x(1) by force
    then show ?thesis using no_row [OF T(1) m, of x] x by simp
  qed
  then show ?thesis unfolding t shows_table_def using s by auto
qed

lemma some_removed:
  assumes T: "consistent T" "shows_table T p" and len: "length as = length (tp_teamMembers p)" and a: "Some i \<in> set as"
  shows "\<not> shows_table (table_after (zip (map (\<lambda>u. DeleteMembership (tu_MembershipId u)) (tp_teamMembers p)) as) T) p"
proof -
  note s = T(2) [unfolded shows_table_def]
  obtain k where k: "k < length as" "as ! k = Some i" using a by (auto simp: in_set_conv_nth)
  let ?u = "tp_teamMembers p ! k"
  have u: "?u \<in> set (tp_teamMembers p)" "(?u, Some i) \<in> set (zip (tp_teamMembers p) as)" using k len by (force simp: in_set_zip)+
  obtain m where m: "m \<in> set T" "shown_as (tp_team p) ?u m" using s u(1) by blast
  let ?T = "filter (\<lambda>m. tm_Id m \<notin> taken_ids (tp_teamMembers p) as) T"
  have t: "table_after (zip (map (\<lambda>u. DeleteMembership (tu_MembershipId u)) (tp_teamMembers p)) as) T = ?T"
    by (rule deletions_table) (simp add: len)
  have "tm_Id m \<in> taken_ids (tp_teamMembers p) as" using u(2) m(2) by (auto simp: taken_ids_def shown_as_def)
  then have "\<not> shown_as (tp_team p) ?u x" if "x \<in> set ?T" for x
    using that m(2) by (auto simp: shown_as_def)
  then show ?thesis unfolding t shows_table_def using u(1) by blast
qed

section \<open>The page follows the server\<close>

lemma answers_known: "None \<notin> set as \<Longrightarrow> \<exists>is. as = map Some is"
  by (intro exI [of _ "map the as"]) (auto simp: comp_def intro!: map_idI [symmetric], metis option.collapse)

lemma answers_of_zip: "length as = length qs \<Longrightarrow> snd ` set (zip qs as) = set as"
  by (metis map_snd_zip set_map)

lemma add_all_follows:
  assumes "shows_table T p" and "addAllUsers srv p l = (q, l @ new)"
  shows "shows_table (table_after new T) q \<longleftrightarrow> \<not> mixed new"
proof -
  let ?qs = "map (\<lambda>u. CreateMembership (tu_Id u) (tp_team p) 2) (tp_users p)"
  define as where "as = fst (ask_all srv ?qs l)"
  have as: "length as = length ?qs" "snd (ask_all srv ?qs l) = l @ zip ?qs as" using ask_all_log [of srv ?qs l] by (simp_all add: as_def)
  have new: "new = zip ?qs as"
    and q: "q = (if None \<in> set as then p else p\<lparr>tp_teamMembers := tp_teamMembers p @ map2 joined (tp_users p) as, tp_users := []\<rparr>)"
    using assms(2) as(2) by (auto simp: addAllUsers_def Let_def case_prod_unfold as_def)
  have mixed: "mixed new \<longleftrightarrow> None \<in> set as \<and> \<not> set as \<subseteq> {None}" by (simp add: mixed_def new answers_of_zip as(1))
  show ?thesis
  proof (cases "None \<in> set as")
    case False
    obtain "is" where "as = map Some is" using answers_known [OF False] by blast
    then show ?thesis using all_added [OF assms(1), of "is"] as(1) False mixed unfolding q new by simp
  next
    case True
    show ?thesis
    proof (cases "set as \<subseteq> {None}")
      case False
      then obtain i where "Some i \<in> set as" by (metis insertI1 not_None_eq subsetI)
      then show ?thesis using some_added [of as p i] as(1) True False mixed unfolding q new by simp
    qed (use True assms(1) none_added mixed q new in simp)
  qed
qed

lemma remove_all_follows:
  assumes "consistent T" and "shows_table T p" and "removeAllUsers srv p l = (q, l @ new)"
  shows "shows_table (table_after new T) q \<longleftrightarrow> \<not> mixed new"
proof -
  let ?qs = "map (\<lambda>u. DeleteMembership (tu_MembershipId u)) (tp_teamMembers p)"
  define as where "as = fst (ask_all srv ?qs l)"
  have as: "length as = length ?qs" "snd (ask_all srv ?qs l) = l @ zip ?qs as" using ask_all_log [of srv ?qs l] by (simp_all add: as_def)
  have new: "new = zip ?qs as" and q: "q = (if None \<in> set as then p
      else p\<lparr>tp_users := tp_users p @ tp_teamMembers p, tp_teamMembers := [], tp_leaderCount := 0\<rparr>)"
    using assms(3) as(2) by (auto simp: removeAllUsers_def Let_def case_prod_unfold as_def)
  have mixed: "mixed new \<longleftrightarrow> None \<in> set as \<and> \<not> set as \<subseteq> {None}" by (simp add: mixed_def new answers_of_zip as(1))
  show ?thesis
  proof (cases "None \<in> set as")
    case False
    obtain "is" where "as = map Some is" using answers_known [OF False] by blast
    then show ?thesis using all_removed [OF assms(1,2), of "is"] as(1) False mixed unfolding q new by simp
  next
    case True
    show ?thesis
    proof (cases "set as \<subseteq> {None}")
      case False
      then obtain i where "Some i \<in> set as" by (metis insertI1 not_None_eq subsetI)
      then show ?thesis using some_removed [OF assms(1,2), of as i] as(1) True False mixed unfolding q new by simp
    qed (use True assms(2) none_added mixed q new in simp)
  qed
qed

text \<open>
  C11. After any button of the page of a team, the page shows the memberships that the server has, exactly when the requests of
  the button were all accepted or all refused. When only some of the requests for all users are accepted, it does not.
\<close>

theorem page_follows_server:
  assumes "consistent T" and "shows_table T p" and "offered p a" and "team_act srv a p l = (q, l @ new)"
  shows "shows_table (table_after new T) q \<longleftrightarrow> \<not> mixed new"
proof (cases a)
  case (Promote u)
  then have "u \<in> set (tp_teamMembers p)" "\<not> leads u" using assms(3) by (simp_all add: leads_def)
  then show ?thesis using assms(2,4) Promote
      role_changed [OF assms(1,2), of u TeamLeader 1 "tp_leaderCount p + 1" "the (srv l (UpdateMembership (tu_MembershipId u) (tu_Id u) (tp_team p) 1))"]
    by (auto simp: promoteToLeader_def ask_def role_of_def)
next
  case (Demote u)
  then have "u \<in> set (tp_teamMembers p)" "leads u" using assms(3) by (simp_all add: leads_def)
  then show ?thesis using assms(2,4) Demote
      role_changed [OF assms(1,2), of u TeamMember 2 "tp_leaderCount p - 1" "the (srv l (UpdateMembership (tu_MembershipId u) (tu_Id u) (tp_team p) 2))"]
    by (auto simp: demoteToMember_def ask_def role_of_def)
next
  case (AddUser u)
  then show ?thesis using assms(2,3,4) user_added [OF assms(2), of u "the (srv l (CreateMembership (tu_Id u) (tp_team p) 2))"]
    by (auto simp: team_addUser_def ask_def)
next
  case (RemoveUser u)
  then show ?thesis using assms(2,3,4) user_removed [OF assms(1,2), of u "the (srv l (DeleteMembership (tu_MembershipId u)))"]
    by (auto simp: team_removeUser_def ask_def)
next
  case AddAll
  then show ?thesis using add_all_follows [OF assms(2)] assms(4) by simp
next
  case RemoveAll
  then show ?thesis using remove_all_follows [OF assms(1,2)] assms(4) by simp
qed

section \<open>The page as it is opened\<close>

lemma assigned_shows:
  assumes "shows_table T p" and "distinct (map tu_Id (us @ tp_users p @ tp_teamMembers p))"
  shows "shows_table T (assignUsersAndMembers us (filter (\<lambda>m. tm_TeamId m = tp_team p) T) p)"
  using assms
proof (induction us arbitrary: p)
  case (Cons u us)
  note s = Cons.prems(1) [unfolded shows_table_def]
  let ?ms = "filter (\<lambda>m. tm_TeamId m = tp_team p) T"
  have d: "distinct (map tu_Id us)" "tu_Id u \<notin> tu_Id ` set us" "tu_Id u \<notin> tu_Id ` (set (tp_users p) \<union> set (tp_teamMembers p))"
    "tu_Id ` set us \<inter> tu_Id ` (set (tp_users p) \<union> set (tp_teamMembers p)) = {}" "distinct (map tu_Id (tp_users p @ tp_teamMembers p))"
    using Cons.prems(2) by (simp_all add: image_Un Int_Un_distrib)
  show ?case
  proof (cases "List.find (\<lambda>m. tu_Id u = tm_UserId m) ?ms")
    case None
    let ?q = "p\<lparr>tp_users := tp_users p @ [u]\<rparr>"
    have "tm_UserId m \<noteq> tu_Id u" if "m \<in> set T" "tm_TeamId m = tp_team p" for m
      using None that by (auto simp: find_None_iff)
    then have "shows_table T ?q" using s d(3) by (simp add: shows_table_def image_Un)
    moreover have "distinct (map tu_Id (us @ tp_users ?q @ tp_teamMembers ?q))"
      using d by (simp add: image_Un Int_Un_distrib)
    ultimately have "shows_table T (assignUsersAndMembers us (filter (\<lambda>m. tm_TeamId m = tp_team ?q) T) ?q)" by (rule Cons.IH)
    moreover have "tp_team ?q = tp_team p" by simp
    ultimately show ?thesis by (simp only: assignUsersAndMembers.simps(2) None option.case)
  next
    case (Some m)
    let ?v = "u\<lparr>tu_TeamRole := Some (role_of m), tu_MembershipId := Some (tm_Id m)\<rparr>"
    let ?q = "p\<lparr>tp_leaderCount := (if tm_Role m = 1 then tp_leaderCount p + 1 else tp_leaderCount p),
      tp_teamMembers := tp_teamMembers p @ [?v]\<rparr>"
    obtain i where "i < length ?ms" "?ms ! i = m" "tu_Id u = tm_UserId m" using Some unfolding find_Some_iff by auto
    moreover from this have "m \<in> set ?ms" by (metis nth_mem)
    ultimately have "m \<in> set ?ms" "tu_Id u = tm_UserId m" by simp_all
    then have m: "m \<in> set T" "shown_as (tp_team p) ?v m" by (simp_all add: shown_as_def)
    have "leads ?v \<longleftrightarrow> tm_Role m = 1" by (simp add: leads_def role_of_def)
    then have "tp_leaderCount ?q = int (length (filter leads (tp_teamMembers ?q)))" using s by simp
    moreover have "\<exists>m \<in> set T. shown_as (tp_team p) x m" if "x \<in> set (tp_teamMembers ?q)" for x using that s m by auto
    moreover have "distinct (map tu_Id (tp_users ?q @ tp_teamMembers ?q))" using s d(3) by (simp add: image_Un)
    ultimately have "shows_table T ?q" using s unfolding shows_table_def by simp
    moreover have "distinct (map tu_Id (us @ tp_users ?q @ tp_teamMembers ?q))"
      using d by (simp add: image_Un Int_Un_distrib)
    ultimately have "shows_table T (assignUsersAndMembers us (filter (\<lambda>m. tm_TeamId m = tp_team ?q) T) ?q)" by (rule Cons.IH)
    moreover have "tp_team ?q = tp_team p" by simp
    ultimately show ?thesis by (simp only: assignUsersAndMembers.simps(2) Some option.case)
  qed
qed simp

lemma opened_shows:
  assumes "distinct (map uv_Id users)"
  shows "shows_table T (open_team team users (filter (\<lambda>m. tm_TeamId m = team) T))"
proof -
  let ?p = "\<lparr>tp_team = team, tp_users = [], tp_teamMembers = [], tp_leaderCount = 0\<rparr>"
  have "shows_table T ?p" by (simp add: shows_table_def)
  moreover have "distinct (map uv_Id (service_users False users))"
    using assms by (simp add: service_users_def non_administrators_def distinct_map_filter)
  ultimately show ?thesis using assigned_shows [of T ?p] by (simp add: open_team_def comp_def)
qed

section \<open>Creations that never end\<close>

text \<open>
  C12. The page that creates a user, or a team, is busy for ever exactly when the user or team was created and a membership was
  refused; it is loaded again exactly when everything was accepted.
\<close>

theorem creation_busy_iff:
  assumes "page_addUser srv f l = (busy, reloaded, l @ new)" and "addTeam srv name leaders l = (busy', reloaded', l @ new')"
  shows "(busy \<longleftrightarrow> (\<exists>q i. (q, Some i) \<in> set new) \<and> (\<exists>u t r. (CreateMembership u t r, None) \<in> set new)) \<and>
    (reloaded \<longleftrightarrow> None \<notin> snd ` set new) \<and>
    (busy' \<longleftrightarrow> (\<exists>q i. (q, Some i) \<in> set new') \<and> (\<exists>u t r. (CreateMembership u t r, None) \<in> set new')) \<and>
    (reloaded' \<longleftrightarrow> None \<notin> snd ` set new')"
proof -
  have created: "(busy \<longleftrightarrow> (\<exists>q i. (q, Some i) \<in> set new) \<and> (\<exists>u t r. (CreateMembership u t r, None) \<in> set new)) \<and>
      (reloaded \<longleftrightarrow> None \<notin> snd ` set new)"
    if c: "\<And>u t r. q \<noteq> CreateMembership u t r" and m: "\<And>i x. \<exists>u t r. member i x = CreateMembership u t r"
      and run: "settled_page (let (created, l1) = ask srv q l in case created of None \<Rightarrow> (RejectedWith msg, l1)
        | Some i \<Rightarrow> (let (answers, l2) = ask_all srv (map (member i) xs) l1
            in (if None \<in> set answers then Pending else Resolved, l2))) = (busy, reloaded, l @ new)"
    for q msg xs busy reloaded new and member :: "nat \<Rightarrow> nat \<Rightarrow> user_request"
  proof (cases "srv l q")
    case None
    then show ?thesis using run c by (auto simp: ask_def settled_page_def)
  next
    case (Some i)
    define as where "as = fst (ask_all srv (map (member i) xs) (l @ [(q, Some i)]))"
    have as: "length as = length xs" "snd (ask_all srv (map (member i) xs) (l @ [(q, Some i)])) = l @ (q, Some i) # zip (map (member i) xs) as"
      using ask_all_log [of srv "map (member i) xs" "l @ [(q, Some i)]"] by (simp_all add: as_def)
    have new: "new = (q, Some i) # zip (map (member i) xs) as" and b: "busy \<longleftrightarrow> None \<in> set as" "reloaded \<longleftrightarrow> None \<notin> set as"
      using run Some as by (auto simp: ask_def settled_page_def case_prod_unfold Let_def as_def split: if_splits)
    have answers: "snd ` set (zip (map (member i) xs) as) = set as" by (rule answers_of_zip) (simp add: as(1))
    then have "None \<in> set as \<longleftrightarrow> (\<exists>x. (x, None) \<in> set (zip (map (member i) xs) as))" by force
    also have "\<dots> \<longleftrightarrow> (\<exists>u t r. (CreateMembership u t r, None) \<in> set (zip (map (member i) xs) as))"
      using m by (metis (no_types, lifting) imageE list.set_map set_zip_leftD)
    finally show ?thesis using b answers unfolding new by auto
  qed
  show ?thesis
    using created [of "CreateUser (nu_Username f) (nu_Password f) (if nu_Administrator f then 1 else 2)" "\<lambda>i t. CreateMembership i t 2"
        "''Unable to create user''" "map tv_Id (nu_Teams f)" busy reloaded new]
      created [of "CreateTeam name" "\<lambda>i u. CreateMembership u i 1" "''Unable to create team''" "map uv_Id leaders" busy' reloaded' new'] assms
    by (simp add: page_addUser_def addTeam_def createUser_def createTeam_def)
qed

section \<open>A small team\<close>

definition small_memberships :: "team_membership list" where
  "small_memberships = [\<lparr>tm_Id = 7, tm_UserId = 2, tm_TeamId = 1, tm_Role = 1\<rparr>]"

definition small_team :: team_page where
  "small_team = open_team 1 (map (\<lambda>i. UserViewModel i ''u'' (if i = 1 then 1 else 2)) [1, 2, 3, 4]) small_memberships"

text \<open>The second request is refused.\<close>

definition short_server :: user_server where
  "short_server l q = (if length l = 1 then None else Some 8)"

lemma small_team_fields: "tp_team small_team = 1"
  "tp_users small_team = map (\<lambda>i. \<lparr>tu_Id = i, tu_Username = ''u'', tu_TeamRole = None, tu_MembershipId = None\<rparr>) [3, 4]"
  by (simp_all add: small_team_def open_team_def service_users_def non_administrators_def UserViewModel_def small_memberships_def)

lemma small_team_shows: "shows_table small_memberships small_team"
  using opened_shows [of "map (\<lambda>i. UserViewModel i ''u'' (if i = 1 then 1 else 2)) [1, 2, 3, 4]" small_memberships 1]
  by (simp add: small_team_def UserViewModel_def small_memberships_def)

lemma page_follows_server_witness:
  "\<not> shows_table (table_after (snd (team_act short_server AddAll small_team [])) small_memberships)
     (fst (team_act short_server AddAll small_team [])) \<and> consistent small_memberships"
proof -
  let ?r = "team_act short_server AddAll small_team []"
  have new: "snd ?r = [(CreateMembership 3 1 2, Some 8), (CreateMembership 4 1 2, None)]"
    by (simp add: addAllUsers_def ask_def short_server_def small_team_fields)
  have c: "consistent small_memberships" by (simp add: consistent_def small_memberships_def)
  have "team_act short_server AddAll small_team [] = (fst ?r, [] @ snd ?r)" by simp
  from page_follows_server [OF c small_team_shows _ this] new c show ?thesis by (simp add: mixed_def)
qed

definition two_teams :: new_user where
  "two_teams = \<lparr>nu_Username = ''ann'', nu_Password = ''secret'', nu_Administrator = False, nu_Teams = [\<lparr>tv_Id = 1, tv_Name = ''dev''\<rparr>]\<rparr>"

lemma creation_busy_iff_witness: "fst (page_addUser short_server two_teams []) \<and> fst (snd (addTeam short_server ''ops'' [] []))"
proof -
  let ?r = "page_addUser short_server two_teams []" and ?s = "addTeam short_server ''ops'' [] []"
  have new: "snd (snd ?r) = [(CreateUser ''ann'' ''secret'' 2, Some 8), (CreateMembership 8 1 2, None)]" "snd (snd ?s) = [(CreateTeam ''ops'', Some 8)]"
    by (simp_all add: page_addUser_def addTeam_def createUser_def createTeam_def settled_page_def ask_def short_server_def two_teams_def)
  have "?r = (fst ?r, fst (snd ?r), [] @ snd (snd ?r))" "?s = (fst ?s, fst (snd ?s), [] @ snd (snd ?s))" by simp_all
  from creation_busy_iff [OF this] new show ?thesis by auto
qed

end
