(* ===== verification/ImagePages.thy ===== *)
theory ImagePages
  imports ContainerPage BrowserStorage
begin

text \<open>
  Images of Docker: \<open>docker/services/imageService.js\<close>, the models under \<open>docker/models\<close> and the pages that list and show
  images. What the engine answers is a parameter; the target of a request is taken from the headers of the agent.
\<close>

section \<open>Models\<close>

record raw_details =
  rd_Id :: string
  rd_Tag :: "string option"
  rd_Parent :: string
  rd_Repository :: "string option"
  rd_Created :: string
  rd_RepoTags :: "string list"
  rd_VirtualSize :: nat
  rd_DockerVersion :: string
  rd_Os :: string
  rd_Architecture :: string
  rd_Author :: string
  rd_Cmd :: "string list option"
  rd_Entrypoint :: "string list option"
  rd_ExposedPorts :: "unit obj option"
  rd_Volumes :: "unit obj option"
  rd_Env :: "string list option"
  rd_Labels :: "string obj option"

record image_details =
  id_Id :: string
  id_Tag :: "string option"
  id_Parent :: string
  id_Repository :: "string option"
  id_Created :: string
  id_Checked :: bool
  id_RepoTags :: "string list"
  id_VirtualSize :: nat
  id_DockerVersion :: string
  id_Os :: string
  id_Architecture :: string
  id_Author :: string
  id_Command :: "string list option"
  id_Entrypoint :: "string list"
  id_ExposedPorts :: "string list"
  id_Volumes :: "string list"
  id_Env :: "string list"
  id_Labels :: "string obj option"

definition keys_or_none :: "unit obj option \<Rightarrow> string list" where
  "keys_or_none x = (case x of None \<Rightarrow> [] | Some os \<Rightarrow> obj_keys os)"

definition list_or_none :: "string list option \<Rightarrow> string list" where
  "list_or_none x = (case x of None \<Rightarrow> [] | Some xs \<Rightarrow> xs)"

definition ImageDetailsViewModel :: "raw_details \<Rightarrow> image_details" where
  "ImageDetailsViewModel d = \<lparr>id_Id = rd_Id d, id_Tag = rd_Tag d, id_Parent = rd_Parent d, id_Repository = rd_Repository d,
     id_Created = rd_Created d, id_Checked = False, id_RepoTags = rd_RepoTags d, id_VirtualSize = rd_VirtualSize d,
     id_DockerVersion = rd_DockerVersion d, id_Os = rd_Os d, id_Architecture = rd_Architecture d, id_Author = rd_Author d,
     id_Command = rd_Cmd d, id_Entrypoint = list_or_none (rd_Entrypoint d), id_ExposedPorts = keys_or_none (rd_ExposedPorts d),
     id_Volumes = keys_or_none (rd_Volumes d), id_Env = list_or_none (rd_Env d), id_Labels = rd_Labels d\<rparr>"

record raw_layer =
  rl_Id :: string
  rl_Created :: nat
  rl_CreatedBy :: string
  rl_Size :: nat
  rl_Comment :: string
  rl_Tags :: "string list option"

record image_layer =
  ly_Order :: nat
  ly_Id :: string
  ly_Created :: nat
  ly_CreatedBy :: string
  ly_Size :: nat
  ly_Comment :: string
  ly_Tags :: "string list option"

definition ImageLayerViewModel :: "nat \<Rightarrow> raw_layer \<Rightarrow> image_layer" where
  "ImageLayerViewModel order d = \<lparr>ly_Order = order, ly_Id = rl_Id d, ly_Created = rl_Created d, ly_CreatedBy = rl_CreatedBy d,
     ly_Size = rl_Size d, ly_Comment = rl_Comment d, ly_Tags = rl_Tags d\<rparr>"

section \<open>The service\<close>

text \<open>An engine answers data, a message instead of data, or it refuses.\<close>

datatype 'a engine_answer = Data 'a | Message string | Refused

definition service_image :: "raw_details engine_answer \<Rightarrow> string + image_details" where
  "service_image a = (case a of Data d \<Rightarrow> Inr (ImageDetailsViewModel d) | Message m \<Rightarrow> Inl m
     | Refused \<Rightarrow> Inl ''Unable to retrieve image details'')"

definition service_images :: "string list option \<Rightarrow> raw_image list option \<Rightarrow> string + image_view list" where
  "service_images containers images = (case (containers, images) of
       (Some cs, Some is) \<Rightarrow>
         Inr (map (\<lambda>i. ImageViewModel (i\<lparr>ri_ContainerCount := Some (length (filter (\<lambda>c. c = ri_Id i) cs))\<rparr>)) is)
     | _ \<Rightarrow> Inl ''Unable to retrieve images'')"

text \<open>The layers are numbered downwards, the last one is 1.\<close>

definition service_history :: "raw_layer list engine_answer \<Rightarrow> string + image_layer list" where
  "service_history a = (case a of
       Data ls \<Rightarrow> Inr (map2 ImageLayerViewModel (rev [1..<Suc (length ls)]) ls)
     | Message m \<Rightarrow> Inl m
     | Refused \<Rightarrow> Inl ''Unable to retrieve image details'')"

text \<open>
  A push and a pull reply a list of lines, of which the last tells the error: a field of each line. The last line of an empty
  list of a push does not exist, and the error that this throws is caught.
\<close>

definition pushImage :: "string option list option \<Rightarrow> string option" where
  "pushImage a = (case a of
       None \<Rightarrow> Some ''Unable to push image tag''
     | Some ls \<Rightarrow> if ls = [] then Some ''Unable to push image tag'' else if truthy_str (last ls) then last ls else None)"

definition pullImageAndAcknowledgeErrors :: "string option list option \<Rightarrow> string option" where
  "pullImageAndAcknowledgeErrors a = (case a of
       None \<Rightarrow> Some ''Unable to pull image''
     | Some ls \<Rightarrow> if ls = [] then None else last ls)"

definition images_pullAndIgnoreErrors :: "string option list option \<Rightarrow> string option" where
  "images_pullAndIgnoreErrors a = None"

definition pullImage :: "bool \<Rightarrow> string option list option \<Rightarrow> string option" where
  "pullImage ignoreErrors a = (if ignoreErrors then images_pullAndIgnoreErrors a else pullImageAndAcknowledgeErrors a)"

definition deleteImage :: "string option list option \<Rightarrow> string option" where
  "deleteImage a = (case a of
       None \<Rightarrow> Some ''Unable to remove image''
     | Some [] \<Rightarrow> Some ''Unable to remove image''
     | Some (m # ms) \<Rightarrow> if truthy_str m then m else None)"

text \<open>The tags of all images; those without a name are taken out of the images themselves.\<close>

definition without_none :: "image_view \<Rightarrow> image_view" where
  "without_none i = i\<lparr>iv_RepoTags := map_option (filter (\<lambda>t. \<not> contains t ''<none>'')) (iv_RepoTags i)\<rparr>"

definition tags_of :: "image_view \<Rightarrow> string list" where
  "tags_of i = (case iv_RepoTags i of None \<Rightarrow> [] | Some ts \<Rightarrow> uniq ts)"

definition getUniqueTagListFromImages :: "image_view list \<Rightarrow> string list \<times> image_view list" where
  "getUniqueTagListFromImages images = (uniq (concat (map (tags_of \<circ> without_none) images)), map without_none images)"

text \<open>An image whose list of tags is missing throws; one whose list is empty gives \<open>undefined\<close>.\<close>

definition downloadImages :: "image_view list \<Rightarrow> string option list js_result" where
  "downloadImages images = (if None \<in> set (map iv_RepoTags images) then Inl TypeError
     else Inr (getImagesNamesForDownload (map (\<lambda>i. \<lparr>ti_Id = iv_Id i, ti_RepoTags = the (iv_RepoTags i)\<rparr>) images)))"

section \<open>The list of images\<close>

text \<open>What is pulled, on which node, and whether the page is loaded again.\<close>

definition images_pullImage ::
    "string option \<Rightarrow> image_model \<Rightarrow> string option list option \<Rightarrow> agent_headers \<Rightarrow> string \<times> agent_headers \<times> bool" where
  "images_pullImage node m a h =
     (createImageConfigForContainer m, setPortainerAgentTargetHeader (or_str node []) h, pullImage False a = None)"

definition untagged :: "image_view \<Rightarrow> bool" where
  "untagged i = (case iv_RepoTags i of None \<Rightarrow> False | Some ts \<Rightarrow> list_ex (\<lambda>t. contains t ''<none>'') ts)"

definition isAuthorizedToDownload :: "image_view list \<Rightarrow> bool" where
  "isAuthorizedToDownload selected \<longleftrightarrow> \<not> list_ex untagged selected \<and> length (uniq_by iv_NodeName selected) \<le> 1"

definition node_or_none :: "image_view \<Rightarrow> string" where
  "node_or_none i = or_str (iv_NodeName i) []"

text \<open>The names that are asked for and the headers of the request.\<close>

definition exportImages :: "image_view list \<Rightarrow> agent_headers \<Rightarrow> string option list js_result \<times> agent_headers" where
  "exportImages images h = (downloadImages images, setPortainerAgentTargetHeader (node_or_none (hd images)) h)"

definition downloadAction :: "bool \<Rightarrow> image_view list \<Rightarrow> agent_headers \<Rightarrow> (string option list js_result \<times> agent_headers) option" where
  "downloadAction confirmed selected h = (if isAuthorizedToDownload selected \<and> confirmed then Some (exportImages selected h) else None)"

definition image_url :: "nat \<Rightarrow> string \<Rightarrow> string" where
  "image_url endpoint i = ''api/endpoints/'' @ show_nat endpoint @ ''/docker/images/'' @ i"

text \<open>
  The target of each removal is queued as the loop runs; the requests take their targets when they are sent, after the loop. An
  image that is removed leaves the list (and when the list was loaded again meanwhile and does not have it, the last one
  leaves). The result: the addresses with the headers they are sent with, the list, and whether the page is loaded again.
\<close>

definition images_removeAction ::
    "nat \<Rightarrow> (image_view \<Rightarrow> string option list option) \<Rightarrow> image_view list \<Rightarrow> image_view list \<Rightarrow> agent_headers \<Rightarrow>
     (string \<times> (string option \<times> bool) option) list \<times> image_view list \<times> bool" where
  "images_removeAction endpoint reply selected images h =
     (let urls = map (image_url endpoint \<circ> iv_Id) selected
      in zip urls (send_requests urls (fold setPortainerAgentTargetHeader (map node_or_none selected) h)),
      fold splice_out (filter (\<lambda>i. deleteImage (reply i) = None) selected) images, selected \<noteq> [])"

definition confirmRemovalAction ::
    "bool \<Rightarrow> nat \<Rightarrow> (image_view \<Rightarrow> string option list option) \<Rightarrow> image_view list \<Rightarrow> image_view list \<Rightarrow> agent_headers \<Rightarrow>
     (string \<times> (string option \<times> bool) option) list \<times> image_view list \<times> bool" where
  "confirmRemovalAction confirmed endpoint reply selected images h =
     (if confirmed then images_removeAction endpoint reply selected images h else ([], images, False))"

text \<open>The filter of the table by use.\<close>

definition images_applyFilters :: "bool \<Rightarrow> bool \<Rightarrow> image_view \<Rightarrow> bool" where
  "images_applyFilters showUsed showUnused i \<longleftrightarrow>
     (iv_ContainerCount i = Some 0 \<and> showUnused) \<or> (iv_ContainerCount i \<noteq> Some 0 \<and> showUsed)"

definition images_onstateFilterChange :: "bool \<Rightarrow> bool \<Rightarrow> bool" where
  "images_onstateFilterChange showUsed showUnused \<longleftrightarrow> \<not> showUsed \<or> \<not> showUnused"

section \<open>The page of an image\<close>

definition image_order :: "string \<Rightarrow> string \<times> bool \<Rightarrow> string \<times> bool" where
  "image_order t s = (t, if fst s = t then \<not> snd s else False)"

definition tagImage :: "image_model \<Rightarrow> string" where
  "tagImage m = createImageConfigForContainer m"

text \<open>A tag is pushed and pulled under the name that its registry gives it.\<close>

definition pushTag :: "registry list option \<Rightarrow> string \<Rightarrow> string option" where
  "pushTag registries repository = map_option (\<lambda>rs. createImageConfigForContainer (retrievePorRegistryModel repository rs)) registries"

definition pullTag :: "registry list option \<Rightarrow> string \<Rightarrow> string option" where
  "pullTag registries repository = map_option (\<lambda>rs. createImageConfigForContainer (retrievePorRegistryModel repository rs)) registries"

datatype image_route = ImagesRoute | ImageRoute

definition removeTag :: "string option list option \<Rightarrow> image_details \<Rightarrow> image_route option" where
  "removeTag a i = (if deleteImage a = None then Some (if length (id_RepoTags i) = 1 then ImagesRoute else ImageRoute) else None)"

definition removeImage :: "string option list option \<Rightarrow> image_route option" where
  "removeImage a = (if deleteImage a = None then Some ImagesRoute else None)"

text \<open>The page compares a tag as a whole with the text for none, which no tag is.\<close>

definition exportImage :: "bool \<Rightarrow> image_details \<Rightarrow> string option list option" where
  "exportImage confirmed i = (if id_RepoTags i = [] \<or> ''<none>'' \<in> set (id_RepoTags i) \<or> \<not> confirmed then None
     else Some (getImagesNamesForDownload [\<lparr>ti_Id = id_Id i, ti_RepoTags = id_RepoTags i\<rparr>]))"

section \<open>Removal of images on several nodes\<close>

text \<open>
  C15. Selected images of the list that have a node are removed each by its own request on its own node, in their order,
  whatever their number; exactly those whose removal is accepted leave the list, and the page is loaded again. Were an
  accepted one not in the list any more, the last one would leave it.
\<close>

theorem images_removed_on_their_nodes:
  assumes "selected \<noteq> []" and "[] \<notin> set (map node_or_none selected)" and "ah_queue h = []"
    and "distinct images" and "distinct selected" and "set selected \<subseteq> set images"
  shows "images_removeAction endpoint reply selected images h =
      (map (\<lambda>i. (image_url endpoint (iv_Id i), Some (iv_NodeName i, ah_manager h))) selected,
       filter (\<lambda>i. \<not> (i \<in> set selected \<and> deleteImage (reply i) = None)) images, True) \<and>
    (x \<notin> set images \<and> deleteImage (reply x) = None \<longrightarrow>
       fst (snd (images_removeAction endpoint reply [x] images h)) = butlast images)"
proof -
  let ?urls = "map (image_url endpoint \<circ> iv_Id) selected"
  define g where "g = fold setPortainerAgentTargetHeader (map node_or_none selected) h"
  have g: "ah_queue g = map node_or_none selected" "ah_manager g = ah_manager h"
    using headers_queued [OF assms(2)] assms(3) by (simp_all add: g_def)
  obtain v vs where v: "map node_or_none selected = v # vs" using assms(1) by (cases "map node_or_none selected") auto
  have "contains u ''/docker/''" if "u \<in> set ?urls" for u
    using that by (auto simp: image_url_def contains_iff) (metis append.assoc append_Cons append_Nil)
  then have "send_requests ?urls g = map (\<lambda>t. Some (Some t, ah_manager g)) (take (length ?urls) (v # vs) @
      replicate (length ?urls - length (v # vs)) (last (v # vs)))"
    using g(1) v by (intro sent_queue) auto
  then have "send_requests ?urls g = map (\<lambda>t. Some (Some t, ah_manager h)) (map node_or_none selected)"
    using g(2) by (simp add: v [symmetric])
  moreover have "Some (node_or_none x) = iv_NodeName x" if "x \<in> set selected" for x
    using assms(2) that by (cases "iv_NodeName x") (auto simp: node_or_none_def or_str_def truthy_str_def image_iff)
  ultimately have "send_requests ?urls g = map (\<lambda>i. Some (iv_NodeName i, ah_manager h)) selected" by simp
  then have "zip ?urls (send_requests ?urls g) =
      map (\<lambda>i. (image_url endpoint (iv_Id i), Some (iv_NodeName i, ah_manager h))) selected"
    by (simp add: zip_map_map zip_same_conv_map)
  moreover have "fold splice_out (filter (\<lambda>i. deleteImage (reply i) = None) selected) images =
      filter (\<lambda>i. \<not> (i \<in> set selected \<and> deleteImage (reply i) = None)) images"
    using assms(4-6) by (subst spliced_out) auto
  ultimately have "images_removeAction endpoint reply selected images h =
      (map (\<lambda>i. (image_url endpoint (iv_Id i), Some (iv_NodeName i, ah_manager h))) selected,
       filter (\<lambda>i. \<not> (i \<in> set selected \<and> deleteImage (reply i) = None)) images, True)"
    using assms(1) by (simp add: images_removeAction_def Let_def g_def)
  then show ?thesis by (auto simp: images_removeAction_def splice_out_def)
qed

section \<open>Names that are downloaded\<close>

lemma get_url: "contains (image_url endpoint ''get'') ''/docker/''"
  by (auto simp: image_url_def contains_iff) (metis append.assoc append_Cons append_Nil)

text \<open>
  C16. The images that the list lets be downloaded are asked for by tags that are names, and they are all on one node, which
  the request is sent to when it has a name; but an image without any tag is let through, and is asked for without a name.
  The page of an image refuses that one, and lets an image through whose tag is no name, which it then asks for.
\<close>

theorem downloaded_names:
  assumes "downloadAction True selected h = Some (Inr names, h')" and "selected \<noteq> []" and "ah_queue h = []"
    and "id_RepoTags d = (r @ '':<none>'') # ts" and "''<none>'' \<notin> set ts" and "r \<noteq> ''<none>''"
  shows "(Some t \<in> set names \<longrightarrow> \<not> contains t ''<none>'') \<and>
    (None \<in> set names \<longleftrightarrow> (\<exists>i \<in> set selected. iv_RepoTags i = Some [])) \<and>
    (\<exists>node. iv_NodeName ` set selected = {node} \<and>
       (truthy_str node \<longrightarrow> send_requests [image_url endpoint ''get''] h' = [Some (node, ah_manager h)])) \<and>
    exportImage True d = Some [Some (r @ '':<none>'')]"
proof -
  have a: "isAuthorizedToDownload selected" "downloadImages selected = Inr names"
    using assms(1) by (auto simp: downloadAction_def exportImages_def split: if_splits)
  have tags: "\<exists>ts. iv_RepoTags i = Some ts \<and> (\<forall>t \<in> set ts. \<not> contains t ''<none>'')" if "i \<in> set selected" for i
  proof -
    have "None \<notin> iv_RepoTags ` set selected" using a(2) by (simp add: downloadImages_def split: if_splits)
    then have "iv_RepoTags i \<noteq> None" using that by (metis imageI)
    then obtain ts where "iv_RepoTags i = Some ts" by blast
    moreover have "\<not> untagged i" using a(1) that by (auto simp: isAuthorizedToDownload_def list_ex_iff)
    ultimately show ?thesis by (auto simp: untagged_def list_ex_iff)
  qed
  have names: "names = map (\<lambda>i. elem_at (the (iv_RepoTags i)) 0) selected"
  proof -
    have "elem_at (the (iv_RepoTags i)) 0 \<noteq> Some ''<none>:<none>''" if i: "i \<in> set selected" for i
    proof -
      obtain ts where ts: "iv_RepoTags i = Some ts" "\<forall>t \<in> set ts. \<not> contains t ''<none>''" using tags [OF i] by blast
      have "contains ''<none>:<none>'' ''<none>''" by code_simp
      then show ?thesis using ts by (cases ts) auto
    qed
    then show ?thesis using a(2) by (auto simp: downloadImages_def getImagesNamesForDownload_def split: if_splits)
  qed
  have first: "elem_at ts 0 = (case ts of [] \<Rightarrow> None | x # xs \<Rightarrow> Some x)" for ts :: "string list" by (cases ts) simp_all
  have "\<not> contains t ''<none>''" if t: "Some t \<in> set names"
  proof -
    obtain i where i: "i \<in> set selected" "elem_at (the (iv_RepoTags i)) 0 = Some t" using t unfolding names by auto
    then show ?thesis using tags [OF i(1)] by (auto simp: first split: list.splits)
  qed
  moreover have "None \<in> set names \<longleftrightarrow> (\<exists>i \<in> set selected. iv_RepoTags i = Some [])"
  proof
    assume "None \<in> set names"
    then obtain i where "i \<in> set selected" "elem_at (the (iv_RepoTags i)) 0 = None" unfolding names by auto
    then show "\<exists>i \<in> set selected. iv_RepoTags i = Some []" using tags by (force simp: first split: list.splits)
  qed (force simp: names first)
  moreover have "\<exists>node. iv_NodeName ` set selected = {node} \<and>
     (truthy_str node \<longrightarrow> send_requests [image_url endpoint ''get''] h' = [Some (node, ah_manager h)])"
  proof (intro exI conjI impI)
    let ?node = "iv_NodeName (hd selected)"
    obtain x xs where x: "uniq_by iv_NodeName selected = x # xs" using assms(2) by (cases selected) auto
    then have "uniq_by iv_NodeName selected = [x]" using a(1) by (simp add: isAuthorizedToDownload_def)
    then have one: "iv_NodeName ` set selected = {iv_NodeName x}" using map_uniq_by_set [of iv_NodeName selected] by auto
    then have "?node = iv_NodeName x" using assms(2) hd_in_set [of selected] by (metis imageI singletonD)
    with one show "iv_NodeName ` set selected = {?node}" by simp
    assume "truthy_str ?node"
    then obtain n where n: "?node = Some n" "n \<noteq> []" by (cases ?node) (auto simp: truthy_str_def)
    have "h' = setPortainerAgentTargetHeader (node_or_none (hd selected)) h"
      using assms(1) by (auto simp: downloadAction_def exportImages_def split: if_splits)
    then have "ah_queue h' = [n]" "ah_manager h' = ah_manager h"
      using n assms(3) by (simp_all add: node_or_none_def or_str_def truthy_str_def setPortainerAgentTargetHeader_def)
    then show "send_requests [image_url endpoint ''get''] h' = [Some (?node, ah_manager h)]"
      using n get_url [of endpoint] by (simp add: request_headers_def portainerAgentTargetHeader_def)
  qed
  moreover have "exportImage True d = Some [Some (r @ '':<none>'')]"
  proof -
    have "''<none>'' \<noteq> r @ '':<none>''" using arg_cong [of "''<none>''" "r @ '':<none>''" length] by auto
    moreover have "r @ '':<none>'' \<noteq> ''<none>:<none>''" using assms(6) append_same_eq [of r "'':<none>''" "''<none>''"] by auto
    ultimately show ?thesis using assms(4,5) by (simp add: exportImage_def getImagesNamesForDownload_def)
  qed
  ultimately show ?thesis by blast
qed

section \<open>Two images\<close>

definition some_image :: "string \<Rightarrow> string list \<Rightarrow> string \<Rightarrow> image_view" where
  "some_image i tags node = \<lparr>iv_Id = i, iv_Tag = None, iv_Repository = None, iv_Created = 0, iv_Checked = True, iv_RepoTags = Some tags,
     iv_VirtualSize = 0, iv_ContainerCount = Some 0, iv_NodeName = Some node, iv_Labels = None\<rparr>"

definition two_images :: "image_view list" where
  "two_images = [some_image ''x'' [''web:1''] ''n1'', some_image ''y'' [] ''n2'']"

text \<open>The engine refuses to remove the second image.\<close>

definition used_image :: "image_view \<Rightarrow> string option list option" where
  "used_image i = Some [if iv_Id i = ''y'' then Some ''image is being used'' else None]"

theorem images_removed_on_their_nodes_witness:
  "images_removeAction 1 used_image two_images two_images no_headers =
     ([(image_url 1 ''x'', Some (Some ''n1'', False)), (image_url 1 ''y'', Some (Some ''n2'', False))],
      [some_image ''y'' [] ''n2''], True)"
proof -
  have d: "distinct two_images" "set two_images \<subseteq> set two_images" by (simp_all add: two_images_def some_image_def)
  have n: "two_images \<noteq> []" "[] \<notin> set (map node_or_none two_images)" "ah_queue no_headers = []"
    by (simp_all add: two_images_def node_or_none_def some_image_def or_str_def truthy_str_def no_headers_def)
  from images_removed_on_their_nodes [OF n d(1) d, of 1 used_image] show ?thesis
    by (simp add: two_images_def some_image_def no_headers_def used_image_def deleteImage_def truthy_str_def)
qed

definition nameless_image :: image_details where
  "nameless_image = ImageDetailsViewModel \<lparr>rd_Id = ''z'', rd_Tag = None, rd_Parent = [], rd_Repository = None, rd_Created = [],
     rd_RepoTags = [''web:<none>''], rd_VirtualSize = 0, rd_DockerVersion = [], rd_Os = [], rd_Architecture = [], rd_Author = [],
     rd_Cmd = None, rd_Entrypoint = None, rd_ExposedPorts = None, rd_Volumes = None, rd_Env = None, rd_Labels = None\<rparr>"

theorem downloaded_names_witness:
  "None \<in> set (projr (downloadImages [some_image ''y'' [] ''n2''])) \<and> exportImage True nameless_image = Some [Some ''web:<none>''] \<and>
   send_requests [image_url 1 ''get''] (setPortainerAgentTargetHeader ''n2'' no_headers) = [Some (Some ''n2'', False)]"
proof -
  have a: "downloadAction True [some_image ''y'' [] ''n2''] no_headers =
      Some (Inr [None], setPortainerAgentTargetHeader ''n2'' no_headers)" "downloadImages [some_image ''y'' [] ''n2''] = Inr [None]"
    by (simp_all add: downloadAction_def exportImages_def isAuthorizedToDownload_def untagged_def some_image_def downloadImages_def
        getImagesNamesForDownload_def node_or_none_def or_str_def truthy_str_def)
  have d: "id_RepoTags nameless_image = (''web'' @ '':<none>'') # []" by (simp add: nameless_image_def ImageDetailsViewModel_def)
  have q: "ah_queue no_headers = []" "ah_manager no_headers = False" by (simp_all add: no_headers_def)
  from downloaded_names [OF a(1) _ q(1) d, where endpoint = 1] a(2) q(2) show ?thesis
    by (simp add: some_image_def truthy_str_def del: send_requests.simps)
qed

end
