(* ===== verification/RegistryPages.thy ===== *)
theory RegistryPages
  imports DockerHelpers
begin

text \<open>
  Registries: \<open>portainer/models/registry.js\<close>, the requests of \<open>portainer/services/api/registryService.js\<close> and the pages that create
  and edit a registry under \<open>portainer/views/registries\<close>.
\<close>

section \<open>The form\<close>

record gitlab_part =
  gp_ProjectId :: "nat option"
  gp_InstanceURL :: string
  gp_ProjectPath :: string

record quay_part =
  qp_useOrganisation :: bool
  qp_organisationName :: string

record registry_form =
  rz_Type :: registry_type
  rz_Name :: string
  rz_URL :: string
  rz_BaseURL :: string
  rz_Authentication :: bool
  rz_Username :: string
  rz_Password :: string
  rz_Token :: string
  rz_Gitlab :: "gitlab_part option"
  rz_Quay :: "quay_part option"

definition RegistryCreateFormValues :: registry_form where
  "RegistryCreateFormValues = \<lparr>rz_Type = CUSTOM, rz_Name = [], rz_URL = [], rz_BaseURL = [], rz_Authentication = False, rz_Username = [],
     rz_Password = [], rz_Token = [], rz_Gitlab = None, rz_Quay = None\<rparr>"

definition useDefaultQuayConfiguration :: "registry_form \<Rightarrow> registry_form" where
  "useDefaultQuayConfiguration f = f\<lparr>rz_Quay := Some \<lparr>qp_useOrganisation = False, qp_organisationName = []\<rparr>\<rparr>"

definition selectQuayRegistry :: "registry_form \<Rightarrow> registry_form" where
  "selectQuayRegistry f = useDefaultQuayConfiguration (f\<lparr>rz_Name := ''Quay'', rz_URL := ''quay.io'', rz_Authentication := True\<rparr>)"

definition useDefaultGitlabConfiguration :: "registry_form \<Rightarrow> registry_form" where
  "useDefaultGitlabConfiguration f = f\<lparr>rz_URL := ''https://registry.gitlab.com'',
     rz_Gitlab := map_option (\<lambda>g. g\<lparr>gp_InstanceURL := ''https://gitlab.com''\<rparr>) (rz_Gitlab f)\<rparr>"

definition selectGitlabRegistry :: "registry_form \<Rightarrow> registry_form" where
  "selectGitlabRegistry f = useDefaultGitlabConfiguration (f\<lparr>rz_Name := [], rz_Authentication := True,
     rz_Gitlab := Some \<lparr>gp_ProjectId = None, gp_InstanceURL = [], gp_ProjectPath = []\<rparr>\<rparr>)"

definition selectAzureRegistry :: "registry_form \<Rightarrow> registry_form" where
  "selectAzureRegistry f = f\<lparr>rz_Name := [], rz_URL := [], rz_Authentication := True\<rparr>"

definition selectProGetRegistry :: "registry_form \<Rightarrow> registry_form" where
  "selectProGetRegistry f = f\<lparr>rz_Name := [], rz_URL := [], rz_BaseURL := [], rz_Authentication := True\<rparr>"

definition selectCustomRegistry :: "registry_form \<Rightarrow> registry_form" where
  "selectCustomRegistry f = f\<lparr>rz_Name := [], rz_URL := [], rz_Authentication := False\<rparr>"

definition selectDockerHub :: "registry_form \<Rightarrow> registry_form" where
  "selectDockerHub f = f\<lparr>rz_Name := [], rz_URL := ''docker.io'', rz_Authentication := True\<rparr>"

section \<open>The requests\<close>

text \<open>\<open>/^https?:\/\//i\<close> and \<open>/\/$/\<close>, each replaced once.\<close>

definition strip_scheme :: "string \<Rightarrow> string" where
  "strip_scheme s = (if starts_with (to_lower s) ''http://'' then drop 7 s
     else if starts_with (to_lower s) ''https://'' then drop 8 s else s)"

definition strip_slash :: "string \<Rightarrow> string" where
  "strip_slash s = (if s \<noteq> [] \<and> last s = CHR ''/'' then butlast s else s)"

definition clean_url :: "string \<Rightarrow> string" where
  "clean_url s = strip_slash (strip_scheme s)"

record registry_request =
  rr_Name :: string
  rr_Type :: registry_type
  rr_URL :: string
  rr_Authentication :: bool
  rr_Credentials :: "(string \<times> string) option"
  rr_Gitlab :: "gitlab_part option"
  rr_Quay :: "quay_part option"
  rr_BaseURL :: "string option"

definition RegistryCreateRequest :: "registry_form \<Rightarrow> registry_request js_result" where
  "RegistryCreateRequest f =
     (if rz_Type f = GITLAB \<and> rz_Gitlab f = None \<or> rz_Type f = QUAY \<and> rz_Quay f = None then Inl TypeError
      else Inr \<lparr>rr_Name = rz_Name f, rr_Type = rz_Type f, rr_URL = clean_url (rz_URL f), rr_Authentication = rz_Authentication f,
        rr_Credentials = (if rz_Authentication f then Some (rz_Username f, rz_Password f) else None),
        rr_Gitlab = (if rz_Type f = GITLAB then rz_Gitlab f else None), rr_Quay = (if rz_Type f = QUAY then rz_Quay f else None),
        rr_BaseURL = (if rz_Type f = PROGET then Some (clean_url (rz_BaseURL f)) else None)\<rparr>)"

text \<open>The address of a registry that is edited is cleaned in the model of the page; its password is the one of the form.\<close>

definition updateRegistry :: "string \<Rightarrow> registry_form \<Rightarrow> registry_form" where
  "updateRegistry password r = r\<lparr>rz_Password := password, rz_URL := clean_url (rz_URL r)\<rparr>"

text \<open>What the page does after a creation: the route, or nothing when it was refused or the request could not be made.\<close>

definition page_createRegistry :: "(registry_request \<Rightarrow> bool) \<Rightarrow> registry_form \<Rightarrow> registry_request list \<times> bool" where
  "page_createRegistry accepts f = (case RegistryCreateRequest f of Inl e \<Rightarrow> ([], False) | Inr r \<Rightarrow> ([r], accepts r))"

text \<open>
  One request for each project of GitLab. The model is the same object for all of them, and each request is made before the model
  is changed for the next project.
\<close>

record gitlab_choice =
  gx_Id :: nat
  gx_PathWithNamespace :: string

definition with_project :: "gitlab_choice \<Rightarrow> registry_form \<Rightarrow> registry_form js_result" where
  "with_project p f = (case rz_Gitlab f of None \<Rightarrow> Inl TypeError
     | Some g \<Rightarrow> Inr (f\<lparr>rz_Name := gx_PathWithNamespace p, rz_Password := rz_Token f,
         rz_Gitlab := Some (g\<lparr>gp_ProjectPath := to_lower (gx_PathWithNamespace p), gp_ProjectId := Some (gx_Id p)\<rparr>)\<rparr>))"

fun createGitlabRegistries :: "gitlab_choice list \<Rightarrow> registry_form \<Rightarrow> (registry_request list \<times> registry_form) js_result" where
  "createGitlabRegistries [] f = Inr ([], f)"
| "createGitlabRegistries (p # ps) f = and_then (with_project p f) (\<lambda>g.
     and_then (RegistryCreateRequest g) (\<lambda>r.
     and_then (createGitlabRegistries ps g) (\<lambda>(rs, h). Inr (r # rs, h))))"

record registry_management =
  rm_Authentication :: bool
  rm_Username :: "string option"
  rm_TLS :: bool

definition RegistryManagementConfigurationDefaultModel :: "registry_form \<Rightarrow> registry_management" where
  "RegistryManagementConfigurationDefaultModel r =
     (if rz_Type r \<in> {QUAY, AZURE} then \<lparr>rm_Authentication = True, rm_Username = Some (rz_Username r), rm_TLS = True\<rparr>
      else if rz_Type r \<in> {CUSTOM, PROGET} \<and> rz_Authentication r
      then \<lparr>rm_Authentication = True, rm_Username = Some (rz_Username r), rm_TLS = False\<rparr>
      else \<lparr>rm_Authentication = False, rm_Username = None, rm_TLS = False\<rparr>)"

section \<open>Addresses\<close>

definition has_scheme :: "string \<Rightarrow> bool" where
  "has_scheme s \<longleftrightarrow> starts_with (to_lower s) ''http://'' \<or> starts_with (to_lower s) ''https://''"

lemma clean_url_length: "length (clean_url s) \<le> length s"
  by (simp add: clean_url_def strip_slash_def strip_scheme_def)

lemma scheme_nonempty: "has_scheme s \<Longrightarrow> s \<noteq> []"
  by (auto simp: has_scheme_def to_lower_def starts_with_iff)

lemma clean_url_fixed: "clean_url s = s \<longleftrightarrow> \<not> has_scheme s \<and> \<not> (s \<noteq> [] \<and> last s = CHR ''/'')"
proof
  assume c: "clean_url s = s"
  have "\<not> has_scheme s"
  proof
    assume h: "has_scheme s"
    then have "length (strip_scheme s) < length s" using scheme_nonempty [OF h] by (auto simp: strip_scheme_def has_scheme_def)
    moreover have "length (strip_slash t) \<le> length t" for t by (simp add: strip_slash_def)
    ultimately have "length (clean_url s) < length s" unfolding clean_url_def by (meson le_less_trans)
    then show False using c by simp
  qed
  moreover from this have "strip_scheme s = s" by (simp add: strip_scheme_def has_scheme_def)
  moreover have "s \<noteq> [] \<Longrightarrow> butlast s \<noteq> s" by (metis append_butlast_last_id append_self_conv list.discI)
  ultimately show "\<not> has_scheme s \<and> \<not> (s \<noteq> [] \<and> last s = CHR ''/'')" using c by (auto simp: clean_url_def strip_slash_def)
qed (auto simp: clean_url_def strip_slash_def strip_scheme_def has_scheme_def)

text \<open>
  A registry that is created and then edited without a change keeps its address exactly when the address that was sent has no
  further protocol in front and no further slash at its end.
\<close>

lemma created_address_kept:
  assumes "RegistryCreateRequest f = Inr r" and "rz_URL g = rr_URL r"
  shows "rz_URL (updateRegistry password g) = rr_URL r \<longleftrightarrow> \<not> has_scheme (rr_URL r) \<and> \<not> (rr_URL r \<noteq> [] \<and> last (rr_URL r) = CHR ''/'')"
  using clean_url_fixed [of "rr_URL r"] assms(2) by (simp add: updateRegistry_def)

text \<open>The shared model does not mix the projects up: each request has the name and the path of its own project.\<close>

lemma gitlab_requests:
  assumes "createGitlabRegistries ps f = Inr (rs, h)" and "rz_Type f = GITLAB"
  shows "map rr_Name rs = map gx_PathWithNamespace ps \<and>
    map (map_option (\<lambda>g. (gp_ProjectId g, gp_ProjectPath g)) \<circ> rr_Gitlab) rs =
      map (\<lambda>p. Some (Some (gx_Id p), to_lower (gx_PathWithNamespace p))) ps"
  using assms
proof (induction ps arbitrary: f rs)
  case (Cons p ps)
  then obtain g r rs' where g: "with_project p f = Inr g" "RegistryCreateRequest g = Inr r" "createGitlabRegistries ps g = Inr (rs', h)"
    "rs = r # rs'" by (auto elim!: and_then_InrE)
  have "rz_Type g = GITLAB" using g(1) Cons.prems(2) by (auto simp: with_project_def split: option.splits)
  moreover from this have "rr_Name r = rz_Name g" "rr_Gitlab r = rz_Gitlab g" using g(2) by (auto simp: RegistryCreateRequest_def split: if_splits)
  moreover have "rz_Name g = gx_PathWithNamespace p" "map_option (\<lambda>x. (gp_ProjectId x, gp_ProjectPath x)) (rz_Gitlab g) =
      Some (Some (gx_Id p), to_lower (gx_PathWithNamespace p))"
    using g(1) by (auto simp: with_project_def split: option.splits)
  ultimately show ?case using Cons.IH [OF g(3)] g(4) by simp
qed simp

end
