(* ===== verification/KubeFilters.thy ===== *)
theory KubeFilters
  imports KubeWorkload KubePorts Complex_Main
begin

text \<open>
  The texts and icons in which the pages of Kubernetes show types: \<open>kubernetes/filters\<close>. A filter that has no text for a value
  shows nothing.
\<close>

fun service_type_name :: "service_type \<Rightarrow> string" where
  "service_type_name UNSET = []"
| "service_type_name LOAD_BALANCER = ''LoadBalancer''"
| "service_type_name NODE_PORT = ''NodePort''"
| "service_type_name CLUSTER_IP = ''ClusterIP''"
| "service_type_name (OTHER_TYPE t) = t"

definition kubernetesApplicationServiceTypeIcon :: "string \<Rightarrow> string option" where
  "kubernetesApplicationServiceTypeIcon t =
     map_of [(''loadbalancer'', ''fa-project-diagram''), (''clusterip'', ''fa-list-alt''), (''nodeport'', ''fa-list'')] (to_lower t)"

definition kubernetesApplicationServiceTypeText :: "string \<Rightarrow> string option" where
  "kubernetesApplicationServiceTypeText t =
     map_of [(''loadbalancer'', ''Load balancer''), (''clusterip'', ''Internal''), (''nodeport'', ''Cluster'')] (to_lower t)"

fun kubernetesApplicationPortsTableHeaderText :: "service_type \<Rightarrow> string option" where
  "kubernetesApplicationPortsTableHeaderText LOAD_BALANCER = Some ''Load balancer''"
| "kubernetesApplicationPortsTableHeaderText CLUSTER_IP = Some ''Application''"
| "kubernetesApplicationPortsTableHeaderText NODE_PORT = Some ''Cluster node''"
| "kubernetesApplicationPortsTableHeaderText t = None"

fun kubernetesApplicationTypeText :: "application_type option \<Rightarrow> string" where
  "kubernetesApplicationTypeText (Some DEPLOYMENT) = ''Deployment''"
| "kubernetesApplicationTypeText (Some DAEMONSET) = ''DaemonSet''"
| "kubernetesApplicationTypeText (Some STATEFULSET) = ''StatefulSet''"
| "kubernetesApplicationTypeText (Some POD) = ''Pod''"
| "kubernetesApplicationTypeText None = ''-''"

fun kubernetesApplicationDataAccessPolicyIcon :: "data_access option \<Rightarrow> string option" where
  "kubernetesApplicationDataAccessPolicyIcon (Some ISOLATED) = Some ''fa-cubes''"
| "kubernetesApplicationDataAccessPolicyIcon (Some SHARED) = Some ''fa-cube''"
| "kubernetesApplicationDataAccessPolicyIcon None = None"

fun kubernetesApplicationDataAccessPolicyText :: "data_access option \<Rightarrow> string option" where
  "kubernetesApplicationDataAccessPolicyText (Some ISOLATED) = Some ''Isolated''"
| "kubernetesApplicationDataAccessPolicyText (Some SHARED) = Some ''Shared''"
| "kubernetesApplicationDataAccessPolicyText None = None"

fun kubernetesApplicationDataAccessPolicyTooltip :: "data_access option \<Rightarrow> string option" where
  "kubernetesApplicationDataAccessPolicyTooltip (Some ISOLATED) = Some ''All the instances of this application are using their own data.''"
| "kubernetesApplicationDataAccessPolicyTooltip (Some SHARED) = Some ''All the instances of this application are sharing the same data.''"
| "kubernetesApplicationDataAccessPolicyTooltip None = None"

text \<open>The values of a requirement on a node as they are shown: a list, or one text.\<close>

datatype shown_values = ShownList "string list" | ShownText "string option"

fun kubernetesApplicationConstraintNodeAffinityValue :: "string list \<Rightarrow> selector_operator option \<Rightarrow> shown_values" where
  "kubernetesApplicationConstraintNodeAffinityValue vs (Some IN) = ShownList vs"
| "kubernetesApplicationConstraintNodeAffinityValue vs (Some NOT_IN) = ShownList vs"
| "kubernetesApplicationConstraintNodeAffinityValue vs (Some EXISTS) = ShownText (Some [])"
| "kubernetesApplicationConstraintNodeAffinityValue vs (Some DOES_NOT_EXIST) = ShownText (Some [])"
| "kubernetesApplicationConstraintNodeAffinityValue vs (Some GREATER_THAN) = ShownText (elem_at vs 0)"
| "kubernetesApplicationConstraintNodeAffinityValue vs (Some LOWER_THAN) = ShownText (elem_at vs 0)"
| "kubernetesApplicationConstraintNodeAffinityValue vs None = ShownText (Some [])"

definition kubernetesNodeLabelHumanReadbleText :: "string \<Rightarrow> string" where
  "kubernetesNodeLabelHumanReadbleText t = or_str (map_of [(''kubernetes.io/os'', ''Operating system''),
     (''kubernetes.io/arch'', ''Architecture''), (''kubernetes.io/hostname'', ''Node'')] t) t"

definition kubernetesApplicationIngressEmptyHostname :: "string \<Rightarrow> string" where
  "kubernetesApplicationIngressEmptyHostname v = (if v = [] then ''<use IP>'' else v)"

definition kubernetesEventTypeColor :: "string \<Rightarrow> string" where
  "kubernetesEventTypeColor t =
     (if to_lower t = ''normal'' then ''info'' else if to_lower t = ''warning'' then ''warning'' else ''danger'')"

definition kubernetesUsageLevelInfo :: "rat \<Rightarrow> string" where
  "kubernetesUsageLevelInfo usage =
     (if usage \<ge> 80 then ''danger'' else if usage > 50 \<and> usage < 80 then ''warning'' else ''success'')"

text \<open>Every type of service that the API names has a text and an icon of its own.\<close>

lemma service_texts:
  "kubernetesApplicationServiceTypeText ''LoadBalancer'' = Some ''Load balancer''"
  "kubernetesApplicationServiceTypeText ''ClusterIP'' = Some ''Internal''"
  "kubernetesApplicationServiceTypeText ''NodePort'' = Some ''Cluster''"
  by code_simp+

lemma service_icons:
  "kubernetesApplicationServiceTypeIcon ''LoadBalancer'' = Some ''fa-project-diagram''"
  "kubernetesApplicationServiceTypeIcon ''ClusterIP'' = Some ''fa-list-alt''"
  "kubernetesApplicationServiceTypeIcon ''NodePort'' = Some ''fa-list''"
  by code_simp+

lemma service_types_shown:
  assumes "t \<in> {LOAD_BALANCER, NODE_PORT, CLUSTER_IP}" and "u \<in> {LOAD_BALANCER, NODE_PORT, CLUSTER_IP}"
  shows "kubernetesApplicationServiceTypeText (service_type_name t) = kubernetesApplicationServiceTypeText (service_type_name u) \<longleftrightarrow> t = u"
    "kubernetesApplicationServiceTypeIcon (service_type_name t) = kubernetesApplicationServiceTypeIcon (service_type_name u) \<longleftrightarrow> t = u"
    "kubernetesApplicationPortsTableHeaderText t = kubernetesApplicationPortsTableHeaderText u \<longleftrightarrow> t = u"
  using assms by (auto simp: service_texts service_icons)

end
