(* ===== verification/Spec2Isabelle.thy ===== *)
theory Spec2Isabelle
  imports ContainerReplacement ServiceHelper DockerEvents PortainerFilters KubeConfigs DockerConfigs KubeAppService
    ServiceEditing ServiceSaving Session GitlabRegistry KubeNodePage KubePoolPage ContainerPage StackPages
    KubeAppPage Accesses KubeClusterPage DockerForms KubeConfigPage TemplatePages EndpointPages KubeAppReading
    TeamPages ImagePages RegistryPages KubeFilters
begin

text \<open>
  A verification library for the Portainer user interface, the program in JavaScript under \<open>src/app\<close>.

  \<^bold>\<open>The program.\<close> Portainer is a page in the browser from which Docker engines, swarms and Kubernetes clusters are
  managed. Its own logic is in five layers: models and converters that turn what an engine answers into what a page
  shows and back; helpers that read and write the small languages in between (ports, constraints, durations, variables,
  names of images); controllers that keep the form of a page, check it and decide what is sent; services that send a
  group of requests in an order and react to refusals; and the session, that is what the browser keeps between pages.
  The pages are drawn by AngularJS, requests go through its resource package, and the engine is on the other side.
  This library models the five layers for the resources that carry most logic: containers, Swarm services, applications,
  nodes and namespaces of Kubernetes, access control, and the session.

  \<^bold>\<open>The language.\<close>
  \<^item> \<open>JsPrelude\<close>: missing values, thrown errors (\<open>js_result\<close>, an error on the left), numbers with NaN, and the lodash
    functions on lists. \<open>JsString\<close>: the operations on strings, and numbers as text. \<open>JsObject\<close>: objects as dictionaries in
    the order in which JavaScript enumerates them; the laws of reading and writing are the locale \<open>property_store\<close>, which
    \<open>BrowserStorage\<close> interprets for the store of the browser. \<open>JsRegex\<close>: the regular expressions of the source, with an
    executable test by derivatives proved against their language. \<open>Base64\<close>: the two coders of the browser.

  \<^bold>\<open>Docker.\<close>
  \<^item> \<open>Placement\<close> (\<open>docker/helpers/constraintsHelper.js\<close>), \<open>DockerFilters\<close> (\<open>docker/filters\<close>, with 32-bit words for the
    bitwise operators), \<open>DockerHelpers\<close> (the small helpers), \<open>DockerModels\<close> (\<open>docker/models\<close>), \<open>DockerEvents\<close>,
    \<open>LogViewer\<close> (\<open>docker/helpers/logHelper.js\<close>), \<open>DockerConfigs\<close> (configs and secrets of a swarm).
  \<^item> \<open>ContainerPorts\<close> (\<open>docker/helpers/containerHelper.js\<close>) and \<open>ContainerForm\<close>, \<open>ContainerCreation\<close>,
    \<open>ContainerReplacement\<close> (\<open>docker/views/containers/create/createContainerController.js\<close>): the form of a container, the
    request that is made of it and the filling from an existing container; then the submission as a program over an engine
    that may refuse anything. \<open>ContainerPage\<close> (\<open>docker/views/containers/edit/containerController.js\<close>) is the page of one
    container with its recreation. The rules for reasoning about such a program are the locales \<open>log_invariant\<close>,
    \<open>request_invariant\<close> and \<open>recreation_invariant\<close>, interpreted for each invariant that is shown.
  \<^item> \<open>ServiceHelper\<close> (\<open>docker/helpers/serviceHelper.js\<close>), \<open>ServiceForm\<close> (the creation of a service), \<open>ServicePage\<close>
    (\<open>docker/views/services/edit/serviceController.js\<close>: two copies of the service, with the sharing that cancelling
    creates made explicit), \<open>ServiceEditing\<close> (what holds along every sequence of edits) and \<open>ServiceSaving\<close> (what is sent).
  \<^item> \<open>DockerForms\<close>: the pages that create a volume and a network (\<open>docker/views/volumes/create\<close>, \<open>docker/views/networks/create\<close>).
    \<open>ImagePages\<close>: the service of images and their pages (\<open>docker/services/imageService.js\<close>, \<open>docker/views/images\<close>).

  \<^bold>\<open>Kubernetes.\<close>
  \<^item> \<open>KubeConfigs\<close> (config maps, secrets and configurations), \<open>KubePorts\<close> (services and published ports), \<open>KubeIngress\<close>
    (ingresses and the rules of an application in them), \<open>KubeConfigUse\<close> (variables and configurations of an application),
    \<open>KubeWorkload\<close> (placements, volumes and the kind of an application), \<open>KubeAppForm\<close> (the page of an application with
    its checks for duplicates), \<open>KubeConverters\<close> (deployments, daemon sets, stateful sets), \<open>KubeAppService\<close>
    (\<open>kubernetes/services/applicationService.js\<close> and the summary that the page shows before the requests are sent).
  \<^item> \<open>KubeStages\<close>: requests that are sent in stages, as \<open>Promise.all\<close> and \<open>await\<close> make them. A stage is sent as a whole;
    the next is sent only when all calls of the stage were accepted. The server is a function from what was sent before
    and the request to whether it is accepted, so every theorem holds for every server.
  \<^item> \<open>KubeNode\<close> and \<open>KubeNodePage\<close> (\<open>kubernetes/node\<close>, \<open>kubernetes/views/cluster/node/nodeController.js\<close>): nodes, their rows
    of labels and taints, the patch and the draining. \<open>KubeResourcePool\<close> and \<open>KubePoolPage\<close>
    (\<open>kubernetes/converters/resourceQuota.js\<close>, \<open>namespace.js\<close>, \<open>resourcePool.js\<close>, \<open>services/resourcePoolService.js\<close> and the
    controllers under \<open>views/resource-pools\<close>): namespaces with quotas, ingresses and registries.
  \<^item> \<open>KubeHistory\<close> (the revisions of an application and the rollback, \<open>kubernetes/rollback\<close> and \<open>history\<close>), \<open>KubeAppPage\<close>
    (\<open>kubernetes/views/applications/edit/applicationController.js\<close>: on which nodes an application can run),
    \<open>KubeClusterPage\<close> (\<open>kubernetes/views/configure/configureController.js\<close>: ingress classes, storage classes and metrics),
    \<open>KubeConfigPage\<close> (the pages that create and edit a configuration, \<open>kubernetes/views/configurations\<close>),
    \<open>KubeAppReading\<close> (\<open>kubernetes/converters/application.js\<close>: what the API answers for a workload, and the form it gives).
    \<open>KubeFilters\<close> (\<open>kubernetes/filters\<close>: the texts and icons of types).

  \<^bold>\<open>Portainer.\<close>
  \<^item> \<open>EnvVars\<close> (\<open>portainer/helpers/env-vars.js\<close>), \<open>AppTemplates\<close> (\<open>portainer/models/template.js\<close> and its helper),
    \<open>ResourceControl\<close> (access control with its forms and requests, and the handler of the server that stores them,
    \<open>api/http/handler/resourcecontrols/resourcecontrol_update.go\<close>), \<open>PortainerFilters\<close>.
  \<^item> \<open>BrowserStorage\<close> (\<open>portainer/services/localStorage.js\<close>, the services that write through it, and the headers of the
    agent), \<open>Session\<close> (authentication, endpoint, state of the application, login and logout), \<open>GitlabRegistry\<close> (lists that
    are answered in pages).
  \<^item> \<open>DataTables\<close> (the selection of rows and the settings of the tables; what a table lets be selected is the locale
    \<open>protected_table\<close>, interpreted for every kind of table), \<open>Stacks\<close> and \<open>StackPages\<close> (the service of stacks and the pages
    that create, list and edit them), \<open>Accesses\<close> (who may use an endpoint, a group, a registry or a namespace),
    \<open>TemplatePages\<close> (\<open>portainer/views/templates\<close> and \<open>custom-templates\<close>, with files that are answered late),
    \<open>EndpointPages\<close> (\<open>portainer/views/endpoints\<close>: the form of an endpoint, its requests, the commands of the edge agent),
    \<open>TeamPages\<close> (users, teams and memberships: \<open>portainer/views/users\<close>, \<open>views/teams\<close> and their services),
    \<open>RegistryPages\<close> (\<open>portainer/views/registries\<close> and the requests of \<open>registryService.js\<close>).

  \<^bold>\<open>How the parts interact.\<close> A form that is opened is made of models (\<open>DockerModels\<close>, \<open>KubeNode\<close>); its controller edits
  the rows, the helpers translate single fields, and the result is a request: in one record for Docker, in several stages
  for Kubernetes. The theorems follow the same way: round trips say that a form that is opened and saved changes nothing,
  or exactly when it does; invariants say what holds of a page however it is edited; the theorems on sequences of requests
  say what has been sent, created or lost when some request is refused.

  \<^bold>\<open>What is shown.\<close> Round trips of ports, variables, durations, ingresses, configurations of an
  application, services, nodes, namespaces, endpoints, and of a deployment from its form through the API and back.
  Safety of sequences of requests: a container is removed only after its successor was created and a failure gives the
  name back, also when its page creates it again; a stack moves to another swarm only; a cluster is configured in
  order; an application is created after everything it needs; a namespace is created before its parts and registries
  follow last; draining asks every pod, unless the patch that pauses the node is refused when it is sent again. Invariants of pages: rows of a valid form differ, changed sections of a
  service are marked, host names of a namespace differ, the selection of a table is what is checked, excluded
  addresses are marked. Refinements: the constraints helper against the scheduler, ownership of forms against the
  store of access control, the storage service against one slot for each key, the accesses of registries against the
  form, the nodes an application is shown to fit on against the rules of the scheduler, the list of stacks, the page
  of a team against the memberships of the server. Equivalences: the summary of an application against the requests,
  the command that is copied against the one that is shown, with the words in which they differ. Termination and completeness of lists in pages. Several
  theorems state a defect exactly: when the loss happens and when it does not.

  \<^bold>\<open>Parameters.\<close> Code outside of the repository is an argument of the definitions that use it: what the engine or the
  server answers, the package that splits command lines, the readers of JSON and YAML, the package that reads sizes, the
  one that compares documents for a patch, the storage package (with its laws as the hypothesis \<open>storage_laws\<close>), the one
  that reads tokens, and random identifiers. A theorem on them holds for every such argument, or names what it needs.

  \<^bold>\<open>Conventions.\<close>
  \<^item> Strings are lists of 8-bit characters; \<open>KubeConfigs\<close> and \<open>Base64\<close> count in code points where an encoding is involved.
  \<^item> Numbers are integers or naturals where the code keeps whole numbers, 32-bit words where it shifts, and rationals for
    amounts of processors and memory, with \<open>None\<close> for NaN. The rounding of floating point numbers is not modelled.
  \<^item> \<open>undefined\<close> and \<open>null\<close> are \<open>None\<close> where the code does not tell them apart. An access to a field of a missing object is
    an error value, as is a row that does not exist.
  \<^item> A page is a record of the fields that its code reads; a button is a function from the page to the page, and what can
    be reached is an inductive relation over these functions. Where arrays are shared by two objects, the sharing is a
    field of the state.
  \<^item> The recursion over the pages of GitLab is a \<open>partial_function\<close>, since it may run forever; that it ends when the numbers
    of the pages rise up to a bound is a theorem, and that it does not end when the pages name each other without an end is one too. All
    other recursion is structural or on a measure.

  \<^bold>\<open>Not modelled.\<close> The templates of the pages, routes and the registration of modules; the REST
  resources, which are addresses; notifications, dialogs, charts and uploads, except for what a dialog that is refused
  prevents; sockets of consoles; the pages that only list or show resources; the features of edge computing, Azure and
  Storidge; the pages of settings and groups; and the parts of a modelled component that its entry in the manifest
  names as left out. Two requests that are under way at the same time are taken in the order of their list: the
  answers of the server decide on success, not on the order of arrival. Where the order matters to what a page sends or
  forgets, it is part of the model: the files of templates (\<open>TemplatePages\<close>) and the deployments of the page of a stack,
  whose answers are taken at any later time (\<open>StackPages\<close>).
\<close>

end
